(* ===== verification/Go_Prelude.thy ===== *)
theory Go_Prelude
  imports Main "HOL-Library.AList" "HOL-Library.Sublist" "HOL-Library.Multiset"
begin

text \<open>
  The shared vocabulary of the development: what the Go sources use of the language and of its
  standard library. It holds the string functions of package \<^verbatim>\<open>strings\<close>, decimal printing
  (\<^verbatim>\<open>strconv.Itoa\<close>, \<^verbatim>\<open>%d\<close>), 32- and 64-bit signed arithmetic, the field paths and errors of
  the admission webhooks, maps kept in insertion order, and the two loop shapes the webhooks are
  written in. The generic lemmas on them are collected in \<open>go_string\<close> and \<open>go_loop\<close>.

  Strings are lists of ASCII characters: on that domain \<^verbatim>\<open>TrimSpace\<close>, \<^verbatim>\<open>ToUpper\<close>, \<^verbatim>\<open>ToLower\<close>
  and \<^verbatim>\<open>EqualFold\<close> are the byte-wise functions below. (Kubernetes object names are ASCII.)
  A nil slice or map is identified with an empty one, and a pointer is an option.
\<close>

named_theorems go_string
named_theorems go_loop


section \<open>Strings\<close>

definition is_space :: "char \<Rightarrow> bool" where
  "is_space c \<longleftrightarrow> (let n = (of_char c :: nat) in n = 32 \<or> (9 \<le> n \<and> n \<le> 13))"

definition upper_char :: "char \<Rightarrow> char" where
  "upper_char c = (let n = (of_char c :: nat) in if 97 \<le> n \<and> n \<le> 122 then char_of (n - 32) else c)"

definition lower_char :: "char \<Rightarrow> char" where
  "lower_char c = (let n = (of_char c :: nat) in if 65 \<le> n \<and> n \<le> 90 then char_of (n + 32) else c)"

definition TrimLeft :: "string \<Rightarrow> string" where
  "TrimLeft s = dropWhile is_space s"

definition TrimSpace :: "string \<Rightarrow> string" where
  "TrimSpace s = rev (TrimLeft (rev (TrimLeft s)))"

definition ToUpper :: "string \<Rightarrow> string" where
  "ToUpper s = map upper_char s"

definition ToLower :: "string \<Rightarrow> string" where
  "ToLower s = map lower_char s"

definition EqualFold :: "string \<Rightarrow> string \<Rightarrow> bool" where
  "EqualFold s t \<longleftrightarrow> ToLower s = ToLower t"

definition HasPrefix :: "string \<Rightarrow> string \<Rightarrow> bool" where
  "HasPrefix s p \<longleftrightarrow> take (length p) s = p"

definition HasSuffix :: "string \<Rightarrow> string \<Rightarrow> bool" where
  "HasSuffix s t \<longleftrightarrow> HasPrefix (rev s) (rev t)"

text \<open>\<^verbatim>\<open>strings.ContainsAny\<close>: some character of the set occurs.\<close>

definition ContainsAny :: "string \<Rightarrow> string \<Rightarrow> bool" where
  "ContainsAny s cs \<longleftrightarrow> list_ex (\<lambda>c. c \<in> set cs) s"

text \<open>The comparison \<^verbatim>\<open>strings.TrimSpace(s) == ""\<close> that most guards use.\<close>

abbreviation blank :: "string \<Rightarrow> bool" where
  "blank s \<equiv> TrimSpace s = []"

lemmas go_string_defs = TrimSpace_def TrimLeft_def ToUpper_def ToLower_def EqualFold_def HasPrefix_def
  ContainsAny_def is_space_def upper_char_def lower_char_def

lemma upper_char_cases:
  "upper_char c = c \<or> (97 \<le> (of_char c :: nat) \<and> (of_char c :: nat) \<le> 122 \<and>
     (of_char (upper_char c) :: nat) = of_char c - 32)"
  by (auto simp: upper_char_def Let_def)

lemma lower_char_cases:
  "lower_char c = c \<or> (65 \<le> (of_char c :: nat) \<and> (of_char c :: nat) \<le> 90 \<and>
     (of_char (lower_char c) :: nat) = of_char c + 32)"
  by (auto simp: lower_char_def Let_def)

lemma is_space_upper_char [simp]: "is_space (upper_char c) = is_space c"
  using upper_char_cases [of c] by (auto simp: is_space_def Let_def)

lemma is_space_lower_char [simp]: "is_space (lower_char c) = is_space c"
  using lower_char_cases [of c] by (auto simp: is_space_def Let_def)

lemma upper_char_idem [simp]: "upper_char (upper_char c) = upper_char c"
  using upper_char_cases [of c] by (auto simp: upper_char_def Let_def)

lemma lower_char_idem [simp]: "lower_char (lower_char c) = lower_char c"
  using lower_char_cases [of c] by (auto simp: lower_char_def Let_def)

lemma upper_lower_char [simp]: "upper_char (lower_char c) = upper_char c"
  by (auto simp: upper_char_def lower_char_def Let_def)

lemma lower_upper_char [simp]: "lower_char (upper_char c) = lower_char c"
  by (auto simp: upper_char_def lower_char_def Let_def)

lemma TrimLeft_Nil [simp]: "TrimLeft [] = []"
  by (simp add: TrimLeft_def)

lemma TrimLeft_idem [simp]: "TrimLeft (TrimLeft s) = TrimLeft s"
  by (simp add: TrimLeft_def)

lemma TrimLeft_map: "(\<And>c. is_space (f c) = is_space c) \<Longrightarrow> TrimLeft (map f s) = map f (TrimLeft s)"
  by (simp add: TrimLeft_def dropWhile_map comp_def)

lemma TrimLeft_snoc: "\<not> is_space c \<Longrightarrow> TrimLeft (s @ [c]) = TrimLeft s @ [c]"
  by (induction s) (simp_all add: TrimLeft_def)

lemma TrimLeft_rev_TrimLeft:
  "TrimLeft (rev (TrimLeft (rev (TrimLeft s)))) = rev (TrimLeft (rev (TrimLeft s)))"
proof (cases "TrimLeft s")
  case Nil
  then show ?thesis by simp
next
  case (Cons c cs)
  then have c: "\<not> is_space c" by (auto simp: TrimLeft_def dropWhile_eq_Cons_conv)
  with Cons have "TrimLeft (rev (TrimLeft s)) = TrimLeft (rev cs) @ [c]"
    by (simp add: TrimLeft_snoc)
  then show ?thesis using c by (simp add: TrimLeft_def)
qed

lemma TrimSpace_idem [simp, go_string]: "TrimSpace (TrimSpace s) = TrimSpace s"
  by (simp add: TrimSpace_def TrimLeft_rev_TrimLeft)

lemma TrimSpace_Nil [simp, go_string]: "TrimSpace [] = []"
  by (simp add: TrimSpace_def TrimLeft_def)

lemma TrimSpace_map:
  "(\<And>c. is_space (f c) = is_space c) \<Longrightarrow> TrimSpace (map f s) = map f (TrimSpace s)"
  by (simp add: TrimSpace_def TrimLeft_map rev_map)

lemma TrimSpace_ToUpper [go_string]: "TrimSpace (ToUpper s) = ToUpper (TrimSpace s)"
  by (simp add: ToUpper_def TrimSpace_map)

lemma TrimSpace_ToLower [go_string]: "TrimSpace (ToLower s) = ToLower (TrimSpace s)"
  by (simp add: ToLower_def TrimSpace_map)

lemma ToUpper_idem [simp, go_string]: "ToUpper (ToUpper s) = ToUpper s"
  by (simp add: ToUpper_def)

lemma ToLower_idem [simp, go_string]: "ToLower (ToLower s) = ToLower s"
  by (simp add: ToLower_def)

lemma ToUpper_ToLower [simp, go_string]: "ToUpper (ToLower s) = ToUpper s"
  by (simp add: ToUpper_def ToLower_def)

lemma ToLower_ToUpper [simp, go_string]: "ToLower (ToUpper s) = ToLower s"
  by (simp add: ToUpper_def ToLower_def)

lemma ToUpper_Nil_iff [simp]: "ToUpper s = [] \<longleftrightarrow> s = []"
  by (simp add: ToUpper_def)

lemma ToLower_Nil_iff [simp]: "ToLower s = [] \<longleftrightarrow> s = []"
  by (simp add: ToLower_def)

lemma case_map_Nil [simp]: "ToUpper [] = []" "ToLower [] = []"
  by (simp_all add: ToUpper_def ToLower_def)

text \<open>Evaluation of the string functions on literals.\<close>

lemma eq_char_of_iff: "c = char_of n \<longleftrightarrow> of_char c = take_bit 8 (n :: nat)"
  by (metis char_of_eq_iff)

lemmas go_eval = go_string_defs char_of_eq_iff eq_char_of_iff

lemma EqualFold_ToUpper: "EqualFold s t \<longleftrightarrow> ToUpper s = ToUpper t"
  by (metis EqualFold_def ToLower_ToUpper ToUpper_ToLower)

lemma EqualFold_refl [simp]: "EqualFold s s"
  by (simp add: EqualFold_def)

lemma blank_iff_spaces: "blank s \<longleftrightarrow> (\<forall>c \<in> set s. is_space c)"
proof -
  have "TrimLeft s = [] \<longleftrightarrow> (\<forall>c \<in> set s. is_space c)" for s by (simp add: TrimLeft_def)
  moreover have "set (TrimLeft s) \<subseteq> set s" by (auto simp: TrimLeft_def dest: set_dropWhileD)
  ultimately show ?thesis
    unfolding TrimSpace_def by (metis (no_types, lifting) TrimLeft_idem rev_is_Nil_conv set_rev TrimLeft_Nil subsetD)
qed

text \<open>A string without spaces at either end is its own trimmed form.\<close>

lemma TrimSpace_id:
  assumes "s \<noteq> [] \<Longrightarrow> \<not> is_space (hd s)" and "s \<noteq> [] \<Longrightarrow> \<not> is_space (last s)"
  shows "TrimSpace s = s"
proof (cases s)
  case Nil
  then show ?thesis by simp
next
  case (Cons c cs)
  then have l: "TrimLeft s = s" using assms(1) by (simp add: TrimLeft_def)
  obtain ds d where s: "s = ds @ [d]" using Cons by (metis rev_exhaust list.distinct(1))
  moreover have "\<not> is_space d" using assms(2) s by simp
  ultimately have "TrimLeft (rev s) = rev s" by (simp add: TrimLeft_def)
  then show ?thesis using l by (simp add: TrimSpace_def)
qed


section \<open>Decimal printing\<close>

definition digit :: "nat \<Rightarrow> char" where
  "digit d = char_of (48 + d)"

definition is_digit :: "char \<Rightarrow> bool" where
  "is_digit c \<longleftrightarrow> (let n = (of_char c :: nat) in 48 \<le> n \<and> n \<le> 57)"

definition digit_val :: "char \<Rightarrow> nat" where
  "digit_val c = (of_char c :: nat) - 48"

fun itoa_nat :: "nat \<Rightarrow> string" where
  "itoa_nat n = (if n < 10 then [digit n] else itoa_nat (n div 10) @ [digit (n mod 10)])"

declare itoa_nat.simps [simp del]

definition itoa :: "int \<Rightarrow> string" where
  "itoa i = (if i < 0 then CHR ''-'' # itoa_nat (nat (- i)) else itoa_nat (nat i))"

lemma is_digit_digit [simp]: "d < 10 \<Longrightarrow> is_digit (digit d)"
  by (simp add: is_digit_def digit_def Let_def)

lemma digit_val_digit [simp]: "d < 10 \<Longrightarrow> digit_val (digit d) = d"
  by (simp add: digit_val_def digit_def)

lemma digit_not_space: "is_digit c \<Longrightarrow> \<not> is_space c"
  by (auto simp: is_digit_def is_space_def Let_def)

lemma itoa_nat_digits: "list_all is_digit (itoa_nat n)"
proof (induction n rule: itoa_nat.induct)
  case (1 n)
  then show ?case by (subst itoa_nat.simps) (auto simp: list_all_iff)
qed

lemma itoa_nat_nonempty [simp]: "itoa_nat n \<noteq> []"
  by (subst itoa_nat.simps) simp

text \<open>The number a digit string denotes, and that printing and reading are inverse.\<close>

definition atoi :: "string \<Rightarrow> nat" where
  "atoi s = foldl (\<lambda>n c. 10 * n + digit_val c) 0 s"

lemma atoi_snoc [simp]: "atoi (s @ [c]) = 10 * atoi s + digit_val c"
  by (simp add: atoi_def)

lemma atoi_Nil [simp]: "atoi [] = 0"
  by (simp add: atoi_def)

lemma atoi_itoa_nat [simp]: "atoi (itoa_nat n) = n"
proof (induction n rule: itoa_nat.induct)
  case (1 n)
  show ?case
  proof (cases "n < 10")
    case True
    then show ?thesis by (subst itoa_nat.simps) (simp add: atoi_def)
  next
    case False
    with 1 show ?thesis by (subst itoa_nat.simps) simp
  qed
qed

lemma not_blank_itoa: "\<not> blank (p @ itoa_nat n)"
proof -
  have "hd (itoa_nat n) \<in> set (itoa_nat n)" by simp
  moreover have "\<not> is_space (hd (itoa_nat n))"
    using itoa_nat_digits [of n] digit_not_space by (simp add: list_all_iff)
  ultimately show ?thesis by (auto simp: blank_iff_spaces)
qed

lemma itoa_nat_inj: "itoa_nat m = itoa_nat n \<longleftrightarrow> m = n"
  by (metis atoi_itoa_nat)


section \<open>Prefixes, positions and parts of strings\<close>

text \<open>\<^verbatim>\<open>strings.TrimPrefix\<close>, \<^verbatim>\<open>strings.Index\<close> and \<^verbatim>\<open>strings.LastIndex\<close> of one byte (-1 is \<open>None\<close>), \<^verbatim>\<open>strconv.Atoi\<close>.\<close>

definition TrimPrefix :: "string \<Rightarrow> string \<Rightarrow> string" where
  "TrimPrefix s p = (if HasPrefix s p then drop (length p) s else s)"

definition IndexByte :: "string \<Rightarrow> char \<Rightarrow> nat option" where
  "IndexByte s c = (if c \<in> set s then Some (length (takeWhile (\<lambda>x. x \<noteq> c) s)) else None)"

definition LastIndexByte :: "string \<Rightarrow> char \<Rightarrow> nat option" where
  "LastIndexByte s c = (if c \<in> set s then Some (length s - Suc (length (takeWhile (\<lambda>x. x \<noteq> c) (rev s)))) else None)"

definition Atoi :: "string \<Rightarrow> int option" where
  "Atoi s =
     (let neg = (s \<noteq> [] \<and> hd s = CHR ''-''); ds = (if s \<noteq> [] \<and> (hd s = CHR ''-'' \<or> hd s = CHR ''+'') then tl s else s);
          v = (if neg then - int (atoi ds) else int (atoi ds)) in
      if ds = [] \<or> \<not> list_all is_digit ds \<or> v < - (2 ^ 63) \<or> v \<ge> 2 ^ 63 then None else Some v)"

text \<open>\<^verbatim>\<open>strings.Join\<close>.\<close>

fun Join :: "string list \<Rightarrow> string \<Rightarrow> string" where
  "Join [] sep = []"
| "Join [x] sep = x"
| "Join (x # y # xs) sep = x @ sep @ Join (y # xs) sep"

text \<open>\<^verbatim>\<open>strings.Split\<close> and \<^verbatim>\<open>strings.SplitN(s, sep, 2)\<close> with a separator of one character.\<close>

fun Split :: "string \<Rightarrow> char \<Rightarrow> string list" where
  "Split [] sep = [[]]"
| "Split (c # cs) sep =
     (if c = sep then [] # Split cs sep
      else (case Split cs sep of [] \<Rightarrow> [[c]] | p # ps \<Rightarrow> (c # p) # ps))"

definition SplitN2 :: "string \<Rightarrow> char \<Rightarrow> string list" where
  "SplitN2 s sep =
     (if sep \<in> set s then [takeWhile (\<lambda>c. c \<noteq> sep) s, tl (dropWhile (\<lambda>c. c \<noteq> sep) s)] else [s])"

lemma Split_nonempty [simp]: "Split s sep \<noteq> []"
  by (induction s) (auto split: list.splits)

lemma Split_append: "Split (s @ sep # t) sep = Split s sep @ Split t sep"
proof (induction s)
  case (Cons c s)
  then show ?case by (cases "Split s sep") (auto simp: Split_nonempty)
qed simp

lemma Split_single: "sep \<notin> set s \<Longrightarrow> Split s sep = [s]"
  by (induction s) auto

lemma Split_hd: "hd (Split s sep) = takeWhile (\<lambda>c. c \<noteq> sep) s"
proof (induction s)
  case (Cons c s)
  then show ?case by (cases "Split s sep") (auto simp: Split_nonempty)
qed simp

lemma Split_ends:
  "hd (Split s sep) \<noteq> [] \<Longrightarrow> hd s = hd (hd (Split s sep))"
  "last (Split s sep) \<noteq> [] \<Longrightarrow> last s = last (last (Split s sep))"
proof -
  show "hd (Split s sep) \<noteq> [] \<Longrightarrow> hd s = hd (hd (Split s sep))"
    by (cases s) (auto split: list.splits if_splits)
  show "last (Split s sep) \<noteq> [] \<Longrightarrow> last s = last (last (Split s sep))"
  proof (induction s)
    case (Cons c s)
    then show ?case by (cases s) (auto split: if_splits list.splits)
  qed simp
qed

lemma TrimSpace_ends:
  assumes "TrimSpace s = s" and "s \<noteq> []"
  shows "\<not> is_space (hd s)" "\<not> is_space (last s)"
proof -
  let ?r = "rev (TrimLeft s)"
  have r: "rev s = dropWhile is_space ?r" using assms(1) unfolding TrimSpace_def TrimLeft_def by (metis rev_rev_ident)
  then have "\<not> is_space (hd (rev s))" using assms(2) hd_dropWhile [of is_space ?r] by (metis rev_is_Nil_conv)
  then show "\<not> is_space (last s)" using assms(2) by (simp add: hd_rev)
  have "length s \<le> length (TrimLeft s)" using r length_dropWhile_le [of is_space ?r] by (metis length_rev)
  moreover have "TrimLeft s = s \<or> length (TrimLeft s) < length s"
    by (cases s) (auto simp: TrimLeft_def le_imp_less_Suc length_dropWhile_le)
  ultimately have "dropWhile is_space s = s" by (simp add: TrimLeft_def)
  then show "\<not> is_space (hd s)" using assms(2) hd_dropWhile [of is_space s] by metis
qed

lemma Split_parts: "p \<in> set (Split s sep) \<Longrightarrow> sep \<notin> set p \<and> set p \<subseteq> set s"
proof (induction s arbitrary: p)
  case (Cons c s)
  then show ?case by (cases "Split s sep") (fastforce split: if_splits)+
qed simp

text \<open>Where a character is found, and numbers read back.\<close>

lemma TrimSpace_itoa:
  assumes "TrimSpace p = p"
  shows "TrimSpace (p @ itoa_nat k) = p @ itoa_nat k"
proof (rule TrimSpace_id)
  have d: "\<not> is_space c" if "c \<in> set (itoa_nat k)" for c
    using itoa_nat_digits [of k] digit_not_space that by (auto simp: list_all_iff)
  show "\<not> is_space (last (p @ itoa_nat k))" using d [OF last_in_set] by simp
  show "\<not> is_space (hd (p @ itoa_nat k))"
  proof (cases "p = []")
    case True
    then show ?thesis using d [OF hd_in_set] by simp
  next
    case False
    have "TrimLeft p = p"
      using assms unfolding TrimSpace_def by (metis TrimLeft_rev_TrimLeft TrimSpace_def)
    then have "\<not> is_space (hd p)" using False by (metis TrimLeft_def dropWhile_eq_self_iff)
    then show ?thesis using False by simp
  qed
qed

lemma takeWhile_other: "c \<notin> set h \<Longrightarrow> takeWhile (\<lambda>x. x \<noteq> c) h = h"
  by (auto simp: takeWhile_eq_all_conv)

lemma IndexByte_first: "c \<notin> set h \<Longrightarrow> IndexByte (h @ c # rest) c = Some (length h)"
  by (simp add: IndexByte_def takeWhile_tail takeWhile_other)

lemma LastIndexByte_last: "c \<notin> set ds \<Longrightarrow> LastIndexByte (h @ c # ds) c = Some (length h)"
  by (simp add: LastIndexByte_def takeWhile_append2 takeWhile_tail takeWhile_other)

lemma digit_char: "is_digit c \<Longrightarrow> c \<noteq> CHR '':'' \<and> c \<noteq> CHR ''/'' \<and> c \<noteq> CHR ''-'' \<and> c \<noteq> CHR ''+''"
  by (auto simp: is_digit_def Let_def)

lemma itoa_nat_chars: "CHR '':'' \<notin> set (itoa_nat n)" "CHR ''/'' \<notin> set (itoa_nat n)"
  using itoa_nat_digits [of n] digit_char by (auto simp: list_all_iff)

lemma Atoi_itoa: "int n < 2 ^ 63 \<Longrightarrow> Atoi (itoa_nat n) = Some (int n)"
proof -
  assume n: "int n < 2 ^ 63"
  have "is_digit (hd (itoa_nat n))" using itoa_nat_digits [of n] by (simp add: list_all_iff)
  then have "hd (itoa_nat n) \<noteq> CHR ''-''" "hd (itoa_nat n) \<noteq> CHR ''+''" using digit_char by blast+
  then show ?thesis using n itoa_nat_digits [of n] by (simp add: Atoi_def Let_def)
qed


section \<open>Signed machine integers\<close>

text \<open>
  Values of \<^verbatim>\<open>int32\<close> and \<^verbatim>\<open>int64\<close> are integers; every addition and multiplication of the
  source wraps into the range of its type.
\<close>

definition wrap32 :: "int \<Rightarrow> int" where
  "wrap32 x = (x + 2 ^ 31) mod 2 ^ 32 - 2 ^ 31"

definition wrap64 :: "int \<Rightarrow> int" where
  "wrap64 x = (x + 2 ^ 63) mod 2 ^ 64 - 2 ^ 63"

definition in_int32 :: "int \<Rightarrow> bool" where
  "in_int32 x \<longleftrightarrow> - (2 ^ 31) \<le> x \<and> x < 2 ^ 31"

lemma wrap32_range: "in_int32 (wrap32 x)"
proof -
  have "0 \<le> (x + 2 ^ 31) mod 2 ^ 32" and "(x + 2 ^ 31) mod 2 ^ 32 < 2 ^ 32"
    by (simp_all add: pos_mod_bound)
  then show ?thesis by (simp add: in_int32_def wrap32_def)
qed

lemma wrap32_id: "in_int32 x \<Longrightarrow> wrap32 x = x"
  by (simp add: in_int32_def wrap32_def)

lemma wrap32_small: "0 \<le> x \<Longrightarrow> x < 2 ^ 31 \<Longrightarrow> wrap32 x = x"
  by (simp add: wrap32_def)

lemma wrap64_small: "- (2 ^ 63) \<le> x \<Longrightarrow> x < 2 ^ 63 \<Longrightarrow> wrap64 x = x"
  by (simp add: wrap64_def)


section \<open>Field paths and errors\<close>

text \<open>
  A path is the list of its elements from the root, \<^verbatim>\<open>field.NewPath("spec").Child("shard").Index(i)\<close>
  being \<open>[Child ''spec'', Child ''shard'', Index i]\<close>. An error keeps its kind, its path and the value it
  reports; the text of the message is not modelled.
\<close>

datatype path_elem = Child string | Index nat

type_synonym path = "path_elem list"

datatype bad_value = BVNil | BVString string | BVInt int | BVObject

datatype field_error =
    Required path
  | Invalid path bad_value
  | Forbidden path
  | Duplicate path bad_value
  | NotSupported path bad_value
  | TooMany path int

type_synonym error_list = "field_error list"

text \<open>A guarded error is absent exactly when its guard fails.\<close>

lemma guarded_Nil_iff [simp]:
  "(if P then e # es else []) = [] \<longleftrightarrow> \<not> P"
  "(if P then [] else e # es) = [] \<longleftrightarrow> P"
  "[] = (if P then e # es else []) \<longleftrightarrow> \<not> P"
  by simp_all


section \<open>Maps in insertion order\<close>

text \<open>
  A Go map that the code ranges over is an association list updated in place
  (\<open>AList.update\<close>), a map that is only read and written is a HOL map. Go leaves the order of
  a range over a map open: \<open>range_map_perm\<close> shows that the reported errors are the same for
  every order, up to their order in the list.
\<close>

type_synonym ('k, 'v) gomap = "('k \<times> 'v) list"

definition mget :: "('k, 'v) gomap \<Rightarrow> 'k \<Rightarrow> 'v \<Rightarrow> 'v" where
  "mget m k z = (case map_of m k of None \<Rightarrow> z | Some v \<Rightarrow> v)"

definition mput :: "'k \<Rightarrow> 'v \<Rightarrow> ('k, 'v) gomap \<Rightarrow> ('k, 'v) gomap" where
  "mput k v m = AList.update k v m"

definition range_map :: "('k \<Rightarrow> 'v \<Rightarrow> 'e list) \<Rightarrow> ('k, 'v) gomap \<Rightarrow> 'e list" where
  "range_map f m = concat (map (\<lambda>(k, v). f k v) m)"

lemma map_of_mput [simp]: "map_of (mput k v m) = (map_of m)(k \<mapsto> v)"
  by (simp add: mput_def update_conv')

lemma mput_Nil [simp]: "mput k v [] = [(k, v)]"
  by (simp add: mput_def)

lemma mget_mput: "mget (mput k v m) k' z = (if k' = k then v else mget m k' z)"
  by (simp add: mget_def)

lemma mget_Nil [simp]: "mget [] k z = z"
  by (simp add: mget_def)

lemma distinct_mput [simp]: "distinct (map fst m) \<Longrightarrow> distinct (map fst (mput k v m))"
  by (simp add: mput_def distinct_update)

lemma keys_mput [simp]: "fst ` set (mput k v m) = insert k (fst ` set m)"
  by (metis dom_map_of_conv_image_fst dom_fun_upd map_of_mput option.distinct(1))

lemma range_map_Nil_iff [go_loop]: "range_map f m = [] \<longleftrightarrow> (\<forall>(k, v) \<in> set m. f k v = [])"
  by (auto simp: range_map_def)

lemma range_map_perm:
  assumes "mset m = mset m'"
  shows "mset (range_map f m) = mset (range_map f m')"
proof -
  have "mset (range_map f n) = (\<Sum>x \<in># mset n. mset (case x of (k, v) \<Rightarrow> f k v))" for n
    by (induction n) (auto simp: range_map_def)
  then show ?thesis using assms by simp
qed


section \<open>Loops over slices\<close>

text \<open>
  \<open>range_errs f xs\<close> is \<^verbatim>\<open>for i := range xs { errs = append(errs, f(i, xs[i])...) }\<close>, and
  \<open>range_fold f xs s\<close> the loop whose body updates the state \<open>s\<close> as well.
\<close>

fun range_errs_from :: "nat \<Rightarrow> (nat \<Rightarrow> 'a \<Rightarrow> 'e list) \<Rightarrow> 'a list \<Rightarrow> 'e list" where
  "range_errs_from i f [] = []"
| "range_errs_from i f (x # xs) = f i x @ range_errs_from (Suc i) f xs"

definition range_errs :: "(nat \<Rightarrow> 'a \<Rightarrow> 'e list) \<Rightarrow> 'a list \<Rightarrow> 'e list" where
  "range_errs f xs = range_errs_from 0 f xs"

fun range_fold_from :: "nat \<Rightarrow> (nat \<Rightarrow> 'a \<Rightarrow> 's \<Rightarrow> 's) \<Rightarrow> 'a list \<Rightarrow> 's \<Rightarrow> 's" where
  "range_fold_from i f [] s = s"
| "range_fold_from i f (x # xs) s = range_fold_from (Suc i) f xs (f i x s)"

definition range_fold :: "(nat \<Rightarrow> 'a \<Rightarrow> 's \<Rightarrow> 's) \<Rightarrow> 'a list \<Rightarrow> 's \<Rightarrow> 's" where
  "range_fold f xs s = range_fold_from 0 f xs s"

lemma range_errs_simps [simp]:
  "range_errs f [] = []"
  "range_errs f (x # xs) = f 0 x @ range_errs_from 1 f xs"
  by (simp_all add: range_errs_def)

lemma range_fold_simps [simp]:
  "range_fold f [] s = s"
  "range_fold f (x # xs) s = range_fold_from 1 f xs (f 0 x s)"
  by (simp_all add: range_fold_def)

lemma range_errs_from_Nil_iff:
  "range_errs_from k f xs = [] \<longleftrightarrow> (\<forall>i < length xs. f (k + i) (xs ! i) = [])"
proof (induction xs arbitrary: k)
  case Nil
  then show ?case by simp
next
  case (Cons x xs)
  show ?case by (simp add: Cons all_conj_distrib less_Suc_eq_0_disj) (auto simp: nth_Cons')
qed

lemma range_errs_Nil_iff [go_loop]: "range_errs f xs = [] \<longleftrightarrow> (\<forall>i < length xs. f i (xs ! i) = [])"
  by (simp add: range_errs_def range_errs_from_Nil_iff)

lemma range_fold_from_inv:
  assumes "P s" and "\<And>i x s. P s \<Longrightarrow> x \<in> set xs \<Longrightarrow> P (f i x s)"
  shows "P (range_fold_from k f xs s)"
  using assms by (induction xs arbitrary: k s) simp_all

lemma range_fold_inv:
  assumes "P s" and "\<And>i x s. P s \<Longrightarrow> x \<in> set xs \<Longrightarrow> P (f i x s)"
  shows "P (range_fold f xs s)"
  using range_fold_from_inv [of P, OF assms] by (simp add: range_fold_def)


subsection \<open>Loops that reject a key seen before\<close>

text \<open>
  The body reports \<open>pre i x\<close>, then a duplicate if the key of \<open>x\<close> was registered at an earlier
  index, then \<open>post i x\<close>; a first key is registered. An item whose key is \<open>None\<close> is not registered.
\<close>

fun range_seen_from ::
    "nat \<Rightarrow> ('k \<rightharpoonup> nat) \<Rightarrow> (nat \<Rightarrow> 'a \<Rightarrow> 'e list) \<Rightarrow> ('a \<Rightarrow> 'k option) \<Rightarrow> (nat \<Rightarrow> 'a \<Rightarrow> nat \<Rightarrow> 'e) \<Rightarrow>
     (nat \<Rightarrow> 'a \<Rightarrow> 'e list) \<Rightarrow> 'a list \<Rightarrow> 'e list" where
  "range_seen_from i seen pre key dup post [] = []"
| "range_seen_from i seen pre key dup post (x # xs) =
     pre i x
     @ (case key x of None \<Rightarrow> [] | Some k \<Rightarrow> (case seen k of None \<Rightarrow> [] | Some j \<Rightarrow> [dup i x j]))
     @ post i x
     @ range_seen_from (Suc i)
         (case key x of None \<Rightarrow> seen
          | Some k \<Rightarrow> (case seen k of None \<Rightarrow> seen(k \<mapsto> i) | Some j \<Rightarrow> seen))
         pre key dup post xs"

definition range_seen ::
    "(nat \<Rightarrow> 'a \<Rightarrow> 'e list) \<Rightarrow> ('a \<Rightarrow> 'k option) \<Rightarrow> (nat \<Rightarrow> 'a \<Rightarrow> nat \<Rightarrow> 'e) \<Rightarrow>
     (nat \<Rightarrow> 'a \<Rightarrow> 'e list) \<Rightarrow> 'a list \<Rightarrow> 'e list" where
  "range_seen pre key dup post xs = range_seen_from 0 Map.empty pre key dup post xs"

lemma range_seen_from_Nil_iff:
  "range_seen_from n seen pre key dup post xs = [] \<longleftrightarrow>
     (\<forall>i < length xs. pre (n + i) (xs ! i) = [] \<and> post (n + i) (xs ! i) = []) \<and>
     distinct (List.map_filter key xs) \<and> set (List.map_filter key xs) \<inter> dom seen = {}"
proof (induction xs arbitrary: n seen)
  case Nil
  then show ?case by (simp add: List.map_filter_def)
next
  case (Cons x xs)
  have idx: "(\<forall>i < length (x # xs). pre (n + i) ((x # xs) ! i) = [] \<and> post (n + i) ((x # xs) ! i) = []) \<longleftrightarrow>
      pre n x = [] \<and> post n x = [] \<and>
      (\<forall>i < length xs. pre (Suc n + i) (xs ! i) = [] \<and> post (Suc n + i) (xs ! i) = [])"
    by (auto simp: less_Suc_eq_0_disj)
  show ?case
  proof (cases "key x")
    case None
    then show ?thesis unfolding idx by (auto simp: Cons.IH List.map_filter_simps)
  next
    case (Some k)
    then show ?thesis
      unfolding idx
      by (cases "seen k") (auto simp: Cons.IH List.map_filter_simps disjoint_iff split: if_splits)
  qed
qed

lemma range_seen_Nil_iff [go_loop]:
  "range_seen pre key dup post xs = [] \<longleftrightarrow>
     (\<forall>i < length xs. pre i (xs ! i) = [] \<and> post i (xs ! i) = []) \<and> distinct (List.map_filter key xs)"
  by (simp add: range_seen_def range_seen_from_Nil_iff)

end
