(* ===== verification/Lock_Policy.thy ===== *)
theory Lock_Policy
  imports Go_Prelude
begin

text \<open>
  \<^verbatim>\<open>commons/lockpolicy/lockpolicy.go\<close>: reading the update lock of a resource out of its status
  conditions, and the break-glass annotation that overrides it. \<open>Condition\<close> is
  \<^verbatim>\<open>metav1.Condition\<close>. The locale \<open>update_lock\<close> is the contract a webhook or a
  controller relies on when it guards an operation with the lock.
\<close>

record Condition =
  cond_Type :: string
  cond_Status :: string
  cond_ObservedGeneration :: int
  cond_LastTransitionTime :: int
  cond_Reason :: string
  cond_Message :: string

definition ConditionTrue :: string where
  "ConditionTrue = ''True''"

definition ConditionFalse :: string where
  "ConditionFalse = ''False''"

definition DefaultReconcilingConditionType :: string where
  "DefaultReconcilingConditionType = ''Reconciling''"

definition DefaultUpdateLockReason :: string where
  "DefaultUpdateLockReason = ''UpdateInProgress''"

definition DefaultOverrideAnnotation :: string where
  "DefaultOverrideAnnotation = ''database.oracle.com/lock-override''"

definition overrideAcceptedMessage :: string where
  "overrideAcceptedMessage = ''override accepted via manual lock-override annotation''"

fun FindStatusCondition :: "Condition list \<Rightarrow> string \<Rightarrow> Condition option" where
  "FindStatusCondition [] condType = None"
| "FindStatusCondition (c # conds) condType =
     (if cond_Type c = condType then Some c else FindStatusCondition conds condType)"

definition IsControllerUpdateLocked ::
    "Condition list \<Rightarrow> string \<Rightarrow> string \<Rightarrow> bool \<times> int \<times> string" where
  "IsControllerUpdateLocked conds reconcilingType updateLockReason =
     (case FindStatusCondition conds reconcilingType of
        None \<Rightarrow> (False, 0, [])
      | Some cond \<Rightarrow>
          if cond_Status cond \<noteq> ConditionTrue then (False, 0, [])
          else if TrimSpace (cond_Reason cond) \<noteq> TrimSpace updateLockReason then (False, 0, [])
          else (True, cond_ObservedGeneration cond, cond_Message cond))"

definition IsUpdateLockOverrideEnabled ::
    "(string, string) gomap \<Rightarrow> string \<Rightarrow> bool \<times> string" where
  "IsUpdateLockOverrideEnabled annotations overrideAnnotation =
     (if annotations = [] then (False, [])
      else if \<not> EqualFold (TrimSpace (mget annotations overrideAnnotation [])) ''true'' then (False, [])
      else (True, overrideAcceptedMessage))"

lemma FindStatusCondition_Some_iff:
  "FindStatusCondition conds t = Some c \<longleftrightarrow>
     (\<exists>pre post. conds = pre @ c # post \<and> cond_Type c = t \<and> (\<forall>d \<in> set pre. cond_Type d \<noteq> t))"
proof (induction conds)
  case Nil
  then show ?case by simp
next
  case (Cons d conds)
  have "(\<exists>pre post. d # conds = pre @ c # post \<and> cond_Type c = t \<and> (\<forall>e \<in> set pre. cond_Type e \<noteq> t)) \<longleftrightarrow>
      (d = c \<and> cond_Type c = t) \<or> (cond_Type d \<noteq> t \<and> (\<exists>pre post. conds = pre @ c # post \<and>
         cond_Type c = t \<and> (\<forall>e \<in> set pre. cond_Type e \<noteq> t)))" (is "?L \<longleftrightarrow> ?R")
  proof
    assume ?L
    then show ?R by (fastforce simp: Cons_eq_append_conv)
  next
    assume ?R
    then show ?L by (metis append_Cons append_Nil empty_iff empty_set set_ConsD)
  qed
  then show ?case using Cons.IH by auto
qed

lemma FindStatusCondition_None_iff:
  "FindStatusCondition conds t = None \<longleftrightarrow> (\<forall>c \<in> set conds. cond_Type c \<noteq> t)"
  by (induction conds) auto

text \<open>What a lock guard reads: the lock is the first condition of its type, and nothing else.\<close>

locale update_lock =
  fixes lock :: "Condition list \<Rightarrow> bool \<times> int \<times> string"
    and lockType :: string
    and lockReason :: string
  assumes lock_found: "\<And>conds c. FindStatusCondition conds lockType = Some c \<Longrightarrow>
      lock conds = (if cond_Status c = ConditionTrue \<and> TrimSpace (cond_Reason c) = TrimSpace lockReason
                    then (True, cond_ObservedGeneration c, cond_Message c) else (False, 0, []))"
    and lock_absent: "\<And>conds. FindStatusCondition conds lockType = None \<Longrightarrow> lock conds = (False, 0, [])"
begin

lemma locked_iff:
  "lock conds = (True, g, m) \<longleftrightarrow>
     (\<exists>c. FindStatusCondition conds lockType = Some c \<and> cond_Status c = ConditionTrue \<and>
        TrimSpace (cond_Reason c) = TrimSpace lockReason \<and>
        g = cond_ObservedGeneration c \<and> m = cond_Message c)"
  by (cases "FindStatusCondition conds lockType") (auto simp: lock_found lock_absent)

lemma unlocked_zero: "\<not> fst (lock conds) \<Longrightarrow> lock conds = (False, 0, [])"
  by (cases "FindStatusCondition conds lockType") (auto simp: lock_found lock_absent split: if_splits)

lemma lock_depends:
  "FindStatusCondition conds lockType = FindStatusCondition conds' lockType \<Longrightarrow> lock conds = lock conds'"
  by (cases "FindStatusCondition conds' lockType") (auto simp: lock_found lock_absent)

end

interpretation controller_lock: update_lock
  "\<lambda>conds. IsControllerUpdateLocked conds DefaultReconcilingConditionType DefaultUpdateLockReason"
  DefaultReconcilingConditionType DefaultUpdateLockReason
  by unfold_locales (auto simp: IsControllerUpdateLocked_def)

text \<open>
  the controller lock is held exactly when the first condition of type \<^verbatim>\<open>Reconciling\<close> has
  status \<^verbatim>\<open>True\<close> and the trimmed reason \<^verbatim>\<open>UpdateInProgress\<close>; the reported generation and
  message are those of that condition.
\<close>

theorem controller_lock_held_iff:
  "IsControllerUpdateLocked conds DefaultReconcilingConditionType DefaultUpdateLockReason = (True, g, m) \<longleftrightarrow>
     (\<exists>pre c post. conds = pre @ c # post \<and> (\<forall>d \<in> set pre. cond_Type d \<noteq> ''Reconciling'') \<and>
        cond_Type c = ''Reconciling'' \<and> cond_Status c = ''True'' \<and>
        TrimSpace (cond_Reason c) = ''UpdateInProgress'' \<and>
        g = cond_ObservedGeneration c \<and> m = cond_Message c)"
proof -
  have r: "TrimSpace DefaultUpdateLockReason = ''UpdateInProgress''"
    by (simp add: DefaultUpdateLockReason_def go_string_defs)
  show ?thesis
    unfolding controller_lock.locked_iff FindStatusCondition_Some_iff r
    by (auto simp: DefaultReconcilingConditionType_def ConditionTrue_def)
qed

theorem controller_lock_held_iff_witness:
  "IsControllerUpdateLocked
     [\<lparr>cond_Type = ''Ready'', cond_Status = ''False'', cond_ObservedGeneration = 3, cond_LastTransitionTime = 0,
       cond_Reason = [], cond_Message = []\<rparr>,
      \<lparr>cond_Type = ''Reconciling'', cond_Status = ''True'', cond_ObservedGeneration = 4, cond_LastTransitionTime = 0,
       cond_Reason = ''UpdateInProgress'', cond_Message = ''busy''\<rparr>]
     DefaultReconcilingConditionType DefaultUpdateLockReason = (True, 4, ''busy'')"
  unfolding controller_lock_held_iff
  by (rule exI [of _ "[\<lparr>cond_Type = ''Ready'', cond_Status = ''False'', cond_ObservedGeneration = 3,
        cond_LastTransitionTime = 0, cond_Reason = [], cond_Message = []\<rparr>]"]) (simp add: go_eval)

lemma override_enabled_iff:
  "fst (IsUpdateLockOverrideEnabled anns key) \<longleftrightarrow>
     (\<exists>v. map_of anns key = Some v \<and> ToLower (TrimSpace v) = ''true'')"
proof -
  have "ToLower ''true'' = ''true''" by (simp add: go_string_defs)
  then show ?thesis
    by (auto simp: IsUpdateLockOverrideEnabled_def mget_def EqualFold_def split: option.splits)
qed

end
