(* ===== verification/Shapes.thy ===== *)
theory Shapes
  imports Go_Prelude
begin

text \<open>
  \<^verbatim>\<open>commons/shapes/shape.go\<close>: the table of compute shapes and the environment variables and
  resource requests derived from one. A \<^verbatim>\<open>resource.Quantity\<close> is kept as the literal it is
  parsed from.
\<close>

record ShapeConfig =
  CPU :: int
  SGAGB :: int
  PGAGB :: int
  Processes :: int

record ResourceRequirements =
  rr_Requests :: "(string, string) gomap"
  rr_Limits :: "(string, string) gomap"

definition mkShape :: "int \<Rightarrow> int \<Rightarrow> int \<Rightarrow> int \<Rightarrow> ShapeConfig" where
  "mkShape c s p n = \<lparr>CPU = c, SGAGB = s, PGAGB = p, Processes = n\<rparr>"

definition shapeTable :: "(string, ShapeConfig) gomap" where
  "shapeTable =
    [(''kodb1'', mkShape 1 4 2 200),
     (''kodb2'', mkShape 2 8 4 400),
     (''kodb4'', mkShape 4 16 8 800),
     (''kodb6'', mkShape 6 24 12 1200),
     (''kodb12'', mkShape 12 48 24 2400),
     (''kodb16'', mkShape 16 64 32 3200),
     (''kodb24'', mkShape 24 96 48 4800),
     (''kodb32'', mkShape 32 128 64 6400),
     (''kodb36'', mkShape 36 128 64 7200)]"

definition LookupShapeConfig :: "string \<Rightarrow> ShapeConfig option" where
  "LookupShapeConfig shape = map_of shapeTable (ToLower (TrimSpace shape))"

definition totalMemGi :: "ShapeConfig \<Rightarrow> int" where
  "totalMemGi c = SGAGB c + PGAGB c + 1"

definition sgaMB :: "ShapeConfig \<Rightarrow> int" where
  "sgaMB c = SGAGB c * 1024"

definition pgaMB :: "ShapeConfig \<Rightarrow> int" where
  "pgaMB c = PGAGB c * 1024"

definition totalMB :: "ShapeConfig \<Rightarrow> int" where
  "totalMB c = totalMemGi c * 1024"

definition EnvPairs :: "ShapeConfig \<Rightarrow> (string \<times> string) list" where
  "EnvPairs c =
    [(''INIT_SGA_SIZE'', itoa (sgaMB c)),
     (''INIT_PGA_SIZE'', itoa (pgaMB c)),
     (''INIT_PROCESS'', itoa (Processes c)),
     (''INIT_CPU_COUNT'', itoa (CPU c)),
     (''INIT_TOTAL_SIZE'', itoa (totalMB c))]"

definition shapeResourceRequirements :: "ShapeConfig \<Rightarrow> ResourceRequirements" where
  "shapeResourceRequirements c =
     (let cpuQ = itoa (CPU c); memQ = itoa (totalMemGi c) @ ''Gi''
      in \<lparr>rr_Requests = [(''cpu'', cpuQ), (''memory'', memQ)],
          rr_Limits = [(''cpu'', cpuQ), (''memory'', memQ)]\<rparr>)"

lemma LookupShapeConfig_TrimSpace [simp]: "LookupShapeConfig (TrimSpace s) = LookupShapeConfig s"
  by (simp add: LookupShapeConfig_def)

lemma LookupShapeConfig_ToUpper [simp]: "LookupShapeConfig (ToUpper s) = LookupShapeConfig s"
  by (simp add: LookupShapeConfig_def TrimSpace_ToUpper)

lemma LookupShapeConfig_blank: "blank s \<Longrightarrow> LookupShapeConfig s = None"
  by (simp add: LookupShapeConfig_def shapeTable_def ToLower_def)

lemma shapeTable_range:
  "map_of shapeTable k = Some c \<Longrightarrow> c \<in> snd ` set shapeTable"
  by (drule map_of_SomeD) force

text \<open>
  every shape of the table is sized consistently: the memory requested for the pod covers the SGA
  and the PGA with one spare GiB, in the environment as in the resource requests, the PGA is half
  of the SGA, and requests equal limits.
\<close>

theorem shape_sizing_consistent:
  assumes "LookupShapeConfig s = Some c"
  shows "2 * PGAGB c = SGAGB c \<and> 200 * CPU c = Processes c \<and>
    totalMB c = sgaMB c + pgaMB c + 1024 \<and> 0 < CPU c \<and>
    rr_Requests (shapeResourceRequirements c) = rr_Limits (shapeResourceRequirements c) \<and>
    map_of (EnvPairs c) ''INIT_TOTAL_SIZE'' = Some (itoa (1024 * totalMemGi c))"
proof -
  from assms have "c \<in> snd ` set shapeTable"
    by (auto simp: LookupShapeConfig_def dest: shapeTable_range)
  then have "2 * PGAGB c = SGAGB c \<and> 200 * CPU c = Processes c \<and> 0 < CPU c"
    by (auto simp: shapeTable_def mkShape_def)
  then show ?thesis
    by (simp add: totalMB_def sgaMB_def pgaMB_def totalMemGi_def shapeResourceRequirements_def
        EnvPairs_def Let_def algebra_simps)
qed

theorem shape_sizing_consistent_witness:
  "LookupShapeConfig ''  KODB4 '' = Some (mkShape 4 16 8 800) \<and> totalMB (mkShape 4 16 8 800) = 25600"
proof -
  have h: "LookupShapeConfig ''  KODB4 '' = Some (mkShape 4 16 8 800)"
    by (simp add: LookupShapeConfig_def shapeTable_def go_eval)
  show ?thesis
    using h shape_sizing_consistent [OF h] by (simp add: mkShape_def sgaMB_def pgaMB_def)
qed

end
