(* ===== verification/Dataguard_Producer.thy ===== *)
theory Dataguard_Producer
  imports Go_Prelude
begin

text \<open>
  The producer side of Data Guard, shared by the database kinds that publish a topology:
  \<^verbatim>\<open>DataguardProducerSpec\<close> with its accessors (\<^verbatim>\<open>apis/database/v4/dataguard_common_types.go\<close>) and
  \<^verbatim>\<open>validateDataguardProducerSpec\<close> (\<^verbatim>\<open>apis/database/v4/singleinstancedatabase_webhook.go\<close>).
\<close>

record DataguardSecretRef =
  dsr_SecretName :: string
  dsr_SecretKey :: string

record DataguardPrereqsSpec =
  prq_Enabled :: bool
  prq_BrokerConfigDir :: string
  prq_StandbyRedoSize :: string

record DataguardAuthWalletSpec =
  awl_Enabled :: bool
  awl_PasswordSecretRef :: "DataguardSecretRef option"
  awl_RebuildToken :: string

record DataguardStandbySourceSpec =
  dss_DBUniqueName :: string
  dss_Host :: string
  dss_TCPSEnabled :: bool
  dss_TCPPort :: int

record DataguardProducerSpec =
  dgp_Mode :: string
  dgp_Prereqs :: "DataguardPrereqsSpec option"
  dgp_AuthWallet :: "DataguardAuthWalletSpec option"
  dgp_StandbySources :: "DataguardStandbySourceSpec list"

definition DataguardProducerModeDisabled :: string where
  "DataguardProducerModeDisabled = ''Disabled''"

definition DataguardProducerModePreview :: string where
  "DataguardProducerModePreview = ''Preview''"

definition DataguardProducerModeManaged :: string where
  "DataguardProducerModeManaged = ''Managed''"

lemmas dg_mode_defs = DataguardProducerModeDisabled_def DataguardProducerModePreview_def
  DataguardProducerModeManaged_def

definition EffectiveDataguardProducerMode :: "DataguardProducerSpec option \<Rightarrow> string" where
  "EffectiveDataguardProducerMode spec =
     (case spec of
        None \<Rightarrow> DataguardProducerModePreview
      | Some s \<Rightarrow> if blank (dgp_Mode s) then DataguardProducerModePreview else TrimSpace (dgp_Mode s))"

definition normalizeDataguardProducerMode :: "DataguardProducerSpec option \<Rightarrow> string" where
  "normalizeDataguardProducerMode spec = EffectiveDataguardProducerMode spec"

definition DataguardProducerPrereqsEnabled :: "DataguardProducerSpec option \<Rightarrow> bool" where
  "DataguardProducerPrereqsEnabled spec =
     (case spec of None \<Rightarrow> False
      | Some s \<Rightarrow> (case dgp_Prereqs s of None \<Rightarrow> False | Some p \<Rightarrow> prq_Enabled p))"

definition DataguardProducerBrokerConfigDir :: "DataguardProducerSpec option \<Rightarrow> string" where
  "DataguardProducerBrokerConfigDir spec =
     (case spec of None \<Rightarrow> []
      | Some s \<Rightarrow> (case dgp_Prereqs s of None \<Rightarrow> [] | Some p \<Rightarrow> TrimSpace (prq_BrokerConfigDir p)))"

definition DataguardProducerStandbyRedoSize :: "DataguardProducerSpec option \<Rightarrow> string" where
  "DataguardProducerStandbyRedoSize spec =
     (case spec of None \<Rightarrow> []
      | Some s \<Rightarrow> (case dgp_Prereqs s of None \<Rightarrow> [] | Some p \<Rightarrow> TrimSpace (prq_StandbyRedoSize p)))"

text \<open>The whitespace set of \<^verbatim>\<open>strings.ContainsAny(size, " \t\r\n")\<close>.\<close>

definition redoSizeSpaces :: string where
  "redoSizeSpaces = [CHR '' '', CHR 0x09, CHR 0x0D, CHR 0x0A]"

definition dgModeErrs :: "path \<Rightarrow> DataguardProducerSpec option \<Rightarrow> error_list" where
  "dgModeErrs p spec =
     (let mode = normalizeDataguardProducerMode spec in
      if mode = DataguardProducerModeDisabled \<or> mode = DataguardProducerModePreview then []
      else if mode = DataguardProducerModeManaged then [Forbidden (p @ [Child ''mode''])]
      else [Invalid (p @ [Child ''mode'']) (BVString mode)])"

definition dgPrereqsErrs :: "path \<Rightarrow> DataguardPrereqsSpec \<Rightarrow> error_list" where
  "dgPrereqsErrs p pr =
     (let dir = TrimSpace (prq_BrokerConfigDir pr) in
      if dir \<noteq> [] \<and> \<not> HasPrefix dir ''/'' \<and> \<not> HasPrefix dir ''+''
      then [Invalid (p @ [Child ''prereqs'', Child ''brokerConfigDir'']) (BVString (prq_BrokerConfigDir pr))]
      else [])
     @ (if ContainsAny (TrimSpace (prq_StandbyRedoSize pr)) redoSizeSpaces
        then [Invalid (p @ [Child ''prereqs'', Child ''standbyRedoSize'']) (BVString (prq_StandbyRedoSize pr))]
        else [])"

definition dgStandbySourceErrs :: "path \<Rightarrow> nat \<Rightarrow> DataguardStandbySourceSpec \<Rightarrow> error_list" where
  "dgStandbySourceErrs p i standby =
     (let sp = p @ [Child ''standbySources'', Index i] in
      (if ToUpper (TrimSpace (dss_DBUniqueName standby)) = [] then [Required (sp @ [Child ''dbUniqueName''])] else [])
      @ (if blank (dss_Host standby) then [Required (sp @ [Child ''host''])] else [])
      @ (if dss_TCPPort standby < 0 \<or> dss_TCPPort standby > 65535
         then [Invalid (sp @ [Child ''tcpPort'']) (BVInt (dss_TCPPort standby))] else []))"

definition dgStandbyKey :: "DataguardStandbySourceSpec \<Rightarrow> string option" where
  "dgStandbyKey standby =
     (let u = ToUpper (TrimSpace (dss_DBUniqueName standby)) in if u = [] then None else Some (ToLower u))"

definition validateDataguardProducerSpec :: "path \<Rightarrow> DataguardProducerSpec option \<Rightarrow> error_list" where
  "validateDataguardProducerSpec p spec =
     dgModeErrs p spec
     @ (case spec of None \<Rightarrow> []
        | Some s \<Rightarrow>
            (case dgp_Prereqs s of None \<Rightarrow> [] | Some pr \<Rightarrow> dgPrereqsErrs p pr)
            @ range_seen (dgStandbySourceErrs p) dgStandbyKey
                (\<lambda>i standby prior. Duplicate (p @ [Child ''standbySources'', Index i, Child ''dbUniqueName''])
                   (BVString (dss_DBUniqueName (dgp_StandbySources s ! prior))))
                (\<lambda>_ _. []) (dgp_StandbySources s))"

lemma EffectiveDataguardProducerMode_trimmed [simp]:
  "TrimSpace (EffectiveDataguardProducerMode spec) = EffectiveDataguardProducerMode spec"
proof -
  have "TrimSpace DataguardProducerModePreview = DataguardProducerModePreview"
    by (simp add: dg_mode_defs go_eval)
  then show ?thesis by (auto simp: EffectiveDataguardProducerMode_def split: option.splits)
qed

lemma EffectiveDataguardProducerMode_nonblank [simp]: "EffectiveDataguardProducerMode spec \<noteq> []"
  by (auto simp: EffectiveDataguardProducerMode_def dg_mode_defs split: option.splits)

lemma normalize_mode_idem:
  "normalizeDataguardProducerMode (Some (s\<lparr>dgp_Mode := normalizeDataguardProducerMode spec\<rparr>)) =
   normalizeDataguardProducerMode spec"
  unfolding normalizeDataguardProducerMode_def
  by (subst EffectiveDataguardProducerMode_def) simp

lemma dgStandbySourceErrs_Nil_iff:
  "dgStandbySourceErrs p i s = [] \<longleftrightarrow>
     \<not> blank (dss_DBUniqueName s) \<and> \<not> blank (dss_Host s) \<and> 0 \<le> dss_TCPPort s \<and> dss_TCPPort s \<le> 65535"
  by (auto simp: dgStandbySourceErrs_def Let_def)

lemma map_filter_dgStandbyKey:
  "\<forall>s \<in> set xs. \<not> blank (dss_DBUniqueName s) \<Longrightarrow>
   List.map_filter dgStandbyKey xs = map (\<lambda>s. ToLower (TrimSpace (dss_DBUniqueName s))) xs"
  by (induction xs) (simp_all add: List.map_filter_simps dgStandbyKey_def Let_def)

text \<open>
  the producer validation accepts a specification exactly when its effective mode is
  \<^verbatim>\<open>Disabled\<close> or \<^verbatim>\<open>Preview\<close>, the prerequisite paths are well formed, and the standby sources are
  complete, have ports in range and have pairwise different unique names up to case.
\<close>

theorem dataguard_producer_accepts_iff:
  "validateDataguardProducerSpec p (Some s) = [] \<longleftrightarrow>
     (EffectiveDataguardProducerMode (Some s) = ''Disabled'' \<or> EffectiveDataguardProducerMode (Some s) = ''Preview'') \<and>
     (\<forall>pr. dgp_Prereqs s = Some pr \<longrightarrow> dgPrereqsErrs p pr = []) \<and>
     (\<forall>x \<in> set (dgp_StandbySources s). \<not> blank (dss_DBUniqueName x) \<and> \<not> blank (dss_Host x) \<and>
        0 \<le> dss_TCPPort x \<and> dss_TCPPort x \<le> 65535) \<and>
     distinct (map (\<lambda>x. ToLower (TrimSpace (dss_DBUniqueName x))) (dgp_StandbySources s))"
  (is "?V \<longleftrightarrow> ?M \<and> ?P \<and> ?S \<and> ?D")
proof -
  have m: "dgModeErrs p (Some s) = [] \<longleftrightarrow> ?M"
    by (auto simp: dgModeErrs_def normalizeDataguardProducerMode_def dg_mode_defs Let_def)
  have src: "(\<forall>i < length (dgp_StandbySources s). dgStandbySourceErrs p i (dgp_StandbySources s ! i) = []) \<longleftrightarrow> ?S"
    by (simp add: dgStandbySourceErrs_Nil_iff all_set_conv_all_nth)
  have "?S \<Longrightarrow> distinct (List.map_filter dgStandbyKey (dgp_StandbySources s)) \<longleftrightarrow> ?D"
    by (simp add: map_filter_dgStandbyKey)
  then show ?thesis
    using m src by (auto simp: validateDataguardProducerSpec_def range_seen_Nil_iff split: option.splits)
qed

definition standbyExample :: "string \<Rightarrow> DataguardStandbySourceSpec" where
  "standbyExample n = \<lparr>dss_DBUniqueName = n, dss_Host = ''h'', dss_TCPSEnabled = False, dss_TCPPort = 1521\<rparr>"

theorem dataguard_producer_accepts_iff_witness:
  "validateDataguardProducerSpec [] (Some \<lparr>dgp_Mode = '' Preview'', dgp_Prereqs = None,
     dgp_AuthWallet = None, dgp_StandbySources = [standbyExample ''s1'', standbyExample ''s2'']\<rparr>) = [] \<and>
   validateDataguardProducerSpec [] (Some \<lparr>dgp_Mode = [], dgp_Prereqs = None,
     dgp_AuthWallet = None, dgp_StandbySources = [standbyExample ''s1'', standbyExample ''S1 '']\<rparr>) \<noteq> []"
  unfolding dataguard_producer_accepts_iff
  by (simp add: EffectiveDataguardProducerMode_def dg_mode_defs standbyExample_def go_eval)

end
