(* ===== verification/Dataguard_Types.thy ===== *)
theory Dataguard_Types
  imports Dataguard_Producer Lock_Policy
begin

text \<open>
  The Data Guard topology that a database kind publishes and a \<^verbatim>\<open>DataguardBroker\<close> consumes: the shared
  structures of \<^verbatim>\<open>apis/database/v4/dataguard_common_types.go\<close>, those of
  \<^verbatim>\<open>apis/database/v4/dataguardbroker_types.go\<close>, and the two functions that resolve the secrets of a member
  against the defaults of its topology. Times are integers.
\<close>

section \<open>The topology\<close>

record DataguardSourceRef =
  src_APIVersion :: string
  src_Kind :: string
  src_Namespace :: string
  src_Name :: string

record DataguardPolicySpec =
  pol_ProtectionMode :: string
  pol_TransportMode :: string
  pol_FastStartFailover :: bool

record DataguardLocalRef =
  lref_APIVersion :: string
  lref_Kind :: string
  lref_Namespace :: string
  lref_Name :: string

record DataguardEndpointSpec =
  ep_Name :: string
  ep_Protocol :: string
  ep_Host :: string
  ep_Port :: int
  ep_ServiceName :: string
  ep_SSLServerDN :: string

record DataguardTCPSConfig =
  tcps_Enabled :: bool
  tcps_ServerTLSSecret :: string
  tcps_ClientWalletSecret :: string
  tcps_WalletKey :: string
  tcps_SSLServerDN :: string

record DataguardTopologyTCPSDefaults =
  dtd_ClientWalletSecret :: string

record DataguardTopologyDefaults =
  dfl_AdminSecretRef :: "DataguardSecretRef option"
  dfl_TCPS :: "DataguardTopologyTCPSDefaults option"

record DataguardTopologyMember =
  mem_Name :: string
  mem_Role :: string
  mem_DBUniqueName :: string
  mem_LocalRef :: "DataguardLocalRef option"
  mem_AdminSecretRef :: "DataguardSecretRef option"
  mem_Endpoints :: "DataguardEndpointSpec list"
  mem_TCPS :: "DataguardTCPSConfig option"

record DataguardObserverSpec =
  obs_Enabled :: bool
  obs_Name :: string
  obs_Image :: string
  obs_NodeSelector :: "(string, string) gomap"

record DataguardTopologySpec =
  top_SourceKind :: string
  top_SourceRef :: "DataguardSourceRef option"
  top_Policy :: "DataguardPolicySpec option"
  top_Defaults :: "DataguardTopologyDefaults option"
  top_Members :: "DataguardTopologyMember list"
  top_Observer :: "DataguardObserverSpec option"

definition ResolveDataguardTopologyMemberExplicitAdminSecretRef ::
    "DataguardTopologySpec \<Rightarrow> DataguardTopologyMember \<Rightarrow> string \<times> string \<times> bool" where
  "ResolveDataguardTopologyMemberExplicitAdminSecretRef topology member =
     (case mem_AdminSecretRef member of
        Some r \<Rightarrow> (TrimSpace (dsr_SecretName r), TrimSpace (dsr_SecretKey r), True)
      | None \<Rightarrow>
          (case Option.bind (top_Defaults topology) dfl_AdminSecretRef of
             Some r \<Rightarrow> (TrimSpace (dsr_SecretName r), TrimSpace (dsr_SecretKey r), True)
           | None \<Rightarrow> ([], [], False)))"

definition ResolveDataguardTopologyMemberClientWalletSecret :: "DataguardTopologySpec \<Rightarrow> DataguardTopologyMember \<Rightarrow> string" where
  "ResolveDataguardTopologyMemberClientWalletSecret topology member =
     (let own = (case mem_TCPS member of None \<Rightarrow> [] | Some t \<Rightarrow> TrimSpace (tcps_ClientWalletSecret t)) in
      if own \<noteq> [] then own
      else (case Option.bind (top_Defaults topology) dfl_TCPS of
          None \<Rightarrow> [] | Some d \<Rightarrow> TrimSpace (dtd_ClientWalletSecret d)))"


section \<open>What a producer publishes\<close>

record DataguardExecutionStatus =
  exs_Image :: string
  exs_ImagePullSecrets :: "string list"
  exs_AuthWallet :: "DataguardAuthWalletSpec option"

record DataguardExecutionSpec =
  exe_Image :: string
  exe_ImagePullSecrets :: "string list"
  exe_WalletMountPath :: string
  exe_TNSAdminPath :: string
  exe_AuthWallet :: "DataguardAuthWalletSpec option"

record DataguardStatusRef =
  dstr_Name :: string
  dstr_Namespace :: string

record DataguardRenderedBrokerSpec =
  rbs_Execution :: "DataguardExecutionSpec option"
  rbs_Topology :: "DataguardTopologySpec option"

record DataguardRenderedBrokerStatus =
  rbr_Name :: string
  rbr_Namespace :: string
  rbr_Spec :: "DataguardRenderedBrokerSpec option"
  rbr_TopologyHash :: string
  rbr_GeneratedAt :: "int option"
  rbr_Ready :: bool

record ShardingDataguardMemberStatus =
  sms_Name :: string
  sms_Role :: string
  sms_DBUniqueName :: string
  sms_ShardGroup :: string
  sms_ShardSpace :: string
  sms_PrimaryMemberName :: string
  sms_Endpoints :: "DataguardEndpointSpec list"
  sms_TCPS :: "DataguardTCPSConfig option"
  sms_Phase :: string
  sms_Message :: string

record DataguardPairStatus =
  prs_Primary :: string
  prs_Standby :: string
  prs_State :: string
  prs_Message :: string

record DataguardResolvedMemberStatus =
  rms_Name :: string
  rms_Role :: string
  rms_DBUniqueName :: string
  rms_ConnectString :: string
  rms_Phase :: string
  rms_Message :: string

record DataguardAuthWalletStatus =
  aws_Initialized :: bool
  aws_Phase :: string
  aws_WalletSecretName :: string
  aws_GeneratedPasswordSecretName :: string
  aws_ObservedRebuildToken :: string
  aws_Message :: string


section \<open>The broker\<close>

record DataguardBrokerRoleConversionOperation =
  rco_Target :: string
  rco_Role :: string
  rco_RequestID :: string

record DataguardBrokerSwitchoverOperation =
  swo_Target :: string
  swo_RequestID :: string

record DataguardBrokerFailoverOperation =
  foo_Target :: string
  foo_RequestID :: string
  foo_Force :: bool

record DataguardBrokerProtectionModeOperation =
  pmo_Mode :: string
  pmo_RequestID :: string

record DataguardBrokerOperations =
  ops_Switchover :: "DataguardBrokerSwitchoverOperation option"
  ops_Failover :: "DataguardBrokerFailoverOperation option"
  ops_ProtectionMode :: "DataguardBrokerProtectionModeOperation option"
  ops_RoleConversion :: "DataguardBrokerRoleConversionOperation option"

record DataguardBrokerSpec =
  dbs_PrimaryDatabaseRef :: string
  dbs_StandbyDatabaseRefs :: "string list"
  dbs_SetAsPrimaryDatabase :: string
  dbs_LoadBalancer :: bool
  dbs_ServiceAnnotations :: "(string, string) gomap"
  dbs_ProtectionMode :: string
  dbs_NodeSelector :: "(string, string) gomap"
  dbs_FastStartFailover :: bool
  dbs_Execution :: "DataguardExecutionSpec option"
  dbs_Topology :: "DataguardTopologySpec option"
  dbs_Operations :: "DataguardBrokerOperations option"

record DataguardBrokerOperationStatus =
  bos_ObservedRequestID :: string
  bos_Target :: string
  bos_Phase :: string
  bos_Message :: string
  bos_StartedAt :: "int option"
  bos_CompletedAt :: "int option"

record DataguardBrokerOperationsStatus =
  oss_Switchover :: "DataguardBrokerOperationStatus option"
  oss_Failover :: "DataguardBrokerOperationStatus option"
  oss_ProtectionMode :: "DataguardBrokerOperationStatus option"
  oss_RoleConversion :: "DataguardBrokerOperationStatus option"

record DataguardBrokerStatus =
  dbt_PrimaryDatabaseRef :: string
  dbt_ProtectionMode :: string
  dbt_PrimaryDatabase :: string
  dbt_StandbyDatabases :: string
  dbt_ExternalConnectString :: string
  dbt_ClusterConnectString :: string
  dbt_Status :: string
  dbt_FastStartFailover :: string
  dbt_DatabasesInDataguardConfig :: "(string, string) gomap"
  dbt_ObservedTopologyHash :: string
  dbt_ResolvedMembers :: "DataguardResolvedMemberStatus list"
  dbt_AuthWallet :: "DataguardAuthWalletStatus option"
  dbt_Operations :: "DataguardBrokerOperationsStatus option"
  dbt_Conditions :: "Condition list"

record DataguardBroker =
  brk_Name :: string
  brk_Namespace :: string
  brk_Generation :: int
  brk_Spec :: DataguardBrokerSpec
  brk_Status :: DataguardBrokerStatus

definition zeroBrokerSpec :: DataguardBrokerSpec where
  "zeroBrokerSpec = \<lparr>dbs_PrimaryDatabaseRef = [], dbs_StandbyDatabaseRefs = [], dbs_SetAsPrimaryDatabase = [], dbs_LoadBalancer = False,
     dbs_ServiceAnnotations = [], dbs_ProtectionMode = [], dbs_NodeSelector = [], dbs_FastStartFailover = False, dbs_Execution = None,
     dbs_Topology = None, dbs_Operations = None\<rparr>"

definition zeroBrokerStatus :: DataguardBrokerStatus where
  "zeroBrokerStatus = \<lparr>dbt_PrimaryDatabaseRef = [], dbt_ProtectionMode = [], dbt_PrimaryDatabase = [], dbt_StandbyDatabases = [],
     dbt_ExternalConnectString = [], dbt_ClusterConnectString = [], dbt_Status = [], dbt_FastStartFailover = [],
     dbt_DatabasesInDataguardConfig = [], dbt_ObservedTopologyHash = [], dbt_ResolvedMembers = [], dbt_AuthWallet = None,
     dbt_Operations = None, dbt_Conditions = []\<rparr>"

definition GetCurrentPrimaryDatabase :: "DataguardBroker \<Rightarrow> string" where
  "GetCurrentPrimaryDatabase broker =
     (let st = brk_Status broker; dbRef = mget (dbt_DatabasesInDataguardConfig st) (dbt_PrimaryDatabase st) [] in
      if dbt_PrimaryDatabase st \<noteq> [] \<and> dbt_DatabasesInDataguardConfig st \<noteq> [] \<and> dbRef \<noteq> [] then dbRef
      else dbs_PrimaryDatabaseRef (brk_Spec broker))"

text \<open>Both lists come in the order of the range over the map; see \<open>range_map_perm\<close> for other orders.\<close>

definition GetDatabasesInDataGuardConfiguration :: "DataguardBroker \<Rightarrow> string list" where
  "GetDatabasesInDataGuardConfiguration broker =
     (let config = dbt_DatabasesInDataguardConfig (brk_Status broker) in
      if config \<noteq> [] then filter (\<lambda>v. v \<noteq> []) (map snd config)
      else dbs_PrimaryDatabaseRef (brk_Spec broker) # dbs_StandbyDatabaseRefs (brk_Spec broker))"

definition GetStandbyDatabasesInDgConfig :: "DataguardBroker \<Rightarrow> string list" where
  "GetStandbyDatabasesInDgConfig broker =
     (let st = brk_Status broker; config = dbt_DatabasesInDataguardConfig st in
      if config \<noteq> [] then map snd (filter (\<lambda>(u, r). r \<noteq> [] \<and> u \<noteq> dbt_PrimaryDatabase st) config)
      else dbs_StandbyDatabaseRefs (brk_Spec broker))"

text \<open>In a configuration with distinct members, one of them the primary, the members are the primary and the standbys.\<close>

lemma filter_key: "distinct (map fst m) \<Longrightarrow> (k, v) \<in> set m \<Longrightarrow> filter (\<lambda>x. fst x = k) m = [(k, v)]"
proof (induction m)
  case (Cons x m)
  show ?case
  proof (cases "fst x = k")
    case True
    then have m: "\<forall>y \<in> set m. fst y \<noteq> k" using Cons.prems(1) by (auto simp: image_iff)
    then have "x = (k, v)" using Cons.prems(2) by auto
    then show ?thesis using m by (simp add: filter_empty_conv)
  next
    case False
    then show ?thesis using Cons by auto
  qed
qed simp

lemma config_split:
  assumes "c = dbt_DatabasesInDataguardConfig (brk_Status b)" and "(dbt_PrimaryDatabase (brk_Status b), r) \<in> set c"
    and "distinct (map fst c)" and "\<forall>(u, q) \<in> set c. u \<noteq> [] \<and> q \<noteq> []"
  shows "mset (GetDatabasesInDataGuardConfiguration b) = add_mset (GetCurrentPrimaryDatabase b) (mset (GetStandbyDatabasesInDgConfig b))"
proof -
  let ?p = "dbt_PrimaryDatabase (brk_Status b)"
  have g: "mget c ?p [] = r" using assms(2,3) by (simp add: mget_def)
  have ne: "?p \<noteq> []" "r \<noteq> []" "c \<noteq> []" using assms(2,4) by auto
  have "filter (\<lambda>v. v \<noteq> []) (map snd c) = map snd c" using assms(4) by (auto simp: filter_id_conv)
  moreover have "filter (\<lambda>(u, q). q \<noteq> [] \<and> u \<noteq> ?p) c = filter (\<lambda>x. fst x \<noteq> ?p) c"
    using assms(4) by (intro filter_cong) auto
  moreover have "mset (map snd c) = add_mset r (mset (map snd (filter (\<lambda>x. fst x \<noteq> ?p) c)))"
    using multiset_partition [of "mset c" "\<lambda>x. fst x = ?p"] filter_key [OF assms(3,2)]
    by (metis (no_types, lifting) add_mset_add_single image_mset_add_mset mset.simps mset_filter mset_map snd_conv union_commute)
  ultimately show ?thesis
    using g ne assms(1) by (simp add: GetDatabasesInDataGuardConfiguration_def GetCurrentPrimaryDatabase_def GetStandbyDatabasesInDgConfig_def Let_def)
qed

end
