(* ===== verification/Sharding_Types.thy ===== *)
theory Sharding_Types
  imports Go_Prelude Lock_Policy Shapes Dataguard_Types
begin

text \<open>
  The data of the sharding API, \<^verbatim>\<open>apis/database/v4/shardingdatabase_types.go\<close>: one record per Go
  struct with its fields in the source's order, a pointer field an option, a slice a list, a
  \<^verbatim>\<open>map[string]string\<close> an association list. Field names carry a short prefix for their struct.
  \<open>opaque\<close> stands for the Kubernetes values the sharding code only copies and compares.
  A \<open>zero\<dots>\<close> constant is the zero value of its struct, as in \<^verbatim>\<open>make([]ShardSpec, n)\<close>.
\<close>

datatype opaque = Opaque string

type_synonym strmap = "(string, string) gomap"
type_synonym PullPolicy = string
type_synonym Protocol = string
type_synonym HostAlias = opaque
type_synonym PodSecurityContext = opaque
type_synonym Capabilities = opaque


section \<open>The specification\<close>

record EnvironmentVariable =
  env_Name :: string
  env_Value :: string

record OCIStorageSource =
  oci_VolumeBackupID :: string

record StorageSource =
  sts_OCI :: "OCIStorageSource option"

record ConfigMapData =
  cmd_Name :: string
  cmd_MountPath :: string

record AdditionalPVCSpec =
  pvc_MountPath :: string
  pvc_PvcName :: string
  pvc_StorageSizeInGb :: int
  pvc_StorageClass :: string

record DatabaseRef =
  dbr_CdbName :: string
  dbr_PdbName :: string
  dbr_Host :: string
  dbr_Port :: int

record PrimaryDatabaseCRRef =
  pcr_Name :: string
  pcr_Namespace :: string

record PrimaryEndpointRef =
  per_ConnectString :: string
  per_Host :: string
  per_Port :: int
  per_CdbName :: string
  per_PdbName :: string

record StandbyPrimarySource =
  sps_DatabaseRef :: "PrimaryDatabaseCRRef option"
  sps_ConnectString :: string
  sps_Details :: "PrimaryEndpointRef option"

record TDEWalletConfig =
  tde_IsEnabled :: string
  tde_PVCName :: string
  tde_MountPath :: string
  tde_SecretRef :: string
  tde_ZipFileKey :: string
  tde_WalletRoot :: string

record StandbyConfig =
  sbc_StandbyPerPrimary :: int
  sbc_ProtectionMode :: string
  sbc_TransportMode :: string
  sbc_PrimarySources :: "StandbyPrimarySource list"
  sbc_TDEWallet :: "TDEWalletConfig option"

record ShardSpec =
  sh_Name :: string
  sh_StorageSizeInGb :: int
  sh_EnvVars :: "EnvironmentVariable list"
  sh_Resources :: "ResourceRequirements option"
  sh_PvcName :: string
  sh_Label :: string
  sh_IsDelete :: string
  sh_NodeSelector :: strmap
  sh_Nodes :: "string list"
  sh_StorageSource :: "StorageSource option"
  sh_PvAnnotations :: strmap
  sh_PvMatchLabels :: strmap
  sh_ImagePulllPolicy :: "PullPolicy option"
  sh_ShardSpace :: string
  sh_ShardGroup :: string
  sh_ShardRegion :: string
  sh_DeployAs :: string
  sh_ShardConfigData :: "ConfigMapData option"
  sh_CdbName :: string
  sh_CloneSchemas :: bool
  sh_CpuThreshold :: int
  sh_DiskThreshold :: int
  sh_Force :: bool
  sh_Rack :: string
  sh_ValidateNetwork :: bool
  sh_GgService :: string
  sh_Replace :: string
  sh_Pwd :: string
  sh_SaveName :: bool
  sh_Connect :: string
  sh_AdditionalPVCs :: "AdditionalPVCSpec list"
  sh_ServiceAnnotations :: strmap
  sh_ExternalServiceAnnotations :: strmap
  sh_SecurityContext :: "PodSecurityContext option"
  sh_Capabilities :: "Capabilities option"
  sh_PdbPreFix :: string
  sh_ReadinessCheckPeriod :: int
  sh_LivenessCheckPeriod :: int
  sh_PrimaryDatabaseRef :: "DatabaseRef option"
  sh_StandbyConfig :: "StandbyConfig option"

record CatalogSpec =
  cat_Name :: string
  cat_PdbName :: string
  cat_StorageSizeInGb :: int
  cat_Shape :: string
  cat_EnvVars :: "EnvironmentVariable list"
  cat_Resources :: "ResourceRequirements option"
  cat_PvcName :: string
  cat_Label :: string
  cat_IsDelete :: string
  cat_NodeSelector :: strmap
  cat_PvAnnotations :: strmap
  cat_PvMatchLabels :: strmap
  cat_ImagePulllPolicy :: "PullPolicy option"
  cat_CatalogConfigData :: "ConfigMapData option"
  cat_Region :: "string list"
  cat_ConfigName :: string
  cat_AutoVncr :: string
  cat_Force :: bool
  cat_GdsPool :: string
  cat_Repl :: string
  cat_Sharding :: string
  cat_RepFactor :: int
  cat_Chunks :: int
  cat_ProtectMode :: string
  cat_RepUnits :: int
  cat_AgentPassword :: string
  cat_AgentPort :: int
  cat_ValidateNetwork :: bool
  cat_MultiWriter :: bool
  cat_ForFederated :: bool
  cat_Encryption :: string
  cat_Sdb :: string
  cat_PrimaryDatabaseRef :: "DatabaseRef option"
  cat_CatalogDatabaseRef :: "DatabaseRef option"
  cat_UseExistingCatalog :: bool
  cat_CreateAs :: string
  cat_AdditionalPVCs :: "AdditionalPVCSpec list"
  cat_ServiceAnnotations :: strmap
  cat_ExternalServiceAnnotations :: strmap
  cat_SecurityContext :: "PodSecurityContext option"
  cat_Capabilities :: "Capabilities option"

record GsmSpec =
  gsm_Name :: string
  gsm_EnvVars :: "EnvironmentVariable list"
  gsm_Replicas :: int
  gsm_StorageSizeInGb :: int
  gsm_Resources :: "ResourceRequirements option"
  gsm_PvcName :: string
  gsm_Label :: string
  gsm_IsDelete :: string
  gsm_NodeSelector :: strmap
  gsm_Nodes :: "string list"
  gsm_PvAnnotations :: strmap
  gsm_PvMatchLabels :: strmap
  gsm_ImagePulllPolicy :: "PullPolicy option"
  gsm_Region :: string
  gsm_DirectorName :: string
  gsm_GsmConfigData :: "ConfigMapData option"
  gsm_GsmNum :: int
  gsm_GsmPrefix :: string
  gsm_Shape :: string
  gsm_Regions :: "string list"
  gsm_RemoteOns :: int
  gsm_LocalOns :: int
  gsm_Listener :: int
  gsm_Endpoint :: string
  gsm_RemoteEndpoint :: string
  gsm_TraceLevel :: string
  gsm_Encryption :: string
  gsm_Catalog :: string
  gsm_Pwd :: string
  gsm_WalletPassword :: string
  gsm_AdditionalPVCs :: "AdditionalPVCSpec list"
  gsm_ServiceAnnotations :: strmap
  gsm_ExternalServiceAnnotations :: strmap
  gsm_SecurityContext :: "PodSecurityContext option"
  gsm_Capabilities :: "Capabilities option"

record GsmInfo =
  gsi_Gsm :: "GsmSpec list"
  gsi_Resources :: "ResourceRequirements option"
  gsi_StorageSizeInGb :: int
  gsi_EnvVars :: "EnvironmentVariable list"
  gsi_ImagePulllPolicy :: "PullPolicy option"
  gsi_ServiceAnnotations :: strmap
  gsi_ExternalServiceAnnotations :: strmap
  gsi_Nodes :: "string list"

record PortMapping =
  pmap_Port :: int
  pmap_TargetPort :: int
  pmap_Protocol :: Protocol

record ShardSpaceSpec =
  ss_Name :: string
  ss_ShardSpaceName :: string
  ss_DeployAs :: string
  ss_Chunks :: int
  ss_Chnuks :: int
  ss_ProtectMode :: string
  ss_ProtectionMode :: string
  ss_RepFactor :: int
  ss_RepUnits :: int

record ShardGroupSpec =
  sg_Name :: string
  sg_ShardGroupName :: string
  sg_Region :: string
  sg_ShardSpace :: string
  sg_LegacyShardSpace :: string
  sg_DeployAs :: string
  sg_RepFactor :: int
  sg_RuMode :: string
  sg_IsDelete :: string

record GsmServiceSpec =
  svc_Name :: string
  svc_GdsPool :: string
  svc_Preferred :: string
  svc_PreferredAll :: string
  svc_PrferredAll :: string
  svc_Available :: string
  svc_Locality :: string
  svc_Role :: string
  svc_Lag :: int
  svc_Notification :: string
  svc_RlbGoal :: string
  svc_ClbGoal :: string
  svc_Dtp :: string
  svc_SqlTrasactionProfile :: string
  svc_TafPolicy :: string
  svc_Policy :: string
  svc_FailoverType :: string
  svc_FailoverMethod :: string
  svc_FailoverRetry :: string
  svc_FailoverDelay :: string
  svc_FailoverPrimary :: string
  svc_Edition :: string
  svc_CommitOutcome :: string
  svc_Retention :: string
  svc_SessionState :: string
  svc_ReplayInitTime :: string
  svc_PdbName :: string
  svc_DrainTimeout :: string
  svc_StopOption :: string
  svc_FailoverRestore :: string
  svc_TableFamily :: string
  svc_ResetState :: string
  svc_RegionFailover :: string
  svc_RuMode :: string
  svc_FailoverReadWrite :: string
  svc_TfaPolicy :: string

record PasswordSecretConfig =
  pwd_PasswordKey :: string
  pwd_PrivateKeyKey :: string
  pwd_Pkeyopt :: string

record SecretDetails =
  sec_Name :: string
  sec_MountPath :: string
  sec_KeyFileName :: string
  sec_NsConfigMap :: string
  sec_NsSecret :: string
  sec_PwdFileName :: string
  sec_PwdFileMountLocation :: string
  sec_KeyFileMountLocation :: string
  sec_KeySecretName :: string
  sec_EncryptionType :: string
  sec_TdeKeyFileName :: string
  sec_TdePwdFileName :: string
  sec_UseGsmWallet :: string
  sec_GsmWalletRoot :: string
  sec_DbAdmin :: PasswordSecretConfig
  sec_TDE :: "PasswordSecretConfig option"

record ShardingDetails =
  si_ShardPreFixName :: string
  si_Shape :: string
  si_ShardNum :: int
  si_Replicas :: int
  si_StorageSizeInGb :: int
  si_ShardGroupDetails :: "ShardGroupSpec option"
  si_ShardSpaceDetails :: "ShardSpaceSpec option"
  si_PrimaryDatabaseRef :: "DatabaseRef option"
  si_StandbyConfig :: "StandbyConfig option"
  si_ExternalPrimarySources :: "StandbyPrimarySource list"
  si_EnvVars :: "EnvironmentVariable list"
  si_Resources :: "ResourceRequirements option"
  si_Nodes :: "string list"
  si_NodeSelector :: strmap
  si_StorageSource :: "StorageSource option"
  si_AdditionalPVCs :: "AdditionalPVCSpec list"
  si_ServiceAnnotations :: strmap
  si_ExternalServiceAnnotations :: strmap
  si_SecurityContext :: "PodSecurityContext option"
  si_Capabilities :: "Capabilities option"

record RegionSpec =
  reg_Name :: string
  reg_Buddy :: string

record ShardingDatabaseSpec =
  spec_Shard :: "ShardSpec list"
  spec_Catalog :: "CatalogSpec list"
  spec_Gsm :: "GsmSpec list"
  spec_GsmInfo :: "GsmInfo option"
  spec_GsmResources :: "ResourceRequirements option"
  spec_GsmServiceAnnotations :: strmap
  spec_GsmExternalServiceAnnotations :: strmap
  spec_HostAliases :: "HostAlias list"
  spec_StorageClass :: string
  spec_DbImage :: string
  spec_DbImagePullSecret :: string
  spec_GsmImage :: string
  spec_GsmImagePullSecret :: string
  spec_StagePvcName :: string
  spec_PortMappings :: "PortMapping list"
  spec_IsDebug :: bool
  spec_IsExternalSvc :: bool
  spec_IsClone :: bool
  spec_IsDataGuard :: bool
  spec_ScriptsLocation :: string
  spec_IsDeleteOraPvc :: bool
  spec_ReadinessCheckPeriod :: int
  spec_LivenessCheckPeriod :: int
  spec_ReplicationType :: string
  spec_IsDownloadScripts :: bool
  spec_InvitedNodeSubnetFlag :: string
  spec_InvitedNodeSubnet :: string
  spec_ShardingType :: string
  spec_GsmShardSpace :: "ShardSpaceSpec list"
  spec_GsmShardGroup :: "ShardGroupSpec list"
  spec_ShardRegion :: "string list"
  spec_ShardBuddyRegion :: string
  spec_GsmService :: "GsmServiceSpec list"
  spec_ShardConfigName :: string
  spec_GsmDevMode :: string
  spec_DbSecret :: "SecretDetails option"
  spec_IsTdeWallet :: string
  spec_TdeWalletPvc :: string
  spec_FssStorageClass :: string
  spec_TdeWalletPvcMountLocation :: string
  spec_TDEWallet :: "TDEWalletConfig option"
  spec_DbEdition :: string
  spec_TopicId :: string
  spec_SrvAccountName :: string
  spec_AutomountServiceAccountToken :: "bool option"
  spec_ShardInfo :: "ShardingDetails list"
  spec_Dataguard :: "DataguardProducerSpec option"
  spec_Region :: "RegionSpec list"
  spec_ShardGroup :: "ShardGroupSpec list"
  spec_ShardSpace :: "ShardSpaceSpec list"
  spec_EnableTCPS :: bool
  spec_TcpsCertRenewInterval :: int
  spec_TcpsTlsSecret :: string
  spec_ImagePulllPolicy :: "PullPolicy option"
  spec_Service :: "GsmServiceSpec list"


section \<open>The status and the object\<close>

text \<open>
  Of \<^verbatim>\<open>ShardingDatabaseStatus\<close> the fields that the webhooks and the condition writer read: the
  conditions and the publication state of Data Guard. Of the object metadata: name, namespace,
  annotations and generation.
\<close>

record ShardingDataguardStatus =
  sdg_BrokerRef :: "DataguardStatusRef option"
  sdg_RenderedBrokerSpec :: "DataguardRenderedBrokerStatus option"
  sdg_Members :: "ShardingDataguardMemberStatus list"
  sdg_Pairs :: "DataguardPairStatus list"
  sdg_Phase :: string
  sdg_ReadyForBroker :: bool
  sdg_TopologyHash :: string
  sdg_LastPublishedTime :: "int option"
  sdg_PublishedTopologyHash :: string
  sdg_TopologyLocked :: bool
  sdg_Conditions :: "Condition list"

definition zeroDataguardStatus :: ShardingDataguardStatus where
  "zeroDataguardStatus = \<lparr>sdg_BrokerRef = None, sdg_RenderedBrokerSpec = None, sdg_Members = [], sdg_Pairs = [], sdg_Phase = [],
     sdg_ReadyForBroker = False, sdg_TopologyHash = [], sdg_LastPublishedTime = None, sdg_PublishedTopologyHash = [],
     sdg_TopologyLocked = False, sdg_Conditions = []\<rparr>"

record ShardingDatabaseStatus =
  st_Dataguard :: "ShardingDataguardStatus option"
  st_CrdStatus :: "Condition list"

record ShardingDatabase =
  sdb_Name :: string
  sdb_Namespace :: string
  sdb_Annotations :: strmap
  sdb_Generation :: int
  sdb_Spec :: ShardingDatabaseSpec
  sdb_Status :: ShardingDatabaseStatus


section \<open>Constants and zero values\<close>

definition DefaultPkeyopt :: string where
  "DefaultPkeyopt = ''rsa_padding_mode:oaep;rsa_oaep_md:sha256;rsa_mgf1_md:sha256''"

definition DefaultSecretMountPath :: string where
  "DefaultSecretMountPath = ''/mnt/secrets''"

definition DefaultGsmWalletRoot :: string where
  "DefaultGsmWalletRoot = ''/opt/oracle/gsmdata/walletroot''"

definition DefaultOraDataMountPath :: string where
  "DefaultOraDataMountPath = ''/opt/oracle/oradata''"

definition DefaultGsmDataMountPath :: string where
  "DefaultGsmDataMountPath = ''/opt/oracle/gsmdata''"

definition DefaultDiagMountPath :: string where
  "DefaultDiagMountPath = ''/opt/oracle/diag''"

definition DefaultGsmDiagMountPath :: string where
  "DefaultGsmDiagMountPath = ''/u01/app/oracle/diag''"

definition DefaultGddLogMountPath :: string where
  "DefaultGddLogMountPath = ''/var/log/gdd''"

definition DefaultDiagSizeInGb :: int where
  "DefaultDiagSizeInGb = 50"

definition DefaultGddLogSizeInGb :: int where
  "DefaultGddLogSizeInGb = 10"

lemmas mount_path_defs = DefaultOraDataMountPath_def DefaultGsmDataMountPath_def DefaultDiagMountPath_def
  DefaultGsmDiagMountPath_def DefaultGddLogMountPath_def

definition zeroPrimaryEndpointRef :: PrimaryEndpointRef where
  "zeroPrimaryEndpointRef = \<lparr>per_ConnectString = [], per_Host = [], per_Port = 0, per_CdbName = [],
     per_PdbName = []\<rparr>"

definition zeroStandbyPrimarySource :: StandbyPrimarySource where
  "zeroStandbyPrimarySource = \<lparr>sps_DatabaseRef = None, sps_ConnectString = [], sps_Details = None\<rparr>"

definition zeroStandbyConfig :: StandbyConfig where
  "zeroStandbyConfig = \<lparr>sbc_StandbyPerPrimary = 0, sbc_ProtectionMode = [], sbc_TransportMode = [],
     sbc_PrimarySources = [], sbc_TDEWallet = None\<rparr>"

definition zeroShardSpec :: ShardSpec where
  "zeroShardSpec = \<lparr>sh_Name = [], sh_StorageSizeInGb = 0, sh_EnvVars = [], sh_Resources = None,
     sh_PvcName = [], sh_Label = [], sh_IsDelete = [], sh_NodeSelector = [], sh_Nodes = [],
     sh_StorageSource = None, sh_PvAnnotations = [], sh_PvMatchLabels = [],
     sh_ImagePulllPolicy = None, sh_ShardSpace = [], sh_ShardGroup = [],
     sh_ShardRegion = [], sh_DeployAs = [], sh_ShardConfigData = None, sh_CdbName = [],
     sh_CloneSchemas = False, sh_CpuThreshold = 0, sh_DiskThreshold = 0, sh_Force = False,
     sh_Rack = [], sh_ValidateNetwork = False, sh_GgService = [], sh_Replace = [],
     sh_Pwd = [], sh_SaveName = False, sh_Connect = [], sh_AdditionalPVCs = [],
     sh_ServiceAnnotations = [], sh_ExternalServiceAnnotations = [],
     sh_SecurityContext = None, sh_Capabilities = None, sh_PdbPreFix = [],
     sh_ReadinessCheckPeriod = 0, sh_LivenessCheckPeriod = 0, sh_PrimaryDatabaseRef = None,
     sh_StandbyConfig = None\<rparr>"

definition zeroCatalogSpec :: CatalogSpec where
  "zeroCatalogSpec = \<lparr>cat_Name = [], cat_PdbName = [], cat_StorageSizeInGb = 0, cat_Shape = [],
     cat_EnvVars = [], cat_Resources = None, cat_PvcName = [], cat_Label = [],
     cat_IsDelete = [], cat_NodeSelector = [], cat_PvAnnotations = [],
     cat_PvMatchLabels = [], cat_ImagePulllPolicy = None, cat_CatalogConfigData = None,
     cat_Region = [], cat_ConfigName = [], cat_AutoVncr = [], cat_Force = False,
     cat_GdsPool = [], cat_Repl = [], cat_Sharding = [], cat_RepFactor = 0, cat_Chunks = 0,
     cat_ProtectMode = [], cat_RepUnits = 0, cat_AgentPassword = [], cat_AgentPort = 0,
     cat_ValidateNetwork = False, cat_MultiWriter = False, cat_ForFederated = False,
     cat_Encryption = [], cat_Sdb = [], cat_PrimaryDatabaseRef = None,
     cat_CatalogDatabaseRef = None, cat_UseExistingCatalog = False, cat_CreateAs = [],
     cat_AdditionalPVCs = [], cat_ServiceAnnotations = [],
     cat_ExternalServiceAnnotations = [], cat_SecurityContext = None,
     cat_Capabilities = None\<rparr>"

definition zeroGsmSpec :: GsmSpec where
  "zeroGsmSpec = \<lparr>gsm_Name = [], gsm_EnvVars = [], gsm_Replicas = 0, gsm_StorageSizeInGb = 0,
     gsm_Resources = None, gsm_PvcName = [], gsm_Label = [], gsm_IsDelete = [],
     gsm_NodeSelector = [], gsm_Nodes = [], gsm_PvAnnotations = [], gsm_PvMatchLabels = [],
     gsm_ImagePulllPolicy = None, gsm_Region = [], gsm_DirectorName = [],
     gsm_GsmConfigData = None, gsm_GsmNum = 0, gsm_GsmPrefix = [], gsm_Shape = [],
     gsm_Regions = [], gsm_RemoteOns = 0, gsm_LocalOns = 0, gsm_Listener = 0,
     gsm_Endpoint = [], gsm_RemoteEndpoint = [], gsm_TraceLevel = [], gsm_Encryption = [],
     gsm_Catalog = [], gsm_Pwd = [], gsm_WalletPassword = [], gsm_AdditionalPVCs = [],
     gsm_ServiceAnnotations = [], gsm_ExternalServiceAnnotations = [],
     gsm_SecurityContext = None, gsm_Capabilities = None\<rparr>"

definition zeroShardSpaceSpec :: ShardSpaceSpec where
  "zeroShardSpaceSpec = \<lparr>ss_Name = [], ss_ShardSpaceName = [], ss_DeployAs = [], ss_Chunks = 0, ss_Chnuks = 0,
     ss_ProtectMode = [], ss_ProtectionMode = [], ss_RepFactor = 0, ss_RepUnits = 0\<rparr>"

definition zeroShardGroupSpec :: ShardGroupSpec where
  "zeroShardGroupSpec = \<lparr>sg_Name = [], sg_ShardGroupName = [], sg_Region = [], sg_ShardSpace = [],
     sg_LegacyShardSpace = [], sg_DeployAs = [], sg_RepFactor = 0, sg_RuMode = [],
     sg_IsDelete = []\<rparr>"

definition zeroPasswordSecretConfig :: PasswordSecretConfig where
  "zeroPasswordSecretConfig = \<lparr>pwd_PasswordKey = [], pwd_PrivateKeyKey = [], pwd_Pkeyopt = []\<rparr>"

definition zeroSecretDetails :: SecretDetails where
  "zeroSecretDetails = \<lparr>sec_Name = [], sec_MountPath = [], sec_KeyFileName = [], sec_NsConfigMap = [],
     sec_NsSecret = [], sec_PwdFileName = [], sec_PwdFileMountLocation = [],
     sec_KeyFileMountLocation = [], sec_KeySecretName = [], sec_EncryptionType = [],
     sec_TdeKeyFileName = [], sec_TdePwdFileName = [], sec_UseGsmWallet = [],
     sec_GsmWalletRoot = [], sec_DbAdmin = zeroPasswordSecretConfig, sec_TDE = None\<rparr>"

definition zeroShardingDetails :: ShardingDetails where
  "zeroShardingDetails = \<lparr>si_ShardPreFixName = [], si_Shape = [], si_ShardNum = 0, si_Replicas = 0,
     si_StorageSizeInGb = 0, si_ShardGroupDetails = None, si_ShardSpaceDetails = None,
     si_PrimaryDatabaseRef = None, si_StandbyConfig = None, si_ExternalPrimarySources = [],
     si_EnvVars = [], si_Resources = None, si_Nodes = [], si_NodeSelector = [],
     si_StorageSource = None, si_AdditionalPVCs = [], si_ServiceAnnotations = [],
     si_ExternalServiceAnnotations = [], si_SecurityContext = None, si_Capabilities = None\<rparr>"

definition zeroShardingDatabaseSpec :: ShardingDatabaseSpec where
  "zeroShardingDatabaseSpec = \<lparr>spec_Shard = [], spec_Catalog = [], spec_Gsm = [], spec_GsmInfo = None,
     spec_GsmResources = None, spec_GsmServiceAnnotations = [],
     spec_GsmExternalServiceAnnotations = [], spec_HostAliases = [],
     spec_StorageClass = [], spec_DbImage = [], spec_DbImagePullSecret = [],
     spec_GsmImage = [], spec_GsmImagePullSecret = [], spec_StagePvcName = [],
     spec_PortMappings = [], spec_IsDebug = False, spec_IsExternalSvc = False,
     spec_IsClone = False, spec_IsDataGuard = False, spec_ScriptsLocation = [],
     spec_IsDeleteOraPvc = False, spec_ReadinessCheckPeriod = 0,
     spec_LivenessCheckPeriod = 0, spec_ReplicationType = [],
     spec_IsDownloadScripts = False, spec_InvitedNodeSubnetFlag = [],
     spec_InvitedNodeSubnet = [], spec_ShardingType = [], spec_GsmShardSpace = [],
     spec_GsmShardGroup = [], spec_ShardRegion = [], spec_ShardBuddyRegion = [],
     spec_GsmService = [], spec_ShardConfigName = [], spec_GsmDevMode = [],
     spec_DbSecret = None, spec_IsTdeWallet = [], spec_TdeWalletPvc = [],
     spec_FssStorageClass = [], spec_TdeWalletPvcMountLocation = [], spec_TDEWallet = None,
     spec_DbEdition = [], spec_TopicId = [], spec_SrvAccountName = [],
     spec_AutomountServiceAccountToken = None, spec_ShardInfo = [], spec_Dataguard = None,
     spec_Region = [], spec_ShardGroup = [], spec_ShardSpace = [], spec_EnableTCPS = False,
     spec_TcpsCertRenewInterval = 0, spec_TcpsTlsSecret = [], spec_ImagePulllPolicy = None,
     spec_Service = []\<rparr>"


definition zeroShardingDatabase :: ShardingDatabase where
  "zeroShardingDatabase = \<lparr>sdb_Name = [], sdb_Namespace = [], sdb_Annotations = [], sdb_Generation = 0,
     sdb_Spec = zeroShardingDatabaseSpec, sdb_Status = \<lparr>st_Dataguard = None, st_CrdStatus = []\<rparr>\<rparr>"

lemmas zero_defs = zeroPrimaryEndpointRef_def zeroStandbyPrimarySource_def zeroStandbyConfig_def
  zeroShardSpec_def zeroCatalogSpec_def zeroGsmSpec_def zeroShardSpaceSpec_def zeroShardGroupSpec_def
  zeroPasswordSecretConfig_def zeroSecretDetails_def zeroShardingDetails_def
  zeroShardingDatabaseSpec_def zeroShardingDatabase_def

end
