(* ===== verification/Sharding_Modes.thy ===== *)
theory Sharding_Modes
  imports Sharding_Types
begin

text \<open>
  Modes and replication types of \<^verbatim>\<open>apis/database/v4/shardingdatabase_webhook.go\<close>: the
  normalisation of the free-text fields, the detection of the sharding mode, the top-level defaults
  that are pushed into the catalogs, and the checks that depend on mode and replication only.
  The locale \<open>canonical_value\<close> is the contract of the normalisers.
\<close>

section \<open>Modes\<close>

datatype shardingMode = modeSystem | modeUser | modeComposite | modeUnknown

fun modeString :: "shardingMode \<Rightarrow> string" where
  "modeString modeSystem = ''system''"
| "modeString modeUser = ''user''"
| "modeString modeComposite = ''composite''"
| "modeString modeUnknown = ''unknown''"

definition replDG :: string where
  "replDG = ''DG''"

definition replNative :: string where
  "replNative = ''NATIVE''"

definition deleteStateEnable :: string where
  "deleteStateEnable = ''enable''"

definition deleteStateDisable :: string where
  "deleteStateDisable = ''disable''"

definition deleteStateFailed :: string where
  "deleteStateFailed = ''failed''"

lemmas repl_defs = replDG_def replNative_def

lemma repl_distinct [simp]: "replDG \<noteq> replNative" "replNative \<noteq> replDG" "replDG \<noteq> []" "replNative \<noteq> []"
  by (simp_all add: repl_defs)


section \<open>Normalisers\<close>

definition isValidDeployAs :: "string \<Rightarrow> bool" where
  "isValidDeployAs v \<longleftrightarrow> ToUpper (TrimSpace v) \<in> {''PRIMARY'', ''STANDBY'', ''ACTIVE_STANDBY''}"

definition isValidShardGroupRuMode :: "string \<Rightarrow> bool" where
  "isValidShardGroupRuMode v \<longleftrightarrow> ToUpper (TrimSpace v) \<in> {''READWRITE'', ''READONLY''}"

definition normalizeShardGroupRuModeCanonical :: "string \<Rightarrow> string" where
  "normalizeShardGroupRuModeCanonical v =
     (let trimmed = TrimSpace v; u = ToUpper trimmed in
      if u = ''READWRITE'' then ''READWRITE''
      else if u = ''READONLY'' then ''READONLY''
      else trimmed)"

definition normalizeDeployAsCanonical :: "string \<Rightarrow> string" where
  "normalizeDeployAsCanonical v =
     (let trimmed = TrimSpace v; u = ToUpper trimmed in
      if u = ''PRIMARY'' then ''PRIMARY''
      else if u = ''STANDBY'' then ''STANDBY''
      else if u = ''ACTIVE_STANDBY'' then ''ACTIVE_STANDBY''
      else trimmed)"

definition normalizeReplicationValue :: "string \<Rightarrow> string" where
  "normalizeReplicationValue v =
     (let rep = ToUpper (TrimSpace v) in
      if rep \<in> {replNative, ''RAFT'', ''RAFTREPLICATION'', ''RAFTREPLICATIN''} then replNative
      else if rep = replDG then replDG
      else [])"

definition normalizeShardingValue :: "string \<Rightarrow> string" where
  "normalizeShardingValue v =
     (let s = ToUpper (TrimSpace v) in
      if s \<in> {''SYSTEM'', ''USER'', ''COMPOSITE''} then s else [])"

fun shardingModeToSpecValue :: "shardingMode \<Rightarrow> string" where
  "shardingModeToSpecValue modeSystem = ''SYSTEM''"
| "shardingModeToSpecValue modeUser = ''USER''"
| "shardingModeToSpecValue modeComposite = ''COMPOSITE''"
| "shardingModeToSpecValue modeUnknown = []"

text \<open>
  A normaliser recognises the spellings of its keywords up to case and outer space, sends each
  spelling to one canonical value, and maps anything else to its trimmed form or to nothing.
\<close>

locale canonical_value =
  fixes norm :: "string \<Rightarrow> string"
    and recognised :: "string \<Rightarrow> bool"
  assumes recognised_fold: "\<And>v w. EqualFold (TrimSpace v) (TrimSpace w) \<Longrightarrow> recognised v = recognised w"
    and norm_fold: "\<And>v w. EqualFold (TrimSpace v) (TrimSpace w) \<Longrightarrow> recognised v \<Longrightarrow> norm v = norm w"
    and norm_recognised: "\<And>v. recognised v \<Longrightarrow> recognised (norm v) \<and> norm (norm v) = norm v"
    and norm_other: "\<And>v. \<not> recognised v \<Longrightarrow> norm v = [] \<or> norm v = TrimSpace v"
    and norm_trim: "\<And>v. norm (TrimSpace v) = norm v"
    and norm_Nil: "norm [] = []"
begin

lemma norm_idem: "norm (norm v) = norm v"
proof (cases "recognised v")
  case True
  then show ?thesis by (simp add: norm_recognised)
next
  case False
  then show ?thesis using norm_other [of v] norm_trim [of v] norm_Nil by auto
qed

lemma norm_upper: "recognised v \<Longrightarrow> norm (ToUpper v) = norm v"
  using norm_fold [of v "ToUpper v"] by (simp add: EqualFold_def TrimSpace_ToUpper)

lemma recognised_upper: "recognised (ToUpper v) = recognised v"
  using recognised_fold [of v "ToUpper v"] by (simp add: EqualFold_def TrimSpace_ToUpper)

end

lemma ToUpper_keywords [simp]:
  "ToUpper ''PRIMARY'' = ''PRIMARY''" "ToUpper ''STANDBY'' = ''STANDBY''"
  "ToUpper ''ACTIVE_STANDBY'' = ''ACTIVE_STANDBY''" "ToUpper ''READWRITE'' = ''READWRITE''"
  "ToUpper ''READONLY'' = ''READONLY''" "ToUpper ''SYSTEM'' = ''SYSTEM''" "ToUpper ''USER'' = ''USER''"
  "ToUpper ''COMPOSITE'' = ''COMPOSITE''" "ToUpper replDG = replDG" "ToUpper replNative = replNative"
  by (simp_all add: go_eval repl_defs)

lemma TrimSpace_keywords [simp]:
  "TrimSpace ''PRIMARY'' = ''PRIMARY''" "TrimSpace ''STANDBY'' = ''STANDBY''"
  "TrimSpace ''ACTIVE_STANDBY'' = ''ACTIVE_STANDBY''" "TrimSpace ''READWRITE'' = ''READWRITE''"
  "TrimSpace ''READONLY'' = ''READONLY''" "TrimSpace ''SYSTEM'' = ''SYSTEM''" "TrimSpace ''USER'' = ''USER''"
  "TrimSpace ''COMPOSITE'' = ''COMPOSITE''" "TrimSpace replDG = replDG" "TrimSpace replNative = replNative"
  by (simp_all add: go_eval repl_defs)

interpretation deployAs: canonical_value normalizeDeployAsCanonical isValidDeployAs
  by unfold_locales
    (auto simp: normalizeDeployAsCanonical_def isValidDeployAs_def EqualFold_ToUpper Let_def)

interpretation ruMode: canonical_value normalizeShardGroupRuModeCanonical isValidShardGroupRuMode
  by unfold_locales
    (auto simp: normalizeShardGroupRuModeCanonical_def isValidShardGroupRuMode_def EqualFold_ToUpper Let_def)

interpretation replication: canonical_value normalizeReplicationValue "\<lambda>v. normalizeReplicationValue v \<noteq> []"
  by unfold_locales (auto simp: normalizeReplicationValue_def EqualFold_ToUpper Let_def split: if_splits)

interpretation sharding: canonical_value normalizeShardingValue "\<lambda>v. normalizeShardingValue v \<noteq> []"
  by unfold_locales (auto simp: normalizeShardingValue_def EqualFold_ToUpper Let_def split: if_splits)

lemmas norm_idems [simp] = deployAs.norm_idem ruMode.norm_idem replication.norm_idem sharding.norm_idem

lemma normalizeReplicationValue_range:
  "normalizeReplicationValue v = [] \<or> normalizeReplicationValue v = replDG \<or> normalizeReplicationValue v = replNative"
  by (auto simp: normalizeReplicationValue_def Let_def)


section \<open>Mode detection\<close>

definition hasGroupDetails :: "ShardingDetails \<Rightarrow> bool" where
  "hasGroupDetails info \<longleftrightarrow> (case si_ShardGroupDetails info of None \<Rightarrow> False | Some g \<Rightarrow> \<not> blank (sg_Name g))"

definition hasSpaceDetails :: "ShardingDetails \<Rightarrow> bool" where
  "hasSpaceDetails info \<longleftrightarrow> (case si_ShardSpaceDetails info of None \<Rightarrow> False | Some s \<Rightarrow> \<not> blank (ss_Name s))"

text \<open>The three flags of the loop are existential over the entries.\<close>

definition detectShardingMode :: "ShardingDatabaseSpec \<Rightarrow> shardingMode" where
  "detectShardingMode spec =
     (let hasGroupOnly = list_ex (\<lambda>i. hasGroupDetails i \<and> \<not> hasSpaceDetails i) (spec_ShardInfo spec);
          hasSpaceOnly = list_ex (\<lambda>i. \<not> hasGroupDetails i \<and> hasSpaceDetails i) (spec_ShardInfo spec);
          hasBoth = list_ex (\<lambda>i. hasGroupDetails i \<and> hasSpaceDetails i) (spec_ShardInfo spec)
      in if hasBoth \<or> (hasGroupOnly \<and> hasSpaceOnly) then modeComposite
         else if hasGroupOnly then modeSystem
         else if hasSpaceOnly then modeUser
         else modeUnknown)"

definition normalizeShardingType :: "ShardingDatabaseSpec \<Rightarrow> shardingMode" where
  "normalizeShardingType spec =
     (let mode = ToLower (TrimSpace (spec_ShardingType spec)) in
      if mode = modeString modeSystem then modeSystem
      else if mode = modeString modeUser then modeUser
      else if mode = modeString modeComposite then modeComposite
      else detectShardingMode spec)"

fun inferShardMode :: "shardingMode \<Rightarrow> bool \<Rightarrow> bool \<Rightarrow> shardingMode" where
  "inferShardMode hint hasGroup hasSpace =
     (if hint \<noteq> modeUnknown then hint
      else if hasGroup \<and> hasSpace then modeComposite
      else if hasGroup then modeSystem
      else if hasSpace then modeUser
      else modeUnknown)"

definition normalizeReplicationType :: "ShardingDatabaseSpec \<Rightarrow> string" where
  "normalizeReplicationType spec =
     (let rep = normalizeReplicationValue (spec_ReplicationType spec) in if rep \<noteq> [] then rep else replDG)"

lemma normalizeReplicationType_range:
  "normalizeReplicationType spec = replDG \<or> normalizeReplicationType spec = replNative"
  using normalizeReplicationValue_range [of "spec_ReplicationType spec"]
  by (auto simp: normalizeReplicationType_def Let_def)

lemma normalizeReplicationType_not_Nil [simp]: "normalizeReplicationType spec \<noteq> []"
  using normalizeReplicationType_range [of spec] by auto

lemma normalizeReplicationType_DG_iff [simp]:
  "normalizeReplicationType spec \<noteq> replNative \<longleftrightarrow> normalizeReplicationType spec = replDG"
  using normalizeReplicationType_range [of spec] by auto


section \<open>Wallet accessors\<close>

definition getTDEWalletEnabledFromSpec :: "ShardingDatabaseSpec \<Rightarrow> string" where
  "getTDEWalletEnabledFromSpec spec =
     (case spec_TDEWallet spec of
        Some w \<Rightarrow> if \<not> blank (tde_IsEnabled w) then TrimSpace (tde_IsEnabled w) else TrimSpace (spec_IsTdeWallet spec)
      | None \<Rightarrow> TrimSpace (spec_IsTdeWallet spec))"

definition getTDEWalletPVCFromSpec :: "ShardingDatabaseSpec \<Rightarrow> string" where
  "getTDEWalletPVCFromSpec spec =
     (case spec_TDEWallet spec of
        Some w \<Rightarrow> if \<not> blank (tde_PVCName w) then TrimSpace (tde_PVCName w) else TrimSpace (spec_TdeWalletPvc spec)
      | None \<Rightarrow> TrimSpace (spec_TdeWalletPvc spec))"

definition EffectiveTDEWalletMountPath :: "ShardingDatabaseSpec option \<Rightarrow> string \<Rightarrow> string" where
  "EffectiveTDEWalletMountPath s defaultPath =
     (case s of None \<Rightarrow> defaultPath
      | Some spec \<Rightarrow>
          let wallet = (case spec_TDEWallet spec of None \<Rightarrow> [] | Some w \<Rightarrow> TrimSpace (tde_MountPath w)) in
          if wallet \<noteq> [] then wallet
          else if \<not> blank (spec_TdeWalletPvcMountLocation spec) then TrimSpace (spec_TdeWalletPvcMountLocation spec)
          else defaultPath)"

definition EffectiveTDEWalletPVCName :: "ShardingDatabaseSpec option \<Rightarrow> string" where
  "EffectiveTDEWalletPVCName s = (case s of None \<Rightarrow> [] | Some spec \<Rightarrow>
     (case spec_TDEWallet spec of
        Some w \<Rightarrow> (let pvc = TrimSpace (tde_PVCName w) in if pvc \<noteq> [] then pvc else TrimSpace (spec_TdeWalletPvc spec))
      | None \<Rightarrow> TrimSpace (spec_TdeWalletPvc spec)))"

definition EffectiveTDEWalletEnabled :: "ShardingDatabaseSpec option \<Rightarrow> string" where
  "EffectiveTDEWalletEnabled s = (case s of None \<Rightarrow> [] | Some spec \<Rightarrow>
     (case spec_TDEWallet spec of
        Some w \<Rightarrow> (let mode = TrimSpace (tde_IsEnabled w) in if mode \<noteq> [] then mode else TrimSpace (spec_IsTdeWallet spec))
      | None \<Rightarrow> TrimSpace (spec_IsTdeWallet spec)))"

text \<open>The webhook's private accessors and the exported ones of the API agree.\<close>

lemma wallet_accessors_agree:
  "EffectiveTDEWalletEnabled (Some spec) = getTDEWalletEnabledFromSpec spec"
  "EffectiveTDEWalletPVCName (Some spec) = getTDEWalletPVCFromSpec spec"
  by (auto simp: EffectiveTDEWalletEnabled_def getTDEWalletEnabledFromSpec_def EffectiveTDEWalletPVCName_def
      getTDEWalletPVCFromSpec_def Let_def split: option.splits)


section \<open>Top-level defaults and the catalogs\<close>

text \<open>The first value of a list that normalises to something, as the \<^verbatim>\<open>break\<close> loops pick it.\<close>

fun firstNonEmpty :: "string list \<Rightarrow> string" where
  "firstNonEmpty [] = []"
| "firstNonEmpty (v # vs) = (if v \<noteq> [] then v else firstNonEmpty vs)"

definition resolveTopSharding :: "ShardingDatabaseSpec \<Rightarrow> string" where
  "resolveTopSharding spec =
     firstNonEmpty (normalizeShardingValue (spec_ShardingType spec)
       # map (\<lambda>c. normalizeShardingValue (cat_Sharding c)) (spec_Catalog spec)
       @ [shardingModeToSpecValue (detectShardingMode spec)])"

definition resolveTopRepl :: "ShardingDatabaseSpec \<Rightarrow> string" where
  "resolveTopRepl spec =
     firstNonEmpty (normalizeReplicationValue (spec_ReplicationType spec)
       # map (\<lambda>c. normalizeReplicationValue (cat_Repl c)) (spec_Catalog spec)
       @ [replDG])"

definition defaultCatalogTopology :: "string \<Rightarrow> string \<Rightarrow> CatalogSpec \<Rightarrow> CatalogSpec" where
  "defaultCatalogTopology topSharding topRepl c =
     (let c1 = (if topSharding \<noteq> []
                then c\<lparr>cat_Sharding := (let v = normalizeShardingValue (cat_Sharding c) in if v = [] then topSharding else v)\<rparr>
                else c);
          r = normalizeReplicationValue (cat_Repl c1)
      in c1\<lparr>cat_Repl := (if r = [] then topRepl else r)\<rparr>)"

definition applyGlobalShardingReplicationDefaults :: "ShardingDatabaseSpec \<Rightarrow> ShardingDatabaseSpec" where
  "applyGlobalShardingReplicationDefaults spec =
     (let topSharding = resolveTopSharding spec;
          topRepl = resolveTopRepl spec;
          spec1 = (if topSharding \<noteq> [] then spec\<lparr>spec_ShardingType := topSharding\<rparr> else spec);
          spec2 = spec1\<lparr>spec_ReplicationType := topRepl\<rparr>
      in spec2\<lparr>spec_Catalog := map (defaultCatalogTopology topSharding topRepl) (spec_Catalog spec2)\<rparr>)"

definition catalogTopologyErrs :: "string \<Rightarrow> string \<Rightarrow> nat \<Rightarrow> CatalogSpec \<Rightarrow> error_list" where
  "catalogTopologyErrs topSharding topRepl i c =
     (let csh = normalizeShardingValue (cat_Sharding c) in
      if topSharding \<noteq> [] \<and> csh \<noteq> [] \<and> topSharding \<noteq> csh
      then [Invalid [Child ''spec'', Child ''catalog'', Index i, Child ''sharding''] (BVString (cat_Sharding c))] else [])
     @ (let crepl = normalizeReplicationValue (cat_Repl c) in
        if crepl \<noteq> [] \<and> topRepl \<noteq> crepl
        then [Invalid [Child ''spec'', Child ''catalog'', Index i, Child ''repl''] (BVString (cat_Repl c))] else [])"

definition validateCatalogTopologyConsistency :: "ShardingDatabaseSpec \<Rightarrow> error_list" where
  "validateCatalogTopologyConsistency spec =
     (let topSharding = normalizeShardingValue (spec_ShardingType spec);
          r = normalizeReplicationValue (spec_ReplicationType spec);
          topRepl = (if r = [] then replDG else r)
      in range_errs (catalogTopologyErrs topSharding topRepl) (spec_Catalog spec))"

lemma firstNonEmpty_in: "firstNonEmpty vs = [] \<or> firstNonEmpty vs \<in> set vs"
  by (induction vs) auto

lemma firstNonEmpty_Nil_iff: "firstNonEmpty vs = [] \<longleftrightarrow> (\<forall>v \<in> set vs. v = [])"
  by (induction vs) auto

lemma shardingModeToSpecValue_norm [simp]:
  "normalizeShardingValue (shardingModeToSpecValue m) = shardingModeToSpecValue m"
  by (cases m) (simp_all add: normalizeShardingValue_def Let_def)

lemma resolveTopSharding_norm [simp]: "normalizeShardingValue (resolveTopSharding spec) = resolveTopSharding spec"
proof -
  have "\<forall>v \<in> set (normalizeShardingValue (spec_ShardingType spec)
       # map (\<lambda>c. normalizeShardingValue (cat_Sharding c)) (spec_Catalog spec)
       @ [shardingModeToSpecValue (detectShardingMode spec)]). normalizeShardingValue v = v" by auto
  then show ?thesis
    using firstNonEmpty_in unfolding resolveTopSharding_def by (metis sharding.norm_Nil)
qed

lemma resolveTopRepl_norm [simp]: "normalizeReplicationValue (resolveTopRepl spec) = resolveTopRepl spec"
proof -
  have "normalizeReplicationValue replDG = replDG" by (simp add: normalizeReplicationValue_def Let_def repl_defs go_eval)
  then have "\<forall>v \<in> set (normalizeReplicationValue (spec_ReplicationType spec)
       # map (\<lambda>c. normalizeReplicationValue (cat_Repl c)) (spec_Catalog spec) @ [replDG]).
       normalizeReplicationValue v = v" by auto
  then show ?thesis
    using firstNonEmpty_in unfolding resolveTopRepl_def by (metis replication.norm_Nil)
qed

lemma resolveTopRepl_not_Nil [simp]: "resolveTopRepl spec \<noteq> []"
  unfolding resolveTopRepl_def firstNonEmpty_Nil_iff by simp

lemma resolveTopSharding_Nil_iff:
  "resolveTopSharding spec = [] \<longleftrightarrow> normalizeShardingValue (spec_ShardingType spec) = [] \<and>
     (\<forall>c \<in> set (spec_Catalog spec). normalizeShardingValue (cat_Sharding c) = []) \<and>
     shardingModeToSpecValue (detectShardingMode spec) = []"
  unfolding resolveTopSharding_def firstNonEmpty_Nil_iff by auto

lemma detectShardingMode_cong: "spec_ShardInfo s = spec_ShardInfo t \<Longrightarrow> detectShardingMode s = detectShardingMode t"
  by (simp add: detectShardingMode_def)

lemma applyGlobal_fields [simp]:
  "spec_ShardInfo (applyGlobalShardingReplicationDefaults spec) = spec_ShardInfo spec"
  "spec_ReplicationType (applyGlobalShardingReplicationDefaults spec) = resolveTopRepl spec"
  "spec_Shard (applyGlobalShardingReplicationDefaults spec) = spec_Shard spec"
  by (simp_all add: applyGlobalShardingReplicationDefaults_def Let_def)

lemma applyGlobal_ShardingType:
  "normalizeShardingValue (spec_ShardingType (applyGlobalShardingReplicationDefaults spec)) = resolveTopSharding spec"
proof (cases "resolveTopSharding spec = []")
  case True
  then have "normalizeShardingValue (spec_ShardingType spec) = []"
    by (simp add: resolveTopSharding_Nil_iff)
  with True show ?thesis by (simp add: applyGlobalShardingReplicationDefaults_def Let_def)
next
  case False
  then show ?thesis by (simp add: applyGlobalShardingReplicationDefaults_def Let_def)
qed

lemma defaultCatalogTopology_norms:
  "normalizeShardingValue (cat_Sharding (defaultCatalogTopology ts tr c)) =
     (if normalizeShardingValue (cat_Sharding c) \<noteq> [] then normalizeShardingValue (cat_Sharding c)
      else normalizeShardingValue ts)"
  "normalizeReplicationValue (cat_Repl (defaultCatalogTopology ts tr c)) =
     (if normalizeReplicationValue (cat_Repl c) \<noteq> [] then normalizeReplicationValue (cat_Repl c)
      else normalizeReplicationValue tr)"
  by (auto simp: defaultCatalogTopology_def Let_def sharding.norm_Nil)

text \<open>
  after the top-level defaults are applied, the catalog consistency check accepts the object
  exactly when every catalog that names a sharding or replication type itself names the resolved
  one. In particular a catalog that leaves both blank is never rejected.
\<close>

theorem catalog_defaults_consistent_iff:
  "validateCatalogTopologyConsistency (applyGlobalShardingReplicationDefaults spec) = [] \<longleftrightarrow>
     (\<forall>c \<in> set (spec_Catalog spec).
        (normalizeShardingValue (cat_Sharding c) = [] \<or> normalizeShardingValue (cat_Sharding c) = resolveTopSharding spec) \<and>
        (normalizeReplicationValue (cat_Repl c) = [] \<or> normalizeReplicationValue (cat_Repl c) = resolveTopRepl spec))"
proof -
  let ?s = "applyGlobalShardingReplicationDefaults spec"
  have cat: "spec_Catalog ?s = map (defaultCatalogTopology (resolveTopSharding spec) (resolveTopRepl spec)) (spec_Catalog spec)"
    by (simp add: applyGlobalShardingReplicationDefaults_def Let_def)
  have one: "catalogTopologyErrs (resolveTopSharding spec) (resolveTopRepl spec) i
        (defaultCatalogTopology (resolveTopSharding spec) (resolveTopRepl spec) c) = [] \<longleftrightarrow>
      (normalizeShardingValue (cat_Sharding c) = [] \<or> normalizeShardingValue (cat_Sharding c) = resolveTopSharding spec) \<and>
      (normalizeReplicationValue (cat_Repl c) = [] \<or> normalizeReplicationValue (cat_Repl c) = resolveTopRepl spec)"
    if "c \<in> set (spec_Catalog spec)" for c i
    using that
    by (cases "resolveTopSharding spec = []")
      (auto simp: resolveTopSharding_Nil_iff catalogTopologyErrs_def Let_def defaultCatalogTopology_norms)
  show ?thesis
    unfolding validateCatalogTopologyConsistency_def Let_def range_errs_Nil_iff cat applyGlobal_ShardingType
    by (simp add: one all_set_conv_all_nth)
qed

definition catalogExample :: "string \<Rightarrow> string \<Rightarrow> CatalogSpec" where
  "catalogExample shard repl = zeroCatalogSpec\<lparr>cat_Name := ''catalog'', cat_Sharding := shard, cat_Repl := repl\<rparr>"

theorem catalog_defaults_consistent_iff_witness:
  "validateCatalogTopologyConsistency (applyGlobalShardingReplicationDefaults
     (zeroShardingDatabaseSpec\<lparr>spec_ShardingType := ''system'', spec_Catalog := [catalogExample [] '' raft'']\<rparr>)) = [] \<and>
   validateCatalogTopologyConsistency (applyGlobalShardingReplicationDefaults
     (zeroShardingDatabaseSpec\<lparr>spec_ShardingType := ''system'', spec_Catalog := [catalogExample ''USER'' []]\<rparr>)) \<noteq> []"
  unfolding catalog_defaults_consistent_iff
  by (simp add: catalogExample_def zero_defs resolveTopSharding_def resolveTopRepl_def
      normalizeShardingValue_def normalizeReplicationValue_def repl_defs Let_def go_eval)

end
