(* ===== verification/Sharding_Sources.thy ===== *)
theory Sharding_Sources
  imports Sharding_Modes
begin

text \<open>
  Primary sources of standby shards and the number of shards a \<^verbatim>\<open>shardInfo\<close> entry asks for
  (\<^verbatim>\<open>apis/database/v4/shardingdatabase_webhook.go\<close>): the identity key of a source, the check of a
  source list, and the replica counts in 32- and 64-bit arithmetic with their common bound.
\<close>

section \<open>Primary sources\<close>

text \<open>\<^verbatim>\<open>unicode.IsControl\<close> on ASCII.\<close>

definition IsControl :: "char \<Rightarrow> bool" where
  "IsControl c \<longleftrightarrow> (let n = (of_char c :: nat) in n < 32 \<or> n = 127)"

text \<open>The characters that end or quote a DGMGRL argument: newline, return, double quote, semicolon, quote.\<close>

definition isDgmgrlMeta :: "char \<Rightarrow> bool" where
  "isDgmgrlMeta c \<longleftrightarrow> c \<in> {CHR 0x0A, CHR 0x0D, CHR 0x22, CHR '';''} \<or> c = CHR 0x27"

text \<open>\<^verbatim>\<open>validateDgmgrlConnectString\<close>: \<open>True\<close> for a nil error.\<close>

definition validateDgmgrlConnectString :: "string \<Rightarrow> bool" where
  "validateDgmgrlConnectString connect =
     (let c = TrimSpace connect in c = [] \<or> list_all (\<lambda>r. \<not> isDgmgrlMeta r \<and> \<not> IsControl r) c)"

text \<open>The key of a source given by endpoint details.\<close>

definition endpointIdentityKey :: "PrimaryEndpointRef \<Rightarrow> string" where
  "endpointIdentityKey details =
     (if \<not> blank (per_ConnectString details) then ''endpoint:'' @ ToLower (TrimSpace (per_ConnectString details))
      else
        (let host = ToLower (TrimSpace (per_Host details));
             cdb = ToLower (TrimSpace (per_CdbName details));
             pdb = ToLower (TrimSpace (per_PdbName details));
             port = (if per_Port details \<le> 0 then 1521 else per_Port details)
         in if host = [] \<and> cdb = [] \<and> pdb = [] then []
            else ''endpoint:'' @ host @ '':'' @ itoa port @ ''/'' @ cdb @ ''/'' @ pdb))"

definition standbyPrimarySourceIdentityKey :: "StandbyPrimarySource \<Rightarrow> string \<Rightarrow> string" where
  "standbyPrimarySourceIdentityKey source defaultNamespace =
     (let rest = (if \<not> blank (sps_ConnectString source)
                  then ''connect:'' @ ToLower (TrimSpace (sps_ConnectString source))
                  else (case sps_Details source of None \<Rightarrow> [] | Some details \<Rightarrow> endpointIdentityKey details))
      in case sps_DatabaseRef source of
           None \<Rightarrow> rest
         | Some ref \<Rightarrow>
             if \<not> blank (pcr_Name ref)
             then (let ns = TrimSpace (pcr_Namespace ref);
                       ns' = (if ns = [] then defaultNamespace else ns)
                   in ''ref:'' @ ToLower (ns' @ ''/'' @ TrimSpace (pcr_Name ref)))
             else rest)"

definition selectedModes :: "StandbyPrimarySource \<Rightarrow> nat" where
  "selectedModes source =
     (if sps_DatabaseRef source \<noteq> None then 1 else 0)
     + (if \<not> blank (sps_ConnectString source) then 1 else 0)
     + (if sps_Details source \<noteq> None then 1 else 0)"

definition endpointErrs :: "path \<Rightarrow> bool \<Rightarrow> PrimaryEndpointRef \<Rightarrow> error_list" where
  "endpointErrs p requireStructured details =
     (if \<not> blank (per_ConnectString details) \<and> \<not> validateDgmgrlConnectString (TrimSpace (per_ConnectString details))
      then [Invalid (p @ [Child ''connectString'']) (BVString (per_ConnectString details))] else [])
     @ (if requireStructured \<or> blank (per_ConnectString details)
        then (if blank (per_Host details) then [Required (p @ [Child ''host''])] else [])
             @ (if blank (per_CdbName details) then [Required (p @ [Child ''cdbName''])] else [])
        else [])
     @ (if per_Port details < 0 then [Invalid (p @ [Child ''port'']) (BVInt (per_Port details))] else [])"

definition primarySourceErrs :: "path \<Rightarrow> bool \<Rightarrow> nat \<Rightarrow> StandbyPrimarySource \<Rightarrow> error_list" where
  "primarySourceErrs p requireStructured i source =
     (let sp = p @ [Index i]; selected = selectedModes source in
      (if \<not> blank (sps_ConnectString source) \<and> \<not> validateDgmgrlConnectString (TrimSpace (sps_ConnectString source))
       then [Invalid (sp @ [Child ''connectString'']) (BVString (sps_ConnectString source))] else [])
      @ (if selected = 0 then [Required sp] else [])
      @ (if selected > 1 then [Forbidden sp] else [])
      @ (case sps_DatabaseRef source of None \<Rightarrow> []
         | Some ref \<Rightarrow> if blank (pcr_Name ref) then [Required (sp @ [Child ''databaseRef'', Child ''name''])] else [])
      @ (if requireStructured \<and> sps_Details source = None then [Required (sp @ [Child ''details''])] else [])
      @ (case sps_Details source of None \<Rightarrow> []
         | Some details \<Rightarrow> endpointErrs (sp @ [Child ''details'']) requireStructured details))"

definition identityKeyOpt :: "string \<Rightarrow> StandbyPrimarySource \<Rightarrow> string option" where
  "identityKeyOpt ns source =
     (let key = standbyPrimarySourceIdentityKey source ns in if key = [] then None else Some key)"

definition validatePrimarySourceList :: "path \<Rightarrow> StandbyPrimarySource list \<Rightarrow> string \<Rightarrow> bool \<Rightarrow> error_list" where
  "validatePrimarySourceList p sources defaultNamespace requireStructuredDetails =
     range_seen (primarySourceErrs p requireStructuredDetails) (identityKeyOpt defaultNamespace)
       (\<lambda>i source prior. Duplicate (p @ [Index i]) (BVString (standbyPrimarySourceIdentityKey source defaultNamespace)))
       (\<lambda>_ _. []) sources"

text \<open>The two wrappers pick the list out of the \<^verbatim>\<open>shardInfo\<close> entry.\<close>

definition validateStandbyConfigPrimarySourceExclusive :: "string \<Rightarrow> nat \<Rightarrow> ShardingDetails \<Rightarrow> error_list" where
  "validateStandbyConfigPrimarySourceExclusive ns i info =
     (case si_StandbyConfig info of None \<Rightarrow> []
      | Some cfg \<Rightarrow>
          validatePrimarySourceList
            [Child ''spec'', Child ''shardInfo'', Index i, Child ''standbyConfig'', Child ''primarySources'']
            (sbc_PrimarySources cfg) ns False)"

definition validateExternalPrimarySourceExclusive :: "string \<Rightarrow> nat \<Rightarrow> ShardingDetails \<Rightarrow> error_list" where
  "validateExternalPrimarySourceExclusive ns i info =
     validatePrimarySourceList [Child ''spec'', Child ''shardInfo'', Index i, Child ''externalPrimarySources'']
       (si_ExternalPrimarySources info) ns True"

lemma validateDgmgrl_TrimSpace [simp]:
  "validateDgmgrlConnectString (TrimSpace s) = validateDgmgrlConnectString s"
  by (simp add: validateDgmgrlConnectString_def Let_def)

lemma validateDgmgrl_iff:
  "validateDgmgrlConnectString s \<longleftrightarrow> (\<forall>c \<in> set (TrimSpace s). \<not> isDgmgrlMeta c \<and> \<not> IsControl c)"
  by (auto simp: validateDgmgrlConnectString_def Let_def list_all_iff)

lemma primarySourceErrs_Nil_D:
  assumes "primarySourceErrs p req i source = []"
  shows "selectedModes source = 1"
    and "validateDgmgrlConnectString (sps_ConnectString source)"
    and "sps_Details source = Some d \<Longrightarrow> endpointErrs (p @ [Index i, Child ''details'']) req d = []"
    and "req \<Longrightarrow> sps_Details source \<noteq> None"
proof -
  have nil: "validateDgmgrlConnectString s" if "blank s" for s
    using that by (simp add: validateDgmgrlConnectString_def)
  show "selectedModes source = 1"
    using assms by (auto simp: primarySourceErrs_def Let_def split: if_splits)
  show "validateDgmgrlConnectString (sps_ConnectString source)"
    using assms nil by (auto simp: primarySourceErrs_def Let_def split: if_splits)
  show "endpointErrs (p @ [Index i, Child ''details'']) req d = []" if "sps_Details source = Some d"
    using assms that by (simp add: primarySourceErrs_def Let_def)
  show "sps_Details source \<noteq> None" if "req"
    using assms that by (auto simp: primarySourceErrs_def Let_def)
qed

lemma endpointErrs_connect:
  "endpointErrs p req d = [] \<Longrightarrow> validateDgmgrlConnectString (per_ConnectString d)"
  by (auto simp: endpointErrs_def validateDgmgrlConnectString_def Let_def split: if_splits)

text \<open>
  a primary-source list that passes validation selects exactly one way of naming each primary, names no
  primary twice, and carries no DGMGRL metacharacter or control character in any connect string: a
  connect string cannot break out of the DGMGRL command it is placed in.
\<close>

theorem primary_sources_accepted:
  assumes "validatePrimarySourceList p sources ns req = []" and "s \<in> set sources"
  shows "selectedModes s = 1 \<and> distinct (List.map_filter (identityKeyOpt ns) sources) \<and>
    (\<forall>c \<in> set (TrimSpace (sps_ConnectString s)). \<not> isDgmgrlMeta c \<and> \<not> IsControl c) \<and>
    (\<forall>d. sps_Details s = Some d \<longrightarrow>
       (\<forall>c \<in> set (TrimSpace (per_ConnectString d)). \<not> isDgmgrlMeta c \<and> \<not> IsControl c))"
proof -
  obtain i where i: "i < length sources" "s = sources ! i"
    using assms(2) by (metis in_set_conv_nth)
  have e: "primarySourceErrs p req i s = []"
    and "distinct (List.map_filter (identityKeyOpt ns) sources)"
    using assms(1) i by (simp_all add: validatePrimarySourceList_def range_seen_Nil_iff)
  moreover have "\<forall>c \<in> set (TrimSpace (per_ConnectString d)). \<not> isDgmgrlMeta c \<and> \<not> IsControl c"
    if "sps_Details s = Some d" for d
    using endpointErrs_connect [OF primarySourceErrs_Nil_D(3) [OF e that]] by (simp add: validateDgmgrl_iff)
  ultimately show ?thesis
    using primarySourceErrs_Nil_D(1,2) [OF e] by (auto simp: validateDgmgrl_iff)
qed

definition connectSource :: "string \<Rightarrow> StandbyPrimarySource" where
  "connectSource c = zeroStandbyPrimarySource\<lparr>sps_ConnectString := c\<rparr>"

theorem primary_sources_accepted_witness:
  "validatePrimarySourceList [] [connectSource ''db1:1521/p'', connectSource ''db2''] [] False = [] \<and>
   selectedModes (connectSource ''db2'') = 1"
proof -
  have h: "validatePrimarySourceList [] [connectSource ''db1:1521/p'', connectSource ''db2''] [] False = []"
    by (simp add: validatePrimarySourceList_def range_seen_Nil_iff less_Suc_eq numeral_2_eq_2 primarySourceErrs_def
        connectSource_def zero_defs identityKeyOpt_def standbyPrimarySourceIdentityKey_def selectedModes_def
        validateDgmgrlConnectString_def isDgmgrlMeta_def IsControl_def List.map_filter_simps Let_def go_eval)
  show ?thesis
    using h primary_sources_accepted [OF h, of "connectSource ''db2''"] by simp
qed


section \<open>Counting primaries\<close>

fun countIdentityKeys :: "string \<Rightarrow> string set \<Rightarrow> int \<Rightarrow> StandbyPrimarySource list \<Rightarrow> int" where
  "countIdentityKeys ns seen cnt [] = cnt"
| "countIdentityKeys ns seen cnt (s # ss) =
     (let key = standbyPrimarySourceIdentityKey s ns in
      if key = [] \<or> key \<in> seen then countIdentityKeys ns seen cnt ss
      else countIdentityKeys ns (insert key seen) (wrap32 (cnt + 1)) ss)"

definition externalPrimarySourceCount :: "StandbyPrimarySource list \<Rightarrow> string \<Rightarrow> int" where
  "externalPrimarySourceCount sources defaultNamespace = countIdentityKeys defaultNamespace {} 0 sources"

definition standbyConfigPrimarySourceCount :: "StandbyConfig option \<Rightarrow> string \<Rightarrow> int" where
  "standbyConfigPrimarySourceCount cfg defaultNamespace =
     (case cfg of None \<Rightarrow> 0 | Some c \<Rightarrow> countIdentityKeys defaultNamespace {} 0 (sbc_PrimarySources c))"

definition standbyConfigPrimaryCount :: "StandbyConfig option \<Rightarrow> int" where
  "standbyConfigPrimaryCount cfg = standbyConfigPrimarySourceCount cfg []"

definition standbyConfigDerivedShardCount :: "StandbyConfig option \<Rightarrow> int" where
  "standbyConfigDerivedShardCount cfg =
     (case cfg of None \<Rightarrow> 0
      | Some c \<Rightarrow>
          let primaryCount = standbyConfigPrimaryCount cfg in
          if primaryCount = 0 then 0
          else (let perPrimary = (if sbc_StandbyPerPrimary c \<le> 0 then 1 else sbc_StandbyPerPrimary c)
                in wrap32 (primaryCount * perPrimary)))"

definition standbyConfigDerivedShardCount64 :: "StandbyConfig option \<Rightarrow> int" where
  "standbyConfigDerivedShardCount64 cfg =
     (case cfg of None \<Rightarrow> 0
      | Some c \<Rightarrow>
          let primaryCount = standbyConfigPrimaryCount cfg in
          if primaryCount = 0 then 0
          else (let perPrimary = (if sbc_StandbyPerPrimary c \<le> 0 then 1 else sbc_StandbyPerPrimary c)
                in wrap64 (primaryCount * perPrimary)))"

lemma wrap32_succ: "0 \<le> c \<Longrightarrow> c + 1 < 2 ^ 31 \<Longrightarrow> wrap32 (c + 1) = c + 1"
  by (simp add: wrap32_small)

lemma countIdentityKeys_card:
  assumes "0 \<le> c" and "c + int (length ss) < 2 ^ 31" and "finite seen"
  shows "countIdentityKeys ns seen c ss =
    c + int (card ({standbyPrimarySourceIdentityKey s ns |s. s \<in> set ss} - {[]} - seen))"
  using assms
proof (induction ss arbitrary: seen c)
  case Nil
  then show ?case by simp
next
  case (Cons s ss)
  let ?k = "standbyPrimarySourceIdentityKey s ns"
  let ?K = "\<lambda>xs. {standbyPrimarySourceIdentityKey s ns |s. s \<in> set xs} - {[]}"
  have fin: "finite (?K xs)" for xs by (simp add: setcompr_eq_image)
  show ?case
  proof (cases "?k = [] \<or> ?k \<in> seen")
    case True
    then have "?K (s # ss) - seen = ?K ss - seen" by auto
    with True Cons show ?thesis by simp
  next
    case False
    have eq: "?K (s # ss) - seen = insert ?k (?K ss - insert ?k seen)" using False by auto
    have "card (?K (s # ss) - seen) = Suc (card (?K ss - insert ?k seen))"
      unfolding eq by (rule card_insert_disjoint) (use fin in auto)
    moreover have "wrap32 (c + 1) = c + 1" using Cons.prems by (intro wrap32_succ) simp_all
    ultimately show ?thesis
      using False Cons.prems Cons.IH [of "c + 1" "insert ?k seen"] by simp
  qed
qed

lemma countIdentityKeys_nonneg:
  "int (length ss) < 2 ^ 31 \<Longrightarrow> 0 \<le> countIdentityKeys ns {} 0 ss"
  by (simp add: countIdentityKeys_card)

lemma countIdentityKeys_le:
  "int (length ss) < 2 ^ 31 \<Longrightarrow> countIdentityKeys ns {} 0 ss \<le> int (length ss)"
  by (simp add: countIdentityKeys_card setcompr_eq_image)
    (meson List.finite_set Diff_subset card_image_le card_mono dual_order.trans finite_imageI card_length)

end
