(* ===== verification/Sharding_Replicas.thy ===== *)
theory Sharding_Replicas
  imports Sharding_Sources
begin

text \<open>
  How many shards the \<^verbatim>\<open>shardInfo\<close> entries ask for
  (\<^verbatim>\<open>apis/database/v4/shardingdatabase_webhook.go\<close>). \<open>desiredShardReplicaTotal\<close> computes in 64 bits and
  bounds the total by 1024; \<open>getShardInfoCount\<close> and \<open>getShardInfoCountByMode\<close> compute one entry in
  32 bits. The theorems say what is accepted and that the bound excludes every overflow.
\<close>

definition maxDesiredShardReplicas :: int where
  "maxDesiredShardReplicas = 1024"

definition getShardInfoCount :: "ShardingDetails \<Rightarrow> int" where
  "getShardInfoCount info =
     (let c = standbyConfigDerivedShardCount (si_StandbyConfig info) in
      if c > 0 then c
      else if si_ShardNum info > 0 then si_ShardNum info
      else if si_Replicas info > 0 then si_Replicas info
      else 0)"

definition getShardInfoCountByMode :: "shardingMode \<Rightarrow> ShardingDetails \<Rightarrow> int" where
  "getShardInfoCountByMode mode info =
     (if mode = modeUser \<and> standbyConfigDerivedShardCount (si_StandbyConfig info) > 0
      then standbyConfigDerivedShardCount (si_StandbyConfig info)
      else if si_ShardNum info > 0 then si_ShardNum info
      else if si_Replicas info > 0 then si_Replicas info
      else 0)"

definition desiredShardInfoReplicaCount :: "shardingMode \<Rightarrow> ShardingDetails \<Rightarrow> path \<Rightarrow> int \<times> path" where
  "desiredShardInfoReplicaCount mode info infoPath =
     (if mode = modeUser \<and> standbyConfigDerivedShardCount64 (si_StandbyConfig info) > 0
      then (standbyConfigDerivedShardCount64 (si_StandbyConfig info),
            infoPath @ [Child ''standbyConfig'', Child ''standbyPerPrimary''])
      else if si_ShardNum info > 0 then (si_ShardNum info, infoPath @ [Child ''shardNum''])
      else if si_Replicas info > 0 then (si_Replicas info, infoPath @ [Child ''replicas''])
      else (0, infoPath @ [Child ''shardNum'']))"

text \<open>The count of one entry after the default, with the path an error is reported at.\<close>

definition effectiveReplicaCount :: "shardingMode \<Rightarrow> nat \<Rightarrow> ShardingDetails \<Rightarrow> int \<times> path" where
  "effectiveReplicaCount mode i info =
     (let (cnt, countPath) = desiredShardInfoReplicaCount mode info [Child ''spec'', Child ''shardInfo'', Index i] in
      if cnt = 0
      then ((if mode = modeUser then 1 else 2), [Child ''spec'', Child ''shardInfo'', Index i, Child ''shardNum''])
      else (cnt, countPath))"

fun desiredTotalLoop :: "shardingMode \<Rightarrow> nat \<Rightarrow> int \<Rightarrow> error_list \<Rightarrow> ShardingDetails list \<Rightarrow> int \<times> error_list" where
  "desiredTotalLoop mode i tot errs [] = (tot, errs)"
| "desiredTotalLoop mode i tot errs (info # infos) =
     (let (cnt, countPath) = effectiveReplicaCount mode i info;
          errs1 = errs @ (if cnt > maxDesiredShardReplicas then [Invalid countPath (BVInt cnt)] else []);
          tot' = wrap64 (tot + cnt)
      in if tot' > maxDesiredShardReplicas
         then (tot', errs1 @ [Invalid [Child ''spec'', Child ''shardInfo''] (BVInt tot')])
         else desiredTotalLoop mode (Suc i) tot' errs1 infos)"

definition desiredShardReplicaTotal :: "ShardingDatabaseSpec \<Rightarrow> int \<times> error_list" where
  "desiredShardReplicaTotal spec =
     (let (tot, allErrs) = desiredTotalLoop (normalizeShardingType spec) 0 0 [] (spec_ShardInfo spec) in
      if allErrs \<noteq> [] then (0, allErrs) else (wrap32 tot, []))"

definition validateDesiredShardReplicaCounts :: "ShardingDatabaseSpec \<Rightarrow> error_list" where
  "validateDesiredShardReplicaCounts spec = snd (desiredShardReplicaTotal spec)"

definition countTotalReplicas :: "ShardingDetails list \<Rightarrow> int" where
  "countTotalReplicas infos =
     (let (tot, errs) = desiredShardReplicaTotal (zeroShardingDatabaseSpec\<lparr>spec_ShardInfo := infos\<rparr>) in
      if errs \<noteq> [] then 0 else tot)"


section \<open>What is accepted\<close>

text \<open>The \<^verbatim>\<open>int32\<close> fields of an entry hold 32-bit values, and its source list is not astronomically long.\<close>

definition wf_info :: "ShardingDetails \<Rightarrow> bool" where
  "wf_info info \<longleftrightarrow> in_int32 (si_ShardNum info) \<and> in_int32 (si_Replicas info) \<and>
     (\<forall>cfg. si_StandbyConfig info = Some cfg \<longrightarrow>
        in_int32 (sbc_StandbyPerPrimary cfg) \<and> int (length (sbc_PrimarySources cfg)) < 2 ^ 31)"

abbreviation effCount :: "shardingMode \<Rightarrow> ShardingDetails \<Rightarrow> int" where
  "effCount mode info \<equiv> fst (effectiveReplicaCount mode 0 info)"

lemma effectiveReplicaCount_index: "fst (effectiveReplicaCount mode i info) = effCount mode info"
  by (simp add: effectiveReplicaCount_def desiredShardInfoReplicaCount_def Let_def)

lemma derived_product:
  assumes "wf_info info" and "si_StandbyConfig info = Some cfg"
  defines "pp \<equiv> (if sbc_StandbyPerPrimary cfg \<le> 0 then 1 else sbc_StandbyPerPrimary cfg)"
  shows "0 \<le> standbyConfigPrimaryCount (Some cfg) * pp" and "standbyConfigPrimaryCount (Some cfg) * pp < 2 ^ 62"
    and "standbyConfigDerivedShardCount64 (Some cfg) = standbyConfigPrimaryCount (Some cfg) * pp"
    and "standbyConfigDerivedShardCount (Some cfg) = wrap32 (standbyConfigPrimaryCount (Some cfg) * pp)"
proof -
  let ?pc = "standbyConfigPrimaryCount (Some cfg)"
  have len: "int (length (sbc_PrimarySources cfg)) < 2 ^ 31" and b: "sbc_StandbyPerPrimary cfg < 2 ^ 31"
    using assms(1,2) by (auto simp: wf_info_def in_int32_def)
  have pc: "0 \<le> ?pc" "?pc \<le> 2 ^ 31 - 1"
    using countIdentityKeys_nonneg [OF len, of "[]"] countIdentityKeys_le [OF len, of "[]"] len
    by (simp_all add: standbyConfigPrimaryCount_def standbyConfigPrimarySourceCount_def)
  have pp: "1 \<le> pp" "pp \<le> 2 ^ 31 - 1" using b by (auto simp: pp_def)
  have "?pc * pp \<le> (2 ^ 31 - 1) * (2 ^ 31 - 1)" using pc pp by (intro mult_mono) auto
  then show lt: "?pc * pp < 2 ^ 62" by simp
  show ge: "0 \<le> ?pc * pp" using pc pp by simp
  show "standbyConfigDerivedShardCount64 (Some cfg) = ?pc * pp"
    using wrap64_small [of "?pc * pp"] lt ge by (simp add: standbyConfigDerivedShardCount64_def pp_def Let_def)
  show "standbyConfigDerivedShardCount (Some cfg) = wrap32 (?pc * pp)"
    by (simp add: standbyConfigDerivedShardCount_def pp_def Let_def wrap32_def)
qed

lemma derived64_bounds:
  assumes "wf_info info"
  shows "0 \<le> standbyConfigDerivedShardCount64 (si_StandbyConfig info)"
    and "standbyConfigDerivedShardCount64 (si_StandbyConfig info) < 2 ^ 62"
  using derived_product(1,2,3) [OF assms]
  by (cases "si_StandbyConfig info"; simp add: standbyConfigDerivedShardCount64_def)+

lemma derived32_eq:
  assumes "wf_info info" and "standbyConfigDerivedShardCount64 (si_StandbyConfig info) \<le> 1024"
  shows "standbyConfigDerivedShardCount (si_StandbyConfig info) = standbyConfigDerivedShardCount64 (si_StandbyConfig info)"
proof (cases "si_StandbyConfig info")
  case None
  then show ?thesis by (simp add: standbyConfigDerivedShardCount_def standbyConfigDerivedShardCount64_def)
next
  case (Some cfg)
  show ?thesis
    using derived_product [OF assms(1) Some] assms(2) Some by (auto intro!: wrap32_small)
qed

lemma effCount_bounds:
  assumes "wf_info info"
  shows "1 \<le> effCount mode info" and "effCount mode info < 2 ^ 62"
  using assms derived64_bounds [OF assms]
  by (auto simp: effectiveReplicaCount_def desiredShardInfoReplicaCount_def Let_def wf_info_def in_int32_def)

lemma effCount_nonneg: "wf_info info \<Longrightarrow> 0 \<le> effCount mode info"
  using effCount_bounds(1) [of info mode] by simp

lemma effSum_nonneg: "\<forall>info \<in> set xs. wf_info info \<Longrightarrow> 0 \<le> sum_list (map (effCount mode) xs)"
  by (rule sum_list_nonneg) (auto intro: effCount_nonneg)

lemma desiredTotalLoop_iff:
  assumes "0 \<le> tot" and "tot \<le> 1024" and "\<forall>info \<in> set infos. wf_info info"
  shows "snd (desiredTotalLoop mode i tot errs infos) = [] \<longleftrightarrow>
      errs = [] \<and> tot + sum_list (map (effCount mode) infos) \<le> 1024"
    and "snd (desiredTotalLoop mode i tot errs infos) = [] \<Longrightarrow>
      fst (desiredTotalLoop mode i tot errs infos) = tot + sum_list (map (effCount mode) infos)"
proof -
  have "(snd (desiredTotalLoop mode i tot errs infos) = [] \<longleftrightarrow>
      errs = [] \<and> tot + sum_list (map (effCount mode) infos) \<le> 1024) \<and>
    (snd (desiredTotalLoop mode i tot errs infos) = [] \<longrightarrow>
      fst (desiredTotalLoop mode i tot errs infos) = tot + sum_list (map (effCount mode) infos))"
    using assms
  proof (induction infos arbitrary: i tot errs)
    case Nil
    then show ?case by simp
  next
    case (Cons info infos)
    let ?c = "effCount mode info"
    have c: "1 \<le> ?c" "?c < 2 ^ 62" using effCount_bounds Cons.prems by auto
    then have w: "wrap64 (tot + ?c) = tot + ?c" using Cons.prems by (intro wrap64_small) auto
    obtain p where p: "effectiveReplicaCount mode i info = (?c, p)"
      using effectiveReplicaCount_index by (metis prod.collapse)
    have pos: "0 \<le> sum_list (map (effCount mode) infos)"
      using Cons.prems by (intro effSum_nonneg) simp
    show ?case
    proof (cases "tot + ?c > 1024")
      case True
      then show ?thesis using p w pos by (simp add: maxDesiredShardReplicas_def Let_def)
    next
      case False
      then show ?thesis
        using p w c Cons.prems Cons.IH [of "tot + ?c"] by (auto simp: maxDesiredShardReplicas_def Let_def)
    qed
  qed
  then show "snd (desiredTotalLoop mode i tot errs infos) = [] \<longleftrightarrow>
      errs = [] \<and> tot + sum_list (map (effCount mode) infos) \<le> 1024"
    and "snd (desiredTotalLoop mode i tot errs infos) = [] \<Longrightarrow>
      fst (desiredTotalLoop mode i tot errs infos) = tot + sum_list (map (effCount mode) infos)"
    by auto
qed

lemma desiredShardReplicaTotal_ok:
  assumes "\<forall>info \<in> set (spec_ShardInfo spec). wf_info info"
  shows "desiredShardReplicaTotal spec = (t, []) \<longleftrightarrow>
    t = sum_list (map (effCount (normalizeShardingType spec)) (spec_ShardInfo spec)) \<and> t \<le> 1024"
proof -
  let ?m = "normalizeShardingType spec"
  let ?S = "sum_list (map (effCount ?m) (spec_ShardInfo spec))"
  let ?L = "desiredTotalLoop ?m 0 0 [] (spec_ShardInfo spec)"
  have pos: "0 \<le> ?S" by (rule effSum_nonneg [OF assms])
  have iff: "snd ?L = [] \<longleftrightarrow> ?S \<le> 1024"
    using desiredTotalLoop_iff(1) [of 0 "spec_ShardInfo spec" ?m 0 "[]"] assms by simp
  have val: "snd ?L = [] \<Longrightarrow> fst ?L = ?S"
    using desiredTotalLoop_iff(2) [of 0 "spec_ShardInfo spec" ?m 0 "[]"] assms by simp
  have w: "?S \<le> 1024 \<Longrightarrow> wrap32 ?S = ?S" using pos by (intro wrap32_small) auto
  show ?thesis
    using iff val w by (cases ?L) (auto simp: desiredShardReplicaTotal_def)
qed

lemma validateCounts_Nil_iff:
  assumes "\<forall>info \<in> set (spec_ShardInfo spec). wf_info info"
  shows "validateDesiredShardReplicaCounts spec = [] \<longleftrightarrow>
      sum_list (map (effCount (normalizeShardingType spec)) (spec_ShardInfo spec)) \<le> 1024"
    and "validateDesiredShardReplicaCounts spec = [] \<Longrightarrow> fst (desiredShardReplicaTotal spec) =
      sum_list (map (effCount (normalizeShardingType spec)) (spec_ShardInfo spec))"
proof -
  let ?S = "sum_list (map (effCount (normalizeShardingType spec)) (spec_ShardInfo spec))"
  obtain t e where te: "desiredShardReplicaTotal spec = (t, e)" by fastforce
  have t: "e = [] \<Longrightarrow> t = ?S \<and> ?S \<le> 1024"
    using desiredShardReplicaTotal_ok [OF assms, of t] te by blast
  have "?S \<le> 1024 \<Longrightarrow> e = []"
    using desiredShardReplicaTotal_ok [OF assms, of ?S] te by simp
  then have "e = [] \<longleftrightarrow> ?S \<le> 1024" using t by blast
  then show "validateDesiredShardReplicaCounts spec = [] \<longleftrightarrow> ?S \<le> 1024"
    by (simp add: validateDesiredShardReplicaCounts_def te)
  show "fst (desiredShardReplicaTotal spec) = ?S" if "validateDesiredShardReplicaCounts spec = []"
    using that t te unfolding validateDesiredShardReplicaCounts_def by simp
qed

lemma sum_list_ge_member:
  "x \<in> set xs \<Longrightarrow> \<forall>y \<in> set xs. (0::int) \<le> f y \<Longrightarrow> f x \<le> sum_list (map f xs)"
proof (induction xs)
  case (Cons y ys)
  have "0 \<le> sum_list (map f ys)" using Cons.prems by (intro sum_list_nonneg) auto
  then show ?case using Cons by auto
qed simp

lemma sum_list_ge_length:
  "\<forall>y \<in> set xs. (1::int) \<le> f y \<Longrightarrow> int (length xs) \<le> sum_list (map f xs)"
  by (induction xs) auto

text \<open>
  the replica validation accepts exactly the objects whose entries together ask for at most 1024 shards
  (after the default of one or two for an empty count), and the reported total is that sum: no
  intermediate 64- or 32-bit overflow can hide a larger request.
\<close>

theorem replica_total_accepted_iff:
  assumes "\<forall>info \<in> set (spec_ShardInfo spec). wf_info info"
  shows "(validateDesiredShardReplicaCounts spec = [] \<longleftrightarrow>
      sum_list (map (effCount (normalizeShardingType spec)) (spec_ShardInfo spec)) \<le> 1024) \<and>
    (validateDesiredShardReplicaCounts spec = [] \<longrightarrow>
      fst (desiredShardReplicaTotal spec) =
        sum_list (map (effCount (normalizeShardingType spec)) (spec_ShardInfo spec)) \<and>
      int (length (spec_ShardInfo spec)) \<le> fst (desiredShardReplicaTotal spec))"
proof -
  let ?S = "sum_list (map (effCount (normalizeShardingType spec)) (spec_ShardInfo spec))"
  have "int (length (spec_ShardInfo spec)) \<le> ?S"
    using assms effCount_bounds(1) by (intro sum_list_ge_length) auto
  then show ?thesis using validateCounts_Nil_iff [OF assms] by simp
qed

definition groupEntry :: "string \<Rightarrow> string \<Rightarrow> string \<Rightarrow> int \<Rightarrow> ShardingDetails" where
  "groupEntry pre grp deploy n = zeroShardingDetails\<lparr>si_ShardPreFixName := pre, si_ShardNum := n,
     si_ShardGroupDetails := Some (zeroShardGroupSpec\<lparr>sg_Name := grp, sg_DeployAs := deploy\<rparr>)\<rparr>"

theorem replica_total_accepted_iff_witness:
  "validateDesiredShardReplicaCounts
     (zeroShardingDatabaseSpec\<lparr>spec_ShardInfo := [groupEntry ''a'' ''g'' [] 1000, groupEntry ''b'' ''h'' [] 24]\<rparr>) = [] \<and>
   validateDesiredShardReplicaCounts
     (zeroShardingDatabaseSpec\<lparr>spec_ShardInfo := [groupEntry ''a'' ''g'' [] 1000, groupEntry ''b'' ''h'' [] 25]\<rparr>) \<noteq> []"
proof -
  let ?s = "\<lambda>n. zeroShardingDatabaseSpec\<lparr>spec_ShardInfo := [groupEntry ''a'' ''g'' [] 1000, groupEntry ''b'' ''h'' [] n]\<rparr>"
  have wf: "0 < n \<Longrightarrow> n < 100 \<Longrightarrow> \<forall>info \<in> set (spec_ShardInfo (?s n)). wf_info info" for n
    by (simp add: wf_info_def groupEntry_def zero_defs in_int32_def)
  have eff: "0 < n \<Longrightarrow> effCount m (groupEntry p g d n) = n" for m p g d n
    by (simp add: effectiveReplicaCount_def desiredShardInfoReplicaCount_def groupEntry_def zero_defs
        standbyConfigDerivedShardCount64_def)
  show ?thesis
    using replica_total_accepted_iff [OF wf [of 24]] replica_total_accepted_iff [OF wf [of 25]] by (simp add: eff)
qed

lemma count32_agrees:
  assumes "\<forall>info \<in> set (spec_ShardInfo spec). wf_info info"
    and "validateDesiredShardReplicaCounts spec = []" and "info \<in> set (spec_ShardInfo spec)"
  shows "getShardInfoCountByMode (normalizeShardingType spec) info =
    fst (desiredShardInfoReplicaCount (normalizeShardingType spec) info p)"
proof -
  let ?m = "normalizeShardingType spec"
  let ?d = "standbyConfigDerivedShardCount64 (si_StandbyConfig info)"
  have wf: "wf_info info" using assms(1,3) by blast
  have "effCount ?m info \<le> sum_list (map (effCount ?m) (spec_ShardInfo spec))"
    using assms(1,3) by (intro sum_list_ge_member) (auto intro: effCount_nonneg)
  then have "effCount ?m info \<le> 1024"
    using validateCounts_Nil_iff(1) [OF assms(1)] assms(2) by linarith
  then have "?m = modeUser \<Longrightarrow> ?d \<le> 1024"
    by (cases "0 < ?d") (simp_all add: effectiveReplicaCount_def desiredShardInfoReplicaCount_def)
  then have "?m = modeUser \<Longrightarrow> standbyConfigDerivedShardCount (si_StandbyConfig info) = ?d"
    by (rule derived32_eq [OF wf])
  then show ?thesis
    by (auto simp: getShardInfoCountByMode_def desiredShardInfoReplicaCount_def)
qed

text \<open>
  for an accepted object the 32-bit count of an entry is the 64-bit count it was validated with: wherever the
  webhook asks for the number of shards of an entry again, it gets the validated number (or zero for
  an entry without one).
\<close>

theorem replica_count32_agrees:
  assumes "\<forall>info \<in> set (spec_ShardInfo spec). wf_info info"
    and "validateDesiredShardReplicaCounts spec = []" and "info \<in> set (spec_ShardInfo spec)"
  shows "getShardInfoCountByMode (normalizeShardingType spec) info =
    fst (desiredShardInfoReplicaCount (normalizeShardingType spec) info p)"
  using assms by (rule count32_agrees)

theorem replica_count32_agrees_witness:
  "getShardInfoCountByMode modeSystem (groupEntry ''a'' ''g'' [] 3) = 3"
proof -
  let ?s = "zeroShardingDatabaseSpec\<lparr>spec_ShardInfo := [groupEntry ''a'' ''g'' [] 3]\<rparr>"
  have m: "normalizeShardingType ?s = modeSystem"
    by (simp add: normalizeShardingType_def detectShardingMode_def hasGroupDetails_def hasSpaceDetails_def
        groupEntry_def zero_defs Let_def go_eval)
  have wf: "\<forall>info \<in> set (spec_ShardInfo ?s). wf_info info"
    by (simp add: wf_info_def groupEntry_def zero_defs in_int32_def)
  have eff: "effCount modeSystem (groupEntry ''a'' ''g'' [] 3) = 3"
    by (simp add: effectiveReplicaCount_def desiredShardInfoReplicaCount_def groupEntry_def zero_defs)
  have "desiredShardReplicaTotal ?s = (3, [])"
    unfolding desiredShardReplicaTotal_ok [OF wf] m using eff by simp
  then have v: "validateDesiredShardReplicaCounts ?s = []" by (simp add: validateDesiredShardReplicaCounts_def)
  show ?thesis
    using replica_count32_agrees [OF wf v, of "groupEntry ''a'' ''g'' [] 3"] unfolding m
    by (simp add: desiredShardInfoReplicaCount_def groupEntry_def zero_defs)
qed

end
