(* ===== verification/Sharding_Storage.thy ===== *)
theory Sharding_Storage
  imports Sharding_Types
begin

text \<open>
  Persistent volumes of the sharding members (\<^verbatim>\<open>shardingdatabase_webhook.go\<close>): the defaults and the
  checks of additional volume claims, their effective form per mount path, and the two update checks,
  \<^verbatim>\<open>validateAdditionalPVCUpdate\<close> and \<^verbatim>\<open>validateStorageSizeNoShrink\<close>. The locale
  \<open>member_update\<close> is the contract of an update check over named members: what an accepted update
  keeps for a member, and that it is kept along every chain of accepted updates.
\<close>


section \<open>Additional volume claims\<close>

definition defaultAdditionalPVC :: "AdditionalPVCSpec \<Rightarrow> AdditionalPVCSpec" where
  "defaultAdditionalPVC e =
     (let p = e\<lparr>pvc_MountPath := TrimSpace (pvc_MountPath e), pvc_PvcName := TrimSpace (pvc_PvcName e),
                pvc_StorageClass := TrimSpace (pvc_StorageClass e)\<rparr>
      in if pvc_PvcName p \<noteq> [] then p
         else if pvc_MountPath p = DefaultDiagMountPath then
           (if pvc_StorageSizeInGb p \<le> 0 then p\<lparr>pvc_StorageSizeInGb := DefaultDiagSizeInGb\<rparr> else p)
         else if pvc_MountPath p = DefaultGsmDiagMountPath then
           (if pvc_StorageSizeInGb p \<le> 0 then p\<lparr>pvc_StorageSizeInGb := DefaultDiagSizeInGb\<rparr> else p)
         else if pvc_MountPath p = DefaultGddLogMountPath then
           (if pvc_StorageSizeInGb p \<le> 0 then p\<lparr>pvc_StorageSizeInGb := DefaultGddLogSizeInGb\<rparr> else p)
         else p)"

definition defaultAdditionalPVCs :: "AdditionalPVCSpec list \<Rightarrow> AdditionalPVCSpec list" where
  "defaultAdditionalPVCs pvcs = map defaultAdditionalPVC pvcs"

record effectivePVCSpec =
  eff_MountPath :: string
  eff_PvcName :: string
  eff_StorageSizeInGb :: int

definition zeroEffectivePVCSpec :: effectivePVCSpec where
  "zeroEffectivePVCSpec = \<lparr>eff_MountPath = [], eff_PvcName = [], eff_StorageSizeInGb = 0\<rparr>"

type_synonym pvc_map = "(string, effectivePVCSpec) gomap"

definition mergeAdditionalPVC :: "AdditionalPVCSpec \<Rightarrow> pvc_map \<Rightarrow> pvc_map" where
  "mergeAdditionalPVC e result =
     (let mountPath = TrimSpace (pvc_MountPath e) in
      if mountPath = [] then result
      else let cfg = (mget result mountPath zeroEffectivePVCSpec)\<lparr>eff_MountPath := mountPath\<rparr>;
               pvcName = TrimSpace (pvc_PvcName e);
               cfg1 = (if pvcName \<noteq> [] then cfg\<lparr>eff_PvcName := pvcName\<rparr> else cfg);
               cfg2 = (if pvc_StorageSizeInGb e > 0 then cfg1\<lparr>eff_StorageSizeInGb := pvc_StorageSizeInGb e\<rparr> else cfg1)
           in mput mountPath cfg2 result)"

definition mergeAdditionalPVCs :: "int \<Rightarrow> string \<Rightarrow> AdditionalPVCSpec list \<Rightarrow> pvc_map" where
  "mergeAdditionalPVCs primarySize baseMountPath extras =
     fold mergeAdditionalPVC extras
       [(baseMountPath, \<lparr>eff_MountPath = baseMountPath, eff_PvcName = [], eff_StorageSizeInGb = primarySize\<rparr>)]"

text \<open>
  The body of the entry check: a blank mount path is reported and skipped; otherwise the path must be
  absolute and new, and a templated claim needs a size unless it is the base mount.
\<close>

definition pvcMountErrs :: "path \<Rightarrow> nat \<Rightarrow> AdditionalPVCSpec \<Rightarrow> error_list" where
  "pvcMountErrs path i e =
     (let mountPath = TrimSpace (pvc_MountPath e) in
      if mountPath = [] then [Required (path @ [Index i, Child ''mountPath''])]
      else if \<not> HasPrefix mountPath ''/''
      then [Invalid (path @ [Index i, Child ''mountPath'']) (BVString (pvc_MountPath e))] else [])"

definition pvcSizeErrs :: "string \<Rightarrow> string \<Rightarrow> path \<Rightarrow> nat \<Rightarrow> AdditionalPVCSpec \<Rightarrow> error_list" where
  "pvcSizeErrs baseMountPath diagMountPath path i e =
     (let mountPath = TrimSpace (pvc_MountPath e); pvcName = TrimSpace (pvc_PvcName e);
          isDefaultPath = (mountPath = baseMountPath \<or> mountPath = diagMountPath \<or> mountPath = DefaultGddLogMountPath)
      in if mountPath = [] then []
         else (if pvcName = [] \<and> pvc_StorageSizeInGb e \<le> 0 \<and> \<not> isDefaultPath
               then [Required (path @ [Index i, Child ''storageSizeInGb''])] else [])
            @ (if mountPath \<noteq> baseMountPath \<and> pvcName = [] \<and> pvc_StorageSizeInGb e \<le> 0 \<and> isDefaultPath
               then [Required (path @ [Index i, Child ''storageSizeInGb''])] else []))"

definition pvcMountKey :: "AdditionalPVCSpec \<Rightarrow> string option" where
  "pvcMountKey e = (let mountPath = TrimSpace (pvc_MountPath e) in if mountPath = [] then None else Some mountPath)"

definition validateAdditionalPVCEntries :: "AdditionalPVCSpec list \<Rightarrow> string \<Rightarrow> string \<Rightarrow> path \<Rightarrow> error_list" where
  "validateAdditionalPVCEntries entries baseMountPath diagMountPath path =
     range_seen (pvcMountErrs path) pvcMountKey
       (\<lambda>i e prev. Duplicate (path @ [Index i, Child ''mountPath''])
          (BVString (''duplicate mountPath already set at index '' @ itoa_nat prev)))
       (pvcSizeErrs baseMountPath diagMountPath path) entries"

text \<open>The two loops of the map comparison. The path is the member's, not the mount's.\<close>

definition pvcOldErrs :: "pvc_map \<Rightarrow> path \<Rightarrow> string \<Rightarrow> effectivePVCSpec \<Rightarrow> error_list" where
  "pvcOldErrs newMap path mountPath oldCfg =
     (case map_of newMap mountPath of
        None \<Rightarrow> if eff_PvcName oldCfg = [] then [Forbidden path] else []
      | Some newCfg \<Rightarrow>
          let oldTemplate = (eff_PvcName oldCfg = []); newTemplate = (eff_PvcName newCfg = [])
          in if oldTemplate \<noteq> newTemplate then [Forbidden path]
             else if oldTemplate \<and> newTemplate \<and> eff_StorageSizeInGb newCfg < eff_StorageSizeInGb oldCfg
             then [Forbidden path] else [])"

definition pvcNewErrs :: "pvc_map \<Rightarrow> path \<Rightarrow> string \<Rightarrow> effectivePVCSpec \<Rightarrow> error_list" where
  "pvcNewErrs oldMap path mountPath newCfg =
     (if map_of oldMap mountPath \<noteq> None then []
      else if eff_PvcName newCfg = [] then [Forbidden path] else [])"

definition validateAdditionalPVCUpdate :: "pvc_map \<Rightarrow> pvc_map \<Rightarrow> path \<Rightarrow> error_list" where
  "validateAdditionalPVCUpdate oldMap newMap path =
     range_map (pvcOldErrs newMap path) oldMap @ range_map (pvcNewErrs oldMap path) newMap"

definition validateStorageSource :: "StorageSource option \<Rightarrow> path \<Rightarrow> error_list" where
  "validateStorageSource source path =
     (case source of None \<Rightarrow> []
      | Some s \<Rightarrow> (case sts_OCI s of
            None \<Rightarrow> [Required (path @ [Child ''oci''])]
          | Some oci \<Rightarrow> if blank (oci_VolumeBackupID oci)
                        then [Required (path @ [Child ''oci'', Child ''volumeBackupId''])] else []))"

definition shardInfoStorageErrs :: "nat \<Rightarrow> ShardingDetails \<Rightarrow> error_list" where
  "shardInfoStorageErrs i info =
     validateStorageSource (si_StorageSource info) [Child ''spec'', Child ''shardInfo'', Index i, Child ''storageSource'']
     @ (if si_Nodes info \<noteq> [] \<and> si_NodeSelector info \<noteq> []
        then [Forbidden [Child ''spec'', Child ''shardInfo'', Index i]] else [])"

definition shardStorageErrs :: "nat \<Rightarrow> ShardSpec \<Rightarrow> error_list" where
  "shardStorageErrs i s =
     validateStorageSource (sh_StorageSource s) [Child ''spec'', Child ''shard'', Index i, Child ''storageSource'']
     @ (if sh_Nodes s \<noteq> [] \<and> sh_NodeSelector s \<noteq> []
        then [Forbidden [Child ''spec'', Child ''shard'', Index i]] else [])
     @ validateAdditionalPVCEntries (sh_AdditionalPVCs s) DefaultOraDataMountPath DefaultDiagMountPath
         [Child ''spec'', Child ''shard'', Index i, Child ''additionalPVCs'']"

definition validateAdditionalPVCConfig :: "ShardingDatabaseSpec \<Rightarrow> error_list" where
  "validateAdditionalPVCConfig spec =
     range_errs shardInfoStorageErrs (spec_ShardInfo spec)
     @ range_errs shardStorageErrs (spec_Shard spec)
     @ range_errs (\<lambda>i c. validateAdditionalPVCEntries (cat_AdditionalPVCs c) DefaultOraDataMountPath DefaultDiagMountPath
         [Child ''spec'', Child ''catalog'', Index i, Child ''additionalPVCs'']) (spec_Catalog spec)
     @ range_errs (\<lambda>i g. validateAdditionalPVCEntries (gsm_AdditionalPVCs g) DefaultGsmDataMountPath DefaultGsmDiagMountPath
         [Child ''spec'', Child ''gsm'', Index i, Child ''additionalPVCs'']) (spec_Gsm spec)"


section \<open>Update checks over named members\<close>

text \<open>
  \<^verbatim>\<open>old[key(x)] = x\<close> for each \<open>x\<close> of a slice: a later member with the same key replaces an earlier
  one. A member without a key is skipped.
\<close>

definition indexBy :: "('a \<Rightarrow> string option) \<Rightarrow> 'a list \<Rightarrow> (string \<rightharpoonup> 'a)" where
  "indexBy key xs = fold (\<lambda>x m. case key x of None \<Rightarrow> m | Some k \<Rightarrow> m(k \<mapsto> x)) xs Map.empty"

definition trimmedKey :: "string \<Rightarrow> string option" where
  "trimmedKey name = (if blank name then None else Some (TrimSpace name))"

text \<open>One of the three identical loops of \<^verbatim>\<open>validateStorageSizeNoShrink\<close>.\<close>

definition noShrinkErrs ::
    "('a \<Rightarrow> string) \<Rightarrow> ('a \<Rightarrow> int) \<Rightarrow> string \<Rightarrow> 'a list \<Rightarrow> 'a list \<Rightarrow> error_list" where
  "noShrinkErrs nm sz kind old new =
     range_errs (\<lambda>i x. case indexBy (\<lambda>o1. trimmedKey (nm o1)) old (TrimSpace (nm x)) of
         None \<Rightarrow> []
       | Some o1 \<Rightarrow> if sz o1 > 0 \<and> sz x > 0 \<and> sz x < sz o1
           then [Forbidden [Child ''spec'', Child kind, Index i, Child ''storageSizeInGb'']] else []) new"

definition validateStorageSizeNoShrink :: "ShardingDatabaseSpec \<Rightarrow> ShardingDatabaseSpec option \<Rightarrow> error_list" where
  "validateStorageSizeNoShrink spec oldSpec =
     (case oldSpec of None \<Rightarrow> []
      | Some old \<Rightarrow>
          noShrinkErrs sh_Name sh_StorageSizeInGb ''shard'' (spec_Shard old) (spec_Shard spec)
          @ noShrinkErrs cat_Name cat_StorageSizeInGb ''catalog'' (spec_Catalog old) (spec_Catalog spec)
          @ noShrinkErrs gsm_Name gsm_StorageSizeInGb ''gsm'' (spec_Gsm old) (spec_Gsm spec))"

text \<open>One of the three identical loops of the method \<^verbatim>\<open>validateAdditionalPVCUpdate\<close>.\<close>

definition pvcUpdateErrs ::
    "('a \<Rightarrow> string) \<Rightarrow> ('a \<Rightarrow> int) \<Rightarrow> ('a \<Rightarrow> AdditionalPVCSpec list) \<Rightarrow> string \<Rightarrow> string \<Rightarrow> 'a list \<Rightarrow> 'a list \<Rightarrow> error_list" where
  "pvcUpdateErrs nm sz pvcs base kind old new =
     range_errs (\<lambda>i x. case indexBy (\<lambda>o1. Some (nm o1)) old (nm x) of
         None \<Rightarrow> []
       | Some o1 \<Rightarrow> validateAdditionalPVCUpdate (mergeAdditionalPVCs (sz o1) base (pvcs o1))
           (mergeAdditionalPVCs (sz x) base (pvcs x))
           [Child ''spec'', Child kind, Index i, Child ''additionalPVCs'']) new"

definition ShardingDatabase_validateAdditionalPVCUpdate ::
    "ShardingDatabaseSpec \<Rightarrow> ShardingDatabaseSpec option \<Rightarrow> error_list" where
  "ShardingDatabase_validateAdditionalPVCUpdate spec oldSpec =
     (case oldSpec of None \<Rightarrow> []
      | Some old \<Rightarrow>
          pvcUpdateErrs sh_Name sh_StorageSizeInGb sh_AdditionalPVCs DefaultOraDataMountPath ''shard''
            (spec_Shard old) (spec_Shard spec)
          @ pvcUpdateErrs cat_Name cat_StorageSizeInGb cat_AdditionalPVCs DefaultOraDataMountPath ''catalog''
            (spec_Catalog old) (spec_Catalog spec)
          @ pvcUpdateErrs gsm_Name gsm_StorageSizeInGb gsm_AdditionalPVCs DefaultGsmDataMountPath ''gsm''
            (spec_Gsm old) (spec_Gsm spec))"


section \<open>Effective claims\<close>

text \<open>
  The abstract view of a member's volumes: the size of every mount that the operator templates a
  claim for. An update is fine when the templated mounts are the same and none shrinks.
\<close>

definition templated :: "pvc_map \<Rightarrow> (string \<rightharpoonup> int)" where
  "templated m mp = (case map_of m mp of None \<Rightarrow> None
     | Some c \<Rightarrow> if eff_PvcName c = [] then Some (eff_StorageSizeInGb c) else None)"

definition grows :: "(string \<rightharpoonup> int) \<Rightarrow> (string \<rightharpoonup> int) \<Rightarrow> bool" where
  "grows a b \<longleftrightarrow> dom a = dom b \<and> (\<forall>mp \<in> dom a. the (a mp) \<le> the (b mp))"

lemma grows_refl [simp]: "grows a a"
  by (simp add: grows_def)

lemma grows_trans: "grows a b \<Longrightarrow> grows b c \<Longrightarrow> grows a c"
  unfolding grows_def by (metis order.trans)

lemma distinct_mergeAdditionalPVC: "distinct (map fst m) \<Longrightarrow> distinct (map fst (mergeAdditionalPVC e m))"
  by (simp add: mergeAdditionalPVC_def Let_def)

lemma distinct_mergeAdditionalPVCs [simp]: "distinct (map fst (mergeAdditionalPVCs sz base es))"
proof -
  have "distinct (map fst m) \<Longrightarrow> distinct (map fst (fold mergeAdditionalPVC es m))" for m
    by (induction es arbitrary: m) (simp_all add: distinct_mergeAdditionalPVC)
  then show ?thesis by (simp add: mergeAdditionalPVCs_def)
qed

lemma templated_Some_iff:
  "templated m mp = Some s \<longleftrightarrow> (\<exists>c. map_of m mp = Some c \<and> eff_PvcName c = [] \<and> eff_StorageSizeInGb c = s)"
  by (auto simp: templated_def split: option.splits)

lemma range_map_Nil_iff_map_of:
  "distinct (map fst m) \<Longrightarrow> range_map f m = [] \<longleftrightarrow> (\<forall>k v. map_of m k = Some v \<longrightarrow> f k v = [])"
  by (auto simp: range_map_Nil_iff)

lemma pvcOldErrs_Nil_iff:
  "pvcOldErrs new path mp c = [] \<longleftrightarrow>
     (if eff_PvcName c = [] then \<exists>s. templated new mp = Some s \<and> eff_StorageSizeInGb c \<le> s
      else templated new mp = None)"
  by (auto simp: pvcOldErrs_def templated_def Let_def split: option.splits)

lemma validateAdditionalPVCUpdate_Nil_iff:
  assumes "distinct (map fst old)" and "distinct (map fst new)"
  shows "validateAdditionalPVCUpdate old new path = [] \<longleftrightarrow> grows (templated old) (templated new)"
proof -
  have o1: "range_map (pvcOldErrs new path) old = [] \<longleftrightarrow>
      (\<forall>mp c. map_of old mp = Some c \<longrightarrow> pvcOldErrs new path mp c = [])"
    using assms(1) by (rule range_map_Nil_iff_map_of)
  have n1: "range_map (pvcNewErrs old path) new = [] \<longleftrightarrow>
      (\<forall>mp. templated new mp \<noteq> None \<longrightarrow> map_of old mp \<noteq> None)"
    unfolding range_map_Nil_iff_map_of [OF assms(2)]
    by (auto simp: pvcNewErrs_def templated_def split: option.splits) (metis option.distinct(1) not_None_eq)
  show ?thesis
  proof
    assume "validateAdditionalPVCUpdate old new path = []"
    then have o2: "\<And>mp c. map_of old mp = Some c \<Longrightarrow> pvcOldErrs new path mp c = []"
      and n2: "\<And>mp s. templated new mp = Some s \<Longrightarrow> map_of old mp \<noteq> None"
      unfolding validateAdditionalPVCUpdate_def append_is_Nil_conv o1 n1 by blast+
    have fwd: "\<exists>s'. templated new mp = Some s' \<and> s \<le> s'" if "templated old mp = Some s" for mp s
      using that o2 unfolding templated_Some_iff by (fastforce simp: pvcOldErrs_Nil_iff templated_Some_iff)
    have bwd: "\<exists>s. templated old mp = Some s" if "templated new mp = Some s'" for mp s'
    proof -
      obtain c where c: "map_of old mp = Some c" using n2 [OF \<open>templated new mp = Some s'\<close>] by blast
      then have "eff_PvcName c = []" using o2 [OF c] that by (auto simp: pvcOldErrs_Nil_iff split: if_splits)
      then show ?thesis using c by (simp add: templated_Some_iff)
    qed
    show "grows (templated old) (templated new)"
      unfolding grows_def using fwd bwd by (fastforce simp: dom_def)
  next
    assume g: "grows (templated old) (templated new)"
    have "pvcOldErrs new path mp c = []" if c: "map_of old mp = Some c" for mp c
    proof (cases "eff_PvcName c = []")
      case True
      then have "templated old mp = Some (eff_StorageSizeInGb c)" using c by (simp add: templated_Some_iff)
      then show ?thesis using g True unfolding grows_def pvcOldErrs_Nil_iff by (metis domD domI option.sel)
    next
      case False
      then have "mp \<notin> dom (templated old)" using c by (simp add: templated_def domIff)
      then show ?thesis using g False unfolding grows_def pvcOldErrs_Nil_iff by (metis domIff)
    qed
    moreover have "map_of old mp \<noteq> None" if "templated new mp \<noteq> None" for mp
    proof -
      have "mp \<in> dom (templated old)" using that g unfolding grows_def by blast
      then show ?thesis by (auto simp: templated_def split: option.splits)
    qed
    ultimately show "validateAdditionalPVCUpdate old new path = []"
      unfolding validateAdditionalPVCUpdate_def append_is_Nil_conv o1 n1 by blast
  qed
qed


section \<open>Members by name\<close>

lemma indexBy_find: "indexBy key xs k = find (\<lambda>x. key x = Some k) (rev xs)"
proof -
  have "fold (\<lambda>x m. case key x of None \<Rightarrow> m | Some k \<Rightarrow> m(k \<mapsto> x)) xs m k =
      (case find (\<lambda>x. key x = Some k) (rev xs) of None \<Rightarrow> m k | Some x \<Rightarrow> Some x)" for m
  proof (induction xs arbitrary: m)
    case Nil
    then show ?case by simp
  next
    case (Cons x xs)
    have f: "find P (ys @ [x]) = (case find P ys of None \<Rightarrow> if P x then Some x else None | Some y \<Rightarrow> Some y)" for P ys
      by (induction ys) auto
    show ?case by (auto simp: Cons f split: option.splits)
  qed
  then show ?thesis by (simp add: indexBy_def split: option.splits)
qed

lemma indexBy_Some: "indexBy key xs k = Some x \<Longrightarrow> x \<in> set xs \<and> key x = Some k"
  by (auto simp: indexBy_find find_Some_iff) (metis length_rev nth_mem set_rev)

lemma map_filter_distinct_inj:
  assumes "distinct (List.map_filter key xs)" and "x \<in> set xs" and "y \<in> set xs"
    and "key x = Some k" and "key y = Some k"
  shows "x = y"
  using assms
  by (induction xs) (force simp: List.map_filter_simps List.map_filter_def split: option.splits if_splits)+

lemma indexBy_eq_Some_iff:
  assumes "distinct (List.map_filter key xs)"
  shows "indexBy key xs k = Some x \<longleftrightarrow> x \<in> set xs \<and> key x = Some k"
proof
  assume "x \<in> set xs \<and> key x = Some k"
  then have x: "x \<in> set xs" "key x = Some k" by simp_all
  then have "indexBy key xs k \<noteq> None" unfolding indexBy_find find_None_iff by auto
  then obtain y where y: "indexBy key xs k = Some y" by blast
  then have "y = x" using indexBy_Some [OF y] x map_filter_distinct_inj [OF assms] by blast
  then show "indexBy key xs k = Some x" using y by simp
qed (rule indexBy_Some)

lemma range_errs_indexBy_Nil_iff:
  assumes "distinct (List.map_filter key old)"
  shows "range_errs (\<lambda>i y. case indexBy key old (k y) of None \<Rightarrow> [] | Some x \<Rightarrow> f i x y) new = [] \<longleftrightarrow>
     (\<forall>i < length new. \<forall>x \<in> set old. key x = Some (k (new ! i)) \<longrightarrow> f i x (new ! i) = [])"
  unfolding range_errs_Nil_iff
  by (auto simp: indexBy_eq_Some_iff [OF assms] split: option.splits)



section \<open>The contract of an update check\<close>

locale member_update =
  fixes check :: "'a list \<Rightarrow> 'a list \<Rightarrow> error_list"
    and key :: "'a \<Rightarrow> string option"
    and good :: "'a \<Rightarrow> bool"
    and keeps :: "'a \<Rightarrow> 'a \<Rightarrow> bool"
  assumes accepted_iff: "distinct (List.map_filter key old) \<Longrightarrow> check old new = [] \<longleftrightarrow>
      (\<forall>x \<in> set old. \<forall>y \<in> set new. key x \<noteq> None \<longrightarrow> key x = key y \<longrightarrow> keeps x y)"
    and keeps_refl: "keeps x x"
    and keeps_trans: "good y \<Longrightarrow> keeps x y \<Longrightarrow> keeps y z \<Longrightarrow> keeps x z"
begin

text \<open>
  Along a chain of accepted versions, a member that stays in every version keeps its guarantee from
  the first version to the last.
\<close>

lemma chain_keeps:
  assumes "successively (\<lambda>old new. check old new = []) (v # vs)"
    and "\<And>u. u \<in> set (v # vs) \<Longrightarrow> distinct (List.map_filter key u)"
    and "\<And>u. u \<in> set (v # vs) \<Longrightarrow> (\<exists>m \<in> set u. key m = Some k)"
    and "\<And>u m. u \<in> set (v # vs) \<Longrightarrow> m \<in> set u \<Longrightarrow> good m"
    and "x \<in> set v" and "key x = Some k" and "y \<in> set (last (v # vs))" and "key y = Some k"
  shows "keeps x y"
  using assms
proof (induction vs arbitrary: v x)
  case Nil
  then have "distinct (List.map_filter key v)" and "y \<in> set v" by simp_all
  then have "x = y" using map_filter_distinct_inj Nil.prems(5,6,8) by metis
  then show ?case by (simp add: keeps_refl)
next
  case (Cons w ws)
  obtain m where m: "m \<in> set w" "key m = Some k" using Cons.prems(3) [of w] by auto
  have "check v w = []" using Cons.prems(1) by simp
  moreover have "distinct (List.map_filter key v)" using Cons.prems(2) [of v] by simp
  ultimately have "keeps x m" using Cons.prems(5,6) m accepted_iff by fastforce
  moreover have "keeps m y"
  proof (rule Cons.IH)
    show "successively (\<lambda>old new. check old new = []) (w # ws)" using Cons.prems(1) by simp
  qed (use Cons.prems m in \<open>auto\<close>)
  moreover have "good m" using Cons.prems(4) [of w m] m by simp
  ultimately show ?case using keeps_trans by blast
qed

end

definition sizeKept :: "('a \<Rightarrow> int) \<Rightarrow> 'a \<Rightarrow> 'a \<Rightarrow> bool" where
  "sizeKept sz x y \<longleftrightarrow> sz x > 0 \<and> sz y > 0 \<longrightarrow> sz x \<le> sz y"

definition volumesKept :: "('a \<Rightarrow> int) \<Rightarrow> ('a \<Rightarrow> AdditionalPVCSpec list) \<Rightarrow> string \<Rightarrow> 'a \<Rightarrow> 'a \<Rightarrow> bool" where
  "volumesKept sz pvcs base x y \<longleftrightarrow>
     grows (templated (mergeAdditionalPVCs (sz x) base (pvcs x))) (templated (mergeAdditionalPVCs (sz y) base (pvcs y)))"

lemma noShrinkErrs_Nil_iff:
  assumes "distinct (List.map_filter (\<lambda>x. trimmedKey (nm x)) old)"
  shows "noShrinkErrs nm sz kind old new = [] \<longleftrightarrow>
     (\<forall>x \<in> set old. \<forall>y \<in> set new. trimmedKey (nm x) \<noteq> None \<longrightarrow> trimmedKey (nm x) = trimmedKey (nm y) \<longrightarrow> sizeKept sz x y)"
proof -
  have k: "trimmedKey (nm x) = Some (TrimSpace (nm y)) \<longleftrightarrow>
      trimmedKey (nm x) \<noteq> None \<and> trimmedKey (nm x) = trimmedKey (nm y)" for x y
    by (auto simp: trimmedKey_def)
  show ?thesis
    unfolding noShrinkErrs_def range_errs_indexBy_Nil_iff [OF assms] k
    by (fastforce simp: sizeKept_def in_set_conv_nth)
qed

lemma pvcUpdateErrs_Nil_iff:
  assumes "distinct (List.map_filter (\<lambda>x. Some (nm x)) old)"
  shows "pvcUpdateErrs nm sz pvcs base kind old new = [] \<longleftrightarrow>
     (\<forall>x \<in> set old. \<forall>y \<in> set new. Some (nm x) \<noteq> None \<longrightarrow> Some (nm x) = Some (nm y) \<longrightarrow> volumesKept sz pvcs base x y)"
  unfolding pvcUpdateErrs_def range_errs_indexBy_Nil_iff [OF assms]
  by (auto simp: validateAdditionalPVCUpdate_Nil_iff volumesKept_def all_set_conv_all_nth [of new])

lemma sizeKept_trans: "sz y > 0 \<Longrightarrow> sizeKept sz x y \<Longrightarrow> sizeKept sz y z \<Longrightarrow> sizeKept sz x z"
  by (auto simp: sizeKept_def)

lemma volumesKept_trans:
  "volumesKept sz pvcs base x y \<Longrightarrow> volumesKept sz pvcs base y z \<Longrightarrow> volumesKept sz pvcs base x z"
  unfolding volumesKept_def by (rule grows_trans)

lemmas member_update_laws = noShrinkErrs_Nil_iff pvcUpdateErrs_Nil_iff

interpretation shard_size: member_update "noShrinkErrs sh_Name sh_StorageSizeInGb ''shard''"
  "\<lambda>s. trimmedKey (sh_Name s)" "\<lambda>s. sh_StorageSizeInGb s > 0" "sizeKept sh_StorageSizeInGb"
  by unfold_locales (simp add: member_update_laws, simp add: sizeKept_def, rule sizeKept_trans)

interpretation catalog_size: member_update "noShrinkErrs cat_Name cat_StorageSizeInGb ''catalog''"
  "\<lambda>s. trimmedKey (cat_Name s)" "\<lambda>s. cat_StorageSizeInGb s > 0" "sizeKept cat_StorageSizeInGb"
  by unfold_locales (simp add: member_update_laws, simp add: sizeKept_def, rule sizeKept_trans)

interpretation gsm_size: member_update "noShrinkErrs gsm_Name gsm_StorageSizeInGb ''gsm''"
  "\<lambda>s. trimmedKey (gsm_Name s)" "\<lambda>s. gsm_StorageSizeInGb s > 0" "sizeKept gsm_StorageSizeInGb"
  by unfold_locales (simp add: member_update_laws, simp add: sizeKept_def, rule sizeKept_trans)

interpretation shard_volumes: member_update
  "pvcUpdateErrs sh_Name sh_StorageSizeInGb sh_AdditionalPVCs DefaultOraDataMountPath ''shard''"
  "\<lambda>s. Some (sh_Name s)" "\<lambda>s. True" "volumesKept sh_StorageSizeInGb sh_AdditionalPVCs DefaultOraDataMountPath"
  by unfold_locales (simp add: member_update_laws, simp add: volumesKept_def, rule volumesKept_trans)

interpretation catalog_volumes: member_update
  "pvcUpdateErrs cat_Name cat_StorageSizeInGb cat_AdditionalPVCs DefaultOraDataMountPath ''catalog''"
  "\<lambda>s. Some (cat_Name s)" "\<lambda>s. True" "volumesKept cat_StorageSizeInGb cat_AdditionalPVCs DefaultOraDataMountPath"
  by unfold_locales (simp add: member_update_laws, simp add: volumesKept_def, rule volumesKept_trans)

interpretation gsm_volumes: member_update
  "pvcUpdateErrs gsm_Name gsm_StorageSizeInGb gsm_AdditionalPVCs DefaultGsmDataMountPath ''gsm''"
  "\<lambda>s. Some (gsm_Name s)" "\<lambda>s. True" "volumesKept gsm_StorageSizeInGb gsm_AdditionalPVCs DefaultGsmDataMountPath"
  by unfold_locales (simp add: member_update_laws, simp add: volumesKept_def, rule volumesKept_trans)



section \<open>Properties\<close>

lemma map_filter_Some [simp]: "List.map_filter (\<lambda>x. Some (f x)) xs = map f xs"
  by (induction xs) (simp_all add: List.map_filter_simps)

text \<open>
  the update check of the volumes accepts a new version exactly when every member that both
  versions have keeps the set of mounts whose claims the operator templates, with no size shrinking.
\<close>

theorem volume_update_accepted_iff:
  assumes "distinct (map sh_Name (spec_Shard old))" and "distinct (map cat_Name (spec_Catalog old))"
    and "distinct (map gsm_Name (spec_Gsm old))"
  shows "ShardingDatabase_validateAdditionalPVCUpdate new (Some old) = [] \<longleftrightarrow>
     (\<forall>x \<in> set (spec_Shard old). \<forall>y \<in> set (spec_Shard new). sh_Name x = sh_Name y \<longrightarrow>
        grows (templated (mergeAdditionalPVCs (sh_StorageSizeInGb x) ''/opt/oracle/oradata'' (sh_AdditionalPVCs x)))
              (templated (mergeAdditionalPVCs (sh_StorageSizeInGb y) ''/opt/oracle/oradata'' (sh_AdditionalPVCs y)))) \<and>
     (\<forall>x \<in> set (spec_Catalog old). \<forall>y \<in> set (spec_Catalog new). cat_Name x = cat_Name y \<longrightarrow>
        grows (templated (mergeAdditionalPVCs (cat_StorageSizeInGb x) ''/opt/oracle/oradata'' (cat_AdditionalPVCs x)))
              (templated (mergeAdditionalPVCs (cat_StorageSizeInGb y) ''/opt/oracle/oradata'' (cat_AdditionalPVCs y)))) \<and>
     (\<forall>x \<in> set (spec_Gsm old). \<forall>y \<in> set (spec_Gsm new). gsm_Name x = gsm_Name y \<longrightarrow>
        grows (templated (mergeAdditionalPVCs (gsm_StorageSizeInGb x) ''/opt/oracle/gsmdata'' (gsm_AdditionalPVCs x)))
              (templated (mergeAdditionalPVCs (gsm_StorageSizeInGb y) ''/opt/oracle/gsmdata'' (gsm_AdditionalPVCs y))))"
  using shard_volumes.accepted_iff [of "spec_Shard old" "spec_Shard new"]
    catalog_volumes.accepted_iff [of "spec_Catalog old" "spec_Catalog new"]
    gsm_volumes.accepted_iff [of "spec_Gsm old" "spec_Gsm new"] assms
  by (simp add: ShardingDatabase_validateAdditionalPVCUpdate_def volumesKept_def mount_path_defs)

definition volumeExample :: "int \<Rightarrow> int \<Rightarrow> ShardingDatabaseSpec" where
  "volumeExample data diag = zeroShardingDatabaseSpec\<lparr>spec_Shard :=
     [zeroShardSpec\<lparr>sh_Name := ''s1'', sh_StorageSizeInGb := data,
        sh_AdditionalPVCs := [\<lparr>pvc_MountPath = ''/opt/oracle/diag'', pvc_PvcName = [], pvc_StorageSizeInGb = diag,
          pvc_StorageClass = []\<rparr>]\<rparr>]\<rparr>"

lemma volumeExample_simps:
  "spec_Catalog (volumeExample d g) = []" "spec_Gsm (volumeExample d g) = []"
  "spec_Shard (volumeExample d g) = [zeroShardSpec\<lparr>sh_Name := ''s1'', sh_StorageSizeInGb := d,
        sh_AdditionalPVCs := [\<lparr>pvc_MountPath = ''/opt/oracle/diag'', pvc_PvcName = [], pvc_StorageSizeInGb = g,
          pvc_StorageClass = []\<rparr>]\<rparr>]"
  by (simp_all add: volumeExample_def zero_defs)

lemma volumeExample_templated:
  "g > 0 \<Longrightarrow> templated (mergeAdditionalPVCs d ''/opt/oracle/oradata'' [\<lparr>pvc_MountPath = ''/opt/oracle/diag'',
     pvc_PvcName = [], pvc_StorageSizeInGb = g, pvc_StorageClass = []\<rparr>]) =
   [''/opt/oracle/oradata'' \<mapsto> d, ''/opt/oracle/diag'' \<mapsto> g]"
  by (rule ext) (simp add: templated_def mergeAdditionalPVCs_def mergeAdditionalPVC_def Let_def mget_def
      zeroEffectivePVCSpec_def go_eval)

theorem volume_update_accepted_iff_witness:
  "ShardingDatabase_validateAdditionalPVCUpdate (volumeExample 100 60) (Some (volumeExample 100 50)) = [] \<and>
   ShardingDatabase_validateAdditionalPVCUpdate (volumeExample 100 40) (Some (volumeExample 100 50)) \<noteq> []"
  by (simp add: volume_update_accepted_iff volumeExample_simps volumeExample_templated grows_def)

text \<open>
  along every chain of versions that the shrink check accepts, a shard that stays in all of them
  with a positive size never loses storage, however many updates lie between.
\<close>

theorem shard_storage_never_shrinks:
  assumes "successively (\<lambda>old new. validateStorageSizeNoShrink new (Some old) = []) (v # vs)"
    and "\<forall>u \<in> set (v # vs). distinct (List.map_filter (\<lambda>s. trimmedKey (sh_Name s)) (spec_Shard u)) \<and>
           (\<forall>s \<in> set (spec_Shard u). sh_StorageSizeInGb s > 0) \<and>
           (\<exists>s \<in> set (spec_Shard u). TrimSpace (sh_Name s) = k)"
    and "k \<noteq> []"
    and "x \<in> set (spec_Shard v)" and "TrimSpace (sh_Name x) = k"
    and "y \<in> set (spec_Shard (last (v # vs)))" and "TrimSpace (sh_Name y) = k"
  shows "sh_StorageSizeInGb x \<le> sh_StorageSizeInGb y"
proof -
  have key: "trimmedKey (sh_Name s) = Some k \<longleftrightarrow> TrimSpace (sh_Name s) = k" for s
    using assms(3) by (auto simp: trimmedKey_def)
  have last: "spec_Shard (last (v # vs)) = last (spec_Shard v # map spec_Shard vs)"
    by (induction vs arbitrary: v) simp_all
  have "successively (\<lambda>old new. noShrinkErrs sh_Name sh_StorageSizeInGb ''shard'' old new = []) (map spec_Shard (v # vs))"
    unfolding successively_map using assms(1)
    by (rule successively_mono) (simp add: validateStorageSizeNoShrink_def)
  then have "sizeKept sh_StorageSizeInGb x y"
    by (intro shard_size.chain_keeps [of "spec_Shard v" "map spec_Shard vs" k])
      (use assms(2,4-7) last in \<open>auto simp: key\<close>)
  moreover have "sh_StorageSizeInGb x > 0" and "sh_StorageSizeInGb y > 0"
    using assms(2,4,6) by (auto split: if_splits)
  ultimately show ?thesis by (simp add: sizeKept_def)
qed

theorem shard_storage_never_shrinks_witness:
  "sh_StorageSizeInGb (hd (spec_Shard (volumeExample 100 50))) \<le> sh_StorageSizeInGb (hd (spec_Shard (volumeExample 120 50)))"
proof (rule shard_storage_never_shrinks [where vs = "[volumeExample 100 50, volumeExample 120 50]" and k = "''s1''"
      and v = "volumeExample 100 50"])
  show "successively (\<lambda>old new. validateStorageSizeNoShrink new (Some old) = [])
      [volumeExample 100 50, volumeExample 100 50, volumeExample 120 50]"
    by (simp add: validateStorageSizeNoShrink_def noShrinkErrs_def volumeExample_simps indexBy_def trimmedKey_def
        zero_defs go_eval)
qed (simp_all add: volumeExample_simps trimmedKey_def List.map_filter_simps zero_defs go_eval)

text \<open>
  after defaulting, the claims of a shard are accepted exactly when every mount path is absolute,
  no two are the same, and each claim names an existing volume, gives a size, or is on one of the
  paths that have a default.
\<close>

theorem shard_claims_accepted_iff:
  "validateAdditionalPVCEntries (defaultAdditionalPVCs es) DefaultOraDataMountPath DefaultDiagMountPath path = [] \<longleftrightarrow>
     distinct (map (\<lambda>e. TrimSpace (pvc_MountPath e)) es) \<and>
     (\<forall>e \<in> set es. HasPrefix (TrimSpace (pvc_MountPath e)) ''/'' \<and>
        (\<not> blank (pvc_PvcName e) \<or> pvc_StorageSizeInGb e > 0 \<or>
         TrimSpace (pvc_MountPath e) \<in> {''/opt/oracle/oradata'', ''/opt/oracle/diag'', ''/u01/app/oracle/diag'', ''/var/log/gdd''}))"
  (is "?L \<longleftrightarrow> ?R")
proof -
  have mount [simp]: "pvc_MountPath (defaultAdditionalPVC e) = TrimSpace (pvc_MountPath e)"
    and name [simp]: "pvc_PvcName (defaultAdditionalPVC e) = TrimSpace (pvc_PvcName e)" for e
    by (simp_all add: defaultAdditionalPVC_def Let_def)
  have m: "pvcMountErrs path i (defaultAdditionalPVC e) = [] \<longleftrightarrow> HasPrefix (TrimSpace (pvc_MountPath e)) ''/''" for i e
    by (auto simp: pvcMountErrs_def Let_def HasPrefix_def)
  have s: "pvcSizeErrs DefaultOraDataMountPath DefaultDiagMountPath path i (defaultAdditionalPVC e) = [] \<longleftrightarrow>
      blank (pvc_MountPath e) \<or> \<not> blank (pvc_PvcName e) \<or> pvc_StorageSizeInGb e > 0 \<or>
      TrimSpace (pvc_MountPath e) \<in> {''/opt/oracle/oradata'', ''/opt/oracle/diag'', ''/u01/app/oracle/diag'', ''/var/log/gdd''}"
    for i e
    by (auto simp: pvcSizeErrs_def defaultAdditionalPVC_def Let_def mount_path_defs DefaultDiagSizeInGb_def
        DefaultGddLogSizeInGb_def)
  have k: "List.map_filter pvcMountKey (defaultAdditionalPVCs es) = map (\<lambda>e. TrimSpace (pvc_MountPath e)) es"
    if "\<forall>e \<in> set es. HasPrefix (TrimSpace (pvc_MountPath e)) ''/''"
    using that by (induction es)
      (auto simp: defaultAdditionalPVCs_def List.map_filter_simps pvcMountKey_def HasPrefix_def Let_def)
  have nb: "HasPrefix (TrimSpace (pvc_MountPath e)) ''/'' \<Longrightarrow> \<not> blank (pvc_MountPath e)" for e
    by (auto simp: HasPrefix_def)
  have ms: "pvcMountErrs path i (defaultAdditionalPVC e) = [] \<and>
        pvcSizeErrs DefaultOraDataMountPath DefaultDiagMountPath path i (defaultAdditionalPVC e) = [] \<longleftrightarrow>
      HasPrefix (TrimSpace (pvc_MountPath e)) ''/'' \<and> (\<not> blank (pvc_PvcName e) \<or> pvc_StorageSizeInGb e > 0 \<or>
      TrimSpace (pvc_MountPath e) \<in> {''/opt/oracle/oradata'', ''/opt/oracle/diag'', ''/u01/app/oracle/diag'', ''/var/log/gdd''})"
    for i e
    unfolding m s using nb by blast
  have "?L \<longleftrightarrow> (\<forall>e \<in> set es. HasPrefix (TrimSpace (pvc_MountPath e)) ''/'' \<and>
        (\<not> blank (pvc_PvcName e) \<or> pvc_StorageSizeInGb e > 0 \<or>
         TrimSpace (pvc_MountPath e) \<in> {''/opt/oracle/oradata'', ''/opt/oracle/diag'', ''/u01/app/oracle/diag'', ''/var/log/gdd''})) \<and>
      distinct (List.map_filter pvcMountKey (defaultAdditionalPVCs es))"
    unfolding validateAdditionalPVCEntries_def range_seen_Nil_iff
    by (simp add: defaultAdditionalPVCs_def all_set_conv_all_nth ms)
  also have "\<dots> \<longleftrightarrow> ?R" using k by (metis (no_types, lifting))
  finally show ?thesis .
qed

theorem shard_claims_accepted_iff_witness:
  "validateAdditionalPVCEntries (defaultAdditionalPVCs
     [\<lparr>pvc_MountPath = ''/var/log/gdd '', pvc_PvcName = [], pvc_StorageSizeInGb = 0, pvc_StorageClass = []\<rparr>,
      \<lparr>pvc_MountPath = ''/data'', pvc_PvcName = ''claim'', pvc_StorageSizeInGb = 0, pvc_StorageClass = []\<rparr>])
     DefaultOraDataMountPath DefaultDiagMountPath [] = []"
  unfolding shard_claims_accepted_iff by (simp add: go_eval)

end
