(* ===== verification/Sharding_Shards.thy ===== *)
theory Sharding_Shards
  imports Sharding_Replicas Sharding_Storage
begin

text \<open>
  How the shard list is materialised from the \<^verbatim>\<open>shardInfo\<close> entries
  (\<^verbatim>\<open>apis/database/v4/shardingdatabase_webhook.go\<close>): environment variables, \<open>initShardsSpec\<close> (a
  write past the end of the slice is the value \<open>None\<close>, Go's run-time panic), \<open>buildDesiredShardSpec\<close>,
  \<open>mergeDesiredAndExistingShards\<close> and the ordinal of a shard name. \<^verbatim>\<open>sort.Slice\<close> is modelled by a
  stable sort; the theorems on the order use only that the result is a sorted permutation.
\<close>


section \<open>Environment variables\<close>

definition envKey :: "EnvironmentVariable \<Rightarrow> string" where
  "envKey e = ToLower (TrimSpace (env_Name e))"

text \<open>\<^verbatim>\<open>idx\<close>: the last position of each key in the base list.\<close>

definition envIndex :: "EnvironmentVariable list \<Rightarrow> (string \<rightharpoonup> nat)" where
  "envIndex base = map_of (rev (zip (map envKey base) [0..<length base]))"

definition upsertEnvVar ::
    "(string \<rightharpoonup> nat) \<Rightarrow> bool \<Rightarrow> EnvironmentVariable \<Rightarrow> EnvironmentVariable list \<Rightarrow> EnvironmentVariable list" where
  "upsertEnvVar idx overwrite e acc =
     (case idx (envKey e) of
        Some pos \<Rightarrow> if overwrite then acc[pos := (acc ! pos)\<lparr>env_Value := env_Value e\<rparr>] else acc
      | None \<Rightarrow> acc @ [e])"

definition upsertEnvVars ::
    "EnvironmentVariable list \<Rightarrow> EnvironmentVariable list \<Rightarrow> bool \<Rightarrow> EnvironmentVariable list" where
  "upsertEnvVars base add overwrite =
     (if base = [] then add else fold (upsertEnvVar (envIndex base) overwrite) add base)"

definition envVarsFromPairs :: "(string \<times> string) list \<Rightarrow> EnvironmentVariable list" where
  "envVarsFromPairs pairs = map (\<lambda>(k, v). \<lparr>env_Name = k, env_Value = v\<rparr>) pairs"


section \<open>The desired shards\<close>

text \<open>The body of the inner loop, in the order of its assignments.\<close>

definition initShardTopology :: "ShardingDetails \<Rightarrow> nat \<Rightarrow> ShardSpec \<Rightarrow> ShardSpec" where
  "initShardTopology info shardIndex s =
     (let s1 = s\<lparr>sh_Name := si_ShardPreFixName info @ itoa_nat (shardIndex + 1),
                 sh_StorageSizeInGb := si_StorageSizeInGb info\<rparr>;
          s2 = (case si_ShardGroupDetails info of None \<Rightarrow> s1
                | Some g \<Rightarrow> s1\<lparr>sh_ShardGroup := sg_Name g, sh_ShardRegion := sg_Region g,
                               sh_DeployAs := sg_DeployAs g, sh_IsDelete := sg_IsDelete g\<rparr>);
          s3 = s2\<lparr>sh_PrimaryDatabaseRef := si_PrimaryDatabaseRef info, sh_ImagePulllPolicy := Some ''Always''\<rparr>
      in case si_ShardSpaceDetails info of None \<Rightarrow> s3
         | Some sp \<Rightarrow> (let s4 = s3\<lparr>sh_ShardSpace := ss_Name sp\<rparr> in
             if si_ShardGroupDetails info = None then s4\<lparr>sh_DeployAs := ss_DeployAs sp\<rparr> else s4))"

definition initShardSizing :: "ShardingDetails \<Rightarrow> ShardSpec \<Rightarrow> ShardSpec" where
  "initShardSizing info s =
     (let s1 = (case LookupShapeConfig (si_Shape info) of None \<Rightarrow> s
                | Some cfg \<Rightarrow> s\<lparr>sh_EnvVars := upsertEnvVars (sh_EnvVars s) (envVarsFromPairs (EnvPairs cfg)) True,
                                sh_Resources := Some (shapeResourceRequirements cfg)\<rparr>);
          s2 = (if si_EnvVars info \<noteq> [] then s1\<lparr>sh_EnvVars := upsertEnvVars (sh_EnvVars s1) (si_EnvVars info) True\<rparr> else s1)
      in if si_Resources info \<noteq> None then s2\<lparr>sh_Resources := si_Resources info\<rparr> else s2)"

definition initShardPlacement :: "ShardingDetails \<Rightarrow> ShardSpec \<Rightarrow> ShardSpec" where
  "initShardPlacement info s =
     (let s1 = (if sh_Nodes s = [] \<and> si_Nodes info \<noteq> [] then s\<lparr>sh_Nodes := si_Nodes info\<rparr> else s);
          s2 = (if sh_NodeSelector s1 = [] \<and> si_NodeSelector info \<noteq> []
                then s1\<lparr>sh_NodeSelector := si_NodeSelector info\<rparr> else s1);
          s3 = (if sh_StorageSource s2 = None \<and> si_StorageSource info \<noteq> None
                then s2\<lparr>sh_StorageSource := si_StorageSource info\<rparr> else s2);
          s4 = (if si_AdditionalPVCs info \<noteq> [] then s3\<lparr>sh_AdditionalPVCs := si_AdditionalPVCs info\<rparr> else s3)
      in s4\<lparr>sh_ServiceAnnotations := si_ServiceAnnotations info,
            sh_ExternalServiceAnnotations := si_ExternalServiceAnnotations info,
            sh_SecurityContext := si_SecurityContext info, sh_Capabilities := si_Capabilities info\<rparr>)"

definition initShard :: "ShardingDetails \<Rightarrow> nat \<Rightarrow> ShardSpec \<Rightarrow> ShardSpec" where
  "initShard info shardIndex s = initShardPlacement info (initShardSizing info (initShardTopology info shardIndex s))"

fun fillShards :: "ShardingDetails \<Rightarrow> nat \<Rightarrow> nat \<Rightarrow> ShardSpec list \<Rightarrow> ShardSpec list option" where
  "fillShards info shardIndex 0 shards = Some shards"
| "fillShards info shardIndex (Suc n) shards =
     (if shardIndex < length shards
      then fillShards info (Suc shardIndex) n (shards[shardIndex := initShard info shardIndex (shards ! shardIndex)])
      else None)"

definition initCount :: "ShardingDetails \<Rightarrow> int" where
  "initCount info = (let replicas = getShardInfoCount info in if replicas = 0 then 2 else replicas)"

fun initShardsLoop :: "ShardingDetails list \<Rightarrow> nat \<Rightarrow> ShardSpec list \<Rightarrow> ShardSpec list option" where
  "initShardsLoop [] shardIndex shards = Some shards"
| "initShardsLoop (info # infos) shardIndex shards =
     (case fillShards info shardIndex (nat (initCount info)) shards of
        None \<Rightarrow> None
      | Some shards' \<Rightarrow> initShardsLoop infos (shardIndex + nat (initCount info)) shards')"

definition initShardsSpec :: "ShardingDatabaseSpec \<Rightarrow> ShardingDatabaseSpec option" where
  "initShardsSpec spec =
     (case initShardsLoop (spec_ShardInfo spec) 0 (spec_Shard spec) of
        None \<Rightarrow> None | Some shards \<Rightarrow> Some (spec\<lparr>spec_Shard := shards\<rparr>))"

definition buildDesiredShardSpec :: "ShardingDatabaseSpec \<Rightarrow> ShardSpec list option" where
  "buildDesiredShardSpec spec =
     (let (totalShard, countErrs) = desiredShardReplicaTotal spec in
      if countErrs \<noteq> [] then Some []
      else case initShardsSpec (spec\<lparr>spec_Shard := replicate (nat totalShard) zeroShardSpec\<rparr>) of
          None \<Rightarrow> None | Some tmp \<Rightarrow> Some (spec_Shard tmp))"


section \<open>Ordinals of shard names\<close>

text \<open>The scan from the end of the name, over the reversed string; \<^verbatim>\<open>int\<close> is 64 bits wide.\<close>

fun ordinalScan :: "string \<Rightarrow> int \<Rightarrow> int \<Rightarrow> bool \<Rightarrow> int" where
  "ordinalScan [] n mul foundDigit = (if foundDigit then n else 0)"
| "ordinalScan (c # cs) n mul foundDigit =
     (if is_digit c
      then ordinalScan cs (wrap64 (n + wrap64 (int (digit_val c) * mul))) (wrap64 (mul * 10)) True
      else if foundDigit then n
      else ordinalScan cs n mul foundDigit)"

definition shardOrdinalWebhook :: "string \<Rightarrow> int" where
  "shardOrdinalWebhook name = ordinalScan (rev name) 0 1 False"


section \<open>Merging with the existing shards\<close>

definition refreshShard :: "ShardSpec \<Rightarrow> ShardSpec \<Rightarrow> ShardSpec" where
  "refreshShard old d =
     (let m1 = old\<lparr>sh_Name := sh_Name d, sh_StorageSizeInGb := sh_StorageSizeInGb d, sh_ShardGroup := sh_ShardGroup d,
                   sh_ShardRegion := sh_ShardRegion d, sh_DeployAs := sh_DeployAs d\<rparr>;
          m2 = (case sh_PrimaryDatabaseRef d of None \<Rightarrow> m1
                | Some ref \<Rightarrow> if \<not> blank (dbr_Host ref) then m1\<lparr>sh_PrimaryDatabaseRef := Some ref\<rparr> else m1);
          m3 = m2\<lparr>sh_ImagePulllPolicy := sh_ImagePulllPolicy d, sh_ShardSpace := sh_ShardSpace d,
                  sh_EnvVars := sh_EnvVars d, sh_Resources := sh_Resources d, sh_AdditionalPVCs := sh_AdditionalPVCs d,
                  sh_ServiceAnnotations := sh_ServiceAnnotations d,
                  sh_ExternalServiceAnnotations := sh_ExternalServiceAnnotations d,
                  sh_SecurityContext := sh_SecurityContext d, sh_Capabilities := sh_Capabilities d\<rparr>
      in m3\<lparr>sh_IsDelete := (if \<not> blank (ToLower (sh_IsDelete old)) then sh_IsDelete old else sh_IsDelete d)\<rparr>)"

definition mergeDesired :: "(string \<rightharpoonup> ShardSpec) \<Rightarrow> ShardSpec \<Rightarrow> ShardSpec list" where
  "mergeDesired existingByName d =
     (if blank (sh_Name d) then []
      else case existingByName (TrimSpace (sh_Name d)) of None \<Rightarrow> [d] | Some old \<Rightarrow> [refreshShard old d])"

definition extraShards :: "ShardSpec list \<Rightarrow> ShardSpec list \<Rightarrow> ShardSpec list" where
  "extraShards existing desired =
     filter (\<lambda>s. \<not> blank (sh_Name s) \<and> TrimSpace (sh_Name s) \<notin> set (map (\<lambda>d. TrimSpace (sh_Name d)) desired)) existing"

definition mergeDesiredAndExistingShards :: "ShardSpec list \<Rightarrow> ShardSpec list \<Rightarrow> ShardSpec list" where
  "mergeDesiredAndExistingShards existing desired =
     concat (map (mergeDesired (indexBy (\<lambda>s. trimmedKey (sh_Name s)) existing)) desired)
     @ sort_key (\<lambda>s. shardOrdinalWebhook (sh_Name s)) (extraShards existing desired)"



section \<open>Environment variables as a map\<close>

definition envMap :: "EnvironmentVariable list \<Rightarrow> (string \<rightharpoonup> string)" where
  "envMap vs = map_of (map (\<lambda>e. (envKey e, env_Value e)) vs)"

lemma map_of_list_update:
  "distinct (map fst xs) \<Longrightarrow> pos < length xs \<Longrightarrow> map_of (xs[pos := (fst (xs ! pos), v)]) = (map_of xs)(fst (xs ! pos) \<mapsto> v)"
proof (induction xs arbitrary: pos)
  case (Cons x xs)
  show ?case
  proof (cases pos)
    case (Suc q)
    then have "fst (xs ! q) \<noteq> fst x" using Cons.prems by (metis distinct.simps(2) length_Cons list.simps(9)
        length_map nth_map nth_mem Suc_less_eq)
    with Suc Cons show ?thesis by (cases x) (auto simp: fun_eq_iff)
  qed (cases x, auto simp: fun_eq_iff)
qed simp

lemma envMap_update:
  assumes "distinct (map envKey acc)" and "pos < length acc"
  shows "envMap (acc[pos := (acc ! pos)\<lparr>env_Value := v\<rparr>]) = (envMap acc)(envKey (acc ! pos) \<mapsto> v)"
proof -
  let ?xs = "map (\<lambda>e. (envKey e, env_Value e)) acc"
  have d: "distinct (map fst ?xs)" using assms(1) by (simp add: comp_def)
  have "envKey ((acc ! pos)\<lparr>env_Value := v\<rparr>) = envKey (acc ! pos)" by (simp add: envKey_def)
  then show ?thesis
    using map_of_list_update [OF d, of pos v] assms(2) by (simp add: envMap_def map_update)
qed

lemma keys_update: "pos < length acc \<Longrightarrow> map envKey (acc[pos := (acc ! pos)\<lparr>env_Value := v\<rparr>]) = map envKey acc"
  by (rule nth_equalityI) (auto simp: nth_list_update envKey_def)

lemma envIndex_Some: "envIndex base k = Some pos \<Longrightarrow> pos < length base \<and> envKey (base ! pos) = k"
  unfolding envIndex_def by (auto dest!: map_of_SomeD simp: set_zip)

lemma envIndex_None_iff: "envIndex base k = None \<longleftrightarrow> k \<notin> set (map envKey base)"
  unfolding envIndex_def map_of_eq_None_iff by (force simp: set_zip in_set_conv_nth)

lemma upsert_fold:
  assumes "take (length base) (map envKey acc) = map envKey base" and "distinct (map envKey acc)"
    and "distinct (map envKey add)" and "set (drop (length base) (map envKey acc)) \<inter> set (map envKey add) = {}"
  shows "envMap (fold (upsertEnvVar (envIndex base) True) add acc) = envMap acc ++ envMap add \<and>
    distinct (map envKey (fold (upsertEnvVar (envIndex base) True) add acc))"
  using assms
proof (induction add arbitrary: acc)
  case Nil
  then show ?case by (simp add: envMap_def)
next
  case (Cons e add)
  let ?k = "envKey e"
  have len: "length base \<le> length acc" using arg_cong [OF Cons.prems(1), of length] by simp
  have fresh: "?k \<notin> dom (envMap add)" using Cons.prems(3) by (auto simp: envMap_def dom_map_of_conv_image_fst)
  have cons: "envMap acc ++ envMap (e # add) = (envMap acc)(?k \<mapsto> env_Value e) ++ envMap add"
    using fresh by (simp add: envMap_def map_add_upd map_add_upd_left)
  show ?case
  proof (cases "envIndex base ?k")
    case (Some pos)
    then have pos: "pos < length base" "envKey (base ! pos) = ?k" using envIndex_Some by blast+
    then have p: "pos < length acc" using len by simp
    have "map envKey acc ! pos = map envKey base ! pos" using pos Cons.prems(1) by (metis nth_take)
    then have k: "envKey (acc ! pos) = ?k" using pos p by simp
    let ?acc = "acc[pos := (acc ! pos)\<lparr>env_Value := env_Value e\<rparr>]"
    have "envMap ?acc = (envMap acc)(?k \<mapsto> env_Value e)" using envMap_update [OF Cons.prems(2) p] k by simp
    moreover have "envMap (fold (upsertEnvVar (envIndex base) True) add ?acc) = envMap ?acc ++ envMap add \<and>
        distinct (map envKey (fold (upsertEnvVar (envIndex base) True) add ?acc))"
      using Cons.prems by (intro Cons.IH) (auto simp: keys_update [OF p])
    ultimately show ?thesis using Some cons by (simp add: upsertEnvVar_def [of _ _ e acc])
  next
    case None
    then have nb: "?k \<notin> set (map envKey base)" by (metis envIndex_None_iff)
    have "set (map envKey acc) = set (map envKey base) \<union> set (drop (length base) (map envKey acc))"
      using Cons.prems(1) by (metis append_take_drop_id set_append)
    moreover have "?k \<notin> set (drop (length base) (map envKey acc))" using Cons.prems(4) by auto
    ultimately have na: "?k \<notin> set (map envKey acc)" using nb by blast
    then have "?k \<notin> dom (envMap acc)" by (auto simp: envMap_def dom_map_of_conv_image_fst)
    then have "envMap (acc @ [e]) = (envMap acc)(?k \<mapsto> env_Value e)"
      by (simp add: envMap_def map_add_upd_left)
    moreover have "envMap (fold (upsertEnvVar (envIndex base) True) add (acc @ [e])) = envMap (acc @ [e]) ++ envMap add \<and>
        distinct (map envKey (fold (upsertEnvVar (envIndex base) True) add (acc @ [e])))"
      using Cons.prems na len by (intro Cons.IH) auto
    ultimately show ?thesis using None cons by (simp add: upsertEnvVar_def [of _ _ e acc])
  qed
qed

text \<open>
  with unique variable names (up to case and surrounding space) on both sides, the upsert of
  environment variables is the map override: an added value wins, every other variable keeps its
  value, and no name occurs twice.
\<close>

theorem upsert_is_override:
  assumes "distinct (map envKey base)" and "distinct (map envKey add)"
  shows "envMap (upsertEnvVars base add True) = envMap base ++ envMap add \<and>
    distinct (map envKey (upsertEnvVars base add True))"
proof (cases "base = []")
  case True
  then show ?thesis using assms by (simp add: upsertEnvVars_def envMap_def)
next
  case False
  then show ?thesis
    using upsert_fold [of base base add] assms by (simp add: upsertEnvVars_def)
qed

theorem upsert_is_override_witness:
  "envMap (upsertEnvVars [\<lparr>env_Name = ''Init_SGA'', env_Value = ''1''\<rparr>, \<lparr>env_Name = ''A'', env_Value = ''x''\<rparr>]
      [\<lparr>env_Name = ''INIT_SGA'', env_Value = ''2''\<rparr>] True) = [''init_sga'' \<mapsto> ''2'', ''a'' \<mapsto> ''x'']"
proof -
  let ?base = "[\<lparr>env_Name = ''Init_SGA'', env_Value = ''1''\<rparr>, \<lparr>env_Name = ''A'', env_Value = ''x''\<rparr>]"
  let ?add = "[\<lparr>env_Name = ''INIT_SGA'', env_Value = ''2''\<rparr>]"
  have k: "map envKey ?base = [''init_sga'', ''a'']" "map envKey ?add = [''init_sga'']"
    by (simp_all add: envKey_def go_eval)
  then have "envMap (upsertEnvVars ?base ?add True) = envMap ?base ++ envMap ?add"
    using upsert_is_override [of ?base ?add] by simp
  also have "\<dots> = [''init_sga'' \<mapsto> ''2'', ''a'' \<mapsto> ''x'']"
    using k by (auto simp: envMap_def)
  finally show ?thesis .
qed


section \<open>What is materialised\<close>

text \<open>The list the loop is to produce, without indices into a slice.\<close>

fun desiredShards :: "ShardingDetails list \<Rightarrow> nat \<Rightarrow> ShardSpec list" where
  "desiredShards [] k = []"
| "desiredShards (info # infos) k =
     map (\<lambda>j. initShard info j zeroShardSpec) [k..<k + nat (initCount info)]
     @ desiredShards infos (k + nat (initCount info))"

lemma fillShards_Some:
  "length pre = k \<Longrightarrow> fillShards info k n (pre @ replicate (n + m) z) =
     Some (pre @ map (\<lambda>j. initShard info j z) [k..<k + n] @ replicate m z)"
proof (induction n arbitrary: pre k)
  case (Suc n)
  have u: "(pre @ replicate (Suc n + m) z)[k := initShard info k z] = (pre @ [initShard info k z]) @ replicate (n + m) z"
    using Suc.prems by (simp add: list_update_append)
  have "fillShards info k (Suc n) (pre @ replicate (Suc n + m) z) =
      fillShards info (Suc k) n ((pre @ [initShard info k z]) @ replicate (n + m) z)"
    using Suc.prems u by (simp add: nth_append)
  also have "\<dots> = Some ((pre @ [initShard info k z]) @ map (\<lambda>j. initShard info j z) [Suc k..<Suc k + n] @ replicate m z)"
    using Suc.prems by (intro Suc.IH) simp
  also have "\<dots> = Some (pre @ map (\<lambda>j. initShard info j z) [k..<k + Suc n] @ replicate m z)"
    by (simp add: upt_conv_Cons del: upt_Suc)
  finally show ?case .
qed simp

lemma fillShards_None: "length shards < k + n \<Longrightarrow> k \<le> length shards \<Longrightarrow> fillShards info k n shards = None"
  by (induction n arbitrary: k shards) auto

lemma length_desiredShards: "length (desiredShards infos k) = sum_list (map (\<lambda>i. nat (initCount i)) infos)"
  by (induction infos arbitrary: k) simp_all

lemma initShardsLoop_Some:
  "length pre = k \<Longrightarrow> initShardsLoop infos k (pre @ replicate (length (desiredShards infos k) + m) zeroShardSpec) =
     Some (pre @ desiredShards infos k @ replicate m zeroShardSpec)"
proof (induction infos arbitrary: pre k)
  case (Cons info infos)
  let ?n = "nat (initCount info)"
  let ?new = "map (\<lambda>j. initShard info j zeroShardSpec) [k..<k + ?n]"
  have "fillShards info k ?n (pre @ replicate (?n + (length (desiredShards infos (k + ?n)) + m)) zeroShardSpec) =
      Some ((pre @ ?new) @ replicate (length (desiredShards infos (k + ?n)) + m) zeroShardSpec)"
    using fillShards_Some [OF Cons.prems, of info ?n "length (desiredShards infos (k + ?n)) + m" zeroShardSpec] by simp
  moreover have "initShardsLoop infos (k + ?n) ((pre @ ?new) @ replicate (length (desiredShards infos (k + ?n)) + m) zeroShardSpec) =
      Some ((pre @ ?new) @ desiredShards infos (k + ?n) @ replicate m zeroShardSpec)"
    using Cons.prems by (intro Cons.IH) simp
  ultimately show ?case by (simp add: add.assoc)
qed simp

lemma initShardsLoop_None:
  "length pre = k \<Longrightarrow> m < length (desiredShards infos k) \<Longrightarrow>
     initShardsLoop infos k (pre @ replicate m zeroShardSpec) = None"
proof (induction infos arbitrary: pre k m)
  case (Cons info infos)
  let ?n = "nat (initCount info)"
  show ?case
  proof (cases "m < ?n")
    case True
    then have "fillShards info k ?n (pre @ replicate m zeroShardSpec) = None"
      using Cons.prems by (intro fillShards_None) simp_all
    then show ?thesis by simp
  next
    case False
    then obtain q where q: "m = ?n + q" by (metis le_Suc_ex not_less)
    let ?new = "map (\<lambda>j. initShard info j zeroShardSpec) [k..<k + ?n]"
    have "fillShards info k ?n (pre @ replicate (?n + q) zeroShardSpec) = Some ((pre @ ?new) @ replicate q zeroShardSpec)"
      using fillShards_Some [OF Cons.prems(1)] by simp
    moreover have "initShardsLoop infos (k + ?n) ((pre @ ?new) @ replicate q zeroShardSpec) = None"
      using Cons.prems q by (intro Cons.IH) simp_all
    ultimately show ?thesis using q by simp
  qed
qed simp

lemma buildDesired_eq:
  assumes "desiredShardReplicaTotal spec = (t, [])"
  shows "buildDesiredShardSpec spec =
    (if nat t < length (desiredShards (spec_ShardInfo spec) 0) then None
     else Some (desiredShards (spec_ShardInfo spec) 0
       @ replicate (nat t - length (desiredShards (spec_ShardInfo spec) 0)) zeroShardSpec))"
proof -
  let ?D = "desiredShards (spec_ShardInfo spec) 0"
  show ?thesis
  proof (cases "nat t < length ?D")
    case True
    then show ?thesis
      using initShardsLoop_None [of "[]" 0 "nat t" "spec_ShardInfo spec"]
      by (simp add: buildDesiredShardSpec_def assms initShardsSpec_def)
  next
    case False
    then have "nat t = length ?D + (nat t - length ?D)" by simp
    then show ?thesis
      using initShardsLoop_Some [of "[]" 0 "spec_ShardInfo spec" "nat t - length ?D"] False
      by (simp add: buildDesiredShardSpec_def assms initShardsSpec_def)
  qed
qed



section \<open>Ordinals\<close>

definition endsInDigit :: "string \<Rightarrow> bool" where
  "endsInDigit s \<longleftrightarrow> s \<noteq> [] \<and> is_digit (last s)"

lemma ordinalScan_stop: "cs = [] \<or> \<not> is_digit (hd cs) \<Longrightarrow> ordinalScan cs n mul True = n"
  by (cases cs) simp_all

lemma pow10_le: "j \<le> 18 \<Longrightarrow> (10::int) ^ j \<le> 10 ^ 18"
  by (rule power_increasing) simp_all

lemma wrap64_dec: "0 \<le> x \<Longrightarrow> x \<le> 2 * 10 ^ 18 \<Longrightarrow> wrap64 x = x"
  by (simp add: wrap64_def)

lemma ordinalScan_itoa:
  assumes "int k * 10 ^ j < 10 ^ 18" and "0 \<le> n" and "n < 10 ^ j" and "j < 18"
    and "cs = [] \<or> \<not> is_digit (hd cs)"
  shows "ordinalScan (rev (itoa_nat k) @ cs) n (10 ^ j) f = n + int k * 10 ^ j"
  using assms
proof (induction k arbitrary: j n f rule: itoa_nat.induct)
  case (1 k)
  have b: "(10::int) ^ j * 10 \<le> 10 ^ 18" using pow10_le [of "Suc j"] "1.prems"(4) by simp
  show ?case
  proof (cases "k < 10")
    case True
    have "0 \<le> int k * 10 ^ j" by simp
    then have "wrap64 (int k * 10 ^ j) = int k * 10 ^ j" using "1.prems"(1) by (intro wrap64_dec) linarith+
    moreover have "wrap64 (n + int k * 10 ^ j) = n + int k * 10 ^ j"
      using \<open>0 \<le> int k * 10 ^ j\<close> "1.prems"(1-3) b by (intro wrap64_dec) auto
    ultimately have "wrap64 (n + wrap64 (int k * 10 ^ j)) = n + int k * 10 ^ j" by simp
    then show ?thesis
      using True "1.prems"(5) by (subst itoa_nat.simps) (simp add: ordinalScan_stop)
  next
    case False
    let ?d = "k mod 10" and ?q = "k div 10"
    have split: "int k * 10 ^ j = int ?d * 10 ^ j + int ?q * 10 ^ Suc j"
    proof -
      have "int k = int ?d + 10 * int ?q" by presburger
      then have "int k * 10 ^ j = (int ?d + 10 * int ?q) * 10 ^ j" by (rule arg_cong)
      also have "\<dots> = int ?d * 10 ^ j + int ?q * 10 ^ Suc j" by (simp only: distrib_left distrib_right power_Suc mult_ac)
      finally show ?thesis .
    qed
    have d: "0 \<le> int ?d * 10 ^ j" "int ?d * 10 ^ j \<le> 9 * 10 ^ j" by simp_all
    have q: "1 * 10 ^ Suc j \<le> int ?q * 10 ^ Suc j" using False by (intro mult_right_mono) auto
    then have "(10::int) ^ Suc j < 10 ^ 18" using split d "1.prems"(1) by linarith
    then have j: "Suc j < 18" by (metis one_less_numeral_iff power_less_imp_less_exp semiring_norm(76))
    have n': "wrap64 (n + wrap64 (int ?d * 10 ^ j)) = n + int ?d * 10 ^ j"
    proof -
      have "wrap64 (int ?d * 10 ^ j) = int ?d * 10 ^ j" using d b by (intro wrap64_dec) linarith+
      moreover have "wrap64 (n + int ?d * 10 ^ j) = n + int ?d * 10 ^ j"
        using d "1.prems"(2,3) b by (intro wrap64_dec) linarith+
      ultimately show ?thesis by simp
    qed
    have m': "wrap64 (10 ^ j * 10) = 10 ^ Suc j" using b by (simp add: wrap64_dec)
    have "ordinalScan (rev (itoa_nat k) @ cs) n (10 ^ j) f =
        ordinalScan (rev (itoa_nat ?q) @ cs) (n + int ?d * 10 ^ j) (10 ^ Suc j) True"
      using False n' m' by (subst itoa_nat.simps) simp
    also have "\<dots> = (n + int ?d * 10 ^ j) + int ?q * 10 ^ Suc j"
    proof (rule "1.IH")
      show "int ?q * 10 ^ Suc j < 10 ^ 18" using split d "1.prems"(1) by linarith
      have "(10::int) ^ Suc j = 10 * 10 ^ j" by simp
      then show "n + int ?d * 10 ^ j < 10 ^ Suc j" using d "1.prems"(3) by linarith
      show "0 \<le> n + int ?d * 10 ^ j" using d "1.prems"(2) by linarith
    qed (use False j "1.prems"(5) in simp_all)
    finally show ?thesis using split by simp
  qed
qed

lemma shardOrdinal_roundtrip:
  assumes "\<not> endsInDigit pre" and "int k < 10 ^ 18"
  shows "shardOrdinalWebhook (pre @ itoa_nat k) = int k"
proof -
  have "rev pre = [] \<or> \<not> is_digit (hd (rev pre))" using assms(1) by (auto simp: endsInDigit_def hd_rev)
  then have "ordinalScan (rev (itoa_nat k) @ rev pre) 0 (10 ^ 0) False = 0 + int k * 10 ^ 0"
    using assms(2) by (intro ordinalScan_itoa) simp_all
  then show ?thesis by (simp add: shardOrdinalWebhook_def)
qed

lemma name_initShard [simp]: "sh_Name (initShard info j s) = si_ShardPreFixName info @ itoa_nat (Suc j)"
proof -
  have "sh_Name (initShardPlacement info s) = sh_Name s" for s
    by (simp add: initShardPlacement_def Let_def if_distrib [of sh_Name] del: if_split)
  moreover have "sh_Name (initShardSizing info s) = sh_Name s" for s
    by (cases "LookupShapeConfig (si_Shape info)")
      (simp_all add: initShardSizing_def Let_def if_distrib [of sh_Name] del: if_split)
  moreover have "sh_Name (initShardTopology info j s) = si_ShardPreFixName info @ itoa_nat (Suc j)" for s
    by (cases "si_ShardGroupDetails info"; cases "si_ShardSpaceDetails info") (simp_all add: initShardTopology_def)
  ultimately show ?thesis by (simp add: initShard_def)
qed

lemma ordinals_desiredShards:
  assumes "\<forall>info \<in> set infos. \<not> endsInDigit (si_ShardPreFixName info)"
    and "int (k + length (desiredShards infos k)) < 10 ^ 18"
  shows "map (\<lambda>s. shardOrdinalWebhook (sh_Name s)) (desiredShards infos k) =
    map int [Suc k..<Suc k + length (desiredShards infos k)]"
  using assms
proof (induction infos arbitrary: k)
  case (Cons info infos)
  let ?n = "nat (initCount info)"
  have "shardOrdinalWebhook (si_ShardPreFixName info @ itoa_nat (Suc j)) = int (Suc j)" if "j < k + ?n" for j
  proof (rule shardOrdinal_roundtrip)
    have "Suc j \<le> k + length (desiredShards (info # infos) k)" using that by simp
    then show "int (Suc j) < 10 ^ 18" using Cons.prems(2) by linarith
  qed (use Cons.prems in simp)
  then have "map (\<lambda>s. shardOrdinalWebhook (sh_Name s)) (map (\<lambda>j. initShard info j zeroShardSpec) [k..<k + ?n]) =
      map int [Suc k..<Suc k + ?n]"
    by (simp add: map_Suc_upt [symmetric] del: upt_Suc)
  moreover have "map (\<lambda>s. shardOrdinalWebhook (sh_Name s)) (desiredShards infos (k + ?n)) =
      map int [Suc (k + ?n)..<Suc (k + ?n) + length (desiredShards infos (k + ?n))]"
    using Cons.prems by (intro Cons.IH) auto
  ultimately show ?case
    using upt_add_eq_append [of "Suc k" "Suc k + ?n" "length (desiredShards infos (k + ?n))"]
    by (simp add: add.assoc del: upt_Suc)
qed simp

lemma distinct_desiredNames:
  assumes "\<forall>info \<in> set infos. \<not> endsInDigit (si_ShardPreFixName info)"
    and "int (length (desiredShards infos 0)) < 10 ^ 18"
  shows "distinct (map sh_Name (desiredShards infos 0))"
proof -
  have "distinct (map (\<lambda>s. shardOrdinalWebhook (sh_Name s)) (desiredShards infos 0))"
    using ordinals_desiredShards [of infos 0] assms by (simp add: distinct_map del: upt_Suc)
  then show ?thesis by (auto simp: distinct_map inj_on_def)
qed

lemma build_desired_panics_iff:
  assumes "desiredShardReplicaTotal spec = (t, [])"
  shows "buildDesiredShardSpec spec = None \<longleftrightarrow> nat t < sum_list (map (\<lambda>i. nat (initCount i)) (spec_ShardInfo spec))"
  using buildDesired_eq [OF assms] by (simp add: length_desiredShards)

lemma build_desired_Some_iff:
  assumes "desiredShardReplicaTotal spec = (t, [])"
    and "\<forall>info \<in> set (spec_ShardInfo spec). wf_info info"
    and "\<forall>info \<in> set (spec_ShardInfo spec). initCount info = effCount (normalizeShardingType spec) info"
  shows "buildDesiredShardSpec spec = Some (desiredShards (spec_ShardInfo spec) 0)"
    and "int (length (desiredShards (spec_ShardInfo spec) 0)) = t" and "t \<le> 1024"
proof -
  let ?D = "desiredShards (spec_ShardInfo spec) 0" and ?m = "normalizeShardingType spec"
  have t: "t = sum_list (map (effCount ?m) (spec_ShardInfo spec))" "t \<le> 1024"
    using desiredShardReplicaTotal_ok [OF assms(2), of t] assms(1) by blast+
  have "int (sum_list (map (\<lambda>i. nat (initCount i)) xs)) = sum_list (map (effCount ?m) xs)"
    if "set xs \<subseteq> set (spec_ShardInfo spec)" for xs
    using that assms(2,3) effCount_nonneg by (induction xs) (auto simp: nat_add_distrib)
  then show len: "int (length ?D) = t" by (simp add: length_desiredShards t(1))
  then show "buildDesiredShardSpec spec = Some ?D" using buildDesired_eq [OF assms(1)] by auto
  show "t \<le> 1024" by (rule t(2))
qed

text \<open>
  when every entry's count is the same with and without the mode, the shards built from
  \<^verbatim>\<open>shardInfo\<close> are as many as the accepted total, the shard at position \<open>i\<close> has the name of its
  entry's prefix and the number \<open>i + 1\<close>, its ordinal reads back as that number, and no two shards
  have the same name (a prefix does not end in a digit).
\<close>

theorem materialised_shards:
  assumes "desiredShardReplicaTotal spec = (t, [])"
    and "\<forall>info \<in> set (spec_ShardInfo spec). wf_info info"
    and "\<forall>info \<in> set (spec_ShardInfo spec). initCount info = effCount (normalizeShardingType spec) info"
    and "\<forall>info \<in> set (spec_ShardInfo spec). \<not> endsInDigit (si_ShardPreFixName info)"
  shows "\<exists>shards. buildDesiredShardSpec spec = Some shards \<and> int (length shards) = t \<and>
    distinct (map sh_Name shards) \<and>
    (\<forall>i < length shards. shardOrdinalWebhook (sh_Name (shards ! i)) = int i + 1)"
proof -
  let ?D = "desiredShards (spec_ShardInfo spec) 0"
  note built = build_desired_Some_iff [OF assms(1-3)]
  have ord: "shardOrdinalWebhook (sh_Name (?D ! i)) = int i + 1" if "i < length ?D" for i
  proof -
    have "shardOrdinalWebhook (sh_Name (?D ! i)) = map (\<lambda>s. shardOrdinalWebhook (sh_Name s)) ?D ! i" using that by simp
    also have "\<dots> = int ([Suc 0..<Suc 0 + length ?D] ! i)"
      using ordinals_desiredShards [of "spec_ShardInfo spec" 0] assms(4) built(2,3) that by (simp del: upt_Suc)
    finally show ?thesis using that by (simp del: upt_Suc)
  qed
  moreover have "distinct (map sh_Name ?D)" using distinct_desiredNames assms(4) built(2,3) by auto
  ultimately show ?thesis using built(1,2) by blast
qed


lemma materialised_shards_example:
  "normalizeShardingType (zeroShardingDatabaseSpec\<lparr>spec_ShardInfo := [groupEntry ''shard'' ''g'' [] 2]\<rparr>) = modeSystem"
  "initCount (groupEntry ''shard'' ''g'' [] 2) = 2" "effCount modeSystem (groupEntry ''shard'' ''g'' [] 2) = 2"
  "wf_info (groupEntry ''shard'' ''g'' [] 2)"
  by (simp_all add: normalizeShardingType_def detectShardingMode_def hasGroupDetails_def hasSpaceDetails_def
      groupEntry_def zero_defs Let_def go_eval initCount_def getShardInfoCount_def standbyConfigDerivedShardCount_def
      effectiveReplicaCount_def desiredShardInfoReplicaCount_def wf_info_def in_int32_def)

theorem materialised_shards_witness:
  "\<exists>shards. buildDesiredShardSpec (zeroShardingDatabaseSpec\<lparr>spec_ShardInfo := [groupEntry ''shard'' ''g'' [] 2]\<rparr>) =
       Some shards \<and> int (length shards) = 2 \<and> distinct (map sh_Name shards) \<and>
     (\<forall>i < length shards. shardOrdinalWebhook (sh_Name (shards ! i)) = int i + 1)"
proof (rule materialised_shards)
  let ?s = "zeroShardingDatabaseSpec\<lparr>spec_ShardInfo := [groupEntry ''shard'' ''g'' [] 2]\<rparr>"
  show "\<forall>info \<in> set (spec_ShardInfo ?s). wf_info info" by (simp add: materialised_shards_example)
  then show "desiredShardReplicaTotal ?s = (2, [])"
    by (simp add: desiredShardReplicaTotal_ok materialised_shards_example)
qed (simp_all add: materialised_shards_example, simp add: endsInDigit_def groupEntry_def zero_defs is_digit_def)


section \<open>What the merge keeps\<close>

abbreviation shardKey :: "ShardSpec \<Rightarrow> string" where
  "shardKey s \<equiv> TrimSpace (sh_Name s)"

lemma refreshShard_fields [simp]:
  "sh_Name (refreshShard old d) = sh_Name d"
  "sh_IsDelete (refreshShard old d) = (if blank (sh_IsDelete old) then sh_IsDelete d else sh_IsDelete old)"
  by (auto simp: refreshShard_def Let_def TrimSpace_ToLower split: option.splits)

lemma mergeDesired_key: "m \<in> set (mergeDesired ex d) \<Longrightarrow> sh_Name m = sh_Name d \<and> \<not> blank (sh_Name d)"
  by (auto simp: mergeDesired_def split: if_splits option.splits)

lemma mergeDesired_keys:
  "map shardKey (mergeDesired ex d) = (if blank (sh_Name d) then [] else [shardKey d])"
  by (auto simp: mergeDesired_def split: option.splits)

lemma merge_desired_keys:
  "map shardKey (concat (map (mergeDesired ex) desired)) = filter (\<lambda>k. k \<noteq> []) (map shardKey desired)"
  by (induction desired) (simp_all add: mergeDesired_keys)

text \<open>
  merging the desired shards with the existing ones drops no shard and invents none: the names of
  the result are the names of both lists, each once if neither list repeats one; a shard that is no
  longer desired is kept as it is, after the desired ones and in the order of the ordinals; and an
  existing shard keeps a delete mark that is set.
\<close>

theorem merge_keeps_shards:
  assumes "distinct (List.map_filter (\<lambda>s. trimmedKey (sh_Name s)) existing)" and "distinct (map shardKey desired)"
  shows "shardKey ` set (mergeDesiredAndExistingShards existing desired) =
      (shardKey ` set desired \<union> shardKey ` set existing) - {[]} \<and>
    distinct (map shardKey (mergeDesiredAndExistingShards existing desired)) \<and>
    (\<exists>front extras. mergeDesiredAndExistingShards existing desired = front @ extras \<and>
       map shardKey front = filter (\<lambda>k. k \<noteq> []) (map shardKey desired) \<and>
       mset extras = mset (extraShards existing desired) \<and>
       sorted (map (\<lambda>s. shardOrdinalWebhook (sh_Name s)) extras)) \<and>
    (\<forall>s \<in> set existing. \<not> blank (sh_Name s) \<longrightarrow> \<not> blank (sh_IsDelete s) \<longrightarrow>
       (\<exists>m \<in> set (mergeDesiredAndExistingShards existing desired).
          shardKey m = shardKey s \<and> sh_IsDelete m = sh_IsDelete s))"
proof -
  let ?ex = "indexBy (\<lambda>s. trimmedKey (sh_Name s)) existing"
  let ?front = "concat (map (mergeDesired ?ex) desired)"
  let ?extras = "sort_key (\<lambda>s. shardOrdinalWebhook (sh_Name s)) (extraShards existing desired)"
  have m: "mergeDesiredAndExistingShards existing desired = ?front @ ?extras"
    by (simp add: mergeDesiredAndExistingShards_def)
  have fk: "map shardKey ?front = filter (\<lambda>k. k \<noteq> []) (map shardKey desired)" by (rule merge_desired_keys)
  have fs: "shardKey ` set ?front = shardKey ` set desired - {[]}"
    using arg_cong [OF fk, of set] by auto
  have es: "shardKey ` set ?extras = shardKey ` set existing - {[]} - shardKey ` set desired"
    by (auto simp: extraShards_def)
  have keys: "shardKey ` set (?front @ ?extras) = (shardKey ` set desired \<union> shardKey ` set existing) - {[]}"
    unfolding set_append image_Un fs es by blast
  have "distinct (map shardKey (extraShards existing desired))"
    using assms(1) by (induction existing)
      (auto simp: extraShards_def List.map_filter_simps List.map_filter_def trimmedKey_def image_iff split: if_splits)
  then have de: "distinct (map shardKey ?extras)"
    by (metis distinct_map mset_eq_imp_distinct_iff mset_map mset_sort)
  have "distinct (map shardKey ?front)" unfolding fk using assms(2) by simp
  then have dist: "distinct (map shardKey (?front @ ?extras))" using de fs es by auto
  have del: "\<exists>x \<in> set (?front @ ?extras). shardKey x = shardKey s \<and> sh_IsDelete x = sh_IsDelete s"
    if s: "s \<in> set existing" "\<not> blank (sh_Name s)" "\<not> blank (sh_IsDelete s)" for s
  proof (cases "shardKey s \<in> shardKey ` set desired")
    case True
    then obtain d where d: "d \<in> set desired" "shardKey d = shardKey s" by auto
    have "?ex (shardKey d) = Some s"
      unfolding indexBy_eq_Some_iff [OF assms(1)] using s d by (simp add: trimmedKey_def)
    then have "refreshShard s d \<in> set (mergeDesired ?ex d)" using s d by (simp add: mergeDesired_def)
    then have "refreshShard s d \<in> set (?front @ ?extras)" using d by auto
    then show ?thesis using s d by (intro bexI [of _ "refreshShard s d"]) auto
  next
    case False
    then have "s \<in> set ?extras" using s by (auto simp: extraShards_def)
    then show ?thesis by auto
  qed
  show ?thesis
    unfolding m using keys dist fk del by (intro conjI exI [of _ ?front] exI [of _ ?extras]) (simp_all add: sorted_sort_key)
qed

theorem merge_keeps_shards_witness:
  "distinct (map shardKey (mergeDesiredAndExistingShards
     [zeroShardSpec\<lparr>sh_Name := ''s2'', sh_IsDelete := ''enable''\<rparr>, zeroShardSpec\<lparr>sh_Name := ''s1''\<rparr>]
     [zeroShardSpec\<lparr>sh_Name := ''s1''\<rparr>]))"
  by (rule merge_keeps_shards [THEN conjunct2, THEN conjunct1])
    (simp_all add: List.map_filter_simps trimmedKey_def zero_defs go_eval)

end
