(* ===== verification/Sharding_Default.thy ===== *)
theory Sharding_Default
  imports Sharding_Shards
begin

text \<open>
  The defaulting webhook \<^verbatim>\<open>Default\<close> of \<^verbatim>\<open>apis/database/v4/shardingdatabase_webhook.go\<close>: one definition per
  phase, in the order the function has them, and their composition. It ends in the defaulted
  specification, in the errors of the replica count, or in a run-time panic.
\<close>


section \<open>Secrets\<close>

definition defaultPasswordEntry :: "PasswordSecretConfig \<Rightarrow> PasswordSecretConfig" where
  "defaultPasswordEntry entry =
     (if \<not> blank (pwd_PrivateKeyKey entry) \<and> blank (pwd_Pkeyopt entry)
      then entry\<lparr>pwd_Pkeyopt := DefaultPkeyopt\<rparr> else entry)"

definition defaultPasswordSecretConfig :: "SecretDetails option \<Rightarrow> SecretDetails option" where
  "defaultPasswordSecretConfig secret =
     (case secret of None \<Rightarrow> None
      | Some s \<Rightarrow>
          Some (s\<lparr>sec_MountPath := (if blank (sec_MountPath s) then DefaultSecretMountPath else sec_MountPath s),
                  sec_UseGsmWallet := (if blank (sec_UseGsmWallet s) then ''true'' else sec_UseGsmWallet s),
                  sec_GsmWalletRoot := (if blank (sec_GsmWalletRoot s) then DefaultGsmWalletRoot else sec_GsmWalletRoot s),
                  sec_DbAdmin := defaultPasswordEntry (sec_DbAdmin s),
                  sec_TDE := map_option defaultPasswordEntry (sec_TDE s)\<rparr>))"


section \<open>Shard directors\<close>

record inlineGsmDefaults =
  igd_resources :: "ResourceRequirements option"
  igd_storageSizeInGb :: int
  igd_imagePullPolicy :: "PullPolicy option"

definition mergeStringMapLocal :: "strmap \<Rightarrow> strmap \<Rightarrow> strmap" where
  "mergeStringMapLocal base overlay = fold (\<lambda>(k, v). mput k v) overlay (fold (\<lambda>(k, v). mput k v) base [])"

definition materializeGsm :: "ResourceRequirements option \<Rightarrow> GsmInfo \<Rightarrow> GsmSpec \<Rightarrow> GsmSpec" where
  "materializeGsm gsmResources common item =
     (let g1 = (if gsm_Resources item = None then
                  (if gsi_Resources common \<noteq> None then item\<lparr>gsm_Resources := gsi_Resources common\<rparr>
                   else if gsmResources \<noteq> None then item\<lparr>gsm_Resources := gsmResources\<rparr> else item)
                else item);
          g2 = (if gsm_StorageSizeInGb g1 \<le> 0 \<and> gsi_StorageSizeInGb common > 0
                then g1\<lparr>gsm_StorageSizeInGb := gsi_StorageSizeInGb common\<rparr> else g1);
          g3 = (if gsm_ImagePulllPolicy g2 = None \<and> gsi_ImagePulllPolicy common \<noteq> None
                then g2\<lparr>gsm_ImagePulllPolicy := gsi_ImagePulllPolicy common\<rparr> else g2);
          g4 = (if gsm_Nodes g3 = [] \<and> gsi_Nodes common \<noteq> [] then g3\<lparr>gsm_Nodes := gsi_Nodes common\<rparr> else g3)
      in g4\<lparr>gsm_EnvVars := upsertEnvVars (gsi_EnvVars common) (gsm_EnvVars g4) True,
            gsm_ServiceAnnotations := mergeStringMapLocal (gsi_ServiceAnnotations common) (gsm_ServiceAnnotations g4),
            gsm_ExternalServiceAnnotations :=
              mergeStringMapLocal (gsi_ExternalServiceAnnotations common) (gsm_ExternalServiceAnnotations g4)\<rparr>)"

definition applyGsmInfoDefaults :: "ShardingDatabaseSpec \<Rightarrow> ShardingDatabaseSpec" where
  "applyGsmInfoDefaults spec =
     (case spec_GsmInfo spec of None \<Rightarrow> spec
      | Some common \<Rightarrow>
          if gsi_Gsm common = [] then spec
          else spec\<lparr>spec_Gsm := map (materializeGsm (spec_GsmResources spec) common) (gsi_Gsm common)\<rparr>)"

definition isInlineGsmDefaultsEntry :: "GsmSpec \<Rightarrow> bool" where
  "isInlineGsmDefaultsEntry g \<longleftrightarrow>
     (if \<not> blank (gsm_Name g) then False
      else if gsm_Resources g = None \<and> gsm_StorageSizeInGb g \<le> 0 \<and> gsm_ImagePulllPolicy g = None then False
      else if gsm_EnvVars g \<noteq> [] \<or> \<not> blank (gsm_PvcName g) \<or>
          \<not> blank (gsm_Label g) \<or> \<not> blank (gsm_IsDelete g) \<or> gsm_NodeSelector g \<noteq> [] \<or>
          gsm_PvAnnotations g \<noteq> [] \<or> gsm_PvMatchLabels g \<noteq> [] \<or>
          \<not> blank (gsm_Region g) \<or> \<not> blank (gsm_DirectorName g) \<or> gsm_GsmConfigData g \<noteq> None \<or>
          gsm_GsmNum g > 0 \<or> \<not> blank (gsm_GsmPrefix g) \<or> \<not> blank (gsm_Shape g) \<or>
          gsm_Regions g \<noteq> [] \<or> gsm_RemoteOns g > 0 \<or> gsm_LocalOns g > 0 \<or> gsm_Listener g > 0 \<or>
          \<not> blank (gsm_Endpoint g) \<or> \<not> blank (gsm_RemoteEndpoint g) \<or>
          \<not> blank (gsm_TraceLevel g) \<or> \<not> blank (gsm_Encryption g) \<or>
          \<not> blank (gsm_Catalog g) \<or> \<not> blank (gsm_Pwd g) \<or> \<not> blank (gsm_WalletPassword g) \<or>
          gsm_AdditionalPVCs g \<noteq> [] \<or> gsm_SecurityContext g \<noteq> None \<or> gsm_Capabilities g \<noteq> None then False
      else True)"

definition collectInlineGsm :: "GsmSpec \<Rightarrow> inlineGsmDefaults \<Rightarrow> inlineGsmDefaults" where
  "collectInlineGsm g out =
     (let o1 = (if gsm_Resources g \<noteq> None then out\<lparr>igd_resources := gsm_Resources g\<rparr> else out);
          o2 = (if gsm_StorageSizeInGb g > 0 then o1\<lparr>igd_storageSizeInGb := gsm_StorageSizeInGb g\<rparr> else o1)
      in if gsm_ImagePulllPolicy g \<noteq> None then o2\<lparr>igd_imagePullPolicy := gsm_ImagePulllPolicy g\<rparr> else o2)"

definition extractAndStripInlineGsmDefaults ::
    "ShardingDatabaseSpec \<Rightarrow> inlineGsmDefaults \<times> ShardingDatabaseSpec" where
  "extractAndStripInlineGsmDefaults spec =
     (fold collectInlineGsm (filter isInlineGsmDefaultsEntry (spec_Gsm spec))
        \<lparr>igd_resources = None, igd_storageSizeInGb = 0, igd_imagePullPolicy = None\<rparr>,
      spec\<lparr>spec_Gsm := filter (\<lambda>g. \<not> isInlineGsmDefaultsEntry g) (spec_Gsm spec)\<rparr>)"

definition defaultGsm :: "inlineGsmDefaults \<Rightarrow> ResourceRequirements option \<Rightarrow> GsmSpec \<Rightarrow> GsmSpec" where
  "defaultGsm inl gsmDefaultResources g =
     (let g1 = g\<lparr>gsm_AdditionalPVCs := defaultAdditionalPVCs (gsm_AdditionalPVCs g)\<rparr>;
          g2 = (if gsm_StorageSizeInGb g1 \<le> 0 \<and> igd_storageSizeInGb inl > 0
                then g1\<lparr>gsm_StorageSizeInGb := igd_storageSizeInGb inl\<rparr> else g1);
          g3 = (if gsm_StorageSizeInGb g2 \<le> 0 then g2\<lparr>gsm_StorageSizeInGb := DefaultDiagSizeInGb\<rparr> else g2);
          g4 = (if gsm_ImagePulllPolicy g3 = None \<and> igd_imagePullPolicy inl \<noteq> None
                then g3\<lparr>gsm_ImagePulllPolicy := igd_imagePullPolicy inl\<rparr> else g3)
      in if gsm_Resources g4 = None \<and> gsmDefaultResources \<noteq> None
         then g4\<lparr>gsm_Resources := gsmDefaultResources\<rparr> else g4)"

text \<open>
  The last phase. A director that comes from \<^verbatim>\<open>gsmInfo\<close> shares the backing array of its volume
  claims with the entry it was copied from, so that the defaults of the claims appear there too.
\<close>

definition defaultGsmPhase :: "ShardingDatabaseSpec \<Rightarrow> ShardingDatabaseSpec" where
  "defaultGsmPhase spec =
     (let (inl, s1) = extractAndStripInlineGsmDefaults (applyGsmInfoDefaults spec);
          gsmDefaultResources = (if igd_resources inl \<noteq> None then igd_resources inl else spec_GsmResources s1)
      in s1\<lparr>spec_Gsm := map (defaultGsm inl gsmDefaultResources) (spec_Gsm s1),
            spec_GsmInfo := map_option (\<lambda>info. info\<lparr>gsi_Gsm :=
               map (\<lambda>g. g\<lparr>gsm_AdditionalPVCs := defaultAdditionalPVCs (gsm_AdditionalPVCs g)\<rparr>) (gsi_Gsm info)\<rparr>)
               (spec_GsmInfo s1)\<rparr>)"


section \<open>The phases before the shards are rebuilt\<close>

definition defaultScalars :: "ShardingDatabaseSpec \<Rightarrow> ShardingDatabaseSpec" where
  "defaultScalars spec =
     (let s1 = (if blank (spec_GsmDevMode spec) then spec\<lparr>spec_GsmDevMode := ''dev''\<rparr> else spec);
          s2 = (if blank (getTDEWalletEnabledFromSpec s1) then s1\<lparr>spec_IsTdeWallet := ''disable''\<rparr> else s1);
          dg = (case spec_Dataguard s2 of
                  None \<Rightarrow> \<lparr>dgp_Mode = [], dgp_Prereqs = None, dgp_AuthWallet = None, dgp_StandbySources = []\<rparr>
                | Some d \<Rightarrow> d)
      in s2\<lparr>spec_Dataguard := Some (dg\<lparr>dgp_Mode := normalizeDataguardProducerMode (Some dg)\<rparr>)\<rparr>)"

definition defaultShard :: "ShardSpec \<Rightarrow> ShardSpec" where
  "defaultShard s =
     (let s1 = (if sh_StorageSizeInGb s \<le> 0 then s\<lparr>sh_StorageSizeInGb := DefaultDiagSizeInGb\<rparr> else s);
          s2 = (if blank (ToLower (sh_IsDelete s1)) then s1\<lparr>sh_IsDelete := ''disable''\<rparr> else s1)
      in s2\<lparr>sh_DeployAs := normalizeDeployAsCanonical (sh_DeployAs s2),
            sh_AdditionalPVCs := defaultAdditionalPVCs (sh_AdditionalPVCs s2)\<rparr>)"

definition defaultShardGroup :: "ShardGroupSpec \<Rightarrow> ShardGroupSpec" where
  "defaultShardGroup g =
     (let g1 = (if blank (ToLower (sg_IsDelete g)) then g\<lparr>sg_IsDelete := ''disable''\<rparr> else g)
      in g1\<lparr>sg_DeployAs := normalizeDeployAsCanonical (sg_DeployAs g1)\<rparr>)"

definition defaultShardInfo :: "ShardingDetails \<Rightarrow> ShardingDetails" where
  "defaultShardInfo info =
     info\<lparr>si_StorageSizeInGb := (if si_StorageSizeInGb info \<le> 0 then DefaultDiagSizeInGb else si_StorageSizeInGb info),
          si_ShardGroupDetails := map_option defaultShardGroup (si_ShardGroupDetails info),
          si_ShardSpaceDetails := map_option (\<lambda>s. s\<lparr>ss_DeployAs := normalizeDeployAsCanonical (ss_DeployAs s)\<rparr>)
            (si_ShardSpaceDetails info),
          si_AdditionalPVCs := defaultAdditionalPVCs (si_AdditionalPVCs info)\<rparr>"

definition defaultShardNum :: "shardingMode \<Rightarrow> ShardingDetails \<Rightarrow> ShardingDetails" where
  "defaultShardNum modeHint info =
     (if getShardInfoCountByMode modeHint info = 0
      then info\<lparr>si_ShardNum := (if modeHint = modeUser then 1 else 2)\<rparr> else info)"

definition prepareSpec :: "ShardingDatabaseSpec \<Rightarrow> ShardingDatabaseSpec" where
  "prepareSpec spec =
     (let s1 = applyGlobalShardingReplicationDefaults (defaultScalars spec);
          s2 = s1\<lparr>spec_Shard := map defaultShard (spec_Shard s1)\<rparr>;
          s3 = s2\<lparr>spec_ShardInfo := map defaultShardInfo (spec_ShardInfo s2)\<rparr>
      in s3\<lparr>spec_ShardInfo := map (defaultShardNum (normalizeShardingType s3)) (spec_ShardInfo s3)\<rparr>)"


section \<open>The whole function\<close>

datatype default_failure = CountErrors error_list | IndexOutOfRange

definition rebuildShards :: "ShardingDatabaseSpec \<Rightarrow> default_failure + ShardingDatabaseSpec" where
  "rebuildShards spec =
     (let (totalShard, countErrs) = desiredShardReplicaTotal spec in
      if countErrs \<noteq> [] then Inl (CountErrors countErrs)
      else if totalShard > 0 then
        (case buildDesiredShardSpec spec of
           None \<Rightarrow> Inl IndexOutOfRange
         | Some desired \<Rightarrow> Inr (spec\<lparr>spec_Shard := mergeDesiredAndExistingShards (spec_Shard spec) desired\<rparr>))
      else Inr spec)"

definition defaultCatalog :: "CatalogSpec \<Rightarrow> CatalogSpec" where
  "defaultCatalog c =
     (let c1 = (if cat_StorageSizeInGb c \<le> 0 then c\<lparr>cat_StorageSizeInGb := DefaultDiagSizeInGb\<rparr> else c);
          c2 = c1\<lparr>cat_AdditionalPVCs := defaultAdditionalPVCs (cat_AdditionalPVCs c1)\<rparr>
      in case LookupShapeConfig (cat_Shape c2) of None \<Rightarrow> c2
         | Some cfg \<Rightarrow> c2\<lparr>cat_EnvVars := upsertEnvVars (cat_EnvVars c2) (envVarsFromPairs (EnvPairs cfg)) True,
                          cat_Resources := Some (shapeResourceRequirements cfg)\<rparr>)"

definition finishSpec :: "ShardingDatabaseSpec \<Rightarrow> ShardingDatabaseSpec" where
  "finishSpec spec =
     (let s1 = spec\<lparr>spec_DbSecret := defaultPasswordSecretConfig (spec_DbSecret spec)\<rparr>;
          s2 = s1\<lparr>spec_Catalog := map defaultCatalog (spec_Catalog s1)\<rparr>
      in defaultGsmPhase s2)"

definition Default :: "ShardingDatabaseSpec \<Rightarrow> default_failure + ShardingDatabaseSpec" where
  "Default spec =
     (case rebuildShards (prepareSpec spec) of Inl e \<Rightarrow> Inl e | Inr s \<Rightarrow> Inr (finishSpec s))"



section \<open>What the preparation establishes\<close>

lemma defaultScalars_fields [simp]:
  "spec_Shard (defaultScalars spec) = spec_Shard spec" "spec_ShardInfo (defaultScalars spec) = spec_ShardInfo spec"
  "spec_Catalog (defaultScalars spec) = spec_Catalog spec" "spec_ShardingType (defaultScalars spec) = spec_ShardingType spec"
  by (auto simp: defaultScalars_def Let_def)

lemma details_default [simp]:
  "hasGroupDetails (defaultShardNum m info) = hasGroupDetails info"
  "hasSpaceDetails (defaultShardNum m info) = hasSpaceDetails info"
  "hasGroupDetails (defaultShardInfo info) = hasGroupDetails info"
  "hasSpaceDetails (defaultShardInfo info) = hasSpaceDetails info"
  by (auto simp: hasGroupDetails_def hasSpaceDetails_def defaultShardNum_def defaultShardInfo_def defaultShardGroup_def
      Let_def split: option.splits)

lemma list_ex_map: "list_ex P (map f xs) = list_ex (\<lambda>x. P (f x)) xs"
  by (induction xs) simp_all

definition preparedMode :: "ShardingDatabaseSpec \<Rightarrow> shardingMode" where
  "preparedMode spec = normalizeShardingType (applyGlobalShardingReplicationDefaults (defaultScalars spec))"

lemma normalizeShardingType_map:
  assumes "\<And>i. hasGroupDetails (f i) = hasGroupDetails i" and "\<And>i. hasSpaceDetails (f i) = hasSpaceDetails i"
  shows "normalizeShardingType (s\<lparr>spec_ShardInfo := map f (spec_ShardInfo s)\<rparr>) = normalizeShardingType s"
  by (simp add: normalizeShardingType_def detectShardingMode_def list_ex_map assms Let_def)

lemma normalizeShardingType_Shard [simp]: "normalizeShardingType (s\<lparr>spec_Shard := x\<rparr>) = normalizeShardingType s"
  by (simp add: normalizeShardingType_def detectShardingMode_def Let_def)

lemma prepareSpec_fields:
  "spec_Shard (prepareSpec spec) = map defaultShard (spec_Shard spec)"
  "spec_ShardInfo (prepareSpec spec) =
     map (\<lambda>i. defaultShardNum (preparedMode spec) (defaultShardInfo i)) (spec_ShardInfo spec)"
  "normalizeShardingType (prepareSpec spec) = preparedMode spec"
proof -
  let ?s1 = "applyGlobalShardingReplicationDefaults (defaultScalars spec)"
  let ?s2 = "?s1\<lparr>spec_Shard := map defaultShard (spec_Shard ?s1)\<rparr>"
  let ?s3 = "?s2\<lparr>spec_ShardInfo := map defaultShardInfo (spec_ShardInfo ?s2)\<rparr>"
  have m3: "normalizeShardingType ?s3 = preparedMode spec"
    using normalizeShardingType_map [of defaultShardInfo ?s2] by (simp add: preparedMode_def)
  have p: "prepareSpec spec = ?s3\<lparr>spec_ShardInfo := map (defaultShardNum (preparedMode spec)) (spec_ShardInfo ?s3)\<rparr>"
    unfolding m3 [symmetric] by (simp add: prepareSpec_def Let_def)
  show "spec_Shard (prepareSpec spec) = map defaultShard (spec_Shard spec)" unfolding p by simp
  show "spec_ShardInfo (prepareSpec spec) =
     map (\<lambda>i. defaultShardNum (preparedMode spec) (defaultShardInfo i)) (spec_ShardInfo spec)"
    unfolding p by (simp add: comp_def)
  show "normalizeShardingType (prepareSpec spec) = preparedMode spec"
    unfolding p using normalizeShardingType_map [of "defaultShardNum (preparedMode spec)" ?s3] m3 by simp
qed

lemma wf_info_default [simp]: "wf_info (defaultShardNum m (defaultShardInfo info)) = wf_info info"
  if "wf_info info"
  using that by (auto simp: wf_info_def defaultShardNum_def defaultShardInfo_def in_int32_def)

lemma StandbyConfig_default [simp]: "si_StandbyConfig (defaultShardNum m (defaultShardInfo info)) = si_StandbyConfig info"
  by (simp add: defaultShardNum_def defaultShardInfo_def)

text \<open>Without sources outside user mode, the count with and without the mode is the same.\<close>

lemma getShardInfoCount_mode:
  "m = modeUser \<or> standbyConfigDerivedShardCount (si_StandbyConfig info) \<le> 0 \<Longrightarrow>
     getShardInfoCount info = getShardInfoCountByMode m info"
  by (auto simp: getShardInfoCount_def getShardInfoCountByMode_def Let_def)

lemma count_defaulted:
  "getShardInfoCountByMode m (defaultShardNum m info) \<noteq> 0"
  by (auto simp: defaultShardNum_def getShardInfoCountByMode_def)

lemma initCount_agrees:
  assumes "\<forall>info \<in> set (spec_ShardInfo spec). wf_info info" and "desiredShardReplicaTotal (prepareSpec spec) = (t, [])"
    and "info \<in> set (spec_ShardInfo spec)"
    and "preparedMode spec = modeUser \<or> standbyConfigDerivedShardCount (si_StandbyConfig info) \<le> 0"
  defines "info' \<equiv> defaultShardNum (preparedMode spec) (defaultShardInfo info)"
  shows "initCount info' = effCount (preparedMode spec) info'"
proof -
  let ?m = "preparedMode spec"
  have wf: "\<forall>i \<in> set (spec_ShardInfo (prepareSpec spec)). wf_info i"
    using assms(1) by (simp add: prepareSpec_fields)
  have v: "validateDesiredShardReplicaCounts (prepareSpec spec) = []"
    using assms(2) by (simp add: validateDesiredShardReplicaCounts_def)
  have mem: "info' \<in> set (spec_ShardInfo (prepareSpec spec))"
    using assms(3) by (simp add: prepareSpec_fields info'_def)
  have d: "getShardInfoCountByMode ?m info' = fst (desiredShardInfoReplicaCount ?m info' [])"
    using count32_agrees [OF wf v mem, of "[]"] by (simp add: prepareSpec_fields)
  have c: "getShardInfoCount info' = getShardInfoCountByMode ?m info'"
    using assms(4) by (intro getShardInfoCount_mode) (simp add: info'_def)
  have nz: "getShardInfoCountByMode ?m info' \<noteq> 0" by (simp add: info'_def count_defaulted)
  have idx: "fst (desiredShardInfoReplicaCount ?m info' p) = fst (desiredShardInfoReplicaCount ?m info' q)" for p q
    by (simp add: desiredShardInfoReplicaCount_def)
  show ?thesis
    unfolding initCount_def effectiveReplicaCount_def Let_def c d idx [of "[]" "[Child ''spec'', Child ''shardInfo'', Index 0]"]
    using nz [unfolded d idx [of "[]" "[Child ''spec'', Child ''shardInfo'', Index 0]"]]
    by (simp add: case_prod_beta)
qed

lemma rebuildShards_panic_iff:
  "rebuildShards spec = Inl IndexOutOfRange \<longleftrightarrow>
     (\<exists>t. desiredShardReplicaTotal spec = (t, []) \<and> 0 < t \<and>
        nat t < sum_list (map (\<lambda>i. nat (initCount i)) (spec_ShardInfo spec)))"
proof (cases "desiredShardReplicaTotal spec")
  case (Pair t errs)
  then show ?thesis
    using build_desired_panics_iff [of spec t]
    by (cases "errs = []") (auto simp: rebuildShards_def split: option.splits)
qed


section \<open>Properties\<close>

text \<open>
  the defaulting webhook panics exactly when the prepared entries ask, without regard to the
  sharding mode, for more shards than the total that the slice is made for.
\<close>

theorem default_panics_iff:
  "Default spec = Inl IndexOutOfRange \<longleftrightarrow>
     (\<exists>t. desiredShardReplicaTotal (prepareSpec spec) = (t, []) \<and> 0 < t \<and>
        nat t < sum_list (map (\<lambda>i. nat (initCount i)) (spec_ShardInfo (prepareSpec spec))))"
  unfolding rebuildShards_panic_iff [symmetric] by (simp add: Default_def split: sum.splits)

definition panicEntry :: ShardingDetails where
  "panicEntry = (groupEntry ''shard'' ''g'' ''STANDBY'' 1)\<lparr>si_StandbyConfig := Some (zeroStandbyConfig\<lparr>sbc_PrimarySources :=
     [zeroStandbyPrimarySource\<lparr>sps_ConnectString := ''a''\<rparr>, zeroStandbyPrimarySource\<lparr>sps_ConnectString := ''b''\<rparr>]\<rparr>)\<rparr>"

definition panicExample :: ShardingDatabaseSpec where
  "panicExample = zeroShardingDatabaseSpec\<lparr>spec_ShardingType := ''SYSTEM'', spec_ShardInfo := [panicEntry]\<rparr>"

lemma applyGlobal_ShardingType_eq:
  "spec_ShardingType (applyGlobalShardingReplicationDefaults s) =
     (if resolveTopSharding s \<noteq> [] then resolveTopSharding s else spec_ShardingType s)"
  by (simp add: applyGlobalShardingReplicationDefaults_def Let_def)

lemma panicExample_mode: "preparedMode panicExample = modeSystem"
proof -
  have "resolveTopSharding (defaultScalars panicExample) = ''SYSTEM''"
    by (simp add: resolveTopSharding_def normalizeShardingValue_def panicExample_def zeroShardingDatabaseSpec_def
        Let_def go_eval)
  then show ?thesis
    by (simp add: preparedMode_def normalizeShardingType_def applyGlobal_ShardingType_eq Let_def go_eval)
qed

lemma panicEntry_counts:
  "standbyConfigDerivedShardCount (si_StandbyConfig panicEntry) = 2" "si_ShardNum panicEntry = 1"
  by (simp_all add: panicEntry_def groupEntry_def zero_defs standbyConfigDerivedShardCount_def Let_def go_eval wrap32_def
      standbyConfigPrimaryCount_def standbyConfigPrimarySourceCount_def standbyPrimarySourceIdentityKey_def)

lemma panicEntry_default:
  "defaultShardNum modeSystem (defaultShardInfo panicEntry) = defaultShardInfo panicEntry"
  "si_StandbyConfig (defaultShardInfo panicEntry) = si_StandbyConfig panicEntry"
  "si_ShardNum (defaultShardInfo panicEntry) = 1"
  by (simp_all add: defaultShardNum_def getShardInfoCountByMode_def panicEntry_counts defaultShardInfo_def)

lemma panicExample_infos: "spec_ShardInfo (prepareSpec panicExample) = [defaultShardInfo panicEntry]"
proof -
  have "spec_ShardInfo panicExample = [panicEntry]" by (simp add: panicExample_def zeroShardingDatabaseSpec_def)
  then show ?thesis by (simp add: prepareSpec_fields panicExample_mode panicEntry_default)
qed

lemma panicExample_counts:
  "desiredShardReplicaTotal (prepareSpec panicExample) = (1, [])"
  "map initCount (spec_ShardInfo (prepareSpec panicExample)) = [2]"
  by (simp_all add: desiredShardReplicaTotal_def prepareSpec_fields(3) panicExample_mode panicExample_infos
      effectiveReplicaCount_def desiredShardInfoReplicaCount_def panicEntry_default maxDesiredShardReplicas_def
      wrap64_def wrap32_def initCount_def getShardInfoCount_def panicEntry_counts Let_def)

theorem default_panics_iff_witness: "Default panicExample = Inl IndexOutOfRange"
proof -
  have "map (\<lambda>i. nat (initCount i)) (spec_ShardInfo (prepareSpec panicExample)) = [2]"
    using arg_cong [OF panicExample_counts(2), of "map nat"] by (simp add: comp_def)
  then show ?thesis using panicExample_counts(1) unfolding default_panics_iff by simp
qed

text \<open>
  outside that case defaulting always returns: in user mode, or when no entry derives its
  count from primary sources, the webhook returns the defaulted object exactly when the entries ask for
  at most 1024 shards together, and never panics.
\<close>

theorem default_returns_iff:
  assumes "\<forall>info \<in> set (spec_ShardInfo spec). wf_info info"
    and "\<forall>info \<in> set (spec_ShardInfo spec). preparedMode spec = modeUser \<or>
           standbyConfigDerivedShardCount (si_StandbyConfig info) \<le> 0"
  shows "Default spec \<noteq> Inl IndexOutOfRange \<and>
    ((\<exists>s. Default spec = Inr s) \<longleftrightarrow>
       sum_list (map (effCount (preparedMode spec)) (spec_ShardInfo (prepareSpec spec))) \<le> 1024)"
proof -
  let ?p = "prepareSpec spec"
  have wf: "\<forall>i \<in> set (spec_ShardInfo ?p). wf_info i" using assms(1) by (simp add: prepareSpec_fields)
  have agree: "\<forall>i \<in> set (spec_ShardInfo ?p). initCount i = effCount (normalizeShardingType ?p) i"
    if "desiredShardReplicaTotal ?p = (t, [])" for t
    using initCount_agrees [OF assms(1) that] assms(2) by (auto simp: prepareSpec_fields)
  have np: "rebuildShards ?p \<noteq> Inl IndexOutOfRange"
  proof
    assume "rebuildShards ?p = Inl IndexOutOfRange"
    then obtain t where t: "desiredShardReplicaTotal ?p = (t, [])"
      and lt: "nat t < length (desiredShards (spec_ShardInfo ?p) 0)"
      unfolding rebuildShards_panic_iff length_desiredShards by blast
    then show False using build_desired_Some_iff(2) [OF t wf agree [OF t]] by simp
  qed
  moreover have "(\<exists>s. rebuildShards ?p = Inr s) \<longleftrightarrow> snd (desiredShardReplicaTotal ?p) = []"
    using np by (cases "desiredShardReplicaTotal ?p") (auto simp: rebuildShards_def split: option.splits if_splits)
  moreover have "snd (desiredShardReplicaTotal ?p) = [] \<longleftrightarrow>
      sum_list (map (effCount (preparedMode spec)) (spec_ShardInfo ?p)) \<le> 1024"
    using validateCounts_Nil_iff(1) [OF wf] by (simp add: validateDesiredShardReplicaCounts_def prepareSpec_fields)
  ultimately show ?thesis by (auto simp: Default_def split: sum.splits)
qed


lemma groupEntry_defaulted: "n > 0 \<Longrightarrow> effCount m (defaultShardNum m (defaultShardInfo (groupEntry p g d n))) = n"
  by (simp add: effectiveReplicaCount_def desiredShardInfoReplicaCount_def defaultShardNum_def
      getShardInfoCountByMode_def defaultShardInfo_def groupEntry_def zero_defs standbyConfigDerivedShardCount64_def
      standbyConfigDerivedShardCount_def)

theorem default_returns_iff_witness:
  "\<exists>s. Default (zeroShardingDatabaseSpec\<lparr>spec_ShardInfo := [groupEntry ''shard'' ''g'' [] 2]\<rparr>) = Inr s"
proof -
  let ?s = "zeroShardingDatabaseSpec\<lparr>spec_ShardInfo := [groupEntry ''shard'' ''g'' [] 2]\<rparr>"
  have infos: "spec_ShardInfo ?s = [groupEntry ''shard'' ''g'' [] 2]" by (simp add: zeroShardingDatabaseSpec_def)
  have "standbyConfigDerivedShardCount (si_StandbyConfig (groupEntry ''shard'' ''g'' [] 2)) \<le> 0"
    by (simp add: groupEntry_def zero_defs standbyConfigDerivedShardCount_def)
  then show ?thesis
    using default_returns_iff [of ?s] unfolding infos prepareSpec_fields(2)
    by (simp add: materialised_shards_example groupEntry_defaulted)
qed

lemma size_initShard [simp]: "sh_StorageSizeInGb (initShard info j s) = si_StorageSizeInGb info"
proof -
  have "sh_StorageSizeInGb (initShardPlacement info s) = sh_StorageSizeInGb s" for s
    by (simp add: initShardPlacement_def Let_def if_distrib [of sh_StorageSizeInGb] del: if_split)
  moreover have "sh_StorageSizeInGb (initShardSizing info s) = sh_StorageSizeInGb s" for s
    by (cases "LookupShapeConfig (si_Shape info)")
      (simp_all add: initShardSizing_def Let_def if_distrib [of sh_StorageSizeInGb] del: if_split)
  moreover have "sh_StorageSizeInGb (initShardTopology info j s) = si_StorageSizeInGb info" for s
    by (cases "si_ShardGroupDetails info"; cases "si_ShardSpaceDetails info") (simp_all add: initShardTopology_def)
  ultimately show ?thesis by (simp add: initShard_def)
qed

lemma desiredShards_mem:
  "s \<in> set (desiredShards infos k) \<Longrightarrow> \<exists>info \<in> set infos. \<exists>j. s = initShard info j zeroShardSpec"
  by (induction infos arbitrary: k) auto

lemma buildDesired_mem:
  assumes "buildDesiredShardSpec spec = Some desired" and "d \<in> set desired" and "\<not> blank (sh_Name d)"
  shows "\<exists>info \<in> set (spec_ShardInfo spec). \<exists>j. d = initShard info j zeroShardSpec"
proof (cases "desiredShardReplicaTotal spec")
  case (Pair t errs)
  show ?thesis
  proof (cases "errs = []")
    case True
    then have "desired = desiredShards (spec_ShardInfo spec) 0
        @ replicate (nat t - length (desiredShards (spec_ShardInfo spec) 0)) zeroShardSpec"
      using buildDesired_eq [of spec t] Pair assms(1) by (auto split: if_splits)
    moreover have "sh_Name zeroShardSpec = []" by (simp add: zeroShardSpec_def)
    ultimately have "d \<in> set (desiredShards (spec_ShardInfo spec) 0)" using assms(2,3) by auto
    then show ?thesis by (rule desiredShards_mem)
  next
    case False
    then show ?thesis using assms(1,2) Pair by (simp add: buildDesiredShardSpec_def)
  qed
qed

lemma merge_mem_cases:
  assumes "m \<in> set (mergeDesiredAndExistingShards existing desired)"
  shows "m \<in> set existing \<or> (\<exists>d \<in> set desired. \<not> blank (sh_Name d) \<and> sh_StorageSizeInGb m = sh_StorageSizeInGb d)"
proof -
  have r: "sh_StorageSizeInGb (refreshShard old d) = sh_StorageSizeInGb d" for old d
    by (simp add: refreshShard_def Let_def split: option.splits)
  show ?thesis
    using assms
    by (auto simp: mergeDesiredAndExistingShards_def extraShards_def mergeDesired_def r split: if_splits option.splits)
qed

lemma size_defaults:
  "sh_StorageSizeInGb (defaultShard s) > 0" "si_StorageSizeInGb (defaultShardNum m (defaultShardInfo i)) > 0"
  "cat_StorageSizeInGb (defaultCatalog c) > 0" "gsm_StorageSizeInGb (defaultGsm inl res g) > 0"
  by (auto simp: defaultShard_def defaultShardNum_def defaultShardInfo_def defaultCatalog_def defaultGsm_def Let_def
      DefaultDiagSizeInGb_def split: option.splits)

lemma finishSpec_fields:
  "spec_Shard (finishSpec s) = spec_Shard s" "spec_ShardInfo (finishSpec s) = spec_ShardInfo s"
  "spec_Catalog (finishSpec s) = map defaultCatalog (spec_Catalog s)"
  "\<exists>inl res gs. spec_Gsm (finishSpec s) = map (defaultGsm inl res) gs"
  by (auto simp: finishSpec_def defaultGsmPhase_def extractAndStripInlineGsmDefaults_def applyGsmInfoDefaults_def Let_def
      split: option.splits)

lemma Default_sizes:
  assumes "Default spec = Inr s"
  shows "(\<forall>x \<in> set (spec_Shard s). sh_StorageSizeInGb x > 0) \<and> (\<forall>x \<in> set (spec_ShardInfo s). si_StorageSizeInGb x > 0) \<and>
    (\<forall>x \<in> set (spec_Catalog s). cat_StorageSizeInGb x > 0) \<and> (\<forall>x \<in> set (spec_Gsm s). gsm_StorageSizeInGb x > 0)"
proof -
  let ?p = "prepareSpec spec"
  obtain r where r: "rebuildShards ?p = Inr r" and s: "s = finishSpec r"
    using assms by (auto simp: Default_def split: sum.splits)
  have infos: "spec_ShardInfo r = spec_ShardInfo ?p"
    using r by (auto simp: rebuildShards_def split: option.splits if_splits prod.splits)
  have pos: "\<forall>x \<in> set (spec_ShardInfo ?p). si_StorageSizeInGb x > 0"
    "\<forall>x \<in> set (spec_Shard ?p). sh_StorageSizeInGb x > 0"
    by (auto simp: prepareSpec_fields size_defaults)
  consider "spec_Shard r = spec_Shard ?p"
    | desired where "buildDesiredShardSpec ?p = Some desired"
        "spec_Shard r = mergeDesiredAndExistingShards (spec_Shard ?p) desired"
    using r by (auto simp: rebuildShards_def split: option.splits if_splits prod.splits)
  then have shards: "\<forall>x \<in> set (spec_Shard r). sh_StorageSizeInGb x > 0"
  proof cases
    case 2
    show ?thesis
    proof
      fix x assume "x \<in> set (spec_Shard r)"
      then show "sh_StorageSizeInGb x > 0"
        using merge_mem_cases [of x "spec_Shard ?p" desired] buildDesired_mem [OF 2(1)] 2(2) pos by fastforce
    qed
  qed (use pos in simp)
  obtain inl res gs where "spec_Gsm s = map (defaultGsm inl res) gs" using finishSpec_fields(4) s by blast
  then show ?thesis using shards pos(1) by (auto simp: s finishSpec_fields infos size_defaults)
qed

text \<open>
  every member of a defaulted object has a positive primary storage size, whatever sizes the
  object was submitted with. (This is what makes the shrink check of the updates transitive.)
\<close>

theorem default_sizes_positive:
  assumes "Default spec = Inr s"
  shows "(\<forall>x \<in> set (spec_Shard s). sh_StorageSizeInGb x > 0) \<and> (\<forall>x \<in> set (spec_ShardInfo s). si_StorageSizeInGb x > 0) \<and>
    (\<forall>x \<in> set (spec_Catalog s). cat_StorageSizeInGb x > 0) \<and> (\<forall>x \<in> set (spec_Gsm s). gsm_StorageSizeInGb x > 0)"
  using assms by (rule Default_sizes)

theorem default_sizes_positive_witness:
  "\<exists>s. Default zeroShardingDatabaseSpec = Inr s \<and> (\<forall>x \<in> set (spec_Gsm s). gsm_StorageSizeInGb x > 0)"
proof -
  have z: "spec_ShardInfo zeroShardingDatabaseSpec = []" by (simp add: zeroShardingDatabaseSpec_def)
  have "desiredShardReplicaTotal (prepareSpec zeroShardingDatabaseSpec) = (0, [])"
    by (simp add: desiredShardReplicaTotal_def prepareSpec_fields z wrap32_def)
  then have "Default zeroShardingDatabaseSpec = Inr (finishSpec (prepareSpec zeroShardingDatabaseSpec))"
    by (simp add: Default_def rebuildShards_def)
  then show ?thesis using default_sizes_positive by blast
qed


section \<open>Precedence of the director defaults\<close>

lemma map_of_mputs: "map_of (fold (\<lambda>(k, v). mput k v) xs m) = map_of m ++ map_of (rev xs)"
  by (induction xs arbitrary: m) auto

lemma map_of_mergeStringMapLocal:
  "distinct (map fst base) \<Longrightarrow> distinct (map fst overlay) \<Longrightarrow>
     map_of (mergeStringMapLocal base overlay) = map_of base ++ map_of overlay"
  using map_of_inject_set [of "rev base" base] map_of_inject_set [of "rev overlay" overlay]
  by (simp add: mergeStringMapLocal_def map_of_mputs rev_map [symmetric])

text \<open>The first of three pointers that is not nil.\<close>

definition orElse :: "'a option \<Rightarrow> 'a option \<Rightarrow> 'a option" where
  "orElse a b = (case a of None \<Rightarrow> b | Some x \<Rightarrow> Some x)"

definition positiveOr :: "int \<Rightarrow> int \<Rightarrow> int" where
  "positiveOr a b = (if a > 0 then a else b)"

lemma materializeGsm_fields:
  "gsm_Resources (materializeGsm tr common g) = orElse (gsm_Resources g) (orElse (gsi_Resources common) tr)"
  "gsm_StorageSizeInGb (materializeGsm tr common g) =
     (if gsm_StorageSizeInGb g \<le> 0 \<and> gsi_StorageSizeInGb common > 0 then gsi_StorageSizeInGb common else gsm_StorageSizeInGb g)"
  "gsm_Name (materializeGsm tr common g) = gsm_Name g"
  "gsm_ServiceAnnotations (materializeGsm tr common g) =
     mergeStringMapLocal (gsi_ServiceAnnotations common) (gsm_ServiceAnnotations g)"
  by (auto simp: materializeGsm_def Let_def orElse_def split: option.splits)

lemma defaultGsm_fields:
  "gsm_Resources (defaultGsm inl res g) = orElse (gsm_Resources g) res"
  "gsm_StorageSizeInGb (defaultGsm inl res g) =
     positiveOr (gsm_StorageSizeInGb g) (positiveOr (igd_storageSizeInGb inl) DefaultDiagSizeInGb)"
  "gsm_Name (defaultGsm inl res g) = gsm_Name g"
  "gsm_ServiceAnnotations (defaultGsm inl res g) = gsm_ServiceAnnotations g"
  by (auto simp: defaultGsm_def Let_def orElse_def positiveOr_def split: option.splits)

lemma no_inline_named: "\<not> blank (gsm_Name g) \<Longrightarrow> \<not> isInlineGsmDefaultsEntry g"
  by (simp add: isInlineGsmDefaultsEntry_def)

text \<open>
  the directors of \<^verbatim>\<open>gsmInfo\<close> replace the inline ones, one for one and in order; a director's own
  resources and size win over those of \<^verbatim>\<open>gsmInfo\<close>, which win over the top-level default, and its own
  annotations override the shared ones key by key.
\<close>

theorem gsm_defaults_precedence:
  assumes "spec_GsmInfo spec = Some common" and "gsi_Gsm common \<noteq> []"
    and "\<forall>g \<in> set (gsi_Gsm common). \<not> blank (gsm_Name g) \<and> distinct (map fst (gsm_ServiceAnnotations g))"
    and "distinct (map fst (gsi_ServiceAnnotations common))"
  shows "map gsm_Name (spec_Gsm (defaultGsmPhase spec)) = map gsm_Name (gsi_Gsm common) \<and>
    map gsm_Resources (spec_Gsm (defaultGsmPhase spec)) =
      map (\<lambda>g. orElse (gsm_Resources g) (orElse (gsi_Resources common) (spec_GsmResources spec))) (gsi_Gsm common) \<and>
    map gsm_StorageSizeInGb (spec_Gsm (defaultGsmPhase spec)) =
      map (\<lambda>g. positiveOr (gsm_StorageSizeInGb g) (positiveOr (gsi_StorageSizeInGb common) 50)) (gsi_Gsm common) \<and>
    map (\<lambda>g. map_of (gsm_ServiceAnnotations g)) (spec_Gsm (defaultGsmPhase spec)) =
      map (\<lambda>g. map_of (gsi_ServiceAnnotations common) ++ map_of (gsm_ServiceAnnotations g)) (gsi_Gsm common)"
proof -
  let ?mat = "map (materializeGsm (spec_GsmResources spec) common) (gsi_Gsm common)"
  let ?inl = "\<lparr>igd_resources = None, igd_storageSizeInGb = 0, igd_imagePullPolicy = None\<rparr>"
  have named: "\<not> isInlineGsmDefaultsEntry g" if "g \<in> set ?mat" for g
    using that assms(3) by (intro no_inline_named) (auto simp: materializeGsm_fields)
  then have "filter isInlineGsmDefaultsEntry ?mat = []" and "filter (\<lambda>g. \<not> isInlineGsmDefaultsEntry g) ?mat = ?mat"
    by (simp_all only: filter_empty_conv filter_True) auto
  then have "spec_Gsm (defaultGsmPhase spec) = map (defaultGsm ?inl (spec_GsmResources spec)) ?mat"
    using assms(1,2) by (simp add: defaultGsmPhase_def applyGsmInfoDefaults_def extractAndStripInlineGsmDefaults_def)
  then show ?thesis
    using assms(3,4)
    by (auto simp: defaultGsm_fields materializeGsm_fields map_of_mergeStringMapLocal orElse_def positiveOr_def
        DefaultDiagSizeInGb_def split: option.splits)
qed

theorem gsm_defaults_precedence_witness:
  "map gsm_StorageSizeInGb (spec_Gsm (defaultGsmPhase (zeroShardingDatabaseSpec\<lparr>spec_GsmInfo := Some
     \<lparr>gsi_Gsm = [zeroGsmSpec\<lparr>gsm_Name := ''g1''\<rparr>, zeroGsmSpec\<lparr>gsm_Name := ''g2'', gsm_StorageSizeInGb := 7\<rparr>],
      gsi_Resources = None, gsi_StorageSizeInGb = 30, gsi_EnvVars = [], gsi_ImagePulllPolicy = None,
      gsi_ServiceAnnotations = [], gsi_ExternalServiceAnnotations = [], gsi_Nodes = []\<rparr>\<rparr>))) = [30, 7]"
  (is "map _ (spec_Gsm (defaultGsmPhase (_\<lparr>spec_GsmInfo := Some ?c\<rparr>))) = _")
proof -
  have "map gsm_StorageSizeInGb (spec_Gsm (defaultGsmPhase (zeroShardingDatabaseSpec\<lparr>spec_GsmInfo := Some ?c\<rparr>))) =
      map (\<lambda>g. positiveOr (gsm_StorageSizeInGb g) (positiveOr (gsi_StorageSizeInGb ?c) 50)) (gsi_Gsm ?c)"
    by (rule gsm_defaults_precedence [THEN conjunct2, THEN conjunct2, THEN conjunct1]) (simp_all add: zero_defs go_eval)
  then show ?thesis by (simp add: positiveOr_def zero_defs)
qed

end
