(* ===== verification/Sharding_Checks.thy ===== *)
theory Sharding_Checks
  imports Sharding_Default
begin

text \<open>
  The smaller checks of the validating webhook (\<^verbatim>\<open>apis/database/v4/shardingdatabase_webhook.go\<close>):
  sizing paths, secrets, delete flags, deprecation warnings, the free edition, the names of the
  members and of their Services, and the parameters that depend on the replication type.
  \<^verbatim>\<open>validation.IsDNS1123Label\<close> of Kubernetes is the parameter \<open>dns\<close> (no message is \<open>True\<close>).
\<close>


section \<open>Sizing paths\<close>

definition computeSizingPath :: "string \<Rightarrow> ResourceRequirements option \<Rightarrow> string" where
  "computeSizingPath shape resources =
     (if \<not> blank shape then ''shape'' else if resources \<noteq> None then ''resources'' else ''none'')"

definition validateComputeSizingPathConfig :: "ShardingDatabaseSpec \<Rightarrow> error_list" where
  "validateComputeSizingPathConfig spec =
     range_errs (\<lambda>i c. if \<not> blank (cat_Shape c) \<and> cat_Resources c \<noteq> None
       then [Forbidden [Child ''spec'', Child ''catalog'', Index i]] else []) (spec_Catalog spec)
     @ range_errs (\<lambda>i s. if \<not> blank (si_Shape s) \<and> si_Resources s \<noteq> None
       then [Forbidden [Child ''spec'', Child ''shardInfo'', Index i]] else []) (spec_ShardInfo spec)"

text \<open>One of the two loops of \<^verbatim>\<open>validateComputeSizingPathUpdate\<close>.\<close>

definition sizingUpdateErrs ::
    "('a \<Rightarrow> string) \<Rightarrow> ('a \<Rightarrow> string) \<Rightarrow> ('a \<Rightarrow> ResourceRequirements option) \<Rightarrow> string \<Rightarrow> 'a list \<Rightarrow> 'a list \<Rightarrow> error_list" where
  "sizingUpdateErrs nm shape res kind old new =
     range_errs (\<lambda>i x. case indexBy (\<lambda>o1. trimmedKey (nm o1)) old (TrimSpace (nm x)) of
         None \<Rightarrow> []
       | Some o1 \<Rightarrow>
           let oldPath = computeSizingPath (shape o1) (res o1); newPath = computeSizingPath (shape x) (res x)
           in if oldPath \<noteq> ''none'' \<and> oldPath \<noteq> newPath
              then [Forbidden [Child ''spec'', Child kind, Index i]] else []) new"

definition validateComputeSizingPathUpdate :: "ShardingDatabaseSpec \<Rightarrow> ShardingDatabaseSpec option \<Rightarrow> error_list" where
  "validateComputeSizingPathUpdate spec oldSpec =
     (case oldSpec of None \<Rightarrow> []
      | Some old \<Rightarrow>
          sizingUpdateErrs cat_Name cat_Shape cat_Resources ''catalog'' (spec_Catalog old) (spec_Catalog spec)
          @ sizingUpdateErrs si_ShardPreFixName si_Shape si_Resources ''shardInfo'' (spec_ShardInfo old) (spec_ShardInfo spec))"


section \<open>Secrets and delete flags\<close>

definition validatePasswordSecretConfig :: "PasswordSecretConfig \<Rightarrow> path \<Rightarrow> error_list" where
  "validatePasswordSecretConfig cfg p =
     (if blank (pwd_PasswordKey cfg) then [Required (p @ [Child ''passwordKey''])] else [])
     @ (if \<not> blank (pwd_Pkeyopt cfg) \<and> blank (pwd_PrivateKeyKey cfg) then [Forbidden (p @ [Child ''pkeyopt''])] else [])"

definition validateDbSecretConfig :: "ShardingDatabaseSpec \<Rightarrow> error_list" where
  "validateDbSecretConfig spec =
     (let dbSecretPath = [Child ''spec'', Child ''dbSecret''] in
      case spec_DbSecret spec of
        None \<Rightarrow> [Required dbSecretPath]
      | Some s \<Rightarrow>
          (if blank (sec_Name s) then [Required (dbSecretPath @ [Child ''name''])] else [])
          @ (let mountPath = TrimSpace (sec_MountPath s) in
             if mountPath \<noteq> [] \<and> \<not> HasPrefix mountPath ''/''
             then [Invalid (dbSecretPath @ [Child ''mountPath'']) (BVString (sec_MountPath s))] else [])
          @ (let useGsmWallet = TrimSpace (sec_UseGsmWallet s) in
             if useGsmWallet \<noteq> [] \<and> ToLower useGsmWallet \<noteq> ''true'' \<and> ToLower useGsmWallet \<noteq> ''false''
             then [Invalid (dbSecretPath @ [Child ''useGsmWallet'']) (BVString (sec_UseGsmWallet s))] else [])
          @ validatePasswordSecretConfig (sec_DbAdmin s) (dbSecretPath @ [Child ''dbAdmin''])
          @ (case sec_TDE s of None \<Rightarrow> [] | Some t \<Rightarrow> validatePasswordSecretConfig t (dbSecretPath @ [Child ''tde''])))"

lemmas delete_state_defs = deleteStateEnable_def deleteStateDisable_def deleteStateFailed_def

definition validateShardIsDelete :: "ShardingDatabaseSpec \<Rightarrow> error_list" where
  "validateShardIsDelete spec =
     range_errs (\<lambda>i s. let val = ToLower (TrimSpace (sh_IsDelete s)) in
       if val \<noteq> deleteStateEnable \<and> val \<noteq> deleteStateDisable \<and> val \<noteq> deleteStateFailed
       then [Invalid [Child ''spec'', Child ''shard'', Child ''isDelete''] (BVString (sh_IsDelete s))] else [])
       (spec_Shard spec)"


section \<open>Deprecation warnings\<close>

definition warnIf :: "bool \<Rightarrow> string \<Rightarrow> string list" where
  "warnIf b message = (if b then [message] else [])"

definition appendWarn :: "string \<Rightarrow> string list \<Rightarrow> string list" where
  "appendWarn message warnings = (if message \<in> set warnings then warnings else warnings @ [message])"

definition idx :: "string \<Rightarrow> nat \<Rightarrow> string" where
  "idx name i = name @ ''['' @ itoa_nat i @ '']''"

definition pvcWarning :: "string \<Rightarrow> string" where
  "pvcWarning path = path @ '' uses deprecated pvcName/pvAnnotations/pvMatchLabels fields; these fields are ignored by the operator. Use additionalPVCs instead.''"

definition movedWarning :: "string \<Rightarrow> string \<Rightarrow> string \<Rightarrow> string" where
  "movedWarning base old new = base @ old @ '' is deprecated; use '' @ base @ new"

definition specWarnings :: "ShardingDatabaseSpec \<Rightarrow> string list" where
  "specWarnings spec =
     warnIf (spec_IsDataGuard spec) ''spec.isDataGuard is deprecated and retained only for backward compatibility''
     @ warnIf (spec_GsmShardSpace spec \<noteq> []) ''spec.gsmShardSpace is deprecated; use spec.shardSpace''
     @ warnIf (spec_GsmShardGroup spec \<noteq> []) ''spec.gsmShardGroup is deprecated; use spec.shardGroup''
     @ warnIf (spec_ShardRegion spec \<noteq> []) ''spec.shardRegion is deprecated; use spec.region''
     @ warnIf (\<not> blank (spec_ShardBuddyRegion spec)) ''spec.shardBuddyRegion is deprecated; use spec.region[].buddy''
     @ warnIf (\<not> blank (spec_IsTdeWallet spec)) ''spec.isTdeWallet is deprecated; use spec.tdeWallet.isEnabled''
     @ warnIf (\<not> blank (spec_TdeWalletPvc spec)) ''spec.tdeWalletPvc is deprecated; use spec.tdeWallet.pvcName''
     @ warnIf (\<not> blank (spec_TdeWalletPvcMountLocation spec))
         ''spec.tdeWalletPvcMountLocation is deprecated; use spec.tdeWallet.mountPath''"

definition memberWarnings :: "ShardingDatabaseSpec \<Rightarrow> string list" where
  "memberWarnings spec =
     range_errs (\<lambda>i s. warnIf (\<not> blank (sh_PvcName s) \<or> sh_PvAnnotations s \<noteq> [] \<or> sh_PvMatchLabels s \<noteq> [])
       (pvcWarning (idx ''spec.shard'' i))) (spec_Shard spec)
     @ range_errs (\<lambda>i c. warnIf (\<not> blank (cat_PvcName c) \<or> cat_PvAnnotations c \<noteq> [] \<or> cat_PvMatchLabels c \<noteq> [])
       (pvcWarning (idx ''spec.catalog'' i))) (spec_Catalog spec)
     @ range_errs (\<lambda>i g. warnIf (\<not> blank (gsm_PvcName g) \<or> gsm_PvAnnotations g \<noteq> [] \<or> gsm_PvMatchLabels g \<noteq> [])
       (pvcWarning (idx ''spec.gsm'' i))) (spec_Gsm spec)"

definition topologyWarnings :: "ShardingDatabaseSpec \<Rightarrow> string list" where
  "topologyWarnings spec =
     range_errs (\<lambda>i g. let b = idx ''spec.shardGroup'' i in
       warnIf (\<not> blank (sg_ShardGroupName g)) (movedWarning b ''.shardGroupName'' ''.name'')
       @ warnIf (\<not> blank (sg_LegacyShardSpace g)) (movedWarning b ''.ShardSpace'' ''.shardSpace'')) (spec_ShardGroup spec)
     @ range_errs (\<lambda>i s. let b = idx ''spec.shardSpace'' i in
       warnIf (\<not> blank (ss_ShardSpaceName s)) (movedWarning b ''.shardSpaceName'' ''.name'')
       @ warnIf (ss_Chnuks s > 0) (movedWarning b ''.Chnuks'' ''.chunks'')
       @ warnIf (\<not> blank (ss_ProtectionMode s)) (movedWarning b ''.protectionMode'' ''.protectMode'')) (spec_ShardSpace spec)
     @ range_errs (\<lambda>i s. warnIf (\<not> blank (svc_PrferredAll s))
       (movedWarning (idx ''spec.service'' i) ''.prferredAll'' ''.preferredAll'')) (spec_Service spec)
     @ range_errs (\<lambda>i s. warnIf (\<not> blank (svc_PrferredAll s))
       (movedWarning (idx ''spec.gsmService'' i) ''.prferredAll'' ''.preferredAll'')) (spec_GsmService spec)"

definition shardInfoWarnings :: "nat \<Rightarrow> ShardingDetails \<Rightarrow> string list" where
  "shardInfoWarnings i info =
     (let b = idx ''spec.shardInfo'' i in
      warnIf (si_Replicas info > 0) (movedWarning b ''.replicas'' ''.shardNum'')
      @ (case si_ShardGroupDetails info of None \<Rightarrow> []
         | Some g \<Rightarrow> warnIf (\<not> blank (sg_ShardGroupName g))
               (movedWarning b ''.shardGroupDetails.shardGroupName'' ''.shardGroupDetails.name'')
             @ warnIf (\<not> blank (sg_LegacyShardSpace g))
               (movedWarning b ''.shardGroupDetails.ShardSpace'' ''.shardGroupDetails.shardSpace''))
      @ (case si_ShardSpaceDetails info of None \<Rightarrow> []
         | Some s \<Rightarrow> warnIf (\<not> blank (ss_ShardSpaceName s))
               (movedWarning b ''.shardSpaceDetails.shardSpaceName'' ''.shardSpaceDetails.name'')
             @ warnIf (ss_Chnuks s > 0) (movedWarning b ''.shardSpaceDetails.Chnuks'' ''.shardSpaceDetails.chunks'')
             @ warnIf (\<not> blank (ss_ProtectionMode s))
               (movedWarning b ''.shardSpaceDetails.protectionMode'' ''.shardSpaceDetails.protectMode'')))"

definition deprecatedShardingFieldWarnings :: "ShardingDatabaseSpec option \<Rightarrow> string list" where
  "deprecatedShardingFieldWarnings spec =
     (case spec of None \<Rightarrow> []
      | Some s \<Rightarrow> fold appendWarn (specWarnings s @ memberWarnings s @ topologyWarnings s
          @ range_errs shardInfoWarnings (spec_ShardInfo s)) [])"


section \<open>The free edition\<close>

definition freeEnvErrs :: "string \<Rightarrow> EnvironmentVariable list \<Rightarrow> error_list" where
  "freeEnvErrs kind envs =
     range_errs (\<lambda>i v.
       (if env_Name v = ''ORACLE_SID'' \<and> ToLower (env_Value v) \<noteq> ''free''
        then [Invalid [Child ''spec'', Child kind, Child ''envVars''] (BVString (env_Name v))] else [])
       @ (if env_Name v = ''ORACLE_PDB'' \<and> ToLower (env_Value v) \<noteq> ''freepdb''
          then [Invalid [Child ''spec'', Child kind, Child ''envVars''] (BVString (env_Name v))] else [])) envs"

definition validateFreeEdition :: "ShardingDatabaseSpec \<Rightarrow> error_list" where
  "validateFreeEdition spec =
     (if ToLower (spec_DbEdition spec) = ''free''
      then range_errs (\<lambda>i s. freeEnvErrs ''shard'' (sh_EnvVars s)) (spec_Shard spec)
           @ range_errs (\<lambda>i c. freeEnvErrs ''catalog'' (cat_EnvVars c)) (spec_Catalog spec)
      else [])"


section \<open>Names\<close>

record serviceNameClaim =
  snc_path :: path
  snc_source :: string

type_synonym claims_state = "error_list \<times> (string \<rightharpoonup> serviceNameClaim)"

definition register :: "string \<Rightarrow> path \<Rightarrow> string \<Rightarrow> claims_state \<Rightarrow> claims_state" where
  "register name path source st =
     (let (errs, claims) = st in
      case claims name of
        Some previous \<Rightarrow> (errs @ [Invalid path (BVString name)], claims)
      | None \<Rightarrow> (errs, claims(name \<mapsto> \<lparr>snc_path = path, snc_source = source\<rparr>)))"

definition validateMemberName ::
    "(string \<Rightarrow> bool) \<Rightarrow> bool \<Rightarrow> string \<times> path \<times> string \<Rightarrow> claims_state \<Rightarrow> claims_state" where
  "validateMemberName dns isExternalSvc member st =
     (let (rawName, path, source) = member; (errs, claims) = st; name = TrimSpace rawName in
      if name = [] then (errs @ [Required path], claims)
      else if \<not> dns name then (errs @ [Invalid path (BVString name)], claims)
      else let st1 = register name path (source @ '' local Service'') st in
        if \<not> isExternalSvc then st1
        else let externalName = name @ ''0-svc'' in
          if \<not> dns externalName then (fst st1 @ [Invalid path (BVString name)], snd st1)
          else register externalName path (source @ '' external Service'') st1)"

definition indexed :: "string \<Rightarrow> ('a \<Rightarrow> string) \<Rightarrow> 'a list \<Rightarrow> (string \<times> path \<times> string) list" where
  "indexed kind nm xs =
     map (\<lambda>(i, x). (nm x, [Child ''spec'', Child kind, Index i, Child ''name''], kind)) (enumerate 0 xs)"

definition serviceMembers :: "ShardingDatabaseSpec \<Rightarrow> (string \<times> path \<times> string) list" where
  "serviceMembers spec = indexed ''catalog'' cat_Name (spec_Catalog spec) @ indexed ''gsm'' gsm_Name (spec_Gsm spec)
     @ indexed ''shard'' sh_Name (spec_Shard spec)"

definition validateShardingMemberServiceNames :: "(string \<Rightarrow> bool) \<Rightarrow> ShardingDatabaseSpec \<Rightarrow> error_list" where
  "validateShardingMemberServiceNames dns spec =
     fst (fold (validateMemberName dns (spec_IsExternalSvc spec)) (serviceMembers spec) ([], Map.empty))"

definition validateGsmConfig :: "ShardingDatabaseSpec \<Rightarrow> error_list" where
  "validateGsmConfig spec =
     range_errs (\<lambda>i g. if blank (gsm_Name g)
       then [Required [Child ''spec'', Child ''gsm'', Index i, Child ''name'']] else []) (spec_Gsm spec)"

definition validateShardName :: "ShardingDatabaseSpec \<Rightarrow> error_list" where
  "validateShardName spec =
     range_errs (\<lambda>i s. if length (sh_Name s) > 9
       then [Invalid [Child ''spec'', Child ''shard'', Child ''name''] (BVString (sh_Name s))] else []) (spec_Shard spec)"

definition validateCatalogName :: "ShardingDatabaseSpec \<Rightarrow> error_list" where
  "validateCatalogName spec =
     range_errs (\<lambda>i c. if length (cat_Name c) > 9
       then [Invalid [Child ''spec'', Child ''catalog'', Child ''name''] (BVString (cat_Name c))] else []) (spec_Catalog spec)"


section \<open>Advanced parameters\<close>

definition shardAdvancedErrs :: "string \<Rightarrow> nat \<Rightarrow> ShardSpec \<Rightarrow> error_list" where
  "shardAdvancedErrs replType i sh =
     (let p = [Child ''spec'', Child ''shard'', Index i] in
      (if \<not> blank (sh_GgService sh) \<and> replType \<noteq> replNative then [Forbidden (p @ [Child ''ggService''])] else [])
      @ (if \<not> blank (sh_Replace sh) \<and> replType \<noteq> replNative then [Forbidden (p @ [Child ''replace''])] else [])
      @ (if sh_CloneSchemas sh \<and> replType \<noteq> replNative then [Forbidden (p @ [Child ''cloneSchemas''])] else []))"

definition validateShardAdvancedParams :: "ShardingDatabaseSpec \<Rightarrow> error_list" where
  "validateShardAdvancedParams spec = range_errs (shardAdvancedErrs (normalizeReplicationType spec)) (spec_Shard spec)"

definition catalogAdvancedErrs :: "string \<Rightarrow> shardingMode \<Rightarrow> nat \<Rightarrow> CatalogSpec \<Rightarrow> error_list" where
  "catalogAdvancedErrs topRepl topMode i cat =
     (let p = [Child ''spec'', Child ''catalog'', Index i];
          rv = normalizeReplicationValue (cat_Repl cat);
          replType = (if rv \<noteq> [] then rv else topRepl);
          mv = normalizeShardingValue (cat_Sharding cat);
          mode = (if mv \<noteq> [] then ToLower mv else modeString topMode)
      in (if replType \<noteq> replNative
          then (if cat_MultiWriter cat then [Forbidden (p @ [Child ''multiwriter''])] else [])
             @ (if cat_RepFactor cat > 0 then [Forbidden (p @ [Child ''repFactor''])] else [])
             @ (if cat_RepUnits cat > 0 then [Forbidden (p @ [Child ''repUnits''])] else [])
          else [])
         @ (if replType = replNative \<and> mode = modeString modeUser \<and> cat_RepFactor cat > 0
            then [Forbidden (p @ [Child ''repFactor''])] else [])
         @ (if replType = replNative \<and> \<not> blank (cat_ProtectMode cat) then [Forbidden (p @ [Child ''protectMode''])] else [])
         @ (if mode = modeString modeUser \<and> cat_Chunks cat > 0 then [Forbidden (p @ [Child ''chunks''])] else [])
         @ (if cat_UseExistingCatalog cat \<and> cat_CatalogDatabaseRef cat = None
            then [Required (p @ [Child ''catalogDatabaseRef''])] else []))"

definition validateCatalogAdvancedParams :: "ShardingDatabaseSpec \<Rightarrow> error_list" where
  "validateCatalogAdvancedParams spec =
     range_errs (catalogAdvancedErrs (normalizeReplicationType spec) (normalizeShardingType spec)) (spec_Catalog spec)"



section \<open>Unique Service names\<close>

definition servicesOf :: "bool \<Rightarrow> string \<Rightarrow> string list" where
  "servicesOf isExternalSvc name = (if isExternalSvc then [TrimSpace name, TrimSpace name @ ''0-svc''] else [TrimSpace name])"

definition memberNames :: "ShardingDatabaseSpec \<Rightarrow> string list" where
  "memberNames spec = map cat_Name (spec_Catalog spec) @ map gsm_Name (spec_Gsm spec) @ map sh_Name (spec_Shard spec)"

lemma map_fst_indexed: "map fst (indexed kind nm xs) = map nm xs"
  by (rule nth_equalityI) (simp_all add: indexed_def nth_enumerate_eq)

lemma map_fst_serviceMembers: "map fst (serviceMembers spec) = memberNames spec"
  by (simp add: serviceMembers_def memberNames_def map_fst_indexed)

lemma register_cases:
  "register name path source (errs, claims) =
     (if name \<in> dom claims then (errs @ [Invalid path (BVString name)], claims)
      else (errs, claims(name \<mapsto> \<lparr>snc_path = path, snc_source = source\<rparr>)))"
  by (auto simp: register_def split: option.splits)

text \<open>One member is accepted when its names are valid and free; it then claims them.\<close>

lemma validateMemberName_step:
  fixes dns ext name path source errs claims
  defines "ok \<equiv> \<not> blank name \<and> (\<forall>s \<in> set (servicesOf ext name). dns s) \<and> set (servicesOf ext name) \<inter> dom claims = {}"
  defines "st \<equiv> validateMemberName dns ext (name, path, source) (errs, claims)"
  shows "fst st = [] \<longleftrightarrow> errs = [] \<and> ok" and "ok \<Longrightarrow> dom (snd st) = dom claims \<union> set (servicesOf ext name)"
  by (auto simp: st_def ok_def validateMemberName_def register_cases servicesOf_def Let_def)

lemma validateMembers_Nil_iff:
  "fst (fold (validateMemberName dns ext) ms (errs, claims)) = [] \<longleftrightarrow>
     errs = [] \<and> (\<forall>n \<in> fst ` set ms. \<not> blank n \<and> (\<forall>s \<in> set (servicesOf ext n). dns s)) \<and>
     distinct (concat (map (servicesOf ext) (map fst ms))) \<and>
     set (concat (map (servicesOf ext) (map fst ms))) \<inter> dom claims = {}"
proof (induction ms arbitrary: errs claims)
  case Nil
  then show ?case by simp
next
  case (Cons m ms)
  obtain name path source where m: "m = (name, path, source)" by (cases m) auto
  obtain errs' claims' where st: "validateMemberName dns ext m (errs, claims) = (errs', claims')" by fastforce
  let ?ok = "\<not> blank name \<and> (\<forall>s \<in> set (servicesOf ext name). dns s) \<and> set (servicesOf ext name) \<inter> dom claims = {}"
  have e: "errs' = [] \<longleftrightarrow> errs = [] \<and> ?ok"
    using validateMemberName_step(1) [of dns ext name path source errs claims] st m by simp
  have c: "?ok \<Longrightarrow> dom claims' = dom claims \<union> set (servicesOf ext name)"
    using validateMemberName_step(2) [of name ext dns claims path source errs] st m by simp
  have d: "distinct (servicesOf ext name)" by (simp add: servicesOf_def)
  have run: "fst (fold (validateMemberName dns ext) (m # ms) (errs, claims)) = [] \<longleftrightarrow>
      errs' = [] \<and> (\<forall>n \<in> fst ` set ms. \<not> blank n \<and> (\<forall>s \<in> set (servicesOf ext n). dns s)) \<and>
      distinct (concat (map (servicesOf ext) (map fst ms))) \<and>
      set (concat (map (servicesOf ext) (map fst ms))) \<inter> dom claims' = {}"
    using Cons.IH [of errs' claims'] st by simp
  have fm: "fst m = name" by (simp add: m)
  show ?case
  proof (cases ?ok)
    case True
    then show ?thesis unfolding run using e c [OF True] d by (auto simp: fm)
  next
    case False
    then show ?thesis unfolding run using e by (auto simp: fm)
  qed
qed

lemma validateServiceNames_Nil_iff:
  "validateShardingMemberServiceNames dns spec = [] \<longleftrightarrow>
     (\<forall>n \<in> set (memberNames spec). TrimSpace n \<noteq> [] \<and> (\<forall>s \<in> set (servicesOf (spec_IsExternalSvc spec) n). dns s)) \<and>
     distinct (concat (map (servicesOf (spec_IsExternalSvc spec)) (memberNames spec)))"
proof -
  have "fst ` set (serviceMembers spec) = set (memberNames spec)"
    using arg_cong [OF map_fst_serviceMembers, of set] by simp
  then show ?thesis
    unfolding validateShardingMemberServiceNames_def validateMembers_Nil_iff map_fst_serviceMembers by simp
qed

lemma distinct_services: "distinct (concat (map (servicesOf ext) names)) \<Longrightarrow> distinct (map TrimSpace names)"
  by (induction names) (force simp: servicesOf_def split: if_splits)+

lemma service_names_shards:
  assumes "validateShardingMemberServiceNames dns spec = []"
  shows "distinct (List.map_filter (\<lambda>s. trimmedKey (sh_Name s)) (spec_Shard spec))"
proof -
  have "distinct (map TrimSpace (memberNames spec))" and nb: "\<forall>n \<in> set (memberNames spec). \<not> blank n"
    using assms distinct_services unfolding validateServiceNames_Nil_iff by blast+
  then have "distinct (map (\<lambda>s. TrimSpace (sh_Name s)) (spec_Shard spec))" by (simp add: memberNames_def comp_def)
  moreover have "List.map_filter (\<lambda>s. trimmedKey (sh_Name s)) xs = map (\<lambda>s. TrimSpace (sh_Name s)) xs"
    if "set xs \<subseteq> set (spec_Shard spec)" for xs
    using that nb by (induction xs) (auto simp: List.map_filter_simps trimmedKey_def memberNames_def)
  ultimately show ?thesis by simp
qed

text \<open>
  C4: the names of the members are accepted exactly when each is set and a valid Service name (its
  derived external name too, where external Services are requested) and no Service of the deployment,
  local or external, of a catalog, a director or a shard, has the name of another.
\<close>

theorem service_names_accepted_iff:
  "validateShardingMemberServiceNames dns spec = [] \<longleftrightarrow>
     (\<forall>n \<in> set (memberNames spec). TrimSpace n \<noteq> [] \<and> (\<forall>s \<in> set (servicesOf (spec_IsExternalSvc spec) n). dns s)) \<and>
     distinct (concat (map (servicesOf (spec_IsExternalSvc spec)) (memberNames spec)))"
  by (rule validateServiceNames_Nil_iff)

theorem service_names_accepted_iff_witness:
  "validateShardingMemberServiceNames (\<lambda>n. length n \<le> 63)
     (zeroShardingDatabaseSpec\<lparr>spec_IsExternalSvc := True, spec_Shard := [zeroShardSpec\<lparr>sh_Name := ''a''\<rparr>, zeroShardSpec\<lparr>sh_Name := ''b''\<rparr>]\<rparr>) = [] \<and>
   validateShardingMemberServiceNames (\<lambda>n. length n \<le> 63)
     (zeroShardingDatabaseSpec\<lparr>spec_IsExternalSvc := True, spec_Shard := [zeroShardSpec\<lparr>sh_Name := ''a''\<rparr>, zeroShardSpec\<lparr>sh_Name := ''a0-svc''\<rparr>]\<rparr>) \<noteq> []"
  unfolding service_names_accepted_iff
  by (simp add: memberNames_def servicesOf_def zero_defs go_eval)


section \<open>Sizing paths are fixed\<close>

definition sizingKept :: "('a \<Rightarrow> string) \<Rightarrow> ('a \<Rightarrow> ResourceRequirements option) \<Rightarrow> 'a \<Rightarrow> 'a \<Rightarrow> bool" where
  "sizingKept shape res x y \<longleftrightarrow> computeSizingPath (shape x) (res x) \<noteq> ''none'' \<longrightarrow>
     computeSizingPath (shape y) (res y) = computeSizingPath (shape x) (res x)"

lemma sizingUpdateErrs_Nil_iff:
  assumes "distinct (List.map_filter (\<lambda>x. trimmedKey (nm x)) old)"
  shows "sizingUpdateErrs nm shape res kind old new = [] \<longleftrightarrow>
     (\<forall>x \<in> set old. \<forall>y \<in> set new. trimmedKey (nm x) \<noteq> None \<longrightarrow> trimmedKey (nm x) = trimmedKey (nm y) \<longrightarrow>
        sizingKept shape res x y)"
proof -
  have k: "trimmedKey (nm x) = Some (TrimSpace (nm y)) \<longleftrightarrow>
      trimmedKey (nm x) \<noteq> None \<and> trimmedKey (nm x) = trimmedKey (nm y)" for x y
    by (auto simp: trimmedKey_def)
  show ?thesis
    unfolding sizingUpdateErrs_def range_errs_indexBy_Nil_iff [OF assms] k
    by (fastforce simp: sizingKept_def Let_def in_set_conv_nth)
qed

lemma sizingKept_trans: "sizingKept shape res x y \<Longrightarrow> sizingKept shape res y z \<Longrightarrow> sizingKept shape res x z"
  by (auto simp: sizingKept_def)

interpretation catalog_sizing: member_update "sizingUpdateErrs cat_Name cat_Shape cat_Resources ''catalog''"
  "\<lambda>c. trimmedKey (cat_Name c)" "\<lambda>c. True" "sizingKept cat_Shape cat_Resources"
  by unfold_locales (simp add: sizingUpdateErrs_Nil_iff, simp add: sizingKept_def, rule sizingKept_trans)

interpretation shardInfo_sizing: member_update "sizingUpdateErrs si_ShardPreFixName si_Shape si_Resources ''shardInfo''"
  "\<lambda>c. trimmedKey (si_ShardPreFixName c)" "\<lambda>c. True" "sizingKept si_Shape si_Resources"
  by unfold_locales (simp add: sizingUpdateErrs_Nil_iff, simp add: sizingKept_def, rule sizingKept_trans)

text \<open>
  along every chain of versions that the sizing check accepts, a \<^verbatim>\<open>shardInfo\<close> entry that stays in
  all of them and once chose a sizing path (a shape, or explicit resources) is never moved to another.
\<close>

theorem sizing_path_fixed:
  assumes "successively (\<lambda>old new. validateComputeSizingPathUpdate new (Some old) = []) (v # vs)"
    and "\<forall>u \<in> set (v # vs). distinct (List.map_filter (\<lambda>s. trimmedKey (si_ShardPreFixName s)) (spec_ShardInfo u)) \<and>
           (\<exists>s \<in> set (spec_ShardInfo u). trimmedKey (si_ShardPreFixName s) = Some k)"
    and "x \<in> set (spec_ShardInfo v)" and "trimmedKey (si_ShardPreFixName x) = Some k"
    and "y \<in> set (spec_ShardInfo (last (v # vs)))" and "trimmedKey (si_ShardPreFixName y) = Some k"
    and "computeSizingPath (si_Shape x) (si_Resources x) \<noteq> ''none''"
  shows "computeSizingPath (si_Shape y) (si_Resources y) = computeSizingPath (si_Shape x) (si_Resources x)"
proof -
  have last: "spec_ShardInfo (last (v # vs)) = last (spec_ShardInfo v # map spec_ShardInfo vs)"
    using last_map [of "v # vs" spec_ShardInfo] by simp
  have "successively (\<lambda>old new. sizingUpdateErrs si_ShardPreFixName si_Shape si_Resources ''shardInfo'' old new = [])
      (map spec_ShardInfo (v # vs))"
    unfolding successively_map using assms(1)
    by (rule successively_mono) (simp add: validateComputeSizingPathUpdate_def)
  then have "sizingKept si_Shape si_Resources x y"
    by (intro shardInfo_sizing.chain_keeps [of "spec_ShardInfo v" "map spec_ShardInfo vs" k])
      (use assms(2-6) last in \<open>auto\<close>)
  then show ?thesis using assms(7) by (simp add: sizingKept_def)
qed

definition sizingExample :: "string \<Rightarrow> ShardingDatabaseSpec" where
  "sizingExample shape = zeroShardingDatabaseSpec\<lparr>spec_ShardInfo := [zeroShardingDetails\<lparr>si_ShardPreFixName := ''s'', si_Shape := shape\<rparr>]\<rparr>"

lemma sizingExample_infos:
  "spec_ShardInfo (sizingExample shape) = [zeroShardingDetails\<lparr>si_ShardPreFixName := ''s'', si_Shape := shape\<rparr>]"
  "spec_Catalog (sizingExample shape) = []"
  by (simp_all add: sizingExample_def zeroShardingDatabaseSpec_def)

theorem sizing_path_fixed_witness:
  "computeSizingPath (si_Shape (hd (spec_ShardInfo (sizingExample ''kodb2'')))) (si_Resources (hd (spec_ShardInfo (sizingExample ''kodb2'')))) =
   computeSizingPath (si_Shape (hd (spec_ShardInfo (sizingExample ''kodb1'')))) (si_Resources (hd (spec_ShardInfo (sizingExample ''kodb1''))))"
proof (rule sizing_path_fixed [where v = "sizingExample ''kodb1''" and vs = "[sizingExample ''kodb2'']" and k = "''s''"])
  show "successively (\<lambda>old new. validateComputeSizingPathUpdate new (Some old) = []) [sizingExample ''kodb1'', sizingExample ''kodb2'']"
    by (simp add: validateComputeSizingPathUpdate_def sizingUpdateErrs_def sizingExample_infos indexBy_def trimmedKey_def
        computeSizingPath_def zero_defs go_eval)
qed (simp_all add: sizingExample_infos trimmedKey_def List.map_filter_simps computeSizingPath_def zero_defs go_eval)



section \<open>Defaulting against validation\<close>

lemma prepareSpec_Catalog:
  "\<exists>ts tr. spec_Catalog (prepareSpec spec) = map (defaultCatalogTopology ts tr) (spec_Catalog spec)"
  by (auto simp: prepareSpec_def applyGlobalShardingReplicationDefaults_def Let_def)

lemma Default_cases:
  assumes "Default spec = Inr s"
  obtains r where "rebuildShards (prepareSpec spec) = Inr r" and "s = finishSpec r"
    and "spec_Catalog r = spec_Catalog (prepareSpec spec)" and "spec_ShardInfo r = spec_ShardInfo (prepareSpec spec)"
proof -
  obtain r where r: "rebuildShards (prepareSpec spec) = Inr r" and s: "s = finishSpec r"
    using assms by (auto simp: Default_def split: sum.splits)
  then have "spec_Catalog r = spec_Catalog (prepareSpec spec)" "spec_ShardInfo r = spec_ShardInfo (prepareSpec spec)"
    by (auto simp: rebuildShards_def split: option.splits if_splits prod.splits)
  then show thesis using r s that by blast
qed

lemma LookupShapeConfig_not_blank: "LookupShapeConfig shape = Some cfg \<Longrightarrow> \<not> blank shape"
  by (auto simp: LookupShapeConfig_def shapeTable_def)

lemma defaultCatalog_shape:
  "cat_Shape (defaultCatalog c) = cat_Shape c"
  "LookupShapeConfig (cat_Shape c) = Some cfg \<Longrightarrow> cat_Resources (defaultCatalog c) = Some (shapeResourceRequirements cfg)"
  by (auto simp: defaultCatalog_def Let_def split: option.splits)

text \<open>
  a catalog that names a shape of the table cannot be admitted. Defaulting gives it the
  resources of the shape, and the validation that follows refuses a catalog with both a shape and
  resources.
\<close>

theorem known_shape_catalog_rejected:
  assumes "Default spec = Inr s" and "c \<in> set (spec_Catalog spec)" and "LookupShapeConfig (cat_Shape c) = Some cfg"
  shows "validateComputeSizingPathConfig s \<noteq> []"
proof -
  obtain r where r: "s = finishSpec r" "spec_Catalog r = spec_Catalog (prepareSpec spec)"
    using Default_cases [OF assms(1)] by metis
  obtain ts tr where cats: "spec_Catalog (prepareSpec spec) = map (defaultCatalogTopology ts tr) (spec_Catalog spec)"
    using prepareSpec_Catalog by blast
  let ?c = "defaultCatalog (defaultCatalogTopology ts tr c)"
  have shape: "cat_Shape (defaultCatalogTopology ts tr c) = cat_Shape c" by (simp add: defaultCatalogTopology_def Let_def)
  have "?c \<in> set (spec_Catalog s)" using assms(2) by (simp add: r finishSpec_fields cats)
  moreover have "\<not> blank (cat_Shape ?c)" "cat_Resources ?c \<noteq> None"
    using assms(3) LookupShapeConfig_not_blank [OF assms(3)] by (simp_all add: defaultCatalog_shape shape)
  ultimately show ?thesis
    by (auto simp: validateComputeSizingPathConfig_def range_errs_Nil_iff in_set_conv_nth)
qed

definition shapedCatalog :: ShardingDatabaseSpec where
  "shapedCatalog = zeroShardingDatabaseSpec\<lparr>spec_Catalog := [zeroCatalogSpec\<lparr>cat_Name := ''cat'', cat_Shape := ''kodb1''\<rparr>]\<rparr>"

theorem known_shape_catalog_rejected_witness:
  "\<exists>s. Default shapedCatalog = Inr s \<and> validateComputeSizingPathConfig s \<noteq> []"
proof -
  have z: "spec_ShardInfo shapedCatalog = []" by (simp add: shapedCatalog_def zeroShardingDatabaseSpec_def)
  have "desiredShardReplicaTotal (prepareSpec shapedCatalog) = (0, [])"
    by (simp add: desiredShardReplicaTotal_def prepareSpec_fields z wrap32_def)
  then have d: "Default shapedCatalog = Inr (finishSpec (prepareSpec shapedCatalog))"
    by (simp add: Default_def rebuildShards_def)
  have c: "zeroCatalogSpec\<lparr>cat_Name := ''cat'', cat_Shape := ''kodb1''\<rparr> \<in> set (spec_Catalog shapedCatalog)"
    by (simp add: shapedCatalog_def zeroShardingDatabaseSpec_def)
  have "\<exists>cfg. LookupShapeConfig ''kodb1'' = Some cfg" by (simp add: LookupShapeConfig_def shapeTable_def go_eval)
  then obtain cfg where "LookupShapeConfig (cat_Shape (zeroCatalogSpec\<lparr>cat_Name := ''cat'', cat_Shape := ''kodb1''\<rparr>)) = Some cfg"
    by (auto simp: zero_defs)
  then show ?thesis using known_shape_catalog_rejected [OF d c] d by blast
qed

lemma isDelete_initShard:
  assumes "si_ShardGroupDetails info = None"
  shows "sh_IsDelete (initShard info j s) = sh_IsDelete s"
proof -
  have "sh_IsDelete (initShardPlacement info s) = sh_IsDelete s" for s
    by (simp add: initShardPlacement_def Let_def if_distrib [of sh_IsDelete] del: if_split)
  moreover have "sh_IsDelete (initShardSizing info s) = sh_IsDelete s" for s
    by (cases "LookupShapeConfig (si_Shape info)")
      (simp_all add: initShardSizing_def Let_def if_distrib [of sh_IsDelete] del: if_split)
  moreover have "sh_IsDelete (initShardTopology info j s) = sh_IsDelete s" for s
    using assms by (cases "si_ShardSpaceDetails info") (simp_all add: initShardTopology_def)
  ultimately show ?thesis by (simp add: initShard_def)
qed

lemma initCount_pos: "initCount info > 0"
  by (simp add: initCount_def getShardInfoCount_def Let_def)

lemma desiredShards_has_entry:
  "info \<in> set infos \<Longrightarrow> \<exists>j. initShard info j zeroShardSpec \<in> set (desiredShards infos k)"
proof (induction infos arbitrary: k)
  case (Cons i infos)
  show ?case
  proof (cases "info = i")
    case True
    have "k \<in> set [k..<k + nat (initCount i)]" using initCount_pos [of i] by simp
    then show ?thesis using True by (intro exI [of _ k]) simp
  next
    case False
    then show ?thesis using Cons.IH [of "k + nat (initCount i)"] Cons.prems by auto
  qed
qed simp

text \<open>
  a new object with a \<^verbatim>\<open>shardInfo\<close> entry that has no shard group details, as every entry of
  user-defined sharding, is refused: the shards that defaulting builds for the entry have an empty
  delete flag, which the create validation does not allow.
\<close>

theorem ungrouped_entry_rejected:
  assumes "Default spec = Inr s" and "spec_Shard spec = []" and "\<forall>info \<in> set (spec_ShardInfo spec). wf_info info"
    and "info \<in> set (spec_ShardInfo spec)" and "si_ShardGroupDetails info = None"
  shows "validateShardIsDelete s \<noteq> []"
proof -
  let ?p = "prepareSpec spec"
  let ?i = "defaultShardNum (preparedMode spec) (defaultShardInfo info)"
  have mem: "?i \<in> set (spec_ShardInfo ?p)" using assms(4) by (simp add: prepareSpec_fields)
  have none: "si_ShardGroupDetails ?i = None" using assms(5) by (simp add: defaultShardNum_def defaultShardInfo_def)
  have ex: "spec_Shard ?p = []" by (simp add: prepareSpec_fields assms(2))
  have wf: "\<forall>i \<in> set (spec_ShardInfo ?p). wf_info i" using assms(3) by (simp add: prepareSpec_fields)
  obtain r where r: "rebuildShards ?p = Inr r" "s = finishSpec r" using Default_cases [OF assms(1)] by metis
  then obtain t where t: "desiredShardReplicaTotal ?p = (t, [])"
    by (cases "desiredShardReplicaTotal ?p") (auto simp: rebuildShards_def split: if_splits)
  have "int (length (spec_ShardInfo ?p)) \<le> t"
    using desiredShardReplicaTotal_ok [OF wf, of t] t wf effCount_bounds(1) by (auto intro!: sum_list_ge_length)
  then have pos: "t > 0" using mem by (cases "spec_ShardInfo ?p") auto
  then obtain desired where d: "buildDesiredShardSpec ?p = Some desired"
    and rs: "spec_Shard r = mergeDesiredAndExistingShards [] desired"
    using r(1) t ex by (auto simp: rebuildShards_def split: option.splits)
  have "set (desiredShards (spec_ShardInfo ?p) 0) \<subseteq> set desired"
    using buildDesired_eq [OF t] d by (auto split: if_splits)
  then obtain j where j: "initShard ?i j zeroShardSpec \<in> set desired" using desiredShards_has_entry [OF mem] by blast
  have nb: "\<not> blank (sh_Name (initShard ?i j zeroShardSpec))"
    unfolding name_initShard by (rule not_blank_itoa)
  then have "initShard ?i j zeroShardSpec \<in> set (mergeDesired (indexBy (\<lambda>s. trimmedKey (sh_Name s)) []) (initShard ?i j zeroShardSpec))"
    by (simp add: mergeDesired_def indexBy_def)
  then have "initShard ?i j zeroShardSpec \<in> set (spec_Shard s)"
    using j by (auto simp: r(2) finishSpec_fields rs mergeDesiredAndExistingShards_def)
  moreover have "sh_IsDelete (initShard ?i j zeroShardSpec) = []"
    unfolding isDelete_initShard [OF none] by (simp add: zeroShardSpec_def)
  ultimately show ?thesis
    by (auto simp: validateShardIsDelete_def range_errs_Nil_iff in_set_conv_nth delete_state_defs Let_def)
qed

definition userExample :: ShardingDatabaseSpec where
  "userExample = zeroShardingDatabaseSpec\<lparr>spec_ShardInfo := [zeroShardingDetails\<lparr>si_ShardPreFixName := ''shard'', si_ShardNum := 1,
     si_ShardSpaceDetails := Some (zeroShardSpaceSpec\<lparr>ss_Name := ''space1'', ss_DeployAs := ''PRIMARY''\<rparr>)\<rparr>]\<rparr>"

theorem ungrouped_entry_rejected_witness:
  "\<exists>s. Default userExample = Inr s \<and> validateShardIsDelete s \<noteq> []"
proof -
  let ?i = "zeroShardingDetails\<lparr>si_ShardPreFixName := ''shard'', si_ShardNum := 1,
     si_ShardSpaceDetails := Some (zeroShardSpaceSpec\<lparr>ss_Name := ''space1'', ss_DeployAs := ''PRIMARY''\<rparr>)\<rparr>"
  have f: "spec_ShardInfo userExample = [?i]" "spec_Shard userExample = []"
    by (simp_all add: userExample_def zeroShardingDatabaseSpec_def)
  have wf: "wf_info ?i" by (simp add: wf_info_def zero_defs in_int32_def)
  have cnt: "effCount m (defaultShardNum m (defaultShardInfo ?i)) = 1" "initCount (defaultShardNum m (defaultShardInfo ?i)) = 1" for m
    by (simp_all add: effectiveReplicaCount_def desiredShardInfoReplicaCount_def defaultShardNum_def initCount_def
        getShardInfoCount_def getShardInfoCountByMode_def defaultShardInfo_def zero_defs
        standbyConfigDerivedShardCount64_def standbyConfigDerivedShardCount_def)
  have wf': "\<forall>i \<in> set (spec_ShardInfo (prepareSpec userExample)). wf_info i" using wf by (simp add: prepareSpec_fields f)
  have "desiredShardReplicaTotal (prepareSpec userExample) = (1, [])"
    unfolding desiredShardReplicaTotal_ok [OF wf'] by (simp add: prepareSpec_fields f cnt)
  then obtain r where "rebuildShards (prepareSpec userExample) = Inr r"
    using buildDesired_eq [of "prepareSpec userExample" 1]
    by (auto simp: rebuildShards_def length_desiredShards prepareSpec_fields f cnt)
  then have "Default userExample = Inr (finishSpec r)" by (simp add: Default_def)
  moreover have "si_ShardGroupDetails ?i = None" by (simp add: zero_defs)
  ultimately show ?thesis using ungrouped_entry_rejected [of userExample "finishSpec r" ?i] f wf by simp
qed


section \<open>Warnings\<close>

lemma appendWarn_fold:
  "distinct ws \<Longrightarrow> distinct (fold appendWarn ms ws) \<and> set (fold appendWarn ms ws) = set ws \<union> set ms"
  by (induction ms arbitrary: ws) (auto simp: appendWarn_def)

lemma range_errs_warnIf_Nil_iff: "range_errs (\<lambda>i x. warnIf (P x) (f i x)) xs = [] \<longleftrightarrow> (\<forall>x \<in> set xs. \<not> P x)"
  by (simp add: range_errs_Nil_iff warnIf_def all_set_conv_all_nth)

text \<open>
  the deprecation warnings of an object repeat no message and are those of its four groups of fields,
  none lost; the group about the members is empty exactly when no shard, catalog or director sets one
  of the ignored volume fields.
\<close>

theorem deprecation_warnings_exact:
  "distinct (deprecatedShardingFieldWarnings (Some spec)) \<and>
   set (deprecatedShardingFieldWarnings (Some spec)) =
     set (specWarnings spec) \<union> set (memberWarnings spec) \<union> set (topologyWarnings spec)
     \<union> set (range_errs shardInfoWarnings (spec_ShardInfo spec)) \<and>
   (memberWarnings spec = [] \<longleftrightarrow>
      (\<forall>s \<in> set (spec_Shard spec). blank (sh_PvcName s) \<and> sh_PvAnnotations s = [] \<and> sh_PvMatchLabels s = []) \<and>
      (\<forall>c \<in> set (spec_Catalog spec). blank (cat_PvcName c) \<and> cat_PvAnnotations c = [] \<and> cat_PvMatchLabels c = []) \<and>
      (\<forall>g \<in> set (spec_Gsm spec). blank (gsm_PvcName g) \<and> gsm_PvAnnotations g = [] \<and> gsm_PvMatchLabels g = []))"
proof -
  have "memberWarnings spec = [] \<longleftrightarrow>
      (\<forall>s \<in> set (spec_Shard spec). blank (sh_PvcName s) \<and> sh_PvAnnotations s = [] \<and> sh_PvMatchLabels s = []) \<and>
      (\<forall>c \<in> set (spec_Catalog spec). blank (cat_PvcName c) \<and> cat_PvAnnotations c = [] \<and> cat_PvMatchLabels c = []) \<and>
      (\<forall>g \<in> set (spec_Gsm spec). blank (gsm_PvcName g) \<and> gsm_PvAnnotations g = [] \<and> gsm_PvMatchLabels g = [])"
    unfolding memberWarnings_def append_is_Nil_conv range_errs_warnIf_Nil_iff by blast
  then show ?thesis
    using appendWarn_fold [of "[]" "specWarnings spec @ memberWarnings spec @ topologyWarnings spec
      @ range_errs shardInfoWarnings (spec_ShardInfo spec)"]
    by (simp add: deprecatedShardingFieldWarnings_def Un_assoc del: fold_append)
qed

theorem deprecation_warnings_exact_witness:
  "memberWarnings (zeroShardingDatabaseSpec\<lparr>spec_Shard := [zeroShardSpec\<lparr>sh_PvcName := ''p''\<rparr>]\<rparr>) \<noteq> []"
  using deprecation_warnings_exact [of "zeroShardingDatabaseSpec\<lparr>spec_Shard := [zeroShardSpec\<lparr>sh_PvcName := ''p''\<rparr>]\<rparr>"]
  by (simp add: zero_defs go_eval)

end
