(* ===== verification/Sharding_ShardInfo.thy ===== *)
theory Sharding_ShardInfo
  imports Sharding_Checks
begin

text \<open>
  \<^verbatim>\<open>validateShardInfo\<close> of \<^verbatim>\<open>apis/database/v4/shardingdatabase_webhook.go\<close>, the topology check over the
  \<^verbatim>\<open>shardInfo\<close> entries. The loop keeps the seventeen maps of the function in the record \<open>infoState\<close>
  and appends errors; each part of its body is one definition. The function also rewrites the
  entries (canonical roles, defaults); what it does to one entry depends on that entry alone and is
  \<open>canonInfo\<close>. Counts are \<^verbatim>\<open>int32\<close>.
\<close>


section \<open>State\<close>

record infoState =
  is_errs :: error_list
  is_groupOnly :: nat
  is_spaceOnly :: nat
  is_both :: nat
  is_sysPrimary :: "(string, int) gomap"
  is_sysStandby :: "(string, int) gomap"
  is_sysRegionByGroup :: "(string, string) gomap"
  is_sysGroupByRegion :: "(string, string) gomap"
  is_userSources :: "(string, int) gomap"
  is_userPrimary :: "(string, int) gomap"
  is_userStandby :: "(string, int) gomap"
  is_userSeen :: "(string, bool) gomap"
  is_spacePrimary :: "(string, int) gomap"
  is_sysExternal :: "(string, int) gomap"
  is_compPrimaryGroups :: "(string, (string, bool) gomap) gomap"
  is_compPrimary :: "(string, int) gomap"
  is_compStandby :: "(string, (string, int) gomap) gomap"
  is_compExternal :: "(string, (string, int) gomap) gomap"
  is_natRegion :: "(string, (string, string) gomap) gomap"
  is_natByRegion :: "(string, (string, string) gomap) gomap"
  is_natGroups :: "(string, (string, bool) gomap) gomap"

definition emptyInfoState :: infoState where
  "emptyInfoState = \<lparr>is_errs = [], is_groupOnly = 0, is_spaceOnly = 0, is_both = 0, is_sysPrimary = [], is_sysStandby = [],
     is_sysRegionByGroup = [], is_sysGroupByRegion = [], is_userSources = [], is_userPrimary = [], is_userStandby = [],
     is_userSeen = [], is_spacePrimary = [], is_sysExternal = [], is_compPrimaryGroups = [], is_compPrimary = [],
     is_compStandby = [], is_compExternal = [], is_natRegion = [], is_natByRegion = [], is_natGroups = []\<rparr>"

text \<open>\<^verbatim>\<open>m[k] += n\<close>, and the same in a map of maps whose inner map exists.\<close>

definition addCount :: "string \<Rightarrow> int \<Rightarrow> (string, int) gomap \<Rightarrow> (string, int) gomap" where
  "addCount k n m = mput k (wrap32 (mget m k 0 + n)) m"

definition ensure :: "string \<Rightarrow> (string, 'a list) gomap \<Rightarrow> (string, 'a list) gomap" where
  "ensure k m = (case map_of m k of None \<Rightarrow> mput k [] m | Some v \<Rightarrow> m)"

definition inner :: "string \<Rightarrow> ('a list \<Rightarrow> 'a list) \<Rightarrow> (string, 'a list) gomap \<Rightarrow> (string, 'a list) gomap" where
  "inner k f m = mput k (f (mget m k [])) m"


section \<open>One entry\<close>

definition infoPath :: "nat \<Rightarrow> path" where
  "infoPath i = [Child ''spec'', Child ''shardInfo'', Index i]"

definition upperKey :: "string \<Rightarrow> string" where
  "upperKey s = ToUpper (TrimSpace s)"

text \<open>The role of a group or space: as given, and after the Data Guard default.\<close>

definition role0 :: "string \<Rightarrow> string" where
  "role0 deployAs = upperKey (normalizeDeployAsCanonical deployAs)"

definition roleOf :: "string \<Rightarrow> string \<Rightarrow> string" where
  "roleOf replType deployAs = (if replType = replDG \<and> role0 deployAs = [] then ''STANDBY'' else role0 deployAs)"

definition entryReplicas :: "shardingMode \<Rightarrow> ShardingDetails \<Rightarrow> int" where
  "entryReplicas modeHint info =
     (let replicas = getShardInfoCountByMode modeHint info in if replicas = 0 then 1 else replicas)"

definition replicaCountOf :: "shardingMode \<Rightarrow> ShardingDetails \<Rightarrow> int" where
  "replicaCountOf modeHint info = (let r = entryReplicas modeHint info in if r \<le> 0 then 1 else r)"

text \<open>What the loop writes back into the entry.\<close>

definition canonInfo :: "shardingMode \<Rightarrow> string \<Rightarrow> ShardingDetails \<Rightarrow> ShardingDetails" where
  "canonInfo modeHint replType info =
     info\<lparr>si_ShardNum := (if getShardInfoCountByMode modeHint info = 0 then 1 else si_ShardNum info),
          si_ShardGroupDetails := map_option (\<lambda>sg.
            if hasGroupDetails info
            then sg\<lparr>sg_DeployAs := (if replType = replDG \<and> role0 (sg_DeployAs sg) = [] then ''STANDBY''
                                    else normalizeDeployAsCanonical (sg_DeployAs sg)),
                    sg_RuMode := normalizeShardGroupRuModeCanonical (sg_RuMode sg)\<rparr>
            else sg\<lparr>sg_DeployAs := normalizeDeployAsCanonical (sg_DeployAs sg)\<rparr>) (si_ShardGroupDetails info),
          si_ShardSpaceDetails := map_option (\<lambda>ss.
            ss\<lparr>ss_DeployAs := (if \<not> hasGroupDetails info \<and> hasSpaceDetails info \<and> modeHint = modeUser \<and>
                                  replType = replDG \<and> role0 (ss_DeployAs ss) = []
                               then ''STANDBY'' else normalizeDeployAsCanonical (ss_DeployAs ss))\<rparr>)
            (si_ShardSpaceDetails info)\<rparr>"

definition entrySourceErrs :: "string \<Rightarrow> nat \<Rightarrow> ShardingDetails \<Rightarrow> error_list" where
  "entrySourceErrs ns i info =
     validateStandbyConfigPrimarySourceExclusive ns i info
     @ validateExternalPrimarySourceExclusive ns i info
     @ (if standbyConfigPrimaryCount (si_StandbyConfig info) > 0 \<and>
           externalPrimarySourceCount (si_ExternalPrimarySources info) ns > 0
        then [Forbidden (infoPath i)] else [])"

definition entryModeErrs :: "shardingMode \<Rightarrow> nat \<Rightarrow> ShardingDetails \<Rightarrow> error_list" where
  "entryModeErrs modeHint i info =
     (let hasGroup = hasGroupDetails info; hasSpace = hasSpaceDetails info;
          g = infoPath i @ [Child ''shardGroupDetails'']; s = infoPath i @ [Child ''shardSpaceDetails'']
      in case modeHint of
           modeUser \<Rightarrow> (if hasGroup then [Forbidden g] else []) @ (if \<not> hasSpace then [Required s] else [])
         | modeSystem \<Rightarrow> (if \<not> hasGroup then [Required g] else []) @ (if hasSpace then [Forbidden s] else [])
         | modeComposite \<Rightarrow> (if \<not> hasGroup then [Required g] else []) @ (if \<not> hasSpace then [Required s] else [])
         | modeUnknown \<Rightarrow> [])"

text \<open>The role checks of a shard group, the same with and without a shard space.\<close>

definition groupRoleErrs :: "string \<Rightarrow> nat \<Rightarrow> ShardGroupSpec \<Rightarrow> error_list" where
  "groupRoleErrs replType i sg =
     (let deployAs = role0 (sg_DeployAs sg); ruMode = normalizeShardGroupRuModeCanonical (sg_RuMode sg);
          g = infoPath i @ [Child ''shardGroupDetails'']
      in (if deployAs \<noteq> [] \<and> \<not> isValidDeployAs deployAs
          then [Invalid (g @ [Child ''deployAs'']) (BVString (normalizeDeployAsCanonical (sg_DeployAs sg)))] else [])
         @ (if ruMode \<noteq> [] \<and> \<not> isValidShardGroupRuMode ruMode
            then [Invalid (g @ [Child ''ru_mode'']) (BVString ruMode)] else [])
         @ (if deployAs \<noteq> [] \<and> ruMode \<noteq> [] then [Forbidden g] else [])
         @ (if replType = replNative \<and> deployAs \<noteq> [] then [Forbidden (g @ [Child ''deployAs''])] else [])
         @ (if replType \<noteq> replNative \<and> ruMode \<noteq> [] then [Forbidden (g @ [Child ''ru_mode''])] else []))"

text \<open>
  The registration of a group and its region: each new pair must agree with what is known of the
  group and with what is known of the region.
\<close>

definition bindConflict :: "string \<Rightarrow> string \<Rightarrow> (string, string) gomap \<Rightarrow> bool" where
  "bindConflict k v m \<longleftrightarrow> (case map_of m k of None \<Rightarrow> False | Some old \<Rightarrow> old \<noteq> v)"

definition bindErrs ::
    "field_error \<Rightarrow> string \<Rightarrow> string \<Rightarrow> (string, string) gomap \<Rightarrow> (string, string) gomap \<Rightarrow> error_list" where
  "bindErrs e groupKey regionKey byGroup byRegion =
     (if bindConflict groupKey regionKey byGroup then [e] else [])
     @ (if bindConflict regionKey groupKey byRegion then [e] else [])"

definition bindPut :: "string \<Rightarrow> string \<Rightarrow> (string, string) gomap \<Rightarrow> (string, string) gomap" where
  "bindPut k v m = (if bindConflict k v m then m else mput k v m)"

text \<open>System sharding: the region of the group, then the count of its role.\<close>

definition systemRegion :: "nat \<Rightarrow> ShardGroupSpec \<Rightarrow> infoState \<Rightarrow> infoState" where
  "systemRegion i sg st =
     (let groupKey = upperKey (sg_Name sg); regionKey = upperKey (sg_Region sg);
          e = Invalid (infoPath i @ [Child ''shardGroupDetails'', Child ''region'']) (BVString (sg_Region sg))
      in if groupKey \<noteq> [] \<and> regionKey \<noteq> []
         then st\<lparr>is_errs := is_errs st @ bindErrs e groupKey regionKey (is_sysRegionByGroup st) (is_sysGroupByRegion st),
                 is_sysRegionByGroup := bindPut groupKey regionKey (is_sysRegionByGroup st),
                 is_sysGroupByRegion := bindPut regionKey groupKey (is_sysGroupByRegion st)\<rparr>
         else st)"

definition standbySourceErrs :: "nat \<Rightarrow> ShardingDetails \<Rightarrow> error_list" where
  "standbySourceErrs i info =
     (case si_StandbyConfig info of None \<Rightarrow> []
      | Some cfg \<Rightarrow>
          (if sbc_StandbyPerPrimary cfg > 0
           then [Invalid (infoPath i @ [Child ''standbyConfig'', Child ''standbyPerPrimary'']) (BVInt (sbc_StandbyPerPrimary cfg))]
           else [])
          @ (if standbyConfigPrimaryCount (Some cfg) > 0 then [Forbidden (infoPath i @ [Child ''standbyConfig''])] else []))"

definition externalErrs :: "nat \<Rightarrow> int \<Rightarrow> int \<Rightarrow> error_list" where
  "externalErrs i externalCount replicaCount =
     (if externalCount > 0 \<and> externalCount \<noteq> replicaCount
      then [Invalid (infoPath i @ [Child ''externalPrimarySources'']) (BVInt externalCount)] else [])"

definition systemRole :: "string \<Rightarrow> string \<Rightarrow> nat \<Rightarrow> ShardingDetails \<Rightarrow> ShardGroupSpec \<Rightarrow> infoState \<Rightarrow> infoState" where
  "systemRole ns replType i info sg st =
     (let groupKey = upperKey (sg_Name sg); deployAs = roleOf replType (sg_DeployAs sg);
          replicaCount = replicaCountOf modeSystem info;
          externalCount = externalPrimarySourceCount (si_ExternalPrimarySources info) ns
      in if groupKey = [] then st
         else if deployAs = ''PRIMARY'' then
           st\<lparr>is_sysPrimary := addCount groupKey replicaCount (is_sysPrimary st),
              is_errs := is_errs st @ (if externalCount > 0
                then [Forbidden (infoPath i @ [Child ''externalPrimarySources''])] else [])\<rparr>
         else if deployAs = ''STANDBY'' \<or> deployAs = ''ACTIVE_STANDBY'' then
           st\<lparr>is_sysStandby := addCount groupKey replicaCount (is_sysStandby st),
              is_errs := is_errs st @ standbySourceErrs i info @ externalErrs i externalCount replicaCount,
              is_sysExternal := (if externalCount > 0 then addCount groupKey externalCount (is_sysExternal st)
                                 else is_sysExternal st)\<rparr>
         else st)"

definition groupOnlyEntry :: "string \<Rightarrow> shardingMode \<Rightarrow> string \<Rightarrow> nat \<Rightarrow> ShardingDetails \<Rightarrow> ShardGroupSpec \<Rightarrow> infoState \<Rightarrow> infoState" where
  "groupOnlyEntry ns modeHint replType i info sg st =
     (let st1 = st\<lparr>is_groupOnly := is_groupOnly st + 1, is_errs := is_errs st @ groupRoleErrs replType i sg\<rparr>
      in if modeHint = modeSystem then systemRole ns replType i info sg (systemRegion i sg st1) else st1)"

text \<open>User-defined sharding.\<close>

definition userRoleErrs :: "string \<Rightarrow> nat \<Rightarrow> ShardSpaceSpec \<Rightarrow> error_list" where
  "userRoleErrs replType i ss =
     (let deployAs = role0 (ss_DeployAs ss); p = infoPath i @ [Child ''shardSpaceDetails'', Child ''deployAs'']
      in (if deployAs \<noteq> [] \<and> \<not> isValidDeployAs deployAs
          then [Invalid p (BVString (normalizeDeployAsCanonical (ss_DeployAs ss)))] else [])
         @ (if replType = replNative \<and> deployAs \<noteq> [] then [Forbidden p] else []))"

definition userRole :: "string \<Rightarrow> string \<Rightarrow> nat \<Rightarrow> ShardingDetails \<Rightarrow> ShardSpaceSpec \<Rightarrow> infoState \<Rightarrow> infoState" where
  "userRole ns replType i info ss st =
     (let spaceKey = upperKey (ss_Name ss); deployAs = roleOf replType (ss_DeployAs ss);
          replicaCount = replicaCountOf modeUser info
      in if spaceKey = [] then st
         else st\<lparr>is_userSeen := mput spaceKey True (is_userSeen st),
                 is_errs := is_errs st @ (if externalPrimarySourceCount (si_ExternalPrimarySources info) ns > 0
                   then [Forbidden (infoPath i @ [Child ''externalPrimarySources''])] else []),
                 is_userPrimary := (if deployAs = ''PRIMARY'' then addCount spaceKey replicaCount (is_userPrimary st)
                                    else is_userPrimary st),
                 is_userStandby := (if deployAs = ''STANDBY'' \<or> deployAs = ''ACTIVE_STANDBY''
                                    then addCount spaceKey replicaCount (is_userStandby st) else is_userStandby st),
                 is_userSources := addCount spaceKey (standbyConfigPrimaryCount (si_StandbyConfig info)) (is_userSources st)\<rparr>)"

definition spaceOnlyEntry :: "string \<Rightarrow> shardingMode \<Rightarrow> string \<Rightarrow> nat \<Rightarrow> ShardingDetails \<Rightarrow> ShardSpaceSpec \<Rightarrow> infoState \<Rightarrow> infoState" where
  "spaceOnlyEntry ns modeHint replType i info ss st =
     (let st1 = st\<lparr>is_spaceOnly := is_spaceOnly st + 1,
                   is_errs := is_errs st
                     @ (if si_ShardGroupDetails info \<noteq> None
                        then [Invalid [Child ''spec'', Child ''shardInfo'', Child ''shardGroupDetails''] BVObject] else [])
                     @ (if modeHint = modeUser then userRoleErrs replType i ss else [])\<rparr>
      in if modeHint = modeUser \<and> replType = replDG then userRole ns replType i info ss st1 else st1)"

text \<open>Composite sharding: the region of the group within its space, then the count of its role.\<close>

definition compositeNative :: "nat \<Rightarrow> ShardGroupSpec \<Rightarrow> string \<Rightarrow> infoState \<Rightarrow> infoState" where
  "compositeNative i sg spaceKey st =
     (let groupKey = upperKey (sg_Name sg); regionKey = upperKey (sg_Region sg);
          ruMode = normalizeShardGroupRuModeCanonical (sg_RuMode sg); g = infoPath i @ [Child ''shardGroupDetails''];
          e = Invalid (g @ [Child ''region'']) (BVString (sg_Region sg));
          byGroup = mget (is_natRegion st) spaceKey []; byRegion = mget (is_natByRegion st) spaceKey []
      in st\<lparr>is_errs := is_errs st
              @ (if regionKey = [] then [Required (g @ [Child ''region''])] else [])
              @ (if ruMode = [] then [Required (g @ [Child ''ru_mode''])]
                 else if ruMode \<noteq> ''READWRITE'' then [Invalid (g @ [Child ''ru_mode'']) (BVString ruMode)] else [])
              @ (if regionKey \<noteq> [] then bindErrs e groupKey regionKey byGroup byRegion else []),
            is_natRegion := inner spaceKey (if regionKey \<noteq> [] then bindPut groupKey regionKey else id)
              (ensure spaceKey (is_natRegion st)),
            is_natByRegion := inner spaceKey (if regionKey \<noteq> [] then bindPut regionKey groupKey else id)
              (ensure spaceKey (is_natByRegion st)),
            is_natGroups := inner spaceKey (mput groupKey True) (ensure spaceKey (is_natGroups st))\<rparr>)"

definition compositeRole :: "string \<Rightarrow> string \<Rightarrow> nat \<Rightarrow> ShardingDetails \<Rightarrow> ShardGroupSpec \<Rightarrow> string \<Rightarrow> infoState \<Rightarrow> infoState" where
  "compositeRole ns replType i info sg spaceKey st =
     (let groupKey = upperKey (sg_Name sg); deployAs = roleOf replType (sg_DeployAs sg);
          replicaCount = replicaCountOf modeComposite info;
          externalCount = externalPrimarySourceCount (si_ExternalPrimarySources info) ns;
          st1 = st\<lparr>is_errs := is_errs st @ standbySourceErrs i info,
                   is_compPrimaryGroups := ensure spaceKey (is_compPrimaryGroups st),
                   is_compStandby := ensure spaceKey (is_compStandby st),
                   is_compExternal := ensure spaceKey (is_compExternal st)\<rparr>
      in if deployAs = ''PRIMARY'' then
           st1\<lparr>is_compPrimaryGroups := inner spaceKey (mput groupKey True) (is_compPrimaryGroups st1),
               is_compPrimary := addCount spaceKey replicaCount (is_compPrimary st1),
               is_errs := is_errs st1 @ (if externalCount > 0
                 then [Forbidden (infoPath i @ [Child ''externalPrimarySources''])] else [])\<rparr>
         else if deployAs = ''STANDBY'' \<or> deployAs = ''ACTIVE_STANDBY'' then
           st1\<lparr>is_compStandby := inner spaceKey (addCount groupKey replicaCount) (is_compStandby st1),
               is_compExternal := (if externalCount > 0
                 then inner spaceKey (addCount groupKey externalCount) (is_compExternal st1) else is_compExternal st1),
               is_errs := is_errs st1 @ externalErrs i externalCount replicaCount\<rparr>
         else st1)"

definition bothRole :: "string \<Rightarrow> nat \<Rightarrow> ShardGroupSpec \<Rightarrow> ShardSpaceSpec \<Rightarrow> infoState \<Rightarrow> infoState" where
  "bothRole replType i sg ss st =
     st\<lparr>is_both := is_both st + 1, is_errs := is_errs st @ groupRoleErrs replType i sg,
        is_spacePrimary := (if EqualFold (roleOf replType (sg_DeployAs sg)) ''PRIMARY''
          then mput (TrimSpace (ss_Name ss)) (mget (is_spacePrimary st) (TrimSpace (ss_Name ss)) 0 + 1) (is_spacePrimary st)
          else is_spacePrimary st)\<rparr>"

definition bothEntry :: "string \<Rightarrow> shardingMode \<Rightarrow> string \<Rightarrow> nat \<Rightarrow> ShardingDetails \<Rightarrow> ShardGroupSpec \<Rightarrow> ShardSpaceSpec \<Rightarrow> infoState \<Rightarrow> infoState" where
  "bothEntry ns modeHint replType i info sg ss st =
     (let spaceKey = upperKey (ss_Name ss); st1 = bothRole replType i sg ss st
      in if modeHint = modeComposite
         then compositeRole ns replType i info sg spaceKey
                (if replType = replNative then compositeNative i sg spaceKey st1 else st1)
         else st1)"

definition checkEntry :: "string \<Rightarrow> shardingMode \<Rightarrow> string \<Rightarrow> nat \<Rightarrow> ShardingDetails \<Rightarrow> infoState \<Rightarrow> infoState" where
  "checkEntry ns modeHint replType i info st =
     (let st1 = st\<lparr>is_errs := is_errs st @ entrySourceErrs ns i info @ entryModeErrs modeHint i info\<rparr>
      in case (si_ShardGroupDetails info, si_ShardSpaceDetails info) of
           (Some sg, Some ss) \<Rightarrow>
             if hasGroupDetails info \<and> hasSpaceDetails info then bothEntry ns modeHint replType i info sg ss st1
             else if hasGroupDetails info then groupOnlyEntry ns modeHint replType i info sg st1
             else if hasSpaceDetails info then spaceOnlyEntry ns modeHint replType i info ss st1
             else st1\<lparr>is_errs := is_errs st1 @ [Invalid (infoPath i) BVObject]\<rparr>
         | (Some sg, None) \<Rightarrow>
             if hasGroupDetails info then groupOnlyEntry ns modeHint replType i info sg st1
             else st1\<lparr>is_errs := is_errs st1 @ [Invalid (infoPath i) BVObject]\<rparr>
         | (None, Some ss) \<Rightarrow>
             if hasSpaceDetails info then spaceOnlyEntry ns modeHint replType i info ss st1
             else st1\<lparr>is_errs := is_errs st1 @ [Invalid (infoPath i) BVObject]\<rparr>
         | (None, None) \<Rightarrow> st1\<lparr>is_errs := is_errs st1 @ [Invalid (infoPath i) BVObject]\<rparr>)"



section \<open>After the loop\<close>

definition sumCounts :: "(string, int) gomap \<Rightarrow> int" where
  "sumCounts m = fold (\<lambda>(k, v) acc. wrap32 (acc + v)) m 0"

definition groupNamePath :: path where
  "groupNamePath = [Child ''spec'', Child ''shardInfo'', Child ''shardGroupDetails'', Child ''name'']"

definition spaceNamePath :: path where
  "spaceNamePath = [Child ''spec'', Child ''shardInfo'', Child ''shardSpaceDetails'', Child ''name'']"

definition deployAsPath :: path where
  "deployAsPath = [Child ''spec'', Child ''shardInfo'', Child ''shardGroupDetails'', Child ''deployAs'']"

text \<open>The case of one primary group, \<^verbatim>\<open>len(sysPrimaryReplicaCountByGroup) == 1\<close>.\<close>

definition systemPrimaryErrs :: "string \<Rightarrow> int \<Rightarrow> (string, int) gomap \<Rightarrow> error_list" where
  "systemPrimaryErrs primaryGroup primaryReplicaCount standby =
     (let others = filter (\<lambda>(g, c). g \<noteq> primaryGroup) standby; totalStandbyReplicas = sumCounts others
      in (if mget standby primaryGroup 0 > 0 then [Invalid groupNamePath (BVString primaryGroup)] else [])
         @ range_map (\<lambda>g c. if c > primaryReplicaCount then [Invalid groupNamePath (BVString g)] else []) others
         @ (if totalStandbyReplicas > 0 \<and> totalStandbyReplicas \<noteq> primaryReplicaCount
            then [Invalid groupNamePath (BVInt totalStandbyReplicas)] else []))"

definition systemFinalErrs :: "shardingMode \<Rightarrow> infoState \<Rightarrow> error_list" where
  "systemFinalErrs modeHint st =
     (if modeHint = modeSystem then
        (if length (is_sysPrimary st) > 1 then [Invalid deployAsPath (BVString ''PRIMARY'')] else [])
        @ (if length (is_sysPrimary st) = 0 then
             (let totalStandbyReplicas = sumCounts (is_sysStandby st); totalExternalReplicas = sumCounts (is_sysExternal st)
              in if totalStandbyReplicas = 0 \<or> totalExternalReplicas \<noteq> totalStandbyReplicas
                 then [Invalid [Child ''spec'', Child ''shardInfo'', Child ''externalPrimarySources''] (BVInt totalExternalReplicas)]
                 else [])
           else [])
        @ (if length (is_sysPrimary st) = 1
           then systemPrimaryErrs (fst (hd (is_sysPrimary st))) (snd (hd (is_sysPrimary st))) (is_sysStandby st) else [])
      else [Invalid deployAsPath (BVString ''PRIMARY'')])"

definition compositeSpaceErrs :: "infoState \<Rightarrow> string \<Rightarrow> (string, bool) gomap \<Rightarrow> error_list" where
  "compositeSpaceErrs st spaceKey primaryGroups =
     (if length primaryGroups = 0 then
        (let totalStandbyReplicas = sumCounts (mget (is_compStandby st) spaceKey []);
             totalExternalReplicas = sumCounts (mget (is_compExternal st) spaceKey [])
         in if totalStandbyReplicas = 0 \<or> totalExternalReplicas \<noteq> totalStandbyReplicas
            then [Invalid spaceNamePath (BVString spaceKey)] else [])
      else if length primaryGroups \<noteq> 1 then [Invalid spaceNamePath (BVString spaceKey)]
      else range_map (\<lambda>g c. if c > mget (is_compPrimary st) spaceKey 0 then [Invalid groupNamePath (BVString g)] else [])
             (mget (is_compStandby st) spaceKey []))"

definition compositeFinalErrs :: "shardingMode \<Rightarrow> infoState \<Rightarrow> error_list" where
  "compositeFinalErrs modeHint st =
     range_map (\<lambda>sp cnt. if cnt > 1 then [Invalid spaceNamePath (BVString sp)] else []) (is_spacePrimary st)
     @ (if modeHint = modeComposite then range_map (compositeSpaceErrs st) (is_compPrimaryGroups st) else [])"

definition userSpaceErrs :: "infoState \<Rightarrow> string \<Rightarrow> bool \<Rightarrow> error_list" where
  "userSpaceErrs st spaceKey seen =
     (let primaryReplicas = mget (is_userPrimary st) spaceKey 0; standbyReplicas = mget (is_userStandby st) spaceKey 0;
          externalSources = mget (is_userSources st) spaceKey 0; p = [Child ''spec'', Child ''shardInfo'']
      in if externalSources > 0 then (if primaryReplicas > 0 then [Forbidden p] else [])
         else if standbyReplicas > 0 \<and> primaryReplicas = 0 then [Required p]
         else if primaryReplicas \<noteq> 1 then [Required p] else [])"

definition nativeFinalErrs :: "infoState \<Rightarrow> error_list" where
  "nativeFinalErrs st =
     range_map (\<lambda>spaceKey groups. if length groups > 1 then [Invalid spaceNamePath (BVString spaceKey)] else []) (is_natGroups st)"

definition finalErrs :: "shardingMode \<Rightarrow> string \<Rightarrow> infoState \<Rightarrow> error_list" where
  "finalErrs modeHint replType st =
     (if replType = replDG \<and> is_groupOnly st > 0 \<and> is_spaceOnly st = 0 \<and> is_both st = 0 then systemFinalErrs modeHint st else [])
     @ (if replType = replDG \<and> (is_both st > 0 \<or> (is_groupOnly st > 0 \<and> is_spaceOnly st > 0))
        then compositeFinalErrs modeHint st else [])
     @ (if replType = replDG \<and> modeHint = modeUser then range_map (userSpaceErrs st) (is_userSeen st) else [])
     @ (if replType = replNative \<and> modeHint = modeComposite then nativeFinalErrs st else [])"

definition infoLoop :: "string \<Rightarrow> ShardingDatabaseSpec \<Rightarrow> infoState" where
  "infoLoop ns spec =
     range_fold (checkEntry ns (normalizeShardingType spec) (normalizeReplicationType spec)) (spec_ShardInfo spec) emptyInfoState"

definition validateShardInfo :: "string \<Rightarrow> ShardingDatabaseSpec \<Rightarrow> error_list \<times> ShardingDatabaseSpec" where
  "validateShardInfo ns spec =
     (let countErrs = validateDesiredShardReplicaCounts spec in
      if countErrs \<noteq> [] then (countErrs, spec)
      else let modeHint = normalizeShardingType spec; replType = normalizeReplicationType spec; st = infoLoop ns spec
           in (is_errs st @ finalErrs modeHint replType st,
               spec\<lparr>spec_ShardInfo := map (canonInfo modeHint replType) (spec_ShardInfo spec)\<rparr>))"


section \<open>Errors of the loop\<close>

text \<open>
  The loop only appends errors, so an accepted object has none at any entry. The bundle
  \<open>entry_defs\<close> unfolds one step.
\<close>

lemmas entry_defs = checkEntry_def bothEntry_def bothRole_def groupOnlyEntry_def spaceOnlyEntry_def
  compositeRole_def compositeNative_def
  userRole_def systemRole_def systemRegion_def Let_def

lemma systemRegion_errs: "\<exists>es. is_errs (systemRegion i sg st) = is_errs st @ es"
  by (simp add: systemRegion_def Let_def)

lemma systemRole_errs: "\<exists>es. is_errs (systemRole ns repl i info sg st) = is_errs st @ es"
  by (simp add: systemRole_def Let_def)

lemma userRole_errs: "\<exists>es. is_errs (userRole ns repl i info ss st) = is_errs st @ es"
  by (simp add: userRole_def Let_def)

lemma compositeNative_errs: "\<exists>es. is_errs (compositeNative i sg sp st) = is_errs st @ es"
  by (simp add: compositeNative_def Let_def)

lemma compositeRole_errs: "\<exists>es. is_errs (compositeRole ns repl i info sg sp st) = is_errs st @ es"
  by (simp add: compositeRole_def Let_def)

lemmas part_errs = systemRegion_errs systemRole_errs userRole_errs compositeNative_errs compositeRole_errs

lemma groupOnlyEntry_errs: "\<exists>es. is_errs (groupOnlyEntry ns m repl i info sg st) = is_errs st @ groupRoleErrs repl i sg @ es"
proof -
  let ?st1 = "st\<lparr>is_groupOnly := is_groupOnly st + 1, is_errs := is_errs st @ groupRoleErrs repl i sg\<rparr>"
  obtain es where es: "is_errs (systemRegion i sg ?st1) = is_errs ?st1 @ es" using systemRegion_errs by blast
  obtain es' where es': "is_errs (systemRole ns repl i info sg (systemRegion i sg ?st1)) = is_errs (systemRegion i sg ?st1) @ es'"
    using systemRole_errs by blast
  show ?thesis using es es' by (auto simp: groupOnlyEntry_def Let_def)
qed

lemma spaceOnlyEntry_errs: "\<exists>es. is_errs (spaceOnlyEntry ns m repl i info ss st) = is_errs st @ es"
proof -
  let ?e = "(if si_ShardGroupDetails info \<noteq> None
      then [Invalid [Child ''spec'', Child ''shardInfo'', Child ''shardGroupDetails''] BVObject] else [])
      @ (if m = modeUser then userRoleErrs repl i ss else [])"
  let ?st1 = "st\<lparr>is_spaceOnly := is_spaceOnly st + 1, is_errs := is_errs st @ ?e\<rparr>"
  obtain es where "is_errs (userRole ns repl i info ss ?st1) = is_errs ?st1 @ es" using userRole_errs by blast
  then show ?thesis by (auto simp: spaceOnlyEntry_def Let_def)
qed

lemma bothRole_errs [simp]: "is_errs (bothRole repl i sg ss st) = is_errs st @ groupRoleErrs repl i sg"
  by (simp add: bothRole_def)

lemma bothEntry_errs: "\<exists>es. is_errs (bothEntry ns m repl i info sg ss st) = is_errs st @ groupRoleErrs repl i sg @ es"
proof -
  let ?st1 = "bothRole repl i sg ss st" and ?sp = "upperKey (ss_Name ss)"
  obtain es1 where 1: "is_errs (compositeNative i sg ?sp ?st1) = is_errs ?st1 @ es1" using compositeNative_errs by blast
  obtain es2 where 2: "is_errs (compositeRole ns repl i info sg ?sp (compositeNative i sg ?sp ?st1)) =
      is_errs (compositeNative i sg ?sp ?st1) @ es2" using compositeRole_errs by blast
  obtain es3 where 3: "is_errs (compositeRole ns repl i info sg ?sp ?st1) = is_errs ?st1 @ es3" using compositeRole_errs by blast
  show ?thesis using 1 2 3 by (auto simp: bothEntry_def Let_def)
qed

lemma entry_Nil_D:
  "is_errs (groupOnlyEntry ns m repl i info sg st) = [] \<Longrightarrow> is_errs st = [] \<and> groupRoleErrs repl i sg = []"
  "is_errs (spaceOnlyEntry ns m repl i info ss st) = [] \<Longrightarrow> is_errs st = []"
  "is_errs (bothEntry ns m repl i info sg ss st) = [] \<Longrightarrow> is_errs st = [] \<and> groupRoleErrs repl i sg = []"
  using groupOnlyEntry_errs [of ns m repl i info sg st] spaceOnlyEntry_errs [of ns m repl i info ss st]
    bothEntry_errs [of ns m repl i info sg ss st] by fastforce+

lemma checkEntry_Nil_D:
  assumes "is_errs (checkEntry ns m repl i info st) = []"
  shows "is_errs st = []" and "entrySourceErrs ns i info = []" and "entryModeErrs m i info = []"
    and "hasGroupDetails info \<or> hasSpaceDetails info"
    and "si_ShardGroupDetails info = Some sg \<Longrightarrow> hasGroupDetails info \<Longrightarrow> groupRoleErrs repl i sg = []"
proof -
  define st1 where "st1 = st\<lparr>is_errs := is_errs st @ entrySourceErrs ns i info @ entryModeErrs m i info\<rparr>"
  have none: "si_ShardGroupDetails info = None \<Longrightarrow> \<not> hasGroupDetails info"
    "si_ShardSpaceDetails info = None \<Longrightarrow> \<not> hasSpaceDetails info"
    by (simp_all add: hasGroupDetails_def hasSpaceDetails_def)
  have "is_errs st1 = [] \<and> (hasGroupDetails info \<or> hasSpaceDetails info) \<and>
      (\<forall>sg. si_ShardGroupDetails info = Some sg \<longrightarrow> hasGroupDetails info \<longrightarrow> groupRoleErrs repl i sg = [])"
    using assms none unfolding checkEntry_def st1_def [symmetric] Let_def
    by (auto dest: entry_Nil_D split: option.splits if_splits)
  then show "is_errs st = []" "entrySourceErrs ns i info = []" "entryModeErrs m i info = []"
    "hasGroupDetails info \<or> hasSpaceDetails info"
    "si_ShardGroupDetails info = Some sg \<Longrightarrow> hasGroupDetails info \<Longrightarrow> groupRoleErrs repl i sg = []"
    by (auto simp: st1_def)
qed

lemma range_fold_Nil_D:
  assumes "is_errs (range_fold_from k (checkEntry ns m repl) infos st) = []"
  shows "is_errs st = [] \<and> (\<forall>i < length infos. \<exists>s. is_errs (checkEntry ns m repl (k + i) (infos ! i) s) = [])"
  using assms
proof (induction infos arbitrary: k st)
  case (Cons info infos)
  have ih: "is_errs (checkEntry ns m repl k info st) = [] \<and>
      (\<forall>i < length infos. \<exists>s. is_errs (checkEntry ns m repl (Suc k + i) (infos ! i) s) = [])"
    using Cons.prems by (intro Cons.IH) simp
  then have "is_errs st = []" using checkEntry_Nil_D(1) by blast
  then show ?case using ih by (auto simp: less_Suc_eq_0_disj)
qed simp

lemma validateShardInfo_Nil_D:
  assumes "fst (validateShardInfo ns spec) = []"
  shows "validateDesiredShardReplicaCounts spec = []" and "is_errs (infoLoop ns spec) = []"
    and "finalErrs (normalizeShardingType spec) (normalizeReplicationType spec) (infoLoop ns spec) = []"
    and "info \<in> set (spec_ShardInfo spec) \<Longrightarrow>
      \<exists>i s. is_errs (checkEntry ns (normalizeShardingType spec) (normalizeReplicationType spec) i info s) = []"
proof -
  show 1: "validateDesiredShardReplicaCounts spec = []" and 2: "is_errs (infoLoop ns spec) = []"
    and "finalErrs (normalizeShardingType spec) (normalizeReplicationType spec) (infoLoop ns spec) = []"
    using assms by (auto simp: validateShardInfo_def Let_def split: if_splits)
  show "\<exists>i s. is_errs (checkEntry ns (normalizeShardingType spec) (normalizeReplicationType spec) i info s) = []"
    if "info \<in> set (spec_ShardInfo spec)"
    using that range_fold_Nil_D [of 0 ns _ _ "spec_ShardInfo spec" emptyInfoState] 2
    unfolding infoLoop_def range_fold_def by (fastforce simp: in_set_conv_nth)
qed

text \<open>
  C40: in an accepted object every \<^verbatim>\<open>shardInfo\<close> entry has the details its sharding mode asks for and no
  others, its role is one of the three Data Guard roles (or left to the default) and is given only
  under Data Guard replication, and a group's read/write mode only under native replication.
\<close>

theorem shardInfo_entries_fit_mode:
  assumes "fst (validateShardInfo ns spec) = []" and "info \<in> set (spec_ShardInfo spec)"
  shows "(hasGroupDetails info \<or> hasSpaceDetails info) \<and>
    (normalizeShardingType spec = modeSystem \<longrightarrow> hasGroupDetails info \<and> \<not> hasSpaceDetails info) \<and>
    (normalizeShardingType spec = modeUser \<longrightarrow> \<not> hasGroupDetails info \<and> hasSpaceDetails info) \<and>
    (normalizeShardingType spec = modeComposite \<longrightarrow> hasGroupDetails info \<and> hasSpaceDetails info) \<and>
    (\<forall>sg. si_ShardGroupDetails info = Some sg \<longrightarrow> hasGroupDetails info \<longrightarrow>
       (role0 (sg_DeployAs sg) = [] \<or> role0 (sg_DeployAs sg) \<in> {''PRIMARY'', ''STANDBY'', ''ACTIVE_STANDBY''} \<and>
          normalizeReplicationType spec = ''DG'') \<and>
       (normalizeShardGroupRuModeCanonical (sg_RuMode sg) = [] \<or>
          normalizeShardGroupRuModeCanonical (sg_RuMode sg) \<in> {''READWRITE'', ''READONLY''} \<and>
          normalizeReplicationType spec = ''NATIVE''))"
proof -
  let ?m = "normalizeShardingType spec" and ?r = "normalizeReplicationType spec"
  obtain i s where ok: "is_errs (checkEntry ns ?m ?r i info s) = []"
    using validateShardInfo_Nil_D(4) [OF assms] by blast
  note D = checkEntry_Nil_D(3-5) [OF ok]
  have mode: "(?m = modeSystem \<longrightarrow> hasGroupDetails info \<and> \<not> hasSpaceDetails info) \<and>
      (?m = modeUser \<longrightarrow> \<not> hasGroupDetails info \<and> hasSpaceDetails info) \<and>
      (?m = modeComposite \<longrightarrow> hasGroupDetails info \<and> hasSpaceDetails info)"
    using D(1) by (cases ?m) (auto simp: entryModeErrs_def Let_def split: if_splits)
  have role: "(role0 (sg_DeployAs sg) = [] \<or> role0 (sg_DeployAs sg) \<in> {''PRIMARY'', ''STANDBY'', ''ACTIVE_STANDBY''} \<and> ?r = ''DG'') \<and>
       (normalizeShardGroupRuModeCanonical (sg_RuMode sg) = [] \<or>
          normalizeShardGroupRuModeCanonical (sg_RuMode sg) \<in> {''READWRITE'', ''READONLY''} \<and> ?r = ''NATIVE'')"
    if "si_ShardGroupDetails info = Some sg" "hasGroupDetails info" for sg
  proof -
    have nil: "groupRoleErrs ?r i sg = []" using D(3) [OF that] .
    have v: "isValidDeployAs (role0 d) \<Longrightarrow> role0 d \<in> {''PRIMARY'', ''STANDBY'', ''ACTIVE_STANDBY''}" for d
      by (simp add: isValidDeployAs_def role0_def upperKey_def TrimSpace_ToUpper)
    have w: "isValidShardGroupRuMode (normalizeShardGroupRuModeCanonical u) \<Longrightarrow>
        normalizeShardGroupRuModeCanonical u \<in> {''READWRITE'', ''READONLY''}" for u
      by (auto simp: isValidShardGroupRuMode_def normalizeShardGroupRuModeCanonical_def Let_def split: if_splits)
    show ?thesis
      using nil v [of "sg_DeployAs sg"] w [of "sg_RuMode sg"] normalizeReplicationType_range [of spec]
      by (auto simp: groupRoleErrs_def Let_def repl_defs split: if_splits)
  qed
  show ?thesis using mode role D(2) by blast
qed


section \<open>Tallies\<close>

text \<open>The counters of the loop, as the fold of the contributions of the entries.\<close>

definition tally :: "(string \<times> int) list \<Rightarrow> (string, int) gomap \<Rightarrow> (string, int) gomap" where
  "tally xs m = fold (\<lambda>(k, n). addCount k n) xs m"

definition countFor :: "string \<Rightarrow> (string \<times> int) list \<Rightarrow> int" where
  "countFor k xs = sum_list (map snd (filter (\<lambda>x. fst x = k) xs))"

lemma tally_simps [simp]: "tally [] m = m" "tally ((k, n) # xs) m = tally xs (addCount k n m)"
  by (simp_all add: tally_def)

lemma tally_append [simp]: "tally (xs @ ys) m = tally ys (tally xs m)"
  by (simp add: tally_def)

lemma keys_tally: "fst ` set (tally xs m) = fst ` set m \<union> fst ` set xs"
proof (induction xs arbitrary: m)
  case (Cons x xs)
  have "fst ` set (addCount k n m) = insert k (fst ` set m)" for k n by (simp add: addCount_def)
  then show ?case using Cons by (cases x) simp
qed simp

lemma distinct_tally: "distinct (map fst m) \<Longrightarrow> distinct (map fst (tally xs m))"
  by (induction xs arbitrary: m) (auto simp: addCount_def)

lemma sum_list_pos_nonneg: "\<forall>x \<in> set xs. snd x \<ge> (1::int) \<Longrightarrow> 0 \<le> sum_list (map snd xs)"
  by (rule sum_list_nonneg) auto

lemma mget_tally:
  assumes "\<forall>x \<in> set xs. 1 \<le> snd x" and "0 \<le> mget m k 0" and "mget m k 0 + sum_list (map snd xs) < 2 ^ 31"
  shows "mget (tally xs m) k 0 = mget m k 0 + countFor k xs"
  using assms
proof (induction xs arbitrary: m)
  case Nil
  then show ?case by (simp add: countFor_def)
next
  case (Cons x xs)
  obtain j n where x: "x = (j, n)" by (cases x)
  have n: "1 \<le> n" and r: "\<forall>x \<in> set xs. 1 \<le> snd x" using Cons.prems x by auto
  have pos: "0 \<le> sum_list (map snd xs)" using sum_list_pos_nonneg [OF r] .
  have w: "wrap32 (mget m k 0 + n) = mget m k 0 + n"
    using Cons.prems x n pos by (intro wrap32_small) auto
  have g: "mget (addCount j n m) k 0 = (if k = j then mget m k 0 + n else mget m k 0)"
    using w by (auto simp: addCount_def mget_mput)
  have "mget (tally xs (addCount j n m)) k 0 = mget (addCount j n m) k 0 + countFor k xs"
    using Cons.prems x n r pos by (intro Cons.IH) (auto simp: g)
  then show ?case using g x by (auto simp: countFor_def)
qed

lemma sum_list_map_of:
  "distinct (map fst m) \<Longrightarrow> sum_list (map snd m) = (\<Sum>k \<in> fst ` set m. mget m k (0::int))"
proof (induction m)
  case (Cons x m)
  obtain j n where x: "x = (j, n)" by (cases x)
  have nj: "j \<notin> fst ` set m" and d: "distinct (map fst m)" using Cons.prems x by auto
  have "(\<Sum>k \<in> fst ` set m. mget (x # m) k 0) = (\<Sum>k \<in> fst ` set m. mget m k 0)"
    using nj x by (intro sum.cong) (auto simp: mget_def)
  then show ?case using Cons.IH [OF d] nj x by (simp add: mget_def)
qed simp

lemma sum_countFor: "(\<Sum>k \<in> fst ` set xs. countFor k xs) = sum_list (map snd xs)"
proof -
  have "finite A \<Longrightarrow> fst ` set xs \<subseteq> A \<Longrightarrow> (\<Sum>k \<in> A. countFor k xs) = sum_list (map snd xs)" for A
  proof (induction xs)
    case (Cons x xs)
    have "(\<Sum>k \<in> A. countFor k (x # xs)) = (\<Sum>k \<in> A. (if fst x = k then snd x else 0)) + (\<Sum>k \<in> A. countFor k xs)"
      unfolding sum.distrib [symmetric] by (intro sum.cong) (auto simp: countFor_def)
    then show ?case using Cons by simp
  qed (simp add: countFor_def)
  then show ?thesis by simp
qed

lemma tally_total:
  assumes "\<forall>x \<in> set xs. 1 \<le> snd x" and "sum_list (map snd xs) < 2 ^ 31"
  shows "sum_list (map snd (tally xs [])) = sum_list (map snd xs)"
proof -
  have "mget (tally xs []) k 0 = countFor k xs" for k using mget_tally [of xs "[]" k] assms by simp
  then show ?thesis
    using sum_list_map_of [OF distinct_tally [of "[]" xs]] sum_countFor [of xs] by (simp add: keys_tally)
qed

lemma countFor_pos: "\<forall>x \<in> set xs. 1 \<le> snd x \<Longrightarrow> k \<in> fst ` set xs \<Longrightarrow> 1 \<le> countFor k xs"
proof -
  assume p: "\<forall>x \<in> set xs. 1 \<le> snd x" and "k \<in> fst ` set xs"
  then obtain n where n: "(k, n) \<in> set xs" by auto
  have "snd (k, n) \<le> sum_list (map snd (filter (\<lambda>x. fst x = k) xs))"
    using p n by (intro sum_list_ge_member) auto
  then show ?thesis using p n by (auto simp: countFor_def)
qed

lemma sumCounts_eq:
  assumes "\<forall>x \<in> set m. 0 \<le> snd x" and "sum_list (map snd m) < 2 ^ 31"
  shows "sumCounts m = sum_list (map snd m)"
proof -
  have "fold (\<lambda>(k, v) acc. wrap32 (acc + v)) m a = a + sum_list (map snd m)"
    if "0 \<le> a" "\<forall>x \<in> set m. 0 \<le> snd x" "a + sum_list (map snd m) < 2 ^ 31" for a
    using that
  proof (induction m arbitrary: a)
    case (Cons x m)
    have p: "0 \<le> sum_list (map snd m)" using Cons.prems by (intro sum_list_nonneg) auto
    have "wrap32 (a + snd x) = a + snd x" using Cons.prems p by (intro wrap32_small) auto
    then show ?case using Cons.prems Cons.IH [of "a + snd x"] by (simp add: case_prod_beta)
  qed simp
  then show ?thesis using assms by (simp add: sumCounts_def)
qed


section \<open>System sharding\<close>

definition roleCounts :: "string set \<Rightarrow> string \<Rightarrow> ShardingDetails list \<Rightarrow> (string \<times> int) list" where
  "roleCounts roles replType infos = concat (map (\<lambda>info. case si_ShardGroupDetails info of None \<Rightarrow> []
     | Some sg \<Rightarrow> if roleOf replType (sg_DeployAs sg) \<in> roles
                  then [(upperKey (sg_Name sg), replicaCountOf modeSystem info)] else []) infos)"

definition externalCounts :: "string \<Rightarrow> string \<Rightarrow> ShardingDetails list \<Rightarrow> (string \<times> int) list" where
  "externalCounts ns replType infos = concat (map (\<lambda>info. case si_ShardGroupDetails info of None \<Rightarrow> []
     | Some sg \<Rightarrow> if roleOf replType (sg_DeployAs sg) \<in> {''STANDBY'', ''ACTIVE_STANDBY''} \<and>
                     externalPrimarySourceCount (si_ExternalPrimarySources info) ns > 0
                  then [(upperKey (sg_Name sg), externalPrimarySourceCount (si_ExternalPrimarySources info) ns)] else []) infos)"

abbreviation primaries :: "string \<Rightarrow> ShardingDetails list \<Rightarrow> (string \<times> int) list" where
  "primaries \<equiv> roleCounts {''PRIMARY''}"

abbreviation standbys :: "string \<Rightarrow> ShardingDetails list \<Rightarrow> (string \<times> int) list" where
  "standbys \<equiv> roleCounts {''STANDBY'', ''ACTIVE_STANDBY''}"

definition groupOnly :: "ShardingDetails \<Rightarrow> bool" where
  "groupOnly info \<longleftrightarrow> hasGroupDetails info \<and> \<not> hasSpaceDetails info"

lemma roleCounts_Cons: "roleCounts roles repl (info # infos) = roleCounts roles repl [info] @ roleCounts roles repl infos"
  by (simp add: roleCounts_def)

lemma externalCounts_Cons: "externalCounts ns repl (info # infos) = externalCounts ns repl [info] @ externalCounts ns repl infos"
  by (simp add: externalCounts_def)

lemma groupOnly_sg:
  assumes "groupOnly info"
  obtains sg where "si_ShardGroupDetails info = Some sg" and "upperKey (sg_Name sg) \<noteq> []"
  using assms by (auto simp: groupOnly_def hasGroupDetails_def upperKey_def split: option.splits)

lemma system_groupOnly:
  assumes "fst (validateShardInfo ns spec) = []" and "normalizeShardingType spec = modeSystem" and "info \<in> set (spec_ShardInfo spec)"
  shows "groupOnly info"
proof -
  obtain i s where "is_errs (checkEntry ns modeSystem (normalizeReplicationType spec) i info s) = []"
    using validateShardInfo_Nil_D(4) [OF assms(1,3)] assms(2) by metis
  then have "entryModeErrs modeSystem i info = []" by (rule checkEntry_Nil_D(3))
  then show ?thesis by (auto simp: entryModeErrs_def groupOnly_def Let_def split: if_splits)
qed

lemma checkEntry_groupOnly:
  assumes "groupOnly info" and "si_ShardGroupDetails info = Some sg"
  shows "checkEntry ns m repl i info st = groupOnlyEntry ns m repl i info sg
    (st\<lparr>is_errs := is_errs st @ entrySourceErrs ns i info @ entryModeErrs m i info\<rparr>)"
  using assms by (auto simp: checkEntry_def groupOnly_def Let_def split: option.splits)

lemma system_step:
  assumes "groupOnly info"
  shows "is_sysPrimary (checkEntry ns modeSystem repl i info st) = tally (primaries repl [info]) (is_sysPrimary st)"
    and "is_sysStandby (checkEntry ns modeSystem repl i info st) = tally (standbys repl [info]) (is_sysStandby st)"
    and "is_sysExternal (checkEntry ns modeSystem repl i info st) = tally (externalCounts ns repl [info]) (is_sysExternal st)"
    and "is_groupOnly (checkEntry ns modeSystem repl i info st) = Suc (is_groupOnly st)"
    and "is_spaceOnly (checkEntry ns modeSystem repl i info st) = is_spaceOnly st"
    and "is_both (checkEntry ns modeSystem repl i info st) = is_both st"
proof -
  obtain sg where sg: "si_ShardGroupDetails info = Some sg" "upperKey (sg_Name sg) \<noteq> []"
    using groupOnly_sg [OF assms] by blast
  note step = checkEntry_groupOnly [OF assms sg(1)]
  show "is_sysPrimary (checkEntry ns modeSystem repl i info st) = tally (primaries repl [info]) (is_sysPrimary st)"
    unfolding step by (simp add: groupOnlyEntry_def systemRole_def systemRegion_def Let_def roleCounts_def sg)
  show "is_sysStandby (checkEntry ns modeSystem repl i info st) = tally (standbys repl [info]) (is_sysStandby st)"
    unfolding step by (simp add: groupOnlyEntry_def systemRole_def systemRegion_def Let_def roleCounts_def sg)
  show "is_sysExternal (checkEntry ns modeSystem repl i info st) = tally (externalCounts ns repl [info]) (is_sysExternal st)"
    unfolding step by (simp add: groupOnlyEntry_def systemRole_def systemRegion_def Let_def externalCounts_def sg)
  show "is_groupOnly (checkEntry ns modeSystem repl i info st) = Suc (is_groupOnly st)"
    "is_spaceOnly (checkEntry ns modeSystem repl i info st) = is_spaceOnly st"
    "is_both (checkEntry ns modeSystem repl i info st) = is_both st"
    unfolding step by (simp_all add: groupOnlyEntry_def systemRole_def systemRegion_def Let_def)
qed

lemma system_loop:
  fixes ns repl k
  assumes "\<forall>info \<in> set infos. groupOnly info"
  defines "run \<equiv> range_fold_from k (checkEntry ns modeSystem repl) infos"
  shows "is_sysPrimary (run st) = tally (primaries repl infos) (is_sysPrimary st) \<and>
    is_sysStandby (run st) = tally (standbys repl infos) (is_sysStandby st) \<and>
    is_sysExternal (run st) = tally (externalCounts ns repl infos) (is_sysExternal st) \<and>
    is_groupOnly (run st) = is_groupOnly st + length infos \<and> is_spaceOnly (run st) = is_spaceOnly st \<and> is_both (run st) = is_both st"
  unfolding run_def using assms(1)
proof (induction infos arbitrary: k st)
  case Nil
  then show ?case by (simp add: roleCounts_def externalCounts_def)
next
  case (Cons info infos)
  then have g: "groupOnly info" and r: "\<forall>info \<in> set infos. groupOnly info" by simp_all
  show ?case
    using Cons.IH [OF r, of "Suc k" "checkEntry ns modeSystem repl k info st"]
    unfolding roleCounts_Cons [of _ _ info infos] externalCounts_Cons [of ns repl info infos]
    by (simp add: system_step [OF g])
qed

lemma replicaCountOf_pos: "1 \<le> replicaCountOf m info"
  by (auto simp: replicaCountOf_def Let_def)

lemma replicaCountOf_le:
  "wf_info info \<Longrightarrow> replicaCountOf modeSystem info \<le> effCount modeSystem info"
  by (auto simp: replicaCountOf_def entryReplicas_def getShardInfoCountByMode_def effectiveReplicaCount_def
      desiredShardInfoReplicaCount_def Let_def)

lemma roleCounts_pos: "\<forall>x \<in> set (roleCounts roles repl infos). 1 \<le> snd x"
  by (auto simp: roleCounts_def replicaCountOf_pos split: option.splits if_splits)

lemma roleCounts_le:
  "\<forall>info \<in> set infos. wf_info info \<Longrightarrow>
     sum_list (map snd (roleCounts roles repl infos)) \<le> sum_list (map (effCount modeSystem) infos)"
proof (induction infos)
  case (Cons info infos)
  have "sum_list (map snd (roleCounts roles repl [info])) \<le> effCount modeSystem info"
    using Cons.prems replicaCountOf_le [of info] effCount_bounds(1) [of info modeSystem]
    by (auto simp: roleCounts_def split: option.splits)
  then show ?case using Cons by (simp add: roleCounts_Cons [of _ _ info infos])
qed (simp add: roleCounts_def)

text \<open>In an accepted object an entry's external sources are as many as its replicas.\<close>

lemma externalCounts_accepted:
  assumes "\<forall>info \<in> set infos. groupOnly info \<and> (\<exists>i s. is_errs (checkEntry ns modeSystem repl i info s) = [])"
  shows "set (externalCounts ns repl infos) \<subseteq> set (standbys repl infos) \<and>
    sum_list (map snd (externalCounts ns repl infos)) \<le> sum_list (map snd (standbys repl infos)) \<and>
    (\<forall>x \<in> set (externalCounts ns repl infos). 1 \<le> snd x)"
  using assms
proof (induction infos)
  case (Cons info infos)
  obtain i s where ok: "is_errs (checkEntry ns modeSystem repl i info s) = []" and g: "groupOnly info" using Cons.prems by auto
  obtain sg where sg: "si_ShardGroupDetails info = Some sg" "upperKey (sg_Name sg) \<noteq> []" using groupOnly_sg [OF g] by blast
  have "externalPrimarySourceCount (si_ExternalPrimarySources info) ns = replicaCountOf modeSystem info"
    if "roleOf repl (sg_DeployAs sg) \<in> {''STANDBY'', ''ACTIVE_STANDBY''}"
      "externalPrimarySourceCount (si_ExternalPrimarySources info) ns > 0"
    using ok that sg(2) unfolding checkEntry_groupOnly [OF g sg(1)]
    by (auto simp: groupOnlyEntry_def systemRole_def systemRegion_def externalErrs_def Let_def split: if_splits)
  then have one: "externalCounts ns repl [info] = [] \<or> externalCounts ns repl [info] = standbys repl [info]"
    by (auto simp: externalCounts_def roleCounts_def sg)
  have p: "0 \<le> sum_list (map snd (standbys repl [info]))" by (rule sum_list_pos_nonneg [OF roleCounts_pos])
  have q: "\<forall>x \<in> set (standbys repl [info]). 1 \<le> snd x" by (rule roleCounts_pos)
  show ?case
    using Cons one p q unfolding externalCounts_Cons [of ns repl info infos] roleCounts_Cons [of _ repl info infos] by auto
qed (simp add: externalCounts_def roleCounts_def)


lemma tally_values:
  assumes "\<forall>x \<in> set xs. 1 \<le> snd x" and "sum_list (map snd xs) < 2 ^ 31" and "(k, v) \<in> set (tally xs [])"
  shows "v = countFor k xs \<and> 1 \<le> v"
proof -
  have "mget (tally xs []) k 0 = v"
    using assms(3) distinct_tally [of "[]" xs] by (simp add: mget_def)
  moreover have "mget (tally xs []) k 0 = countFor k xs" using mget_tally [of xs "[]" k] assms by simp
  moreover have "k \<in> fst ` set xs" using assms(3) keys_tally [of xs "[]"] by (force simp: image_iff)
  ultimately show ?thesis using countFor_pos [OF assms(1)] by auto
qed

lemma sumCounts_tally:
  assumes "\<forall>x \<in> set xs. 1 \<le> snd x" and "sum_list (map snd xs) < 2 ^ 31"
  shows "sumCounts (tally xs []) = sum_list (map snd xs)"
proof -
  have "0 \<le> v" if "(k, v) \<in> set (tally xs [])" for k v using tally_values [OF assms that] by simp
  then show ?thesis using assms by (subst sumCounts_eq) (auto simp: tally_total)
qed

lemma systemPrimaryErrs_Nil_D:
  assumes "systemPrimaryErrs g c (tally ss []) = []" and "\<forall>x \<in> set ss. 1 \<le> snd x" and "sum_list (map snd ss) < 2 ^ 31"
  shows "g \<notin> fst ` set ss" and "ss = [] \<or> sum_list (map snd ss) = c"
proof -
  let ?m = "tally ss []"
  have z: "mget ?m g 0 = countFor g ss" using mget_tally [of ss "[]" g] assms by simp
  have "countFor g ss \<le> 0" using assms(1) z by (auto simp: systemPrimaryErrs_def Let_def split: if_splits)
  then show ng: "g \<notin> fst ` set ss" using countFor_pos [OF assms(2)] by force
  have "g \<notin> fst ` set ?m" using ng keys_tally [of ss "[]"] by simp
  then have f: "filter (\<lambda>(h, c). h \<noteq> g) ?m = ?m" by (force simp: filter_id_conv)
  have "sumCounts ?m \<le> 0 \<or> sumCounts ?m = c"
    using assms(1) by (auto simp: systemPrimaryErrs_def Let_def f split: if_splits)
  moreover have "ss = [] \<or> 0 < sum_list (map snd ss)"
    using assms(2) sum_list_pos_nonneg [of "tl ss"] by (cases ss) auto
  ultimately show "ss = [] \<or> sum_list (map snd ss) = c" by (auto simp: sumCounts_tally [OF assms(2,3)])
qed

text \<open>
  C3: an accepted system-sharded object under Data Guard replication has a sound topology. Either
  exactly one shard group holds primaries, it holds no standby, and the standby databases of the
  other groups together are as many as the primaries (or there is none); or there is no primary at
  all and every standby database has an external primary source.
\<close>

theorem system_dataguard_topology:
  assumes "fst (validateShardInfo ns spec) = []" and "normalizeShardingType spec = modeSystem"
    and "normalizeReplicationType spec = ''DG''" and "spec_ShardInfo spec \<noteq> []"
    and "\<forall>info \<in> set (spec_ShardInfo spec). wf_info info"
  defines "P \<equiv> primaries ''DG'' (spec_ShardInfo spec)" and "S \<equiv> standbys ''DG'' (spec_ShardInfo spec)"
    and "X \<equiv> externalCounts ns ''DG'' (spec_ShardInfo spec)"
  shows "(\<exists>g. fst ` set P = {g} \<and> g \<notin> fst ` set S \<and> (S = [] \<or> sum_list (map snd S) = sum_list (map snd P))) \<or>
    (P = [] \<and> S \<noteq> [] \<and> sum_list (map snd X) = sum_list (map snd S))"
proof -
  let ?infos = "spec_ShardInfo spec" and ?st = "infoLoop ns spec"
  have entry: "\<exists>i s. is_errs (checkEntry ns modeSystem ''DG'' i info s) = []" if "info \<in> set ?infos" for info
    using validateShardInfo_Nil_D(4) [OF assms(1) that] by (simp add: assms(2,3))
  have grp: "\<forall>info \<in> set ?infos. groupOnly info" using system_groupOnly [OF assms(1,2)] by blast
  have loop: "is_sysPrimary ?st = tally P []" "is_sysStandby ?st = tally S []" "is_sysExternal ?st = tally X []"
    "is_groupOnly ?st = length ?infos" "is_spaceOnly ?st = 0" "is_both ?st = 0"
    using system_loop [OF grp, of 0 ns "''DG''" emptyInfoState]
    by (simp_all add: infoLoop_def range_fold_def assms(2,3) P_def S_def X_def emptyInfoState_def)
  have fin: "systemFinalErrs modeSystem ?st = []"
    using validateShardInfo_Nil_D(3) [OF assms(1)] assms(2-4) loop by (simp add: finalErrs_def repl_defs)
  have le: "sum_list (map (effCount modeSystem) ?infos) \<le> 1024"
    using validateCounts_Nil_iff(1) [OF assms(5)] validateShardInfo_Nil_D(1) [OF assms(1)] by (simp add: assms(2))
  have pos: "\<forall>x \<in> set P. 1 \<le> snd x" "\<forall>x \<in> set S. 1 \<le> snd x" by (simp_all add: P_def S_def roleCounts_pos)
  have bP: "sum_list (map snd P) < 2 ^ 31"
    using roleCounts_le [OF assms(5), of "{''PRIMARY''}" "''DG''"] le unfolding P_def by simp
  have bS: "sum_list (map snd S) < 2 ^ 31"
    using roleCounts_le [OF assms(5), of "{''STANDBY'', ''ACTIVE_STANDBY''}" "''DG''"] le unfolding S_def by simp
  have X: "sum_list (map snd X) \<le> sum_list (map snd S)" "\<forall>x \<in> set X. 1 \<le> snd x"
    using externalCounts_accepted [of ?infos ns "''DG''"] grp entry by (simp_all add: X_def S_def)
  then have bX: "sum_list (map snd X) < 2 ^ 31" using bS by linarith
  have keys: "fst ` set (tally P []) = fst ` set P" using keys_tally [of P "[]"] by simp
  show ?thesis
  proof (cases "tally P []")
    case Nil
    then have "P = []" using keys by simp
    moreover have "sumCounts (tally S []) \<noteq> 0" "sumCounts (tally X []) = sumCounts (tally S [])"
      using fin Nil by (auto simp: systemFinalErrs_def loop Let_def split: if_splits)
    ultimately show ?thesis
      using sumCounts_tally [OF pos(2) bS] sumCounts_tally [OF X(2) bX] by auto
  next
    case (Cons x rest)
    then have one: "tally P [] = [x]" using fin by (auto simp: systemFinalErrs_def loop split: if_splits)
    then have f: "fst ` set P = {fst x}" using keys by simp
    have c: "snd x = sum_list (map snd P)" using tally_total [OF pos(1) bP] one by simp
    have "systemPrimaryErrs (fst x) (snd x) (tally S []) = []" using fin one by (simp add: systemFinalErrs_def loop)
    then show ?thesis using systemPrimaryErrs_Nil_D [OF _ pos(2) bS] f c by metis
  qed
qed


section \<open>Groups and regions\<close>

text \<open>A registry of pairs that refuses a second value for a key.\<close>

locale pair_registry =
  fixes conflict :: "'k \<Rightarrow> 'v \<Rightarrow> 'm \<Rightarrow> bool"
    and put :: "'k \<Rightarrow> 'v \<Rightarrow> 'm \<Rightarrow> 'm"
    and look :: "'m \<Rightarrow> 'k \<Rightarrow> 'v option"
  assumes conflict_iff: "conflict k v m \<longleftrightarrow> (\<exists>w. look m k = Some w \<and> w \<noteq> v)"
    and look_put: "\<not> conflict k v m \<Longrightarrow> look (put k v m) k' = (if k' = k then Some v else look m k')"
begin

fun runs_clean :: "('k \<times> 'v) list \<Rightarrow> 'm \<Rightarrow> bool" where
  "runs_clean [] m = True"
| "runs_clean ((k, v) # ps) m = (\<not> conflict k v m \<and> runs_clean ps (put k v m))"

lemma runs_clean_append: "runs_clean (ps @ qs) m \<longleftrightarrow> runs_clean ps m \<and> runs_clean qs (fold (\<lambda>(k, v). put k v) ps m)"
proof (induction ps arbitrary: m)
  case (Cons p ps)
  obtain k v where p: "p = (k, v)" by (cases p)
  show ?case unfolding p append_Cons runs_clean.simps fold_Cons comp_apply prod.case Cons.IH conj_assoc ..
qed (simp only: append_Nil runs_clean.simps fold_Nil id_apply simp_thms)

lemma runs_clean_known: "runs_clean ps m \<Longrightarrow> look m k = Some v \<Longrightarrow> (k, w) \<in> set ps \<Longrightarrow> w = v"
proof (induction ps arbitrary: m)
  case (Cons p ps)
  obtain k' v' where p: "p = (k', v')" by (cases p)
  have nc: "\<not> conflict k' v' m" and rc: "runs_clean ps (put k' v' m)" using Cons.prems p by simp_all
  show ?case
  proof (cases "k' = k")
    case True
    then have "v' = v" using nc Cons.prems(2) conflict_iff by blast
    moreover have "look (put k' v' m) k = Some v'" using look_put [OF nc, of k] True by simp
    ultimately show ?thesis using Cons.IH [OF rc] Cons.prems(3) p True by auto
  next
    case False
    then show ?thesis using Cons.IH [OF rc] Cons.prems(2,3) p look_put [OF nc, of k] by auto
  qed
qed simp

lemma runs_clean_functional: "runs_clean ps m \<Longrightarrow> (k, v) \<in> set ps \<Longrightarrow> (k, w) \<in> set ps \<Longrightarrow> v = w"
proof (induction ps arbitrary: m)
  case (Cons p ps)
  obtain k' v' where p: "p = (k', v')" by (cases p)
  have nc: "\<not> conflict k' v' m" and rc: "runs_clean ps (put k' v' m)" using Cons.prems p by simp_all
  show ?case
  proof (cases "k' = k")
    case True
    have "look (put k' v' m) k = Some v'" using look_put [OF nc, of k] True by simp
    then have "u = v'" if "(k, u) \<in> set ps" for u using runs_clean_known [OF rc _ that] by blast
    then show ?thesis using Cons.prems(2,3) p True by auto
  next
    case False
    then show ?thesis using Cons.IH [OF rc] Cons.prems(2,3) p by auto
  qed
qed simp

end

interpretation region_registry: pair_registry bindConflict bindPut map_of
  by unfold_locales (auto simp: bindConflict_def bindPut_def split: option.splits)

definition regionPairs :: "ShardingDetails list \<Rightarrow> (string \<times> string) list" where
  "regionPairs infos = concat (map (\<lambda>info. case si_ShardGroupDetails info of None \<Rightarrow> []
     | Some sg \<Rightarrow> if blank (sg_Region sg) then [] else [(upperKey (sg_Name sg), upperKey (sg_Region sg))]) infos)"

lemma upperKey_Nil_iff [simp]: "upperKey s = [] \<longleftrightarrow> blank s"
  by (simp add: upperKey_def)

lemma region_loop:
  assumes "\<forall>info \<in> set infos. groupOnly info"
    and "is_errs (range_fold_from k (checkEntry ns modeSystem repl) infos st) = []"
  shows "region_registry.runs_clean (regionPairs infos) (is_sysRegionByGroup st) \<and>
    region_registry.runs_clean (map prod.swap (regionPairs infos)) (is_sysGroupByRegion st)"
  using assms
proof (induction infos arbitrary: k st)
  case Nil
  then show ?case by (simp add: regionPairs_def)
next
  case (Cons info infos)
  have g: "groupOnly info" and r: "\<forall>info \<in> set infos. groupOnly info" using Cons.prems by simp_all
  obtain sg where sg: "si_ShardGroupDetails info = Some sg" "upperKey (sg_Name sg) \<noteq> []" using groupOnly_sg [OF g] by blast
  let ?st' = "checkEntry ns modeSystem repl k info st"
  let ?g = "upperKey (sg_Name sg)" and ?r = "upperKey (sg_Region sg)"
  have ih: "region_registry.runs_clean (regionPairs infos) (is_sysRegionByGroup ?st') \<and>
      region_registry.runs_clean (map prod.swap (regionPairs infos)) (is_sysGroupByRegion ?st')"
    using Cons.prems by (intro Cons.IH [OF r, of "Suc k"]) simp
  have "is_errs ?st' = []" using range_fold_Nil_D [of "Suc k" ns modeSystem repl infos ?st'] Cons.prems(2) by simp
  then have nc: "\<not> blank (sg_Region sg) \<Longrightarrow>
      \<not> bindConflict ?g ?r (is_sysRegionByGroup st) \<and> \<not> bindConflict ?r ?g (is_sysGroupByRegion st)"
    using sg(2) unfolding checkEntry_groupOnly [OF g sg(1)]
    by (auto simp: groupOnlyEntry_def systemRole_def systemRegion_def bindErrs_def Let_def split: if_splits)
  have upd: "is_sysRegionByGroup ?st' = (if blank (sg_Region sg) then is_sysRegionByGroup st
        else bindPut ?g ?r (is_sysRegionByGroup st))"
    "is_sysGroupByRegion ?st' = (if blank (sg_Region sg) then is_sysGroupByRegion st
        else bindPut ?r ?g (is_sysGroupByRegion st))"
    using sg(2) unfolding checkEntry_groupOnly [OF g sg(1)]
    by (simp_all add: groupOnlyEntry_def systemRole_def systemRegion_def Let_def)
  have pairs: "regionPairs (info # infos) = (if blank (sg_Region sg) then [] else [(?g, ?r)]) @ regionPairs infos"
    by (simp add: regionPairs_def sg)
  show ?case
  proof (cases "blank (sg_Region sg)")
    case True
    then show ?thesis using ih upd pairs by simp
  next
    case False
    then show ?thesis using ih upd pairs nc by simp
  qed
qed

text \<open>
  in an accepted system-sharded object shard groups and regions are one to one: two entries that
  name a region are in the same group exactly when they are in the same region (up to case and
  surrounding space).
\<close>

theorem system_group_region_bijective:
  assumes "fst (validateShardInfo ns spec) = []" and "normalizeShardingType spec = modeSystem"
    and "a \<in> set (spec_ShardInfo spec)" and "si_ShardGroupDetails a = Some ga" and "\<not> blank (sg_Region ga)"
    and "b \<in> set (spec_ShardInfo spec)" and "si_ShardGroupDetails b = Some gb" and "\<not> blank (sg_Region gb)"
  shows "upperKey (sg_Name ga) = upperKey (sg_Name gb) \<longleftrightarrow> upperKey (sg_Region ga) = upperKey (sg_Region gb)"
proof -
  let ?infos = "spec_ShardInfo spec" and ?r = "normalizeReplicationType spec"
  have grp: "\<forall>info \<in> set ?infos. groupOnly info" using system_groupOnly [OF assms(1,2)] by blast
  have "is_errs (range_fold_from 0 (checkEntry ns modeSystem ?r) ?infos emptyInfoState) = []"
    using validateShardInfo_Nil_D(2) [OF assms(1)] by (simp add: infoLoop_def range_fold_def assms(2))
  then have clean: "region_registry.runs_clean (regionPairs ?infos) []"
    "region_registry.runs_clean (map prod.swap (regionPairs ?infos)) []"
    using region_loop [OF grp] by (fastforce simp: emptyInfoState_def)+
  have mem: "(upperKey (sg_Name ga), upperKey (sg_Region ga)) \<in> set (regionPairs ?infos)"
    "(upperKey (sg_Name gb), upperKey (sg_Region gb)) \<in> set (regionPairs ?infos)"
    using assms(3-8) by (force simp: regionPairs_def)+
  have swap: "(v, k) \<in> set (map prod.swap (regionPairs ?infos))" if "(k, v) \<in> set (regionPairs ?infos)" for k v
    using that by force
  show ?thesis
    using mem region_registry.runs_clean_functional [OF clean(1)]
      region_registry.runs_clean_functional [OF clean(2) swap [OF mem(1)]] swap [OF mem(2)] by metis
qed



section \<open>An accepted object\<close>

definition regionEntry :: "string \<Rightarrow> string \<Rightarrow> string \<Rightarrow> string \<Rightarrow> int \<Rightarrow> ShardingDetails" where
  "regionEntry pre grp region deploy n = zeroShardingDetails\<lparr>si_ShardPreFixName := pre, si_ShardNum := n,
     si_ShardGroupDetails := Some (zeroShardGroupSpec\<lparr>sg_Name := grp, sg_Region := region, sg_DeployAs := deploy\<rparr>)\<rparr>"

definition systemExample :: ShardingDatabaseSpec where
  "systemExample = zeroShardingDatabaseSpec\<lparr>spec_ShardingType := ''SYSTEM'', spec_ReplicationType := ''DG'',
     spec_ShardInfo := [regionEntry ''p'' ''GP'' ''R1'' ''PRIMARY'' 2, regionEntry ''s'' ''GS'' ''R2'' ''STANDBY'' 2]\<rparr>"

lemma systemExample_infos:
  "spec_ShardInfo systemExample = [regionEntry ''p'' ''GP'' ''R1'' ''PRIMARY'' 2, regionEntry ''s'' ''GS'' ''R2'' ''STANDBY'' 2]"
  by (simp add: systemExample_def zeroShardingDatabaseSpec_def)

lemma systemExample_modes: "normalizeShardingType systemExample = modeSystem" "normalizeReplicationType systemExample = ''DG''"
  by (simp_all add: systemExample_def zeroShardingDatabaseSpec_def normalizeShardingType_def normalizeReplicationType_def
      normalizeReplicationValue_def repl_defs Let_def go_eval)

lemma regionEntry_fields:
  "si_ShardGroupDetails (regionEntry pre grp region deploy n) =
     Some (zeroShardGroupSpec\<lparr>sg_Name := grp, sg_Region := region, sg_DeployAs := deploy\<rparr>)"
  "si_ShardSpaceDetails (regionEntry pre grp region deploy n) = None"
  "si_StandbyConfig (regionEntry pre grp region deploy n) = None"
  "si_ExternalPrimarySources (regionEntry pre grp region deploy n) = []"
  "si_ShardNum (regionEntry pre grp region deploy n) = n" "si_Replicas (regionEntry pre grp region deploy n) = 0"
  by (simp_all add: regionEntry_def zero_defs)

lemma regionEntry_simps:
  "n > 0 \<Longrightarrow> effCount m (regionEntry pre grp region deploy n) = n"
  "n > 0 \<Longrightarrow> replicaCountOf m (regionEntry pre grp region deploy n) = n"
  "entrySourceErrs ns i (regionEntry pre grp region deploy n) = []"
  "0 < n \<Longrightarrow> n < 100 \<Longrightarrow> wf_info (regionEntry pre grp region deploy n)"
  "hasGroupDetails (regionEntry pre grp region deploy n) \<longleftrightarrow> \<not> blank grp" "\<not> hasSpaceDetails (regionEntry pre grp region deploy n)"
  by (simp_all add: effectiveReplicaCount_def desiredShardInfoReplicaCount_def standbyConfigDerivedShardCount64_def
      standbyConfigDerivedShardCount_def replicaCountOf_def entryReplicas_def getShardInfoCountByMode_def
      entrySourceErrs_def validateStandbyConfigPrimarySourceExclusive_def validateExternalPrimarySourceExclusive_def
      validatePrimarySourceList_def standbyConfigPrimaryCount_def standbyConfigPrimarySourceCount_def
      wf_info_def in_int32_def hasGroupDetails_def hasSpaceDetails_def regionEntry_fields range_seen_def zero_defs)

lemma systemExample_loop:
  "is_errs (infoLoop [] systemExample) = []" "is_sysPrimary (infoLoop [] systemExample) = [(''GP'', 2)]"
  "is_sysStandby (infoLoop [] systemExample) = [(''GS'', 2)]" "is_both (infoLoop [] systemExample) = 0"
  "is_spaceOnly (infoLoop [] systemExample) = 0"
  by (simp_all add: infoLoop_def systemExample_infos systemExample_modes checkEntry_def groupOnlyEntry_def systemRole_def
      systemRegion_def entryModeErrs_def groupRoleErrs_def roleOf_def role0_def upperKey_def normalizeDeployAsCanonical_def
      normalizeShardGroupRuModeCanonical_def isValidDeployAs_def bindErrs_def bindConflict_def bindPut_def emptyInfoState_def
      externalPrimarySourceCount_def standbySourceErrs_def externalErrs_def addCount_def wrap32_def repl_defs
      regionEntry_fields regionEntry_simps zeroShardGroupSpec_def Let_def go_eval)

lemma systemExample_wf: "\<forall>info \<in> set (spec_ShardInfo systemExample). wf_info info"
  by (simp add: systemExample_infos regionEntry_simps)

lemma systemExample_accepted: "fst (validateShardInfo [] systemExample) = []"
proof -
  have "validateDesiredShardReplicaCounts systemExample = []"
    unfolding validateCounts_Nil_iff(1) [OF systemExample_wf] systemExample_infos by (simp add: regionEntry_simps)
  moreover have "finalErrs modeSystem ''DG'' (infoLoop [] systemExample) = []"
    by (simp add: finalErrs_def systemFinalErrs_def systemPrimaryErrs_def systemExample_loop range_map_def sumCounts_def
        mget_def wrap32_def repl_defs Let_def)
  ultimately show ?thesis
    by (simp add: validateShardInfo_def systemExample_loop systemExample_modes Let_def)
qed

theorem shardInfo_entries_fit_mode_witness:
  "hasGroupDetails (regionEntry ''p'' ''GP'' ''R1'' ''PRIMARY'' 2) \<and> \<not> hasSpaceDetails (regionEntry ''p'' ''GP'' ''R1'' ''PRIMARY'' 2)"
  using shardInfo_entries_fit_mode [OF systemExample_accepted, of "regionEntry ''p'' ''GP'' ''R1'' ''PRIMARY'' 2"]
  by (simp add: systemExample_infos systemExample_modes)

theorem system_dataguard_topology_witness:
  "(\<exists>g. fst ` set (primaries ''DG'' (spec_ShardInfo systemExample)) = {g} \<and>
       g \<notin> fst ` set (standbys ''DG'' (spec_ShardInfo systemExample)) \<and>
       (standbys ''DG'' (spec_ShardInfo systemExample) = [] \<or>
        sum_list (map snd (standbys ''DG'' (spec_ShardInfo systemExample))) =
          sum_list (map snd (primaries ''DG'' (spec_ShardInfo systemExample))))) \<or>
   (primaries ''DG'' (spec_ShardInfo systemExample) = [] \<and> standbys ''DG'' (spec_ShardInfo systemExample) \<noteq> [] \<and>
    sum_list (map snd (externalCounts [] ''DG'' (spec_ShardInfo systemExample))) =
      sum_list (map snd (standbys ''DG'' (spec_ShardInfo systemExample))))"
  by (rule system_dataguard_topology [OF systemExample_accepted systemExample_modes _ systemExample_wf])
    (simp add: systemExample_infos)

theorem system_group_region_bijective_witness:
  "upperKey ''GP'' = upperKey ''GS'' \<longleftrightarrow> upperKey ''R1'' = upperKey ''R2''"
  using system_group_region_bijective [OF systemExample_accepted systemExample_modes(1),
      of "regionEntry ''p'' ''GP'' ''R1'' ''PRIMARY'' 2" _ "regionEntry ''s'' ''GS'' ''R2'' ''STANDBY'' 2",
      OF _ regionEntry_fields(1) _ _ regionEntry_fields(1)]
  by (simp add: systemExample_infos zeroShardGroupSpec_def go_eval)

end
