(* ===== verification/Sharding_Operations.thy ===== *)
theory Sharding_Operations
  imports Sharding_ShardInfo
begin

text \<open>
  \<^verbatim>\<open>validateShardOperationRules\<close> of \<^verbatim>\<open>apis/database/v4/shardingdatabase_webhook.go\<close>: the rules of adding
  shards, over the materialised shard list. A first loop registers the shard groups of the
  \<^verbatim>\<open>shardInfo\<close> entries, a second one checks every shard against its mode and rewrites its role.
\<close>

record opsState =
  ops_errs :: error_list
  ops_userPrimary :: "(string, int) gomap"
  ops_userSeen :: "(string, bool) gomap"
  ops_userExternal :: "(string, bool) gomap"
  ops_userRegions :: "(string, (string, bool) gomap) gomap"
  ops_groupSpace :: "(string, string) gomap"
  ops_natRegion :: "(string, (string, string) gomap) gomap"
  ops_natByRegion :: "(string, (string, string) gomap) gomap"
  ops_natGroups :: "(string, (string, bool) gomap) gomap"

definition emptyOpsState :: opsState where
  "emptyOpsState = \<lparr>ops_errs = [], ops_userPrimary = [], ops_userSeen = [], ops_userExternal = [], ops_userRegions = [],
     ops_groupSpace = [], ops_natRegion = [], ops_natByRegion = [], ops_natGroups = []\<rparr>"

definition markedDelete :: "string \<Rightarrow> bool" where
  "markedDelete isDelete \<longleftrightarrow> EqualFold (TrimSpace isDelete) deleteStateEnable"

fun firstRuMode :: "string list \<Rightarrow> string" where
  "firstRuMode [] = []"
| "firstRuMode (r # rs) = (let ru = normalizeShardGroupRuModeCanonical r in if ru \<noteq> [] then ru else firstRuMode rs)"

definition infoRuModes :: "string \<Rightarrow> string \<Rightarrow> ShardingDetails list \<Rightarrow> string list" where
  "infoRuModes groupKey spaceKey infos = concat (map (\<lambda>info.
     case (si_ShardGroupDetails info, si_ShardSpaceDetails info) of
       (Some g, Some s) \<Rightarrow>
         if markedDelete (sg_IsDelete g) \<or> upperKey (sg_Name g) \<noteq> groupKey \<or> upperKey (ss_Name s) \<noteq> spaceKey
         then [] else [sg_RuMode g]
     | _ \<Rightarrow> []) infos)"

definition groupRuModes :: "string \<Rightarrow> string \<Rightarrow> ShardGroupSpec list \<Rightarrow> string list" where
  "groupRuModes groupKey spaceKey groups = concat (map (\<lambda>sg.
     if upperKey (sg_Name sg) \<noteq> groupKey \<or> (upperKey (sg_ShardSpace sg) \<noteq> [] \<and> upperKey (sg_ShardSpace sg) \<noteq> spaceKey)
     then [] else [sg_RuMode sg]) groups)"

definition resolveCompositeNativeShardGroupRuMode :: "ShardingDatabaseSpec \<Rightarrow> string \<Rightarrow> string \<Rightarrow> string" where
  "resolveCompositeNativeShardGroupRuMode spec groupKey spaceKey =
     firstRuMode (infoRuModes groupKey spaceKey (spec_ShardInfo spec) @ groupRuModes groupKey spaceKey (spec_ShardGroup spec))"

text \<open>The registration of a group's space, shared by both loops.\<close>

definition bindGroupSpace :: "field_error \<Rightarrow> string \<Rightarrow> string \<Rightarrow> opsState \<Rightarrow> opsState" where
  "bindGroupSpace e groupKey spaceKey st =
     st\<lparr>ops_errs := ops_errs st @ (if bindConflict groupKey spaceKey (ops_groupSpace st) then [e] else []),
        ops_groupSpace := bindPut groupKey spaceKey (ops_groupSpace st)\<rparr>"

definition noteNativeGroup :: "string \<Rightarrow> string \<Rightarrow> opsState \<Rightarrow> opsState" where
  "noteNativeGroup groupKey spaceKey st =
     st\<lparr>ops_natGroups := inner spaceKey (mput groupKey True) (ensure spaceKey (ops_natGroups st))\<rparr>"

definition opsInfoEntry :: "shardingMode \<Rightarrow> string \<Rightarrow> nat \<Rightarrow> ShardingDetails \<Rightarrow> opsState \<Rightarrow> opsState" where
  "opsInfoEntry modeHint replType i info st =
     (case si_ShardSpaceDetails info of None \<Rightarrow> st
      | Some ss \<Rightarrow>
          let spaceKey = upperKey (ss_Name ss) in
          if spaceKey = [] then st
          else let st1 = (if standbyConfigPrimaryCount (si_StandbyConfig info) > 0
                          then st\<lparr>ops_userExternal := mput spaceKey True (ops_userExternal st)\<rparr> else st)
               in (case si_ShardGroupDetails info of None \<Rightarrow> st1
                   | Some g \<Rightarrow>
                       if modeHint \<noteq> modeComposite then st1
                       else if markedDelete (sg_IsDelete g) then st1
                       else let groupKey = upperKey (sg_Name g) in
                         if groupKey = [] then st1
                         else let st2 = bindGroupSpace (Invalid (infoPath i @ [Child ''shardGroupDetails'', Child ''name''])
                                          (BVString (sg_Name g))) groupKey spaceKey st1
                              in if replType = replNative then noteNativeGroup groupKey spaceKey st2 else st2))"

definition shardPath :: "nat \<Rightarrow> string \<Rightarrow> path" where
  "shardPath i f = [Child ''spec'', Child ''shard'', Index i, Child f]"

definition shardMode :: "shardingMode \<Rightarrow> ShardSpec \<Rightarrow> shardingMode" where
  "shardMode modeHint sh = inferShardMode modeHint (\<not> blank (sh_ShardGroup sh)) (\<not> blank (sh_ShardSpace sh))"

definition canonShard :: "shardingMode \<Rightarrow> string \<Rightarrow> ShardSpec \<Rightarrow> ShardSpec" where
  "canonShard modeHint replType sh =
     sh\<lparr>sh_DeployAs := (if shardMode modeHint sh = modeUser \<and> replType = replDG \<and> \<not> blank (sh_ShardSpace sh) \<and>
                           role0 (sh_DeployAs sh) = []
                        then ''STANDBY'' else normalizeDeployAsCanonical (sh_DeployAs sh))\<rparr>"

definition shardRoleErrs :: "string \<Rightarrow> nat \<Rightarrow> ShardSpec \<Rightarrow> error_list" where
  "shardRoleErrs replType i sh =
     (let deployAs = role0 (sh_DeployAs sh) in
      (if deployAs \<noteq> [] \<and> \<not> isValidDeployAs deployAs
       then [Invalid (shardPath i ''deployAs'') (BVString (sh_DeployAs sh))] else [])
      @ (if replType = replNative \<and> deployAs \<noteq> [] then [Forbidden (shardPath i ''deployAs'')] else []))"

definition shardModeErrs :: "shardingMode \<Rightarrow> nat \<Rightarrow> ShardSpec \<Rightarrow> error_list" where
  "shardModeErrs mode i sh =
     (let hasGroup = (\<not> blank (sh_ShardGroup sh)); hasSpace = (\<not> blank (sh_ShardSpace sh));
          g = shardPath i ''shardGroup''; s = shardPath i ''shardSpace''
      in case mode of
           modeUser \<Rightarrow> (if hasGroup then [Forbidden g] else []) @ (if \<not> hasSpace then [Required s] else [])
         | modeSystem \<Rightarrow> (if \<not> hasGroup then [Required g] else []) @ (if hasSpace then [Forbidden s] else [])
         | modeComposite \<Rightarrow> (if \<not> hasGroup then [Required g] else []) @ (if \<not> hasSpace then [Required s] else [])
         | modeUnknown \<Rightarrow> [])"

definition opsUserShard :: "nat \<Rightarrow> ShardSpec \<Rightarrow> opsState \<Rightarrow> opsState" where
  "opsUserShard i sh st =
     (let spaceKey = upperKey (sh_ShardSpace sh); deployAs = roleOf replDG (sh_DeployAs sh);
          regionKey = upperKey (sh_ShardRegion sh);
          st1 = st\<lparr>ops_userSeen := mput spaceKey True (ops_userSeen st)\<rparr>
      in if deployAs = ''PRIMARY''
         then st1\<lparr>ops_userPrimary := mput spaceKey (mget (ops_userPrimary st1) spaceKey 0 + 1) (ops_userPrimary st1)\<rparr>
         else if deployAs = ''STANDBY'' \<or> deployAs = ''ACTIVE_STANDBY'' then
           (if regionKey = [] then st1\<lparr>ops_errs := ops_errs st1 @ [Required (shardPath i ''shardRegion'')]\<rparr>
            else if mget (mget (ops_userRegions st1) spaceKey []) regionKey False
            then st1\<lparr>ops_errs := ops_errs st1 @ [Invalid (shardPath i ''shardRegion'') (BVString (sh_ShardRegion sh))]\<rparr>
            else st1\<lparr>ops_userRegions := inner spaceKey (mput regionKey True) (ensure spaceKey (ops_userRegions st1))\<rparr>)
         else st1)"

definition opsNativeShard :: "ShardingDatabaseSpec \<Rightarrow> nat \<Rightarrow> ShardSpec \<Rightarrow> opsState \<Rightarrow> opsState" where
  "opsNativeShard spec i sh st =
     (let groupKey = upperKey (sh_ShardGroup sh); spaceKey = upperKey (sh_ShardSpace sh);
          regionKey = upperKey (sh_ShardRegion sh);
          e = Invalid (shardPath i ''shardRegion'') (BVString (sh_ShardRegion sh));
          ruMode = resolveCompositeNativeShardGroupRuMode spec groupKey spaceKey;
          st1 = st\<lparr>ops_errs := ops_errs st
                     @ (if regionKey = [] then [Required (shardPath i ''shardRegion'')] else [])
                     @ (if regionKey \<noteq> [] then bindErrs e groupKey regionKey (mget (ops_natRegion st) spaceKey [])
                          (mget (ops_natByRegion st) spaceKey []) else [])
                     @ (if ruMode = [] then [Required (shardPath i ''shardGroup'')]
                        else if ruMode \<noteq> ''READWRITE'' then [Invalid (shardPath i ''shardGroup'') (BVString (sh_ShardGroup sh))]
                        else []),
                   ops_natRegion := inner spaceKey (if regionKey \<noteq> [] then bindPut groupKey regionKey else id)
                     (ensure spaceKey (ops_natRegion st)),
                   ops_natByRegion := inner spaceKey (if regionKey \<noteq> [] then bindPut regionKey groupKey else id)
                     (ensure spaceKey (ops_natByRegion st))\<rparr>
      in noteNativeGroup groupKey spaceKey st1)"

definition opsCompositeShard :: "ShardingDatabaseSpec \<Rightarrow> string \<Rightarrow> nat \<Rightarrow> ShardSpec \<Rightarrow> opsState \<Rightarrow> opsState" where
  "opsCompositeShard spec replType i sh st =
     (let groupKey = upperKey (sh_ShardGroup sh); spaceKey = upperKey (sh_ShardSpace sh) in
      if groupKey = [] \<or> spaceKey = [] \<or> markedDelete (sh_IsDelete sh) then st
      else let st1 = bindGroupSpace (Invalid (shardPath i ''shardGroup'') (BVString (sh_ShardGroup sh))) groupKey spaceKey st
           in if replType = replNative then opsNativeShard spec i sh st1 else st1)"

definition opsShard :: "ShardingDatabaseSpec \<Rightarrow> shardingMode \<Rightarrow> string \<Rightarrow> nat \<Rightarrow> ShardSpec \<Rightarrow> opsState \<Rightarrow> opsState" where
  "opsShard spec modeHint replType i sh st =
     (let mode = shardMode modeHint sh;
          st1 = st\<lparr>ops_errs := ops_errs st @ shardRoleErrs replType i sh @ shardModeErrs mode i sh\<rparr>
      in if mode = modeUser then
           (if replType = replDG \<and> \<not> blank (sh_ShardSpace sh) then opsUserShard i sh st1 else st1)
         else if mode = modeComposite then opsCompositeShard spec replType i sh st1
         else st1)"

definition opsUserErrs :: "opsState \<Rightarrow> string \<Rightarrow> bool \<Rightarrow> error_list" where
  "opsUserErrs st spaceKey seen =
     (let cnt = mget (ops_userPrimary st) spaceKey 0; p = [Child ''spec'', Child ''shard''] in
      if cnt > 1 then [Invalid p (BVString spaceKey)]
      else if mget (ops_userExternal st) spaceKey False then (if cnt > 0 then [Forbidden p] else [])
      else if cnt = 0 then [Required p] else [])"

definition opsFinalErrs :: "shardingMode \<Rightarrow> string \<Rightarrow> opsState \<Rightarrow> error_list" where
  "opsFinalErrs modeHint replType st =
     (if replType = replDG \<and> modeHint = modeUser then range_map (opsUserErrs st) (ops_userSeen st) else [])
     @ (if replType = replNative \<and> modeHint = modeComposite
        then range_map (\<lambda>spaceKey groups. if length groups > 1
          then [Invalid [Child ''spec'', Child ''shard'', Child ''shardSpace''] (BVString spaceKey)] else []) (ops_natGroups st)
        else [])"

definition opsLoops :: "ShardingDatabaseSpec \<Rightarrow> opsState" where
  "opsLoops spec =
     (let replType = normalizeReplicationType spec; modeHint = normalizeShardingType spec in
      range_fold (opsShard spec modeHint replType) (spec_Shard spec)
        (range_fold (opsInfoEntry modeHint replType) (spec_ShardInfo spec) emptyOpsState))"

definition validateShardOperationRules :: "ShardingDatabaseSpec \<Rightarrow> error_list \<times> ShardingDatabaseSpec" where
  "validateShardOperationRules spec =
     (let replType = normalizeReplicationType spec; modeHint = normalizeShardingType spec in
      if modeHint = modeUser \<and> replType = replNative then ([Forbidden [Child ''spec'', Child ''replicationType'']], spec)
      else let st = opsLoops spec in
        (ops_errs st @ opsFinalErrs modeHint replType st,
         spec\<lparr>spec_Shard := map (canonShard modeHint replType) (spec_Shard spec)\<rparr>))"



section \<open>Group names across spaces\<close>

definition infoGroupSpaces :: "ShardingDetails list \<Rightarrow> (string \<times> string) list" where
  "infoGroupSpaces infos = concat (map (\<lambda>info. case (si_ShardGroupDetails info, si_ShardSpaceDetails info) of
       (Some g, Some s) \<Rightarrow> if blank (sg_Name g) \<or> blank (ss_Name s) \<or> markedDelete (sg_IsDelete g) then []
                           else [(upperKey (sg_Name g), upperKey (ss_Name s))]
     | _ \<Rightarrow> []) infos)"

definition shardGroupSpaces :: "ShardSpec list \<Rightarrow> (string \<times> string) list" where
  "shardGroupSpaces shards = concat (map (\<lambda>sh.
     if blank (sh_ShardGroup sh) \<or> blank (sh_ShardSpace sh) \<or> markedDelete (sh_IsDelete sh) then []
     else [(upperKey (sh_ShardGroup sh), upperKey (sh_ShardSpace sh))]) shards)"

abbreviation puts :: "(string \<times> string) list \<Rightarrow> (string, string) gomap \<Rightarrow> (string, string) gomap" where
  "puts \<equiv> fold (\<lambda>(k, v). bindPut k v)"

lemma noteNativeGroup_fields [simp]:
  "ops_errs (noteNativeGroup g s st) = ops_errs st" "ops_groupSpace (noteNativeGroup g s st) = ops_groupSpace st"
  by (simp_all add: noteNativeGroup_def)

lemma bindGroupSpace_fields [simp]:
  "ops_errs (bindGroupSpace e g s st) = [] \<longleftrightarrow> ops_errs st = [] \<and> \<not> bindConflict g s (ops_groupSpace st)"
  "ops_groupSpace (bindGroupSpace e g s st) = bindPut g s (ops_groupSpace st)"
  by (simp_all add: bindGroupSpace_def)

lemma opsNativeShard_groupSpace [simp]: "ops_groupSpace (opsNativeShard spec i sh st) = ops_groupSpace st"
  by (simp add: opsNativeShard_def Let_def)

lemma opsNativeShard_errs: "ops_errs (opsNativeShard spec i sh st) = [] \<Longrightarrow> ops_errs st = []"
  by (simp add: opsNativeShard_def Let_def)

lemma opsInfoEntry_step:
  "ops_errs (opsInfoEntry modeComposite repl i info st) = [] \<longleftrightarrow>
     ops_errs st = [] \<and> region_registry.runs_clean (infoGroupSpaces [info]) (ops_groupSpace st)"
  "ops_groupSpace (opsInfoEntry modeComposite repl i info st) = puts (infoGroupSpaces [info]) (ops_groupSpace st)"
  by (auto simp: opsInfoEntry_def infoGroupSpaces_def Let_def split: option.splits)

lemma opsShard_step:
  "ops_errs (opsShard spec modeComposite repl i sh st) = [] \<Longrightarrow>
     ops_errs st = [] \<and> region_registry.runs_clean (shardGroupSpaces [sh]) (ops_groupSpace st)"
  "ops_groupSpace (opsShard spec modeComposite repl i sh st) = puts (shardGroupSpaces [sh]) (ops_groupSpace st)"
  by (auto simp: opsShard_def opsCompositeShard_def shardGroupSpaces_def shardMode_def Let_def
      dest!: opsNativeShard_errs split: if_splits)

lemma concat_pairs_Cons:
  "infoGroupSpaces (x # xs) = infoGroupSpaces [x] @ infoGroupSpaces xs"
  "shardGroupSpaces (y # ys) = shardGroupSpaces [y] @ shardGroupSpaces ys"
  by (simp_all add: infoGroupSpaces_def shardGroupSpaces_def)

lemma opsInfo_loop:
  "ops_errs (range_fold_from k (opsInfoEntry modeComposite repl) infos st) = [] \<longleftrightarrow>
     ops_errs st = [] \<and> region_registry.runs_clean (infoGroupSpaces infos) (ops_groupSpace st)"
  "ops_groupSpace (range_fold_from k (opsInfoEntry modeComposite repl) infos st) = puts (infoGroupSpaces infos) (ops_groupSpace st)"
proof (induction infos arbitrary: k st)
  case (Cons info infos)
  case 1
  show ?case
    unfolding concat_pairs_Cons(1) [of info infos] region_registry.runs_clean_append
    by (simp add: Cons.IH opsInfoEntry_step)
  case 2
  show ?case unfolding concat_pairs_Cons(1) [of info infos] by (simp add: Cons.IH opsInfoEntry_step)
qed (simp_all add: infoGroupSpaces_def)

lemma opsShard_loop:
  "ops_errs (range_fold_from k (opsShard spec modeComposite repl) shards st) = [] \<Longrightarrow>
     ops_errs st = [] \<and> region_registry.runs_clean (shardGroupSpaces shards) (ops_groupSpace st)"
proof (induction shards arbitrary: k st)
  case (Cons sh shards)
  have ih: "ops_errs (opsShard spec modeComposite repl k sh st) = [] \<and>
      region_registry.runs_clean (shardGroupSpaces shards) (ops_groupSpace (opsShard spec modeComposite repl k sh st))"
    using Cons.prems by (intro Cons.IH [of "Suc k"]) simp
  then show ?case
    using opsShard_step(1) [of spec repl k sh st]
    unfolding concat_pairs_Cons(2) [of sh shards] region_registry.runs_clean_append opsShard_step(2) by simp
qed (simp add: shardGroupSpaces_def)

lemma validateShardOperationRules_Nil_D:
  assumes "fst (validateShardOperationRules spec) = []"
  shows "ops_errs (opsLoops spec) = []"
    and "opsFinalErrs (normalizeShardingType spec) (normalizeReplicationType spec) (opsLoops spec) = []"
    and "\<not> (normalizeShardingType spec = modeUser \<and> normalizeReplicationType spec = replNative)"
  using assms by (auto simp: validateShardOperationRules_def Let_def split: if_splits)

text \<open>
  in an accepted composite-sharded object a shard group name belongs to one shard space: two shards
  that are not marked for deletion and name the same group are in the same space, and the same holds
  between a shard and a \<^verbatim>\<open>shardInfo\<close> entry (names up to case and surrounding space).
\<close>

theorem composite_group_one_space:
  assumes "fst (validateShardOperationRules spec) = []" and "normalizeShardingType spec = modeComposite"
    and "(g, s) \<in> set (infoGroupSpaces (spec_ShardInfo spec)) \<union> set (shardGroupSpaces (spec_Shard spec))"
    and "(g, s') \<in> set (infoGroupSpaces (spec_ShardInfo spec)) \<union> set (shardGroupSpaces (spec_Shard spec))"
  shows "s = s'"
proof -
  let ?r = "normalizeReplicationType spec"
  let ?st = "range_fold_from 0 (opsInfoEntry modeComposite ?r) (spec_ShardInfo spec) emptyOpsState"
  have "ops_errs (range_fold_from 0 (opsShard spec modeComposite ?r) (spec_Shard spec) ?st) = []"
    using validateShardOperationRules_Nil_D(1) [OF assms(1)] by (simp add: opsLoops_def range_fold_def assms(2) Let_def)
  then have 1: "ops_errs ?st = []" "region_registry.runs_clean (shardGroupSpaces (spec_Shard spec)) (ops_groupSpace ?st)"
    using opsShard_loop by blast+
  then have "region_registry.runs_clean (infoGroupSpaces (spec_ShardInfo spec) @ shardGroupSpaces (spec_Shard spec)) []"
    unfolding region_registry.runs_clean_append using opsInfo_loop [of 0 ?r "spec_ShardInfo spec" emptyOpsState]
    by (simp add: emptyOpsState_def)
  then show ?thesis
    using region_registry.runs_clean_functional assms(3,4) by (metis set_append)
qed

definition compositeShard :: "string \<Rightarrow> string \<Rightarrow> string \<Rightarrow> ShardSpec" where
  "compositeShard name grp space = zeroShardSpec\<lparr>sh_Name := name, sh_ShardGroup := grp, sh_ShardSpace := space, sh_IsDelete := ''disable''\<rparr>"

definition compositeExample :: ShardingDatabaseSpec where
  "compositeExample = zeroShardingDatabaseSpec\<lparr>spec_ShardingType := ''COMPOSITE'', spec_ReplicationType := ''DG'',
     spec_Shard := [compositeShard ''a'' ''G1'' ''S1'', compositeShard ''b'' ''G1'' ''S1'']\<rparr>"

lemma compositeExample_fields:
  "spec_Shard compositeExample = [compositeShard ''a'' ''G1'' ''S1'', compositeShard ''b'' ''G1'' ''S1'']"
  "spec_ShardInfo compositeExample = []" "normalizeShardingType compositeExample = modeComposite"
  "normalizeReplicationType compositeExample = replDG"
  by (simp_all add: compositeExample_def zeroShardingDatabaseSpec_def normalizeShardingType_def normalizeReplicationType_def
      normalizeReplicationValue_def repl_defs Let_def go_eval)

lemma compositeShard_fields:
  "sh_ShardGroup (compositeShard n g s) = g" "sh_ShardSpace (compositeShard n g s) = s" "sh_DeployAs (compositeShard n g s) = []"
  "sh_IsDelete (compositeShard n g s) = ''disable''"
  by (simp_all add: compositeShard_def zeroShardSpec_def)

lemma compositeExample_accepted: "fst (validateShardOperationRules compositeExample) = []"
  by (simp add: validateShardOperationRules_def opsLoops_def opsShard_def opsCompositeShard_def shardMode_def shardRoleErrs_def
      shardModeErrs_def role0_def normalizeDeployAsCanonical_def upperKey_def bindGroupSpace_def bindConflict_def bindPut_def
      opsFinalErrs_def emptyOpsState_def markedDelete_def deleteStateEnable_def compositeExample_fields compositeShard_fields
      Let_def go_eval)

theorem composite_group_one_space_witness:
  "snd (shardGroupSpaces (spec_Shard compositeExample) ! 0) = snd (shardGroupSpaces (spec_Shard compositeExample) ! 1)"
proof (rule composite_group_one_space [OF compositeExample_accepted compositeExample_fields(3)])
  have p: "shardGroupSpaces (spec_Shard compositeExample) = [(''G1'', ''S1''), (''G1'', ''S1'')]"
    by (simp add: shardGroupSpaces_def compositeExample_fields compositeShard_fields upperKey_def markedDelete_def
        deleteStateEnable_def go_eval)
  show "(''G1'', snd (shardGroupSpaces (spec_Shard compositeExample) ! 0))
      \<in> set (infoGroupSpaces (spec_ShardInfo compositeExample)) \<union> set (shardGroupSpaces (spec_Shard compositeExample))"
    and "(''G1'', snd (shardGroupSpaces (spec_Shard compositeExample) ! 1))
      \<in> set (infoGroupSpaces (spec_ShardInfo compositeExample)) \<union> set (shardGroupSpaces (spec_Shard compositeExample))"
    by (simp_all add: p)
qed


section \<open>User-defined sharding\<close>

definition isStandby :: "ShardSpec \<Rightarrow> bool" where
  "isStandby sh \<longleftrightarrow> roleOf replDG (sh_DeployAs sh) \<in> {''STANDBY'', ''ACTIVE_STANDBY''}"

definition isPrimaryOf :: "string \<Rightarrow> ShardSpec \<Rightarrow> bool" where
  "isPrimaryOf spaceKey sh \<longleftrightarrow> upperKey (sh_ShardSpace sh) = spaceKey \<and> roleOf replDG (sh_DeployAs sh) = ''PRIMARY''"

definition standbyPlaces :: "ShardSpec list \<Rightarrow> (string \<times> string) list" where
  "standbyPlaces shards = map (\<lambda>sh. (upperKey (sh_ShardSpace sh), upperKey (sh_ShardRegion sh))) (filter isStandby shards)"

definition hasExternalPrimary :: "ShardingDetails list \<Rightarrow> string \<Rightarrow> bool" where
  "hasExternalPrimary infos spaceKey \<longleftrightarrow> list_ex (\<lambda>info. standbyConfigPrimaryCount (si_StandbyConfig info) > 0 \<and>
     (case si_ShardSpaceDetails info of None \<Rightarrow> False | Some ss \<Rightarrow> upperKey (ss_Name ss) = spaceKey)) infos"

definition regionTaken :: "opsState \<Rightarrow> string \<times> string \<Rightarrow> bool" where
  "regionTaken st p = mget (mget (ops_userRegions st) (fst p) []) (snd p) False"

lemma mget_ensure [simp]: "mget (ensure k m) j [] = mget m j []"
  by (auto simp: ensure_def mget_def split: option.splits)

lemma mget_inner: "mget (inner k f m) j [] = (if j = k then f (mget m k []) else mget m j [])"
  by (simp add: inner_def mget_mput)

lemma user_info_loop:
  assumes "k \<noteq> []"
  shows "mget (ops_userExternal (range_fold_from n (opsInfoEntry modeUser repl) infos st)) k False \<longleftrightarrow>
      mget (ops_userExternal st) k False \<or> hasExternalPrimary infos k"
    and "ops_userPrimary (range_fold_from n (opsInfoEntry modeUser repl) infos st) = ops_userPrimary st"
    and "ops_userSeen (range_fold_from n (opsInfoEntry modeUser repl) infos st) = ops_userSeen st"
    and "ops_userRegions (range_fold_from n (opsInfoEntry modeUser repl) infos st) = ops_userRegions st"
proof -
  have one: "mget (ops_userExternal (opsInfoEntry modeUser repl n info st)) k False \<longleftrightarrow>
      mget (ops_userExternal st) k False \<or> hasExternalPrimary [info] k"
    "ops_userPrimary (opsInfoEntry modeUser repl n info st) = ops_userPrimary st"
    "ops_userSeen (opsInfoEntry modeUser repl n info st) = ops_userSeen st"
    "ops_userRegions (opsInfoEntry modeUser repl n info st) = ops_userRegions st" for n info st
    using assms by (auto simp: opsInfoEntry_def hasExternalPrimary_def mget_mput Let_def split: option.splits)
  have split: "hasExternalPrimary (info # infos) k \<longleftrightarrow> hasExternalPrimary [info] k \<or> hasExternalPrimary infos k" for info infos
    by (simp add: hasExternalPrimary_def)
  show "mget (ops_userExternal (range_fold_from n (opsInfoEntry modeUser repl) infos st)) k False \<longleftrightarrow>
      mget (ops_userExternal st) k False \<or> hasExternalPrimary infos k"
  proof (induction infos arbitrary: n st)
    case (Cons info infos)
    then show ?case using split [of info infos] by (simp add: one(1))
  qed (simp add: hasExternalPrimary_def)
  show "ops_userPrimary (range_fold_from n (opsInfoEntry modeUser repl) infos st) = ops_userPrimary st"
    "ops_userSeen (range_fold_from n (opsInfoEntry modeUser repl) infos st) = ops_userSeen st"
    "ops_userRegions (range_fold_from n (opsInfoEntry modeUser repl) infos st) = ops_userRegions st"
    by (induction infos arbitrary: n st) (simp_all add: one)
qed

lemma opsUserShard_clean:
  assumes "ops_errs (opsShard spec modeUser replDG i sh st) = []"
  shows "ops_errs st = []" and "\<not> blank (sh_ShardSpace sh)"
    and "mget (ops_userPrimary (opsShard spec modeUser replDG i sh st)) k 0 =
      mget (ops_userPrimary st) k 0 + (if isPrimaryOf k sh then 1 else 0)"
    and "mget (ops_userSeen (opsShard spec modeUser replDG i sh st)) k False \<longleftrightarrow>
      mget (ops_userSeen st) k False \<or> upperKey (sh_ShardSpace sh) = k"
    and "ops_userExternal (opsShard spec modeUser replDG i sh st) = ops_userExternal st"
    and "isStandby sh \<Longrightarrow> \<not> blank (sh_ShardRegion sh) \<and>
      \<not> regionTaken st (upperKey (sh_ShardSpace sh), upperKey (sh_ShardRegion sh))"
    and "regionTaken (opsShard spec modeUser replDG i sh st) p \<longleftrightarrow>
      regionTaken st p \<or> (isStandby sh \<and> p = (upperKey (sh_ShardSpace sh), upperKey (sh_ShardRegion sh)))"
proof -
  let ?st1 = "st\<lparr>ops_errs := ops_errs st @ shardRoleErrs replDG i sh @ shardModeErrs modeUser i sh\<rparr>"
  have mode: "shardMode modeUser sh = modeUser" by (simp add: shardMode_def)
  have "ops_errs st = [] \<and> shardModeErrs modeUser i sh = []"
    using assms by (auto simp: opsShard_def opsUserShard_def mode Let_def split: if_splits)
  then show e: "ops_errs st = []" and sp: "\<not> blank (sh_ShardSpace sh)"
    by (auto simp: shardModeErrs_def Let_def split: if_splits)
  have step: "opsShard spec modeUser replDG i sh st = opsUserShard i sh ?st1"
    using sp by (simp add: opsShard_def mode Let_def)
  show "mget (ops_userPrimary (opsShard spec modeUser replDG i sh st)) k 0 =
      mget (ops_userPrimary st) k 0 + (if isPrimaryOf k sh then 1 else 0)"
    unfolding step by (auto simp: opsUserShard_def isPrimaryOf_def mget_mput Let_def)
  show "mget (ops_userSeen (opsShard spec modeUser replDG i sh st)) k False \<longleftrightarrow>
      mget (ops_userSeen st) k False \<or> upperKey (sh_ShardSpace sh) = k"
    unfolding step by (auto simp: opsUserShard_def mget_mput Let_def)
  show "ops_userExternal (opsShard spec modeUser replDG i sh st) = ops_userExternal st"
    unfolding step by (simp add: opsUserShard_def Let_def)
  show place: "\<not> blank (sh_ShardRegion sh) \<and> \<not> regionTaken st (upperKey (sh_ShardSpace sh), upperKey (sh_ShardRegion sh))"
    if "isStandby sh"
    using that assms unfolding step
    by (auto simp: opsUserShard_def isStandby_def regionTaken_def Let_def split: if_splits)
  show "regionTaken (opsShard spec modeUser replDG i sh st) p \<longleftrightarrow>
      regionTaken st p \<or> (isStandby sh \<and> p = (upperKey (sh_ShardSpace sh), upperKey (sh_ShardRegion sh)))"
    using place unfolding step
    by (cases p) (auto simp: opsUserShard_def isStandby_def regionTaken_def mget_inner mget_mput Let_def)
qed

lemma opsShard_errs_mono:
  "ops_errs (range_fold_from n (opsShard spec modeUser replDG) shards st) = [] \<Longrightarrow> ops_errs st = []"
proof (induction shards arbitrary: n st)
  case (Cons sh shards)
  have "ops_errs (opsShard spec modeUser replDG n sh st) = []"
    by (rule Cons.IH [of "Suc n"]) (use Cons.prems in \<open>simp only: range_fold_from.simps\<close>)
  then show ?case by (rule opsUserShard_clean(1))
qed simp

lemma user_shard_loop:
  assumes "ops_errs (range_fold_from n (opsShard spec modeUser replDG) shards st) = []"
  defines "fin \<equiv> range_fold_from n (opsShard spec modeUser replDG) shards st"
  shows "mget (ops_userPrimary fin) k 0 = mget (ops_userPrimary st) k 0 + int (length (filter (isPrimaryOf k) shards)) \<and>
    (mget (ops_userSeen fin) k False \<longleftrightarrow> mget (ops_userSeen st) k False \<or> (\<exists>sh \<in> set shards. upperKey (sh_ShardSpace sh) = k)) \<and>
    ops_userExternal fin = ops_userExternal st \<and> distinct (standbyPlaces shards) \<and>
    (\<forall>p \<in> set (standbyPlaces shards). \<not> regionTaken st p) \<and>
    (\<forall>sh \<in> set shards. \<not> blank (sh_ShardSpace sh) \<and> (isStandby sh \<longrightarrow> \<not> blank (sh_ShardRegion sh)))"
  using assms(1) unfolding fin_def
proof (induction shards arbitrary: n st)
  case (Cons sh shards)
  let ?st' = "opsShard spec modeUser replDG n sh st"
  have run: "ops_errs (range_fold_from (Suc n) (opsShard spec modeUser replDG) shards ?st') = []" using Cons.prems by simp
  have ok: "ops_errs ?st' = []" using opsShard_errs_mono [OF run] .
  note one = opsUserShard_clean [OF ok] and ih = Cons.IH [OF run]
  have pl: "standbyPlaces (sh # shards) =
      (if isStandby sh then [(upperKey (sh_ShardSpace sh), upperKey (sh_ShardRegion sh))] else []) @ standbyPlaces shards"
    by (simp add: standbyPlaces_def)
  have "distinct (standbyPlaces (sh # shards)) \<and> (\<forall>p \<in> set (standbyPlaces (sh # shards)). \<not> regionTaken st p)"
    unfolding pl using ih one(6) one(7) by (auto split: if_splits)
  then show ?case using ih one(2-6) by auto
qed (simp_all add: standbyPlaces_def)


lemma mget_True_key: "mget m k False \<Longrightarrow> \<exists>v. (k, v) \<in> set m"
  by (auto simp: mget_def dest: map_of_SomeD split: option.splits)

text \<open>
  in an accepted user-sharded object under Data Guard replication every shard space in use has
  exactly one primary shard, or none when its primaries are external; every standby shard names a
  region, and no two standby shards of a space are in the same region.
\<close>

theorem user_space_topology:
  assumes "fst (validateShardOperationRules spec) = []" and "normalizeShardingType spec = modeUser"
  shows "distinct (standbyPlaces (spec_Shard spec)) \<and>
    (\<forall>sh \<in> set (spec_Shard spec). isStandby sh \<longrightarrow> \<not> blank (sh_ShardRegion sh)) \<and>
    (\<forall>sh \<in> set (spec_Shard spec).
       length (filter (isPrimaryOf (upperKey (sh_ShardSpace sh))) (spec_Shard spec)) =
         (if hasExternalPrimary (spec_ShardInfo spec) (upperKey (sh_ShardSpace sh)) then 0 else 1))"
proof -
  let ?st0 = "range_fold_from 0 (opsInfoEntry modeUser replDG) (spec_ShardInfo spec) emptyOpsState"
  let ?st = "range_fold_from 0 (opsShard spec modeUser replDG) (spec_Shard spec) ?st0"
  have repl: "normalizeReplicationType spec = replDG"
    using validateShardOperationRules_Nil_D(3) [OF assms(1)] assms(2) normalizeReplicationType_range [of spec] by auto
  have st: "opsLoops spec = ?st" by (simp add: opsLoops_def range_fold_def repl assms(2) Let_def)
  have clean: "ops_errs ?st = []" using validateShardOperationRules_Nil_D(1) [OF assms(1)] st by simp
  note loop = user_shard_loop [OF clean]
  have one: "length (filter (isPrimaryOf (upperKey (sh_ShardSpace sh))) (spec_Shard spec)) =
      (if hasExternalPrimary (spec_ShardInfo spec) (upperKey (sh_ShardSpace sh)) then 0 else 1)"
    if sh: "sh \<in> set (spec_Shard spec)" for sh
  proof -
    let ?k = "upperKey (sh_ShardSpace sh)"
    have nb: "?k \<noteq> []" using loop sh by simp
    note info = user_info_loop [OF nb, of 0 replDG "spec_ShardInfo spec" emptyOpsState]
    have cnt: "mget (ops_userPrimary ?st) ?k 0 = int (length (filter (isPrimaryOf ?k) (spec_Shard spec)))"
      using loop [of ?k] info(2) by (simp add: emptyOpsState_def)
    have ext: "mget (ops_userExternal ?st) ?k False = hasExternalPrimary (spec_ShardInfo spec) ?k"
      using loop [of ?k] info(1) by (simp add: emptyOpsState_def)
    have "mget (ops_userSeen ?st) ?k False" using loop [of ?k, THEN conjunct2, THEN conjunct1] sh by blast
    from mget_True_key [OF this] obtain v where "(?k, v) \<in> set (ops_userSeen ?st)" ..
    moreover have "range_map (opsUserErrs ?st) (ops_userSeen ?st) = []"
      using validateShardOperationRules_Nil_D(2) [OF assms(1)] st repl assms(2) by (simp add: opsFinalErrs_def)
    ultimately have "opsUserErrs ?st ?k v = []" by (auto simp: range_map_Nil_iff)
    then show ?thesis
      unfolding opsUserErrs_def Let_def cnt ext
      by (cases "filter (isPrimaryOf ?k) (spec_Shard spec)") (auto split: if_splits)
  qed
  show ?thesis using loop one by blast
qed

definition userShard :: "string \<Rightarrow> string \<Rightarrow> string \<Rightarrow> string \<Rightarrow> ShardSpec" where
  "userShard name space role region =
     zeroShardSpec\<lparr>sh_Name := name, sh_ShardSpace := space, sh_DeployAs := role, sh_ShardRegion := region\<rparr>"

definition userOpsExample :: ShardingDatabaseSpec where
  "userOpsExample = zeroShardingDatabaseSpec\<lparr>spec_ShardingType := ''USER'', spec_ReplicationType := ''DG'',
     spec_Shard := [userShard ''a'' ''S1'' ''PRIMARY'' [], userShard ''b'' ''S1'' ''STANDBY'' ''R2'']\<rparr>"

lemma userOpsExample_fields:
  "spec_Shard userOpsExample = [userShard ''a'' ''S1'' ''PRIMARY'' [], userShard ''b'' ''S1'' ''STANDBY'' ''R2'']"
  "spec_ShardInfo userOpsExample = []" "normalizeShardingType userOpsExample = modeUser"
  "normalizeReplicationType userOpsExample = replDG"
  by (simp_all add: userOpsExample_def zeroShardingDatabaseSpec_def normalizeShardingType_def normalizeReplicationType_def
      normalizeReplicationValue_def repl_defs Let_def go_eval)

lemma userShard_fields:
  "sh_ShardGroup (userShard n s r g) = []" "sh_ShardSpace (userShard n s r g) = s" "sh_DeployAs (userShard n s r g) = r"
  "sh_ShardRegion (userShard n s r g) = g"
  by (simp_all add: userShard_def zeroShardSpec_def)

theorem user_space_topology_witness: "distinct (standbyPlaces (spec_Shard userOpsExample))"
proof -
  have "fst (validateShardOperationRules userOpsExample) = []"
    by (simp add: validateShardOperationRules_def opsLoops_def opsShard_def opsUserShard_def shardMode_def shardRoleErrs_def
        shardModeErrs_def role0_def roleOf_def normalizeDeployAsCanonical_def upperKey_def isValidDeployAs_def
        opsFinalErrs_def opsUserErrs_def emptyOpsState_def userOpsExample_fields userShard_fields range_map_def ensure_def
        inner_def mget_def mput_def Let_def go_eval)
  then show ?thesis using user_space_topology [OF _ userOpsExample_fields(3)] by blast
qed

end
