(* ===== verification/Sharding_Webhook.thy ===== *)
theory Sharding_Webhook
  imports Sharding_Operations
begin

text \<open>
  The admission webhooks of \<^verbatim>\<open>apis/database/v4/shardingdatabase_webhook.go\<close>: the update lock, the Data
  Guard topology projection, \<^verbatim>\<open>ValidateCreate\<close>, \<^verbatim>\<open>ValidateUpdate\<close> and \<^verbatim>\<open>ValidateDelete\<close>, and the life of a
  stored object as the API server drives them (defaulting, then validation, then storage, with the
  status written separately). \<^verbatim>\<open>reflect.DeepEqual\<close> is equality.
\<close>

definition isControllerUpdateLocked :: "ShardingDatabase option \<Rightarrow> bool \<times> int \<times> string" where
  "isControllerUpdateLocked cr =
     (case cr of None \<Rightarrow> (False, 0, [])
      | Some c \<Rightarrow> IsControllerUpdateLocked (st_CrdStatus (sdb_Status c)) DefaultReconcilingConditionType DefaultUpdateLockReason)"

definition isUpdateLockOverrideEnabled :: "ShardingDatabase option \<Rightarrow> bool \<times> string" where
  "isUpdateLockOverrideEnabled cr =
     (case cr of None \<Rightarrow> (False, ''resource is nil'')
      | Some c \<Rightarrow> IsUpdateLockOverrideEnabled (sdb_Annotations c) DefaultOverrideAnnotation)"


section \<open>The Data Guard topology\<close>

record shardingDataguardShardProjection =
  dsp_Name :: string
  dsp_ShardSpace :: string
  dsp_ShardGroup :: string
  dsp_ShardRegion :: string
  dsp_DeployAs :: string
  dsp_PrimaryDatabaseRef :: "DatabaseRef option"
  dsp_StandbyConfig :: "StandbyConfig option"

record shardingDataguardShardInfoProjection =
  dip_ShardPreFixName :: string
  dip_ShardNum :: int
  dip_Replicas :: int
  dip_ShardGroupDetails :: "ShardGroupSpec option"
  dip_ShardSpaceDetails :: "ShardSpaceSpec option"
  dip_PrimaryDatabaseRef :: "DatabaseRef option"
  dip_StandbyConfig :: "StandbyConfig option"
  dip_ExternalPrimarySources :: "StandbyPrimarySource list"

record shardingDataguardTopologyProjection =
  dtp_ReplicationType :: string
  dtp_ShardingType :: string
  dtp_EnableTCPS :: bool
  dtp_TcpsTlsSecret :: string
  dtp_Shard :: "shardingDataguardShardProjection list"
  dtp_ShardInfo :: "shardingDataguardShardInfoProjection list"
  dtp_ShardGroup :: "ShardGroupSpec list"
  dtp_ShardSpace :: "ShardSpaceSpec list"

definition buildShardingDataguardTopologyProjection :: "ShardingDatabase \<Rightarrow> shardingDataguardTopologyProjection" where
  "buildShardingDataguardTopologyProjection cr =
     (let spec = sdb_Spec cr in
      \<lparr>dtp_ReplicationType = normalizeReplicationType spec,
       dtp_ShardingType = modeString (detectShardingMode spec),
       dtp_EnableTCPS = spec_EnableTCPS spec,
       dtp_TcpsTlsSecret = TrimSpace (spec_TcpsTlsSecret spec),
       dtp_Shard = map (\<lambda>s. \<lparr>dsp_Name = sh_Name s, dsp_ShardSpace = sh_ShardSpace s, dsp_ShardGroup = sh_ShardGroup s,
           dsp_ShardRegion = sh_ShardRegion s, dsp_DeployAs = sh_DeployAs s,
           dsp_PrimaryDatabaseRef = sh_PrimaryDatabaseRef s, dsp_StandbyConfig = sh_StandbyConfig s\<rparr>) (spec_Shard spec),
       dtp_ShardInfo = map (\<lambda>i. \<lparr>dip_ShardPreFixName = si_ShardPreFixName i, dip_ShardNum = si_ShardNum i,
           dip_Replicas = si_Replicas i, dip_ShardGroupDetails = si_ShardGroupDetails i,
           dip_ShardSpaceDetails = si_ShardSpaceDetails i, dip_PrimaryDatabaseRef = si_PrimaryDatabaseRef i,
           dip_StandbyConfig = si_StandbyConfig i, dip_ExternalPrimarySources = si_ExternalPrimarySources i\<rparr>) (spec_ShardInfo spec),
       dtp_ShardGroup = spec_ShardGroup spec,
       dtp_ShardSpace = spec_ShardSpace spec\<rparr>)"

definition isShardingDataguardTopologyLocked :: "ShardingDatabase \<Rightarrow> bool" where
  "isShardingDataguardTopologyLocked cr \<longleftrightarrow>
     (case st_Dataguard (sdb_Status cr) of None \<Rightarrow> False | Some dg \<Rightarrow> sdg_TopologyLocked dg)"

definition hasShardingDataguardTopologyChange :: "ShardingDatabase \<Rightarrow> ShardingDatabase \<Rightarrow> bool" where
  "hasShardingDataguardTopologyChange oldCR newCR \<longleftrightarrow>
     buildShardingDataguardTopologyProjection oldCR \<noteq> buildShardingDataguardTopologyProjection newCR"


section \<open>Create\<close>

definition tdeWalletErrs :: "ShardingDatabaseSpec \<Rightarrow> error_list" where
  "tdeWalletErrs spec =
     (let value = TrimSpace (getTDEWalletEnabledFromSpec spec); pvc = TrimSpace (getTDEWalletPVCFromSpec spec);
          noTde = (case spec_DbSecret spec of None \<Rightarrow> True | Some s \<Rightarrow> sec_TDE s = None)
      in (if EqualFold value ''enable''
          then (if noTde then [Required [Child ''spec'', Child ''dbSecret'', Child ''tde'']] else [])
             @ (if spec_FssStorageClass spec = [] \<and> pvc = []
                then [Invalid [Child ''spec'', Child ''fssStorageClass''] (BVString (spec_FssStorageClass spec)),
                      Invalid [Child ''spec'', Child ''tdeWalletPvc''] (BVString pvc)] else [])
          else [])
         @ (if value \<noteq> [] \<and> ToLower value \<noteq> ''enable'' \<and> ToLower value \<noteq> ''disable''
            then [Invalid [Child ''spec'', Child ''isTdeWallet''] (BVString value)] else []))"

definition ValidateCreate :: "(string \<Rightarrow> bool) \<Rightarrow> ShardingDatabase \<Rightarrow> string list \<times> error_list" where
  "ValidateCreate dns cr =
     (let spec = sdb_Spec cr;
          (infoErrs, spec1) = validateShardInfo (sdb_Namespace cr) spec;
          (opsErrs, spec2) = validateShardOperationRules spec1
      in (deprecatedShardingFieldWarnings (Some spec),
          validateDataguardProducerSpec [Child ''spec'', Child ''dataguard''] (spec_Dataguard spec)
          @ validateDbSecretConfig spec
          @ tdeWalletErrs spec
          @ validateShardIsDelete spec
          @ validateFreeEdition spec
          @ validateCatalogName spec
          @ validateGsmConfig spec
          @ validateShardingMemberServiceNames dns spec
          @ infoErrs
          @ opsErrs
          @ validateCatalogTopologyConsistency spec2
          @ validateShardAdvancedParams spec2
          @ validateCatalogAdvancedParams spec2
          @ validateComputeSizingPathConfig spec2
          @ validateAdditionalPVCConfig spec2))"


section \<open>Update and delete\<close>

text \<open>What the update may not change: the replication type, the sharding type, the mode.\<close>

definition immutableErrs :: "ShardingDatabaseSpec \<Rightarrow> ShardingDatabaseSpec \<Rightarrow> error_list" where
  "immutableErrs old new =
     (let oldRepl = normalizeReplicationType old; newRepl = normalizeReplicationType new;
          oldSharding = normalizeShardingType old; newSharding = normalizeShardingType new;
          oldMode = detectShardingMode old; newMode = detectShardingMode new
      in (if oldRepl \<noteq> [] \<and> newRepl \<noteq> [] \<and> oldRepl \<noteq> newRepl
          then [Forbidden [Child ''spec'', Child ''replicationType'']] else [])
         @ (if oldSharding \<noteq> modeUnknown \<and> newSharding \<noteq> modeUnknown \<and> oldSharding \<noteq> newSharding
            then [Forbidden [Child ''spec'', Child ''shardingType'']] else [])
         @ (if oldMode = modeSystem \<and> (newMode = modeUser \<or> newMode = modeComposite)
            then [Forbidden [Child ''spec'', Child ''shardInfo'']] else []))"

definition updateLockErrs :: "ShardingDatabase \<Rightarrow> ShardingDatabase \<Rightarrow> error_list" where
  "updateLockErrs oldCR newCR =
     (if sdb_Spec oldCR \<noteq> sdb_Spec newCR
      then (case isControllerUpdateLocked (Some oldCR) of (locked, lockGen, lockMsg) \<Rightarrow>
              if locked \<and> \<not> fst (isUpdateLockOverrideEnabled (Some newCR)) then [Forbidden [Child ''spec'']] else [])
         @ (if isShardingDataguardTopologyLocked oldCR \<and> hasShardingDataguardTopologyChange oldCR newCR
            then [Forbidden [Child ''spec'']] else [])
      else [])"

definition ValidateUpdate ::
    "(string \<Rightarrow> bool) \<Rightarrow> ShardingDatabase \<Rightarrow> ShardingDatabase \<Rightarrow> string list \<times> error_list" where
  "ValidateUpdate dns oldCR newCR =
     (let old = sdb_Spec oldCR; spec = sdb_Spec newCR;
          (infoErrs, spec1) = validateShardInfo (sdb_Namespace newCR) spec;
          (opsErrs, spec2) = validateShardOperationRules spec1
      in (deprecatedShardingFieldWarnings (Some spec),
          validateDataguardProducerSpec [Child ''spec'', Child ''dataguard''] (spec_Dataguard spec)
          @ immutableErrs old spec
          @ updateLockErrs oldCR newCR
          @ infoErrs
          @ opsErrs
          @ validateCatalogTopologyConsistency spec2
          @ validateGsmConfig spec2
          @ validateShardingMemberServiceNames dns spec2
          @ validateShardAdvancedParams spec2
          @ validateCatalogAdvancedParams spec2
          @ validateComputeSizingPathConfig spec2
          @ validateComputeSizingPathUpdate spec2 (Some old)
          @ validateAdditionalPVCConfig spec2
          @ ShardingDatabase_validateAdditionalPVCUpdate spec2 (Some old)
          @ validateStorageSizeNoShrink spec2 (Some old)))"

definition ValidateDelete :: "ShardingDatabase \<Rightarrow> string list \<times> error_list" where
  "ValidateDelete cr = ([], [])"


section \<open>The life of a stored object\<close>

text \<open>
  A stored object is created or replaced by a request only after the defaulting webhook has returned
  and the validating webhook has reported no error; the status is written on its own.
\<close>

inductive created :: "(string \<Rightarrow> bool) \<Rightarrow> ShardingDatabase \<Rightarrow> bool" for dns where
  "Default (sdb_Spec req) = Inr s \<Longrightarrow> cr = req\<lparr>sdb_Spec := s\<rparr> \<Longrightarrow> snd (ValidateCreate dns cr) = [] \<Longrightarrow> created dns cr"

inductive admission :: "(string \<Rightarrow> bool) \<Rightarrow> ShardingDatabase \<Rightarrow> ShardingDatabase \<Rightarrow> bool" for dns where
  update: "Default (sdb_Spec req) = Inr s \<Longrightarrow> new = req\<lparr>sdb_Spec := s, sdb_Status := sdb_Status old\<rparr> \<Longrightarrow>
     snd (ValidateUpdate dns old new) = [] \<Longrightarrow> admission dns old new"
| status: "new = old\<lparr>sdb_Status := st\<rparr> \<Longrightarrow> admission dns old new"

inductive_cases admissionE: "admission dns old new"
inductive_cases createdE: "created dns cr"


section \<open>Properties\<close>

lemma validateShardInfo_snd_Shard [simp]: "spec_Shard (snd (validateShardInfo ns spec)) = spec_Shard spec"
  by (simp add: validateShardInfo_def Let_def)

lemma validateShardOperationRules_snd:
  "\<exists>f. spec_Shard (snd (validateShardOperationRules spec)) = map f (spec_Shard spec) \<and>
     (\<forall>s. sh_Name (f s) = sh_Name s \<and> sh_StorageSizeInGb (f s) = sh_StorageSizeInGb s)"
proof (cases "normalizeShardingType spec = modeUser \<and> normalizeReplicationType spec = replNative")
  case True
  then show ?thesis by (intro exI [of _ id]) (simp add: validateShardOperationRules_def)
next
  case False
  then show ?thesis
    by (intro exI [of _ "canonShard (normalizeShardingType spec) (normalizeReplicationType spec)"])
      (auto simp: validateShardOperationRules_def canonShard_def Let_def)
qed

lemma ValidateUpdate_Nil_D:
  assumes "snd (ValidateUpdate dns old new) = []"
  shows "immutableErrs (sdb_Spec old) (sdb_Spec new) = []" and "updateLockErrs old new = []"
    and "\<exists>spec2. validateShardingMemberServiceNames dns spec2 = [] \<and> validateStorageSizeNoShrink spec2 (Some (sdb_Spec old)) = [] \<and>
      spec2 = snd (validateShardOperationRules (snd (validateShardInfo (sdb_Namespace new) (sdb_Spec new))))"
  using assms by (auto simp: ValidateUpdate_def Let_def split: prod.splits)

text \<open>
  C2: while the controller holds the update lock, an update that is admitted without the break-glass
  annotation leaves the specification exactly as it is stored.
\<close>

theorem locked_update_keeps_spec:
  assumes "snd (ValidateUpdate dns old new) = []"
    and "isControllerUpdateLocked (Some old) = (True, gen, msg)"
    and "map_of (sdb_Annotations new) ''database.oracle.com/lock-override'' = None"
  shows "sdb_Spec new = sdb_Spec old"
proof -
  have "\<not> fst (isUpdateLockOverrideEnabled (Some new))"
    using assms(3) by (simp add: isUpdateLockOverrideEnabled_def override_enabled_iff DefaultOverrideAnnotation_def)
  then show ?thesis
    using ValidateUpdate_Nil_D(2) [OF assms(1)] assms(2) by (auto simp: updateLockErrs_def split: if_splits)
qed

text \<open>
  the replication type of a stored object never changes, whatever sequence of updates and status
  writes it goes through.
\<close>

theorem replication_type_immutable:
  assumes "(admission dns)\<^sup>*\<^sup>* old new"
  shows "normalizeReplicationType (sdb_Spec new) = normalizeReplicationType (sdb_Spec old)"
  using assms
proof (induction rule: rtranclp_induct)
  case (step y z)
  from step(2) have "normalizeReplicationType (sdb_Spec z) = normalizeReplicationType (sdb_Spec y)"
  proof (cases rule: admission.cases)
    case (update req s)
    then have "immutableErrs (sdb_Spec y) (sdb_Spec z) = []" using ValidateUpdate_Nil_D(1) by blast
    then show ?thesis by (auto simp: immutableErrs_def Let_def split: if_splits)
  qed simp
  then show ?case using step(3) by simp
qed simp

lemma locked_projection_fixed:
  assumes "successively (admission dns) (v # vs)" and "\<forall>u \<in> set (v # vs). isShardingDataguardTopologyLocked u"
  shows "buildShardingDataguardTopologyProjection (last (v # vs)) = buildShardingDataguardTopologyProjection v"
  using assms
proof (induction vs arbitrary: v)
  case (Cons w ws)
  have locked: "isShardingDataguardTopologyLocked v" using Cons.prems(2) by simp
  have "admission dns v w" using Cons.prems(1) by simp
  then have "buildShardingDataguardTopologyProjection w = buildShardingDataguardTopologyProjection v"
  proof (cases rule: admission.cases)
    case (update req s)
    then have "updateLockErrs v w = []" using ValidateUpdate_Nil_D(2) by blast
    then show ?thesis
      using locked by (cases "sdb_Spec v = sdb_Spec w")
        (auto simp: updateLockErrs_def hasShardingDataguardTopologyChange_def buildShardingDataguardTopologyProjection_def)
  qed (simp add: buildShardingDataguardTopologyProjection_def)
  then show ?case using Cons.IH [of w] Cons.prems by simp
qed simp

text \<open>
  C39: along a run in which the status says that the Data Guard topology is locked, the topology keeps its value field by
  field: the replication type and the sharding mode, TCPS and its secret, the name, space, group, region, role, primary and
  standby configuration of every shard, the prefix, counts, details, primary, standby configuration and external primaries of
  every \<^verbatim>\<open>shardInfo\<close> entry, and the shard groups and spaces.
\<close>

theorem locked_topology_immutable:
  assumes "successively (admission dns) (v # vs)" and "\<forall>u \<in> set (v # vs). isShardingDataguardTopologyLocked u"
    and "old = sdb_Spec v" and "new = sdb_Spec (last (v # vs))"
  shows "normalizeReplicationType new = normalizeReplicationType old \<and> modeString (detectShardingMode new) = modeString (detectShardingMode old) \<and>
    spec_EnableTCPS new = spec_EnableTCPS old \<and> TrimSpace (spec_TcpsTlsSecret new) = TrimSpace (spec_TcpsTlsSecret old) \<and>
    map (\<lambda>s. (sh_Name s, sh_ShardSpace s, sh_ShardGroup s, sh_ShardRegion s, sh_DeployAs s, sh_PrimaryDatabaseRef s, sh_StandbyConfig s)) (spec_Shard new) =
    map (\<lambda>s. (sh_Name s, sh_ShardSpace s, sh_ShardGroup s, sh_ShardRegion s, sh_DeployAs s, sh_PrimaryDatabaseRef s, sh_StandbyConfig s)) (spec_Shard old) \<and>
    map (\<lambda>i. (si_ShardPreFixName i, si_ShardNum i, si_Replicas i, si_ShardGroupDetails i, si_ShardSpaceDetails i,
      si_PrimaryDatabaseRef i, si_StandbyConfig i, si_ExternalPrimarySources i)) (spec_ShardInfo new) =
    map (\<lambda>i. (si_ShardPreFixName i, si_ShardNum i, si_Replicas i, si_ShardGroupDetails i, si_ShardSpaceDetails i,
      si_PrimaryDatabaseRef i, si_StandbyConfig i, si_ExternalPrimarySources i)) (spec_ShardInfo old) \<and>
    spec_ShardGroup new = spec_ShardGroup old \<and> spec_ShardSpace new = spec_ShardSpace old"
proof -
  note e = locked_projection_fixed [OF assms(1,2)]
  note sel = arg_cong [OF e, of dtp_ReplicationType] arg_cong [OF e, of dtp_ShardingType] arg_cong [OF e, of dtp_EnableTCPS]
    arg_cong [OF e, of dtp_TcpsTlsSecret] arg_cong [OF e, of dtp_ShardGroup] arg_cong [OF e, of dtp_ShardSpace]
    arg_cong [OF arg_cong [OF e, of dtp_Shard], of "map (\<lambda>s. (dsp_Name s, dsp_ShardSpace s, dsp_ShardGroup s, dsp_ShardRegion s, dsp_DeployAs s,
      dsp_PrimaryDatabaseRef s, dsp_StandbyConfig s))"]
    arg_cong [OF arg_cong [OF e, of dtp_ShardInfo], of "map (\<lambda>i. (dip_ShardPreFixName i, dip_ShardNum i, dip_Replicas i, dip_ShardGroupDetails i,
      dip_ShardSpaceDetails i, dip_PrimaryDatabaseRef i, dip_StandbyConfig i, dip_ExternalPrimarySources i))"]
  show ?thesis
    unfolding assms(3,4) using sel by (simp only: buildShardingDataguardTopologyProjection_def Let_def map_map comp_def
        shardingDataguardTopologyProjection.simps shardingDataguardShardProjection.simps shardingDataguardShardInfoProjection.simps simp_thms)
qed



section \<open>Storage over the life of an object\<close>

definition goodShards :: "ShardingDatabase \<Rightarrow> bool" where
  "goodShards cr \<longleftrightarrow> distinct (List.map_filter (\<lambda>s. trimmedKey (sh_Name s)) (spec_Shard (sdb_Spec cr))) \<and>
     (\<forall>s \<in> set (spec_Shard (sdb_Spec cr)). sh_StorageSizeInGb s > 0)"

lemma noShrinkErrs_map:
  assumes "\<And>s. nm (f s) = nm s \<and> sz (f s) = sz s"
  shows "noShrinkErrs nm sz kind old (map f new) = [] \<longleftrightarrow> noShrinkErrs nm sz kind old new = []"
  unfolding noShrinkErrs_def range_errs_Nil_iff by (auto simp: assms split: option.splits)

lemma map_filter_map: "List.map_filter key (map f xs) = List.map_filter (\<lambda>x. key (f x)) xs"
  by (induction xs) (auto simp: List.map_filter_simps split: option.splits)

lemma created_good:
  assumes "created dns cr"
  shows "goodShards cr"
  using assms
proof (cases rule: created.cases)
  case (1 req s)
  have "validateShardingMemberServiceNames dns s = []"
    using 1(3) by (auto simp: 1(2) ValidateCreate_def Let_def split: prod.splits)
  then show ?thesis using service_names_shards Default_sizes [OF 1(1)] by (simp add: goodShards_def 1(2))
qed

lemma admission_good:
  assumes "admission dns old new" and "goodShards old"
  shows "goodShards new \<and>
    noShrinkErrs sh_Name sh_StorageSizeInGb ''shard'' (spec_Shard (sdb_Spec old)) (spec_Shard (sdb_Spec new)) = []"
  using assms(1)
proof (cases rule: admission.cases)
  case (update req s)
  obtain spec2 where 2: "validateShardingMemberServiceNames dns spec2 = []"
    "validateStorageSizeNoShrink spec2 (Some (sdb_Spec old)) = []"
    "spec2 = snd (validateShardOperationRules (snd (validateShardInfo (sdb_Namespace new) (sdb_Spec new))))"
    using ValidateUpdate_Nil_D(3) [OF update(3)] by blast
  obtain f where f: "spec_Shard spec2 = map f (spec_Shard (sdb_Spec new))"
    "\<And>s. sh_Name (f s) = sh_Name s \<and> sh_StorageSizeInGb (f s) = sh_StorageSizeInGb s"
    using validateShardOperationRules_snd [of "snd (validateShardInfo (sdb_Namespace new) (sdb_Spec new))"] 2(3) by auto
  have "distinct (List.map_filter (\<lambda>s. trimmedKey (sh_Name s)) (spec_Shard (sdb_Spec new)))"
    using service_names_shards [OF 2(1)] by (simp add: f map_filter_map)
  moreover have "sdb_Spec new = s" by (simp add: update(2))
  ultimately have "goodShards new" using Default_sizes [OF update(1)] by (simp add: goodShards_def)
  moreover have "noShrinkErrs sh_Name sh_StorageSizeInGb ''shard'' (spec_Shard (sdb_Spec old)) (spec_Shard (sdb_Spec new)) = []"
    using 2(2) noShrinkErrs_map [of sh_Name f sh_StorageSizeInGb] f(2) by (simp add: validateStorageSizeNoShrink_def f(1))
  ultimately show ?thesis by blast
next
  case (status st)
  have d: "distinct (List.map_filter (\<lambda>s. trimmedKey (sh_Name s)) (spec_Shard (sdb_Spec old)))"
    using assms(2) by (simp add: goodShards_def)
  have "noShrinkErrs sh_Name sh_StorageSizeInGb ''shard'' (spec_Shard (sdb_Spec old)) (spec_Shard (sdb_Spec old)) = []"
    unfolding shard_size.accepted_iff [OF d]
    using map_filter_distinct_inj [OF d] by (metis option.exhaust shard_size.keeps_refl)
  then show ?thesis using assms(2) status by (simp add: goodShards_def)
qed

lemma run_good:
  assumes "goodShards v" and "successively (admission dns) (v # vs)"
  shows "(\<forall>u \<in> set (v # vs). goodShards u) \<and> successively (\<lambda>old new. noShrinkErrs sh_Name sh_StorageSizeInGb ''shard'' old new = [])
    (map (\<lambda>u. spec_Shard (sdb_Spec u)) (v # vs))"
  using assms
proof (induction vs arbitrary: v)
  case (Cons w ws)
  then have "goodShards w \<and>
      noShrinkErrs sh_Name sh_StorageSizeInGb ''shard'' (spec_Shard (sdb_Spec v)) (spec_Shard (sdb_Spec w)) = []"
    using admission_good [of dns v w] by simp
  then show ?case using Cons.IH [of w] Cons.prems by simp
qed simp

text \<open>
  C1: a shard of a created object never loses storage: through any sequence of admitted updates and
  status writes, as long as every version has a shard of that name, its size in the last version is
  at least its size in the first.
\<close>

theorem stored_shard_never_shrinks:
  assumes "created dns v" and "successively (admission dns) (v # vs)"
    and "\<forall>u \<in> set (v # vs). \<exists>s \<in> set (spec_Shard (sdb_Spec u)). TrimSpace (sh_Name s) = k" and "k \<noteq> []"
    and "x \<in> set (spec_Shard (sdb_Spec v))" and "TrimSpace (sh_Name x) = k"
    and "y \<in> set (spec_Shard (sdb_Spec (last (v # vs))))" and "TrimSpace (sh_Name y) = k"
  shows "sh_StorageSizeInGb x \<le> sh_StorageSizeInGb y"
proof -
  let ?sh = "\<lambda>u. spec_Shard (sdb_Spec u)"
  have key: "trimmedKey (sh_Name s) = Some k \<longleftrightarrow> TrimSpace (sh_Name s) = k" for s
    using assms(4) by (auto simp: trimmedKey_def)
  have good: "\<forall>u \<in> set (v # vs). goodShards u"
    and chain: "successively (\<lambda>old new. noShrinkErrs sh_Name sh_StorageSizeInGb ''shard'' old new = []) (?sh v # map ?sh vs)"
    using run_good [OF created_good [OF assms(1)] assms(2)] by simp_all
  have last: "?sh (last (v # vs)) = last (?sh v # map ?sh vs)" using last_map [of "v # vs" ?sh] by simp
  have "sizeKept sh_StorageSizeInGb x y"
  proof (rule shard_size.chain_keeps [OF chain, of k])
    show "\<exists>m \<in> set u. trimmedKey (sh_Name m) = Some k" if "u \<in> set (?sh v # map ?sh vs)" for u
      using that assms(3) by (auto simp: key)
  qed (use good assms(5-8) last in \<open>auto simp: key goodShards_def\<close>)
  moreover have "last (v # vs) \<in> set (v # vs)" by (rule last_in_set) simp
  then have "sh_StorageSizeInGb x > 0" "sh_StorageSizeInGb y > 0"
    using good assms(5,7) by (auto simp: goodShards_def)
  ultimately show ?thesis by (simp add: sizeKept_def)
qed



section \<open>An object and its updates\<close>

definition plainShard :: "int \<Rightarrow> ShardSpec" where
  "plainShard n = zeroShardSpec\<lparr>sh_Name := ''s1'', sh_StorageSizeInGb := n, sh_IsDelete := ''disable'', sh_ShardGroup := ''g1''\<rparr>"

definition plainSpec :: "int \<Rightarrow> ShardingDatabaseSpec" where
  "plainSpec n = zeroShardingDatabaseSpec\<lparr>spec_Shard := [plainShard n], spec_GsmDevMode := ''dev'', spec_IsTdeWallet := ''disable'',
     spec_Dataguard := Some \<lparr>dgp_Mode = ''Preview'', dgp_Prereqs = None, dgp_AuthWallet = None, dgp_StandbySources = []\<rparr>,
     spec_ShardingType := ''SYSTEM'', spec_ReplicationType := ''DG'',
     spec_DbSecret := Some (zeroSecretDetails\<lparr>sec_Name := ''sec'', sec_MountPath := ''/mnt'', sec_UseGsmWallet := ''true'',
       sec_GsmWalletRoot := ''/w'', sec_DbAdmin := zeroPasswordSecretConfig\<lparr>pwd_PasswordKey := ''k''\<rparr>\<rparr>)\<rparr>"

definition plainObject :: "int \<Rightarrow> ShardingDatabase" where
  "plainObject n = zeroShardingDatabase\<lparr>sdb_Name := ''db'', sdb_Spec := plainSpec n\<rparr>"

lemma plainSpec_fields:
  "spec_Shard (plainSpec n) = [plainShard n]" "spec_ShardInfo (plainSpec n) = []" "spec_Catalog (plainSpec n) = []"
  "spec_Gsm (plainSpec n) = []" "spec_GsmInfo (plainSpec n) = None" "spec_TDEWallet (plainSpec n) = None"
  "spec_ShardingType (plainSpec n) = ''SYSTEM''" "spec_ReplicationType (plainSpec n) = ''DG''"
  "spec_DbEdition (plainSpec n) = []" "spec_IsExternalSvc (plainSpec n) = False" "spec_IsTdeWallet (plainSpec n) = ''disable''"
  "spec_TdeWalletPvc (plainSpec n) = []"
  "spec_Dataguard (plainSpec n) = Some \<lparr>dgp_Mode = ''Preview'', dgp_Prereqs = None, dgp_AuthWallet = None, dgp_StandbySources = []\<rparr>"
  "spec_DbSecret (plainSpec n) = Some (zeroSecretDetails\<lparr>sec_Name := ''sec'', sec_MountPath := ''/mnt'', sec_UseGsmWallet := ''true'',
     sec_GsmWalletRoot := ''/w'', sec_DbAdmin := zeroPasswordSecretConfig\<lparr>pwd_PasswordKey := ''k''\<rparr>\<rparr>)"
  "spec_GsmDevMode (plainSpec n) = ''dev''"
  by (simp_all add: plainSpec_def zeroShardingDatabaseSpec_def)

lemma plainShard_fields:
  "sh_Name (plainShard n) = ''s1''" "sh_StorageSizeInGb (plainShard n) = n" "sh_IsDelete (plainShard n) = ''disable''"
  "sh_ShardGroup (plainShard n) = ''g1''" "sh_ShardSpace (plainShard n) = []" "sh_DeployAs (plainShard n) = []"
  "sh_AdditionalPVCs (plainShard n) = []" "sh_StorageSource (plainShard n) = None" "sh_Nodes (plainShard n) = []"
  "sh_NodeSelector (plainShard n) = []" "sh_GgService (plainShard n) = []" "sh_Replace (plainShard n) = []"
  "sh_CloneSchemas (plainShard n) = False" "sh_EnvVars (plainShard n) = []"
  by (simp_all add: plainShard_def zeroShardSpec_def)

lemma plain_modes: "normalizeShardingType (plainSpec n) = modeSystem" "normalizeReplicationType (plainSpec n) = replDG"
  "detectShardingMode (plainSpec n) = modeUnknown"
  by (simp_all add: normalizeShardingType_def normalizeReplicationType_def normalizeReplicationValue_def detectShardingMode_def
      plainSpec_fields repl_defs Let_def go_eval)

lemma plain_scalars: "defaultScalars (plainSpec n) = plainSpec n"
  by (simp add: defaultScalars_def getTDEWalletEnabledFromSpec_def plainSpec_fields normalizeDataguardProducerMode_def
      EffectiveDataguardProducerMode_def go_eval)

lemma plain_global: "applyGlobalShardingReplicationDefaults (plainSpec n) = plainSpec n"
proof -
  have "resolveTopSharding (plainSpec n) = ''SYSTEM''" "resolveTopRepl (plainSpec n) = ''DG''"
    by (simp_all add: resolveTopSharding_def resolveTopRepl_def normalizeShardingValue_def normalizeReplicationValue_def
        plainSpec_fields repl_defs Let_def go_eval)
  then show ?thesis
    by (simp add: applyGlobalShardingReplicationDefaults_def plainSpec_fields)
qed

lemma plain_shard: "n > 0 \<Longrightarrow> defaultShard (plainShard n) = plainShard n"
  by (simp add: defaultShard_def plainShard_fields normalizeDeployAsCanonical_def defaultAdditionalPVCs_def Let_def go_eval)

lemma plain_default: "n > 0 \<Longrightarrow> Default (plainSpec n) = Inr (plainSpec n)"
proof -
  assume n: "n > 0"
  have p: "prepareSpec (plainSpec n) = plainSpec n"
    by (simp add: prepareSpec_def plain_scalars plain_global plainSpec_fields plain_shard n)
  have "desiredShardReplicaTotal (plainSpec n) = (0, [])"
    by (simp add: desiredShardReplicaTotal_def plainSpec_fields wrap32_def)
  moreover have "finishSpec (plainSpec n) = plainSpec n"
    by (simp add: finishSpec_def defaultGsmPhase_def applyGsmInfoDefaults_def extractAndStripInlineGsmDefaults_def plainSpec_fields
        defaultPasswordSecretConfig_def defaultPasswordEntry_def zeroSecretDetails_def zeroPasswordSecretConfig_def go_eval)
  ultimately show ?thesis using p by (simp add: Default_def rebuildShards_def)
qed

lemma plain_info: "validateShardInfo ns (plainSpec n) = ([], plainSpec n)"
proof -
  have "validateDesiredShardReplicaCounts (plainSpec n) = []"
    by (simp add: validateDesiredShardReplicaCounts_def desiredShardReplicaTotal_def plainSpec_fields wrap32_def)
  then show ?thesis
    by (simp add: validateShardInfo_def infoLoop_def plainSpec_fields plain_modes finalErrs_def emptyInfoState_def repl_defs Let_def)
qed

lemma plain_ops: "validateShardOperationRules (plainSpec n) = ([], plainSpec n)"
proof -
  have "opsLoops (plainSpec n) = emptyOpsState"
    by (simp add: opsLoops_def plainSpec_fields plain_modes opsShard_def shardMode_def shardRoleErrs_def shardModeErrs_def
        plainShard_fields role0_def upperKey_def normalizeDeployAsCanonical_def emptyOpsState_def Let_def go_eval)
  moreover have "canonShard modeSystem replDG (plainShard n) = plainShard n"
    by (simp add: canonShard_def shardMode_def plainShard_fields normalizeDeployAsCanonical_def go_eval)
  ultimately show ?thesis
    by (simp add: validateShardOperationRules_def plainSpec_fields plain_modes opsFinalErrs_def emptyOpsState_def)
qed

lemma plain_checks:
  "validateDataguardProducerSpec p (spec_Dataguard (plainSpec n)) = []"
  "validateDbSecretConfig (plainSpec n) = []" "tdeWalletErrs (plainSpec n) = []" "validateShardIsDelete (plainSpec n) = []"
  "validateFreeEdition (plainSpec n) = []" "validateCatalogName (plainSpec n) = []" "validateGsmConfig (plainSpec n) = []"
  "validateShardingMemberServiceNames (\<lambda>_. True) (plainSpec n) = []" "validateCatalogTopologyConsistency (plainSpec n) = []"
  "validateShardAdvancedParams (plainSpec n) = []" "validateCatalogAdvancedParams (plainSpec n) = []"
  "validateComputeSizingPathConfig (plainSpec n) = []" "validateAdditionalPVCConfig (plainSpec n) = []"
  by (simp_all add: plainSpec_fields plainShard_fields validateDataguardProducerSpec_def normalizeDataguardProducerMode_def
      EffectiveDataguardProducerMode_def dgModeErrs_def DataguardProducerModePreview_def DataguardProducerModeDisabled_def DataguardProducerModeManaged_def range_seen_def
      validateStorageSource_def validateAdditionalPVCEntries_def validateDbSecretConfig_def
      validatePasswordSecretConfig_def zeroSecretDetails_def zeroPasswordSecretConfig_def tdeWalletErrs_def
      getTDEWalletEnabledFromSpec_def getTDEWalletPVCFromSpec_def validateShardIsDelete_def deleteStateDisable_def
      validateFreeEdition_def validateCatalogName_def validateGsmConfig_def validateShardingMemberServiceNames_def
      serviceMembers_def indexed_def validateMemberName_def register_def validateCatalogTopologyConsistency_def
      validateShardAdvancedParams_def shardAdvancedErrs_def validateCatalogAdvancedParams_def validateComputeSizingPathConfig_def
      validateAdditionalPVCConfig_def shardStorageErrs_def Let_def go_eval)

lemma plain_update_checks:
  "immutableErrs (plainSpec m) (plainSpec n) = []"
  "validateComputeSizingPathUpdate (plainSpec n) (Some (plainSpec m)) = []"
  "m \<le> n \<Longrightarrow> ShardingDatabase_validateAdditionalPVCUpdate (plainSpec n) (Some (plainSpec m)) = []"
  "m \<le> n \<Longrightarrow> validateStorageSizeNoShrink (plainSpec n) (Some (plainSpec m)) = []"
  by (simp_all add: plainSpec_fields plainShard_fields validateStorageSizeNoShrink_def noShrinkErrs_def indexBy_def trimmedKey_def
    validateComputeSizingPathUpdate_def ShardingDatabase_validateAdditionalPVCUpdate_def pvcUpdateErrs_def validateAdditionalPVCUpdate_def
    pvcOldErrs_def pvcNewErrs_def range_map_def mergeAdditionalPVCs_def sizingUpdateErrs_def immutableErrs_def plain_modes Let_def go_eval)

lemma plain_created: "n > 0 \<Longrightarrow> created (\<lambda>_. True) (plainObject n)"
  by (rule created.intros [of "plainObject n" "plainSpec n"])
    (simp_all add: plainObject_def plain_default ValidateCreate_def plain_checks plain_info plain_ops)

definition withStatus :: "ShardingDatabaseStatus \<Rightarrow> int \<Rightarrow> ShardingDatabase" where
  "withStatus st n = (plainObject n)\<lparr>sdb_Status := st\<rparr>"

lemma plain_update:
  assumes "0 < m" "m \<le> n" and "updateLockErrs (withStatus st m) (withStatus st n) = []"
  shows "snd (ValidateUpdate (\<lambda>_. True) (withStatus st m) (withStatus st n)) = []"
  using assms by (simp add: ValidateUpdate_def withStatus_def plainObject_def plain_checks plain_info plain_ops plain_update_checks)

lemma plain_admission:
  assumes "0 < m" "m \<le> n" and "updateLockErrs (withStatus st m) (withStatus st n) = []"
  shows "admission (\<lambda>_. True) (withStatus st m) (withStatus st n)"
  by (rule admission.update [of "withStatus st n" "plainSpec n"])
    (use assms in \<open>simp_all add: plain_update\<close>, simp_all add: withStatus_def plainObject_def plain_default)


section \<open>Witnesses\<close>

definition busyStatus :: ShardingDatabaseStatus where
  "busyStatus = \<lparr>st_Dataguard = None,
     st_CrdStatus = [\<lparr>cond_Type = ''Reconciling'', cond_Status = ''True'', cond_ObservedGeneration = 4, cond_LastTransitionTime = 0,
       cond_Reason = ''UpdateInProgress'', cond_Message = ''busy''\<rparr>]\<rparr>"

definition lockedStatus :: ShardingDatabaseStatus where
  "lockedStatus = \<lparr>st_Dataguard = Some (zeroDataguardStatus\<lparr>sdg_TopologyLocked := True\<rparr>), st_CrdStatus = []\<rparr>"

lemma lockedStatus_free: "updateLockErrs (withStatus lockedStatus m) (withStatus lockedStatus n) = []"
  by (simp add: updateLockErrs_def withStatus_def plainObject_def lockedStatus_def isControllerUpdateLocked_def
      IsControllerUpdateLocked_def hasShardingDataguardTopologyChange_def
      buildShardingDataguardTopologyProjection_def plainSpec_fields plainShard_fields plain_modes Let_def)
    (simp add: plainSpec_def plainShard_def zeroShardSpec_def zeroShardingDatabaseSpec_def)

theorem locked_update_keeps_spec_witness:
  "snd (ValidateUpdate (\<lambda>_. True) (withStatus busyStatus 100) (withStatus busyStatus 100)) = [] \<and>
   isControllerUpdateLocked (Some (withStatus busyStatus 100)) = (True, 4, ''busy'') \<and>
   sdb_Spec (withStatus busyStatus 100) = sdb_Spec (withStatus busyStatus 100)"
proof -
  have u: "snd (ValidateUpdate (\<lambda>_. True) (withStatus busyStatus 100) (withStatus busyStatus 100)) = []"
    by (rule plain_update) (simp_all add: updateLockErrs_def)
  have l: "isControllerUpdateLocked (Some (withStatus busyStatus 100)) = (True, 4, ''busy'')"
    by (simp add: isControllerUpdateLocked_def withStatus_def busyStatus_def IsControllerUpdateLocked_def
        DefaultReconcilingConditionType_def DefaultUpdateLockReason_def ConditionTrue_def go_eval)
  show ?thesis
    using u l locked_update_keeps_spec [OF u l] by simp
qed

theorem replication_type_immutable_witness:
  "(admission (\<lambda>_. True))\<^sup>*\<^sup>* (withStatus lockedStatus 100) (withStatus lockedStatus 120) \<and>
   normalizeReplicationType (sdb_Spec (withStatus lockedStatus 120)) = normalizeReplicationType (sdb_Spec (withStatus lockedStatus 100))"
proof -
  have a: "(admission (\<lambda>_. True))\<^sup>*\<^sup>* (withStatus lockedStatus 100) (withStatus lockedStatus 120)"
    using plain_admission [of 100 120 lockedStatus] by (simp add: lockedStatus_free r_into_rtranclp)
  show ?thesis using a replication_type_immutable [OF a] by blast
qed

theorem locked_topology_immutable_witness:
  "successively (admission (\<lambda>_. True)) [withStatus lockedStatus 100, withStatus lockedStatus 120] \<and>
   map sh_Name (spec_Shard (sdb_Spec (withStatus lockedStatus 120))) = map sh_Name (spec_Shard (sdb_Spec (withStatus lockedStatus 100)))"
proof -
  have a: "successively (admission (\<lambda>_. True)) [withStatus lockedStatus 100, withStatus lockedStatus 120]"
    by (simp add: plain_admission lockedStatus_free)
  have l: "\<forall>u \<in> set [withStatus lockedStatus 100, withStatus lockedStatus 120]. isShardingDataguardTopologyLocked u"
    by (simp add: isShardingDataguardTopologyLocked_def withStatus_def lockedStatus_def)
  show ?thesis using a locked_topology_immutable [OF a l refl refl] by (simp add: withStatus_def plainObject_def plainSpec_fields plainShard_fields)
qed

theorem stored_shard_never_shrinks_witness:
  "successively (admission (\<lambda>_. True)) [plainObject 100, withStatus lockedStatus 100, withStatus lockedStatus 120] \<and>
   sh_StorageSizeInGb (plainShard 100) \<le> sh_StorageSizeInGb (plainShard 120)"
proof -
  have a: "successively (admission (\<lambda>_. True)) [plainObject 100, withStatus lockedStatus 100, withStatus lockedStatus 120]"
    using plain_admission [of 100 120 lockedStatus]
    by (simp add: lockedStatus_free admission.status [OF withStatus_def])
  have shards: "spec_Shard (sdb_Spec (withStatus st n)) = [plainShard n]" "spec_Shard (sdb_Spec (plainObject n)) = [plainShard n]" for st n
    by (simp_all add: withStatus_def plainObject_def plainSpec_fields)
  have "sh_StorageSizeInGb (plainShard 100) \<le> sh_StorageSizeInGb (plainShard 120)"
    by (rule stored_shard_never_shrinks [OF plain_created a, where k = "''s1''"])
      (simp_all add: shards plainShard_fields go_eval)
  then show ?thesis using a by simp
qed

end
