(* ===== verification/Sharding_Reconcile.thy ===== *)
theory Sharding_Reconcile
  imports Sharding_Webhook
begin

text \<open>
  The reconcile pass of \<^verbatim>\<open>controllers/database/shardingdatabase_controller.go\<close>: the conditions it
  writes, the update lock it takes and honours, and the order of its phases. The cluster is a
  parameter: each phase is a function of the object in memory and the status draft, and so are the
  read of the object, the snapshot of the last successful specification and the credential
  synchronisation. \<^verbatim>\<open>meta.SetStatusCondition\<close> is the parameter \<open>setc\<close>, of which only its documented
  effect is used (\<open>sets_condition\<close>). No phase writes to the condition set it is handed. Durations are
  in seconds, and \<open>now\<close> stands for every \<^verbatim>\<open>metav1.Now()\<close> of the pass.
\<close>

record phaseResult =
  pr_wait :: bool
  pr_requeueAfter :: int
  pr_err :: "string option"
  pr_reason :: string
  pr_message :: string

record conditionSet =
  cs_observedGen :: int
  cs_ready :: Condition
  cs_reconciling :: Condition
  cs_degraded :: Condition

definition updateLockRequeue :: int where
  "updateLockRequeue = 15"

definition statusRefreshRequeue :: int where
  "statusRefreshRequeue = 60"

definition newConditionSet :: "int \<Rightarrow> int \<Rightarrow> conditionSet" where
  "newConditionSet now gen =
     \<lparr>cs_observedGen = gen,
      cs_ready = \<lparr>cond_Type = ''Ready'', cond_Status = ConditionFalse, cond_ObservedGeneration = gen,
        cond_LastTransitionTime = now, cond_Reason = [], cond_Message = []\<rparr>,
      cs_reconciling = \<lparr>cond_Type = ''Reconciling'', cond_Status = ConditionTrue, cond_ObservedGeneration = gen,
        cond_LastTransitionTime = now, cond_Reason = [], cond_Message = []\<rparr>,
      cs_degraded = \<lparr>cond_Type = ''Degraded'', cond_Status = ConditionFalse, cond_ObservedGeneration = gen,
        cond_LastTransitionTime = now, cond_Reason = [], cond_Message = []\<rparr>\<rparr>"

definition setCondition :: "int \<Rightarrow> int \<Rightarrow> string \<Rightarrow> string \<Rightarrow> string \<Rightarrow> Condition \<Rightarrow> Condition" where
  "setCondition now gen status reason message c =
     c\<lparr>cond_Status := status, cond_Reason := reason, cond_Message := message,
       cond_ObservedGeneration := gen, cond_LastTransitionTime := now\<rparr>"

definition markDegraded :: "int \<Rightarrow> conditionSet \<Rightarrow> string \<Rightarrow> string \<Rightarrow> conditionSet" where
  "markDegraded now c reason message =
     c\<lparr>cs_degraded := setCondition now (cs_observedGen c) ConditionTrue reason message (cs_degraded c),
       cs_ready := setCondition now (cs_observedGen c) ConditionFalse ''Degraded'' message (cs_ready c),
       cs_reconciling := setCondition now (cs_observedGen c) ConditionFalse ''ReconcileFailed'' message (cs_reconciling c)\<rparr>"

definition markReconciling :: "int \<Rightarrow> conditionSet \<Rightarrow> string \<Rightarrow> string \<Rightarrow> conditionSet" where
  "markReconciling now c reason message =
     c\<lparr>cs_reconciling := setCondition now (cs_observedGen c) ConditionTrue reason message (cs_reconciling c),
       cs_ready := setCondition now (cs_observedGen c) ConditionFalse ''Reconciling'' message (cs_ready c),
       cs_degraded := setCondition now (cs_observedGen c) ConditionFalse ''NoError'' [] (cs_degraded c)\<rparr>"

definition markReady :: "int \<Rightarrow> conditionSet \<Rightarrow> conditionSet" where
  "markReady now c =
     c\<lparr>cs_ready := setCondition now (cs_observedGen c) ConditionTrue ''ReconcileComplete''
         ''Last reconcile cycle completed successfully'' (cs_ready c),
       cs_reconciling := setCondition now (cs_observedGen c) ConditionFalse ''LastReconcileCycleCompleted''
         ''No pending reconcile work'' (cs_reconciling c),
       cs_degraded := setCondition now (cs_observedGen c) ConditionFalse ''NoError'' [] (cs_degraded c)\<rparr>"

text \<open>
  The write of the status: the draft replaces the stored status, then the three conditions are set.
  (A write that conflicts is retried on the object read again; one that fails leaves the object as it is.)
\<close>

definition flushStatus ::
    "(Condition list \<Rightarrow> Condition \<Rightarrow> Condition list) \<Rightarrow> ShardingDatabaseStatus \<times> conditionSet \<Rightarrow> ShardingDatabase \<Rightarrow> ShardingDatabase" where
  "flushStatus setc w obj =
     (case w of (draft, conds) \<Rightarrow>
        obj\<lparr>sdb_Status := draft\<lparr>st_CrdStatus :=
          setc (setc (setc (st_CrdStatus draft) (cs_ready conds)) (cs_reconciling conds)) (cs_degraded conds)\<rparr>\<rparr>)"


section \<open>The update lock\<close>

definition isMutatingProgressReason :: "string \<Rightarrow> bool" where
  "isMutatingProgressReason reason \<longleftrightarrow>
     TrimSpace reason \<in> {''PrimaryShardProgress'', ''StandbyShardProgress'', ''ScaleInProgress'', ''ShardStatePending'',
       ''OrderedShapeReconcileRetry'', ''OrderedShapeReconcileBlocked''}"

definition shouldEnforceUpdateLock :: "ShardingDatabaseSpec option \<Rightarrow> ShardingDatabaseSpec option \<Rightarrow> bool" where
  "shouldEnforceUpdateLock oldSpec newSpec =
     (case (oldSpec, newSpec) of
        (Some old, Some new) \<Rightarrow>
          old\<lparr>spec_DbSecret := None, spec_TopicId := []\<rparr> \<noteq> new\<lparr>spec_DbSecret := None, spec_TopicId := []\<rparr>
      | _ \<Rightarrow> True)"

definition isUpdateLockActive :: "ShardingDatabase option \<Rightarrow> bool \<times> int \<times> string" where
  "isUpdateLockActive inst =
     (case inst of None \<Rightarrow> (False, 0, [])
      | Some i \<Rightarrow> IsControllerUpdateLocked (st_CrdStatus (sdb_Status i)) DefaultReconcilingConditionType DefaultUpdateLockReason)"

text \<open>The guard at the start of the pass; \<open>lastSucc\<close> is the result of \<^verbatim>\<open>GetLastSuccessfulSpec\<close>.\<close>

definition enforceLock :: "string + ShardingDatabaseSpec option \<Rightarrow> ShardingDatabaseSpec \<Rightarrow> bool" where
  "enforceLock lastSucc spec =
     (case lastSucc of Inl err \<Rightarrow> True | Inr None \<Rightarrow> True | Inr (Some s) \<Rightarrow> shouldEnforceUpdateLock (Some s) (Some spec))"

definition lockBlocks :: "bool \<Rightarrow> string + ShardingDatabaseSpec option \<Rightarrow> ShardingDatabase \<Rightarrow> bool" where
  "lockBlocks deleting lastSucc inst \<longleftrightarrow>
     \<not> deleting \<and>
     (case isUpdateLockActive (Some inst) of (locked, lockGen, lockMsg) \<Rightarrow> locked \<and> sdb_Generation inst > lockGen) \<and>
     enforceLock lastSucc (sdb_Spec inst) \<and> \<not> fst (isUpdateLockOverrideEnabled (Some inst))"

definition blockedMessage :: "ShardingDatabase \<Rightarrow> string" where
  "blockedMessage inst =
     (case isUpdateLockActive (Some inst) of (locked, lockGen, lockMsg) \<Rightarrow>
        let msg = ''Previous update is still in progress (lockedGeneration='' @ itoa lockGen @ ''). '' @ lockMsg;
            overrideMsg = snd (isUpdateLockOverrideEnabled (Some inst))
        in if blank overrideMsg then msg else msg @ '' Break-glass override rejected: '' @ overrideMsg)"


section \<open>The pass\<close>

type_synonym phaseFn = "ShardingDatabase \<times> ShardingDatabaseStatus \<Rightarrow> phaseResult \<times> ShardingDatabase \<times> ShardingDatabaseStatus"

datatype getResult = NotFound | GetFailed string | Got ShardingDatabase

record cluster =
  cl_deleting :: bool
  cl_last :: "string + ShardingDatabaseSpec option"
  cl_phase :: "string \<Rightarrow> phaseFn"
  cl_credentials :: "ShardingDatabase \<times> ShardingDatabaseStatus \<Rightarrow> int \<times> ShardingDatabaseStatus"
  cl_flushFails :: bool

record outcome =
  out_requeueAfter :: int
  out_err :: "string option"
  out_write :: "(ShardingDatabaseStatus \<times> conditionSet) option"

definition phases :: "string list" where
  "phases = [''validate_plan'', ''ensure_core_resources'', ''validate_core'', ''primary_shard_ops'',
     ''standby_shard_ops'', ''scale_ops'', ''post_sync'']"

datatype loopEnd = Done "ShardingDatabase \<times> ShardingDatabaseStatus" | Stopped outcome

text \<open>The body of the loop over the phases: an error degrades, a wait requeues, otherwise the next phase runs.\<close>

definition phaseStep :: "int \<Rightarrow> cluster \<Rightarrow> conditionSet \<Rightarrow> string \<Rightarrow> loopEnd \<Rightarrow> loopEnd" where
  "phaseStep now cl conds name acc =
     (case acc of Stopped out \<Rightarrow> Stopped out
      | Done s \<Rightarrow>
          (case cl_phase cl name s of (pr, inst, status) \<Rightarrow>
             case pr_err pr of
               Some e \<Rightarrow> Stopped \<lparr>out_requeueAfter = 0, out_err = Some e,
                 out_write = Some (status, markDegraded now conds (pr_reason pr) (pr_message pr))\<rparr>
             | None \<Rightarrow>
                 if pr_wait pr then
                   (let (reason, message) = (if isMutatingProgressReason (pr_reason pr)
                          then (DefaultUpdateLockReason, pr_reason pr @ '': '' @ pr_message pr)
                          else (pr_reason pr, pr_message pr))
                    in Stopped \<lparr>out_requeueAfter = pr_requeueAfter pr, out_err = None,
                         out_write = Some (status, markReconciling now conds reason message)\<rparr>)
                 else Done (inst, status)))"

text \<open>The delete phase runs first and keeps the reason it waits with.\<close>

definition deleteStep :: "int \<Rightarrow> cluster \<Rightarrow> conditionSet \<Rightarrow> ShardingDatabase \<times> ShardingDatabaseStatus \<Rightarrow> loopEnd" where
  "deleteStep now cl conds s =
     (case cl_phase cl ''delete'' s of (pr, inst, status) \<Rightarrow>
        case pr_err pr of
          Some e \<Rightarrow> Stopped \<lparr>out_requeueAfter = 0, out_err = Some e,
            out_write = Some (status, markDegraded now conds (pr_reason pr) (pr_message pr))\<rparr>
        | None \<Rightarrow>
            if pr_wait pr then Stopped \<lparr>out_requeueAfter = pr_requeueAfter pr, out_err = None,
              out_write = Some (status, markReconciling now conds (pr_reason pr) (pr_message pr))\<rparr>
            else Done (inst, status))"

definition finishPass :: "int \<Rightarrow> cluster \<Rightarrow> conditionSet \<Rightarrow> ShardingDatabase \<times> ShardingDatabaseStatus \<Rightarrow> outcome" where
  "finishPass now cl conds s =
     (case cl_credentials cl s of (retryAfter, status) \<Rightarrow>
        \<lparr>out_requeueAfter = (if cl_flushFails cl then 5 else if retryAfter > 0 then retryAfter else statusRefreshRequeue),
         out_err = None, out_write = Some (status, markReady now conds)\<rparr>)"

definition Reconcile :: "int \<Rightarrow> cluster \<Rightarrow> getResult \<Rightarrow> outcome" where
  "Reconcile now cl got =
     (case got of
        NotFound \<Rightarrow> \<lparr>out_requeueAfter = 0, out_err = None, out_write = None\<rparr>
      | GetFailed e \<Rightarrow> \<lparr>out_requeueAfter = 0, out_err = Some e, out_write = None\<rparr>
      | Got inst \<Rightarrow>
          let conds = newConditionSet now (sdb_Generation inst) in
          if lockBlocks (cl_deleting cl) (cl_last cl) inst then
            \<lparr>out_requeueAfter = updateLockRequeue, out_err = None,
             out_write = Some (sdb_Status inst, markReconciling now conds DefaultUpdateLockReason (blockedMessage inst))\<rparr>
          else
            (case fold (phaseStep now cl conds) phases (deleteStep now cl conds (inst, sdb_Status inst)) of
               Stopped out \<Rightarrow> out
             | Done s \<Rightarrow> finishPass now cl conds s))"


section \<open>What a pass writes\<close>

text \<open>
  The documented effect of \<^verbatim>\<open>meta.SetStatusCondition\<close>: the condition of that type gets the new status,
  reason, message and generation (its transition time depends on whether the status changed), and the
  conditions of other types stay as they are.
\<close>

definition sets_condition :: "(Condition list \<Rightarrow> Condition \<Rightarrow> Condition list) \<Rightarrow> bool" where
  "sets_condition setc \<longleftrightarrow> (\<forall>cs c.
     (\<exists>t. FindStatusCondition (setc cs c) (cond_Type c) = Some (c\<lparr>cond_LastTransitionTime := t\<rparr>)) \<and>
     (\<forall>ty. ty \<noteq> cond_Type c \<longrightarrow> FindStatusCondition (setc cs c) ty = FindStatusCondition cs ty))"

lemma sets_condition_D:
  assumes "sets_condition setc"
  shows "\<exists>t. FindStatusCondition (setc cs c) (cond_Type c) = Some (c\<lparr>cond_LastTransitionTime := t\<rparr>)"
    and "ty \<noteq> cond_Type c \<Longrightarrow> FindStatusCondition (setc cs c) ty = FindStatusCondition cs ty"
  using assms by (auto simp: sets_condition_def)

text \<open>A condition set as the pass leaves it: three types, one generation, one of the three true.\<close>

definition settled :: "int \<Rightarrow> conditionSet \<Rightarrow> bool" where
  "settled gen c \<longleftrightarrow>
     cond_Type (cs_ready c) = ''Ready'' \<and> cond_Type (cs_reconciling c) = ''Reconciling'' \<and> cond_Type (cs_degraded c) = ''Degraded'' \<and>
     cond_ObservedGeneration (cs_ready c) = gen \<and> cond_ObservedGeneration (cs_reconciling c) = gen \<and>
     cond_ObservedGeneration (cs_degraded c) = gen \<and>
     length (filter (\<lambda>x. cond_Status x = ConditionTrue) [cs_ready c, cs_reconciling c, cs_degraded c]) = 1"

lemmas mark_defs = markReady_def markReconciling_def markDegraded_def newConditionSet_def setCondition_def
  ConditionTrue_def ConditionFalse_def

lemma settled_marks [simp]:
  "settled gen (markReady now (newConditionSet now gen))"
  "settled gen (markReconciling now (newConditionSet now gen) r m)"
  "settled gen (markDegraded now (newConditionSet now gen) r m)"
  by (simp_all add: settled_def mark_defs)

lemma flush_conditions:
  assumes "sets_condition setc" and "settled gen c"
  shows "\<exists>t. FindStatusCondition (st_CrdStatus (sdb_Status (flushStatus setc (st, c) obj))) ''Ready'' =
           Some ((cs_ready c)\<lparr>cond_LastTransitionTime := t\<rparr>)"
    and "\<exists>t. FindStatusCondition (st_CrdStatus (sdb_Status (flushStatus setc (st, c) obj))) ''Reconciling'' =
           Some ((cs_reconciling c)\<lparr>cond_LastTransitionTime := t\<rparr>)"
    and "\<exists>t. FindStatusCondition (st_CrdStatus (sdb_Status (flushStatus setc (st, c) obj))) ''Degraded'' =
           Some ((cs_degraded c)\<lparr>cond_LastTransitionTime := t\<rparr>)"
proof -
  have ty: "cond_Type (cs_ready c) = ''Ready''" "cond_Type (cs_reconciling c) = ''Reconciling''" "cond_Type (cs_degraded c) = ''Degraded''"
    using assms(2) by (simp_all add: settled_def)
  let ?a = "setc (st_CrdStatus st) (cs_ready c)" let ?b = "setc ?a (cs_reconciling c)" let ?d = "setc ?b (cs_degraded c)"
  have "\<exists>t. FindStatusCondition ?d ''Degraded'' = Some ((cs_degraded c)\<lparr>cond_LastTransitionTime := t\<rparr>)"
    using sets_condition_D(1) [OF assms(1), of ?b "cs_degraded c"] ty by simp
  moreover have "FindStatusCondition ?d ''Reconciling'' = FindStatusCondition ?b ''Reconciling''"
    "FindStatusCondition ?d ''Ready'' = FindStatusCondition ?a ''Ready''"
    using sets_condition_D(2) [OF assms(1)] ty by simp_all
  ultimately show "\<exists>t. FindStatusCondition (st_CrdStatus (sdb_Status (flushStatus setc (st, c) obj))) ''Ready'' =
           Some ((cs_ready c)\<lparr>cond_LastTransitionTime := t\<rparr>)"
    and "\<exists>t. FindStatusCondition (st_CrdStatus (sdb_Status (flushStatus setc (st, c) obj))) ''Reconciling'' =
           Some ((cs_reconciling c)\<lparr>cond_LastTransitionTime := t\<rparr>)"
    and "\<exists>t. FindStatusCondition (st_CrdStatus (sdb_Status (flushStatus setc (st, c) obj))) ''Degraded'' =
           Some ((cs_degraded c)\<lparr>cond_LastTransitionTime := t\<rparr>)"
    using sets_condition_D(1) [OF assms(1), of "st_CrdStatus st" "cs_ready c"]
      sets_condition_D(1) [OF assms(1), of ?a "cs_reconciling c"] ty
    by (simp_all add: flushStatus_def)
qed

lemma flush_lock:
  assumes "sets_condition setc" and "settled gen c"
  shows "isUpdateLockActive (Some (flushStatus setc (st, c) obj)) =
    (if cond_Status (cs_reconciling c) = ConditionTrue \<and> TrimSpace (cond_Reason (cs_reconciling c)) = ''UpdateInProgress''
     then (True, gen, cond_Message (cs_reconciling c)) else (False, 0, []))"
proof -
  obtain t where t: "FindStatusCondition (st_CrdStatus (sdb_Status (flushStatus setc (st, c) obj))) ''Reconciling'' =
      Some ((cs_reconciling c)\<lparr>cond_LastTransitionTime := t\<rparr>)"
    using flush_conditions(2) [OF assms] by blast
  have r: "TrimSpace ''UpdateInProgress'' = ''UpdateInProgress''" by (simp add: go_eval)
  show ?thesis
    using controller_lock.lock_found [unfolded DefaultReconcilingConditionType_def, OF t] assms(2)
    by (simp add: isUpdateLockActive_def DefaultReconcilingConditionType_def DefaultUpdateLockReason_def r settled_def)
qed

text \<open>The first phase that stops the pass, if any.\<close>

fun firstStop :: "cluster \<Rightarrow> string list \<Rightarrow> ShardingDatabase \<times> ShardingDatabaseStatus \<Rightarrow> (string \<times> phaseResult) option" where
  "firstStop cl [] s = None"
| "firstStop cl (name # names) s =
     (case cl_phase cl name s of (pr, s') \<Rightarrow>
        if pr_err pr \<noteq> None \<or> pr_wait pr then Some (name, pr) else firstStop cl names s')"

definition takesLock :: "string \<times> phaseResult \<Rightarrow> bool" where
  "takesLock stop \<longleftrightarrow> pr_err (snd stop) = None \<and>
     ((fst stop \<noteq> ''delete'' \<and> isMutatingProgressReason (pr_reason (snd stop))) \<or>
      TrimSpace (pr_reason (snd stop)) = ''UpdateInProgress'')"

text \<open>The loop over the phases computes the first stop.\<close>

definition stopOutcome :: "int \<Rightarrow> conditionSet \<Rightarrow> ShardingDatabaseStatus \<Rightarrow> string \<times> phaseResult \<Rightarrow> outcome" where
  "stopOutcome now conds status stop =
     (case stop of (name, pr) \<Rightarrow>
        case pr_err pr of
          Some e \<Rightarrow> \<lparr>out_requeueAfter = 0, out_err = Some e,
            out_write = Some (status, markDegraded now conds (pr_reason pr) (pr_message pr))\<rparr>
        | None \<Rightarrow> \<lparr>out_requeueAfter = pr_requeueAfter pr, out_err = None,
            out_write = Some (status,
              if name \<noteq> ''delete'' \<and> isMutatingProgressReason (pr_reason pr)
              then markReconciling now conds DefaultUpdateLockReason (pr_reason pr @ '': '' @ pr_message pr)
              else markReconciling now conds (pr_reason pr) (pr_message pr))\<rparr>)"

lemma fold_Stopped [simp]: "fold (phaseStep now cl conds) names (Stopped out) = Stopped out"
  by (induction names) (simp_all add: phaseStep_def)

lemma phaseStep_Done:
  assumes "cl_phase cl name s = (pr, inst, status)" and "name \<noteq> ''delete''"
  shows "phaseStep now cl conds name (Done s) =
    (if pr_err pr \<noteq> None \<or> pr_wait pr then Stopped (stopOutcome now conds status (name, pr)) else Done (inst, status))"
  using assms by (cases "pr_err pr") (simp_all add: phaseStep_def stopOutcome_def)

lemma fold_firstStop:
  assumes "''delete'' \<notin> set names"
  shows "(\<exists>stop status. firstStop cl names s = Some stop \<and> fst stop \<noteq> ''delete'' \<and>
      fold (phaseStep now cl conds) names (Done s) = Stopped (stopOutcome now conds status stop)) \<or>
    (firstStop cl names s = None \<and> (\<exists>s'. fold (phaseStep now cl conds) names (Done s) = Done s'))"
  using assms
proof (induction names arbitrary: s)
  case (Cons name names)
  obtain pr inst status where p: "cl_phase cl name s = (pr, inst, status)" by (cases "cl_phase cl name s") auto
  have step: "phaseStep now cl conds name (Done s) =
      (if pr_err pr \<noteq> None \<or> pr_wait pr then Stopped (stopOutcome now conds status (name, pr)) else Done (inst, status))"
    using phaseStep_Done [OF p, of now conds] Cons.prems by auto
  show ?case
  proof (cases "pr_err pr \<noteq> None \<or> pr_wait pr")
    case True
    then show ?thesis using p Cons.prems step by auto
  next
    case False
    then show ?thesis using p Cons.IH [of "(inst, status)"] Cons.prems step by simp
  qed
qed simp

lemma phases_no_delete: "''delete'' \<notin> set phases"
  by (simp add: phases_def)

lemma Reconcile_cases:
  assumes "\<not> lockBlocks (cl_deleting cl) (cl_last cl) inst"
  shows "(\<exists>stop status. firstStop cl (''delete'' # phases) (inst, sdb_Status inst) = Some stop \<and>
      Reconcile now cl (Got inst) = stopOutcome now (newConditionSet now (sdb_Generation inst)) status stop) \<or>
    (firstStop cl (''delete'' # phases) (inst, sdb_Status inst) = None \<and>
      (\<exists>s. Reconcile now cl (Got inst) = finishPass now cl (newConditionSet now (sdb_Generation inst)) s))"
proof -
  let ?c = "newConditionSet now (sdb_Generation inst)"
  obtain pr inst' status where p: "cl_phase cl ''delete'' (inst, sdb_Status inst) = (pr, inst', status)"
    by (cases "cl_phase cl ''delete'' (inst, sdb_Status inst)") auto
  show ?thesis
  proof (cases "pr_err pr \<noteq> None \<or> pr_wait pr")
    case True
    then show ?thesis
      using p assms by (cases "pr_err pr") (auto simp: Reconcile_def deleteStep_def stopOutcome_def split: if_splits)
  next
    case False
    then show ?thesis
      using p assms fold_firstStop [OF phases_no_delete, of cl "(inst', status)" now ?c]
      by (auto simp: Reconcile_def deleteStep_def) blast
  qed
qed

lemma settled_stopOutcome:
  "\<exists>c. out_write (stopOutcome now (newConditionSet now gen) status stop) = Some (status, c) \<and> settled gen c \<and>
     (cond_Status (cs_reconciling c) = ConditionTrue \<and> TrimSpace (cond_Reason (cs_reconciling c)) = ''UpdateInProgress''
      \<longleftrightarrow> takesLock stop)"
proof -
  have r: "TrimSpace DefaultUpdateLockReason = ''UpdateInProgress''" by (simp add: DefaultUpdateLockReason_def go_eval)
  obtain name pr where s: "stop = (name, pr)" by (cases stop)
  show ?thesis
  proof (cases "pr_err pr")
    case None
    have "cond_Status (cs_reconciling (markReconciling now (newConditionSet now gen) x y)) = ConditionTrue"
      "cond_Reason (cs_reconciling (markReconciling now (newConditionSet now gen) x y)) = x" for x y
      by (simp_all add: mark_defs)
    then show ?thesis using None s r by (simp add: stopOutcome_def takesLock_def)
  next
    case (Some e)
    have "cond_Status (cs_reconciling (markDegraded now (newConditionSet now gen) x y)) \<noteq> ConditionTrue" for x y
      by (simp add: mark_defs)
    then show ?thesis using Some s by (simp add: stopOutcome_def takesLock_def)
  qed
qed

lemma Reconcile_write:
  "\<exists>st c. out_write (Reconcile now cl (Got inst)) = Some (st, c) \<and> settled (sdb_Generation inst) c \<and>
     (cond_Status (cs_reconciling c) = ConditionTrue \<and> TrimSpace (cond_Reason (cs_reconciling c)) = ''UpdateInProgress'' \<longleftrightarrow>
      lockBlocks (cl_deleting cl) (cl_last cl) inst \<or>
      (\<exists>stop. firstStop cl (''delete'' # phases) (inst, sdb_Status inst) = Some stop \<and> takesLock stop))"
proof (cases "lockBlocks (cl_deleting cl) (cl_last cl) inst")
  case True
  then show ?thesis
    by (simp add: Reconcile_def Let_def) (simp add: mark_defs DefaultUpdateLockReason_def go_eval)
next
  case False
  have fin: "\<exists>st c. out_write (finishPass now cl (newConditionSet now (sdb_Generation inst)) s) = Some (st, c) \<and>
      settled (sdb_Generation inst) c \<and> cond_Status (cs_reconciling c) \<noteq> ConditionTrue" for s
    by (cases "cl_credentials cl s") (simp add: finishPass_def, simp add: mark_defs)
  have "\<exists>st c. out_write (Reconcile now cl (Got inst)) = Some (st, c) \<and> settled (sdb_Generation inst) c \<and>
     (cond_Status (cs_reconciling c) = ConditionTrue \<and> TrimSpace (cond_Reason (cs_reconciling c)) = ''UpdateInProgress'' \<longleftrightarrow>
      (\<exists>stop. firstStop cl (''delete'' # phases) (inst, sdb_Status inst) = Some stop \<and> takesLock stop))"
    using Reconcile_cases [OF False, of now]
  proof (elim disjE exE conjE)
    fix stop status
    assume "firstStop cl (''delete'' # phases) (inst, sdb_Status inst) = Some stop"
      and "Reconcile now cl (Got inst) = stopOutcome now (newConditionSet now (sdb_Generation inst)) status stop"
    then show ?thesis using settled_stopOutcome [of now "sdb_Generation inst" status stop] by auto
  next
    fix s
    assume "firstStop cl (''delete'' # phases) (inst, sdb_Status inst) = None"
      and "Reconcile now cl (Got inst) = finishPass now cl (newConditionSet now (sdb_Generation inst)) s"
    then show ?thesis using fin [of s] by auto
  qed
  then show ?thesis using False by simp
qed


section \<open>Properties\<close>

text \<open>
  C5: every pass over an existing object writes its status, and after the write exactly one of the
  conditions Ready, Reconciling and Degraded is true, each with the generation of the object that the
  pass has read.
\<close>

theorem reconcile_one_condition:
  assumes "sets_condition setc"
  shows "\<exists>w r p d. out_write (Reconcile now cl (Got inst)) = Some w \<and>
    FindStatusCondition (st_CrdStatus (sdb_Status (flushStatus setc w obj))) ''Ready'' = Some r \<and>
    FindStatusCondition (st_CrdStatus (sdb_Status (flushStatus setc w obj))) ''Reconciling'' = Some p \<and>
    FindStatusCondition (st_CrdStatus (sdb_Status (flushStatus setc w obj))) ''Degraded'' = Some d \<and>
    length (filter (\<lambda>x. cond_Status x = ''True'') [r, p, d]) = 1 \<and>
    (\<forall>x \<in> {r, p, d}. cond_ObservedGeneration x = sdb_Generation inst)"
proof -
  obtain st c where w: "out_write (Reconcile now cl (Got inst)) = Some (st, c)" and c: "settled (sdb_Generation inst) c"
    using Reconcile_write by blast
  from flush_conditions [OF assms c, of st obj] obtain r p d where f:
    "FindStatusCondition (st_CrdStatus (sdb_Status (flushStatus setc (st, c) obj))) ''Ready'' = Some ((cs_ready c)\<lparr>cond_LastTransitionTime := r\<rparr>)"
    "FindStatusCondition (st_CrdStatus (sdb_Status (flushStatus setc (st, c) obj))) ''Reconciling'' = Some ((cs_reconciling c)\<lparr>cond_LastTransitionTime := p\<rparr>)"
    "FindStatusCondition (st_CrdStatus (sdb_Status (flushStatus setc (st, c) obj))) ''Degraded'' = Some ((cs_degraded c)\<lparr>cond_LastTransitionTime := d\<rparr>)"
    by blast
  show ?thesis
    by (intro exI conjI, rule w, rule f(1), rule f(2), rule f(3)) (use c in \<open>auto simp: settled_def ConditionTrue_def split: if_splits\<close>)
qed

text \<open>
  C6: after a pass the update lock is held exactly when the pass was itself turned away by the lock, or
  when the first phase that stopped it did so to wait for one of the six operations that change the
  deployment (or under the reason of the lock itself). In every other case (a failed phase, a wait for
  something else, a completed pass) the write releases the lock.
\<close>

theorem lock_after_pass_iff:
  assumes "sets_condition setc" and "out_write (Reconcile now cl (Got inst)) = Some w"
  shows "fst (isUpdateLockActive (Some (flushStatus setc w obj))) \<longleftrightarrow>
    lockBlocks (cl_deleting cl) (cl_last cl) inst \<or>
    (\<exists>name pr. firstStop cl (''delete'' # phases) (inst, sdb_Status inst) = Some (name, pr) \<and> pr_err pr = None \<and>
       (name \<noteq> ''delete'' \<and> isMutatingProgressReason (pr_reason pr) \<or> TrimSpace (pr_reason pr) = ''UpdateInProgress''))"
proof -
  obtain st c where w: "w = (st, c)" and c: "settled (sdb_Generation inst) c" and l:
    "cond_Status (cs_reconciling c) = ConditionTrue \<and> TrimSpace (cond_Reason (cs_reconciling c)) = ''UpdateInProgress'' \<longleftrightarrow>
      lockBlocks (cl_deleting cl) (cl_last cl) inst \<or>
      (\<exists>stop. firstStop cl (''delete'' # phases) (inst, sdb_Status inst) = Some stop \<and> takesLock stop)"
    using Reconcile_write [of now cl inst] assms(2) by auto
  have "fst (isUpdateLockActive (Some (flushStatus setc w obj))) \<longleftrightarrow>
      cond_Status (cs_reconciling c) = ConditionTrue \<and> TrimSpace (cond_Reason (cs_reconciling c)) = ''UpdateInProgress''"
    unfolding w flush_lock [OF assms(1) c] by simp
  then show ?thesis unfolding l by (auto simp: takesLock_def)
qed

text \<open>
  the lock turns an update away at most once. The write of the pass that is turned away stamps the
  lock with the generation of the very update it holds back, so the next pass over that object is not
  turned away by it, whatever has become of the operation the lock was taken for.
\<close>

theorem lock_blocks_once:
  assumes "sets_condition setc" and "lockBlocks (cl_deleting cl) (cl_last cl) inst"
    and "out_write (Reconcile now cl (Got inst)) = Some w"
  shows "\<not> lockBlocks deleting lastSucc (flushStatus setc w inst)"
proof -
  obtain st c where w: "w = (st, c)" and c: "settled (sdb_Generation inst) c"
    using Reconcile_write [of now cl inst] assms(3) by auto
  have "sdb_Generation (flushStatus setc w inst) = sdb_Generation inst" by (simp add: flushStatus_def w)
  then show ?thesis unfolding lockBlocks_def w flush_lock [OF assms(1) c] by simp
qed

text \<open>An update request without the break-glass annotation: it leaves the status to the controller.\<close>

inductive update_request :: "(string \<Rightarrow> bool) \<Rightarrow> ShardingDatabase \<Rightarrow> ShardingDatabase \<Rightarrow> bool" for dns where
  "Default (sdb_Spec req) = Inr s \<Longrightarrow> new = req\<lparr>sdb_Spec := s, sdb_Status := sdb_Status old\<rparr> \<Longrightarrow>
   snd (ValidateUpdate dns old new) = [] \<Longrightarrow> map_of (sdb_Annotations new) DefaultOverrideAnnotation = None \<Longrightarrow>
   update_request dns old new"

inductive_cases update_requestE: "update_request dns old new"

lemma update_request_admission: "update_request dns old new \<Longrightarrow> admission dns old new"
  by (erule update_requestE) (auto intro: admission.update)

lemma update_request_locked:
  assumes "update_request dns old new" and "fst (isUpdateLockActive (Some old))"
  shows "sdb_Spec new = sdb_Spec old \<and> sdb_Status new = sdb_Status old"
  using assms(1)
proof cases
  case (1 req s)
  have "\<not> fst (isUpdateLockOverrideEnabled (Some new))"
    using 1(4) by (simp add: isUpdateLockOverrideEnabled_def override_enabled_iff)
  moreover have "updateLockErrs old new = []" using ValidateUpdate_Nil_D(2) [OF 1(3)] .
  moreover have "fst (isControllerUpdateLocked (Some old))"
    using assms(2) by (simp add: isControllerUpdateLocked_def isUpdateLockActive_def)
  ultimately show ?thesis
    using 1(2) by (cases "isControllerUpdateLocked (Some old)") (auto simp: updateLockErrs_def split: if_splits)
qed

text \<open>
  C7: controller and webhook together: once a pass has stopped to wait for an operation that changes
  the deployment, no sequence of update requests without the break-glass annotation changes the
  specification, until a later pass writes the status again.
\<close>

theorem lock_freezes_spec:
  assumes "sets_condition setc" and "\<not> lockBlocks (cl_deleting cl) (cl_last cl) inst"
    and "firstStop cl (''delete'' # phases) (inst, sdb_Status inst) = Some (name, pr)"
    and "name \<noteq> ''delete''" and "pr_err pr = None" and "isMutatingProgressReason (pr_reason pr)"
    and "out_write (Reconcile now cl (Got inst)) = Some w"
    and "(update_request dns)\<^sup>*\<^sup>* (flushStatus setc w obj) new"
  shows "sdb_Spec new = sdb_Spec obj"
proof -
  obtain st c where w: "w = (st, c)" and c: "settled (sdb_Generation inst) c"
    and l: "cond_Status (cs_reconciling c) = ConditionTrue" "TrimSpace (cond_Reason (cs_reconciling c)) = ''UpdateInProgress''"
    using Reconcile_write [of now cl inst] assms(3-7) by (auto simp: takesLock_def)
  have locked: "fst (isUpdateLockActive (Some (flushStatus setc w obj)))"
    unfolding w flush_lock [OF assms(1) c] using l by simp
  have "sdb_Spec new = sdb_Spec (flushStatus setc w obj) \<and> sdb_Status new = sdb_Status (flushStatus setc w obj)"
    using assms(8)
  proof (induction rule: rtranclp_induct)
    case (step y z)
    have "fst (isUpdateLockActive (Some y))" using locked step.IH by (simp add: isUpdateLockActive_def)
    then show ?case using update_request_locked [OF step.hyps(2)] step.IH by simp
  qed simp
  then show ?thesis by (simp add: flushStatus_def w)
qed


section \<open>Witnesses\<close>

definition replaceCondition :: "Condition list \<Rightarrow> Condition \<Rightarrow> Condition list" where
  "replaceCondition cs c = filter (\<lambda>d. cond_Type d \<noteq> cond_Type c) cs @ [c]"

lemma FindStatusCondition_append:
  "FindStatusCondition (xs @ ys) t =
     (case FindStatusCondition xs t of None \<Rightarrow> FindStatusCondition ys t | Some c \<Rightarrow> Some c)"
  by (induction xs) auto

lemma FindStatusCondition_filter:
  "FindStatusCondition (filter (\<lambda>d. cond_Type d \<noteq> u) xs) t = (if t = u then None else FindStatusCondition xs t)"
  by (induction xs) auto

lemma sets_condition_replace: "sets_condition replaceCondition"
proof -
  have "FindStatusCondition (replaceCondition cs c) (cond_Type c) = Some (c\<lparr>cond_LastTransitionTime := cond_LastTransitionTime c\<rparr>)"
    "ty \<noteq> cond_Type c \<Longrightarrow> FindStatusCondition (replaceCondition cs c) ty = FindStatusCondition cs ty" for cs c ty
    by (auto simp: replaceCondition_def FindStatusCondition_append FindStatusCondition_filter split: option.splits)
  then show ?thesis unfolding sets_condition_def by blast
qed

definition scalingCluster :: cluster where
  "scalingCluster = \<lparr>cl_deleting = False, cl_last = Inr None,
     cl_phase = (\<lambda>name s. (if name = ''scale_ops''
        then \<lparr>pr_wait = True, pr_requeueAfter = 30, pr_err = None, pr_reason = ''ScaleInProgress'', pr_message = ''shard s2''\<rparr>
        else \<lparr>pr_wait = False, pr_requeueAfter = 0, pr_err = None, pr_reason = [], pr_message = []\<rparr>, s)),
     cl_credentials = (\<lambda>s. (0, snd s)), cl_flushFails = False\<rparr>"

lemma scalingCluster_stop:
  "firstStop scalingCluster (''delete'' # phases) s = Some (''scale_ops'',
     \<lparr>pr_wait = True, pr_requeueAfter = 30, pr_err = None, pr_reason = ''ScaleInProgress'', pr_message = ''shard s2''\<rparr>)"
  by (simp add: phases_def scalingCluster_def)

lemma plain_not_blocked: "\<not> lockBlocks d l (plainObject n)"
  by (simp add: lockBlocks_def isUpdateLockActive_def IsControllerUpdateLocked_def plainObject_def zeroShardingDatabase_def)

definition waitingObject :: ShardingDatabase where
  "waitingObject = (withStatus busyStatus 100)\<lparr>sdb_Generation := 5\<rparr>"

lemma waiting_blocked: "lockBlocks False (Inr None) waitingObject"
  by (simp add: lockBlocks_def isUpdateLockActive_def IsControllerUpdateLocked_def waitingObject_def withStatus_def busyStatus_def
      plainObject_def zeroShardingDatabase_def isUpdateLockOverrideEnabled_def override_enabled_iff enforceLock_def
      DefaultReconcilingConditionType_def DefaultUpdateLockReason_def ConditionTrue_def IsUpdateLockOverrideEnabled_def go_eval)

theorem reconcile_one_condition_witness:
  "\<exists>w r. out_write (Reconcile 7 scalingCluster (Got (plainObject 100))) = Some w \<and>
    FindStatusCondition (st_CrdStatus (sdb_Status (flushStatus replaceCondition w (plainObject 100)))) ''Ready'' = Some r"
  using reconcile_one_condition [OF sets_condition_replace, of 7 scalingCluster "plainObject 100" "plainObject 100"] by blast

theorem lock_after_pass_iff_witness:
  "\<exists>w. out_write (Reconcile 7 scalingCluster (Got (plainObject 100))) = Some w \<and>
     fst (isUpdateLockActive (Some (flushStatus replaceCondition w (plainObject 100))))"
proof -
  obtain w where w: "out_write (Reconcile 7 scalingCluster (Got (plainObject 100))) = Some w" using Reconcile_write by blast
  have "isMutatingProgressReason ''ScaleInProgress''" by (simp add: isMutatingProgressReason_def go_eval)
  then show ?thesis
    using lock_after_pass_iff [OF sets_condition_replace w, of "plainObject 100", unfolded scalingCluster_stop] w by auto
qed

theorem lock_blocks_once_witness:
  "lockBlocks False (Inr None) waitingObject \<and>
   (\<exists>w. out_write (Reconcile 7 scalingCluster (Got waitingObject)) = Some w \<and>
     \<not> lockBlocks False (Inr None) (flushStatus replaceCondition w waitingObject))"
proof -
  obtain w where w: "out_write (Reconcile 7 scalingCluster (Got waitingObject)) = Some w" using Reconcile_write by blast
  have b: "lockBlocks (cl_deleting scalingCluster) (cl_last scalingCluster) waitingObject"
    using waiting_blocked by (simp add: scalingCluster_def)
  show ?thesis using waiting_blocked w lock_blocks_once [OF sets_condition_replace b w] by blast
qed

lemma plain_self_request: "update_request (\<lambda>_. True) (withStatus st 100) (withStatus st 100)"
proof (rule update_request.intros)
  show "Default (sdb_Spec (withStatus st 100)) = Inr (plainSpec 100)" by (simp add: withStatus_def plainObject_def plain_default)
  show "snd (ValidateUpdate (\<lambda>_. True) (withStatus st 100) (withStatus st 100)) = []"
    by (rule plain_update) (simp_all add: updateLockErrs_def)
qed (simp_all add: withStatus_def plainObject_def zeroShardingDatabase_def)

theorem lock_freezes_spec_witness:
  "\<exists>w. out_write (Reconcile 7 scalingCluster (Got (plainObject 100))) = Some w \<and>
     update_request (\<lambda>_. True) (flushStatus replaceCondition w (plainObject 100)) (flushStatus replaceCondition w (plainObject 100)) \<and>
     sdb_Spec (flushStatus replaceCondition w (plainObject 100)) = plainSpec 100"
proof -
  obtain w where w: "out_write (Reconcile 7 scalingCluster (Got (plainObject 100))) = Some w" using Reconcile_write by blast
  have m: "isMutatingProgressReason ''ScaleInProgress''" by (simp add: isMutatingProgressReason_def go_eval)
  let ?o = "flushStatus replaceCondition w (plainObject 100)"
  obtain st where o: "?o = withStatus st 100" by (cases w) (simp add: flushStatus_def withStatus_def)
  have u: "update_request (\<lambda>_. True) ?o ?o" unfolding o by (rule plain_self_request)
  have "sdb_Spec ?o = sdb_Spec (plainObject 100)"
    by (rule lock_freezes_spec [OF sets_condition_replace plain_not_blocked scalingCluster_stop _ _ _ w, where dns = "\<lambda>_. True"])
      (use u m in simp_all)
  then show ?thesis using u w by (simp add: plainObject_def)
qed

end
