(* ===== verification/Sharding_Primaries.thy ===== *)
theory Sharding_Primaries
  imports Sharding_Webhook
begin

text \<open>
  What the controller of a sharded database (\<^verbatim>\<open>controllers/database/shardingdatabase_controller.go\<close> and
  \<^verbatim>\<open>commons/sharding\<close>) derives from a specification on its own: the sharding and replication type, the
  identity of external primaries, the number of standby shards they ask for, and the shards an entry
  owns. The webhook derives the same things with its own code (\<open>Sharding_Modes\<close>, \<open>Sharding_Sources\<close>,
  \<open>Sharding_Replicas\<close>); the lemmas compare the two.
\<close>

definition ctlNormalizeReplicationType :: "string \<Rightarrow> string" where
  "ctlNormalizeReplicationType replicationType =
     (let repl = ToUpper (TrimSpace replicationType) in
      if repl \<in> {''NATIVE'', ''RAFT'', ''RAFTREPLICATION'', ''RAFTREPLICATIN''} then ''NATIVE''
      else if repl = ''DG'' then ''DG''
      else [])"

definition IsNativeReplication :: "string \<Rightarrow> bool" where
  "IsNativeReplication replicationType \<longleftrightarrow> ctlNormalizeReplicationType replicationType = ''NATIVE''"

definition EffectiveReplicationType :: "string \<Rightarrow> string" where
  "EffectiveReplicationType replicationType =
     (let repl = ctlNormalizeReplicationType replicationType in if repl \<noteq> [] then repl else ''DG'')"

definition CheckIsDeleteFlag :: "string \<Rightarrow> bool" where
  "CheckIsDeleteFlag delStr \<longleftrightarrow> ToLower delStr = ''enable''"

definition effectiveShardingTypeForConstraints :: "ShardingDatabaseSpec \<Rightarrow> string" where
  "effectiveShardingTypeForConstraints spec =
     (let v = ToUpper (TrimSpace (spec_ShardingType spec)) in
      if v \<in> {''SYSTEM'', ''USER'', ''COMPOSITE''} then v
      else
        (let hasGroup = (list_ex (\<lambda>s. \<not> blank (sh_ShardGroup s)) (spec_Shard spec) \<or> list_ex hasGroupDetails (spec_ShardInfo spec));
             hasSpace = (list_ex (\<lambda>s. \<not> blank (sh_ShardSpace s)) (spec_Shard spec) \<or> list_ex hasSpaceDetails (spec_ShardInfo spec))
         in if hasGroup \<and> hasSpace then ''COMPOSITE'' else if hasSpace then ''USER'' else ''SYSTEM''))"

definition normalizeShardGroupKey :: "string \<Rightarrow> string" where
  "normalizeShardGroupKey v = ToUpper (TrimSpace v)"

definition normalizeShardSpaceKey :: "string \<Rightarrow> string" where
  "normalizeShardSpaceKey v = ToUpper (TrimSpace v)"

definition isStandbyDeployAs :: "string \<Rightarrow> bool" where
  "isStandbyDeployAs deployAs \<longleftrightarrow> (let v = ToUpper (TrimSpace deployAs) in v = ''STANDBY'' \<or> v = ''ACTIVE_STANDBY'')"

definition isPrimaryDeployAs :: "string \<Rightarrow> bool" where
  "isPrimaryDeployAs deployAs \<longleftrightarrow> EqualFold (TrimSpace deployAs) ''PRIMARY''"


section \<open>External primaries\<close>

record primaryIdentity =
  pid_Key :: string
  pid_Connect :: string
  pid_Source :: string

record resolvedStandbyPrimarySource =
  rsp_databaseRef :: "PrimaryDatabaseCRRef option"
  rsp_connectString :: string
  rsp_details :: "PrimaryEndpointRef option"

text \<open>One source of the list, \<open>None\<close> where the loop appends nothing.\<close>

definition resolvePrimarySource :: "StandbyPrimarySource \<Rightarrow> resolvedStandbyPrimarySource option" where
  "resolvePrimarySource source =
     (case sps_DatabaseRef source of
        Some ref \<Rightarrow> if \<not> blank (pcr_Name ref)
          then Some \<lparr>rsp_databaseRef = Some ref, rsp_connectString = [], rsp_details = None\<rparr>
          else if \<not> blank (sps_ConnectString source)
          then Some \<lparr>rsp_databaseRef = None, rsp_connectString = TrimSpace (sps_ConnectString source), rsp_details = None\<rparr>
          else map_option (\<lambda>d. \<lparr>rsp_databaseRef = None, rsp_connectString = [], rsp_details = Some d\<rparr>) (sps_Details source)
      | None \<Rightarrow> if \<not> blank (sps_ConnectString source)
          then Some \<lparr>rsp_databaseRef = None, rsp_connectString = TrimSpace (sps_ConnectString source), rsp_details = None\<rparr>
          else map_option (\<lambda>d. \<lparr>rsp_databaseRef = None, rsp_connectString = [], rsp_details = Some d\<rparr>) (sps_Details source))"

definition resolvePrimarySourcesList :: "StandbyPrimarySource list \<Rightarrow> resolvedStandbyPrimarySource list" where
  "resolvePrimarySourcesList sources = List.map_filter resolvePrimarySource sources"

definition resolveStandbyPrimarySources :: "StandbyConfig option \<Rightarrow> resolvedStandbyPrimarySource list" where
  "resolveStandbyPrimarySources cfg = (case cfg of None \<Rightarrow> [] | Some c \<Rightarrow> resolvePrimarySourcesList (sbc_PrimarySources c))"

definition hasSource :: "resolvedStandbyPrimarySource \<Rightarrow> bool" where
  "hasSource source \<longleftrightarrow> rsp_databaseRef source \<noteq> None \<or> rsp_connectString source \<noteq> [] \<or> rsp_details source \<noteq> None"

definition BuildDgmgrlServiceName :: "string \<Rightarrow> string" where
  "BuildDgmgrlServiceName dbUnique = ToUpper (TrimSpace dbUnique) @ ''_DGMGRL''"

definition buildExternalPrimaryConnectString :: "PrimaryEndpointRef option \<Rightarrow> string" where
  "buildExternalPrimaryConnectString endpoint =
     (case endpoint of None \<Rightarrow> []
      | Some e \<Rightarrow>
          if \<not> blank (per_ConnectString e) then TrimSpace (per_ConnectString e)
          else (let host = TrimSpace (per_Host e); cdb = TrimSpace (per_CdbName e) in
                if host = [] \<or> cdb = [] then []
                else (let port = (if per_Port e \<le> 0 then 1521 else per_Port e)
                      in ''//'' @ host @ '':'' @ itoa port @ ''/'' @ BuildDgmgrlServiceName cdb)))"

definition endpointIdentity :: "PrimaryEndpointRef \<Rightarrow> primaryIdentity option" where
  "endpointIdentity d =
     (let connect = buildExternalPrimaryConnectString (Some d);
          key = (if connect = []
                 then ToLower (TrimSpace (per_Host d)) @ '':'' @ itoa (per_Port d) @ ''/'' @ ToUpper (TrimSpace (per_CdbName d))
                      @ ''/'' @ ToUpper (TrimSpace (per_PdbName d))
                 else connect)
      in if key = [] then None else Some \<lparr>pid_Key = key, pid_Connect = connect, pid_Source = ''Endpoint''\<rparr>)"

definition toIdentity :: "resolvedStandbyPrimarySource \<Rightarrow> string \<Rightarrow> primaryIdentity option" where
  "toIdentity source defaultNamespace =
     (let rest = (if rsp_connectString source \<noteq> []
            then Some \<lparr>pid_Key = rsp_connectString source, pid_Connect = rsp_connectString source, pid_Source = ''ConnectString''\<rparr>
            else case rsp_details source of Some d \<Rightarrow> endpointIdentity d | None \<Rightarrow> None)
      in case rsp_databaseRef source of
           Some ref \<Rightarrow> if \<not> blank (pcr_Name ref)
             then (let ns = TrimSpace (pcr_Namespace ref)
                   in Some \<lparr>pid_Key = (if ns = [] then defaultNamespace else ns) @ ''/'' @ TrimSpace (pcr_Name ref),
                            pid_Connect = [], pid_Source = ''PrimaryDatabaseRef''\<rparr>)
             else rest
         | None \<Rightarrow> rest)"

text \<open>
  The loop that both the count and the list of identities are built with: keys are compared trimmed
  and in lower case, and the first source of a key wins.
\<close>

fun collectIdentities :: "string \<Rightarrow> string set \<Rightarrow> resolvedStandbyPrimarySource list \<Rightarrow> primaryIdentity list" where
  "collectIdentities ns seen [] = []"
| "collectIdentities ns seen (r # rs) =
     (case toIdentity r ns of None \<Rightarrow> collectIdentities ns seen rs
      | Some pid \<Rightarrow>
          let key = ToLower (TrimSpace (pid_Key pid)) in
          if key = [] \<or> key \<in> seen then collectIdentities ns seen rs
          else pid # collectIdentities ns (insert key seen) rs)"

definition standbyConfigPrimaryCountController :: "StandbyConfig option \<Rightarrow> int" where
  "standbyConfigPrimaryCountController cfg =
     (case cfg of None \<Rightarrow> 0
      | Some c \<Rightarrow> wrap32 (int (length (collectIdentities [] {} (resolveStandbyPrimarySources cfg)))))"

definition standbyConfigDerivedShardCountController :: "StandbyConfig option \<Rightarrow> int" where
  "standbyConfigDerivedShardCountController cfg =
     (case cfg of None \<Rightarrow> 0
      | Some c \<Rightarrow>
          let primaryCount = standbyConfigPrimaryCountController cfg in
          if primaryCount = 0 then 0
          else (let perPrimary = (if sbc_StandbyPerPrimary c \<le> 0 then 1 else sbc_StandbyPerPrimary c)
                in wrap32 (primaryCount * perPrimary)))"

definition shardInfoDesiredCount :: "ShardingDatabaseSpec \<Rightarrow> ShardingDetails \<Rightarrow> int" where
  "shardInfoDesiredCount spec info =
     (let c = standbyConfigDerivedShardCountController (si_StandbyConfig info) in
      if effectiveShardingTypeForConstraints spec = ''USER'' \<and> c > 0 then c
      else if si_ShardNum info > 0 then si_ShardNum info
      else if si_Replicas info > 0 then si_Replicas info
      else 0)"

text \<open>The standby plan: in user sharding the number of shards of an entry follows its sources.\<close>

definition ensureStandbyShardNumFromConfig :: "ShardingDatabaseSpec \<Rightarrow> bool \<times> ShardingDatabaseSpec" where
  "ensureStandbyShardNumFromConfig spec =
     (if effectiveShardingTypeForConstraints spec \<noteq> ''USER'' then (False, spec)
      else (let stale = (\<lambda>info. let derived = standbyConfigDerivedShardCountController (si_StandbyConfig info)
                                in derived > 0 \<and> si_ShardNum info \<noteq> derived)
            in (list_ex stale (spec_ShardInfo spec),
                spec\<lparr>spec_ShardInfo := map (\<lambda>info. if stale info
                   then info\<lparr>si_ShardNum := standbyConfigDerivedShardCountController (si_StandbyConfig info)\<rparr> else info)
                   (spec_ShardInfo spec)\<rparr>)))"

text \<open>The entry a shard belongs to: the first with the longest matching prefix.\<close>

definition infoPrefix :: "ShardingDetails \<Rightarrow> string" where
  "infoPrefix info = ToLower (TrimSpace (si_ShardPreFixName info))"

fun longestPrefix :: "string \<Rightarrow> ShardingDetails option \<Rightarrow> ShardingDetails list \<Rightarrow> ShardingDetails option" where
  "longestPrefix name best [] = best"
| "longestPrefix name best (info # infos) =
     (let p = infoPrefix info in
      if p = [] \<or> \<not> HasPrefix name p then longestPrefix name best infos
      else if (case best of None \<Rightarrow> True | Some b \<Rightarrow> length p > length (infoPrefix b)) then longestPrefix name (Some info) infos
      else longestPrefix name best infos)"

definition matchShardInfoByLongestPrefix :: "ShardingDatabaseSpec \<Rightarrow> string \<Rightarrow> ShardingDetails option" where
  "matchShardInfoByLongestPrefix spec shardName =
     (let name = ToLower (TrimSpace shardName) in
      if name = [] then None else longestPrefix name None (spec_ShardInfo spec))"

definition walletField :: "(TDEWalletConfig \<Rightarrow> string) \<Rightarrow> StandbyConfig option \<Rightarrow> string" where
  "walletField f cfg =
     (case cfg of None \<Rightarrow> [] | Some c \<Rightarrow> (case sbc_TDEWallet c of None \<Rightarrow> [] | Some w \<Rightarrow> TrimSpace (f w)))"

definition resolveStandbyWalletSecretRef :: "ShardingDatabaseSpec \<Rightarrow> ShardSpec \<Rightarrow> string" where
  "resolveStandbyWalletSecretRef spec shard =
     (let ref = walletField tde_SecretRef (sh_StandbyConfig shard) in
      if ref \<noteq> [] then ref
      else case matchShardInfoByLongestPrefix spec (sh_Name shard) of
             None \<Rightarrow> [] | Some info \<Rightarrow> walletField tde_SecretRef (si_StandbyConfig info))"

definition resolveStandbyWalletZipFileKey :: "ShardingDatabaseSpec \<Rightarrow> ShardSpec \<Rightarrow> string" where
  "resolveStandbyWalletZipFileKey spec shard =
     (let ref = walletField tde_ZipFileKey (sh_StandbyConfig shard) in
      if ref \<noteq> [] then ref
      else case matchShardInfoByLongestPrefix spec (sh_Name shard) of
             None \<Rightarrow> [] | Some info \<Rightarrow> walletField tde_ZipFileKey (si_StandbyConfig info))"


section \<open>Agreement with the webhook\<close>

lemma EffectiveReplicationType_webhook [simp]:
  "EffectiveReplicationType (spec_ReplicationType spec) = normalizeReplicationType spec"
  by (simp add: EffectiveReplicationType_def ctlNormalizeReplicationType_def normalizeReplicationType_def
      normalizeReplicationValue_def replDG_def replNative_def Let_def)

lemma ToLower_eq_iff_ToUpper: "ToLower v = ToLower w \<longleftrightarrow> ToUpper v = ToUpper w"
  using EqualFold_ToUpper [of v w] by (simp add: EqualFold_def)

lemma mode_cases:
  "ToLower ''SYSTEM'' = ''system''" "ToUpper ''SYSTEM'' = ''SYSTEM''" "ToLower ''USER'' = ''user''"
  "ToUpper ''USER'' = ''USER''" "ToLower ''COMPOSITE'' = ''composite''" "ToUpper ''COMPOSITE'' = ''COMPOSITE''"
  by (simp_all add: go_eval)

lemma mode_strings:
  "ToLower v = ''system'' \<longleftrightarrow> ToUpper v = ''SYSTEM''" "ToLower v = ''user'' \<longleftrightarrow> ToUpper v = ''USER''"
  "ToLower v = ''composite'' \<longleftrightarrow> ToUpper v = ''COMPOSITE''"
  using ToLower_eq_iff_ToUpper [of v "''SYSTEM''"] ToLower_eq_iff_ToUpper [of v "''USER''"]
    ToLower_eq_iff_ToUpper [of v "''COMPOSITE''"] unfolding mode_cases by blast+

text \<open>With an explicit sharding type, webhook and controller agree on it.\<close>

lemma effectiveShardingType_webhook:
  assumes "normalizeShardingValue (spec_ShardingType spec) \<noteq> []"
  shows "effectiveShardingTypeForConstraints spec = shardingModeToSpecValue (normalizeShardingType spec)"
proof -
  have u: "ToUpper (TrimSpace (spec_ShardingType spec)) \<in> {''SYSTEM'', ''USER'', ''COMPOSITE''}"
    using assms by (auto simp: normalizeShardingValue_def Let_def split: if_splits)
  then consider "ToUpper (TrimSpace (spec_ShardingType spec)) = ''SYSTEM''" | "ToUpper (TrimSpace (spec_ShardingType spec)) = ''USER''"
    | "ToUpper (TrimSpace (spec_ShardingType spec)) = ''COMPOSITE''" by blast
  then show ?thesis
    by cases (simp_all add: effectiveShardingTypeForConstraints_def normalizeShardingType_def mode_strings Let_def)
qed

lemma collectIdentities_card:
  assumes "finite seen"
  shows "length (collectIdentities ns seen rs) =
    card ({ToLower (TrimSpace (pid_Key pid)) |pid. \<exists>r \<in> set rs. toIdentity r ns = Some pid} - {[]} - seen)"
  using assms
proof (induction ns seen rs rule: collectIdentities.induct)
  case (2 ns seen r rs)
  let ?K = "\<lambda>rs. {ToLower (TrimSpace (pid_Key pid)) |pid. \<exists>r \<in> set rs. toIdentity r ns = Some pid}"
  show ?case
  proof (cases "toIdentity r ns")
    case None
    then have "?K (r # rs) = ?K rs" by auto
    then show ?thesis using 2 None by simp
  next
    case (Some pid)
    let ?key = "ToLower (TrimSpace (pid_Key pid))"
    have K: "?K (r # rs) = insert ?key (?K rs)" using Some by auto
    show ?thesis
    proof (cases "?key = [] \<or> ?key \<in> seen")
      case True
      then have "?K (r # rs) - {[]} - seen = ?K rs - {[]} - seen" unfolding K by auto
      then show ?thesis using 2 Some True by simp
    next
      case False
      have fin: "finite (?K rs)"
        by (rule finite_subset [of _ "(\<lambda>r. ToLower (TrimSpace (pid_Key (the (toIdentity r ns))))) ` set rs"]) force+
      have "?K (r # rs) - {[]} - seen = insert ?key (?K rs - {[]} - insert ?key seen)" using False unfolding K by auto
      moreover have "card (insert ?key (?K rs - {[]} - insert ?key seen)) = Suc (card (?K rs - {[]} - insert ?key seen))"
        using fin by (subst card_insert_disjoint) auto
      ultimately show ?thesis using 2 Some False by simp
    qed
  qed
qed simp

lemma effectiveShardingType_map:
  assumes "\<And>i. hasGroupDetails (f i) = hasGroupDetails i" and "\<And>i. hasSpaceDetails (f i) = hasSpaceDetails i"
  shows "effectiveShardingTypeForConstraints (spec\<lparr>spec_ShardInfo := map f (spec_ShardInfo spec)\<rparr>) =
    effectiveShardingTypeForConstraints spec"
proof -
  have "list_ex hasGroupDetails (map f is) = list_ex hasGroupDetails is"
    "list_ex hasSpaceDetails (map f is) = list_ex hasSpaceDetails is" for "is"
    by (induction "is") (simp_all add: assms)
  then show ?thesis by (simp add: effectiveShardingTypeForConstraints_def Let_def)
qed

lemma ensureStandby_settles:
  "\<not> fst (ensureStandbyShardNumFromConfig (snd (ensureStandbyShardNumFromConfig spec)))"
proof (cases "effectiveShardingTypeForConstraints spec = ''USER''")
  case True
  define plan :: "ShardingDetails \<Rightarrow> ShardingDetails" where "plan = (\<lambda>info. let derived = standbyConfigDerivedShardCountController (si_StandbyConfig info) in
    if derived > 0 \<and> si_ShardNum info \<noteq> derived then info\<lparr>si_ShardNum := derived\<rparr> else info)"
  have s: "snd (ensureStandbyShardNumFromConfig spec) = spec\<lparr>spec_ShardInfo := map plan (spec_ShardInfo spec)\<rparr>"
    using True by (simp add: ensureStandbyShardNumFromConfig_def plan_def Let_def)
  have "effectiveShardingTypeForConstraints (snd (ensureStandbyShardNumFromConfig spec)) = ''USER''"
    unfolding s using True
    by (subst effectiveShardingType_map) (simp_all add: plan_def hasGroupDetails_def hasSpaceDetails_def Let_def)
  moreover have "\<not> (standbyConfigDerivedShardCountController (si_StandbyConfig (plan i)) > 0 \<and>
      si_ShardNum (plan i) \<noteq> standbyConfigDerivedShardCountController (si_StandbyConfig (plan i)))" for i
    by (simp add: plan_def Let_def)
  ultimately show ?thesis
    unfolding ensureStandbyShardNumFromConfig_def [of "snd (ensureStandbyShardNumFromConfig spec)"]
    by (simp add: s Let_def list_ex_iff)
qed (simp add: ensureStandbyShardNumFromConfig_def)


section \<open>The owner of a shard\<close>

lemma longestPrefix_sound:
  assumes "\<forall>b. best = Some b \<longrightarrow> infoPrefix b \<noteq> [] \<and> HasPrefix name (infoPrefix b)"
  shows "case longestPrefix name best infos of
      None \<Rightarrow> best = None \<and> (\<forall>i \<in> set infos. infoPrefix i = [] \<or> \<not> HasPrefix name (infoPrefix i))
    | Some b \<Rightarrow> (best = Some b \<or> b \<in> set infos) \<and> infoPrefix b \<noteq> [] \<and> HasPrefix name (infoPrefix b) \<and>
        (\<forall>i. (best = Some i \<or> i \<in> set infos) \<longrightarrow> infoPrefix i \<noteq> [] \<longrightarrow> HasPrefix name (infoPrefix i) \<longrightarrow>
           length (infoPrefix i) \<le> length (infoPrefix b))"
  using assms
proof (induction name best infos rule: longestPrefix.induct)
  case (1 name best)
  then show ?case by (cases best) auto
next
  case (2 name best info infos)
  show ?case
  proof (cases "infoPrefix info = [] \<or> \<not> HasPrefix name (infoPrefix info)")
    case True
    then show ?thesis using 2 by (auto split: option.splits)
  next
    case False
    then show ?thesis
      using 2 by (cases best) (fastforce split: option.splits if_splits)+
  qed
qed

lemma HasPrefix_iff: "HasPrefix s p \<longleftrightarrow> (\<exists>t. s = p @ t)"
  by (metis HasPrefix_def append_eq_conv_conj append_take_drop_id)

lemma lower_digit: "is_digit c \<Longrightarrow> lower_char c = c"
  by (auto simp: is_digit_def lower_char_def Let_def)

lemma ToLower_itoa [simp]: "ToLower (itoa_nat k) = itoa_nat k"
  using itoa_nat_digits [of k] unfolding ToLower_def list_all_iff by (intro map_idI) (simp add: lower_digit)

text \<open>
  the controller attributes every shard that the webhook generates from an entry to that entry, as
  long as no other entry has the same prefix or that prefix followed by digits.
\<close>

theorem generated_shard_owner:
  assumes "info \<in> set (spec_ShardInfo spec)" and "si_ShardPreFixName info \<noteq> []"
    and "TrimSpace (si_ShardPreFixName info) = si_ShardPreFixName info"
    and "\<forall>i \<in> set (spec_ShardInfo spec). \<forall>ds. list_all is_digit ds \<longrightarrow>
      infoPrefix i = infoPrefix info @ ds \<longrightarrow> i = info"
  shows "matchShardInfoByLongestPrefix spec (sh_Name (initShard info j s)) = Some info"
proof -
  let ?p = "infoPrefix info" let ?name = "?p @ itoa_nat (Suc j)"
  have p: "?p = ToLower (si_ShardPreFixName info)" using assms(3) by (simp add: infoPrefix_def)
  have name: "ToLower (TrimSpace (sh_Name (initShard info j s))) = ?name"
    by (simp add: TrimSpace_itoa [OF assms(3)]) (simp add: p ToLower_def [of "_ @ _"] flip: ToLower_def)
  have own: "?p \<noteq> []" "HasPrefix ?name ?p" using assms(2) by (auto simp: p HasPrefix_iff)
  obtain b where b: "longestPrefix ?name None (spec_ShardInfo spec) = Some b"
    using longestPrefix_sound [of None ?name "spec_ShardInfo spec"] own assms(1)
    by (cases "longestPrefix ?name None (spec_ShardInfo spec)") auto
  then have b2: "b \<in> set (spec_ShardInfo spec)" "HasPrefix ?name (infoPrefix b)" "length ?p \<le> length (infoPrefix b)"
    using longestPrefix_sound [of None ?name "spec_ShardInfo spec"] own assms(1) by auto
  obtain u v where v: "?name = infoPrefix b @ v" using b2(2) by (auto simp: HasPrefix_iff)
  then obtain ds where ds: "infoPrefix b = ?p @ ds"
    using b2(3) by (auto simp: append_eq_append_conv2) metis
  then have "itoa_nat (Suc j) = ds @ v" using v by simp
  then have "list_all is_digit ds" using itoa_nat_digits [of "Suc j"] by simp
  then have "b = info" using assms(4) b2(1) ds by blast
  then show ?thesis using b own unfolding matchShardInfoByLongestPrefix_def Let_def name by simp
qed

definition prefixEntry :: "string \<Rightarrow> int \<Rightarrow> ShardingDetails" where
  "prefixEntry p n = zeroShardingDetails\<lparr>si_ShardPreFixName := p, si_ShardNum := n\<rparr>"

definition twoEntries :: "int \<Rightarrow> int \<Rightarrow> ShardingDatabaseSpec" where
  "twoEntries m n = zeroShardingDatabaseSpec\<lparr>spec_ShardingType := ''SYSTEM'', spec_ShardInfo := [prefixEntry ''a'' m, prefixEntry ''b'' n]\<rparr>"

lemma twoEntries_fields [simp]:
  "spec_ShardInfo (twoEntries m n) = [prefixEntry ''a'' m, prefixEntry ''b'' n]" "spec_Shard (twoEntries m n) = []"
  "spec_ShardingType (twoEntries m n) = ''SYSTEM''"
  "si_ShardPreFixName (prefixEntry p k) = p" "si_ShardNum (prefixEntry p k) = k" "si_StandbyConfig (prefixEntry p k) = None"
  by (simp_all add: twoEntries_def prefixEntry_def zeroShardingDatabaseSpec_def zeroShardingDetails_def)

theorem generated_shard_owner_witness:
  "matchShardInfoByLongestPrefix (twoEntries 2 2) (sh_Name (initShard (prefixEntry ''b'' 2) 2 zeroShardSpec)) = Some (prefixEntry ''b'' 2)"
  by (rule generated_shard_owner) (auto simp: infoPrefix_def go_eval)

definition pdbSource :: "string \<Rightarrow> StandbyPrimarySource" where
  "pdbSource pdb = \<lparr>sps_DatabaseRef = None, sps_ConnectString = [],
     sps_Details = Some \<lparr>per_ConnectString = [], per_Host = ''h'', per_Port = 1521, per_CdbName = ''C'', per_PdbName = pdb\<rparr>\<rparr>"

definition twoPdbs :: StandbyConfig where
  "twoPdbs = zeroStandbyConfig\<lparr>sbc_PrimarySources := [pdbSource ''P1'', pdbSource ''P2'']\<rparr>"

lemma pdbSource_keys:
  "standbyPrimarySourceIdentityKey (pdbSource pdb) ns = ''endpoint:h:1521/c/'' @ ToLower (TrimSpace pdb)"
  "resolvePrimarySource (pdbSource pdb) = Some \<lparr>rsp_databaseRef = None, rsp_connectString = [], rsp_details = sps_Details (pdbSource pdb)\<rparr>"
  "toIdentity \<lparr>rsp_databaseRef = None, rsp_connectString = [], rsp_details = sps_Details (pdbSource pdb)\<rparr> ns =
     Some \<lparr>pid_Key = ''//h:1521/C_DGMGRL'', pid_Connect = ''//h:1521/C_DGMGRL'', pid_Source = ''Endpoint''\<rparr>"
proof -
  have i: "itoa 1521 = ''1521''"
    by (simp add: itoa_def itoa_nat.simps digit_def) (simp add: char_of_eq_iff)
  show "standbyPrimarySourceIdentityKey (pdbSource pdb) ns = ''endpoint:h:1521/c/'' @ ToLower (TrimSpace pdb)"
    by (simp add: standbyPrimarySourceIdentityKey_def pdbSource_def endpointIdentityKey_def i go_eval)
  show "resolvePrimarySource (pdbSource pdb) = Some \<lparr>rsp_databaseRef = None, rsp_connectString = [], rsp_details = sps_Details (pdbSource pdb)\<rparr>"
    by (simp add: resolvePrimarySource_def pdbSource_def)
  show "toIdentity \<lparr>rsp_databaseRef = None, rsp_connectString = [], rsp_details = sps_Details (pdbSource pdb)\<rparr> ns =
     Some \<lparr>pid_Key = ''//h:1521/C_DGMGRL'', pid_Connect = ''//h:1521/C_DGMGRL'', pid_Source = ''Endpoint''\<rparr>"
    by (simp add: toIdentity_def pdbSource_def endpointIdentity_def buildExternalPrimaryConnectString_def BuildDgmgrlServiceName_def i Let_def go_eval)
qed

text \<open>
  the two counts of the primaries of a standby configuration differ. Two endpoints that name the
  same container database and different pluggable databases pass the validation of the webhook and are
  two primaries there; the controller takes the connect string of the container database as their key
  and counts one.
\<close>

theorem standby_counts_differ:
  "validatePrimarySourceList p (sbc_PrimarySources twoPdbs) ns False = [] \<and>
   standbyConfigPrimaryCount (Some twoPdbs) = 2 \<and> standbyConfigPrimaryCountController (Some twoPdbs) = 1"
proof -
  have s: "sbc_PrimarySources twoPdbs = [pdbSource ''P1'', pdbSource ''P2'']" by (simp add: twoPdbs_def zeroStandbyConfig_def)
  have k: "ToLower (TrimSpace ''P1'') = ''p1''" "ToLower (TrimSpace ''P2'') = ''p2''" by (simp_all add: go_eval)
  have "validatePrimarySourceList p (sbc_PrimarySources twoPdbs) ns False = []"
    by (simp add: s validatePrimarySourceList_def range_seen_def identityKeyOpt_def pdbSource_keys k Let_def)
      (simp add: primarySourceErrs_def selectedModes_def pdbSource_def endpointErrs_def Let_def go_eval)
  moreover have "standbyConfigPrimaryCount (Some twoPdbs) = 2"
    by (simp add: standbyConfigPrimaryCount_def standbyConfigPrimarySourceCount_def s pdbSource_keys k wrap32_def)
  moreover have "standbyConfigPrimaryCountController (Some twoPdbs) = 1"
    by (simp add: standbyConfigPrimaryCountController_def resolveStandbyPrimarySources_def resolvePrimarySourcesList_def s
        List.map_filter_simps pdbSource_keys wrap32_def Let_def go_eval)
  ultimately show ?thesis by blast
qed

end
