(* ===== verification/Sharding_Scale.thy ===== *)
theory Sharding_Scale
  imports Sharding_Primaries
begin

text \<open>
  Scaling of the shards in \<^verbatim>\<open>controllers/database/shardingdatabase_controller.go\<close>: which shards the
  controller wants, which it marks for deletion when an entry shrinks, which marks it takes back when
  the entry grows again, and which stateful sets it cleans up. A \<^verbatim>\<open>range\<close> over a map visits the keys in an
  order of its own each time: the parameter \<open>order\<close> gives the order for the loop over the prefixes at
  each shard. The state of the cluster (\<^verbatim>\<open>isShardReadyForScaleInDelete\<close>) is the parameter \<open>ready\<close>.
\<close>

definition shardOrdinal :: "string \<Rightarrow> int" where
  "shardOrdinal name = ordinalScan (rev name) 0 1 False"

record shardRef =
  ref_idx :: nat
  ref_name :: string
  ref_order :: int

definition desiredByPrefix :: "ShardingDatabaseSpec \<Rightarrow> (string, int) gomap" where
  "desiredByPrefix spec =
     fold (\<lambda>info m. let p = TrimSpace (si_ShardPreFixName info) in
             if p = [] then m else mput p (shardInfoDesiredCount spec info) m) (spec_ShardInfo spec) []"

definition prefixAt :: "(nat \<Rightarrow> string list \<Rightarrow> string list) \<Rightarrow> ShardingDatabaseSpec \<Rightarrow> nat \<Rightarrow> string \<Rightarrow> string option" where
  "prefixAt order spec i name = find (HasPrefix name) (order i (map fst (desiredByPrefix spec)))"

definition currentByPrefix ::
    "(nat \<Rightarrow> string list \<Rightarrow> string list) \<Rightarrow> ShardingDatabaseSpec \<Rightarrow> (string, shardRef list) gomap" where
  "currentByPrefix order spec =
     range_fold (\<lambda>i s m. case prefixAt order spec i (sh_Name s) of None \<Rightarrow> m
        | Some p \<Rightarrow> mput p (mget m p [] @ [\<lparr>ref_idx = i, ref_name = sh_Name s, ref_order = shardOrdinal (sh_Name s)\<rparr>]) m)
       (spec_Shard spec) []"

text \<open>The surplus of one prefix, highest ordinals first. (A desired count is never negative.)\<close>

definition surplus :: "int \<Rightarrow> shardRef list \<Rightarrow> nat list" where
  "surplus desired shards =
     (let extra = wrap32 (wrap32 (int (length shards)) - desired) in
      if extra \<le> 0 then [] else map ref_idx (take (nat extra) (sort_key (\<lambda>r. - ref_order r) shards)))"

definition getScaleInCandidates ::
    "(nat \<Rightarrow> string list \<Rightarrow> string list) \<Rightarrow> ShardingDatabaseSpec \<Rightarrow> (string, nat list) gomap" where
  "getScaleInCandidates order spec =
     List.map_filter (\<lambda>(p, shards). let xs = surplus (mget (desiredByPrefix spec) p 0) shards in
        if xs = [] then None else Some (p, xs)) (currentByPrefix order spec)"

definition candidateIdx :: "(string, nat list) gomap \<Rightarrow> nat list" where
  "candidateIdx cands = concat (map snd cands)"

definition scaleInMark :: "(ShardSpec \<Rightarrow> nat \<Rightarrow> bool) \<Rightarrow> nat list \<Rightarrow> nat \<Rightarrow> ShardSpec \<Rightarrow> bool \<times> ShardSpec" where
  "scaleInMark ready cands i shard =
     (let c = ToLower (TrimSpace (sh_IsDelete shard)); mark = (if c = ''failed'' then ''disable'' else c) in
      if i \<in> set cands then
        (if ready shard i then (if mark \<noteq> ''enable'' then (True, shard\<lparr>sh_IsDelete := ''enable''\<rparr>) else (False, shard))
         else if mark = [] then (True, shard\<lparr>sh_IsDelete := ''disable''\<rparr>) else (False, shard))
      else if mark = [] then (True, shard\<lparr>sh_IsDelete := ''disable''\<rparr>) else (False, shard))"

definition applyReplicaScaleInMarks ::
    "(nat \<Rightarrow> string list \<Rightarrow> string list) \<Rightarrow> (ShardSpec \<Rightarrow> nat \<Rightarrow> bool) \<Rightarrow> ShardingDatabaseSpec \<Rightarrow> bool \<times> ShardingDatabaseSpec" where
  "applyReplicaScaleInMarks order ready spec =
     (let candidatesByPrefix = getScaleInCandidates order spec in
      if candidatesByPrefix = [] then (False, spec)
      else (let marked = map (\<lambda>(i, s). scaleInMark ready (candidateIdx candidatesByPrefix) i s) (enumerate 0 (spec_Shard spec))
            in (list_ex fst marked, spec\<lparr>spec_Shard := map snd marked\<rparr>)))"

definition desiredShardNamesFromShardInfo :: "ShardingDatabaseSpec \<Rightarrow> string list" where
  "desiredShardNamesFromShardInfo spec =
     concat (map (\<lambda>info. let p = TrimSpace (si_ShardPreFixName info); c = shardInfoDesiredCount spec info;
                             replicas = (if c = 0 then 2 else c)
                         in if p = [] then [] else map (\<lambda>j. p @ itoa_nat j) [1..<Suc (nat replicas)]) (spec_ShardInfo spec))"

definition shardNamesFromSpec :: "ShardingDatabaseSpec \<Rightarrow> string list" where
  "shardNamesFromSpec spec = filter (\<lambda>n. n \<noteq> []) (map (\<lambda>s. TrimSpace (sh_Name s)) (spec_Shard spec))"

definition scaleOutUnmark :: "string list \<Rightarrow> ShardSpec \<Rightarrow> bool \<times> ShardSpec" where
  "scaleOutUnmark desired shard =
     (let name = TrimSpace (sh_Name shard); c = ToLower (TrimSpace (sh_IsDelete shard)) in
      if name \<noteq> [] \<and> name \<in> set desired \<and> (c = ''enable'' \<or> c = ''failed'')
      then (True, shard\<lparr>sh_IsDelete := ''disable''\<rparr>) else (False, shard))"

definition applyReplicaScaleOutUnmarks :: "ShardingDatabaseSpec \<Rightarrow> bool \<times> ShardingDatabaseSpec" where
  "applyReplicaScaleOutUnmarks spec =
     (let marked = map (scaleOutUnmark (desiredShardNamesFromShardInfo spec)) (spec_Shard spec)
      in (list_ex fst marked, spec\<lparr>spec_Shard := map snd marked\<rparr>))"

text \<open>The stateful sets that the orphan clean-up deletes, out of those in the namespace.\<close>

definition orphanShardSets :: "string \<Rightarrow> ShardingDatabaseSpec \<Rightarrow> (string \<times> strmap) list \<Rightarrow> string list" where
  "orphanShardSets crName spec sets =
     map (\<lambda>(n, labels). TrimSpace n)
       (filter (\<lambda>(n, labels). labels \<noteq> [] \<and> mget labels ''type'' [] = ''Shard'' \<and> mget labels ''oralabel'' [] = crName \<and>
          TrimSpace n \<notin> set (desiredShardNamesFromShardInfo spec) \<and> TrimSpace n \<notin> set (shardNamesFromSpec spec)) sets)"

definition shouldMoveChunksBeforeDelete :: "ShardingDatabaseSpec \<Rightarrow> ShardSpec \<Rightarrow> bool" where
  "shouldMoveChunksBeforeDelete spec shard \<longleftrightarrow>
     \<not> isStandbyDeployAs (sh_DeployAs shard) \<and> \<not> IsNativeReplication (spec_ReplicationType spec)"


section \<open>Ranks\<close>

lemma card_rank:
  fixes key :: "'a \<Rightarrow> int"
  assumes "distinct (map key xs)" and "x \<in> set xs"
  shows "length (filter (\<lambda>y. key y > key x) xs) + length (filter (\<lambda>y. key y < key x) xs) + 1 = length xs"
  using assms
proof (induction xs)
  case (Cons z zs)
  show ?case
  proof (cases "x \<in> set zs")
    case True
    then have "key z \<noteq> key x" using Cons.prems(1) by auto
    then show ?thesis using Cons True by auto
  next
    case False
    have "length (filter (\<lambda>y. key y > key z) zs) + length (filter (\<lambda>y. key y < key z) zs) = length zs"
      using Cons.prems(1)
    proof (induction zs)
      case (Cons w ws)
      then show ?case by auto
    qed simp
    then show ?thesis using Cons.prems False by auto
  qed
qed simp

lemma take_sorted_rank:
  fixes key :: "'a \<Rightarrow> int"
  assumes "sorted (map key xs)" and "distinct (map key xs)" and "x \<in> set xs"
  shows "x \<in> set (take k xs) \<longleftrightarrow> length (filter (\<lambda>y. key y < key x) xs) < k"
  using assms
proof (induction xs arbitrary: k)
  case (Cons z zs)
  show ?case
  proof (cases "x = z")
    case True
    have "filter (\<lambda>y. key y < key z) zs = []" using Cons.prems(1) by (auto simp: filter_empty_conv)
    moreover have "z \<notin> set zs" using Cons.prems(2) by auto
    ultimately show ?thesis using True by (cases k) auto
  next
    case False
    then have x: "x \<in> set zs" using Cons.prems(3) by simp
    then have "key z < key x" using Cons.prems(1,2) by (auto simp: order.strict_iff_order)
    then show ?thesis using Cons.IH [of "k - 1"] Cons.prems False x by (cases k) auto
  qed
qed simp

lemma length_filter_sort: "length (filter P (sort_key key xs)) = length (filter P xs)"
  by (metis mset_filter mset_sort size_mset)

lemma surplus_iff:
  assumes "distinct (map ref_order rs)" and "r \<in> set rs" and "distinct (map ref_idx rs)"
    and "0 \<le> d" and "d < 2 ^ 31" and "int (length rs) < 2 ^ 31"
  shows "ref_idx r \<in> set (surplus d rs) \<longleftrightarrow> d \<le> int (length (filter (\<lambda>q. ref_order q < ref_order r) rs))"
proof -
  let ?key = "\<lambda>r. - ref_order r" let ?s = "sort_key ?key rs" let ?n = "length rs - nat d"
  have e: "wrap32 (wrap32 (int (length rs)) - d) = int (length rs) - d"
    using assms(4-6) by (simp add: wrap32_small wrap32_id in_int32_def)
  have dist: "distinct (map ?key rs)" using assms(1) by (simp add: distinct_map inj_on_def)
  then have "distinct (map ?key ?s)" by (simp add: distinct_map)
  then have "r \<in> set (take ?n ?s) \<longleftrightarrow> length (filter (\<lambda>y. ?key y < ?key r) ?s) < ?n"
    using take_sorted_rank [of ?key ?s r ?n] assms(2) by simp
  also have "\<dots> \<longleftrightarrow> length (filter (\<lambda>y. ref_order y > ref_order r) rs) < ?n" unfolding length_filter_sort by simp
  also have "\<dots> \<longleftrightarrow> d \<le> int (length (filter (\<lambda>q. ref_order q < ref_order r) rs))"
    using card_rank [OF assms(1,2)] assms(4) by linarith
  finally have 1: "r \<in> set (take ?n ?s) \<longleftrightarrow> d \<le> int (length (filter (\<lambda>q. ref_order q < ref_order r) rs))" .
  have "ref_idx r \<in> ref_idx ` set (take ?n ?s) \<longleftrightarrow> r \<in> set (take ?n ?s)"
    by (rule inj_on_image_mem_iff [of _ "set rs"])
      (use assms(2,3) set_take_subset [of ?n ?s] in \<open>simp_all add: distinct_map\<close>)
  moreover have "set (surplus d rs) = ref_idx ` set (take ?n ?s)"
    using assms(4) by (auto simp: surplus_def Let_def e nat_diff_distrib')
  ultimately show ?thesis using 1 by simp
qed


section \<open>Grouping by prefix\<close>

lemma group_fold:
  "mget (range_fold_from n (\<lambda>i s m. case f i s of None \<Rightarrow> m | Some k \<Rightarrow> mput k (mget m k [] @ [g i s]) m) xs m) k [] =
     mget m k [] @ map (\<lambda>(i, s). g i s) (filter (\<lambda>(i, s). f i s = Some k) (enumerate n xs))"
proof (induction xs arbitrary: n m)
  case (Cons x xs)
  then show ?case by (cases "f n x") (auto simp: mget_mput)
qed simp

lemma group_fold_keys:
  "distinct (map fst m) \<Longrightarrow> distinct (map fst (range_fold_from n (\<lambda>i s m. case f i s of None \<Rightarrow> m | Some k \<Rightarrow> mput k (h i s k m) m) xs m))"
  by (induction xs arbitrary: n m) (auto split: option.splits)

definition entryPrefixes :: "ShardingDatabaseSpec \<Rightarrow> string list" where
  "entryPrefixes spec = filter (\<lambda>p. p \<noteq> []) (map (\<lambda>info. TrimSpace (si_ShardPreFixName info)) (spec_ShardInfo spec))"

definition unambiguous :: "ShardingDatabaseSpec \<Rightarrow> bool" where
  "unambiguous spec \<longleftrightarrow> distinct (entryPrefixes spec) \<and>
     (\<forall>p \<in> set (entryPrefixes spec). \<forall>q \<in> set (entryPrefixes spec). HasPrefix p q \<longrightarrow> p = q)"

lemma desiredByPrefix_keys: "set (map fst (desiredByPrefix spec)) = set (entryPrefixes spec)"
proof -
  have "set (map fst (fold (\<lambda>info m. let p = TrimSpace (si_ShardPreFixName info) in if p = [] then m else mput p (h info) m) infos m)) =
      set (map fst m) \<union> set (filter (\<lambda>p. p \<noteq> []) (map (\<lambda>info. TrimSpace (si_ShardPreFixName info)) infos))" for h :: "ShardingDetails \<Rightarrow> int" and infos m
    by (induction infos arbitrary: m) (auto simp: Let_def)
  then show ?thesis by (simp add: desiredByPrefix_def entryPrefixes_def)
qed

lemma desiredByPrefix_count:
  assumes "distinct (entryPrefixes spec)" and "info \<in> set (spec_ShardInfo spec)" and "\<not> blank (si_ShardPreFixName info)"
  shows "mget (desiredByPrefix spec) (TrimSpace (si_ShardPreFixName info)) 0 = shardInfoDesiredCount spec info"
proof -
  let ?key = "\<lambda>info. TrimSpace (si_ShardPreFixName info)"
  have "mget (fold (\<lambda>info m. let p = ?key info in if p = [] then m else mput p (h info) m) infos m) (?key info) 0 = h info"
    if "distinct (filter (\<lambda>p. p \<noteq> []) (map ?key infos))" "info \<in> set infos" for h :: "ShardingDetails \<Rightarrow> int" and infos m
    using that
  proof (induction infos arbitrary: m)
    case (Cons a infos)
    have keep: "mget (fold (\<lambda>info m. let p = ?key info in if p = [] then m else mput p (h info) m) infos m) k 0 = mget m k 0"
      if "k \<noteq> []" "k \<notin> ?key ` set infos" for k m
      using that by (induction infos arbitrary: m) (auto simp: Let_def mget_mput)
    show ?case
    proof (cases "info \<in> set infos")
      case True
      then show ?thesis using Cons by (auto split: if_splits)
    next
      case False
      then have "info = a" using Cons.prems(2) by simp
      moreover have "?key info \<notin> ?key ` set infos"
      proof
        assume "?key info \<in> ?key ` set infos"
        then show False using Cons.prems(1) \<open>info = a\<close> assms(3) by auto
      qed
      ultimately show ?thesis using assms(3) keep [of "?key info"] by (simp add: Let_def mget_mput)
    qed
  qed simp
  then show ?thesis using assms(1,2) unfolding desiredByPrefix_def entryPrefixes_def by blast
qed

lemma find_SomeD: "find P xs = Some x \<Longrightarrow> x \<in> set xs \<and> P x"
  by (auto simp: find_Some_iff)

lemma prefixAt_known:
  assumes "prefixAt order spec i name = Some p" and "\<forall>i ks. set (order i ks) = set ks"
  shows "p \<in> set (entryPrefixes spec)"
proof -
  have "p \<in> set (order i (map fst (desiredByPrefix spec)))" using find_SomeD assms(1) unfolding prefixAt_def by fast
  then show ?thesis using assms(2) desiredByPrefix_keys [of spec] by simp
qed

lemma prefixAt_iff:
  assumes "unambiguous spec" and "\<forall>i ks. set (order i ks) = set ks" and "p \<in> set (entryPrefixes spec)"
  shows "prefixAt order spec i name = Some p \<longleftrightarrow> HasPrefix name p"
proof -
  let ?ks = "order i (map fst (desiredByPrefix spec))"
  have ks: "set ?ks = set (entryPrefixes spec)" using assms(2) desiredByPrefix_keys by blast
  have uniq: "q = p" if "q \<in> set (entryPrefixes spec)" "HasPrefix name q" "HasPrefix name p" for q
  proof -
    from that(2,3) obtain u v where "name = q @ u" "name = p @ v" unfolding HasPrefix_iff by blast
    then have "HasPrefix p q \<or> HasPrefix q p" by (auto simp: HasPrefix_iff append_eq_append_conv2)
    then show ?thesis using assms(1,3) that(1) by (auto simp: unambiguous_def)
  qed
  show ?thesis
  proof
    assume "prefixAt order spec i name = Some p"
    then show "HasPrefix name p" by (auto simp: prefixAt_def find_Some_iff)
  next
    assume h: "HasPrefix name p"
    then have "find (HasPrefix name) ?ks \<noteq> None" using ks assms(3) by (auto simp: find_None_iff)
    then obtain q where q: "find (HasPrefix name) ?ks = Some q" by blast
    then have "HasPrefix name q" "q \<in> set ?ks" by (auto simp: find_Some_iff)
    then have "q = p" using uniq [OF _ _ h] ks by blast
    then show "prefixAt order spec i name = Some p" using q by (simp add: prefixAt_def)
  qed
qed

lemma currentByPrefix_refs:
  assumes "unambiguous spec" and "\<forall>i ks. set (order i ks) = set ks" and "p \<in> set (entryPrefixes spec)"
  shows "mget (currentByPrefix order spec) p [] =
    map (\<lambda>(i, s). \<lparr>ref_idx = i, ref_name = sh_Name s, ref_order = shardOrdinal (sh_Name s)\<rparr>)
      (filter (\<lambda>(i, s). HasPrefix (sh_Name s) p) (enumerate 0 (spec_Shard spec)))"
  unfolding currentByPrefix_def range_fold_def group_fold using prefixAt_iff [OF assms] by simp

lemma currentByPrefix_keys: "(p, refs) \<in> set (currentByPrefix order spec) \<Longrightarrow> mget (currentByPrefix order spec) p [] = refs"
proof -
  have "distinct (map fst (currentByPrefix order spec))"
    unfolding currentByPrefix_def range_fold_def by (rule group_fold_keys [where m = "[]"]) simp
  then show "(p, refs) \<in> set (currentByPrefix order spec) \<Longrightarrow> mget (currentByPrefix order spec) p [] = refs"
    by (simp add: mget_def)
qed

lemma candidateIdx_iff:
  "i \<in> set (candidateIdx (getScaleInCandidates order spec)) \<longleftrightarrow>
     (\<exists>p \<in> fst ` set (currentByPrefix order spec). i \<in> set (surplus (mget (desiredByPrefix spec) p 0) (mget (currentByPrefix order spec) p [])))"
proof -
  let ?x = "\<lambda>p refs. surplus (mget (desiredByPrefix spec) p 0) refs"
  have "i \<in> set (candidateIdx (List.map_filter (\<lambda>(p, refs). let xs = ?x p refs in if xs = [] then None else Some (p, xs)) m)) \<longleftrightarrow>
      (\<exists>(p, refs) \<in> set m. i \<in> set (?x p refs))" for m
  proof (induction m)
    case (Cons x m)
    then show ?case
      by (cases x, cases "?x (fst x) (snd x) = []") (simp_all add: candidateIdx_def List.map_filter_simps Let_def)
  qed (simp add: candidateIdx_def List.map_filter_simps)
  then have "i \<in> set (candidateIdx (getScaleInCandidates order spec)) \<longleftrightarrow>
      (\<exists>(p, refs) \<in> set (currentByPrefix order spec). i \<in> set (?x p refs))"
    by (simp add: getScaleInCandidates_def)
  also have "\<dots> \<longleftrightarrow> (\<exists>p \<in> fst ` set (currentByPrefix order spec). i \<in> set (?x p (mget (currentByPrefix order spec) p [])))"
    using currentByPrefix_keys [of _ _ order spec] by (force simp: split_beta)
  finally show ?thesis .
qed

lemma mget_not_Nil_key: "mget m p [] \<noteq> [] \<Longrightarrow> p \<in> fst ` set m"
  by (cases "map_of m p") (simp_all add: mget_def map_of_SomeD image_iff, metis fst_conv map_of_SomeD)

lemma surplus_subset: "set (surplus d rs) \<subseteq> ref_idx ` set rs"
  by (auto simp: surplus_def Let_def dest: in_set_takeD)

lemma currentByPrefix_in:
  assumes "p \<in> fst ` set (currentByPrefix order spec)" and "\<forall>i ks. set (order i ks) = set ks"
  shows "p \<in> set (entryPrefixes spec)"
proof -
  let ?f = "\<lambda>i s m. case prefixAt order spec i (sh_Name s) of None \<Rightarrow> m
        | Some p \<Rightarrow> mput p (mget m p [] @ [\<lparr>ref_idx = i, ref_name = sh_Name s, ref_order = shardOrdinal (sh_Name s)\<rparr>]) m"
  have pre: "k \<in> set (entryPrefixes spec)" if "prefixAt order spec i name = Some k" for i name k
    using prefixAt_known [OF that assms(2)] .
  have "fst ` set (range_fold_from n ?f xs m) \<subseteq> fst ` set m \<union> set (entryPrefixes spec)" for n xs m
  proof (induction xs arbitrary: n m)
    case (Cons x xs)
    have "fst ` set (?f n x m) \<subseteq> fst ` set m \<union> set (entryPrefixes spec)"
      using pre [of n "sh_Name x"] by (cases "prefixAt order spec n (sh_Name x)") auto
    then show ?case using Cons.IH [of "Suc n" "?f n x m"] by (simp only: range_fold_from.simps) blast
  qed simp
  then show ?thesis using assms(1) unfolding currentByPrefix_def range_fold_def by fastforce
qed

text \<open>The rank of a shard among the shards of a prefix, and the shards the entry wants to keep.\<close>

definition smallerOrdinals :: "ShardingDatabaseSpec \<Rightarrow> string \<Rightarrow> nat \<Rightarrow> nat" where
  "smallerOrdinals spec p i =
     length (filter (\<lambda>s. HasPrefix (sh_Name s) p \<and> shardOrdinal (sh_Name s) < shardOrdinal (sh_Name (spec_Shard spec ! i))) (spec_Shard spec))"

definition distinctOrdinals :: "ShardingDatabaseSpec \<Rightarrow> string \<Rightarrow> bool" where
  "distinctOrdinals spec p \<longleftrightarrow>
     distinct (map (\<lambda>s. shardOrdinal (sh_Name s)) (filter (\<lambda>s. HasPrefix (sh_Name s) p) (spec_Shard spec)))"

lemma map_snd_filter_enumerate: "map snd (filter (\<lambda>(i, s). P s) (enumerate n xs)) = filter P xs"
  by (induction xs arbitrary: n) auto

lemma candidate_iff:
  assumes "unambiguous spec" and "\<forall>i ks. set (order i ks) = set ks"
    and "info \<in> set (spec_ShardInfo spec)" and "\<not> blank (si_ShardPreFixName info)"
    and "p = TrimSpace (si_ShardPreFixName info)" and "distinctOrdinals spec p"
    and "0 \<le> shardInfoDesiredCount spec info" and "shardInfoDesiredCount spec info < 2 ^ 31"
    and "int (length (spec_Shard spec)) < 2 ^ 31"
    and "i < length (spec_Shard spec)" and "HasPrefix (sh_Name (spec_Shard spec ! i)) p"
  shows "i \<in> set (candidateIdx (getScaleInCandidates order spec)) \<longleftrightarrow>
    shardInfoDesiredCount spec info \<le> int (smallerOrdinals spec p i)"
proof -
  have p: "p \<in> set (entryPrefixes spec)" using assms(3-5) by (auto simp: entryPrefixes_def)
  let ?ref = "\<lambda>(i, s). \<lparr>ref_idx = i, ref_name = sh_Name s, ref_order = shardOrdinal (sh_Name s)\<rparr>"
  let ?own = "\<lambda>p. filter (\<lambda>(i, s). HasPrefix (sh_Name s) p) (enumerate 0 (spec_Shard spec))"
  let ?r = "?ref (i, spec_Shard spec ! i)"
  have refs: "mget (currentByPrefix order spec) q [] = map ?ref (?own q)" if "q \<in> set (entryPrefixes spec)" for q
    using currentByPrefix_refs [OF assms(1,2) that] .
  have mem: "(i, spec_Shard spec ! i) \<in> set (?own p)" using assms(10,11) by (simp add: in_set_enumerate_eq)
  have "0 < length (?own p)" by (rule length_pos_if_in_set [OF mem])
  then have key: "p \<in> fst ` set (currentByPrefix order spec)" by (intro mget_not_Nil_key) (simp add: refs [OF p])
  have only: "q = p" if "q \<in> set (entryPrefixes spec)" "i \<in> ref_idx ` set (map ?ref (?own q))" for q
  proof -
    have "HasPrefix (sh_Name (spec_Shard spec ! i)) q" using that(2) by (auto simp: in_set_enumerate_eq)
    then have "prefixAt order spec i (sh_Name (spec_Shard spec ! i)) = Some q"
      using prefixAt_iff [OF assms(1,2) that(1)] by blast
    moreover have "prefixAt order spec i (sh_Name (spec_Shard spec ! i)) = Some p"
      using prefixAt_iff [OF assms(1,2) p, of i "sh_Name (spec_Shard spec ! i)"] assms(11) by simp
    ultimately show ?thesis by simp
  qed
  have "i \<in> set (candidateIdx (getScaleInCandidates order spec)) \<longleftrightarrow>
      i \<in> set (surplus (mget (desiredByPrefix spec) p 0) (map ?ref (?own p)))"
  proof
    assume "i \<in> set (candidateIdx (getScaleInCandidates order spec))"
    then obtain q where q: "q \<in> fst ` set (currentByPrefix order spec)"
      and i: "i \<in> set (surplus (mget (desiredByPrefix spec) q 0) (mget (currentByPrefix order spec) q []))"
      unfolding candidateIdx_iff by blast
    have qp: "q \<in> set (entryPrefixes spec)" using currentByPrefix_in [OF q assms(2)] .
    have "q = p" using only [OF qp] i surplus_subset unfolding refs [OF qp] by blast
    then show "i \<in> set (surplus (mget (desiredByPrefix spec) p 0) (map ?ref (?own p)))" using i refs [OF p] by simp
  next
    assume "i \<in> set (surplus (mget (desiredByPrefix spec) p 0) (map ?ref (?own p)))"
    then show "i \<in> set (candidateIdx (getScaleInCandidates order spec))"
      unfolding candidateIdx_iff using key refs [OF p] by metis
  qed
  also have "\<dots> \<longleftrightarrow> ref_idx ?r \<in> set (surplus (shardInfoDesiredCount spec info) (map ?ref (?own p)))"
    using desiredByPrefix_count [OF _ assms(3,4)] assms(1,5) by (simp add: unambiguous_def)
  also have "\<dots> \<longleftrightarrow> shardInfoDesiredCount spec info \<le> int (length (filter (\<lambda>q. ref_order q < ref_order ?r) (map ?ref (?own p))))"
  proof (rule surplus_iff)
    have "map ref_order (map ?ref (?own p)) = map (\<lambda>s. shardOrdinal (sh_Name s)) (map snd (?own p))" by (induction "?own p") auto
    then show "distinct (map ref_order (map ?ref (?own p)))"
      using assms(6) by (simp only: map_snd_filter_enumerate distinctOrdinals_def)
    have "map ref_idx (map ?ref (?own p)) = map fst (?own p)" by auto
    then show "distinct (map ref_idx (map ?ref (?own p)))"
      by (simp only:) (simp add: distinct_map_filter)
    have "length (?own p) \<le> length (spec_Shard spec)" using length_filter_le [of _ "enumerate 0 (spec_Shard spec)"] by simp
    then show "int (length (map ?ref (?own p))) < 2 ^ 31" using assms(9) by simp
  qed (use mem assms(7,8) in auto)
  also have "length (filter (\<lambda>q. ref_order q < ref_order ?r) (map ?ref (?own p))) = smallerOrdinals spec p i"
  proof -
    have "length (filter (\<lambda>q. ref_order q < ref_order ?r) (map ?ref (?own p))) =
        length (filter (\<lambda>s. shardOrdinal (sh_Name s) < shardOrdinal (sh_Name (spec_Shard spec ! i))) (map snd (?own p)))"
      by (simp add: filter_map comp_def split_beta)
    then show ?thesis by (simp only: map_snd_filter_enumerate smallerOrdinals_def filter_filter)
  qed
  finally show ?thesis .
qed


section \<open>Marks do not matter to the plan\<close>

text \<open>Two specifications that differ in delete marks only.\<close>

definition sameButMarks :: "ShardingDatabaseSpec \<Rightarrow> ShardingDatabaseSpec \<Rightarrow> bool" where
  "sameButMarks spec spec' \<longleftrightarrow>
     map (\<lambda>s. s\<lparr>sh_IsDelete := []\<rparr>) (spec_Shard spec') = map (\<lambda>s. s\<lparr>sh_IsDelete := []\<rparr>) (spec_Shard spec) \<and>
     spec_ShardInfo spec' = spec_ShardInfo spec \<and> spec_ShardingType spec' = spec_ShardingType spec"

lemma sameButMarks_map:
  assumes "sameButMarks spec spec'" and "\<And>s x. f (s\<lparr>sh_IsDelete := x\<rparr>) = f s"
  shows "map f (spec_Shard spec') = map f (spec_Shard spec)"
proof -
  let ?clear = "map (\<lambda>s. s\<lparr>sh_IsDelete := []\<rparr>)"
  have clear: "map f (?clear xs) = map f xs" for xs by (simp add: assms(2))
  have "?clear (spec_Shard spec') = ?clear (spec_Shard spec)" using assms(1) by (simp only: sameButMarks_def)
  then have "map f (?clear (spec_Shard spec')) = map f (?clear (spec_Shard spec))" by (rule arg_cong)
  then show ?thesis unfolding clear .
qed

lemma list_ex_map_eq:
  assumes "map P xs = map P ys"
  shows "list_ex P xs = list_ex P ys"
proof -
  have "list_ex P zs \<longleftrightarrow> True \<in> set (map P zs)" for zs by (induction zs) auto
  then show ?thesis by (simp only: assms)
qed

lemma sameButMarks_count:
  assumes "sameButMarks spec spec'"
  shows "shardInfoDesiredCount spec' info = shardInfoDesiredCount spec info"
proof -
  have "list_ex (\<lambda>s. \<not> blank (sh_ShardGroup s)) (spec_Shard spec') = list_ex (\<lambda>s. \<not> blank (sh_ShardGroup s)) (spec_Shard spec)"
    "list_ex (\<lambda>s. \<not> blank (sh_ShardSpace s)) (spec_Shard spec') = list_ex (\<lambda>s. \<not> blank (sh_ShardSpace s)) (spec_Shard spec)"
    by (rule list_ex_map_eq, rule sameButMarks_map [OF assms], simp)+
  then have "effectiveShardingTypeForConstraints spec' = effectiveShardingTypeForConstraints spec"
    using assms by (simp add: effectiveShardingTypeForConstraints_def sameButMarks_def Let_def)
  then show ?thesis by (simp add: shardInfoDesiredCount_def)
qed

lemma sameButMarks_desired:
  assumes "sameButMarks spec spec'"
  shows "desiredByPrefix spec' = desiredByPrefix spec"
    and "desiredShardNamesFromShardInfo spec' = desiredShardNamesFromShardInfo spec"
  using assms unfolding desiredByPrefix_def desiredShardNamesFromShardInfo_def sameButMarks_count [OF assms]
  by (simp_all add: sameButMarks_def)

lemma range_fold_cong_names:
  assumes "map sh_Name xs = map sh_Name ys" and "\<And>i s s' m. sh_Name s = sh_Name s' \<Longrightarrow> f i s m = g i s' m"
  shows "range_fold_from n f xs m = range_fold_from n g ys m"
  using assms(1)
proof (induction xs arbitrary: ys n m)
  case (Cons x xs)
  then obtain y ys' where "ys = y # ys'" "sh_Name x = sh_Name y" "map sh_Name xs = map sh_Name ys'" by (cases ys) auto
  then show ?case using Cons.IH [of ys'] assms(2) [of x y] by simp
qed simp

lemma option_eqI: "(\<And>x. a = Some x \<longleftrightarrow> b = Some x) \<Longrightarrow> a = b"
  by (cases a; cases b) auto

lemma prefixAt_order:
  assumes "unambiguous spec" and "\<forall>i ks. set (order i ks) = set ks" and "\<forall>i ks. set (order' i ks) = set ks"
  shows "prefixAt order' spec i name = prefixAt order spec i name"
proof (rule option_eqI)
  fix p
  show "prefixAt order' spec i name = Some p \<longleftrightarrow> prefixAt order spec i name = Some p"
  proof (cases "p \<in> set (entryPrefixes spec)")
    case True
    then show ?thesis using prefixAt_iff [OF assms(1,2) True] prefixAt_iff [OF assms(1,3) True] by simp
  next
    case False
    then show ?thesis using prefixAt_known [OF _ assms(2)] prefixAt_known [OF _ assms(3)] by (meson False)
  qed
qed

lemma getScaleInCandidates_marks:
  assumes "unambiguous spec" and "\<forall>i ks. set (order i ks) = set ks" and "\<forall>i ks. set (order' i ks) = set ks"
    and "sameButMarks spec spec'"
  shows "getScaleInCandidates order' spec' = getScaleInCandidates order spec"
proof -
  have "prefixAt order' spec' i name = prefixAt order spec i name" for i name
    using prefixAt_order [OF assms(1-3)] by (simp add: prefixAt_def sameButMarks_desired(1) [OF assms(4)])
  moreover have "map sh_Name (spec_Shard spec') = map sh_Name (spec_Shard spec)"
    by (rule sameButMarks_map [OF assms(4)]) simp
  ultimately have "currentByPrefix order' spec' = currentByPrefix order spec"
    unfolding currentByPrefix_def range_fold_def by (intro range_fold_cong_names) (auto split: option.splits)
  then show ?thesis by (simp add: getScaleInCandidates_def sameButMarks_desired(1) [OF assms(4)])
qed


section \<open>One round of scaling is enough\<close>

text \<open>
  Names as the admission webhook makes them: prefixes that are trimmed, tell the entries apart and do not
  end in a digit, positive counts, trimmed shard names with their own positive ordinal within the entry.
\<close>

definition wellNamed :: "ShardingDatabaseSpec \<Rightarrow> bool" where
  "wellNamed spec \<longleftrightarrow> unambiguous spec \<and> int (length (spec_Shard spec)) < 2 ^ 31 \<and>
     (\<forall>s \<in> set (spec_Shard spec). TrimSpace (sh_Name s) = sh_Name s) \<and>
     (\<forall>info \<in> set (spec_ShardInfo spec). \<not> blank (si_ShardPreFixName info) \<longrightarrow>
        (let p = TrimSpace (si_ShardPreFixName info) in
         \<not> endsInDigit p \<and> 0 < shardInfoDesiredCount spec info \<and> shardInfoDesiredCount spec info < 2 ^ 31 \<and> distinctOrdinals spec p \<and>
         (\<forall>s \<in> set (spec_Shard spec). HasPrefix (sh_Name s) p \<longrightarrow> 1 \<le> shardOrdinal (sh_Name s))))"

lemma smaller_than_ordinal:
  assumes "distinctOrdinals spec p" and "\<forall>s \<in> set (spec_Shard spec). HasPrefix (sh_Name s) p \<longrightarrow> 1 \<le> shardOrdinal (sh_Name s)"
  shows "smallerOrdinals spec p i \<le> nat (shardOrdinal (sh_Name (spec_Shard spec ! i)) - 1)"
proof -
  let ?o = "\<lambda>s. shardOrdinal (sh_Name s)" let ?k = "?o (spec_Shard spec ! i)"
  let ?xs = "filter (\<lambda>s. HasPrefix (sh_Name s) p \<and> ?o s < ?k) (spec_Shard spec)"
  let ?own = "filter (\<lambda>s. HasPrefix (sh_Name s) p) (spec_Shard spec)"
  have "distinct (map ?o (filter (\<lambda>s. ?o s < ?k) ?own))"
    using assms(1) unfolding distinctOrdinals_def by (rule distinct_map_filter)
  then have "distinct (map ?o ?xs)" unfolding filter_filter .
  then have "length ?xs = card (?o ` set ?xs)" using distinct_card by fastforce
  also have "\<dots> \<le> card {1..?k - 1}" by (rule card_mono) (use assms(2) in auto)
  finally show ?thesis by (simp add: smallerOrdinals_def)
qed

lemma set_named: "x \<in> set (if p = [] then [] else map (\<lambda>j. p @ itoa_nat j) [1..<Suc n]) \<longleftrightarrow>
    p \<noteq> [] \<and> (\<exists>j. 1 \<le> j \<and> j \<le> n \<and> x = p @ itoa_nat j)"
  by (auto simp: less_Suc_eq_le)

lemma desired_nameE:
  assumes "name \<in> set (desiredShardNamesFromShardInfo spec)"
  obtains info k where "info \<in> set (spec_ShardInfo spec)" and "\<not> blank (si_ShardPreFixName info)" and "1 \<le> k"
    and "k \<le> nat (if shardInfoDesiredCount spec info = 0 then 2 else shardInfoDesiredCount spec info)"
    and "name = TrimSpace (si_ShardPreFixName info) @ itoa_nat k"
proof -
  from assms obtain info where "info \<in> set (spec_ShardInfo spec)"
    "name \<in> set (let p = TrimSpace (si_ShardPreFixName info); c = shardInfoDesiredCount spec info;
        replicas = (if c = 0 then 2 else c) in if p = [] then [] else map (\<lambda>j. p @ itoa_nat j) [1..<Suc (nat replicas)])"
    unfolding desiredShardNamesFromShardInfo_def by auto
  then show ?thesis using that by (simp only: Let_def set_named) blast
qed

lemma desired_name_spared:
  assumes "wellNamed spec" and "\<forall>i ks. set (order i ks) = set ks"
    and "i < length (spec_Shard spec)" and "sh_Name (spec_Shard spec ! i) \<in> set (desiredShardNamesFromShardInfo spec)"
  shows "i \<notin> set (candidateIdx (getScaleInCandidates order spec))"
proof -
  from assms(4) obtain info j where info: "info \<in> set (spec_ShardInfo spec)" and p: "\<not> blank (si_ShardPreFixName info)"
    and j: "1 \<le> j" "j \<le> nat (if shardInfoDesiredCount spec info = 0 then 2 else shardInfoDesiredCount spec info)"
      "sh_Name (spec_Shard spec ! i) = TrimSpace (si_ShardPreFixName info) @ itoa_nat j"
    by (rule desired_nameE)
  let ?p = "TrimSpace (si_ShardPreFixName info)" let ?c = "shardInfoDesiredCount spec info"
  have w: "unambiguous spec" "int (length (spec_Shard spec)) < 2 ^ 31" "\<not> endsInDigit ?p" "0 < ?c" "?c < 2 ^ 31"
    "distinctOrdinals spec ?p" "\<forall>s \<in> set (spec_Shard spec). HasPrefix (sh_Name s) ?p \<longrightarrow> 1 \<le> shardOrdinal (sh_Name s)"
    using assms(1) info p unfolding wellNamed_def by (auto simp: Let_def)
  have "int j < 10 ^ 18" using j(2) w(4,5) by simp
  then have "shardOrdinal (sh_Name (spec_Shard spec ! i)) = int j"
    using shardOrdinal_roundtrip [OF w(3)] by (simp add: j(3) shardOrdinal_def shardOrdinalWebhook_def)
  then have "smallerOrdinals spec ?p i \<le> nat (int j - 1)" using smaller_than_ordinal [OF w(6,7), of i] by simp
  moreover have "HasPrefix (sh_Name (spec_Shard spec ! i)) ?p" by (simp add: j(3) HasPrefix_iff)
  ultimately show ?thesis
    using candidate_iff [OF w(1) assms(2) info p refl w(6) _ w(5,2) assms(3)] w(4) j(1,2) by auto
qed

lemma scaleOutUnmark_marks: "(snd (scaleOutUnmark ns s))\<lparr>sh_IsDelete := []\<rparr> = s\<lparr>sh_IsDelete := []\<rparr>"
  by (simp add: scaleOutUnmark_def Let_def)

lemma scaleInMark_marks: "(snd (scaleInMark ready cs i s))\<lparr>sh_IsDelete := []\<rparr> = s\<lparr>sh_IsDelete := []\<rparr>"
  by (simp add: scaleInMark_def Let_def)

lemma unmark_sameButMarks: "sameButMarks spec (snd (applyReplicaScaleOutUnmarks spec))"
  by (simp add: applyReplicaScaleOutUnmarks_def Let_def sameButMarks_def scaleOutUnmark_marks)

lemma map_snd_enumerate: "map (\<lambda>(i, s). f s) (enumerate n xs) = map f xs"
  by (induction xs arbitrary: n) auto

lemma mark_sameButMarks: "sameButMarks spec (snd (applyReplicaScaleInMarks order ready spec))"
  by (simp add: applyReplicaScaleInMarks_def Let_def sameButMarks_def scaleInMark_marks split_beta comp_def
      map_snd_enumerate [where f = "\<lambda>s. s\<lparr>sh_IsDelete := []\<rparr>", unfolded split_beta])

lemma sameButMarks_trans: "sameButMarks a b \<Longrightarrow> sameButMarks b c \<Longrightarrow> sameButMarks a c"
  by (simp add: sameButMarks_def)

text \<open>What one pass leaves behind, shard by shard.\<close>

lemma scaleOutUnmark_settles:
  "fst (scaleOutUnmark ns s) \<longleftrightarrow> TrimSpace (sh_Name s) \<noteq> [] \<and> TrimSpace (sh_Name s) \<in> set ns \<and>
     ToLower (TrimSpace (sh_IsDelete s)) \<in> {''enable'', ''failed''}"
  "fst (scaleOutUnmark ns (snd (scaleOutUnmark ns s))) = False"
  by (auto simp: scaleOutUnmark_def Let_def go_eval)

lemma scaleOutUnmark_same: "\<not> fst (scaleOutUnmark ns s) \<Longrightarrow> snd (scaleOutUnmark ns s) = s"
  by (auto simp: scaleOutUnmark_def Let_def split: if_splits)

lemma scaleInMark_settles:
  assumes "\<And>s i x. ready (s\<lparr>sh_IsDelete := x\<rparr>) i = ready s i"
  shows "fst (scaleInMark ready cs i (snd (scaleInMark ready cs i s))) = False"
proof -
  let ?c = "ToLower (TrimSpace (sh_IsDelete s))"
  consider "i \<in> set cs" "ready s i" | "i \<in> set cs" "\<not> ready s i" | "i \<notin> set cs" by blast
  then show ?thesis
  proof cases
    case 1
    then show ?thesis by (cases "?c = ''enable''") (simp_all add: scaleInMark_def Let_def go_eval assms)
  next
    case 2
    then show ?thesis by (cases "?c = []"; cases "?c = ''failed''") (simp_all add: scaleInMark_def Let_def go_eval assms)
  next
    case 3
    then show ?thesis by (cases "?c = []"; cases "?c = ''failed''") (simp_all add: scaleInMark_def Let_def go_eval)
  qed
qed

lemma scaleInMark_unmarked:
  assumes "i \<notin> set cs" and "\<not> fst (scaleOutUnmark ns s)"
  shows "\<not> fst (scaleOutUnmark ns (snd (scaleInMark ready cs i s)))"
  using assms by (auto simp: scaleOutUnmark_settles(1) scaleInMark_def Let_def go_eval)

lemma mark_nth:
  assumes "getScaleInCandidates order spec \<noteq> []" and "i < length (spec_Shard spec)"
  shows "spec_Shard (snd (applyReplicaScaleInMarks order ready spec)) ! i =
    snd (scaleInMark ready (candidateIdx (getScaleInCandidates order spec)) i (spec_Shard spec ! i))"
  using assms by (simp add: applyReplicaScaleInMarks_def Let_def nth_enumerate_eq)

lemma mark_fst:
  "fst (applyReplicaScaleInMarks order ready spec) \<longleftrightarrow> getScaleInCandidates order spec \<noteq> [] \<and>
     (\<exists>i < length (spec_Shard spec). fst (scaleInMark ready (candidateIdx (getScaleInCandidates order spec)) i (spec_Shard spec ! i)))"
  by (auto simp: applyReplicaScaleInMarks_def Let_def list_ex_length nth_enumerate_eq)

lemma unmark_fst:
  "fst (applyReplicaScaleOutUnmarks spec) \<longleftrightarrow>
     (\<exists>i < length (spec_Shard spec). fst (scaleOutUnmark (desiredShardNamesFromShardInfo spec) (spec_Shard spec ! i)))"
  by (auto simp: applyReplicaScaleOutUnmarks_def Let_def list_ex_length)

lemma sameButMarks_length: "sameButMarks spec spec' \<Longrightarrow> length (spec_Shard spec') = length (spec_Shard spec)"
  using sameButMarks_map [of spec spec' "\<lambda>_. ()"] map_eq_imp_length_eq by blast

lemma sameButMarks_name:
  assumes "sameButMarks spec spec'" and "i < length (spec_Shard spec)"
  shows "sh_Name (spec_Shard spec' ! i) = sh_Name (spec_Shard spec ! i)"
proof -
  have "map sh_Name (spec_Shard spec') = map sh_Name (spec_Shard spec)" by (rule sameButMarks_map [OF assms(1)]) simp
  then show ?thesis using assms(2) sameButMarks_length [OF assms(1)] by (metis nth_map)
qed

lemma unmark_settles: "\<not> fst (applyReplicaScaleOutUnmarks (snd (applyReplicaScaleOutUnmarks spec)))"
proof -
  have "desiredShardNamesFromShardInfo (snd (applyReplicaScaleOutUnmarks spec)) = desiredShardNamesFromShardInfo spec"
    by (rule sameButMarks_desired(2) [OF unmark_sameButMarks])
  then show ?thesis
    unfolding unmark_fst by (simp add: applyReplicaScaleOutUnmarks_def Let_def scaleOutUnmark_settles(2))
qed

lemma mark_settles:
  assumes "unambiguous spec" and "\<forall>i ks. set (order i ks) = set ks" and "\<forall>i ks. set (order' i ks) = set ks"
    and "\<And>s i x. ready (s\<lparr>sh_IsDelete := x\<rparr>) i = ready s i"
  shows "\<not> fst (applyReplicaScaleInMarks order' ready (snd (applyReplicaScaleInMarks order ready spec)))"
proof -
  let ?M = "snd (applyReplicaScaleInMarks order ready spec)"
  have "getScaleInCandidates order' ?M = getScaleInCandidates order spec"
    by (rule getScaleInCandidates_marks [OF assms(1-3) mark_sameButMarks])
  moreover have "length (spec_Shard ?M) = length (spec_Shard spec)" by (rule sameButMarks_length [OF mark_sameButMarks])
  ultimately show ?thesis unfolding mark_fst using mark_nth [of order spec] scaleInMark_settles [of ready, OF assms(4)] by auto
qed

lemma mark_keeps_unmarked:
  assumes "wellNamed spec" and "\<forall>i ks. set (order i ks) = set ks" and "\<not> fst (applyReplicaScaleOutUnmarks spec)"
  shows "\<not> fst (applyReplicaScaleOutUnmarks (snd (applyReplicaScaleInMarks order ready spec)))"
proof (cases "getScaleInCandidates order spec = []")
  case True
  then show ?thesis using assms(3) by (simp add: applyReplicaScaleInMarks_def)
next
  case False
  let ?M = "snd (applyReplicaScaleInMarks order ready spec)" let ?ns = "desiredShardNamesFromShardInfo spec"
  have same: "sameButMarks spec ?M" by (rule mark_sameButMarks)
  have "\<not> fst (scaleOutUnmark ?ns (spec_Shard ?M ! i))" if i: "i < length (spec_Shard spec)" for i
  proof (cases "i \<in> set (candidateIdx (getScaleInCandidates order spec))")
    case True
    have "TrimSpace (sh_Name (spec_Shard spec ! i)) = sh_Name (spec_Shard spec ! i)"
      using assms(1) i by (simp add: wellNamed_def)
    then have "TrimSpace (sh_Name (spec_Shard ?M ! i)) \<notin> set ?ns"
      using desired_name_spared [OF assms(1,2) i] True by (auto simp: sameButMarks_name [OF same i])
    then show ?thesis by (simp add: scaleOutUnmark_settles(1))
  next
    case c: False
    have "\<not> fst (scaleOutUnmark ?ns (spec_Shard spec ! i))" using assms(3) i unfolding unmark_fst by blast
    then show ?thesis unfolding mark_nth [OF False i] by (rule scaleInMark_unmarked [OF c])
  qed
  then show ?thesis
    unfolding unmark_fst sameButMarks_desired(2) [OF same] sameButMarks_length [OF same] by blast
qed

lemma wellNamed_marks:
  assumes "sameButMarks spec spec'"
  shows "wellNamed spec' = wellNamed spec"
proof -
  have names: "map sh_Name (spec_Shard spec') = map sh_Name (spec_Shard spec)" by (rule sameButMarks_map [OF assms]) simp
  have "sh_Name ` set (spec_Shard spec') = sh_Name ` set (spec_Shard spec)" using names by (metis list.set_map)
  then have all: "(\<forall>s \<in> set (spec_Shard spec'). P (sh_Name s)) \<longleftrightarrow> (\<forall>s \<in> set (spec_Shard spec). P (sh_Name s))" for P
    by (metis (no_types, opaque_lifting) image_iff)
  have filt: "map (\<lambda>s. shardOrdinal (sh_Name s)) (filter (\<lambda>s. HasPrefix (sh_Name s) p) xs) =
      map shardOrdinal (filter (\<lambda>n. HasPrefix n p) (map sh_Name xs))" for p xs
    by (simp add: filter_map comp_def)
  have "spec_ShardInfo spec' = spec_ShardInfo spec" using assms by (simp add: sameButMarks_def)
  then show ?thesis
    unfolding wellNamed_def unambiguous_def entryPrefixes_def distinctOrdinals_def filt names
      sameButMarks_count [OF assms] sameButMarks_length [OF assms]
      all [of "\<lambda>n. TrimSpace n = n"] all [of "\<lambda>n. HasPrefix n p \<longrightarrow> 1 \<le> shardOrdinal n" for p] by simp
qed

lemma prefixed_name_inj:
  assumes "unambiguous spec" and "info \<in> set (spec_ShardInfo spec)" and "\<not> blank (si_ShardPreFixName info)"
    and "other \<in> set (spec_ShardInfo spec)" and "\<not> blank (si_ShardPreFixName other)"
    and "TrimSpace (si_ShardPreFixName info) @ itoa_nat j = TrimSpace (si_ShardPreFixName other) @ itoa_nat k"
  shows "TrimSpace (si_ShardPreFixName info) = TrimSpace (si_ShardPreFixName other) \<and> k = j"
proof -
  let ?key = "\<lambda>info. TrimSpace (si_ShardPreFixName info)"
  have mem: "?key info \<in> set (entryPrefixes spec)" "?key other \<in> set (entryPrefixes spec)"
    using assms(2-5) by (auto simp: entryPrefixes_def)
  have "HasPrefix (?key info) (?key other) \<or> HasPrefix (?key other) (?key info)"
    using assms(6) unfolding HasPrefix_iff append_eq_append_conv2 by metis
  then have same: "?key info = ?key other" using assms(1) mem unfolding unambiguous_def by metis
  then show ?thesis using assms(6) by (simp add: itoa_nat_inj)
qed

lemma ordinal_not_desired:
  assumes "unambiguous spec" and "info \<in> set (spec_ShardInfo spec)" and "\<not> blank (si_ShardPreFixName info)"
    and "0 < shardInfoDesiredCount spec info" and "shardInfoDesiredCount spec info < int j"
  shows "TrimSpace (si_ShardPreFixName info) @ itoa_nat j \<notin> set (desiredShardNamesFromShardInfo spec)"
proof
  let ?key = "\<lambda>info. TrimSpace (si_ShardPreFixName info)"
  assume "?key info @ itoa_nat j \<in> set (desiredShardNamesFromShardInfo spec)"
  then obtain other k where other: "other \<in> set (spec_ShardInfo spec)" "\<not> blank (si_ShardPreFixName other)"
    and k: "?key info @ itoa_nat j = ?key other @ itoa_nat k"
      "k \<le> nat (if shardInfoDesiredCount spec other = 0 then 2 else shardInfoDesiredCount spec other)"
    by (rule desired_nameE)
  have same: "?key info = ?key other" "k = j" using prefixed_name_inj [OF assms(1-3) other k(1)] by simp_all
  have "distinct (entryPrefixes spec)" using assms(1) by (simp add: unambiguous_def)
  then have "shardInfoDesiredCount spec other = shardInfoDesiredCount spec info"
    using desiredByPrefix_count [OF _ assms(2,3)] desiredByPrefix_count [OF _ other] same(1) by simp
  then show False using k(2) assms(4,5) same(2) by simp
qed

lemma marked_kept:
  assumes "i < length (spec_Shard spec)" and "sh_IsDelete (spec_Shard spec ! i) = ''enable''"
  shows "spec_Shard (snd (applyReplicaScaleInMarks order ready spec)) ! i = spec_Shard spec ! i"
proof (cases "getScaleInCandidates order spec = []")
  case True
  then show ?thesis by (simp add: applyReplicaScaleInMarks_def)
next
  case False
  then show ?thesis using assms by (simp add: mark_nth scaleInMark_def Let_def go_eval)
qed


section \<open>Properties\<close>

text \<open>C8:
  Scale-in picks the right number of shards, from the top: when the prefixes tell the entries apart and
  the shards of an entry have distinct ordinals, a shard is a candidate exactly when its entry already
  has as many shards with smaller ordinals as it wants. The order in which Go visits the prefixes does
  not matter, and the 32-bit subtraction does not wrap.
\<close>

theorem scale_in_candidates_iff:
  assumes "unambiguous spec" and "\<forall>i ks. set (order i ks) = set ks"
    and "info \<in> set (spec_ShardInfo spec)" and "\<not> blank (si_ShardPreFixName info)"
    and "distinctOrdinals spec (TrimSpace (si_ShardPreFixName info))"
    and "0 \<le> shardInfoDesiredCount spec info" and "shardInfoDesiredCount spec info < 2 ^ 31"
    and "int (length (spec_Shard spec)) < 2 ^ 31"
    and "i < length (spec_Shard spec)" and "HasPrefix (sh_Name (spec_Shard spec ! i)) (TrimSpace (si_ShardPreFixName info))"
  shows "i \<in> set (candidateIdx (getScaleInCandidates order spec)) \<longleftrightarrow>
    shardInfoDesiredCount spec info \<le> int (smallerOrdinals spec (TrimSpace (si_ShardPreFixName info)) i)"
  by (rule candidate_iff) (use assms in simp_all)

text \<open>The object with the shards a1, a2, b3 and b4 that the webhook makes, some of them marked.\<close>

definition namedShard :: "string \<Rightarrow> string \<Rightarrow> ShardSpec" where
  "namedShard name mark = zeroShardSpec\<lparr>sh_Name := name, sh_IsDelete := mark\<rparr>"

definition scaleExample :: "int \<Rightarrow> int \<Rightarrow> string \<Rightarrow> ShardingDatabaseSpec" where
  "scaleExample m n mark = (twoEntries m n)\<lparr>spec_Shard :=
     [namedShard ''a1'' ''disable'', namedShard ''a2'' ''disable'', namedShard ''b3'' ''disable'', namedShard ''b4'' mark]\<rparr>"

lemma scaleExample_fields [simp]:
  "spec_ShardInfo (scaleExample m n x) = [prefixEntry ''a'' m, prefixEntry ''b'' n]"
  "spec_Shard (scaleExample m n x) = [namedShard ''a1'' ''disable'', namedShard ''a2'' ''disable'', namedShard ''b3'' ''disable'', namedShard ''b4'' x]"
  "spec_ShardingType (scaleExample m n x) = ''SYSTEM''" "sh_Name (namedShard a b) = a" "sh_IsDelete (namedShard a b) = b"
  by (simp_all add: scaleExample_def namedShard_def zeroShardSpec_def)

lemma scaleExample_count [simp]:
  "0 < k \<Longrightarrow> shardInfoDesiredCount (scaleExample m n x) (prefixEntry p k) = k"
  by (simp add: shardInfoDesiredCount_def effectiveShardingTypeForConstraints_def go_eval
      standbyConfigDerivedShardCountController_def)

lemma scaleExample_prefixes: "entryPrefixes (scaleExample m n x) = [''a'', ''b'']"
  by (simp add: entryPrefixes_def go_eval)

lemma scaleExample_unambiguous [simp]: "unambiguous (scaleExample m n x)"
  unfolding unambiguous_def scaleExample_prefixes by (simp add: HasPrefix_iff)

lemma scaleExample_ordinals [simp]:
  "shardOrdinal ''a1'' = 1" "shardOrdinal ''a2'' = 2" "shardOrdinal ''b3'' = 3" "shardOrdinal ''b4'' = 4"
  by (code_simp, code_simp, code_simp, code_simp)

lemma scaleExample_wellNamed [simp]: "0 < m \<Longrightarrow> m < 2 ^ 31 \<Longrightarrow> 0 < n \<Longrightarrow> n < 2 ^ 31 \<Longrightarrow> wellNamed (scaleExample m n x)"
  unfolding wellNamed_def by (simp add: distinctOrdinals_def endsInDigit_def is_digit_def HasPrefix_iff go_eval)

theorem scale_in_candidates_iff_witness:
  "3 \<in> set (candidateIdx (getScaleInCandidates (\<lambda>i ks. ks) (scaleExample 2 1 ''disable''))) \<longleftrightarrow>
     shardInfoDesiredCount (scaleExample 2 1 ''disable'') (prefixEntry ''b'' 1) \<le>
     int (smallerOrdinals (scaleExample 2 1 ''disable'') (TrimSpace (si_ShardPreFixName (prefixEntry ''b'' 1))) 3)"
  by (rule scale_in_candidates_iff) (simp_all add: go_eval distinctOrdinals_def HasPrefix_iff)

text \<open>Scaling reaches a fixed point in one round: after the scale-out pass took back marks and the scale-in
  pass set them, neither pass changes the specification again, so the planning phase does not patch the
  object for ever. (The readiness of a shard is a fact of the cluster that does not look at the mark;
  the passes may visit the prefixes in different orders.)
\<close>

theorem scale_round_settles:
  assumes "wellNamed spec" and "\<forall>i ks. set (order i ks) = set ks" and "\<forall>i ks. set (order' i ks) = set ks"
    and "\<forall>s i x. ready (s\<lparr>sh_IsDelete := x\<rparr>) i = ready s i"
  shows "let after = snd (applyReplicaScaleInMarks order ready (snd (applyReplicaScaleOutUnmarks spec))) in
    \<not> fst (applyReplicaScaleOutUnmarks after) \<and> \<not> fst (applyReplicaScaleInMarks order' ready after)"
proof -
  let ?U = "snd (applyReplicaScaleOutUnmarks spec)"
  have w: "wellNamed ?U" using assms(1) wellNamed_marks [OF unmark_sameButMarks] by simp
  then have "unambiguous ?U" by (simp add: wellNamed_def)
  then show ?thesis
    using mark_keeps_unmarked [OF w assms(2) unmark_settles] mark_settles [of ?U order order' ready] assms(2-4) by simp
qed

theorem scale_round_settles_witness:
  "let after = snd (applyReplicaScaleInMarks (\<lambda>i ks. ks) (\<lambda>s i. i = 3)
       (snd (applyReplicaScaleOutUnmarks (scaleExample 2 1 ''disable''))))
   in \<not> fst (applyReplicaScaleOutUnmarks after) \<and> \<not> fst (applyReplicaScaleInMarks (\<lambda>i. rev) (\<lambda>s i. i = 3) after)"
  by (rule scale_round_settles) simp_all

text \<open>A delete mark beyond the per-entry numbering is never taken back. The webhook numbers shards across
  all entries (a1, a2, b3, b4), the scale-out pass looks for names numbered within each entry (b1, b2).
  A marked shard whose ordinal exceeds the count of its entry keeps its mark through both passes, also
  when the entry has grown again and the shard is one of those it wants.
\<close>

theorem later_entry_mark_sticks:
  assumes "unambiguous spec" and "info \<in> set (spec_ShardInfo spec)" and "\<not> blank (si_ShardPreFixName info)"
    and "0 < shardInfoDesiredCount spec info" and "shardInfoDesiredCount spec info < int j"
    and "i < length (spec_Shard spec)" and "sh_Name (spec_Shard spec ! i) = TrimSpace (si_ShardPreFixName info) @ itoa_nat j"
    and "sh_IsDelete (spec_Shard spec ! i) = ''enable''"
  shows "spec_Shard (snd (applyReplicaScaleInMarks order ready (snd (applyReplicaScaleOutUnmarks spec)))) ! i = spec_Shard spec ! i"
proof -
  let ?U = "snd (applyReplicaScaleOutUnmarks spec)"
  have "TrimSpace (sh_Name (spec_Shard spec ! i)) = sh_Name (spec_Shard spec ! i)"
    unfolding assms(7) by (rule TrimSpace_itoa) simp
  then have "\<not> fst (scaleOutUnmark (desiredShardNamesFromShardInfo spec) (spec_Shard spec ! i))"
    using ordinal_not_desired [OF assms(1-5)] by (simp add: scaleOutUnmark_settles(1) assms(7))
  then have U: "spec_Shard ?U ! i = spec_Shard spec ! i"
    using assms(6) by (simp add: applyReplicaScaleOutUnmarks_def Let_def scaleOutUnmark_same)
  moreover have "i < length (spec_Shard ?U)" using assms(6) sameButMarks_length [OF unmark_sameButMarks] by simp
  ultimately show ?thesis using marked_kept [of i ?U order ready] assms(8) by simp
qed

theorem later_entry_mark_sticks_witness:
  "spec_Shard (snd (applyReplicaScaleInMarks (\<lambda>i ks. ks) (\<lambda>s i. True) (snd (applyReplicaScaleOutUnmarks (scaleExample 2 2 ''enable''))))) ! 3 =
     spec_Shard (scaleExample 2 2 ''enable'') ! 3 \<and>
   3 \<notin> set (candidateIdx (getScaleInCandidates (\<lambda>i ks. ks) (scaleExample 2 2 ''enable'')))"
proof
  show "spec_Shard (snd (applyReplicaScaleInMarks (\<lambda>i ks. ks) (\<lambda>s i. True) (snd (applyReplicaScaleOutUnmarks (scaleExample 2 2 ''enable''))))) ! 3 =
     spec_Shard (scaleExample 2 2 ''enable'') ! 3"
  proof (rule later_entry_mark_sticks)
    have four: "itoa_nat 4 = ''4''" by code_simp
    show "sh_Name (spec_Shard (scaleExample 2 2 ''enable'') ! 3) = TrimSpace (si_ShardPreFixName (prefixEntry ''b'' 2)) @ itoa_nat 4"
      unfolding four by (simp add: go_eval)
  qed (simp_all add: go_eval)
  show "3 \<notin> set (candidateIdx (getScaleInCandidates (\<lambda>i ks. ks) (scaleExample 2 2 ''enable'')))"
    by (subst candidate_iff [where info = "prefixEntry ''b'' 2" and p = "''b''"])
      (simp_all add: go_eval distinctOrdinals_def HasPrefix_iff smallerOrdinals_def)
qed

end
