(* ===== verification/Sharding_Topology.thy ===== *)
theory Sharding_Topology
  imports Sharding_Primaries "HOL-Library.List_Lexorder" "HOL-Library.Char_ord"
begin

text \<open>
  The topology rules of the controller (\<^verbatim>\<open>controllers/database/shardingdatabase_controller.go\<close>): the check
  that a pass makes before it touches the cluster (\<^verbatim>\<open>validatePrimaryTopologyConstraint\<close>), and the choice of
  the primary that a standby replicates (\<^verbatim>\<open>findPrimaryForStandby\<close>). An error is a value of \<open>topologyError\<close>,
  one constructor per message, with the names the message gives. Names are compared bytewise, as Go
  does; a counter of shards cannot exceed the length of a slice and is an unbounded integer.
\<close>

datatype topologyError =
    UserNativeUnsupported
  | GroupSpansRegions string string string
  | RegionInUse string string
  | PrimaryGroupsNotOne "string list"
  | PrimaryGroupHasStandbys string
  | TooManyStandbys string int string int
  | GroupInManySpaces string string string
  | InfoGroupInManySpaces string string string
  | SpacePrimaryGroupsNotOne string "string list"
  | SpaceTooManyStandbys string string int int
  | RuModeRequired string string
  | RuModeUnsupported
  | RegionRequired string
  | SpaceGroupSpansRegions string string string string
  | SpaceRegionInUse string string string
  | ManyGroupsInSpace string "string list"
  | ManyPrimariesInSpace string int
  | LocalPrimaryInExternalSpace string
  | NoPrimaryInSpaceRule string
  | MustSetShardGroup string
  | MustSetShardSpace string
  | StandbyInPrimaryGroup string string
  | StandbyNotFound string string
  | NoPrimaryMapping string string
  | NoPrimaryInSpace string string
  | NoPrimaryInGroup string string
  | NoPrimary string

text \<open>A loop whose body may return early with an error.\<close>

fun try_fold :: "('a \<Rightarrow> 's \<Rightarrow> 'e + 's) \<Rightarrow> 'a list \<Rightarrow> 's \<Rightarrow> 'e + 's" where
  "try_fold f [] s = Inr s"
| "try_fold f (x # xs) s = (case f x s of Inl e \<Rightarrow> Inl e | Inr s' \<Rightarrow> try_fold f xs s')"

definition bump :: "'k \<Rightarrow> ('k, int) gomap \<Rightarrow> ('k, int) gomap" where
  "bump k m = mput k (mget m k 0 + 1) m"

definition conflicts :: "('k, 'v) gomap \<Rightarrow> 'k \<Rightarrow> 'v \<Rightarrow> bool" where
  "conflicts m k v \<longleftrightarrow> (case map_of m k of None \<Rightarrow> False | Some old \<Rightarrow> old \<noteq> v)"

definition isActive :: "ShardSpec \<Rightarrow> bool" where
  "isActive s \<longleftrightarrow> \<not> CheckIsDeleteFlag (sh_IsDelete s)"


section \<open>System sharding\<close>

record systemMaps =
  sys_primaryGroups :: "(string, int) gomap"
  sys_standbyGroups :: "(string, int) gomap"
  sys_regionByGroup :: "(string, string) gomap"
  sys_groupByRegion :: "(string, string) gomap"

definition systemBindRegion :: "string \<Rightarrow> string \<Rightarrow> systemMaps \<Rightarrow> topologyError + systemMaps" where
  "systemBindRegion g region st =
     (if region = [] then Inr st
      else if conflicts (sys_regionByGroup st) g region
      then Inl (GroupSpansRegions g (mget (sys_regionByGroup st) g []) region)
      else if conflicts (sys_groupByRegion st) region g
      then Inl (RegionInUse region (mget (sys_groupByRegion st) region []))
      else Inr (st\<lparr>sys_regionByGroup := mput g region (sys_regionByGroup st),
                   sys_groupByRegion := mput region g (sys_groupByRegion st)\<rparr>))"

definition systemCountRole :: "string \<Rightarrow> string \<Rightarrow> string \<Rightarrow> systemMaps \<Rightarrow> systemMaps" where
  "systemCountRole replType g deployAs st =
     (if replType \<noteq> ''DG'' then st
      else if deployAs = ''PRIMARY'' then st\<lparr>sys_primaryGroups := bump g (sys_primaryGroups st)\<rparr>
      else if deployAs = ''STANDBY'' \<or> deployAs = ''ACTIVE_STANDBY'' then st\<lparr>sys_standbyGroups := bump g (sys_standbyGroups st)\<rparr>
      else st)"

definition systemShard :: "string \<Rightarrow> ShardSpec \<Rightarrow> systemMaps \<Rightarrow> topologyError + systemMaps" where
  "systemShard replType s st =
     (let g = normalizeShardGroupKey (sh_ShardGroup s) in
      if CheckIsDeleteFlag (sh_IsDelete s) \<or> g = [] then Inr st
      else (case systemBindRegion g (ToUpper (TrimSpace (sh_ShardRegion s))) st of
          Inl e \<Rightarrow> Inl e
        | Inr st' \<Rightarrow> Inr (systemCountRole replType g (ToUpper (TrimSpace (sh_DeployAs s))) st')))"

definition systemFinal :: "systemMaps \<Rightarrow> topologyError option" where
  "systemFinal st =
     (case sys_primaryGroups st of
        [(primaryGroup, primaryCount)] \<Rightarrow>
          if mget (sys_standbyGroups st) primaryGroup 0 > 0 then Some (PrimaryGroupHasStandbys primaryGroup)
          else map_option (\<lambda>(g, c). TooManyStandbys g c primaryGroup primaryCount)
                 (find (\<lambda>(g, c). g \<noteq> primaryGroup \<and> c > primaryCount) (sys_standbyGroups st))
      | groups \<Rightarrow> Some (PrimaryGroupsNotOne (sort (map fst groups))))"

definition systemTopology :: "string \<Rightarrow> ShardSpec list \<Rightarrow> topologyError option" where
  "systemTopology replType shards =
     (case try_fold (systemShard replType) shards
         \<lparr>sys_primaryGroups = [], sys_standbyGroups = [], sys_regionByGroup = [], sys_groupByRegion = []\<rparr> of
        Inl e \<Rightarrow> Some e
      | Inr st \<Rightarrow> if replType \<noteq> ''DG'' then None else systemFinal st)"


section \<open>Composite sharding\<close>

definition uniqueShard :: "ShardSpec \<Rightarrow> (string, string) gomap \<Rightarrow> topologyError + (string, string) gomap" where
  "uniqueShard s m =
     (let groupKey = normalizeShardGroupKey (sh_ShardGroup s); spaceKey = normalizeShardSpaceKey (sh_ShardSpace s) in
      if CheckIsDeleteFlag (sh_IsDelete s) \<or> groupKey = [] \<or> spaceKey = [] then Inr m
      else if conflicts m groupKey spaceKey then Inl (GroupInManySpaces groupKey (mget m groupKey []) spaceKey)
      else Inr (mput groupKey spaceKey m))"

definition uniqueInfo :: "ShardingDetails \<Rightarrow> (string, string) gomap \<Rightarrow> topologyError + (string, string) gomap" where
  "uniqueInfo info m =
     (case (si_ShardGroupDetails info, si_ShardSpaceDetails info) of
        (Some sg, Some ss) \<Rightarrow>
          let groupKey = normalizeShardGroupKey (sg_Name sg); spaceKey = normalizeShardSpaceKey (ss_Name ss) in
          if CheckIsDeleteFlag (sg_IsDelete sg) \<or> groupKey = [] \<or> spaceKey = [] then Inr m
          else if conflicts m groupKey spaceKey then Inl (InfoGroupInManySpaces groupKey (mget m groupKey []) spaceKey)
          else Inr (mput groupKey spaceKey m)
      | _ \<Rightarrow> Inr m)"

definition validateCompositeShardGroupUniqueness :: "ShardingDatabaseSpec \<Rightarrow> topologyError option" where
  "validateCompositeShardGroupUniqueness spec =
     (case try_fold uniqueShard (spec_Shard spec) [] of
        Inl e \<Rightarrow> Some e
      | Inr _ \<Rightarrow> (case try_fold uniqueInfo (spec_ShardInfo spec) [] of Inl e \<Rightarrow> Some e | Inr _ \<Rightarrow> None))"

record compositeMaps =
  comp_primaryGroups :: "(string, string list) gomap"
  comp_primaryCount :: "(string, int) gomap"
  comp_standbyCount :: "(string, (string, int) gomap) gomap"

definition compositeShardRule :: "ShardSpec \<Rightarrow> compositeMaps \<Rightarrow> compositeMaps" where
  "compositeShardRule s st =
     (let spaceKey = normalizeShardSpaceKey (sh_ShardSpace s); groupKey = normalizeShardGroupKey (sh_ShardGroup s);
          deployAs = ToUpper (TrimSpace (sh_DeployAs s)) in
      if CheckIsDeleteFlag (sh_IsDelete s) \<or> spaceKey = [] \<or> groupKey = [] then st
      else
        (let st1 = st\<lparr>comp_primaryGroups := mput spaceKey (mget (comp_primaryGroups st) spaceKey []) (comp_primaryGroups st),
                      comp_standbyCount := mput spaceKey (mget (comp_standbyCount st) spaceKey []) (comp_standbyCount st)\<rparr> in
         if deployAs = ''PRIMARY'' then
           st1\<lparr>comp_primaryGroups := mput spaceKey (List.insert groupKey (mget (comp_primaryGroups st1) spaceKey [])) (comp_primaryGroups st1),
               comp_primaryCount := bump spaceKey (comp_primaryCount st1)\<rparr>
         else if deployAs = ''STANDBY'' \<or> deployAs = ''ACTIVE_STANDBY'' then
           st1\<lparr>comp_standbyCount := mput spaceKey (bump groupKey (mget (comp_standbyCount st1) spaceKey [])) (comp_standbyCount st1)\<rparr>
         else st1))"

definition compositeSpaceRule :: "compositeMaps \<Rightarrow> string \<times> string list \<Rightarrow> topologyError option" where
  "compositeSpaceRule st = (\<lambda>(spaceKey, groups).
     if length groups \<noteq> 1 then Some (SpacePrimaryGroupsNotOne spaceKey (sort groups))
     else let primaryCount = mget (comp_primaryCount st) spaceKey 0 in
       map_option (\<lambda>(g, c). SpaceTooManyStandbys g spaceKey c primaryCount)
         (find (\<lambda>(g, c). c > primaryCount) (mget (comp_standbyCount st) spaceKey [])))"

text \<open>The first error of a loop over a map (\<^verbatim>\<open>for k, v := range m { if ... { return err } }\<close>).\<close>

fun firstError :: "('a \<Rightarrow> 'e option) \<Rightarrow> 'a list \<Rightarrow> 'e option" where
  "firstError f [] = None"
| "firstError f (x # xs) = (case f x of None \<Rightarrow> firstError f xs | Some e \<Rightarrow> Some e)"

definition compositeDgTopology :: "ShardSpec list \<Rightarrow> topologyError option" where
  "compositeDgTopology shards =
     (let st = fold compositeShardRule shards \<lparr>comp_primaryGroups = [], comp_primaryCount = [], comp_standbyCount = []\<rparr>
      in firstError (compositeSpaceRule st) (comp_primaryGroups st))"

definition normalizeShardGroupRuModeKey :: "string \<Rightarrow> string" where
  "normalizeShardGroupRuModeKey v =
     (let u = ToUpper (TrimSpace v) in if u = ''READWRITE'' then ''READWRITE'' else if u = ''READONLY'' then ''READONLY'' else [])"

definition infoRuMode :: "string \<Rightarrow> string \<Rightarrow> ShardingDetails \<Rightarrow> string" where
  "infoRuMode groupKey spaceKey info =
     (case (si_ShardGroupDetails info, si_ShardSpaceDetails info) of
        (Some sg, Some ss) \<Rightarrow>
          if CheckIsDeleteFlag (sg_IsDelete sg) \<or> normalizeShardGroupKey (sg_Name sg) \<noteq> groupKey \<or> normalizeShardSpaceKey (ss_Name ss) \<noteq> spaceKey
          then [] else normalizeShardGroupRuModeKey (sg_RuMode sg)
      | _ \<Rightarrow> [])"

definition groupRuMode :: "string \<Rightarrow> string \<Rightarrow> ShardGroupSpec \<Rightarrow> string" where
  "groupRuMode groupKey spaceKey sg =
     (let sgSpace = normalizeShardSpaceKey (sg_ShardSpace sg) in
      if normalizeShardGroupKey (sg_Name sg) \<noteq> groupKey \<or> (sgSpace \<noteq> [] \<and> sgSpace \<noteq> spaceKey) then []
      else normalizeShardGroupRuModeKey (sg_RuMode sg))"

definition firstNonBlank :: "string list \<Rightarrow> string" where
  "firstNonBlank vs = (case find (\<lambda>v. v \<noteq> []) vs of None \<Rightarrow> [] | Some v \<Rightarrow> v)"

definition resolveCompositeNativeShardGroupRuMode :: "ShardingDatabaseSpec \<Rightarrow> string \<Rightarrow> string \<Rightarrow> string" where
  "resolveCompositeNativeShardGroupRuMode spec groupKey spaceKey =
     firstNonBlank (map (infoRuMode groupKey spaceKey) (spec_ShardInfo spec) @ map (groupRuMode groupKey spaceKey) (spec_ShardGroup spec))"

definition ruModeRule :: "string \<Rightarrow> string \<Rightarrow> string \<Rightarrow> topologyError option" where
  "ruModeRule ruMode groupKey spaceKey =
     (if ruMode = [] then Some (RuModeRequired groupKey spaceKey) else if ruMode \<noteq> ''READWRITE'' then Some RuModeUnsupported else None)"

record nativeMaps =
  nat_groupRegion :: "(string, (string, string) gomap) gomap"
  nat_groupByRegion :: "(string, (string, string) gomap) gomap"
  nat_groups :: "(string, string list) gomap"

definition nativeInfo :: "ShardingDetails \<Rightarrow> nativeMaps \<Rightarrow> topologyError + nativeMaps" where
  "nativeInfo info st =
     (case (si_ShardGroupDetails info, si_ShardSpaceDetails info) of
        (Some sg, Some ss) \<Rightarrow>
          let spaceKey = normalizeShardSpaceKey (ss_Name ss); groupKey = normalizeShardGroupKey (sg_Name sg) in
          if CheckIsDeleteFlag (sg_IsDelete sg) \<or> spaceKey = [] \<or> groupKey = [] then Inr st
          else (case ruModeRule (normalizeShardGroupRuModeKey (sg_RuMode sg)) groupKey spaceKey of
              Some e \<Rightarrow> Inl e
            | None \<Rightarrow> Inr (st\<lparr>nat_groups := mput spaceKey (List.insert groupKey (mget (nat_groups st) spaceKey [])) (nat_groups st)\<rparr>))
      | _ \<Rightarrow> Inr st)"

definition nativeShard :: "ShardingDatabaseSpec \<Rightarrow> ShardSpec \<Rightarrow> nativeMaps \<Rightarrow> topologyError + nativeMaps" where
  "nativeShard spec s st =
     (let spaceKey = normalizeShardSpaceKey (sh_ShardSpace s); groupKey = normalizeShardGroupKey (sh_ShardGroup s);
          regionKey = ToUpper (TrimSpace (sh_ShardRegion s)) in
      if CheckIsDeleteFlag (sh_IsDelete s) \<or> spaceKey = [] \<or> groupKey = [] then Inr st
      else if regionKey = [] then Inl (RegionRequired (TrimSpace (sh_Name s)))
      else
        (let regions = mget (nat_groupRegion st) spaceKey []; byRegion = mget (nat_groupByRegion st) spaceKey [] in
         if conflicts regions groupKey regionKey then Inl (SpaceGroupSpansRegions groupKey spaceKey (mget regions groupKey []) regionKey)
         else if conflicts byRegion regionKey groupKey then Inl (SpaceRegionInUse regionKey spaceKey (mget byRegion regionKey []))
         else (case ruModeRule (resolveCompositeNativeShardGroupRuMode spec groupKey spaceKey) groupKey spaceKey of
             Some e \<Rightarrow> Inl e
           | None \<Rightarrow> Inr (st\<lparr>nat_groupRegion := mput spaceKey (mput groupKey regionKey regions) (nat_groupRegion st),
                            nat_groupByRegion := mput spaceKey (mput regionKey groupKey byRegion) (nat_groupByRegion st),
                            nat_groups := mput spaceKey (List.insert groupKey (mget (nat_groups st) spaceKey [])) (nat_groups st)\<rparr>))))"

definition compositeNativeTopology :: "ShardingDatabaseSpec \<Rightarrow> topologyError option" where
  "compositeNativeTopology spec =
     (case try_fold nativeInfo (spec_ShardInfo spec) \<lparr>nat_groupRegion = [], nat_groupByRegion = [], nat_groups = []\<rparr> of
        Inl e \<Rightarrow> Some e
      | Inr st \<Rightarrow> (case try_fold (nativeShard spec) (spec_Shard spec) st of
          Inl e \<Rightarrow> Some e
        | Inr st' \<Rightarrow> firstError (\<lambda>(spaceKey, groups). if length groups > 1 then Some (ManyGroupsInSpace spaceKey (sort groups)) else None)
                      (nat_groups st')))"


section \<open>User-defined sharding\<close>

definition externalSpaces :: "ShardingDetails list \<Rightarrow> string list" where
  "externalSpaces infos = List.map_filter (\<lambda>info. case si_ShardSpaceDetails info of None \<Rightarrow> None
     | Some ss \<Rightarrow> let k = normalizeShardSpaceKey (ss_Name ss) in
         if k \<noteq> [] \<and> standbyConfigPrimaryCountController (si_StandbyConfig info) > 0 then Some k else None) infos"

definition userShardRule :: "ShardSpec \<Rightarrow> string list \<times> (string, int) gomap \<Rightarrow> string list \<times> (string, int) gomap" where
  "userShardRule s = (\<lambda>(seen, cnt).
     let ss = normalizeShardSpaceKey (sh_ShardSpace s) in
     if CheckIsDeleteFlag (sh_IsDelete s) \<or> ss = [] then (seen, cnt)
     else (List.insert ss seen, if ToUpper (TrimSpace (sh_DeployAs s)) = ''PRIMARY'' then bump ss cnt else cnt))"

definition userSpaceRule :: "string list \<Rightarrow> (string, int) gomap \<Rightarrow> string \<Rightarrow> topologyError option" where
  "userSpaceRule external spacePrimaryCount ss =
     (let cnt = mget spacePrimaryCount ss 0 in
      if cnt > 1 then Some (ManyPrimariesInSpace ss cnt)
      else if ss \<in> set external then (if cnt > 0 then Some (LocalPrimaryInExternalSpace ss) else None)
      else if cnt = 0 then Some (NoPrimaryInSpaceRule ss) else None)"

definition userTopology :: "ShardingDatabaseSpec \<Rightarrow> topologyError option" where
  "userTopology spec =
     (case fold userShardRule (spec_Shard spec) ([], []) of (spaceSeen, spacePrimaryCount) \<Rightarrow>
        firstError (userSpaceRule (externalSpaces (spec_ShardInfo spec)) spacePrimaryCount) spaceSeen)"

definition validatePrimaryTopologyConstraint :: "ShardingDatabaseSpec \<Rightarrow> topologyError option" where
  "validatePrimaryTopologyConstraint spec =
     (let shardingType = effectiveShardingTypeForConstraints spec; replType = EffectiveReplicationType (spec_ReplicationType spec) in
      if shardingType = ''USER'' \<and> replType = ''NATIVE'' then Some UserNativeUnsupported
      else if shardingType \<noteq> ''SYSTEM'' \<and> shardingType \<noteq> ''COMPOSITE'' \<and> (shardingType \<noteq> ''USER'' \<or> replType \<noteq> ''DG'') then None
      else
        (case (if shardingType = ''COMPOSITE'' then validateCompositeShardGroupUniqueness spec else None) of
           Some e \<Rightarrow> Some e
         | None \<Rightarrow>
             if shardingType = ''SYSTEM'' then systemTopology replType (spec_Shard spec)
             else if shardingType = ''COMPOSITE'' \<and> replType = ''DG'' then compositeDgTopology (spec_Shard spec)
             else if shardingType = ''COMPOSITE'' \<and> replType = ''NATIVE'' then compositeNativeTopology spec
             else userTopology spec))"

end
