(* ===== verification/Sharding_Standby.thy ===== *)
theory Sharding_Standby
  imports Sharding_Topology
begin

text \<open>
  The primary of a standby (\<^verbatim>\<open>findPrimaryForStandby\<close> and the sorted lists it pairs, in
  \<^verbatim>\<open>controllers/database/shardingdatabase_controller.go\<close>), and what an accepted topology promises about it.
  A pointer into the list of shards is the shard it points to.
\<close>

definition memberKey :: "ShardSpec \<Rightarrow> string" where
  "memberKey s = ToUpper (TrimSpace (sh_Name s))"

definition systemPrimaryGroups :: "ShardSpec list \<Rightarrow> (string, ShardSpec list) gomap" where
  "systemPrimaryGroups shards =
     fold (\<lambda>s m. let g = normalizeShardGroupKey (sh_ShardGroup s) in
        if CheckIsDeleteFlag (sh_IsDelete s) \<or> \<not> isPrimaryDeployAs (sh_DeployAs s) \<or> g = [] then m
        else mput g (mget m g [] @ [s]) m) shards []"

definition systemPrimaryShardsSorted :: "ShardSpec list \<Rightarrow> topologyError + string \<times> ShardSpec list" where
  "systemPrimaryShardsSorted shards =
     (case systemPrimaryGroups shards of
        [(grp, ps)] \<Rightarrow> Inr (grp, sort_key memberKey ps)
      | groups \<Rightarrow> Inl (PrimaryGroupsNotOne (sort (map fst groups))))"

definition systemStandbysInGroupSorted :: "ShardSpec list \<Rightarrow> string \<Rightarrow> ShardSpec list" where
  "systemStandbysInGroupSorted shards standbyGroup =
     sort_key memberKey (filter (\<lambda>s. \<not> CheckIsDeleteFlag (sh_IsDelete s) \<and> normalizeShardGroupKey (sh_ShardGroup s) = standbyGroup \<and>
       isStandbyDeployAs (sh_DeployAs s)) shards)"

definition compositePrimariesInShardSpaceSorted :: "ShardSpec list \<Rightarrow> string \<Rightarrow> ShardSpec list" where
  "compositePrimariesInShardSpaceSorted shards spaceKey =
     sort_key memberKey (filter (\<lambda>s. \<not> CheckIsDeleteFlag (sh_IsDelete s) \<and> normalizeShardSpaceKey (sh_ShardSpace s) = spaceKey \<and>
       isPrimaryDeployAs (sh_DeployAs s)) shards)"

definition compositeStandbysInSpaceGroupSorted :: "ShardSpec list \<Rightarrow> string \<Rightarrow> string \<Rightarrow> ShardSpec list" where
  "compositeStandbysInSpaceGroupSorted shards spaceKey groupKey =
     sort_key memberKey (filter (\<lambda>s. \<not> CheckIsDeleteFlag (sh_IsDelete s) \<and> normalizeShardSpaceKey (sh_ShardSpace s) = spaceKey \<and>
       normalizeShardGroupKey (sh_ShardGroup s) = groupKey \<and> isStandbyDeployAs (sh_DeployAs s)) shards)"

definition standbyPos :: "string \<Rightarrow> ShardSpec list \<Rightarrow> nat option" where
  "standbyPos name sbs = find (\<lambda>i. EqualFold (TrimSpace (sh_Name (sbs ! i))) (TrimSpace name)) [0..<length sbs]"

definition pairByPosition :: "string \<Rightarrow> string \<Rightarrow> ShardSpec list \<Rightarrow> ShardSpec list \<Rightarrow> topologyError + ShardSpec" where
  "pairByPosition name grp sbs prims =
     (case standbyPos name sbs of
        None \<Rightarrow> Inl (StandbyNotFound name grp)
      | Some pos \<Rightarrow> if pos < length prims then Inr (prims ! pos) else Inl (NoPrimaryMapping name grp))"

definition findSystemPrimary :: "ShardSpec list \<Rightarrow> ShardSpec \<Rightarrow> topologyError + ShardSpec" where
  "findSystemPrimary shards standby =
     (let standbyGroup = normalizeShardGroupKey (sh_ShardGroup standby) in
      if standbyGroup = [] then Inl (MustSetShardGroup (sh_Name standby))
      else (case systemPrimaryShardsSorted shards of
          Inl e \<Rightarrow> Inl e
        | Inr (primaryGroup, prims) \<Rightarrow>
            if standbyGroup = primaryGroup then Inl (StandbyInPrimaryGroup (sh_Name standby) primaryGroup)
            else pairByPosition (sh_Name standby) standbyGroup (systemStandbysInGroupSorted shards standbyGroup) prims))"

definition findUserPrimary :: "ShardSpec list \<Rightarrow> ShardSpec \<Rightarrow> topologyError + ShardSpec" where
  "findUserPrimary shards standby =
     (let ss = normalizeShardSpaceKey (sh_ShardSpace standby) in
      if ss = [] then Inl (MustSetShardSpace (sh_Name standby))
      else (case find (\<lambda>s. isPrimaryDeployAs (sh_DeployAs s) \<and> normalizeShardSpaceKey (sh_ShardSpace s) = ss) shards of
          None \<Rightarrow> Inl (NoPrimaryInSpace ss (sh_Name standby)) | Some s \<Rightarrow> Inr s))"

definition findCompositePrimary :: "ShardSpec list \<Rightarrow> ShardSpec \<Rightarrow> topologyError + ShardSpec" where
  "findCompositePrimary shards standby =
     (let spaceKey = normalizeShardSpaceKey (sh_ShardSpace standby); groupKey = normalizeShardGroupKey (sh_ShardGroup standby) in
      if spaceKey = [] then Inl (MustSetShardSpace (sh_Name standby))
      else if groupKey = [] then Inl (MustSetShardGroup (sh_Name standby))
      else (let prims = compositePrimariesInShardSpaceSorted shards spaceKey in
        if prims = [] then Inl (NoPrimaryInSpace spaceKey (sh_Name standby))
        else pairByPosition (sh_Name standby) groupKey (compositeStandbysInSpaceGroupSorted shards spaceKey groupKey) prims))"

definition findAnyPrimary :: "ShardSpec list \<Rightarrow> ShardSpec \<Rightarrow> topologyError + ShardSpec" where
  "findAnyPrimary shards standby =
     (case find (\<lambda>s. isPrimaryDeployAs (sh_DeployAs s)) shards of None \<Rightarrow> Inl (NoPrimary (sh_Name standby)) | Some s \<Rightarrow> Inr s)"

definition findPrimaryForStandby :: "ShardingDatabaseSpec \<Rightarrow> ShardSpec \<Rightarrow> topologyError + ShardSpec" where
  "findPrimaryForStandby spec standby =
     (let shardingType = effectiveShardingTypeForConstraints spec; dg = (EffectiveReplicationType (spec_ReplicationType spec) = ''DG'');
          shards = spec_Shard spec in
      if shardingType = ''SYSTEM'' \<and> dg then findSystemPrimary shards standby
      else if shardingType = ''USER'' \<and> dg then findUserPrimary shards standby
      else if shardingType = ''COMPOSITE'' \<and> dg then findCompositePrimary shards standby
      else
        (let requireShardGroup = (shardingType = ''SYSTEM'' \<or> shardingType = ''COMPOSITE'');
             sg = normalizeShardGroupKey (sh_ShardGroup standby) in
         if requireShardGroup \<and> dg \<and> sg = [] then Inl (MustSetShardGroup (sh_Name standby))
         else if requireShardGroup \<and> sg \<noteq> [] then
           (case find (\<lambda>s. isPrimaryDeployAs (sh_DeployAs s) \<and> normalizeShardGroupKey (sh_ShardGroup s) = sg) shards of
              None \<Rightarrow> Inl (NoPrimaryInGroup sg (sh_Name standby)) | Some s \<Rightarrow> Inr s)
         else findAnyPrimary shards standby))"

definition collectStandbysForPrimary :: "ShardingDatabaseSpec \<Rightarrow> ShardSpec \<Rightarrow> ShardSpec list" where
  "collectStandbysForPrimary spec primary =
     filter (\<lambda>s. isStandbyDeployAs (sh_DeployAs s) \<and>
        (case findPrimaryForStandby spec s of Inl _ \<Rightarrow> False | Inr p \<Rightarrow> TrimSpace (sh_Name p) = TrimSpace (sh_Name primary)))
       (spec_Shard spec)"


section \<open>Counting\<close>

lemma mget_bump: "mget (bump k m) j 0 = mget m j 0 + (if j = k then 1 else 0)"
  by (simp add: bump_def mget_mput)

lemma keys_bump [simp]: "fst ` set (bump k m) = insert k (fst ` set m)"
  by (simp add: bump_def)

lemma isPrimary_upper: "isPrimaryDeployAs d \<longleftrightarrow> ToUpper (TrimSpace d) = ''PRIMARY''"
  by (simp add: isPrimaryDeployAs_def EqualFold_ToUpper go_eval)

definition systemMember :: "bool \<Rightarrow> string \<Rightarrow> ShardSpec \<Rightarrow> bool" where
  "systemMember primary g s \<longleftrightarrow> isActive s \<and> normalizeShardGroupKey (sh_ShardGroup s) = g \<and>
     (if primary then isPrimaryDeployAs (sh_DeployAs s) else isStandbyDeployAs (sh_DeployAs s))"

text \<open>What one shard adds to the counts.\<close>

definition systemAdds :: "ShardSpec list \<Rightarrow> systemMaps \<Rightarrow> systemMaps \<Rightarrow> bool" where
  "systemAdds ss st st' \<longleftrightarrow>
     (\<forall>g. g \<noteq> [] \<longrightarrow> mget (sys_primaryGroups st') g 0 = mget (sys_primaryGroups st) g 0 + int (length (filter (systemMember True g) ss))) \<and>
     (\<forall>g. g \<noteq> [] \<longrightarrow> mget (sys_standbyGroups st') g 0 = mget (sys_standbyGroups st) g 0 + int (length (filter (systemMember False g) ss))) \<and>
     fst ` set (sys_primaryGroups st') = fst ` set (sys_primaryGroups st) \<union> {g. g \<noteq> [] \<and> (\<exists>s \<in> set ss. systemMember True g s)} \<and>
     fst ` set (sys_standbyGroups st') = fst ` set (sys_standbyGroups st) \<union> {g. g \<noteq> [] \<and> (\<exists>s \<in> set ss. systemMember False g s)}"

lemma systemShard_adds:
  assumes "systemShard ''DG'' s st = Inr st'"
  shows "systemAdds [s] st st'"
proof -
  let ?g = "normalizeShardGroupKey (sh_ShardGroup s)" let ?d = "ToUpper (TrimSpace (sh_DeployAs s))"
  show ?thesis
  proof (cases "isActive s \<and> ?g \<noteq> []")
    case False
    then have "st' = st" using assms by (auto simp: systemShard_def isActive_def Let_def)
    then show ?thesis using False by (auto simp: systemMember_def systemAdds_def)
  next
    case True
    then obtain st1 where b: "systemBindRegion ?g (ToUpper (TrimSpace (sh_ShardRegion s))) st = Inr st1"
      and c: "st' = systemCountRole ''DG'' ?g ?d st1"
      using assms by (auto simp: systemShard_def isActive_def Let_def split: sum.splits)
    have same: "sys_primaryGroups st1 = sys_primaryGroups st" "sys_standbyGroups st1 = sys_standbyGroups st"
      using b by (auto simp: systemBindRegion_def split: if_splits)
    have member: "systemMember True g s \<longleftrightarrow> g = ?g \<and> ?d = ''PRIMARY''"
      "systemMember False g s \<longleftrightarrow> g = ?g \<and> (?d = ''STANDBY'' \<or> ?d = ''ACTIVE_STANDBY'')" for g
      using True by (auto simp: systemMember_def isPrimary_upper isStandbyDeployAs_def Let_def)
    have keys: "{g. g \<noteq> [] \<and> g = ?g \<and> P} = (if P then {?g} else {})" for P using True by auto
    show ?thesis
      unfolding c systemCountRole_def systemAdds_def using same by (simp add: mget_bump member keys)
  qed
qed

lemma system_fold_adds: "try_fold (systemShard ''DG'') ss st = Inr st' \<Longrightarrow> systemAdds ss st st'"
proof (induction ss arbitrary: st)
  case Nil
  then show ?case by (simp add: systemAdds_def)
next
  case (Cons s ss)
  then obtain st1 where "systemShard ''DG'' s st = Inr st1" "try_fold (systemShard ''DG'') ss st1 = Inr st'"
    by (auto split: sum.splits)
  then have "systemAdds [s] st st1" "systemAdds ss st1 st'" using systemShard_adds Cons.IH by blast+
  then show ?case by (auto simp: systemAdds_def)
qed

lemma mget_in:
  assumes "k \<in> fst ` set m"
  shows "(k, mget m k d) \<in> set m"
proof -
  obtain v where "map_of m k = Some v" using assms by (metis map_of_eq_None_iff option.exhaust)
  then show ?thesis by (simp add: mget_def map_of_SomeD)
qed

lemma collect_fold:
  "mget (fold (\<lambda>s m. let g = k s in if skip s \<or> g = [] then m else mput g (mget m g [] @ [s]) m) ss m) g [] =
     mget m g [] @ filter (\<lambda>s. \<not> skip s \<and> k s = g \<and> g \<noteq> []) ss"
  by (induction ss arbitrary: m) (auto simp: Let_def mget_mput)

lemma collect_fold_keys:
  "fst ` set (fold (\<lambda>s m. let g = k s in if skip s \<or> g = [] then m else mput g (mget m g [] @ [s]) m) ss m) =
     fst ` set m \<union> {g. g \<noteq> [] \<and> (\<exists>s \<in> set ss. \<not> skip s \<and> k s = g)}"
  by (induction ss arbitrary: m) (auto simp: Let_def)

lemma collect_fold_distinct:
  "distinct (map fst m) \<Longrightarrow>
     distinct (map fst (fold (\<lambda>s m. let g = k s in if skip s \<or> g = [] then m else mput g (mget m g [] @ [s]) m) ss m))"
  by (induction ss arbitrary: m) (auto simp: Let_def)

lemma systemPrimaryGroups_collect:
  "systemPrimaryGroups shards = fold (\<lambda>s m. let g = normalizeShardGroupKey (sh_ShardGroup s) in
     if (CheckIsDeleteFlag (sh_IsDelete s) \<or> \<not> isPrimaryDeployAs (sh_DeployAs s)) \<or> g = [] then m else mput g (mget m g [] @ [s]) m) shards []"
  by (simp only: systemPrimaryGroups_def disj_assoc)

lemma single_key:
  assumes "fst ` set m = {g}" and "distinct (map fst m)"
  shows "m = [(g, mget m g d)]"
proof (cases m)
  case (Cons x xs)
  have "xs = []"
  proof (rule ccontr)
    assume "xs \<noteq> []"
    then obtain y where "y \<in> set xs" by (cases xs) auto
    then have "fst y = g" "fst x = g" using assms(1) Cons by auto
    then show False using assms(2) Cons \<open>y \<in> set xs\<close> by auto
  qed
  then show ?thesis using assms(1) Cons by (cases x) (auto simp: mget_def)
qed (use assms(1) in simp)

lemma systemPrimaryShardsSorted_one:
  assumes "{g. g \<noteq> [] \<and> (\<exists>s \<in> set shards. systemMember True g s)} = {pg}"
  shows "systemPrimaryShardsSorted shards = Inr (pg, sort_key memberKey (filter (systemMember True pg) shards))"
proof -
  let ?m = "systemPrimaryGroups shards"
  have pg: "pg \<noteq> []" using assms by blast
  have member: "(\<not> (CheckIsDeleteFlag (sh_IsDelete s) \<or> \<not> isPrimaryDeployAs (sh_DeployAs s)) \<and> normalizeShardGroupKey (sh_ShardGroup s) = g) \<longleftrightarrow>
      systemMember True g s" for g s by (auto simp: systemMember_def isActive_def)
  have "fst ` set ?m = {pg}" unfolding systemPrimaryGroups_collect collect_fold_keys member using assms by simp
  moreover have "distinct (map fst ?m)" unfolding systemPrimaryGroups_collect by (rule collect_fold_distinct) simp
  ultimately have "?m = [(pg, mget ?m pg [])]" by (rule single_key)
  moreover have "mget ?m pg [] = filter (systemMember True pg) shards"
  proof -
    have "mget ?m pg [] = filter (\<lambda>s. \<not> (CheckIsDeleteFlag (sh_IsDelete s) \<or> \<not> isPrimaryDeployAs (sh_DeployAs s)) \<and>
        normalizeShardGroupKey (sh_ShardGroup s) = pg \<and> pg \<noteq> []) shards"
      unfolding systemPrimaryGroups_collect collect_fold by (simp add: mget_def)
    also have "\<dots> = filter (systemMember True pg) shards"
      by (rule filter_cong) (use pg member in auto)
    finally show ?thesis .
  qed
  ultimately show ?thesis unfolding systemPrimaryShardsSorted_def by simp
qed


section \<open>Pairing by position\<close>

lemma standbyPos_member:
  assumes "s \<in> set sbs"
  obtains i where "standbyPos (sh_Name s) sbs = Some i" and "i < length sbs" and "memberKey (sbs ! i) = memberKey s"
proof -
  let ?P = "\<lambda>i. EqualFold (TrimSpace (sh_Name (sbs ! i))) (TrimSpace (sh_Name s))"
  obtain j where j: "j < length sbs" "sbs ! j = s" using assms by (auto simp: in_set_conv_nth)
  then have "find ?P [0..<length sbs] \<noteq> None" by (auto simp: find_None_iff)
  then obtain i where i: "find ?P [0..<length sbs] = Some i" by blast
  then have "i < length sbs" "?P i" by (auto simp: find_Some_iff)
  then show ?thesis using that i by (simp add: standbyPos_def memberKey_def EqualFold_ToUpper)
qed

lemma pair_found:
  assumes "s \<in> set sbs" and "length sbs \<le> length prims"
  shows "\<exists>p \<in> set prims. pairByPosition (sh_Name s) g sbs prims = Inr p"
proof -
  obtain i where "standbyPos (sh_Name s) sbs = Some i" "i < length sbs" using standbyPos_member [OF assms(1)] by blast
  then show ?thesis using assms(2) by (auto simp: pairByPosition_def)
qed

lemma pair_injective:
  assumes "s \<in> set sbs" and "s' \<in> set sbs" and "inj_on memberKey (set sbs)" and "distinct prims"
    and "pairByPosition (sh_Name s) g sbs prims = Inr p" and "pairByPosition (sh_Name s') g sbs prims = Inr p"
  shows "s = s'"
proof -
  obtain i where i: "standbyPos (sh_Name s) sbs = Some i" "i < length sbs" "memberKey (sbs ! i) = memberKey s"
    by (rule standbyPos_member [OF assms(1)])
  obtain j where j: "standbyPos (sh_Name s') sbs = Some j" "j < length sbs" "memberKey (sbs ! j) = memberKey s'"
    by (rule standbyPos_member [OF assms(2)])
  have "i < length prims" "prims ! i = p" "j < length prims" "prims ! j = p"
    using assms(5,6) i(1) j(1) by (auto simp: pairByPosition_def split: if_splits)
  then have "i = j" using assms(4) nth_eq_iff_index_eq by blast
  moreover have "sbs ! i = s" "sbs ! j = s'"
    using assms(1-3) i(2,3) j(2,3) by (metis inj_onD nth_mem)+
  ultimately show ?thesis by simp
qed


section \<open>The primary of a standby\<close>

lemma systemFinal_None:
  assumes "systemFinal st = None"
  obtains pg pc where "sys_primaryGroups st = [(pg, pc)]" and "mget (sys_standbyGroups st) pg 0 \<le> 0"
    and "\<forall>g c. (g, c) \<in> set (sys_standbyGroups st) \<longrightarrow> g \<noteq> pg \<longrightarrow> c \<le> pc"
proof -
  from assms obtain pg pc where pg: "sys_primaryGroups st = [(pg, pc)]" by (auto simp: systemFinal_def split: list.splits)
  then have "mget (sys_standbyGroups st) pg 0 \<le> 0" "find (\<lambda>(g, c). g \<noteq> pg \<and> c > pc) (sys_standbyGroups st) = None"
    using assms by (auto simp: systemFinal_def split: if_splits)
  then show ?thesis using that [OF pg] by (force simp: find_None_iff)
qed

text \<open>What acceptance says about the shards themselves.\<close>

lemma systemTopology_accepted:
  assumes "systemTopology ''DG'' shards = None"
  obtains pg where "pg \<noteq> []" and "{g. g \<noteq> [] \<and> (\<exists>s \<in> set shards. systemMember True g s)} = {pg}"
    and "\<forall>s \<in> set shards. \<not> systemMember False pg s"
    and "\<forall>g. g \<noteq> [] \<longrightarrow> length (filter (systemMember False g) shards) \<le> length (filter (systemMember True pg) shards)"
proof -
  let ?st0 = "\<lparr>sys_primaryGroups = [], sys_standbyGroups = [], sys_regionByGroup = [], sys_groupByRegion = []\<rparr>"
  obtain st where f: "try_fold (systemShard ''DG'') shards ?st0 = Inr st" and n: "systemFinal st = None"
    using assms by (auto simp: systemTopology_def split: sum.splits)
  have a: "systemAdds shards ?st0 st" by (rule system_fold_adds [OF f])
  obtain pg pc where pg: "sys_primaryGroups st = [(pg, pc)]" and none: "mget (sys_standbyGroups st) pg 0 \<le> 0"
    and few: "\<forall>g c. (g, c) \<in> set (sys_standbyGroups st) \<longrightarrow> g \<noteq> pg \<longrightarrow> c \<le> pc"
    by (rule systemFinal_None [OF n])
  have keys: "{g. g \<noteq> [] \<and> (\<exists>s \<in> set shards. systemMember True g s)} = {pg}" using a pg by (simp add: systemAdds_def)
  then have "pg \<noteq> []" by blast
  have "mget (sys_primaryGroups st) pg 0 = int (length (filter (systemMember True pg) shards))"
    using a \<open>pg \<noteq> []\<close> unfolding systemAdds_def by (simp add: mget_def [of "[]"])
  then have pcount: "pc = int (length (filter (systemMember True pg) shards))" by (simp add: pg mget_def)
  have scount: "mget (sys_standbyGroups st) g 0 = int (length (filter (systemMember False g) shards))" if "g \<noteq> []" for g
    using a that unfolding systemAdds_def by (simp add: mget_def [of "[]"])
  have no: "filter (systemMember False pg) shards = []" using none scount [OF \<open>pg \<noteq> []\<close>] by simp
  have "length (filter (systemMember False g) shards) \<le> length (filter (systemMember True pg) shards)" if g: "g \<noteq> []" for g
  proof (cases "g = pg \<or> filter (systemMember False g) shards = []")
    case True
    then show ?thesis using no by auto
  next
    case False
    then have "g \<in> fst ` set (sys_standbyGroups st)" using a g by (auto simp: systemAdds_def filter_empty_conv)
    then have "(g, mget (sys_standbyGroups st) g 0) \<in> set (sys_standbyGroups st)" by (rule mget_in)
    then have "mget (sys_standbyGroups st) g 0 \<le> pc" using few False by auto
    then show ?thesis using scount [OF g] pcount by simp
  qed
  then show ?thesis using that [OF \<open>pg \<noteq> []\<close> keys] no by (auto simp: filter_empty_conv)
qed

lemma systemStandbys_eq: "systemStandbysInGroupSorted shards g = sort_key memberKey (filter (systemMember False g) shards)"
  by (simp add: systemStandbysInGroupSorted_def systemMember_def [abs_def] isActive_def)

lemma findSystemPrimary_paired:
  assumes "systemTopology ''DG'' shards = None" and "s \<in> set shards" and "systemMember False g s" and "g \<noteq> []"
  obtains pg where "pg \<noteq> []" and "pg \<noteq> g"
    and "findSystemPrimary shards s = pairByPosition (sh_Name s) g (sort_key memberKey (filter (systemMember False g) shards))
      (sort_key memberKey (filter (systemMember True pg) shards))"
    and "length (filter (systemMember False g) shards) \<le> length (filter (systemMember True pg) shards)"
proof -
  obtain pg where pg: "pg \<noteq> []" "{g. g \<noteq> [] \<and> (\<exists>s \<in> set shards. systemMember True g s)} = {pg}"
    "\<forall>s \<in> set shards. \<not> systemMember False pg s"
    "\<forall>g. g \<noteq> [] \<longrightarrow> length (filter (systemMember False g) shards) \<le> length (filter (systemMember True pg) shards)"
    by (rule systemTopology_accepted [OF assms(1)])
  have ne: "pg \<noteq> g" using pg(3) assms(2,3) by blast
  have "normalizeShardGroupKey (sh_ShardGroup s) = g" using assms(3) by (simp add: systemMember_def)
  then have "findSystemPrimary shards s = pairByPosition (sh_Name s) g (sort_key memberKey (filter (systemMember False g) shards))
      (sort_key memberKey (filter (systemMember True pg) shards))"
    using assms(4) ne by (simp add: findSystemPrimary_def Let_def systemPrimaryShardsSorted_one [OF pg(2)] systemStandbys_eq)
  then show ?thesis using that [OF pg(1) ne] pg(4) assms(4) by blast
qed

lemma firstError_None: "firstError f xs = None \<longleftrightarrow> (\<forall>x \<in> set xs. f x = None)"
  by (induction xs) (auto split: option.splits)

lemma mget_key: "mget m k d \<noteq> d \<Longrightarrow> k \<in> fst ` set m"
  by (metis map_of_eq_None_iff mget_def option.simps(4))

definition spacePrimary :: "string \<Rightarrow> ShardSpec \<Rightarrow> bool" where
  "spacePrimary sp s \<longleftrightarrow> isActive s \<and> normalizeShardSpaceKey (sh_ShardSpace s) = sp \<and> isPrimaryDeployAs (sh_DeployAs s)"

definition spaceStandby :: "string \<Rightarrow> string \<Rightarrow> ShardSpec \<Rightarrow> bool" where
  "spaceStandby sp g s \<longleftrightarrow> isActive s \<and> normalizeShardSpaceKey (sh_ShardSpace s) = sp \<and>
     normalizeShardGroupKey (sh_ShardGroup s) = g \<and> isStandbyDeployAs (sh_DeployAs s)"

lemma compositeShardRule_adds:
  assumes "sp \<noteq> []" and "g \<noteq> []"
  shows "mget (comp_primaryCount (compositeShardRule s st)) sp 0 =
      mget (comp_primaryCount st) sp 0 + (if spacePrimary sp s \<and> normalizeShardGroupKey (sh_ShardGroup s) \<noteq> [] then 1 else 0)"
    and "mget (mget (comp_standbyCount (compositeShardRule s st)) sp []) g 0 =
      mget (mget (comp_standbyCount st) sp []) g 0 + (if spaceStandby sp g s then 1 else 0)"
    and "fst ` set (comp_primaryGroups st) \<subseteq> fst ` set (comp_primaryGroups (compositeShardRule s st))"
    and "spaceStandby sp g s \<Longrightarrow> sp \<in> fst ` set (comp_primaryGroups (compositeShardRule s st))"
proof -
  let ?sp = "normalizeShardSpaceKey (sh_ShardSpace s)" let ?g = "normalizeShardGroupKey (sh_ShardGroup s)"
  let ?d = "ToUpper (TrimSpace (sh_DeployAs s))"
  note defs = compositeShardRule_def spacePrimary_def spaceStandby_def isActive_def isPrimary_upper isStandbyDeployAs_def Let_def mget_mput mget_bump
  show "mget (comp_primaryCount (compositeShardRule s st)) sp 0 =
      mget (comp_primaryCount st) sp 0 + (if spacePrimary sp s \<and> ?g \<noteq> [] then 1 else 0)"
    using assms by (simp add: defs)
  show "mget (mget (comp_standbyCount (compositeShardRule s st)) sp []) g 0 =
      mget (mget (comp_standbyCount st) sp []) g 0 + (if spaceStandby sp g s then 1 else 0)"
    using assms by (simp add: defs)
  show "fst ` set (comp_primaryGroups st) \<subseteq> fst ` set (comp_primaryGroups (compositeShardRule s st))"
    by (simp add: compositeShardRule_def Let_def) blast
  show "spaceStandby sp g s \<Longrightarrow> sp \<in> fst ` set (comp_primaryGroups (compositeShardRule s st))"
    using assms by (auto simp: compositeShardRule_def spaceStandby_def isActive_def Let_def)
qed

lemma composite_fold_adds:
  assumes "sp \<noteq> []" and "g \<noteq> []"
  shows "mget (comp_primaryCount (fold compositeShardRule ss st)) sp 0 =
      mget (comp_primaryCount st) sp 0 + int (length (filter (\<lambda>s. spacePrimary sp s \<and> normalizeShardGroupKey (sh_ShardGroup s) \<noteq> []) ss))"
    and "mget (mget (comp_standbyCount (fold compositeShardRule ss st)) sp []) g 0 =
      mget (mget (comp_standbyCount st) sp []) g 0 + int (length (filter (spaceStandby sp g) ss))"
  by (induction ss arbitrary: st) (simp_all add: compositeShardRule_adds(1,2) [OF assms])

lemma composite_fold_keeps: "k \<in> fst ` set (comp_primaryGroups st) \<Longrightarrow> k \<in> fst ` set (comp_primaryGroups (fold compositeShardRule ss st))"
proof (induction ss arbitrary: st)
  case (Cons s ss)
  have "k \<in> fst ` set (comp_primaryGroups (compositeShardRule s st))"
    using compositeShardRule_adds(3) [of "''x''" "''x''" st s] Cons.prems by blast
  then show ?case using Cons.IH by simp
qed simp

lemma composite_fold_space:
  assumes "s \<in> set ss" and "spaceStandby sp g s" and "sp \<noteq> []" and "g \<noteq> []"
  shows "sp \<in> fst ` set (comp_primaryGroups (fold compositeShardRule ss st))"
  using assms(1)
proof (induction ss arbitrary: st)
  case (Cons x ss)
  show ?case
  proof (cases "x = s")
    case True
    then show ?thesis using composite_fold_keeps compositeShardRule_adds(4) [OF assms(3,4,2)] by simp
  next
    case False
    then show ?thesis using Cons by simp
  qed
qed simp

lemma compositeTopology_accepted:
  assumes "compositeDgTopology shards = None" and "s \<in> set shards" and "spaceStandby sp g s" and "sp \<noteq> []" and "g \<noteq> []"
  shows "length (filter (spaceStandby sp g) shards) \<le> length (filter (spacePrimary sp) shards)"
proof -
  define st where "st = fold compositeShardRule shards \<lparr>comp_primaryGroups = [], comp_primaryCount = [], comp_standbyCount = []\<rparr>"
  have a: "mget (comp_primaryCount st) sp 0 = int (length (filter (\<lambda>s. spacePrimary sp s \<and> normalizeShardGroupKey (sh_ShardGroup s) \<noteq> []) shards))"
    "mget (mget (comp_standbyCount st) sp []) g 0 = int (length (filter (spaceStandby sp g) shards))"
    "sp \<in> fst ` set (comp_primaryGroups st)"
    unfolding st_def composite_fold_adds [OF assms(4,5)]
    by (simp_all add: mget_def [of "[]"] composite_fold_space [OF assms(2-5)])
  obtain groups where "(sp, groups) \<in> set (comp_primaryGroups st)" using a(3) by force
  then have "compositeSpaceRule st (sp, groups) = None"
    using assms(1) unfolding compositeDgTopology_def Let_def st_def [symmetric] firstError_None by blast
  then have few: "find (\<lambda>(g, c). c > mget (comp_primaryCount st) sp 0) (mget (comp_standbyCount st) sp []) = None"
    by (simp add: compositeSpaceRule_def Let_def split: if_splits)
  have "s \<in> set (filter (spaceStandby sp g) shards)" using assms(2,3) by simp
  then have "0 < length (filter (spaceStandby sp g) shards)" by (rule length_pos_if_in_set)
  then have "(g, mget (mget (comp_standbyCount st) sp []) g 0) \<in> set (mget (comp_standbyCount st) sp [])"
    using a(2) by (intro mget_in mget_key [where d = 0]) simp
  then have "mget (mget (comp_standbyCount st) sp []) g 0 \<le> mget (comp_primaryCount st) sp 0"
    using few unfolding find_None_iff by fastforce
  then have "length (filter (spaceStandby sp g) shards) \<le> length (filter (\<lambda>s. spacePrimary sp s \<and> normalizeShardGroupKey (sh_ShardGroup s) \<noteq> []) shards)"
    using a(1,2) by simp
  also have "\<dots> \<le> length (filter (spacePrimary sp) shards)"
    by (induction shards) auto
  finally show ?thesis .
qed

lemma user_fold_adds:
  assumes "sp \<noteq> []"
  shows "mget (snd (fold userShardRule ss (seen, cnt))) sp 0 = mget cnt sp 0 + int (length (filter (spacePrimary sp) ss)) \<and>
    set (fst (fold userShardRule ss (seen, cnt))) =
      set seen \<union> {k. k \<noteq> [] \<and> (\<exists>s \<in> set ss. isActive s \<and> normalizeShardSpaceKey (sh_ShardSpace s) = k)}"
proof (induction ss arbitrary: seen cnt)
  case (Cons s ss)
  obtain seen1 cnt1 where u: "userShardRule s (seen, cnt) = (seen1, cnt1)" by fastforce
  have "mget cnt1 sp 0 = mget cnt sp 0 + (if spacePrimary sp s then 1 else 0)"
    "set seen1 = set seen \<union> {k. k \<noteq> [] \<and> isActive s \<and> normalizeShardSpaceKey (sh_ShardSpace s) = k}"
    using u assms by (auto simp: userShardRule_def spacePrimary_def isPrimary_upper isActive_def Let_def mget_bump split: if_splits)
  then show ?case using Cons [of seen1 cnt1] u by auto
qed simp

lemma userTopology_accepted:
  assumes "userTopology spec = None" and "s \<in> set (spec_Shard spec)" and "isActive s"
    and "normalizeShardSpaceKey (sh_ShardSpace s) = sp" and "sp \<noteq> []"
  shows "length (filter (spacePrimary sp) (spec_Shard spec)) = (if sp \<in> set (externalSpaces (spec_ShardInfo spec)) then 0 else 1)"
proof -
  obtain seen cnt where f: "fold userShardRule (spec_Shard spec) ([], []) = (seen, cnt)" by fastforce
  have a: "mget cnt sp 0 = int (length (filter (spacePrimary sp) (spec_Shard spec)))" "sp \<in> set seen"
    using user_fold_adds [OF assms(5), of "spec_Shard spec" "[]" "[]"] assms(2-5) f by (auto simp: mget_def [of "[]"])
  have "userSpaceRule (externalSpaces (spec_ShardInfo spec)) cnt sp = None"
    using assms(1) a(2) f by (auto simp: userTopology_def firstError_None)
  then have "n = (if sp \<in> set (externalSpaces (spec_ShardInfo spec)) then 0 else 1)" if "mget cnt sp 0 = int n" for n
    using that by (auto simp: userSpaceRule_def Let_def split: if_splits)
  then show ?thesis using a(1) by blast
qed

lemma findUserPrimary_found:
  assumes "\<exists>p \<in> set shards. isPrimaryDeployAs (sh_DeployAs p) \<and> normalizeShardSpaceKey (sh_ShardSpace p) = sp"
    and "normalizeShardSpaceKey (sh_ShardSpace s) = sp" and "sp \<noteq> []"
  shows "\<exists>p \<in> set shards. findUserPrimary shards s = Inr p \<and> isPrimaryDeployAs (sh_DeployAs p) \<and> normalizeShardSpaceKey (sh_ShardSpace p) = sp"
proof -
  let ?P = "\<lambda>p. isPrimaryDeployAs (sh_DeployAs p) \<and> normalizeShardSpaceKey (sh_ShardSpace p) = sp"
  have "find ?P shards \<noteq> None" using assms(1) by (auto simp: find_None_iff)
  then obtain p where p: "find ?P shards = Some p" by blast
  then have "p \<in> set shards \<and> ?P p" by (auto simp: find_Some_iff)
  then show ?thesis using p assms(2,3) by (auto simp: findUserPrimary_def Let_def)
qed

lemma compositeLists_eq:
  "compositePrimariesInShardSpaceSorted shards sp = sort_key memberKey (filter (spacePrimary sp) shards)"
  "compositeStandbysInSpaceGroupSorted shards sp g = sort_key memberKey (filter (spaceStandby sp g) shards)"
  by (simp_all add: compositePrimariesInShardSpaceSorted_def compositeStandbysInSpaceGroupSorted_def
      spacePrimary_def [abs_def] spaceStandby_def [abs_def] isActive_def)

lemma findCompositePrimary_paired:
  assumes "compositeDgTopology shards = None" and "s \<in> set shards" and "spaceStandby sp g s" and "sp \<noteq> []" and "g \<noteq> []"
  shows "findCompositePrimary shards s = pairByPosition (sh_Name s) g (sort_key memberKey (filter (spaceStandby sp g) shards))
      (sort_key memberKey (filter (spacePrimary sp) shards))"
proof -
  have "s \<in> set (filter (spaceStandby sp g) shards)" using assms(2,3) by simp
  then have "0 < length (filter (spaceStandby sp g) shards)" by (rule length_pos_if_in_set)
  then have "0 < length (sort_key memberKey (filter (spacePrimary sp) shards))"
    using compositeTopology_accepted [OF assms] unfolding length_sort by linarith
  then have "sort_key memberKey (filter (spacePrimary sp) shards) \<noteq> []" by (rule length_greater_0_conv [THEN iffD1])
  moreover have "normalizeShardSpaceKey (sh_ShardSpace s) = sp" "normalizeShardGroupKey (sh_ShardGroup s) = g"
    using assms(3) by (simp_all add: spaceStandby_def)
  ultimately show ?thesis using assms(4,5) by (simp add: findCompositePrimary_def compositeLists_eq Let_def)
qed

lemma effectiveShardingType_range: "effectiveShardingTypeForConstraints spec \<in> {''SYSTEM'', ''USER'', ''COMPOSITE''}"
  by (simp add: effectiveShardingTypeForConstraints_def Let_def)


section \<open>Properties\<close>

lemma topology_cases:
  assumes "validatePrimaryTopologyConstraint spec = None" and "EffectiveReplicationType (spec_ReplicationType spec) = ''DG''"
  shows "effectiveShardingTypeForConstraints spec = ''SYSTEM'' \<Longrightarrow> systemTopology ''DG'' (spec_Shard spec) = None"
    and "effectiveShardingTypeForConstraints spec = ''COMPOSITE'' \<Longrightarrow> compositeDgTopology (spec_Shard spec) = None"
    and "effectiveShardingTypeForConstraints spec = ''USER'' \<Longrightarrow> userTopology spec = None"
  using assms by (simp_all add: validatePrimaryTopologyConstraint_def Let_def split: option.splits)

lemma findPrimary_cases:
  assumes "EffectiveReplicationType (spec_ReplicationType spec) = ''DG''"
  shows "effectiveShardingTypeForConstraints spec = ''SYSTEM'' \<Longrightarrow> findPrimaryForStandby spec s = findSystemPrimary (spec_Shard spec) s"
    and "effectiveShardingTypeForConstraints spec = ''COMPOSITE'' \<Longrightarrow> findPrimaryForStandby spec s = findCompositePrimary (spec_Shard spec) s"
    and "effectiveShardingTypeForConstraints spec = ''USER'' \<Longrightarrow> findPrimaryForStandby spec s = findUserPrimary (spec_Shard spec) s"
  using assms by (simp_all add: findPrimaryForStandby_def Let_def)

text \<open>A standby that names the group and space its sharding type asks for.\<close>

definition placedStandby :: "ShardingDatabaseSpec \<Rightarrow> ShardSpec \<Rightarrow> bool" where
  "placedStandby spec s \<longleftrightarrow> s \<in> set (spec_Shard spec) \<and> isActive s \<and> isStandbyDeployAs (sh_DeployAs s) \<and>
     (effectiveShardingTypeForConstraints spec \<noteq> ''USER'' \<longrightarrow> \<not> blank (sh_ShardGroup s)) \<and>
     (effectiveShardingTypeForConstraints spec \<noteq> ''SYSTEM'' \<longrightarrow> \<not> blank (sh_ShardSpace s)) \<and>
     (effectiveShardingTypeForConstraints spec = ''USER'' \<longrightarrow>
        normalizeShardSpaceKey (sh_ShardSpace s) \<notin> set (externalSpaces (spec_ShardInfo spec)))"

lemma placed_keys:
  assumes "placedStandby spec s"
  shows "effectiveShardingTypeForConstraints spec \<noteq> ''USER'' \<Longrightarrow> normalizeShardGroupKey (sh_ShardGroup s) \<noteq> []"
    and "effectiveShardingTypeForConstraints spec \<noteq> ''SYSTEM'' \<Longrightarrow> normalizeShardSpaceKey (sh_ShardSpace s) \<noteq> []"
    and "systemMember False (normalizeShardGroupKey (sh_ShardGroup s)) s"
    and "spaceStandby (normalizeShardSpaceKey (sh_ShardSpace s)) (normalizeShardGroupKey (sh_ShardGroup s)) s"
  using assms by (simp_all add: placedStandby_def normalizeShardGroupKey_def normalizeShardSpaceKey_def systemMember_def spaceStandby_def)

text \<open>C14:
  In a Data Guard topology that the controller accepts every placed standby has a primary: the search
  of \<^verbatim>\<open>findPrimaryForStandby\<close> succeeds and returns a primary shard of the object, in another shard group
  (system sharding), in the same shard space (user-defined and composite sharding), and not one that is
  being deleted (system and composite sharding).
\<close>

theorem accepted_standby_has_primary:
  assumes "validatePrimaryTopologyConstraint spec = None" and "EffectiveReplicationType (spec_ReplicationType spec) = ''DG''"
    and "placedStandby spec s"
  shows "\<exists>p \<in> set (spec_Shard spec). findPrimaryForStandby spec s = Inr p \<and> isPrimaryDeployAs (sh_DeployAs p) \<and>
    (case effectiveShardingTypeForConstraints spec of t \<Rightarrow>
       (t = ''SYSTEM'' \<longrightarrow> isActive p \<and> normalizeShardGroupKey (sh_ShardGroup p) \<noteq> normalizeShardGroupKey (sh_ShardGroup s)) \<and>
       (t = ''COMPOSITE'' \<longrightarrow> isActive p \<and> normalizeShardSpaceKey (sh_ShardSpace p) = normalizeShardSpaceKey (sh_ShardSpace s)) \<and>
       (t = ''USER'' \<longrightarrow> normalizeShardSpaceKey (sh_ShardSpace p) = normalizeShardSpaceKey (sh_ShardSpace s)))"
proof -
  let ?t = "effectiveShardingTypeForConstraints spec" let ?shards = "spec_Shard spec"
  let ?g = "normalizeShardGroupKey (sh_ShardGroup s)" let ?sp = "normalizeShardSpaceKey (sh_ShardSpace s)"
  have s: "s \<in> set ?shards" using assms(3) by (simp add: placedStandby_def)
  note cases = topology_cases [OF assms(1,2)] and find = findPrimary_cases [OF assms(2)] and keys = placed_keys [OF assms(3)]
  consider "?t = ''SYSTEM''" | "?t = ''COMPOSITE''" | "?t = ''USER''" using effectiveShardingType_range by auto
  then show ?thesis
  proof cases
    case 1
    obtain pg where "pg \<noteq> ?g"
      and f: "findSystemPrimary ?shards s = pairByPosition (sh_Name s) ?g (sort_key memberKey (filter (systemMember False ?g) ?shards))
        (sort_key memberKey (filter (systemMember True pg) ?shards))"
      and "length (filter (systemMember False ?g) ?shards) \<le> length (filter (systemMember True pg) ?shards)"
      using findSystemPrimary_paired [OF cases(1) [OF 1] s keys(3) keys(1)] 1 by auto
    moreover have "s \<in> set (sort_key memberKey (filter (systemMember False ?g) ?shards))" using s keys(3) by simp
    ultimately obtain p where "p \<in> set (filter (systemMember True pg) ?shards)" "findSystemPrimary ?shards s = Inr p"
      using pair_found [of s "sort_key memberKey (filter (systemMember False ?g) ?shards)"
          "sort_key memberKey (filter (systemMember True pg) ?shards)" ?g] by auto
    then show ?thesis using 1 find(1) [OF 1] \<open>pg \<noteq> ?g\<close> by (auto simp: systemMember_def)
  next
    case 2
    have k: "?sp \<noteq> []" "?g \<noteq> []" using keys(1,2) 2 by simp_all
    have f: "findCompositePrimary ?shards s = pairByPosition (sh_Name s) ?g (sort_key memberKey (filter (spaceStandby ?sp ?g) ?shards))
        (sort_key memberKey (filter (spacePrimary ?sp) ?shards))"
      by (rule findCompositePrimary_paired [OF cases(2) [OF 2] s keys(4) k])
    have "s \<in> set (sort_key memberKey (filter (spaceStandby ?sp ?g) ?shards))" using s keys(4) by simp
    then obtain p where "p \<in> set (filter (spacePrimary ?sp) ?shards)" "findCompositePrimary ?shards s = Inr p"
      using pair_found [of s "sort_key memberKey (filter (spaceStandby ?sp ?g) ?shards)"
          "sort_key memberKey (filter (spacePrimary ?sp) ?shards)" ?g] f compositeTopology_accepted [OF cases(2) [OF 2] s keys(4) k] by auto
    then show ?thesis using 2 find(2) [OF 2] by (auto simp: spacePrimary_def)
  next
    case 3
    have k: "?sp \<noteq> []" using keys(2) 3 by simp
    have "length (filter (spacePrimary ?sp) ?shards) = 1"
      using userTopology_accepted [OF cases(3) [OF 3] s _ refl k] assms(3) 3 by (simp add: placedStandby_def)
    then have "filter (spacePrimary ?sp) ?shards \<noteq> []" by auto
    then have "\<exists>p \<in> set ?shards. isPrimaryDeployAs (sh_DeployAs p) \<and> normalizeShardSpaceKey (sh_ShardSpace p) = ?sp"
      by (auto simp: filter_empty_conv spacePrimary_def)
    then show ?thesis using findUserPrimary_found [of ?shards ?sp s] k find(3) [OF 3] 3 by auto
  qed
qed

text \<open>Two primaries of one group and their standbys in another.\<close>

definition roleShard :: "string \<Rightarrow> string \<Rightarrow> string \<Rightarrow> ShardSpec" where
  "roleShard name grp role = zeroShardSpec\<lparr>sh_Name := name, sh_ShardGroup := grp, sh_DeployAs := role\<rparr>"

definition pairedSpec :: ShardingDatabaseSpec where
  "pairedSpec = zeroShardingDatabaseSpec\<lparr>spec_ShardingType := ''SYSTEM'', spec_ReplicationType := ''DG'',
     spec_Shard := [roleShard ''p1'' ''G'' ''PRIMARY'', roleShard ''p2'' ''G'' ''PRIMARY'',
                    roleShard ''s3'' ''H'' ''STANDBY'', roleShard ''s4'' ''H'' ''STANDBY'']\<rparr>"

lemma roleShard_fields [simp]:
  "sh_Name (roleShard n g r) = n" "sh_ShardGroup (roleShard n g r) = g" "sh_DeployAs (roleShard n g r) = r"
  "sh_IsDelete (roleShard n g r) = []" "sh_ShardRegion (roleShard n g r) = []" "sh_ShardSpace (roleShard n g r) = []"
  by (simp_all add: roleShard_def zeroShardSpec_def)

lemma pairedSpec_fields [simp]:
  "spec_Shard pairedSpec = [roleShard ''p1'' ''G'' ''PRIMARY'', roleShard ''p2'' ''G'' ''PRIMARY'',
     roleShard ''s3'' ''H'' ''STANDBY'', roleShard ''s4'' ''H'' ''STANDBY'']"
  "effectiveShardingTypeForConstraints pairedSpec = ''SYSTEM''" "EffectiveReplicationType (spec_ReplicationType pairedSpec) = ''DG''"
  by (simp_all add: pairedSpec_def effectiveShardingTypeForConstraints_def EffectiveReplicationType_def ctlNormalizeReplicationType_def
      zeroShardingDatabaseSpec_def go_eval)

lemma pairedSpec_accepted: "validatePrimaryTopologyConstraint pairedSpec = None"
  by (simp add: validatePrimaryTopologyConstraint_def systemTopology_def systemShard_def systemBindRegion_def systemCountRole_def systemFinal_def
      CheckIsDeleteFlag_def normalizeShardGroupKey_def bump_def mput_def mget_def Let_def go_eval)

lemma pairedSpec_placed: "placedStandby pairedSpec (roleShard ''s3'' ''H'' ''STANDBY'')" "placedStandby pairedSpec (roleShard ''s4'' ''H'' ''STANDBY'')"
  by (simp_all add: placedStandby_def isActive_def CheckIsDeleteFlag_def isStandbyDeployAs_def go_eval)

theorem accepted_standby_has_primary_witness:
  "\<exists>p \<in> set (spec_Shard pairedSpec). findPrimaryForStandby pairedSpec (roleShard ''s3'' ''H'' ''STANDBY'') = Inr p \<and> isPrimaryDeployAs (sh_DeployAs p)"
  using accepted_standby_has_primary [OF pairedSpec_accepted pairedSpec_fields(3) pairedSpec_placed(1)] by auto

text \<open>C15: Standbys of the same group do not share a primary: in system and composite sharding, when the active
  shards have different names (up to case and surrounding blanks), two placed standbys of one group (and
  one space) for which the search returns the same primary are the same shard.
\<close>

theorem standby_primaries_distinct:
  assumes "validatePrimaryTopologyConstraint spec = None" and "EffectiveReplicationType (spec_ReplicationType spec) = ''DG''"
    and "effectiveShardingTypeForConstraints spec \<noteq> ''USER''" and "placedStandby spec s" and "placedStandby spec s'"
    and "distinct (map memberKey (filter isActive (spec_Shard spec)))"
    and "normalizeShardGroupKey (sh_ShardGroup s) = normalizeShardGroupKey (sh_ShardGroup s')"
    and "effectiveShardingTypeForConstraints spec = ''COMPOSITE'' \<longrightarrow> normalizeShardSpaceKey (sh_ShardSpace s) = normalizeShardSpaceKey (sh_ShardSpace s')"
    and "findPrimaryForStandby spec s = Inr p" and "findPrimaryForStandby spec s' = Inr p"
  shows "s = s'"
proof -
  let ?t = "effectiveShardingTypeForConstraints spec" let ?shards = "spec_Shard spec"
  let ?g = "normalizeShardGroupKey (sh_ShardGroup s)" let ?sp = "normalizeShardSpaceKey (sh_ShardSpace s)"
  have s: "s \<in> set ?shards" "s' \<in> set ?shards" using assms(4,5) by (simp_all add: placedStandby_def)
  note cases = topology_cases [OF assms(1,2)] and find = findPrimary_cases [OF assms(2)]
    and keys = placed_keys [OF assms(4)] and keys' = placed_keys [OF assms(5)]
  have sub: "inj_on memberKey (set (sort_key memberKey (filter P ?shards)))" "distinct (sort_key memberKey (filter P ?shards))"
    if P: "\<And>x. P x \<Longrightarrow> isActive x" for P
  proof -
    have "filter P ?shards = filter P (filter isActive ?shards)" using P by (auto intro: filter_cong)
    then have "distinct (map memberKey (filter P ?shards))" using assms(6) by (simp only: distinct_map_filter)
    then show "inj_on memberKey (set (sort_key memberKey (filter P ?shards)))" "distinct (sort_key memberKey (filter P ?shards))"
      by (simp_all add: distinct_map)
  qed
  have act: "systemMember b g x \<Longrightarrow> isActive x" "spacePrimary sp x \<Longrightarrow> isActive x" "spaceStandby sp g x \<Longrightarrow> isActive x" for b g sp x
    by (simp_all add: systemMember_def spacePrimary_def spaceStandby_def)
  consider "?t = ''SYSTEM''" | "?t = ''COMPOSITE''" using effectiveShardingType_range [of spec] assms(3) by auto
  then show ?thesis
  proof cases
    case 1
    have g: "?g \<noteq> []" and m': "systemMember False ?g s'" using keys(1) keys'(3) assms(7) 1 by simp_all
    obtain pg where u: "{g. g \<noteq> [] \<and> (\<exists>s \<in> set ?shards. systemMember True g s)} = {pg}"
      by (rule systemTopology_accepted [OF cases(1) [OF 1]])
    let ?S = "sort_key memberKey (filter (systemMember False ?g) ?shards)" let ?P = "sort_key memberKey (filter (systemMember True pg) ?shards)"
    have fs: "pairByPosition (sh_Name x) ?g ?S ?P = Inr p" if "systemMember False ?g x" "findSystemPrimary ?shards x = Inr p" for x
    proof -
      have "normalizeShardGroupKey (sh_ShardGroup x) = ?g" using that(1) by (simp only: systemMember_def)
      then show ?thesis
        using that(2) unfolding findSystemPrimary_def systemPrimaryShardsSorted_one [OF u] systemStandbys_eq
        by (simp add: Let_def split: if_splits)
    qed
    have f: "pairByPosition (sh_Name s) ?g ?S ?P = Inr p" "pairByPosition (sh_Name s') ?g ?S ?P = Inr p"
      using fs [OF keys(3)] fs [OF m'] assms(9,10) unfolding find(1) [OF 1] by blast+
    show ?thesis
      by (rule pair_injective [OF _ _ sub(1) sub(2) f]) (use s keys(3) m' act(1) in auto)
  next
    case 2
    have k: "?sp \<noteq> []" "?g \<noteq> []" using keys(1,2) 2 by simp_all
    have m': "spaceStandby ?sp ?g s'" using keys'(4) assms(7,8) 2 by simp
    let ?S = "sort_key memberKey (filter (spaceStandby ?sp ?g) ?shards)" let ?P = "sort_key memberKey (filter (spacePrimary ?sp) ?shards)"
    have f: "pairByPosition (sh_Name s) ?g ?S ?P = Inr p" "pairByPosition (sh_Name s') ?g ?S ?P = Inr p"
      using findCompositePrimary_paired [OF cases(2) [OF 2] s(1) keys(4) k] findCompositePrimary_paired [OF cases(2) [OF 2] s(2) m' k]
        assms(9,10) find(2) [OF 2] by simp_all
    show ?thesis
      by (rule pair_injective [OF _ _ sub(1) sub(2) f]) (use s keys(4) m' act(2,3) in auto)
  qed
qed

theorem standby_primaries_distinct_witness:
  "findPrimaryForStandby pairedSpec (roleShard ''s3'' ''H'' ''STANDBY'') \<noteq> findPrimaryForStandby pairedSpec (roleShard ''s4'' ''H'' ''STANDBY'')"
proof
  assume same: "findPrimaryForStandby pairedSpec (roleShard ''s3'' ''H'' ''STANDBY'') = findPrimaryForStandby pairedSpec (roleShard ''s4'' ''H'' ''STANDBY'')"
  obtain p where p: "findPrimaryForStandby pairedSpec (roleShard ''s3'' ''H'' ''STANDBY'') = Inr p"
  proof -
    have "findPrimaryForStandby pairedSpec (roleShard ''s3'' ''H'' ''STANDBY'') = Inr (roleShard ''p1'' ''G'' ''PRIMARY'')"
      unfolding findPrimary_cases(1) [OF pairedSpec_fields(3,2)]
      by (simp add: findSystemPrimary_def systemPrimaryShardsSorted_def systemPrimaryGroups_def systemStandbysInGroupSorted_def
          pairByPosition_def standbyPos_def CheckIsDeleteFlag_def normalizeShardGroupKey_def isPrimaryDeployAs_def isStandbyDeployAs_def
          memberKey_def mput_def mget_def upt_rec less_list_code less_char_def Let_def go_eval)
    then show ?thesis using that by blast
  qed
  have "distinct (map memberKey (filter isActive (spec_Shard pairedSpec)))"
    by (simp add: memberKey_def isActive_def CheckIsDeleteFlag_def go_eval)
  then have "roleShard ''s3'' ''H'' ''STANDBY'' = roleShard ''s4'' ''H'' ''STANDBY''"
    using standby_primaries_distinct [OF pairedSpec_accepted pairedSpec_fields(3) _ pairedSpec_placed] p same by simp
  then have "sh_Name (roleShard ''s3'' ''H'' ''STANDBY'') = sh_Name (roleShard ''s4'' ''H'' ''STANDBY'')" by (rule arg_cong)
  then show False by simp
qed

end
