(* ===== verification/Sharding_Connect.thy ===== *)
theory Sharding_Connect
  imports Sharding_Scale Sharding_Standby "HOL-Library.Product_Lexorder"
begin

text \<open>
  Connect identifiers and Data Guard pairs of \<^verbatim>\<open>controllers/database/shardingdatabase_controller.go\<close>: the
  strings under which the broker reaches a shard and the parser that reads them back, the pairs of
  primaries and standbys that the controller publishes in the status, and the primary it takes for a
  standby from them.
\<close>

section \<open>Connect identifiers\<close>

definition parsePort :: "string \<Rightarrow> (string \<times> int) option" where
  "parsePort hostPort =
     (case LastIndexByte hostPort (CHR '':'') of
        None \<Rightarrow> Some (hostPort, 1521)
      | Some pos \<Rightarrow>
          let h = TrimSpace (take pos hostPort); p = TrimSpace (drop (pos + 1) hostPort) in
          if h = [] \<or> p = [] then None
          else (case Atoi p of None \<Rightarrow> None | Some v \<Rightarrow> if v \<le> 0 then None else Some (h, wrap32 v)))"

definition parseConnectHostPort :: "string \<Rightarrow> (string \<times> int) option" where
  "parseConnectHostPort connect =
     (let raw = TrimSpace connect in
      if raw = [] then None
      else
        (let s = TrimPrefix raw ''//'' in
         case IndexByte s (CHR ''/'') of
           None \<Rightarrow> None
         | Some slash \<Rightarrow>
             if slash = 0 then None
             else (case parsePort (take slash s) of
                 None \<Rightarrow> None
               | Some (host, port) \<Rightarrow> if blank host then None else Some (host, port))))"

definition resolveShardHostPort :: "string \<Rightarrow> ShardSpec \<Rightarrow> string \<times> int" where
  "resolveShardHostPort namespace shard =
     (case parseConnectHostPort (sh_Connect shard) of
        Some hp \<Rightarrow> hp
      | None \<Rightarrow> (sh_Name shard @ ''-0.'' @ sh_Name shard @ ''.'' @ namespace @ ''.svc.cluster.local'', 1521))"

definition buildShardConnectIdentifier :: "string \<Rightarrow> ShardSpec \<Rightarrow> string \<Rightarrow> string" where
  "buildShardConnectIdentifier namespace shard dbUniqueName =
     (case resolveShardHostPort namespace shard of (host, port) \<Rightarrow>
        ''//'' @ host @ '':'' @ itoa port @ ''/'' @ BuildDgmgrlServiceName dbUniqueName)"

definition buildShardStaticConnectIdentifier :: "string \<Rightarrow> ShardSpec \<Rightarrow> string \<Rightarrow> string" where
  "buildShardStaticConnectIdentifier namespace shard dbUniqueName =
     (case resolveShardHostPort namespace shard of (host, port) \<Rightarrow>
        ''(DESCRIPTION=(ADDRESS=(PROTOCOL=tcp)(HOST='' @ host @ '')(PORT='' @ itoa port @ ''))(CONNECT_DATA=(SERVICE_NAME=''
        @ BuildDgmgrlServiceName dbUniqueName @ '')(INSTANCE_NAME='' @ ToUpper (TrimSpace dbUniqueName) @ '')(SERVER=DEDICATED)))'')"

definition buildDgConfigName :: "string \<Rightarrow> ShardSpec \<Rightarrow> ShardSpec \<Rightarrow> string" where
  "buildDgConfigName instanceName primary standby =
     (let sg = normalizeShardGroupKey (sh_ShardGroup standby) in
      Join ([ToUpper (TrimSpace instanceName), ToUpper (TrimSpace (sh_Name primary))] @ (if sg \<noteq> [] then [sg] else []) @ [''DGCFG'']) ''_'')"


section \<open>Data Guard pairs\<close>

record DgPairStatus =
  dgp_PrimaryKey :: string
  dgp_PrimarySource :: string
  dgp_PrimaryConnectString :: string
  dgp_StandbyShardName :: string
  dgp_StandbyShardNum :: int
  dgp_State :: string
  dgp_Message :: string

definition buildPrimaryIdentitiesFromSources :: "string \<Rightarrow> StandbyPrimarySource list \<Rightarrow> bool \<Rightarrow> primaryIdentity list" where
  "buildPrimaryIdentitiesFromSources namespace sources preserveOrder =
     (let ids = collectIdentities namespace {} (resolvePrimarySourcesList sources) in
      if preserveOrder then ids else sort_key pid_Key ids)"

definition buildPrimaryIdentities :: "string \<Rightarrow> StandbyConfig option \<Rightarrow> primaryIdentity list" where
  "buildPrimaryIdentities namespace cfg =
     (case cfg of None \<Rightarrow> [] | Some c \<Rightarrow> buildPrimaryIdentitiesFromSources namespace (sbc_PrimarySources c) False)"

definition isStandbyShardInfoDeployAs :: "ShardGroupSpec option \<Rightarrow> ShardSpaceSpec option \<Rightarrow> bool" where
  "isStandbyShardInfoDeployAs grp space =
     isStandbyDeployAs (case grp of Some g \<Rightarrow> sg_DeployAs g | None \<Rightarrow> (case space of Some s \<Rightarrow> ss_DeployAs s | None \<Rightarrow> []))"

definition standbyShardMembersForInfo :: "ShardingDatabaseSpec \<Rightarrow> ShardingDetails \<Rightarrow> ShardSpec list" where
  "standbyShardMembersForInfo spec info =
     (let p = TrimSpace (si_ShardPreFixName info) in
      if p = [] then []
      else sort_key memberKey (filter (\<lambda>s. isStandbyDeployAs (sh_DeployAs s) \<and> HasPrefix (sh_Name s) p) (spec_Shard spec)))"

definition mappedPair :: "string \<Rightarrow> primaryIdentity \<Rightarrow> string \<Rightarrow> nat \<Rightarrow> DgPairStatus" where
  "mappedPair msg pid shardName num =
     \<lparr>dgp_PrimaryKey = pid_Key pid, dgp_PrimarySource = pid_Source pid, dgp_PrimaryConnectString = pid_Connect pid,
      dgp_StandbyShardName = shardName, dgp_StandbyShardNum = wrap32 (int num), dgp_State = ''MAPPED'', dgp_Message = msg\<rparr>"

definition sortPairs :: "DgPairStatus list \<Rightarrow> DgPairStatus list" where
  "sortPairs pairs = sort_key (\<lambda>p. (dgp_StandbyShardName p, dgp_PrimaryKey p)) pairs"

definition externalEntryPairs :: "string \<Rightarrow> ShardingDatabaseSpec \<Rightarrow> ShardingDetails \<Rightarrow> DgPairStatus list" where
  "externalEntryPairs namespace spec info =
     (if si_ExternalPrimarySources info = [] \<or> \<not> isStandbyShardInfoDeployAs (si_ShardGroupDetails info) (si_ShardSpaceDetails info) then []
      else map (\<lambda>(pos, s, pid). mappedPair ''mapped from externalPrimarySources'' pid (sh_Name s) (pos + 1))
             (enumerate 0 (zip (standbyShardMembersForInfo spec info)
                (buildPrimaryIdentitiesFromSources namespace (si_ExternalPrimarySources info) True))))"

definition buildDgPairsFromExternalPrimarySources :: "string \<Rightarrow> ShardingDatabaseSpec \<Rightarrow> DgPairStatus list" where
  "buildDgPairsFromExternalPrimarySources namespace spec =
     (let shardingType = effectiveShardingTypeForConstraints spec in
      if shardingType \<noteq> ''SYSTEM'' \<and> shardingType \<noteq> ''COMPOSITE'' then []
      else sortPairs (concat (map (externalEntryPairs namespace spec) (spec_ShardInfo spec))))"

definition userEntryPairs :: "string \<Rightarrow> ShardingDetails \<Rightarrow> DgPairStatus list" where
  "userEntryPairs namespace info =
     (let p = TrimSpace (si_ShardPreFixName info) in
      case si_StandbyConfig info of
        None \<Rightarrow> []
      | Some cfg \<Rightarrow>
          if p = [] then []
          else
            (let identities = buildPrimaryIdentities namespace (Some cfg);
                 perPrimary = (if sbc_StandbyPerPrimary cfg \<le> 0 then 1 else sbc_StandbyPerPrimary cfg)
             in map (\<lambda>(shardIdx, pid). mappedPair ''mapped from standbyConfig'' pid (p @ itoa_nat shardIdx) shardIdx)
                  (enumerate 1 (concat (map (replicate (nat perPrimary)) identities)))))"

definition buildDgPairsFromStandbyConfig :: "string \<Rightarrow> ShardingDatabaseSpec \<Rightarrow> DgPairStatus list" where
  "buildDgPairsFromStandbyConfig namespace spec =
     (if effectiveShardingTypeForConstraints spec \<noteq> ''USER'' then buildDgPairsFromExternalPrimarySources namespace spec
      else sortPairs (concat (map (userEntryPairs namespace) (spec_ShardInfo spec))))"


section \<open>The primary of a standby, with the pairs of the status\<close>

definition findDgPairForStandby :: "DgPairStatus list \<Rightarrow> string \<Rightarrow> DgPairStatus option" where
  "findDgPairForStandby pairs standbyName =
     (let target = TrimSpace standbyName in
      if target = [] then None else find (\<lambda>p. TrimSpace (dgp_StandbyShardName p) = target) pairs)"

text \<open>The last part of \<^verbatim>\<open>strings.Split(raw, "/")\<close>.\<close>

definition lastSegment :: "string \<Rightarrow> string" where
  "lastSegment raw = rev (takeWhile (\<lambda>c. c \<noteq> CHR ''/'') (rev raw))"

definition findPrimaryByPairKey :: "ShardSpec list \<Rightarrow> string \<Rightarrow> ShardSpec option" where
  "findPrimaryByPairKey shards k =
     (let raw = TrimSpace k; name = (if CHR ''/'' \<in> set raw then TrimSpace (lastSegment raw) else raw) in
      if raw = [] then None
      else find (\<lambda>s. isPrimaryDeployAs (sh_DeployAs s) \<and> EqualFold (TrimSpace (sh_Name s)) name) shards)"

definition findPrimaryByConnectString :: "string \<Rightarrow> ShardSpec list \<Rightarrow> string \<Rightarrow> ShardSpec option" where
  "findPrimaryByConnectString namespace shards connect =
     (let target = TrimSpace connect in
      if target = [] then None
      else find (\<lambda>s. isPrimaryDeployAs (sh_DeployAs s) \<and>
          (EqualFold (TrimSpace (sh_Connect s)) target \<or>
           EqualFold (buildShardConnectIdentifier namespace s (ToUpper (TrimSpace (sh_Name s)))) target)) shards)"

definition findPrimaryByPair :: "string \<Rightarrow> ShardSpec list \<Rightarrow> DgPairStatus \<Rightarrow> ShardSpec option" where
  "findPrimaryByPair namespace shards pair =
     (case findPrimaryByPairKey shards (dgp_PrimaryKey pair) of
        Some p \<Rightarrow> Some p
      | None \<Rightarrow> findPrimaryByConnectString namespace shards (dgp_PrimaryConnectString pair))"

fun uniqueNonEmptyFrom :: "string set \<Rightarrow> string list \<Rightarrow> string list" where
  "uniqueNonEmptyFrom seen [] = []"
| "uniqueNonEmptyFrom seen (x # xs) =
     (let v = TrimSpace x; k = ToLower v in
      if v = [] \<or> k \<in> seen then uniqueNonEmptyFrom seen xs else v # uniqueNonEmptyFrom (insert k seen) xs)"

definition uniqueNonEmpty :: "string list \<Rightarrow> string list" where
  "uniqueNonEmpty xs = uniqueNonEmptyFrom {} xs"

datatype dgError = LookupFailed topologyError | PairUnusable string

record dgPrimary =
  dpr_primary :: "ShardSpec option"
  dpr_connects :: "string list"
  dpr_source :: string
  dpr_err :: "dgError option"

definition resolvePrimaryForStandbyDG :: "string \<Rightarrow> ShardingDatabaseSpec \<Rightarrow> DgPairStatus list \<Rightarrow> ShardSpec \<Rightarrow> dgPrimary" where
  "resolvePrimaryForStandbyDG namespace spec pairs standby =
     (let ident = (\<lambda>p. buildShardConnectIdentifier namespace p (ToUpper (TrimSpace (sh_Name p)))) in
      case findDgPairForStandby pairs (sh_Name standby) of
        Some pair \<Rightarrow>
          let source = TrimSpace (dgp_PrimarySource pair); connect = TrimSpace (dgp_PrimaryConnectString pair) in
          (case findPrimaryByPair namespace (spec_Shard spec) pair of
             Some p \<Rightarrow> \<lparr>dpr_primary = Some p, dpr_connects = uniqueNonEmpty ((if connect \<noteq> [] then [connect] else []) @ [ident p]),
                       dpr_source = source, dpr_err = None\<rparr>
           | None \<Rightarrow> if connect \<noteq> [] then \<lparr>dpr_primary = None, dpr_connects = [connect], dpr_source = source, dpr_err = None\<rparr>
                     else \<lparr>dpr_primary = None, dpr_connects = [], dpr_source = source, dpr_err = Some (PairUnusable (sh_Name standby))\<rparr>)
      | None \<Rightarrow>
          (case findPrimaryForStandby spec standby of
             Inl e \<Rightarrow> \<lparr>dpr_primary = None, dpr_connects = [], dpr_source = [], dpr_err = Some (LookupFailed e)\<rparr>
           | Inr p \<Rightarrow> \<lparr>dpr_primary = Some p, dpr_connects = [ident p], dpr_source = ''SpecFallback'', dpr_err = None\<rparr>))"


section \<open>Reading identifiers back\<close>

lemma parsePort_itoa:
  assumes "h \<noteq> []" and "TrimSpace h = h" and "0 < port" and "port < 2 ^ 31"
  shows "parsePort (h @ '':'' @ itoa port) = Some (h, port)"
proof -
  have i: "itoa port = itoa_nat (nat port)" using assms(3) by (simp add: itoa_def)
  have t: "TrimSpace (itoa_nat (nat port)) = itoa_nat (nat port)" using TrimSpace_itoa [of "[]" "nat port"] by simp
  have a: "Atoi (itoa_nat (nat port)) = Some port" using Atoi_itoa [of "nat port"] assms(3,4) by simp
  have "wrap32 port = port" using assms(3,4) by (simp add: wrap32_id in_int32_def)
  then show ?thesis
    using assms by (simp add: parsePort_def i LastIndexByte_last itoa_nat_chars t a)
qed

lemma identifier_trimmed: "TrimSpace (''//'' @ x @ BuildDgmgrlServiceName db) = ''//'' @ x @ BuildDgmgrlServiceName db"
  by (rule TrimSpace_id) (simp_all add: BuildDgmgrlServiceName_def is_space_def)

text \<open>C17:
  Round trip of connect identifiers: the parser reads from the identifier that the controller builds for
  a shard exactly the host and port it was built from, as long as the host has no slash and no
  surrounding blanks and the port is positive. So the identifier may be stored as the connect string of
  the shard without changing how it is reached.
\<close>

theorem connect_identifier_roundtrip:
  assumes "resolveShardHostPort namespace shard = (host, port)" and "host \<noteq> []" and "TrimSpace host = host"
    and "CHR ''/'' \<notin> set host" and "0 < port" and "port < 2 ^ 31"
  shows "parseConnectHostPort (buildShardConnectIdentifier namespace shard db) = Some (host, port) \<and>
    resolveShardHostPort namespace (shard\<lparr>sh_Connect := buildShardConnectIdentifier namespace shard db\<rparr>) = (host, port)"
proof -
  let ?hp = "host @ '':'' @ itoa port" let ?svc = "BuildDgmgrlServiceName db"
  have b: "buildShardConnectIdentifier namespace shard db = ''//'' @ (?hp @ ''/'') @ ?svc"
    by (simp add: buildShardConnectIdentifier_def assms(1))
  have "CHR ''/'' \<notin> set ?hp" using assms(4,5) itoa_nat_chars(2) [of "nat port"] by (simp add: itoa_def)
  then have "IndexByte (?hp @ CHR ''/'' # ?svc) (CHR ''/'') = Some (length ?hp)" by (rule IndexByte_first)
  moreover have "TrimPrefix (''//'' @ (?hp @ ''/'') @ ?svc) ''//'' = ?hp @ CHR ''/'' # ?svc"
    by (simp add: TrimPrefix_def HasPrefix_def)
  moreover have "take (length ?hp) (?hp @ CHR ''/'' # ?svc) = ?hp" by simp
  ultimately have "parseConnectHostPort (buildShardConnectIdentifier namespace shard db) = Some (host, port)"
    unfolding parseConnectHostPort_def b identifier_trimmed using parsePort_itoa [OF assms(2,3,5,6)] assms(2,3) by (simp add: Let_def)
  then show ?thesis by (simp add: resolveShardHostPort_def)
qed

theorem connect_identifier_roundtrip_witness:
  "parseConnectHostPort (buildShardConnectIdentifier ''ns'' (roleShard ''p1'' ''G'' ''PRIMARY'') ''p1'') = Some (''p1-0.p1.ns.svc.cluster.local'', 1521)"
proof -
  have c: "sh_Connect (roleShard ''p1'' ''G'' ''PRIMARY'') = []" by (simp add: roleShard_def zeroShardSpec_def)
  have "resolveShardHostPort ''ns'' (roleShard ''p1'' ''G'' ''PRIMARY'') = (''p1-0.p1.ns.svc.cluster.local'', 1521)"
    by (simp add: resolveShardHostPort_def parseConnectHostPort_def c)
  then show ?thesis
    by (rule connect_identifier_roundtrip [THEN conjunct1]) (simp_all add: TrimSpace_id is_space_def)
qed


section \<open>The pairs of user-defined sharding\<close>

lemma concat_replicate_nth:
  assumes "0 < n" and "i < length xs * n"
  shows "concat (map (replicate n) xs) ! i = xs ! (i div n)"
  using assms(2)
proof (induction xs arbitrary: i)
  case (Cons x xs)
  show ?case
  proof (cases "i < n")
    case True
    then show ?thesis by (simp add: nth_append)
  next
    case False
    then have "i - n < length xs * n" "i div n = Suc ((i - n) div n)" using Cons.prems assms(1) by (auto simp: le_div_geq)
    then show ?thesis using False Cons.IH [of "i - n"] by (simp add: nth_append)
  qed
qed simp

lemma length_concat_replicate: "length (concat (map (replicate n) xs)) = length xs * n"
  by (induction xs) simp_all

lemma find_unique:
  assumes "x \<in> set xs" and "P x" and "\<And>y. y \<in> set xs \<Longrightarrow> P y \<Longrightarrow> y = x"
  shows "find P xs = Some x"
proof (cases "find P xs")
  case None
  then show ?thesis using assms(1,2) by (simp add: find_None_iff)
next
  case (Some y)
  then show ?thesis using assms(3) [of y] find_SomeD [OF Some] by simp
qed

text \<open>The standbys a user-sharded entry has per external primary.\<close>

definition standbyPerPrimary :: "StandbyConfig \<Rightarrow> nat" where
  "standbyPerPrimary cfg = (if sbc_StandbyPerPrimary cfg \<le> 0 then 1 else nat (sbc_StandbyPerPrimary cfg))"

lemma standbyPerPrimary_pos [simp]: "0 < standbyPerPrimary cfg"
  by (simp add: standbyPerPrimary_def)

lemma userEntryPairs_mem:
  "pair \<in> set (userEntryPairs ns info) \<longleftrightarrow> \<not> blank (si_ShardPreFixName info) \<and>
     (\<exists>cfg j. si_StandbyConfig info = Some cfg \<and> 1 \<le> j \<and> j \<le> length (buildPrimaryIdentities ns (Some cfg)) * standbyPerPrimary cfg \<and>
        pair = mappedPair ''mapped from standbyConfig'' (buildPrimaryIdentities ns (Some cfg) ! ((j - 1) div standbyPerPrimary cfg))
          (TrimSpace (si_ShardPreFixName info) @ itoa_nat j) j)"
proof (cases "si_StandbyConfig info")
  case (Some cfg)
  let ?ids = "buildPrimaryIdentities ns (Some cfg)" let ?n = "standbyPerPrimary cfg"
  let ?pair = "\<lambda>pid j. mappedPair ''mapped from standbyConfig'' pid (TrimSpace (si_ShardPreFixName info) @ itoa_nat j) j"
  have n: "nat (if sbc_StandbyPerPrimary cfg \<le> 0 then 1 else sbc_StandbyPerPrimary cfg) = ?n" by (simp add: standbyPerPrimary_def)
  have "(j, pid) \<in> set (enumerate 1 (concat (map (replicate ?n) ?ids))) \<longleftrightarrow> 1 \<le> j \<and> j \<le> length ?ids * ?n \<and> pid = ?ids ! ((j - 1) div ?n)" for j pid
    by (auto simp: in_set_enumerate_eq length_concat_replicate concat_replicate_nth simp del: nth_enumerate_eq)
  then have "pair \<in> (\<lambda>(j, pid). ?pair pid j) ` set (enumerate 1 (concat (map (replicate ?n) ?ids))) \<longleftrightarrow>
      (\<exists>j. 1 \<le> j \<and> j \<le> length ?ids * ?n \<and> pair = ?pair (?ids ! ((j - 1) div ?n)) j)"
    unfolding image_iff Bex_def split_paired_Ex case_prod_conv by metis
  then show ?thesis by (simp add: userEntryPairs_def Let_def Some n)
qed (simp add: userEntryPairs_def)

lemma unambiguous_entry:
  assumes "unambiguous spec" and "info \<in> set (spec_ShardInfo spec)" and "\<not> blank (si_ShardPreFixName info)"
    and "other \<in> set (spec_ShardInfo spec)" and "TrimSpace (si_ShardPreFixName other) = TrimSpace (si_ShardPreFixName info)"
  shows "other = info"
proof -
  have "entryPrefixes spec = map (\<lambda>i. TrimSpace (si_ShardPreFixName i)) (filter (\<lambda>i. \<not> blank (si_ShardPreFixName i)) (spec_ShardInfo spec))"
    by (simp add: entryPrefixes_def filter_map comp_def)
  then have "inj_on (\<lambda>i. TrimSpace (si_ShardPreFixName i)) (set (filter (\<lambda>i. \<not> blank (si_ShardPreFixName i)) (spec_ShardInfo spec)))"
    using assms(1) by (simp add: unambiguous_def distinct_map)
  then show ?thesis using assms(2-5) by (auto dest: inj_onD)
qed

text \<open>The published pairs of user-defined sharding: the pair of the shard with number \<open>j\<close> within its entry
  is the primary that comes at \<open>(j - 1) div n\<close> in the sorted list of the external primaries, \<open>n\<close> being the
  standbys per primary. A shard whose number exceeds the standbys of its own entry has no pair: numbers
  here start again at every entry, while the admission webhook numbers shards across the entries.
\<close>

theorem user_pair_exact:
  assumes "unambiguous spec" and "effectiveShardingTypeForConstraints spec = ''USER''" and "info \<in> set (spec_ShardInfo spec)"
    and "\<not> blank (si_ShardPreFixName info)" and "si_StandbyConfig info = Some cfg" and "1 \<le> j"
  shows "findDgPairForStandby (buildDgPairsFromStandbyConfig ns spec) (TrimSpace (si_ShardPreFixName info) @ itoa_nat j) =
    (if j \<le> length (buildPrimaryIdentities ns (Some cfg)) * standbyPerPrimary cfg
     then Some (mappedPair ''mapped from standbyConfig'' (buildPrimaryIdentities ns (Some cfg) ! ((j - 1) div standbyPerPrimary cfg))
       (TrimSpace (si_ShardPreFixName info) @ itoa_nat j) j)
     else None)"
proof -
  let ?name = "\<lambda>info j. TrimSpace (si_ShardPreFixName info) @ itoa_nat j" let ?pairs = "buildDgPairsFromStandbyConfig ns spec"
  have trim: "TrimSpace (?name i k) = ?name i k" for i k by (rule TrimSpace_itoa) simp
  have pairs: "set ?pairs = (\<Union>i \<in> set (spec_ShardInfo spec). set (userEntryPairs ns i))"
    using assms(2) by (simp add: buildDgPairsFromStandbyConfig_def sortPairs_def)
  have own: "pair \<in> set (userEntryPairs ns info) \<and> pair = mappedPair ''mapped from standbyConfig''
      (buildPrimaryIdentities ns (Some cfg) ! ((j - 1) div standbyPerPrimary cfg)) (?name info j) j \<and>
      j \<le> length (buildPrimaryIdentities ns (Some cfg)) * standbyPerPrimary cfg"
    if pair: "pair \<in> set ?pairs" and name: "TrimSpace (dgp_StandbyShardName pair) = ?name info j" for pair
  proof -
    obtain other where other: "other \<in> set (spec_ShardInfo spec)" "pair \<in> set (userEntryPairs ns other)" using pair pairs by blast
    then obtain cfg' k where k: "\<not> blank (si_ShardPreFixName other)" "si_StandbyConfig other = Some cfg'"
      "k \<le> length (buildPrimaryIdentities ns (Some cfg')) * standbyPerPrimary cfg'"
      "pair = mappedPair ''mapped from standbyConfig'' (buildPrimaryIdentities ns (Some cfg') ! ((k - 1) div standbyPerPrimary cfg')) (?name other k) k"
      unfolding userEntryPairs_mem by blast
    have "dgp_StandbyShardName pair = ?name other k" unfolding k(4) by (simp add: mappedPair_def)
    then have "TrimSpace (dgp_StandbyShardName pair) = ?name other k" by (simp only: trim)
    then have "?name info j = ?name other k" using name by simp
    then have "TrimSpace (si_ShardPreFixName info) = TrimSpace (si_ShardPreFixName other)" "k = j"
      using prefixed_name_inj [OF assms(1,3,4) other(1) k(1)] by blast+
    moreover from this have "other = info" using unambiguous_entry [OF assms(1,3,4) other(1)] by simp
    ultimately show ?thesis using k assms(5) other(2) by simp
  qed
  have find: "findDgPairForStandby ?pairs (?name info j) = find (\<lambda>p. TrimSpace (dgp_StandbyShardName p) = ?name info j) ?pairs"
    unfolding findDgPairForStandby_def trim by (simp add: Let_def)
  show ?thesis
  proof (cases "j \<le> length (buildPrimaryIdentities ns (Some cfg)) * standbyPerPrimary cfg")
    case True
    let ?p = "mappedPair ''mapped from standbyConfig'' (buildPrimaryIdentities ns (Some cfg) ! ((j - 1) div standbyPerPrimary cfg)) (?name info j) j"
    have "?p \<in> set (userEntryPairs ns info)" unfolding userEntryPairs_mem using assms(4-6) True by blast
    then have mem: "?p \<in> set ?pairs" using pairs assms(3) by blast
    have "find (\<lambda>p. TrimSpace (dgp_StandbyShardName p) = ?name info j) ?pairs = Some ?p"
      by (rule find_unique [OF mem]) (use own trim in \<open>simp_all add: mappedPair_def\<close>)
    then show ?thesis using True find by simp
  next
    case False
    then have "find (\<lambda>p. TrimSpace (dgp_StandbyShardName p) = ?name info j) ?pairs = None"
      unfolding find_None_iff using own by blast
    then show ?thesis using False find by simp
  qed
qed

text \<open>Two user-sharded entries with one external primary each: the webhook makes the shards a1 and b2.\<close>

definition oneSource :: StandbyConfig where
  "oneSource = \<lparr>sbc_StandbyPerPrimary = 1, sbc_ProtectionMode = [], sbc_TransportMode = [],
     sbc_PrimarySources = [\<lparr>sps_DatabaseRef = None, sps_ConnectString = ''c'', sps_Details = None\<rparr>], sbc_TDEWallet = None\<rparr>"

definition userPairsSpec :: ShardingDatabaseSpec where
  "userPairsSpec = zeroShardingDatabaseSpec\<lparr>spec_ShardingType := ''USER'',
     spec_ShardInfo := [(prefixEntry ''a'' 1)\<lparr>si_StandbyConfig := Some oneSource\<rparr>, (prefixEntry ''b'' 1)\<lparr>si_StandbyConfig := Some oneSource\<rparr>]\<rparr>"

lemma oneSource_identities: "buildPrimaryIdentities ''ns'' (Some oneSource) = [\<lparr>pid_Key = ''c'', pid_Connect = ''c'', pid_Source = ''ConnectString''\<rparr>]"
  by (simp add: buildPrimaryIdentities_def buildPrimaryIdentitiesFromSources_def oneSource_def resolvePrimarySourcesList_def
      resolvePrimarySource_def toIdentity_def List.map_filter_simps Let_def go_eval)

lemma userPairsSpec_unambiguous: "unambiguous userPairsSpec"
proof -
  have "entryPrefixes userPairsSpec = [''a'', ''b'']"
    by (simp add: entryPrefixes_def userPairsSpec_def zeroShardingDatabaseSpec_def prefixEntry_def zeroShardingDetails_def go_eval)
  then show ?thesis unfolding unambiguous_def by (simp add: HasPrefix_iff)
qed

theorem user_pair_exact_witness:
  "findDgPairForStandby (buildDgPairsFromStandbyConfig ''ns'' userPairsSpec) ''b1'' \<noteq> None \<and>
   findDgPairForStandby (buildDgPairsFromStandbyConfig ''ns'' userPairsSpec) ''b2'' = None"
proof -
  let ?b = "(prefixEntry ''b'' 1)\<lparr>si_StandbyConfig := Some oneSource\<rparr>"
  have u: "effectiveShardingTypeForConstraints userPairsSpec = ''USER''"
    by (simp add: effectiveShardingTypeForConstraints_def userPairsSpec_def go_eval)
  have b: "?b \<in> set (spec_ShardInfo userPairsSpec)" "si_StandbyConfig ?b = Some oneSource" "si_ShardPreFixName ?b = ''b''"
    by (simp_all add: userPairsSpec_def prefixEntry_def)
  have nb: "\<not> blank (si_ShardPreFixName ?b)" and t: "TrimSpace (si_ShardPreFixName ?b) = ''b''" unfolding b(3) by (simp_all add: go_eval)
  have n: "itoa_nat 1 = ''1''" "itoa_nat 2 = ''2''" by code_simp+
  have per: "standbyPerPrimary oneSource = 1" by (simp add: standbyPerPrimary_def oneSource_def)
  note exact = user_pair_exact [OF userPairsSpec_unambiguous u b(1) nb b(2), where ns = "''ns''", unfolded t oneSource_identities per]
  show ?thesis using exact [of 1] exact [of 2] by (simp add: n n [simplified])
qed

end
