(* ===== verification/Sharding_Refs.thy ===== *)
theory Sharding_Refs
  imports Sharding_Connect
begin

text \<open>
  The planning step that writes the primary of every standby into the specification
  (\<^verbatim>\<open>ensurePrimaryRefForStandby\<close> of \<^verbatim>\<open>controllers/database/shardingdatabase_controller.go\<close>): from external
  primaries, from the primaries of the object itself, and, in user-defined sharding, on the \<^verbatim>\<open>shardInfo\<close>
  entries. The planning phase patches the object and starts over as long as the step reports a change.
\<close>

datatype refError =
    RefLookup topologyError
  | ExternalCountMismatch string nat nat
  | ExternalSourceInvalid string nat
  | PrimaryNotFoundYet
  | InfoGroupRequired string
  | NoPrimaryInInfoGroup string string

definition clusterHost :: "string \<Rightarrow> string \<Rightarrow> string" where
  "clusterHost namespace name = name @ ''-0.'' @ name @ ''.'' @ namespace @ ''.svc.cluster.local''"

definition buildLocalPrimaryDatabaseRef :: "string \<Rightarrow> ShardSpec \<Rightarrow> DatabaseRef option" where
  "buildLocalPrimaryDatabaseRef namespace primary =
     (let name = TrimSpace (sh_Name primary) in
      if name = [] then None
      else Some \<lparr>dbr_CdbName = ToUpper name, dbr_PdbName = ToUpper name @ ''PDB'', dbr_Host = clusterHost namespace name, dbr_Port = 1521\<rparr>)"

definition databaseRefEqual :: "DatabaseRef option \<Rightarrow> DatabaseRef option \<Rightarrow> bool" where
  "databaseRefEqual a b =
     (case (a, b) of
        (Some x, Some y) \<Rightarrow> TrimSpace (dbr_Host x) = TrimSpace (dbr_Host y) \<and> dbr_Port x = dbr_Port y \<and>
          EqualFold (TrimSpace (dbr_CdbName x)) (TrimSpace (dbr_CdbName y)) \<and> EqualFold (TrimSpace (dbr_PdbName x)) (TrimSpace (dbr_PdbName y))
      | _ \<Rightarrow> a = None \<and> b = None)"

definition hostSet :: "DatabaseRef option \<Rightarrow> bool" where
  "hostSet ref = (case ref of None \<Rightarrow> False | Some r \<Rightarrow> \<not> blank (dbr_Host r))"

definition externalPrimaryDatabaseRef :: "StandbyPrimarySource \<Rightarrow> DatabaseRef option" where
  "externalPrimaryDatabaseRef source =
     (case sps_Details source of None \<Rightarrow> None
      | Some d \<Rightarrow>
          let host = TrimSpace (per_Host d); cdb = ToUpper (TrimSpace (per_CdbName d)); port = (if per_Port d \<le> 0 then 1521 else per_Port d) in
          if host = [] \<or> cdb = [] then None
          else Some \<lparr>dbr_CdbName = cdb, dbr_PdbName = ToUpper (TrimSpace (per_PdbName d)), dbr_Host = host, dbr_Port = port\<rparr>)"

text \<open>Sets the reference of the first shard with the name, if it differs.\<close>

fun setRef :: "string \<Rightarrow> DatabaseRef \<Rightarrow> ShardSpec list \<Rightarrow> bool \<times> ShardSpec list" where
  "setRef name ref [] = (False, [])"
| "setRef name ref (s # ss) =
     (if sh_Name s = name then
        (if databaseRefEqual (sh_PrimaryDatabaseRef s) (Some ref) then (False, s # ss) else (True, s\<lparr>sh_PrimaryDatabaseRef := Some ref\<rparr> # ss))
      else (case setRef name ref ss of (c, ss') \<Rightarrow> (c, s # ss')))"

definition externalStandby :: "nat \<times> ShardSpec \<times> StandbyPrimarySource \<Rightarrow> bool \<times> ShardingDatabaseSpec \<Rightarrow> refError + bool \<times> ShardingDatabaseSpec" where
  "externalStandby = (\<lambda>(pos, standby, source) (changed, spec).
     case externalPrimaryDatabaseRef source of
       None \<Rightarrow> Inl (ExternalSourceInvalid (sh_Name standby) pos)
     | Some ref \<Rightarrow> (case setRef (sh_Name standby) ref (spec_Shard spec) of (c, shards) \<Rightarrow> Inr (changed \<or> c, spec\<lparr>spec_Shard := shards\<rparr>)))"

definition externalEntry :: "ShardingDetails \<Rightarrow> bool \<times> ShardingDatabaseSpec \<Rightarrow> refError + bool \<times> ShardingDatabaseSpec" where
  "externalEntry info = (\<lambda>(changed, spec).
     let sources = si_ExternalPrimarySources info; members = standbyShardMembersForInfo spec info in
     if sources = [] \<or> \<not> isStandbyShardInfoDeployAs (si_ShardGroupDetails info) (si_ShardSpaceDetails info) then Inr (changed, spec)
     else if length members \<noteq> length sources
     then Inl (ExternalCountMismatch (TrimSpace (si_ShardPreFixName info)) (length members) (length sources))
     else try_fold externalStandby (enumerate 0 (zip members sources)) (changed, spec))"

definition ensureExternalPrimaryRefForStandby :: "ShardingDatabaseSpec \<Rightarrow> refError + bool \<times> ShardingDatabaseSpec" where
  "ensureExternalPrimaryRefForStandby spec = try_fold externalEntry (spec_ShardInfo spec) (False, spec)"

definition localSkip :: "ShardingDatabaseSpec \<Rightarrow> ShardSpec \<Rightarrow> bool" where
  "localSkip spec shard \<longleftrightarrow>
     \<not> isStandbyDeployAs (sh_DeployAs shard) \<or> hostSet (sh_PrimaryDatabaseRef shard) \<or>
     standbyConfigPrimaryCountController (sh_StandbyConfig shard) > 0 \<or>
     (case matchShardInfoByLongestPrefix spec (sh_Name shard) of None \<Rightarrow> False
      | Some info \<Rightarrow> si_ExternalPrimarySources info \<noteq> [] \<or> standbyConfigPrimaryCountController (si_StandbyConfig info) > 0)"

definition localStandby :: "string \<Rightarrow> nat \<Rightarrow> bool \<times> ShardingDatabaseSpec \<Rightarrow> refError + bool \<times> ShardingDatabaseSpec" where
  "localStandby namespace i = (\<lambda>(changed, spec).
     let shard = spec_Shard spec ! i in
     if localSkip spec shard then Inr (changed, spec)
     else (case findPrimaryForStandby spec shard of
         Inl e \<Rightarrow> Inl (RefLookup e)
       | Inr primary \<Rightarrow>
           (case buildLocalPrimaryDatabaseRef namespace primary of
              None \<Rightarrow> Inr (changed, spec)
            | Some ref \<Rightarrow> if databaseRefEqual (sh_PrimaryDatabaseRef shard) (Some ref) then Inr (changed, spec)
                else Inr (True, spec\<lparr>spec_Shard := (spec_Shard spec)[i := shard\<lparr>sh_PrimaryDatabaseRef := Some ref\<rparr>]\<rparr>))))"

definition ensureLocalPrimaryRefForStandby :: "string \<Rightarrow> ShardingDatabaseSpec \<Rightarrow> refError + bool \<times> ShardingDatabaseSpec" where
  "ensureLocalPrimaryRefForStandby namespace spec =
     (let shardingType = effectiveShardingTypeForConstraints spec in
      if shardingType \<noteq> ''SYSTEM'' \<and> shardingType \<noteq> ''COMPOSITE'' then Inr (False, spec)
      else try_fold (localStandby namespace) [0..<length (spec_Shard spec)] (False, spec))"

text \<open>The first primary and the first primary of each group, as the loop leaves them.\<close>

definition firstPrimary :: "ShardSpec list \<Rightarrow> ShardSpec option" where
  "firstPrimary shards = find (\<lambda>s. isPrimaryDeployAs (sh_DeployAs s)) shards"

definition primByGroup :: "ShardSpec list \<Rightarrow> string \<Rightarrow> ShardSpec option" where
  "primByGroup shards g = find (\<lambda>s. isPrimaryDeployAs (sh_DeployAs s) \<and> normalizeShardGroupKey (sh_ShardGroup s) = g \<and> g \<noteq> []) shards"

definition infoRef :: "string \<Rightarrow> ShardSpec \<Rightarrow> DatabaseRef" where
  "infoRef namespace prim = \<lparr>dbr_CdbName = ToUpper (sh_Name prim), dbr_PdbName = ToUpper (sh_Name prim) @ ''PDB'',
     dbr_Host = clusterHost namespace (sh_Name prim), dbr_Port = 1521\<rparr>"

definition infoSkip :: "string \<Rightarrow> ShardingDetails \<Rightarrow> bool" where
  "infoSkip shardingType info \<longleftrightarrow>
     (case si_ShardGroupDetails info of None \<Rightarrow> True
      | Some sg \<Rightarrow> shardingType = ''SYSTEM'' \<or> shardingType = ''COMPOSITE'' \<or> \<not> EqualFold (TrimSpace (sg_DeployAs sg)) ''STANDBY'' \<or>
          hostSet (si_PrimaryDatabaseRef info) \<or> standbyConfigPrimaryCountController (si_StandbyConfig info) > 0)"

definition infoPrimary :: "ShardingDatabaseSpec \<Rightarrow> ShardSpec list \<Rightarrow> string \<Rightarrow> ShardingDetails \<Rightarrow> refError + ShardSpec" where
  "infoPrimary spec shards shardingType info =
     (let requireShardGroup = (shardingType = ''SYSTEM'' \<or> shardingType = ''COMPOSITE'');
          k = normalizeShardGroupKey (case si_ShardGroupDetails info of None \<Rightarrow> [] | Some sg \<Rightarrow> sg_Name sg) in
      case firstPrimary shards of
        None \<Rightarrow> Inl PrimaryNotFoundYet
      | Some firstPrim \<Rightarrow>
          if requireShardGroup \<and> EffectiveReplicationType (spec_ReplicationType spec) = ''DG'' \<and> k = []
          then Inl (InfoGroupRequired (TrimSpace (si_ShardPreFixName info)))
          else if requireShardGroup \<and> k \<noteq> []
          then (case primByGroup shards k of Some p \<Rightarrow> Inr p | None \<Rightarrow> Inl (NoPrimaryInInfoGroup k (TrimSpace (si_ShardPreFixName info))))
          else Inr firstPrim)"

definition infoStep :: "string \<Rightarrow> ShardSpec list \<Rightarrow> string \<Rightarrow> nat \<Rightarrow> bool \<times> ShardingDatabaseSpec \<Rightarrow> refError + bool \<times> ShardingDatabaseSpec" where
  "infoStep namespace shards shardingType i = (\<lambda>(changed, spec).
     let info = spec_ShardInfo spec ! i; p = TrimSpace (si_ShardPreFixName info) in
     if infoSkip shardingType info then Inr (changed, spec)
     else (case infoPrimary spec shards shardingType info of
         Inl e \<Rightarrow> Inl e
       | Inr prim \<Rightarrow> Inr (True, spec\<lparr>spec_ShardInfo := (spec_ShardInfo spec)[i := info\<lparr>si_PrimaryDatabaseRef := Some (infoRef namespace prim)\<rparr>],
           spec_Shard := map (\<lambda>s. if EqualFold (TrimSpace (sh_DeployAs s)) ''STANDBY'' \<and> p \<noteq> [] \<and> HasPrefix (sh_Name s) p
             then s\<lparr>sh_PrimaryDatabaseRef := Some (infoRef namespace prim)\<rparr> else s) (spec_Shard spec)\<rparr>)))"

definition ensurePrimaryRefForStandby :: "string \<Rightarrow> ShardingDatabaseSpec \<Rightarrow> refError + bool \<times> ShardingDatabaseSpec" where
  "ensurePrimaryRefForStandby namespace spec =
     (let shardingType = effectiveShardingTypeForConstraints spec in
      case (if shardingType = ''SYSTEM'' \<or> shardingType = ''COMPOSITE'' then
              (case ensureExternalPrimaryRefForStandby spec of
                 Inl e \<Rightarrow> Inl e
               | Inr (externalChanged, spec1) \<Rightarrow>
                   (case ensureLocalPrimaryRefForStandby namespace spec1 of
                      Inl e \<Rightarrow> Inl e
                    | Inr (localChanged, spec2) \<Rightarrow> Inr (externalChanged \<or> localChanged, spec2)))
            else Inr (False, spec)) of
        Inl e \<Rightarrow> Inl e
      | Inr (changed, spec') \<Rightarrow>
          try_fold (infoStep namespace (spec_Shard spec') shardingType) [0..<length (spec_ShardInfo spec')] (changed, spec'))"


section \<open>The primary is a shard of the object\<close>

lemma pairByPosition_mem: "pairByPosition name g sbs prims = Inr p \<Longrightarrow> p \<in> set prims"
  by (auto simp: pairByPosition_def split: option.splits if_splits)

lemma systemPrimaryShardsSorted_mem:
  assumes "systemPrimaryShardsSorted shards = Inr (g, ps)"
  shows "set ps \<subseteq> set shards"
proof -
  obtain qs where m: "systemPrimaryGroups shards = [(g, qs)]" and ps: "ps = sort_key memberKey qs"
    using assms by (auto simp: systemPrimaryShardsSorted_def split: list.splits)
  have "mget (systemPrimaryGroups shards) g [] = qs" by (simp add: m mget_def)
  then have "set qs \<subseteq> set shards" unfolding systemPrimaryGroups_collect collect_fold by (auto simp: mget_def [of "[]"])
  then show ?thesis using ps by simp
qed

lemma findPrimary_mem:
  assumes "findPrimaryForStandby spec s = Inr p"
  shows "p \<in> set (spec_Shard spec)"
proof -
  let ?shards = "spec_Shard spec"
  have sys: "p \<in> set ?shards" if "findSystemPrimary ?shards s = Inr p"
  proof -
    from that obtain g ps where "systemPrimaryShardsSorted ?shards = Inr (g, ps)"
      "pairByPosition (sh_Name s) (normalizeShardGroupKey (sh_ShardGroup s))
         (systemStandbysInGroupSorted ?shards (normalizeShardGroupKey (sh_ShardGroup s))) ps = Inr p"
      by (auto simp: findSystemPrimary_def Let_def split: if_splits sum.splits)
    then show ?thesis using systemPrimaryShardsSorted_mem pairByPosition_mem by blast
  qed
  have comp: "p \<in> set ?shards" if "findCompositePrimary ?shards s = Inr p"
    using that pairByPosition_mem by (auto simp: findCompositePrimary_def compositeLists_eq Let_def split: if_splits dest!: pairByPosition_mem)
  have other: "p \<in> set ?shards" if "(case find P ?shards of None \<Rightarrow> Inl e | Some x \<Rightarrow> Inr x) = Inr p" for P and e :: topologyError
    using that find_SomeD by (fastforce split: option.splits)
  consider "findSystemPrimary ?shards s = Inr p" | "findCompositePrimary ?shards s = Inr p"
    | P e where "(case find P ?shards of None \<Rightarrow> Inl (e :: topologyError) | Some x \<Rightarrow> Inr x) = Inr p"
    using assms unfolding findPrimaryForStandby_def findUserPrimary_def findAnyPrimary_def Let_def by (simp split: if_splits)
  then show ?thesis using sys comp other by cases blast+
qed


section \<open>One pass is enough\<close>

lemma not_blank_clusterHost: "\<not> blank (clusterHost ns name)"
proof -
  have "CHR ''-'' \<in> set (clusterHost ns name)" "\<not> is_space (CHR ''-'')" by (simp_all add: clusterHost_def is_space_def)
  then show ?thesis by (auto simp: blank_iff_spaces)
qed

lemma localSkip_cong:
  assumes "spec_ShardInfo spec' = spec_ShardInfo spec"
  shows "localSkip spec' s = localSkip spec s"
  by (simp add: localSkip_def matchShardInfoByLongestPrefix_def assms)

lemma effectiveShardingType_shards:
  assumes "map (\<lambda>s. (sh_ShardGroup s, sh_ShardSpace s)) shards' = map (\<lambda>s. (sh_ShardGroup s, sh_ShardSpace s)) (spec_Shard spec)"
  shows "effectiveShardingTypeForConstraints (spec\<lparr>spec_Shard := shards'\<rparr>) = effectiveShardingTypeForConstraints spec"
proof -
  have m: "map (\<lambda>s. f (sh_ShardGroup s) (sh_ShardSpace s)) shards' = map (\<lambda>s. f (sh_ShardGroup s) (sh_ShardSpace s)) (spec_Shard spec)"
    for f :: "string \<Rightarrow> string \<Rightarrow> bool"
    using arg_cong [OF assms, of "map (\<lambda>(a, b). f a b)"] by (simp add: comp_def)
  have "list_ex (\<lambda>s. \<not> blank (sh_ShardGroup s)) shards' = list_ex (\<lambda>s. \<not> blank (sh_ShardGroup s)) (spec_Shard spec)"
    "list_ex (\<lambda>s. \<not> blank (sh_ShardSpace s)) shards' = list_ex (\<lambda>s. \<not> blank (sh_ShardSpace s)) (spec_Shard spec)"
    by (rule list_ex_map_eq, rule m)+
  then show ?thesis by (simp add: effectiveShardingTypeForConstraints_def Let_def)
qed

lemma try_fold_id: "(\<And>x. x \<in> set xs \<Longrightarrow> f x s = Inr s) \<Longrightarrow> try_fold f xs s = Inr s"
  by (induction xs) auto

text \<open>
  The contract of a loop that visits the elements of a list inside a state and settles each of them: a
  step touches only its own element, leaves it \<open>settled\<close>, and changes nothing that \<open>rest\<close> shows. Being
  settled depends on the rest only.
\<close>

locale settling_loop =
  fixes step :: "nat \<Rightarrow> bool \<times> 's \<Rightarrow> 'e + bool \<times> 's"
    and items :: "'s \<Rightarrow> 'a list"
    and rest :: "'s \<Rightarrow> 'r"
    and settled :: "'s \<Rightarrow> 'a \<Rightarrow> bool"
    and wf :: "'s \<Rightarrow> bool"
  assumes step_item: "\<lbrakk>step i (c, s) = Inr (c', s'); i < length (items s); wf s\<rbrakk> \<Longrightarrow> items s' = (items s)[i := items s' ! i]"
    and step_rest: "\<lbrakk>step i (c, s) = Inr (c', s'); i < length (items s); wf s\<rbrakk> \<Longrightarrow> rest s' = rest s"
    and step_settles: "\<lbrakk>step i (c, s) = Inr (c', s'); i < length (items s); wf s\<rbrakk> \<Longrightarrow> settled s' (items s' ! i)"
    and step_wf: "\<lbrakk>step i (c, s) = Inr (c', s'); i < length (items s); wf s\<rbrakk> \<Longrightarrow> wf s'"
    and settled_rest: "rest s' = rest s \<Longrightarrow> settled s' x = settled s x"
    and settled_idle: "settled s (items s ! i) \<Longrightarrow> step i (c, s) = Inr (c, s)"
begin

lemma loop_from:
  assumes "try_fold step [k..<length (items s)] (c, s) = Inr (c', s')" and "wf s"
  shows "rest s' = rest s \<and> length (items s') = length (items s) \<and> (\<forall>i < k. items s' ! i = items s ! i) \<and>
    (\<forall>i. k \<le> i \<longrightarrow> i < length (items s) \<longrightarrow> settled s' (items s' ! i))"
  using assms
proof (induction "length (items s) - k" arbitrary: k c s)
  case 0
  then show ?case by simp
next
  case (Suc n)
  have k: "k < length (items s)" using Suc.hyps(2) by simp
  then obtain c1 s1 where one: "step k (c, s) = Inr (c1, s1)"
    and more: "try_fold step [Suc k..<length (items s)] (c1, s1) = Inr (c', s')"
    using Suc.prems(1) by (auto simp: upt_conv_Cons split: sum.splits)
  note law = step_item [OF one k Suc.prems(2)] step_rest [OF one k Suc.prems(2)] step_settles [OF one k Suc.prems(2)] step_wf [OF one k Suc.prems(2)]
  have len: "length (items s1) = length (items s)" by (subst law(1)) simp
  have same: "items s1 ! i = items s ! i" if "i \<noteq> k" for i using law(1) that by (metis nth_list_update_neq)
  have ih: "rest s' = rest s1" "length (items s') = length (items s1)" "\<forall>i < Suc k. items s' ! i = items s1 ! i"
    "\<forall>i. Suc k \<le> i \<longrightarrow> i < length (items s1) \<longrightarrow> settled s' (items s' ! i)"
    using Suc.hyps(1) [of s1 "Suc k" c1] Suc.hyps(2) more law(4) len by simp_all
  have "settled s' (items s' ! k)" using ih(1,3) law(3) settled_rest [of s' s1] by simp
  then have "settled s' (items s' ! i)" if "k \<le> i" "i < length (items s)" for i
    using ih(4) len that by (cases "i = k") simp_all
  then show ?case using ih(1-3) law(2) len same by auto
qed

text \<open>The whole loop settles every element, and then running it again changes nothing.\<close>

lemma loop_settles:
  assumes "try_fold step [0..<length (items s)] (c, s) = Inr (c', s')" and "wf s"
  shows "rest s' = rest s" and "\<forall>x \<in> set (items s'). settled s' x"
    and "try_fold step [0..<length (items s')] (b, s') = Inr (b, s')"
proof -
  have all: "rest s' = rest s \<and> (\<forall>i < length (items s'). settled s' (items s' ! i))" using loop_from [OF assms] by simp
  then show "rest s' = rest s" "\<forall>x \<in> set (items s'). settled s' x" by (auto simp: in_set_conv_nth)
  show "try_fold step [0..<length (items s')] (b, s') = Inr (b, s')"
    by (rule try_fold_id) (use all settled_idle in auto)
qed

end

abbreviation clearRefs :: "ShardSpec list \<Rightarrow> ShardSpec list" where
  "clearRefs \<equiv> map (\<lambda>s. s\<lparr>sh_PrimaryDatabaseRef := None\<rparr>)"

abbreviation clearInfoRefs :: "ShardingDetails list \<Rightarrow> ShardingDetails list" where
  "clearInfoRefs \<equiv> map (\<lambda>i. i\<lparr>si_PrimaryDatabaseRef := None\<rparr>)"

abbreviation named :: "ShardingDatabaseSpec \<Rightarrow> bool" where
  "named spec \<equiv> \<forall>s \<in> set (spec_Shard spec). \<not> blank (sh_Name s)"

lemma localStandby_step:
  assumes "localStandby ns i (c, spec) = Inr (c', spec')" and "i < length (spec_Shard spec)" and "named spec"
  obtains sh where "spec' = spec\<lparr>spec_Shard := (spec_Shard spec)[i := sh]\<rparr>" and "localSkip spec' sh"
    and "sh\<lparr>sh_PrimaryDatabaseRef := None\<rparr> = (spec_Shard spec ! i)\<lparr>sh_PrimaryDatabaseRef := None\<rparr>"
proof (cases "localSkip spec (spec_Shard spec ! i)")
  case True
  then show ?thesis using assms(1) that [of "spec_Shard spec ! i"] by (simp add: localStandby_def Let_def)
next
  case False
  let ?s = "spec_Shard spec ! i"
  obtain p where p: "findPrimaryForStandby spec ?s = Inr p" using assms(1) False by (auto simp: localStandby_def Let_def split: sum.splits)
  then have "\<not> blank (sh_Name p)" using findPrimary_mem assms(3) by blast
  then obtain ref where ref: "buildLocalPrimaryDatabaseRef ns p = Some ref" and h: "\<not> blank (dbr_Host ref)"
    by (simp add: buildLocalPrimaryDatabaseRef_def Let_def not_blank_clusterHost)
  have "\<not> hostSet (sh_PrimaryDatabaseRef ?s)" using False by (simp add: localSkip_def)
  then have "\<not> databaseRefEqual (sh_PrimaryDatabaseRef ?s) (Some ref)"
    using h by (auto simp: databaseRefEqual_def hostSet_def split: option.splits)
  then have s': "spec' = spec\<lparr>spec_Shard := (spec_Shard spec)[i := ?s\<lparr>sh_PrimaryDatabaseRef := Some ref\<rparr>]\<rparr>"
    using assms(1) False p ref by (simp add: localStandby_def Let_def)
  have "localSkip spec' (?s\<lparr>sh_PrimaryDatabaseRef := Some ref\<rparr>)" using h by (simp add: localSkip_def hostSet_def)
  then show ?thesis using that [OF s'] by simp
qed

lemma map_update_same: "f x = f (xs ! i) \<Longrightarrow> map f (xs[i := x]) = map f xs"
  by (metis list_update_id map_update)

lemma clearRefs_map:
  assumes "clearRefs xs = clearRefs ys" and "\<And>s r. f (s\<lparr>sh_PrimaryDatabaseRef := r\<rparr>) = f s"
  shows "map f xs = map f ys"
  using arg_cong [OF assms(1), of "map f"] by (simp add: comp_def assms(2))

lemma named_names: "map sh_Name (spec_Shard spec') = map sh_Name (spec_Shard spec) \<Longrightarrow> named spec \<Longrightarrow> named spec'"
  by (metis (no_types, lifting) image_iff list.set_map)

interpretation local_refs: settling_loop "localStandby ns" spec_Shard "\<lambda>spec. spec\<lparr>spec_Shard := clearRefs (spec_Shard spec)\<rparr>" localSkip named
proof
  fix i c spec c' spec'
  assume a: "localStandby ns i (c, spec) = Inr (c', spec')" "i < length (spec_Shard spec)" "named spec"
  then obtain sh where sh: "spec' = spec\<lparr>spec_Shard := (spec_Shard spec)[i := sh]\<rparr>" "localSkip spec' sh"
    "sh\<lparr>sh_PrimaryDatabaseRef := None\<rparr> = (spec_Shard spec ! i)\<lparr>sh_PrimaryDatabaseRef := None\<rparr>"
    by (rule localStandby_step)
  have cl: "clearRefs (spec_Shard spec') = clearRefs (spec_Shard spec)" using map_update_same [OF sh(3)] by (simp add: sh(1))
  show "spec_Shard spec' = (spec_Shard spec)[i := spec_Shard spec' ! i]" using a(2) by (simp add: sh(1))
  show "spec'\<lparr>spec_Shard := clearRefs (spec_Shard spec')\<rparr> = spec\<lparr>spec_Shard := clearRefs (spec_Shard spec)\<rparr>"
    unfolding cl by (simp add: sh(1))
  show "localSkip spec' (spec_Shard spec' ! i)" using a(2) sh(2) by (simp add: sh(1))
  show "named spec'" using named_names [OF clearRefs_map [OF cl, of sh_Name] a(3)] by simp
next
  fix spec' spec :: ShardingDatabaseSpec and x
  assume "spec'\<lparr>spec_Shard := clearRefs (spec_Shard spec')\<rparr> = spec\<lparr>spec_Shard := clearRefs (spec_Shard spec)\<rparr>"
  from arg_cong [OF this, of spec_ShardInfo] show "localSkip spec' x = localSkip spec x" by (intro localSkip_cong) simp
qed (simp add: localStandby_def Let_def)

lemma infoStep_step:
  assumes "infoStep ns shards t i (c, spec) = Inr (c', spec')" and "i < length (spec_ShardInfo spec)"
  obtains info shards' where "spec' = spec\<lparr>spec_ShardInfo := (spec_ShardInfo spec)[i := info], spec_Shard := shards'\<rparr>" and "infoSkip t info"
    and "info\<lparr>si_PrimaryDatabaseRef := None\<rparr> = (spec_ShardInfo spec ! i)\<lparr>si_PrimaryDatabaseRef := None\<rparr>"
    and "clearRefs shards' = clearRefs (spec_Shard spec)"
proof (cases "infoSkip t (spec_ShardInfo spec ! i)")
  case True
  then show ?thesis using assms(1) that [of "spec_Shard spec" "spec_ShardInfo spec ! i"] by (simp add: infoStep_def Let_def)
next
  case False
  let ?i = "spec_ShardInfo spec ! i" let ?p = "TrimSpace (si_ShardPreFixName ?i)"
  obtain prim where p: "infoPrimary spec shards t ?i = Inr prim" using assms(1) False by (auto simp: infoStep_def Let_def split: sum.splits)
  let ?new = "?i\<lparr>si_PrimaryDatabaseRef := Some (infoRef ns prim)\<rparr>"
  let ?sh = "\<lambda>s. if EqualFold (TrimSpace (sh_DeployAs s)) ''STANDBY'' \<and> ?p \<noteq> [] \<and> HasPrefix (sh_Name s) ?p
    then s\<lparr>sh_PrimaryDatabaseRef := Some (infoRef ns prim)\<rparr> else s"
  have s': "spec' = spec\<lparr>spec_ShardInfo := (spec_ShardInfo spec)[i := ?new], spec_Shard := map ?sh (spec_Shard spec)\<rparr>"
    using assms(1) False p by (simp add: infoStep_def Let_def)
  have "infoSkip t ?new"
    by (simp add: infoSkip_def hostSet_def infoRef_def not_blank_clusterHost split: option.splits)
  then show ?thesis using that [OF s'] by simp
qed

interpretation info_refs: settling_loop "infoStep ns shards t" spec_ShardInfo
  "\<lambda>spec. spec\<lparr>spec_ShardInfo := clearInfoRefs (spec_ShardInfo spec), spec_Shard := clearRefs (spec_Shard spec)\<rparr>" "\<lambda>spec. infoSkip t" "\<lambda>spec. True"
proof
  fix i c spec c' spec'
  assume a: "infoStep ns shards t i (c, spec) = Inr (c', spec')" "i < length (spec_ShardInfo spec)"
  then obtain info sh where sh: "spec' = spec\<lparr>spec_ShardInfo := (spec_ShardInfo spec)[i := info], spec_Shard := sh\<rparr>" "infoSkip t info"
    "info\<lparr>si_PrimaryDatabaseRef := None\<rparr> = (spec_ShardInfo spec ! i)\<lparr>si_PrimaryDatabaseRef := None\<rparr>"
    "clearRefs sh = clearRefs (spec_Shard spec)"
    by (rule infoStep_step)
  show "spec_ShardInfo spec' = (spec_ShardInfo spec)[i := spec_ShardInfo spec' ! i]" "infoSkip t (spec_ShardInfo spec' ! i)"
    using a(2) sh(2) by (simp_all add: sh(1))
  show "spec'\<lparr>spec_ShardInfo := clearInfoRefs (spec_ShardInfo spec'), spec_Shard := clearRefs (spec_Shard spec')\<rparr> =
      spec\<lparr>spec_ShardInfo := clearInfoRefs (spec_ShardInfo spec), spec_Shard := clearRefs (spec_Shard spec)\<rparr>"
    using map_update_same [OF sh(3)] sh(4) by (simp add: sh(1))
qed (simp_all add: infoStep_def Let_def)

lemma local_settles:
  assumes "ensureLocalPrimaryRefForStandby ns spec = Inr (c, spec')" and "named spec"
  shows "ensureLocalPrimaryRefForStandby ns spec' = Inr (False, spec') \<and> spec_ShardInfo spec' = spec_ShardInfo spec \<and>
    effectiveShardingTypeForConstraints spec' = effectiveShardingTypeForConstraints spec"
proof (cases "effectiveShardingTypeForConstraints spec = ''SYSTEM'' \<or> effectiveShardingTypeForConstraints spec = ''COMPOSITE''")
  case False
  then show ?thesis using assms(1) by (auto simp: ensureLocalPrimaryRefForStandby_def Let_def)
next
  case True
  then have run: "try_fold (localStandby ns) [0..<length (spec_Shard spec)] (False, spec) = Inr (c, spec')"
    using assms(1) by (auto simp: ensureLocalPrimaryRefForStandby_def Let_def)
  note settled = local_refs.loop_settles [OF run assms(2)]
  have cl: "clearRefs (spec_Shard spec') = clearRefs (spec_Shard spec)" and info: "spec_ShardInfo spec' = spec_ShardInfo spec"
    and ty: "spec_ShardingType spec' = spec_ShardingType spec"
    using arg_cong [OF settled(1), of spec_Shard] arg_cong [OF settled(1), of spec_ShardInfo] arg_cong [OF settled(1), of spec_ShardingType] by simp_all
  have "effectiveShardingTypeForConstraints (spec\<lparr>spec_Shard := spec_Shard spec'\<rparr>) = effectiveShardingTypeForConstraints spec"
    by (rule effectiveShardingType_shards, rule clearRefs_map [OF cl]) simp
  moreover have "effectiveShardingTypeForConstraints spec' = effectiveShardingTypeForConstraints (spec\<lparr>spec_Shard := spec_Shard spec'\<rparr>)"
    using info ty by (simp add: effectiveShardingTypeForConstraints_def Let_def)
  ultimately have "effectiveShardingTypeForConstraints spec' = effectiveShardingTypeForConstraints spec" by simp
  then show ?thesis using settled(3) True info by (auto simp: ensureLocalPrimaryRefForStandby_def Let_def)
qed

lemma info_settles:
  assumes "try_fold (infoStep ns shards t) [0..<length (spec_ShardInfo spec)] (c, spec) = Inr (c', spec')"
    and "t = effectiveShardingTypeForConstraints spec"
  shows "effectiveShardingTypeForConstraints spec' = t \<and> (\<forall>info \<in> set (spec_ShardInfo spec'). infoSkip t info)"
proof -
  note settled = info_refs.loop_settles [OF assms(1) TrueI]
  have cl: "clearRefs (spec_Shard spec') = clearRefs (spec_Shard spec)" "clearInfoRefs (spec_ShardInfo spec') = clearInfoRefs (spec_ShardInfo spec)"
    "spec_ShardingType spec' = spec_ShardingType spec"
    using arg_cong [OF settled(1), of spec_Shard] arg_cong [OF settled(1), of spec_ShardInfo] arg_cong [OF settled(1), of spec_ShardingType] by simp_all
  have det: "map hasGroupDetails (spec_ShardInfo spec') = map hasGroupDetails (spec_ShardInfo spec)"
    "map hasSpaceDetails (spec_ShardInfo spec') = map hasSpaceDetails (spec_ShardInfo spec)"
    using arg_cong [OF cl(2), of "map hasGroupDetails"] arg_cong [OF cl(2), of "map hasSpaceDetails"]
    by (simp_all add: comp_def hasGroupDetails_def [abs_def] hasSpaceDetails_def [abs_def])
  have "effectiveShardingTypeForConstraints (spec\<lparr>spec_Shard := spec_Shard spec'\<rparr>) = t"
    unfolding assms(2) by (rule effectiveShardingType_shards, rule clearRefs_map [OF cl(1)]) simp
  moreover have "effectiveShardingTypeForConstraints spec' = effectiveShardingTypeForConstraints (spec\<lparr>spec_Shard := spec_Shard spec'\<rparr>)"
    using list_ex_map_eq [OF det(1)] list_ex_map_eq [OF det(2)] cl(3) by (simp add: effectiveShardingTypeForConstraints_def Let_def)
  ultimately show ?thesis using settled(2) by simp
qed

lemma info_idle:
  assumes "\<forall>info \<in> set (spec_ShardInfo spec). infoSkip t info"
  shows "try_fold (infoStep ns shards t) [0..<length (spec_ShardInfo spec)] (c, spec) = Inr (c, spec)"
  by (rule try_fold_id) (use assms in \<open>simp add: infoStep_def Let_def\<close>)

lemma external_idle:
  assumes "\<forall>info \<in> set (spec_ShardInfo spec). si_ExternalPrimarySources info = []"
  shows "ensureExternalPrimaryRefForStandby spec = Inr (False, spec)"
  unfolding ensureExternalPrimaryRefForStandby_def by (rule try_fold_id) (use assms in \<open>simp add: externalEntry_def Let_def\<close>)

lemma managed_infoSkip: "t = ''SYSTEM'' \<or> t = ''COMPOSITE'' \<Longrightarrow> infoSkip t info"
  by (auto simp: infoSkip_def split: option.splits)


section \<open>External primaries\<close>

text \<open>The standbys an entry gives an external primary to, by name, each with its source; and those of all entries.\<close>

definition entryPairs :: "ShardingDatabaseSpec \<Rightarrow> ShardingDetails \<Rightarrow> (string \<times> StandbyPrimarySource) list" where
  "entryPairs spec info =
     (if si_ExternalPrimarySources info = [] \<or> \<not> isStandbyShardInfoDeployAs (si_ShardGroupDetails info) (si_ShardSpaceDetails info) then []
      else zip (map sh_Name (standbyShardMembersForInfo spec info)) (si_ExternalPrimarySources info))"

definition externalPairs :: "ShardingDatabaseSpec \<Rightarrow> (string \<times> StandbyPrimarySource) list" where
  "externalPairs spec = concat (map (entryPairs spec) (spec_ShardInfo spec))"

text \<open>The source is readable, and the first shard with the name, if there is one, has its reference.\<close>

definition holdsRef :: "ShardSpec list \<Rightarrow> string \<times> StandbyPrimarySource \<Rightarrow> bool" where
  "holdsRef shards = (\<lambda>(name, source).
     case externalPrimaryDatabaseRef source of None \<Rightarrow> False
     | Some ref \<Rightarrow> (case find (\<lambda>s. sh_Name s = name) shards of None \<Rightarrow> True
         | Some s \<Rightarrow> databaseRefEqual (sh_PrimaryDatabaseRef s) (Some ref)))"

lemma databaseRefEqual_refl: "databaseRefEqual (Some r) (Some r)"
  by (simp add: databaseRefEqual_def EqualFold_def)

lemma externalRef_host: "externalPrimaryDatabaseRef source = Some ref \<Longrightarrow> databaseRefEqual r (Some ref) \<Longrightarrow> hostSet r"
  by (auto simp: externalPrimaryDatabaseRef_def databaseRefEqual_def hostSet_def Let_def split: option.splits if_splits)

lemma setRef_other:
  assumes "setRef name ref ss = (c, ss')"
  shows "clearRefs ss' = clearRefs ss \<and> (m \<noteq> name \<longrightarrow> find (\<lambda>s. sh_Name s = m) ss' = find (\<lambda>s. sh_Name s = m) ss)"
  using assms by (induction ss arbitrary: ss') (auto split: if_splits prod.splits)

lemma setRef_own:
  assumes "setRef name ref ss = (c, ss')" and "find (\<lambda>s. sh_Name s = name) ss' = Some s"
  shows "databaseRefEqual (sh_PrimaryDatabaseRef s) (Some ref)"
  using assms by (induction ss arbitrary: ss') (auto simp: databaseRefEqual_refl split: if_splits prod.splits)

lemma setRef_idle:
  assumes "holdsRef ss (name, source)" and "externalPrimaryDatabaseRef source = Some ref"
  shows "setRef name ref ss = (False, ss)"
  using assms by (induction ss) (auto simp: holdsRef_def split: if_splits)

text \<open>What a part of the loop that goes over the pairs \<open>ps\<close> does to the specification.\<close>

definition wrote :: "(string \<times> StandbyPrimarySource) list \<Rightarrow> ShardingDatabaseSpec \<Rightarrow> ShardingDatabaseSpec \<Rightarrow> bool" where
  "wrote ps spec spec' \<longleftrightarrow>
     spec' = spec\<lparr>spec_Shard := spec_Shard spec'\<rparr> \<and> clearRefs (spec_Shard spec') = clearRefs (spec_Shard spec) \<and>
     (\<forall>name source. holdsRef (spec_Shard spec) (name, source) \<longrightarrow> name \<notin> set (map fst ps) \<longrightarrow> holdsRef (spec_Shard spec') (name, source)) \<and>
     (distinct (map fst ps) \<longrightarrow> list_all (holdsRef (spec_Shard spec')) ps)"

lemma wrote_Nil: "wrote [] spec spec"
  by (simp add: wrote_def)

lemma wrote_append:
  assumes "wrote ps s1 s2" and "wrote qs s2 s3"
  shows "wrote (ps @ qs) s1 s3"
proof -
  have "s3 = s1\<lparr>spec_Shard := spec_Shard s3\<rparr>"
  proof -
    have "s3 = s2\<lparr>spec_Shard := spec_Shard s3\<rparr>" "s2 = s1\<lparr>spec_Shard := spec_Shard s2\<rparr>" using assms by (simp_all add: wrote_def)
    then have "s3 = (s1\<lparr>spec_Shard := spec_Shard s2\<rparr>)\<lparr>spec_Shard := spec_Shard s3\<rparr>" by simp
    then show ?thesis by simp
  qed
  moreover have "clearRefs (spec_Shard s3) = clearRefs (spec_Shard s1)" using assms by (simp add: wrote_def)
  moreover have "holdsRef (spec_Shard s3) (n, q)" if "holdsRef (spec_Shard s1) (n, q)" "n \<notin> set (map fst (ps @ qs))" for n q
    using assms that unfolding wrote_def by simp
  moreover have "list_all (holdsRef (spec_Shard s3)) (ps @ qs)" if d: "distinct (map fst (ps @ qs))"
  proof -
    have "holdsRef (spec_Shard s3) (n, q)" if "(n, q) \<in> set ps" for n q
    proof -
      have "n \<notin> set (map fst qs)" using d that by (force simp: image_iff)
      moreover have "holdsRef (spec_Shard s2) (n, q)" using assms(1) d that by (simp add: wrote_def list_all_iff)
      ultimately show ?thesis using assms(2) by (simp add: wrote_def)
    qed
    moreover have "list_all (holdsRef (spec_Shard s3)) qs" using assms(2) d by (simp add: wrote_def)
    ultimately show ?thesis by (auto simp: list_all_iff)
  qed
  ultimately show ?thesis unfolding wrote_def by blast
qed

lemma externalStandby_wrote:
  assumes "externalStandby (pos, standby, source) (c, spec) = Inr (c', spec')"
  shows "wrote [(sh_Name standby, source)] spec spec'"
proof -
  obtain ref shards b where ref: "externalPrimaryDatabaseRef source = Some ref" and s: "setRef (sh_Name standby) ref (spec_Shard spec) = (b, shards)"
    and spec': "spec' = spec\<lparr>spec_Shard := shards\<rparr>"
    using assms by (auto simp: externalStandby_def split: option.splits prod.splits)
  have "holdsRef shards (sh_Name standby, source)" using setRef_own [OF s] by (simp add: holdsRef_def ref split: option.splits)
  moreover have "holdsRef shards (n, q)" if "holdsRef (spec_Shard spec) (n, q)" "n \<noteq> sh_Name standby" for n q
    using that setRef_other [OF s, of n] by (simp add: holdsRef_def split: option.splits)
  ultimately show ?thesis using setRef_other [OF s] by (simp add: wrote_def spec')
qed

lemma externalStandbys_wrote:
  "try_fold externalStandby xs (c, spec) = Inr (c', spec') \<Longrightarrow> wrote (map (\<lambda>(pos, standby, source). (sh_Name standby, source)) xs) spec spec'"
proof (induction xs arbitrary: c spec)
  case (Cons x xs)
  obtain pos standby source where x: "x = (pos, standby, source)" by (cases x) auto
  obtain c1 spec1 where one: "externalStandby x (c, spec) = Inr (c1, spec1)" and more: "try_fold externalStandby xs (c1, spec1) = Inr (c', spec')"
    using Cons.prems by (auto split: sum.splits)
  show ?case using wrote_append [OF externalStandby_wrote [OF one [unfolded x]] Cons.IH [OF more]] by (simp add: x)
qed (simp add: wrote_Nil)

lemma enumerated_pairs: "map (\<lambda>(pos, standby, source). (sh_Name standby, source)) (enumerate k (zip ms ss)) = zip (map sh_Name ms) ss"
  by (induction ms ss arbitrary: k rule: list_induct2') auto

lemma externalEntry_wrote:
  assumes "externalEntry info (c, spec) = Inr (c', spec')"
  shows "wrote (entryPairs spec info) spec spec'"
  using assms externalStandbys_wrote [of "enumerate 0 (zip (standbyShardMembersForInfo spec info) (si_ExternalPrimarySources info))" c spec c' spec']
  by (auto simp: externalEntry_def entryPairs_def Let_def wrote_Nil enumerated_pairs split: if_splits)

lemma sort_key_map: "(\<And>x. k (f x) = k x) \<Longrightarrow> map f (sort_key k xs) = sort_key k (map f xs)"
proof (induction xs)
  case (Cons x xs)
  have ins: "map f (insort_key k x ys) = insort_key k (f x) (map f ys)" for ys by (induction ys) (simp_all add: Cons.prems)
  show ?case using Cons by (simp add: ins)
qed simp

lemma members_names:
  assumes "clearRefs (spec_Shard spec') = clearRefs (spec_Shard spec)"
  shows "map sh_Name (standbyShardMembersForInfo spec' info) = map sh_Name (standbyShardMembersForInfo spec info)"
proof -
  let ?P = "\<lambda>s. isStandbyDeployAs (sh_DeployAs s) \<and> HasPrefix (sh_Name s) (TrimSpace (si_ShardPreFixName info))"
  have f: "clearRefs (filter ?P xs) = filter ?P (clearRefs xs)" for xs by (simp add: filter_map comp_def)
  have k: "clearRefs (sort_key memberKey xs) = sort_key memberKey (clearRefs xs)" for xs by (rule sort_key_map) (simp add: memberKey_def)
  have "clearRefs (standbyShardMembersForInfo spec' info) = clearRefs (standbyShardMembersForInfo spec info)"
    using assms by (simp add: standbyShardMembersForInfo_def Let_def k f)
  from clearRefs_map [OF this, of sh_Name] show ?thesis by simp
qed

lemma entryPairs_cong:
  "clearRefs (spec_Shard spec') = clearRefs (spec_Shard spec) \<Longrightarrow> entryPairs spec' info = entryPairs spec info"
  unfolding entryPairs_def by (drule members_names [of _ _ info]) simp

lemma externalEntries_wrote:
  assumes "try_fold externalEntry infos (c, spec) = Inr (c', spec')"
  shows "wrote (concat (map (entryPairs spec) infos)) spec spec'"
  using assms
proof (induction infos arbitrary: c spec)
  case (Cons info infos)
  obtain c1 spec1 where one: "externalEntry info (c, spec) = Inr (c1, spec1)" and more: "try_fold externalEntry infos (c1, spec1) = Inr (c', spec')"
    using Cons.prems by (auto split: sum.splits)
  note w = externalEntry_wrote [OF one]
  have "clearRefs (spec_Shard spec1) = clearRefs (spec_Shard spec)" using w by (simp add: wrote_def)
  then have "entryPairs spec1 = entryPairs spec" using entryPairs_cong by blast
  then show ?case using wrote_append [OF w Cons.IH [OF more]] by simp
qed (simp add: wrote_Nil)

lemma external_counts:
  assumes "try_fold externalEntry infos (c, spec) = Inr (c', spec')" and "info \<in> set infos"
  shows "entryPairs spec info = [] \<and> (si_ExternalPrimarySources info = [] \<or> \<not> isStandbyShardInfoDeployAs (si_ShardGroupDetails info) (si_ShardSpaceDetails info)) \<or>
    length (standbyShardMembersForInfo spec info) = length (si_ExternalPrimarySources info)"
  using assms
proof (induction infos arbitrary: c spec)
  case (Cons x infos)
  obtain c1 spec1 where one: "externalEntry x (c, spec) = Inr (c1, spec1)" and more: "try_fold externalEntry infos (c1, spec1) = Inr (c', spec')"
    using Cons.prems(1) by (auto split: sum.splits)
  have cl: "clearRefs (spec_Shard spec1) = clearRefs (spec_Shard spec)" using externalEntry_wrote [OF one] by (simp add: wrote_def)
  show ?case
  proof (cases "info = x")
    case True
    then show ?thesis using one by (auto simp: externalEntry_def entryPairs_def Let_def split: if_splits)
  next
    case False
    then show ?thesis
      using Cons.IH [OF more] Cons.prems(2) entryPairs_cong [OF cl] map_eq_imp_length_eq [OF members_names [OF cl]] by simp
  qed
qed simp

lemma externalEntry_idle:
  assumes "list_all (holdsRef (spec_Shard spec)) (entryPairs spec info)"
    and "(si_ExternalPrimarySources info = [] \<or> \<not> isStandbyShardInfoDeployAs (si_ShardGroupDetails info) (si_ShardSpaceDetails info)) \<or>
      length (standbyShardMembersForInfo spec info) = length (si_ExternalPrimarySources info)"
  shows "externalEntry info (c, spec) = Inr (c, spec)"
proof (cases "si_ExternalPrimarySources info = [] \<or> \<not> isStandbyShardInfoDeployAs (si_ShardGroupDetails info) (si_ShardSpaceDetails info)")
  case False
  let ?ps = "enumerate 0 (zip (standbyShardMembersForInfo spec info) (si_ExternalPrimarySources info))"
  have h: "holdsRef (spec_Shard spec) (sh_Name standby, source)" if "(pos, standby, source) \<in> set ?ps" for pos standby source
  proof -
    have "(sh_Name standby, source) \<in> set (entryPairs spec info)"
      using False image_eqI [OF _ that, of "(sh_Name standby, source)" "\<lambda>(pos, standby, source). (sh_Name standby, source)"]
      by (simp add: entryPairs_def flip: enumerated_pairs [of 0] set_map)
    then show ?thesis using assms(1) by (simp add: list_all_iff)
  qed
  have "try_fold externalStandby ?ps (c, spec) = Inr (c, spec)"
  proof (rule try_fold_id)
    fix x assume x: "x \<in> set ?ps"
    obtain pos standby source where e: "x = (pos, standby, source)" by (cases x) auto
    have hold: "holdsRef (spec_Shard spec) (sh_Name standby, source)" using h x e by blast
    then obtain ref where "externalPrimaryDatabaseRef source = Some ref" by (auto simp: holdsRef_def split: option.splits)
    then show "externalStandby x (c, spec) = Inr (c, spec)" using setRef_idle [OF hold] by (simp add: e externalStandby_def)
  qed
  then show ?thesis using False assms(2) by (simp add: externalEntry_def Let_def)
qed (simp add: externalEntry_def Let_def)

text \<open>The loop over the primaries of the object leaves every shard alone whose reference has a host.\<close>

abbreviation sameIfSet :: "ShardSpec \<Rightarrow> ShardSpec \<Rightarrow> bool" where
  "sameIfSet s s' \<equiv> sh_Name s' = sh_Name s \<and> (hostSet (sh_PrimaryDatabaseRef s) \<longrightarrow> s' = s)"

lemma localStandby_keeps:
  assumes "localStandby ns i (c, spec) = Inr (c', spec')"
  shows "list_all2 sameIfSet (spec_Shard spec) (spec_Shard spec')"
proof -
  let ?s = "spec_Shard spec ! i"
  have id: "list_all2 sameIfSet (spec_Shard spec) (spec_Shard spec)" by (simp add: list_all2_same)
  have upd: "list_all2 sameIfSet (spec_Shard spec) ((spec_Shard spec)[i := ?s\<lparr>sh_PrimaryDatabaseRef := r\<rparr>])"
    if "\<not> hostSet (sh_PrimaryDatabaseRef ?s)" for r
  proof -
    have "sameIfSet ?s (?s\<lparr>sh_PrimaryDatabaseRef := r\<rparr>)" using that by simp
    from list_all2_update_cong [OF id this, of i] show ?thesis by simp
  qed
  show ?thesis
  proof (cases "localSkip spec ?s")
    case True
    then show ?thesis using assms id by (simp add: localStandby_def Let_def)
  next
    case False
    have nh: "\<not> hostSet (sh_PrimaryDatabaseRef ?s)" using False by (simp add: localSkip_def)
    have "spec' = spec \<or> (\<exists>r. spec' = spec\<lparr>spec_Shard := (spec_Shard spec)[i := ?s\<lparr>sh_PrimaryDatabaseRef := r\<rparr>]\<rparr>)"
      using assms False by (simp add: localStandby_def Let_def split: sum.splits option.splits if_splits) blast+
    then show ?thesis using id upd [OF nh] by (elim disjE exE) simp_all
  qed
qed

lemma localStandbys_keep:
  "try_fold (localStandby ns) is (c, spec) = Inr (c', spec') \<Longrightarrow> list_all2 sameIfSet (spec_Shard spec) (spec_Shard spec')"
proof (induction "is" arbitrary: c spec)
  case (Cons i "is")
  obtain c1 spec1 where one: "localStandby ns i (c, spec) = Inr (c1, spec1)" and more: "try_fold (localStandby ns) is (c1, spec1) = Inr (c', spec')"
    using Cons.prems by (auto split: sum.splits)
  show ?case by (rule list_all2_trans [OF _ localStandby_keeps [OF one] Cons.IH [OF more]]) auto
qed (simp add: list_all2_same)

lemma holdsRef_kept:
  assumes "list_all2 sameIfSet ss ss'" and "holdsRef ss q"
  shows "holdsRef ss' q"
  using assms
proof (induction rule: list_all2_induct)
  case (Cons s ss s' ss')
  obtain name source where q: "q = (name, source)" by (cases q)
  obtain ref where ref: "externalPrimaryDatabaseRef source = Some ref" using Cons.prems by (auto simp: q holdsRef_def split: option.splits)
  show ?case
  proof (cases "sh_Name s = name")
    case True
    then have "databaseRefEqual (sh_PrimaryDatabaseRef s) (Some ref)" using Cons.prems ref by (simp add: q holdsRef_def)
    then have "s' = s" using Cons.hyps(1) externalRef_host [OF ref] by blast
    then show ?thesis using True Cons.prems ref by (simp add: q holdsRef_def)
  next
    case False
    then show ?thesis using Cons.IH Cons.prems Cons.hyps(1) ref by (simp add: q holdsRef_def)
  qed
qed simp

lemma external_settled:
  assumes "ensureExternalPrimaryRefForStandby spec = Inr (c, spec1)" and "distinct (map fst (externalPairs spec))"
    and "list_all2 sameIfSet (spec_Shard spec1) (spec_Shard spec2)" and "clearRefs (spec_Shard spec2) = clearRefs (spec_Shard spec1)"
    and "spec_ShardInfo spec2 = spec_ShardInfo spec1"
  shows "ensureExternalPrimaryRefForStandby spec2 = Inr (False, spec2)"
proof -
  have run: "try_fold externalEntry (spec_ShardInfo spec) (False, spec) = Inr (c, spec1)"
    using assms(1) by (simp add: ensureExternalPrimaryRefForStandby_def)
  note w = externalEntries_wrote [OF run]
  have s1: "spec1 = spec\<lparr>spec_Shard := spec_Shard spec1\<rparr>" and cl1: "clearRefs (spec_Shard spec1) = clearRefs (spec_Shard spec)"
    using w unfolding wrote_def by blast+
  have infos: "spec_ShardInfo spec2 = spec_ShardInfo spec" using arg_cong [OF s1, of spec_ShardInfo] assms(5) by simp
  have cl: "clearRefs (spec_Shard spec2) = clearRefs (spec_Shard spec)" using cl1 assms(4) by simp
  have "list_all (holdsRef (spec_Shard spec1)) (externalPairs spec)" using w assms(2) unfolding wrote_def externalPairs_def by blast
  then have holds: "holdsRef (spec_Shard spec2) q" if "info \<in> set (spec_ShardInfo spec)" "q \<in> set (entryPairs spec info)" for info q
    using holdsRef_kept [OF assms(3)] that by (auto simp: list_all_iff externalPairs_def)
  have "externalEntry info (False, spec2) = Inr (False, spec2)" if "info \<in> set (spec_ShardInfo spec)" for info
  proof (rule externalEntry_idle)
    show "list_all (holdsRef (spec_Shard spec2)) (entryPairs spec2 info)" using holds that entryPairs_cong [OF cl] by (simp add: list_all_iff)
    show "(si_ExternalPrimarySources info = [] \<or> \<not> isStandbyShardInfoDeployAs (si_ShardGroupDetails info) (si_ShardSpaceDetails info)) \<or>
        length (standbyShardMembersForInfo spec2 info) = length (si_ExternalPrimarySources info)"
      using external_counts [OF run that] map_eq_imp_length_eq [OF members_names [OF cl, of info]] by auto
  qed
  then show ?thesis unfolding ensureExternalPrimaryRefForStandby_def infos by (intro try_fold_id)
qed

lemma external_frame:
  assumes "ensureExternalPrimaryRefForStandby spec = Inr (c, spec1)"
  shows "clearRefs (spec_Shard spec1) = clearRefs (spec_Shard spec)"
    and "effectiveShardingTypeForConstraints spec1 = effectiveShardingTypeForConstraints spec"
proof -
  have w: "wrote (externalPairs spec) spec spec1"
    using assms externalEntries_wrote [of "spec_ShardInfo spec"] by (simp add: ensureExternalPrimaryRefForStandby_def externalPairs_def)
  then show cl: "clearRefs (spec_Shard spec1) = clearRefs (spec_Shard spec)" unfolding wrote_def by blast
  have "effectiveShardingTypeForConstraints (spec\<lparr>spec_Shard := spec_Shard spec1\<rparr>) = effectiveShardingTypeForConstraints spec"
    by (rule effectiveShardingType_shards, rule clearRefs_map [OF cl]) simp
  moreover have "spec1 = spec\<lparr>spec_Shard := spec_Shard spec1\<rparr>" using w unfolding wrote_def by blast
  ultimately show "effectiveShardingTypeForConstraints spec1 = effectiveShardingTypeForConstraints spec" by simp
qed

lemma local_frame:
  assumes "ensureLocalPrimaryRefForStandby ns spec = Inr (c, spec')" and "named spec"
  shows "list_all2 sameIfSet (spec_Shard spec) (spec_Shard spec')" and "clearRefs (spec_Shard spec') = clearRefs (spec_Shard spec)"
proof -
  have "list_all2 sameIfSet (spec_Shard spec) (spec_Shard spec') \<and> clearRefs (spec_Shard spec') = clearRefs (spec_Shard spec)"
  proof (cases "try_fold (localStandby ns) [0..<length (spec_Shard spec)] (False, spec) = Inr (c, spec')")
    case True
    show ?thesis
      using localStandbys_keep [OF True] arg_cong [OF local_refs.loop_settles(1) [OF True assms(2)], of spec_Shard] by simp
  next
    case False
    then show ?thesis using assms(1) by (simp add: ensureLocalPrimaryRefForStandby_def Let_def list_all2_same split: if_splits)
  qed
  then show "list_all2 sameIfSet (spec_Shard spec) (spec_Shard spec')" "clearRefs (spec_Shard spec') = clearRefs (spec_Shard spec)" by blast+
qed


section \<open>Properties\<close>

text \<open>C16:
  Writing the primaries of the standbys reaches a fixed point: when every shard has a name and no standby
  is given external primaries by two sources, a second run of the step changes nothing and succeeds,
  whatever the first one had to write, external primaries and primaries of the object itself. The
  planning phase therefore patches the object for this reason at most once per change of its topology.
\<close>

theorem primary_refs_settle:
  assumes "ensurePrimaryRefForStandby ns spec = Inr (c, spec')" and "\<forall>s \<in> set (spec_Shard spec). \<not> blank (sh_Name s)"
    and "distinct (map fst (externalPairs spec))"
  shows "ensurePrimaryRefForStandby ns spec' = Inr (False, spec')"
proof (cases "effectiveShardingTypeForConstraints spec = ''SYSTEM'' \<or> effectiveShardingTypeForConstraints spec = ''COMPOSITE''")
  case True
  let ?t = "effectiveShardingTypeForConstraints spec"
  obtain ec spec1 lc spec2 where e: "ensureExternalPrimaryRefForStandby spec = Inr (ec, spec1)"
    and l: "ensureLocalPrimaryRefForStandby ns spec1 = Inr (lc, spec2)"
    and i: "try_fold (infoStep ns (spec_Shard spec2) ?t) [0..<length (spec_ShardInfo spec2)] (ec \<or> lc, spec2) = Inr (c, spec')"
    using assms(1) True by (auto simp: ensurePrimaryRefForStandby_def Let_def split: sum.splits prod.splits)
  have s2: "spec' = spec2" using i info_idle [of spec2 ?t] managed_infoSkip [OF True] by simp
  note s1 = external_frame [OF e]
  have n: "named spec1" using named_names [OF clearRefs_map [OF s1(1), of sh_Name] assms(2)] by simp
  have f: "ensureLocalPrimaryRefForStandby ns spec2 = Inr (False, spec2)" "spec_ShardInfo spec2 = spec_ShardInfo spec1"
    "effectiveShardingTypeForConstraints spec2 = ?t"
    using local_settles [OF l n] s1(2) by simp_all
  have x: "ensureExternalPrimaryRefForStandby spec2 = Inr (False, spec2)"
    by (rule external_settled [OF e assms(3) local_frame [OF l n] f(2)])
  show ?thesis
    unfolding s2 ensurePrimaryRefForStandby_def Let_def f(3) using True x f(1) info_idle [of spec2] managed_infoSkip [OF True] by simp
next
  case False
  let ?t = "effectiveShardingTypeForConstraints spec"
  have i: "try_fold (infoStep ns (spec_Shard spec) ?t) [0..<length (spec_ShardInfo spec)] (False, spec) = Inr (c, spec')"
    using assms(1) False by (simp add: ensurePrimaryRefForStandby_def Let_def)
  have f: "effectiveShardingTypeForConstraints spec' = ?t" "\<forall>info \<in> set (spec_ShardInfo spec'). infoSkip ?t info"
    using info_settles [OF i refl] by simp_all
  show ?thesis unfolding ensurePrimaryRefForStandby_def Let_def f(1) using False info_idle [OF f(2)] by simp
qed

definition onePair :: ShardingDatabaseSpec where
  "onePair = pairedSpec\<lparr>spec_Shard := [roleShard ''p1'' ''G'' ''PRIMARY'', roleShard ''s2'' ''H'' ''STANDBY'']\<rparr>"

lemma onePair_fields [simp]:
  "spec_Shard onePair = [roleShard ''p1'' ''G'' ''PRIMARY'', roleShard ''s2'' ''H'' ''STANDBY'']" "spec_ShardInfo onePair = []"
  "effectiveShardingTypeForConstraints onePair = ''SYSTEM''" "EffectiveReplicationType (spec_ReplicationType onePair) = ''DG''"
  by (simp_all add: onePair_def pairedSpec_def effectiveShardingTypeForConstraints_def EffectiveReplicationType_def
      ctlNormalizeReplicationType_def zeroShardingDatabaseSpec_def go_eval)

lemma onePair_primary: "findPrimaryForStandby onePair (roleShard ''s2'' ''H'' ''STANDBY'') = Inr (roleShard ''p1'' ''G'' ''PRIMARY'')"
  unfolding findPrimary_cases(1) [OF onePair_fields(4,3)]
  by (simp add: findSystemPrimary_def systemPrimaryShardsSorted_def systemPrimaryGroups_def systemStandbysInGroupSorted_def
      pairByPosition_def standbyPos_def CheckIsDeleteFlag_def normalizeShardGroupKey_def isPrimaryDeployAs_def isStandbyDeployAs_def
      mput_def mget_def upt_rec Let_def go_eval)

lemma onePair_local: "\<exists>spec'. ensureLocalPrimaryRefForStandby ''ns'' onePair = Inr (True, spec') \<and> spec_ShardInfo spec' = []"
proof -
  have skip: "localSkip onePair (roleShard ''p1'' ''G'' ''PRIMARY'')"
    by (simp add: localSkip_def isStandbyDeployAs_def go_eval)
  have go: "\<not> localSkip onePair (roleShard ''s2'' ''H'' ''STANDBY'')"
    by (simp add: localSkip_def isStandbyDeployAs_def hostSet_def matchShardInfoByLongestPrefix_def standbyConfigPrimaryCountController_def
        roleShard_def zeroShardSpec_def go_eval)
  have ref: "sh_PrimaryDatabaseRef (roleShard ''s2'' ''H'' ''STANDBY'') = None" by (simp add: roleShard_def zeroShardSpec_def)
  have nb: "TrimSpace ''p1'' \<noteq> []" by (simp add: go_eval)
  show ?thesis
    using skip go by (simp add: ensureLocalPrimaryRefForStandby_def localStandby_def upt_rec Let_def onePair_primary
        buildLocalPrimaryDatabaseRef_def nb ref databaseRefEqual_def)
qed

text \<open>The same pair, with the standby under an entry that names an external primary.\<close>

definition externalSource :: StandbyPrimarySource where
  "externalSource = zeroStandbyPrimarySource\<lparr>sps_Details := Some (zeroPrimaryEndpointRef\<lparr>per_Host := ''db1'', per_CdbName := ''CDB1''\<rparr>)\<rparr>"

definition externalInfo :: ShardingDetails where
  "externalInfo = zeroShardingDetails\<lparr>si_ShardPreFixName := ''s'',
     si_ShardGroupDetails := Some (zeroShardGroupSpec\<lparr>sg_Name := ''H'', sg_DeployAs := ''STANDBY''\<rparr>),
     si_ExternalPrimarySources := [externalSource]\<rparr>"

definition externalOne :: ShardingDatabaseSpec where
  "externalOne = onePair\<lparr>spec_ShardInfo := [externalInfo]\<rparr>"

lemma externalOne_fields:
  "spec_Shard externalOne = [roleShard ''p1'' ''G'' ''PRIMARY'', roleShard ''s2'' ''H'' ''STANDBY'']" "spec_ShardInfo externalOne = [externalInfo]"
  "si_ExternalPrimarySources externalInfo = [externalSource]"
  "isStandbyShardInfoDeployAs (si_ShardGroupDetails externalInfo) (si_ShardSpaceDetails externalInfo)"
  "si_ShardPreFixName externalInfo = ''s''"
  "effectiveShardingTypeForConstraints externalOne = ''SYSTEM''"
  by (simp_all add: externalOne_def externalInfo_def onePair_def pairedSpec_def effectiveShardingTypeForConstraints_def zeroShardingDatabaseSpec_def
      isStandbyShardInfoDeployAs_def isStandbyDeployAs_def zeroShardGroupSpec_def zeroShardingDetails_def go_eval)

lemma externalOne_members: "standbyShardMembersForInfo externalOne externalInfo = [roleShard ''s2'' ''H'' ''STANDBY'']"
  by (simp add: standbyShardMembersForInfo_def externalOne_fields isStandbyDeployAs_def go_eval)

lemma externalOne_run: "\<exists>spec'. ensurePrimaryRefForStandby ''ns'' externalOne = Inr (True, spec')"
proof -
  let ?p = "roleShard ''p1'' ''G'' ''PRIMARY''" let ?s = "roleShard ''s2'' ''H'' ''STANDBY''"
  obtain ref where ref: "externalPrimaryDatabaseRef externalSource = Some ref"
    by (simp add: externalPrimaryDatabaseRef_def externalSource_def zeroPrimaryEndpointRef_def zeroStandbyPrimarySource_def go_eval)
  have none: "sh_PrimaryDatabaseRef ?s = None" by (simp add: roleShard_def zeroShardSpec_def)
  let ?new = "externalOne\<lparr>spec_Shard := [?p, ?s\<lparr>sh_PrimaryDatabaseRef := Some ref\<rparr>]\<rparr>"
  have e: "ensureExternalPrimaryRefForStandby externalOne = Inr (True, ?new)"
    by (simp add: ensureExternalPrimaryRefForStandby_def externalEntry_def externalStandby_def externalOne_fields externalOne_members Let_def
        ref none databaseRefEqual_def)
  have "hostSet (Some ref)" by (rule externalRef_host [OF ref databaseRefEqual_refl])
  then have skip: "localSkip ?new ?p" "localSkip ?new (?s\<lparr>sh_PrimaryDatabaseRef := Some ref\<rparr>)"
    by (simp_all add: localSkip_def isStandbyDeployAs_def go_eval)
  have ty: "effectiveShardingTypeForConstraints ?new = ''SYSTEM''" using external_frame(2) [OF e] externalOne_fields(6) by simp
  have l: "ensureLocalPrimaryRefForStandby ''ns'' ?new = Inr (False, ?new)"
    using skip by (simp add: ensureLocalPrimaryRefForStandby_def ty localStandby_def upt_rec Let_def)
  have "try_fold (infoStep ''ns'' (spec_Shard ?new) ''SYSTEM'') [0..<length (spec_ShardInfo ?new)] (True, ?new) = Inr (True, ?new)"
    by (rule info_idle) (simp add: managed_infoSkip)
  then show ?thesis by (simp add: ensurePrimaryRefForStandby_def Let_def externalOne_fields(6) e l)
qed

theorem primary_refs_settle_witness:
  "(\<exists>spec'. ensurePrimaryRefForStandby ''ns'' onePair = Inr (True, spec') \<and> ensurePrimaryRefForStandby ''ns'' spec' = Inr (False, spec')) \<and>
   (\<exists>spec'. ensurePrimaryRefForStandby ''ns'' externalOne = Inr (True, spec') \<and> ensurePrimaryRefForStandby ''ns'' spec' = Inr (False, spec'))"
proof (rule conjI)
  have n: "\<forall>s \<in> set (spec_Shard onePair). \<not> blank (sh_Name s)" by (simp add: go_eval)
  have d: "distinct (map fst (externalPairs onePair))" by (simp add: externalPairs_def)
  obtain spec' where l: "ensureLocalPrimaryRefForStandby ''ns'' onePair = Inr (True, spec')" "spec_ShardInfo spec' = []"
    using onePair_local by blast
  then have r: "ensurePrimaryRefForStandby ''ns'' onePair = Inr (True, spec')"
    by (simp add: ensurePrimaryRefForStandby_def Let_def external_idle)
  show "\<exists>spec'. ensurePrimaryRefForStandby ''ns'' onePair = Inr (True, spec') \<and> ensurePrimaryRefForStandby ''ns'' spec' = Inr (False, spec')"
    using r primary_refs_settle [OF r n d] by blast
next
  have n: "\<forall>s \<in> set (spec_Shard externalOne). \<not> blank (sh_Name s)" by (simp add: externalOne_fields go_eval)
  have d: "distinct (map fst (externalPairs externalOne))"
    by (simp add: externalPairs_def entryPairs_def externalOne_fields externalOne_members)
  obtain spec' where r: "ensurePrimaryRefForStandby ''ns'' externalOne = Inr (True, spec')" using externalOne_run by blast
  show "\<exists>spec'. ensurePrimaryRefForStandby ''ns'' externalOne = Inr (True, spec') \<and> ensurePrimaryRefForStandby ''ns'' spec' = Inr (False, spec')"
    using r primary_refs_settle [OF r n d] by blast
qed

end
