(* ===== verification/Sharding_Plan.thy ===== *)
theory Sharding_Plan
  imports Sharding_Reconcile Sharding_Refs
begin

text \<open>
  The planning phase of a pass (\<^verbatim>\<open>phaseValidateAndPlan\<close> and \<^verbatim>\<open>validateSpex\<close> of
  \<^verbatim>\<open>controllers/database/shardingdatabase_controller.go\<close>): the specification is checked, then four steps may
  each rewrite it and end the phase with a patch, and the orphaned stateful sets are cleaned up. What the
  Kubernetes client returns (the stored last successful specification, the status as stored, errors of writes) is the parameter
  \<open>planCluster\<close>, and so are the pairs in the status of the object at the start (\<open>pc_published\<close>, the field \<^verbatim>\<open>Status.Dg.Pairs\<close>); the texts of messages are left to its \<open>pc_text\<close>. The preview of the Data Guard status
  (\<^verbatim>\<open>syncShardingDataguardPreviewStatus\<close>) is not modelled.
\<close>

section \<open>Checks against the last successful specification\<close>

definition isShapeManagedEnvName :: "string \<Rightarrow> bool" where
  "isShapeManagedEnvName name \<longleftrightarrow>
     ToUpper (TrimSpace name) \<in> {''INIT_SGA_SIZE'', ''INIT_PGA_SIZE'', ''INIT_PROCESS'', ''INIT_CPU_COUNT'', ''INIT_TOTAL_SIZE''}"

definition stripShapeManagedDbEnv :: "EnvironmentVariable list \<Rightarrow> EnvironmentVariable list" where
  "stripShapeManagedDbEnv envs =
     sort_key (\<lambda>e. ToLower (TrimSpace (env_Name e))) (filter (\<lambda>e. \<not> isShapeManagedEnvName (env_Name e)) envs)"

definition findShardShapeForName :: "ShardingDatabaseSpec \<Rightarrow> string \<Rightarrow> string" where
  "findShardShapeForName spec shardName =
     (case find (\<lambda>info. let p = TrimSpace (si_ShardPreFixName info) in p \<noteq> [] \<and> HasPrefix (TrimSpace shardName) p) (spec_ShardInfo spec) of
        None \<Rightarrow> [] | Some info \<Rightarrow> TrimSpace (si_Shape info))"

definition shardShapeChangedForName :: "ShardingDatabaseSpec \<Rightarrow> ShardingDatabaseSpec \<Rightarrow> string \<Rightarrow> bool" where
  "shardShapeChangedForName new old shardName =
     (let newShape = findShardShapeForName new shardName; oldShape = findShardShapeForName old shardName in
      newShape \<noteq> [] \<and> oldShape \<noteq> [] \<and> \<not> EqualFold newShape oldShape)"

definition envKept :: "bool \<Rightarrow> EnvironmentVariable list \<Rightarrow> EnvironmentVariable list \<Rightarrow> bool" where
  "envKept shapeChanged new old = (if shapeChanged then stripShapeManagedDbEnv new = stripShapeManagedDbEnv old else new = old)"

definition comapreShardEnvVariables :: "ShardingDatabaseSpec \<Rightarrow> ShardingDatabaseSpec \<Rightarrow> bool" where
  "comapreShardEnvVariables spec lastSuccSpec =
     list_all (\<lambda>new. list_all (\<lambda>old. sh_Name new = sh_Name old \<longrightarrow>
        envKept (shardShapeChangedForName spec lastSuccSpec (sh_Name new)) (sh_EnvVars new) (sh_EnvVars old)) (spec_Shard lastSuccSpec)) (spec_Shard spec)"

definition comapreCatalogEnvVariables :: "ShardingDatabaseSpec \<Rightarrow> ShardingDatabaseSpec \<Rightarrow> bool" where
  "comapreCatalogEnvVariables spec lastSuccSpec =
     list_all (\<lambda>new. list_all (\<lambda>old. cat_Name new = cat_Name old \<longrightarrow>
        envKept (\<not> EqualFold (TrimSpace (cat_Shape new)) (TrimSpace (cat_Shape old))) (cat_EnvVars new) (cat_EnvVars old))
       (spec_Catalog lastSuccSpec)) (spec_Catalog spec)"

definition comapreGsmEnvVariables :: "ShardingDatabaseSpec \<Rightarrow> ShardingDatabaseSpec \<Rightarrow> bool" where
  "comapreGsmEnvVariables spec lastSuccSpec =
     list_all (\<lambda>new. list_all (\<lambda>old. gsm_Name new = gsm_Name old \<longrightarrow> gsm_EnvVars new = gsm_EnvVars old) (spec_Gsm lastSuccSpec)) (spec_Gsm spec)"

definition resolveShardMode :: "ShardingDatabaseSpec \<Rightarrow> ShardSpec \<Rightarrow> string" where
  "resolveShardMode spec shard =
     (let typeHint = ToUpper (TrimSpace (spec_ShardingType spec)); hasGroup = (\<not> blank (sh_ShardGroup shard)); hasSpace = (\<not> blank (sh_ShardSpace shard)) in
      if typeHint = ''SYSTEM'' \<or> typeHint = ''USER'' \<or> typeHint = ''COMPOSITE'' then typeHint
      else if hasGroup \<and> hasSpace then ''COMPOSITE'' else if hasGroup then ''SYSTEM'' else if hasSpace then ''USER'' else ''SYSTEM'')"

datatype planError =
    TopologyRule topologyError
  | ShardRegionEmpty string
  | ShardSpaceEmpty string
  | ShardGroupEmpty string
  | LastSpecNotStored string
  | DbImageChanged
  | GsmImageChanged
  | StorageClassChanged
  | ShardEnvChanged
  | CatalogEnvChanged
  | GsmEnvChanged
  | StandbyRef refError
  | ClientError string

definition checkShardSpace :: "ShardingDatabaseSpec \<Rightarrow> ShardSpec \<Rightarrow> planError option" where
  "checkShardSpace spec s =
     (let mode = resolveShardMode spec s in
      if mode \<noteq> ''USER'' \<and> mode \<noteq> ''COMPOSITE'' then None
      else if sh_ShardRegion s = [] then Some (ShardRegionEmpty (sh_Name s))
      else if sh_ShardSpace s = [] then Some (ShardSpaceEmpty (sh_Name s)) else None)"

definition checkShardGroup :: "ShardingDatabaseSpec \<Rightarrow> ShardSpec \<Rightarrow> planError option" where
  "checkShardGroup spec s =
     (let mode = resolveShardMode spec s in
      if mode \<noteq> ''SYSTEM'' \<and> mode \<noteq> ''COMPOSITE'' then None
      else if sh_ShardRegion s = [] then Some (ShardRegionEmpty (sh_Name s))
      else if sh_ShardGroup s = [] then Some (ShardGroupEmpty (sh_Name s)) else None)"

record planCluster =
  pc_last :: "string + ShardingDatabaseSpec option"
  pc_storeLast :: "string option"
  pc_patch :: "string option"
  pc_published :: "DgPairStatus list"
  pc_latest :: ShardingDatabaseStatus
  pc_pairs :: "string option"
  pc_orphans :: "string option"
  pc_order :: "nat \<Rightarrow> string list \<Rightarrow> string list"
  pc_ready :: "ShardSpec \<Rightarrow> nat \<Rightarrow> bool"
  pc_text :: "planError \<Rightarrow> string"

definition validateSpex :: "planCluster \<Rightarrow> ShardingDatabaseSpec \<Rightarrow> planError option" where
  "validateSpex pc spec =
     (case pc_last pc of
        Inl _ \<Rightarrow> None
      | Inr lastSucc \<Rightarrow>
          (case validatePrimaryTopologyConstraint spec of
             Some e \<Rightarrow> Some (TopologyRule e)
           | None \<Rightarrow>
               (case lastSucc of
                  None \<Rightarrow>
                    (case firstError (\<lambda>s. if CheckIsDeleteFlag (sh_IsDelete s) then None
                          else case checkShardSpace spec s of Some e \<Rightarrow> Some e | None \<Rightarrow> checkShardGroup spec s) (spec_Shard spec) of
                       Some e \<Rightarrow> Some e
                     | None \<Rightarrow> map_option LastSpecNotStored (pc_storeLast pc))
                | Some old \<Rightarrow>
                    if spec_DbImage old \<noteq> spec_DbImage spec then Some DbImageChanged
                    else if spec_GsmImage old \<noteq> spec_GsmImage spec then Some GsmImageChanged
                    else if spec_StorageClass old \<noteq> spec_StorageClass spec then Some StorageClassChanged
                    else if \<not> comapreShardEnvVariables spec old then Some ShardEnvChanged
                    else if \<not> comapreCatalogEnvVariables spec old then Some CatalogEnvChanged
                    else if \<not> comapreGsmEnvVariables spec old then Some GsmEnvChanged
                    else None)))"


section \<open>The phase\<close>

definition waitFor :: "int \<Rightarrow> string \<Rightarrow> string \<Rightarrow> phaseResult" where
  "waitFor after reason message = \<lparr>pr_wait = True, pr_requeueAfter = after, pr_err = None, pr_reason = reason, pr_message = message\<rparr>"

definition noStop :: phaseResult where
  "noStop = \<lparr>pr_wait = False, pr_requeueAfter = 0, pr_err = None, pr_reason = [], pr_message = []\<rparr>"

text \<open>A step that changed the specification ends the phase with a patch of the object.\<close>

definition patched :: "planCluster \<Rightarrow> ShardingDatabase \<Rightarrow> ShardingDatabaseSpec \<Rightarrow> string \<times> string \<times> string \<Rightarrow> phaseResult \<times> ShardingDatabase" where
  "patched pc inst spec = (\<lambda>(retryReason, reason, message).
     (case pc_patch pc of
        Some e \<Rightarrow> waitFor 30 retryReason e
      | None \<Rightarrow> waitFor 2 reason message, inst\<lparr>sdb_Spec := spec\<rparr>))"

definition scalePlan :: "planCluster \<Rightarrow> ShardingDatabase \<Rightarrow> phaseResult \<times> ShardingDatabase" where
  "scalePlan pc inst =
     (case applyReplicaScaleOutUnmarks (sdb_Spec inst) of (outChanged, outSpec) \<Rightarrow>
        if outChanged then patched pc inst outSpec (''ScaleOutUnmarkPatchRetry'', ''ScaleOutSpecPatched'', ''Scale-out unmark patch applied'')
        else (case applyReplicaScaleInMarks (pc_order pc) (pc_ready pc) (sdb_Spec inst) of (inChanged, inSpec) \<Rightarrow>
          if inChanged then patched pc inst inSpec (''ScaleInMarkPatchRetry'', ''ScaleInSpecPatched'', ''Scale-in mark patch applied'')
          else (case pc_orphans pc of
              Some e \<Rightarrow> (waitFor 30 ''OrphanCleanupRetry'' e, inst)
            | None \<Rightarrow> (noStop, inst))))"

text \<open>
  The status is written on a fresh copy of the object, and the object in memory takes over the whole status of that copy;
  \<open>pc_pairs\<close> is the error of the read or the write. The pairs themselves are a result of the phase.
\<close>

definition updateStatusWithRetry :: "planCluster \<Rightarrow> ShardingDatabase \<Rightarrow> string + ShardingDatabase" where
  "updateStatusWithRetry pc inst = (case pc_pairs pc of Some e \<Rightarrow> Inl e | None \<Rightarrow> Inr (inst\<lparr>sdb_Status := pc_latest pc\<rparr>))"

definition syncDgPairsFromStandbyConfig :: "planCluster \<Rightarrow> ShardingDatabase \<Rightarrow> string + ShardingDatabase" where
  "syncDgPairsFromStandbyConfig pc inst =
     (if pc_published pc = buildDgPairsFromStandbyConfig (sdb_Namespace inst) (sdb_Spec inst) then Inr inst
      else updateStatusWithRetry pc inst)"

definition phaseValidateAndPlan :: "planCluster \<Rightarrow> ShardingDatabase \<Rightarrow> phaseResult \<times> ShardingDatabase \<times> DgPairStatus list option" where
  "phaseValidateAndPlan pc inst =
     (let spec = sdb_Spec inst; ns = sdb_Namespace inst in
      case validateSpex pc spec of
        Some e \<Rightarrow> (\<lparr>pr_wait = False, pr_requeueAfter = 0, pr_err = Some (pc_text pc e), pr_reason = ''SpecInvalid'', pr_message = pc_text pc e\<rparr>, inst, None)
      | None \<Rightarrow>
          (case ensureStandbyShardNumFromConfig spec of (planChanged, planSpec) \<Rightarrow>
             if planChanged then (case patched pc inst planSpec (''StandbyPlanPatchRetry'', ''StandbyPlanPatched'', ''Standby plan patched from standbyConfig'') of (pr, inst') \<Rightarrow> (pr, inst', None))
             else (case ensurePrimaryRefForStandby ns spec of
                 Inl e \<Rightarrow> (waitFor 20 ''WaitingPrimaryRef'' (pc_text pc (StandbyRef e)), inst, None)
               | Inr (refChanged, refSpec) \<Rightarrow>
                   if refChanged then (case patched pc inst refSpec (''PrimaryRefPatchRetry'', ''SpecPatched'', ''Standby primary refs patched'') of (pr, inst') \<Rightarrow> (pr, inst', None))
                   else (case syncDgPairsFromStandbyConfig pc inst of
                       Inl e \<Rightarrow> (waitFor 30 ''DgPairStatusSyncRetry'' e, inst, None)
                     | Inr synced \<Rightarrow> (case scalePlan pc synced of (pr, inst') \<Rightarrow> (pr, inst', Some (buildDgPairsFromStandbyConfig ns spec)))))))"


section \<open>A step that reports no change makes none\<close>

text \<open>The contract of a fallible step on a flag and a state: it raises the flag whenever it changes the state.\<close>

locale flagged_step =
  fixes step :: "'a \<Rightarrow> bool \<times> 's \<Rightarrow> 'e + bool \<times> 's"
  assumes step_flag: "step x (c, s) = Inr (c', s') \<Longrightarrow> (c \<longrightarrow> c') \<and> (\<not> c' \<longrightarrow> s' = s)"
begin

lemma fold_flag: "try_fold step xs (c, s) = Inr (c', s') \<Longrightarrow> (c \<longrightarrow> c') \<and> (\<not> c' \<longrightarrow> s' = s)"
proof (induction xs arbitrary: c s)
  case (Cons x xs)
  then obtain c1 s1 where "step x (c, s) = Inr (c1, s1)" "try_fold step xs (c1, s1) = Inr (c', s')"
    by (auto split: sum.splits)
  then show ?case using step_flag [of x c s c1 s1] Cons.IH [of c1 s1] by blast
qed simp

end

lemma setRef_same: "setRef n r ss = (False, ss') \<Longrightarrow> ss' = ss"
  by (induction ss arbitrary: ss') (auto split: if_splits prod.splits)

interpretation external_standby: flagged_step externalStandby
  by unfold_locales (auto simp: externalStandby_def split: option.splits prod.splits dest!: setRef_same)

interpretation external_entry: flagged_step externalEntry
proof
  fix x c spec c' spec'
  assume e: "externalEntry x (c, spec) = Inr (c', spec')"
  let ?members = "standbyShardMembersForInfo spec x" let ?sources = "si_ExternalPrimarySources x"
  show "(c \<longrightarrow> c') \<and> (\<not> c' \<longrightarrow> spec' = spec)"
  proof (cases "?sources = [] \<or> \<not> isStandbyShardInfoDeployAs (si_ShardGroupDetails x) (si_ShardSpaceDetails x)")
    case True
    then show ?thesis using e by (simp add: externalEntry_def)
  next
    case False
    then have "try_fold externalStandby (enumerate 0 (zip ?members ?sources)) (c, spec) = Inr (c', spec')"
      using e unfolding externalEntry_def Let_def by (simp split: if_split_asm)
    then show ?thesis by (rule external_standby.fold_flag)
  qed
qed

interpretation local_standby: flagged_step "localStandby ns"
  by unfold_locales (auto simp: localStandby_def Let_def split: if_splits sum.splits option.splits)

interpretation info_step: flagged_step "infoStep ns shards t"
  by unfold_locales (auto simp: infoStep_def Let_def split: if_splits sum.splits)

lemma ensurePrimaryRef_idle:
  assumes "ensurePrimaryRefForStandby ns spec = Inr (False, spec')"
  shows "spec' = spec \<and> (effectiveShardingTypeForConstraints spec = ''SYSTEM'' \<or> effectiveShardingTypeForConstraints spec = ''COMPOSITE'' \<longrightarrow>
    ensureLocalPrimaryRefForStandby ns spec = Inr (False, spec))"
proof -
  let ?t = "effectiveShardingTypeForConstraints spec"
  show ?thesis
  proof (cases "?t = ''SYSTEM'' \<or> ?t = ''COMPOSITE''")
    case False
    then show ?thesis using assms info_step.fold_flag by (auto simp: ensurePrimaryRefForStandby_def Let_def)
  next
    case True
    then obtain ec spec1 lc spec2 where e: "ensureExternalPrimaryRefForStandby spec = Inr (ec, spec1)"
      and l: "ensureLocalPrimaryRefForStandby ns spec1 = Inr (lc, spec2)"
      and i: "try_fold (infoStep ns (spec_Shard spec2) ?t) [0..<length (spec_ShardInfo spec2)] (ec \<or> lc, spec2) = Inr (False, spec')"
      using assms by (auto simp: ensurePrimaryRefForStandby_def Let_def split: sum.splits prod.splits)
    have "\<not> ec" "\<not> lc" "spec' = spec2" using info_step.fold_flag [OF i] by auto
    moreover have "\<not> ec \<longrightarrow> spec1 = spec"
      using external_entry.fold_flag e by (auto simp: ensureExternalPrimaryRefForStandby_def)
    moreover have "\<not> lc \<longrightarrow> spec2 = spec1"
      using local_standby.fold_flag l by (auto simp: ensureLocalPrimaryRefForStandby_def Let_def split: if_splits)
    ultimately show ?thesis using l by auto
  qed
qed

lemma local_idle:
  assumes "ensureLocalPrimaryRefForStandby ns spec = Inr (False, spec)" and "\<forall>s \<in> set (spec_Shard spec). \<not> blank (sh_Name s)"
    and "effectiveShardingTypeForConstraints spec = ''SYSTEM'' \<or> effectiveShardingTypeForConstraints spec = ''COMPOSITE''"
    and "s \<in> set (spec_Shard spec)"
  shows "localSkip spec s"
proof -
  have "try_fold (localStandby ns) [0..<length (spec_Shard spec)] (False, spec) = Inr (False, spec)"
    using assms(1,3) by (auto simp: ensureLocalPrimaryRefForStandby_def Let_def)
  then show ?thesis using local_refs.loop_settles(2) [OF _ assms(2)] assms(4) by blast
qed

lemma waitFor_wait [simp]: "pr_wait (waitFor a r m)" "\<not> pr_wait noStop" "pr_err noStop = None"
  by (simp_all add: waitFor_def noStop_def)

lemma patched_wait: "patched pc inst spec w = (pr, inst') \<Longrightarrow> pr_wait pr"
  by (auto simp: patched_def split: prod.splits option.splits)

lemma scalePlan_done:
  assumes "scalePlan pc inst = (pr, inst')" and "\<not> pr_wait pr"
  shows "\<not> fst (applyReplicaScaleOutUnmarks (sdb_Spec inst)) \<and>
    \<not> fst (applyReplicaScaleInMarks (pc_order pc) (pc_ready pc) (sdb_Spec inst)) \<and> inst' = inst"
proof -
  obtain oc os ic iss where o: "applyReplicaScaleOutUnmarks (sdb_Spec inst) = (oc, os)"
    and i: "applyReplicaScaleInMarks (pc_order pc) (pc_ready pc) (sdb_Spec inst) = (ic, iss)" by fastforce
  show ?thesis using assms by (auto simp: scalePlan_def o i split: if_splits option.splits dest: patched_wait)
qed

lemma phase_done:
  assumes "phaseValidateAndPlan pc inst = (pr, inst', pairs)" and "\<not> pr_wait pr" and "pr_err pr = None"
  shows "validateSpex pc (sdb_Spec inst) = None \<and> \<not> fst (ensureStandbyShardNumFromConfig (sdb_Spec inst)) \<and>
    (\<exists>spec'. ensurePrimaryRefForStandby (sdb_Namespace inst) (sdb_Spec inst) = Inr (False, spec')) \<and>
    (\<exists>synced. syncDgPairsFromStandbyConfig pc inst = Inr synced \<and> scalePlan pc synced = (pr, inst')) \<and> pairs = Some (buildDgPairsFromStandbyConfig (sdb_Namespace inst) (sdb_Spec inst))"
proof -
  obtain sc ss where s: "ensureStandbyShardNumFromConfig (sdb_Spec inst) = (sc, ss)" by fastforce
  have v: "validateSpex pc (sdb_Spec inst) = None"
    using assms by (auto simp: phaseValidateAndPlan_def Let_def split: option.splits)
  have ns: "\<not> sc"
    using assms(1,2) by (auto simp: phaseValidateAndPlan_def Let_def v s split: prod.splits dest: patched_wait)
  obtain rc rs where r: "ensurePrimaryRefForStandby (sdb_Namespace inst) (sdb_Spec inst) = Inr (rc, rs)"
    using assms(1,2) ns by (auto simp: phaseValidateAndPlan_def Let_def v s split: sum.splits)
  have nr: "\<not> rc"
    using assms(1,2) ns by (auto simp: phaseValidateAndPlan_def Let_def v s r split: prod.splits dest: patched_wait)
  show ?thesis
    using assms(1,2) ns nr by (auto simp: phaseValidateAndPlan_def Let_def v s r split: sum.splits prod.splits)
qed

lemma sync_synced:
  "syncDgPairsFromStandbyConfig pc inst = Inr synced \<Longrightarrow>
     synced = (if pc_published pc = buildDgPairsFromStandbyConfig (sdb_Namespace inst) (sdb_Spec inst) then inst
               else inst\<lparr>sdb_Status := pc_latest pc\<rparr>)"
  by (auto simp: syncDgPairsFromStandbyConfig_def updateStatusWithRetry_def split: if_splits option.splits)


section \<open>Properties\<close>


text \<open>A pass over an object with one primary shard, in a cluster where nothing fails.\<close>

definition calmSpec :: ShardingDatabaseSpec where
  "calmSpec = pairedSpec\<lparr>spec_Shard := [roleShard ''p1'' ''G'' ''PRIMARY'']\<rparr>"

definition calmObject :: ShardingDatabase where
  "calmObject = zeroShardingDatabase\<lparr>sdb_Namespace := ''ns'', sdb_Spec := calmSpec\<rparr>"

definition calmCluster :: planCluster where
  "calmCluster = \<lparr>pc_last = Inr (Some calmSpec), pc_storeLast = None, pc_patch = None, pc_published = buildDgPairsFromStandbyConfig ''ns'' calmSpec,
     pc_latest = sdb_Status calmObject, pc_pairs = None, pc_orphans = None,
     pc_order = (\<lambda>i ks. ks), pc_ready = (\<lambda>s i. True), pc_text = (\<lambda>e. [])\<rparr>"

lemma calmSpec_fields [simp]:
  "spec_Shard calmSpec = [roleShard ''p1'' ''G'' ''PRIMARY'']" "spec_ShardInfo calmSpec = []"
  "effectiveShardingTypeForConstraints calmSpec = ''SYSTEM''" "EffectiveReplicationType (spec_ReplicationType calmSpec) = ''DG''"
  by (simp_all add: calmSpec_def pairedSpec_def effectiveShardingTypeForConstraints_def EffectiveReplicationType_def
      ctlNormalizeReplicationType_def zeroShardingDatabaseSpec_def go_eval)

lemma calmSpec_valid: "validateSpex calmCluster calmSpec = None"
proof -
  have "validatePrimaryTopologyConstraint calmSpec = None"
    by (simp add: validatePrimaryTopologyConstraint_def systemTopology_def systemShard_def systemBindRegion_def systemCountRole_def systemFinal_def
        CheckIsDeleteFlag_def normalizeShardGroupKey_def bump_def mput_def mget_def Let_def go_eval)
  moreover have "envKept False e e" for e by (simp add: envKept_def)
  ultimately show ?thesis
    by (simp add: validateSpex_def calmCluster_def comapreShardEnvVariables_def comapreCatalogEnvVariables_def comapreGsmEnvVariables_def
        shardShapeChangedForName_def) (simp add: calmSpec_def pairedSpec_def zeroShardingDatabaseSpec_def)
qed

lemma calm_phase: "phaseValidateAndPlan calmCluster calmObject = (noStop, calmObject, Some (buildDgPairsFromStandbyConfig ''ns'' calmSpec))"
proof -
  have o: "sdb_Spec calmObject = calmSpec" "sdb_Namespace calmObject = ''ns''" by (simp_all add: calmObject_def zeroShardingDatabase_def)
  have "localSkip calmSpec (roleShard ''p1'' ''G'' ''PRIMARY'')" by (simp add: localSkip_def isStandbyDeployAs_def go_eval)
  then have l: "ensureLocalPrimaryRefForStandby ''ns'' calmSpec = Inr (False, calmSpec)"
    by (simp add: ensureLocalPrimaryRefForStandby_def localStandby_def Let_def)
  have r: "ensurePrimaryRefForStandby ''ns'' calmSpec = Inr (False, calmSpec)"
    by (simp add: ensurePrimaryRefForStandby_def external_idle l Let_def)
  have "getScaleInCandidates (\<lambda>i ks. ks) calmSpec = []"
    by (simp add: getScaleInCandidates_def currentByPrefix_def desiredByPrefix_def prefixAt_def List.map_filter_def)
  then have "scalePlan calmCluster calmObject = (noStop, calmObject)"
    by (simp add: scalePlan_def o applyReplicaScaleOutUnmarks_def applyReplicaScaleInMarks_def scaleOutUnmark_def desiredShardNamesFromShardInfo_def
        calmCluster_def Let_def)
  then show ?thesis
    using calmSpec_valid r by (simp add: phaseValidateAndPlan_def o ensureStandbyShardNumFromConfig_def Let_def
        syncDgPairsFromStandbyConfig_def) (simp add: calmCluster_def)
qed


end
