(* ===== verification/Dataguard_Names.thy ===== *)
theory Dataguard_Names
  imports Go_Prelude
begin

text \<open>
  The shapes of the names that a Data Guard topology brings into generated scripts and Oracle Net files
  (\<^verbatim>\<open>ValidateDataguardHost\<close>, \<^verbatim>\<open>ValidateDataguardDBUniqueName\<close>, \<^verbatim>\<open>ValidateDataguardServiceName\<close> and
  \<^verbatim>\<open>ValidateDataguardSingleLineText\<close> of \<^verbatim>\<open>apis/database/v4/dataguardbroker_webhook.go\<close>), with what they use
  of Go's library: the three regular expressions as predicates on strings, and \<^verbatim>\<open>net.ParseIP\<close> as the
  acceptor of its parser. The error messages are values of \<open>nameError\<close>.
\<close>

section \<open>Characters\<close>

definition is_alpha :: "char \<Rightarrow> bool" where
  "is_alpha c \<longleftrightarrow> (let n = (of_char c :: nat) in (65 \<le> n \<and> n \<le> 90) \<or> (97 \<le> n \<and> n \<le> 122))"

definition is_alnum :: "char \<Rightarrow> bool" where
  "is_alnum c \<longleftrightarrow> is_alpha c \<or> is_digit c"

definition is_hex :: "char \<Rightarrow> bool" where
  "is_hex c \<longleftrightarrow> (let n = (of_char c :: nat) in (48 \<le> n \<and> n \<le> 57) \<or> (65 \<le> n \<and> n \<le> 70) \<or> (97 \<le> n \<and> n \<le> 102))"

definition is_control :: "char \<Rightarrow> bool" where
  "is_control c \<longleftrightarrow> (let n = (of_char c :: nat) in n < 32 \<or> n = 127)"

lemma hex_alnum: "is_hex c \<Longrightarrow> is_alnum c"
  by (auto simp: is_hex_def is_alnum_def is_alpha_def is_digit_def Let_def)

lemma digit_hex: "is_digit c \<Longrightarrow> is_hex c"
  by (auto simp: is_hex_def is_digit_def Let_def)


section \<open>IP addresses\<close>

text \<open>
  \<^verbatim>\<open>parseIPv4Fields\<close> of \<^verbatim>\<open>net/netip\<close>: \<open>pos\<close> fields are complete, the current one has \<open>digLen\<close> digits and the value
  \<open>val\<close>. A dot is refused where a field would be empty, that is after no digit or at the end.
\<close>

fun ipv4Fields :: "nat \<Rightarrow> nat \<Rightarrow> nat \<Rightarrow> string \<Rightarrow> bool" where
  "ipv4Fields pos val digLen [] \<longleftrightarrow> \<not> pos < 3"
| "ipv4Fields pos val digLen (c # cs) \<longleftrightarrow>
     (if is_digit c then
        \<not> (digLen = 1 \<and> val = 0) \<and> val * 10 + digit_val c \<le> 255 \<and> ipv4Fields pos (val * 10 + digit_val c) (digLen + 1) cs
      else c = CHR ''.'' \<and> digLen \<noteq> 0 \<and> cs \<noteq> [] \<and> pos \<noteq> 3 \<and> ipv4Fields (pos + 1) 0 0 cs)"

text \<open>
  \<^verbatim>\<open>parseIPv6\<close>: \<open>k\<close> of the eight fields are still free and \<open>ellipsis\<close> tells whether \<^verbatim>\<open>::\<close> has been read. At the
  end an address without it fills all fields and one with it leaves some free.
\<close>

definition ipv6End :: "nat \<Rightarrow> bool \<Rightarrow> bool" where
  "ipv6End k ellipsis \<longleftrightarrow> (if k > 0 then ellipsis else \<not> ellipsis)"

fun ipv6Fields :: "nat \<Rightarrow> bool \<Rightarrow> string \<Rightarrow> bool" where
  "ipv6Fields 0 ellipsis s \<longleftrightarrow> s = [] \<and> ipv6End 0 ellipsis"
| "ipv6Fields (Suc k) ellipsis s \<longleftrightarrow>
     (let off = length (takeWhile is_hex s); rest = drop off s in
      off \<noteq> 0 \<and> off \<le> 4 \<and>
      (case rest of
         [] \<Rightarrow> ipv6End k ellipsis
       | c # cs \<Rightarrow>
           if c = CHR ''.'' then (ellipsis \<or> k = 1) \<and> k \<ge> 1 \<and> ipv4Fields 0 0 0 s \<and> ipv6End (k - 1) ellipsis
           else c = CHR '':'' \<and>
             (case cs of
                [] \<Rightarrow> False
              | d # ds \<Rightarrow>
                  if d = CHR '':'' then \<not> ellipsis \<and> (if ds = [] then ipv6End k True else ipv6Fields k True ds)
                  else ipv6Fields k ellipsis cs)))"

definition parseIPv6 :: "string \<Rightarrow> bool" where
  "parseIPv6 s =
     (if take 2 s = ''::'' then (if drop 2 s = [] then True else ipv6Fields 8 True (drop 2 s))
      else ipv6Fields 8 False s)"

text \<open>An address with a zone (after a percent sign) is not an IP of \<^verbatim>\<open>net.ParseIP\<close>.\<close>

definition ParseIP :: "string \<Rightarrow> bool" where
  "ParseIP s =
     (case find (\<lambda>c. c = CHR ''.'' \<or> c = CHR '':'' \<or> c = CHR ''%'') s of
        None \<Rightarrow> False
      | Some c \<Rightarrow> if c = CHR ''.'' then ipv4Fields 0 0 0 s else c = CHR '':'' \<and> parseIPv6 s)"

lemma ParseIP_examples:
  "ParseIP ''10.8.0.255''" "ParseIP ''::1''" "ParseIP ''::''" "ParseIP ''fe80::1:ffff''" "ParseIP ''::ffff:10.0.0.1''"
  "ParseIP ''1:2:3:4:5:6:7:8''"
  "\<not> ParseIP ''10.8.0.256''" "\<not> ParseIP ''10.08.0.1''" "\<not> ParseIP ''1.2.3''" "\<not> ParseIP ''1.2.3.4.''" "\<not> ParseIP ''1::2::3''"
  "\<not> ParseIP ''1:2:3:4:5:6:7:8::''" "\<not> ParseIP ''fe80::1%eth0''" "\<not> ParseIP ''12345::''" "\<not> ParseIP ''host''"
  by code_simp+

definition ip_char :: "char \<Rightarrow> bool" where
  "ip_char c \<longleftrightarrow> is_hex c \<or> c = CHR ''.'' \<or> c = CHR '':''"

lemma ipv4Fields_chars: "ipv4Fields pos val digLen s \<Longrightarrow> list_all ip_char s"
  by (induction pos val digLen s rule: ipv4Fields.induct) (auto simp: ip_char_def digit_hex split: if_splits)

lemma ipv6Fields_chars: "ipv6Fields k ellipsis s \<Longrightarrow> list_all ip_char s"
proof (induction k arbitrary: ellipsis s)
  case (Suc k)
  let ?h = "takeWhile is_hex s" let ?r = "drop (length ?h) s"
  have s: "s = ?h @ ?r" by (metis append_take_drop_id takeWhile_eq_take)
  have h: "list_all ip_char ?h" by (auto simp: list_all_iff ip_char_def dest: set_takeWhileD)
  have p: "ip_char (CHR '':'')" by (simp add: ip_char_def)
  have "list_all ip_char ?r \<or> list_all ip_char s"
    using Suc.prems Suc.IH ipv4Fields_chars by (auto simp: Let_def p split: list.splits if_splits dest!: Suc.IH)
  moreover have "list_all ip_char ?r \<Longrightarrow> list_all ip_char s" using h by (subst s) simp
  ultimately show ?case by blast
qed simp

lemma ParseIP_chars: "ParseIP s \<Longrightarrow> list_all ip_char s"
proof -
  assume p: "ParseIP s"
  have "list_all ip_char s" if "parseIPv6 s"
  proof (cases "take 2 s = ''::''")
    case True
    have "list_all ip_char (drop 2 s)" using that True ipv6Fields_chars by (auto simp: parseIPv6_def split: if_splits)
    moreover have "list_all ip_char (take 2 s)" using True by (simp add: ip_char_def)
    ultimately show ?thesis by (metis append_take_drop_id list_all_append)
  next
    case False
    then show ?thesis using that ipv6Fields_chars by (simp add: parseIPv6_def)
  qed
  then show ?thesis using p ipv4Fields_chars by (auto simp: ParseIP_def split: option.splits if_splits)
qed


section \<open>Regular expressions\<close>

text \<open>One label of \<^verbatim>\<open>dataguardHostNamePattern\<close>: letters, digits and inner dashes, 63 characters at most.\<close>

definition host_label :: "string \<Rightarrow> bool" where
  "host_label s \<longleftrightarrow> s \<noteq> [] \<and> length s \<le> 63 \<and> is_alnum (hd s) \<and> is_alnum (last s) \<and> list_all (\<lambda>c. is_alnum c \<or> c = CHR ''-'') s"

fun split_dots :: "string \<Rightarrow> string list" where
  "split_dots [] = [[]]"
| "split_dots (c # cs) =
     (case split_dots cs of
        [] \<Rightarrow> []
      | w # ws \<Rightarrow> if c = CHR ''.'' then [] # w # ws else (c # w) # ws)"

definition dataguardHostNamePattern :: "string \<Rightarrow> bool" where
  "dataguardHostNamePattern s = list_all host_label (split_dots s)"

definition dataguardDBUniqueNamePattern :: "string \<Rightarrow> bool" where
  "dataguardDBUniqueNamePattern s \<longleftrightarrow>
     s \<noteq> [] \<and> is_alpha (hd s) \<and> length s \<le> 30 \<and> list_all (\<lambda>c. is_alnum c \<or> c \<in> set ''_$#'') (tl s)"

definition dataguardServiceNamePattern :: "string \<Rightarrow> bool" where
  "dataguardServiceNamePattern s \<longleftrightarrow>
     s \<noteq> [] \<and> is_alnum (hd s) \<and> length s \<le> 256 \<and> list_all (\<lambda>c. is_alnum c \<or> c \<in> set ''_$#.-'') (tl s)"

lemma split_dots_nonempty [simp]: "split_dots s \<noteq> []"
  by (induction s) (auto split: list.splits)

lemma split_dots_set: "set s \<subseteq> insert (CHR ''.'') (\<Union>w \<in> set (split_dots s). set w)"
proof (induction s)
  case (Cons c cs)
  obtain w ws where "split_dots cs = w # ws" by (cases "split_dots cs") simp_all
  then show ?case using Cons by auto
qed simp

lemma hostPattern_chars:
  "dataguardHostNamePattern s \<Longrightarrow> c \<in> set s \<Longrightarrow> is_alnum c \<or> c = CHR ''-'' \<or> c = CHR ''.''"
  using split_dots_set [of s] by (fastforce simp: dataguardHostNamePattern_def list_all_iff host_label_def)


section \<open>The checks\<close>

datatype nameError = NameRequired | ControlCharacter | TooLong | BadShape

definition TrimPrefixChar :: "char \<Rightarrow> string \<Rightarrow> string" where
  "TrimPrefixChar c s = (if s \<noteq> [] \<and> hd s = c then tl s else s)"

definition TrimSuffixChar :: "char \<Rightarrow> string \<Rightarrow> string" where
  "TrimSuffixChar c s = (if s \<noteq> [] \<and> last s = c then butlast s else s)"

definition ValidateDataguardHost :: "string \<Rightarrow> nameError option" where
  "ValidateDataguardHost value =
     (let trimmed = TrimSpace value; ipCandidate = TrimPrefixChar (CHR ''['') (TrimSuffixChar (CHR '']'') trimmed) in
      if trimmed = [] then Some NameRequired
      else if list_ex is_control trimmed then Some ControlCharacter
      else if ParseIP ipCandidate then None
      else if length trimmed > 253 then Some TooLong
      else if \<not> dataguardHostNamePattern trimmed then Some BadShape
      else None)"

definition ValidateDataguardDBUniqueName :: "string \<Rightarrow> nameError option" where
  "ValidateDataguardDBUniqueName value =
     (let trimmed = TrimSpace value in
      if trimmed = [] then Some NameRequired
      else if \<not> dataguardDBUniqueNamePattern trimmed then Some BadShape
      else None)"

definition ValidateDataguardServiceName :: "string \<Rightarrow> nameError option" where
  "ValidateDataguardServiceName value =
     (let trimmed = TrimSpace value in
      if trimmed = [] then Some NameRequired
      else if \<not> dataguardServiceNamePattern trimmed then Some BadShape
      else None)"

definition ValidateDataguardSingleLineText :: "string \<Rightarrow> nameError option" where
  "ValidateDataguardSingleLineText value =
     (let trimmed = TrimSpace value in
      if trimmed = [] then None else if list_ex is_control trimmed then Some ControlCharacter else None)"

text \<open>
  A character that cannot end or start anything in a TNS descriptor, a DGMGRL or SQL script, or a shell
  word: letters, digits and the punctuation of host, service and database names.
\<close>

definition inert :: "char \<Rightarrow> bool" where
  "inert c \<longleftrightarrow> is_alnum c \<or> c \<in> set ''-.:[]_$#''"

lemma inert_excludes:
  "inert c \<Longrightarrow> c \<notin> set ''()=,;&|<>*?!%@~^{}/+ '' \<and> c \<noteq> CHR 0x22 \<and> c \<noteq> CHR 0x27 \<and> c \<noteq> CHR 0x60 \<and> c \<noteq> CHR 0x5C \<and> \<not> is_control c"
  by (auto simp: inert_def is_alnum_def is_alpha_def is_digit_def is_control_def Let_def)

lemma ip_char_inert: "ip_char c \<Longrightarrow> inert c"
  by (auto simp: ip_char_def inert_def hex_alnum)

lemma bracketed_chars:
  assumes "list_all P (TrimPrefixChar p (TrimSuffixChar q s))" and "P p" and "P q"
  shows "list_all P s"
proof -
  have "list_all P (TrimSuffixChar q s)"
    using assms(1,2) by (cases "TrimSuffixChar q s") (auto simp: TrimPrefixChar_def split: if_splits)
  then show ?thesis
    using assms(3) by (cases s rule: rev_cases) (auto simp: TrimSuffixChar_def split: if_splits)
qed

lemma host_inert:
  assumes "ValidateDataguardHost value = None"
  shows "TrimSpace value \<noteq> [] \<and> list_all inert (TrimSpace value)"
proof -
  let ?t = "TrimSpace value"
  have ne: "?t \<noteq> []" using assms by (auto simp: ValidateDataguardHost_def Let_def split: if_splits)
  consider (ip) "ParseIP (TrimPrefixChar (CHR ''['') (TrimSuffixChar (CHR '']'') ?t))" | (name) "dataguardHostNamePattern ?t"
    using assms by (auto simp: ValidateDataguardHost_def Let_def split: if_splits)
  then have "list_all inert ?t"
  proof cases
    case ip
    then have "list_all inert (TrimPrefixChar (CHR ''['') (TrimSuffixChar (CHR '']'') ?t))"
      using ParseIP_chars ip_char_inert by (auto simp: list_all_iff)
    then show ?thesis by (rule bracketed_chars) (simp_all add: inert_def)
  next
    case name
    then show ?thesis using hostPattern_chars by (fastforce simp: list_all_iff inert_def)
  qed
  with ne show ?thesis by simp
qed

lemma head_tail_all: "s \<noteq> [] \<Longrightarrow> P (hd s) \<Longrightarrow> list_all P (tl s) \<Longrightarrow> list_all P s"
  by (cases s) simp_all

lemma list_all_mono: "list_all P xs \<Longrightarrow> (\<And>x. P x \<Longrightarrow> Q x) \<Longrightarrow> list_all Q xs"
  by (simp add: list_all_iff)

lemma service_inert:
  assumes "ValidateDataguardServiceName value = None"
  shows "TrimSpace value \<noteq> [] \<and> list_all inert (TrimSpace value)"
proof -
  have p: "dataguardServiceNamePattern (TrimSpace value)"
    using assms by (auto simp: ValidateDataguardServiceName_def Let_def split: if_splits)
  have "list_all inert (TrimSpace value)"
    by (rule head_tail_all) (use p in \<open>auto simp: dataguardServiceNamePattern_def inert_def elim: list_all_mono\<close>)
  then show ?thesis using p by (simp add: dataguardServiceNamePattern_def)
qed

lemma dbUniqueName_inert:
  assumes "ValidateDataguardDBUniqueName value = None"
  shows "TrimSpace value \<noteq> [] \<and> list_all inert (TrimSpace value)"
proof -
  have p: "dataguardDBUniqueNamePattern (TrimSpace value)"
    using assms by (auto simp: ValidateDataguardDBUniqueName_def Let_def split: if_splits)
  have "list_all inert (TrimSpace value)"
    by (rule head_tail_all) (use p in \<open>auto simp: dataguardDBUniqueNamePattern_def inert_def is_alnum_def elim: list_all_mono\<close>)
  then show ?thesis using p by (simp add: dataguardDBUniqueNamePattern_def)
qed

end
