(* ===== verification/Dataguard_Broker.thy ===== *)
theory Dataguard_Broker
  imports Dataguard_Names Dataguard_Types
begin

text \<open>
  The validating webhook of \<^verbatim>\<open>DataguardBroker\<close> (\<^verbatim>\<open>apis/database/v4/dataguardbroker_webhook.go\<close>): a broker is given
  either the names of its databases (the legacy form) or a whole topology, and a topology is fixed once the
  controller has started on it.
\<close>

section \<open>Roles, modes and the legacy form\<close>

definition normalizeDataguardMemberRole :: "string \<Rightarrow> string" where
  "normalizeDataguardMemberRole role = ToUpper (TrimSpace role)"

definition isValidDataguardMemberRole :: "string \<Rightarrow> bool" where
  "isValidDataguardMemberRole role \<longleftrightarrow> normalizeDataguardMemberRole role \<in> {''PRIMARY'', ''PHYSICAL_STANDBY'', ''SNAPSHOT_STANDBY''}"

definition isStandbyCompatibleDataguardRole :: "string \<Rightarrow> bool" where
  "isStandbyCompatibleDataguardRole role \<longleftrightarrow> normalizeDataguardMemberRole role \<in> {''PHYSICAL_STANDBY'', ''SNAPSHOT_STANDBY''}"

definition isValidDataguardProtectionMode :: "string \<Rightarrow> bool" where
  "isValidDataguardProtectionMode mode \<longleftrightarrow> TrimSpace mode \<in> {''MaxPerformance'', ''MaxAvailability''}"

definition validateDataguardBrokerOperations :: "DataguardBrokerSpec \<Rightarrow> error_list" where
  "validateDataguardBrokerOperations spec =
     (case Option.bind (dbs_Operations spec) ops_RoleConversion of
        None \<Rightarrow> []
      | Some op \<Rightarrow>
          let p = [Child ''spec'', Child ''operations'', Child ''roleConversion'']; role = normalizeDataguardMemberRole (rco_Role op) in
          (if blank (rco_RequestID op) then [Required (p @ [Child ''requestId''])] else [])
          @ (if blank (rco_Target op) then [Required (p @ [Child ''target''])] else [])
          @ (if role \<noteq> ''PHYSICAL_STANDBY'' \<and> role \<noteq> ''SNAPSHOT_STANDBY''
             then [Invalid (p @ [Child ''role'']) (BVString (rco_Role op))] else []))"

text \<open>The loop over the standbys of the legacy form; a name equal to the primary is reported and registered.\<close>

definition legacyStandbyErrs :: "string \<Rightarrow> nat \<Rightarrow> string \<Rightarrow> error_list" where
  "legacyStandbyErrs primaryRef i standbyRef =
     (let p = [Child ''spec'', Child ''standbyDatabaseRefs'', Index i]; trimmed = TrimSpace standbyRef in
      if trimmed = [] then [Required p]
      else if trimmed = primaryRef \<and> primaryRef \<noteq> [] then [Invalid p (BVString standbyRef)] else [])"

definition legacyKey :: "string \<Rightarrow> string option" where
  "legacyKey standbyRef = (let trimmed = TrimSpace standbyRef in if trimmed = [] then None else Some (ToLower trimmed))"

definition validateLegacyDataguardBroker :: "DataguardBrokerSpec \<Rightarrow> error_list" where
  "validateLegacyDataguardBroker spec =
     (let primaryRef = TrimSpace (dbs_PrimaryDatabaseRef spec) in
      (if primaryRef = [] then [Required [Child ''spec'', Child ''primaryDatabaseRef'']] else [])
      @ (if dbs_StandbyDatabaseRefs spec = [] then [Required [Child ''spec'', Child ''standbyDatabaseRefs'']] else [])
      @ range_seen (legacyStandbyErrs primaryRef) legacyKey
          (\<lambda>i standbyRef _. Duplicate [Child ''spec'', Child ''standbyDatabaseRefs'', Index i] (BVString standbyRef))
          (\<lambda>_ _. []) (dbs_StandbyDatabaseRefs spec)
      @ (if \<not> isValidDataguardProtectionMode (dbs_ProtectionMode spec)
         then [Invalid [Child ''spec'', Child ''protectionMode''] (BVString (dbs_ProtectionMode spec))] else [])
      @ (if dbs_Execution spec \<noteq> None then [Forbidden [Child ''spec'', Child ''execution'']] else []))"

definition validateNoMixedTopologyAndLegacy :: "DataguardBrokerSpec \<Rightarrow> error_list" where
  "validateNoMixedTopologyAndLegacy spec =
     (if dbs_Topology spec = None then []
      else
        (if \<not> blank (dbs_PrimaryDatabaseRef spec) then [Forbidden [Child ''spec'', Child ''primaryDatabaseRef'']] else [])
        @ (if dbs_StandbyDatabaseRefs spec \<noteq> [] then [Forbidden [Child ''spec'', Child ''standbyDatabaseRefs'']] else [])
        @ (if \<not> blank (dbs_ProtectionMode spec) then [Forbidden [Child ''spec'', Child ''protectionMode'']] else [])
        @ (if dbs_FastStartFailover spec then [Forbidden [Child ''spec'', Child ''fastStartFailover'']] else []))"


section \<open>The execution runtime\<close>

definition memberRequiresRuntime :: "DataguardTopologyMember \<Rightarrow> bool" where
  "memberRequiresRuntime member \<longleftrightarrow>
     (case mem_LocalRef member of
        None \<Rightarrow> True
      | Some ref \<Rightarrow> (let kind = TrimSpace (lref_Kind ref) in kind \<noteq> [] \<and> \<not> EqualFold kind ''SingleInstanceDatabase'')) \<or>
     (case mem_TCPS member of None \<Rightarrow> False | Some t \<Rightarrow> tcps_Enabled t) \<or>
     list_ex (\<lambda>e. EqualFold (TrimSpace (ep_Protocol e)) ''TCPS'') (mem_Endpoints member)"

definition dataguardTopologyRequiresExecutionRuntime :: "DataguardTopologySpec option \<Rightarrow> bool" where
  "dataguardTopologyRequiresExecutionRuntime topology =
     (case topology of None \<Rightarrow> False | Some t \<Rightarrow> list_ex memberRequiresRuntime (top_Members t))"

definition validateDataguardExecution :: "DataguardBrokerSpec \<Rightarrow> error_list" where
  "validateDataguardExecution spec =
     (let runtime = dataguardTopologyRequiresExecutionRuntime (dbs_Topology spec); p = [Child ''spec'', Child ''execution''] in
      case dbs_Execution spec of
        None \<Rightarrow> if runtime then [Required p] else []
      | Some execution \<Rightarrow>
          (if blank (exe_Image execution) \<and>
              (exe_ImagePullSecrets execution \<noteq> [] \<or> \<not> blank (exe_WalletMountPath execution) \<or> \<not> blank (exe_TNSAdminPath execution))
           then [Required (p @ [Child ''image''])] else [])
          @ (if runtime \<and> blank (exe_Image execution) then [Required (p @ [Child ''image''])] else [])
          @ range_errs (\<lambda>i secretName. if blank secretName then [Required (p @ [Child ''imagePullSecrets'', Index i])] else [])
              (exe_ImagePullSecrets execution)
          @ (case Option.bind (exe_AuthWallet execution) awl_PasswordSecretRef of
               None \<Rightarrow> []
             | Some r \<Rightarrow> if blank (dsr_SecretName r)
                 then [Required (p @ [Child ''authWallet'', Child ''passwordSecretRef'', Child ''secretName''])] else []))"


section \<open>The topology\<close>

definition validateDataguardTopologyTextField :: "path \<Rightarrow> string \<Rightarrow> error_list" where
  "validateDataguardTopologyTextField p value =
     (if blank value then []
      else if ValidateDataguardSingleLineText value \<noteq> None then [Invalid p (BVString value)] else [])"

definition validateDataguardTopologyDBUniqueName :: "path \<Rightarrow> DataguardTopologyMember \<Rightarrow> error_list" where
  "validateDataguardTopologyDBUniqueName memberPath member =
     (let dbUniqueName = TrimSpace (mem_DBUniqueName member); name = TrimSpace (mem_Name member) in
      if dbUniqueName \<noteq> [] then
        (if ValidateDataguardDBUniqueName dbUniqueName \<noteq> None
         then [Invalid (memberPath @ [Child ''dbUniqueName'']) (BVString (mem_DBUniqueName member))] else [])
      else if name = [] then []
      else if ValidateDataguardDBUniqueName name \<noteq> None
      then [Invalid (memberPath @ [Child ''dbUniqueName'']) (BVString (mem_Name member))] else [])"

definition resolvedDBUniqueName :: "DataguardTopologyMember \<Rightarrow> string" where
  "resolvedDBUniqueName member =
     (let dbUniqueName = TrimSpace (mem_DBUniqueName member) in if dbUniqueName = [] then TrimSpace (mem_Name member) else dbUniqueName)"

definition endpointErrs :: "path \<Rightarrow> DataguardEndpointSpec \<Rightarrow> error_list" where
  "endpointErrs p endpoint =
     validateDataguardTopologyTextField (p @ [Child ''host'']) (ep_Host endpoint)
     @ validateDataguardTopologyTextField (p @ [Child ''serviceName'']) (ep_ServiceName endpoint)
     @ validateDataguardTopologyTextField (p @ [Child ''sslServerDN'']) (ep_SSLServerDN endpoint)
     @ (if ep_Port endpoint \<le> 0 then [Invalid (p @ [Child ''port'']) (BVInt (ep_Port endpoint))] else [])
     @ (if blank (ep_Host endpoint) then [Required (p @ [Child ''host''])]
        else if ValidateDataguardHost (ep_Host endpoint) \<noteq> None then [Invalid (p @ [Child ''host'']) (BVString (ep_Host endpoint))] else [])
     @ (if blank (ep_ServiceName endpoint) then [Required (p @ [Child ''serviceName''])]
        else if ValidateDataguardServiceName (ep_ServiceName endpoint) \<noteq> None
        then [Invalid (p @ [Child ''serviceName'']) (BVString (ep_ServiceName endpoint))] else [])
     @ (let protocol = ToUpper (TrimSpace (ep_Protocol endpoint)) in
        if protocol = ''TCP'' \<or> protocol = ''TCPS'' then [] else [Invalid (p @ [Child ''protocol'']) (BVString (ep_Protocol endpoint))])"

definition tcpsEndpointCount :: "DataguardEndpointSpec list \<Rightarrow> nat" where
  "tcpsEndpointCount es = length (filter (\<lambda>e. ToUpper (TrimSpace (ep_Protocol e)) = ''TCPS'') es)"

definition memberRefErrs :: "string \<Rightarrow> path \<Rightarrow> DataguardTopologySpec \<Rightarrow> DataguardTopologyMember \<Rightarrow> error_list" where
  "memberRefErrs brokerNamespace p topology member =
     (case ResolveDataguardTopologyMemberExplicitAdminSecretRef topology member of (adminSecretName, _, explicit) \<Rightarrow>
        (if mem_LocalRef member = None \<and> mem_Endpoints member = [] then [Required p] else [])
        @ (if explicit \<and> adminSecretName = [] then [Required (p @ [Child ''adminSecretRef'', Child ''secretName''])] else [])
        @ (if mem_LocalRef member = None \<and> \<not> explicit then [Required (p @ [Child ''adminSecretRef''])] else [])
        @ (case mem_LocalRef member of
             None \<Rightarrow> []
           | Some ref \<Rightarrow>
               (if blank (lref_Name ref) then [Required (p @ [Child ''localRef'', Child ''name''])] else [])
               @ (let localNamespace = TrimSpace (lref_Namespace ref) in
                  if localNamespace \<noteq> [] \<and> localNamespace \<noteq> TrimSpace brokerNamespace \<and> \<not> explicit
                  then [Invalid (p @ [Child ''localRef'', Child ''namespace'']) (BVString (lref_Namespace ref))] else [])
               @ (let kind = TrimSpace (lref_Kind ref) in
                  if kind \<noteq> [] \<and> \<not> EqualFold kind ''SingleInstanceDatabase'' \<and> \<not> explicit
                  then [Required (p @ [Child ''adminSecretRef''])] else []))
        @ (case mem_AdminSecretRef member of
             None \<Rightarrow> []
           | Some r \<Rightarrow> if blank (dsr_SecretName r) then [Required (p @ [Child ''adminSecretRef'', Child ''secretName''])] else []))"

definition memberEndpointErrs :: "path \<Rightarrow> DataguardTopologySpec \<Rightarrow> DataguardTopologyMember \<Rightarrow> error_list" where
  "memberEndpointErrs p topology member =
     (case mem_TCPS member of None \<Rightarrow> []
      | Some t \<Rightarrow> validateDataguardTopologyTextField (p @ [Child ''tcps'', Child ''sslServerDN'']) (tcps_SSLServerDN t))
     @ range_errs (\<lambda>j. endpointErrs (p @ [Child ''endpoints'', Index j])) (mem_Endpoints member)
     @ (case mem_TCPS member of
          None \<Rightarrow> []
        | Some t \<Rightarrow>
            (if tcps_Enabled t \<and> tcpsEndpointCount (mem_Endpoints member) = 0 then [Required (p @ [Child ''endpoints''])] else [])
            @ (if tcps_Enabled t \<and> ResolveDataguardTopologyMemberClientWalletSecret topology member = []
               then [Required (p @ [Child ''tcps'', Child ''clientWalletSecret''])] else []))"

text \<open>The state of the loop over the members: the names and unique names seen, and the number of primaries.\<close>

record topologyScan =
  scan_names :: "string set"
  scan_dbNames :: "string set"
  scan_primaries :: nat
  scan_errs :: error_list

definition memberStep :: "string \<Rightarrow> DataguardTopologySpec \<Rightarrow> nat \<Rightarrow> DataguardTopologyMember \<Rightarrow> topologyScan \<Rightarrow> topologyScan" where
  "memberStep brokerNamespace topology i member st =
     (let p = [Child ''spec'', Child ''topology'', Child ''members'', Index i];
          name = TrimSpace (mem_Name member); nameKey = ToLower name;
          role = normalizeDataguardMemberRole (mem_Role member);
          dbName = resolvedDBUniqueName member; dbKey = ToLower dbName in
      \<lparr>scan_names = (if name = [] then scan_names st else insert nameKey (scan_names st)),
       scan_dbNames = (if dbName = [] then scan_dbNames st else insert dbKey (scan_dbNames st)),
       scan_primaries = scan_primaries st + (if role = ''PRIMARY'' then 1 else 0),
       scan_errs = scan_errs st
         @ validateDataguardTopologyTextField (p @ [Child ''name'']) (mem_Name member)
         @ validateDataguardTopologyTextField (p @ [Child ''dbUniqueName'']) (mem_DBUniqueName member)
         @ validateDataguardTopologyDBUniqueName p member
         @ (if name = [] then [Required (p @ [Child ''name''])]
            else if nameKey \<in> scan_names st then [Duplicate (p @ [Child ''name'']) (BVString (mem_Name member))] else [])
         @ (if \<not> isValidDataguardMemberRole role then [Invalid (p @ [Child ''role'']) (BVString (mem_Role member))] else [])
         @ (if dbName \<noteq> [] \<and> dbKey \<in> scan_dbNames st then [Duplicate (p @ [Child ''dbUniqueName'']) (BVString dbName)] else [])
         @ memberRefErrs brokerNamespace p topology member
         @ memberEndpointErrs p topology member\<rparr>)"

definition policyErrs :: "DataguardTopologySpec \<Rightarrow> error_list" where
  "policyErrs topology =
     (let p = [Child ''spec'', Child ''topology''] in
      (case top_Policy topology of
         None \<Rightarrow> []
       | Some pol \<Rightarrow>
           (let mode = TrimSpace (pol_ProtectionMode pol) in
            if mode \<noteq> [] \<and> \<not> isValidDataguardProtectionMode mode
            then [Invalid (p @ [Child ''policy'', Child ''protectionMode'']) (BVString (pol_ProtectionMode pol))] else [])
           @ (let mode = ToUpper (TrimSpace (pol_TransportMode pol)) in
              if mode \<noteq> [] \<and> mode \<noteq> ''SYNC'' \<and> mode \<noteq> ''ASYNC''
              then [Invalid (p @ [Child ''policy'', Child ''transportMode'']) (BVString (pol_TransportMode pol))] else []))
      @ (case top_Observer topology of
           None \<Rightarrow> []
         | Some obs \<Rightarrow>
             if \<not> obs_Enabled obs then []
             else (if blank (obs_Name obs) then [Required (p @ [Child ''observer'', Child ''name''])] else [])
                  @ (if blank (obs_Image obs) then [Required (p @ [Child ''observer'', Child ''image''])] else []))
      @ (case Option.bind (top_Defaults topology) dfl_AdminSecretRef of
           None \<Rightarrow> []
         | Some r \<Rightarrow> if blank (dsr_SecretName r)
             then [Required (p @ [Child ''defaults'', Child ''adminSecretRef'', Child ''secretName''])] else []))"

definition validateDataguardTopology :: "string \<Rightarrow> DataguardTopologySpec \<Rightarrow> error_list" where
  "validateDataguardTopology brokerNamespace topology =
     (let p = [Child ''spec'', Child ''topology'', Child ''members''];
          st = range_fold (memberStep brokerNamespace topology) (top_Members topology)
                 \<lparr>scan_names = {}, scan_dbNames = {}, scan_primaries = 0,
                  scan_errs = (if top_Members topology = [] then [Required p] else [])\<rparr> in
      scan_errs st
      @ (if scan_primaries st \<noteq> 1 then [Invalid p (BVInt (int (scan_primaries st)))] else [])
      @ policyErrs topology)"


section \<open>Updates and the webhook\<close>

definition normalizeMutableDataguardExecutionSpec :: "DataguardExecutionSpec option \<Rightarrow> DataguardExecutionSpec option" where
  "normalizeMutableDataguardExecutionSpec spec =
     map_option (\<lambda>e. e\<lparr>exe_AuthWallet := map_option (\<lambda>w. w\<lparr>awl_RebuildToken := []\<rparr>) (exe_AuthWallet e)\<rparr>) spec"

definition isDataguardBrokerTopologyLocked :: "DataguardBroker \<Rightarrow> bool" where
  "isDataguardBrokerTopologyLocked broker \<longleftrightarrow>
     (let st = brk_Status broker in
      \<not> blank (dbt_Status st) \<or> \<not> blank (dbt_ObservedTopologyHash st) \<or> dbt_ResolvedMembers st \<noteq> [] \<or> dbt_Conditions st \<noteq> [])"

definition validateDataguardTopologyUpdate :: "DataguardBroker \<Rightarrow> DataguardBroker \<Rightarrow> error_list" where
  "validateDataguardTopologyUpdate oldObj newObj =
     (if \<not> isDataguardBrokerTopologyLocked oldObj then []
      else
        (if dbs_Topology (brk_Spec oldObj) \<noteq> dbs_Topology (brk_Spec newObj) then [Forbidden [Child ''spec'', Child ''topology'']] else [])
        @ (if normalizeMutableDataguardExecutionSpec (dbs_Execution (brk_Spec oldObj)) \<noteq>
              normalizeMutableDataguardExecutionSpec (dbs_Execution (brk_Spec newObj))
           then [Forbidden [Child ''spec'', Child ''execution'']] else []))"

definition validateDataguardBroker :: "DataguardBroker option \<Rightarrow> DataguardBroker \<Rightarrow> error_list" where
  "validateDataguardBroker oldObj newObj =
     (case dbs_Topology (brk_Spec newObj) of
        Some topology \<Rightarrow>
          validateNoMixedTopologyAndLegacy (brk_Spec newObj)
          @ validateDataguardExecution (brk_Spec newObj)
          @ validateDataguardTopology (brk_Namespace newObj) topology
          @ validateDataguardBrokerOperations (brk_Spec newObj)
          @ (case oldObj of None \<Rightarrow> [] | Some old \<Rightarrow> validateDataguardTopologyUpdate old newObj)
      | None \<Rightarrow> validateLegacyDataguardBroker (brk_Spec newObj))"

definition DataguardBroker_ValidateCreate :: "DataguardBroker \<Rightarrow> error_list" where
  "DataguardBroker_ValidateCreate obj = validateDataguardBroker None obj"

definition DataguardBroker_ValidateUpdate :: "DataguardBroker \<Rightarrow> DataguardBroker \<Rightarrow> error_list" where
  "DataguardBroker_ValidateUpdate oldObj newObj = validateDataguardBroker (Some oldObj) newObj"

definition DataguardBroker_ValidateDelete :: "DataguardBroker \<Rightarrow> error_list" where
  "DataguardBroker_ValidateDelete obj = []"


section \<open>What acceptance means\<close>

text \<open>The errors of a member that do not depend on the members before it.\<close>

definition memberErrs :: "string \<Rightarrow> DataguardTopologySpec \<Rightarrow> nat \<Rightarrow> DataguardTopologyMember \<Rightarrow> error_list" where
  "memberErrs brokerNamespace topology i member =
     (let p = [Child ''spec'', Child ''topology'', Child ''members'', Index i] in
      validateDataguardTopologyTextField (p @ [Child ''name'']) (mem_Name member)
      @ validateDataguardTopologyTextField (p @ [Child ''dbUniqueName'']) (mem_DBUniqueName member)
      @ validateDataguardTopologyDBUniqueName p member
      @ (if blank (mem_Name member) then [Required (p @ [Child ''name''])] else [])
      @ (if \<not> isValidDataguardMemberRole (mem_Role member) then [Invalid (p @ [Child ''role'']) (BVString (mem_Role member))] else [])
      @ memberRefErrs brokerNamespace p topology member
      @ memberEndpointErrs p topology member)"

definition nameKey :: "DataguardTopologyMember \<Rightarrow> string" where
  "nameKey member = ToLower (TrimSpace (mem_Name member))"

definition dbKey :: "DataguardTopologyMember \<Rightarrow> string" where
  "dbKey member = ToLower (resolvedDBUniqueName member)"

definition isPrimaryMember :: "DataguardTopologyMember \<Rightarrow> bool" where
  "isPrimaryMember member \<longleftrightarrow> normalizeDataguardMemberRole (mem_Role member) = ''PRIMARY''"

lemma normalizeRole_idem [simp]: "normalizeDataguardMemberRole (normalizeDataguardMemberRole r) = normalizeDataguardMemberRole r"
  by (simp add: normalizeDataguardMemberRole_def go_string)

lemma isValidRole_normalize [simp]: "isValidDataguardMemberRole (normalizeDataguardMemberRole r) = isValidDataguardMemberRole r"
  by (simp add: isValidDataguardMemberRole_def)

lemma resolvedDBUniqueName_Nil_iff: "resolvedDBUniqueName m = [] \<longleftrightarrow> blank (mem_DBUniqueName m) \<and> blank (mem_Name m)"
  by (simp add: resolvedDBUniqueName_def Let_def)

lemma memberStep_errs_Nil_iff:
  "scan_errs (memberStep ns t i m st) = [] \<longleftrightarrow>
     scan_errs st = [] \<and> memberErrs ns t i m = [] \<and> nameKey m \<notin> scan_names st \<and> dbKey m \<notin> scan_dbNames st"
  unfolding memberStep_def memberErrs_def Let_def nameKey_def dbKey_def
  by (simp add: resolvedDBUniqueName_Nil_iff) blast

lemma memberStep_seen:
  "\<not> blank (mem_Name m) \<Longrightarrow> scan_names (memberStep ns t i m st) = insert (nameKey m) (scan_names st)"
  "\<not> blank (mem_Name m) \<Longrightarrow> scan_dbNames (memberStep ns t i m st) = insert (dbKey m) (scan_dbNames st)"
  by (simp_all add: memberStep_def nameKey_def dbKey_def Let_def resolvedDBUniqueName_Nil_iff)

lemma memberErrs_named: "memberErrs ns t i m = [] \<Longrightarrow> \<not> blank (mem_Name m)"
  by (auto simp: memberErrs_def Let_def split: if_splits)

lemma scan_errs_keep: "scan_errs (range_fold_from k (memberStep ns t) ms st) = [] \<Longrightarrow> scan_errs st = []"
proof (induction ms arbitrary: k st)
  case (Cons m ms)
  have "scan_errs (memberStep ns t k m st) = []" by (rule Cons.IH [of "Suc k"]) (use Cons.prems in simp)
  then show ?case by (simp only: memberStep_errs_Nil_iff)
qed simp

lemma scan_errs_Nil_iff:
  "scan_errs (range_fold_from k (memberStep ns t) ms st) = [] \<longleftrightarrow>
     scan_errs st = [] \<and> (\<forall>i < length ms. memberErrs ns t (k + i) (ms ! i) = []) \<and>
     distinct (map nameKey ms) \<and> distinct (map dbKey ms) \<and> nameKey ` set ms \<inter> scan_names st = {} \<and> dbKey ` set ms \<inter> scan_dbNames st = {}"
proof (induction ms arbitrary: k st)
  case (Cons m ms)
  have idx: "(\<forall>i < length (m # ms). memberErrs ns t (k + i) ((m # ms) ! i) = []) \<longleftrightarrow>
      memberErrs ns t k m = [] \<and> (\<forall>i < length ms. memberErrs ns t (Suc k + i) (ms ! i) = [])"
    by (auto simp: less_Suc_eq_0_disj)
  show ?case
  proof (cases "memberErrs ns t k m = []")
    case True
    from memberErrs_named [OF True] show ?thesis
      unfolding idx by (auto simp: Cons.IH memberStep_errs_Nil_iff memberStep_seen)
  next
    case False
    then show ?thesis using scan_errs_keep [of "Suc k" ns t ms "memberStep ns t k m st"]
      unfolding idx by (auto simp: memberStep_errs_Nil_iff)
  qed
qed simp

lemma scan_primaries_fold:
  "scan_primaries (range_fold_from k (memberStep ns t) ms st) = scan_primaries st + length (filter isPrimaryMember ms)"
  by (induction ms arbitrary: k st) (simp_all add: memberStep_def isPrimaryMember_def Let_def)

lemma topology_Nil_iff:
  "validateDataguardTopology ns t = [] \<longleftrightarrow>
     (\<forall>i < length (top_Members t). memberErrs ns t i (top_Members t ! i) = []) \<and> distinct (map nameKey (top_Members t)) \<and>
     distinct (map dbKey (top_Members t)) \<and> length (filter isPrimaryMember (top_Members t)) = 1 \<and> policyErrs t = []"
  by (auto simp: validateDataguardTopology_def range_fold_def scan_errs_Nil_iff scan_primaries_fold Let_def)


subsection \<open>Members\<close>

lemma textField_Nil_iff: "validateDataguardTopologyTextField p v = [] \<longleftrightarrow> \<not> list_ex is_control (TrimSpace v)"
  by (auto simp: validateDataguardTopologyTextField_def ValidateDataguardSingleLineText_def Let_def)

text \<open>An endpoint with a positive port, a protocol, and a host and service of a shape that scripts can take.\<close>

definition soundEndpoint :: "DataguardEndpointSpec \<Rightarrow> bool" where
  "soundEndpoint e \<longleftrightarrow> 0 < ep_Port e \<and> ToUpper (TrimSpace (ep_Protocol e)) \<in> {''TCP'', ''TCPS''} \<and>
     ValidateDataguardHost (ep_Host e) = None \<and> ValidateDataguardServiceName (ep_ServiceName e) = None \<and>
     \<not> list_ex is_control (TrimSpace (ep_SSLServerDN e))"

lemma list_ex_inert: "list_all inert s \<Longrightarrow> \<not> list_ex is_control s"
  using inert_excludes by (auto simp: list_all_iff list_ex_iff)

lemma endpointErrs_Nil_iff: "endpointErrs p e = [] \<longleftrightarrow> soundEndpoint e"
proof -
  have "ValidateDataguardHost (ep_Host e) = None \<Longrightarrow> \<not> blank (ep_Host e) \<and> \<not> list_ex is_control (TrimSpace (ep_Host e))"
    using host_inert [of "ep_Host e"] list_ex_inert by auto
  moreover have "ValidateDataguardServiceName (ep_ServiceName e) = None \<Longrightarrow>
      \<not> blank (ep_ServiceName e) \<and> \<not> list_ex is_control (TrimSpace (ep_ServiceName e))"
    using service_inert [of "ep_ServiceName e"] list_ex_inert by auto
  ultimately show ?thesis
    by (auto simp: endpointErrs_def soundEndpoint_def textField_Nil_iff Let_def not_le split: if_splits)
qed

text \<open>
  A member that a broker can reach and log in to: an endpoint or a database of the cluster; a secret of its
  own or of the topology, or a single-instance database of the broker's namespace to take it from; a TCPS
  endpoint and a wallet where TCPS is switched on.
\<close>

definition authenticated :: "string \<Rightarrow> DataguardTopologySpec \<Rightarrow> DataguardTopologyMember \<Rightarrow> bool" where
  "authenticated brokerNamespace topology member \<longleftrightarrow>
     (case ResolveDataguardTopologyMemberExplicitAdminSecretRef topology member of (name, _, explicit) \<Rightarrow>
        if explicit then name \<noteq> []
        else (case mem_LocalRef member of None \<Rightarrow> False
              | Some ref \<Rightarrow> TrimSpace (lref_Namespace ref) \<in> {[], TrimSpace brokerNamespace} \<and>
                  (blank (lref_Kind ref) \<or> EqualFold (TrimSpace (lref_Kind ref)) ''SingleInstanceDatabase'')))"

definition soundMember :: "string \<Rightarrow> DataguardTopologySpec \<Rightarrow> DataguardTopologyMember \<Rightarrow> bool" where
  "soundMember brokerNamespace topology member \<longleftrightarrow>
     \<not> blank (mem_Name member) \<and> isValidDataguardMemberRole (mem_Role member) \<and>
     ValidateDataguardDBUniqueName (resolvedDBUniqueName member) = None \<and>
     (mem_LocalRef member \<noteq> None \<or> mem_Endpoints member \<noteq> []) \<and>
     (\<forall>ref. mem_LocalRef member = Some ref \<longrightarrow> \<not> blank (lref_Name ref)) \<and>
     authenticated brokerNamespace topology member \<and>
     list_all soundEndpoint (mem_Endpoints member) \<and>
     (\<forall>t. mem_TCPS member = Some t \<longrightarrow> \<not> list_ex is_control (TrimSpace (tcps_SSLServerDN t)) \<and>
        (tcps_Enabled t \<longrightarrow> tcpsEndpointCount (mem_Endpoints member) > 0 \<and> ResolveDataguardTopologyMemberClientWalletSecret topology member \<noteq> [])) \<and>
     \<not> list_ex is_control (TrimSpace (mem_Name member))"

lemma dbUniqueName_errs_Nil_iff:
  assumes "\<not> blank (mem_Name m)"
  shows "validateDataguardTopologyDBUniqueName p m = [] \<longleftrightarrow> ValidateDataguardDBUniqueName (resolvedDBUniqueName m) = None"
  using assms by (auto simp: validateDataguardTopologyDBUniqueName_def resolvedDBUniqueName_def Let_def)

lemma memberRefErrs_Nil_iff:
  "memberRefErrs ns p t m = [] \<longleftrightarrow> (mem_LocalRef m \<noteq> None \<or> mem_Endpoints m \<noteq> []) \<and>
     (\<forall>ref. mem_LocalRef m = Some ref \<longrightarrow> \<not> blank (lref_Name ref)) \<and> authenticated ns t m"
  by (auto simp: memberRefErrs_def authenticated_def ResolveDataguardTopologyMemberExplicitAdminSecretRef_def Let_def
      split: option.splits)

lemma memberEndpointErrs_Nil_iff:
  "memberEndpointErrs p t m = [] \<longleftrightarrow> list_all soundEndpoint (mem_Endpoints m) \<and>
     (\<forall>c. mem_TCPS m = Some c \<longrightarrow> \<not> list_ex is_control (TrimSpace (tcps_SSLServerDN c)) \<and>
        (tcps_Enabled c \<longrightarrow> tcpsEndpointCount (mem_Endpoints m) > 0 \<and> ResolveDataguardTopologyMemberClientWalletSecret t m \<noteq> []))"
  by (auto simp: memberEndpointErrs_def range_errs_Nil_iff endpointErrs_Nil_iff textField_Nil_iff list_all_length split: option.splits)

lemma memberErrs_Nil_iff: "memberErrs ns t i m = [] \<longleftrightarrow> soundMember ns t m"
proof (cases "blank (mem_Name m)")
  case True
  then show ?thesis by (auto simp: memberErrs_def soundMember_def Let_def)
next
  case False
  have "ValidateDataguardDBUniqueName (resolvedDBUniqueName m) = None \<Longrightarrow> \<not> list_ex is_control (TrimSpace (mem_DBUniqueName m))"
    using dbUniqueName_inert [of "resolvedDBUniqueName m"] list_ex_inert
    by (auto simp: resolvedDBUniqueName_def Let_def split: if_splits)
  then show ?thesis
    using False unfolding memberErrs_def soundMember_def Let_def
    by (auto simp: dbUniqueName_errs_Nil_iff memberRefErrs_Nil_iff memberEndpointErrs_Nil_iff textField_Nil_iff)
qed

lemma broker_topology_parts:
  assumes "validateDataguardBroker old b = []" and "dbs_Topology (brk_Spec b) = Some t"
  shows "validateDataguardTopology (brk_Namespace b) t = []" and "validateNoMixedTopologyAndLegacy (brk_Spec b) = []"
    and "validateDataguardExecution (brk_Spec b) = []" and "validateDataguardBrokerOperations (brk_Spec b) = []"
    and "\<And>o'. old = Some o' \<Longrightarrow> validateDataguardTopologyUpdate o' b = []"
  using assms by (simp_all add: validateDataguardBroker_def)


lemma one_filter_iff:
  "length (filter P xs) = 1 \<longleftrightarrow> (\<exists>i < length xs. P (xs ! i) \<and> (\<forall>j < length xs. j \<noteq> i \<longrightarrow> \<not> P (xs ! j)))"
proof -
  have "length (filter P xs) = 1 \<longleftrightarrow> (\<exists>i. {i. i < length xs \<and> P (xs ! i)} = {i})"
    by (simp add: length_filter_conv_card card_1_singleton_iff)
  also have "\<dots> \<longleftrightarrow> (\<exists>i < length xs. P (xs ! i) \<and> (\<forall>j < length xs. j \<noteq> i \<longrightarrow> \<not> P (xs ! j)))" by auto
  finally show ?thesis .
qed

lemma valid_role_cases: "isValidDataguardMemberRole (mem_Role m) \<longleftrightarrow> isPrimaryMember m \<or> isStandbyCompatibleDataguardRole (mem_Role m)"
  by (auto simp: isValidDataguardMemberRole_def isPrimaryMember_def isStandbyCompatibleDataguardRole_def)

text \<open>The settings of the whole topology: known modes, a named observer where one is switched on, a named default secret.\<close>

definition soundSettings :: "DataguardTopologySpec \<Rightarrow> bool" where
  "soundSettings t \<longleftrightarrow>
     (\<forall>pol. top_Policy t = Some pol \<longrightarrow> TrimSpace (pol_ProtectionMode pol) \<in> {[], ''MaxPerformance'', ''MaxAvailability''} \<and>
        ToUpper (TrimSpace (pol_TransportMode pol)) \<in> {[], ''SYNC'', ''ASYNC''}) \<and>
     (\<forall>obs. top_Observer t = Some obs \<longrightarrow> obs_Enabled obs \<longrightarrow> \<not> blank (obs_Name obs) \<and> \<not> blank (obs_Image obs)) \<and>
     (\<forall>r. Option.bind (top_Defaults t) dfl_AdminSecretRef = Some r \<longrightarrow> \<not> blank (dsr_SecretName r))"

lemma policyErrs_Nil_iff: "policyErrs t = [] \<longleftrightarrow> soundSettings t"
  by (auto simp: policyErrs_def soundSettings_def isValidDataguardProtectionMode_def Let_def split: option.splits)


section \<open>Properties\<close>

text \<open>C12:
  The topology check accepts exactly the sound topologies: one member is the primary and all others are
  standbys; the names of the members and the unique names of their databases differ even without regard to
  case; every member has a valid unique name, a way to be reached, credentials, and a wallet and a TCPS
  endpoint where TCPS is on; and the settings of the whole topology are known ones.
\<close>

theorem broker_topology_accepted_iff:
  "validateDataguardTopology ns t = [] \<longleftrightarrow>
     (\<exists>i < length (top_Members t). isPrimaryMember (top_Members t ! i) \<and>
        (\<forall>j < length (top_Members t). j \<noteq> i \<longrightarrow> isStandbyCompatibleDataguardRole (mem_Role (top_Members t ! j)))) \<and>
     distinct (map nameKey (top_Members t)) \<and> distinct (map dbKey (top_Members t)) \<and>
     (\<forall>m \<in> set (top_Members t). soundMember ns t m) \<and> soundSettings t"
proof -
  let ?ms = "top_Members t"
  have excl: "isStandbyCompatibleDataguardRole (mem_Role m) \<Longrightarrow> \<not> isPrimaryMember m" for m
    by (auto simp: isPrimaryMember_def isStandbyCompatibleDataguardRole_def)
  have split: "soundMember ns t m \<Longrightarrow> \<not> isPrimaryMember m \<longleftrightarrow> isStandbyCompatibleDataguardRole (mem_Role m)" for m
    using valid_role_cases excl by (auto simp: soundMember_def)
  have "(\<forall>m \<in> set ?ms. soundMember ns t m) \<Longrightarrow> length (filter isPrimaryMember ?ms) = 1 \<longleftrightarrow>
      (\<exists>i < length ?ms. isPrimaryMember (?ms ! i) \<and> (\<forall>j < length ?ms. j \<noteq> i \<longrightarrow> isStandbyCompatibleDataguardRole (mem_Role (?ms ! j))))"
    unfolding one_filter_iff using split by (metis nth_mem)
  moreover have "(\<forall>i < length ?ms. memberErrs ns t i (?ms ! i) = []) \<longleftrightarrow> (\<forall>m \<in> set ?ms. soundMember ns t m)"
    by (simp add: memberErrs_Nil_iff all_set_conv_all_nth)
  ultimately show ?thesis unfolding topology_Nil_iff policyErrs_Nil_iff by blast
qed

definition endpointAt :: "string \<Rightarrow> string \<Rightarrow> DataguardEndpointSpec" where
  "endpointAt host service = \<lparr>ep_Name = ''tcp'', ep_Protocol = ''TCP'', ep_Host = host, ep_Port = 1521, ep_ServiceName = service, ep_SSLServerDN = []\<rparr>"

definition plainMember :: "string \<Rightarrow> string \<Rightarrow> DataguardTopologyMember" where
  "plainMember name role = \<lparr>mem_Name = name, mem_Role = role, mem_DBUniqueName = name, mem_LocalRef = None, mem_AdminSecretRef = None,
     mem_Endpoints = [endpointAt (name @ ''.db'') name], mem_TCPS = None\<rparr>"

definition pairTopology :: "DataguardTopologyMember list \<Rightarrow> DataguardTopologySpec" where
  "pairTopology ms = \<lparr>top_SourceKind = [], top_SourceRef = None, top_Policy = None,
     top_Defaults = Some \<lparr>dfl_AdminSecretRef = Some \<lparr>dsr_SecretName = ''adm'', dsr_SecretKey = ''k''\<rparr>, dfl_TCPS = None\<rparr>,
     top_Members = ms, top_Observer = None\<rparr>"

lemma plainMember_checks:
  "ValidateDataguardHost ''p.db'' = None" "ValidateDataguardHost ''s.db'' = None"
  "ValidateDataguardServiceName ''p'' = None" "ValidateDataguardServiceName ''s'' = None"
  "ValidateDataguardDBUniqueName ''p'' = None" "ValidateDataguardDBUniqueName ''s'' = None"
  by code_simp+

lemma plainMember_sound:
  "soundMember ns (pairTopology ms) (plainMember ''p'' ''PRIMARY'')" "soundMember ns (pairTopology ms) (plainMember ''s'' ''physical_standby'')"
  by (simp_all add: soundMember_def plainMember_def endpointAt_def resolvedDBUniqueName_def plainMember_checks soundEndpoint_def authenticated_def
      ResolveDataguardTopologyMemberExplicitAdminSecretRef_def pairTopology_def isValidDataguardMemberRole_def normalizeDataguardMemberRole_def
      is_control_def Let_def go_eval)

abbreviation pairMembers :: "DataguardTopologyMember list" where
  "pairMembers \<equiv> [plainMember ''p'' ''PRIMARY'', plainMember ''s'' ''physical_standby'']"

lemma pair_roles:
  "isPrimaryMember (plainMember n ''PRIMARY'')" "\<not> isPrimaryMember (plainMember n ''physical_standby'')"
  "isStandbyCompatibleDataguardRole (mem_Role (plainMember n ''physical_standby''))"
  "\<not> isStandbyCompatibleDataguardRole (mem_Role (plainMember n ''PRIMARY''))"
  by (simp_all add: isPrimaryMember_def isStandbyCompatibleDataguardRole_def plainMember_def normalizeDataguardMemberRole_def go_eval)

lemma pair_keys: "distinct (map nameKey pairMembers)" "distinct (map dbKey pairMembers)" "soundSettings (pairTopology ms)"
  by (simp_all add: nameKey_def dbKey_def resolvedDBUniqueName_def plainMember_def soundSettings_def pairTopology_def Let_def go_eval)

lemma pairTopology_members [simp]: "top_Members (pairTopology ms) = ms"
  by (simp add: pairTopology_def)

theorem broker_topology_accepted_iff_witness:
  "validateDataguardTopology ''ns'' (pairTopology pairMembers) = [] \<and>
   validateDataguardTopology ''ns'' (pairTopology [plainMember ''p'' ''PRIMARY'', plainMember ''s'' ''PRIMARY'']) \<noteq> []"
  unfolding broker_topology_accepted_iff pairTopology_members
  using pair_roles pair_keys plainMember_sound by (auto intro!: exI [of _ 0] simp: nth_Cons' less_Suc_eq)

text \<open>C11:
  Nothing that a broker takes from an accepted topology into a script or an Oracle Net file can break out
  of its place: unique names, hosts and services are not empty and consist of letters, digits and the
  punctuation of such names only, so in particular of no quote, parenthesis, blank, semicolon, slash or
  control character. IP addresses in brackets included.
\<close>

theorem broker_names_inert:
  assumes "validateDataguardBroker old b = []" and "dbs_Topology (brk_Spec b) = Some t" and "m \<in> set (top_Members t)"
  shows "list_all inert (resolvedDBUniqueName m) \<and> resolvedDBUniqueName m \<noteq> [] \<and>
    list_all (\<lambda>e. list_all inert (TrimSpace (ep_Host e)) \<and> \<not> blank (ep_Host e) \<and>
      list_all inert (TrimSpace (ep_ServiceName e)) \<and> \<not> blank (ep_ServiceName e)) (mem_Endpoints m)"
proof -
  have s: "soundMember (brk_Namespace b) t m"
    using broker_topology_parts(1) [OF assms(1,2)] assms(3) by (auto simp: topology_Nil_iff memberErrs_Nil_iff in_set_conv_nth)
  have "TrimSpace (resolvedDBUniqueName m) = resolvedDBUniqueName m" by (simp add: resolvedDBUniqueName_def Let_def)
  then have "list_all inert (resolvedDBUniqueName m) \<and> resolvedDBUniqueName m \<noteq> []"
    using s dbUniqueName_inert [of "resolvedDBUniqueName m"] by (simp add: soundMember_def)
  moreover have "list_all soundEndpoint (mem_Endpoints m)" using s by (simp add: soundMember_def)
  ultimately show ?thesis
    using host_inert service_inert by (auto simp: list_all_iff soundEndpoint_def)
qed

definition brokerOf :: "DataguardTopologySpec option \<Rightarrow> DataguardBrokerStatus \<Rightarrow> DataguardBroker" where
  "brokerOf t st = \<lparr>brk_Name = ''b'', brk_Namespace = ''ns'', brk_Generation = 1,
     brk_Spec = zeroBrokerSpec\<lparr>dbs_Topology := t, dbs_Execution := map_option (\<lambda>_. \<lparr>exe_Image = ''img'', exe_ImagePullSecrets = [],
       exe_WalletMountPath = [], exe_TNSAdminPath = [], exe_AuthWallet = None\<rparr>) t\<rparr>, brk_Status = st\<rparr>"

definition pairBroker :: "DataguardBrokerStatus \<Rightarrow> DataguardBroker" where
  "pairBroker st = brokerOf (Some (pairTopology pairMembers)) st"

lemma pairBroker_fields [simp]:
  "dbs_Topology (brk_Spec (pairBroker st)) = Some (pairTopology pairMembers)"
  "brk_Namespace (pairBroker st) = ''ns''" "brk_Status (pairBroker st) = st"
  by (simp_all add: pairBroker_def brokerOf_def)

lemma pair_topology_accepted: "validateDataguardTopology ''ns'' (pairTopology pairMembers) = []"
  unfolding topology_Nil_iff policyErrs_Nil_iff memberErrs_Nil_iff pairTopology_members
  using pair_roles pair_keys plainMember_sound by (auto simp: nth_Cons' less_Suc_eq)

lemma pairBroker_accepted: "validateDataguardBroker None (pairBroker st) = []"
  using pair_topology_accepted
  by (simp add: validateDataguardBroker_def)
     (simp add: pairBroker_def brokerOf_def validateNoMixedTopologyAndLegacy_def validateDataguardExecution_def
      validateDataguardBrokerOperations_def zeroBrokerSpec_def Let_def go_eval)

theorem broker_names_inert_witness:
  "validateDataguardBroker None (pairBroker zeroBrokerStatus) = [] \<and> list_all inert (resolvedDBUniqueName (plainMember ''p'' ''PRIMARY''))"
  using broker_names_inert [OF pairBroker_accepted pairBroker_fields(1), of "plainMember ''p'' ''PRIMARY''"] pairBroker_accepted
  by (simp add: pairTopology_def)


section \<open>The life of a broker\<close>

text \<open>
  A stored broker changes by an admitted update, which keeps the status, or by the controller, which
  writes the status and keeps the specification.
\<close>

inductive brokerStep :: "DataguardBroker \<Rightarrow> DataguardBroker \<Rightarrow> bool" where
  update: "DataguardBroker_ValidateUpdate b b' = [] \<Longrightarrow> brk_Status b' = brk_Status b \<Longrightarrow> brokerStep b b'"
| status: "brk_Spec b' = brk_Spec b \<Longrightarrow> brokerStep b b'"

abbreviation fixedPart :: "DataguardBroker \<Rightarrow> DataguardTopologySpec option \<times> DataguardExecutionSpec option" where
  "fixedPart b \<equiv> (dbs_Topology (brk_Spec b), normalizeMutableDataguardExecutionSpec (dbs_Execution (brk_Spec b)))"

lemma locked_step:
  assumes "brokerStep b b'" and "isDataguardBrokerTopologyLocked b" and "dbs_Topology (brk_Spec b') \<noteq> None"
  shows "fixedPart b' = fixedPart b"
  using assms(1)
proof (cases rule: brokerStep.cases)
  case update
  obtain t where "dbs_Topology (brk_Spec b') = Some t" using assms(3) by blast
  then have "validateDataguardTopologyUpdate b b' = []"
    using update(1) broker_topology_parts(5) [of "Some b" b' t b] by (simp add: DataguardBroker_ValidateUpdate_def)
  then show ?thesis using assms(2) by (auto simp: validateDataguardTopologyUpdate_def split: if_splits)
qed simp

text \<open>C13:
  While a broker is locked and keeps a topology, that topology never changes, and of the execution settings
  only the token that asks for a new wallet does: through any sequence of admitted updates and of status
  writes by the controller.
\<close>

theorem broker_topology_fixed:
  assumes "successively brokerStep (b # bs)"
    and "\<forall>u \<in> set (b # bs). isDataguardBrokerTopologyLocked u \<and> dbs_Topology (brk_Spec u) \<noteq> None"
  shows "dbs_Topology (brk_Spec (last (b # bs))) = dbs_Topology (brk_Spec b) \<and>
    normalizeMutableDataguardExecutionSpec (dbs_Execution (brk_Spec (last (b # bs)))) =
    normalizeMutableDataguardExecutionSpec (dbs_Execution (brk_Spec b))"
proof -
  have "fixedPart (last (b # bs)) = fixedPart b"
    using assms
  proof (induction bs arbitrary: b)
    case (Cons c cs)
    have "fixedPart c = fixedPart b" using Cons.prems by (intro locked_step) simp_all
    then show ?case using Cons.IH [of c] Cons.prems by simp
  qed simp
  then show ?thesis by simp
qed

definition busyBrokerStatus :: DataguardBrokerStatus where
  "busyBrokerStatus = zeroBrokerStatus\<lparr>dbt_Status := ''Updating''\<rparr>"

definition rebuiltBroker :: DataguardBroker where
  "rebuiltBroker = (pairBroker busyBrokerStatus)\<lparr>brk_Generation := 2\<rparr>"

lemma busy_locked: "brk_Status b = busyBrokerStatus \<Longrightarrow> isDataguardBrokerTopologyLocked b"
  by (simp add: isDataguardBrokerTopologyLocked_def busyBrokerStatus_def zeroBrokerStatus_def go_eval)

theorem broker_topology_fixed_witness:
  "successively brokerStep [pairBroker zeroBrokerStatus, pairBroker busyBrokerStatus, rebuiltBroker] \<and>
   dbs_Topology (brk_Spec rebuiltBroker) = dbs_Topology (brk_Spec (pairBroker busyBrokerStatus))"
proof -
  have s: "brokerStep (pairBroker zeroBrokerStatus) (pairBroker busyBrokerStatus)" "brokerStep (pairBroker busyBrokerStatus) rebuiltBroker"
    by (rule brokerStep.status, simp add: pairBroker_def brokerOf_def rebuiltBroker_def)+
  have "isDataguardBrokerTopologyLocked (pairBroker busyBrokerStatus)" "isDataguardBrokerTopologyLocked rebuiltBroker"
    by (rule busy_locked, simp add: rebuiltBroker_def)+
  then show ?thesis
    using s broker_topology_fixed [of "pairBroker busyBrokerStatus" "[rebuiltBroker]"] by (simp add: rebuiltBroker_def)
qed

text \<open>The lock does not cover an update that removes the topology: for every locked broker there is an
  admitted update to a broker without a topology, because the webhook then only checks the legacy form.
  The way back is closed: as long as the status stays, no update that gives it a topology again is admitted.
\<close>

theorem broker_topology_droppable:
  assumes "isDataguardBrokerTopologyLocked b"
  shows "\<exists>b'. DataguardBroker_ValidateUpdate b b' = [] \<and> brk_Status b' = brk_Status b \<and> dbs_Topology (brk_Spec b') = None \<and>
    (\<forall>b''. dbs_Topology (brk_Spec b'') \<noteq> None \<longrightarrow> DataguardBroker_ValidateUpdate b' b'' \<noteq> [])"
proof -
  let ?b = "b\<lparr>brk_Spec := zeroBrokerSpec\<lparr>dbs_PrimaryDatabaseRef := ''p'', dbs_StandbyDatabaseRefs := [''s''], dbs_ProtectionMode := ''MaxPerformance''\<rparr>\<rparr>"
  have t: "dbs_Topology (brk_Spec ?b) = None" by (simp add: zeroBrokerSpec_def)
  have "DataguardBroker_ValidateUpdate b ?b = []"
    by (simp add: DataguardBroker_ValidateUpdate_def validateDataguardBroker_def validateLegacyDataguardBroker_def zeroBrokerSpec_def
        isValidDataguardProtectionMode_def range_seen_def legacyStandbyErrs_def legacyKey_def Let_def go_eval)
  moreover have "DataguardBroker_ValidateUpdate ?b b'' \<noteq> []" if "dbs_Topology (brk_Spec b'') \<noteq> None" for b''
  proof
    assume "DataguardBroker_ValidateUpdate ?b b'' = []"
    then have "validateDataguardTopologyUpdate ?b b'' = []"
      using that broker_topology_parts(5) [of "Some ?b" b''] by (auto simp: DataguardBroker_ValidateUpdate_def)
    moreover have "isDataguardBrokerTopologyLocked ?b" using assms by (simp add: isDataguardBrokerTopologyLocked_def)
    ultimately show False using that t by (auto simp: validateDataguardTopologyUpdate_def split: if_splits)
  qed
  ultimately show ?thesis using t by (intro exI [of _ ?b]) simp
qed

theorem broker_topology_droppable_witness:
  "\<exists>b'. DataguardBroker_ValidateUpdate (pairBroker busyBrokerStatus) b' = [] \<and> dbs_Topology (brk_Spec b') = None"
  using broker_topology_droppable [OF busy_locked [OF pairBroker_fields(3)]] by blast

end
