(* ===== verification/Sharding_Preview.thy ===== *)
theory Sharding_Preview
  imports Sharding_Plan Dataguard_Broker
begin

text \<open>
  The Data Guard topology that a sharded database publishes in its status, to be copied into a
  \<^verbatim>\<open>DataguardBroker\<close> (the sharding part of \<^verbatim>\<open>controllers/database/dataguard_preview_status.go\<close>).

  Parameters: \<open>errText\<close> renders the error of a failed search for a primary, \<open>digest\<close> is the hex SHA-256 of the JSON
  text of a topology, \<open>setc\<close> is \<^verbatim>\<open>meta.SetStatusCondition\<close> and \<open>now\<close> the clock. The verb \<^verbatim>\<open>%q\<close> is modelled
  for names without characters to escape.
\<close>

section \<open>Names and connect identifiers\<close>

fun sanitizeRunes :: "bool \<Rightarrow> string \<Rightarrow> string" where
  "sanitizeRunes lastDash [] = []"
| "sanitizeRunes lastDash (ch # cs) =
     (if (let n = (of_char ch :: nat) in (97 \<le> n \<and> n \<le> 122) \<or> (48 \<le> n \<and> n \<le> 57)) then ch # sanitizeRunes False cs
      else if lastDash then sanitizeRunes True cs
      else CHR ''-'' # sanitizeRunes True cs)"

definition TrimDashes :: "string \<Rightarrow> string" where
  "TrimDashes s = rev (dropWhile (\<lambda>c. c = CHR ''-'') (rev (dropWhile (\<lambda>c. c = CHR ''-'') s)))"

definition sanitizeDataguardMemberName :: "string \<Rightarrow> string \<Rightarrow> string" where
  "sanitizeDataguardMemberName raw fallback =
     (let t = ToLower (TrimSpace raw); trimmed = (if t = [] then ToLower (TrimSpace fallback) else t);
          name = TrimDashes (sanitizeRunes False trimmed) in
      if trimmed = [] then ''member'' else if name = [] then ''member'' else name)"

definition parsePreviewConnectIdentifier :: "string \<Rightarrow> string \<times> int \<times> string" where
  "parsePreviewConnectIdentifier connect =
     (let raw = TrimSpace connect in
      if raw = [] then ([], 0, [])
      else
        (let trimmed = TrimPrefix (TrimPrefix raw ''//'') ''tcp://'' in
         case (case LastIndexByte trimmed (CHR ''/'') of
             None \<Rightarrow> (trimmed, [])
           | Some slash \<Rightarrow> (TrimSpace (take slash trimmed), ToUpper (TrimSpace (drop (slash + 1) trimmed)))) of (hostPort, service) \<Rightarrow>
         case LastIndexByte hostPort (CHR '':'') of
           None \<Rightarrow> (TrimSpace hostPort, 1521, service)
         | Some colon \<Rightarrow>
             if colon < length hostPort - 1 then
               (case Atoi (TrimSpace (drop (colon + 1) hostPort)) of
                  None \<Rightarrow> (TrimSpace hostPort, 1521, service)
                | Some parsed \<Rightarrow> (TrimSpace (take colon hostPort), wrap32 parsed, service))
             else (TrimSpace hostPort, 1521, service)))"


section \<open>Secrets and defaults\<close>

definition quoted :: "string \<Rightarrow> string" where
  "quoted s = CHR 0x22 # s @ [CHR 0x22]"

definition buildShardingPreviewAdminSecretRef :: "ShardingDatabase \<Rightarrow> string + DataguardSecretRef" where
  "buildShardingPreviewAdminSecretRef inst =
     (case spec_DbSecret (sdb_Spec inst) of
        None \<Rightarrow> Inl (''shardingdatabase '' @ quoted (sdb_Name inst) @ '' does not publish spec.dbSecret'')
      | Some sec \<Rightarrow>
          let secretName = TrimSpace (sec_Name sec); secretKey = TrimSpace (pwd_PasswordKey (sec_DbAdmin sec)) in
          if secretName = [] then Inl (''shardingdatabase '' @ quoted (sdb_Name inst) @ '' does not publish spec.dbSecret.name'')
          else if secretKey = [] then Inl (''shardingdatabase '' @ quoted (sdb_Name inst) @ '' does not publish spec.dbSecret.dbAdmin.passwordKey'')
          else Inr \<lparr>dsr_SecretName = secretName, dsr_SecretKey = secretKey\<rparr>)"

definition dataguardPreviewSharedWalletPlaceholder :: string where
  "dataguardPreviewSharedWalletPlaceholder = ''replace-with-shared-client-wallet-secret''"

definition tcpsDefaultsMessage :: string where
  "tcpsDefaultsMessage = ''rendered DataguardBroker publishes topology.defaults.tcps.clientWalletSecret as a shared placeholder; replace it with the correct client wallet secret before applying DataguardBroker if TCPS is enabled''"

definition cloneDataguardSecretRef :: "DataguardSecretRef \<Rightarrow> DataguardSecretRef" where
  "cloneDataguardSecretRef r = \<lparr>dsr_SecretName = TrimSpace (dsr_SecretName r), dsr_SecretKey = TrimSpace (dsr_SecretKey r)\<rparr>"

definition buildShardingPreviewTopologyDefaults :: "ShardingDatabase \<Rightarrow> DataguardTopologyDefaults option \<times> string list \<times> bool" where
  "buildShardingPreviewTopologyDefaults inst =
     (let (adminRef, adminMsgs, ready) =
            (case buildShardingPreviewAdminSecretRef inst of
               Inr r \<Rightarrow> (Some (cloneDataguardSecretRef r), [], True)
             | Inl msg \<Rightarrow> if \<not> blank msg then (None, [msg], False) else (None, [], True));
          tcps = (if spec_EnableTCPS (sdb_Spec inst) then Some \<lparr>dtd_ClientWalletSecret = dataguardPreviewSharedWalletPlaceholder\<rparr> else None);
          messages = adminMsgs @ (if spec_EnableTCPS (sdb_Spec inst) then [tcpsDefaultsMessage] else []) in
      (if adminRef = None \<and> tcps = None then None else Some \<lparr>dfl_AdminSecretRef = adminRef, dfl_TCPS = tcps\<rparr>, messages, ready))"

definition firstNonEmptyPreviewSecretKey :: "string \<Rightarrow> string" where
  "firstNonEmptyPreviewSecretKey value = (if blank value then ''oracle_pwd'' else TrimSpace value)"

definition dataguardSecretRefsEqual :: "DataguardSecretRef option \<Rightarrow> DataguardSecretRef option \<Rightarrow> bool" where
  "dataguardSecretRefsEqual left right =
     (case (left, right) of
        (Some l, Some r) \<Rightarrow> TrimSpace (dsr_SecretName l) = TrimSpace (dsr_SecretName r) \<and>
          firstNonEmptyPreviewSecretKey (dsr_SecretKey l) = firstNonEmptyPreviewSecretKey (dsr_SecretKey r)
      | _ \<Rightarrow> left = None \<and> right = None)"


section \<open>Members\<close>

definition endpointSpec :: "string \<Rightarrow> string \<Rightarrow> string \<Rightarrow> int \<Rightarrow> string \<Rightarrow> DataguardEndpointSpec" where
  "endpointSpec name protocol host port service =
     \<lparr>ep_Name = name, ep_Protocol = protocol, ep_Host = host, ep_Port = port, ep_ServiceName = service, ep_SSLServerDN = []\<rparr>"

definition buildShardingLocalTopologyMember :: "ShardingDatabase \<Rightarrow> ShardSpec \<Rightarrow> string \<Rightarrow> DataguardTopologyMember" where
  "buildShardingLocalTopologyMember inst shard role =
     (let dbUniqueName = ToUpper (TrimSpace (sh_Name shard)); service = BuildDgmgrlServiceName dbUniqueName;
          tcps = spec_EnableTCPS (sdb_Spec inst) in
      case resolveShardHostPort (sdb_Namespace inst) shard of (host, port) \<Rightarrow>
        \<lparr>mem_Name = sanitizeDataguardMemberName (sh_Name shard) ''shard'', mem_Role = role, mem_DBUniqueName = dbUniqueName,
         mem_LocalRef = None, mem_AdminSecretRef = None,
         mem_Endpoints = endpointSpec ''tcp'' ''TCP'' host port service # (if tcps then [endpointSpec ''tcps'' ''TCPS'' host 2484 service] else []),
         mem_TCPS = (if tcps then Some \<lparr>tcps_Enabled = True, tcps_ServerTLSSecret = [], tcps_ClientWalletSecret = [], tcps_WalletKey = [],
           tcps_SSLServerDN = []\<rparr> else None)\<rparr>)"

definition findPreviewPairForStandby :: "DgPairStatus list \<Rightarrow> string \<Rightarrow> DgPairStatus option" where
  "findPreviewPairForStandby pairs standbyName = find (\<lambda>p. TrimSpace (dgp_StandbyShardName p) = TrimSpace standbyName) pairs"

definition buildShardingExternalPrimaryPreviewMember :: "DgPairStatus \<Rightarrow> DataguardTopologyMember option" where
  "buildShardingExternalPrimaryPreviewMember pair =
     (let c = TrimSpace (dgp_PrimaryConnectString pair); connect = (if c = [] then TrimSpace (dgp_PrimaryKey pair) else c) in
      if connect = [] then None
      else (case parsePreviewConnectIdentifier connect of (host, port, svc) \<Rightarrow>
        if host = [] then None
        else
          (let memberName = sanitizeDataguardMemberName (dgp_PrimaryKey pair) ''external-primary'';
               service = (if blank svc then ToUpper (TrimSpace memberName) else svc) in
           Some \<lparr>mem_Name = memberName, mem_Role = ''PRIMARY'', mem_DBUniqueName = ToUpper (TrimSpace memberName), mem_LocalRef = None,
             mem_AdminSecretRef = None, mem_Endpoints = [endpointSpec ''tcp'' ''TCP'' host port service], mem_TCPS = None\<rparr>)))"

definition externalMessage :: "ShardingDatabase \<Rightarrow> string \<Rightarrow> bool \<Rightarrow> string" where
  "externalMessage inst name hasSecret =
     ''topology member '' @ quoted name @ '' is external''
     @ (if hasSecret
        then ''; rendered DataguardBroker uses topology.defaults.adminSecretRef from the local shardingdatabase, so add a member-level adminSecretRef only if the external primary uses different admin credentials''
        else ''; rendered DataguardBroker includes placeholder adminSecretRef values, so replace adminSecretRef.secretName with the correct admin password secret before applying DataguardBroker'')
     @ (if spec_EnableTCPS (sdb_Spec inst)
        then ''; rendered DataguardBroker also publishes topology.defaults.tcps.clientWalletSecret as a shared placeholder, so replace it with the correct client wallet secret before applying DataguardBroker if TCPS is enabled''
        else [])"

text \<open>A local primary with the secret of the database, or without one and not ready.\<close>

definition localPrimary :: "ShardingDatabase \<Rightarrow> ShardSpec \<Rightarrow> string \<Rightarrow> DataguardTopologyMember \<times> string \<times> bool" where
  "localPrimary inst p message =
     (let member = buildShardingLocalTopologyMember inst p ''PRIMARY'' in
      case buildShardingPreviewAdminSecretRef inst of
        Inr r \<Rightarrow> (member\<lparr>mem_AdminSecretRef := Some r\<rparr>, message, True)
      | Inl msg \<Rightarrow> (member, msg, False))"

definition buildShardingPrimaryPreviewMember ::
    "(topologyError \<Rightarrow> string) \<Rightarrow> ShardingDatabase \<Rightarrow> ShardSpec \<Rightarrow> string + DataguardTopologyMember \<times> string \<times> bool" where
  "buildShardingPrimaryPreviewMember errText inst standby =
     (let spec = sdb_Spec inst; ns = sdb_Namespace inst;
          fallback = (case findPrimaryForStandby spec standby of
             Inl e \<Rightarrow> Inl (errText e)
           | Inr p \<Rightarrow> Inr (localPrimary inst p ''resolved from sharding topology'')) in
      case findPreviewPairForStandby (buildDgPairsFromStandbyConfig ns spec) (sh_Name standby) of
        None \<Rightarrow> fallback
      | Some pair \<Rightarrow>
          (case findPrimaryByPair ns (spec_Shard spec) pair of
             Some p \<Rightarrow> Inr (localPrimary inst p (TrimSpace (dgp_Message pair)))
           | None \<Rightarrow>
               (case buildShardingExternalPrimaryPreviewMember pair of
                  None \<Rightarrow> fallback
                | Some m \<Rightarrow>
                    (case buildShardingPreviewAdminSecretRef inst of
                       Inr _ \<Rightarrow> Inr (m, externalMessage inst (mem_Name m) True, True)
                     | Inl _ \<Rightarrow> Inr (m\<lparr>mem_AdminSecretRef := Some \<lparr>dsr_SecretName = ''replace-with-external-admin-secret'', dsr_SecretKey = ''password''\<rparr>\<rparr>,
                         externalMessage inst (mem_Name m) False, True)))))"


section \<open>The topology\<close>

record preview =
  pv_Members :: "DataguardTopologyMember list"
  pv_Statuses :: "ShardingDataguardMemberStatus list"
  pv_Index :: "(string, nat) gomap"
  pv_Pairs :: "DataguardPairStatus list"
  pv_Ready :: bool
  pv_Messages :: "string list"
  pv_Reason :: string

text \<open>What the defaults of the topology make superfluous is left out of a member.\<close>

definition underDefaults :: "DataguardTopologyDefaults option \<Rightarrow> DataguardTopologyMember \<Rightarrow> DataguardTopologyMember" where
  "underDefaults defaults member =
     (case defaults of
        None \<Rightarrow> member
      | Some d \<Rightarrow>
          let m1 = (if dfl_AdminSecretRef d \<noteq> None \<and> dataguardSecretRefsEqual (dfl_AdminSecretRef d) (mem_AdminSecretRef member)
                    then member\<lparr>mem_AdminSecretRef := None\<rparr> else member) in
          (case (mem_TCPS m1, dfl_TCPS d) of
             (Some t, Some td) \<Rightarrow>
               if TrimSpace (tcps_ClientWalletSecret t) = TrimSpace (dtd_ClientWalletSecret td)
               then m1\<lparr>mem_TCPS := Some (t\<lparr>tcps_ClientWalletSecret := []\<rparr>)\<rparr> else m1
           | _ \<Rightarrow> m1))"

definition PreviewReady :: string where
  "PreviewReady = ''PreviewReady''"

definition addMember ::
    "DataguardTopologyDefaults option \<Rightarrow> DataguardTopologyMember \<Rightarrow> string \<Rightarrow> string \<Rightarrow> string \<Rightarrow> string \<Rightarrow> preview \<Rightarrow> string \<times> preview" where
  "addMember defaults member0 shardGroup shardSpace phase message pv =
     (let name = sanitizeDataguardMemberName (mem_Name member0) ''member'';
          member = underDefaults defaults (member0\<lparr>mem_Name := name\<rparr>) in
      case map_of (pv_Index pv) name of
        Some i \<Rightarrow>
          (let s0 = pv_Statuses pv ! i;
               s1 = (if message \<noteq> [] \<and> blank (sms_Message s0) then s0\<lparr>sms_Message := message\<rparr> else s0);
               s2 = (if phase \<noteq> [] \<and> phase \<noteq> PreviewReady then s1\<lparr>sms_Phase := phase\<rparr> else s1) in
           (name, if i < length (pv_Statuses pv) then pv\<lparr>pv_Statuses := (pv_Statuses pv)[i := s2]\<rparr> else pv))
      | None \<Rightarrow>
          (name, pv\<lparr>pv_Index := mput name (length (pv_Members pv)) (pv_Index pv),
             pv_Members := pv_Members pv @ [member],
             pv_Statuses := pv_Statuses pv @ [\<lparr>sms_Name = name, sms_Role = mem_Role member, sms_DBUniqueName = mem_DBUniqueName member,
               sms_ShardGroup = TrimSpace shardGroup, sms_ShardSpace = TrimSpace shardSpace, sms_PrimaryMemberName = [],
               sms_Endpoints = mem_Endpoints member, sms_TCPS = mem_TCPS member,
               sms_Phase = (if blank phase then PreviewReady else TrimSpace phase), sms_Message = message\<rparr>]\<rparr>))"

definition updateStatusOf :: "string \<Rightarrow> (ShardingDataguardMemberStatus \<Rightarrow> ShardingDataguardMemberStatus) \<Rightarrow> preview \<Rightarrow> preview" where
  "updateStatusOf name f pv =
     (let i = mget (pv_Index pv) name 0 in pv\<lparr>pv_Statuses := (pv_Statuses pv)[i := f (pv_Statuses pv ! i)]\<rparr>)"

definition say :: "string \<Rightarrow> preview \<Rightarrow> preview" where
  "say msg pv = (if blank msg then pv else pv\<lparr>pv_Messages := pv_Messages pv @ [msg]\<rparr>)"

definition addPair :: "string \<Rightarrow> string \<Rightarrow> string \<Rightarrow> string \<Rightarrow> preview \<Rightarrow> preview" where
  "addPair primary standby state message pv =
     pv\<lparr>pv_Pairs := pv_Pairs pv @ [\<lparr>prs_Primary = primary, prs_Standby = standby, prs_State = state, prs_Message = message\<rparr>]\<rparr>"

definition previewStandby ::
    "(topologyError \<Rightarrow> string) \<Rightarrow> ShardingDatabase \<Rightarrow> DataguardTopologyDefaults option \<Rightarrow> ShardSpec \<Rightarrow> preview \<Rightarrow> preview" where
  "previewStandby errText inst defaults shard pv =
     (let local = buildShardingLocalTopologyMember inst shard ''PHYSICAL_STANDBY'';
          (standbyMember, pv1) =
            (case buildShardingPreviewAdminSecretRef inst of
               Inr r \<Rightarrow> (local\<lparr>mem_AdminSecretRef := Some r\<rparr>, pv)
             | Inl msg \<Rightarrow> (local, say msg (pv\<lparr>pv_Ready := False, pv_Reason := ''WaitingForTopology''\<rparr>)));
          (standbyName, pv2) = addMember defaults standbyMember (sh_ShardGroup shard) (sh_ShardSpace shard) [] [] pv1 in
      case buildShardingPrimaryPreviewMember errText inst shard of
        Inl msg \<Rightarrow>
          updateStatusOf standbyName (\<lambda>s. s\<lparr>sms_Phase := ''WaitingForTopology'', sms_Message := msg\<rparr>)
            (addPair [] standbyName ''Pending'' msg (say msg (pv2\<lparr>pv_Ready := False, pv_Reason := ''WaitingForTopology''\<rparr>)))
      | Inr (primaryMember, msg, pairReady) \<Rightarrow>
          (let pv3 = say msg pv2;
               pv4 = (if pairReady then pv3 else pv3\<lparr>pv_Ready := False, pv_Reason := ''WaitingForUserInput''\<rparr>);
               phase = (if pairReady then PreviewReady else ''WaitingForUserInput'');
               (primaryName, pv5) = addMember defaults primaryMember [] [] phase msg pv4 in
           addPair primaryName standbyName ''Resolved'' msg
             (updateStatusOf standbyName (\<lambda>s. s\<lparr>sms_PrimaryMemberName := primaryName, sms_Phase := phase, sms_Message := msg\<rparr>) pv5)))"

definition previewShard ::
    "(topologyError \<Rightarrow> string) \<Rightarrow> ShardingDatabase \<Rightarrow> DataguardTopologyDefaults option \<Rightarrow> ShardSpec \<Rightarrow> preview \<Rightarrow> preview" where
  "previewShard errText inst defaults shard pv =
     (if isStandbyDeployAs (sh_DeployAs shard) then previewStandby errText inst defaults shard pv else pv)"

record previewResult =
  pvr_Topology :: "DataguardTopologySpec option"
  pvr_Members :: "ShardingDataguardMemberStatus list"
  pvr_Pairs :: "DataguardPairStatus list"
  pvr_Message :: string
  pvr_Reason :: string
  pvr_Ready :: bool

definition startPreview :: "string list \<Rightarrow> bool \<Rightarrow> preview" where
  "startPreview messages ready = \<lparr>pv_Members = [], pv_Statuses = [], pv_Index = [], pv_Pairs = [], pv_Ready = ready, pv_Messages = messages,
     pv_Reason = PreviewReady\<rparr>"

definition foldPreview :: "(topologyError \<Rightarrow> string) \<Rightarrow> ShardingDatabase \<Rightarrow> preview" where
  "foldPreview errText inst =
     (case buildShardingPreviewTopologyDefaults inst of (defaults, messages, ready) \<Rightarrow>
        fold (previewShard errText inst defaults) (spec_Shard (sdb_Spec inst)) (startPreview messages ready))"

definition buildShardingPreviewTopology :: "(topologyError \<Rightarrow> string) \<Rightarrow> ShardingDatabase \<Rightarrow> previewResult" where
  "buildShardingPreviewTopology errText inst =
     (if EffectiveReplicationType (spec_ReplicationType (sdb_Spec inst)) \<noteq> ''DG''
      then \<lparr>pvr_Topology = None, pvr_Members = [], pvr_Pairs = [], pvr_Message = [], pvr_Reason = ''WaitingForTopology'', pvr_Ready = False\<rparr>
      else
        (let pv = foldPreview errText inst;
             topology = \<lparr>top_SourceKind = ''ShardingDatabase'',
               top_SourceRef = Some \<lparr>src_APIVersion = ''database.oracle.com/v4'', src_Kind = ''ShardingDatabase'', src_Namespace = sdb_Namespace inst,
                 src_Name = sdb_Name inst\<rparr>,
               top_Policy = None, top_Defaults = fst (buildShardingPreviewTopologyDefaults inst), top_Members = pv_Members pv, top_Observer = None\<rparr> in
         \<lparr>pvr_Topology = (if pv_Members pv = [] then None else Some topology), pvr_Members = pv_Statuses pv, pvr_Pairs = pv_Pairs pv,
          pvr_Message = Join (pv_Messages pv) ''; '', pvr_Reason = pv_Reason pv, pvr_Ready = (pv_Members pv \<noteq> [] \<and> pv_Ready pv)\<rparr>))"


section \<open>Publication\<close>

text \<open>The canonical form that is hashed: members by name, endpoints by all their fields.\<close>

definition endpointKey :: "DataguardEndpointSpec \<Rightarrow> string \<times> string \<times> string \<times> int \<times> string" where
  "endpointKey e = (ep_Name e, ep_Protocol e, ep_Host e, ep_Port e, ep_ServiceName e)"

definition canonicalTopology :: "DataguardTopologySpec \<Rightarrow> DataguardTopologySpec" where
  "canonicalTopology t =
     t\<lparr>top_Members := map (\<lambda>m. m\<lparr>mem_Endpoints := sort_key endpointKey (mem_Endpoints m)\<rparr>) (sort_key mem_Name (top_Members t))\<rparr>"

definition dataguardTopologyHash :: "(DataguardTopologySpec \<Rightarrow> string) \<Rightarrow> DataguardTopologySpec \<Rightarrow> string" where
  "dataguardTopologyHash digest t = digest (canonicalTopology t)"

definition cloneDataguardAuthWalletSpec :: "DataguardProducerSpec option \<Rightarrow> DataguardAuthWalletSpec option" where
  "cloneDataguardAuthWalletSpec spec = Option.bind spec dgp_AuthWallet"

definition buildShardingPreviewExecutionStatus :: "ShardingDatabase \<Rightarrow> DataguardExecutionStatus option" where
  "buildShardingPreviewExecutionStatus inst =
     (let image = TrimSpace (spec_DbImage (sdb_Spec inst)); secret = TrimSpace (spec_DbImagePullSecret (sdb_Spec inst)) in
      if image = [] then None
      else Some \<lparr>exs_Image = image, exs_ImagePullSecrets = (if secret = [] then [] else [secret]),
                 exs_AuthWallet = cloneDataguardAuthWalletSpec (spec_Dataguard (sdb_Spec inst))\<rparr>)"

definition renderedBrokerExecutionSpecHasContent :: "DataguardExecutionStatus option \<Rightarrow> bool" where
  "renderedBrokerExecutionSpecHasContent execution =
     (case execution of None \<Rightarrow> False
      | Some e \<Rightarrow> \<not> blank (exs_Image e) \<or> exs_ImagePullSecrets e \<noteq> [] \<or> exs_AuthWallet e \<noteq> None)"

definition buildRenderedBrokerName :: "string \<Rightarrow> string" where
  "buildRenderedBrokerName resourceName =
     (let base = sanitizeDataguardMemberName resourceName ''dataguard'' in if HasSuffix base ''-dg'' then base else base @ ''-dg'')"

definition renderedExecution :: "DataguardExecutionStatus option \<Rightarrow> DataguardExecutionSpec option" where
  "renderedExecution execution =
     (if renderedBrokerExecutionSpecHasContent execution
      then map_option (\<lambda>e. \<lparr>exe_Image = TrimSpace (exs_Image e), exe_ImagePullSecrets = exs_ImagePullSecrets e, exe_WalletMountPath = [],
             exe_TNSAdminPath = [], exe_AuthWallet = exs_AuthWallet e\<rparr>) execution
      else None)"

definition buildRenderedBrokerPreviewStatus ::
    "int \<Rightarrow> string \<Rightarrow> string \<Rightarrow> DataguardTopologySpec option \<Rightarrow> DataguardExecutionStatus option \<Rightarrow> string \<Rightarrow> bool \<Rightarrow> DataguardRenderedBrokerStatus option" where
  "buildRenderedBrokerPreviewStatus now resourceName namespace topology execution topologyHash ready =
     map_option (\<lambda>t. \<lparr>rbr_Name = buildRenderedBrokerName resourceName, rbr_Namespace = TrimSpace namespace,
       rbr_Spec = Some \<lparr>rbs_Execution = renderedExecution execution, rbs_Topology = Some t\<rparr>,
       rbr_TopologyHash = TrimSpace topologyHash, rbr_GeneratedAt = Some now, rbr_Ready = ready\<rparr>) topology"

definition setDataguardPreviewCondition ::
    "(Condition list \<Rightarrow> Condition \<Rightarrow> Condition list) \<Rightarrow> int \<Rightarrow> int \<Rightarrow> bool \<Rightarrow> string \<Rightarrow> string \<Rightarrow> Condition list \<Rightarrow> Condition list" where
  "setDataguardPreviewCondition setc now generation ready reason message conditions =
     setc conditions \<lparr>cond_Type = ''TopologyPreviewReady'', cond_Status = (if ready then ConditionTrue else ConditionFalse),
       cond_ObservedGeneration = generation, cond_LastTransitionTime = now, cond_Reason = reason, cond_Message = message\<rparr>"

definition dataguardPreviewReadyMessage :: "string \<Rightarrow> string" where
  "dataguardPreviewReadyMessage note =
     (let msg = ''resolved Data Guard topology is ready to be copied into DataguardBroker.spec.topology'' in
      if blank note then msg else msg @ ''; '' @ TrimSpace note)"

definition orDefault :: "string \<Rightarrow> string \<Rightarrow> string" where
  "orDefault message fallback = (if blank message then fallback else message)"

text \<open>The three ways in which a preview that was built can be published.\<close>

definition publishPreview ::
    "(Condition list \<Rightarrow> Condition \<Rightarrow> Condition list) \<Rightarrow> int \<Rightarrow> int \<Rightarrow> string \<Rightarrow> previewResult \<Rightarrow> ShardingDataguardStatus \<Rightarrow> ShardingDataguardStatus" where
  "publishPreview setc now generation hash pvr next =
     (if pvr_Ready pvr then
        next\<lparr>sdg_Phase := ''PreviewReady'', sdg_ReadyForBroker := True, sdg_PublishedTopologyHash := hash, sdg_LastPublishedTime := Some now,
          sdg_Conditions := setDataguardPreviewCondition setc now generation True ''PreviewReady'' (dataguardPreviewReadyMessage (pvr_Message pvr)) (sdg_Conditions next)\<rparr>
      else if pvr_Reason pvr = ''WaitingForUserInput'' then
        next\<lparr>sdg_Phase := ''WaitingForUserInput'', sdg_ReadyForBroker := False, sdg_PublishedTopologyHash := [], sdg_LastPublishedTime := None,
          sdg_Conditions := setDataguardPreviewCondition setc now generation False ''WaitingForUserInput''
            (orDefault (pvr_Message pvr) ''resolved Data Guard topology requires additional user input before it can be copied into DataguardBroker.spec.topology'') (sdg_Conditions next)\<rparr>
      else
        next\<lparr>sdg_Phase := ''WaitingForTopology'', sdg_ReadyForBroker := False, sdg_PublishedTopologyHash := [], sdg_LastPublishedTime := None,
          sdg_Conditions := setDataguardPreviewCondition setc now generation False ''WaitingForTopology''
            (orDefault (pvr_Message pvr) ''resolved Data Guard topology is still incomplete'') (sdg_Conditions next)\<rparr>)"

definition syncShardingDataguardPreviewStatus ::
    "(Condition list \<Rightarrow> Condition \<Rightarrow> Condition list) \<Rightarrow> int \<Rightarrow> (DataguardTopologySpec \<Rightarrow> string) \<Rightarrow> (topologyError \<Rightarrow> string) \<Rightarrow>
     ShardingDatabase \<Rightarrow> ShardingDatabaseStatus \<Rightarrow> ShardingDatabaseStatus" where
  "syncShardingDataguardPreviewStatus setc now digest errText inst st =
     (let mode = EffectiveDataguardProducerMode (spec_Dataguard (sdb_Spec inst)); gen = sdb_Generation inst in
      if mode = DataguardProducerModeDisabled \<or> EffectiveReplicationType (spec_ReplicationType (sdb_Spec inst)) \<noteq> ''DG''
      then st\<lparr>st_Dataguard := None\<rparr>
      else
        (let next0 = (case st_Dataguard st of
               None \<Rightarrow> zeroDataguardStatus
             | Some c \<Rightarrow> zeroDataguardStatus\<lparr>sdg_BrokerRef := sdg_BrokerRef c, sdg_Conditions := sdg_Conditions c, sdg_TopologyLocked := sdg_TopologyLocked c\<rparr>) in
         if mode = DataguardProducerModeManaged then
           st\<lparr>st_Dataguard := Some (next0\<lparr>sdg_Phase := ''ManagedNotImplemented'', sdg_ReadyForBroker := False,
             sdg_Conditions := setDataguardPreviewCondition setc now gen False ''ManagedNotImplemented''
               ''Managed mode is reserved for future DataguardBroker automation'' (sdg_Conditions next0)\<rparr>)\<rparr>
         else
           (let pvr = buildShardingPreviewTopology errText inst; execution = buildShardingPreviewExecutionStatus inst;
                next1 = next0\<lparr>sdg_Members := pvr_Members pvr, sdg_Pairs := pvr_Pairs pvr\<rparr> in
            case pvr_Topology pvr of
              None \<Rightarrow>
                st\<lparr>st_Dataguard := Some (next1\<lparr>sdg_Phase := ''WaitingForTopology'', sdg_ReadyForBroker := False,
                  sdg_RenderedBrokerSpec := None, sdg_TopologyHash := [], sdg_PublishedTopologyHash := [], sdg_LastPublishedTime := None,
                  sdg_Conditions := setDataguardPreviewCondition setc now gen False ''WaitingForTopology''
                    (orDefault (pvr_Message pvr) ''resolved Data Guard topology is not ready yet'') (sdg_Conditions next1)\<rparr>)\<rparr>
            | Some topology \<Rightarrow>
                (let hash = dataguardTopologyHash digest topology in
                 st\<lparr>st_Dataguard := Some (publishPreview setc now gen hash pvr
                   (next1\<lparr>sdg_TopologyHash := hash,
                      sdg_RenderedBrokerSpec := buildRenderedBrokerPreviewStatus now (sdb_Name inst) (sdb_Namespace inst) (Some topology) execution hash (pvr_Ready pvr)\<rparr>))\<rparr>))))"

section \<open>Sanitised names\<close>

definition name_char :: "char \<Rightarrow> bool" where
  "name_char c \<longleftrightarrow> (let n = (of_char c :: nat) in (97 \<le> n \<and> n \<le> 122) \<or> (48 \<le> n \<and> n \<le> 57))"

abbreviation noDoubleDash :: "string \<Rightarrow> bool" where
  "noDoubleDash s \<equiv> successively (\<lambda>a b. a = CHR ''-'' \<longrightarrow> b \<noteq> CHR ''-'') s"

text \<open>The form of a DNS label, in lower case and without double dashes.\<close>

definition cleanName :: "string \<Rightarrow> bool" where
  "cleanName s \<longleftrightarrow> s \<noteq> [] \<and> list_all (\<lambda>c. name_char c \<or> c = CHR ''-'') s \<and> noDoubleDash s \<and> hd s \<noteq> CHR ''-'' \<and> last s \<noteq> CHR ''-''"

lemma sanitizeRunes_step:
  "sanitizeRunes d (c # cs) = (if name_char c then c # sanitizeRunes False cs else if d then sanitizeRunes True cs else CHR ''-'' # sanitizeRunes True cs)"
  by (simp add: name_char_def)

declare sanitizeRunes.simps(2) [simp del]

lemma dash_not_name [simp]: "\<not> name_char (CHR ''-'')"
  by (simp add: name_char_def)

lemma sanitizeRunes_shape:
  "list_all (\<lambda>c. name_char c \<or> c = CHR ''-'') (sanitizeRunes d s) \<and> noDoubleDash (sanitizeRunes d s) \<and>
   (d \<longrightarrow> sanitizeRunes d s = [] \<or> hd (sanitizeRunes d s) \<noteq> CHR ''-'')"
proof (induction s arbitrary: d)
  case (Cons c cs)
  show ?case
    using Cons [of True] Cons [of False] by (auto simp: sanitizeRunes_step successively_Cons)
qed simp

lemma sanitizeRunes_id:
  "list_all (\<lambda>c. name_char c \<or> c = CHR ''-'') s \<Longrightarrow> noDoubleDash s \<Longrightarrow> (d \<Longrightarrow> s = [] \<or> hd s \<noteq> CHR ''-'') \<Longrightarrow> sanitizeRunes d s = s"
proof (induction s arbitrary: d)
  case (Cons c cs)
  have "sanitizeRunes True cs = cs" if "c = CHR ''-''"
    by (rule Cons.IH) (use Cons.prems that in \<open>auto simp: successively_Cons\<close>)
  moreover have "sanitizeRunes False cs = cs" if "name_char c"
    by (rule Cons.IH) (use Cons.prems that in \<open>auto simp: successively_Cons\<close>)
  ultimately show ?case using Cons.prems by (auto simp: sanitizeRunes_step)
qed simp

lemma dropWhile_suffix_noDoubleDash: "noDoubleDash s \<Longrightarrow> noDoubleDash (dropWhile P s)"
  by (induction s) (auto simp: successively_Cons)

lemma noDoubleDash_rev [simp]: "noDoubleDash (rev s) = noDoubleDash s"
proof -
  have "(\<lambda>x y. y = CHR ''-'' \<longrightarrow> x \<noteq> CHR ''-'') = (\<lambda>x y. x = CHR ''-'' \<longrightarrow> y \<noteq> CHR ''-'')" by (intro ext) auto
  then show ?thesis by (simp only: successively_rev)
qed

lemma TrimDashes_shape:
  assumes "list_all P s" and "noDoubleDash s"
  shows "list_all P (TrimDashes s) \<and> noDoubleDash (TrimDashes s) \<and> (TrimDashes s \<noteq> [] \<longrightarrow> hd (TrimDashes s) \<noteq> CHR ''-'' \<and> last (TrimDashes s) \<noteq> CHR ''-'')"
proof -
  let ?l = "dropWhile (\<lambda>c. c = CHR ''-'') s" let ?r = "dropWhile (\<lambda>c. c = CHR ''-'') (rev ?l)"
  have t: "TrimDashes s = rev ?r" by (simp add: TrimDashes_def)
  have sub: "set ?r \<subseteq> set s" by (auto dest!: set_dropWhileD)
  have nd: "noDoubleDash ?r" by (intro dropWhile_suffix_noDoubleDash, simp only: noDoubleDash_rev, intro dropWhile_suffix_noDoubleDash assms(2))
  have lastR: "hd ?r \<noteq> CHR ''-''" if "?r \<noteq> []" using hd_dropWhile [OF that] by simp
  have "last ?r \<noteq> CHR ''-''" if "?r \<noteq> []"
  proof -
    have "?l \<noteq> []"
    proof
      assume e: "?l = []"
      show False using that unfolding e by simp
    qed
    then have "hd ?l \<noteq> CHR ''-''" using hd_dropWhile [of "\<lambda>c. c = CHR ''-''" s] by simp
    moreover have "last ?r = last (rev ?l)"
    proof -
      have "last (takeWhile (\<lambda>c. c = CHR ''-'') (rev ?l) @ ?r) = last ?r" by (rule last_appendR) (rule that)
      then show ?thesis by (simp only: takeWhile_dropWhile_id)
    qed
    ultimately show ?thesis using \<open>?l \<noteq> []\<close> by (simp add: last_rev)
  qed
  then show ?thesis using assms(1) sub nd lastR unfolding t noDoubleDash_rev by (auto simp: list_all_iff hd_rev last_rev)
qed

lemma clean_sanitize: "cleanName (sanitizeDataguardMemberName raw fallback)"
proof -
  have m: "cleanName ''member''" by (simp add: cleanName_def name_char_def)
  have "cleanName (TrimDashes (sanitizeRunes False t))" if "TrimDashes (sanitizeRunes False t) \<noteq> []" for t
    using that TrimDashes_shape [of "\<lambda>c. name_char c \<or> c = CHR ''-''" "sanitizeRunes False t"] sanitizeRunes_shape [of False t]
    by (auto simp: cleanName_def)
  then show ?thesis using m by (auto simp: sanitizeDataguardMemberName_def Let_def)
qed

lemma clean_facts:
  assumes "cleanName s"
  shows "s \<noteq> []" and "TrimSpace s = s" and "ToLower s = s" and "\<not> list_ex is_control s"
proof -
  have c: "name_char c \<or> c = CHR ''-'' \<Longrightarrow> \<not> is_space c \<and> lower_char c = c \<and> \<not> is_control c" for c
    by (auto simp: name_char_def is_space_def lower_char_def is_control_def Let_def)
  have all: "\<not> is_space x \<and> lower_char x = x \<and> \<not> is_control x" if "x \<in> set s" for x
    by (rule c) (use assms that in \<open>simp add: cleanName_def list_all_iff\<close>)
  show "s \<noteq> []" using assms by (simp add: cleanName_def)
  then show "TrimSpace s = s" using all by (intro TrimSpace_id) (blast intro: hd_in_set last_in_set)+
  show "ToLower s = s" unfolding ToLower_def using all by (intro map_idI) blast
  show "\<not> list_ex is_control s" using all by (auto simp: list_ex_iff)
qed

lemma sanitize_clean: "cleanName s \<Longrightarrow> sanitizeDataguardMemberName s fallback = s"
proof -
  assume c: "cleanName s"
  have "sanitizeRunes False s = s" by (rule sanitizeRunes_id) (use c in \<open>auto simp: cleanName_def\<close>)
  moreover have "TrimDashes s = s"
  proof -
    have "dropWhile (\<lambda>c. c = CHR ''-'') s = s" "dropWhile (\<lambda>c. c = CHR ''-'') (rev s) = rev s"
      using c by (simp_all only: dropWhile_eq_self_iff cleanName_def hd_rev) simp_all
    then show ?thesis by (simp add: TrimDashes_def)
  qed
  ultimately show ?thesis using clean_facts [OF c] by (simp add: sanitizeDataguardMemberName_def Let_def)
qed

lemma sanitize_idem [simp]: "sanitizeDataguardMemberName (sanitizeDataguardMemberName raw f) f' = sanitizeDataguardMemberName raw f"
  by (rule sanitize_clean) (rule clean_sanitize)

lemma sanitize_case [simp]:
  "\<not> blank raw \<Longrightarrow> sanitizeDataguardMemberName (ToUpper (TrimSpace raw)) f' = sanitizeDataguardMemberName raw f"
  "\<not> blank raw \<Longrightarrow> sanitizeDataguardMemberName (ToLower (TrimSpace raw)) f' = sanitizeDataguardMemberName raw f"
  by (simp_all add: sanitizeDataguardMemberName_def Let_def go_string)


section \<open>The accumulated topology\<close>

text \<open>
  What holds of the accumulator: members and their statuses run in parallel under distinct names and the
  index finds each of them; the pairs speak of members, and are all resolved while the preview is ready.
\<close>

abbreviation memberNamesOf :: "preview \<Rightarrow> string list" where
  "memberNamesOf pv \<equiv> map mem_Name (pv_Members pv)"

definition parallel :: "preview \<Rightarrow> bool" where
  "parallel pv \<longleftrightarrow> map sms_Name (pv_Statuses pv) = memberNamesOf pv \<and> distinct (memberNamesOf pv) \<and>
     (\<forall>name i. map_of (pv_Index pv) name = Some i \<longleftrightarrow> i < length (pv_Members pv) \<and> memberNamesOf pv ! i = name)"

definition pairsKnown :: "preview \<Rightarrow> bool" where
  "pairsKnown pv \<longleftrightarrow>
     (\<forall>p \<in> set (pv_Pairs pv). prs_Standby p \<in> set (memberNamesOf pv) \<and> (prs_State p = ''Resolved'' \<longrightarrow> prs_Primary p \<in> set (memberNamesOf pv))) \<and>
     (pv_Ready pv \<longrightarrow> (\<forall>p \<in> set (pv_Pairs pv). prs_State p = ''Resolved''))"

lemma parallel_length: "parallel pv \<Longrightarrow> length (pv_Statuses pv) = length (pv_Members pv)"
  unfolding parallel_def by (metis length_map)

lemma parallel_fresh: "parallel pv \<Longrightarrow> map_of (pv_Index pv) name = None \<longleftrightarrow> name \<notin> set (memberNamesOf pv)"
  unfolding parallel_def in_set_conv_nth by (metis length_map not_None_eq)

lemma underDefaults_fields [simp]:
  "mem_Name (underDefaults d m) = mem_Name m" "mem_Role (underDefaults d m) = mem_Role m"
  "mem_DBUniqueName (underDefaults d m) = mem_DBUniqueName m" "mem_LocalRef (underDefaults d m) = mem_LocalRef m"
  "mem_Endpoints (underDefaults d m) = mem_Endpoints m"
  by (auto simp: underDefaults_def Let_def split: option.splits prod.splits)

lemma preview_map_update_same: "f (g (xs ! i)) = f (xs ! i) \<Longrightarrow> map f (xs[i := g (xs ! i)]) = map f xs"
  by (simp add: map_update list_update_same_conv) (metis list_update_beyond list_update_id map_update not_le)

lemma parallel_statuses: "parallel pv \<Longrightarrow> map sms_Name ss = map sms_Name (pv_Statuses pv) \<Longrightarrow> parallel (pv\<lparr>pv_Statuses := ss\<rparr>)"
  by (simp add: parallel_def)

lemma parallel_add:
  assumes "parallel pv" and "mem_Name m = name" and "sms_Name s = name" and "name \<notin> set (memberNamesOf pv)"
  shows "parallel (pv\<lparr>pv_Index := mput name (length (pv_Members pv)) (pv_Index pv), pv_Members := pv_Members pv @ [m], pv_Statuses := pv_Statuses pv @ [s]\<rparr>)"
proof -
  let ?n = "length (pv_Members pv)" let ?ns = "memberNamesOf pv"
  have idx: "map_of (pv_Index pv) k = Some i \<longleftrightarrow> i < ?n \<and> ?ns ! i = k" for k i using assms(1) by (simp add: parallel_def)
  have "((map_of (pv_Index pv))(name \<mapsto> ?n)) k = Some i \<longleftrightarrow> i < Suc ?n \<and> (?ns @ [name]) ! i = k" for k i
  proof (cases "k = name")
    case True
    have "i < ?n \<Longrightarrow> ?ns ! i \<noteq> name" using assms(4) by (metis length_map nth_mem)
    then show ?thesis using True by (auto simp: nth_append less_Suc_eq)
  next
    case False
    then show ?thesis using idx [of k i] by (auto simp: nth_append less_Suc_eq)
  qed
  then show ?thesis using assms by (simp add: parallel_def)
qed

lemma addMember_spec:
  assumes "parallel pv" and "addMember d m sg ss phase msg pv = (name, pv')"
  shows "name = sanitizeDataguardMemberName (mem_Name m) ''member''" and "parallel pv'"
    and "pv_Members pv' = pv_Members pv \<and> name \<in> set (memberNamesOf pv) \<or> pv_Members pv' = pv_Members pv @ [underDefaults d (m\<lparr>mem_Name := name\<rparr>)]"
    and "pv_Pairs pv' = pv_Pairs pv" and "pv_Ready pv' = pv_Ready pv" and "pv_Reason pv' = pv_Reason pv" and "pv_Messages pv' = pv_Messages pv"
proof -
  let ?name = "sanitizeDataguardMemberName (mem_Name m) ''member''"
  show n: "name = ?name" using assms(2) by (auto simp: addMember_def Let_def split: option.splits)
  have "parallel pv' \<and> (pv_Members pv' = pv_Members pv \<and> name \<in> set (memberNamesOf pv) \<or> pv_Members pv' = pv_Members pv @ [underDefaults d (m\<lparr>mem_Name := name\<rparr>)]) \<and>
    pv_Pairs pv' = pv_Pairs pv \<and> pv_Ready pv' = pv_Ready pv \<and> pv_Reason pv' = pv_Reason pv \<and> pv_Messages pv' = pv_Messages pv"
  proof (cases "map_of (pv_Index pv) ?name")
    case None
    have f: "?name \<notin> set (memberNamesOf pv)" using parallel_fresh [OF assms(1)] None by blast
    show ?thesis using assms(2) None parallel_add [OF assms(1) _ _ f] n by (auto simp: addMember_def Let_def)
  next
    case (Some i)
    then have i: "i < length (pv_Members pv)" "memberNamesOf pv ! i = ?name" using assms(1) by (auto simp: parallel_def)
    then have "?name \<in> set (memberNamesOf pv)" by (metis length_map nth_mem)
    moreover have "parallel pv'"
      using assms Some parallel_statuses [OF assms(1)]
      by (auto simp: addMember_def Let_def intro!: parallel_statuses preview_map_update_same [where g = "\<lambda>_. _"] split: if_splits)
    ultimately show ?thesis using assms(2) Some n by (auto simp: addMember_def Let_def split: if_splits)
  qed
  then show "parallel pv'"
    and "pv_Members pv' = pv_Members pv \<and> name \<in> set (memberNamesOf pv) \<or> pv_Members pv' = pv_Members pv @ [underDefaults d (m\<lparr>mem_Name := name\<rparr>)]"
    and "pv_Pairs pv' = pv_Pairs pv" and "pv_Ready pv' = pv_Ready pv" and "pv_Reason pv' = pv_Reason pv" and "pv_Messages pv' = pv_Messages pv"
    by blast+
qed

lemma addMember_in: "parallel pv \<Longrightarrow> addMember d m sg ss phase msg pv = (name, pv') \<Longrightarrow> name \<in> set (memberNamesOf pv') \<and> set (memberNamesOf pv) \<subseteq> set (memberNamesOf pv')"
  using addMember_spec(3) [of pv d m sg ss phase msg name pv'] by auto


lemma say_fields [simp]:
  "pv_Members (say m pv) = pv_Members pv" "pv_Statuses (say m pv) = pv_Statuses pv" "pv_Index (say m pv) = pv_Index pv"
  "pv_Pairs (say m pv) = pv_Pairs pv" "pv_Ready (say m pv) = pv_Ready pv" "pv_Reason (say m pv) = pv_Reason pv"
  by (simp_all add: say_def)

lemma addPair_fields [simp]:
  "pv_Members (addPair a b c m pv) = pv_Members pv" "pv_Ready (addPair a b c m pv) = pv_Ready pv" "pv_Statuses (addPair a b c m pv) = pv_Statuses pv"
  "pv_Index (addPair a b c m pv) = pv_Index pv"
  "pv_Pairs (addPair a b c m pv) = pv_Pairs pv @ [\<lparr>prs_Primary = a, prs_Standby = b, prs_State = c, prs_Message = m\<rparr>]"
  by (simp_all add: addPair_def)

lemma updateStatusOf_fields [simp]:
  "pv_Members (updateStatusOf n f pv) = pv_Members pv" "pv_Ready (updateStatusOf n f pv) = pv_Ready pv" "pv_Pairs (updateStatusOf n f pv) = pv_Pairs pv"
  "pv_Index (updateStatusOf n f pv) = pv_Index pv"
  by (simp_all add: updateStatusOf_def Let_def)

lemma parallel_cong:
  "parallel pv \<Longrightarrow> pv_Members pv' = pv_Members pv \<Longrightarrow> pv_Statuses pv' = pv_Statuses pv \<Longrightarrow> pv_Index pv' = pv_Index pv \<Longrightarrow> parallel pv'"
  by (simp add: parallel_def)

lemma parallel_updateStatusOf: "parallel pv \<Longrightarrow> (\<And>s. sms_Name (f s) = sms_Name s) \<Longrightarrow> parallel (updateStatusOf n f pv)"
  unfolding updateStatusOf_def Let_def by (rule parallel_statuses) (simp_all add: preview_map_update_same)

text \<open>The members a preview is made of.\<close>

definition previewMember :: "ShardingDatabase \<Rightarrow> DataguardTopologyMember \<Rightarrow> bool" where
  "previewMember inst m \<longleftrightarrow>
     mem_LocalRef m = None \<and> mem_Role m \<in> {''PRIMARY'', ''PHYSICAL_STANDBY''} \<and> mem_Endpoints m \<noteq> [] \<and> cleanName (mem_Name m) \<and>
     (\<not> blank (mem_DBUniqueName m) \<longrightarrow> sanitizeDataguardMemberName (mem_DBUniqueName m) [] = mem_Name m) \<and>
     (\<forall>r. mem_AdminSecretRef m = Some r \<longrightarrow> \<not> blank (dsr_SecretName r)) \<and>
     (\<forall>t. mem_TCPS m = Some t \<longrightarrow> tcps_SSLServerDN t = [] \<and> spec_EnableTCPS (sdb_Spec inst) \<and> 0 < tcpsEndpointCount (mem_Endpoints m))"

lemma adminRef_named: "buildShardingPreviewAdminSecretRef inst = Inr r \<Longrightarrow> \<not> blank (dsr_SecretName r)"
  by (auto simp: buildShardingPreviewAdminSecretRef_def Let_def split: option.splits if_splits)

lemma local_member: "role \<in> {''PRIMARY'', ''PHYSICAL_STANDBY''} \<Longrightarrow> previewMember inst (buildShardingLocalTopologyMember inst shard role)"
proof -
  assume r: "role \<in> {''PRIMARY'', ''PHYSICAL_STANDBY''}"
  have t: "0 < tcpsEndpointCount [endpointSpec a b h p q, endpointSpec ''tcps'' ''TCPS'' h2 p2 q2]" for a b h p q h2 p2 q2
    by (simp add: tcpsEndpointCount_def endpointSpec_def go_eval)
  have "sanitizeDataguardMemberName (ToUpper (TrimSpace (sh_Name shard))) [] = sanitizeDataguardMemberName (sh_Name shard) ''shard''"
    if "\<not> blank (sh_Name shard)" using that by (rule sanitize_case(1))
  then show ?thesis
    using r t by (auto simp: buildShardingLocalTopologyMember_def previewMember_def clean_sanitize Let_def TrimSpace_ToUpper split: prod.splits)
qed

lemma external_member: "buildShardingExternalPrimaryPreviewMember pair = Some m \<Longrightarrow> previewMember inst m"
proof -
  assume e: "buildShardingExternalPrimaryPreviewMember pair = Some m"
  let ?n = "sanitizeDataguardMemberName (dgp_PrimaryKey pair) ''external-primary''"
  have n: "mem_Name m = ?n" "mem_DBUniqueName m = ToUpper (TrimSpace ?n)" "mem_LocalRef m = None" "mem_Role m = ''PRIMARY''" "mem_Endpoints m \<noteq> []"
      "mem_AdminSecretRef m = None" "mem_TCPS m = None"
    using e by (auto simp: buildShardingExternalPrimaryPreviewMember_def Let_def split: if_splits prod.splits)
  have c: "cleanName ?n" by (rule clean_sanitize)
  have "\<not> blank ?n" using clean_facts [OF c] by simp
  then have "sanitizeDataguardMemberName (ToUpper (TrimSpace ?n)) [] = sanitizeDataguardMemberName ?n []" by (rule sanitize_case(1))
  then show ?thesis using n c by (simp add: previewMember_def)
qed

lemma previewMember_secret: "previewMember inst m \<Longrightarrow> \<not> blank (dsr_SecretName r) \<Longrightarrow> previewMember inst (m\<lparr>mem_AdminSecretRef := Some r\<rparr>)"
  by (simp add: previewMember_def)

lemma previewMember_named: "previewMember inst m \<Longrightarrow> m\<lparr>mem_Name := sanitizeDataguardMemberName (mem_Name m) f\<rparr> = m"
  by (simp add: previewMember_def sanitize_clean)

lemma previewMember_defaults: "previewMember inst m \<Longrightarrow> previewMember inst (underDefaults d m)"
  by (auto simp: previewMember_def underDefaults_def Let_def split: option.splits prod.splits)

lemma primary_member: "buildShardingPrimaryPreviewMember errText inst s = Inr (m, msg, ok) \<Longrightarrow> previewMember inst m"
proof -
  assume b: "buildShardingPrimaryPreviewMember errText inst s = Inr (m, msg, ok)"
  have loc: "previewMember inst (fst (localPrimary inst p msg'))" for p msg'
    by (auto simp: localPrimary_def Let_def local_member previewMember_secret adminRef_named split: sum.splits)
  have ph: "\<not> blank (dsr_SecretName \<lparr>dsr_SecretName = ''replace-with-external-admin-secret'', dsr_SecretKey = k\<rparr>)" for k by (simp add: go_eval)
  have res: "previewMember inst m" if "Inr x = (Inr (m, msg, ok) :: string + DataguardTopologyMember \<times> string \<times> bool)" "previewMember inst (fst x)" for x
    using that by auto
  show ?thesis
    using b loc external_member previewMember_secret [OF external_member ph]
    unfolding buildShardingPrimaryPreviewMember_def Let_def
    by (auto split: option.splits sum.splits intro: res)
qed

lemma addMember_members:
  assumes "parallel pv" and "addMember d m sg ss phase msg pv = (name, pv')" and "previewMember inst m" and "list_all (previewMember inst) (pv_Members pv)"
  shows "list_all (previewMember inst) (pv_Members pv')"
  using addMember_spec(1,3) [OF assms(1,2)] assms(3,4) previewMember_named [OF assms(3)] previewMember_defaults [OF assms(3)] by auto


definition standbyKey :: "ShardSpec \<Rightarrow> string" where
  "standbyKey s = sanitizeDataguardMemberName (sh_Name s) ''shard''"

definition previewInv :: "ShardingDatabase \<Rightarrow> ShardSpec list \<Rightarrow> preview \<Rightarrow> bool" where
  "previewInv inst sbs pv \<longleftrightarrow> parallel pv \<and> pairsKnown pv \<and> list_all (previewMember inst) (pv_Members pv) \<and>
     map prs_Standby (pv_Pairs pv) = map standbyKey sbs"

lemma local_name [simp]: "mem_Name (buildShardingLocalTopologyMember inst s role) = standbyKey s"
  by (simp add: buildShardingLocalTopologyMember_def standbyKey_def Let_def split: prod.splits)

lemma previewStandby_inv:
  assumes "previewInv inst sbs pv"
  shows "previewInv inst (sbs @ [s]) (previewStandby errText inst d s pv) \<and> (pv_Ready (previewStandby errText inst d s pv) \<longrightarrow> pv_Ready pv)"
proof -
  let ?local = "buildShardingLocalTopologyMember inst s ''PHYSICAL_STANDBY''"
  define mem1 where "mem1 = fst (case buildShardingPreviewAdminSecretRef inst of Inr r \<Rightarrow> (?local\<lparr>mem_AdminSecretRef := Some r\<rparr>, pv)
     | Inl msg \<Rightarrow> (?local, say msg (pv\<lparr>pv_Ready := False, pv_Reason := ''WaitingForTopology''\<rparr>)))"
  define pv1 where "pv1 = snd (case buildShardingPreviewAdminSecretRef inst of Inr r \<Rightarrow> (?local\<lparr>mem_AdminSecretRef := Some r\<rparr>, pv)
     | Inl msg \<Rightarrow> (?local, say msg (pv\<lparr>pv_Ready := False, pv_Reason := ''WaitingForTopology''\<rparr>)))"
  obtain name pv2 where a: "addMember d mem1 (sh_ShardGroup s) (sh_ShardSpace s) [] [] pv1 = (name, pv2)" by fastforce
  have inv: "parallel pv" "pairsKnown pv" "list_all (previewMember inst) (pv_Members pv)" "map prs_Standby (pv_Pairs pv) = map standbyKey sbs"
    using assms by (simp_all add: previewInv_def)
  have pv1: "pv_Members pv1 = pv_Members pv" "pv_Pairs pv1 = pv_Pairs pv" "pv_Ready pv1 \<longrightarrow> pv_Ready pv" "parallel pv1"
    by (auto simp: pv1_def split: sum.splits intro: inv(1) parallel_cong [OF inv(1)])
  have mem1: "previewMember inst mem1" "mem_Name mem1 = standbyKey s"
    by (auto simp: mem1_def local_member previewMember_secret adminRef_named split: sum.splits)
  have name: "name = standbyKey s" using addMember_spec(1) [OF pv1(4) a] by (simp add: mem1 standbyKey_def)
  have two: "parallel pv2" "pv_Pairs pv2 = pv_Pairs pv" "pv_Ready pv2 \<longrightarrow> pv_Ready pv" "list_all (previewMember inst) (pv_Members pv2)"
    using addMember_spec(2,4,5) [OF pv1(4) a] addMember_members [OF pv1(4) a mem1(1)] inv(3) pv1 by simp_all
  have in2: "name \<in> set (memberNamesOf pv2)" "set (memberNamesOf pv) \<subseteq> set (memberNamesOf pv2)" using addMember_in [OF pv1(4) a] pv1(1) by auto
  have known: "\<forall>p \<in> set (pv_Pairs pv). prs_Standby p \<in> set (memberNamesOf pv) \<and> (prs_State p = ''Resolved'' \<longrightarrow> prs_Primary p \<in> set (memberNamesOf pv))"
    "pv_Ready pv \<longrightarrow> (\<forall>p \<in> set (pv_Pairs pv). prs_State p = ''Resolved'')"
    by (rule conjunct1 [OF inv(2) [unfolded pairsKnown_def]], rule conjunct2 [OF inv(2) [unfolded pairsKnown_def]])
  show ?thesis
  proof (cases "buildShardingPrimaryPreviewMember errText inst s")
    case (Inl msg)
    let ?pv3 = "say msg (pv2\<lparr>pv_Ready := False, pv_Reason := ''WaitingForTopology''\<rparr>)"
    let ?res = "updateStatusOf name (\<lambda>s. s\<lparr>sms_Phase := ''WaitingForTopology'', sms_Message := msg\<rparr>) (addPair [] name ''Pending'' msg ?pv3)"
    have e: "previewStandby errText inst d s pv = ?res"
      using a Inl by (simp add: previewStandby_def mem1_def pv1_def Let_def case_prod_unfold)
    have "parallel ?res" by (intro parallel_updateStatusOf) (auto intro: parallel_cong [OF two(1)])
    moreover have "pairsKnown ?res" using known(1) in2 two(2) by (auto simp: pairsKnown_def)
    ultimately show ?thesis unfolding e previewInv_def using two(2,4) inv(4) name by simp
  next
    case (Inr x)
    obtain m msg ok where x: "x = (m, msg, ok)" by (cases x)
    let ?pv3 = "say msg pv2" define pv4 where "pv4 = (if ok then ?pv3 else ?pv3\<lparr>pv_Ready := False, pv_Reason := ''WaitingForUserInput''\<rparr>)"
    let ?phase = "if ok then PreviewReady else ''WaitingForUserInput''"
    obtain pname pv5 where a5: "addMember d m [] [] ?phase msg pv4 = (pname, pv5)" by fastforce
    let ?res = "addPair pname name ''Resolved'' msg
       (updateStatusOf name (\<lambda>s. s\<lparr>sms_PrimaryMemberName := pname, sms_Phase := ?phase, sms_Message := msg\<rparr>) pv5)"
    have e: "previewStandby errText inst d s pv = ?res"
      using a a5 Inr x unfolding pv4_def by (cases ok) (simp_all add: previewStandby_def mem1_def pv1_def Let_def case_prod_unfold)
    have four: "parallel pv4" "pv_Members pv4 = pv_Members pv2" "pv_Pairs pv4 = pv_Pairs pv2" "pv_Ready pv4 \<longrightarrow> pv_Ready pv2"
      by (auto simp: pv4_def intro: parallel_cong [OF two(1)])
    have m: "previewMember inst m" using primary_member Inr x by blast
    have five: "parallel pv5" "pv_Pairs pv5 = pv_Pairs pv" "pv_Ready pv5 \<longrightarrow> pv_Ready pv" "list_all (previewMember inst) (pv_Members pv5)"
      using addMember_spec(2,4,5) [OF four(1) a5] addMember_members [OF four(1) a5 m] two four by simp_all
    have in5: "pname \<in> set (memberNamesOf pv5)" "set (memberNamesOf pv2) \<subseteq> set (memberNamesOf pv5)" using addMember_in [OF four(1) a5] four(2) by auto
    have "parallel ?res" by (rule parallel_cong [OF parallel_updateStatusOf [OF five(1)]]) simp_all
    moreover have "pairsKnown ?res" using known in2 in5 five(2,3) unfolding pairsKnown_def by (auto simp del: set_map)
    ultimately show ?thesis unfolding e previewInv_def using five(2,3,4) inv(4) name by simp
  qed
qed

lemma foldPreview_inv:
  "previewInv inst (filter (\<lambda>s. isStandbyDeployAs (sh_DeployAs s)) (spec_Shard (sdb_Spec inst))) (foldPreview errText inst) \<and>
   (pv_Ready (foldPreview errText inst) \<longrightarrow> snd (snd (buildShardingPreviewTopologyDefaults inst)))"
proof -
  have step: "previewInv inst (sbs @ filter (\<lambda>s. isStandbyDeployAs (sh_DeployAs s)) xs) (fold (previewShard errText inst d) xs pv) \<and>
      (pv_Ready (fold (previewShard errText inst d) xs pv) \<longrightarrow> pv_Ready pv)"
    if "previewInv inst sbs pv" for sbs d xs pv
    using that
  proof (induction xs arbitrary: sbs pv)
    case (Cons x xs)
    show ?case
    proof (cases "isStandbyDeployAs (sh_DeployAs x)")
      case True
      note s = previewStandby_inv [OF Cons.prems, of x errText d]
      show ?thesis using True s Cons.IH [OF conjunct1 [OF s]] by (simp add: previewShard_def)
    next
      case False
      then show ?thesis using Cons.IH [OF Cons.prems] by (simp add: previewShard_def)
    qed
  qed simp
  have "previewInv inst [] (startPreview ms ok)" "pv_Ready (startPreview ms ok) = ok" for ms ok
    by (simp_all add: previewInv_def startPreview_def parallel_def pairsKnown_def)
  then show ?thesis using step [of "[]"] unfolding foldPreview_def by (cases "buildShardingPreviewTopologyDefaults inst") fastforce
qed


section \<open>The preview before the webhook of the broker\<close>

lemma ready_defaults:
  assumes "snd (snd (buildShardingPreviewTopologyDefaults inst))"
  obtains r where "buildShardingPreviewAdminSecretRef inst = Inr r"
proof (cases "buildShardingPreviewAdminSecretRef inst")
  case (Inl msg)
  have "\<not> blank msg"
    using Inl by (auto simp: buildShardingPreviewAdminSecretRef_def Let_def blank_iff_spaces is_space_def split: option.splits if_splits)
  then show ?thesis using assms Inl by (simp add: buildShardingPreviewTopologyDefaults_def Let_def)
qed

lemma defaults_secret:
  "buildShardingPreviewAdminSecretRef inst = Inr r \<Longrightarrow>
   Option.bind (fst (buildShardingPreviewTopologyDefaults inst)) dfl_AdminSecretRef = Some (cloneDataguardSecretRef r)"
  by (simp add: buildShardingPreviewTopologyDefaults_def Let_def)

lemma defaults_wallet:
  "spec_EnableTCPS (sdb_Spec inst) \<Longrightarrow>
   Option.bind (fst (buildShardingPreviewTopologyDefaults inst)) dfl_TCPS = Some \<lparr>dtd_ClientWalletSecret = dataguardPreviewSharedWalletPlaceholder\<rparr>"
  by (simp add: buildShardingPreviewTopologyDefaults_def Let_def case_prod_unfold)

lemma previewMember_sound:
  assumes "previewMember inst m" and "buildShardingPreviewAdminSecretRef inst = Inr r"
    and "top_Defaults t = fst (buildShardingPreviewTopologyDefaults inst)"
    and "ValidateDataguardDBUniqueName (resolvedDBUniqueName m) = None" and "list_all soundEndpoint (mem_Endpoints m)"
  shows "soundMember ns t m"
proof -
  note pm = assms(1) [unfolded previewMember_def]
  have c: "cleanName (mem_Name m)" using pm by simp
  have "isValidDataguardMemberRole (mem_Role m)"
    using pm by (auto simp: isValidDataguardMemberRole_def normalizeDataguardMemberRole_def go_eval)
  moreover have "authenticated ns t m"
    using pm adminRef_named [OF assms(2)] unfolding authenticated_def ResolveDataguardTopologyMemberExplicitAdminSecretRef_def assms(3) defaults_secret [OF assms(2)]
    by (auto simp: cloneDataguardSecretRef_def split: option.splits)
  moreover have "tcps_SSLServerDN c = [] \<and> 0 < tcpsEndpointCount (mem_Endpoints m) \<and> ResolveDataguardTopologyMemberClientWalletSecret t m \<noteq> []"
    if "mem_TCPS m = Some c" for c
  proof -
    have en: "spec_EnableTCPS (sdb_Spec inst)" using pm that by blast
    have "\<not> blank dataguardPreviewSharedWalletPlaceholder" by (simp add: dataguardPreviewSharedWalletPlaceholder_def go_eval)
    then show ?thesis
      using pm that unfolding ResolveDataguardTopologyMemberClientWalletSecret_def assms(3) defaults_wallet [OF en] by (simp add: Let_def)
  qed
  ultimately show ?thesis
    unfolding soundMember_def using pm clean_facts [OF c] assms(4,5) by auto
qed

lemma preview_keys:
  assumes "list_all (previewMember inst) ms" and "distinct (map mem_Name ms)"
  shows "distinct (map nameKey ms)" and "distinct (map dbKey ms)"
proof -
  have n: "nameKey m = mem_Name m" if "m \<in> set ms" for m
    using assms(1) that clean_facts by (auto simp: list_all_iff previewMember_def nameKey_def)
  then have k: "map nameKey ms = map mem_Name ms" by simp
  show "distinct (map nameKey ms)" unfolding k by (rule assms(2))
  have "sanitizeDataguardMemberName (dbKey m) [] = mem_Name m" if "m \<in> set ms" for m
  proof -
    have pm: "previewMember inst m" using assms(1) that by (simp add: list_all_iff)
    then have c: "cleanName (mem_Name m)" by (simp add: previewMember_def)
    show ?thesis
    proof (cases "blank (mem_DBUniqueName m)")
      case True
      then show ?thesis using clean_facts [OF c] sanitize_clean [OF c] by (simp add: dbKey_def resolvedDBUniqueName_def Let_def)
    next
      case False
      then show ?thesis
        using pm sanitize_case(2) [OF False, of "[]" "[]"] by (simp add: dbKey_def resolvedDBUniqueName_def Let_def previewMember_def)
    qed
  qed
  then have k2: "map (\<lambda>k. sanitizeDataguardMemberName k []) (map dbKey ms) = map mem_Name ms" by simp
  have "distinct (map (\<lambda>k. sanitizeDataguardMemberName k []) (map dbKey ms))" unfolding k2 by (rule assms(2))
  then show "distinct (map dbKey ms)" by (auto simp: distinct_map dest: inj_on_imageI2)
qed

lemma preview_topology:
  assumes "EffectiveReplicationType (spec_ReplicationType (sdb_Spec inst)) = ''DG''" and "pvr_Topology (buildShardingPreviewTopology errText inst) = Some t"
  shows "top_Members t = pv_Members (foldPreview errText inst)" and "top_Defaults t = fst (buildShardingPreviewTopologyDefaults inst)"
    and "top_Policy t = None" and "top_Observer t = None"
    and "pvr_Ready (buildShardingPreviewTopology errText inst) = pv_Ready (foldPreview errText inst)"
  using assms by (auto simp: buildShardingPreviewTopology_def Let_def split: if_splits)

lemma preview_members:
  assumes "pv = foldPreview errText inst"
  shows "list_all (previewMember inst) (pv_Members pv)" and "distinct (memberNamesOf pv)" and "map sms_Name (pv_Statuses pv) = memberNamesOf pv"
    and "pairsKnown pv" and "map prs_Standby (pv_Pairs pv) = map standbyKey (filter (\<lambda>s. isStandbyDeployAs (sh_DeployAs s)) (spec_Shard (sdb_Spec inst)))"
    and "pv_Ready pv \<Longrightarrow> snd (snd (buildShardingPreviewTopologyDefaults inst))"
  using foldPreview_inv [of inst errText] unfolding assms previewInv_def parallel_def by simp_all


lemma sync_ready:
  assumes "st_Dataguard (syncShardingDataguardPreviewStatus setc now digest errText inst st) = Some dg" and "sdg_ReadyForBroker dg"
  obtains t where "EffectiveReplicationType (spec_ReplicationType (sdb_Spec inst)) = ''DG''"
    and "pvr_Topology (buildShardingPreviewTopology errText inst) = Some t" and "pvr_Ready (buildShardingPreviewTopology errText inst)"
    and "Option.bind (sdg_RenderedBrokerSpec dg) rbr_Spec =
      Some \<lparr>rbs_Execution = renderedExecution (buildShardingPreviewExecutionStatus inst), rbs_Topology = Some t\<rparr>"
    and "sdg_TopologyHash dg = dataguardTopologyHash digest t" and "sdg_PublishedTopologyHash dg = sdg_TopologyHash dg" and "sdg_Phase dg = ''PreviewReady''"
  using assms
  by (auto simp: syncShardingDataguardPreviewStatus_def zeroDataguardStatus_def publishPreview_def buildRenderedBrokerPreviewStatus_def Let_def
      split: if_splits option.splits)

lemma preview_execution_Nil_iff:
  assumes "dataguardTopologyRequiresExecutionRuntime (dbs_Topology spec)"
    and "dbs_Execution spec = renderedExecution (buildShardingPreviewExecutionStatus inst)"
  shows "validateDataguardExecution spec = [] \<longleftrightarrow> \<not> blank (spec_DbImage (sdb_Spec inst)) \<and>
    (\<forall>r. Option.bind (Option.bind (spec_Dataguard (sdb_Spec inst)) dgp_AuthWallet) awl_PasswordSecretRef = Some r \<longrightarrow> \<not> blank (dsr_SecretName r))"
proof (cases "blank (spec_DbImage (sdb_Spec inst))")
  case True
  then show ?thesis
    using assms by (simp add: validateDataguardExecution_def renderedExecution_def buildShardingPreviewExecutionStatus_def
        renderedBrokerExecutionSpecHasContent_def Let_def)
next
  case False
  then show ?thesis
    using assms by (auto simp: validateDataguardExecution_def renderedExecution_def buildShardingPreviewExecutionStatus_def
        renderedBrokerExecutionSpecHasContent_def cloneDataguardAuthWalletSpec_def range_errs_Nil_iff Let_def split: option.splits)
qed


section \<open>Properties\<close>

text \<open>C10:
  From the producer to the consumer. When the controller publishes a preview as ready and its members have
  unique names and endpoints of an acceptable shape, the webhook of \<^verbatim>\<open>DataguardBroker\<close> accepts the rendered
  specification exactly when the topology has one primary, the image is set, and an authentication wallet
  that names a secret names it properly. So a preview with the two or more primaries that a sharded database
  normally has is published as ready to be copied and is refused when it is copied.
\<close>

theorem ready_preview_accepted_iff:
  assumes "st_Dataguard (syncShardingDataguardPreviewStatus setc now digest errText inst st) = Some dg" and "sdg_ReadyForBroker dg"
    and "Option.bind (sdg_RenderedBrokerSpec dg) rbr_Spec = Some rs" and "rbs_Topology rs = Some t"
    and "\<forall>m \<in> set (top_Members t). ValidateDataguardDBUniqueName (resolvedDBUniqueName m) = None \<and> list_all soundEndpoint (mem_Endpoints m)"
    and "brk_Spec b = zeroBrokerSpec\<lparr>dbs_Execution := rbs_Execution rs, dbs_Topology := Some t\<rparr>"
  shows "DataguardBroker_ValidateCreate b = [] \<longleftrightarrow>
    length (filter isPrimaryMember (top_Members t)) = 1 \<and> \<not> blank (spec_DbImage (sdb_Spec inst)) \<and>
    (\<forall>r. Option.bind (Option.bind (spec_Dataguard (sdb_Spec inst)) dgp_AuthWallet) awl_PasswordSecretRef = Some r \<longrightarrow> \<not> blank (dsr_SecretName r))"
proof -
  let ?pv = "foldPreview errText inst"
  obtain t' where dg: "EffectiveReplicationType (spec_ReplicationType (sdb_Spec inst)) = ''DG''"
    and top': "pvr_Topology (buildShardingPreviewTopology errText inst) = Some t'" and ready: "pvr_Ready (buildShardingPreviewTopology errText inst)"
    and rs: "rs = \<lparr>rbs_Execution = renderedExecution (buildShardingPreviewExecutionStatus inst), rbs_Topology = Some t'\<rparr>"
    using sync_ready [OF assms(1,2)] assms(3) by (metis option.inject)
  have t: "t' = t" using rs assms(4) by simp
  note top = preview_topology [OF dg top' [unfolded t]] and mem = preview_members [of ?pv errText inst, OF refl]
  obtain r where r: "buildShardingPreviewAdminSecretRef inst = Inr r" by (rule ready_defaults [OF mem(6)]) (use ready top(5) in simp)
  have ne: "top_Members t \<noteq> []" using top' dg t by (auto simp: buildShardingPreviewTopology_def Let_def split: if_splits)
  have sound: "soundMember ns t m" if "m \<in> set (top_Members t)" for ns m
    using previewMember_sound [OF _ r top(2)] assms(5) that mem(1) top(1) by (simp add: list_all_iff)
  have keys: "distinct (map nameKey (top_Members t))" "distinct (map dbKey (top_Members t))"
    using preview_keys [OF mem(1,2)] by (simp_all add: top(1))
  have set: "soundSettings t"
    unfolding soundSettings_def top(2,3,4) defaults_secret [OF r] using adminRef_named [OF r] by (simp add: cloneDataguardSecretRef_def)
  have topology: "validateDataguardTopology ns t = [] \<longleftrightarrow> length (filter isPrimaryMember (top_Members t)) = 1" for ns
    unfolding topology_Nil_iff policyErrs_Nil_iff memberErrs_Nil_iff using sound keys set by simp
  have "memberRequiresRuntime m" if "m \<in> set (top_Members t)" for m
    using mem(1) that by (simp add: list_all_iff top(1) previewMember_def memberRequiresRuntime_def)
  then have "dataguardTopologyRequiresExecutionRuntime (Some t)"
    using ne by (cases "top_Members t") (simp_all add: dataguardTopologyRequiresExecutionRuntime_def)
  then have exec: "validateDataguardExecution (brk_Spec b) = [] \<longleftrightarrow> \<not> blank (spec_DbImage (sdb_Spec inst)) \<and>
    (\<forall>r. Option.bind (Option.bind (spec_Dataguard (sdb_Spec inst)) dgp_AuthWallet) awl_PasswordSecretRef = Some r \<longrightarrow> \<not> blank (dsr_SecretName r))"
    by (intro preview_execution_Nil_iff) (simp_all add: assms(6) rs)
  have "validateNoMixedTopologyAndLegacy (brk_Spec b) = []" "validateDataguardBrokerOperations (brk_Spec b) = []"
    by (simp_all add: assms(6) validateNoMixedTopologyAndLegacy_def validateDataguardBrokerOperations_def zeroBrokerSpec_def)
  then show ?thesis
    unfolding DataguardBroker_ValidateCreate_def validateDataguardBroker_def using topology exec assms(6) by auto
qed


definition previewExample :: ShardingDatabase where
  "previewExample = zeroShardingDatabase\<lparr>sdb_Name := ''db'', sdb_Namespace := ''ns'', sdb_Spec := pairedSpec\<lparr>
     spec_DbImage := ''img'', spec_DbSecret := Some (zeroSecretDetails\<lparr>sec_Name := ''adm'', sec_DbAdmin := zeroPasswordSecretConfig\<lparr>pwd_PasswordKey := ''k''\<rparr>\<rparr>)\<rparr>\<rparr>"

lemma previewExample_eval:
  "(let pv = foldPreview (\<lambda>_. []) previewExample in
    pv_Ready pv \<and> length (pv_Pairs pv) = 2 \<and> length (filter isPrimaryMember (pv_Members pv)) = 2 \<and>
    list_all (\<lambda>m. ValidateDataguardDBUniqueName (resolvedDBUniqueName m) = None \<and> list_all soundEndpoint (mem_Endpoints m)) (pv_Members pv))"
  by code_simp

definition keepConditions :: "Condition list \<Rightarrow> Condition \<Rightarrow> Condition list" where
  "keepConditions cs c = c # filter (\<lambda>x. cond_Type x \<noteq> cond_Type c) cs"

definition previewStatus :: ShardingDataguardStatus where
  "previewStatus = the (st_Dataguard (syncShardingDataguardPreviewStatus keepConditions 7 (\<lambda>_. ''h'') (\<lambda>_. []) previewExample (sdb_Status previewExample)))"

definition previewTopology :: DataguardTopologySpec where
  "previewTopology = the (pvr_Topology (buildShardingPreviewTopology (\<lambda>_. []) previewExample))"

lemma previewExample_fields [simp]:
  "EffectiveReplicationType (spec_ReplicationType (sdb_Spec previewExample)) = ''DG''" "spec_Dataguard (sdb_Spec previewExample) = None"
  "spec_DbImage (sdb_Spec previewExample) = ''img''"
  by (simp_all add: previewExample_def pairedSpec_def zeroShardingDatabaseSpec_def EffectiveReplicationType_def ctlNormalizeReplicationType_def go_eval)

lemma previewExample_replication [simp]: "normalizeReplicationType (sdb_Spec previewExample) = ''DG''"
  using previewExample_fields(1) by simp

lemma previewExample_sync:
  "st_Dataguard (syncShardingDataguardPreviewStatus keepConditions 7 (\<lambda>_. ''h'') (\<lambda>_. []) previewExample (sdb_Status previewExample)) = Some previewStatus"
  "sdg_ReadyForBroker previewStatus" "pvr_Topology (buildShardingPreviewTopology (\<lambda>_. []) previewExample) = Some previewTopology"
  "Option.bind (sdg_RenderedBrokerSpec previewStatus) rbr_Spec =
     Some \<lparr>rbs_Execution = renderedExecution (buildShardingPreviewExecutionStatus previewExample), rbs_Topology = Some previewTopology\<rparr>"
  "top_Members previewTopology = pv_Members (foldPreview (\<lambda>_. []) previewExample)"
proof -
  have e: "pv_Ready (foldPreview (\<lambda>_. []) previewExample)" "pv_Members (foldPreview (\<lambda>_. []) previewExample) \<noteq> []"
    using previewExample_eval by (auto simp: Let_def)
  then show t: "pvr_Topology (buildShardingPreviewTopology (\<lambda>_. []) previewExample) = Some previewTopology"
    and m: "top_Members previewTopology = pv_Members (foldPreview (\<lambda>_. []) previewExample)"
    by (simp_all add: previewTopology_def buildShardingPreviewTopology_def Let_def)
  have r: "pvr_Ready (buildShardingPreviewTopology (\<lambda>_. []) previewExample)" using e by (simp add: buildShardingPreviewTopology_def Let_def)
  show "st_Dataguard (syncShardingDataguardPreviewStatus keepConditions 7 (\<lambda>_. ''h'') (\<lambda>_. []) previewExample (sdb_Status previewExample)) = Some previewStatus"
    "sdg_ReadyForBroker previewStatus"
    "Option.bind (sdg_RenderedBrokerSpec previewStatus) rbr_Spec =
       Some \<lparr>rbs_Execution = renderedExecution (buildShardingPreviewExecutionStatus previewExample), rbs_Topology = Some previewTopology\<rparr>"
    using t r unfolding previewStatus_def
    by (simp_all add: syncShardingDataguardPreviewStatus_def EffectiveDataguardProducerMode_def dg_mode_defs publishPreview_def
        buildRenderedBrokerPreviewStatus_def Let_def)
qed

text \<open>Two primaries with a standby each: published as ready, refused by the broker.\<close>

theorem ready_preview_accepted_iff_witness:
  "sdg_ReadyForBroker previewStatus \<and> sdg_RenderedBrokerSpec previewStatus \<noteq> None \<and>
   DataguardBroker_ValidateCreate (\<lparr>brk_Name = ''b'', brk_Namespace = ''ns'', brk_Generation = 1,
     brk_Spec = zeroBrokerSpec\<lparr>dbs_Execution := renderedExecution (buildShardingPreviewExecutionStatus previewExample), dbs_Topology := Some previewTopology\<rparr>,
     brk_Status = zeroBrokerStatus\<rparr>) \<noteq> []"
proof -
  note ev = previewExample_eval [unfolded Let_def] and sy = previewExample_sync
  have v: "\<forall>m \<in> set (top_Members previewTopology). ValidateDataguardDBUniqueName (resolvedDBUniqueName m) = None \<and> list_all soundEndpoint (mem_Endpoints m)"
    using ev unfolding sy(5) by (simp add: list_all_iff)
  have "length (filter isPrimaryMember (top_Members previewTopology)) \<noteq> 1" using ev unfolding sy(5) by simp
  moreover have "sdg_RenderedBrokerSpec previewStatus \<noteq> None" using sy(4) by (cases "sdg_RenderedBrokerSpec previewStatus") simp_all
  ultimately show ?thesis using ready_preview_accepted_iff [OF sy(1,2,4) _ v] sy(2) by auto
qed

text \<open>The preview speaks of every standby shard once, in the order of the specification: its pairs name the
  standbys by the sanitised names of the shards; every standby, and the primary of every resolved pair, is a
  member of the published list, whose names are distinct and are those of the rendered topology; and a
  preview that is ready has no unresolved pair.
\<close>

theorem preview_pairs_complete:
  assumes "EffectiveReplicationType (spec_ReplicationType (sdb_Spec inst)) = ''DG''" and "pvr = buildShardingPreviewTopology errText inst"
  shows "map prs_Standby (pvr_Pairs pvr) = map standbyKey (filter (\<lambda>s. isStandbyDeployAs (sh_DeployAs s)) (spec_Shard (sdb_Spec inst))) \<and>
    distinct (map sms_Name (pvr_Members pvr)) \<and>
    (\<forall>p \<in> set (pvr_Pairs pvr). prs_Standby p \<in> sms_Name ` set (pvr_Members pvr) \<and> (prs_State p = ''Resolved'' \<longrightarrow> prs_Primary p \<in> sms_Name ` set (pvr_Members pvr))) \<and>
    (pvr_Ready pvr \<longrightarrow> (\<forall>p \<in> set (pvr_Pairs pvr). prs_State p = ''Resolved'')) \<and>
    (\<forall>t. pvr_Topology pvr = Some t \<longrightarrow> map mem_Name (top_Members t) = map sms_Name (pvr_Members pvr))"
proof -
  let ?pv = "foldPreview errText inst"
  note mem = preview_members [of ?pv errText inst, OF refl]
  have f: "pvr_Pairs pvr = pv_Pairs ?pv" "pvr_Members pvr = pv_Statuses ?pv" "pvr_Ready pvr \<Longrightarrow> pv_Ready ?pv"
    using assms by (simp_all add: buildShardingPreviewTopology_def Let_def)
  have names: "sms_Name ` set (pv_Statuses ?pv) = set (memberNamesOf ?pv)" using mem(3) by (metis set_map)
  show ?thesis
    unfolding f(1,2) names mem(3)
    using mem(2,4,5) f(3) preview_topology(1) [OF assms(1)] assms(2) unfolding pairsKnown_def by auto
qed

theorem preview_pairs_complete_witness:
  "map prs_Standby (pvr_Pairs (buildShardingPreviewTopology (\<lambda>_. []) previewExample)) = [''s3'', ''s4'']"
proof -
  have "map standbyKey (filter (\<lambda>s. isStandbyDeployAs (sh_DeployAs s)) (spec_Shard (sdb_Spec previewExample))) = [''s3'', ''s4'']"
    by code_simp
  then show ?thesis using preview_pairs_complete [OF previewExample_fields(1) refl, of "\<lambda>_. []"] by simp
qed

text \<open>Publishing a preview never raises the topology lock: the written status is locked only if the status
  before was.
\<close>

theorem preview_never_locks:
  assumes "st_Dataguard (syncShardingDataguardPreviewStatus setc now digest errText inst st) = Some dg" and "sdg_TopologyLocked dg"
  shows "\<exists>old. st_Dataguard st = Some old \<and> sdg_TopologyLocked old"
  using assms
  by (auto simp: syncShardingDataguardPreviewStatus_def zeroDataguardStatus_def publishPreview_def Let_def split: if_splits option.splits)


theorem preview_never_locks_witness:
  "\<exists>old. st_Dataguard lockedStatus = Some old \<and> sdg_TopologyLocked old \<and>
    st_Dataguard (syncShardingDataguardPreviewStatus keepConditions 7 (\<lambda>_. ''h'') (\<lambda>_. []) previewExample lockedStatus) \<noteq> None"
proof -
  obtain dg where dg: "st_Dataguard (syncShardingDataguardPreviewStatus keepConditions 7 (\<lambda>_. ''h'') (\<lambda>_. []) previewExample lockedStatus) = Some dg" "sdg_TopologyLocked dg"
    using previewExample_sync(3)
    by (auto simp: syncShardingDataguardPreviewStatus_def EffectiveDataguardProducerMode_def dg_mode_defs lockedStatus_def publishPreview_def Let_def)
  show ?thesis using preview_never_locks [OF dg] dg(1) by auto
qed

text \<open>The hash of a topology does not depend on the order of its members.\<close>

lemma sort_key_unique:
  assumes "mset xs = mset ys" and "inj_on f (set xs)"
  shows "sort_key f xs = sort_key f ys"
proof (rule properties_for_sort_key)
  have set: "set (sort_key f ys) = set xs" using assms(1) by (metis set_mset_mset set_sort)
  show "mset (sort_key f ys) = mset xs" using assms(1) by simp
  show "sorted (map f (sort_key f ys))" by simp
  show "filter (\<lambda>x. f k = f x) (sort_key f ys) = filter (\<lambda>x. f k = f x) xs" if "k \<in> set (sort_key f ys)" for k
  proof -
    have "filter (\<lambda>x. f k = f x) zs = replicate (count_list zs k) k" if "set zs = set xs" for zs
    proof -
      have "filter (\<lambda>x. f k = f x) zs = filter (\<lambda>x. k = x) zs"
        using assms(2) \<open>k \<in> set (sort_key f ys)\<close> set that by (intro filter_cong) (auto dest: inj_onD)
      also have "\<dots> = replicate (count_list zs k) k" by (induction zs) auto
      finally show ?thesis .
    qed
    moreover have "count_list (sort_key f ys) k = count_list xs k"
      by (metis assms(1) count_mset mset_sort)
    ultimately show ?thesis using set by simp
  qed
qed

lemma hash_order_independent:
  assumes "mset ms' = mset (top_Members t)" and "distinct (map mem_Name (top_Members t))"
  shows "dataguardTopologyHash digest (t\<lparr>top_Members := ms'\<rparr>) = dataguardTopologyHash digest t"
proof -
  have "sort_key mem_Name (top_Members t) = sort_key mem_Name ms'" using assms by (intro sort_key_unique) (simp_all add: distinct_map)
  then show ?thesis by (simp add: dataguardTopologyHash_def canonicalTopology_def)
qed

end
