(* ===== verification/Sidb_Types.thy ===== *)
theory Sidb_Types
  imports Sharding_Types
begin

text \<open>
  The data of the single-instance database, \<^verbatim>\<open>apis/database/v4/singleinstancedatabase_types.go\<close>: one record per Go
  struct with its fields in the source's order, and the published Data Guard status
  \<^verbatim>\<open>ProducerDataguardStatus\<close> (\<^verbatim>\<open>dataguard_common_types.go\<close>). An environment variable keeps its name, its value
  and whether it has a source (\<^verbatim>\<open>corev1.EnvVar\<close>); of the object metadata the name, the namespace, the annotations, the
  generation and the time of deletion are kept. A quantity is kept as the literal it is parsed from.
\<close>


section \<open>The specification\<close>

record EnvVar =
  ev_Name :: string
  ev_Value :: string
  ev_ValueFrom :: "opaque option"

record SingleInstanceDatabaseScriptLocation =
  scl_PvcName :: string

record SingleInstanceDatabaseScriptsSpec =
  scr_Setup :: "SingleInstanceDatabaseScriptLocation option"
  scr_Startup :: "SingleInstanceDatabaseScriptLocation option"

record SingleInstanceDatabaseSecretKeyRef =
  skr_SecretName :: string
  skr_Key :: string

record SingleInstanceDatabaseConfigMapKeyRef =
  ckr_ConfigMapName :: string
  ckr_Key :: string

record SingleInstanceDatabaseBackupIdentity =
  bid_BucketName :: string
  bid_DBID :: string
  bid_CompartmentOCID :: string

record SingleInstanceDatabaseEncryptedBackup =
  enb_Enabled :: bool
  enb_DecryptPasswordSecret :: "SingleInstanceDatabaseSecretKeyRef option"

record SingleInstanceDatabaseRestoreObjectStoreSpec =
  ros_OCIConfig :: "SingleInstanceDatabaseConfigMapKeyRef option"
  ros_PrivateKey :: "SingleInstanceDatabaseSecretKeyRef option"
  ros_SourceDBWallet :: "SingleInstanceDatabaseSecretKeyRef option"
  ros_SourceDBWalletPw :: "SingleInstanceDatabaseSecretKeyRef option"
  ros_BackupModuleConf :: "SingleInstanceDatabaseConfigMapKeyRef option"
  ros_OpcInstallerZip :: "SingleInstanceDatabaseConfigMapKeyRef option"
  ros_BackupIdentity :: "SingleInstanceDatabaseBackupIdentity option"
  ros_EncryptedBackup :: "SingleInstanceDatabaseEncryptedBackup option"

record SingleInstanceDatabaseRestoreFileSystemSpec =
  rfs_BackupPath :: string
  rfs_CatalogStartWith :: string
  rfs_SourceDBWallet :: "SingleInstanceDatabaseSecretKeyRef option"
  rfs_SourceDBWalletPw :: "SingleInstanceDatabaseSecretKeyRef option"
  rfs_EncryptedBackup :: "SingleInstanceDatabaseEncryptedBackup option"

record SingleInstanceDatabaseRestoreTargetSpec =
  rtg_DataRoot :: string
  rtg_WalletRoot :: string

record SingleInstanceDatabaseRestoreOptionsSpec =
  rop_SourceDBName :: string
  rop_RunCrosscheck :: "bool option"
  rop_RunValidateOnly :: "bool option"
  rop_ForceOpcReinstall :: "bool option"

record SingleInstanceDatabaseRestoreSpec =
  rst_ObjectStore :: "SingleInstanceDatabaseRestoreObjectStoreSpec option"
  rst_FileSystem :: "SingleInstanceDatabaseRestoreFileSystemSpec option"
  rst_Target :: "SingleInstanceDatabaseRestoreTargetSpec option"
  rst_Options :: "SingleInstanceDatabaseRestoreOptionsSpec option"

record SingleInstanceDatabaseSecurityTCPS =
  stc_Enabled :: bool
  stc_TlsSecret :: string
  stc_ClientWalletSecret :: string
  stc_CertRenewInterval :: string
  stc_CertMountLocation :: string

record SingleInstanceDatabaseServiceEndpointPort =
  sep_Enabled :: bool
  sep_Port :: int
  sep_NodePort :: int

record SingleInstanceDatabaseServiceEndpoint =
  sve_Name :: string
  sve_Type :: string
  sve_IsKeep :: bool
  sve_Annotations :: strmap
  sve_ExternalTrafficPolicy :: string
  sve_TCP :: "SingleInstanceDatabaseServiceEndpointPort option"
  sve_TCPS :: "SingleInstanceDatabaseServiceEndpointPort option"

record SingleInstanceDatabaseServices =
  svs_Endpoints :: "SingleInstanceDatabaseServiceEndpoint list"
  svs_External :: "SingleInstanceDatabaseServiceEndpoint option"

record SingleInstanceDatabaseTNSAlias =
  tns_Name :: string
  tns_Host :: string
  tns_Port :: int
  tns_ServiceName :: string
  tns_Protocol :: string
  tns_SSLServerDN :: string

record SingleInstanceDatabaseAdminPassword =
  adm_SecretName :: string
  adm_SecretKey :: string
  adm_KeepSecret :: "bool option"
  adm_MountPath :: string
  adm_SkipInitWallet :: bool

record SingleInstanceDatabasePasswordSecret =
  psc_SecretName :: string
  psc_SecretKey :: string
  psc_MountPath :: string
  psc_WalletZipFileKey :: string
  psc_WalletRoot :: string

record SingleInstanceDatabaseSecrets =
  secs_Admin :: "SingleInstanceDatabaseAdminPassword option"
  secs_TDE :: "SingleInstanceDatabasePasswordSecret option"

record SingleInstanceDatabaseSecurity =
  scy_TCPS :: "SingleInstanceDatabaseSecurityTCPS option"
  scy_Secrets :: "SingleInstanceDatabaseSecrets option"

record SingleInstanceDatabaseTrueCacheDBCredentialsWallet =
  tcw_SecretName :: string
  tcw_MountPath :: string

record SingleInstanceDatabaseTrueCacheSpec =
  tc_TruedbUniqueName :: string
  tc_GenerateEnabled :: bool
  tc_GenerateBlob :: bool
  tc_CreateConfigMap :: bool
  tc_GeneratePath :: string
  tc_BlobConfigMapRef :: string
  tc_BlobConfigMapKey :: string
  tc_BlobMountPath :: string
  tc_DBCredentialsWallet :: "SingleInstanceDatabaseTrueCacheDBCredentialsWallet option"
  tc_AutoTCServiceRegistration :: bool
  tc_PrimarySchedulerCredentialName :: string
  tc_TrueCacheServices :: "string list"

record SingleInstanceDatabasePrimaryDetails =
  pd_Host :: string
  pd_Port :: int
  pd_Sid :: string
  pd_Pdbname :: string

record SingleInstanceDatabasePrimarySource =
  ps_DatabaseRef :: string
  ps_ConnectString :: string
  ps_DBName :: string
  ps_Pdbname :: string
  ps_Details :: "SingleInstanceDatabasePrimaryDetails option"

record SingleInstanceDatabasePersistenceOradata =
  ord_PvcName :: string
  ord_Size :: string
  ord_StorageClass :: string
  ord_AccessMode :: string

record SingleInstanceDatabasePersistenceFra =
  fra_PvcName :: string
  fra_Size :: string
  fra_StorageClass :: string
  fra_AccessMode :: string
  fra_MountPath :: string
  fra_RecoveryAreaSize :: string

record SingleInstanceDatabasePersistence =
  prs_Oradata :: "SingleInstanceDatabasePersistenceOradata option"
  prs_Fra :: "SingleInstanceDatabasePersistenceFra option"
  prs_AdditionalPVCs :: "AdditionalPVCSpec list"
  prs_Size :: string
  prs_StorageClass :: string
  prs_AccessMode :: string
  prs_DatafilesVolumeName :: string
  prs_ScriptsVolumeName :: string
  prs_VolumeClaimAnnotation :: string
  prs_SetWritePermissions :: "bool option"

record SingleInstanceDatabaseInitParams =
  ip_SgaTarget :: int
  ip_PgaAggregateTarget :: int
  ip_CpuCount :: int
  ip_Processes :: int

record SingleInstanceDatabaseImage =
  img_Version :: string
  img_PullFrom :: string
  img_PullSecrets :: string
  img_ImagePullPolicy :: "PullPolicy option"
  img_PullPolicy :: "PullPolicy option"
  img_PrebuiltDB :: bool

record SingleInstanceDatabaseSpec =
  sis_Edition :: string
  sis_Sid :: string
  sis_Charset :: string
  sis_Pdbname :: string
  sis_LoadBalancer :: bool
  sis_ListenerPort :: int
  sis_TcpsListenerPort :: int
  sis_ServiceAnnotations :: strmap
  sis_FlashBack :: "bool option"
  sis_ArchiveLog :: "bool option"
  sis_ForceLogging :: "bool option"
  sis_Security :: "SingleInstanceDatabaseSecurity option"
  sis_Services :: "SingleInstanceDatabaseServices option"
  sis_TNSAliases :: "SingleInstanceDatabaseTNSAlias list"
  sis_EnableTCPS :: bool
  sis_TcpsCertRenewInterval :: string
  sis_TcpsTlsSecret :: string
  sis_PrimaryDatabaseRef :: string
  sis_PrimarySource :: "SingleInstanceDatabasePrimarySource option"
  sis_Dataguard :: "DataguardProducerSpec option"
  sis_CreateAs :: string
  sis_ReadinessCheckPeriod :: int
  sis_ServiceAccountName :: string
  sis_AutomountServiceAccountToken :: "bool option"
  sis_TrueCacheServices :: "string list"
  sis_Replicas :: int
  sis_NodeSelector :: strmap
  sis_HostAliases :: "HostAlias list"
  sis_AdminPassword :: SingleInstanceDatabaseAdminPassword
  sis_Image :: SingleInstanceDatabaseImage
  sis_Persistence :: SingleInstanceDatabasePersistence
  sis_Scripts :: "SingleInstanceDatabaseScriptsSpec option"
  sis_InitParams :: "SingleInstanceDatabaseInitParams option"
  sis_ShmSize :: string
  sis_Resources :: "ResourceRequirements option"
  sis_ResourceRequirements :: "ResourceRequirements option"
  sis_DisableDefaultDiagVolumeClaim :: bool
  sis_SecurityContext :: "PodSecurityContext option"
  sis_Capabilities :: "Capabilities option"
  sis_ConvertToSnapshotStandby :: bool
  sis_EnvVars :: "EnvVar list"
  sis_Restore :: "SingleInstanceDatabaseRestoreSpec option"
  sis_TrueCache :: "SingleInstanceDatabaseTrueCacheSpec option"


section \<open>The status and the object\<close>

record ProducerDataguardStatus =
  pds_BrokerRef :: "DataguardStatusRef option"
  pds_MemberName :: string
  pds_Role :: string
  pds_DBUniqueName :: string
  pds_PrimaryMemberName :: string
  pds_RenderedBrokerSpec :: "DataguardRenderedBrokerStatus option"
  pds_Endpoints :: "DataguardEndpointSpec list"
  pds_TCPS :: "DataguardTCPSConfig option"
  pds_Phase :: string
  pds_ReadyForBroker :: bool
  pds_TopologyHash :: string
  pds_LastPublishedTime :: "int option"
  pds_PublishedTopologyHash :: string
  pds_TopologyLocked :: bool
  pds_Conditions :: "Condition list"

record SingleInstanceDatabaseStatus =
  ss_Nodes :: "string list"
  ss_Role :: string
  ss_Status :: string
  ss_Replicas :: int
  ss_ReleaseUpdate :: string
  ss_DgBroker :: "string option"
  ss_DatafilesPatched :: string
  ss_ConnectString :: string
  ss_ClusterConnectString :: string
  ss_TcpsConnectString :: string
  ss_StandbyDatabases :: strmap
  ss_DatafilesCreated :: string
  ss_Sid :: string
  ss_Edition :: string
  ss_Charset :: string
  ss_Pdbname :: string
  ss_InitSgaSize :: int
  ss_InitPgaSize :: int
  ss_CreatedAs :: string
  ss_FlashBack :: string
  ss_ArchiveLog :: string
  ss_ForceLogging :: string
  ss_OemExpressUrl :: string
  ss_OrdsReference :: string
  ss_PdbConnectString :: string
  ss_TcpsPdbConnectString :: string
  ss_ApexInstalled :: bool
  ss_PrebuiltDB :: bool
  ss_IsTcpsEnabled :: bool
  ss_CertCreationTimestamp :: string
  ss_CertRenewInterval :: string
  ss_ClientWalletLoc :: string
  ss_ClientWalletSecret :: string
  ss_PrimaryDatabase :: string
  ss_TcpsTlsSecret :: string
  ss_TcpsTlsSecretHash :: string
  ss_Dataguard :: "ProducerDataguardStatus option"
  ss_DataguardPrereqsHash :: string
  ss_DataguardPrereqsRerunToken :: string
  ss_Conditions :: "Condition list"
  ss_InitParams :: SingleInstanceDatabaseInitParams
  ss_Persistence :: SingleInstanceDatabasePersistence
  ss_ConvertToSnapshotStandby :: bool

record SingleInstanceDatabase =
  sidb_Name :: string
  sidb_Namespace :: string
  sidb_Annotations :: strmap
  sidb_Generation :: int
  sidb_DeletionTimestamp :: "int option"
  sidb_Spec :: SingleInstanceDatabaseSpec
  sidb_Status :: SingleInstanceDatabaseStatus


section \<open>Constants and zero values\<close>

definition SingleInstanceDatabaseServiceEndpointNameCluster :: string where
  "SingleInstanceDatabaseServiceEndpointNameCluster = ''cluster''"

definition SingleInstanceDatabaseServiceEndpointNameNodePort :: string where
  "SingleInstanceDatabaseServiceEndpointNameNodePort = ''nodeport''"

definition SingleInstanceDatabaseServiceEndpointNameLoadBalancer :: string where
  "SingleInstanceDatabaseServiceEndpointNameLoadBalancer = ''loadbalancer''"

definition SingleInstanceDatabaseServiceEndpointTypeClusterIP :: string where
  "SingleInstanceDatabaseServiceEndpointTypeClusterIP = ''ClusterIP''"

definition SingleInstanceDatabaseServiceEndpointTypeNodePort :: string where
  "SingleInstanceDatabaseServiceEndpointTypeNodePort = ''NodePort''"

definition SingleInstanceDatabaseServiceEndpointTypeLoadBalancer :: string where
  "SingleInstanceDatabaseServiceEndpointTypeLoadBalancer = ''LoadBalancer''"

lemmas sidb_endpoint_defs = SingleInstanceDatabaseServiceEndpointNameCluster_def
  SingleInstanceDatabaseServiceEndpointNameNodePort_def SingleInstanceDatabaseServiceEndpointNameLoadBalancer_def
  SingleInstanceDatabaseServiceEndpointTypeClusterIP_def SingleInstanceDatabaseServiceEndpointTypeNodePort_def
  SingleInstanceDatabaseServiceEndpointTypeLoadBalancer_def

definition SingleInstanceDatabaseTNSAliasProtocolTCP :: string where
  "SingleInstanceDatabaseTNSAliasProtocolTCP = ''TCP''"

definition SingleInstanceDatabaseTNSAliasProtocolTCPS :: string where
  "SingleInstanceDatabaseTNSAliasProtocolTCPS = ''TCPS''"

definition ValueUnavailable :: string where
  "ValueUnavailable = ''Unavailable''"

definition zeroSidbAdminPassword :: SingleInstanceDatabaseAdminPassword where
  "zeroSidbAdminPassword = \<lparr>adm_SecretName = [], adm_SecretKey = [], adm_KeepSecret = None, adm_MountPath = [],
     adm_SkipInitWallet = False\<rparr>"

definition zeroSidbImage :: SingleInstanceDatabaseImage where
  "zeroSidbImage = \<lparr>img_Version = [], img_PullFrom = [], img_PullSecrets = [], img_ImagePullPolicy = None,
     img_PullPolicy = None, img_PrebuiltDB = False\<rparr>"

definition zeroSidbPersistence :: SingleInstanceDatabasePersistence where
  "zeroSidbPersistence = \<lparr>prs_Oradata = None, prs_Fra = None, prs_AdditionalPVCs = [], prs_Size = [], prs_StorageClass = [],
     prs_AccessMode = [], prs_DatafilesVolumeName = [], prs_ScriptsVolumeName = [], prs_VolumeClaimAnnotation = [],
     prs_SetWritePermissions = None\<rparr>"

definition zeroSidbInitParams :: SingleInstanceDatabaseInitParams where
  "zeroSidbInitParams = \<lparr>ip_SgaTarget = 0, ip_PgaAggregateTarget = 0, ip_CpuCount = 0, ip_Processes = 0\<rparr>"

definition zeroSidbSpec :: SingleInstanceDatabaseSpec where
  "zeroSidbSpec = \<lparr>sis_Edition = [], sis_Sid = [], sis_Charset = [], sis_Pdbname = [], sis_LoadBalancer = False,
     sis_ListenerPort = 0, sis_TcpsListenerPort = 0, sis_ServiceAnnotations = [], sis_FlashBack = None, sis_ArchiveLog = None,
     sis_ForceLogging = None, sis_Security = None, sis_Services = None, sis_TNSAliases = [], sis_EnableTCPS = False,
     sis_TcpsCertRenewInterval = [], sis_TcpsTlsSecret = [], sis_PrimaryDatabaseRef = [], sis_PrimarySource = None,
     sis_Dataguard = None, sis_CreateAs = [], sis_ReadinessCheckPeriod = 0, sis_ServiceAccountName = [],
     sis_AutomountServiceAccountToken = None, sis_TrueCacheServices = [], sis_Replicas = 0, sis_NodeSelector = [],
     sis_HostAliases = [], sis_AdminPassword = zeroSidbAdminPassword, sis_Image = zeroSidbImage,
     sis_Persistence = zeroSidbPersistence, sis_Scripts = None, sis_InitParams = None, sis_ShmSize = [], sis_Resources = None,
     sis_ResourceRequirements = None, sis_DisableDefaultDiagVolumeClaim = False, sis_SecurityContext = None,
     sis_Capabilities = None, sis_ConvertToSnapshotStandby = False, sis_EnvVars = [], sis_Restore = None, sis_TrueCache = None\<rparr>"

definition zeroProducerDataguardStatus :: ProducerDataguardStatus where
  "zeroProducerDataguardStatus = \<lparr>pds_BrokerRef = None, pds_MemberName = [], pds_Role = [], pds_DBUniqueName = [],
     pds_PrimaryMemberName = [], pds_RenderedBrokerSpec = None, pds_Endpoints = [], pds_TCPS = None, pds_Phase = [],
     pds_ReadyForBroker = False, pds_TopologyHash = [], pds_LastPublishedTime = None, pds_PublishedTopologyHash = [],
     pds_TopologyLocked = False, pds_Conditions = []\<rparr>"

definition zeroSidbStatus :: SingleInstanceDatabaseStatus where
  "zeroSidbStatus = \<lparr>ss_Nodes = [], ss_Role = [], ss_Status = [], ss_Replicas = 0, ss_ReleaseUpdate = [], ss_DgBroker = None,
     ss_DatafilesPatched = [], ss_ConnectString = [], ss_ClusterConnectString = [], ss_TcpsConnectString = [],
     ss_StandbyDatabases = [], ss_DatafilesCreated = [], ss_Sid = [], ss_Edition = [], ss_Charset = [], ss_Pdbname = [],
     ss_InitSgaSize = 0, ss_InitPgaSize = 0, ss_CreatedAs = [], ss_FlashBack = [], ss_ArchiveLog = [], ss_ForceLogging = [],
     ss_OemExpressUrl = [], ss_OrdsReference = [], ss_PdbConnectString = [], ss_TcpsPdbConnectString = [],
     ss_ApexInstalled = False, ss_PrebuiltDB = False, ss_IsTcpsEnabled = False, ss_CertCreationTimestamp = [],
     ss_CertRenewInterval = [], ss_ClientWalletLoc = [], ss_ClientWalletSecret = [], ss_PrimaryDatabase = [],
     ss_TcpsTlsSecret = [], ss_TcpsTlsSecretHash = [], ss_Dataguard = None, ss_DataguardPrereqsHash = [],
     ss_DataguardPrereqsRerunToken = [], ss_Conditions = [], ss_InitParams = zeroSidbInitParams,
     ss_Persistence = zeroSidbPersistence, ss_ConvertToSnapshotStandby = False\<rparr>"

definition zeroSidb :: SingleInstanceDatabase where
  "zeroSidb = \<lparr>sidb_Name = [], sidb_Namespace = [], sidb_Annotations = [], sidb_Generation = 0,
     sidb_DeletionTimestamp = None, sidb_Spec = zeroSidbSpec, sidb_Status = zeroSidbStatus\<rparr>"

lemmas sidb_zero_defs = zeroSidb_def zeroSidbSpec_def zeroSidbStatus_def zeroSidbAdminPassword_def zeroSidbImage_def
  zeroSidbPersistence_def zeroSidbInitParams_def

end
