(* ===== verification/Db_Commons.thy ===== *)
theory Db_Commons
  imports Go_Prelude
begin

text \<open>
  The pure helpers of \<^verbatim>\<open>commons/database\<close>: the watched namespaces, the size literals and passwords that reach SQL,
  and the quoting of everything that reaches a shell in the database pod (\<^verbatim>\<open>utils.go\<close>, \<^verbatim>\<open>sql_validation.go\<close>,
  \<^verbatim>\<open>dataguard_prereqs.go\<close>), with \<^verbatim>\<open>getWatchNamespace\<close> of \<^verbatim>\<open>main.go\<close>.

  \<open>parseQuantity\<close> stands for \<^verbatim>\<open>resource.ParseQuantity\<close> (the number a literal denotes, in units of \<^verbatim>\<open>10^-9\<close>, or
  a failure), and a record \<open>podApi\<close> for the client library and for what a command does in the pod. The word reader \<open>shellWord\<close> is the
  POSIX rule for quoting, the reference the quoting functions are compared with.
\<close>


section \<open>Watched namespaces\<close>

text \<open>
  The webhooks read \<^verbatim>\<open>WATCH_NAMESPACE\<close> with \<^verbatim>\<open>GetWatchNamespaces\<close>, the manager with \<^verbatim>\<open>getWatchNamespace\<close>; \<open>None\<close> is
  an unset variable, and an empty map means that every namespace is watched.
\<close>

definition GetWatchNamespaces :: "string option \<Rightarrow> (string, bool) gomap" where
  "GetWatchNamespaces watchEnv =
     (let ns = TrimSpace (case watchEnv of None \<Rightarrow> [] | Some v \<Rightarrow> v) in
      if ns = [] then [] else foldl (\<lambda>m s. mput s True m) [] (Split ns (CHR '','')))"

definition getWatchNamespace :: "string option \<Rightarrow> (string, unit) gomap" where
  "getWatchNamespace watchEnv =
     (case watchEnv of
        None \<Rightarrow> []
      | Some ns \<Rightarrow>
          if blank ns then []
          else foldl (\<lambda>m n. if blank n then m else mput (TrimSpace n) () m) [] (Split ns (CHR '','')))"

definition webhookWatches :: "string option \<Rightarrow> string \<Rightarrow> bool" where
  "webhookWatches watchEnv n \<longleftrightarrow> GetWatchNamespaces watchEnv = [] \<or> n \<in> fst ` set (GetWatchNamespaces watchEnv)"

definition managerWatches :: "string option \<Rightarrow> string \<Rightarrow> bool" where
  "managerWatches watchEnv n \<longleftrightarrow> getWatchNamespace watchEnv = [] \<or> n \<in> fst ` set (getWatchNamespace watchEnv)"

lemma foldl_mput_keys:
  "fst ` set (foldl (\<lambda>m s. if P s then m else mput (f s) v m) m xs) = fst ` set m \<union> f ` {s \<in> set xs. \<not> P s}"
  by (induction xs arbitrary: m) auto

lemma GetWatchNamespaces_keys:
  "\<not> blank ns \<Longrightarrow> fst ` set (GetWatchNamespaces (Some ns)) = set (Split (TrimSpace ns) (CHR '',''))"
  using foldl_mput_keys [of "\<lambda>_. False" "\<lambda>s. s" True "[]"] by (simp add: GetWatchNamespaces_def)

lemma getWatchNamespace_keys:
  "\<not> blank ns \<Longrightarrow>
   fst ` set (getWatchNamespace (Some ns)) = TrimSpace ` {n \<in> set (Split ns (CHR '','')). \<not> blank n}"
  using foldl_mput_keys [of "\<lambda>n. blank n" TrimSpace "()" "[]"] by (simp add: getWatchNamespace_def)

lemma blank_webhookWatches: "blank ns \<Longrightarrow> webhookWatches (Some ns) n"
  by (simp add: webhookWatches_def GetWatchNamespaces_def)

lemma blank_managerWatches: "blank ns \<Longrightarrow> managerWatches (Some ns) n"
  by (simp add: managerWatches_def getWatchNamespace_def)


section \<open>Passwords and size literals in SQL\<close>

datatype password_error = DoubleQuote | NewlineChar | NulChar

definition ValidateOracleSQLPassword :: "string \<Rightarrow> password_error option" where
  "ValidateOracleSQLPassword value =
     (if CHR 0x22 \<in> set value then Some DoubleQuote
      else if ContainsAny value [CHR 0x0D, CHR 0x0A] then Some NewlineChar
      else if CHR 0x00 \<in> set value then Some NulChar
      else None)"

record OracleBinarySizeLiteral =
  osl_Canonical :: string
  osl_Quantity :: int

datatype size_error = SizeEmpty | SizeMalformed | SizeUnparsable

text \<open>The match of \<^verbatim>\<open>^([0-9]+)([kKmMgGtTpPeE])(?:([iI]))?$\<close>: the number and the unit.\<close>

definition sizeUnits :: string where
  "sizeUnits = ''kKmMgGtTpPeE''"

definition sizeLiteralMatch :: "string \<Rightarrow> (string \<times> char) option" where
  "sizeLiteralMatch s =
     (let number = takeWhile is_digit s in
      case dropWhile is_digit s of
        [] \<Rightarrow> None
      | u # rest \<Rightarrow>
          if number \<noteq> [] \<and> u \<in> set sizeUnits \<and> (rest = [] \<or> rest = ''i'' \<or> rest = ''I'') then Some (number, u) else None)"

definition ParseOracleBinarySizeLiteral ::
    "(string \<Rightarrow> int option) \<Rightarrow> string \<Rightarrow> size_error + OracleBinarySizeLiteral" where
  "ParseOracleBinarySizeLiteral parseQuantity value =
     (let trimmed = TrimSpace value in
      if trimmed = [] then Inl SizeEmpty
      else (case sizeLiteralMatch trimmed of
        None \<Rightarrow> Inl SizeMalformed
      | Some (number, u) \<Rightarrow>
          let unit = ToUpper [u] in
          (case parseQuantity (number @ unit @ ''i'') of
             None \<Rightarrow> Inl SizeUnparsable
           | Some qty \<Rightarrow> Inr \<lparr>osl_Canonical = number @ unit, osl_Quantity = qty\<rparr>)))"

lemma sizeUnits_chars:
  "list_all (\<lambda>u. upper_char u \<in> set sizeUnits \<and> \<not> is_digit (upper_char u) \<and> \<not> is_space (upper_char u)) sizeUnits"
  by code_simp

lemma sizeUnits_upper:
  "u \<in> set sizeUnits \<Longrightarrow> upper_char u \<in> set sizeUnits \<and> \<not> is_digit (upper_char u) \<and> \<not> is_space (upper_char u)"
  using sizeUnits_chars by (simp add: list_all_iff)

lemma sizeLiteralMatch_Some:
  assumes "sizeLiteralMatch s = Some (number, u)"
  shows "number \<noteq> []" "list_all is_digit number" "u \<in> set sizeUnits"
  using assms set_takeWhileD [of _ is_digit s]
  by (auto simp: sizeLiteralMatch_def Let_def list_all_iff split: list.splits if_splits)

lemma takeWhile_digits: "list_all is_digit n \<Longrightarrow> \<not> is_digit u \<Longrightarrow> takeWhile is_digit (n @ u # r) = n \<and> dropWhile is_digit (n @ u # r) = u # r"
  by (induction n) auto

lemma sizeLiteralMatch_canonical:
  assumes "n \<noteq> []" "list_all is_digit n" "u \<in> set sizeUnits"
  shows "sizeLiteralMatch (n @ [upper_char u]) = Some (n, upper_char u)"
  using assms takeWhile_digits [of n "upper_char u" "[]"] sizeUnits_upper [of u] by (simp add: sizeLiteralMatch_def)


section \<open>Quoting for the shell\<close>

text \<open>\<^verbatim>\<open>strings.ReplaceAll(value, "'", r)\<close> between two single quotes.\<close>

definition quoteChar :: char where
  "quoteChar = CHR 0x27"

definition quoteWith :: "string \<Rightarrow> string \<Rightarrow> string" where
  "quoteWith r value = [quoteChar] @ concat (map (\<lambda>c. if c = quoteChar then r else [c]) value) @ [quoteChar]"

text \<open>The two replacements, written with their ASCII codes (27 the single quote, 22 the double quote, 5C the backslash).\<close>

definition ShellQuote :: "string \<Rightarrow> string" where
  "ShellQuote value = quoteWith [CHR 0x27, CHR 0x22, CHR 0x27, CHR 0x22, CHR 0x27] value"

definition shellQuoteLiteral :: "string \<Rightarrow> string" where
  "shellQuoteLiteral value = quoteWith [CHR 0x27, CHR 0x5C, CHR 0x22, CHR 0x27, CHR 0x5C, CHR 0x22, CHR 0x27] value"

text \<open>
  The reference: reading one word of a command line. The mode is unquoted, within single or within double quotes;
  the word ends before an unquoted blank or operator. Text that the shell would expand (a dollar sign or a
  backquote outside single quotes) and an unterminated quote have no literal value.
\<close>

datatype quoteMode = Unquoted | InSingle | InDouble

definition shellOperator :: "char \<Rightarrow> bool" where
  "shellOperator c \<longleftrightarrow> c \<in> set '' ;&|<>()'' \<or> c = CHR 0x09 \<or> c = CHR 0x0A"

fun shellWord :: "quoteMode \<Rightarrow> string \<Rightarrow> (string \<times> string) option" where
  "shellWord m [] = (if m = Unquoted then Some ([], []) else None)"
| "shellWord InSingle (c # cs) =
     (if c = quoteChar then shellWord Unquoted cs
      else map_option (\<lambda>(w, r). (c # w, r)) (shellWord InSingle cs))"
| "shellWord InDouble (c # cs) =
     (if c = CHR 0x22 then shellWord Unquoted cs
      else if c = CHR ''$'' \<or> c = CHR 0x60 then None
      else if c = CHR 0x5C \<and> cs \<noteq> [] \<and> hd cs \<in> {CHR 0x22, CHR 0x5C, CHR ''$'', CHR 0x60}
      then map_option (\<lambda>(w, r). (hd cs # w, r)) (shellWord InDouble (tl cs))
      else map_option (\<lambda>(w, r). (c # w, r)) (shellWord InDouble cs))"
| "shellWord Unquoted (c # cs) =
     (if shellOperator c then Some ([], c # cs)
      else if c = quoteChar then shellWord InSingle cs
      else if c = CHR 0x22 then shellWord InDouble cs
      else if c = CHR ''$'' \<or> c = CHR 0x60 then None
      else if c = CHR 0x5C
      then (if cs = [] then None else map_option (\<lambda>(w, r). (hd cs # w, r)) (shellWord Unquoted (tl cs)))
      else map_option (\<lambda>(w, r). (c # w, r)) (shellWord Unquoted cs))"

definition wordEnds :: "string \<Rightarrow> bool" where
  "wordEnds rest \<longleftrightarrow> rest = [] \<or> shellOperator (hd rest)"

lemma shellWord_end: "wordEnds rest \<Longrightarrow> shellWord Unquoted rest = Some ([], rest)"
  by (cases rest) (auto simp: wordEnds_def)

lemma quoteChar_neq [simp]: "\<not> shellOperator quoteChar" "quoteChar \<noteq> CHR 0x22" "quoteChar \<noteq> CHR ''$''" "quoteChar \<noteq> CHR 0x60"
  "quoteChar \<noteq> CHR 0x5C"
  by (simp_all add: shellOperator_def quoteChar_def)

lemma shellWord_opening: "shellWord Unquoted (quoteChar # cs) = shellWord InSingle cs"
  by simp

lemma shellWord_ShellQuote_body:
  assumes "wordEnds rest"
  shows "shellWord InSingle (concat (map (\<lambda>c. if c = quoteChar then [CHR 0x27, CHR 0x22, CHR 0x27, CHR 0x22, CHR 0x27] else [c]) v)
           @ quoteChar # rest) = Some (v, rest)"
proof (induction v)
  case Nil
  then show ?case using shellWord_end [OF assms] by simp
next
  case (Cons c v)
  have q: "CHR 0x27 = quoteChar" by (simp add: quoteChar_def)
  show ?case
  proof (cases "c = quoteChar")
    case True
    have o: "\<not> shellOperator (CHR 0x22)" "CHR 0x22 \<noteq> quoteChar" by (simp_all add: shellOperator_def quoteChar_def)
    show ?thesis using Cons True o by (simp add: q)
  next
    case False
    then show ?thesis using Cons by simp
  qed
qed

lemma shellWord_plain_body:
  assumes "quoteChar \<notin> set v" and "wordEnds rest"
  shows "shellWord InSingle (v @ quoteChar # rest) = Some (v, rest)"
  using assms(1)
proof (induction v)
  case Nil
  then show ?case using shellWord_end [OF assms(2)] by simp
qed auto

lemma quoteWith_plain: "quoteChar \<notin> set v \<Longrightarrow> quoteWith r v = quoteChar # v @ [quoteChar]"
  by (induction v) (auto simp: quoteWith_def)


text \<open>The reader never undoes the second quoting of a value with a single quote: the text after the first quote is off by its replacement.\<close>

lemma shellWord_literal_body:
  assumes "quoteChar \<notin> set pre"
    and "shellWord InSingle (pre @ [CHR 0x27, CHR 0x5C, CHR 0x22, CHR 0x27, CHR 0x5C, CHR 0x22, CHR 0x27] @ cs) = Some (w, r)"
  shows "\<exists>w'. w = pre @ CHR 0x22 # w'"
  using assms
proof (induction pre arbitrary: w)
  case Nil
  have q: "CHR 0x27 = quoteChar" by (simp add: quoteChar_def)
  have o: "\<not> shellOperator (CHR 0x5C)" "CHR 0x5C \<noteq> quoteChar" by (simp_all add: shellOperator_def quoteChar_def)
  show ?case using Nil by (auto simp: q o)
next
  case (Cons c pre)
  then show ?case by (auto simp: Cons.IH)
qed

lemma quoteWith_first:
  assumes "quoteChar \<in> set v"
  shows "\<exists>pre post cs. v = pre @ quoteChar # post \<and> quoteChar \<notin> set pre \<and> quoteWith r v = quoteChar # pre @ r @ cs"
proof -
  obtain pre post where v: "v = pre @ quoteChar # post" and n: "quoteChar \<notin> set pre"
    using split_list_first [OF assms] by blast
  have "concat (map (\<lambda>c. if c = quoteChar then r else [c]) pre) = pre"
    using n by (induction pre) auto
  then show ?thesis using v n by (auto simp: quoteWith_def)
qed


section \<open>Here documents\<close>

text \<open>
  The search for a delimiter that is no line of the content. The loop has no bound of its own; it stops because
  the content has finitely many lines and the candidates are pairwise different.
\<close>

definition hereDocCandidate :: "nat \<Rightarrow> string" where
  "hereDocCandidate i = ''__SIDB_HEREDOC_'' @ itoa_nat i @ ''__''"

lemma hereDocCandidate_inj: "inj hereDocCandidate"
  by (rule injI) (simp add: hereDocCandidate_def itoa_nat_inj)

lemma hereDocCandidates_finite: "finite {j. i \<le> j \<and> hereDocCandidate j \<in> set ls}"
  by (rule finite_subset [OF _ finite_vimageI [OF finite_set [of ls] hereDocCandidate_inj]]) auto

function hereDocFrom :: "string list \<Rightarrow> nat \<Rightarrow> string" where
  "hereDocFrom ls i =
     (if list_ex (\<lambda>line. line = hereDocCandidate i) ls then hereDocFrom ls (Suc i) else hereDocCandidate i)"
  by pat_completeness auto
termination
proof (relation "measure (\<lambda>(ls, i). card {j. i \<le> j \<and> hereDocCandidate j \<in> set ls})")
  fix ls i
  assume "list_ex (\<lambda>line. line = hereDocCandidate i) ls"
  then have i: "hereDocCandidate i \<in> set ls" by (auto simp: list_ex_iff)
  let ?B = "{j. i \<le> j \<and> hereDocCandidate j \<in> set ls}"
  have "{j. Suc i \<le> j \<and> hereDocCandidate j \<in> set ls} = ?B - {i}" by auto
  moreover have "i \<in> ?B" using i by simp
  ultimately have "card {j. Suc i \<le> j \<and> hereDocCandidate j \<in> set ls} < card ?B"
    using hereDocCandidates_finite card_Diff1_less by metis
  then show "((ls, Suc i), (ls, i)) \<in> measure (\<lambda>(ls, i). card {j. i \<le> j \<and> hereDocCandidate j \<in> set ls})"
    by simp
qed simp

declare hereDocFrom.simps [simp del]

definition newline :: char where
  "newline = CHR 0x0A"

definition buildHereDocDelimiter :: "string \<Rightarrow> string" where
  "buildHereDocDelimiter content = hereDocFrom (Split content newline) 0"

definition BuildSecureHereDocWriteCommand :: "string \<Rightarrow> string \<Rightarrow> string" where
  "BuildSecureHereDocWriteCommand fileName content =
     (let delimiter = buildHereDocDelimiter content in
      ''umask 177'' @ [newline] @ ''cat > '' @ shellQuoteLiteral fileName @ '' <<'' @ [quoteChar] @ delimiter @ [quoteChar, newline]
      @ content @ [newline] @ delimiter @ [newline] @ ''umask 022'')"

lemma hereDocFrom_result: "\<exists>j. hereDocFrom ls i = hereDocCandidate j \<and> hereDocCandidate j \<notin> set ls"
proof (induction ls i rule: hereDocFrom.induct)
  case (1 ls i)
  show ?case
  proof (cases "list_ex (\<lambda>line. line = hereDocCandidate i) ls")
    case True
    then show ?thesis using 1 by (subst hereDocFrom.simps) simp
  next
    case False
    moreover have "hereDocCandidate i \<notin> set ls" using False by (auto simp: list_ex_iff)
    ultimately show ?thesis by (subst hereDocFrom.simps) auto
  qed
qed

lemma delimiter_fresh: "buildHereDocDelimiter content \<notin> set (Split content newline)"
  using hereDocFrom_result [of "Split content newline" 0] by (auto simp: buildHereDocDelimiter_def)

lemma delimiter_no_newline: "newline \<notin> set (buildHereDocDelimiter content)"
proof -
  obtain j where "buildHereDocDelimiter content = hereDocCandidate j"
    using hereDocFrom_result [of "Split content newline" 0] by (auto simp: buildHereDocDelimiter_def)
  moreover have "newline \<notin> set (itoa_nat j)"
    using itoa_nat_digits [of j] by (auto simp: list_all_iff newline_def is_digit_def)
  ultimately show ?thesis by (auto simp: hereDocCandidate_def newline_def)
qed

text \<open>The document the shell reads after \<^verbatim>\<open><<'d'\<close>: the lines before the first one that is the delimiter, unexpanded.\<close>

definition hereDocument :: "string \<Rightarrow> string \<Rightarrow> string list" where
  "hereDocument d input = takeWhile (\<lambda>line. line \<noteq> d) (Split input newline)"



section \<open>Scripts in the pod\<close>

text \<open>
  \<^verbatim>\<open>ExecCommand\<close> runs a command in a container of a pod. What the client library and the cluster do is a parameter: whether
  there is a configuration and a REST client, the errors of reading the pod and of making the executor, and the stream, which
  has an error, the standard output and the standard error output, and changes the state of the pod. Output on standard error is
  an error too, whatever the command did. A client that cannot be made (a nil dereference) is left out.
\<close>

record 'p podApi =
  api_Config :: bool
  api_GetPod :: "'p \<Rightarrow> string option"
  api_RESTClient :: bool
  api_NewSPDYExecutor :: "string option"
  api_Stream :: "string \<Rightarrow> 'p \<Rightarrow> (string option \<times> string \<times> string) \<times> 'p"

datatype execError =
    CouldNotFindPod string
  | FailedToInitExecutor string
  | ExecFailed string string string
  | StreamFailed string
  | StderrOutput string

definition streamResult :: "string option \<times> string \<times> string \<Rightarrow> string \<times> execError option" where
  "streamResult = (\<lambda>(err, execOut, execErr).
     let stdout = TrimSpace execOut; stderr = TrimSpace execErr in
     case err of
       Some e \<Rightarrow> if stdout \<noteq> [] \<or> stderr \<noteq> [] then (stdout, Some (ExecFailed e stdout stderr)) else (stdout, Some (StreamFailed e))
     | None \<Rightarrow> if length execErr > 0 then (stdout, Some (StderrOutput stderr)) else (execOut, None))"

definition ExecCommand :: "'p podApi \<Rightarrow> string \<Rightarrow> 'p \<Rightarrow> (string \<times> execError option) \<times> 'p" where
  "ExecCommand api command pod =
     (if \<not> api_Config api then ((''Error'', None), pod)
      else case api_GetPod api pod of
        Some err \<Rightarrow> (([], Some (CouldNotFindPod err)), pod)
      | None \<Rightarrow>
          if \<not> api_RESTClient api then ((''RESTClient Error'', None), pod)
          else case api_NewSPDYExecutor api of
            Some err \<Rightarrow> (([], Some (FailedToInitExecutor err)), pod)
          | None \<Rightarrow> (case api_Stream api command pod of (result, pod') \<Rightarrow> (streamResult result, pod')))"

text \<open>
  \<^verbatim>\<open>ExecSQLPlusScript\<close> runs three commands with \<^verbatim>\<open>bash -c\<close>: it writes the script, runs it, and removes it in a deferred
  call, whose error is returned only when the run succeeded.
\<close>

definition SQLPlusCLI :: string where
  "SQLPlusCLI = ''sqlplus -s / as sysdba''"

definition removeScript :: "string \<Rightarrow> string" where
  "removeScript scriptName = ''rm -f -- '' @ shellQuoteLiteral scriptName"

definition runScript :: "string \<Rightarrow> string" where
  "runScript scriptName = SQLPlusCLI @ '' '' @ shellQuoteLiteral (''@'' @ scriptName)"

definition ExecSQLPlusScript :: "'p podApi \<Rightarrow> string \<Rightarrow> string \<Rightarrow> 'p \<Rightarrow> (string \<times> execError option) \<times> 'p" where
  "ExecSQLPlusScript api scriptName sql pod =
     (case ExecCommand api (BuildSecureHereDocWriteCommand scriptName sql) pod of
        ((_, Some err), pod1) \<Rightarrow> (([], Some err), pod1)
      | ((_, None), pod1) \<Rightarrow>
          (let ((result, runErr), pod2) = ExecCommand api (runScript scriptName) pod1;
               ((_, cleanupErr), pod3) = ExecCommand api (removeScript scriptName) pod2;
               (out, err) = (case runErr of Some e \<Rightarrow> ([], Some e) | None \<Rightarrow> (result, None))
           in ((out, case err of None \<Rightarrow> cleanupErr | Some e \<Rightarrow> Some e), pod3)))"

definition BuildDataguardPrereqsCommand :: "string \<Rightarrow> string \<Rightarrow> string \<Rightarrow> string" where
  "BuildDataguardPrereqsCommand action brokerConfigDir standbyRedoSize =
     (let trimmedAction = (if blank action then ''configure'' else TrimSpace action);
          dq = [CHR 0x22];
          file = ''/${CONFIG_DG_PREREQS_FILE:-configDataguardPrereqs.sh}'';
          script = dq @ ''$SCRIPT_BASE_DIR'' @ file @ dq;
          fallback = dq @ ''$ORACLE_BASE'' @ file @ dq;
          lines =
            [''export DG_ENABLE_BROKER=true'',
             ''export SCRIPT_BASE_DIR='' @ dq @ ''${SCRIPT_BASE_DIR:-/opt/oracle/scripts/base}'' @ dq]
            @ (if blank brokerConfigDir then [] else [''export DG_BROKER_CONFIG_DIR='' @ ShellQuote (TrimSpace brokerConfigDir)])
            @ (if blank standbyRedoSize then [] else [''export STANDBY_REDO_SIZE='' @ ShellQuote (TrimSpace standbyRedoSize)])
            @ [''if [ -x '' @ script @ '' ]; then '' @ script @ '' '' @ trimmedAction @ ''; else '' @ fallback @ '' ''
               @ trimmedAction @ ''; fi'']
      in Join lines ''; '')"


section \<open>Data Guard entries and other checks\<close>

text \<open>An entry without a colon makes \<^verbatim>\<open>splitstr[1]\<close> panic: \<open>None\<close>.\<close>

fun IsDatabaseFound :: "string \<Rightarrow> string list \<Rightarrow> string \<Rightarrow> (bool \<times> bool) option" where
  "IsDatabaseFound sid [] dgrole = Some (False, False)"
| "IsDatabaseFound sid (d # ds) dgrole =
     (let splitstr = Split d (CHR '':'') in
      if EqualFold sid (hd splitstr)
      then (if length splitstr > 1 then Some (True, EqualFold dgrole (splitstr ! 1)) else None)
      else IsDatabaseFound sid ds dgrole)"

fun GetPrimaryDatabase :: "string list \<Rightarrow> string option" where
  "GetPrimaryDatabase [] = Some []"
| "GetPrimaryDatabase (d # ds) =
     (let splitstr = Split d (CHR '':'') in
      if length splitstr > 1
      then (if ToUpper (splitstr ! 1) = ''PRIMARY'' then Some (hd splitstr) else GetPrimaryDatabase ds)
      else None)"

definition IsSourceDatabaseOnCluster :: "string \<Rightarrow> bool" where
  "IsSourceDatabaseOnCluster cloneFrom = (if CHR '':'' \<in> set cloneFrom \<and> CHR ''/'' \<in> set cloneFrom then False else True)"

definition GetSqlClient :: "string \<Rightarrow> string" where
  "GetSqlClient edition =
     (if edition = ''express'' then ''su -p oracle -c '' @ [CHR 0x22] @ ''sqlplus -s / as sysdba'' @ [CHR 0x22]
      else ''sqlplus -s / as sysdba'')"

definition GetLabelsForController :: "string \<Rightarrow> string \<Rightarrow> (string, string) gomap" where
  "GetLabelsForController version name =
     (if version \<noteq> [] then [(''app'', name), (''version'', version)] else [(''app'', name)])"

text \<open>\<^verbatim>\<open>unicode.IsUpper\<close>, \<^verbatim>\<open>IsLower\<close>, \<^verbatim>\<open>IsNumber\<close> and \<^verbatim>\<open>IsPunct\<close> on ASCII; the punctuation has the quotes and the backslash by code.\<close>

definition is_upper :: "char \<Rightarrow> bool" where
  "is_upper c \<longleftrightarrow> (let n = (of_char c :: nat) in 65 \<le> n \<and> n \<le> 90)"

definition is_lower :: "char \<Rightarrow> bool" where
  "is_lower c \<longleftrightarrow> (let n = (of_char c :: nat) in 97 \<le> n \<and> n \<le> 122)"

definition is_punct :: "char \<Rightarrow> bool" where
  "is_punct c \<longleftrightarrow> c \<in> set ''!#%&()*,-./:;?@[]_{}'' \<or> c = CHR 0x22 \<or> c = CHR 0x27 \<or> c = CHR 0x5C"

definition apexStep :: "bool \<times> bool \<times> bool \<times> bool \<Rightarrow> char \<Rightarrow> bool \<times> bool \<times> bool \<times> bool" where
  "apexStep flags c =
     (case flags of (hasUpper, hasLower, hasNumber, hasSpecial) \<Rightarrow>
        if is_upper c then (True, hasLower, hasNumber, hasSpecial)
        else if is_lower c then (hasUpper, True, hasNumber, hasSpecial)
        else if is_digit c then (hasUpper, hasLower, True, hasSpecial)
        else if is_punct c then (hasUpper, hasLower, hasNumber, True)
        else flags)"

definition ApexPasswordValidator :: "string \<Rightarrow> bool" where
  "ApexPasswordValidator pwd =
     (let hasMinLen = length pwd > 7;
          (hasUpper, hasLower, hasNumber, hasSpecial) = foldl apexStep (False, False, False, False) pwd
      in hasMinLen \<and> hasUpper \<and> hasLower \<and> hasNumber \<and> hasSpecial)"

lemma char_classes:
  "is_upper c \<Longrightarrow> \<not> is_lower c \<and> \<not> is_digit c \<and> \<not> is_punct c"
  "is_lower c \<Longrightarrow> \<not> is_digit c \<and> \<not> is_punct c" "is_digit c \<Longrightarrow> \<not> is_punct c"
  by (auto simp: is_upper_def is_lower_def is_digit_def is_punct_def Let_def)

lemma apex_flags:
  "foldl apexStep (u, l, n, s) pwd =
     (u \<or> list_ex is_upper pwd, l \<or> list_ex is_lower pwd, n \<or> list_ex is_digit pwd, s \<or> list_ex is_punct pwd)"
proof (induction pwd arbitrary: u l n s)
  case (Cons c pwd)
  then show ?case using char_classes [of c] by (auto simp: apexStep_def)
qed simp


section \<open>Properties\<close>

text \<open>
  \<^verbatim>\<open>ShellQuote\<close> is safe for every value: a shell that reads the quoted text as a word gets the value back
  unchanged, and stops at the same place whatever operator follows.
\<close>

theorem shell_quote_roundtrip:
  assumes "wordEnds rest"
  shows "shellWord Unquoted (ShellQuote value @ rest) = Some (value, rest)"
  using shellWord_ShellQuote_body [OF assms, of "value"] by (simp add: ShellQuote_def quoteWith_def)

theorem shell_quote_roundtrip_witness:
  "shellWord Unquoted (ShellQuote [CHR ''a'', quoteChar, CHR '';'', CHR 0x5C] @ ''; ls'') = Some ([CHR ''a'', quoteChar, CHR '';'', CHR 0x5C], ''; ls'')"
  by (rule shell_quote_roundtrip) (simp add: wordEnds_def shellOperator_def)

text \<open>
  \<^verbatim>\<open>shellQuoteLiteral\<close>, which quotes file names, gives the value back exactly when the value has no single
  quote. With single quotes in the value the quoted text can end early, so that what follows them is read by
  the shell as a command of its own.
\<close>

theorem shell_quote_literal_safe_iff:
  "(shellWord Unquoted (shellQuoteLiteral value) = Some (value, []) \<longleftrightarrow> quoteChar \<notin> set value) \<and>
   (\<exists>v w rest. shellWord Unquoted (shellQuoteLiteral v) = Some (w, '';reboot;'' @ rest))"
proof (rule conjI)
  let ?r = "[CHR 0x27, CHR 0x5C, CHR 0x22, CHR 0x27, CHR 0x5C, CHR 0x22, CHR 0x27]"
  show "shellWord Unquoted (shellQuoteLiteral value) = Some (value, []) \<longleftrightarrow> quoteChar \<notin> set value" (is "?L \<longleftrightarrow> ?R")
  proof
    assume ?R
    then show ?L
      using shellWord_plain_body [of "value" "[]"] by (simp add: shellQuoteLiteral_def quoteWith_plain wordEnds_def)
  next
    assume l: ?L
    show ?R
    proof
      assume "quoteChar \<in> set value"
      then obtain pre post cs where v: "value = pre @ quoteChar # post" "quoteChar \<notin> set pre"
        and q: "quoteWith ?r value = quoteChar # pre @ ?r @ cs"
        using quoteWith_first by blast
      have "shellWord InSingle (pre @ ?r @ cs) = Some (value, [])"
        using l unfolding shellQuoteLiteral_def q by (simp only: shellWord_opening)
      then obtain w' where "value = pre @ CHR 0x22 # w'" using shellWord_literal_body [OF v(2)] by blast
      then show False using v(1) by (simp add: quoteChar_def)
    qed
  qed
  have "shellWord Unquoted (shellQuoteLiteral ([quoteChar] @ '';reboot;'' @ [quoteChar])) =
      Some ([CHR 0x22, CHR 0x5C, CHR 0x22], '';reboot;'' @ ?r @ [quoteChar])"
    by code_simp
  then show "\<exists>v w rest. shellWord Unquoted (shellQuoteLiteral v) = Some (w, '';reboot;'' @ rest)" by blast
qed



text \<open>
  C37: \<^verbatim>\<open>ExecSQLPlusScript\<close> in a pod the operator can reach. It reports success exactly when the write, the run and the
  removal each end without a stream error and without output on standard error, and it then returns what the run printed; as a
  removal that ends like that has removed the file, no script is left after a success. Once the script is written without an
  error, its removal is the last command sent to the pod, whatever the run does, and an error of the run is the one reported.
\<close>

theorem script_success_iff:
  assumes "api_Config api" and "api_RESTClient api" and "api_NewSPDYExecutor api = None" and "\<And>p. api_GetPod api p = None"
    and "\<And>p out p'. api_Stream api (removeScript name) p = ((None, out, []), p') \<Longrightarrow> \<not> present p'"
    and "ExecSQLPlusScript api name sql pod = ((out, err), pod')"
    and "api_Stream api (BuildSecureHereDocWriteCommand name sql) pod = ((werr, wout, wstderr), p1)"
    and "api_Stream api (runScript name) p1 = ((rerr, rout, rstderr), p2)"
    and "api_Stream api (removeScript name) p2 = ((cerr, cout, cstderr), p3)"
  shows "(err = None \<longleftrightarrow> werr = None \<and> wstderr = [] \<and> rerr = None \<and> rstderr = [] \<and> cerr = None \<and> cstderr = []) \<and>
    (err = None \<longrightarrow> out = rout \<and> \<not> present pod') \<and>
    (werr = None \<and> wstderr = [] \<longrightarrow> pod' = p3 \<and> (rerr \<noteq> None \<or> rstderr \<noteq> [] \<longrightarrow> out = [] \<and> err = snd (streamResult (rerr, rout, rstderr)))) \<and>
    (werr \<noteq> None \<or> wstderr \<noteq> [] \<longrightarrow> pod' = p1 \<and> out = [])"
proof -
  have cmd: "ExecCommand api c p = (case api_Stream api c p of (result, p') \<Rightarrow> (streamResult result, p'))" for c p
    by (simp add: ExecCommand_def assms(1-4))
  have ok: "snd (streamResult (e, o', s)) = None \<longleftrightarrow> e = None \<and> s = []" for e o' s
    by (simp add: streamResult_def Let_def split: option.splits)
  have run: "streamResult (None, o', []) = (o', None)" for o' by (simp add: streamResult_def)
  obtain w we where w: "streamResult (werr, wout, wstderr) = (w, we)" by (cases "streamResult (werr, wout, wstderr)")
  obtain r re where r: "streamResult (rerr, rout, rstderr) = (r, re)" by (cases "streamResult (rerr, rout, rstderr)")
  obtain c ce where c: "streamResult (cerr, cout, cstderr) = (c, ce)" by (cases "streamResult (cerr, cout, cstderr)")
  have errs: "we = None \<longleftrightarrow> werr = None \<and> wstderr = []" "re = None \<longleftrightarrow> rerr = None \<and> rstderr = []" "ce = None \<longleftrightarrow> cerr = None \<and> cstderr = []"
    using ok [of werr wout wstderr] ok [of rerr rout rstderr] ok [of cerr cout cstderr] by (simp_all add: w r c)
  have whole: "((out, err), pod') = (case we of Some e \<Rightarrow> (([], Some e), p1)
      | None \<Rightarrow> (case re of Some e \<Rightarrow> (([], Some e), p3) | None \<Rightarrow> ((r, ce), p3)))"
    unfolding assms(6) [symmetric] by (cases we; cases re) (simp_all add: ExecSQLPlusScript_def cmd assms(7-9) w r c)
  have "r = rout" if "re = None" using that errs(2) r run [of rout] by simp
  moreover have "\<not> present p3" if "ce = None" using that errs(3) assms(5) [of p2 cout p3] assms(9) by simp
  ultimately show ?thesis using whole r errs by (cases we; cases re; cases ce) auto
qed

definition podExample :: "(bool \<times> string list) podApi" where
  "podExample = \<lparr>api_Config = True, api_GetPod = (\<lambda>_. None), api_RESTClient = True, api_NewSPDYExecutor = None,
     api_Stream = (\<lambda>cmd pod.
       if take 2 cmd = ''rm'' then ((None, [], []), (False, cmd # snd pod))
       else if take 5 cmd = ''umask'' then ((None, [], []), (True, cmd # snd pod))
       else ((None, ''1'', []), (fst pod, cmd # snd pod)))\<rparr>"

lemma example_commands:
  "take 2 (removeScript n) = ''rm''" "take 2 (BuildSecureHereDocWriteCommand n s) = ''um''" "take 5 (BuildSecureHereDocWriteCommand n s) = ''umask''"
  "take 2 (runScript n) = ''sq''" "take 5 (runScript n) = ''sqlpl''"
  by (simp_all add: removeScript_def runScript_def SQLPlusCLI_def BuildSecureHereDocWriteCommand_def Let_def)

theorem script_success_iff_witness:
  "\<exists>pod'. ExecSQLPlusScript podExample ''q.sql'' ''select 1'' (False, []) = ((''1'', None), pod') \<and> \<not> fst pod'"
proof -
  let ?w = "BuildSecureHereDocWriteCommand ''q.sql'' ''select 1''" let ?r = "runScript ''q.sql''" let ?c = "removeScript ''q.sql''"
  obtain out err pod' where e: "ExecSQLPlusScript podExample ''q.sql'' ''select 1'' (False, []) = ((out, err), pod')"
    by (metis prod.exhaust)
  have s: "api_Stream podExample ?w (False, []) = ((None, [], []), (True, [?w]))"
    "api_Stream podExample ?r (True, [?w]) = ((None, ''1'', []), (True, [?r, ?w]))"
    "api_Stream podExample ?c (True, [?r, ?w]) = ((None, [], []), (False, [?c, ?r, ?w]))"
    by (simp_all add: podExample_def example_commands)
  have "err = None \<and> out = ''1'' \<and> \<not> fst pod'"
    using script_success_iff [OF _ _ _ _ _ e s, of fst] by (auto simp: podExample_def example_commands)
  then show ?thesis using e by blast
qed

text \<open>
  A write that prints a warning has written the script, but counts as failed, and the removal is not registered yet: the script
  stays in the pod. Without a configuration no command is sent at all, and the text \<^verbatim>\<open>Error\<close> is returned as the output of a success.
\<close>

theorem script_left_after_warning:
  "\<exists>api :: bool podApi. api_Config api \<and> api_RESTClient api \<and> ExecSQLPlusScript api name sql False = (([], Some (StderrOutput ''warning'')), True)"
proof -
  let ?api = "\<lparr>api_Config = True, api_GetPod = (\<lambda>_. None), api_RESTClient = True, api_NewSPDYExecutor = None,
    api_Stream = (\<lambda>cmd pod. ((None, [], ''warning''), True))\<rparr> :: bool podApi"
  have "ExecSQLPlusScript ?api name sql False = (([], Some (StderrOutput ''warning'')), True)"
    by (simp add: ExecSQLPlusScript_def ExecCommand_def streamResult_def go_eval)
  then show ?thesis by (intro exI [of _ ?api]) simp
qed

theorem script_without_config:
  "\<not> api_Config api \<Longrightarrow> ExecSQLPlusScript api name sql pod = ((''Error'', None), pod)"
  by (simp add: ExecSQLPlusScript_def ExecCommand_def)

text \<open>
  a size literal is normalised to digits and one upper-case unit, so that nothing else of the input reaches the
  SQL text; parsing the canonical literal again gives the same literal and quantity.
\<close>

theorem size_literal_canonical:
  assumes "ParseOracleBinarySizeLiteral parseQuantity v = Inr lit"
  shows "ParseOracleBinarySizeLiteral parseQuantity (osl_Canonical lit) = Inr lit \<and>
    (\<exists>n u. osl_Canonical lit = n @ [u] \<and> n \<noteq> [] \<and> list_all is_digit n \<and> u \<in> set ''KMGTPE'' \<and>
       parseQuantity (n @ [u] @ ''i'') = Some (osl_Quantity lit))"
proof -
  obtain n u where m: "sizeLiteralMatch (TrimSpace v) = Some (n, u)"
    and q: "parseQuantity (n @ [upper_char u] @ ''i'') = Some (osl_Quantity lit)"
    and c: "osl_Canonical lit = n @ [upper_char u]"
    using assms
    by (auto simp: ParseOracleBinarySizeLiteral_def Let_def ToUpper_def split: if_splits option.splits)
  note s = sizeLiteralMatch_Some [OF m]
  have h: "\<not> is_space (hd (n @ [upper_char u]))"
    using s(1,2) digit_not_space [of "hd n"] by (cases n) auto
  have t: "TrimSpace (n @ [upper_char u]) = n @ [upper_char u]"
    by (rule TrimSpace_id) (use h sizeUnits_upper [OF s(3)] in auto)
  have "list_all (\<lambda>u. upper_char u \<in> set ''KMGTPE'') sizeUnits" by code_simp
  then have "upper_char u \<in> set ''KMGTPE''" using s(3) by (simp add: list_all_iff)
  moreover have "ParseOracleBinarySizeLiteral parseQuantity (osl_Canonical lit) = Inr lit"
    using q by (simp add: ParseOracleBinarySizeLiteral_def c t sizeLiteralMatch_canonical [OF s] ToUpper_def Let_def)
  ultimately show ?thesis using c s q by blast
qed

theorem size_literal_canonical_witness:
  "ParseOracleBinarySizeLiteral (\<lambda>_. Some 53687091200) ''50G'' = Inr \<lparr>osl_Canonical = ''50G'', osl_Quantity = 53687091200\<rparr>"
proof -
  have "ParseOracleBinarySizeLiteral (\<lambda>_. Some 53687091200) '' 50gi '' = Inr \<lparr>osl_Canonical = ''50G'', osl_Quantity = 53687091200\<rparr>"
    by code_simp
  from size_literal_canonical [OF this] show ?thesis by simp
qed

text \<open>
  the webhooks and the manager read \<^verbatim>\<open>WATCH_NAMESPACE\<close> differently: they watch the same namespaces when no entry of
  the list is blank or padded with spaces, and for the list \<^verbatim>\<open>a, b\<close> the manager watches \<^verbatim>\<open>b\<close> while the webhooks
  reject every object of it.
\<close>

theorem watched_namespaces_agree:
  assumes "\<forall>n \<in> set (Split ns (CHR '','')). n \<noteq> [] \<and> TrimSpace n = n"
  shows "webhookWatches (Some ns) n = managerWatches (Some ns) n \<and>
    managerWatches (Some ''a, b'') ''b'' \<and> \<not> webhookWatches (Some ''a, b'') ''b''"
proof -
  let ?ps = "Split ns (CHR '','')"
  have ex: "managerWatches (Some ''a, b'') ''b'' \<and> \<not> webhookWatches (Some ''a, b'') ''b''" by code_simp
  have "hd ?ps \<in> set ?ps" "last ?ps \<in> set ?ps" by simp_all
  then have h: "hd ?ps \<noteq> []" "TrimSpace (hd ?ps) = hd ?ps" "last ?ps \<noteq> []" "TrimSpace (last ?ps) = last ?ps"
    using assms by blast+
  have ne: "ns \<noteq> []" using h(1) by auto
  have t: "TrimSpace ns = ns"
    by (rule TrimSpace_id)
      (use Split_ends [of ns "CHR '',''"] TrimSpace_ends [OF h(2,1)] TrimSpace_ends [OF h(4,3)] h in auto)
  have nb: "\<not> blank ns" using t ne by simp
  have "TrimSpace ` {n \<in> set ?ps. \<not> blank n} = set ?ps" using assms by force
  then have "fst ` set (getWatchNamespace (Some ns)) = fst ` set (GetWatchNamespaces (Some ns))"
    using getWatchNamespace_keys [OF nb] GetWatchNamespaces_keys [OF nb] t by simp
  moreover from this have "(getWatchNamespace (Some ns) = []) = (GetWatchNamespaces (Some ns) = [])"
    by (metis image_is_empty set_empty)
  ultimately show ?thesis using ex by (simp add: webhookWatches_def managerWatches_def)
qed


theorem watched_namespaces_agree_witness:
  "webhookWatches (Some ''a,b'') ''b'' = managerWatches (Some ''a,b'') ''b''"
proof -
  have "list_all (\<lambda>n. n \<noteq> [] \<and> TrimSpace n = n) (Split ''a,b'' (CHR '',''))" by code_simp
  then have "\<forall>n \<in> set (Split ''a,b'' (CHR '','')). n \<noteq> [] \<and> TrimSpace n = n" by (simp only: list_all_iff)
  from watched_namespaces_agree [OF this, of "''b''"] show ?thesis by blast
qed

end
