(* ===== verification/Sidb_Access.thy ===== *)
theory Sidb_Access
  imports Sidb_Types Db_Commons
begin

text \<open>
  Reading and defaulting a single-instance database, \<^verbatim>\<open>apis/database/v4/singleinstancedatabase_webhook.go\<close>: the
  accessors that prefer the new fields to the deprecated ones, the mutating webhook \<^verbatim>\<open>Default\<close>, the resolution of
  the primary source and the state in which it is locked.
\<close>


section \<open>Accessors\<close>

text \<open>The pointer chain \<^verbatim>\<open>spec.security.tcps\<close> and \<^verbatim>\<open>spec.security.secrets\<close>, with its nil checks.\<close>

definition securityTcps :: "SingleInstanceDatabase \<Rightarrow> SingleInstanceDatabaseSecurityTCPS option" where
  "securityTcps sidb = Option.bind (sis_Security (sidb_Spec sidb)) scy_TCPS"

definition securitySecrets :: "SingleInstanceDatabase \<Rightarrow> SingleInstanceDatabaseSecrets option" where
  "securitySecrets sidb = Option.bind (sis_Security (sidb_Spec sidb)) scy_Secrets"

definition sidbTcpsEnabled :: "SingleInstanceDatabase \<Rightarrow> bool" where
  "sidbTcpsEnabled sidb =
     (if (case securityTcps sidb of None \<Rightarrow> False | Some t \<Rightarrow> stc_Enabled t) then True
      else if sis_TcpsListenerPort (sidb_Spec sidb) \<noteq> 0 then True
      else sis_EnableTCPS (sidb_Spec sidb))"

definition sidbTcpsListenerPort :: "SingleInstanceDatabase \<Rightarrow> int" where
  "sidbTcpsListenerPort sidb = sis_TcpsListenerPort (sidb_Spec sidb)"

definition sidbTcpsTlsSecret :: "SingleInstanceDatabase \<Rightarrow> string" where
  "sidbTcpsTlsSecret sidb =
     (let new = (case securityTcps sidb of None \<Rightarrow> [] | Some t \<Rightarrow> TrimSpace (stc_TlsSecret t)) in
      if new \<noteq> [] then new else TrimSpace (sis_TcpsTlsSecret (sidb_Spec sidb)))"

definition sidbTcpsClientWalletSecret :: "SingleInstanceDatabase \<Rightarrow> string" where
  "sidbTcpsClientWalletSecret sidb =
     (case securityTcps sidb of None \<Rightarrow> [] | Some t \<Rightarrow> TrimSpace (stc_ClientWalletSecret t))"

definition sidbTcpsCertRenewInterval :: "SingleInstanceDatabase \<Rightarrow> string" where
  "sidbTcpsCertRenewInterval sidb =
     (let new = (case securityTcps sidb of None \<Rightarrow> [] | Some t \<Rightarrow> TrimSpace (stc_CertRenewInterval t)) in
      if new \<noteq> [] then new else TrimSpace (sis_TcpsCertRenewInterval (sidb_Spec sidb)))"

definition sidbAdminPasswordSpec :: "SingleInstanceDatabase \<Rightarrow> SingleInstanceDatabaseAdminPassword" where
  "sidbAdminPasswordSpec sidb =
     (case Option.bind (securitySecrets sidb) secs_Admin of
        Some a \<Rightarrow> a
      | None \<Rightarrow> sis_AdminPassword (sidb_Spec sidb))"

definition sidbTDESecretSpec :: "SingleInstanceDatabase \<Rightarrow> SingleInstanceDatabasePasswordSecret option" where
  "sidbTDESecretSpec sidb = Option.bind (securitySecrets sidb) secs_TDE"

definition sidbAdminPasswordFieldsSet :: "SingleInstanceDatabaseAdminPassword \<Rightarrow> bool" where
  "sidbAdminPasswordFieldsSet admin \<longleftrightarrow>
     \<not> blank (adm_SecretName admin) \<or>
     \<not> blank (adm_MountPath admin) \<or>
     (\<not> blank (adm_SecretKey admin) \<and> \<not> blank (adm_SecretName admin)) \<or>
     adm_KeepSecret admin \<noteq> None \<or>
     adm_SkipInitWallet admin"

definition sidbHasLegacyAdminPasswordSpec :: "SingleInstanceDatabase \<Rightarrow> bool" where
  "sidbHasLegacyAdminPasswordSpec sidb = sidbAdminPasswordFieldsSet (sis_AdminPassword (sidb_Spec sidb))"

definition sidbTrueCacheDBCredentialsWalletSpec ::
    "SingleInstanceDatabase \<Rightarrow> SingleInstanceDatabaseTrueCacheDBCredentialsWallet option" where
  "sidbTrueCacheDBCredentialsWalletSpec sidb = Option.bind (sis_TrueCache (sidb_Spec sidb)) tc_DBCredentialsWallet"

definition sidbOradataPersistence :: "SingleInstanceDatabase \<Rightarrow> SingleInstanceDatabasePersistenceOradata option" where
  "sidbOradataPersistence sidb =
     (let p = sis_Persistence (sidb_Spec sidb) in
      case prs_Oradata p of
        Some o' \<Rightarrow> Some o'
      | None \<Rightarrow>
          if prs_Size p = [] \<and> prs_StorageClass p = [] \<and> prs_AccessMode p = [] then None
          else Some \<lparr>ord_PvcName = [], ord_Size = prs_Size p, ord_StorageClass = prs_StorageClass p,
                     ord_AccessMode = prs_AccessMode p\<rparr>)"

definition sidbUsesLegacySelfSignedTCPS :: "SingleInstanceDatabase \<Rightarrow> bool" where
  "sidbUsesLegacySelfSignedTCPS sidb \<longleftrightarrow> sidbTcpsEnabled sidb \<and> sidbTcpsTlsSecret sidb = []"

definition sidbUsesServiceEndpoints :: "SingleInstanceDatabase \<Rightarrow> bool" where
  "sidbUsesServiceEndpoints sidb =
     (case sis_Services (sidb_Spec sidb) of None \<Rightarrow> False | Some s \<Rightarrow> svs_Endpoints s \<noteq> [])"

definition BlobGenerationEnabled :: "SingleInstanceDatabaseTrueCacheSpec \<Rightarrow> bool" where
  "BlobGenerationEnabled tc \<longleftrightarrow> tc_GenerateBlob tc \<or> tc_GenerateEnabled tc"

definition BlobConfigMapCreationEnabled :: "SingleInstanceDatabaseTrueCacheSpec \<Rightarrow> bool" where
  "BlobConfigMapCreationEnabled tc \<longleftrightarrow> tc_CreateConfigMap tc \<or> tc_GenerateEnabled tc"


section \<open>Defaults\<close>

definition loadBalancerShape :: string where
  "loadBalancerShape = ''service.beta.kubernetes.io/oci-load-balancer-shape''"

definition putAbsent :: "string \<Rightarrow> string \<Rightarrow> strmap \<Rightarrow> strmap" where
  "putAbsent k v m = (if map_of m k = None then mput k v m else m)"

definition defaultLoadBalancer :: "SingleInstanceDatabaseSpec \<Rightarrow> SingleInstanceDatabaseSpec" where
  "defaultLoadBalancer spec =
     (if sis_LoadBalancer spec
      then spec\<lparr>sis_ServiceAnnotations :=
             putAbsent (loadBalancerShape @ ''-flex-max'') ''100''
               (putAbsent (loadBalancerShape @ ''-flex-min'') ''10''
                 (putAbsent loadBalancerShape ''flexible'' (sis_ServiceAnnotations spec)))\<rparr>
      else spec)"

definition keepSecretByDefault :: "SingleInstanceDatabaseAdminPassword \<Rightarrow> SingleInstanceDatabaseAdminPassword" where
  "keepSecretByDefault admin =
     (if adm_KeepSecret admin = None \<and> sidbAdminPasswordFieldsSet admin then admin\<lparr>adm_KeepSecret := Some True\<rparr> else admin)"

text \<open>The pointer \<^verbatim>\<open>sidbAdminPasswordSpec\<close> aliases the field it was read from, and the assignment goes there.\<close>

definition defaultAdminPassword :: "SingleInstanceDatabaseSpec \<Rightarrow> SingleInstanceDatabaseSpec" where
  "defaultAdminPassword spec =
     (case Option.bind (sis_Security spec) (\<lambda>sec. Option.bind (scy_Secrets sec) (\<lambda>s. map_option (\<lambda>a. (sec, s, a)) (secs_Admin s))) of
        Some (sec, s, a) \<Rightarrow>
          spec\<lparr>sis_Security := Some (sec\<lparr>scy_Secrets := Some (s\<lparr>secs_Admin := Some (keepSecretByDefault a)\<rparr>)\<rparr>)\<rparr>
      | None \<Rightarrow> spec\<lparr>sis_AdminPassword := keepSecretByDefault (sis_AdminPassword spec)\<rparr>)"

definition defaultSid :: "string \<Rightarrow> string" where
  "defaultSid edition = (if edition = ''express'' then ''XE'' else if edition = ''free'' then ''FREE'' else ''ORCLCDB'')"

definition defaultPdbname :: "string \<Rightarrow> string" where
  "defaultPdbname edition =
     (if edition = ''express'' then ''XEPDB1'' else if edition = ''free'' then ''FREEPDB1'' else ''ORCLPDB1'')"

definition defaultIdentity :: "SingleInstanceDatabaseSpec \<Rightarrow> SingleInstanceDatabaseSpec" where
  "defaultIdentity spec =
     (let createAs = (if sis_CreateAs spec = [] then ''primary'' else sis_CreateAs spec);
          replicas = (if sis_Replicas spec = 0 then 1 else sis_Replicas spec);
          edition = (if sis_Edition spec = [] \<and> createAs = ''clone'' \<and> \<not> img_PrebuiltDB (sis_Image spec)
                     then ''enterprise'' else sis_Edition spec);
          sid = (if sis_Sid spec = [] then defaultSid edition else sis_Sid spec);
          pdbname = (if sis_Pdbname spec = [] then defaultPdbname edition else sis_Pdbname spec)
      in spec\<lparr>sis_CreateAs := createAs, sis_Replicas := replicas, sis_Edition := edition, sis_Sid := sid, sis_Pdbname := pdbname\<rparr>)"

definition zeroProducerSpec :: DataguardProducerSpec where
  "zeroProducerSpec = \<lparr>dgp_Mode = [], dgp_Prereqs = None, dgp_AuthWallet = None, dgp_StandbySources = []\<rparr>"

definition defaultDataguard :: "SingleInstanceDatabaseSpec \<Rightarrow> SingleInstanceDatabaseSpec" where
  "defaultDataguard spec =
     (let dg = (case sis_Dataguard spec of None \<Rightarrow> zeroProducerSpec | Some d \<Rightarrow> d) in
      spec\<lparr>sis_Dataguard := Some (dg\<lparr>dgp_Mode := normalizeDataguardProducerMode (Some dg)\<rparr>)\<rparr>)"

definition DefaultFraMountPath :: string where
  "DefaultFraMountPath = ''/opt/oracle/oradata/fast_recovery_area''"

definition defaultFra :: "SingleInstanceDatabasePersistenceFra \<Rightarrow> SingleInstanceDatabasePersistenceFra" where
  "defaultFra fra =
     (let f1 = (if blank (fra_MountPath fra) then fra\<lparr>fra_MountPath := DefaultFraMountPath\<rparr> else fra) in
      if blank (fra_PvcName f1) \<and> blank (fra_RecoveryAreaSize f1) \<and> \<not> blank (fra_Size f1)
      then f1\<lparr>fra_RecoveryAreaSize := TrimSpace (fra_Size f1)\<rparr> else f1)"

definition defaultSIDBPersistence :: "SingleInstanceDatabasePersistence \<Rightarrow> SingleInstanceDatabasePersistence" where
  "defaultSIDBPersistence p = p\<lparr>prs_Fra := map_option defaultFra (prs_Fra p)\<rparr>"

definition trimLocation :: "SingleInstanceDatabaseScriptLocation \<Rightarrow> SingleInstanceDatabaseScriptLocation" where
  "trimLocation l = l\<lparr>scl_PvcName := TrimSpace (scl_PvcName l)\<rparr>"

definition defaultSIDBScripts :: "SingleInstanceDatabaseScriptsSpec option \<Rightarrow> SingleInstanceDatabaseScriptsSpec option" where
  "defaultSIDBScripts scripts =
     map_option (\<lambda>s. s\<lparr>scr_Setup := map_option trimLocation (scr_Setup s),
                       scr_Startup := map_option trimLocation (scr_Startup s)\<rparr>) scripts"

definition trimPVC :: "AdditionalPVCSpec \<Rightarrow> AdditionalPVCSpec" where
  "trimPVC p = p\<lparr>pvc_MountPath := TrimSpace (pvc_MountPath p), pvc_PvcName := TrimSpace (pvc_PvcName p),
                 pvc_StorageClass := TrimSpace (pvc_StorageClass p)\<rparr>"

definition defaultSIDBAdditionalPVCs :: "AdditionalPVCSpec list \<Rightarrow> AdditionalPVCSpec list" where
  "defaultSIDBAdditionalPVCs pvcs = map trimPVC pvcs"

definition defaultFileSystem :: "SingleInstanceDatabaseRestoreFileSystemSpec \<Rightarrow> SingleInstanceDatabaseRestoreFileSystemSpec" where
  "defaultFileSystem fs =
     (let f1 = fs\<lparr>rfs_BackupPath := TrimSpace (rfs_BackupPath fs)\<rparr>;
          f2 = f1\<lparr>rfs_CatalogStartWith := TrimSpace (rfs_CatalogStartWith f1)\<rparr>
      in if rfs_CatalogStartWith f2 = [] then f2\<lparr>rfs_CatalogStartWith := rfs_BackupPath f2\<rparr> else f2)"

definition defaultSIDBRestoreSpec :: "SingleInstanceDatabaseRestoreSpec option \<Rightarrow> SingleInstanceDatabaseRestoreSpec option" where
  "defaultSIDBRestoreSpec restore =
     map_option (\<lambda>r. r\<lparr>rst_FileSystem := map_option defaultFileSystem (rst_FileSystem r)\<rparr>) restore"

definition sidbDefault :: "SingleInstanceDatabase \<Rightarrow> SingleInstanceDatabase" where
  "sidbDefault sidb =
     (let s1 = defaultDataguard (defaultIdentity (defaultAdminPassword (defaultLoadBalancer (sidb_Spec sidb))));
          s2 = s1\<lparr>sis_Persistence := defaultSIDBPersistence (sis_Persistence s1)\<rparr>;
          s3 = s2\<lparr>sis_Scripts := defaultSIDBScripts (sis_Scripts s2)\<rparr>;
          s4 = s3\<lparr>sis_Persistence := (sis_Persistence s3)
                    \<lparr>prs_AdditionalPVCs := defaultSIDBAdditionalPVCs (prs_AdditionalPVCs (sis_Persistence s3))\<rparr>\<rparr>;
          s5 = s4\<lparr>sis_Restore := defaultSIDBRestoreSpec (sis_Restore s4)\<rparr>
      in sidb\<lparr>sidb_Spec := s5\<rparr>)"


section \<open>The primary source\<close>

definition sourceField :: "(SingleInstanceDatabasePrimarySource \<Rightarrow> string) \<Rightarrow> SingleInstanceDatabase \<Rightarrow> string" where
  "sourceField f sidb = (case sis_PrimarySource (sidb_Spec sidb) of None \<Rightarrow> [] | Some ps \<Rightarrow> TrimSpace (f ps))"

definition resolvePrimarySourceDatabaseRef :: "SingleInstanceDatabase \<Rightarrow> string" where
  "resolvePrimarySourceDatabaseRef sidb =
     (let ref = sourceField ps_DatabaseRef sidb in
      if ref \<noteq> [] then ref else TrimSpace (sis_PrimaryDatabaseRef (sidb_Spec sidb)))"

definition resolvePrimarySourceConnectString :: "SingleInstanceDatabase \<Rightarrow> string" where
  "resolvePrimarySourceConnectString sidb = sourceField ps_ConnectString sidb"

definition resolvePrimarySourceDBName :: "SingleInstanceDatabase \<Rightarrow> string" where
  "resolvePrimarySourceDBName sidb = sourceField ps_DBName sidb"

definition resolvePrimarySourcePdbName :: "SingleInstanceDatabase \<Rightarrow> string" where
  "resolvePrimarySourcePdbName sidb = sourceField ps_Pdbname sidb"

definition resolvePrimarySourceDetails :: "SingleInstanceDatabase \<Rightarrow> SingleInstanceDatabasePrimaryDetails option" where
  "resolvePrimarySourceDetails sidb = Option.bind (sis_PrimarySource (sidb_Spec sidb)) ps_Details"

definition resolvePrimarySourceInputPresent :: "SingleInstanceDatabase \<Rightarrow> bool" where
  "resolvePrimarySourceInputPresent sidb =
     (if resolvePrimarySourceDatabaseRef sidb \<noteq> [] then True
      else if resolvePrimarySourceConnectString sidb \<noteq> [] then True
      else (case resolvePrimarySourceDetails sidb of None \<Rightarrow> False | Some d \<Rightarrow> \<not> blank (pd_Host d)))"

definition resolveEffectivePrimarySource :: "SingleInstanceDatabase \<Rightarrow> string" where
  "resolveEffectivePrimarySource sidb =
     (let ref = resolvePrimarySourceDatabaseRef sidb;
          connectString = resolvePrimarySourceConnectString sidb;
          dbName = resolvePrimarySourceDBName sidb in
      if ref \<noteq> [] then ''databaseRef:'' @ ref @ ''|dbName:'' @ dbName
      else if connectString \<noteq> []
      then ''connectString:'' @ connectString @ ''|dbName:'' @ dbName @ ''|pdbName:'' @ resolvePrimarySourcePdbName sidb
      else (case resolvePrimarySourceDetails sidb of
              None \<Rightarrow> []
            | Some d \<Rightarrow> ''details:'' @ TrimSpace (pd_Host d) @ '':'' @ itoa (pd_Port d) @ ''/'' @ TrimSpace (pd_Sid d)
                        @ ''/'' @ TrimSpace (pd_Pdbname d) @ ''|dbName:'' @ dbName))"

definition isPopulatedStatusValue :: "string \<Rightarrow> bool" where
  "isPopulatedStatusValue v \<longleftrightarrow> TrimSpace v \<noteq> [] \<and> TrimSpace v \<noteq> ValueUnavailable"

definition isConditionTrue :: "Condition list \<Rightarrow> string \<Rightarrow> bool" where
  "isConditionTrue conditions conditionType =
     (case FindStatusCondition conditions conditionType of None \<Rightarrow> False | Some c \<Rightarrow> cond_Status c = ConditionTrue)"

text \<open>Whether the state alone, without the published Data Guard topology, locks the primary source.\<close>

definition createdSourceLocked :: "SingleInstanceDatabaseStatus \<Rightarrow> bool" where
  "createdSourceLocked st =
     (let createdAs = ToLower (TrimSpace (ss_CreatedAs st)) in
      if createdAs = ''clone'' then True
      else if createdAs = ''standby''
      then EqualFold (TrimSpace (ss_DatafilesCreated st)) ''true'' \<or>
           (isPopulatedStatusValue (ss_Role st) \<and> \<not> EqualFold (TrimSpace (ss_Role st)) ''PRIMARY'')
      else if createdAs = ''truecache''
      then EqualFold (TrimSpace (ss_DatafilesCreated st)) ''true'' \<or>
           isConditionTrue (ss_Conditions st) ''TrueCacheBlobSourceReady'' \<or>
           isConditionTrue (ss_Conditions st) ''TrueCacheBlobReady''
      else False)"

definition isPrimarySourceLocked :: "SingleInstanceDatabase \<Rightarrow> bool" where
  "isPrimarySourceLocked sidb =
     (if (case ss_Dataguard (sidb_Status sidb) of None \<Rightarrow> False | Some d \<Rightarrow> pds_TopologyLocked d) then True
      else createdSourceLocked (sidb_Status sidb))"

end
