(* ===== verification/Sidb_Endpoints.thy ===== *)
theory Sidb_Endpoints
  imports Sidb_Access
begin

text \<open>
  The service endpoints of a single-instance database: their validation in the webhook
  (\<^verbatim>\<open>validateSIDBServiceEndpoints\<close>, \<^verbatim>\<open>singleinstancedatabase_webhook.go\<close>) and the Kubernetes services the controller
  derives from them (\<^verbatim>\<open>resolveServiceEndpointConfigs\<close>, \<^verbatim>\<open>desiredSIDBServiceEndpointPorts\<close>,
  \<^verbatim>\<open>controllers/database/singleinstancedatabase_controller.go\<close>). The two are composed at the end: which accepted
  endpoints give services that the API server can create.
\<close>


section \<open>Validation\<close>

definition expectedSIDBEndpointNameForType :: "string \<Rightarrow> string" where
  "expectedSIDBEndpointNameForType endpointType =
     (if endpointType = SingleInstanceDatabaseServiceEndpointTypeClusterIP then SingleInstanceDatabaseServiceEndpointNameCluster
      else if endpointType = SingleInstanceDatabaseServiceEndpointTypeNodePort then SingleInstanceDatabaseServiceEndpointNameNodePort
      else if endpointType = SingleInstanceDatabaseServiceEndpointTypeLoadBalancer then SingleInstanceDatabaseServiceEndpointNameLoadBalancer
      else [])"

definition expectedSIDBEndpointTypeForName :: "string \<Rightarrow> string" where
  "expectedSIDBEndpointTypeForName name =
     (if name = SingleInstanceDatabaseServiceEndpointNameCluster then SingleInstanceDatabaseServiceEndpointTypeClusterIP
      else if name = SingleInstanceDatabaseServiceEndpointNameNodePort then SingleInstanceDatabaseServiceEndpointTypeNodePort
      else if name = SingleInstanceDatabaseServiceEndpointNameLoadBalancer then SingleInstanceDatabaseServiceEndpointTypeLoadBalancer
      else [])"

definition intOrDefault :: "int \<Rightarrow> int \<Rightarrow> bool \<Rightarrow> int" where
  "intOrDefault current fallback useFallback = (if useFallback then fallback else current)"

definition validateSIDBServiceEndpointPort ::
    "path \<Rightarrow> string \<Rightarrow> SingleInstanceDatabaseServiceEndpointPort option \<Rightarrow> bool \<Rightarrow> error_list" where
  "validateSIDBServiceEndpointPort p endpointName portOpt isTCP =
     (case portOpt of
        None \<Rightarrow> []
      | Some port \<Rightarrow>
          (let portPath = p @ [Child ''port'']; nodePath = p @ [Child ''nodePort''];
               n = sep_Port port; np = sep_NodePort port;
               rangeErr = (if n \<noteq> 0 \<and> (n < 1 \<or> n > 65535) then [Invalid portPath (BVInt n)] else []) in
           if \<not> sep_Enabled port
           then (if n \<noteq> 0 then [Forbidden portPath] else []) @ (if np \<noteq> 0 then [Forbidden nodePath] else [])
           else if endpointName = SingleInstanceDatabaseServiceEndpointNameCluster
           then (if np \<noteq> 0 then [Forbidden nodePath] else [])
                @ (if n \<noteq> 0 \<and> n \<noteq> 1521 \<and> isTCP then [Invalid portPath (BVInt n)] else [])
                @ rangeErr
           else if endpointName = SingleInstanceDatabaseServiceEndpointNameLoadBalancer
           then (if np \<noteq> 0 then [Forbidden nodePath] else []) @ rangeErr
           else if endpointName = SingleInstanceDatabaseServiceEndpointNameNodePort
           then (if n \<noteq> 0 then [Forbidden portPath] else [])
                @ (if np \<noteq> 0 \<and> (np < 30000 \<or> np > 32767) then [Invalid nodePath (BVInt np)] else [])
           else []))"

definition portEnabled :: "SingleInstanceDatabaseServiceEndpointPort option \<Rightarrow> bool" where
  "portEnabled p = (case p of None \<Rightarrow> False | Some q \<Rightarrow> sep_Enabled q)"

text \<open>The port checks that compare the two listeners of one endpoint.\<close>

definition loadBalancerPortErrs :: "path \<Rightarrow> SingleInstanceDatabaseServiceEndpoint \<Rightarrow> error_list" where
  "loadBalancerPortErrs itemPath endpoint =
     (let tcp = sve_TCP endpoint; tcps = sve_TCPS endpoint;
          portOf = (\<lambda>p. case p of None \<Rightarrow> 0 | Some q \<Rightarrow> sep_Port q);
          tcpEnabled = (tcp = None \<or> portEnabled tcp);
          tcpsEnabled = portEnabled tcps;
          tcpPort = (if portOf tcp \<noteq> 0 then portOf tcp else intOrDefault 0 1521 (tcpEnabled \<and> portOf tcp = 0));
          tcpsPort = (if portOf tcps \<noteq> 0 then portOf tcps else intOrDefault 0 2484 (tcpsEnabled \<and> portOf tcps = 0)) in
      if tcpEnabled \<and> tcpsEnabled \<and> tcpPort = tcpsPort
      then [Invalid (itemPath @ [Child ''tcps'', Child ''port'']) (BVInt tcpsPort)] else [])"

definition nodePortErrs :: "path \<Rightarrow> SingleInstanceDatabaseServiceEndpoint \<Rightarrow> error_list" where
  "nodePortErrs itemPath endpoint =
     (case (sve_TCP endpoint, sve_TCPS endpoint) of
        (Some tcp, Some tcps) \<Rightarrow>
          if sep_Enabled tcp \<and> sep_Enabled tcps \<and> sep_NodePort tcp \<noteq> 0 \<and> sep_NodePort tcp = sep_NodePort tcps
          then [Invalid (itemPath @ [Child ''tcps'', Child ''nodePort'']) (BVInt (sep_NodePort tcps))] else []
      | _ \<Rightarrow> [])"

definition endpointFieldErrs :: "path \<Rightarrow> bool \<Rightarrow> string \<Rightarrow> SingleInstanceDatabaseServiceEndpoint \<Rightarrow> error_list" where
  "endpointFieldErrs itemPath tcpsOn name endpoint =
     (let expectedType = expectedSIDBEndpointTypeForName name;
          endpointType = (if sve_Type endpoint = [] then expectedType else sve_Type endpoint);
          policy = sve_ExternalTrafficPolicy endpoint;
          policyPath = itemPath @ [Child ''externalTrafficPolicy''] in
      (if endpointType \<noteq> expectedType then [Invalid (itemPath @ [Child ''type'']) (BVString (sve_Type endpoint))] else [])
      @ (if policy \<noteq> []
         then (if policy \<noteq> ''Cluster'' \<and> policy \<noteq> ''Local'' then [NotSupported policyPath (BVString policy)] else [])
              @ (if name = SingleInstanceDatabaseServiceEndpointNameCluster then [Forbidden policyPath] else [])
         else [])
      @ (if portEnabled (sve_TCPS endpoint) \<and> \<not> tcpsOn then [Forbidden (itemPath @ [Child ''tcps''])] else [])
      @ validateSIDBServiceEndpointPort (itemPath @ [Child ''tcp'']) name (sve_TCP endpoint) True
      @ validateSIDBServiceEndpointPort (itemPath @ [Child ''tcps'']) name (sve_TCPS endpoint) False
      @ (if name = SingleInstanceDatabaseServiceEndpointNameLoadBalancer then loadBalancerPortErrs itemPath endpoint else [])
      @ (if name = SingleInstanceDatabaseServiceEndpointNameNodePort then nodePortErrs itemPath endpoint else []))"

definition effectiveEndpointName :: "SingleInstanceDatabaseServiceEndpoint \<Rightarrow> string" where
  "effectiveEndpointName endpoint =
     (if sve_Name endpoint = [] then expectedSIDBEndpointNameForType (sve_Type endpoint) else sve_Name endpoint)"

fun endpointErrsFrom :: "path \<Rightarrow> bool \<Rightarrow> nat \<Rightarrow> string list \<Rightarrow> SingleInstanceDatabaseServiceEndpoint list \<Rightarrow> error_list" where
  "endpointErrsFrom p tcpsOn i seen [] = []"
| "endpointErrsFrom p tcpsOn i seen (endpoint # endpoints) =
     (let itemPath = p @ [Index i]; name = effectiveEndpointName endpoint in
      if name = [] then Required (itemPath @ [Child ''name'']) # endpointErrsFrom p tcpsOn (Suc i) seen endpoints
      else if name \<in> set seen
      then Duplicate (itemPath @ [Child ''name'']) (BVString name) # endpointErrsFrom p tcpsOn (Suc i) seen endpoints
      else if expectedSIDBEndpointTypeForName name = []
      then NotSupported (itemPath @ [Child ''name'']) (BVString name) # endpointErrsFrom p tcpsOn (Suc i) (name # seen) endpoints
      else endpointFieldErrs itemPath tcpsOn name endpoint @ endpointErrsFrom p tcpsOn (Suc i) (name # seen) endpoints)"

definition sidbEndpoints :: "SingleInstanceDatabase \<Rightarrow> SingleInstanceDatabaseServiceEndpoint list" where
  "sidbEndpoints sidb = (case sis_Services (sidb_Spec sidb) of None \<Rightarrow> [] | Some s \<Rightarrow> svs_Endpoints s)"

definition validateSIDBServiceEndpoints :: "path \<Rightarrow> SingleInstanceDatabase \<Rightarrow> error_list" where
  "validateSIDBServiceEndpoints p sidb =
     (let endpoints = sidbEndpoints sidb in
      if endpoints = [] then []
      else if length endpoints > 3 then [TooMany p (int (length endpoints))]
      else endpointErrsFrom p (sidbTcpsEnabled sidb) 0 [] endpoints)"


section \<open>The services of the controller\<close>

definition CONTAINER_LISTENER_PORT :: int where
  "CONTAINER_LISTENER_PORT = 1521"

definition CONTAINER_TCPS_PORT :: int where
  "CONTAINER_TCPS_PORT = 2484"

record sidbResolvedServiceEndpointConfig =
  rse_Name :: string
  rse_ServiceName :: string
  rse_Defined :: bool
  rse_IsKeep :: bool
  rse_Type :: string
  rse_ExternalTrafficPolicy :: string
  rse_TCPEnabled :: bool
  rse_TCPServicePort :: int
  rse_TCPNodePort :: int
  rse_TCPSEnabled :: bool
  rse_TCPSServicePort :: int
  rse_TCPSNodePort :: int

definition serviceTypeForEndpointName :: "string \<Rightarrow> string" where
  "serviceTypeForEndpointName name =
     (if name = SingleInstanceDatabaseServiceEndpointNameLoadBalancer then ''LoadBalancer''
      else if name = SingleInstanceDatabaseServiceEndpointNameNodePort then ''NodePort''
      else ''ClusterIP'')"

definition serviceNameForSIDBEndpoint :: "string \<Rightarrow> string \<Rightarrow> string" where
  "serviceNameForSIDBEndpoint base name =
     (if name = SingleInstanceDatabaseServiceEndpointNameNodePort then base @ ''-nodeport''
      else if name = SingleInstanceDatabaseServiceEndpointNameLoadBalancer then base @ ''-lb''
      else base)"

definition legacyPortIsNodePort :: "int \<Rightarrow> bool" where
  "legacyPortIsNodePort port \<longleftrightarrow> port \<ge> 30000 \<and> port \<le> 32767"

definition defaultClusterServiceEndpointConfig :: "SingleInstanceDatabase \<Rightarrow> bool \<Rightarrow> sidbResolvedServiceEndpointConfig" where
  "defaultClusterServiceEndpointConfig m tcpsEnabled =
     \<lparr>rse_Name = SingleInstanceDatabaseServiceEndpointNameCluster, rse_ServiceName = sidb_Name m, rse_Defined = True,
      rse_IsKeep = False, rse_Type = ''ClusterIP'', rse_ExternalTrafficPolicy = [], rse_TCPEnabled = True,
      rse_TCPServicePort = CONTAINER_LISTENER_PORT, rse_TCPNodePort = 0, rse_TCPSEnabled = tcpsEnabled,
      rse_TCPSServicePort = (if tcpsEnabled then CONTAINER_TCPS_PORT else 0), rse_TCPSNodePort = 0\<rparr>"

definition legacyExternalServiceEndpoint :: "SingleInstanceDatabase \<Rightarrow> SingleInstanceDatabaseServiceEndpoint option" where
  "legacyExternalServiceEndpoint m =
     map_option (\<lambda>e. e\<lparr>sve_Name := SingleInstanceDatabaseServiceEndpointNameLoadBalancer,
                       sve_Type := SingleInstanceDatabaseServiceEndpointTypeLoadBalancer\<rparr>)
       (Option.bind (sis_Services (sidb_Spec m)) svs_External)"

definition resolveTcp ::
    "string \<Rightarrow> SingleInstanceDatabaseServiceEndpoint \<Rightarrow> sidbResolvedServiceEndpointConfig \<Rightarrow> sidbResolvedServiceEndpointConfig" where
  "resolveTcp name endpoint cfg =
     (case sve_TCP endpoint of
        None \<Rightarrow> cfg
      | Some tcp \<Rightarrow>
          let cfg = cfg\<lparr>rse_TCPEnabled := sep_Enabled tcp\<rparr> in
          if rse_Type cfg = ''NodePort''
          then cfg\<lparr>rse_TCPNodePort := wrap32 (sep_NodePort tcp), rse_TCPServicePort := CONTAINER_LISTENER_PORT\<rparr>
          else if sep_Port tcp \<noteq> 0 \<and> name \<noteq> SingleInstanceDatabaseServiceEndpointNameCluster
          then cfg\<lparr>rse_TCPServicePort := wrap32 (sep_Port tcp)\<rparr>
          else cfg)"

definition resolveTcps ::
    "SingleInstanceDatabaseServiceEndpoint \<Rightarrow> bool \<Rightarrow> sidbResolvedServiceEndpointConfig \<Rightarrow> sidbResolvedServiceEndpointConfig" where
  "resolveTcps endpoint tcpsEnabled cfg =
     (case sve_TCPS endpoint of
        None \<Rightarrow> cfg
      | Some tcps \<Rightarrow>
          if tcpsEnabled \<and> sep_Enabled tcps
          then (let cfg = cfg\<lparr>rse_TCPSEnabled := True\<rparr> in
                if rse_Type cfg = ''NodePort''
                then cfg\<lparr>rse_TCPSServicePort := CONTAINER_TCPS_PORT, rse_TCPSNodePort := wrap32 (sep_NodePort tcps)\<rparr>
                else cfg\<lparr>rse_TCPSServicePort := (if wrap32 (sep_Port tcps) = 0 then CONTAINER_TCPS_PORT else wrap32 (sep_Port tcps))\<rparr>)
          else cfg)"

definition resolveServiceEndpointConfig ::
    "SingleInstanceDatabase \<Rightarrow> SingleInstanceDatabaseServiceEndpoint \<Rightarrow> bool \<Rightarrow> sidbResolvedServiceEndpointConfig" where
  "resolveServiceEndpointConfig m endpoint tcpsEnabled =
     (let name = effectiveEndpointName endpoint;
          cluster = (name = SingleInstanceDatabaseServiceEndpointNameCluster);
          cfg = \<lparr>rse_Name = name,
                 rse_ServiceName = (if cluster then sidb_Name m else serviceNameForSIDBEndpoint (sidb_Name m) name),
                 rse_Defined = True, rse_IsKeep = sve_IsKeep endpoint, rse_Type = serviceTypeForEndpointName name,
                 rse_ExternalTrafficPolicy =
                   (if sve_ExternalTrafficPolicy endpoint \<noteq> [] then sve_ExternalTrafficPolicy endpoint
                    else if cluster then [] else ''Cluster''),
                 rse_TCPEnabled = True, rse_TCPServicePort = CONTAINER_LISTENER_PORT, rse_TCPNodePort = 0,
                 rse_TCPSEnabled = False, rse_TCPSServicePort = 0, rse_TCPSNodePort = 0\<rparr>
      in resolveTcps endpoint tcpsEnabled (resolveTcp name endpoint cfg))"

definition resolveLegacyServiceEndpointConfig ::
    "SingleInstanceDatabase \<Rightarrow> bool \<Rightarrow> sidbResolvedServiceEndpointConfig option" where
  "resolveLegacyServiceEndpointConfig m tcpsEnabled =
     (let spec = sidb_Spec m; listener = sis_ListenerPort spec; tcpsListener = sis_TcpsListenerPort spec in
      if \<not> sis_LoadBalancer spec \<and> listener = 0 \<and> tcpsListener = 0 then None
      else
        (let lb = sis_LoadBalancer spec;
             name = (if lb then SingleInstanceDatabaseServiceEndpointNameLoadBalancer
                     else SingleInstanceDatabaseServiceEndpointNameNodePort);
             tcp = (\<not> tcpsEnabled \<or> listener \<noteq> 0);
             tcpNode = (tcp \<and> \<not> lb \<and> legacyPortIsNodePort listener);
             tcpPort =
               (if tcp \<and> lb then (if wrap32 listener = 0 then CONTAINER_LISTENER_PORT else wrap32 listener)
                else if tcp \<and> \<not> tcpNode \<and> listener \<noteq> 0 then wrap32 listener
                else CONTAINER_LISTENER_PORT);
             tcpsPort =
               (if \<not> tcpsEnabled then 0
                else if lb \<and> wrap32 tcpsListener \<noteq> 0 then wrap32 tcpsListener
                else CONTAINER_TCPS_PORT)
         in Some \<lparr>rse_Name = name, rse_ServiceName = serviceNameForSIDBEndpoint (sidb_Name m) name, rse_Defined = True,
                  rse_IsKeep = False, rse_Type = serviceTypeForEndpointName name, rse_ExternalTrafficPolicy = ''Cluster'',
                  rse_TCPEnabled = tcp, rse_TCPServicePort = tcpPort,
                  rse_TCPNodePort = (if tcpNode then wrap32 listener else 0),
                  rse_TCPSEnabled = tcpsEnabled, rse_TCPSServicePort = tcpsPort,
                  rse_TCPSNodePort =
                    (if tcpsEnabled \<and> \<not> lb \<and> legacyPortIsNodePort tcpsListener then wrap32 tcpsListener else 0)\<rparr>))"

definition putConfig ::
    "(string, sidbResolvedServiceEndpointConfig) gomap \<Rightarrow> sidbResolvedServiceEndpointConfig \<Rightarrow>
     (string, sidbResolvedServiceEndpointConfig) gomap" where
  "putConfig endpoints cfg = (if rse_Name cfg = [] then endpoints else mput (rse_Name cfg) cfg endpoints)"

definition resolveServiceEndpointConfigs :: "SingleInstanceDatabase \<Rightarrow> sidbResolvedServiceEndpointConfig list" where
  "resolveServiceEndpointConfigs m =
     (let tcpsEnabled = sidbTcpsEnabled m;
          cluster = defaultClusterServiceEndpointConfig m tcpsEnabled;
          start = mput (rse_Name cluster) cluster [];
          external = (\<lambda>es. case legacyExternalServiceEndpoint m of
                        None \<Rightarrow> es | Some e \<Rightarrow> putConfig es (resolveServiceEndpointConfig m e tcpsEnabled));
          endpoints =
            (if sidbUsesServiceEndpoints m
             then external (foldl (\<lambda>es e. putConfig es (resolveServiceEndpointConfig m e tcpsEnabled)) start (sidbEndpoints m))
             else if legacyExternalServiceEndpoint m \<noteq> None then external start
             else (case resolveLegacyServiceEndpointConfig m tcpsEnabled of None \<Rightarrow> start | Some cfg \<Rightarrow> putConfig start cfg));
          at = (\<lambda>name. case map_of endpoints name of None \<Rightarrow> [] | Some cfg \<Rightarrow> [cfg])
      in at SingleInstanceDatabaseServiceEndpointNameCluster @ at SingleInstanceDatabaseServiceEndpointNameNodePort
         @ at SingleInstanceDatabaseServiceEndpointNameLoadBalancer)"

record ServicePort =
  sp_Name :: string
  sp_Protocol :: string
  sp_Port :: int
  sp_TargetPort :: int
  sp_NodePort :: int

text \<open>One listener port: the service port unless it is zero, except that a zero is kept for the first two service types.\<close>

definition listenerPort :: "string \<Rightarrow> string \<Rightarrow> int \<Rightarrow> int \<Rightarrow> int \<Rightarrow> ServicePort" where
  "listenerPort svcType name servicePort nodePort container =
     (let exposed = (svcType = ''LoadBalancer'' \<or> svcType = ''ClusterIP'') in
      \<lparr>sp_Name = name, sp_Protocol = ''TCP'',
       sp_Port = (if exposed then servicePort else if servicePort = 0 then container else servicePort),
       sp_TargetPort = container,
       sp_NodePort = (if \<not> exposed \<and> nodePort \<noteq> 0 then nodePort else 0)\<rparr>)"

definition desiredSIDBServiceEndpointPorts :: "sidbResolvedServiceEndpointConfig \<Rightarrow> ServicePort list" where
  "desiredSIDBServiceEndpointPorts cfg =
     (if rse_Name cfg \<noteq> SingleInstanceDatabaseServiceEndpointNameCluster
      then [\<lparr>sp_Name = ''xmldb'', sp_Protocol = ''TCP'', sp_Port = 5500, sp_TargetPort = 0, sp_NodePort = 0\<rparr>] else [])
     @ (if rse_TCPEnabled cfg
        then [listenerPort (rse_Type cfg) ''listener'' (rse_TCPServicePort cfg) (rse_TCPNodePort cfg) CONTAINER_LISTENER_PORT] else [])
     @ (if rse_TCPSEnabled cfg
        then [listenerPort (rse_Type cfg) ''listener-tcps'' (rse_TCPSServicePort cfg) (rse_TCPSNodePort cfg) CONTAINER_TCPS_PORT] else [])"



text \<open>
  The annotations of a service: those of the specification, overridden by those of the endpoint found by name. A range
  over the annotations of the endpoint writes each key once, so that its order does not matter.
\<close>

definition serviceEndpointSpecByName :: "SingleInstanceDatabase \<Rightarrow> string \<Rightarrow> SingleInstanceDatabaseServiceEndpoint option" where
  "serviceEndpointSpecByName m name =
     (case sis_Services (sidb_Spec m) of
        None \<Rightarrow> None
      | Some s \<Rightarrow>
          (case find (\<lambda>e. sve_Name e = name) (svs_Endpoints s) of
             Some e \<Rightarrow> Some e
           | None \<Rightarrow> if name = SingleInstanceDatabaseServiceEndpointNameLoadBalancer then svs_External s else None))"

definition desiredSIDBServiceAnnotations :: "SingleInstanceDatabase \<Rightarrow> sidbResolvedServiceEndpointConfig option \<Rightarrow> strmap" where
  "desiredSIDBServiceAnnotations m endpoint =
     (let annotations = sis_ServiceAnnotations (sidb_Spec m) in
      case endpoint of
        None \<Rightarrow> annotations
      | Some cfg \<Rightarrow>
          if rse_Name cfg = SingleInstanceDatabaseServiceEndpointNameCluster \<or> sis_Services (sidb_Spec m) = None then annotations
          else (case serviceEndpointSpecByName m (rse_Name cfg) of
                  None \<Rightarrow> annotations
                | Some e \<Rightarrow> foldl (\<lambda>m (k, v). mput k v m) annotations (sve_Annotations e)))"

definition servicePortByName :: "ServicePort list \<Rightarrow> string \<Rightarrow> ServicePort option" where
  "servicePortByName ports name = find (\<lambda>p. sp_Name p = name) ports"

definition servicePortsMatchDesired :: "ServicePort list \<Rightarrow> ServicePort list \<Rightarrow> string \<Rightarrow> bool" where
  "servicePortsMatchDesired existing desired svcType \<longleftrightarrow>
     length existing = length desired \<and>
     list_all2 (\<lambda>e d.
        sp_Name e = sp_Name d \<and> sp_Port e = sp_Port d \<and> sp_Protocol e = sp_Protocol d \<and>
        \<not> (sp_TargetPort d \<noteq> 0 \<and> sp_TargetPort e \<noteq> sp_TargetPort d) \<and>
        \<not> (svcType = ''NodePort'' \<and> sp_NodePort d \<noteq> 0 \<and> sp_NodePort e \<noteq> sp_NodePort d)) existing desired"


section \<open>Accepted endpoints\<close>

text \<open>What the documentation of the fields asks of one endpoint, per kind of service.\<close>

definition endpointNames :: "string list" where
  "endpointNames = [''cluster'', ''nodeport'', ''loadbalancer'']"

definition portSound :: "string \<Rightarrow> bool \<Rightarrow> SingleInstanceDatabaseServiceEndpointPort option \<Rightarrow> bool" where
  "portSound name isTCP p \<longleftrightarrow>
     (case p of None \<Rightarrow> True
      | Some q \<Rightarrow>
          if \<not> sep_Enabled q then sep_Port q = 0 \<and> sep_NodePort q = 0
          else if name = ''nodeport''
          then sep_Port q = 0 \<and> (sep_NodePort q = 0 \<or> (30000 \<le> sep_NodePort q \<and> sep_NodePort q \<le> 32767))
          else sep_NodePort q = 0 \<and> (sep_Port q = 0 \<or> (1 \<le> sep_Port q \<and> sep_Port q \<le> 65535)) \<and>
               (name = ''cluster'' \<and> isTCP \<longrightarrow> sep_Port q = 0 \<or> sep_Port q = 1521))"

definition exposedPort :: "int \<Rightarrow> SingleInstanceDatabaseServiceEndpointPort option \<Rightarrow> int" where
  "exposedPort container p = (case p of None \<Rightarrow> container | Some q \<Rightarrow> if sep_Port q = 0 then container else sep_Port q)"

definition tcpOn :: "SingleInstanceDatabaseServiceEndpoint \<Rightarrow> bool" where
  "tcpOn e \<longleftrightarrow> sve_TCP e = None \<or> portEnabled (sve_TCP e)"

definition nodePortsDiffer :: "SingleInstanceDatabaseServiceEndpoint \<Rightarrow> bool" where
  "nodePortsDiffer e \<longleftrightarrow>
     (case (sve_TCP e, sve_TCPS e) of
        (Some p, Some q) \<Rightarrow> sep_Enabled p \<and> sep_Enabled q \<and> sep_NodePort p \<noteq> 0 \<longrightarrow> sep_NodePort p \<noteq> sep_NodePort q
      | _ \<Rightarrow> True)"

definition soundServiceEndpoint :: "bool \<Rightarrow> SingleInstanceDatabaseServiceEndpoint \<Rightarrow> bool" where
  "soundServiceEndpoint tcpsOn e \<longleftrightarrow>
     (let name = effectiveEndpointName e in
      name \<in> set endpointNames \<and>
      (sve_Type e = [] \<or> sve_Type e = expectedSIDBEndpointTypeForName name) \<and>
      sve_ExternalTrafficPolicy e \<in> {[], ''Cluster'', ''Local''} \<and>
      (name = ''cluster'' \<longrightarrow> sve_ExternalTrafficPolicy e = []) \<and>
      (portEnabled (sve_TCPS e) \<longrightarrow> tcpsOn) \<and>
      portSound name True (sve_TCP e) \<and> portSound name False (sve_TCPS e) \<and>
      (name = ''loadbalancer'' \<longrightarrow>
         \<not> (tcpOn e \<and> portEnabled (sve_TCPS e) \<and> exposedPort 1521 (sve_TCP e) = exposedPort 2484 (sve_TCPS e))) \<and>
      (name = ''nodeport'' \<longrightarrow> nodePortsDiffer e))"

lemma expectedType_Nil_iff: "expectedSIDBEndpointTypeForName name = [] \<longleftrightarrow> name \<notin> set endpointNames"
  by (auto simp: expectedSIDBEndpointTypeForName_def sidb_endpoint_defs endpointNames_def)

lemma validatePort_Nil_iff:
  assumes "name \<in> set endpointNames"
  shows "validateSIDBServiceEndpointPort p name q isTCP = [] \<longleftrightarrow> portSound name isTCP q"
proof (cases q)
  case (Some port)
  have r: "(if n \<noteq> 0 \<and> (n < 1 \<or> n > 65535) then [x] else []) = [] \<longleftrightarrow> n = 0 \<or> (1 \<le> n \<and> n \<le> 65535)" for n :: int and x :: field_error
    by auto
  from assms consider "name = ''cluster''" | "name = ''nodeport''" | "name = ''loadbalancer''"
    by (auto simp: endpointNames_def)
  then show ?thesis
    by cases (simp_all add: Some validateSIDBServiceEndpointPort_def portSound_def sidb_endpoint_defs Let_def r, auto)
qed (simp add: validateSIDBServiceEndpointPort_def portSound_def)

lemma loadBalancerPortErrs_Nil_iff:
  "loadBalancerPortErrs p e = [] \<longleftrightarrow>
     \<not> (tcpOn e \<and> portEnabled (sve_TCPS e) \<and> exposedPort 1521 (sve_TCP e) = exposedPort 2484 (sve_TCPS e))"
  by (cases "sve_TCP e"; cases "sve_TCPS e")
    (simp_all add: loadBalancerPortErrs_def tcpOn_def exposedPort_def intOrDefault_def portEnabled_def Let_def)

lemma nodePortErrs_Nil_iff:
  "nodePortErrs ip e = [] \<longleftrightarrow> nodePortsDiffer e"
  by (cases "sve_TCP e"; cases "sve_TCPS e") (auto simp: nodePortErrs_def nodePortsDiffer_def)

lemma trafficErrs_Nil_iff:
  "(if pol \<noteq> [] then (if pol \<noteq> c \<and> pol \<noteq> l then [e1] else []) @ (if cl then [e2] else []) else []) = [] \<longleftrightarrow>
     pol \<in> {[], c, l} \<and> (cl \<longrightarrow> pol = [])"
  by auto

lemma guarded_list_Nil_iff: "(if P then xs else []) = [] \<longleftrightarrow> (P \<longrightarrow> xs = [])"
  by simp

lemma guarded_error_Nil_iff:
  "(if P \<and> \<not> Q then [x] else []) = [] \<longleftrightarrow> (P \<longrightarrow> Q)"
  "(if (if t = [] then n else t) \<noteq> n then [x] else []) = [] \<longleftrightarrow> t = [] \<or> t = n"
  by auto

lemma endpointFieldErrs_Nil_iff:
  assumes "name = effectiveEndpointName e" and "name \<in> set endpointNames"
  shows "endpointFieldErrs ip tcpsOn name e = [] \<longleftrightarrow> soundServiceEndpoint tcpsOn e"
proof -
  have n: "SingleInstanceDatabaseServiceEndpointNameCluster = ''cluster''"
    "SingleInstanceDatabaseServiceEndpointNameLoadBalancer = ''loadbalancer''"
    "SingleInstanceDatabaseServiceEndpointNameNodePort = ''nodeport''" by (simp_all add: sidb_endpoint_defs)
  have m: "(name \<in> set endpointNames) = True" using assms(2) by (rule eqTrueI)
  show ?thesis
    unfolding endpointFieldErrs_def soundServiceEndpoint_def Let_def assms(1) [symmetric]
      append_is_Nil_conv validatePort_Nil_iff [OF assms(2)] n trafficErrs_Nil_iff guarded_error_Nil_iff
    unfolding guarded_list_Nil_iff loadBalancerPortErrs_Nil_iff nodePortErrs_Nil_iff
    by (simp only: m simp_thms conj_assoc)
qed

lemma endpointErrsFrom_Nil_iff:
  "endpointErrsFrom p tcpsOn i seen es = [] \<longleftrightarrow>
     (\<forall>e \<in> set es. soundServiceEndpoint tcpsOn e) \<and> distinct (map effectiveEndpointName es) \<and>
     set (map effectiveEndpointName es) \<inter> set seen = {}"
proof (induction es arbitrary: i seen)
  case (Cons e es)
  let ?n = "effectiveEndpointName e"
  have s: "soundServiceEndpoint tcpsOn e \<Longrightarrow> ?n \<in> set endpointNames" by (simp add: soundServiceEndpoint_def Let_def)
  have ne: "?n \<in> set endpointNames \<Longrightarrow> ?n \<noteq> []" by (auto simp: endpointNames_def)
  show ?case
  proof (cases "?n \<in> set endpointNames \<and> ?n \<notin> set seen")
    case True
    then show ?thesis
      using ne expectedType_Nil_iff [of ?n] endpointFieldErrs_Nil_iff [OF refl, of e]
      by (simp add: Let_def Cons.IH) blast
  next
    case False
    then show ?thesis using s ne expectedType_Nil_iff [of ?n] by (auto simp: Let_def)
  qed
qed simp


section \<open>From accepted endpoints to services\<close>

text \<open>What the API server asks of the ports of a service: there is one, they are in range and pairwise different.\<close>

definition validServicePorts :: "ServicePort list \<Rightarrow> bool" where
  "validServicePorts ports \<longleftrightarrow>
     ports \<noteq> [] \<and> (\<forall>p \<in> set ports. 1 \<le> sp_Port p \<and> sp_Port p \<le> 65535) \<and> distinct (map sp_Port ports) \<and>
     (\<forall>p \<in> set ports. sp_NodePort p = 0 \<or> (30000 \<le> sp_NodePort p \<and> sp_NodePort p \<le> 32767)) \<and>
     distinct (filter (\<lambda>n. n \<noteq> 0) (map sp_NodePort ports))"


lemma wrap32_port: "0 \<le> n \<Longrightarrow> n \<le> 65535 \<Longrightarrow> wrap32 n = n"
  by (simp add: wrap32_small)

text \<open>The ports of the service of one endpoint, with its node ports, by the kind of the endpoint.\<close>

definition nodePortOf :: "SingleInstanceDatabaseServiceEndpointPort option \<Rightarrow> int" where
  "nodePortOf p = (case p of None \<Rightarrow> 0 | Some q \<Rightarrow> sep_NodePort q)"

definition servicePorts :: "SingleInstanceDatabaseServiceEndpoint \<Rightarrow> (int \<times> int) list" where
  "servicePorts e =
     (let name = effectiveEndpointName e in
      (if name = ''cluster'' then [] else [(5500, 0)])
      @ (if tcpOn e then [if name = ''nodeport'' then (1521, nodePortOf (sve_TCP e))
                          else (if name = ''cluster'' then 1521 else exposedPort 1521 (sve_TCP e), 0)] else [])
      @ (if portEnabled (sve_TCPS e)
         then [if name = ''nodeport'' then (2484, nodePortOf (sve_TCPS e)) else (exposedPort 2484 (sve_TCPS e), 0)] else []))"

lemma soundPort_range:
  "portSound name b (Some q) \<Longrightarrow> 0 \<le> sep_Port q \<and> sep_Port q \<le> 65535 \<and> 0 \<le> sep_NodePort q \<and> sep_NodePort q \<le> 32767"
  by (auto simp: portSound_def split: if_splits)

lemma soundPort_wrap:
  assumes "portSound name b p"
  shows "p = Some q \<Longrightarrow> wrap32 (sep_Port q) = sep_Port q \<and> wrap32 (sep_NodePort q) = sep_NodePort q"
  using soundPort_range [of name b q] wrap32_port [of "sep_Port q"] wrap32_port [of "sep_NodePort q"] assms by auto

lemma resolveTcp_keeps [simp]:
  "rse_Name (resolveTcp n e cfg) = rse_Name cfg" "rse_Type (resolveTcp n e cfg) = rse_Type cfg"
  "rse_TCPSEnabled (resolveTcp n e cfg) = rse_TCPSEnabled cfg"
  by (simp_all add: resolveTcp_def Let_def split: option.split)

lemma resolveTcps_keeps [simp]:
  "rse_Name (resolveTcps e on cfg) = rse_Name cfg" "rse_Type (resolveTcps e on cfg) = rse_Type cfg"
  "rse_TCPEnabled (resolveTcps e on cfg) = rse_TCPEnabled cfg" "rse_TCPServicePort (resolveTcps e on cfg) = rse_TCPServicePort cfg"
  "rse_TCPNodePort (resolveTcps e on cfg) = rse_TCPNodePort cfg"
  by (simp_all add: resolveTcps_def Let_def split: option.split)

lemma resolveTcp_fields:
  assumes "portSound n' True (sve_TCP e)" and "rse_TCPEnabled cfg" "rse_TCPServicePort cfg = 1521" "rse_TCPNodePort cfg = 0"
  shows "rse_TCPEnabled (resolveTcp n e cfg) = tcpOn e"
    "rse_TCPServicePort (resolveTcp n e cfg) =
       (if rse_Type cfg = ''NodePort'' \<or> n = SingleInstanceDatabaseServiceEndpointNameCluster then 1521 else exposedPort 1521 (sve_TCP e))"
    "rse_TCPNodePort (resolveTcp n e cfg) = (if rse_Type cfg = ''NodePort'' then nodePortOf (sve_TCP e) else 0)"
  using assms(2-) soundPort_wrap [OF assms(1)]
  by (cases "sve_TCP e"; simp add: resolveTcp_def tcpOn_def portEnabled_def exposedPort_def nodePortOf_def CONTAINER_LISTENER_PORT_def Let_def)+

lemma resolveTcps_fields:
  assumes "portSound n' False (sve_TCPS e)" and "portEnabled (sve_TCPS e) \<Longrightarrow> on" and "\<not> rse_TCPSEnabled cfg"
  shows "rse_TCPSEnabled (resolveTcps e on cfg) = portEnabled (sve_TCPS e)"
    "portEnabled (sve_TCPS e) \<Longrightarrow> rse_TCPSServicePort (resolveTcps e on cfg) =
       (if rse_Type cfg = ''NodePort'' then 2484 else exposedPort 2484 (sve_TCPS e))"
    "portEnabled (sve_TCPS e) \<Longrightarrow> rse_Type cfg = ''NodePort'' \<Longrightarrow> rse_TCPSNodePort (resolveTcps e on cfg) = nodePortOf (sve_TCPS e)"
proof -
  show "rse_TCPSEnabled (resolveTcps e on cfg) = portEnabled (sve_TCPS e)"
    using assms(2,3) by (auto simp: resolveTcps_def portEnabled_def Let_def split: option.splits)
next
  assume en: "portEnabled (sve_TCPS e)"
  then obtain q where q: "sve_TCPS e = Some q" "sep_Enabled q" by (auto simp: portEnabled_def split: option.splits)
  note w = soundPort_wrap [OF assms(1) q(1)]
  show "rse_TCPSServicePort (resolveTcps e on cfg) = (if rse_Type cfg = ''NodePort'' then 2484 else exposedPort 2484 (sve_TCPS e))"
    using q w assms(2) [OF en] by (simp add: resolveTcps_def exposedPort_def CONTAINER_TCPS_PORT_def Let_def)
  show "rse_Type cfg = ''NodePort'' \<Longrightarrow> rse_TCPSNodePort (resolveTcps e on cfg) = nodePortOf (sve_TCPS e)"
    using q w assms(2) [OF en] by (simp add: resolveTcps_def nodePortOf_def CONTAINER_TCPS_PORT_def Let_def)
qed

lemma resolved_ports:
  assumes "soundServiceEndpoint on e"
  shows "map (\<lambda>p. (sp_Port p, sp_NodePort p)) (desiredSIDBServiceEndpointPorts (resolveServiceEndpointConfig m e on)) = servicePorts e"
proof -
  let ?n = "effectiveEndpointName e"
  have s: "?n \<in> set endpointNames" "portSound ?n True (sve_TCP e)" "portSound ?n False (sve_TCPS e)" "portEnabled (sve_TCPS e) \<Longrightarrow> on"
    using assms by (auto simp: soundServiceEndpoint_def Let_def)
  from s(1) consider "?n = ''cluster''" | "?n = ''nodeport''" | "?n = ''loadbalancer''" by (auto simp: endpointNames_def)
  then show ?thesis
    unfolding desiredSIDBServiceEndpointPorts_def listenerPort_def servicePorts_def resolveServiceEndpointConfig_def Let_def
    by cases (simp_all add: serviceTypeForEndpointName_def sidb_endpoint_defs CONTAINER_LISTENER_PORT_def
      resolveTcp_fields [OF s(2)] resolveTcps_fields [OF s(3,4)])
qed

definition portClash :: "SingleInstanceDatabaseServiceEndpoint \<Rightarrow> bool" where
  "portClash e \<longleftrightarrow>
     (let name = effectiveEndpointName e; tcps = portEnabled (sve_TCPS e) in
      (name = ''cluster'' \<and> (if tcpOn e then tcps \<and> exposedPort 2484 (sve_TCPS e) = 1521 else \<not> tcps)) \<or>
      (name = ''loadbalancer'' \<and> ((tcpOn e \<and> exposedPort 1521 (sve_TCP e) = 5500) \<or> (tcps \<and> exposedPort 2484 (sve_TCPS e) = 5500))))"

lemma validServicePorts_pairs:
  "validServicePorts ports \<longleftrightarrow>
     (let ps = map (\<lambda>p. (sp_Port p, sp_NodePort p)) ports in
      ps \<noteq> [] \<and> (\<forall>p \<in> set ps. 1 \<le> fst p \<and> fst p \<le> 65535) \<and> distinct (map fst ps) \<and>
      (\<forall>p \<in> set ps. snd p = 0 \<or> (30000 \<le> snd p \<and> snd p \<le> 32767)) \<and> distinct (filter (\<lambda>n. n \<noteq> 0) (map snd ps)))"
  by (simp add: validServicePorts_def Let_def comp_def)

lemma sound_service_valid_iff:
  assumes "soundServiceEndpoint on e"
  shows "validServicePorts (desiredSIDBServiceEndpointPorts (resolveServiceEndpointConfig m e on)) \<longleftrightarrow> \<not> portClash e"
proof -
  let ?n = "effectiveEndpointName e"
  have s: "?n \<in> set endpointNames" "portSound ?n True (sve_TCP e)" "portSound ?n False (sve_TCPS e)"
    "?n = ''loadbalancer'' \<Longrightarrow> \<not> (tcpOn e \<and> portEnabled (sve_TCPS e) \<and> exposedPort 1521 (sve_TCP e) = exposedPort 2484 (sve_TCPS e))"
    "?n = ''nodeport'' \<Longrightarrow> nodePortsDiffer e"
    using assms by (auto simp: soundServiceEndpoint_def Let_def)
  have r: "portSound ?n b p \<Longrightarrow> 1 \<le> c \<Longrightarrow> c \<le> 65535 \<Longrightarrow> 1 \<le> exposedPort c p \<and> exposedPort c p \<le> 65535" for b p c
    by (auto simp: exposedPort_def portSound_def split: option.splits if_splits)
  have np: "portSound ''nodeport'' b p \<Longrightarrow> nodePortOf p = 0 \<or> (30000 \<le> nodePortOf p \<and> nodePortOf p \<le> 32767)" for b p
    by (auto simp: nodePortOf_def portSound_def split: option.splits if_splits)
  have d: "nodePortsDiffer e \<Longrightarrow> tcpOn e \<Longrightarrow> portEnabled (sve_TCPS e) \<Longrightarrow> nodePortOf (sve_TCP e) \<noteq> 0 \<Longrightarrow>
      nodePortOf (sve_TCP e) \<noteq> nodePortOf (sve_TCPS e)"
    by (auto simp: nodePortsDiffer_def tcpOn_def portEnabled_def nodePortOf_def split: option.splits)
  note r1 = r [OF s(2), of 1521] and r2 = r [OF s(3), of 2484]
  from s(1) consider "?n = ''cluster''" | "?n = ''nodeport''" | "?n = ''loadbalancer''" by (auto simp: endpointNames_def)
  then show ?thesis
  proof cases
    case 1
    then show ?thesis
      unfolding validServicePorts_pairs resolved_ports [OF assms] Let_def
      using r2 by (auto simp: servicePorts_def portClash_def Let_def)
  next
    case 2
    then show ?thesis
      unfolding validServicePorts_pairs resolved_ports [OF assms] Let_def
      using s(2,3) np [of True] np [of False] d s(5)
      by (auto simp: servicePorts_def portClash_def Let_def)
  next
    case 3
    then show ?thesis
      unfolding validServicePorts_pairs resolved_ports [OF assms] Let_def
      using r1 r2 s(4) by (auto simp: servicePorts_def portClash_def Let_def)
  qed
qed


section \<open>Properties\<close>

text \<open>
  the webhook accepts the service endpoints exactly when there are at most three, no two of the same kind, and
  each is sound: its name is \<^verbatim>\<open>cluster\<close>, \<^verbatim>\<open>nodeport\<close> or \<^verbatim>\<open>loadbalancer\<close>, its type fits the name, its traffic policy is
  allowed, TCPS is exposed only when the database has it, and every port is zero or within the range of its kind.
\<close>

theorem service_endpoints_accepted_iff:
  "validateSIDBServiceEndpoints p sidb = [] \<longleftrightarrow>
     length (sidbEndpoints sidb) \<le> 3 \<and> distinct (map effectiveEndpointName (sidbEndpoints sidb)) \<and>
     list_all (soundServiceEndpoint (sidbTcpsEnabled sidb)) (sidbEndpoints sidb)"
  by (auto simp: validateSIDBServiceEndpoints_def Let_def endpointErrsFrom_Nil_iff list_all_iff)

text \<open>
  from the webhook to the cluster: the service the controller derives from an accepted endpoint has ports the API
  server can create (at least one, all in range, pairwise different, node ports in their range) exactly when the endpoint
  does not clash with a port the controller adds by itself. The clashes the webhook lets through are a load balancer
  that exposes the port 5500 of the XML database, a cluster endpoint that exposes TCPS on 1521, and a cluster endpoint with both listeners
  disabled.
\<close>

theorem accepted_endpoint_service_valid_iff:
  assumes "validateSIDBServiceEndpoints p sidb = []" and "e \<in> set (sidbEndpoints sidb)"
  shows "validServicePorts (desiredSIDBServiceEndpointPorts (resolveServiceEndpointConfig sidb e (sidbTcpsEnabled sidb))) \<longleftrightarrow> \<not> portClash e"
proof (rule sound_service_valid_iff)
  show "soundServiceEndpoint (sidbTcpsEnabled sidb) e"
    using assms by (auto simp: validateSIDBServiceEndpoints_def Let_def endpointErrsFrom_Nil_iff split: if_splits)
qed

definition portExample :: "int \<Rightarrow> SingleInstanceDatabaseServiceEndpointPort option" where
  "portExample n = Some \<lparr>sep_Enabled = True, sep_Port = n, sep_NodePort = 0\<rparr>"

definition endpointExample :: "string \<Rightarrow> int \<Rightarrow> SingleInstanceDatabaseServiceEndpoint" where
  "endpointExample name n = \<lparr>sve_Name = name, sve_Type = [], sve_IsKeep = False, sve_Annotations = [],
     sve_ExternalTrafficPolicy = [], sve_TCP = portExample n, sve_TCPS = None\<rparr>"

definition endpointsExample :: SingleInstanceDatabase where
  "endpointsExample = zeroSidb\<lparr>sidb_Spec := zeroSidbSpec\<lparr>sis_Services := Some \<lparr>svs_Endpoints =
     [endpointExample ''cluster'' 0, endpointExample ''loadbalancer'' 5500], svs_External = None\<rparr>\<rparr>\<rparr>"

lemma endpointsExample_accepted: "validateSIDBServiceEndpoints [] endpointsExample = []"
  by code_simp

lemma endpointsExample_members:
  "endpointExample ''cluster'' 0 \<in> set (sidbEndpoints endpointsExample)"
  "endpointExample ''loadbalancer'' 5500 \<in> set (sidbEndpoints endpointsExample)"
  by (simp_all add: endpointsExample_def sidbEndpoints_def)

theorem accepted_endpoint_service_valid_iff_witness:
  "validServicePorts (desiredSIDBServiceEndpointPorts (resolveServiceEndpointConfig endpointsExample (endpointExample ''cluster'' 0)
      (sidbTcpsEnabled endpointsExample))) \<and>
   \<not> validServicePorts (desiredSIDBServiceEndpointPorts (resolveServiceEndpointConfig endpointsExample (endpointExample ''loadbalancer'' 5500)
      (sidbTcpsEnabled endpointsExample)))"
proof -
  have "\<not> portClash (endpointExample ''cluster'' 0)" "portClash (endpointExample ''loadbalancer'' 5500)" by code_simp+
  then show ?thesis
    using accepted_endpoint_service_valid_iff [OF endpointsExample_accepted endpointsExample_members(1)]
      accepted_endpoint_service_valid_iff [OF endpointsExample_accepted endpointsExample_members(2)] by simp
qed


lemma foldl_mput_map_of:
  "distinct (map fst as) \<Longrightarrow> map_of (foldl (\<lambda>m (k, v). mput k v m) ann as) k = (case map_of as k of Some v \<Rightarrow> Some v | None \<Rightarrow> map_of ann k)"
proof (induction as arbitrary: ann)
  case (Cons a as)
  obtain k' v where a: "a = (k', v)" by (cases a)
  have "k' \<notin> fst ` set as" using Cons.prems by (simp add: a)
  then have n: "map_of as k' = None" by (simp add: map_of_eq_None_iff)
  show ?case
    using Cons.IH [of "mput k' v ann"] Cons.prems n by (cases "k = k'") (simp_all add: a split: option.split)
qed simp

lemma find_named:
  assumes "distinct (map effectiveEndpointName es)" and "e \<in> set es" and "effectiveEndpointName e \<noteq> []"
  shows "find (\<lambda>x. sve_Name x = effectiveEndpointName e) es = (if sve_Name e = [] then None else Some e)"
proof -
  have eff: "sve_Name x \<noteq> [] \<Longrightarrow> effectiveEndpointName x = sve_Name x" for x by (simp add: effectiveEndpointName_def)
  have u: "x = e" if "x \<in> set es" "sve_Name x = effectiveEndpointName e" for x
    using that assms eff [of x] by (metis distinct_map inj_onD)
  show ?thesis
  proof (cases "find (\<lambda>x. sve_Name x = effectiveEndpointName e) es")
    case None
    then have "sve_Name e \<noteq> effectiveEndpointName e" using assms(2) by (auto simp: find_None_iff)
    then have "sve_Name e = []" using eff [of e] by metis
    then show ?thesis using None by simp
  next
    case (Some x)
    then have "x \<in> set es" "sve_Name x = effectiveEndpointName e" by (auto simp: find_Some_iff)
    moreover from this have "x = e" by (rule u)
    ultimately have "sve_Name e \<noteq> []" using assms(3) by simp
    then show ?thesis using Some \<open>x = e\<close> by simp
  qed
qed

text \<open>
  the annotations of an accepted endpoint reach its service exactly when the endpoint is named: an endpoint that
  leaves its name to be inferred from its type is accepted, but the lookup by name misses it and its annotations are dropped.
\<close>

theorem endpoint_annotations_applied_iff_named:
  assumes "validateSIDBServiceEndpoints p sidb = []" and "sis_Services (sidb_Spec sidb) = Some svc" and "svs_External svc = None"
    and "e \<in> set (svs_Endpoints svc)" and "effectiveEndpointName e \<noteq> ''cluster''"
    and "rse_Name cfg = effectiveEndpointName e" and "distinct (map fst (sve_Annotations e))"
  shows "map_of (desiredSIDBServiceAnnotations sidb (Some cfg)) k =
    (case if sve_Name e = [] then None else map_of (sve_Annotations e) k of
       Some v \<Rightarrow> Some v | None \<Rightarrow> map_of (sis_ServiceAnnotations (sidb_Spec sidb)) k)"
proof -
  have es: "sidbEndpoints sidb = svs_Endpoints svc" using assms(2) by (simp add: sidbEndpoints_def)
  have acc: "distinct (map effectiveEndpointName (svs_Endpoints svc))" "soundServiceEndpoint (sidbTcpsEnabled sidb) e"
    using assms(1,4) by (auto simp: validateSIDBServiceEndpoints_def Let_def es endpointErrsFrom_Nil_iff split: if_splits)
  then have "effectiveEndpointName e \<noteq> []" by (auto simp: soundServiceEndpoint_def Let_def endpointNames_def)
  note f = find_named [OF acc(1) assms(4) this]
  have "serviceEndpointSpecByName sidb (rse_Name cfg) = (if sve_Name e = [] then None else Some e)"
    using assms(2,3) by (simp add: serviceEndpointSpecByName_def assms(6) f)
  then show ?thesis
    using assms(2,5,6,7)
    by (simp add: desiredSIDBServiceAnnotations_def sidb_endpoint_defs foldl_mput_map_of split: option.split)
qed

definition unnamedExample :: SingleInstanceDatabaseServiceEndpoint where
  "unnamedExample = (endpointExample [] 1522)\<lparr>sve_Type := ''LoadBalancer'', sve_Annotations := [(''k'', ''v'')]\<rparr>"

definition unnamedDatabase :: SingleInstanceDatabase where
  "unnamedDatabase = zeroSidb\<lparr>sidb_Spec := zeroSidbSpec\<lparr>sis_Services := Some \<lparr>svs_Endpoints = [unnamedExample], svs_External = None\<rparr>\<rparr>\<rparr>"

theorem endpoint_annotations_applied_iff_named_witness:
  "validateSIDBServiceEndpoints [] unnamedDatabase = [] \<and>
   map_of (desiredSIDBServiceAnnotations unnamedDatabase
     (Some (resolveServiceEndpointConfig unnamedDatabase unnamedExample False))) ''k'' = None"
proof -
  have v: "validateSIDBServiceEndpoints [] unnamedDatabase = []" by code_simp
  have s: "sis_Services (sidb_Spec unnamedDatabase) = Some \<lparr>svs_Endpoints = [unnamedExample], svs_External = None\<rparr>"
    "sis_ServiceAnnotations (sidb_Spec unnamedDatabase) = []"
    by (simp_all add: unnamedDatabase_def zeroSidbSpec_def)
  have n: "effectiveEndpointName unnamedExample \<noteq> ''cluster''" by code_simp
  have c: "rse_Name (resolveServiceEndpointConfig unnamedDatabase unnamedExample False) = effectiveEndpointName unnamedExample"
    by (simp add: resolveServiceEndpointConfig_def Let_def)
  have d: "distinct (map fst (sve_Annotations unnamedExample))" "sve_Name unnamedExample = []"
    by (simp_all add: unnamedExample_def endpointExample_def)
  show ?thesis
    using endpoint_annotations_applied_iff_named [OF v s(1) _ _ n c d(1), of "''k''"] v d(2) s(2) by simp
qed

end
