(* ===== verification/Go_Duration.thy ===== *)
theory Go_Duration
  imports Go_Prelude
begin

text \<open>
  \<^verbatim>\<open>time.ParseDuration\<close> of the Go standard library: a sequence of decimal numbers with units, in nanoseconds, with the
  overflow checks of its unsigned arithmetic. The value of a fraction is computed there in \<^verbatim>\<open>float64\<close>; that one expression
  is the parameter \<open>frac\<close>, the nanoseconds of \<open>f / scale\<close> of a unit.
\<close>

fun leadingInt :: "nat \<Rightarrow> string \<Rightarrow> (nat \<times> string) option" where
  "leadingInt x [] = Some (x, [])"
| "leadingInt x (c # cs) =
     (if \<not> is_digit c then Some (x, c # cs)
      else if x > 2 ^ 63 div 10 then None
      else let y = x * 10 + digit_val c in if y > 2 ^ 63 then None else leadingInt y cs)"

fun leadingFraction :: "nat \<Rightarrow> nat \<Rightarrow> bool \<Rightarrow> string \<Rightarrow> nat \<times> nat \<times> string" where
  "leadingFraction x scale overflow [] = (x, scale, [])"
| "leadingFraction x scale overflow (c # cs) =
     (if \<not> is_digit c then (x, scale, c # cs)
      else if overflow then leadingFraction x scale True cs
      else if x > (2 ^ 63 - 1) div 10 then leadingFraction x scale True cs
      else let y = x * 10 + digit_val c in
        if y > 2 ^ 63 then leadingFraction x scale True cs else leadingFraction y (scale * 10) False cs)"

definition unitMap :: "(string, nat) gomap" where
  "unitMap = [(''ns'', 1), (''us'', 1000), (''ms'', 1000000), (''s'', 1000000000), (''m'', 60000000000), (''h'', 3600000000000)]"

definition unit_char :: "char \<Rightarrow> bool" where
  "unit_char c \<longleftrightarrow> c \<noteq> CHR ''.'' \<and> \<not> is_digit c"

text \<open>One round of the loop: the nanoseconds of the next number and its unit, and the rest of the text.\<close>

definition durationTerm :: "(nat \<Rightarrow> nat \<Rightarrow> nat \<Rightarrow> nat) \<Rightarrow> string \<Rightarrow> (nat \<times> string) option" where
  "durationTerm frac s =
     (if s = [] \<or> \<not> (hd s = CHR ''.'' \<or> is_digit (hd s)) then None
      else (case leadingInt 0 s of
        None \<Rightarrow> None
      | Some (v, s1) \<Rightarrow>
          let pre = (length s \<noteq> length s1);
              dot = (s1 \<noteq> [] \<and> hd s1 = CHR ''.'');
              (f, scale, s2) = (if dot then leadingFraction 0 1 False (tl s1) else (0, 1, s1));
              post = (dot \<and> length (tl s1) \<noteq> length s2)
          in if \<not> pre \<and> \<not> post then None
             else
               (let u = takeWhile unit_char s2 in
                if u = [] then None
                else (case map_of unitMap u of
                  None \<Rightarrow> None
                | Some unit \<Rightarrow>
                    if v > 2 ^ 63 div unit then None
                    else (let v' = (if f > 0 then v * unit + frac f unit scale else v * unit) in
                          if f > 0 \<and> v' > 2 ^ 63 then None else Some (v', dropWhile unit_char s2))))))"

lemma leadingInt_length: "leadingInt x s = Some (v, r) \<Longrightarrow> length r \<le> length s"
proof (induction x s rule: leadingInt.induct)
  case (2 x c cs)
  then show ?case by (fastforce simp: Let_def split: if_splits)
qed simp

lemma leadingFraction_rest: "snd (snd (leadingFraction x scale ov s)) = dropWhile is_digit s"
  by (induction s arbitrary: x scale ov) (simp_all add: Let_def)

lemma leadingFraction_length: "leadingFraction x scale ov s = (f, sc, r) \<Longrightarrow> length r \<le> length s"
  using leadingFraction_rest [of x scale ov s] length_dropWhile_le [of is_digit s] by simp

lemma dropWhile_shorter: "takeWhile P s \<noteq> [] \<Longrightarrow> length (dropWhile P s) < length s"
  by (cases s) (auto simp: le_imp_less_Suc length_dropWhile_le split: if_splits)

lemma durationTerm_shorter:
  assumes "durationTerm frac s = Some (v, r)"
  shows "length r < length s"
proof -
  obtain w s1 where i: "leadingInt 0 s = Some (w, s1)"
    using assms by (auto simp: durationTerm_def split: if_splits option.splits)
  define s2 where "s2 = snd (snd (if s1 \<noteq> [] \<and> hd s1 = CHR ''.'' then leadingFraction 0 1 False (tl s1) else (0, 1, s1)))"
  have "length s2 \<le> length s1"
    using leadingFraction_length [of 0 1 False "tl s1"] by (cases "leadingFraction 0 1 False (tl s1)") (auto simp: s2_def)
  moreover have "takeWhile unit_char s2 \<noteq> []" "r = dropWhile unit_char s2"
    using assms i by (auto simp: durationTerm_def s2_def Let_def case_prod_unfold split: if_splits option.splits)
  ultimately show ?thesis using leadingInt_length [OF i] dropWhile_shorter [of unit_char s2] by simp
qed

function durationLoop :: "(nat \<Rightarrow> nat \<Rightarrow> nat \<Rightarrow> nat) \<Rightarrow> nat \<Rightarrow> string \<Rightarrow> nat option" where
  "durationLoop frac d s =
     (if s = [] then Some d
      else (case durationTerm frac s of
        None \<Rightarrow> None
      | Some (v, r) \<Rightarrow>
          let d' = (d + v) mod 2 ^ 64 in if d' > 2 ^ 63 then None else durationLoop frac d' r))"
  by pat_completeness auto
termination
  by (relation "measure (\<lambda>(frac, d, s). length s)") (auto dest: durationTerm_shorter)

declare durationLoop.simps [simp del]

definition ParseDuration :: "(nat \<Rightarrow> nat \<Rightarrow> nat \<Rightarrow> nat) \<Rightarrow> string \<Rightarrow> int option" where
  "ParseDuration frac orig =
     (let signed = (orig \<noteq> [] \<and> (hd orig = CHR ''-'' \<or> hd orig = CHR ''+''));
          neg = (signed \<and> hd orig = CHR ''-'');
          s = (if signed then tl orig else orig) in
      if s = ''0'' then Some 0
      else if s = [] then None
      else (case durationLoop frac 0 s of
        None \<Rightarrow> None
      | Some d \<Rightarrow> if neg then Some (wrap64 (- wrap64 (int d))) else if d > 2 ^ 63 - 1 then None else Some (int d)))"

text \<open>Printing a number of hours and parsing it back.\<close>

lemma atoi_fold_append: "foldl (\<lambda>n c. 10 * n + digit_val c) x (s @ [c]) = 10 * foldl (\<lambda>n c. 10 * n + digit_val c) x s + digit_val c"
  by simp

lemma atoi_fold_mono: "x \<le> foldl (\<lambda>n c. 10 * n + digit_val c) x s"
  by (induction s rule: rev_induct) auto

lemma leadingInt_digits:
  assumes "list_all is_digit s" and "foldl (\<lambda>n c. 10 * n + digit_val c) x s \<le> 2 ^ 63" and "r = [] \<or> \<not> is_digit (hd r)"
  shows "leadingInt x (s @ r) = Some (foldl (\<lambda>n c. 10 * n + digit_val c) x s, r)"
  using assms
proof (induction s arbitrary: x)
  case Nil
  then show ?case by (cases r) auto
next
  case (Cons c s)
  have "10 * x + digit_val c \<le> 2 ^ 63"
    using Cons.prems(2) atoi_fold_mono [of "10 * x + digit_val c" s] by simp
  then have "x \<le> 922337203685477580" "\<not> 10 * x + digit_val c > 2 ^ 63" by simp_all
  moreover have "(2 :: nat) ^ 63 div 10 = 922337203685477580" by simp
  ultimately show ?case
    using Cons.IH [of "10 * x + digit_val c"] Cons.prems by (simp add: mult.commute [of x 10])
qed

lemma ParseDuration_hours:
  assumes "n \<le> 2562047"
  shows "ParseDuration frac (itoa_nat n @ ''h'') = Some (int n * 3600000000000)"
proof -
  let ?s = "itoa_nat n @ ''h''"
  have d: "list_all is_digit (itoa_nat n)" by (rule itoa_nat_digits)
  have h: "is_digit (hd ?s)" using d by (cases "itoa_nat n") auto
  have hh: "\<not> is_digit (CHR ''h'')" "unit_char (CHR ''h'')" by (simp_all add: is_digit_def unit_char_def)
  have v: "foldl (\<lambda>n c. 10 * n + digit_val c) 0 (itoa_nat n) = n" using atoi_itoa_nat [of n] by (simp add: atoi_def)
  have li: "leadingInt 0 ?s = Some (n, ''h'')"
    using leadingInt_digits [of "itoa_nat n" 0 "''h''"] d v hh assms by simp
  have t: "durationTerm frac ?s = Some (n * 3600000000000, [])"
    using h hh assms by (simp add: durationTerm_def li unitMap_def Let_def)
  have "durationLoop frac 0 ?s = Some (n * 3600000000000)"
    using assms by (subst durationLoop.simps) (simp add: t durationLoop.simps [of frac _ "[]"])
  moreover have "\<not> (hd ?s = CHR ''-'' \<or> hd ?s = CHR ''+'')" using h by (auto simp: is_digit_def)
  moreover have "?s \<noteq> ''0''" by (cases "itoa_nat n") auto
  ultimately show ?thesis using assms by (simp add: ParseDuration_def Let_def)
qed

end
