(* ===== verification/Sidb_Checks.thy ===== *)
theory Sidb_Checks
  imports Sidb_Endpoints Dataguard_Names Go_Duration
begin

text \<open>
  The field checks of the validating webhook of \<^verbatim>\<open>singleinstancedatabase_webhook.go\<close>, one definition per block of
  \<^verbatim>\<open>validateSingleInstanceDatabaseSpecWithLegacySelfSignedTCPS\<close> and per helper it calls, in its order. \<open>Platform\<close> holds what the
  code takes from outside: \<^verbatim>\<open>resource.ParseQuantity\<close> (the number a literal denotes, in units of \<^verbatim>\<open>10^-9\<close>), the environment
  variable \<^verbatim>\<open>WATCH_NAMESPACE\<close>, and the floating-point product of \<^verbatim>\<open>time.ParseDuration\<close>. A quantity that is a field of the
  resource was parsed when the request was decoded; its number is \<open>quantityOf\<close> of its literal.
\<close>

record Platform =
  pl_ParseQuantity :: "string \<Rightarrow> int option"
  pl_WatchNamespace :: "string option"
  pl_Fraction :: "nat \<Rightarrow> nat \<Rightarrow> nat \<Rightarrow> nat"

definition quantityOf :: "Platform \<Rightarrow> string \<Rightarrow> int" where
  "quantityOf pl s = (case pl_ParseQuantity pl s of None \<Rightarrow> 0 | Some q \<Rightarrow> q)"

definition err :: "bool \<Rightarrow> field_error \<Rightarrow> error_list" where
  "err c e = (if c then [e] else [])"

lemma err_Nil_iff [simp]: "err c e = [] \<longleftrightarrow> \<not> c"
  by (simp add: err_def)

definition specPath :: "string list \<Rightarrow> path" where
  "specPath names = Child ''spec'' # map Child names"


section \<open>Namespace, image and storage\<close>

definition sidbNamespaceErrs :: "Platform \<Rightarrow> SingleInstanceDatabase \<Rightarrow> error_list" where
  "sidbNamespaceErrs pl sidb =
     (let namespaces = GetWatchNamespaces (pl_WatchNamespace pl) in
      err (namespaces \<noteq> [] \<and> map_of namespaces (sidb_Namespace sidb) = None)
        (Invalid [Child ''metadata'', Child ''namespace''] (BVString (sidb_Namespace sidb))))"

definition pullPolicies :: "string list" where
  "pullPolicies = [''Always'', ''IfNotPresent'', ''Never'']"

definition validateSIDBImageSpec :: "path \<Rightarrow> SingleInstanceDatabaseImage \<Rightarrow> error_list" where
  "validateSIDBImageSpec p img =
     (case (img_ImagePullPolicy img, img_PullPolicy img) of
        (Some a, Some b) \<Rightarrow>
          if a \<noteq> b then [Forbidden (p @ [Child ''pullPolicy''])]
          else err (a \<notin> set pullPolicies) (NotSupported (p @ [Child ''imagePullPolicy'']) (BVString a))
      | (Some a, None) \<Rightarrow> err (a \<notin> set pullPolicies) (NotSupported (p @ [Child ''imagePullPolicy'']) (BVString a))
      | (None, Some b) \<Rightarrow> err (b \<notin> set pullPolicies) (NotSupported (p @ [Child ''pullPolicy'']) (BVString b))
      | (None, None) \<Rightarrow> [])"

definition oradataErrs :: "SingleInstanceDatabase \<Rightarrow> error_list" where
  "oradataErrs sidb =
     (let pers = sis_Persistence (sidb_Spec sidb);
          datafiles = \<not> blank (prs_DatafilesVolumeName pers) in
      err (prs_Oradata pers \<noteq> None \<and> datafiles) (Forbidden (specPath [''persistence'', ''datafilesVolumeName'']))
      @ err (prs_Oradata pers \<noteq> None \<and> (prs_Size pers \<noteq> [] \<or> prs_StorageClass pers \<noteq> [] \<or> prs_AccessMode pers \<noteq> []))
          (Forbidden (specPath [''persistence'']))
      @ (case sidbOradataPersistence sidb of
           None \<Rightarrow> []
         | Some oradata \<Rightarrow>
             let p = (if prs_Oradata pers = None then specPath [''persistence''] else specPath [''persistence'', ''oradata'']);
                 hasPvcName = \<not> blank (ord_PvcName oradata);
                 hasDynamic = \<not> blank (ord_Size oradata);
                 mode = ord_AccessMode oradata in
             err (hasPvcName \<and> (\<not> blank (ord_Size oradata) \<or> \<not> blank (ord_StorageClass oradata))) (Forbidden p)
             @ err (\<not> hasPvcName \<and> \<not> hasDynamic \<and> datafiles) (Invalid (p @ [Child ''size'']) (BVString (ord_Size oradata)))
             @ err (hasDynamic \<and> blank mode) (Invalid (p @ [Child ''accessMode'']) (BVString mode))
             @ err (hasDynamic \<and> \<not> blank mode \<and> mode \<noteq> ''ReadWriteMany'' \<and> mode \<noteq> ''ReadWriteOnce'')
                 (Invalid (p @ [Child ''accessMode'']) (BVString mode))))"

definition recoverySizeErrs :: "Platform \<Rightarrow> path \<Rightarrow> SingleInstanceDatabasePersistenceFra \<Rightarrow> error_list" where
  "recoverySizeErrs pl p fra =
     (if blank (fra_RecoveryAreaSize fra) then []
      else
        (let e = Invalid (p @ [Child ''recoveryAreaSize'']) (BVString (fra_RecoveryAreaSize fra)) in
         case ParseOracleBinarySizeLiteral (pl_ParseQuantity pl) (fra_RecoveryAreaSize fra) of
           Inl _ \<Rightarrow> [e]
         | Inr parsed \<Rightarrow>
             if blank (fra_Size fra) then []
             else (case pl_ParseQuantity pl (TrimSpace (fra_Size fra)) of
                     None \<Rightarrow> []
                   | Some fraSize \<Rightarrow> err (osl_Quantity parsed > fraSize) e)))"

definition fraErrs :: "Platform \<Rightarrow> SingleInstanceDatabase \<Rightarrow> error_list" where
  "fraErrs pl sidb =
     (case prs_Fra (sis_Persistence (sidb_Spec sidb)) of
        None \<Rightarrow> []
      | Some fra \<Rightarrow>
          let p = specPath [''persistence'', ''fra''];
              hasPvcName = \<not> blank (fra_PvcName fra);
              hasDynamic = \<not> blank (fra_Size fra);
              mountPath = TrimSpace (fra_MountPath fra) in
          err (hasPvcName \<and> (\<not> blank (fra_Size fra) \<or> \<not> blank (fra_StorageClass fra) \<or> \<not> blank (fra_AccessMode fra))) (Forbidden p)
          @ err (mountPath \<noteq> [] \<and> \<not> HasPrefix mountPath ''/'') (Invalid (p @ [Child ''mountPath'']) (BVString (fra_MountPath fra)))
          @ err (\<not> hasPvcName \<and> \<not> hasDynamic) (Required (p @ [Child ''size'']))
          @ err (\<not> hasPvcName \<and> hasDynamic \<and> blank (fra_AccessMode fra)) (Required (p @ [Child ''accessMode'']))
          @ err (hasPvcName \<and> blank (fra_RecoveryAreaSize fra)) (Required (p @ [Child ''recoveryAreaSize'']))
          @ recoverySizeErrs pl p fra)"

definition volumeClaimErrs :: "SingleInstanceDatabase \<Rightarrow> error_list" where
  "volumeClaimErrs sidb =
     (let a = prs_VolumeClaimAnnotation (sis_Persistence (sidb_Spec sidb)); parts = SplitN2 a (CHR '':'') in
      err (a \<noteq> [] \<and> (length parts \<noteq> 2 \<or> blank (parts ! 0) \<or> blank (parts ! 1)))
        (Invalid (specPath [''persistence'', ''volumeClaimAnnotation'']) (BVString a)))"


section \<open>Restore, true cache and primary source\<close>

definition hasSIDBEnvVar :: "EnvVar list \<Rightarrow> string \<Rightarrow> bool" where
  "hasSIDBEnvVar envs name =
     (let target = TrimSpace name in
      if target = [] then False
      else list_ex (\<lambda>e. TrimSpace (ev_Name e) = target \<and> (\<not> blank (ev_Value e) \<or> ev_ValueFrom e \<noteq> None)) envs)"

definition configMapRefMissing :: "SingleInstanceDatabaseConfigMapKeyRef option \<Rightarrow> bool" where
  "configMapRefMissing ref = (case ref of None \<Rightarrow> True | Some r \<Rightarrow> blank (ckr_ConfigMapName r) \<or> blank (ckr_Key r))"

definition secretRefMissing :: "SingleInstanceDatabaseSecretKeyRef option \<Rightarrow> bool" where
  "secretRefMissing ref = (case ref of None \<Rightarrow> True | Some r \<Rightarrow> blank (skr_SecretName r) \<or> blank (skr_Key r))"

definition validateSIDBRestoreSpec :: "SingleInstanceDatabase \<Rightarrow> string \<Rightarrow> error_list" where
  "validateSIDBRestoreSpec sidb mode =
     (case sis_Restore (sidb_Spec sidb) of
        None \<Rightarrow> []
      | Some restore \<Rightarrow>
          let rp = specPath [''restore'']; envs = sis_EnvVars (sidb_Spec sidb) in
          err (mode \<noteq> [] \<and> mode \<noteq> ''primary'') (Invalid (specPath [''createAs'']) (BVString (sis_CreateAs (sidb_Spec sidb))))
          @ err (rst_ObjectStore restore \<noteq> None \<and> rst_FileSystem restore \<noteq> None) (Forbidden rp)
          @ err (rst_ObjectStore restore = None \<and> rst_FileSystem restore = None) (Required rp)
          @ (case rst_FileSystem restore of None \<Rightarrow> []
             | Some fs \<Rightarrow> err (blank (rfs_BackupPath fs)) (Required (rp @ [Child ''fileSystem'', Child ''backupPath''])))
          @ (case rst_ObjectStore restore of None \<Rightarrow> []
             | Some os \<Rightarrow>
                 (let op = rp @ [Child ''objectStore''] in
                  err (configMapRefMissing (ros_OCIConfig os)) (Required (op @ [Child ''ociConfig'']))
                  @ err (secretRefMissing (ros_PrivateKey os)) (Required (op @ [Child ''privateKey'']))
                  @ err (configMapRefMissing (ros_OpcInstallerZip os) \<and> \<not> hasSIDBEnvVar envs ''OPC_INSTALL_ZIP'')
                      (Required (op @ [Child ''opcInstallerZip'']))
                  @ err (case ros_BackupIdentity os of None \<Rightarrow> True | Some b \<Rightarrow> blank (bid_DBID b))
                      (Required (op @ [Child ''backupIdentity'', Child ''dbid'']))))
          @ err (rst_FileSystem restore \<noteq> None \<and> \<not> hasSIDBEnvVar envs ''DBID'') (Required (specPath [''envVars''])))"

definition trueCachePrimaryErrs :: "SingleInstanceDatabaseTrueCacheSpec \<Rightarrow> error_list" where
  "trueCachePrimaryErrs tc =
     (let at = (\<lambda>n. Forbidden (specPath [''trueCache'', n])) in
      err (\<not> blank (tc_BlobConfigMapRef tc)) (at ''blobConfigMapRef'')
      @ err (\<not> blank (tc_BlobConfigMapKey tc)) (at ''blobConfigMapKey'')
      @ err (\<not> blank (tc_BlobMountPath tc)) (at ''blobMountPath'')
      @ err (tc_DBCredentialsWallet tc \<noteq> None) (at ''dbCredentialsWallet'')
      @ err (tc_AutoTCServiceRegistration tc) (at ''autoTCServiceRegistration'')
      @ err (tc_TrueCacheServices tc \<noteq> []) (at ''trueCacheServices'')
      @ err (\<not> blank (tc_GeneratePath tc) \<and> \<not> BlobGenerationEnabled tc \<and> \<not> BlobConfigMapCreationEnabled tc)
          (Invalid (specPath [''trueCache'', ''generatePath'']) (BVString (tc_GeneratePath tc))))"

definition trueCacheModeErrs :: "SingleInstanceDatabase \<Rightarrow> SingleInstanceDatabaseTrueCacheSpec \<Rightarrow> error_list" where
  "trueCacheModeErrs sidb tc =
     (let at = (\<lambda>n. Forbidden (specPath [''trueCache'', n]));
          hasLegacyServices = (sis_TrueCacheServices (sidb_Spec sidb) \<noteq> []);
          admin = sidbAdminPasswordSpec sidb in
      err (blank (adm_SecretName admin) \<or> blank (adm_SecretKey admin)) (Required (specPath [''security'', ''secrets'', ''admin'']))
      @ err (sidbHasLegacyAdminPasswordSpec sidb) (Forbidden (specPath [''adminPassword'']))
      @ (case tc_DBCredentialsWallet tc of None \<Rightarrow> []
         | Some wallet \<Rightarrow>
             let mountPath = TrimSpace (tcw_MountPath wallet) in
             err (mountPath \<noteq> [] \<and> \<not> HasPrefix mountPath ''/'')
               (Invalid (specPath [''trueCache'', ''dbCredentialsWallet'', ''mountPath'']) (BVString (tcw_MountPath wallet))))
      @ err (tc_GenerateEnabled tc) (at ''generateEnabled'')
      @ err (tc_GenerateBlob tc) (at ''generateBlob'')
      @ err (tc_CreateConfigMap tc) (at ''createConfigMap'')
      @ err (tc_TrueCacheServices tc = [] \<and> \<not> hasLegacyServices) (Required (specPath [''trueCache'', ''trueCacheServices'']))
      @ err (tc_AutoTCServiceRegistration tc \<and> tc_TrueCacheServices tc = [] \<and> \<not> hasLegacyServices)
          (Required (specPath [''trueCache'', ''trueCacheServices'']))
      @ err (\<not> blank (tc_GeneratePath tc)) (at ''generatePath''))"

definition validateSIDBTrueCacheByMode :: "SingleInstanceDatabase \<Rightarrow> string \<Rightarrow> error_list" where
  "validateSIDBTrueCacheByMode sidb mode =
     (let tc = sis_TrueCache (sidb_Spec sidb);
          hasLegacyServices = (sis_TrueCacheServices (sidb_Spec sidb) \<noteq> []);
          legacyErr = err hasLegacyServices (Forbidden (specPath [''trueCacheServices''])) in
      if mode = [] \<or> mode = ''primary''
      then legacyErr @ (case tc of None \<Rightarrow> [] | Some t \<Rightarrow> trueCachePrimaryErrs t)
      else if mode = ''truecache''
      then err (ToLower (TrimSpace (sis_Edition (sidb_Spec sidb))) \<noteq> ''enterprise'')
             (Invalid (specPath [''edition'']) (BVString (sis_Edition (sidb_Spec sidb))))
           @ (case tc of None \<Rightarrow> [Required (specPath [''trueCache''])] | Some t \<Rightarrow> trueCacheModeErrs sidb t)
      else legacyErr @ err (tc \<noteq> None) (Forbidden (specPath [''trueCache''])))"

definition selectedSources :: "SingleInstanceDatabasePrimarySource \<Rightarrow> nat" where
  "selectedSources ps =
     (if \<not> blank (ps_DatabaseRef ps) then 1 else 0) + (if \<not> blank (ps_ConnectString ps) then 1 else 0)
     + (if ps_Details ps \<noteq> None then 1 else 0)"

definition validatePrimarySourceSpec :: "SingleInstanceDatabase \<Rightarrow> string \<Rightarrow> error_list" where
  "validatePrimarySourceSpec sidb mode =
     (let sourcePath = specPath [''primarySource'']; source = sis_PrimarySource (sidb_Spec sidb);
          legacy = \<not> blank (sis_PrimaryDatabaseRef (sidb_Spec sidb)) in
      err (legacy \<and> source \<noteq> None) (Forbidden (specPath [''primaryDatabaseRef'']))
      @ (case source of None \<Rightarrow> []
         | Some ps \<Rightarrow>
             err (selectedSources ps = 0) (Required sourcePath)
             @ err (selectedSources ps > 1) (Forbidden sourcePath)
             @ err (\<not> blank (ps_Pdbname ps) \<and> blank (ps_ConnectString ps)) (Forbidden (sourcePath @ [Child ''pdbName''])))
      @ err ((mode = [] \<or> mode = ''primary'') \<and> (source \<noteq> None \<or> legacy)) (Forbidden sourcePath))"

definition replicaModes :: "string list" where
  "replicaModes = [''clone'', ''standby'', ''truecache'']"

definition sidbModeErrs :: "SingleInstanceDatabase \<Rightarrow> string \<Rightarrow> error_list" where
  "sidbModeErrs sidb mode =
     (let spec = sidb_Spec sidb in
      err ((case sis_Dataguard spec of None \<Rightarrow> False | Some d \<Rightarrow> dgp_StandbySources d \<noteq> []) \<and> mode \<noteq> [] \<and> mode \<noteq> ''primary'')
        (Forbidden (specPath [''dataguard'', ''standbySources'']))
      @ err (mode \<in> set replicaModes \<and> \<not> resolvePrimarySourceInputPresent sidb) (Invalid (specPath [''primarySource'']) BVObject)
      @ err (mode = ''standby'' \<and> sis_ArchiveLog spec \<noteq> None) (Invalid (specPath [''archiveLog'']) BVObject)
      @ err (mode = ''standby'' \<and> sis_FlashBack spec \<noteq> None) (Invalid (specPath [''flashBack'']) BVObject)
      @ err (mode = ''standby'' \<and> sis_ForceLogging spec \<noteq> None) (Invalid (specPath [''forceLog'']) BVObject)
      @ err (mode = ''standby'' \<and> sis_InitParams spec \<noteq> None) (Invalid (specPath [''initParams'']) BVObject)
      @ (case resolvePrimarySourceDetails sidb of None \<Rightarrow> []
         | Some d \<Rightarrow>
             let at = (\<lambda>n. specPath [''primarySource'', ''details'', n]) in
             err (blank (pd_Host d)) (Invalid (at ''host'') (BVString (pd_Host d)))
             @ err (blank (pd_Sid d)) (Invalid (at ''sid'') (BVString (pd_Sid d)))
             @ err (pd_Port d < 0) (Invalid (at ''port'') (BVInt (pd_Port d)))))"

definition tdeErrs :: "SingleInstanceDatabase \<Rightarrow> error_list" where
  "tdeErrs sidb =
     (case sidbTDESecretSpec sidb of None \<Rightarrow> []
      | Some tde \<Rightarrow>
          let at = (\<lambda>n. specPath [''security'', ''secrets'', ''tde'', n]) in
          err (blank (psc_SecretName tde) \<and> \<not> blank (psc_WalletZipFileKey tde)) (Invalid (at ''walletZipFileKey'') (BVString (psc_WalletZipFileKey tde)))
          @ err (blank (psc_SecretName tde) \<and> \<not> blank (psc_WalletRoot tde)) (Invalid (at ''walletRoot'') (BVString (psc_WalletRoot tde))))"


section \<open>TCPS, listeners and aliases\<close>

definition hours :: int where
  "hours = 3600000000000"

definition renewIntervalErrs :: "Platform \<Rightarrow> string \<Rightarrow> error_list" where
  "renewIntervalErrs pl interval =
     (let e = Invalid (specPath [''tcpsCertRenewInterval'']) (BVString interval) in
      case ParseDuration (pl_Fraction pl) interval of
        None \<Rightarrow> [e]
      | Some duration \<Rightarrow> err (duration > 8760 * hours \<or> duration < 24 * hours) e)"

definition portOutOfRange :: "int \<Rightarrow> bool" where
  "portOutOfRange port \<longleftrightarrow> port \<noteq> 0 \<and> (port < 1 \<or> port > 65535)"

definition sidbTcpsErrs :: "Platform \<Rightarrow> bool \<Rightarrow> SingleInstanceDatabase \<Rightarrow> error_list" where
  "sidbTcpsErrs pl allowLegacySelfSignedTCPS sidb =
     (let enabled = sidbTcpsEnabled sidb; tlsSecret = sidbTcpsTlsSecret sidb; wallet = sidbTcpsClientWalletSecret sidb;
          interval = sidbTcpsCertRenewInterval sidb; tcpsPort = sidbTcpsListenerPort sidb;
          port = sis_ListenerPort (sidb_Spec sidb) in
      err (enabled \<and> tlsSecret = [] \<and> \<not> allowLegacySelfSignedTCPS) (Required (specPath [''security'', ''tcps'', ''tlsSecret'']))
      @ (if enabled \<and> interval \<noteq> [] then renewIntervalErrs pl interval else [])
      @ err (\<not> enabled \<and> tlsSecret \<noteq> []) (Forbidden (specPath [''tcpsTlsSecret'']))
      @ err (\<not> enabled \<and> wallet \<noteq> []) (Forbidden (specPath [''security'', ''tcps'', ''clientWalletSecret'']))
      @ err (tlsSecret \<noteq> [] \<and> interval \<noteq> []) (Forbidden (specPath [''tcpsCertRenewInterval'']))
      @ (if sidbUsesServiceEndpoints sidb then []
         else err (enabled \<and> port \<noteq> 0 \<and> tcpsPort \<noteq> 0 \<and> port = tcpsPort) (Invalid (specPath [''tcpsListenerPort'']) (BVInt tcpsPort))
              @ err (portOutOfRange port) (Invalid (specPath [''listenerPort'']) (BVInt port))
              @ err (enabled \<and> portOutOfRange tcpsPort) (Invalid (specPath [''tcpsListenerPort'']) (BVInt tcpsPort))))"

text \<open>The pattern \<^verbatim>\<open>^[A-Za-z0-9][A-Za-z0-9_.-]*$\<close>.\<close>

definition singleInstanceDatabaseTNSAliasNamePattern :: "string \<Rightarrow> bool" where
  "singleInstanceDatabaseTNSAliasNamePattern s \<longleftrightarrow>
     s \<noteq> [] \<and> is_alnum (hd s) \<and> list_all (\<lambda>c. is_alnum c \<or> c = CHR ''_'' \<or> c = CHR ''.'' \<or> c = CHR ''-'') (tl s)"

definition tnsAliasNameErrs :: "path \<Rightarrow> SingleInstanceDatabaseTNSAlias \<Rightarrow> error_list" where
  "tnsAliasNameErrs ap alias =
     (let name = TrimSpace (tns_Name alias) in
      if name = [] then [Required (ap @ [Child ''name''])]
      else err (\<not> singleInstanceDatabaseTNSAliasNamePattern name) (Invalid (ap @ [Child ''name'']) (BVString (tns_Name alias))))"

definition tnsAliasFieldErrs :: "path \<Rightarrow> SingleInstanceDatabaseTNSAlias \<Rightarrow> error_list" where
  "tnsAliasFieldErrs ap alias =
     (let protocol = ToUpper (TrimSpace (tns_Protocol alias)) in
      err (blank (tns_Host alias)) (Required (ap @ [Child ''host'']))
      @ err (blank (tns_ServiceName alias)) (Required (ap @ [Child ''serviceName'']))
      @ err (protocol \<noteq> SingleInstanceDatabaseTNSAliasProtocolTCP \<and> protocol \<noteq> SingleInstanceDatabaseTNSAliasProtocolTCPS)
          (Invalid (ap @ [Child ''protocol'']) (BVString (tns_Protocol alias)))
      @ err (tns_Port alias < 0 \<or> tns_Port alias > 65535) (Invalid (ap @ [Child ''port'']) (BVInt (tns_Port alias))))"

definition tnsAliasKey :: "SingleInstanceDatabaseTNSAlias \<Rightarrow> string option" where
  "tnsAliasKey alias = (if blank (tns_Name alias) then None else Some (ToUpper (TrimSpace (tns_Name alias))))"

definition validateTNSAliases :: "SingleInstanceDatabase \<Rightarrow> error_list" where
  "validateTNSAliases sidb =
     (let ap = (\<lambda>i. specPath [''tnsAliases''] @ [Index i]) in
      range_seen (\<lambda>i. tnsAliasNameErrs (ap i)) tnsAliasKey
        (\<lambda>i alias _. Duplicate (ap i @ [Child ''name'']) (BVString (tns_Name alias)))
        (\<lambda>i. tnsAliasFieldErrs (ap i)) (sis_TNSAliases (sidb_Spec sidb)))"


section \<open>Parameters, resources, scripts and additional claims\<close>

definition initParamsErrs :: "SingleInstanceDatabase \<Rightarrow> error_list" where
  "initParamsErrs sidb =
     (case sis_InitParams (sidb_Spec sidb) of None \<Rightarrow> []
      | Some ip \<Rightarrow>
          err ((ip_PgaAggregateTarget ip \<noteq> 0 \<and> ip_SgaTarget ip = 0) \<or> (ip_PgaAggregateTarget ip = 0 \<and> ip_SgaTarget ip \<noteq> 0))
            (Invalid (specPath [''initParams'']) BVObject))"

definition resourceRequirementsErrs :: "Platform \<Rightarrow> path \<Rightarrow> ResourceRequirements option \<Rightarrow> error_list" where
  "resourceRequirementsErrs pl p rr =
     (case rr of None \<Rightarrow> []
      | Some r \<Rightarrow>
          range_map (\<lambda>name q. err (quantityOf pl q < 0) (Invalid (p @ [Child ''requests'', Child name]) (BVString q))) (rr_Requests r)
          @ range_map (\<lambda>name q. err (quantityOf pl q < 0) (Invalid (p @ [Child ''limits'', Child name]) (BVString q))) (rr_Limits r)
          @ range_map (\<lambda>name request.
              case map_of (rr_Limits r) name of None \<Rightarrow> []
              | Some limit \<Rightarrow> err (quantityOf pl request > quantityOf pl limit)
                                (Invalid (p @ [Child ''requests'', Child name]) (BVString request))) (rr_Requests r))"

definition shmSizeErrs :: "Platform \<Rightarrow> SingleInstanceDatabase \<Rightarrow> error_list" where
  "shmSizeErrs pl sidb =
     (let shm = sis_ShmSize (sidb_Spec sidb); e = Invalid (specPath [''shmSize'']) (BVString shm) in
      if blank shm then []
      else (case pl_ParseQuantity pl (TrimSpace shm) of None \<Rightarrow> [e] | Some q \<Rightarrow> err (q \<le> 0) e))"

definition validateSingleInstanceDatabaseResourceFields :: "Platform \<Rightarrow> SingleInstanceDatabase \<Rightarrow> error_list" where
  "validateSingleInstanceDatabaseResourceFields pl sidb =
     resourceRequirementsErrs pl (specPath [''resources'']) (sis_Resources (sidb_Spec sidb))
     @ resourceRequirementsErrs pl (specPath [''resourceRequirements'']) (sis_ResourceRequirements (sidb_Spec sidb))
     @ shmSizeErrs pl sidb"

definition locationBlank :: "SingleInstanceDatabaseScriptLocation option \<Rightarrow> bool" where
  "locationBlank l = (case l of None \<Rightarrow> True | Some s \<Rightarrow> blank (scl_PvcName s))"

definition validateSIDBScripts :: "SingleInstanceDatabase \<Rightarrow> error_list" where
  "validateSIDBScripts sidb =
     (case sis_Scripts (sidb_Spec sidb) of None \<Rightarrow> []
      | Some scripts \<Rightarrow>
          let p = specPath [''scripts'']; legacy = \<not> blank (prs_ScriptsVolumeName (sis_Persistence (sidb_Spec sidb))) in
          err legacy (Forbidden p)
          @ err legacy (Forbidden (specPath [''persistence'', ''scriptsVolumeName'']))
          @ err (locationBlank (scr_Setup scripts) \<and> locationBlank (scr_Startup scripts)) (Required p)
          @ err (scr_Setup scripts \<noteq> None \<and> locationBlank (scr_Setup scripts)) (Required (p @ [Child ''setup'', Child ''pvcName'']))
          @ err (scr_Startup scripts \<noteq> None \<and> locationBlank (scr_Startup scripts)) (Required (p @ [Child ''startup'', Child ''pvcName''])))"

definition pvcPathErrs :: "path \<Rightarrow> AdditionalPVCSpec \<Rightarrow> error_list" where
  "pvcPathErrs ip pvc =
     (let mountPath = TrimSpace (pvc_MountPath pvc) in
      if mountPath = [] then [Required (ip @ [Child ''mountPath''])]
      else err (\<not> HasPrefix mountPath ''/'') (Invalid (ip @ [Child ''mountPath'']) (BVString (pvc_MountPath pvc))))"

definition pvcSourceErrs :: "path \<Rightarrow> AdditionalPVCSpec \<Rightarrow> error_list" where
  "pvcSourceErrs ip pvc =
     (let storageClass = TrimSpace (pvc_StorageClass pvc); storageSize = pvc_StorageSizeInGb pvc in
      if blank (pvc_MountPath pvc) then []
      else if \<not> blank (pvc_PvcName pvc)
      then err (storageClass \<noteq> []) (Forbidden (ip @ [Child ''storageClass'']))
           @ err (storageSize > 0) (Forbidden (ip @ [Child ''storageSizeInGb'']))
      else err (storageSize \<le> 0) (Required (ip @ [Child ''pvcName'']))
           @ err (storageSize > 0 \<and> storageClass = []) (Required (ip @ [Child ''storageClass''])))"

definition pvcKey :: "AdditionalPVCSpec \<Rightarrow> string option" where
  "pvcKey pvc = (if blank (pvc_MountPath pvc) then None else Some (TrimSpace (pvc_MountPath pvc)))"

definition validateSingleInstanceDatabaseAdditionalPVCs :: "SingleInstanceDatabase \<Rightarrow> error_list" where
  "validateSingleInstanceDatabaseAdditionalPVCs sidb =
     (let ip = (\<lambda>i. specPath [''persistence'', ''additionalPVCs''] @ [Index i]) in
      range_seen (\<lambda>i. pvcPathErrs (ip i)) pvcKey
        (\<lambda>i pvc _. Duplicate (ip i @ [Child ''mountPath'']) (BVString (TrimSpace (pvc_MountPath pvc))))
        (\<lambda>i. pvcSourceErrs (ip i)) (prs_AdditionalPVCs (sis_Persistence (sidb_Spec sidb))))"

end
