(* ===== verification/Sidb_Webhook.thy ===== *)
theory Sidb_Webhook
  imports Sidb_Checks
begin

text \<open>
  The validating webhook of the single-instance database: \<^verbatim>\<open>ValidateCreate\<close>, \<^verbatim>\<open>ValidateUpdate\<close> and the update rules of the
  fast recovery area, of the primary source and of the update lock. A result is the list of warnings (named by the deprecated field)
  and the list of errors; an empty list of errors admits the request.
\<close>


section \<open>Operations\<close>

definition sidbDeprecatedFieldWarnings :: "SingleInstanceDatabase \<Rightarrow> string list" where
  "sidbDeprecatedFieldWarnings sidb =
     (let spec = sidb_Spec sidb; pers = sis_Persistence spec;
          warn = (\<lambda>c name. if c then [name] else []) in
      warn (sis_LoadBalancer spec) ''spec.loadBalancer''
      @ warn (sis_ListenerPort spec \<noteq> 0) ''spec.listenerPort''
      @ warn (sis_TcpsListenerPort spec \<noteq> 0) ''spec.tcpsListenerPort''
      @ warn (sis_ServiceAnnotations spec \<noteq> []) ''spec.serviceAnnotations''
      @ warn (sis_EnableTCPS spec) ''spec.enableTCPS''
      @ warn (\<not> blank (sis_TcpsCertRenewInterval spec)) ''spec.tcpsCertRenewInterval''
      @ warn (case securityTcps sidb of None \<Rightarrow> False | Some t \<Rightarrow> \<not> blank (stc_CertRenewInterval t)) ''spec.security.tcps.certRenewInterval''
      @ warn (\<not> blank (sis_TcpsTlsSecret spec)) ''spec.tcpsTlsSecret''
      @ warn (\<not> blank (adm_SecretName (sis_AdminPassword spec))) ''spec.adminPassword''
      @ warn (\<not> blank (prs_Size pers)) ''spec.persistence.size''
      @ warn (\<not> blank (prs_StorageClass pers)) ''spec.persistence.storageClass''
      @ warn (\<not> blank (prs_AccessMode pers)) ''spec.persistence.accessMode''
      @ warn (\<not> blank (prs_DatafilesVolumeName pers)) ''spec.persistence.datafilesVolumeName''
      @ warn (\<not> blank (prs_ScriptsVolumeName pers)) ''spec.persistence.scriptsVolumeName''
      @ warn (img_PullPolicy (sis_Image spec) \<noteq> None) ''spec.image.pullPolicy''
      @ warn (sis_ResourceRequirements spec \<noteq> None) ''spec.resourceRequirements'')"

definition validateSingleInstanceDatabaseSpecWithLegacySelfSignedTCPS ::
    "Platform \<Rightarrow> SingleInstanceDatabase \<Rightarrow> bool \<Rightarrow> error_list" where
  "validateSingleInstanceDatabaseSpecWithLegacySelfSignedTCPS pl sidb allowLegacySelfSignedTCPS =
     (let spec = sidb_Spec sidb; mode = ToLower (TrimSpace (sis_CreateAs spec)) in
      sidbNamespaceErrs pl sidb
      @ validateDataguardProducerSpec (specPath [''dataguard'']) (sis_Dataguard spec)
      @ validateSIDBImageSpec (specPath [''image'']) (sis_Image spec)
      @ validateSIDBServiceEndpoints (specPath [''services'', ''endpoints'']) sidb
      @ oradataErrs sidb
      @ fraErrs pl sidb
      @ volumeClaimErrs sidb
      @ validateSIDBRestoreSpec sidb mode
      @ validateSIDBTrueCacheByMode sidb mode
      @ validatePrimarySourceSpec sidb mode
      @ sidbModeErrs sidb mode
      @ tdeErrs sidb
      @ err (sis_Replicas spec > 1) (Invalid (specPath [''replicas'']) (BVInt (sis_Replicas spec)))
      @ sidbTcpsErrs pl allowLegacySelfSignedTCPS sidb
      @ validateTNSAliases sidb
      @ initParamsErrs sidb
      @ validateSingleInstanceDatabaseResourceFields pl sidb
      @ validateSIDBScripts sidb
      @ validateSingleInstanceDatabaseAdditionalPVCs sidb)"

definition validateSingleInstanceDatabaseSpec :: "Platform \<Rightarrow> SingleInstanceDatabase \<Rightarrow> error_list" where
  "validateSingleInstanceDatabaseSpec pl sidb = validateSingleInstanceDatabaseSpecWithLegacySelfSignedTCPS pl sidb False"

definition sidbValidateCreate :: "Platform \<Rightarrow> SingleInstanceDatabase \<Rightarrow> string list \<times> error_list" where
  "sidbValidateCreate pl sidb = (sidbDeprecatedFieldWarnings sidb, validateSingleInstanceDatabaseSpec pl sidb)"

definition normalizeMountPath :: "SingleInstanceDatabasePersistenceFra \<Rightarrow> string" where
  "normalizeMountPath fra = (if blank (fra_MountPath fra) then DefaultFraMountPath else TrimSpace (fra_MountPath fra))"

definition managedFraErrs ::
    "Platform \<Rightarrow> SingleInstanceDatabasePersistenceFra \<Rightarrow> SingleInstanceDatabasePersistenceFra \<Rightarrow> error_list" where
  "managedFraErrs pl oldFra newFra =
     (let p = specPath [''persistence'', ''fra''];
          oldSize = TrimSpace (fra_Size oldFra); newSize = TrimSpace (fra_Size newFra) in
      err (TrimSpace (fra_StorageClass oldFra) \<noteq> TrimSpace (fra_StorageClass newFra)) (Forbidden (p @ [Child ''storageClass'']))
      @ err (TrimSpace (fra_AccessMode oldFra) \<noteq> TrimSpace (fra_AccessMode newFra)) (Forbidden (p @ [Child ''accessMode'']))
      @ (if oldSize \<noteq> [] \<and> newSize \<noteq> []
         then (case (pl_ParseQuantity pl oldSize, pl_ParseQuantity pl newSize) of
                 (Some oldQty, Some newQty) \<Rightarrow> err (newQty < oldQty) (Forbidden (p @ [Child ''size'']))
               | _ \<Rightarrow> [])
         else []))"

definition validateSIDBFraUpdate :: "Platform \<Rightarrow> SingleInstanceDatabase \<Rightarrow> SingleInstanceDatabase \<Rightarrow> error_list" where
  "validateSIDBFraUpdate pl oldSidb newSidb =
     (let p = specPath [''persistence'', ''fra''] in
      case prs_Fra (sis_Persistence (sidb_Spec oldSidb)) of
        None \<Rightarrow> []
      | Some oldFra \<Rightarrow>
          (case prs_Fra (sis_Persistence (sidb_Spec newSidb)) of
             None \<Rightarrow> [Forbidden p]
           | Some newFra \<Rightarrow>
               let oldHasPVC = \<not> blank (fra_PvcName oldFra); newHasPVC = \<not> blank (fra_PvcName newFra) in
               if oldHasPVC \<noteq> newHasPVC then [Forbidden p]
               else
                 err (normalizeMountPath oldFra \<noteq> normalizeMountPath newFra) (Forbidden (p @ [Child ''mountPath'']))
                 @ (if oldHasPVC
                    then err (TrimSpace (fra_PvcName oldFra) \<noteq> TrimSpace (fra_PvcName newFra)) (Forbidden (p @ [Child ''pvcName'']))
                    else managedFraErrs pl oldFra newFra)))"

text \<open>The value of \<^verbatim>\<open>strconv.ParseBool\<close> with its error ignored.\<close>

definition parseBool :: "string \<Rightarrow> bool" where
  "parseBool s \<longleftrightarrow> s \<in> set [''1'', ''t'', ''T'', ''TRUE'', ''true'', ''True'']"

definition sidbUpdateLockErrs :: "SingleInstanceDatabase \<Rightarrow> SingleInstanceDatabase \<Rightarrow> error_list" where
  "sidbUpdateLockErrs oldSidb newSidb =
     err (sidb_Spec oldSidb \<noteq> sidb_Spec newSidb \<and>
          fst (IsControllerUpdateLocked (ss_Conditions (sidb_Status oldSidb)) DefaultReconcilingConditionType DefaultUpdateLockReason) \<and>
          \<not> fst (IsUpdateLockOverrideEnabled (sidb_Annotations newSidb) DefaultOverrideAnnotation))
       (Forbidden [Child ''spec''])"

definition standbySettingErrs :: "SingleInstanceDatabase \<Rightarrow> SingleInstanceDatabase \<Rightarrow> error_list" where
  "standbySettingErrs oldSidb newSidb =
     (let st = sidb_Status oldSidb; spec = sidb_Spec newSidb;
          changed = (\<lambda>v wanted. case wanted of None \<Rightarrow> False | Some b \<Rightarrow> parseBool v \<noteq> b) in
      if ss_Role st \<noteq> ValueUnavailable \<and> ss_Role st \<noteq> ''PRIMARY''
      then err (changed (ss_ArchiveLog st) (sis_ArchiveLog spec)) (Forbidden (specPath [''archiveLog'']))
           @ err (changed (ss_FlashBack st) (sis_FlashBack spec)) (Forbidden (specPath [''flashBack'']))
           @ err (changed (ss_ForceLogging st) (sis_ForceLogging spec)) (Forbidden (specPath [''forceLog'']))
      else [])"

definition sidbUpdateErrs :: "Platform \<Rightarrow> SingleInstanceDatabase \<Rightarrow> SingleInstanceDatabase \<Rightarrow> error_list" where
  "sidbUpdateErrs pl oldSidb newSidb =
     (let st = sidb_Status oldSidb; spec = sidb_Spec newSidb in
      validateSingleInstanceDatabaseSpecWithLegacySelfSignedTCPS pl newSidb (sidbUsesLegacySelfSignedTCPS oldSidb)
      @ validateSIDBFraUpdate pl oldSidb newSidb
      @ sidbUpdateLockErrs oldSidb newSidb
      @ err (ss_CreatedAs st = ''clone'' \<and> sis_Edition spec \<noteq> [] \<and> ss_Edition st \<noteq> [] \<and> \<not> EqualFold (ss_Edition st) (sis_Edition spec))
          (Forbidden (specPath [''edition'']))
      @ err (isPrimarySourceLocked oldSidb \<and> resolveEffectivePrimarySource oldSidb \<noteq> resolveEffectivePrimarySource newSidb)
          (Forbidden (specPath [''primarySource'']))
      @ standbySettingErrs oldSidb newSidb)"

definition sidbValidateUpdate :: "Platform \<Rightarrow> SingleInstanceDatabase \<Rightarrow> SingleInstanceDatabase \<Rightarrow> string list \<times> error_list" where
  "sidbValidateUpdate pl oldSidb newSidb =
     (sidbDeprecatedFieldWarnings newSidb,
      if sidb_DeletionTimestamp newSidb \<noteq> None \<and> sidb_Spec oldSidb = sidb_Spec newSidb then []
      else sidbUpdateErrs pl oldSidb newSidb)"

definition sidbValidateDelete :: "SingleInstanceDatabase \<Rightarrow> string list \<times> error_list" where
  "sidbValidateDelete sidb = ([], [])"


section \<open>Admitted updates\<close>

text \<open>
  A history of an object: the API server stores an admitted update with the status it had, and the controller writes the
  status only. \<open>admits pl old new\<close> is an update request that passes the webhook.
\<close>

definition admits :: "Platform \<Rightarrow> SingleInstanceDatabase \<Rightarrow> SingleInstanceDatabase \<Rightarrow> bool" where
  "admits pl oldSidb newSidb \<longleftrightarrow>
     snd (sidbValidateUpdate pl oldSidb newSidb) = [] \<and> sidb_Status newSidb = sidb_Status oldSidb"

inductive sidb_history :: "Platform \<Rightarrow> SingleInstanceDatabase \<Rightarrow> SingleInstanceDatabase \<Rightarrow> bool" for pl where
  start: "sidb_history pl s s"
| update: "sidb_history pl s t \<Longrightarrow> admits pl t u \<Longrightarrow> sidb_history pl s u"
| status: "sidb_history pl s t \<Longrightarrow> sidb_Spec u = sidb_Spec t \<Longrightarrow> sidb_history pl s u"

inductive locked_history :: "Platform \<Rightarrow> SingleInstanceDatabase \<Rightarrow> SingleInstanceDatabase \<Rightarrow> bool" for pl where
  start: "isPrimarySourceLocked s \<Longrightarrow> locked_history pl s s"
| update: "locked_history pl s t \<Longrightarrow> admits pl t u \<Longrightarrow> locked_history pl s u"
| status: "locked_history pl s t \<Longrightarrow> sidb_Spec u = sidb_Spec t \<Longrightarrow> isPrimarySourceLocked u \<Longrightarrow> locked_history pl s u"

lemma same_spec_source:
  assumes "sidb_Spec t = sidb_Spec u"
  shows "resolveEffectivePrimarySource t = resolveEffectivePrimarySource u"
  unfolding resolveEffectivePrimarySource_def resolvePrimarySourceDatabaseRef_def resolvePrimarySourceConnectString_def
    resolvePrimarySourceDBName_def resolvePrimarySourcePdbName_def resolvePrimarySourceDetails_def sourceField_def assms ..

lemma admits_cases:
  assumes "admits pl t u"
  shows "sidb_Spec t = sidb_Spec u \<or> sidbUpdateErrs pl t u = []"
  using assms by (auto simp: admits_def sidbValidateUpdate_def split: if_splits)

lemma locked_same_status: "sidb_Status u = sidb_Status t \<Longrightarrow> isPrimarySourceLocked u = isPrimarySourceLocked t"
  by (simp add: isPrimarySourceLocked_def)

lemma admits_locked_source:
  assumes "admits pl t u" and "isPrimarySourceLocked t"
  shows "resolveEffectivePrimarySource u = resolveEffectivePrimarySource t"
  using admits_cases [OF assms(1)]
proof
  assume "sidb_Spec t = sidb_Spec u"
  from same_spec_source [OF this] show ?thesis by simp
next
  assume "sidbUpdateErrs pl t u = []"
  then show ?thesis using assms(2) by (simp add: sidbUpdateErrs_def Let_def)
qed

lemma locked_history_inv:
  "locked_history pl s t \<Longrightarrow> isPrimarySourceLocked t \<and> resolveEffectivePrimarySource t = resolveEffectivePrimarySource s"
proof (induction rule: locked_history.induct)
  case (start s)
  then show ?case by simp
next
  case (update s t u)
  then show ?case using admits_locked_source [of pl t u] locked_same_status [of u t] by (simp add: admits_def)
next
  case (status s t u)
  then show ?case using same_spec_source [of u t] by simp
qed


text \<open>What an accepted update keeps of the fast recovery area.\<close>

definition fraIdentity :: "SingleInstanceDatabase \<Rightarrow> (string \<times> string \<times> string \<times> string) option" where
  "fraIdentity sidb =
     map_option (\<lambda>f. (normalizeMountPath f, TrimSpace (fra_PvcName f),
                      if blank (fra_PvcName f) then TrimSpace (fra_StorageClass f) else [],
                      if blank (fra_PvcName f) then TrimSpace (fra_AccessMode f) else []))
       (prs_Fra (sis_Persistence (sidb_Spec sidb)))"

definition fraSize :: "Platform \<Rightarrow> SingleInstanceDatabase \<Rightarrow> int option" where
  "fraSize pl sidb =
     Option.bind (prs_Fra (sis_Persistence (sidb_Spec sidb))) (\<lambda>f. pl_ParseQuantity pl (TrimSpace (fra_Size f)))"

definition managedFra :: "SingleInstanceDatabase \<Rightarrow> bool" where
  "managedFra sidb = (case prs_Fra (sis_Persistence (sidb_Spec sidb)) of None \<Rightarrow> False | Some f \<Rightarrow> blank (fra_PvcName f))"

lemma fraUpdate_keeps:
  assumes "validateSIDBFraUpdate pl t u = []" and "fraIdentity t = Some x"
  shows "fraIdentity u = Some x"
proof -
  obtain f where f: "prs_Fra (sis_Persistence (sidb_Spec t)) = Some f" using assms(2) by (auto simp: fraIdentity_def)
  obtain g where g: "prs_Fra (sis_Persistence (sidb_Spec u)) = Some g"
    using assms(1) f by (cases "prs_Fra (sis_Persistence (sidb_Spec u))") (simp_all add: validateSIDBFraUpdate_def)
  have k: "(\<not> blank (fra_PvcName f)) = (\<not> blank (fra_PvcName g))" "normalizeMountPath f = normalizeMountPath g"
    "\<not> blank (fra_PvcName f) \<Longrightarrow> TrimSpace (fra_PvcName f) = TrimSpace (fra_PvcName g)"
    "blank (fra_PvcName f) \<Longrightarrow> managedFraErrs pl f g = []"
    using assms(1) f g by (auto simp: validateSIDBFraUpdate_def Let_def split: if_splits)
  have m: "blank (fra_PvcName f) \<Longrightarrow> TrimSpace (fra_StorageClass f) = TrimSpace (fra_StorageClass g) \<and>
      TrimSpace (fra_AccessMode f) = TrimSpace (fra_AccessMode g)"
    using k(4) by (simp add: managedFraErrs_def Let_def)
  show ?thesis using assms(2) f g k(1,2,3) m by (cases "blank (fra_PvcName f)") (simp_all add: fraIdentity_def)
qed

lemma same_spec_fra: "sidb_Spec t = sidb_Spec u \<Longrightarrow> fraIdentity t = fraIdentity u \<and> fraSize pl t = fraSize pl u \<and> managedFra t = managedFra u"
  by (simp add: fraIdentity_def fraSize_def managedFra_def)

lemma update_errs_parts:
  assumes "sidbUpdateErrs pl t u = []"
  shows "validateSIDBFraUpdate pl t u = []" "sidbUpdateLockErrs t u = []"
    "validateSingleInstanceDatabaseSpecWithLegacySelfSignedTCPS pl u (sidbUsesLegacySelfSignedTCPS t) = []"
  using assms by (simp_all add: sidbUpdateErrs_def Let_def)

lemma admits_fra: "admits pl t u \<Longrightarrow> fraIdentity t = Some x \<Longrightarrow> fraIdentity u = Some x"
  using admits_cases [of pl t u] same_spec_fra [of t u pl] fraUpdate_keeps [of pl t u x] update_errs_parts(1) [of pl t u] by auto

lemma history_fra: "sidb_history pl s t \<Longrightarrow> fraIdentity s = Some x \<Longrightarrow> fraIdentity t = Some x"
proof (induction rule: sidb_history.induct)
  case (start s)
  then show ?case by simp
next
  case (update s t u)
  then show ?case using admits_fra by blast
next
  case (status s t u)
  then show ?case using same_spec_fra [of u t pl] by simp
qed

inductive sized_history :: "Platform \<Rightarrow> SingleInstanceDatabase \<Rightarrow> SingleInstanceDatabase \<Rightarrow> bool" for pl where
  start: "sized_history pl s s"
| update: "sized_history pl s t \<Longrightarrow> admits pl t u \<Longrightarrow> fraSize pl u \<noteq> None \<Longrightarrow> sized_history pl s u"
| status: "sized_history pl s t \<Longrightarrow> sidb_Spec u = sidb_Spec t \<Longrightarrow> sized_history pl s u"

lemma managed_identity: "managedFra s \<longleftrightarrow> (\<exists>m c a. fraIdentity s = Some (m, [], c, a))"
  by (auto simp: managedFra_def fraIdentity_def split: option.splits)

lemma admits_fra_size:
  assumes "pl_ParseQuantity pl [] = None" and "admits pl t u" and "managedFra t"
    and "fraSize pl t = Some a" and "fraSize pl u = Some b"
  shows "a \<le> b"
  using admits_cases [OF assms(2)]
proof
  assume "sidb_Spec t = sidb_Spec u"
  then show ?thesis using same_spec_fra [of t u pl] assms(4,5) by simp
next
  assume e: "sidbUpdateErrs pl t u = []"
  obtain f where f: "prs_Fra (sis_Persistence (sidb_Spec t)) = Some f" "blank (fra_PvcName f)"
    using assms(3) by (auto simp: managedFra_def split: option.splits)
  obtain g where g: "prs_Fra (sis_Persistence (sidb_Spec u)) = Some g"
    using assms(5) by (cases "prs_Fra (sis_Persistence (sidb_Spec u))") (simp_all add: fraSize_def)
  have q: "pl_ParseQuantity pl (TrimSpace (fra_Size f)) = Some a" "pl_ParseQuantity pl (TrimSpace (fra_Size g)) = Some b"
    using assms(4,5) f g by (simp_all add: fraSize_def)
  then have ne: "TrimSpace (fra_Size f) \<noteq> []" "TrimSpace (fra_Size g) \<noteq> []" using assms(1) by auto
  have "managedFraErrs pl f g = []"
    using update_errs_parts(1) [OF e] f g by (auto simp: validateSIDBFraUpdate_def Let_def split: if_splits)
  then show ?thesis using q ne by (simp add: managedFraErrs_def Let_def)
qed

lemma sized_history_inv:
  assumes "pl_ParseQuantity pl [] = None"
  shows "sized_history pl s t \<Longrightarrow> managedFra s \<Longrightarrow> fraSize pl s = Some a \<Longrightarrow> managedFra t \<and> (\<exists>b. fraSize pl t = Some b \<and> a \<le> b)"
proof (induction rule: sized_history.induct)
  case (start s)
  then show ?case by simp
next
  case (update s t u)
  then obtain b where b: "managedFra t" "fraSize pl t = Some b" "a \<le> b" by blast
  obtain c where c: "fraSize pl u = Some c" using update.hyps(3) by blast
  have "b \<le> c" by (rule admits_fra_size [OF assms update.hyps(2) b(1,2) c])
  moreover have "managedFra u" using b(1) admits_fra [OF update.hyps(2)] by (auto simp: managed_identity)
  ultimately show ?case using b c by auto
next
  case (status s t u)
  then show ?case using same_spec_fra [of u t pl] by simp
qed

text \<open>Self-signed TCPS can be kept by an update, never introduced.\<close>

lemma spec_ok_not_legacy:
  "validateSingleInstanceDatabaseSpecWithLegacySelfSignedTCPS pl u False = [] \<Longrightarrow> \<not> sidbUsesLegacySelfSignedTCPS u"
  by (simp add: validateSingleInstanceDatabaseSpecWithLegacySelfSignedTCPS_def sidbTcpsErrs_def sidbUsesLegacySelfSignedTCPS_def Let_def)

lemma same_spec_legacy:
  assumes "sidb_Spec t = sidb_Spec u"
  shows "sidbUsesLegacySelfSignedTCPS t = sidbUsesLegacySelfSignedTCPS u"
  unfolding sidbUsesLegacySelfSignedTCPS_def sidbTcpsEnabled_def sidbTcpsTlsSecret_def securityTcps_def assms ..

lemma admits_not_legacy: "admits pl t u \<Longrightarrow> \<not> sidbUsesLegacySelfSignedTCPS t \<Longrightarrow> \<not> sidbUsesLegacySelfSignedTCPS u"
  using admits_cases [of pl t u] same_spec_legacy [of t u] update_errs_parts(3) [of pl t u] spec_ok_not_legacy [of pl u] by auto

lemma history_not_legacy: "sidb_history pl s t \<Longrightarrow> \<not> sidbUsesLegacySelfSignedTCPS s \<Longrightarrow> \<not> sidbUsesLegacySelfSignedTCPS t"
proof (induction rule: sidb_history.induct)
  case (start s)
  then show ?case by simp
next
  case (update s t u)
  then show ?case using admits_not_legacy by blast
next
  case (status s t u)
  then show ?case using same_spec_legacy [of u t] by simp
qed



section \<open>Defaults\<close>

lemma putAbsent_idem:
  "map_of m k \<noteq> None \<Longrightarrow> putAbsent k v m = m" "map_of (putAbsent k v m) k \<noteq> None"
  "map_of m j \<noteq> None \<Longrightarrow> map_of (putAbsent k v m) j \<noteq> None"
  by (auto simp: putAbsent_def)

lemma putAbsent_three:
  "putAbsent k3 v3 (putAbsent k2 v2 (putAbsent k1 v1 (putAbsent k3 v3 (putAbsent k2 v2 (putAbsent k1 v1 m))))) =
   putAbsent k3 v3 (putAbsent k2 v2 (putAbsent k1 v1 m))" (is "putAbsent k3 v3 (putAbsent k2 v2 (putAbsent k1 v1 ?n)) = ?n")
proof -
  have "map_of ?n k1 \<noteq> None" by (rule putAbsent_idem(3) [OF putAbsent_idem(3) [OF putAbsent_idem(2)]])
  moreover have "map_of ?n k2 \<noteq> None" by (rule putAbsent_idem(3) [OF putAbsent_idem(2)])
  moreover have "map_of ?n k3 \<noteq> None" by (rule putAbsent_idem(2))
  ultimately show ?thesis by (metis putAbsent_def)
qed

lemma defaultLoadBalancer_idem: "defaultLoadBalancer (defaultLoadBalancer spec) = defaultLoadBalancer spec"
  by (simp add: defaultLoadBalancer_def putAbsent_three)

lemma keepSecretByDefault_idem: "keepSecretByDefault (keepSecretByDefault a) = keepSecretByDefault a"
  by (simp add: keepSecretByDefault_def)

lemma defaultAdminPassword_idem: "defaultAdminPassword (defaultAdminPassword spec) = defaultAdminPassword spec"
proof (cases "Option.bind (sis_Security spec) (\<lambda>sec. Option.bind (scy_Secrets sec) (\<lambda>s. map_option (\<lambda>a. (sec, s, a)) (secs_Admin s)))")
  case None
  then show ?thesis by (simp add: defaultAdminPassword_def keepSecretByDefault_idem)
next
  case (Some x)
  obtain sec s a where x: "x = (sec, s, a)" by (cases x)
  then show ?thesis using Some by (simp add: defaultAdminPassword_def keepSecretByDefault_idem)
qed

lemma default_names_nonempty [simp]: "defaultSid e \<noteq> []" "defaultPdbname e \<noteq> []"
  by (simp_all add: defaultSid_def defaultPdbname_def)

lemma defaultIdentity_fixes:
  assumes "sis_CreateAs s \<noteq> []" "sis_Replicas s \<noteq> 0" "sis_Edition s = [] \<and> sis_CreateAs s = ''clone'' \<longrightarrow> img_PrebuiltDB (sis_Image s)"
    "sis_Sid s \<noteq> []" "sis_Pdbname s \<noteq> []"
  shows "defaultIdentity s = s"
  using assms by (simp add: defaultIdentity_def Let_def)

lemma defaultIdentity_sets:
  "sis_CreateAs (defaultIdentity s) \<noteq> []" "sis_Replicas (defaultIdentity s) \<noteq> 0" "sis_Sid (defaultIdentity s) \<noteq> []"
  "sis_Pdbname (defaultIdentity s) \<noteq> []"
  "sis_Edition (defaultIdentity s) = [] \<and> sis_CreateAs (defaultIdentity s) = ''clone'' \<longrightarrow> img_PrebuiltDB (sis_Image (defaultIdentity s))"
  by (simp_all add: defaultIdentity_def Let_def)

lemma defaultIdentity_idem: "defaultIdentity (defaultIdentity s) = defaultIdentity s"
  by (rule defaultIdentity_fixes) (use defaultIdentity_sets in auto)

lemma defaultFra_idem: "defaultFra (defaultFra f) = defaultFra f"
proof -
  have d: "\<not> blank DefaultFraMountPath" by (simp add: DefaultFraMountPath_def go_eval)
  show ?thesis by (simp add: defaultFra_def d Let_def)
qed

lemma defaultFileSystem_idem: "defaultFileSystem (defaultFileSystem f) = defaultFileSystem f"
  by (simp add: defaultFileSystem_def Let_def)


text \<open>Each step of the defaulting as an update of its own fields.\<close>

definition annotationsDefault :: "bool \<Rightarrow> strmap \<Rightarrow> strmap" where
  "annotationsDefault lb m =
     (if lb then putAbsent (loadBalancerShape @ ''-flex-max'') ''100''
                  (putAbsent (loadBalancerShape @ ''-flex-min'') ''10'' (putAbsent loadBalancerShape ''flexible'' m)) else m)"

definition securityDefault :: "SingleInstanceDatabaseSecurity option \<Rightarrow> SingleInstanceDatabaseSecurity option" where
  "securityDefault security =
     map_option (\<lambda>sec. sec\<lparr>scy_Secrets := map_option (\<lambda>s. s\<lparr>secs_Admin := map_option keepSecretByDefault (secs_Admin s)\<rparr>) (scy_Secrets sec)\<rparr>) security"

definition newAdmin :: "SingleInstanceDatabaseSecurity option \<Rightarrow> bool" where
  "newAdmin security \<longleftrightarrow> Option.bind (Option.bind security scy_Secrets) secs_Admin \<noteq> None"

definition adminDefault :: "SingleInstanceDatabaseSecurity option \<Rightarrow> SingleInstanceDatabaseAdminPassword \<Rightarrow> SingleInstanceDatabaseAdminPassword" where
  "adminDefault security a = (if newAdmin security then a else keepSecretByDefault a)"

definition dataguardDefault :: "DataguardProducerSpec option \<Rightarrow> DataguardProducerSpec option" where
  "dataguardDefault d =
     (let dg = (case d of None \<Rightarrow> zeroProducerSpec | Some x \<Rightarrow> x) in Some (dg\<lparr>dgp_Mode := normalizeDataguardProducerMode (Some dg)\<rparr>))"

definition persistenceDefault :: "SingleInstanceDatabasePersistence \<Rightarrow> SingleInstanceDatabasePersistence" where
  "persistenceDefault p = p\<lparr>prs_Fra := map_option defaultFra (prs_Fra p), prs_AdditionalPVCs := map trimPVC (prs_AdditionalPVCs p)\<rparr>"

lemma defaultLoadBalancer_upd:
  "defaultLoadBalancer spec = spec\<lparr>sis_ServiceAnnotations := annotationsDefault (sis_LoadBalancer spec) (sis_ServiceAnnotations spec)\<rparr>"
  by (simp add: defaultLoadBalancer_def annotationsDefault_def)

lemma defaultAdminPassword_upd:
  "defaultAdminPassword spec =
     spec\<lparr>sis_Security := securityDefault (sis_Security spec), sis_AdminPassword := adminDefault (sis_Security spec) (sis_AdminPassword spec)\<rparr>"
proof -
  have u: "sec\<lparr>scy_Secrets := scy_Secrets sec\<rparr> = sec" "s\<lparr>secs_Admin := secs_Admin s\<rparr> = s" for sec :: SingleInstanceDatabaseSecurity
    and s :: SingleInstanceDatabaseSecrets by simp_all
  show ?thesis
  proof (cases "sis_Security spec")
    case None
    then show ?thesis by (simp add: defaultAdminPassword_def securityDefault_def adminDefault_def newAdmin_def)
  next
    case (Some sec)
    note sec = this
    show ?thesis
    proof (cases "scy_Secrets sec")
      case None
      then show ?thesis using sec u(1) [of sec]
        by (simp add: defaultAdminPassword_def securityDefault_def adminDefault_def newAdmin_def)
    next
      case (Some s)
      then show ?thesis using sec u(1) [of sec] u(2) [of s]
        by (cases "secs_Admin s") (simp_all add: defaultAdminPassword_def securityDefault_def adminDefault_def newAdmin_def)
    qed
  qed
qed

lemma default_steps_idem:
  "annotationsDefault lb (annotationsDefault lb m) = annotationsDefault lb m"
  "securityDefault (securityDefault security) = securityDefault security"
  "adminDefault (securityDefault security) (adminDefault security a) = adminDefault security a"
  "dataguardDefault (dataguardDefault d) = dataguardDefault d"
  "persistenceDefault (persistenceDefault p) = persistenceDefault p"
  "defaultSIDBScripts (defaultSIDBScripts scr) = defaultSIDBScripts scr"
  "defaultSIDBRestoreSpec (defaultSIDBRestoreSpec rst) = defaultSIDBRestoreSpec rst"
proof -
  show "annotationsDefault lb (annotationsDefault lb m) = annotationsDefault lb m"
    by (simp add: annotationsDefault_def putAbsent_three)
  show "securityDefault (securityDefault security) = securityDefault security"
    by (simp add: securityDefault_def option.map_comp comp_def keepSecretByDefault_idem)
  have "newAdmin (securityDefault security) = newAdmin security"
    by (auto simp: newAdmin_def securityDefault_def bind_eq_Some_conv)
  then show "adminDefault (securityDefault security) (adminDefault security a) = adminDefault security a"
    by (simp add: adminDefault_def keepSecretByDefault_idem)
  show "dataguardDefault (dataguardDefault d) = dataguardDefault d"
    by (simp add: dataguardDefault_def normalize_mode_idem Let_def)
  show "persistenceDefault (persistenceDefault p) = persistenceDefault p"
    by (simp add: persistenceDefault_def option.map_comp comp_def defaultFra_idem trimPVC_def)
  show "defaultSIDBScripts (defaultSIDBScripts scr) = defaultSIDBScripts scr"
  proof -
    have "trimLocation (trimLocation l) = trimLocation l" for l by (simp add: trimLocation_def)
    then show ?thesis by (simp add: defaultSIDBScripts_def option.map_comp comp_def)
  qed
  show "defaultSIDBRestoreSpec (defaultSIDBRestoreSpec rst) = defaultSIDBRestoreSpec rst"
    by (simp add: defaultSIDBRestoreSpec_def option.map_comp comp_def defaultFileSystem_idem)
qed

lemma sidbDefault_upd:
  "sidbDefault sidb =
     (let s = defaultIdentity (sidb_Spec sidb) in
      sidb\<lparr>sidb_Spec := s\<lparr>
        sis_ServiceAnnotations := annotationsDefault (sis_LoadBalancer s) (sis_ServiceAnnotations s),
        sis_Security := securityDefault (sis_Security s), sis_AdminPassword := adminDefault (sis_Security s) (sis_AdminPassword s),
        sis_Dataguard := dataguardDefault (sis_Dataguard s), sis_Persistence := persistenceDefault (sis_Persistence s),
        sis_Scripts := defaultSIDBScripts (sis_Scripts s), sis_Restore := defaultSIDBRestoreSpec (sis_Restore s)\<rparr>\<rparr>)"
  by (simp add: sidbDefault_def defaultLoadBalancer_upd defaultAdminPassword_upd defaultIdentity_def defaultDataguard_def
      dataguardDefault_def persistenceDefault_def defaultSIDBPersistence_def defaultSIDBAdditionalPVCs_def Let_def)


lemma sidbDefault_idem: "sidbDefault (sidbDefault sidb) = sidbDefault sidb"
proof -
  let ?s = "defaultIdentity (sidb_Spec sidb)"
  define S where "S = sidb_Spec (sidbDefault sidb)"
  have S: "S = ?s\<lparr>
        sis_ServiceAnnotations := annotationsDefault (sis_LoadBalancer ?s) (sis_ServiceAnnotations ?s),
        sis_Security := securityDefault (sis_Security ?s), sis_AdminPassword := adminDefault (sis_Security ?s) (sis_AdminPassword ?s),
        sis_Dataguard := dataguardDefault (sis_Dataguard ?s), sis_Persistence := persistenceDefault (sis_Persistence ?s),
        sis_Scripts := defaultSIDBScripts (sis_Scripts ?s), sis_Restore := defaultSIDBRestoreSpec (sis_Restore ?s)\<rparr>"
    by (simp add: S_def sidbDefault_upd Let_def)
  have f: "defaultIdentity S = S"
    by (rule defaultIdentity_fixes) (use defaultIdentity_sets [of "sidb_Spec sidb"] in \<open>simp_all add: S\<close>)
  have d: "sidbDefault sidb = sidb\<lparr>sidb_Spec := S\<rparr>" by (simp add: S_def sidbDefault_upd Let_def)
  have i: "annotationsDefault (sis_LoadBalancer S) (sis_ServiceAnnotations S) = sis_ServiceAnnotations S"
    "securityDefault (sis_Security S) = sis_Security S" "adminDefault (sis_Security S) (sis_AdminPassword S) = sis_AdminPassword S"
    "dataguardDefault (sis_Dataguard S) = sis_Dataguard S" "persistenceDefault (sis_Persistence S) = sis_Persistence S"
    "defaultSIDBScripts (sis_Scripts S) = sis_Scripts S" "defaultSIDBRestoreSpec (sis_Restore S) = sis_Restore S"
    by (simp_all add: S default_steps_idem)
  have "sidbDefault (sidb\<lparr>sidb_Spec := S\<rparr>) = sidb\<lparr>sidb_Spec := S\<rparr>"
    by (simp add: sidbDefault_upd f i Let_def)
  then show ?thesis unfolding d .
qed



section \<open>Properties\<close>

text \<open>A platform for the examples: quantities are plain numbers, every namespace is watched.\<close>

definition platformExample :: Platform where
  "platformExample =
     \<lparr>pl_ParseQuantity = (\<lambda>s. if s \<noteq> [] \<and> list_all is_digit s then Some (int (atoi s)) else None),
      pl_WatchNamespace = None, pl_Fraction = (\<lambda>f unit scale. f * unit div scale)\<rparr>"

definition fraExample :: "string \<Rightarrow> SingleInstanceDatabase" where
  "fraExample sz = zeroSidb\<lparr>sidb_Spec := zeroSidbSpec\<lparr>sis_Persistence := zeroSidbPersistence\<lparr>prs_Fra := Some
     \<lparr>fra_PvcName = [], fra_Size = sz, fra_StorageClass = ''fast'', fra_AccessMode = ''ReadWriteOnce'', fra_MountPath = [],
      fra_RecoveryAreaSize = []\<rparr>\<rparr>\<rparr>\<rparr>"

lemma fraExample_admits:
  "admits platformExample (fraExample ''100'') (fraExample ''120'')"
  "\<not> admits platformExample (fraExample ''100'') (fraExample ''90'')"
  by code_simp+

text \<open>
  defaulting is idempotent, so that a second call of the mutating webhook, which the API server may make after other
  webhooks, changes nothing.
\<close>

theorem sidb_default_idempotent: "sidbDefault (sidbDefault sidb) = sidbDefault sidb"
  by (rule sidbDefault_idem)

text \<open>
  while the primary source of a clone, a standby or a true cache is locked, no sequence of admitted updates and status
  changes replaces it: the effective source stays the one it had when it was locked.
\<close>

theorem locked_primary_source_fixed:
  assumes "locked_history pl s t"
  shows "resolveEffectivePrimarySource t = resolveEffectivePrimarySource s"
  using locked_history_inv [OF assms] by blast

definition cloneExample :: "string \<Rightarrow> string \<Rightarrow> SingleInstanceDatabase" where
  "cloneExample ref charset = zeroSidb\<lparr>
     sidb_Spec := zeroSidbSpec\<lparr>sis_CreateAs := ''clone'', sis_PrimaryDatabaseRef := ref, sis_Charset := charset\<rparr>,
     sidb_Status := zeroSidbStatus\<lparr>ss_CreatedAs := ''clone''\<rparr>\<rparr>"

theorem locked_primary_source_fixed_witness:
  "resolveEffectivePrimarySource (cloneExample ''src'' ''UTF8'') = resolveEffectivePrimarySource (cloneExample ''src'' []) \<and>
   \<not> admits platformExample (cloneExample ''src'' []) (cloneExample ''other'' [])"
proof -
  have l: "isPrimarySourceLocked (cloneExample ''src'' [])" by code_simp
  have a: "admits platformExample (cloneExample ''src'' []) (cloneExample ''src'' ''UTF8'')"
    "\<not> admits platformExample (cloneExample ''src'' []) (cloneExample ''other'' [])" by code_simp+
  have "locked_history platformExample (cloneExample ''src'' []) (cloneExample ''src'' ''UTF8'')"
    by (rule locked_history.update [OF locked_history.start [OF l] a(1)])
  from locked_primary_source_fixed [OF this] a(2) show ?thesis by blast
qed

text \<open>
  once configured, the fast recovery area stays: along every sequence of admitted updates its mount path, its claim
  or, when it is managed, its storage class and access mode never change, and it is never removed.
\<close>

theorem fra_identity_fixed:
  assumes "sidb_history pl s t" and "fraIdentity s = Some x"
  shows "fraIdentity t = Some x"
  by (rule history_fra [OF assms])

theorem fra_identity_fixed_witness:
  "fraIdentity (fraExample ''120'') = Some (''/opt/oracle/oradata/fast_recovery_area'', [], ''fast'', ''ReadWriteOnce'')"
proof -
  have i: "fraIdentity (fraExample ''100'') = Some (''/opt/oracle/oradata/fast_recovery_area'', [], ''fast'', ''ReadWriteOnce'')"
    by code_simp
  have "sidb_history platformExample (fraExample ''100'') (fraExample ''120'')"
    by (rule sidb_history.update [OF sidb_history.start fraExample_admits(1)])
  from fra_identity_fixed [OF this i] show ?thesis .
qed

text \<open>
  C38: a managed fast recovery area never shrinks along admitted updates whose sizes are valid quantities.
\<close>

theorem fra_size_never_shrinks:
  assumes "pl_ParseQuantity pl [] = None" and "sized_history pl s t" and "managedFra s" and "fraSize pl s = Some a"
  shows "managedFra t \<and> (\<exists>b. fraSize pl t = Some b \<and> a \<le> b)"
  by (rule sized_history_inv [OF assms])

theorem fra_size_never_shrinks_witness:
  "managedFra (fraExample ''120'') \<and> (\<exists>b. fraSize platformExample (fraExample ''120'') = Some b \<and> 100 \<le> b)"
proof -
  have p: "pl_ParseQuantity platformExample [] = None" by code_simp
  have m: "managedFra (fraExample ''100'')" "fraSize platformExample (fraExample ''100'') = Some 100" by code_simp+
  have "fraSize platformExample (fraExample ''120'') \<noteq> None" by code_simp
  from sized_history.update [OF sized_history.start fraExample_admits(1) this]
  show ?thesis by (rule fra_size_never_shrinks [OF p _ m])
qed

text \<open>
  self-signed TCPS is a one-way street: an object that was created through the webhook, or that has left it, never uses
  TCPS without a TLS secret again, whatever sequence of admitted updates follows.
\<close>

theorem self_signed_tcps_never_returns:
  assumes "snd (sidbValidateCreate pl s) = []" and "sidb_history pl s t"
  shows "\<not> (sidbTcpsEnabled t \<and> sidbTcpsTlsSecret t = [])"
proof -
  have "\<not> sidbUsesLegacySelfSignedTCPS s"
    using assms(1) spec_ok_not_legacy by (simp add: sidbValidateCreate_def validateSingleInstanceDatabaseSpec_def)
  from history_not_legacy [OF assms(2) this] show ?thesis by (simp add: sidbUsesLegacySelfSignedTCPS_def)
qed

theorem self_signed_tcps_never_returns_witness:
  "\<not> (sidbTcpsEnabled (zeroSidb\<lparr>sidb_Generation := 2\<rparr>) \<and> sidbTcpsTlsSecret (zeroSidb\<lparr>sidb_Generation := 2\<rparr>) = [])"
proof -
  have v: "snd (sidbValidateCreate platformExample zeroSidb) = []" by code_simp
  have "sidb_history platformExample zeroSidb (zeroSidb\<lparr>sidb_Generation := 2\<rparr>)"
    by (rule sidb_history.status [OF sidb_history.start]) simp
  from self_signed_tcps_never_returns [OF v this] show ?thesis .
qed

text \<open>
  while the controller holds the update lock and the override annotation is not set, every admitted update leaves the
  specification as it is.
\<close>

theorem sidb_spec_fixed_while_locked:
  assumes "admits pl t u"
    and "fst (IsControllerUpdateLocked (ss_Conditions (sidb_Status t)) DefaultReconcilingConditionType DefaultUpdateLockReason)"
    and "\<not> fst (IsUpdateLockOverrideEnabled (sidb_Annotations u) DefaultOverrideAnnotation)"
  shows "sidb_Spec u = sidb_Spec t"
  using admits_cases [OF assms(1)]
proof
  assume "sidbUpdateErrs pl t u = []"
  from update_errs_parts(2) [OF this] show ?thesis using assms(2,3) by (auto simp: sidbUpdateLockErrs_def)
qed simp

definition lockedSidb :: SingleInstanceDatabase where
  "lockedSidb = zeroSidb\<lparr>sidb_Status := zeroSidbStatus\<lparr>ss_Conditions :=
     [\<lparr>cond_Type = ''Reconciling'', cond_Status = ''True'', cond_ObservedGeneration = 4, cond_LastTransitionTime = 0,
       cond_Reason = ''UpdateInProgress'', cond_Message = []\<rparr>]\<rparr>\<rparr>"

theorem sidb_spec_fixed_while_locked_witness:
  "admits platformExample lockedSidb (lockedSidb\<lparr>sidb_Generation := 5\<rparr>) \<and>
   sidb_Spec (lockedSidb\<lparr>sidb_Generation := 5\<rparr>) = sidb_Spec lockedSidb"
proof -
  have a: "admits platformExample lockedSidb (lockedSidb\<lparr>sidb_Generation := 5\<rparr>)" by code_simp
  have l: "fst (IsControllerUpdateLocked (ss_Conditions (sidb_Status lockedSidb)) DefaultReconcilingConditionType DefaultUpdateLockReason)"
    "\<not> fst (IsUpdateLockOverrideEnabled (sidb_Annotations (lockedSidb\<lparr>sidb_Generation := 5\<rparr>)) DefaultOverrideAnnotation)"
    by code_simp+
  from sidb_spec_fixed_while_locked [OF a l] a show ?thesis by blast
qed

definition sourceCount :: "SingleInstanceDatabase \<Rightarrow> nat" where
  "sourceCount sidb =
     (case sis_PrimarySource (sidb_Spec sidb) of None \<Rightarrow> 0 | Some ps \<Rightarrow> selectedSources ps)
     + (if blank (sis_PrimaryDatabaseRef (sidb_Spec sidb)) then 0 else 1)"

text \<open>
  the creation mode decides the primary source: an accepted clone, standby or true cache names exactly one source
  (a database reference, a connect string, the details of a host, or the deprecated reference), and an accepted primary names none.
\<close>

theorem accepted_mode_source:
  assumes "validateSingleInstanceDatabaseSpecWithLegacySelfSignedTCPS pl sidb b = []"
    and "mode = ToLower (TrimSpace (sis_CreateAs (sidb_Spec sidb)))"
  shows "(mode \<in> {''clone'', ''standby'', ''truecache''} \<longrightarrow> sourceCount sidb = 1) \<and>
    (mode = [] \<or> mode = ''primary'' \<longrightarrow> sis_PrimarySource (sidb_Spec sidb) = None \<and> sourceCount sidb = 0)"
proof -
  have v: "validatePrimarySourceSpec sidb mode = []" "sidbModeErrs sidb mode = []"
    using assms by (simp_all add: validateSingleInstanceDatabaseSpecWithLegacySelfSignedTCPS_def Let_def)
  note p = v(1) [unfolded validatePrimarySourceSpec_def Let_def append_is_Nil_conv err_Nil_iff]
  have m: "mode \<in> set replicaModes \<Longrightarrow> resolvePrimarySourceInputPresent sidb"
    using v(2) by (auto simp: sidbModeErrs_def Let_def)
  show ?thesis
  proof (cases "sis_PrimarySource (sidb_Spec sidb)")
    case None
    then show ?thesis
      using p m by (auto simp: sourceCount_def replicaModes_def resolvePrimarySourceInputPresent_def resolvePrimarySourceDatabaseRef_def
        resolvePrimarySourceConnectString_def resolvePrimarySourceDetails_def sourceField_def)
  next
    case (Some ps)
    then have "selectedSources ps = 1" "blank (sis_PrimaryDatabaseRef (sidb_Spec sidb))" using p by auto
    then show ?thesis using Some p by (auto simp: sourceCount_def)
  qed
qed

theorem accepted_mode_source_witness:
  "sourceCount (cloneExample ''src'' []) = 1"
proof -
  have v: "validateSingleInstanceDatabaseSpecWithLegacySelfSignedTCPS platformExample (cloneExample ''src'' []) False = []" by code_simp
  have m: "''clone'' = ToLower (TrimSpace (sis_CreateAs (sidb_Spec (cloneExample ''src'' []))))" by code_simp
  from accepted_mode_source [OF v m] show ?thesis by simp
qed

text \<open>
  a certificate renewal interval of \<open>n\<close> hours is accepted exactly when \<open>n\<close> is between 24 and 8760, for every number of hours
  that a duration can hold.
\<close>

theorem renew_interval_hours_accepted_iff:
  assumes "n \<le> 2562047"
  shows "renewIntervalErrs pl (itoa_nat n @ ''h'') = [] \<longleftrightarrow> 24 \<le> n \<and> n \<le> 8760"
  using assms by (auto simp: renewIntervalErrs_def Let_def ParseDuration_hours hours_def)

theorem renew_interval_hours_accepted_iff_witness:
  "renewIntervalErrs platformExample (itoa_nat 720 @ ''h'') = [] \<and> renewIntervalErrs platformExample (itoa_nat 12 @ ''h'') \<noteq> []"
  using renew_interval_hours_accepted_iff [of 720 platformExample] renew_interval_hours_accepted_iff [of 12 platformExample] by simp

end
