(* ===== verification/Sidb_Sources.thy ===== *)
theory Sidb_Sources
  imports Sidb_Webhook
begin

text \<open>
  How the single-instance database controller reads the primary source and the settings of a database,
  \<^verbatim>\<open>controllers/database/singleinstancedatabase_controller.go\<close>: the source a clone, standby or true cache is made from,
  the parser of connect strings, the host, port, SID and names derived from the source, the connect strings the
  controller publishes, and the TCPS, TDE and administrator settings
  (also \<^verbatim>\<open>apis/database/v4/singleinstancedatabase_helpers.go\<close>). The theorems relate them to the webhook: what the webhook
  locks is what the controller reads. The receiver is never nil; the referenced primary \<open>rp\<close> is an option.
\<close>


section \<open>The primary source\<close>

record resolvedPrimaryDatabaseSource =
  rps_databaseRef :: string
  rps_connectString :: string
  rps_dbName :: string
  rps_pdbName :: string
  rps_details :: "SingleInstanceDatabasePrimaryDetails option"

definition noSource :: resolvedPrimaryDatabaseSource where
  "noSource = \<lparr>rps_databaseRef = [], rps_connectString = [], rps_dbName = [], rps_pdbName = [], rps_details = None\<rparr>"

definition resolveLegacySource :: "SingleInstanceDatabase \<Rightarrow> resolvedPrimaryDatabaseSource" where
  "resolveLegacySource m =
     (let ref = TrimSpace (sis_PrimaryDatabaseRef (sidb_Spec m)) in
      if ref \<noteq> [] then noSource\<lparr>rps_databaseRef := ref\<rparr> else noSource)"

definition resolvePrimaryDatabaseSource :: "SingleInstanceDatabase \<Rightarrow> resolvedPrimaryDatabaseSource" where
  "resolvePrimaryDatabaseSource m =
     (case sis_PrimarySource (sidb_Spec m) of
        None \<Rightarrow> resolveLegacySource m
      | Some ps \<Rightarrow>
          let dbName = TrimSpace (ps_DBName ps); ref = TrimSpace (ps_DatabaseRef ps); connectString = TrimSpace (ps_ConnectString ps) in
          if ref \<noteq> [] then noSource\<lparr>rps_databaseRef := ref, rps_dbName := dbName\<rparr>
          else if connectString \<noteq> []
          then noSource\<lparr>rps_connectString := connectString, rps_dbName := dbName, rps_pdbName := TrimSpace (ps_Pdbname ps)\<rparr>
          else if ps_Details ps \<noteq> None then noSource\<lparr>rps_details := ps_Details ps, rps_dbName := dbName\<rparr>
          else resolveLegacySource m)"

definition sidbHasSource :: "resolvedPrimaryDatabaseSource \<Rightarrow> bool" where
  "sidbHasSource source \<longleftrightarrow> rps_databaseRef source \<noteq> [] \<or> rps_connectString source \<noteq> [] \<or> rps_details source \<noteq> None"

definition isLocalReference :: "resolvedPrimaryDatabaseSource \<Rightarrow> bool" where
  "isLocalReference source \<longleftrightarrow> rps_databaseRef source \<noteq> [] \<and> IsSourceDatabaseOnCluster (rps_databaseRef source)"

definition hasDetails :: "resolvedPrimaryDatabaseSource \<Rightarrow> bool" where
  "hasDetails source = (case rps_details source of None \<Rightarrow> False | Some d \<Rightarrow> \<not> blank (pd_Host d))"

definition isExternal :: "resolvedPrimaryDatabaseSource \<Rightarrow> bool" where
  "isExternal source \<longleftrightarrow> rps_connectString source \<noteq> [] \<or> rps_details source \<noteq> None \<or>
     (rps_databaseRef source \<noteq> [] \<and> \<not> isLocalReference source)"

record parsedPrimaryConnectString =
  ppc_host :: string
  ppc_port :: int
  ppc_service :: string

definition splitPrimaryPort :: "string \<Rightarrow> string \<times> int" where
  "splitPrimaryPort hostPortPart =
     (case LastIndexByte hostPortPart (CHR '':'') of
        None \<Rightarrow> (hostPortPart, CONTAINER_LISTENER_PORT)
      | Some colonIdx \<Rightarrow>
          if colonIdx + 1 < length hostPortPart
          then (case Atoi (TrimSpace (drop (colonIdx + 1) hostPortPart)) of
                  None \<Rightarrow> (hostPortPart, CONTAINER_LISTENER_PORT)
                | Some parsedPort \<Rightarrow> (TrimSpace (take colonIdx hostPortPart), parsedPort))
          else (hostPortPart, CONTAINER_LISTENER_PORT))"

definition parsePrimaryConnectString :: "string \<Rightarrow> parsedPrimaryConnectString" where
  "parsePrimaryConnectString connectString =
     (let trimmed = TrimSpace connectString in
      if trimmed = [] then \<lparr>ppc_host = [], ppc_port = 0, ppc_service = []\<rparr>
      else
        (let s = TrimPrefix (TrimPrefix trimmed ''//'') ''tcp://'';
             (hostPortPart, servicePart) =
               (case LastIndexByte s (CHR ''/'') of
                  None \<Rightarrow> (s, [])
                | Some slashIdx \<Rightarrow> (TrimSpace (take slashIdx s), TrimSpace (drop (slashIdx + 1) s)));
             (host, port) = splitPrimaryPort hostPortPart
         in \<lparr>ppc_host = TrimSpace host, ppc_port = port, ppc_service = ToUpper (TrimSpace servicePart)\<rparr>))"

datatype details_error = DetailsSidEmpty | DetailsPortNegative

text \<open>
  The guards on empty details and on an empty host follow from \<^verbatim>\<open>hasDetails\<close> and are never taken; the model leaves them
  out.
\<close>

definition ValidatePrimarySourceDetails :: "SingleInstanceDatabase \<Rightarrow> details_error option" where
  "ValidatePrimarySourceDetails m =
     (let source = resolvePrimaryDatabaseSource m in
      if \<not> hasDetails source then None
      else (case rps_details source of
              None \<Rightarrow> None
            | Some ref \<Rightarrow> if blank (pd_Sid ref) then Some DetailsSidEmpty
                          else if pd_Port ref < 0 then Some DetailsPortNegative else None))"

definition GetPrimaryDatabaseHost :: "SingleInstanceDatabase \<Rightarrow> SingleInstanceDatabase option \<Rightarrow> string" where
  "GetPrimaryDatabaseHost m rp =
     (let source = resolvePrimaryDatabaseSource m;
          host = (case rps_details source of None \<Rightarrow> [] | Some ref \<Rightarrow> TrimSpace (pd_Host ref)) in
      if host \<noteq> [] then host
      else if rps_connectString source \<noteq> [] then ppc_host (parsePrimaryConnectString (rps_connectString source))
      else (case rp of None \<Rightarrow> [] | Some p \<Rightarrow> sidb_Name p))"

definition GetPrimaryDatabasePort :: "SingleInstanceDatabase \<Rightarrow> int" where
  "GetPrimaryDatabasePort m =
     (let source = resolvePrimaryDatabaseSource m;
          port = (case rps_details source of None \<Rightarrow> 0 | Some ref \<Rightarrow> pd_Port ref);
          parsed = ppc_port (parsePrimaryConnectString (rps_connectString source)) in
      if port > 0 then port
      else if rps_connectString source \<noteq> [] \<and> parsed > 0 then parsed
      else CONTAINER_LISTENER_PORT)"

definition rpSid :: "SingleInstanceDatabase option \<Rightarrow> string" where
  "rpSid rp = (case rp of None \<Rightarrow> [] | Some p \<Rightarrow> ToUpper (TrimSpace (sis_Sid (sidb_Spec p))))"

definition detailsSid :: "resolvedPrimaryDatabaseSource \<Rightarrow> string" where
  "detailsSid source = (case rps_details source of None \<Rightarrow> [] | Some ref \<Rightarrow> ToUpper (TrimSpace (pd_Sid ref)))"

definition GetPrimaryDatabaseSid :: "SingleInstanceDatabase \<Rightarrow> SingleInstanceDatabase option \<Rightarrow> string" where
  "GetPrimaryDatabaseSid m rp =
     (let source = resolvePrimaryDatabaseSource m in
      if detailsSid source \<noteq> [] then detailsSid source
      else if rps_connectString source \<noteq> [] then ppc_service (parsePrimaryConnectString (rps_connectString source))
      else rpSid rp)"

definition GetPrimaryDatabaseName :: "SingleInstanceDatabase \<Rightarrow> SingleInstanceDatabase option \<Rightarrow> string" where
  "GetPrimaryDatabaseName m rp =
     (let source = resolvePrimaryDatabaseSource m in
      if \<not> blank (rps_dbName source) then ToUpper (TrimSpace (rps_dbName source))
      else if rps_connectString source \<noteq> [] then ppc_service (parsePrimaryConnectString (rps_connectString source))
      else if detailsSid source \<noteq> [] then detailsSid source
      else rpSid rp)"

definition GetPrimaryDatabasePdbName :: "SingleInstanceDatabase \<Rightarrow> SingleInstanceDatabase option \<Rightarrow> string" where
  "GetPrimaryDatabasePdbName m rp =
     (let source = resolvePrimaryDatabaseSource m;
          pdb = (case rps_details source of None \<Rightarrow> [] | Some ref \<Rightarrow> ToUpper (TrimSpace (pd_Pdbname ref))) in
      if \<not> blank (rps_pdbName source) then ToUpper (TrimSpace (rps_pdbName source))
      else if pdb \<noteq> [] then pdb
      else (case rp of None \<Rightarrow> [] | Some p \<Rightarrow> ToUpper (TrimSpace (sis_Pdbname (sidb_Spec p)))))"

definition GetPrimaryDatabaseConnectString :: "SingleInstanceDatabase \<Rightarrow> SingleInstanceDatabase option \<Rightarrow> string" where
  "GetPrimaryDatabaseConnectString m rp =
     (let source = resolvePrimaryDatabaseSource m in
      if rps_connectString source \<noteq> [] then rps_connectString source
      else if hasDetails source
      then (let host = GetPrimaryDatabaseHost m rp; port = GetPrimaryDatabasePort m; sid = GetPrimaryDatabaseSid m rp in
            if host = [] \<or> sid = [] then [] else host @ '':'' @ itoa port @ ''/'' @ sid)
      else (case rp of
              Some p \<Rightarrow> if isLocalReference source
                        then sidb_Name p @ '':'' @ itoa CONTAINER_LISTENER_PORT @ ''/'' @ sis_Sid (sidb_Spec p)
                        else rps_databaseRef source
            | None \<Rightarrow> rps_databaseRef source))"

definition GetPrimaryDatabaseCDBConnectString :: "SingleInstanceDatabase \<Rightarrow> SingleInstanceDatabase option \<Rightarrow> string" where
  "GetPrimaryDatabaseCDBConnectString m rp =
     (let source = resolvePrimaryDatabaseSource m in
      if rps_connectString source = [] then GetPrimaryDatabaseConnectString m rp
      else
        (let parsed = parsePrimaryConnectString (rps_connectString source); dbName = GetPrimaryDatabaseName m rp in
         if ppc_host parsed = [] \<or> dbName = [] then rps_connectString source
         else if EqualFold (ppc_service parsed) dbName then rps_connectString source
         else if CHR ''.'' \<in> set (ppc_service parsed) then rps_connectString source
         else ppc_host parsed @ '':'' @ itoa (ppc_port parsed) @ ''/'' @ dbName))"

definition GetPrimaryDatabaseDisplayName :: "SingleInstanceDatabase \<Rightarrow> SingleInstanceDatabase option \<Rightarrow> string" where
  "GetPrimaryDatabaseDisplayName m rp =
     (let source = resolvePrimaryDatabaseSource m in
      if hasDetails source then GetPrimaryDatabaseHost m rp
      else if rps_connectString source \<noteq> []
      then (if GetPrimaryDatabaseHost m rp \<noteq> [] then GetPrimaryDatabaseHost m rp else rps_connectString source)
      else (case rp of Some p \<Rightarrow> sidb_Name p | None \<Rightarrow> TrimSpace (rps_databaseRef source)))"

definition ShouldCreatePDBFromPrimary :: "SingleInstanceDatabase \<Rightarrow> SingleInstanceDatabase option \<Rightarrow> string" where
  "ShouldCreatePDBFromPrimary m rp = (if \<not> blank (GetPrimaryDatabasePdbName m rp) then ''true'' else ''false'')"


section \<open>Connect strings of a database\<close>

definition buildSIDBConnectString :: "string \<Rightarrow> int \<Rightarrow> string \<Rightarrow> string" where
  "buildSIDBConnectString host port serviceName =
     (if blank host \<or> port = 0 \<or> blank serviceName then ValueUnavailable
      else TrimSpace host @ '':'' @ itoa port @ ''/'' @ ToUpper (TrimSpace serviceName))"

definition buildSIDBOEMExpressURL :: "string \<Rightarrow> int \<Rightarrow> string" where
  "buildSIDBOEMExpressURL host port =
     (if blank host \<or> port \<le> 0 then ValueUnavailable else ''https://'' @ TrimSpace host @ '':'' @ itoa port @ ''/em'')"

definition sidbServiceDNSName :: "string \<Rightarrow> string \<Rightarrow> string" where
  "sidbServiceDNSName serviceName namespace = serviceName @ ''.'' @ namespace"

definition endpointStatusPort :: "ServicePort \<Rightarrow> bool \<Rightarrow> int" where
  "endpointStatusPort p useNodePort = (if useNodePort \<and> sp_NodePort p \<noteq> 0 then sp_NodePort p else sp_Port p)"

definition applySIDBEndpointStatus ::
    "SingleInstanceDatabaseStatus \<Rightarrow> string \<Rightarrow> ServicePort list \<Rightarrow> string \<Rightarrow> string \<Rightarrow> bool \<Rightarrow> SingleInstanceDatabaseStatus" where
  "applySIDBEndpointStatus st host ports sid pdbName useNodePort =
     (let s1 = (case servicePortByName ports ''listener'' of
                  None \<Rightarrow> st
                | Some p \<Rightarrow> st\<lparr>ss_ConnectString := buildSIDBConnectString host (endpointStatusPort p useNodePort) sid,
                               ss_PdbConnectString := buildSIDBConnectString host (endpointStatusPort p useNodePort) pdbName\<rparr>)
      in case servicePortByName ports ''listener-tcps'' of
           None \<Rightarrow> s1
         | Some p \<Rightarrow> s1\<lparr>ss_TcpsConnectString := buildSIDBConnectString host (endpointStatusPort p useNodePort) sid,
                        ss_TcpsPdbConnectString := buildSIDBConnectString host (endpointStatusPort p useNodePort) pdbName\<rparr>)"


section \<open>TCPS, TDE and administrator settings\<close>

definition getTcpsEnabled :: "SingleInstanceDatabase \<Rightarrow> bool" where
  "getTcpsEnabled m =
     (if (case securityTcps m of None \<Rightarrow> False | Some t \<Rightarrow> stc_Enabled t) then True
      else if sis_TcpsListenerPort (sidb_Spec m) \<noteq> 0 then True
      else sis_EnableTCPS (sidb_Spec m))"

definition getTcpsListenerPort :: "SingleInstanceDatabase \<Rightarrow> int" where
  "getTcpsListenerPort m = sis_TcpsListenerPort (sidb_Spec m)"

definition getTcpsTLSSecret :: "SingleInstanceDatabase \<Rightarrow> string" where
  "getTcpsTLSSecret m =
     (let s = (case securityTcps m of None \<Rightarrow> [] | Some t \<Rightarrow> TrimSpace (stc_TlsSecret t)) in
      if s \<noteq> [] then s else TrimSpace (sis_TcpsTlsSecret (sidb_Spec m)))"

definition getTcpsClientWalletSecretOverride :: "SingleInstanceDatabase \<Rightarrow> string" where
  "getTcpsClientWalletSecretOverride m =
     (case securityTcps m of None \<Rightarrow> [] | Some t \<Rightarrow> TrimSpace (stc_ClientWalletSecret t))"

definition getGeneratedDataguardClientWalletSecretName :: "SingleInstanceDatabase \<Rightarrow> string" where
  "getGeneratedDataguardClientWalletSecretName m =
     (let name = TrimSpace (sidb_Name m) in if name = [] then [] else name @ ''-dg-client-wallet'')"

definition getDataguardClientWalletSecretName :: "SingleInstanceDatabase \<Rightarrow> string" where
  "getDataguardClientWalletSecretName m =
     (let override = getTcpsClientWalletSecretOverride m in
      if override \<noteq> [] then override else getGeneratedDataguardClientWalletSecretName m)"

definition getTcpsCertRenewInterval :: "SingleInstanceDatabase \<Rightarrow> string" where
  "getTcpsCertRenewInterval m =
     (let s = (case securityTcps m of None \<Rightarrow> [] | Some t \<Rightarrow> TrimSpace (stc_CertRenewInterval t)) in
      if s \<noteq> [] then s else TrimSpace (sis_TcpsCertRenewInterval (sidb_Spec m)))"

definition getTDEPasswordConfig :: "SingleInstanceDatabase \<Rightarrow> SingleInstanceDatabasePasswordSecret option" where
  "getTDEPasswordConfig m = Option.bind (securitySecrets m) secs_TDE"

definition GetTDEPasswordSecretName :: "SingleInstanceDatabase \<Rightarrow> string" where
  "GetTDEPasswordSecretName m = (case getTDEPasswordConfig m of None \<Rightarrow> [] | Some tde \<Rightarrow> TrimSpace (psc_SecretName tde))"

definition GetTDEPasswordSecretFileName :: "SingleInstanceDatabase \<Rightarrow> string" where
  "GetTDEPasswordSecretFileName m = (case getTDEPasswordConfig m of None \<Rightarrow> [] | Some tde \<Rightarrow> TrimSpace (psc_SecretKey tde))"

definition HasTDEPasswordSecret :: "SingleInstanceDatabase \<Rightarrow> bool" where
  "HasTDEPasswordSecret m \<longleftrightarrow> GetTDEPasswordSecretName m \<noteq> [] \<and> GetTDEPasswordSecretFileName m \<noteq> []"

definition GetStandbyWalletSecretRef :: "SingleInstanceDatabase \<Rightarrow> string" where
  "GetStandbyWalletSecretRef m = GetTDEPasswordSecretName m"

definition GetStandbyWalletMountPath :: "SingleInstanceDatabase \<Rightarrow> string" where
  "GetStandbyWalletMountPath m =
     (let p = (case getTDEPasswordConfig m of None \<Rightarrow> [] | Some tde \<Rightarrow> TrimSpace (psc_MountPath tde)) in
      if p \<noteq> [] then p else ''/mnt/standby-wallet'')"

definition GetStandbyWalletZipFileKey :: "SingleInstanceDatabase \<Rightarrow> string" where
  "GetStandbyWalletZipFileKey m = (case getTDEPasswordConfig m of None \<Rightarrow> [] | Some tde \<Rightarrow> TrimSpace (psc_WalletZipFileKey tde))"

definition GetWalletDirFromSid :: "string \<Rightarrow> string" where
  "GetWalletDirFromSid sid =
     (let trimmedSid = ToUpper (TrimSpace sid) in
      if trimmedSid = [] then ''/opt/oracle/oradata/dbconfig/${ORACLE_SID}/.wallet''
      else ''/opt/oracle/oradata/dbconfig/'' @ trimmedSid @ ''/.wallet'')"

definition GetStandbyTDEWalletRoot :: "SingleInstanceDatabase \<Rightarrow> string" where
  "GetStandbyTDEWalletRoot m =
     (let root = (case getTDEPasswordConfig m of None \<Rightarrow> [] | Some tde \<Rightarrow> TrimSpace (psc_WalletRoot tde)) in
      if root \<noteq> [] then root else GetWalletDirFromSid (sis_Sid (sidb_Spec m)))"

definition DefaultSIDBAdminSecretKey :: string where
  "DefaultSIDBAdminSecretKey = ''oracle_pwd''"

definition resolveSIDBAdminSecretDataEntry :: "string \<Rightarrow> string" where
  "resolveSIDBAdminSecretDataEntry configured = (if TrimSpace configured \<noteq> [] then TrimSpace configured else DefaultSIDBAdminSecretKey)"

definition resolveSIDBAdminPasswordRef :: "SingleInstanceDatabaseAdminPassword \<Rightarrow> (string \<times> string) option" where
  "resolveSIDBAdminPasswordRef ref =
     (let secretName = TrimSpace (adm_SecretName ref) in
      if secretName = [] then None else Some (secretName, resolveSIDBAdminSecretDataEntry (adm_SecretKey ref)))"

text \<open>The third result, false, is \<open>None\<close>.\<close>

definition ResolveSIDBAdminSecretRef :: "SingleInstanceDatabase \<Rightarrow> (string \<times> string) option" where
  "ResolveSIDBAdminSecretRef sidb =
     (case Option.bind (Option.bind (securitySecrets sidb) secs_Admin) resolveSIDBAdminPasswordRef of
        Some r \<Rightarrow> Some r
      | None \<Rightarrow> resolveSIDBAdminPasswordRef (sis_AdminPassword (sidb_Spec sidb)))"


section \<open>What the webhook compares and what the controller reads\<close>

text \<open>
  The webhook compares the text of the source, the controller reads its parts. The source of an accepted specification is
  one of three kinds; its details are compared with their blanks trimmed, which is also how they are read.
\<close>

definition trimDetails :: "SingleInstanceDatabasePrimaryDetails \<Rightarrow> SingleInstanceDatabasePrimaryDetails" where
  "trimDetails d = \<lparr>pd_Host = TrimSpace (pd_Host d), pd_Port = pd_Port d, pd_Sid = TrimSpace (pd_Sid d), pd_Pdbname = TrimSpace (pd_Pdbname d)\<rparr>"

definition readSource :: "SingleInstanceDatabase \<Rightarrow> resolvedPrimaryDatabaseSource" where
  "readSource m = (let s = resolvePrimaryDatabaseSource m in s\<lparr>rps_details := map_option trimDetails (rps_details s)\<rparr>)"

text \<open>The characters that would make two sources have the same text.\<close>

definition plainSource :: "SingleInstanceDatabase \<Rightarrow> bool" where
  "plainSource m =
     (let s = readSource m in
      CHR ''|'' \<notin> set (rps_databaseRef s) \<and> CHR ''|'' \<notin> set (rps_connectString s) \<and> CHR ''|'' \<notin> set (rps_dbName s) \<and>
      (case rps_details s of None \<Rightarrow> True
       | Some d \<Rightarrow> CHR '':'' \<notin> set (pd_Host d) \<and> CHR ''/'' \<notin> set (pd_Sid d) \<and> CHR ''|'' \<notin> set (pd_Pdbname d)))"

lemma split_at_unique:
  "a @ c # b = a' @ c # b' \<Longrightarrow> c \<notin> set a \<Longrightarrow> c \<notin> set a' \<Longrightarrow> a = a' \<and> b = b'"
  by (induction a arbitrary: a') (case_tac a'; auto)+

lemma itoa_chars: "CHR ''/'' \<notin> set (itoa n)" "CHR '':'' \<notin> set (itoa n)"
  using itoa_nat_chars by (auto simp: itoa_def)

lemma itoa_inj: "itoa m = itoa n \<Longrightarrow> m = n"
proof -
  assume e: "itoa m = itoa n"
  have d: "hd (itoa_nat k) \<noteq> CHR ''-''" for k
    using itoa_nat_digits [of k] digit_char [of "hd (itoa_nat k)"] by (simp add: list_all_iff)
  have "\<not> (x < 0 \<and> 0 \<le> y \<and> itoa x = itoa y)" for x y
    using d [of "nat y"] by (auto simp: itoa_def) (metis list.sel(1))
  then have "m < 0 \<longleftrightarrow> n < 0" using e by (metis not_less)
  then show ?thesis using e by (cases "n < 0") (auto simp: itoa_def itoa_nat_inj)
qed

datatype source_kind =
    RefSource string string
  | ConnectSource string string string
  | DetailsSource SingleInstanceDatabasePrimaryDetails string
  | NoSource

fun kindText :: "source_kind \<Rightarrow> string" where
  "kindText (RefSource ref db) = ''databaseRef:'' @ ref @ ''|dbName:'' @ db"
| "kindText (ConnectSource cs db pdb) = ''connectString:'' @ cs @ ''|dbName:'' @ db @ ''|pdbName:'' @ pdb"
| "kindText (DetailsSource d db) =
     ''details:'' @ pd_Host d @ '':'' @ itoa (pd_Port d) @ ''/'' @ pd_Sid d @ ''/'' @ pd_Pdbname d @ ''|dbName:'' @ db"
| "kindText NoSource = []"

fun kindSource :: "source_kind \<Rightarrow> resolvedPrimaryDatabaseSource" where
  "kindSource (RefSource ref db) = noSource\<lparr>rps_databaseRef := ref, rps_dbName := db\<rparr>"
| "kindSource (ConnectSource cs db pdb) = noSource\<lparr>rps_connectString := cs, rps_dbName := db, rps_pdbName := pdb\<rparr>"
| "kindSource (DetailsSource d db) = noSource\<lparr>rps_details := Some d, rps_dbName := db\<rparr>"
| "kindSource NoSource = noSource"

fun plainKind :: "source_kind \<Rightarrow> bool" where
  "plainKind (RefSource ref db) \<longleftrightarrow> CHR ''|'' \<notin> set ref"
| "plainKind (ConnectSource cs db pdb) \<longleftrightarrow> CHR ''|'' \<notin> set cs \<and> CHR ''|'' \<notin> set db"
| "plainKind (DetailsSource d db) \<longleftrightarrow> CHR '':'' \<notin> set (pd_Host d) \<and> CHR ''/'' \<notin> set (pd_Sid d) \<and> CHR ''|'' \<notin> set (pd_Pdbname d)"
| "plainKind NoSource \<longleftrightarrow> True"

lemma kindText_inj:
  assumes "kindText a = kindText b" and "plainKind a" and "plainKind b"
  shows "a = b"
proof (cases a; cases b)
  fix r d r' d' assume k: "a = RefSource r d" "b = RefSource r' d'"
  show ?thesis using assms split_at_unique [of r "CHR ''|''" "''dbName:'' @ d" r' "''dbName:'' @ d'"] by (simp add: k)
next
  fix c d p c' d' p' assume k: "a = ConnectSource c d p" "b = ConnectSource c' d' p'"
  show ?thesis
    using assms split_at_unique [of c "CHR ''|''" "''dbName:'' @ d @ ''|pdbName:'' @ p" c' "''dbName:'' @ d' @ ''|pdbName:'' @ p'"]
      split_at_unique [of d "CHR ''|''" "''pdbName:'' @ p" d' "''pdbName:'' @ p'"] by (simp add: k)
next
  fix d n d' n' assume k: "a = DetailsSource d n" "b = DetailsSource d' n'"
  let ?t3 = "\<lambda>d n. ''dbName:'' @ n" let ?t2 = "\<lambda>d n. pd_Pdbname d @ CHR ''|'' # ?t3 d n"
  let ?t1 = "\<lambda>d n. pd_Sid d @ CHR ''/'' # ?t2 d n" let ?t0 = "\<lambda>d n. itoa (pd_Port d) @ CHR ''/'' # ?t1 d n"
  have "pd_Host d @ CHR '':'' # ?t0 d n = pd_Host d' @ CHR '':'' # ?t0 d' n'" using assms(1) by (simp add: k)
  from split_at_unique [OF this] have h: "pd_Host d = pd_Host d'" "?t0 d n = ?t0 d' n'" using assms(2,3) by (simp_all add: k)
  from split_at_unique [OF h(2)] have p: "itoa (pd_Port d) = itoa (pd_Port d')" "?t1 d n = ?t1 d' n'" by (simp_all add: itoa_chars)
  from split_at_unique [OF p(2)] have s: "pd_Sid d = pd_Sid d'" "?t2 d n = ?t2 d' n'" using assms(2,3) by (simp_all add: k)
  from split_at_unique [OF s(2)] have q: "pd_Pdbname d = pd_Pdbname d'" "n = n'" using assms(2,3) by (simp_all add: k)
  show ?thesis using h(1) itoa_inj [OF p(1)] s(1) q by (simp add: k)
qed (use assms(1) in simp_all)

text \<open>An accepted specification has the same source for the webhook and for the controller.\<close>

lemma accepted_source_kind:
  assumes "validatePrimarySourceSpec m mode = []"
  obtains k where "resolveEffectivePrimarySource m = kindText k" and "readSource m = kindSource k"
    and "plainSource m \<longleftrightarrow> plainKind k \<and> CHR ''|'' \<notin> set (rps_dbName (readSource m))"
proof -
  note v = assms [unfolded validatePrimarySourceSpec_def Let_def append_is_Nil_conv err_Nil_iff]
  note d = resolveEffectivePrimarySource_def resolvePrimarySourceDatabaseRef_def resolvePrimarySourceConnectString_def
    resolvePrimarySourceDBName_def resolvePrimarySourcePdbName_def resolvePrimarySourceDetails_def sourceField_def
    readSource_def resolvePrimaryDatabaseSource_def resolveLegacySource_def plainSource_def Let_def noSource_def
  show ?thesis
  proof (cases "sis_PrimarySource (sidb_Spec m)")
    case None
    show ?thesis
    proof (cases "blank (sis_PrimaryDatabaseRef (sidb_Spec m))")
      case True
      then show ?thesis using None by (intro that [of NoSource]) (simp_all add: d)
    next
      case False
      then show ?thesis using None
        by (intro that [of "RefSource (TrimSpace (sis_PrimaryDatabaseRef (sidb_Spec m))) []"]) (simp_all add: d)
    qed
  next
    case (Some ps)
    then have v': "selectedSources ps = 1" "blank (sis_PrimaryDatabaseRef (sidb_Spec m))" using v by auto
    consider (ref) "\<not> blank (ps_DatabaseRef ps)" | (conn) "blank (ps_DatabaseRef ps)" "\<not> blank (ps_ConnectString ps)"
      | (det) x where "blank (ps_DatabaseRef ps)" "blank (ps_ConnectString ps)" "ps_Details ps = Some x"
      using v'(1) by (auto simp: selectedSources_def split: if_splits)
    then show ?thesis
    proof cases
      case ref
      then show ?thesis using Some
        by (intro that [of "RefSource (TrimSpace (ps_DatabaseRef ps)) (TrimSpace (ps_DBName ps))"]) (simp_all add: d)
    next
      case conn
      then show ?thesis using Some v'(2)
        by (intro that [of "ConnectSource (TrimSpace (ps_ConnectString ps)) (TrimSpace (ps_DBName ps)) (TrimSpace (ps_Pdbname ps))"])
          (auto simp: d)
    next
      case det
      then show ?thesis using Some v'(2)
        by (intro that [of "DetailsSource (trimDetails x) (TrimSpace (ps_DBName ps))"]) (auto simp: d trimDetails_def)
    qed
  qed
qed

lemma same_text_same_source:
  assumes "validatePrimarySourceSpec s mode = []" and "validatePrimarySourceSpec t mode' = []"
    and "plainSource s" and "plainSource t" and "resolveEffectivePrimarySource t = resolveEffectivePrimarySource s"
  shows "readSource t = readSource s"
proof -
  obtain a where a: "resolveEffectivePrimarySource s = kindText a" "readSource s = kindSource a" "plainKind a"
    using accepted_source_kind [OF assms(1)] assms(3) by metis
  obtain b where b: "resolveEffectivePrimarySource t = kindText b" "readSource t = kindSource b" "plainKind b"
    using accepted_source_kind [OF assms(2)] assms(4) by metis
  have "b = a" using kindText_inj [OF _ b(3) a(3)] assms(5) a(1) b(1) by simp
  then show ?thesis using a(2) b(2) by simp
qed


text \<open>Everything the controller derives from the source depends on the parts it reads only.\<close>

lemma readSource_parts:
  "rps_databaseRef (readSource m) = rps_databaseRef (resolvePrimaryDatabaseSource m)"
  "rps_connectString (readSource m) = rps_connectString (resolvePrimaryDatabaseSource m)"
  "rps_dbName (readSource m) = rps_dbName (resolvePrimaryDatabaseSource m)"
  "rps_pdbName (readSource m) = rps_pdbName (resolvePrimaryDatabaseSource m)"
  "rps_details (readSource m) = map_option trimDetails (rps_details (resolvePrimaryDatabaseSource m))"
  by (simp_all add: readSource_def Let_def)

lemma trimDetails_fields [simp]:
  "pd_Host (trimDetails d) = TrimSpace (pd_Host d)" "pd_Port (trimDetails d) = pd_Port d"
  "pd_Sid (trimDetails d) = TrimSpace (pd_Sid d)" "pd_Pdbname (trimDetails d) = TrimSpace (pd_Pdbname d)"
  by (simp_all add: trimDetails_def)

text \<open>The values that go into the pods and the Data Guard topology.\<close>

definition primaryView :: "SingleInstanceDatabase \<Rightarrow> SingleInstanceDatabase option \<Rightarrow> (string \<times> int \<times> string \<times> string) \<times> string \<times> string \<times> string" where
  "primaryView m rp =
     ((GetPrimaryDatabaseHost m rp, GetPrimaryDatabasePort m, GetPrimaryDatabaseSid m rp, GetPrimaryDatabaseName m rp),
      GetPrimaryDatabasePdbName m rp, GetPrimaryDatabaseConnectString m rp, GetPrimaryDatabaseCDBConnectString m rp)"

definition sourceView :: "resolvedPrimaryDatabaseSource \<Rightarrow> SingleInstanceDatabase option \<Rightarrow> (string \<times> int \<times> string \<times> string) \<times> string" where
  "sourceView s rp =
     (let parsed = parsePrimaryConnectString (rps_connectString s); cs = rps_connectString s \<noteq> [];
          field = (\<lambda>f. case rps_details s of None \<Rightarrow> [] | Some d \<Rightarrow> f d);
          port = (case rps_details s of None \<Rightarrow> 0 | Some d \<Rightarrow> pd_Port d);
          host = field pd_Host; sid = ToUpper (field pd_Sid); pdb = ToUpper (field pd_Pdbname) in
      ((if host \<noteq> [] then host else if cs then ppc_host parsed else (case rp of None \<Rightarrow> [] | Some p \<Rightarrow> sidb_Name p),
        if port > 0 then port else if cs \<and> ppc_port parsed > 0 then ppc_port parsed else CONTAINER_LISTENER_PORT,
        if sid \<noteq> [] then sid else if cs then ppc_service parsed else rpSid rp,
        if \<not> blank (rps_dbName s) then ToUpper (TrimSpace (rps_dbName s)) else if cs then ppc_service parsed else if sid \<noteq> [] then sid else rpSid rp),
       if \<not> blank (rps_pdbName s) then ToUpper (TrimSpace (rps_pdbName s)) else if pdb \<noteq> [] then pdb
       else (case rp of None \<Rightarrow> [] | Some p \<Rightarrow> ToUpper (TrimSpace (sis_Pdbname (sidb_Spec p))))))"

lemma sourceView_read:
  "sourceView (readSource m) rp =
     ((GetPrimaryDatabaseHost m rp, GetPrimaryDatabasePort m, GetPrimaryDatabaseSid m rp, GetPrimaryDatabaseName m rp),
      GetPrimaryDatabasePdbName m rp)"
proof (cases "rps_details (resolvePrimaryDatabaseSource m)")
  case None
  then show ?thesis
    by (simp add: sourceView_def readSource_parts GetPrimaryDatabaseHost_def GetPrimaryDatabasePort_def GetPrimaryDatabaseSid_def
        GetPrimaryDatabaseName_def GetPrimaryDatabasePdbName_def detailsSid_def Let_def)
next
  case (Some d)
  then show ?thesis
    by (simp add: sourceView_def readSource_parts GetPrimaryDatabaseHost_def GetPrimaryDatabasePort_def GetPrimaryDatabaseSid_def
        GetPrimaryDatabaseName_def GetPrimaryDatabasePdbName_def detailsSid_def Let_def)
qed

lemma hasDetails_read: "hasDetails (resolvePrimaryDatabaseSource m) = hasDetails (readSource m)"
  by (simp add: hasDetails_def readSource_parts split: option.split)

lemma same_source_same_view:
  assumes "readSource t = readSource s"
  shows "primaryView t rp = primaryView s rp"
proof -
  have v: "GetPrimaryDatabaseHost t rp = GetPrimaryDatabaseHost s rp" "GetPrimaryDatabasePort t = GetPrimaryDatabasePort s"
    "GetPrimaryDatabaseSid t rp = GetPrimaryDatabaseSid s rp" "GetPrimaryDatabaseName t rp = GetPrimaryDatabaseName s rp"
    "GetPrimaryDatabasePdbName t rp = GetPrimaryDatabasePdbName s rp"
    using sourceView_read [of t rp] sourceView_read [of s rp] assms by simp_all
  have p: "rps_databaseRef (resolvePrimaryDatabaseSource t) = rps_databaseRef (resolvePrimaryDatabaseSource s)"
    "rps_connectString (resolvePrimaryDatabaseSource t) = rps_connectString (resolvePrimaryDatabaseSource s)"
    using assms readSource_parts(1,2) by metis+
  have c: "GetPrimaryDatabaseConnectString t rp = GetPrimaryDatabaseConnectString s rp"
    unfolding GetPrimaryDatabaseConnectString_def Let_def hasDetails_read isLocalReference_def v p assms ..
  show ?thesis unfolding primaryView_def GetPrimaryDatabaseCDBConnectString_def Let_def v p c ..
qed


section \<open>Connect strings read back\<close>

lemma splitPrimaryPort_itoa:
  assumes "0 < port" and "port < 2 ^ 31"
  shows "splitPrimaryPort (h @ '':'' @ itoa port) = (TrimSpace h, port)"
proof -
  have i: "itoa port = itoa_nat (nat port)" using assms(1) by (simp add: itoa_def)
  have t: "TrimSpace (itoa_nat (nat port)) = itoa_nat (nat port)" using TrimSpace_itoa [of "[]" "nat port"] by simp
  have a: "Atoi (itoa_nat (nat port)) = Some port" using Atoi_itoa [of "nat port"] assms by simp
  show ?thesis by (simp add: splitPrimaryPort_def i LastIndexByte_last itoa_nat_chars t a)
qed

text \<open>A string with one slash starts with neither of the two prefixes.\<close>

lemma one_slash_no_prefix:
  assumes "count_list s (CHR ''/'') \<le> 1" and "p = ''//'' \<or> p = ''tcp://''"
  shows "TrimPrefix s p = s"
proof -
  have "\<not> HasPrefix s p"
  proof
    assume "HasPrefix s p"
    then obtain r where "s = p @ r" unfolding HasPrefix_def by (metis append_take_drop_id)
    then have "count_list p (CHR ''/'') \<le> 1" using assms(1) by simp
    then show False using assms(2) by auto
  qed
  then show ?thesis by (simp add: TrimPrefix_def)
qed

lemma parse_host_port_service:
  assumes "TrimSpace h = h" and "h \<noteq> []" and "CHR ''/'' \<notin> set h" and "0 < port" and "port < 2 ^ 31"
    and "TrimSpace s = s" and "s \<noteq> []" and "CHR ''/'' \<notin> set s"
  shows "parsePrimaryConnectString (h @ '':'' @ itoa port @ ''/'' @ s) = \<lparr>ppc_host = h, ppc_port = port, ppc_service = ToUpper s\<rparr>"
proof -
  let ?hp = "h @ '':'' @ itoa port" let ?c = "?hp @ CHR ''/'' # s"
  have hp: "CHR ''/'' \<notin> set ?hp" using assms(3) itoa_chars(1) by simp
  have t: "TrimSpace ?c = ?c"
    using assms(2,7) TrimSpace_ends [OF assms(1,2)] TrimSpace_ends [OF assms(6,7)] by (intro TrimSpace_id) simp_all
  have "count_list ?c (CHR ''/'') \<le> 1" using hp assms(8) by (simp add: count_notin)
  then have p: "TrimPrefix (TrimPrefix ?c ''//'') ''tcp://'' = ?c" by (simp add: one_slash_no_prefix)
  have l: "LastIndexByte ?c (CHR ''/'') = Some (length ?hp)" by (rule LastIndexByte_last) (rule assms(8))
  have thp: "TrimSpace ?hp = ?hp"
  proof (rule TrimSpace_id)
    have "last (itoa port) \<in> set (itoa_nat (nat port))" using assms(4) by (simp add: itoa_def)
    then show "\<not> is_space (last ?hp)"
      using itoa_nat_digits [of "nat port"] digit_not_space assms(4) by (simp add: list_all_iff itoa_def)
  qed (use assms(2) TrimSpace_ends(1) [OF assms(1,2)] in simp)
  have "parsePrimaryConnectString ?c = \<lparr>ppc_host = h, ppc_port = port, ppc_service = ToUpper s\<rparr>"
    unfolding parsePrimaryConnectString_def Let_def t p l
    using splitPrimaryPort_itoa [OF assms(4,5), of h] assms(1,6) thp by simp
  then show ?thesis by simp
qed

lemma upper_char_slash: "upper_char c = CHR ''/'' \<Longrightarrow> c = CHR ''/''"
  using upper_char_cases [of c] by (auto simp: upper_char_def char_of_eq_iff eq_char_of_iff split: if_splits)

definition connectSourceOf :: "string \<Rightarrow> SingleInstanceDatabasePrimarySource" where
  "connectSourceOf c = \<lparr>ps_DatabaseRef = [], ps_ConnectString = c, ps_DBName = [], ps_Pdbname = [], ps_Details = None\<rparr>"

text \<open>
  C30: the connect string that one database publishes in its status works as the primary source of another: the controller
  reads from it the host, the listener port and the SID it was published for, as long as host and SID are not blank and
  have no slash and the port is positive.
\<close>

theorem published_connect_string_resolves:
  assumes "servicePortByName ports ''listener'' = Some p" and "port = endpointStatusPort p useNodePort"
    and "\<not> blank host" and "CHR ''/'' \<notin> set host" and "\<not> blank sid" and "CHR ''/'' \<notin> set sid" and "0 < port" and "port < 2 ^ 31"
    and "sis_PrimarySource (sidb_Spec m) = Some (connectSourceOf (ss_ConnectString (applySIDBEndpointStatus st host ports sid pdbName useNodePort)))"
  shows "GetPrimaryDatabaseHost m rp = TrimSpace host \<and> GetPrimaryDatabasePort m = port \<and>
    GetPrimaryDatabaseSid m rp = ToUpper (TrimSpace sid)"
proof -
  let ?c = "TrimSpace host @ '':'' @ itoa port @ ''/'' @ ToUpper (TrimSpace sid)"
  have s: "ss_ConnectString (applySIDBEndpointStatus st host ports sid pdbName useNodePort) = ?c"
    using assms(1,3,5,7) by (simp add: applySIDBEndpointStatus_def buildSIDBConnectString_def assms(2) Let_def split: option.split)
  have sub: "set (TrimSpace x) \<subseteq> set x" for x
    by (auto simp: TrimSpace_def TrimLeft_def dest!: set_dropWhileD)
  have up: "CHR ''/'' \<notin> set (ToUpper x)" if "CHR ''/'' \<notin> set x" for x
    using that upper_char_slash by (force simp: ToUpper_def)
  have parse: "parsePrimaryConnectString ?c = \<lparr>ppc_host = TrimSpace host, ppc_port = port, ppc_service = ToUpper (TrimSpace sid)\<rparr>"
  proof -
    have "CHR ''/'' \<notin> set (TrimSpace host)" "CHR ''/'' \<notin> set (ToUpper (TrimSpace sid))"
      using sub [of host] sub [of sid] assms(4,6) up [of "TrimSpace sid"] by blast+
    then show ?thesis
      using parse_host_port_service [of "TrimSpace host" port "ToUpper (TrimSpace sid)"] assms(3,5,7,8) by (simp add: TrimSpace_ToUpper)
  qed
  have "TrimSpace ?c = ?c"
    using assms(3,5) TrimSpace_ends [of "TrimSpace host"] TrimSpace_ends [of "ToUpper (TrimSpace sid)"]
    by (intro TrimSpace_id) (simp_all add: TrimSpace_ToUpper)
  then have r: "resolvePrimaryDatabaseSource m = noSource\<lparr>rps_connectString := ?c\<rparr>"
    using assms(9) by (simp add: resolvePrimaryDatabaseSource_def connectSourceOf_def s noSource_def)
  show ?thesis
    unfolding GetPrimaryDatabaseHost_def GetPrimaryDatabasePort_def GetPrimaryDatabaseSid_def r
    using parse assms(3,5,7) by (simp add: noSource_def detailsSid_def)
qed

definition publishedPort :: ServicePort where
  "publishedPort = \<lparr>sp_Name = ''listener'', sp_Protocol = ''TCP'', sp_Port = 1521, sp_TargetPort = 1521, sp_NodePort = 30010\<rparr>"

definition followerExample :: SingleInstanceDatabase where
  "followerExample = zeroSidb\<lparr>sidb_Spec := zeroSidbSpec\<lparr>sis_PrimarySource :=
     Some (connectSourceOf (ss_ConnectString (applySIDBEndpointStatus zeroSidbStatus ''10.0.0.1'' [publishedPort] ''orcl'' ''pdb'' True)))\<rparr>\<rparr>"

theorem published_connect_string_resolves_witness:
  "GetPrimaryDatabaseHost followerExample None = ''10.0.0.1'' \<and> GetPrimaryDatabasePort followerExample = 30010 \<and>
   GetPrimaryDatabaseSid followerExample None = ''ORCL''"
proof -
  have p: "servicePortByName [publishedPort] ''listener'' = Some publishedPort" "endpointStatusPort publishedPort True = 30010"
    by (simp_all add: servicePortByName_def publishedPort_def endpointStatusPort_def)
  have t: "TrimSpace ''10.0.0.1'' = ''10.0.0.1''" "ToUpper (TrimSpace ''orcl'') = ''ORCL''" by code_simp+
  show ?thesis
    using published_connect_string_resolves [OF p(1) p(2) [symmetric], of "''10.0.0.1''" "''orcl''" followerExample zeroSidbStatus "''pdb''" None] t
    by (simp add: followerExample_def) (simp add: go_eval)
qed

text \<open>
  C29: what the webhook locks is what the controller reads. Along every sequence of admitted updates and status changes
  under which the primary source is locked, the host, port, SID, names and connect strings that the controller derives
  from the source stay the same, as long as the texts of the sources can be told apart (no bar in names, no colon in a
  host, no slash in a SID).
\<close>

theorem locked_source_read_fixed:
  assumes "locked_history pl s t" and "validatePrimarySourceSpec s mode = []" and "validatePrimarySourceSpec t mode' = []"
    and "plainSource s" and "plainSource t"
  shows "primaryView t rp = primaryView s rp"
  using locked_history_inv [OF assms(1)] by (intro same_source_same_view same_text_same_source [OF assms(2-5)]) blast

theorem locked_source_read_fixed_witness:
  "primaryView (cloneExample ''src:1521/ORCL'' ''UTF8'') None = primaryView (cloneExample ''src:1521/ORCL'' []) None \<and>
   GetPrimaryDatabaseConnectString (cloneExample ''src:1521/ORCL'' []) None = ''src:1521/ORCL''"
proof -
  let ?s = "cloneExample ''src:1521/ORCL'' []" let ?t = "cloneExample ''src:1521/ORCL'' ''UTF8''"
  have l: "isPrimarySourceLocked ?s" by code_simp
  have a: "admits platformExample ?s ?t" by code_simp
  have v: "validatePrimarySourceSpec ?s ''clone'' = []" "validatePrimarySourceSpec ?t ''clone'' = []" "plainSource ?s" "plainSource ?t" by code_simp+
  have c: "GetPrimaryDatabaseConnectString ?s None = ''src:1521/ORCL''" by code_simp
  from locked_source_read_fixed [OF locked_history.update [OF locked_history.start [OF l] a] v] c show ?thesis by blast
qed

end
