(* ===== verification/Sidb_Preview.thy ===== *)
theory Sidb_Preview
  imports Sharding_Preview Sidb_Sources
begin

text \<open>
  The Data Guard topology that a standby of a single-instance database publishes in its status, to be copied into a
  \<^verbatim>\<open>DataguardBroker\<close> (the single-instance part of \<^verbatim>\<open>controllers/database/dataguard_preview_status.go\<close>). The parameters are
  those of \<^verbatim>\<open>Sharding_Preview\<close>: \<open>digest\<close>, \<open>setc\<close> and \<open>now\<close>. The theorems take the published topology to the webhook of the
  broker, and compare the lock that is published with the one that the webhook of the database reads.
\<close>


section \<open>Roles, secrets and endpoints\<close>

definition sidbPreviewMemberRole :: "SingleInstanceDatabase \<Rightarrow> string" where
  "sidbPreviewMemberRole m =
     (if ToLower (TrimSpace (sis_CreateAs (sidb_Spec m))) = ''standby'' then ''PHYSICAL_STANDBY'' else [])"

definition isPreviewStatusValuePopulated :: "string \<Rightarrow> bool" where
  "isPreviewStatusValuePopulated value = (let trimmed = TrimSpace value in trimmed \<noteq> [] \<and> trimmed \<noteq> ValueUnavailable)"

definition hasPreviewConditionTrue :: "Condition list \<Rightarrow> string \<Rightarrow> bool" where
  "hasPreviewConditionTrue conditions conditionType =
     list_ex (\<lambda>c. cond_Type c = conditionType \<and> cond_Status c = ConditionTrue) conditions"

definition sidbPreviewTopologyLocked :: "SingleInstanceDatabaseStatus \<Rightarrow> bool" where
  "sidbPreviewTopologyLocked st =
     (let createdAs = ToLower (TrimSpace (ss_CreatedAs st)) in
      if createdAs = ''clone'' then True
      else if createdAs = ''standby''
      then EqualFold (TrimSpace (ss_DatafilesCreated st)) ''true'' \<or>
           (isPreviewStatusValuePopulated (ss_Role st) \<and> \<not> EqualFold (TrimSpace (ss_Role st)) ''PRIMARY'')
      else if createdAs = ''truecache''
      then EqualFold (TrimSpace (ss_DatafilesCreated st)) ''true'' \<or>
           hasPreviewConditionTrue (ss_Conditions st) ''TrueCacheBlobSourceReady'' \<or>
           hasPreviewConditionTrue (ss_Conditions st) ''TrueCacheBlobReady''
      else False)"

definition buildSIDBPreviewLocalAdminSecretRef :: "SingleInstanceDatabase \<Rightarrow> string + DataguardSecretRef" where
  "buildSIDBPreviewLocalAdminSecretRef m =
     (case ResolveSIDBAdminSecretRef m of
        None \<Rightarrow> Inl (''singleinstancedatabase '' @ quoted (sidb_Name m) @ '' does not publish admin password secret metadata'')
      | Some (secretName, secretKey) \<Rightarrow> Inr \<lparr>dsr_SecretName = secretName, dsr_SecretKey = secretKey\<rparr>)"

definition buildSIDBPreviewEndpoints :: "SingleInstanceDatabase \<Rightarrow> string \<Rightarrow> string \<Rightarrow> DataguardEndpointSpec list" where
  "buildSIDBPreviewEndpoints m hostHint serviceHint =
     (let host = (if blank hostHint then sidb_Name m else TrimSpace hostHint);
          s1 = ToUpper (TrimSpace serviceHint);
          s2 = (if s1 = [] then ToUpper (TrimSpace (sis_Sid (sidb_Spec m))) else s1);
          serviceName = (if s2 = [] then ''ORCLCDB'' else s2) in
      endpointSpec ''tcp'' ''TCP'' host CONTAINER_LISTENER_PORT serviceName
      # (if getTcpsEnabled m then [endpointSpec ''tcps'' ''TCPS'' host (wrap32 (getTcpsListenerPort m)) serviceName] else []))"

definition previewTcps :: "string \<Rightarrow> DataguardTCPSConfig" where
  "previewTcps wallet = \<lparr>tcps_Enabled = True, tcps_ServerTLSSecret = [], tcps_ClientWalletSecret = wallet, tcps_WalletKey = [], tcps_SSLServerDN = []\<rparr>"

definition buildSIDBPreviewTCPSConfig :: "SingleInstanceDatabase \<Rightarrow> DataguardTCPSConfig option" where
  "buildSIDBPreviewTCPSConfig m =
     (if \<not> getTcpsEnabled m then None
      else
        (let override = TrimSpace (getTcpsClientWalletSecretOverride m) in
         Some (previewTcps
           (if override \<noteq> [] then override
            else if ss_IsTcpsEnabled (sidb_Status m) \<and> \<not> blank (ss_ClientWalletLoc (sidb_Status m))
            then TrimSpace (getDataguardClientWalletSecretName m)
            else []))))"

definition sidbSharedWalletMessage :: string where
  "sidbSharedWalletMessage = ''rendered DataguardBroker publishes topology.defaults.tcps.clientWalletSecret as a shared placeholder; replace it with the correct client wallet secret before applying DataguardBroker if TCPS members do not share the generated standby wallet''"

definition buildSIDBPreviewTopologyDefaults :: "SingleInstanceDatabase \<Rightarrow> DataguardTopologyDefaults option \<times> string list \<times> bool" where
  "buildSIDBPreviewTopologyDefaults m =
     (let (adminRef, adminMsgs, ready) =
            (case buildSIDBPreviewLocalAdminSecretRef m of
               Inr r \<Rightarrow> (Some (cloneDataguardSecretRef r), [], True)
             | Inl msg \<Rightarrow> if \<not> blank msg then (None, [msg], False) else (None, [], True));
          (tcps, tcpsMsgs) =
            (case buildSIDBPreviewTCPSConfig m of
               None \<Rightarrow> (None, [])
             | Some t \<Rightarrow>
                 if tcps_Enabled t
                 then (let walletSecret = TrimSpace (tcps_ClientWalletSecret t) in
                       if walletSecret = []
                       then (Some \<lparr>dtd_ClientWalletSecret = dataguardPreviewSharedWalletPlaceholder\<rparr>, [sidbSharedWalletMessage])
                       else (Some \<lparr>dtd_ClientWalletSecret = walletSecret\<rparr>, []))
                 else (None, [])) in
      (if adminRef = None \<and> tcps = None then None else Some \<lparr>dfl_AdminSecretRef = adminRef, dfl_TCPS = tcps\<rparr>, adminMsgs @ tcpsMsgs, ready))"

definition dataguardPreviewExternalPrimaryWalletPH :: string where
  "dataguardPreviewExternalPrimaryWalletPH = ''replace-with-primary-client-wallet-secret''"

definition buildSIDBPreviewExternalPrimaryTCPSPlaceholders ::
    "SingleInstanceDatabase \<Rightarrow> string \<Rightarrow> string \<Rightarrow> (DataguardEndpointSpec \<times> DataguardTCPSConfig) option" where
  "buildSIDBPreviewExternalPrimaryTCPSPlaceholders standby host service =
     (if \<not> getTcpsEnabled standby then None
      else
        (let p = wrap32 (getTcpsListenerPort standby); port = (if p = 0 then CONTAINER_TCPS_PORT else p) in
         Some (endpointSpec ''tcps'' ''TCPS'' (TrimSpace host) port (ToUpper (TrimSpace service)),
               previewTcps dataguardPreviewExternalPrimaryWalletPH)))"


section \<open>Members and topology\<close>

definition sidbLocalRef :: "SingleInstanceDatabase \<Rightarrow> DataguardLocalRef" where
  "sidbLocalRef m = \<lparr>lref_APIVersion = ''database.oracle.com/v4'', lref_Kind = ''SingleInstanceDatabase'',
     lref_Namespace = sidb_Namespace m, lref_Name = sidb_Name m\<rparr>"

definition hasAdminDefault :: "DataguardTopologyDefaults option \<Rightarrow> bool" where
  "hasAdminDefault defaults = (case Option.bind defaults dfl_AdminSecretRef of None \<Rightarrow> False | Some r \<Rightarrow> \<not> blank (dsr_SecretName r))"

definition hasWalletDefault :: "DataguardTopologyDefaults option \<Rightarrow> bool" where
  "hasWalletDefault defaults = (case Option.bind defaults dfl_TCPS of None \<Rightarrow> False | Some d \<Rightarrow> \<not> blank (dtd_ClientWalletSecret d))"

definition externalSecretMessage :: "string \<Rightarrow> bool \<Rightarrow> string" where
  "externalSecretMessage memberName defaulted = ''topology member '' @ quoted memberName @
     (if defaulted
      then '' is external; rendered DataguardBroker uses topology.defaults.adminSecretRef from the standby database, so add a member-level adminSecretRef only if the external primary uses different admin credentials''
      else '' is external; rendered DataguardBroker includes placeholder adminSecretRef values, so replace adminSecretRef.secretName with the correct admin password secret before applying DataguardBroker'')"

definition externalWalletMessage :: "string \<Rightarrow> bool \<Rightarrow> string" where
  "externalWalletMessage memberName defaulted = ''topology member '' @ quoted memberName @
     (if defaulted
      then '' inferred TCPS preview settings from standby TCPS configuration; rendered DataguardBroker uses topology.defaults.tcps.clientWalletSecret, so add a member-level tcps.clientWalletSecret only if the external primary requires a different client wallet''
      else '' inferred TCPS preview settings from standby TCPS configuration; replace tcps.clientWalletSecret placeholder with the correct primary client wallet secret before applying DataguardBroker'')"

definition externalPreviewMember ::
    "SingleInstanceDatabase \<Rightarrow> DataguardTopologyDefaults option \<Rightarrow> DataguardTopologyMember \<Rightarrow> string \<Rightarrow> int \<Rightarrow> string \<Rightarrow>
     DataguardTopologyMember \<times> string" where
  "externalPreviewMember m defaults member host port service =
     (let name = mem_Name member; tcp = endpointSpec ''tcp'' ''TCP'' host (wrap32 port) (ToUpper (TrimSpace service));
          m1 = member\<lparr>mem_Endpoints := [tcp],
                 mem_AdminSecretRef := (if hasAdminDefault defaults then None
                   else Some \<lparr>dsr_SecretName = ''replace-with-external-admin-secret'', dsr_SecretKey = ''password''\<rparr>)\<rparr>;
          msg1 = externalSecretMessage name (hasAdminDefault defaults) in
      case buildSIDBPreviewExternalPrimaryTCPSPlaceholders m host service of
        None \<Rightarrow> (m1, Join [msg1] ''; '')
      | Some (inferredEndpoint, inferredTCPS) \<Rightarrow>
          (m1\<lparr>mem_Endpoints := [tcp, inferredEndpoint],
              mem_TCPS := Some (if hasWalletDefault defaults then inferredTCPS\<lparr>tcps_ClientWalletSecret := []\<rparr> else inferredTCPS)\<rparr>,
           Join [msg1, externalWalletMessage name (hasWalletDefault defaults)] ''; ''))"

definition primaryMemberBase :: "SingleInstanceDatabase \<Rightarrow> SingleInstanceDatabase option \<Rightarrow> DataguardTopologyMember" where
  "primaryMemberBase m rp =
     \<lparr>mem_Name = sanitizeDataguardMemberName (GetPrimaryDatabaseDisplayName m rp) ''primary'', mem_Role = ''PRIMARY'',
      mem_DBUniqueName = ToUpper (TrimSpace (GetPrimaryDatabaseSid m rp)), mem_LocalRef = None, mem_AdminSecretRef = None,
      mem_Endpoints = [], mem_TCPS = None\<rparr>"

text \<open>The primary referred to by name: with its own secret unless it is the default, or without one and not ready.\<close>

definition localPrimaryMember ::
    "DataguardTopologyDefaults option \<Rightarrow> DataguardTopologyMember \<Rightarrow> SingleInstanceDatabase \<Rightarrow> DataguardTopologyMember \<times> string \<times> bool" where
  "localPrimaryMember defaults member p =
     (let m1 = member\<lparr>mem_LocalRef := Some (sidbLocalRef p),
                mem_Endpoints := buildSIDBPreviewEndpoints p (sidb_Name p) (TrimSpace (sis_Sid (sidb_Spec p))),
                mem_TCPS := buildSIDBPreviewTCPSConfig p\<rparr> in
      case buildSIDBPreviewLocalAdminSecretRef p of
        Inr r \<Rightarrow> (underDefaults defaults (m1\<lparr>mem_AdminSecretRef := Some r\<rparr>), [], True)
      | Inl msg \<Rightarrow> (m1, msg, False))"

text \<open>No member is \<open>None\<close>: no source yet, or one without a host or a service.\<close>

definition buildSIDBPreviewPrimaryMember ::
    "SingleInstanceDatabase \<Rightarrow> SingleInstanceDatabase option \<Rightarrow> DataguardTopologyDefaults option \<Rightarrow>
     (DataguardTopologyMember \<times> string \<times> bool) option" where
  "buildSIDBPreviewPrimaryMember m rp defaults =
     (let source = resolvePrimaryDatabaseSource m; member = primaryMemberBase m rp;
          host = GetPrimaryDatabaseHost m rp; port = GetPrimaryDatabasePort m; service = GetPrimaryDatabaseSid m rp;
          external = (if blank host \<or> blank service then None
            else (case externalPreviewMember m defaults member host port service of (mem, msg) \<Rightarrow> Some (mem, msg, True))) in
      if \<not> sidbHasSource source then None
      else (case rp of
              Some p \<Rightarrow> if isLocalReference source then Some (localPrimaryMember defaults member p) else external
            | None \<Rightarrow> external))"

definition standbyPreviewMember :: "SingleInstanceDatabase \<Rightarrow> DataguardTopologyMember" where
  "standbyPreviewMember m =
     \<lparr>mem_Name = sanitizeDataguardMemberName (sidb_Name m) ''sidb-member'', mem_Role = sidbPreviewMemberRole m,
      mem_DBUniqueName = ToUpper (TrimSpace (sis_Sid (sidb_Spec m))), mem_LocalRef = Some (sidbLocalRef m), mem_AdminSecretRef = None,
      mem_Endpoints = buildSIDBPreviewEndpoints m (sidb_Name m) (TrimSpace (sis_Sid (sidb_Spec m))),
      mem_TCPS = buildSIDBPreviewTCPSConfig m\<rparr>"

record sidbPreview =
  spv_Topology :: "DataguardTopologySpec option"
  spv_MemberName :: string
  spv_PrimaryMemberName :: string
  spv_Message :: string
  spv_Ready :: bool

definition buildSIDBPreviewTopology :: "SingleInstanceDatabase \<Rightarrow> SingleInstanceDatabase option \<Rightarrow> sidbPreview" where
  "buildSIDBPreviewTopology m rp =
     (if sidbPreviewMemberRole m = []
      then \<lparr>spv_Topology = None, spv_MemberName = [], spv_PrimaryMemberName = [], spv_Message = [], spv_Ready = False\<rparr>
      else
        (let memberName = sanitizeDataguardMemberName (sidb_Name m) ''sidb-member'';
             (defaults, defaultMessages, defaultsReady) = buildSIDBPreviewTopologyDefaults m;
             member = underDefaults defaults (standbyPreviewMember m) in
         case buildSIDBPreviewPrimaryMember m rp defaults of
           None \<Rightarrow> \<lparr>spv_Topology = None, spv_MemberName = memberName, spv_PrimaryMemberName = [], spv_Message = [], spv_Ready = False\<rparr>
         | Some (primaryMember, primaryMessage, primaryReady) \<Rightarrow>
             \<lparr>spv_Topology = Some \<lparr>top_SourceKind = ''SingleInstanceDatabase'',
                top_SourceRef = Some \<lparr>src_APIVersion = ''database.oracle.com/v4'', src_Kind = ''SingleInstanceDatabase'',
                  src_Namespace = sidb_Namespace m, src_Name = sidb_Name m\<rparr>,
                top_Policy = None, top_Defaults = defaults, top_Members = [primaryMember, member], top_Observer = None\<rparr>,
              spv_MemberName = memberName, spv_PrimaryMemberName = mem_Name primaryMember,
              spv_Message = Join (defaultMessages @ (if blank primaryMessage then [] else [primaryMessage])) ''; '',
              spv_Ready = (defaultsReady \<and> primaryReady)\<rparr>))"

definition cloneOrDefaultDataguardAuthWalletSpec :: "DataguardProducerSpec option \<Rightarrow> DataguardAuthWalletSpec" where
  "cloneOrDefaultDataguardAuthWalletSpec spec =
     (case cloneDataguardAuthWalletSpec spec of
        Some w \<Rightarrow> w
      | None \<Rightarrow> \<lparr>awl_Enabled = True, awl_PasswordSecretRef = None, awl_RebuildToken = []\<rparr>)"

text \<open>The wallet is never nil, so the early return of \<^verbatim>\<open>buildSIDBPreviewExecutionStatus\<close> is never taken.\<close>

definition buildSIDBPreviewExecutionStatus :: "SingleInstanceDatabase \<Rightarrow> DataguardExecutionStatus option" where
  "buildSIDBPreviewExecutionStatus m =
     (let secret = TrimSpace (img_PullSecrets (sis_Image (sidb_Spec m))) in
      Some \<lparr>exs_Image = TrimSpace (img_PullFrom (sis_Image (sidb_Spec m))), exs_ImagePullSecrets = (if secret = [] then [] else [secret]),
            exs_AuthWallet = Some (cloneOrDefaultDataguardAuthWalletSpec (sis_Dataguard (sidb_Spec m)))\<rparr>)"


section \<open>Publication\<close>

definition publishSIDBPreview ::
    "(Condition list \<Rightarrow> Condition \<Rightarrow> Condition list) \<Rightarrow> int \<Rightarrow> (DataguardTopologySpec \<Rightarrow> string) \<Rightarrow> SingleInstanceDatabase \<Rightarrow> sidbPreview \<Rightarrow>
     ProducerDataguardStatus \<Rightarrow> ProducerDataguardStatus" where
  "publishSIDBPreview setc now digest m pv next =
     (let cond = (\<lambda>ready reason msg. setDataguardPreviewCondition setc now (sidb_Generation m) ready reason msg (pds_Conditions next)) in
      case spv_Topology pv of
        None \<Rightarrow>
          next\<lparr>pds_RenderedBrokerSpec := None, pds_Phase := ''WaitingForPrimarySource'', pds_ReadyForBroker := False, pds_TopologyHash := [],
            pds_LastPublishedTime := None, pds_PublishedTopologyHash := [],
            pds_Conditions := cond False ''WaitingForPrimarySource'' (orDefault (spv_Message pv) ''resolved Data Guard topology is not ready yet'')\<rparr>
      | Some topology \<Rightarrow>
          let hash = dataguardTopologyHash digest topology;
              rendered = buildRenderedBrokerPreviewStatus now (sidb_Name m) (sidb_Namespace m) (Some topology)
                (buildSIDBPreviewExecutionStatus m) hash (spv_Ready pv) in
          if spv_Ready pv
          then next\<lparr>pds_RenderedBrokerSpec := rendered, pds_Phase := ''PreviewReady'', pds_ReadyForBroker := True, pds_TopologyHash := hash,
                 pds_LastPublishedTime := Some now, pds_PublishedTopologyHash := hash,
                 pds_Conditions := cond True ''PreviewReady'' (dataguardPreviewReadyMessage (spv_Message pv))\<rparr>
          else next\<lparr>pds_RenderedBrokerSpec := rendered, pds_Phase := ''WaitingForUserInput'', pds_ReadyForBroker := False,
                 pds_TopologyHash := hash, pds_LastPublishedTime := None, pds_PublishedTopologyHash := [],
                 pds_Conditions := cond False ''WaitingForUserInput''
                   (orDefault (spv_Message pv) ''resolved Data Guard topology requires additional user input before it can be copied into DataguardBroker.spec.topology'')\<rparr>)"

definition syncSIDBDataguardPreviewStatus ::
    "(Condition list \<Rightarrow> Condition \<Rightarrow> Condition list) \<Rightarrow> int \<Rightarrow> (DataguardTopologySpec \<Rightarrow> string) \<Rightarrow> SingleInstanceDatabase \<Rightarrow>
     SingleInstanceDatabase option \<Rightarrow> SingleInstanceDatabase" where
  "syncSIDBDataguardPreviewStatus setc now digest m rp =
     (let mode = EffectiveDataguardProducerMode (sis_Dataguard (sidb_Spec m)); st = sidb_Status m;
          next0 = (case ss_Dataguard st of
             None \<Rightarrow> zeroProducerDataguardStatus
           | Some current \<Rightarrow> zeroProducerDataguardStatus\<lparr>pds_BrokerRef := pds_BrokerRef current, pds_Conditions := pds_Conditions current\<rparr>);
          cond = (\<lambda>reason msg. setDataguardPreviewCondition setc now (sidb_Generation m) False reason msg (pds_Conditions next0));
          pv = buildSIDBPreviewTopology m rp;
          new =
            (if mode = DataguardProducerModeDisabled then None
             else if mode = DataguardProducerModeManaged
             then Some (next0\<lparr>pds_Phase := ''ManagedNotImplemented'', pds_ReadyForBroker := False,
               pds_Conditions := cond ''ManagedNotImplemented'' ''Managed mode is reserved for future DataguardBroker automation''\<rparr>)
             else if sidbPreviewMemberRole m = []
             then Some (next0\<lparr>pds_Phase := ''NotApplicable'', pds_ReadyForBroker := False,
               pds_Conditions := cond ''NotApplicable'' ''Data Guard preview is not applicable for this createAs mode''\<rparr>)
             else Some (publishSIDBPreview setc now digest m pv
               (next0\<lparr>pds_MemberName := spv_MemberName pv, pds_PrimaryMemberName := spv_PrimaryMemberName pv,
                  pds_Role := sidbPreviewMemberRole m, pds_DBUniqueName := ToUpper (TrimSpace (sis_Sid (sidb_Spec m))),
                  pds_Endpoints := buildSIDBPreviewEndpoints m (sidb_Name m) (TrimSpace (sis_Sid (sidb_Spec m))),
                  pds_TCPS := buildSIDBPreviewTCPSConfig m, pds_TopologyLocked := sidbPreviewTopologyLocked st\<rparr>)))
      in m\<lparr>sidb_Status := st\<lparr>ss_Dataguard := new\<rparr>\<rparr>)"


section \<open>The published lock\<close>

lemma hasPreviewConditionTrue_unique:
  "distinct (map cond_Type cs) \<Longrightarrow> hasPreviewConditionTrue cs ty = isConditionTrue cs ty"
proof (induction cs)
  case (Cons a cs)
  then have "cond_Type a \<notin> cond_Type ` set cs" by simp
  then have "cond_Type c \<noteq> cond_Type a" if "c \<in> set cs" for c using that by (metis image_eqI)
  then show ?case
    using Cons by (cases "cond_Type a = ty") (auto simp: hasPreviewConditionTrue_def isConditionTrue_def list_ex_iff)
qed (simp add: hasPreviewConditionTrue_def isConditionTrue_def)

lemma preview_lock_agrees:
  "distinct (map cond_Type (ss_Conditions st)) \<Longrightarrow> sidbPreviewTopologyLocked st = createdSourceLocked st"
  by (simp add: sidbPreviewTopologyLocked_def createdSourceLocked_def hasPreviewConditionTrue_unique isPreviewStatusValuePopulated_def
      isPopulatedStatusValue_def Let_def)

lemma published_locked:
  assumes "ss_Dataguard (sidb_Status (syncSIDBDataguardPreviewStatus setc now digest m rp)) = Some dg" and "pds_TopologyLocked dg"
  shows "sidbPreviewTopologyLocked (sidb_Status m)"
  using assms
  by (auto simp: syncSIDBDataguardPreviewStatus_def publishSIDBPreview_def zeroProducerDataguardStatus_def Let_def split: if_splits option.splits)

lemma createdSourceLocked_dataguard [simp]: "createdSourceLocked (st\<lparr>ss_Dataguard := d\<rparr>) = createdSourceLocked st"
  by (simp add: createdSourceLocked_def)

lemma sync_status:
  "sidb_Status (syncSIDBDataguardPreviewStatus setc now digest m rp) =
     (sidb_Status m)\<lparr>ss_Dataguard := ss_Dataguard (sidb_Status (syncSIDBDataguardPreviewStatus setc now digest m rp))\<rparr>"
  by (simp add: syncSIDBDataguardPreviewStatus_def Let_def)


section \<open>The preview before the webhook of the broker\<close>

lemma sidb_sync_ready:
  assumes "ss_Dataguard (sidb_Status (syncSIDBDataguardPreviewStatus setc now digest m rp)) = Some dg" and "pds_ReadyForBroker dg"
  obtains t where "sidbPreviewMemberRole m \<noteq> []" and "spv_Topology (buildSIDBPreviewTopology m rp) = Some t"
    and "spv_Ready (buildSIDBPreviewTopology m rp)"
    and "Option.bind (pds_RenderedBrokerSpec dg) rbr_Spec =
      Some \<lparr>rbs_Execution = renderedExecution (buildSIDBPreviewExecutionStatus m), rbs_Topology = Some t\<rparr>"
  using assms
  by (auto simp: syncSIDBDataguardPreviewStatus_def publishSIDBPreview_def zeroProducerDataguardStatus_def buildRenderedBrokerPreviewStatus_def
      Let_def split: if_splits option.splits)

lemma resolved_secret_named: "ResolveSIDBAdminSecretRef m = Some (n, k) \<Longrightarrow> \<not> blank n"
  by (auto simp: ResolveSIDBAdminSecretRef_def resolveSIDBAdminPasswordRef_def Let_def bind_eq_Some_conv split: option.splits if_splits)

lemma local_secret_named: "buildSIDBPreviewLocalAdminSecretRef m = Inr r \<Longrightarrow> \<not> blank (dsr_SecretName r)"
  using resolved_secret_named by (auto simp: buildSIDBPreviewLocalAdminSecretRef_def split: option.splits)

text \<open>The defaults of a ready preview name a secret, and a wallet when the standby uses TCPS.\<close>

lemma sidb_ready_defaults:
  assumes "buildSIDBPreviewTopologyDefaults m = (defaults, msgs, True)"
  shows "hasAdminDefault defaults" and "getTcpsEnabled m \<Longrightarrow> hasWalletDefault defaults"
proof -
  have "\<not> blank (''singleinstancedatabase '' @ x)" for x by (simp add: blank_iff_spaces is_space_def)
  then obtain r where r: "buildSIDBPreviewLocalAdminSecretRef m = Inr r"
    using assms by (auto simp: buildSIDBPreviewTopologyDefaults_def buildSIDBPreviewLocalAdminSecretRef_def Let_def split: option.splits prod.splits)
  have ph: "\<not> blank dataguardPreviewSharedWalletPlaceholder" by (simp add: dataguardPreviewSharedWalletPlaceholder_def blank_iff_spaces is_space_def)
  show "hasAdminDefault defaults"
    using assms local_secret_named [OF r]
    by (auto simp: buildSIDBPreviewTopologyDefaults_def hasAdminDefault_def cloneDataguardSecretRef_def r Let_def split: prod.splits)
  show "getTcpsEnabled m \<Longrightarrow> hasWalletDefault defaults"
    using assms ph
    by (auto simp: buildSIDBPreviewTopologyDefaults_def hasWalletDefault_def buildSIDBPreviewTCPSConfig_def previewTcps_def r Let_def split: prod.splits if_splits)
qed

lemma hasWalletDefault_resolves:
  "hasWalletDefault (top_Defaults t) \<Longrightarrow> ResolveDataguardTopologyMemberClientWalletSecret t mem \<noteq> []"
  by (auto simp: hasWalletDefault_def ResolveDataguardTopologyMemberClientWalletSecret_def Let_def split: option.splits)

lemma hasAdminDefault_authenticated:
  assumes "hasAdminDefault (top_Defaults t)" and "\<And>r. mem_AdminSecretRef mem = Some r \<Longrightarrow> \<not> blank (dsr_SecretName r)"
  shows "authenticated ns t mem"
  using assms by (auto simp: hasAdminDefault_def authenticated_def ResolveDataguardTopologyMemberExplicitAdminSecretRef_def split: option.splits)

text \<open>The members of a ready preview: what is left to check is the shape of names, endpoints and wallets.\<close>

definition previewShape :: "DataguardTopologyMember \<Rightarrow> bool" where
  "previewShape mem \<longleftrightarrow>
     cleanName (mem_Name mem) \<and> mem_Role mem \<in> {''PRIMARY'', ''PHYSICAL_STANDBY''} \<and> mem_Endpoints mem \<noteq> [] \<and>
     (\<forall>ref. mem_LocalRef mem = Some ref \<longrightarrow> \<not> blank (lref_Name ref)) \<and>
     (\<forall>r. mem_AdminSecretRef mem = Some r \<longrightarrow> \<not> blank (dsr_SecretName r)) \<and>
     (\<forall>c. mem_TCPS mem = Some c \<longrightarrow> tcps_Enabled c \<and> tcps_SSLServerDN c = [] \<and> tcpsEndpointCount (mem_Endpoints mem) > 0)"

definition shapedMember :: "DataguardTopologySpec \<Rightarrow> DataguardTopologyMember \<Rightarrow> bool" where
  "shapedMember t mem \<longleftrightarrow>
     ValidateDataguardDBUniqueName (resolvedDBUniqueName mem) = None \<and> list_all soundEndpoint (mem_Endpoints mem) \<and>
     (mem_TCPS mem \<noteq> None \<longrightarrow> ResolveDataguardTopologyMemberClientWalletSecret t mem \<noteq> [])"

lemma previewShape_sound:
  assumes "previewShape mem" and "hasAdminDefault (top_Defaults t)"
  shows "soundMember ns t mem \<longleftrightarrow> shapedMember t mem"
proof -
  note s = assms(1) [unfolded previewShape_def]
  have "isValidDataguardMemberRole (mem_Role mem)"
    using s by (auto simp: isValidDataguardMemberRole_def normalizeDataguardMemberRole_def go_eval)
  moreover have "authenticated ns t mem" using s by (intro hasAdminDefault_authenticated [OF assms(2)]) blast
  ultimately show ?thesis
    unfolding soundMember_def shapedMember_def using s clean_facts [of "mem_Name mem"] by auto
qed

lemma endpoints_shape:
  "buildSIDBPreviewEndpoints m h s \<noteq> []" "getTcpsEnabled m \<Longrightarrow> 0 < tcpsEndpointCount (buildSIDBPreviewEndpoints m h s)"
  by (simp_all add: buildSIDBPreviewEndpoints_def tcpsEndpointCount_def endpointSpec_def Let_def go_eval)

lemma underDefaults_shape: "previewShape mem \<Longrightarrow> previewShape (underDefaults d mem)"
  by (auto simp: previewShape_def underDefaults_def Let_def split: option.splits prod.splits if_splits)

lemma tcpsConfig_enabled: "buildSIDBPreviewTCPSConfig m = Some c \<Longrightarrow> getTcpsEnabled m \<and> tcps_Enabled c \<and> tcps_SSLServerDN c = []"
  by (auto simp: buildSIDBPreviewTCPSConfig_def previewTcps_def Let_def split: if_splits)

lemma standby_shape: "\<not> blank (sidb_Name m) \<Longrightarrow> sidbPreviewMemberRole m \<noteq> [] \<Longrightarrow> previewShape (standbyPreviewMember m)"
  using tcpsConfig_enabled endpoints_shape clean_sanitize
  by (auto simp: previewShape_def standbyPreviewMember_def sidbLocalRef_def sidbPreviewMemberRole_def)

lemma local_primary_shape:
  assumes "\<not> blank (sidb_Name p)" and "localPrimaryMember d (primaryMemberBase m rp) p = (mem, msg, ok)"
  shows "previewShape mem \<and> mem_Role mem = ''PRIMARY''"
proof -
  let ?m1 = "(primaryMemberBase m rp)\<lparr>mem_LocalRef := Some (sidbLocalRef p),
    mem_Endpoints := buildSIDBPreviewEndpoints p (sidb_Name p) (TrimSpace (sis_Sid (sidb_Spec p))), mem_TCPS := buildSIDBPreviewTCPSConfig p\<rparr>"
  have s: "previewShape (?m1\<lparr>mem_AdminSecretRef := r\<rparr>)" if "\<And>x. r = Some x \<Longrightarrow> \<not> blank (dsr_SecretName x)" for r
    using that assms(1) tcpsConfig_enabled endpoints_shape clean_sanitize by (auto simp: previewShape_def primaryMemberBase_def sidbLocalRef_def)
  show ?thesis
  proof (cases "buildSIDBPreviewLocalAdminSecretRef p")
    case (Inl x)
    then have "mem = ?m1\<lparr>mem_AdminSecretRef := None\<rparr>" using assms(2) by (auto simp: localPrimaryMember_def primaryMemberBase_def Let_def)
    then show ?thesis using s [of None] by (simp add: primaryMemberBase_def)
  next
    case (Inr r)
    then have "mem = underDefaults d (?m1\<lparr>mem_AdminSecretRef := Some r\<rparr>)" using assms(2) by (simp add: localPrimaryMember_def Let_def)
    then show ?thesis using s [of "Some r"] local_secret_named [OF Inr] underDefaults_shape by (simp add: primaryMemberBase_def)
  qed
qed

lemma external_primary_shape:
  assumes "externalPreviewMember m d (primaryMemberBase m rp) host port service = (mem, msg)"
  shows "previewShape mem \<and> mem_Role mem = ''PRIMARY'' \<and> (mem_TCPS mem \<noteq> None \<longrightarrow> getTcpsEnabled m)"
proof -
  have "\<not> blank ''replace-with-external-admin-secret''" by (simp add: blank_iff_spaces is_space_def)
  then show ?thesis
    using assms clean_sanitize
    by (auto simp: externalPreviewMember_def previewShape_def primaryMemberBase_def buildSIDBPreviewExternalPrimaryTCPSPlaceholders_def previewTcps_def
        tcpsEndpointCount_def endpointSpec_def Let_def go_eval split: if_splits)
qed

lemma sidb_preview_members:
  assumes "spv_Topology (buildSIDBPreviewTopology m rp) = Some t" and "spv_Ready (buildSIDBPreviewTopology m rp)"
    and "\<not> blank (sidb_Name m)" and "\<And>p. rp = Some p \<Longrightarrow> \<not> blank (sidb_Name p)"
  obtains prim where "top_Members t = [prim, underDefaults (top_Defaults t) (standbyPreviewMember m)]" and "mem_Role prim = ''PRIMARY''"
    and "previewShape prim" and "previewShape (underDefaults (top_Defaults t) (standbyPreviewMember m))"
    and "hasAdminDefault (top_Defaults t)" and "top_Policy t = None" and "top_Observer t = None"
    and "sidbPreviewMemberRole m \<noteq> []"
proof -
  obtain d msgs ok where d: "buildSIDBPreviewTopologyDefaults m = (d, msgs, ok)" by (metis prod_cases3)
  have role: "sidbPreviewMemberRole m \<noteq> []" using assms(1) by (auto simp: buildSIDBPreviewTopology_def)
  obtain prim pmsg pok where p: "buildSIDBPreviewPrimaryMember m rp d = Some (prim, pmsg, pok)"
    using assms(1) role d by (auto simp: buildSIDBPreviewTopology_def Let_def split: option.splits)
  have t: "top_Members t = [prim, underDefaults d (standbyPreviewMember m)]" "top_Defaults t = d" "top_Policy t = None" "top_Observer t = None" "ok"
    using assms(1,2) role d p by (auto simp: buildSIDBPreviewTopology_def Let_def)
  have "previewShape prim \<and> mem_Role prim = ''PRIMARY''"
    using p assms(4) local_primary_shape external_primary_shape
    by (auto simp: buildSIDBPreviewPrimaryMember_def Let_def split: option.splits if_splits prod.splits)
  then show ?thesis
    using that [of prim] t role sidb_ready_defaults(1) [of m d msgs] d underDefaults_shape [OF standby_shape [OF assms(3) role]] by simp
qed


section \<open>Properties\<close>

lemma sidb_topology_Nil_iff:
  assumes "spv_Topology (buildSIDBPreviewTopology m rp) = Some t" and "spv_Ready (buildSIDBPreviewTopology m rp)"
    and "\<not> blank (sidb_Name m)" and "\<And>p. rp = Some p \<Longrightarrow> \<not> blank (sidb_Name p)"
  shows "validateDataguardTopology ns t = [] \<longleftrightarrow>
    distinct (map nameKey (top_Members t)) \<and> distinct (map dbKey (top_Members t)) \<and> list_all (shapedMember t) (top_Members t)"
proof -
  obtain prim where t: "top_Members t = [prim, underDefaults (top_Defaults t) (standbyPreviewMember m)]" and r: "mem_Role prim = ''PRIMARY''"
    and s: "previewShape prim" "previewShape (underDefaults (top_Defaults t) (standbyPreviewMember m))"
    and d: "hasAdminDefault (top_Defaults t)" "top_Policy t = None" "top_Observer t = None" and m: "sidbPreviewMemberRole m \<noteq> []"
    by (rule sidb_preview_members [OF assms]) blast+
  have "mem_Role (standbyPreviewMember m) = ''PHYSICAL_STANDBY''"
    using m by (simp add: standbyPreviewMember_def sidbPreviewMemberRole_def split: if_splits)
  then have "length (filter isPrimaryMember (top_Members t)) = 1"
    unfolding t using r by (simp add: isPrimaryMember_def normalizeDataguardMemberRole_def go_eval)
  moreover have "soundSettings t"
    using d by (auto simp: soundSettings_def hasAdminDefault_def split: option.splits)
  moreover have "soundMember ns t mem \<longleftrightarrow> shapedMember t mem" if "mem \<in> set (top_Members t)" for mem
    using that s previewShape_sound [OF _ d(1)] unfolding t by auto
  ultimately show ?thesis
    unfolding topology_Nil_iff policyErrs_Nil_iff memberErrs_Nil_iff list_all_length by auto
qed

lemma sidb_execution_Nil_iff:
  assumes "dbs_Execution spec = renderedExecution (buildSIDBPreviewExecutionStatus m)" and "dbs_Topology spec = Some t"
  shows "validateDataguardExecution spec = [] \<longleftrightarrow>
    (blank (img_PullFrom (sis_Image (sidb_Spec m))) \<longrightarrow>
       blank (img_PullSecrets (sis_Image (sidb_Spec m))) \<and> \<not> list_ex memberRequiresRuntime (top_Members t)) \<and>
    (\<forall>r. awl_PasswordSecretRef (cloneOrDefaultDataguardAuthWalletSpec (sis_Dataguard (sidb_Spec m))) = Some r \<longrightarrow> \<not> blank (dsr_SecretName r))"
  using assms
  by (auto simp: validateDataguardExecution_def renderedExecution_def buildSIDBPreviewExecutionStatus_def renderedBrokerExecutionSpecHasContent_def
      dataguardTopologyRequiresExecutionRuntime_def range_errs_Nil_iff Let_def split: option.splits)

text \<open>
  C31: from the standby to the broker. When the controller publishes the preview of a standby as ready, the webhook of
  \<^verbatim>\<open>DataguardBroker\<close> accepts the rendered specification exactly when the two members have different names and different unique
  names, the unique names and endpoints have an acceptable shape, a wallet is known for every member with TCPS, an image is
  set if one is needed, and the authentication wallet names its secret properly. Roles, credentials and settings are always
  right.
\<close>

theorem sidb_ready_preview_accepted_iff:
  assumes "ss_Dataguard (sidb_Status (syncSIDBDataguardPreviewStatus setc now digest m rp)) = Some dg" and "pds_ReadyForBroker dg"
    and "Option.bind (pds_RenderedBrokerSpec dg) rbr_Spec = Some rs" and "rbs_Topology rs = Some t"
    and "\<not> blank (sidb_Name m)" and "\<And>p. rp = Some p \<Longrightarrow> \<not> blank (sidb_Name p)"
    and "brk_Spec b = zeroBrokerSpec\<lparr>dbs_Execution := rbs_Execution rs, dbs_Topology := Some t\<rparr>"
  shows "DataguardBroker_ValidateCreate b = [] \<longleftrightarrow>
    distinct (map nameKey (top_Members t)) \<and> distinct (map dbKey (top_Members t)) \<and> list_all (shapedMember t) (top_Members t) \<and>
    (blank (img_PullFrom (sis_Image (sidb_Spec m))) \<longrightarrow>
       blank (img_PullSecrets (sis_Image (sidb_Spec m))) \<and> \<not> list_ex memberRequiresRuntime (top_Members t)) \<and>
    (\<forall>r. awl_PasswordSecretRef (cloneOrDefaultDataguardAuthWalletSpec (sis_Dataguard (sidb_Spec m))) = Some r \<longrightarrow> \<not> blank (dsr_SecretName r))"
proof -
  obtain t' where p: "spv_Topology (buildSIDBPreviewTopology m rp) = Some t'" "spv_Ready (buildSIDBPreviewTopology m rp)"
    and r: "rs = \<lparr>rbs_Execution = renderedExecution (buildSIDBPreviewExecutionStatus m), rbs_Topology = Some t'\<rparr>"
    using sidb_sync_ready [OF assms(1,2)] assms(3) by (metis option.inject)
  have t: "t' = t" using r assms(4) by simp
  note top = sidb_topology_Nil_iff [OF p [unfolded t] assms(5,6)]
  have exec: "validateDataguardExecution (brk_Spec b) = [] \<longleftrightarrow>
    (blank (img_PullFrom (sis_Image (sidb_Spec m))) \<longrightarrow>
       blank (img_PullSecrets (sis_Image (sidb_Spec m))) \<and> \<not> list_ex memberRequiresRuntime (top_Members t)) \<and>
    (\<forall>r. awl_PasswordSecretRef (cloneOrDefaultDataguardAuthWalletSpec (sis_Dataguard (sidb_Spec m))) = Some r \<longrightarrow> \<not> blank (dsr_SecretName r))"
    by (rule sidb_execution_Nil_iff) (simp_all add: assms(7) r)
  have "validateNoMixedTopologyAndLegacy (brk_Spec b) = []" "validateDataguardBrokerOperations (brk_Spec b) = []"
    by (simp_all add: assms(7) validateNoMixedTopologyAndLegacy_def validateDataguardBrokerOperations_def zeroBrokerSpec_def)
  then show ?thesis
    unfolding DataguardBroker_ValidateCreate_def validateDataguardBroker_def using top exec assms(7) by auto
qed

definition standbyOf :: "SingleInstanceDatabaseSecurity option \<Rightarrow> SingleInstanceDatabase" where
  "standbyOf security = zeroSidb\<lparr>sidb_Name := ''stby'', sidb_Namespace := ''ns'', sidb_Spec := zeroSidbSpec\<lparr>sis_CreateAs := ''standby'', sis_Sid := ''STBY'',
     sis_PrimarySource := Some (connectSourceOf ''prim:1521/PRIM''), sis_Security := security,
     sis_AdminPassword := zeroSidbAdminPassword\<lparr>adm_SecretName := ''adm''\<rparr>, sis_Image := zeroSidbImage\<lparr>img_PullFrom := ''img''\<rparr>\<rparr>\<rparr>"

definition tcpsSecurity :: SingleInstanceDatabaseSecurity where
  "tcpsSecurity = \<lparr>scy_TCPS = Some \<lparr>stc_Enabled = True, stc_TlsSecret = ''tls'', stc_ClientWalletSecret = ''wallet'', stc_CertRenewInterval = [],
     stc_CertMountLocation = []\<rparr>, scy_Secrets = None\<rparr>"

definition syncedStandby :: "SingleInstanceDatabaseSecurity option \<Rightarrow> ProducerDataguardStatus" where
  "syncedStandby security =
     the (ss_Dataguard (sidb_Status (syncSIDBDataguardPreviewStatus keepConditions 7 (\<lambda>_. ''h'') (standbyOf security) None)))"

definition renderedStandby :: "SingleInstanceDatabaseSecurity option \<Rightarrow> DataguardRenderedBrokerSpec" where
  "renderedStandby security = the (Option.bind (pds_RenderedBrokerSpec (syncedStandby security)) rbr_Spec)"

definition brokerFor :: "DataguardRenderedBrokerSpec \<Rightarrow> DataguardBroker" where
  "brokerFor rs = \<lparr>brk_Name = ''b'', brk_Namespace = ''ns'', brk_Generation = 1,
     brk_Spec = zeroBrokerSpec\<lparr>dbs_Execution := rbs_Execution rs, dbs_Topology := Some (the (rbs_Topology rs))\<rparr>, brk_Status = zeroBrokerStatus\<rparr>"

lemma standby_evaluation:
  assumes "security = None \<or> security = Some tcpsSecurity"
  shows "ss_Dataguard (sidb_Status (syncSIDBDataguardPreviewStatus keepConditions 7 (\<lambda>_. ''h'') (standbyOf security) None)) = Some (syncedStandby security)"
    and "pds_ReadyForBroker (syncedStandby security)"
    and "Option.bind (pds_RenderedBrokerSpec (syncedStandby security)) rbr_Spec = Some (renderedStandby security)"
    and "rbs_Topology (renderedStandby security) = Some (the (rbs_Topology (renderedStandby security)))"
    and "\<not> blank (sidb_Name (standbyOf security))"
proof -
  have "(let x = ss_Dataguard (sidb_Status (syncSIDBDataguardPreviewStatus keepConditions 7 (\<lambda>_. ''h'') (standbyOf s) None)) in
     x \<noteq> None \<and> pds_ReadyForBroker (the x) \<and> Option.bind (pds_RenderedBrokerSpec (the x)) rbr_Spec \<noteq> None \<and>
     rbs_Topology (the (Option.bind (pds_RenderedBrokerSpec (the x)) rbr_Spec)) \<noteq> None \<and> \<not> blank (sidb_Name (standbyOf s)))"
    if "s = None \<or> s = Some tcpsSecurity" for s
    using that by (elim disjE; hypsubst) (code_simp)+
  then show "ss_Dataguard (sidb_Status (syncSIDBDataguardPreviewStatus keepConditions 7 (\<lambda>_. ''h'') (standbyOf security) None)) = Some (syncedStandby security)"
    "pds_ReadyForBroker (syncedStandby security)"
    "Option.bind (pds_RenderedBrokerSpec (syncedStandby security)) rbr_Spec = Some (renderedStandby security)"
    "rbs_Topology (renderedStandby security) = Some (the (rbs_Topology (renderedStandby security)))" "\<not> blank (sidb_Name (standbyOf security))"
    using assms unfolding renderedStandby_def syncedStandby_def Let_def by auto
qed

theorem sidb_ready_preview_accepted_iff_witness:
  "pds_ReadyForBroker (syncedStandby None) \<and> DataguardBroker_ValidateCreate (brokerFor (renderedStandby None)) = []"
proof -
  let ?t = "the (rbs_Topology (renderedStandby None))"
  note e = standby_evaluation [of None, OF disjI1 [OF refl]]
  have c: "distinct (map nameKey (top_Members ?t)) \<and> distinct (map dbKey (top_Members ?t)) \<and> list_all (shapedMember ?t) (top_Members ?t)" by code_simp
  have i: "\<not> blank (img_PullFrom (sis_Image (sidb_Spec (standbyOf None))))" "awl_PasswordSecretRef (cloneOrDefaultDataguardAuthWalletSpec (sis_Dataguard (sidb_Spec (standbyOf None)))) = None"
    by code_simp+
  have b: "brk_Spec (brokerFor (renderedStandby None)) = zeroBrokerSpec\<lparr>dbs_Execution := rbs_Execution (renderedStandby None), dbs_Topology := Some ?t\<rparr>"
    by (simp add: brokerFor_def)
  from sidb_ready_preview_accepted_iff [OF e(1,2,3,4,5) _ b] c i e(2) show ?thesis by simp
qed

text \<open>
  C32: a standby that enables TCPS in the current way, through \<^verbatim>\<open>security.tcps\<close> and without the deprecated \<^verbatim>\<open>tcpsListenerPort\<close>,
  publishes a TCPS endpoint on port 0: its preview is published as ready to be copied and is refused when it is copied.
\<close>

theorem tcps_preview_refused:
  assumes "ss_Dataguard (sidb_Status (syncSIDBDataguardPreviewStatus setc now digest m rp)) = Some dg" and "pds_ReadyForBroker dg"
    and "Option.bind (pds_RenderedBrokerSpec dg) rbr_Spec = Some rs" and "rbs_Topology rs = Some t"
    and "\<not> blank (sidb_Name m)" and "\<And>p. rp = Some p \<Longrightarrow> \<not> blank (sidb_Name p)"
    and "dbs_Topology (brk_Spec b) = Some t" and "getTcpsEnabled m" and "getTcpsListenerPort m = 0"
  shows "DataguardBroker_ValidateCreate b \<noteq> []"
proof -
  obtain t' where q: "spv_Topology (buildSIDBPreviewTopology m rp) = Some t'" "spv_Ready (buildSIDBPreviewTopology m rp)"
    and r: "rs = \<lparr>rbs_Execution = renderedExecution (buildSIDBPreviewExecutionStatus m), rbs_Topology = Some t'\<rparr>"
    using sidb_sync_ready [OF assms(1,2)] assms(3) by (metis option.inject)
  have "t' = t" using r assms(4) by simp
  note p = q [unfolded this]
  obtain prim where t: "top_Members t = [prim, underDefaults (top_Defaults t) (standbyPreviewMember m)]"
    by (rule sidb_preview_members [OF p assms(5,6)]) blast+
  have "\<not> list_all soundEndpoint (mem_Endpoints (standbyPreviewMember m))"
    using assms(8,9) by (simp add: standbyPreviewMember_def buildSIDBPreviewEndpoints_def endpointSpec_def soundEndpoint_def wrap32_def Let_def)
  then have "\<not> list_all (shapedMember t) (top_Members t)" unfolding t by (simp add: shapedMember_def)
  then have "validateDataguardTopology (brk_Namespace b) t \<noteq> []" using sidb_topology_Nil_iff [OF p assms(5,6)] by blast
  then show ?thesis unfolding DataguardBroker_ValidateCreate_def validateDataguardBroker_def using assms(7) by auto
qed

theorem tcps_preview_refused_witness:
  "validateSingleInstanceDatabaseSpec platformExample (standbyOf (Some tcpsSecurity)) = [] \<and>
   pds_ReadyForBroker (syncedStandby (Some tcpsSecurity)) \<and>
   DataguardBroker_ValidateCreate (brokerFor (renderedStandby (Some tcpsSecurity))) \<noteq> []"
proof -
  let ?s = "Some tcpsSecurity"
  note e = standby_evaluation [of ?s, OF disjI2 [OF refl]]
  have v: "validateSingleInstanceDatabaseSpec platformExample (standbyOf ?s) = []" "getTcpsEnabled (standbyOf ?s)" "getTcpsListenerPort (standbyOf ?s) = 0"
    by code_simp+
  have b: "dbs_Topology (brk_Spec (brokerFor (renderedStandby ?s))) = Some (the (rbs_Topology (renderedStandby ?s)))" by (simp add: brokerFor_def)
  from tcps_preview_refused [OF e(1,2,3,4,5) _ b v(2,3)] v(1) e(2) show ?thesis by simp
qed

text \<open>
  publishing the preview neither takes nor releases the lock on the primary source: after it, the webhook finds the
  source locked exactly when the state of the database alone locks it.
\<close>

theorem sidb_preview_lock_agrees:
  assumes "distinct (map cond_Type (ss_Conditions (sidb_Status m)))"
  shows "isPrimarySourceLocked (syncSIDBDataguardPreviewStatus setc now digest m rp) = createdSourceLocked (sidb_Status m)"
proof -
  let ?m' = "syncSIDBDataguardPreviewStatus setc now digest m rp"
  have c: "createdSourceLocked (sidb_Status ?m') = createdSourceLocked (sidb_Status m)"
    by (subst sync_status) simp
  have "createdSourceLocked (sidb_Status m)" if "ss_Dataguard (sidb_Status ?m') = Some dg" "pds_TopologyLocked dg" for dg
    using published_locked [OF that] preview_lock_agrees [OF assms] by simp
  then show ?thesis unfolding isPrimarySourceLocked_def c by (auto split: option.splits)
qed

theorem sidb_preview_lock_agrees_witness:
  "\<not> isPrimarySourceLocked (syncSIDBDataguardPreviewStatus keepConditions 7 (\<lambda>_. ''h'') (standbyOf None) None)"
proof -
  have "distinct (map cond_Type (ss_Conditions (sidb_Status (standbyOf None))))" "\<not> createdSourceLocked (sidb_Status (standbyOf None))"
    by code_simp+
  then show ?thesis using sidb_preview_lock_agrees by blast
qed

text \<open>
  the two readers of connect strings, of the single-instance controller and of the sharding preview, agree on every
  string, up to the width of the port.
\<close>

theorem connect_parsers_agree:
  "parsePreviewConnectIdentifier c =
     (let p = parsePrimaryConnectString c in (ppc_host p, wrap32 (ppc_port p), ppc_service p))"
proof -
  have w: "wrap32 0 = 0" "wrap32 1521 = 1521" by (simp_all add: wrap32_def)
  have l: "colon < length x - Suc 0 \<longleftrightarrow> Suc colon < length x" for colon and x :: string by arith
  show ?thesis
    by (auto simp: parsePreviewConnectIdentifier_def parsePrimaryConnectString_def splitPrimaryPort_def CONTAINER_LISTENER_PORT_def w l
        TrimSpace_ToUpper Let_def split: option.splits prod.splits)
qed

end
