(* ===== verification/Oracle_Memory.thy ===== *)
theory Oracle_Memory
  imports Sidb_Types
begin

text \<open>
  Memory of a database pod: \<^verbatim>\<open>commons/resources/memory.go\<close>, which parses sizes, checks that SGA, PGA and an overhead fit the
  container and computes the shared-memory kernel settings, with its two clients, \<^verbatim>\<open>commons/sharding/oracle_sysctl.go\<close> and
  \<^verbatim>\<open>buildSIDBPodSecurityContext\<close> of \<^verbatim>\<open>controllers/database/singleinstancedatabase_controller.go\<close>. Numbers are 64-bit: sums and
  products wrap. The parameter \<open>valueOf\<close> is \<^verbatim>\<open>Quantity.Value\<close> of a parsed quantity. Of the security context of a pod only the
  list of kernel settings takes part; its other fields are copied.
\<close>


section \<open>Sizes\<close>

definition MinContainerMemoryBytes :: int where
  "MinContainerMemoryBytes = 16 * 1024 * 1024 * 1024"

definition pageSizeBytes :: int where
  "pageSizeBytes = 4096"

definition oneGBBytes :: int where
  "oneGBBytes = 1024 * 1024 * 1024"

text \<open>Division of Go rounds towards zero.\<close>

definition quot64 :: "int \<Rightarrow> int \<Rightarrow> int" where
  "quot64 a b = (if a \<ge> 0 then a div b else - ((- a) div b))"

definition memoryUnits :: "(string \<times> nat \<times> int) list" where
  "memoryUnits = [(''Gi'', 2, oneGBBytes), (''gi'', 2, oneGBBytes), (''Mi'', 2, 1024 * 1024), (''mi'', 2, 1024 * 1024),
     (''GB'', 2, oneGBBytes), (''gb'', 2, oneGBBytes), (''G'', 1, oneGBBytes), (''g'', 1, oneGBBytes), (''M'', 1, 1024 * 1024),
     (''m'', 1, 1024 * 1024)]"

definition ValidateMemorySize :: "string \<Rightarrow> bool" where
  "ValidateMemorySize sizeStr =
     list_ex (\<lambda>u. HasSuffix sizeStr u \<and>
        (let ds = take (length sizeStr - length u) sizeStr in ds \<noteq> [] \<and> list_all is_digit ds)) [''Gi'', ''Mi'', ''G'', ''M'']"

datatype memory_error = InvalidUnit | InvalidNumber

definition ParseMemoryBytes :: "string \<Rightarrow> memory_error + int" where
  "ParseMemoryBytes memStr =
     (if memStr = [] then Inr 0
      else
        (let trimmed = TrimSpace memStr in
         case find (\<lambda>(u, _, _). HasSuffix trimmed u) memoryUnits of
           None \<Rightarrow> Inl InvalidUnit
         | Some (_, n, multiplier) \<Rightarrow>
             (case Atoi (TrimSpace (take (length trimmed - n) trimmed)) of
                None \<Rightarrow> Inl InvalidNumber
              | Some num \<Rightarrow> Inr (wrap64 (num * multiplier)))))"

definition ParseBytesOrMemory :: "string \<Rightarrow> memory_error + int" where
  "ParseBytesOrMemory val =
     (let trimmed = TrimSpace val in
      if trimmed = [] then Inr 0
      else (case Atoi trimmed of Some v \<Rightarrow> Inr v | None \<Rightarrow> ParseMemoryBytes trimmed))"

definition quantityValue :: "(string \<Rightarrow> int) \<Rightarrow> (string, string) gomap \<Rightarrow> string \<Rightarrow> int" where
  "quantityValue valueOf m k = (case map_of m k of None \<Rightarrow> 0 | Some q \<Rightarrow> valueOf q)"

definition ExtractMemoryAndHugePagesBytes :: "(string \<Rightarrow> int) \<Rightarrow> ResourceRequirements option \<Rightarrow> int \<times> int" where
  "ExtractMemoryAndHugePagesBytes valueOf resources =
     (case resources of
        None \<Rightarrow> (0, 0)
      | Some r \<Rightarrow>
          let memLimit = quantityValue valueOf (rr_Limits r) ''memory'';
              hugeMem = quantityValue valueOf (rr_Limits r) ''hugepages-2Mi'' in
          (memLimit, if hugeMem = 0 then quantityValue valueOf (rr_Requests r) ''hugepages-2Mi'' else hugeMem))"


section \<open>The memory budget\<close>

definition resolveEffectiveSgaPga :: "int \<Rightarrow> int \<Rightarrow> int \<Rightarrow> int \<times> int" where
  "resolveEffectiveSgaPga sga pga containerMem =
     (if sga = 0 \<and> pga = 0 \<and> containerMem > 0 then (containerMem div 2, containerMem div 2 div 4) else (sga, pga))"

datatype budget_error = HugeBelowSga | RegularTooSmall | TotalTooSmall

definition ValidateSgaPgaSafety :: "int \<Rightarrow> int \<Rightarrow> int \<Rightarrow> int \<Rightarrow> budget_error option" where
  "ValidateSgaPgaSafety sga0 pga0 memLimit hugeMem =
     (if memLimit \<le> 0 then None
      else
        (let (sga, pga) = resolveEffectiveSgaPga sga0 pga0 memLimit in
         if hugeMem > 0
         then (if hugeMem < sga then Some HugeBelowSga
               else if memLimit < wrap64 (pga + oneGBBytes) then Some RegularTooSmall else None)
         else if memLimit < wrap64 (sga + pga + oneGBBytes) then Some TotalTooSmall else None))"

definition ValidateHugePagesAtLeastSga :: "int \<Rightarrow> int \<Rightarrow> budget_error option" where
  "ValidateHugePagesAtLeastSga hugeMem sga = (if hugeMem > 0 \<and> sga > 0 \<and> hugeMem < sga then Some HugeBelowSga else None)"


section \<open>Kernel settings\<close>

record Sysctl =
  sc_Name :: string
  sc_Value :: string

definition DefaultSem :: string where
  "DefaultSem = ''250 32000 100 128''"

definition DefaultShmmni :: string where
  "DefaultShmmni = ''4096''"

definition oracleSysctls :: "int \<Rightarrow> int \<Rightarrow> Sysctl list" where
  "oracleSysctls shmmax shmall =
     [\<lparr>sc_Name = ''kernel.shmmax'', sc_Value = itoa shmmax\<rparr>, \<lparr>sc_Name = ''kernel.shmall'', sc_Value = itoa shmall\<rparr>,
      \<lparr>sc_Name = ''kernel.sem'', sc_Value = DefaultSem\<rparr>, \<lparr>sc_Name = ''kernel.shmmni'', sc_Value = DefaultShmmni\<rparr>]"

datatype sysctl_error =
    ContainerTooSmall | ShmmaxBelowSga | ShmmaxBelowHuge | ShmmaxAboveContainer | ShmallTooSmall
  | PgaAboveContainer | SgaAboveContainer | OverBudget budget_error

definition withShmall :: "int \<Rightarrow> int \<Rightarrow> sysctl_error + Sysctl list" where
  "withShmall shmmax userShmall =
     (let shmall = quot64 (wrap64 (shmmax + pageSizeBytes - 1)) pageSizeBytes in
      if userShmall > 0
      then (if userShmall < shmall then Inl ShmallTooSmall else Inr (oracleSysctls shmmax userShmall))
      else Inr (oracleSysctls shmmax shmall))"

definition unboundedSysctls :: "int \<Rightarrow> int \<Rightarrow> int \<Rightarrow> sysctl_error + Sysctl list" where
  "unboundedSysctls sgaBytes userShmmax userShmall =
     (if userShmmax > 0 \<and> userShmmax < sgaBytes then Inl ShmmaxBelowSga
      else withShmall (if userShmmax > 0 then userShmmax else wrap64 (sgaBytes + oneGBBytes)) userShmall)"

definition containerBudget :: "int \<Rightarrow> int \<Rightarrow> int \<Rightarrow> int \<Rightarrow> sysctl_error option" where
  "containerBudget sgaBytes pgaBytes containerMemBytes hugePagesBytes =
     (if pgaBytes > containerMemBytes then Some PgaAboveContainer
      else if sgaBytes > containerMemBytes then Some SgaAboveContainer
      else if hugePagesBytes > 0
      then (if containerMemBytes < wrap64 (pgaBytes + oneGBBytes) then Some (OverBudget RegularTooSmall) else None)
      else if containerMemBytes < wrap64 (sgaBytes + pgaBytes + oneGBBytes) then Some (OverBudget TotalTooSmall) else None)"

definition containerShmmax :: "int \<Rightarrow> int \<Rightarrow> int \<Rightarrow> int \<Rightarrow> sysctl_error + int" where
  "containerShmmax sgaBytes containerMemBytes hugePagesBytes userShmmax =
     (if userShmmax > 0
      then (if userShmmax < sgaBytes then Inl ShmmaxBelowSga
            else if hugePagesBytes > 0 \<and> userShmmax < hugePagesBytes then Inl ShmmaxBelowHuge
            else if userShmmax > containerMemBytes - oneGBBytes then Inl ShmmaxAboveContainer
            else Inr userShmmax)
      else if hugePagesBytes > 0
      then (if hugePagesBytes < sgaBytes then Inl (OverBudget HugeBelowSga) else Inr hugePagesBytes)
      else if sgaBytes < containerMemBytes div 2 then Inr (containerMemBytes div 2)
      else Inr (wrap64 (sgaBytes + oneGBBytes)))"

definition CalculateOracleSysctls :: "int \<Rightarrow> int \<Rightarrow> int \<Rightarrow> int \<Rightarrow> int \<Rightarrow> int \<Rightarrow> sysctl_error + Sysctl list" where
  "CalculateOracleSysctls sga0 pga0 containerMemBytes hugePagesBytes userShmmax userShmall =
     (if containerMemBytes > 0 \<and> containerMemBytes < MinContainerMemoryBytes then Inl ContainerTooSmall
      else if containerMemBytes = 0 \<and> sga0 = 0 \<and> pga0 = 0 then Inr []
      else
        (let (sgaBytes, pgaBytes) = resolveEffectiveSgaPga sga0 pga0 containerMemBytes in
         if containerMemBytes = 0 then unboundedSysctls sgaBytes userShmmax userShmall
         else
           (case containerBudget sgaBytes pgaBytes containerMemBytes hugePagesBytes of
              Some e \<Rightarrow> Inl e
            | None \<Rightarrow>
                (case containerShmmax sgaBytes containerMemBytes hugePagesBytes userShmmax of
                   Inl e \<Rightarrow> Inl e
                 | Inr shmmax \<Rightarrow>
                     withShmall (if shmmax \<ge> containerMemBytes then containerMemBytes - oneGBBytes else shmmax) userShmall))))"


section \<open>Kernel settings of a pod\<close>

definition hasOracleSysctlHint :: "Sysctl list \<Rightarrow> bool" where
  "hasOracleSysctlHint sysctls =
     list_ex (\<lambda>s. TrimSpace (sc_Name s) \<in> {''kernel.shmmax'', ''kernel.shmall'', ''kernel.sem'', ''kernel.shmmni''}) sysctls"

definition parseInitMemoryValue :: "string \<Rightarrow> int" where
  "parseInitMemoryValue raw =
     (let trimmed = TrimSpace raw in
      if trimmed = [] then 0
      else (case Atoi trimmed of
              Some v \<Rightarrow> wrap64 (v * 1024 * 1024)
            | None \<Rightarrow> (case ParseBytesOrMemory trimmed of Inl _ \<Rightarrow> 0 | Inr v \<Rightarrow> v)))"

definition extractInitMemoryBytes :: "EnvironmentVariable list \<Rightarrow> string \<Rightarrow> int" where
  "extractInitMemoryBytes envVars envName =
     (case find (\<lambda>e. EqualFold (TrimSpace (env_Name e)) envName) envVars of None \<Rightarrow> 0 | Some e \<Rightarrow> parseInitMemoryValue (env_Value e))"

definition overrideStep :: "Sysctl \<Rightarrow> int \<times> int \<Rightarrow> int \<times> int" where
  "overrideStep s acc =
     (let name = TrimSpace (sc_Name s) in
      if name = ''kernel.shmmax''
      then (case ParseBytesOrMemory (sc_Value s) of Inr v \<Rightarrow> (v, snd acc) | Inl _ \<Rightarrow> acc)
      else if name = ''kernel.shmall''
      then (case Atoi (TrimSpace (sc_Value s)) of Some v \<Rightarrow> (fst acc, v) | None \<Rightarrow> acc)
      else acc)"

definition parseUserOracleSysctlOverrides :: "Sysctl list \<Rightarrow> int \<times> int" where
  "parseUserOracleSysctlOverrides sysctls = fold overrideStep sysctls (0, 0)"

definition indexStep :: "Sysctl \<Rightarrow> Sysctl list \<times> (string, nat) gomap \<Rightarrow> Sysctl list \<times> (string, nat) gomap" where
  "indexStep s st = (case st of (out, byName) \<Rightarrow> (out @ [s], mput (TrimSpace (sc_Name s)) (length out) byName))"

definition mergeStep :: "Sysctl \<Rightarrow> Sysctl list \<times> (string, nat) gomap \<Rightarrow> Sysctl list \<times> (string, nat) gomap" where
  "mergeStep s st =
     (case st of (out, byName) \<Rightarrow>
        let name = TrimSpace (sc_Name s) in
        case map_of byName name of
          Some i \<Rightarrow>
            if name = ''kernel.sem'' \<or> name = ''kernel.shmmni'' then st
            else (out[i := (out ! i)\<lparr>sc_Value := sc_Value s\<rparr>], byName)
        | None \<Rightarrow> indexStep s st)"

definition mergeOracleSysctls :: "Sysctl list \<Rightarrow> Sysctl list \<Rightarrow> Sysctl list" where
  "mergeOracleSysctls existing calculated = fst (fold mergeStep calculated (fold indexStep existing ([], [])))"

definition tuneSysctls :: "int \<Rightarrow> int \<Rightarrow> int \<Rightarrow> int \<Rightarrow> Sysctl list \<Rightarrow> sysctl_error + Sysctl list" where
  "tuneSysctls sgaBytes pgaBytes memLimit hugePages sysctls =
     (if \<not> (hugePages > 0 \<or> hasOracleSysctlHint sysctls)
      then (case ValidateSgaPgaSafety sgaBytes pgaBytes memLimit hugePages of Some e \<Rightarrow> Inl (OverBudget e) | None \<Rightarrow> Inr sysctls)
      else
        (let (userShmmax, userShmall) = parseUserOracleSysctlOverrides sysctls in
         case CalculateOracleSysctls sgaBytes pgaBytes memLimit hugePages userShmmax userShmall of
           Inl e \<Rightarrow> Inl e
         | Inr computed \<Rightarrow> if computed = [] then Inr sysctls else Inr (mergeOracleSysctls sysctls computed)))"

definition applyOracleMemorySysctls ::
    "(string \<Rightarrow> int) \<Rightarrow> Sysctl list \<Rightarrow> ResourceRequirements option \<Rightarrow> EnvironmentVariable list \<Rightarrow> sysctl_error + Sysctl list" where
  "applyOracleMemorySysctls valueOf sysctls resources envVars =
     (case ExtractMemoryAndHugePagesBytes valueOf resources of (memLimit, hugePages) \<Rightarrow>
        tuneSysctls (extractInitMemoryBytes envVars ''INIT_SGA_SIZE'') (extractInitMemoryBytes envVars ''INIT_PGA_SIZE'') memLimit hugePages sysctls)"

definition sidbInitParamBytes :: "SingleInstanceDatabase \<Rightarrow> int \<times> int" where
  "sidbInitParamBytes m =
     (case sis_InitParams (sidb_Spec m) of
        None \<Rightarrow> (0, 0)
      | Some ip \<Rightarrow> if ip_SgaTarget ip \<le> 0 \<or> ip_PgaAggregateTarget ip \<le> 0 then (0, 0)
                   else (wrap64 (ip_SgaTarget ip * (1024 * 1024)), wrap64 (ip_PgaAggregateTarget ip * (1024 * 1024))))"

text \<open>
  The helpers of the single-instance controller (\<^verbatim>\<open>parseSIDBUserOracleSysctlOverrides\<close>, \<^verbatim>\<open>sidbHasOracleSysctlHint\<close>,
  \<^verbatim>\<open>mergeSIDBOracleSysctls\<close>) are the ones above, word for word. \<open>sysctls\<close> are those of \<^verbatim>\<open>spec.securityContext\<close>; the user and
  group identities that the function also fills in are left out.
\<close>

definition sidbPodSysctls ::
    "(string \<Rightarrow> int) \<Rightarrow> SingleInstanceDatabase \<Rightarrow> Sysctl list \<Rightarrow> ResourceRequirements \<Rightarrow> sysctl_error + Sysctl list" where
  "sidbPodSysctls valueOf m sysctls containerResources =
     (case sidbInitParamBytes m of (sgaBytes, pgaBytes) \<Rightarrow>
        case ExtractMemoryAndHugePagesBytes valueOf (Some containerResources) of (memLimit, hugePages) \<Rightarrow>
          tuneSysctls sgaBytes pgaBytes memLimit hugePages sysctls)"


section \<open>Parsing\<close>

lemma wrap64_exact_iff: "wrap64 x = x \<longleftrightarrow> - (2 ^ 63) \<le> x \<and> x < 2 ^ 63"
proof
  assume e: "wrap64 x = x"
  have "- (2 ^ 63) \<le> (x + 2 ^ 63) mod 2 ^ 64 - 2 ^ 63" "(x + 2 ^ 63) mod 2 ^ 64 - 2 ^ 63 < (2 ^ 63 :: int)"
    using pos_mod_bound [of "2 ^ 64" "x + 2 ^ 63"] pos_mod_sign [of "2 ^ 64" "x + 2 ^ 63"] by simp_all
  then show "- (2 ^ 63) \<le> x \<and> x < 2 ^ 63" using e unfolding wrap64_def by metis
qed (use wrap64_small in blast)

text \<open>A size with a unit and a number that fits 64 bits.\<close>

lemma ParseMemoryBytes_literal:
  assumes "(u, factor) \<in> {(''Gi'', oneGBBytes), (''Mi'', 1024 * 1024), (''G'', oneGBBytes), (''M'', 1024 * 1024)}" and "int n < 2 ^ 63"
  shows "ParseMemoryBytes (itoa_nat n @ u) = Inr (wrap64 (int n * factor))"
proof -
  have t: "TrimSpace (itoa_nat n @ u) = itoa_nat n @ u"
    using assms(1) itoa_nat_digits [of n] digit_not_space by (intro TrimSpace_id) (auto simp: list_all_iff is_space_def hd_append)
  have tn: "TrimSpace (itoa_nat n) = itoa_nat n" using TrimSpace_itoa [of "[]" n] by simp
  show ?thesis
    using assms(1) Atoi_itoa [OF assms(2)] tn unfolding ParseMemoryBytes_def Let_def t
    by (auto simp: memoryUnits_def HasSuffix_def HasPrefix_def)
qed

text \<open>
  a size literal is read exactly when the number of bytes fits 64 bits: \<open>n\<close> units are read as \<open>n\<close> times the unit if and only
  if that product is below \<open>2^63\<close>; otherwise the product wraps silently and the literal is still accepted.
\<close>

theorem memory_literal_exact_iff:
  assumes "(u, factor) \<in> {(''Gi'', oneGBBytes), (''Mi'', 1024 * 1024), (''G'', oneGBBytes), (''M'', 1024 * 1024)}" and "int n < 2 ^ 63"
  shows "ParseMemoryBytes (itoa_nat n @ u) = Inr (int n * factor) \<longleftrightarrow> int n * factor < 2 ^ 63"
  using assms(1) unfolding ParseMemoryBytes_literal [OF assms] by (auto simp: wrap64_exact_iff oneGBBytes_def)

theorem memory_literal_exact_iff_witness:
  "ParseMemoryBytes (itoa_nat 16 @ ''Gi'') = Inr 17179869184 \<and> ParseMemoryBytes (itoa_nat 17179869184 @ ''G'') \<noteq> Inr (17179869184 * oneGBBytes)"
  using memory_literal_exact_iff [of "''Gi''" oneGBBytes 16] memory_literal_exact_iff [of "''G''" oneGBBytes 17179869184]
  by (simp add: oneGBBytes_def)


section \<open>The settings\<close>

lemma wrap64_nonneg: "0 \<le> x \<Longrightarrow> x < 2 ^ 63 \<Longrightarrow> wrap64 x = x"
  by (rule wrap64_small) simp_all

lemma withShmall_Inr:
  assumes "withShmall shmmax userShmall = Inr s" and "0 \<le> shmmax" and "shmmax < 2 ^ 62"
  obtains shmall where "s = oracleSysctls shmmax shmall" and "shmmax \<le> pageSizeBytes * shmall"
proof -
  let ?q = "(shmmax + pageSizeBytes - 1) div pageSizeBytes"
  have q: "quot64 (wrap64 (shmmax + pageSizeBytes - 1)) pageSizeBytes = ?q"
    using assms(2,3) by (simp add: quot64_def wrap64_nonneg pageSizeBytes_def)
  have "shmmax \<le> pageSizeBytes * ?q" by (simp add: pageSizeBytes_def)
  moreover have "shmmax \<le> pageSizeBytes * userShmall" if "?q \<le> userShmall"
    using that calculation unfolding pageSizeBytes_def by linarith
  ultimately show ?thesis using assms(1) that by (auto simp: withShmall_def q Let_def split: if_splits)
qed

text \<open>When the computed segment is smaller than the SGA.\<close>

definition shmmaxCut :: "int \<Rightarrow> int \<Rightarrow> int \<Rightarrow> int \<Rightarrow> bool" where
  "shmmaxCut sga containerMem hugePages userShmmax \<longleftrightarrow>
     0 < containerMem \<and> userShmmax \<le> 0 \<and> containerMem \<le> hugePages \<and> containerMem - oneGBBytes < sga"

lemma sysctls_bounds:
  assumes "CalculateOracleSysctls sga0 pga0 mem huge userShmmax userShmall = Inr s" and "s \<noteq> []"
    and "resolveEffectiveSgaPga sga0 pga0 mem = (sga, pga)"
    and "0 \<le> sga0" and "sga0 < 2 ^ 60" and "0 \<le> pga0" and "pga0 < 2 ^ 60" and "0 \<le> mem" and "mem < 2 ^ 60" and "huge < 2 ^ 60" and "userShmmax < 2 ^ 60"
  obtains shmmax shmall where "s = oracleSysctls shmmax shmall" and "shmmax \<le> pageSizeBytes * shmall" and "0 \<le> shmmax"
    and "sga \<le> shmmax \<longleftrightarrow> \<not> shmmaxCut sga mem huge userShmmax" and "0 < mem \<Longrightarrow> shmmax < mem"
proof (cases "mem = 0")
  case True
  then have e: "sga = sga0" using assms(3) by (simp add: resolveEffectiveSgaPga_def)
  let ?x = "if userShmmax > 0 then userShmmax else wrap64 (sga + oneGBBytes)"
  have w: "wrap64 (sga + oneGBBytes) = sga + oneGBBytes" using assms(4,5) e by (simp add: wrap64_nonneg oneGBBytes_def)
  have "\<not> (sga0 = 0 \<and> pga0 = 0)" using assms(1,2) True by (auto simp: CalculateOracleSysctls_def)
  then have u: "unboundedSysctls sga userShmmax userShmall = Inr s"
    using assms(1,3) True by (auto simp: CalculateOracleSysctls_def)
  then have r: "withShmall ?x userShmall = Inr s" "userShmmax > 0 \<Longrightarrow> sga \<le> userShmmax"
    by (auto simp: unboundedSysctls_def split: if_splits)
  have x: "sga \<le> ?x" "0 \<le> ?x" "?x < 2 ^ 62" using r(2) w e assms(4,5,11) by (auto simp: oneGBBytes_def)
  obtain shmall where "s = oracleSysctls ?x shmall" "?x \<le> pageSizeBytes * shmall" by (rule withShmall_Inr [OF r(1) x(2,3)])
  moreover have "\<not> shmmaxCut sga mem huge userShmmax" using True by (simp add: shmmaxCut_def)
  ultimately show ?thesis using that [of ?x shmall] x(1,2) True by simp
next
  case False
  then have pos: "0 < mem" "MinContainerMemoryBytes \<le> mem" using assms(1,8) by (auto simp: CalculateOracleSysctls_def split: if_splits)
  have s: "0 \<le> sga" "sga < 2 ^ 60" "0 \<le> pga" "pga < 2 ^ 60"
    using assms(3-9) by (auto simp: resolveEffectiveSgaPga_def split: if_splits)
  have w: "wrap64 (sga + oneGBBytes) = sga + oneGBBytes" "wrap64 (sga + pga + oneGBBytes) = sga + pga + oneGBBytes"
    using s by (simp_all add: wrap64_nonneg oneGBBytes_def)
  obtain y where b: "containerBudget sga pga mem huge = None" and y: "containerShmmax sga mem huge userShmmax = Inr y"
    and r: "withShmall (if y \<ge> mem then mem - oneGBBytes else y) userShmall = Inr s"
    using assms(1,3) pos False by (auto simp: CalculateOracleSysctls_def Let_def split: option.splits sum.splits if_splits)
  let ?x = "if y \<ge> mem then mem - oneGBBytes else y"
  have x: "0 \<le> ?x" "?x < mem" "sga \<le> ?x \<longleftrightarrow> \<not> shmmaxCut sga mem huge userShmmax"
    using y b w pos s unfolding containerShmmax_def containerBudget_def shmmaxCut_def oneGBBytes_def MinContainerMemoryBytes_def
    by (auto split: if_splits)
  have "?x < 2 ^ 62" using x(2) assms(9) by simp
  then obtain shmall where "s = oracleSysctls ?x shmall" "?x \<le> pageSizeBytes * shmall" by (rule withShmall_Inr [OF r x(1)])
  then show ?thesis using that [of ?x shmall] x by blast
qed

text \<open>
  C34: the memory check of the webhooks against the computation of the controllers. A budget that passes the check gets kernel
  settings, when the user sets neither \<^verbatim>\<open>shmmax\<close> nor \<^verbatim>\<open>shmall\<close>, exactly when there is no memory limit, or the limit is at least
  16 GiB and the SGA is not larger than the limit. The check takes smaller limits, and with huge pages a larger SGA, and the pod
  is then never built.
\<close>

theorem safe_memory_provisionable_iff:
  assumes "ValidateSgaPgaSafety sga0 pga0 mem huge = None" and "resolveEffectiveSgaPga sga0 pga0 mem = (sga, pga)"
    and "0 \<le> mem" and "mem < 2 ^ 60" and "0 \<le> sga0" and "sga0 < 2 ^ 60" and "0 \<le> pga0" and "pga0 < 2 ^ 60"
  shows "(\<exists>s. CalculateOracleSysctls sga0 pga0 mem huge 0 0 = Inr s) \<longleftrightarrow> mem = 0 \<or> MinContainerMemoryBytes \<le> mem \<and> sga \<le> mem"
proof (cases "mem = 0")
  case True
  have "\<exists>s. unboundedSysctls sga0 0 0 = Inr s" using assms(5) by (simp add: unboundedSysctls_def withShmall_def Let_def)
  then show ?thesis using True by (simp add: CalculateOracleSysctls_def resolveEffectiveSgaPga_def)
next
  case False
  then have pos: "0 < mem" using assms(3) by simp
  have s: "0 \<le> sga" "sga < 2 ^ 60" "0 \<le> pga" "pga < 2 ^ 60"
    using assms(2,4-8) pos by (auto simp: resolveEffectiveSgaPga_def split: if_splits)
  have w: "wrap64 (sga + oneGBBytes) = sga + oneGBBytes" "wrap64 (pga + oneGBBytes) = pga + oneGBBytes"
    "wrap64 (sga + pga + oneGBBytes) = sga + pga + oneGBBytes"
    using s by (simp_all add: wrap64_nonneg oneGBBytes_def)
  have safe: "if huge > 0 then sga \<le> huge \<and> pga + oneGBBytes \<le> mem else sga + pga + oneGBBytes \<le> mem"
    using assms(1,2) pos by (auto simp: ValidateSgaPgaSafety_def w split: if_splits)
  have b: "containerBudget sga pga mem huge = (if sga \<le> mem then None else Some SgaAboveContainer)"
    using safe s unfolding containerBudget_def w by (auto simp: oneGBBytes_def split: if_splits)
  have x: "\<exists>y. containerShmmax sga mem huge 0 = Inr y" using safe by (auto simp: containerShmmax_def split: if_splits)
  have a: "\<exists>r. withShmall y 0 = Inr r" for y by (simp add: withShmall_def Let_def)
  show ?thesis
    using pos assms(2) b x a by (auto simp: CalculateOracleSysctls_def split: if_splits)
qed

theorem safe_memory_provisionable_iff_witness:
  "(\<exists>s. CalculateOracleSysctls (8 * oneGBBytes) oneGBBytes (16 * oneGBBytes) 0 0 0 = Inr s) \<and>
   \<not> (\<exists>s. CalculateOracleSysctls (20 * oneGBBytes) oneGBBytes (16 * oneGBBytes) (24 * oneGBBytes) 0 0 = Inr s) \<and>
   \<not> (\<exists>s. CalculateOracleSysctls (4 * oneGBBytes) oneGBBytes (12 * oneGBBytes) 0 0 0 = Inr s) \<and>
   (\<exists>s. CalculateOracleSysctls (4 * oneGBBytes) oneGBBytes 0 0 0 0 = Inr s)"
proof -
  have g: "ValidateSgaPgaSafety (8 * oneGBBytes) oneGBBytes (16 * oneGBBytes) 0 = None"
    "ValidateSgaPgaSafety (20 * oneGBBytes) oneGBBytes (16 * oneGBBytes) (24 * oneGBBytes) = None"
    "ValidateSgaPgaSafety (4 * oneGBBytes) oneGBBytes (12 * oneGBBytes) 0 = None" "ValidateSgaPgaSafety (4 * oneGBBytes) oneGBBytes 0 0 = None"
    by code_simp+
  have r: "resolveEffectiveSgaPga (8 * oneGBBytes) oneGBBytes (16 * oneGBBytes) = (8 * oneGBBytes, oneGBBytes)"
    "resolveEffectiveSgaPga (20 * oneGBBytes) oneGBBytes (16 * oneGBBytes) = (20 * oneGBBytes, oneGBBytes)"
    "resolveEffectiveSgaPga (4 * oneGBBytes) oneGBBytes (12 * oneGBBytes) = (4 * oneGBBytes, oneGBBytes)"
    "resolveEffectiveSgaPga (4 * oneGBBytes) oneGBBytes 0 = (4 * oneGBBytes, oneGBBytes)"
    by code_simp+
  show ?thesis
    using safe_memory_provisionable_iff [OF g(1) r(1)] safe_memory_provisionable_iff [OF g(2) r(2)]
      safe_memory_provisionable_iff [OF g(3) r(3)] safe_memory_provisionable_iff [OF g(4) r(4)]
    by (simp add: oneGBBytes_def MinContainerMemoryBytes_def)
qed


section \<open>Merging with the settings of the user\<close>

text \<open>The last entry of a name is the one that counts, for the kernel and for \<^verbatim>\<open>parseUserOracleSysctlOverrides\<close>.\<close>

definition setting :: "Sysctl list \<Rightarrow> string \<Rightarrow> string option" where
  "setting ss = map_of (rev (map (\<lambda>s. (TrimSpace (sc_Name s), sc_Value s)) ss))"

lemma setting_append [simp]: "setting (ss @ [s]) = (setting ss)(TrimSpace (sc_Name s) \<mapsto> sc_Value s)"
  by (simp add: setting_def)

lemma setting_Nil [simp]: "setting [] = Map.empty"
  by (simp add: setting_def)

definition lastAt :: "Sysctl list \<Rightarrow> nat \<Rightarrow> string \<Rightarrow> bool" where
  "lastAt out i name \<longleftrightarrow> i < length out \<and> TrimSpace (sc_Name (out ! i)) = name \<and>
     (\<forall>j. i < j \<longrightarrow> j < length out \<longrightarrow> TrimSpace (sc_Name (out ! j)) \<noteq> name)"

definition indexed :: "Sysctl list \<times> (string, nat) gomap \<Rightarrow> bool" where
  "indexed st = (case st of (out, byName) \<Rightarrow>
     (\<forall>name i. map_of byName name = Some i \<longrightarrow> lastAt out i name) \<and>
     (\<forall>name. map_of byName name = None \<longrightarrow> setting out name = None))"

lemma lastAt_append_other: "lastAt out i name \<Longrightarrow> TrimSpace (sc_Name s) \<noteq> name \<Longrightarrow> lastAt (out @ [s]) i name"
  by (auto simp: lastAt_def nth_append less_Suc_eq)

lemma lastAt_append_new: "lastAt (out @ [s]) (length out) (TrimSpace (sc_Name s))"
  by (simp add: lastAt_def)

lemma indexed_append: "indexed (out, byName) \<Longrightarrow> indexed (indexStep s (out, byName))"
  unfolding indexed_def indexStep_def using lastAt_append_other lastAt_append_new by simp

lemma updated_name: "sc_Name (out[j := (out ! j)\<lparr>sc_Value := v\<rparr>] ! k) = sc_Name (out ! k)"
  by (cases "j < length out"; cases "j = k") (simp_all add: nth_list_update list_update_beyond)

lemma lastAt_update: "lastAt out i name \<Longrightarrow> lastAt (out[j := (out ! j)\<lparr>sc_Value := v\<rparr>]) i name"
  by (simp add: lastAt_def updated_name)

lemma setting_update:
  assumes "lastAt out i name"
  shows "setting (out[i := (out ! i)\<lparr>sc_Value := v\<rparr>]) = (setting out)(name \<mapsto> v)"
  using assms
proof (induction out rule: rev_induct)
  case (snoc s out)
  show ?case
  proof (cases "i = length out")
    case True
    then show ?thesis using snoc.prems by (auto simp: lastAt_def fun_eq_iff)
  next
    case False
    then have "lastAt out i name" "TrimSpace (sc_Name s) \<noteq> name" "i < length out"
      using snoc.prems by (auto simp: lastAt_def nth_append less_Suc_eq)
    then show ?thesis using snoc.IH by (auto simp: list_update_append1 nth_append fun_eq_iff)
  qed
qed (simp add: lastAt_def)

definition mergedSetting :: "Sysctl \<Rightarrow> (string \<rightharpoonup> string) \<Rightarrow> (string \<rightharpoonup> string)" where
  "mergedSetting s f =
     (let name = TrimSpace (sc_Name s) in
      if f name \<noteq> None \<and> (name = ''kernel.sem'' \<or> name = ''kernel.shmmni'') then f else f(name \<mapsto> sc_Value s))"

lemma lastAt_setting: "lastAt out i name \<Longrightarrow> setting out name \<noteq> None"
  using setting_update [of out i name "sc_Value (out ! i)"] by (simp add: fun_eq_iff) (metis option.distinct(1))

lemma mergeStep_refines:
  assumes "indexed (out, byName)" and "mergeStep s (out, byName) = (out', byName')"
  shows "indexed (out', byName') \<and> setting out' = mergedSetting s (setting out)"
proof (cases "map_of byName (TrimSpace (sc_Name s))")
  case None
  then have "(out', byName') = indexStep s (out, byName)" "setting out (TrimSpace (sc_Name s)) = None"
    using assms by (simp_all add: mergeStep_def indexed_def)
  then show ?thesis using indexed_append [OF assms(1), of s] by (auto simp: indexStep_def mergedSetting_def Let_def)
next
  case (Some i)
  then have l: "lastAt out i (TrimSpace (sc_Name s))" using assms(1) by (simp add: indexed_def)
  have "indexed (out[i := (out ! i)\<lparr>sc_Value := v\<rparr>], byName)" for v
    using assms(1) setting_update [OF l, of v] lastAt_setting [OF l] Some lastAt_update unfolding indexed_def by auto
  then show ?thesis
    using assms Some setting_update [OF l, of "sc_Value s"] lastAt_setting [OF l]
    by (auto simp: mergeStep_def mergedSetting_def Let_def split: if_splits)
qed

lemma fold_mergeStep_refines:
  "indexed st \<Longrightarrow> indexed (fold mergeStep ss st) \<and> setting (fst (fold mergeStep ss st)) = fold mergedSetting ss (setting (fst st))"
proof (induction ss arbitrary: st)
  case (Cons s ss)
  obtain out byName out' byName' where st: "st = (out, byName)" "mergeStep s st = (out', byName')" by (metis surj_pair)
  have "indexed (out', byName') \<and> setting out' = mergedSetting s (setting out)" using mergeStep_refines Cons.prems st by simp
  then show ?case using Cons.IH [of "(out', byName')"] st by simp
qed simp

lemma fold_indexStep: "indexed st \<Longrightarrow> indexed (fold indexStep ss st) \<and> fst (fold indexStep ss st) = fst st @ ss"
proof (induction ss arbitrary: st)
  case (Cons s ss)
  have "fst (indexStep s st) = fst st @ [s]" by (simp add: indexStep_def split: prod.split)
  then show ?case using Cons indexed_append [of "fst st" "snd st" s] by simp
qed simp

lemma merge_setting: "setting (mergeOracleSysctls existing calculated) = fold mergedSetting calculated (setting existing)"
proof -
  have "indexed ([], [])" by (simp add: indexed_def)
  from fold_indexStep [OF this, of existing] show ?thesis
    unfolding mergeOracleSysctls_def using fold_mergeStep_refines [of "fold indexStep existing ([], [])" calculated] by simp
qed

lemma merged_values:
  "setting (mergeOracleSysctls existing (oracleSysctls a b)) ''kernel.shmmax'' = Some (itoa a)"
  "setting (mergeOracleSysctls existing (oracleSysctls a b)) ''kernel.shmall'' = Some (itoa b)"
proof -
  have "TrimSpace ''kernel.shmmax'' = ''kernel.shmmax''" "TrimSpace ''kernel.shmall'' = ''kernel.shmall''" "TrimSpace ''kernel.sem'' = ''kernel.sem''"
    "TrimSpace ''kernel.shmmni'' = ''kernel.shmmni''" by code_simp+
  then show "setting (mergeOracleSysctls existing (oracleSysctls a b)) ''kernel.shmmax'' = Some (itoa a)"
    "setting (mergeOracleSysctls existing (oracleSysctls a b)) ''kernel.shmall'' = Some (itoa b)"
    by (simp_all add: merge_setting oracleSysctls_def mergedSetting_def Let_def)
qed

text \<open>
  C35: merging computed settings into those of the user is a map override in which the user keeps \<^verbatim>\<open>kernel.sem\<close> and
  \<^verbatim>\<open>kernel.shmmni\<close>; the index that the loop keeps always points at the entry that counts.
\<close>

theorem merge_refines_override:
  "setting (mergeOracleSysctls existing calculated) = fold mergedSetting calculated (setting existing)"
  by (rule merge_setting)

text \<open>
  C33: the kernel settings a pod gets. When huge pages or settings of the user ask for tuning and the pod is built, then
  \<^verbatim>\<open>kernel.shmall\<close> pages hold \<^verbatim>\<open>kernel.shmmax\<close> bytes, the segment is smaller than the memory of the container, and it holds the SGA
  except in one case: the huge pages are at least the memory of the container, and the cut to that memory less 1 GiB
  falls below the SGA.
\<close>

theorem tuned_shared_memory:
  assumes "tuneSysctls sga0 pga0 mem huge sysctls = Inr out" and "huge > 0 \<or> hasOracleSysctlHint sysctls"
    and "\<not> (mem = 0 \<and> sga0 = 0 \<and> pga0 = 0)" and "parseUserOracleSysctlOverrides sysctls = (userShmmax, userShmall)"
    and "resolveEffectiveSgaPga sga0 pga0 mem = (sga, pga)"
    and "0 \<le> sga0" and "sga0 < 2 ^ 60" and "0 \<le> pga0" and "pga0 < 2 ^ 60" and "0 \<le> mem" and "mem < 2 ^ 60" and "huge < 2 ^ 60" and "userShmmax < 2 ^ 60"
  shows "\<exists>shmmax shmall. setting out ''kernel.shmmax'' = Some (itoa shmmax) \<and> setting out ''kernel.shmall'' = Some (itoa shmall) \<and>
    shmmax \<le> pageSizeBytes * shmall \<and> (0 < mem \<longrightarrow> shmmax < mem) \<and> (sga \<le> shmmax \<longleftrightarrow> \<not> shmmaxCut sga mem huge userShmmax)"
proof -
  obtain s where s: "CalculateOracleSysctls sga0 pga0 mem huge userShmmax userShmall = Inr s"
    and o: "out = (if s = [] then sysctls else mergeOracleSysctls sysctls s)"
    using assms(1,2,4) by (auto simp: tuneSysctls_def split: sum.splits if_splits)
  have ne: "s \<noteq> []"
    using s assms(3,5) by (auto simp: CalculateOracleSysctls_def unboundedSysctls_def withShmall_def oracleSysctls_def Let_def split: if_splits option.splits sum.splits)
  obtain shmmax shmall where "s = oracleSysctls shmmax shmall" "shmmax \<le> pageSizeBytes * shmall"
    "sga \<le> shmmax \<longleftrightarrow> \<not> shmmaxCut sga mem huge userShmmax" "0 < mem \<Longrightarrow> shmmax < mem"
    by (rule sysctls_bounds [OF s ne assms(5-13)]) blast
  then show ?thesis using merged_values o ne by metis
qed

theorem tuned_shared_memory_witness:
  "(\<exists>out. tuneSysctls (15 * oneGBBytes) 0 (16 * oneGBBytes) (16 * oneGBBytes) [] = Inr out \<and>
     (\<exists>shmmax shmall. setting out ''kernel.shmmax'' = Some (itoa shmmax) \<and> 15 * oneGBBytes \<le> shmmax \<and> shmmax \<le> pageSizeBytes * shmall)) \<and>
   (\<exists>out. tuneSysctls (15 * oneGBBytes + 1) 0 (16 * oneGBBytes) (16 * oneGBBytes) [] = Inr out \<and>
     (\<exists>shmmax shmall. setting out ''kernel.shmmax'' = Some (itoa shmmax) \<and> shmmax < 15 * oneGBBytes + 1))"
proof -
  let ?f = "\<lambda>sga. tuneSysctls sga 0 (16 * oneGBBytes) (16 * oneGBBytes) []"
  have u: "parseUserOracleSysctlOverrides [] = (0, 0)" by code_simp
  have e: "\<exists>out. ?f (15 * oneGBBytes) = Inr out" "\<exists>out. ?f (15 * oneGBBytes + 1) = Inr out"
    by (auto simp: tuneSysctls_def u CalculateOracleSysctls_def resolveEffectiveSgaPga_def containerBudget_def containerShmmax_def withShmall_def
        oneGBBytes_def MinContainerMemoryBytes_def wrap64_def Let_def)
  have r: "resolveEffectiveSgaPga (15 * oneGBBytes) 0 (16 * oneGBBytes) = (15 * oneGBBytes, 0)"
    "resolveEffectiveSgaPga (15 * oneGBBytes + 1) 0 (16 * oneGBBytes) = (15 * oneGBBytes + 1, 0)"
    by (simp_all add: resolveEffectiveSgaPga_def oneGBBytes_def)
  obtain a b where f: "?f (15 * oneGBBytes) = Inr a" "?f (15 * oneGBBytes + 1) = Inr b" using e by blast
  have c: "\<not> shmmaxCut (15 * oneGBBytes) (16 * oneGBBytes) (16 * oneGBBytes) 0" "shmmaxCut (15 * oneGBBytes + 1) (16 * oneGBBytes) (16 * oneGBBytes) 0"
    by (simp_all add: shmmaxCut_def oneGBBytes_def)
  have "\<exists>shmmax shmall. setting a ''kernel.shmmax'' = Some (itoa shmmax) \<and> 15 * oneGBBytes \<le> shmmax \<and> shmmax \<le> pageSizeBytes * shmall"
    using tuned_shared_memory [OF f(1) _ _ u r(1)] c(1) by (simp add: oneGBBytes_def) blast
  moreover have "\<exists>shmmax shmall. setting b ''kernel.shmmax'' = Some (itoa shmmax) \<and> shmmax < 15 * oneGBBytes + 1"
    using tuned_shared_memory [OF f(2) _ _ u r(2)] c(2) by (simp add: oneGBBytes_def) (metis not_le)
  ultimately show ?thesis unfolding f by simp
qed

end
