(* ===== verification/K8s_Objects.thy ===== *)
theory K8s_Objects
  imports Sharding_Types Sidb_Endpoints
begin

text \<open>
  The Kubernetes objects that the controllers keep and the shared code that brings an existing one in line with the one a
  controller wants: \<^verbatim>\<open>commons/k8sobject/service.go\<close>, \<^verbatim>\<open>serviceports.go\<close> and \<^verbatim>\<open>deployment.go\<close>. The records hold the fields that
  this code and its callers read or write; a field that is only compared and copied is \<open>opaque\<close>. Labels, selectors and
  annotations are association lists; the annotations of a service are an option, since the code compares a nil map with an
  empty one.
\<close>

section \<open>Objects\<close>

record OwnerReference =
  own_APIVersion :: string
  own_Kind :: string
  own_Name :: string
  own_UID :: string
  own_Controller :: bool

record Service =
  svc_Name :: string
  svc_Labels :: strmap
  svc_Annotations :: "strmap option"
  svc_OwnerReferences :: "OwnerReference list"
  svc_Type :: string
  svc_Selector :: strmap
  svc_Ports :: "ServicePort list"
  svc_ExternalTrafficPolicy :: string
  svc_SessionAffinity :: string
  svc_SessionAffinityConfig :: "opaque option"
  svc_PublishNotReadyAddresses :: bool
  svc_InternalTrafficPolicy :: "string option"
  svc_AllocateLoadBalancerNodePorts :: "bool option"
  svc_LoadBalancerClass :: "string option"
  svc_LoadBalancerSourceRanges :: "string list"
  svc_LoadBalancerIP :: string
  svc_HealthCheckNodePort :: int
  svc_ClusterIP :: string
  svc_Ingress :: "(string \<times> string) list"

text \<open>\<^verbatim>\<open>metav1.GetControllerOf\<close>: the owner that is marked as the controller.\<close>

definition GetControllerOf :: "OwnerReference list \<Rightarrow> OwnerReference option" where
  "GetControllerOf refs = find own_Controller refs"

definition IsControlledBy :: "OwnerReference list \<Rightarrow> string \<Rightarrow> bool" where
  "IsControlledBy refs uid = (case GetControllerOf refs of None \<Rightarrow> False | Some r \<Rightarrow> own_UID r = uid)"


section \<open>Node ports\<close>

fun assignedByKey :: "ServicePort list \<Rightarrow> (string \<times> int \<times> string, int) gomap \<Rightarrow> (string \<times> int \<times> string, int) gomap" where
  "assignedByKey [] m = m"
| "assignedByKey (p # ps) m =
     assignedByKey ps (if sp_NodePort p = 0 then m else mput (sp_Name p, sp_Port p, sp_Protocol p) (sp_NodePort p) m)"

definition MergeServicePortsWithAssignedNodePortsByNamePortProtocol :: "ServicePort list \<Rightarrow> ServicePort list \<Rightarrow> ServicePort list" where
  "MergeServicePortsWithAssignedNodePortsByNamePortProtocol existing desired =
     (if existing = [] \<or> desired = [] then desired
      else
        (let m = assignedByKey existing [] in
         map (\<lambda>p. if sp_NodePort p \<noteq> 0 then p
                  else (case map_of m (sp_Name p, sp_Port p, sp_Protocol p) of None \<Rightarrow> p | Some np \<Rightarrow> p\<lparr>sp_NodePort := np\<rparr>)) desired))"

fun assignedByName :: "ServicePort list \<Rightarrow> (string, int) gomap \<Rightarrow> (string, int) gomap" where
  "assignedByName [] m = m"
| "assignedByName (p # ps) m = assignedByName ps (if sp_NodePort p > 0 then mput (sp_Name p) (sp_NodePort p) m else m)"

definition MergeServicePortsWithAssignedNodePortByName :: "ServicePort list \<Rightarrow> ServicePort list \<Rightarrow> ServicePort list" where
  "MergeServicePortsWithAssignedNodePortByName existing desired =
     (let m = assignedByName existing [] in
      map (\<lambda>p. if sp_NodePort p = 0 then (case map_of m (sp_Name p) of None \<Rightarrow> p | Some np \<Rightarrow> p\<lparr>sp_NodePort := np\<rparr>) else p) desired)"


section \<open>Services\<close>

datatype NodePortMergeStrategy = NodePortMergeNone | NodePortMergeByName | NodePortMergeByNamePortAndProtocol

record ServiceSyncOptions =
  sso_NodePortMerge :: NodePortMergeStrategy
  sso_SyncOwnerReferences :: bool
  sso_SyncSessionAffinityCfg :: bool
  sso_SyncPublishNotReady :: bool
  sso_SyncInternalTrafficPolicy :: bool
  sso_SyncLoadBalancerFields :: bool
  sso_SyncHealthCheckNodePort :: bool

text \<open>The check of the owner; \<open>True\<close> is the answer that the service may be updated.\<close>

definition validateServiceOwnership :: "Service \<Rightarrow> Service \<Rightarrow> ServiceSyncOptions \<Rightarrow> bool" where
  "validateServiceOwnership found desired opts =
     (if \<not> sso_SyncOwnerReferences opts \<or> svc_OwnerReferences desired = [] then True
      else
        (case GetControllerOf (svc_OwnerReferences desired) of
           None \<Rightarrow> True
         | Some d \<Rightarrow>
             (case GetControllerOf (svc_OwnerReferences found) of
                None \<Rightarrow> False
              | Some f \<Rightarrow> own_UID f = own_UID d \<and> own_Name f = own_Name d \<and> own_Kind f = own_Kind d \<and>
                         own_APIVersion f = own_APIVersion d)))"

text \<open>One block \<^verbatim>\<open>if found.X != desired.X { found.X = desired.X; updated = true }\<close>.\<close>

definition syncField :: "('a \<Rightarrow> 'v) \<Rightarrow> ('v \<Rightarrow> 'a \<Rightarrow> 'a) \<Rightarrow> 'v \<Rightarrow> 'a \<times> bool \<Rightarrow> 'a \<times> bool" where
  "syncField get put v s = (if get (fst s) \<noteq> v then (put v (fst s), True) else s)"

definition desiredPorts :: "Service \<Rightarrow> Service \<Rightarrow> ServiceSyncOptions \<Rightarrow> ServicePort list" where
  "desiredPorts found desired opts =
     (case sso_NodePortMerge opts of
        NodePortMergeNone \<Rightarrow> svc_Ports desired
      | NodePortMergeByName \<Rightarrow> MergeServicePortsWithAssignedNodePortByName (svc_Ports found) (svc_Ports desired)
      | NodePortMergeByNamePortAndProtocol \<Rightarrow>
          MergeServicePortsWithAssignedNodePortsByNamePortProtocol (svc_Ports found) (svc_Ports desired))"

definition reconcileServiceFields :: "Service \<Rightarrow> Service \<Rightarrow> ServiceSyncOptions \<Rightarrow> Service \<times> bool" where
  "reconcileServiceFields found desired opts =
     (let s1 = syncField svc_Labels (\<lambda>v s. s\<lparr>svc_Labels := v\<rparr>) (svc_Labels desired) (found, False);
          s2 = syncField svc_Annotations (\<lambda>v s. s\<lparr>svc_Annotations := v\<rparr>) (svc_Annotations desired) s1;
          s3 = (if sso_SyncOwnerReferences opts
                then syncField svc_OwnerReferences (\<lambda>v s. s\<lparr>svc_OwnerReferences := v\<rparr>) (svc_OwnerReferences desired) s2 else s2);
          s4 = syncField svc_Selector (\<lambda>v s. s\<lparr>svc_Selector := v\<rparr>) (svc_Selector desired) s3;
          s5 = syncField svc_Ports (\<lambda>v s. s\<lparr>svc_Ports := v\<rparr>) (desiredPorts (fst s4) desired opts) s4;
          s6 = syncField svc_Type (\<lambda>v s. s\<lparr>svc_Type := v\<rparr>) (svc_Type desired) s5;
          s7 = syncField svc_ExternalTrafficPolicy (\<lambda>v s. s\<lparr>svc_ExternalTrafficPolicy := v\<rparr>) (svc_ExternalTrafficPolicy desired) s6;
          s8 = syncField svc_SessionAffinity (\<lambda>v s. s\<lparr>svc_SessionAffinity := v\<rparr>) (svc_SessionAffinity desired) s7;
          s9 = (if sso_SyncSessionAffinityCfg opts
                then syncField svc_SessionAffinityConfig (\<lambda>v s. s\<lparr>svc_SessionAffinityConfig := v\<rparr>) (svc_SessionAffinityConfig desired) s8
                else s8);
          s10 = (if sso_SyncPublishNotReady opts
                 then syncField svc_PublishNotReadyAddresses (\<lambda>v s. s\<lparr>svc_PublishNotReadyAddresses := v\<rparr>)
                        (svc_PublishNotReadyAddresses desired) s9
                 else s9);
          s11 = (if sso_SyncInternalTrafficPolicy opts
                 then syncField svc_InternalTrafficPolicy (\<lambda>v s. s\<lparr>svc_InternalTrafficPolicy := v\<rparr>) (svc_InternalTrafficPolicy desired) s10
                 else s10);
          s12 = (if sso_SyncLoadBalancerFields opts
                 then syncField svc_LoadBalancerSourceRanges (\<lambda>v s. s\<lparr>svc_LoadBalancerSourceRanges := v\<rparr>)
                        (svc_LoadBalancerSourceRanges desired)
                      (syncField svc_LoadBalancerClass (\<lambda>v s. s\<lparr>svc_LoadBalancerClass := v\<rparr>) (svc_LoadBalancerClass desired)
                      (syncField svc_AllocateLoadBalancerNodePorts (\<lambda>v s. s\<lparr>svc_AllocateLoadBalancerNodePorts := v\<rparr>)
                        (svc_AllocateLoadBalancerNodePorts desired) s11))
                 else s11)
      in (if sso_SyncHealthCheckNodePort opts
          then syncField svc_HealthCheckNodePort (\<lambda>v s. s\<lparr>svc_HealthCheckNodePort := v\<rparr>) (svc_HealthCheckNodePort desired) s12
          else s12))"


section \<open>The API server\<close>

text \<open>
  One namespace of the cluster, as far as the two controllers of this part use it. A call fails with an error of \<open>ns_Fails\<close>
  or answers from the stored objects; a store keeps what it is given. Between two calls of a pass nothing else writes, so
  that a conflict, which the callers retry, does not arise.
\<close>

record ConfigMap =
  cm_Name :: string
  cm_Labels :: strmap
  cm_OwnerReferences :: "OwnerReference list"
  cm_Data :: strmap

record VolumeMount =
  vm_Name :: string
  vm_MountPath :: string
  vm_SubPath :: string
  vm_ReadOnly :: bool

text \<open>A volume source with the keys it mounts and the paths they get; a projection has one secret per entry.\<close>

datatype VolumeSource =
    ConfigMapSource string "(string \<times> string) list"
  | SecretSource string
  | ProjectedSource "(string \<times> string \<times> string) list"

record Volume =
  vol_Name :: string
  vol_Source :: VolumeSource

record ContainerPort =
  ctp_ContainerPort :: int
  ctp_Protocol :: Protocol

record Container =
  ctr_Name :: string
  ctr_Image :: string
  ctr_ImagePullPolicy :: PullPolicy
  ctr_Command :: "string list"
  ctr_Ports :: "ContainerPort list"
  ctr_Env :: "EnvironmentVariable list"
  ctr_Resources :: "ResourceRequirements option"
  ctr_VolumeMounts :: "VolumeMount list"
  ctr_SecurityContext :: "opaque option"

record Deployment =
  dep_Name :: string
  dep_Labels :: strmap
  dep_OwnerReferences :: "OwnerReference list"
  dep_Replicas :: "int option"
  dep_Selector :: "strmap option"
  dep_TemplateLabels :: strmap
  dep_TemplateAnnotations :: strmap
  dep_ServiceAccountName :: string
  dep_PodSecurityContext :: "PodSecurityContext option"
  dep_Containers :: "Container list"
  dep_Volumes :: "Volume list"
  dep_ImagePullSecrets :: "string list"
  dep_ReadyReplicas :: int

datatype api_call =
    GetConfigMap string | CreateConfigMap string | UpdateConfigMap string
  | GetDeployment string | CreateDeployment string | UpdateDeployment string
  | GetService string | CreateService string | UpdateService string | DeleteService string
  | GetSecret string | ListPrivateAi | UpdateStatus

record namespace =
  ns_ConfigMaps :: "string \<Rightarrow> ConfigMap option"
  ns_Deployments :: "string \<Rightarrow> Deployment option"
  ns_Services :: "string \<Rightarrow> Service option"
  ns_Secrets :: "string \<Rightarrow> strmap option"
  ns_Fails :: "api_call \<Rightarrow> string option"

datatype service_error = ServiceApi string | ServiceNotOwned string

text \<open>The boolean says whether something was written.\<close>

definition EnsureService :: "Service \<Rightarrow> ServiceSyncOptions \<Rightarrow> namespace \<Rightarrow> (service_error + bool) \<times> namespace" where
  "EnsureService desired opts ns =
     (let n = svc_Name desired in
      case ns_Fails ns (GetService n) of
        Some e \<Rightarrow> (Inl (ServiceApi e), ns)
      | None \<Rightarrow>
          (case ns_Services ns n of
             None \<Rightarrow>
               (case ns_Fails ns (CreateService n) of
                  Some e \<Rightarrow> (Inl (ServiceApi e), ns)
                | None \<Rightarrow> (Inr True, ns\<lparr>ns_Services := (ns_Services ns)(n \<mapsto> desired)\<rparr>))
           | Some found \<Rightarrow>
               if \<not> validateServiceOwnership found desired opts then (Inl (ServiceNotOwned n), ns)
               else
                 (case reconcileServiceFields found desired opts of (found', updated) \<Rightarrow>
                    if \<not> updated then (Inr False, ns)
                    else (case ns_Fails ns (UpdateService n) of
                            Some e \<Rightarrow> (Inl (ServiceApi e), ns)
                          | None \<Rightarrow> (Inr True, ns\<lparr>ns_Services := (ns_Services ns)(n \<mapsto> found')\<rparr>)))))"

record DeploymentReconcileResult =
  drr_Created :: bool
  drr_Updated :: bool

text \<open>\<open>updateFn\<close> returns the deployment to store and whether it has to be stored.\<close>

definition ReconcileDeployment ::
    "Deployment \<Rightarrow> (Deployment \<Rightarrow> Deployment \<Rightarrow> Deployment \<times> bool) option \<Rightarrow> namespace \<Rightarrow>
     (string + Deployment \<times> DeploymentReconcileResult) \<times> namespace" where
  "ReconcileDeployment desired updateFn ns =
     (let n = dep_Name desired in
      case ns_Fails ns (GetDeployment n) of
        Some e \<Rightarrow> (Inl e, ns)
      | None \<Rightarrow>
          (case ns_Deployments ns n of
             None \<Rightarrow>
               (case ns_Fails ns (CreateDeployment n) of
                  Some e \<Rightarrow> (Inl e, ns)
                | None \<Rightarrow> (Inr (desired, \<lparr>drr_Created = True, drr_Updated = False\<rparr>),
                          ns\<lparr>ns_Deployments := (ns_Deployments ns)(n \<mapsto> desired)\<rparr>))
           | Some found \<Rightarrow>
               (case updateFn of
                  None \<Rightarrow> (Inr (found, \<lparr>drr_Created = False, drr_Updated = False\<rparr>), ns)
                | Some f \<Rightarrow>
                    (case f found desired of (found', changed) \<Rightarrow>
                       if \<not> changed then (Inr (found', \<lparr>drr_Created = False, drr_Updated = False\<rparr>), ns)
                       else (case ns_Fails ns (UpdateDeployment n) of
                               Some e \<Rightarrow> (Inl e, ns)
                             | None \<Rightarrow> (Inr (found', \<lparr>drr_Created = False, drr_Updated = True\<rparr>),
                                       ns\<lparr>ns_Deployments := (ns_Deployments ns)(n \<mapsto> found')\<rparr>))))))"


section \<open>Lemmas\<close>

text \<open>What the blocks do together: the synchronised fields are those of the desired service, the others stay.\<close>

definition serviceOverlay :: "Service \<Rightarrow> Service \<Rightarrow> ServiceSyncOptions \<Rightarrow> Service" where
  "serviceOverlay found desired opts =
     found
      \<lparr>svc_Labels := svc_Labels desired, svc_Annotations := svc_Annotations desired,
       svc_OwnerReferences := (if sso_SyncOwnerReferences opts then svc_OwnerReferences desired else svc_OwnerReferences found),
       svc_Selector := svc_Selector desired, svc_Ports := desiredPorts found desired opts, svc_Type := svc_Type desired,
       svc_ExternalTrafficPolicy := svc_ExternalTrafficPolicy desired, svc_SessionAffinity := svc_SessionAffinity desired,
       svc_SessionAffinityConfig :=
         (if sso_SyncSessionAffinityCfg opts then svc_SessionAffinityConfig desired else svc_SessionAffinityConfig found),
       svc_PublishNotReadyAddresses :=
         (if sso_SyncPublishNotReady opts then svc_PublishNotReadyAddresses desired else svc_PublishNotReadyAddresses found),
       svc_InternalTrafficPolicy :=
         (if sso_SyncInternalTrafficPolicy opts then svc_InternalTrafficPolicy desired else svc_InternalTrafficPolicy found),
       svc_AllocateLoadBalancerNodePorts :=
         (if sso_SyncLoadBalancerFields opts then svc_AllocateLoadBalancerNodePorts desired else svc_AllocateLoadBalancerNodePorts found),
       svc_LoadBalancerClass := (if sso_SyncLoadBalancerFields opts then svc_LoadBalancerClass desired else svc_LoadBalancerClass found),
       svc_LoadBalancerSourceRanges :=
         (if sso_SyncLoadBalancerFields opts then svc_LoadBalancerSourceRanges desired else svc_LoadBalancerSourceRanges found),
       svc_HealthCheckNodePort :=
         (if sso_SyncHealthCheckNodePort opts then svc_HealthCheckNodePort desired else svc_HealthCheckNodePort found)\<rparr>"


text \<open>The contract of a block: the field behaves like a field of a record.\<close>

locale synced_field =
  fixes get :: "'a \<Rightarrow> 'v" and put :: "'v \<Rightarrow> 'a \<Rightarrow> 'a"
  assumes put_get: "\<And>s. put (get s) s = s"
begin

lemma fst_sync: "fst (syncField get put v s) = put v (fst s)"
  using put_get [of "fst s"] by (auto simp: syncField_def)

lemma snd_sync: "snd (syncField get put v s) \<longleftrightarrow> snd s \<or> get (fst s) \<noteq> v"
  by (simp add: syncField_def)

end

interpretation labels: synced_field svc_Labels "\<lambda>v s. s\<lparr>svc_Labels := v\<rparr>" by unfold_locales simp
interpretation annotations: synced_field svc_Annotations "\<lambda>v s. s\<lparr>svc_Annotations := v\<rparr>" by unfold_locales simp
interpretation owners: synced_field svc_OwnerReferences "\<lambda>v s. s\<lparr>svc_OwnerReferences := v\<rparr>" by unfold_locales simp
interpretation selector: synced_field svc_Selector "\<lambda>v s. s\<lparr>svc_Selector := v\<rparr>" by unfold_locales simp
interpretation ports: synced_field svc_Ports "\<lambda>v s. s\<lparr>svc_Ports := v\<rparr>" by unfold_locales simp
interpretation svctype: synced_field svc_Type "\<lambda>v s. s\<lparr>svc_Type := v\<rparr>" by unfold_locales simp
interpretation policy: synced_field svc_ExternalTrafficPolicy "\<lambda>v s. s\<lparr>svc_ExternalTrafficPolicy := v\<rparr>" by unfold_locales simp
interpretation affinity: synced_field svc_SessionAffinity "\<lambda>v s. s\<lparr>svc_SessionAffinity := v\<rparr>" by unfold_locales simp
interpretation affinity_cfg: synced_field svc_SessionAffinityConfig "\<lambda>v s. s\<lparr>svc_SessionAffinityConfig := v\<rparr>" by unfold_locales simp
interpretation not_ready: synced_field svc_PublishNotReadyAddresses "\<lambda>v s. s\<lparr>svc_PublishNotReadyAddresses := v\<rparr>" by unfold_locales simp
interpretation internal: synced_field svc_InternalTrafficPolicy "\<lambda>v s. s\<lparr>svc_InternalTrafficPolicy := v\<rparr>" by unfold_locales simp
interpretation allocate: synced_field svc_AllocateLoadBalancerNodePorts "\<lambda>v s. s\<lparr>svc_AllocateLoadBalancerNodePorts := v\<rparr>"
  by unfold_locales simp
interpretation lb_class: synced_field svc_LoadBalancerClass "\<lambda>v s. s\<lparr>svc_LoadBalancerClass := v\<rparr>" by unfold_locales simp
interpretation ranges: synced_field svc_LoadBalancerSourceRanges "\<lambda>v s. s\<lparr>svc_LoadBalancerSourceRanges := v\<rparr>" by unfold_locales simp
interpretation health: synced_field svc_HealthCheckNodePort "\<lambda>v s. s\<lparr>svc_HealthCheckNodePort := v\<rparr>" by unfold_locales simp

lemmas service_fst = labels.fst_sync annotations.fst_sync owners.fst_sync selector.fst_sync ports.fst_sync svctype.fst_sync
  policy.fst_sync affinity.fst_sync affinity_cfg.fst_sync not_ready.fst_sync internal.fst_sync allocate.fst_sync lb_class.fst_sync
  ranges.fst_sync health.fst_sync

lemmas service_snd = labels.snd_sync annotations.snd_sync owners.snd_sync selector.snd_sync ports.snd_sync svctype.snd_sync
  policy.snd_sync affinity.snd_sync affinity_cfg.snd_sync not_ready.snd_sync internal.snd_sync allocate.snd_sync lb_class.snd_sync
  ranges.snd_sync health.snd_sync

lemma desiredPorts_depends: "svc_Ports a = svc_Ports b \<Longrightarrow> desiredPorts a d opts = desiredPorts b d opts"
  by (cases "sso_NodePortMerge opts") (simp_all add: desiredPorts_def)

lemma fst_if: "fst (if b then x else y) = (if b then fst x else fst y)"
  by simp

lemma snd_if: "snd (if b then x else y) = (if b then snd x else snd y)"
  by simp

lemma reconcileServiceFields_fst: "fst (reconcileServiceFields found desired opts) = serviceOverlay found desired opts"
proof -
  have p: "desiredPorts (s\<lparr>svc_Selector := a\<rparr>) d opts = desiredPorts s d opts"
    "desiredPorts (s\<lparr>svc_OwnerReferences := e\<rparr>) d opts = desiredPorts s d opts"
    "desiredPorts (s\<lparr>svc_Annotations := b\<rparr>) d opts = desiredPorts s d opts"
    "desiredPorts (s\<lparr>svc_Labels := a\<rparr>) d opts = desiredPorts s d opts" for s d a b e
    by (rule desiredPorts_depends, simp)+
  show ?thesis
    unfolding reconcileServiceFields_def Let_def fst_if service_fst
    by (cases "sso_SyncOwnerReferences opts"; cases "sso_SyncSessionAffinityCfg opts"; cases "sso_SyncPublishNotReady opts";
        cases "sso_SyncInternalTrafficPolicy opts"; cases "sso_SyncLoadBalancerFields opts"; cases "sso_SyncHealthCheckNodePort opts")
      (simp_all add: p serviceOverlay_def)
qed


lemma serviceOverlay_eq_iff:
  "serviceOverlay found desired opts = found \<longleftrightarrow>
     svc_Labels found = svc_Labels desired \<and> svc_Annotations found = svc_Annotations desired \<and>
     (sso_SyncOwnerReferences opts \<longrightarrow> svc_OwnerReferences found = svc_OwnerReferences desired) \<and>
     svc_Selector found = svc_Selector desired \<and> svc_Ports found = desiredPorts found desired opts \<and>
     svc_Type found = svc_Type desired \<and> svc_ExternalTrafficPolicy found = svc_ExternalTrafficPolicy desired \<and>
     svc_SessionAffinity found = svc_SessionAffinity desired \<and>
     (sso_SyncSessionAffinityCfg opts \<longrightarrow> svc_SessionAffinityConfig found = svc_SessionAffinityConfig desired) \<and>
     (sso_SyncPublishNotReady opts \<longrightarrow> svc_PublishNotReadyAddresses found = svc_PublishNotReadyAddresses desired) \<and>
     (sso_SyncInternalTrafficPolicy opts \<longrightarrow> svc_InternalTrafficPolicy found = svc_InternalTrafficPolicy desired) \<and>
     (sso_SyncLoadBalancerFields opts \<longrightarrow>
        svc_AllocateLoadBalancerNodePorts found = svc_AllocateLoadBalancerNodePorts desired \<and>
        svc_LoadBalancerClass found = svc_LoadBalancerClass desired \<and>
        svc_LoadBalancerSourceRanges found = svc_LoadBalancerSourceRanges desired) \<and>
     (sso_SyncHealthCheckNodePort opts \<longrightarrow> svc_HealthCheckNodePort found = svc_HealthCheckNodePort desired)"
proof -
  obtain P where P: "P = desiredPorts found desired opts" by simp
  show ?thesis unfolding serviceOverlay_def P [symmetric] by (cases found) (auto split: if_splits)
qed

lemma reconcileServiceFields_snd:
  "snd (reconcileServiceFields found desired opts) \<longleftrightarrow> serviceOverlay found desired opts \<noteq> found"
proof -
  have p: "desiredPorts (s\<lparr>svc_Selector := a\<rparr>) d opts = desiredPorts s d opts"
    "desiredPorts (s\<lparr>svc_OwnerReferences := e\<rparr>) d opts = desiredPorts s d opts"
    "desiredPorts (s\<lparr>svc_Annotations := b\<rparr>) d opts = desiredPorts s d opts"
    "desiredPorts (s\<lparr>svc_Labels := a\<rparr>) d opts = desiredPorts s d opts" for s d a b e
    by (rule desiredPorts_depends, simp)+
  show ?thesis
    unfolding reconcileServiceFields_def Let_def snd_if service_snd fst_if service_fst serviceOverlay_eq_iff
    by (cases "sso_SyncOwnerReferences opts"; cases "sso_SyncSessionAffinityCfg opts"; cases "sso_SyncPublishNotReady opts";
        cases "sso_SyncInternalTrafficPolicy opts"; cases "sso_SyncLoadBalancerFields opts"; cases "sso_SyncHealthCheckNodePort opts")
      (simp_all add: p, blast+)
qed


subsection \<open>Node ports\<close>

text \<open>Both merges look up a node port by a key; \<open>keep\<close> says which existing ports count as assigned.\<close>

fun assigned :: "(ServicePort \<Rightarrow> 'k) \<Rightarrow> (ServicePort \<Rightarrow> bool) \<Rightarrow> ServicePort list \<Rightarrow> ('k, int) gomap \<Rightarrow> ('k, int) gomap" where
  "assigned key keep [] m = m"
| "assigned key keep (p # ps) m = assigned key keep ps (if keep p then mput (key p) (sp_NodePort p) m else m)"

definition mergeNodePorts :: "(ServicePort \<Rightarrow> 'k) \<Rightarrow> (ServicePort \<Rightarrow> bool) \<Rightarrow> ServicePort list \<Rightarrow> ServicePort list \<Rightarrow> ServicePort list" where
  "mergeNodePorts key keep existing desired =
     map (\<lambda>p. if sp_NodePort p \<noteq> 0 then p
              else (case map_of (assigned key keep existing []) (key p) of None \<Rightarrow> p | Some np \<Rightarrow> p\<lparr>sp_NodePort := np\<rparr>)) desired"

lemma assignedByKey_assigned: "assignedByKey ps m = assigned (\<lambda>p. (sp_Name p, sp_Port p, sp_Protocol p)) (\<lambda>p. sp_NodePort p \<noteq> 0) ps m"
  by (induction ps arbitrary: m) simp_all

lemma assignedByName_assigned: "assignedByName ps m = assigned sp_Name (\<lambda>p. sp_NodePort p > 0) ps m"
  by (induction ps arbitrary: m) simp_all

lemma merges_are_mergeNodePorts:
  "MergeServicePortsWithAssignedNodePortByName = mergeNodePorts sp_Name (\<lambda>p. sp_NodePort p > 0)"
  "MergeServicePortsWithAssignedNodePortsByNamePortProtocol =
     mergeNodePorts (\<lambda>p. (sp_Name p, sp_Port p, sp_Protocol p)) (\<lambda>p. sp_NodePort p \<noteq> 0)"
proof -
  show "MergeServicePortsWithAssignedNodePortByName = mergeNodePorts sp_Name (\<lambda>p. sp_NodePort p > 0)"
    by (rule ext, rule ext)
      (simp add: MergeServicePortsWithAssignedNodePortByName_def mergeNodePorts_def assignedByName_assigned Let_def)
  show "MergeServicePortsWithAssignedNodePortsByNamePortProtocol =
     mergeNodePorts (\<lambda>p. (sp_Name p, sp_Port p, sp_Protocol p)) (\<lambda>p. sp_NodePort p \<noteq> 0)"
  proof (rule ext, rule ext)
    fix existing desired
    show "MergeServicePortsWithAssignedNodePortsByNamePortProtocol existing desired =
        mergeNodePorts (\<lambda>p. (sp_Name p, sp_Port p, sp_Protocol p)) (\<lambda>p. sp_NodePort p \<noteq> 0) existing desired"
    proof (cases "existing = []")
      case True
      then show ?thesis
        by (simp add: MergeServicePortsWithAssignedNodePortsByNamePortProtocol_def mergeNodePorts_def map_idI)
    next
      case False
      then show ?thesis
        by (simp add: MergeServicePortsWithAssignedNodePortsByNamePortProtocol_def mergeNodePorts_def assignedByKey_assigned Let_def)
    qed
  qed
qed

lemma assigned_other: "(\<And>p. p \<in> set ps \<Longrightarrow> keep p \<Longrightarrow> key p \<noteq> k) \<Longrightarrow> map_of (assigned key keep ps m) k = map_of m k"
  by (induction ps arbitrary: m) auto

lemma assigned_found:
  assumes "distinct (map key ps)" "p \<in> set ps" "keep p"
  shows "map_of (assigned key keep ps m) (key p) = Some (sp_NodePort p)"
  using assms
proof (induction ps arbitrary: m)
  case (Cons q ps)
  show ?case
  proof (cases "p = q")
    case True
    have "map_of (assigned key keep ps (mput (key q) (sp_NodePort q) m)) (key q) = map_of (mput (key q) (sp_NodePort q) m) (key q)"
      using Cons.prems(1) by (intro assigned_other) (auto simp: image_iff)
    then show ?thesis using True Cons.prems(3) by simp
  next
    case False
    then show ?thesis using Cons by simp
  qed
qed simp

lemma assigned_keeps:
  assumes "map_of (assigned key keep ps m) k = Some np" "\<And>k np. map_of m k = Some np \<Longrightarrow> Q np" "\<And>p. keep p \<Longrightarrow> Q (sp_NodePort p)"
  shows "Q np"
  using assms(1,2)
proof (induction ps arbitrary: m)
  case (Cons q ps)
  show ?case
  proof (rule Cons.IH)
    show "map_of (assigned key keep ps (if keep q then mput (key q) (sp_NodePort q) m else m)) k = Some np" using Cons.prems(1) by simp
    show "Q np'" if "map_of (if keep q then mput (key q) (sp_NodePort q) m else m) k' = Some np'" for k' np'
      using that Cons.prems(2) assms(3) [of q] by (auto split: if_splits)
  qed
qed (metis assigned.simps(1))

lemma merge_settled:
  assumes d: "distinct (map key desired)" and k: "\<And>p n. key (p\<lparr>sp_NodePort := n\<rparr>) = key p"
    and Q: "\<And>p. keep p \<longleftrightarrow> Q (sp_NodePort p)" and z: "\<And>n. Q n \<Longrightarrow> n \<noteq> 0"
  shows "mergeNodePorts key keep (mergeNodePorts key keep existing desired) desired = mergeNodePorts key keep existing desired"
proof -
  let ?a = "assigned key keep existing []" and ?ms = "mergeNodePorts key keep existing desired"
  let ?f = "\<lambda>p. if sp_NodePort p \<noteq> 0 then p else (case map_of ?a (key p) of None \<Rightarrow> p | Some np \<Rightarrow> p\<lparr>sp_NodePort := np\<rparr>)"
  have ms: "?ms = map ?f desired" by (simp add: mergeNodePorts_def)
  have kf: "key (?f p) = key p" for p by (auto simp: k split: option.splits)
  then have keys: "map key ?ms = map key desired" unfolding ms by simp
  have np: "Q np" if "map_of ?a c = Some np" for c np using assigned_keeps [OF that, of Q] Q by simp
  have "(if sp_NodePort p \<noteq> 0 then p else (case map_of (assigned key keep ?ms []) (key p) of None \<Rightarrow> p | Some np \<Rightarrow> p\<lparr>sp_NodePort := np\<rparr>)) = ?f p"
    if "p \<in> set desired" for p
  proof (cases "sp_NodePort p = 0")
    case True
    have fin: "?f p \<in> set ?ms" using that unfolding ms by auto
    show ?thesis
    proof (cases "map_of ?a (key p)")
      case (Some n)
      then have f: "?f p = p\<lparr>sp_NodePort := n\<rparr>" using True by simp
      have "map_of (assigned key keep ?ms []) (key (?f p)) = Some (sp_NodePort (?f p))"
        using d keys fin f np [OF Some] Q by (intro assigned_found) simp_all
      then show ?thesis using True f kf [of p] by simp
    next
      case None
      then have f: "?f p = p" using True by simp
      have "key q \<noteq> key p" if q: "q \<in> set ?ms" "keep q" for q
      proof
        assume "key q = key p"
        then have "q = p" using q fin f d keys by (metis distinct_map inj_onD)
        then show False using q(2) Q z True by blast
      qed
      then show ?thesis using True f by (simp add: assigned_other)
    qed
  qed simp
  then have "map (\<lambda>p. if sp_NodePort p \<noteq> 0 then p else (case map_of (assigned key keep ?ms []) (key p) of None \<Rightarrow> p | Some np \<Rightarrow> p\<lparr>sp_NodePort := np\<rparr>)) desired = ?ms"
    unfolding ms by (intro map_cong refl)
  then show ?thesis by (simp add: mergeNodePorts_def [of key keep ?ms])
qed

lemma desiredPorts_settled:
  assumes "distinct (map sp_Name (svc_Ports desired))" "svc_Ports f = desiredPorts found desired opts"
  shows "desiredPorts f desired opts = desiredPorts found desired opts"
proof -
  have "distinct (map (\<lambda>p. (sp_Name p, sp_Port p, sp_Protocol p)) (svc_Ports desired))"
    using assms(1) by (simp add: distinct_map inj_on_def)
  then show ?thesis
    using assms by (cases "sso_NodePortMerge opts")
      (simp_all add: desiredPorts_def merges_are_mergeNodePorts merge_settled [where Q = "\<lambda>n. n > 0"] merge_settled [where Q = "\<lambda>n. n \<noteq> 0"])
qed

lemma serviceOverlay_settled:
  assumes "distinct (map sp_Name (svc_Ports desired))"
  shows "serviceOverlay (serviceOverlay found desired opts) desired opts = serviceOverlay found desired opts"
proof -
  have "desiredPorts (serviceOverlay found desired opts) desired opts = desiredPorts found desired opts"
    by (rule desiredPorts_settled [OF assms]) (simp add: serviceOverlay_def)
  then show ?thesis unfolding serviceOverlay_eq_iff by (simp add: serviceOverlay_def)
qed

text \<open>
  Bringing an existing service in line raises its flag exactly when it changes something, and the second time it changes
  nothing, whatever the strategy for node ports, as long as the ports that are asked for have different names: the node ports
  the cluster has assigned are found again.
\<close>

theorem service_sync_settles:
  assumes "distinct (map sp_Name (svc_Ports desired))" "reconcileServiceFields found desired opts = (found', updated)"
  shows "(updated \<longleftrightarrow> found' \<noteq> found) \<and> reconcileServiceFields found' desired opts = (found', False)"
proof -
  have f: "found' = serviceOverlay found desired opts" and u: "updated \<longleftrightarrow> serviceOverlay found desired opts \<noteq> found"
    using assms(2) reconcileServiceFields_fst [of found desired opts] reconcileServiceFields_snd [of found desired opts] by simp_all
  have "fst (reconcileServiceFields found' desired opts) = found'" "\<not> snd (reconcileServiceFields found' desired opts)"
    unfolding reconcileServiceFields_fst reconcileServiceFields_snd f serviceOverlay_settled [OF assms(1)] by simp_all
  then show ?thesis using f u by (simp add: prod_eq_iff)
qed

definition zeroService :: Service where
  "zeroService = \<lparr>svc_Name = [], svc_Labels = [], svc_Annotations = None, svc_OwnerReferences = [], svc_Type = [], svc_Selector = [],
     svc_Ports = [], svc_ExternalTrafficPolicy = [], svc_SessionAffinity = [], svc_SessionAffinityConfig = None,
     svc_PublishNotReadyAddresses = False, svc_InternalTrafficPolicy = None, svc_AllocateLoadBalancerNodePorts = None,
     svc_LoadBalancerClass = None, svc_LoadBalancerSourceRanges = [], svc_LoadBalancerIP = [], svc_HealthCheckNodePort = 0,
     svc_ClusterIP = [], svc_Ingress = []\<rparr>"

definition examplePort :: "int \<Rightarrow> ServicePort" where
  "examplePort nodePort = \<lparr>sp_Name = ''https'', sp_Protocol = ''TCP'', sp_Port = 443, sp_TargetPort = 8443, sp_NodePort = nodePort\<rparr>"

definition exampleFound :: Service where
  "exampleFound = zeroService\<lparr>svc_Type := ''LoadBalancer'', svc_Ports := [examplePort 31000]\<rparr>"

definition exampleDesired :: Service where
  "exampleDesired = zeroService\<lparr>svc_Type := ''LoadBalancer'', svc_Labels := [(''app'', ''pai'')], svc_Ports := [examplePort 0]\<rparr>"

definition allSyncOptions :: ServiceSyncOptions where
  "allSyncOptions =
     \<lparr>sso_NodePortMerge = NodePortMergeByNamePortAndProtocol, sso_SyncOwnerReferences = True, sso_SyncSessionAffinityCfg = True,
      sso_SyncPublishNotReady = True, sso_SyncInternalTrafficPolicy = True, sso_SyncLoadBalancerFields = True,
      sso_SyncHealthCheckNodePort = True\<rparr>"

theorem service_sync_settles_witness:
  "case reconcileServiceFields exampleFound exampleDesired allSyncOptions of (found', updated) \<Rightarrow>
     updated \<and> map sp_NodePort (svc_Ports found') = [31000] \<and>
     reconcileServiceFields found' exampleDesired allSyncOptions = (found', False)"
proof -
  let ?r = "reconcileServiceFields exampleFound exampleDesired allSyncOptions"
  have d: "distinct (map sp_Name (svc_Ports exampleDesired))" by (simp add: exampleDesired_def)
  have p: "svc_Ports (fst ?r) = [examplePort 31000]"
    unfolding reconcileServiceFields_fst
    by (simp add: serviceOverlay_def desiredPorts_def allSyncOptions_def exampleFound_def exampleDesired_def
        MergeServicePortsWithAssignedNodePortsByNamePortProtocol_def examplePort_def)
  have "svc_Labels (fst ?r) \<noteq> svc_Labels exampleFound"
    unfolding reconcileServiceFields_fst
    by (simp add: serviceOverlay_def exampleFound_def exampleDesired_def zeroService_def)
  then have "fst ?r \<noteq> exampleFound" by metis
  then show ?thesis
    using service_sync_settles [OF d, OF prod.collapse [symmetric], of exampleFound allSyncOptions] p
    by (simp add: case_prod_beta examplePort_def)
qed

end
