(* ===== verification/Traffic_Webhook.thy ===== *)
theory Traffic_Webhook
  imports Sharding_Types
begin

text \<open>
  The traffic manager API, \<^verbatim>\<open>apis/network/v4/trafficmanager_types.go\<close>, its webhooks
  (\<^verbatim>\<open>apis/network/v4/trafficmanager_webhook.go\<close>) and the check of route paths it shares with the private AI API
  (\<^verbatim>\<open>apis/privateai/v4/trafficmanager_routepath.go\<close>). A traffic manager is an nginx reverse proxy in front of private AI
  services, or an Oracle connection manager (CMAN). The mutating webhook fills the section of the type; the validating
  webhook stops at the first error, so its result is an optional error, one constructor per message.
\<close>

section \<open>The specification\<close>

record TrafficManagerServicePortSpec =
  tmp_Name :: string
  tmp_Port :: int
  tmp_TargetPort :: int
  tmp_NodePort :: int
  tmp_Protocol :: Protocol

record TrafficManagerServiceEndpointSpec =
  tme_Enabled :: "bool option"
  tme_ServiceType :: string
  tme_Port :: int
  tme_TargetPort :: int
  tme_Annotations :: strmap
  tme_ExternalTrafficPolicy :: string
  tme_LoadBalancerIP :: string
  tme_LoadBalancerClass :: "string option"
  tme_Ports :: "TrafficManagerServicePortSpec list"

record TrafficManagerServiceSpec =
  tmv_Internal :: TrafficManagerServiceEndpointSpec
  tmv_External :: TrafficManagerServiceEndpointSpec

record TrafficManagerTLSSpec =
  tml_Enabled :: bool
  tml_SecretName :: string
  tml_MountLocation :: string

record TrafficManagerBackendTLSSpec =
  tmb_TrustSecretName :: string
  tmb_MountLocation :: string
  tmb_TrustFileName :: string
  tmb_Verify :: "bool option"

record TrafficManagerSecuritySpec =
  tmy_TLS :: TrafficManagerTLSSpec
  tmy_BackendTLS :: "TrafficManagerBackendTLSSpec option"

record TrafficManagerRuntimeSpec =
  tmr_Image :: string
  tmr_ImagePullPolicy :: PullPolicy
  tmr_ImagePullSecrets :: "string list"
  tmr_ServiceAccountName :: string
  tmr_Replicas :: int
  tmr_Resources :: "ResourceRequirements option"
  tmr_PodSecurityContext :: "PodSecurityContext option"
  tmr_ContainerSecurityContext :: "opaque option"
  tmr_EnvVars :: "EnvironmentVariable list"

record TrafficManagerConfigSpec =
  tmc_ConfigMapName :: string
  tmc_MountLocation :: string

record NginxTrafficManagerSpec =
  ngx_Config :: "TrafficManagerConfigSpec option"

record TrafficManagerKeyRef =
  tkr_Name :: string
  tkr_Key :: string

record CmanTrafficManagerConfigSourceSpec =
  ccs_ConfigMapRef :: "TrafficManagerKeyRef option"

record CmanTrafficManagerRuleSpec =
  cmr_Host :: string
  cmr_IP :: string
  cmr_Src :: string
  cmr_Dst :: string
  cmr_Srv :: string
  cmr_Action :: string

record CmanTrafficManagerRestAPISpec =
  cra_Enabled :: bool
  cra_Host :: string
  cra_Port :: int
  cra_PasswordSecretRef :: "TrafficManagerKeyRef option"
  cra_PrivateKeySecretRef :: "TrafficManagerKeyRef option"

record CmanTrafficManagerSpec =
  cman_LogLevel :: string
  cman_TraceLevel :: string
  cman_RegistrationInvitedNodes :: string
  cman_ConfigSource :: "CmanTrafficManagerConfigSourceSpec option"
  cman_Rules :: "CmanTrafficManagerRuleSpec list"
  cman_RestAPI :: "CmanTrafficManagerRestAPISpec option"

record TrafficManagerSpec =
  tms_Type :: string
  tms_Runtime :: TrafficManagerRuntimeSpec
  tms_Service :: TrafficManagerServiceSpec
  tms_Security :: TrafficManagerSecuritySpec
  tms_Nginx :: "NginxTrafficManagerSpec option"
  tms_Cman :: "CmanTrafficManagerSpec option"

record NginxRouteStatus =
  nrs_Path :: string
  nrs_BackendName :: string
  nrs_BackendService :: string
  nrs_BackendURL :: string
  nrs_PublicURL :: string

record NginxTrafficManagerStatus =
  ngs_ConfigMapName :: string
  ngs_AssociatedBackends :: "string list"
  ngs_BackendCount :: int
  ngs_ConfigMode :: string
  ngs_TLSEnabled :: bool
  ngs_TLSSecretName :: string
  ngs_BackendTLSEnabled :: bool
  ngs_BackendTrustSecret :: string
  ngs_Routes :: "NginxRouteStatus list"

record CmanTrafficManagerStatus =
  cms_ConfigMode :: string
  cms_RestHost :: string

text \<open>The conditions of the status are not read or written by any code.\<close>

record TrafficManagerStatus =
  tmt_Status :: string
  tmt_Type :: string
  tmt_ReadyReplicas :: int
  tmt_InternalService :: string
  tmt_ExternalService :: string
  tmt_ExternalEndpoint :: string
  tmt_Nginx :: "NginxTrafficManagerStatus option"
  tmt_Cman :: "CmanTrafficManagerStatus option"

record TrafficManager =
  tm_Name :: string
  tm_Namespace :: string
  tm_UID :: string
  tm_Spec :: TrafficManagerSpec
  tm_Status :: TrafficManagerStatus

definition TrafficManagerTypeNginx :: string where
  "TrafficManagerTypeNginx = ''nginx''"

definition TrafficManagerTypeCman :: string where
  "TrafficManagerTypeCman = ''cman''"

lemmas tm_types = TrafficManagerTypeNginx_def TrafficManagerTypeCman_def

abbreviation tmInternal :: "TrafficManager \<Rightarrow> TrafficManagerServiceEndpointSpec" where
  "tmInternal obj \<equiv> tmv_Internal (tms_Service (tm_Spec obj))"

abbreviation tmExternal :: "TrafficManager \<Rightarrow> TrafficManagerServiceEndpointSpec" where
  "tmExternal obj \<equiv> tmv_External (tms_Service (tm_Spec obj))"

abbreviation tmTLS :: "TrafficManager \<Rightarrow> TrafficManagerTLSSpec" where
  "tmTLS obj \<equiv> tmy_TLS (tms_Security (tm_Spec obj))"

abbreviation tmBackendTLS :: "TrafficManager \<Rightarrow> TrafficManagerBackendTLSSpec option" where
  "tmBackendTLS obj \<equiv> tmy_BackendTLS (tms_Security (tm_Spec obj))"


section \<open>Ports\<close>

text \<open>The first port entry that names a port: its target port, or its port.\<close>

definition firstPort :: "TrafficManagerServicePortSpec list \<Rightarrow> int option" where
  "firstPort ports =
     map_option (\<lambda>p. if tmp_TargetPort p > 0 then tmp_TargetPort p else tmp_Port p)
       (find (\<lambda>p. tmp_TargetPort p > 0 \<or> tmp_Port p > 0) ports)"

text \<open>
  \<^verbatim>\<open>trafficManagerContainerPort\<close> and \<^verbatim>\<open>trafficManagerPrimaryPort\<close> call each other, each only for the type the other one
  handles itself; \<open>nginxContainerPort\<close> is the shared end of the two. The controller has its own copies of both.
\<close>

definition nginxContainerPort :: "TrafficManager \<Rightarrow> int" where
  "nginxContainerPort obj =
     (if tme_TargetPort (tmInternal obj) > 0 then tme_TargetPort (tmInternal obj)
      else if tme_TargetPort (tmExternal obj) > 0 then tme_TargetPort (tmExternal obj)
      else if tml_Enabled (tmTLS obj) then 8443 else 8080)"

definition webhookPrimaryPort :: "TrafficManager \<Rightarrow> int" where
  "webhookPrimaryPort obj =
     (case firstPort (tme_Ports (tmInternal obj)) of
        Some p \<Rightarrow> p
      | None \<Rightarrow>
          if tme_TargetPort (tmInternal obj) > 0 then tme_TargetPort (tmInternal obj)
          else if tme_TargetPort (tmExternal obj) > 0 then tme_TargetPort (tmExternal obj)
          else if tme_Port (tmInternal obj) > 0 then tme_Port (tmInternal obj)
          else if tme_Port (tmExternal obj) > 0 then tme_Port (tmExternal obj)
          else if tms_Type (tm_Spec obj) = TrafficManagerTypeCman then 1521
          else nginxContainerPort obj)"

definition webhookContainerPort :: "TrafficManager \<Rightarrow> int" where
  "webhookContainerPort obj =
     (if tms_Type (tm_Spec obj) = TrafficManagerTypeCman then webhookPrimaryPort obj else nginxContainerPort obj)"

definition defaultTrafficManagerInternalServiceDNS :: "TrafficManager \<Rightarrow> string" where
  "defaultTrafficManagerInternalServiceDNS obj = tm_Name obj @ ''.'' @ tm_Namespace obj @ ''.svc.cluster.local''"


section \<open>The mutating webhook\<close>

definition orBlank :: "string \<Rightarrow> string \<Rightarrow> string" where
  "orBlank s d = (if blank s then d else s)"

definition orZero :: "int \<Rightarrow> int \<Rightarrow> int" where
  "orZero n d = (if n = 0 then d else n)"

definition orTrue :: "bool option \<Rightarrow> bool option" where
  "orTrue b = (case b of None \<Rightarrow> Some True | Some v \<Rightarrow> Some v)"

definition zeroConfigSpec :: TrafficManagerConfigSpec where
  "zeroConfigSpec = \<lparr>tmc_ConfigMapName = [], tmc_MountLocation = []\<rparr>"

definition defaultNginxConfig :: "string \<Rightarrow> NginxTrafficManagerSpec option \<Rightarrow> NginxTrafficManagerSpec" where
  "defaultNginxConfig name nginx =
     (let c = (case nginx of None \<Rightarrow> zeroConfigSpec | Some n \<Rightarrow> (case ngx_Config n of None \<Rightarrow> zeroConfigSpec | Some c \<Rightarrow> c)) in
      \<lparr>ngx_Config = Some
         \<lparr>tmc_ConfigMapName = orBlank (tmc_ConfigMapName c) (name @ ''-nginx''),
          tmc_MountLocation = orBlank (tmc_MountLocation c) ''/etc/nginx''\<rparr>\<rparr>)"

definition defaultNginxService :: "int \<Rightarrow> bool \<Rightarrow> TrafficManagerServiceSpec \<Rightarrow> TrafficManagerServiceSpec" where
  "defaultNginxService containerPort tls s =
     (let i = tmv_Internal s; e = tmv_External s in
      s\<lparr>tmv_Internal := i\<lparr>tme_Enabled := orTrue (tme_Enabled i), tme_Port := orZero (tme_Port i) containerPort,
                          tme_TargetPort := orZero (tme_TargetPort i) containerPort\<rparr>,
        tmv_External := e\<lparr>tme_Port := orZero (tme_Port e) (if tls then 443 else 80),
                          tme_TargetPort := orZero (tme_TargetPort e) containerPort\<rparr>\<rparr>)"

definition defaultNginxSecurity :: "TrafficManagerSecuritySpec \<Rightarrow> TrafficManagerSecuritySpec" where
  "defaultNginxSecurity s =
     (let t = tmy_TLS s in
      s\<lparr>tmy_TLS := (if tml_Enabled t then t\<lparr>tml_MountLocation := orBlank (tml_MountLocation t) ''/etc/nginx/tls''\<rparr> else t),
        tmy_BackendTLS := map_option (\<lambda>b.
          b\<lparr>tmb_MountLocation := orBlank (tmb_MountLocation b) ''/etc/nginx/backend-ca'',
            tmb_TrustFileName := orBlank (tmb_TrustFileName b) ''ca.crt''\<rparr>) (tmy_BackendTLS s)\<rparr>)"

definition defaultNginx :: "TrafficManager \<Rightarrow> TrafficManager" where
  "defaultNginx obj =
     (let spec = tm_Spec obj in
      obj\<lparr>tm_Spec := spec
        \<lparr>tms_Nginx := Some (defaultNginxConfig (tm_Name obj) (tms_Nginx spec)),
         tms_Service := defaultNginxService (webhookContainerPort obj) (tml_Enabled (tmTLS obj)) (tms_Service spec),
         tms_Security := defaultNginxSecurity (tms_Security spec)\<rparr>\<rparr>)"

definition zeroCman :: CmanTrafficManagerSpec where
  "zeroCman = \<lparr>cman_LogLevel = [], cman_TraceLevel = [], cman_RegistrationInvitedNodes = [], cman_ConfigSource = None,
     cman_Rules = [], cman_RestAPI = None\<rparr>"

definition defaultRestAPI :: "string \<Rightarrow> CmanTrafficManagerRestAPISpec \<Rightarrow> CmanTrafficManagerRestAPISpec" where
  "defaultRestAPI dns r =
     (if cra_Enabled r then r\<lparr>cra_Port := orZero (cra_Port r) 1525, cra_Host := orBlank (cra_Host r) dns\<rparr> else r)"

definition defaultCmanSpec :: "string \<Rightarrow> CmanTrafficManagerSpec \<Rightarrow> CmanTrafficManagerSpec" where
  "defaultCmanSpec dns c =
     (if cman_ConfigSource c = None
      then c\<lparr>cman_LogLevel := orBlank (cman_LogLevel c) ''user'', cman_TraceLevel := orBlank (cman_TraceLevel c) ''user'',
             cman_RegistrationInvitedNodes := orBlank (cman_RegistrationInvitedNodes c) ''*'',
             cman_RestAPI := map_option (defaultRestAPI dns) (cman_RestAPI c)\<rparr>
      else c)"

definition defaultCman :: "TrafficManager \<Rightarrow> TrafficManager" where
  "defaultCman obj =
     (let spec = tm_Spec obj; s = tms_Service spec; i = tmv_Internal s in
      obj\<lparr>tm_Spec := spec
        \<lparr>tms_Cman := Some (defaultCmanSpec (defaultTrafficManagerInternalServiceDNS obj)
                       (case tms_Cman spec of None \<Rightarrow> zeroCman | Some c \<Rightarrow> c)),
         tms_Service := s\<lparr>tmv_Internal := i\<lparr>tme_Enabled := orTrue (tme_Enabled i)\<rparr>\<rparr>\<rparr>\<rparr>)"

definition defaultTypeAndReplicas :: "TrafficManager \<Rightarrow> TrafficManager" where
  "defaultTypeAndReplicas obj =
     (let spec = tm_Spec obj; run = tms_Runtime spec in
      obj\<lparr>tm_Spec := spec
        \<lparr>tms_Type := (if tms_Type spec = [] then TrafficManagerTypeNginx else tms_Type spec),
         tms_Runtime := (if tmr_Replicas run \<le> 0 then run\<lparr>tmr_Replicas := 1\<rparr> else run)\<rparr>\<rparr>)"

definition tmDefault :: "TrafficManager \<Rightarrow> TrafficManager" where
  "tmDefault obj0 =
     (let obj1 = defaultTypeAndReplicas obj0;
          obj2 = (if tms_Type (tm_Spec obj1) = TrafficManagerTypeNginx then defaultNginx obj1 else obj1) in
      if tms_Type (tm_Spec obj2) = TrafficManagerTypeCman then defaultCman obj2 else obj2)"


section \<open>The validating webhook\<close>

datatype tm_error =
    TypeUnsupported string
  | ImageMissing
  | NginxMissing | ConfigMountNotAbs
  | TlsSecretMissing | TlsMountMissing | TlsMountNotAbs
  | TrustSecretMissing | BackendMountNotAbs | TrustFileMissing | TrustFileNotName
  | CmanMissing
  | RuleHostMissing nat | RuleActionInvalid nat string
  | RestPasswordMissing | RestKeyMissing
  | ConfigMapRefMissing | LogLevelWithSource | TraceLevelWithSource | InvitedNodesWithSource | RulesWithSource | RestWithSource

definition IsAbs :: "string \<Rightarrow> bool" where
  "IsAbs p \<longleftrightarrow> HasPrefix p ''/''"

text \<open>\<open>e1 ;; e2\<close> of early returns: the first error counts.\<close>

definition firstOf :: "'e option list \<Rightarrow> 'e option" where
  "firstOf es = (case find (\<lambda>e. e \<noteq> None) es of None \<Rightarrow> None | Some e \<Rightarrow> e)"

abbreviation failIf :: "bool \<Rightarrow> 'e \<Rightarrow> 'e option" where
  "failIf b e \<equiv> (if b then Some e else None)"

definition mountInvalid :: "string \<Rightarrow> bool" where
  "mountInvalid p \<longleftrightarrow> \<not> blank p \<and> \<not> IsAbs (TrimSpace p)"

definition validateTLS :: "TrafficManagerTLSSpec \<Rightarrow> tm_error option" where
  "validateTLS t =
     (if tml_Enabled t
      then firstOf
        [failIf (blank (tml_SecretName t)) TlsSecretMissing,
         failIf (blank (tml_MountLocation t)) TlsMountMissing,
         failIf (\<not> IsAbs (TrimSpace (tml_MountLocation t))) TlsMountNotAbs]
      else None)"

definition validateBackendTLS :: "TrafficManagerBackendTLSSpec option \<Rightarrow> tm_error option" where
  "validateBackendTLS tls =
     (case tls of
        None \<Rightarrow> None
      | Some b \<Rightarrow> firstOf
          [failIf (blank (tmb_TrustSecretName b)) TrustSecretMissing,
           failIf (mountInvalid (tmb_MountLocation b)) BackendMountNotAbs,
           failIf (blank (tmb_TrustFileName b)) TrustFileMissing,
           failIf (CHR ''/'' \<in> set (TrimSpace (tmb_TrustFileName b))) TrustFileNotName])"

definition validateNginx :: "TrafficManagerSpec \<Rightarrow> tm_error option" where
  "validateNginx spec =
     (case tms_Nginx spec of
        None \<Rightarrow> Some NginxMissing
      | Some n \<Rightarrow> firstOf
          [failIf (case ngx_Config n of None \<Rightarrow> False | Some c \<Rightarrow> mountInvalid (tmc_MountLocation c)) ConfigMountNotAbs,
           validateTLS (tmy_TLS (tms_Security spec)),
           validateBackendTLS (tmy_BackendTLS (tms_Security spec))])"

definition ruleActions :: "string list" where
  "ruleActions = [''accept'', ''reject'', ''drop'']"

fun validateRulesFrom :: "nat \<Rightarrow> CmanTrafficManagerRuleSpec list \<Rightarrow> tm_error option" where
  "validateRulesFrom i [] = None"
| "validateRulesFrom i (rule # rules) =
     (if blank (cmr_Host rule) then Some (RuleHostMissing i)
      else if blank (cmr_Action rule) then validateRulesFrom (Suc i) rules
      else if TrimSpace (cmr_Action rule) \<in> set ruleActions then validateRulesFrom (Suc i) rules
      else Some (RuleActionInvalid i (cmr_Action rule)))"

definition validateRest :: "CmanTrafficManagerRestAPISpec option \<Rightarrow> tm_error option" where
  "validateRest rest =
     (case rest of
        None \<Rightarrow> None
      | Some r \<Rightarrow>
          if cra_Enabled r
          then firstOf [failIf (cra_PasswordSecretRef r = None) RestPasswordMissing,
                           failIf (cra_PrivateKeySecretRef r = None) RestKeyMissing]
          else None)"

definition validateCman :: "CmanTrafficManagerSpec option \<Rightarrow> tm_error option" where
  "validateCman cman =
     (case cman of
        None \<Rightarrow> Some CmanMissing
      | Some c \<Rightarrow>
          (case cman_ConfigSource c of
             None \<Rightarrow> firstOf [validateRulesFrom 0 (cman_Rules c), validateRest (cman_RestAPI c)]
           | Some src \<Rightarrow> firstOf
               [failIf (ccs_ConfigMapRef src = None) ConfigMapRefMissing,
                failIf (\<not> blank (cman_LogLevel c)) LogLevelWithSource,
                failIf (\<not> blank (cman_TraceLevel c)) TraceLevelWithSource,
                failIf (\<not> blank (cman_RegistrationInvitedNodes c)) InvitedNodesWithSource,
                failIf (cman_Rules c \<noteq> []) RulesWithSource,
                failIf (cman_RestAPI c \<noteq> None) RestWithSource]))"

definition validateTrafficManager :: "TrafficManager \<Rightarrow> tm_error option" where
  "validateTrafficManager obj =
     (let spec = tm_Spec obj; t = tms_Type spec in
      if t \<noteq> TrafficManagerTypeNginx \<and> t \<noteq> TrafficManagerTypeCman then Some (TypeUnsupported t)
      else if blank (tmr_Image (tms_Runtime spec)) then Some ImageMissing
      else if t = TrafficManagerTypeNginx then validateNginx spec
      else validateCman (tms_Cman spec))"

definition tmValidateCreate :: "TrafficManager \<Rightarrow> tm_error option" where
  "tmValidateCreate obj = validateTrafficManager obj"

definition tmValidateUpdate :: "TrafficManager \<Rightarrow> TrafficManager \<Rightarrow> tm_error option" where
  "tmValidateUpdate old new = validateTrafficManager new"

definition tmValidateDelete :: "TrafficManager \<Rightarrow> tm_error option" where
  "tmValidateDelete obj = None"


section \<open>Route paths\<close>

text \<open>
  The pattern \<^verbatim>\<open>^/(?:[A-Za-z0-9._~-]+/)+$\<close>: the path starts and ends with a slash, and between two slashes there is at least
  one character, all of them from the class.
\<close>

definition routeChar :: "char \<Rightarrow> bool" where
  "routeChar c \<longleftrightarrow> (let n = (of_char c :: nat) in (65 \<le> n \<and> n \<le> 90) \<or> (97 \<le> n \<and> n \<le> 122) \<or> (48 \<le> n \<and> n \<le> 57)) \<or>
     c \<in> set ''._~-''"

definition trafficManagerRoutePathPattern :: "string \<Rightarrow> bool" where
  "trafficManagerRoutePathPattern p =
     (let parts = Split p (CHR ''/'') in
      length parts \<ge> 3 \<and> hd parts = [] \<and> last parts = [] \<and>
      list_all (\<lambda>s. s \<noteq> [] \<and> list_all routeChar s) (butlast (tl parts)))"

text \<open>The result says whether the path is accepted.\<close>

definition ValidateTrafficManagerRoutePath :: "string \<Rightarrow> bool" where
  "ValidateTrafficManagerRoutePath routePath =
     (let p = TrimSpace routePath in p = [] \<or> trafficManagerRoutePathPattern p)"


section \<open>Lemmas\<close>

lemma firstOf_None [simp]: "firstOf es = None \<longleftrightarrow> (\<forall>e \<in> set es. e = None)"
  by (induction es) (auto simp: firstOf_def split: option.splits)

lemma orBlank_idem [simp]: "orBlank (orBlank s d) d = orBlank s d"
  by (simp add: orBlank_def)

lemma orBlank_blank [simp]: "blank (orBlank s d) \<longleftrightarrow> blank s \<and> blank d"
  by (auto simp: orBlank_def)

lemma orZero_idem [simp]: "orZero (orZero n d) d = orZero n d"
  by (simp add: orZero_def)

lemma orZero_Zero_iff [simp]: "orZero n d = 0 \<longleftrightarrow> n = 0 \<and> d = 0"
  by (auto simp: orZero_def)

lemma orTrue_idem [simp]: "orTrue (orTrue b) = orTrue b"
  by (cases b) (simp_all add: orTrue_def)

lemma tm_literals [simp]:
  "TrimSpace ''/etc/nginx'' = ''/etc/nginx''" "TrimSpace ''/etc/nginx/tls'' = ''/etc/nginx/tls''"
  "TrimSpace ''/etc/nginx/backend-ca'' = ''/etc/nginx/backend-ca''" "TrimSpace ''ca.crt'' = ''ca.crt''"
  "TrimSpace ''user'' = ''user''" "TrimSpace ''*'' = ''*''"
  by code_simp+

lemma types_differ [simp]: "TrafficManagerTypeNginx \<noteq> TrafficManagerTypeCman" "TrafficManagerTypeNginx \<noteq> []"
  "TrafficManagerTypeCman \<noteq> TrafficManagerTypeNginx" "TrafficManagerTypeCman \<noteq> []"
  by (simp_all add: tm_types)

lemma nginxContainerPort_positive: "nginxContainerPort obj > 0"
  by (simp add: nginxContainerPort_def)

text \<open>Defaulting keeps the port that nginx listens on.\<close>

lemma nginxContainerPort_defaultNginx:
  assumes "tms_Type (tm_Spec obj) \<noteq> TrafficManagerTypeCman"
  shows "nginxContainerPort (defaultNginx obj) = nginxContainerPort obj"
  using assms nginxContainerPort_positive [of obj]
  by (simp add: defaultNginx_def defaultNginxService_def defaultNginxSecurity_def Let_def webhookContainerPort_def
      orZero_def nginxContainerPort_def)

lemma defaultNginxConfig_idem: "defaultNginxConfig name (Some (defaultNginxConfig name n)) = defaultNginxConfig name n"
  by (simp add: defaultNginxConfig_def Let_def)

lemma defaultNginxService_idem: "defaultNginxService p t (defaultNginxService p t s) = defaultNginxService p t s"
  by (simp add: defaultNginxService_def Let_def)

lemma defaultNginxSecurity_idem: "defaultNginxSecurity (defaultNginxSecurity s) = defaultNginxSecurity s"
  by (cases "tmy_BackendTLS s") (simp_all add: defaultNginxSecurity_def Let_def)

lemma defaultNginx_fields [simp]:
  "tm_Name (defaultNginx obj) = tm_Name obj" "tm_Namespace (defaultNginx obj) = tm_Namespace obj"
  "tms_Type (tm_Spec (defaultNginx obj)) = tms_Type (tm_Spec obj)"
  "tms_Runtime (tm_Spec (defaultNginx obj)) = tms_Runtime (tm_Spec obj)"
  "tml_Enabled (tmTLS (defaultNginx obj)) = tml_Enabled (tmTLS obj)"
  by (simp_all add: defaultNginx_def defaultNginxSecurity_def Let_def)

lemma defaultNginx_idem:
  assumes "tms_Type (tm_Spec obj) = TrafficManagerTypeNginx"
  shows "defaultNginx (defaultNginx obj) = defaultNginx obj"
proof -
  have p: "webhookContainerPort (defaultNginx obj) = webhookContainerPort obj"
    using assms by (simp add: webhookContainerPort_def nginxContainerPort_defaultNginx)
  have "tm_Spec (defaultNginx (defaultNginx obj)) = tm_Spec (defaultNginx obj)"
    unfolding defaultNginx_def [of "defaultNginx obj"] p
    by (simp add: Let_def)
      (simp add: defaultNginx_def Let_def defaultNginxConfig_idem defaultNginxService_idem defaultNginxSecurity_idem)
  then show ?thesis unfolding defaultNginx_def [of "defaultNginx obj"] by (simp add: Let_def)
qed

lemma defaultCmanSpec_idem: "defaultCmanSpec dns (defaultCmanSpec dns c) = defaultCmanSpec dns c"
  by (cases "cman_RestAPI c") (auto simp: defaultCmanSpec_def defaultRestAPI_def)

lemma defaultCman_idem: "defaultCman (defaultCman obj) = defaultCman obj"
  by (simp add: defaultCman_def Let_def defaultCmanSpec_idem defaultTrafficManagerInternalServiceDNS_def)

lemma defaultTypeAndReplicas_id:
  "tms_Type (tm_Spec obj) \<noteq> [] \<Longrightarrow> tmr_Replicas (tms_Runtime (tm_Spec obj)) > 0 \<Longrightarrow> defaultTypeAndReplicas obj = obj"
  by (simp add: defaultTypeAndReplicas_def Let_def)

lemma defaultCman_fields [simp]:
  "tm_Name (defaultCman obj) = tm_Name obj" "tm_Namespace (defaultCman obj) = tm_Namespace obj"
  "tms_Type (tm_Spec (defaultCman obj)) = tms_Type (tm_Spec obj)"
  "tms_Runtime (tm_Spec (defaultCman obj)) = tms_Runtime (tm_Spec obj)"
  by (simp_all add: defaultCman_def Let_def)

lemma defaultTypeAndReplicas_fields [simp]:
  "tm_Name (defaultTypeAndReplicas obj) = tm_Name obj" "tm_Namespace (defaultTypeAndReplicas obj) = tm_Namespace obj"
  "tms_Type (tm_Spec (defaultTypeAndReplicas obj)) =
     (if tms_Type (tm_Spec obj) = [] then TrafficManagerTypeNginx else tms_Type (tm_Spec obj))"
  "tms_Service (tm_Spec (defaultTypeAndReplicas obj)) = tms_Service (tm_Spec obj)"
  "tms_Security (tm_Spec (defaultTypeAndReplicas obj)) = tms_Security (tm_Spec obj)"
  "tms_Nginx (tm_Spec (defaultTypeAndReplicas obj)) = tms_Nginx (tm_Spec obj)"
  "tms_Cman (tm_Spec (defaultTypeAndReplicas obj)) = tms_Cman (tm_Spec obj)"
  "tmr_Image (tms_Runtime (tm_Spec (defaultTypeAndReplicas obj))) = tmr_Image (tms_Runtime (tm_Spec obj))"
  "tmr_Replicas (tms_Runtime (tm_Spec (defaultTypeAndReplicas obj))) > 0"
  by (simp_all add: defaultTypeAndReplicas_def Let_def)

lemma tmDefault_cases:
  "tms_Type (tm_Spec obj) \<in> {[], TrafficManagerTypeNginx} \<Longrightarrow> tmDefault obj = defaultNginx (defaultTypeAndReplicas obj)"
  "tms_Type (tm_Spec obj) = TrafficManagerTypeCman \<Longrightarrow> tmDefault obj = defaultCman (defaultTypeAndReplicas obj)"
  "tms_Type (tm_Spec obj) \<notin> {[], TrafficManagerTypeNginx, TrafficManagerTypeCman} \<Longrightarrow>
     tmDefault obj = defaultTypeAndReplicas obj"
  by (auto simp: tmDefault_def Let_def)

theorem tm_default_idem: "tmDefault (tmDefault obj) = tmDefault obj"
proof -
  let ?t = "tms_Type (tm_Spec obj)" and ?d = "defaultTypeAndReplicas obj"
  consider "?t \<in> {[], TrafficManagerTypeNginx}" | "?t = TrafficManagerTypeCman"
    | "?t \<notin> {[], TrafficManagerTypeNginx, TrafficManagerTypeCman}" by blast
  then show ?thesis
  proof cases
    case 1
    then have t: "tms_Type (tm_Spec ?d) = TrafficManagerTypeNginx" by auto
    moreover have "defaultTypeAndReplicas (defaultNginx ?d) = defaultNginx ?d"
      by (rule defaultTypeAndReplicas_id) (simp_all add: t)
    ultimately show ?thesis
      using tmDefault_cases(1) [of "defaultNginx ?d"] by (simp add: tmDefault_cases(1) [OF 1] defaultNginx_idem)
  next
    case 2
    then have t: "tms_Type (tm_Spec ?d) = TrafficManagerTypeCman" by auto
    moreover have "defaultTypeAndReplicas (defaultCman ?d) = defaultCman ?d"
      by (rule defaultTypeAndReplicas_id) (simp_all add: t)
    ultimately show ?thesis
      using tmDefault_cases(2) [of "defaultCman ?d"] by (simp add: tmDefault_cases(2) [OF 2] defaultCman_idem)
  next
    case 3
    then have t: "tms_Type (tm_Spec ?d) = ?t" by simp
    moreover have "defaultTypeAndReplicas ?d = ?d"
      using 3 by (intro defaultTypeAndReplicas_id) simp_all
    ultimately show ?thesis
      using tmDefault_cases(3) [of ?d] 3 by (simp add: tmDefault_cases(3) [OF 3])
  qed
qed


subsection \<open>Admission\<close>

text \<open>What the two webhooks together ask of a submitted object.\<close>

definition nginxSound :: "TrafficManagerSpec \<Rightarrow> bool" where
  "nginxSound spec \<longleftrightarrow>
     (case tms_Nginx spec of None \<Rightarrow> True
      | Some n \<Rightarrow> (case ngx_Config n of None \<Rightarrow> True | Some c \<Rightarrow> \<not> mountInvalid (tmc_MountLocation c))) \<and>
     (let t = tmy_TLS (tms_Security spec) in
      \<not> tml_Enabled t \<or> (\<not> blank (tml_SecretName t) \<and> \<not> mountInvalid (tml_MountLocation t))) \<and>
     (case tmy_BackendTLS (tms_Security spec) of None \<Rightarrow> True
      | Some b \<Rightarrow> \<not> blank (tmb_TrustSecretName b) \<and> \<not> mountInvalid (tmb_MountLocation b) \<and>
          CHR ''/'' \<notin> set (TrimSpace (tmb_TrustFileName b)))"

definition ruleSound :: "CmanTrafficManagerRuleSpec \<Rightarrow> bool" where
  "ruleSound rule \<longleftrightarrow>
     \<not> blank (cmr_Host rule) \<and> (blank (cmr_Action rule) \<or> TrimSpace (cmr_Action rule) \<in> set ruleActions)"

definition cmanSound :: "CmanTrafficManagerSpec option \<Rightarrow> bool" where
  "cmanSound cman \<longleftrightarrow>
     (case cman of None \<Rightarrow> True
      | Some c \<Rightarrow>
          (case cman_ConfigSource c of
             None \<Rightarrow>
               list_all ruleSound (cman_Rules c) \<and>
               (case cman_RestAPI c of None \<Rightarrow> True
                | Some r \<Rightarrow> \<not> cra_Enabled r \<or> (cra_PasswordSecretRef r \<noteq> None \<and> cra_PrivateKeySecretRef r \<noteq> None))
           | Some src \<Rightarrow>
               ccs_ConfigMapRef src \<noteq> None \<and> blank (cman_LogLevel c) \<and> blank (cman_TraceLevel c) \<and>
               blank (cman_RegistrationInvitedNodes c) \<and> cman_Rules c = [] \<and> cman_RestAPI c = None))"

lemma mountInvalid_orBlank: "IsAbs (TrimSpace d) \<Longrightarrow> mountInvalid (orBlank s d) \<longleftrightarrow> mountInvalid s"
  by (auto simp: mountInvalid_def orBlank_def)

lemma abs_literals [simp]: "IsAbs ''/etc/nginx''" "IsAbs ''/etc/nginx/tls''" "IsAbs ''/etc/nginx/backend-ca''"
  by (simp_all add: IsAbs_def HasPrefix_def)

lemma validateRulesFrom_None: "validateRulesFrom i rules = None \<longleftrightarrow> list_all ruleSound rules"
  by (induction rules arbitrary: i) (auto simp: ruleSound_def)

lemma validateTLS_default:
  "validateTLS (tmy_TLS (defaultNginxSecurity s)) = None \<longleftrightarrow>
     (let t = tmy_TLS s in \<not> tml_Enabled t \<or> (\<not> blank (tml_SecretName t) \<and> \<not> mountInvalid (tml_MountLocation t)))"
  by (auto simp: validateTLS_def defaultNginxSecurity_def Let_def mountInvalid_def orBlank_def)

lemma validateBackendTLS_default:
  "validateBackendTLS (tmy_BackendTLS (defaultNginxSecurity s)) = None \<longleftrightarrow>
     (case tmy_BackendTLS s of None \<Rightarrow> True
      | Some b \<Rightarrow> \<not> blank (tmb_TrustSecretName b) \<and> \<not> mountInvalid (tmb_MountLocation b) \<and>
          CHR ''/'' \<notin> set (TrimSpace (tmb_TrustFileName b)))"
  by (cases "tmy_BackendTLS s")
    (auto simp: validateBackendTLS_def defaultNginxSecurity_def Let_def mountInvalid_def orBlank_def)

lemma validateNginx_default: "validateNginx (tm_Spec (defaultNginx obj)) = None \<longleftrightarrow> nginxSound (tm_Spec obj)"
proof -
  have c: "mountInvalid (orBlank m ''/etc/nginx'') \<longleftrightarrow> mountInvalid m" for m by (simp add: mountInvalid_orBlank)
  have z: "\<not> mountInvalid []" by (simp add: mountInvalid_def)
  show ?thesis
    unfolding validateNginx_def nginxSound_def
    by (simp add: defaultNginx_def Let_def defaultNginxConfig_def c z zeroConfigSpec_def
        validateTLS_default [unfolded Let_def] validateBackendTLS_default split: option.splits)
qed

lemma validateCman_default:
  "validateCman (tms_Cman (tm_Spec (defaultCman obj))) = None \<longleftrightarrow> cmanSound (tms_Cman (tm_Spec obj))"
  by (auto simp: defaultCman_def Let_def validateCman_def cmanSound_def defaultCmanSpec_def validateRulesFrom_None
      validateRest_def defaultRestAPI_def zeroCman_def split: option.splits if_splits)

text \<open>
  C23: a submitted traffic manager is admitted, that is, accepted by the validating webhook after defaulting, exactly when it has
  an image and is of a known type (none stands for nginx) with a sound section for that type: for nginx absolute mount paths,
  a secret where TLS or backend verification is asked for and a plain file name; for CMAN either a configuration source and
  nothing else, or rules with a host and a known action and both secrets of an enabled REST API. A missing section is filled
  in and never refused.
\<close>

theorem traffic_manager_admitted_iff:
  "tmValidateCreate (tmDefault obj) = None \<longleftrightarrow>
     \<not> blank (tmr_Image (tms_Runtime (tm_Spec obj))) \<and>
     (tms_Type (tm_Spec obj) \<in> {[], TrafficManagerTypeNginx} \<and> nginxSound (tm_Spec obj) \<or>
      tms_Type (tm_Spec obj) = TrafficManagerTypeCman \<and> cmanSound (tms_Cman (tm_Spec obj)))"
proof -
  let ?t = "tms_Type (tm_Spec obj)" and ?d = "defaultTypeAndReplicas obj"
  have n: "nginxSound (tm_Spec ?d) = nginxSound (tm_Spec obj)" by (simp add: nginxSound_def)
  consider "?t \<in> {[], TrafficManagerTypeNginx}" | "?t = TrafficManagerTypeCman"
    | "?t \<notin> {[], TrafficManagerTypeNginx, TrafficManagerTypeCman}" by blast
  then show ?thesis
  proof cases
    case 1
    then have "tms_Type (tm_Spec ?d) = TrafficManagerTypeNginx" by auto
    then show ?thesis
      using 1 by (auto simp: tmDefault_cases(1) [OF 1] tmValidateCreate_def validateTrafficManager_def Let_def
          validateNginx_default n)
  next
    case 2
    then show ?thesis
      by (simp add: tmDefault_cases(2) [OF 2] tmValidateCreate_def validateTrafficManager_def Let_def validateCman_default)
  next
    case 3
    then show ?thesis
      by (simp add: tmDefault_cases(3) [OF 3] tmValidateCreate_def validateTrafficManager_def Let_def)
  qed
qed

text \<open>
  A CMAN object with a generated configuration, once stored, cannot be switched to a configuration source by an update that
  only adds the source: the log level that defaulting stored is refused beside it.
\<close>

theorem adding_config_source_refused:
  assumes "tms_Type (tm_Spec obj) = TrafficManagerTypeCman" "tms_Cman (tm_Spec (tmDefault obj)) = Some c"
    and "cman_ConfigSource c = None" "ccs_ConfigMapRef src \<noteq> None"
    and "\<not> blank (tmr_Image (tms_Runtime (tm_Spec obj)))"
    and "new = (tmDefault obj)\<lparr>tm_Spec := (tm_Spec (tmDefault obj))\<lparr>tms_Cman := Some (c\<lparr>cman_ConfigSource := Some src\<rparr>)\<rparr>\<rparr>"
  shows "tmValidateUpdate (tmDefault obj) (tmDefault new) = Some LogLevelWithSource"
proof -
  have c: "\<not> blank (cman_LogLevel c)"
    using assms(2,3) unfolding tmDefault_cases(2) [OF assms(1)]
    by (auto simp: defaultCman_def Let_def defaultCmanSpec_def split: if_splits option.splits)
  have t: "tms_Type (tm_Spec (tmDefault obj)) = TrafficManagerTypeCman"
    using assms(1) by (simp add: tmDefault_cases(2))
  then have t': "tms_Type (tm_Spec new) = TrafficManagerTypeCman" by (simp add: assms(6))
  have img: "\<not> blank (tmr_Image (tms_Runtime (tm_Spec new)))"
    using assms(5) by (simp add: assms(6) tmDefault_cases(2) [OF assms(1)])
  have cs: "tms_Cman (tm_Spec (defaultCman (defaultTypeAndReplicas new))) = Some (c\<lparr>cman_ConfigSource := Some src\<rparr>)"
    unfolding defaultCman_def by (simp add: Let_def) (simp add: assms(6) defaultCmanSpec_def)
  show ?thesis
    unfolding tmDefault_cases(2) [OF t'] tmValidateUpdate_def validateTrafficManager_def
    using t' img c assms(4) by (simp add: Let_def cs validateCman_def firstOf_def)
qed


subsection \<open>Route paths\<close>

lemma routeChar_not_space: "routeChar c \<Longrightarrow> \<not> is_space c"
  by (auto simp: routeChar_def is_space_def Let_def)

lemma set_Split: "set s \<subseteq> {sep} \<union> (\<Union>p \<in> set (Split s sep). set p)"
proof (induction s)
  case (Cons c s)
  then show ?case by (cases "Split s sep") auto
qed simp

lemma list_middle: "length xs \<ge> 3 \<Longrightarrow> xs = hd xs # butlast (tl xs) @ [last xs]"
  by (cases xs) auto

lemma Split_starts: "hd (Split p sep) = [] \<Longrightarrow> length (Split p sep) > 1 \<Longrightarrow> \<exists>r. p = sep # r"
  by (cases p) (auto split: list.splits if_splits)

lemma Split_ends_sep: "last (Split p sep) = [] \<Longrightarrow> p \<noteq> [] \<Longrightarrow> last p = sep"
proof (induction p)
  case (Cons c p)
  then show ?case by (cases p) (auto split: list.splits if_splits)
qed simp

text \<open>What an accepted path looks like: slashes at both ends and only characters of the class besides slashes.\<close>

lemma route_path_shape:
  assumes "trafficManagerRoutePathPattern p"
  shows "hd p = CHR ''/''" "last p = CHR ''/''" "p \<noteq> []" "c \<in> set p \<Longrightarrow> c = CHR ''/'' \<or> routeChar c"
proof -
  let ?s = "Split p (CHR ''/'')"
  have l: "length ?s \<ge> 3" and h: "hd ?s = []" and e: "last ?s = []"
    and m: "\<And>q. q \<in> set (butlast (tl ?s)) \<Longrightarrow> list_all routeChar q"
    using assms by (auto simp: trafficManagerRoutePathPattern_def Let_def list_all_iff)
  obtain r where r: "p = CHR ''/'' # r" using Split_starts [OF h] l by fastforce
  then show "hd p = CHR ''/''" "p \<noteq> []" by simp_all
  show "last p = CHR ''/''" using Split_ends_sep [OF e] r by simp
  have "set ?s = {hd ?s, last ?s} \<union> set (butlast (tl ?s))"
    by (subst (1) list_middle [OF l]) auto
  then have "q = [] \<or> list_all routeChar q" if "q \<in> set ?s" for q using that m h e by auto
  moreover assume "c \<in> set p"
  then have "c = CHR ''/'' \<or> (\<exists>q \<in> set ?s. c \<in> set q)" using set_Split [of p "CHR ''/''"] by blast
  ultimately show "c = CHR ''/'' \<or> routeChar c" by (metis list_all_iff empty_iff list.set(1))
qed

lemma slash_not_space [simp]: "\<not> is_space (CHR ''/'')"
  by code_simp

lemma TrimSpace_route: "trafficManagerRoutePathPattern p \<Longrightarrow> TrimSpace p = p"
  by (rule TrimSpace_id) (simp_all add: route_path_shape)

text \<open>The default path of a service whose name has only characters of the class is accepted.\<close>

lemma Split_cons_sep: "Split (sep # t) sep = [] # Split t sep"
  by simp

lemma default_route_accepted:
  assumes "name \<noteq> []" "list_all routeChar name"
  shows "trafficManagerRoutePathPattern (''/'' @ name @ ''/v1/'')"
proof -
  have n: "CHR ''/'' \<notin> set name" using assms(2) by (auto simp: list_all_iff routeChar_def Let_def)
  have "Split (''/'' @ name @ ''/v1/'') (CHR ''/'') = [] # Split (name @ CHR ''/'' # ''v1/'') (CHR ''/'')" by simp
  also have "\<dots> = [[], name, ''v1'', []]" unfolding Split_append by (simp add: Split_single [OF n])
  finally show ?thesis
    using assms unfolding trafficManagerRoutePathPattern_def by (simp add: Let_def routeChar_def)
qed

end
