(* ===== verification/Pai_Webhook.thy ===== *)
theory Pai_Webhook
  imports Traffic_Webhook
begin

text \<open>
  The private AI API: its types (\<^verbatim>\<open>apis/privateai/v4/privateai_types.go\<close>), the view that merges the grouped fields with the
  deprecated flat ones (\<^verbatim>\<open>privateai_effective.go\<close>) and the webhooks (\<^verbatim>\<open>privateai_webhook.go\<close>). The copies that
  \<^verbatim>\<open>privateai_effective.go\<close> makes are identities here. Where the code distinguishes a nil slice or map from an empty one (the
  grouped \<^verbatim>\<open>env\<close>, \<^verbatim>\<open>workerNodes\<close>, \<^verbatim>\<open>pvcList\<close> and \<^verbatim>\<open>nodePortServices\<close>) the field is an option. The client of the validator is the
  parameter \<open>lookup\<close>: what a \<^verbatim>\<open>Get\<close> of a traffic manager answers.
\<close>

section \<open>The specification\<close>

record SecretMountItem =
  smi_Key :: string
  smi_Path :: string

record PaiSecretSpec =
  psc_Name :: string
  psc_MountLocation :: string
  psc_Items :: "SecretMountItem list"

record PaiTLSSpec =
  ptl_SecretName :: string
  ptl_MountLocation :: string
  ptl_Items :: "SecretMountItem list"

record PrivateAiSecuritySpec =
  psy_AuthEnabled :: "bool option"
  psy_Secret :: "PaiSecretSpec option"
  psy_TLS :: "PaiTLSSpec option"

record PrivateAiImageSpec =
  pim_Name :: string
  pim_PullPolicy :: PullPolicy
  pim_PullSecret :: string

record PaiAnnotationsSpec =
  pan_Workload :: strmap
  pan_Pod :: strmap

record PrivateAiRuntimeSpec =
  prt_Image :: "PrivateAiImageSpec option"
  prt_Replicas :: "int option"
  prt_Env :: "EnvironmentVariable list option"
  prt_Resources :: "ResourceRequirements option"
  prt_Debug :: "bool option"
  prt_ReadinessCheckPeriod :: "int option"
  prt_LivenessCheckPeriod :: "int option"
  prt_DownloadScripts :: "bool option"
  prt_WorkerNodes :: "string list option"
  prt_Annotations :: "PaiAnnotationsSpec option"

record PaiConfigMap =
  pcm_Name :: string
  pcm_MountLocation :: string

record PrivateAiConfigurationSpec =
  pcf_ConfigFile :: "PaiConfigMap option"

record PrivateAiStorageSpec =
  pst_StorageClass :: string
  pst_PvcList :: "strmap option"
  pst_SizeInGb :: "int option"
  pst_DeletePvcOnDelete :: "bool option"
  pst_LogLocation :: string

record PrivateAiListenerSpec =
  pln_Enabled :: "bool option"
  pln_Port :: "int option"

record PrivateAiListenersSpec =
  pls_HTTP :: "PrivateAiListenerSpec option"
  pls_HTTPS :: "PrivateAiListenerSpec option"

record PaiServicePortSpec =
  psp_Name :: string
  psp_Port :: int
  psp_TargetPort :: int
  psp_Protocol :: Protocol

record PaiClusterServiceSpec =
  pcl_Enabled :: "bool option"
  pcl_Annotations :: strmap

record PaiLoadBalancerSpec =
  plb_Enabled :: "bool option"
  plb_IP :: string
  plb_ExternalTrafficPolicy :: string
  plb_Annotations :: strmap

record PaiPortMapping =
  ppm_Port :: int
  ppm_TargetPort :: int
  ppm_Protocol :: Protocol
  ppm_NodePort :: int

record PaiServiceSpec =
  psv_Ports :: "PaiServicePortSpec list"
  psv_Cluster :: "PaiClusterServiceSpec option"
  psv_PublicLoadBalancer :: "PaiLoadBalancerSpec option"
  psv_PrivateLoadBalancer :: "PaiLoadBalancerSpec option"
  psv_PortMappings :: "PaiPortMapping list"
  psv_SvcName :: string
  psv_SvcType :: string

record PaiNodePortSvc =
  pnp_PortMappings :: "PaiPortMapping list"
  pnp_SvcName :: string
  pnp_SvcType :: string

record TrafficManagerRefSpec =
  tmref_Ref :: string
  tmref_RoutePath :: string

record PrivateAiNetworkingSpec =
  pnw_Listeners :: "PrivateAiListenersSpec option"
  pnw_Service :: "PaiServiceSpec option"
  pnw_NodePortServices :: "PaiNodePortSvc list option"
  pnw_TrafficManager :: "TrafficManagerRefSpec option"

record LoggingSpec =
  plg_Enabled :: bool
  plg_SidecarImage :: string
  plg_VolumeName :: string
  plg_VolumeMount :: string
  plg_VolumeSizeLimit :: string

record PrivateAiSpec =
  pai_Security :: "PrivateAiSecuritySpec option"
  pai_Runtime :: "PrivateAiRuntimeSpec option"
  pai_Configuration :: "PrivateAiConfigurationSpec option"
  pai_Storage :: "PrivateAiStorageSpec option"
  pai_Networking :: "PrivateAiNetworkingSpec option"
  pai_Logging :: "LoggingSpec option"
  pai_PaiConfigFile :: "PaiConfigMap option"
  pai_PaiEnableAuthentication :: string
  pai_PaiSecret :: "PaiSecretSpec option"
  pai_IsExternalSvc :: string
  pai_StorageClass :: string
  pai_PvcList :: strmap
  pai_PaiImage :: string
  pai_PaiImagePullSecret :: string
  pai_IsDebug :: bool
  pai_ReadinessCheckPeriod :: int
  pai_LivenessCheckPeriod :: int
  pai_IsDownloadScripts :: bool
  pai_PaiService :: PaiServiceSpec
  pai_StorageSizeInGb :: int
  pai_EnvVars :: "EnvironmentVariable list"
  pai_Replicas :: int
  pai_Resources :: "ResourceRequirements option"
  pai_NodePortSvc :: "PaiNodePortSvc list"
  pai_PortMappings :: "PaiPortMapping list"
  pai_IsDeleteOraPvc :: bool
  pai_PaiLogLocation :: string
  pai_PaiHTTPEnabled :: string
  pai_PaiHTTPSEnabled :: string
  pai_PaiHTTPPort :: int
  pai_PaiHTTPSPort :: int
  pai_PaiLBPort :: int
  pai_PaiLBIP :: string
  pai_PaiLBExternalTrafficPolicy :: string
  pai_PaiInternalLB :: string
  pai_PailbAnnotation :: strmap
  pai_WorkerNodes :: "string list"
  pai_TrafficManager :: "TrafficManagerRefSpec option"


section \<open>The status\<close>

record SecretStatus =
  pss_ResourceVersion :: string
  pss_Name :: string
  pss_HasAPIKey :: bool
  pss_HasCertPem :: bool
  pss_APIKey :: string
  pss_Certpem :: string

text \<open>\<^verbatim>\<open>TLSSecretStatus\<close> and \<^verbatim>\<open>ConfigMapStatus\<close> have the same fields.\<close>

record VersionedStatus =
  pvs_ResourceVersion :: string
  pvs_Name :: string

record TrafficManagerRefStatus =
  trs_Ref :: string
  trs_RoutePath :: string
  trs_ServiceName :: string
  trs_Endpoint :: string
  trs_PublicURL :: string

record LoggingStatus =
  pls_LoggingEnabled :: bool
  pls_SidecarImage :: string

record PrivateAiStatus =
  pas_Status :: string
  pas_Replicas :: int
  pas_ReleaseUpdate :: string
  pas_LoadBalancerIP :: string
  pas_PodIP :: string
  pas_NodeIP :: string
  pas_ClusterIP :: string
  pas_LocalService :: string
  pas_PublicLoadBalancerService :: string
  pas_PrivateLoadBalancerService :: string
  pas_ExternalService :: string
  pas_PaiSecret :: SecretStatus
  pas_TLSSecret :: VersionedStatus
  pas_PaiConfigMap :: VersionedStatus
  pas_Mode :: string
  pas_TrafficManager :: TrafficManagerRefStatus
  pas_Logging :: LoggingStatus
  pas_Conditions :: "Condition list"

record PrivateAi =
  pao_Name :: string
  pao_Namespace :: string
  pao_Generation :: int
  pao_Annotations :: strmap
  pao_Finalizers :: "string list"
  pao_Deleting :: bool
  pao_Spec :: PrivateAiSpec
  pao_Status :: PrivateAiStatus


section \<open>The effective view\<close>

record EffectivePrivateAiListener =
  epl_Enabled :: bool
  epl_Port :: int

record EffectivePrivateAiListeners =
  epl_HTTP :: EffectivePrivateAiListener
  epl_HTTPS :: EffectivePrivateAiListener

definition boolFromFlag :: "string \<Rightarrow> bool" where
  "boolFromFlag flag \<longleftrightarrow> EqualFold (TrimSpace flag) ''true''"

text \<open>A grouped field if its group and the field are set, the flat field otherwise.\<close>

definition grouped :: "'g option \<Rightarrow> ('g \<Rightarrow> 'a option) \<Rightarrow> 'a \<Rightarrow> 'a" where
  "grouped g field flat = (case Option.bind g field of None \<Rightarrow> flat | Some v \<Rightarrow> v)"

definition groupedText :: "'g option \<Rightarrow> ('g \<Rightarrow> string) \<Rightarrow> string \<Rightarrow> string" where
  "groupedText g field flat = (case g of None \<Rightarrow> flat | Some x \<Rightarrow> if blank (field x) then flat else field x)"

definition EffectiveAuthEnabled :: "PrivateAiSpec \<Rightarrow> bool" where
  "EffectiveAuthEnabled spec = grouped (pai_Security spec) psy_AuthEnabled (boolFromFlag (pai_PaiEnableAuthentication spec))"

definition EffectiveAuthSecret :: "PrivateAiSpec \<Rightarrow> PaiSecretSpec option" where
  "EffectiveAuthSecret spec = grouped (pai_Security spec) (\<lambda>s. map_option Some (psy_Secret s)) (pai_PaiSecret spec)"

definition EffectiveTLS :: "PrivateAiSpec \<Rightarrow> PaiTLSSpec option" where
  "EffectiveTLS spec = Option.bind (pai_Security spec) psy_TLS"

definition PullIfNotPresent :: string where
  "PullIfNotPresent = ''IfNotPresent''"

definition EffectiveImage :: "PrivateAiSpec \<Rightarrow> PrivateAiImageSpec option" where
  "EffectiveImage spec =
     (case Option.bind (pai_Runtime spec) prt_Image of
        Some i \<Rightarrow> Some (if pim_PullPolicy i = [] then i\<lparr>pim_PullPolicy := PullIfNotPresent\<rparr> else i)
      | None \<Rightarrow>
          if blank (pai_PaiImage spec) \<and> blank (pai_PaiImagePullSecret spec) then None
          else Some \<lparr>pim_Name = pai_PaiImage spec, pim_PullPolicy = PullIfNotPresent, pim_PullSecret = pai_PaiImagePullSecret spec\<rparr>)"

definition EffectiveReplicas :: "PrivateAiSpec \<Rightarrow> int" where
  "EffectiveReplicas spec = grouped (pai_Runtime spec) prt_Replicas (pai_Replicas spec)"

definition EffectiveEnvVars :: "PrivateAiSpec \<Rightarrow> EnvironmentVariable list" where
  "EffectiveEnvVars spec = grouped (pai_Runtime spec) prt_Env (pai_EnvVars spec)"

definition EffectiveResources :: "PrivateAiSpec \<Rightarrow> ResourceRequirements option" where
  "EffectiveResources spec = grouped (pai_Runtime spec) (\<lambda>r. map_option Some (prt_Resources r)) (pai_Resources spec)"

definition EffectiveDebug :: "PrivateAiSpec \<Rightarrow> bool" where
  "EffectiveDebug spec = grouped (pai_Runtime spec) prt_Debug (pai_IsDebug spec)"

definition effectiveReadinessCheckPeriod :: "PrivateAiSpec \<Rightarrow> int" where
  "effectiveReadinessCheckPeriod spec = grouped (pai_Runtime spec) prt_ReadinessCheckPeriod (pai_ReadinessCheckPeriod spec)"

definition effectiveLivenessCheckPeriod :: "PrivateAiSpec \<Rightarrow> int" where
  "effectiveLivenessCheckPeriod spec = grouped (pai_Runtime spec) prt_LivenessCheckPeriod (pai_LivenessCheckPeriod spec)"

definition effectiveDownloadScripts :: "PrivateAiSpec \<Rightarrow> bool" where
  "effectiveDownloadScripts spec = grouped (pai_Runtime spec) prt_DownloadScripts (pai_IsDownloadScripts spec)"

definition EffectiveWorkerNodes :: "PrivateAiSpec \<Rightarrow> string list" where
  "EffectiveWorkerNodes spec = grouped (pai_Runtime spec) prt_WorkerNodes (pai_WorkerNodes spec)"

definition EffectiveConfigFile :: "PrivateAiSpec \<Rightarrow> PaiConfigMap option" where
  "EffectiveConfigFile spec =
     grouped (pai_Configuration spec) (\<lambda>c. map_option Some (pcf_ConfigFile c)) (pai_PaiConfigFile spec)"

definition EffectiveStorageClass :: "PrivateAiSpec \<Rightarrow> string" where
  "EffectiveStorageClass spec = groupedText (pai_Storage spec) pst_StorageClass (pai_StorageClass spec)"

definition EffectivePVCList :: "PrivateAiSpec \<Rightarrow> strmap" where
  "EffectivePVCList spec = grouped (pai_Storage spec) pst_PvcList (pai_PvcList spec)"

definition EffectiveStorageSizeInGb :: "PrivateAiSpec \<Rightarrow> int" where
  "EffectiveStorageSizeInGb spec = grouped (pai_Storage spec) pst_SizeInGb (pai_StorageSizeInGb spec)"

definition EffectiveDeletePvcOnDelete :: "PrivateAiSpec \<Rightarrow> bool" where
  "EffectiveDeletePvcOnDelete spec = grouped (pai_Storage spec) pst_DeletePvcOnDelete (pai_IsDeleteOraPvc spec)"

definition EffectiveLogLocation :: "PrivateAiSpec \<Rightarrow> string" where
  "EffectiveLogLocation spec = groupedText (pai_Storage spec) pst_LogLocation (pai_PaiLogLocation spec)"

definition EffectiveNodePortServices :: "PrivateAiSpec \<Rightarrow> PaiNodePortSvc list" where
  "EffectiveNodePortServices spec = grouped (pai_Networking spec) pnw_NodePortServices (pai_NodePortSvc spec)"

definition EffectiveTrafficManager :: "PrivateAiSpec \<Rightarrow> TrafficManagerRefSpec option" where
  "EffectiveTrafficManager spec =
     grouped (pai_Networking spec) (\<lambda>n. map_option Some (pnw_TrafficManager n)) (pai_TrafficManager spec)"

definition servicePortsFromMappings :: "PaiPortMapping list \<Rightarrow> PaiServicePortSpec list" where
  "servicePortsFromMappings mappings =
     map (\<lambda>m. \<lparr>psp_Name = [], psp_Port = ppm_Port m, psp_TargetPort = ppm_TargetPort m, psp_Protocol = ppm_Protocol m\<rparr>) mappings"

definition isPaiServiceSpecZero :: "PaiServiceSpec \<Rightarrow> bool" where
  "isPaiServiceSpecZero s \<longleftrightarrow>
     psv_Ports s = [] \<and> psv_Cluster s = None \<and> psv_PublicLoadBalancer s = None \<and> psv_PrivateLoadBalancer s = None \<and>
     psv_PortMappings s = [] \<and> psv_SvcName s = [] \<and> psv_SvcType s = []"

definition normalizeServicePorts :: "PaiServiceSpec \<Rightarrow> PaiServiceSpec" where
  "normalizeServicePorts s =
     (if psv_Ports s \<noteq> [] \<or> psv_PortMappings s = [] then s
      else s\<lparr>psv_Ports := servicePortsFromMappings (psv_PortMappings s)\<rparr>)"

definition zeroPaiService :: PaiServiceSpec where
  "zeroPaiService = \<lparr>psv_Ports = [], psv_Cluster = None, psv_PublicLoadBalancer = None, psv_PrivateLoadBalancer = None,
     psv_PortMappings = [], psv_SvcName = [], psv_SvcType = []\<rparr>"

definition flatService :: "PrivateAiSpec \<Rightarrow> PaiServiceSpec option" where
  "flatService spec =
     (let service = (if isPaiServiceSpecZero (pai_PaiService spec) then None else Some (normalizeServicePorts (pai_PaiService spec)));
          service' =
            (if pai_PortMappings spec = [] then service
             else
               (let s = (case service of None \<Rightarrow> zeroPaiService | Some s \<Rightarrow> s) in
                Some (if psv_Ports s = [] then s\<lparr>psv_Ports := servicePortsFromMappings (pai_PortMappings spec)\<rparr> else s)))
      in case service' of None \<Rightarrow> None | Some s \<Rightarrow> if isPaiServiceSpecZero s then None else Some s)"

definition EffectiveService :: "PrivateAiSpec \<Rightarrow> PaiServiceSpec option" where
  "EffectiveService spec =
     (case Option.bind (pai_Networking spec) pnw_Service of
        Some s \<Rightarrow> Some (normalizeServicePorts s)
      | None \<Rightarrow> flatService spec)"

definition effectiveListener ::
    "(PrivateAiListenersSpec \<Rightarrow> PrivateAiListenerSpec option) \<Rightarrow> PrivateAiSpec \<Rightarrow> bool \<Rightarrow> int \<Rightarrow> EffectivePrivateAiListener" where
  "effectiveListener which spec enabled port =
     (let l = Option.bind (Option.bind (pai_Networking spec) pnw_Listeners) which in
      \<lparr>epl_Enabled = grouped l pln_Enabled enabled, epl_Port = grouped l pln_Port port\<rparr>)"

definition EffectiveListeners :: "PrivateAiSpec \<Rightarrow> EffectivePrivateAiListeners" where
  "EffectiveListeners spec =
     \<lparr>epl_HTTP = effectiveListener pls_HTTP spec (boolFromFlag (pai_PaiHTTPEnabled spec)) (pai_PaiHTTPPort spec),
      epl_HTTPS = effectiveListener pls_HTTPS spec (boolFromFlag (pai_PaiHTTPSEnabled spec)) (pai_PaiHTTPSPort spec)\<rparr>"


section \<open>The mutating webhook\<close>

definition updListeners :: "(PrivateAiListenersSpec \<Rightarrow> PrivateAiListenersSpec) \<Rightarrow> PrivateAiSpec \<Rightarrow> PrivateAiSpec" where
  "updListeners f spec =
     spec\<lparr>pai_Networking := map_option (\<lambda>n. n\<lparr>pnw_Listeners := map_option f (pnw_Listeners n)\<rparr>) (pai_Networking spec)\<rparr>"

definition setDefaultPrivateAIHTTPListener :: "bool \<Rightarrow> int \<Rightarrow> PrivateAiSpec \<Rightarrow> PrivateAiSpec" where
  "setDefaultPrivateAIHTTPListener enabled port =
     updListeners (\<lambda>l. l\<lparr>pls_HTTP := Some \<lparr>pln_Enabled = Some enabled, pln_Port = Some port\<rparr>\<rparr>)"

definition setDefaultPrivateAIHTTPSListener :: "bool \<Rightarrow> int \<Rightarrow> PrivateAiSpec \<Rightarrow> PrivateAiSpec" where
  "setDefaultPrivateAIHTTPSListener enabled port =
     updListeners (\<lambda>l. l\<lparr>pls_HTTPS := Some \<lparr>pln_Enabled = Some enabled, pln_Port = Some port\<rparr>\<rparr>)"

definition defaultListeners :: "PrivateAiSpec \<Rightarrow> PrivateAiSpec" where
  "defaultListeners spec =
     (let listeners = EffectiveListeners spec in
      if \<not> epl_Enabled (epl_HTTP listeners)
      then
        (let httpsPort = orZero (epl_Port (epl_HTTPS listeners)) 8443 in
         setDefaultPrivateAIHTTPSListener True httpsPort (setDefaultPrivateAIHTTPListener False 0
           (spec\<lparr>pai_PaiHTTPEnabled := ''false'', pai_PaiHTTPPort := 0, pai_PaiHTTPSEnabled := ''true'', pai_PaiHTTPSPort := httpsPort\<rparr>)))
      else
        (let httpPort = orZero (epl_Port (epl_HTTP listeners)) 8080 in
         setDefaultPrivateAIHTTPSListener False 0 (setDefaultPrivateAIHTTPListener True httpPort
           (spec\<lparr>pai_PaiHTTPEnabled := ''true'', pai_PaiHTTPPort := httpPort, pai_PaiHTTPSEnabled := ''false'', pai_PaiHTTPSPort := 0\<rparr>))))"

definition defaultServicePorts :: "bool \<Rightarrow> PrivateAiSpec \<Rightarrow> PrivateAiSpec" where
  "defaultServicePorts httpEnabled spec =
     (let targetPort = (if httpEnabled then pai_PaiHTTPPort spec else pai_PaiHTTPSPort spec);
          ports = [\<lparr>psp_Name = ''https'', psp_Port = 443, psp_TargetPort = targetPort, psp_Protocol = ''TCP''\<rparr>] in
      if (case EffectiveService spec of None \<Rightarrow> True | Some s \<Rightarrow> psv_Ports s = [])
      then (case Option.bind (pai_Networking spec) pnw_Service of
              Some t \<Rightarrow> spec\<lparr>pai_Networking := map_option (\<lambda>n. n\<lparr>pnw_Service := Some (t\<lparr>psv_Ports := ports\<rparr>)\<rparr>) (pai_Networking spec)\<rparr>
            | None \<Rightarrow> spec\<lparr>pai_PaiService := (pai_PaiService spec)\<lparr>psv_Ports := ports\<rparr>\<rparr>)
      else spec)"

definition orEmpty :: "string \<Rightarrow> string \<Rightarrow> string" where
  "orEmpty s d = (if s = [] then d else s)"

text \<open>Writes to the configuration files: when the effective one has no mount location, both are set to the default.\<close>

definition defaultConfigFile :: "PrivateAiSpec \<Rightarrow> PrivateAiSpec" where
  "defaultConfigFile spec0 =
     (let loc = ''/privateai/config'';
          spec =
            (case EffectiveConfigFile spec0 of
               None \<Rightarrow> spec0
             | Some cfg \<Rightarrow>
                 if pcm_MountLocation cfg \<noteq> [] then spec0
                 else spec0
                   \<lparr>pai_Configuration := map_option (\<lambda>c. c\<lparr>pcf_ConfigFile := map_option (\<lambda>f. f\<lparr>pcm_MountLocation := loc\<rparr>) (pcf_ConfigFile c)\<rparr>)
                      (pai_Configuration spec0),
                    pai_PaiConfigFile := map_option (\<lambda>f. f\<lparr>pcm_MountLocation := loc\<rparr>) (pai_PaiConfigFile spec0)\<rparr>)
      in spec\<lparr>pai_PaiConfigFile := map_option (\<lambda>f. f\<lparr>pcm_MountLocation := orEmpty (pcm_MountLocation f) loc\<rparr>) (pai_PaiConfigFile spec)\<rparr>)"

definition defaultSecretMounts :: "PrivateAiSpec \<Rightarrow> PrivateAiSpec" where
  "defaultSecretMounts spec =
     spec
       \<lparr>pai_Security := map_option (\<lambda>s.
          s\<lparr>psy_Secret := map_option (\<lambda>x. x\<lparr>psc_MountLocation := orEmpty (psc_MountLocation x) ''/privateai/ssl''\<rparr>) (psy_Secret s),
            psy_TLS := map_option (\<lambda>x. x\<lparr>ptl_MountLocation := orEmpty (ptl_MountLocation x) ''/privateai/ssl''\<rparr>) (psy_TLS s)\<rparr>)
          (pai_Security spec),
        pai_PaiSecret := map_option (\<lambda>x. x\<lparr>psc_MountLocation := orEmpty (psc_MountLocation x) ''/privateai/ssl''\<rparr>) (pai_PaiSecret spec)\<rparr>"

definition defaultLoadBalancerPolicy :: "PaiLoadBalancerSpec option \<Rightarrow> PaiLoadBalancerSpec option" where
  "defaultLoadBalancerPolicy lb =
     map_option (\<lambda>b. b\<lparr>plb_ExternalTrafficPolicy := orEmpty (plb_ExternalTrafficPolicy b) ''Cluster''\<rparr>) lb"

definition defaultLoadBalancerPolicies :: "PaiServiceSpec \<Rightarrow> PaiServiceSpec" where
  "defaultLoadBalancerPolicies s =
     s\<lparr>psv_PublicLoadBalancer := defaultLoadBalancerPolicy (psv_PublicLoadBalancer s),
       psv_PrivateLoadBalancer := defaultLoadBalancerPolicy (psv_PrivateLoadBalancer s)\<rparr>"

definition defaultPolicies :: "PrivateAiSpec \<Rightarrow> PrivateAiSpec" where
  "defaultPolicies spec =
     spec\<lparr>pai_Networking := map_option (\<lambda>n. n\<lparr>pnw_Service := map_option defaultLoadBalancerPolicies (pnw_Service n)\<rparr>) (pai_Networking spec),
          pai_PaiService := defaultLoadBalancerPolicies (pai_PaiService spec)\<rparr>"

definition defaultRoute :: "string \<Rightarrow> string" where
  "defaultRoute name = ''/'' @ ToLower (TrimSpace name) @ ''/v1/''"

definition defaultRoutePath :: "string \<Rightarrow> PrivateAiSpec \<Rightarrow> PrivateAiSpec" where
  "defaultRoutePath name spec =
     (case EffectiveTrafficManager spec of
        None \<Rightarrow> spec
      | Some tm \<Rightarrow>
          if blank (tmref_Ref tm) \<or> \<not> blank (tmref_RoutePath tm) then spec
          else (case Option.bind (pai_Networking spec) pnw_TrafficManager of
                  Some t \<Rightarrow> spec\<lparr>pai_Networking := map_option (\<lambda>n. n\<lparr>pnw_TrafficManager := Some (t\<lparr>tmref_RoutePath := defaultRoute name\<rparr>)\<rparr>)
                              (pai_Networking spec)\<rparr>
                | None \<Rightarrow> spec\<lparr>pai_TrafficManager := map_option (\<lambda>t. t\<lparr>tmref_RoutePath := defaultRoute name\<rparr>) (pai_TrafficManager spec)\<rparr>))"

text \<open>\<open>None\<close> is the error of two enabled listeners.\<close>

definition paiDefault :: "PrivateAi \<Rightarrow> PrivateAi option" where
  "paiDefault obj =
     (let spec = pao_Spec obj; listeners = EffectiveListeners spec; httpEnabled = epl_Enabled (epl_HTTP listeners) in
      if httpEnabled \<and> epl_Enabled (epl_HTTPS listeners) then None
      else Some (obj\<lparr>pao_Spec :=
        defaultRoutePath (pao_Name obj) (defaultPolicies (defaultSecretMounts (defaultConfigFile
          (defaultServicePorts httpEnabled (defaultListeners spec)))))\<rparr>))"


section \<open>The validating webhook\<close>

text \<open>\<^verbatim>\<open>strings.Contains\<close>.\<close>

definition Contains :: "string \<Rightarrow> string \<Rightarrow> bool" where
  "Contains s t \<longleftrightarrow> list_ex (\<lambda>i. HasPrefix (drop i s) t) [0..<Suc (length s)]"

datatype pai_error =
    AuthSecretMissing
  | SecretMountNotAbs | PaiSecretMountNotAbs | PaiTlsMountNotAbs | PaiConfigMountNotAbs
  | ItemKeyMissing string nat | ItemPathAbsolute string nat | ItemPathParent string nat | ItemPathDuplicate string string
  | PaiTlsSecretMissing
  | SharedItemPath string nat
  | PublicPolicyInvalid | PrivatePolicyInvalid
  | TmRefMissing | TmClientMissing | TmNotFound string | TmLookupFailed string | TmTypeUnsupported string string
  | TmRoutePathInvalid

definition resolvedSecretMountItemPath :: "SecretMountItem \<Rightarrow> string" where
  "resolvedSecretMountItemPath item = (if blank (smi_Path item) then TrimSpace (smi_Key item) else TrimSpace (smi_Path item))"

definition parentSegments :: "string \<Rightarrow> bool" where
  "parentSegments p \<longleftrightarrow> p = ''.'' \<or> p = ''..'' \<or> HasPrefix p ''../'' \<or> Contains p ''/../''"

fun validateSecretMountItemsFrom :: "nat \<Rightarrow> string set \<Rightarrow> string \<Rightarrow> SecretMountItem list \<Rightarrow> pai_error option" where
  "validateSecretMountItemsFrom i seen field [] = None"
| "validateSecretMountItemsFrom i seen field (item # items) =
     (let resolvedPath = resolvedSecretMountItemPath item in
      if blank (smi_Key item) then Some (ItemKeyMissing field i)
      else if IsAbs resolvedPath then Some (ItemPathAbsolute field i)
      else if parentSegments resolvedPath then Some (ItemPathParent field i)
      else if resolvedPath \<in> seen then Some (ItemPathDuplicate field resolvedPath)
      else validateSecretMountItemsFrom (Suc i) (insert resolvedPath seen) field items)"

definition validateSecretMountItems :: "SecretMountItem list \<Rightarrow> string \<Rightarrow> pai_error option" where
  "validateSecretMountItems items field = validateSecretMountItemsFrom 0 {} field items"

fun sharedItemFrom :: "nat \<Rightarrow> string set \<Rightarrow> SecretMountItem list \<Rightarrow> pai_error option" where
  "sharedItemFrom i seen [] = None"
| "sharedItemFrom i seen (item # items) =
     (if resolvedSecretMountItemPath item \<in> seen then Some (SharedItemPath (resolvedSecretMountItemPath item) i)
      else sharedItemFrom (Suc i) seen items)"

definition validateSharedSecretMountItems :: "SecretMountItem list \<Rightarrow> SecretMountItem list \<Rightarrow> pai_error option" where
  "validateSharedSecretMountItems authItems tlsItems =
     (if authItems = [] \<or> tlsItems = [] then None
      else sharedItemFrom 0 (set (map resolvedSecretMountItemPath authItems)) tlsItems)"

definition validateLoadBalancerPolicy :: "PaiLoadBalancerSpec option \<Rightarrow> bool" where
  "validateLoadBalancerPolicy lb =
     (case lb of None \<Rightarrow> True
      | Some b \<Rightarrow>
          let policy = TrimSpace (plb_ExternalTrafficPolicy b) in
          policy = [] \<or> EqualFold policy ''Local'' \<or> EqualFold policy ''Cluster'')"

definition effectiveAuthSecretItemsField :: "PrivateAiSpec \<Rightarrow> string" where
  "effectiveAuthSecretItemsField spec =
     (if Option.bind (pai_Security spec) psy_Secret \<noteq> None then ''spec.security.secret.items'' else ''paiSecret.items'')"

datatype tm_lookup = TMNotFound | TMError string | TMFound TrafficManager

definition validateAuth :: "PrivateAiSpec \<Rightarrow> pai_error option" where
  "validateAuth spec =
     (let authSecret = EffectiveAuthSecret spec; groupSecret = Option.bind (pai_Security spec) psy_Secret in
      firstOf
        [failIf (EffectiveAuthEnabled spec \<and> (case authSecret of None \<Rightarrow> True | Some s \<Rightarrow> blank (psc_Name s))) AuthSecretMissing,
         failIf (case groupSecret of None \<Rightarrow> False | Some s \<Rightarrow> mountInvalid (psc_MountLocation s)) SecretMountNotAbs,
         (case authSecret of None \<Rightarrow> None | Some s \<Rightarrow> validateSecretMountItems (psc_Items s) (effectiveAuthSecretItemsField spec)),
         (if groupSecret = None
          then (case pai_PaiSecret spec of None \<Rightarrow> None
                | Some s \<Rightarrow> firstOf [failIf (mountInvalid (psc_MountLocation s)) PaiSecretMountNotAbs,
                                       validateSecretMountItems (psc_Items s) ''paiSecret.items''])
          else None)])"

definition validatePaiTLS :: "PrivateAiSpec \<Rightarrow> pai_error option" where
  "validatePaiTLS spec =
     (case EffectiveTLS spec of
        None \<Rightarrow> None
      | Some tls \<Rightarrow> firstOf
          [failIf (blank (ptl_SecretName tls)) PaiTlsSecretMissing,
           failIf (mountInvalid (ptl_MountLocation tls)) PaiTlsMountNotAbs,
           validateSecretMountItems (ptl_Items tls) ''spec.security.tls.items'',
           (case EffectiveAuthSecret spec of
              None \<Rightarrow> None
            | Some auth \<Rightarrow>
                if \<not> blank (psc_MountLocation auth) \<and> TrimSpace (psc_MountLocation auth) = TrimSpace (ptl_MountLocation tls)
                then validateSharedSecretMountItems (psc_Items auth) (ptl_Items tls) else None)])"

definition validateServicePolicies :: "PrivateAiSpec \<Rightarrow> pai_error option" where
  "validateServicePolicies spec =
     (case EffectiveService spec of
        None \<Rightarrow> None
      | Some s \<Rightarrow> firstOf [failIf (\<not> validateLoadBalancerPolicy (psv_PublicLoadBalancer s)) PublicPolicyInvalid,
                             failIf (\<not> validateLoadBalancerPolicy (psv_PrivateLoadBalancer s)) PrivatePolicyInvalid])"

definition validateReference :: "(string \<Rightarrow> tm_lookup) option \<Rightarrow> PrivateAiSpec \<Rightarrow> pai_error option" where
  "validateReference client spec =
     (case EffectiveTrafficManager spec of
        None \<Rightarrow> None
      | Some tm \<Rightarrow>
          if blank (tmref_Ref tm) then Some TmRefMissing
          else
            (case client of
               None \<Rightarrow> Some TmClientMissing
             | Some get \<Rightarrow>
                 let ref = TrimSpace (tmref_Ref tm) in
                 (case get ref of
                    TMNotFound \<Rightarrow> Some (TmNotFound ref)
                  | TMError e \<Rightarrow> Some (TmLookupFailed e)
                  | TMFound obj \<Rightarrow>
                      if tms_Type (tm_Spec obj) \<noteq> TrafficManagerTypeNginx then Some (TmTypeUnsupported ref (tms_Type (tm_Spec obj)))
                      else if \<not> ValidateTrafficManagerRoutePath (tmref_RoutePath tm) then Some TmRoutePathInvalid
                      else None)))"

definition paiValidate :: "(string \<Rightarrow> tm_lookup) option \<Rightarrow> PrivateAi \<Rightarrow> pai_error option" where
  "paiValidate client obj =
     (let spec = pao_Spec obj in
      firstOf
        [validateAuth spec, validatePaiTLS spec,
         (case EffectiveConfigFile spec of None \<Rightarrow> None | Some c \<Rightarrow> failIf (mountInvalid (pcm_MountLocation c)) PaiConfigMountNotAbs),
         validateServicePolicies spec, validateReference client spec])"

definition paiValidateCreate :: "(string \<Rightarrow> tm_lookup) option \<Rightarrow> PrivateAi \<Rightarrow> pai_error option" where
  "paiValidateCreate client obj = paiValidate client obj"

definition paiValidateUpdate :: "(string \<Rightarrow> tm_lookup) option \<Rightarrow> PrivateAi \<Rightarrow> PrivateAi \<Rightarrow> pai_error option" where
  "paiValidateUpdate client old new = paiValidate client new"

definition paiValidateDelete :: "PrivateAi \<Rightarrow> pai_error option" where
  "paiValidateDelete obj = None"

text \<open>The deprecated fields that are in use, by name, in the order of the warnings.\<close>

definition deprecatedPrivateAIFieldWarnings :: "PrivateAiSpec \<Rightarrow> string list" where
  "deprecatedPrivateAIFieldWarnings spec =
     map fst (filter snd
       [(''isExternalSvc'', \<not> blank (pai_IsExternalSvc spec)),
        (''paiLBPort'', pai_PaiLBPort spec \<noteq> 0),
        (''paiLBIP'', \<not> blank (pai_PaiLBIP spec)),
        (''paiLBExternalTrafficPolicy'', \<not> blank (pai_PaiLBExternalTrafficPolicy spec)),
        (''paiInternalLB'', \<not> blank (pai_PaiInternalLB spec)),
        (''pailbAnnotation'', pai_PailbAnnotation spec \<noteq> []),
        (''paiSecret'', pai_PaiSecret spec \<noteq> None),
        (''paiEnableAuthentication'', \<not> blank (pai_PaiEnableAuthentication spec)),
        (''paiConfigFile'', pai_PaiConfigFile spec \<noteq> None),
        (''paiImage'', \<not> blank (pai_PaiImage spec)),
        (''paiImagePullSecret'', \<not> blank (pai_PaiImagePullSecret spec)),
        (''isDebug'', pai_IsDebug spec),
        (''readinessCheckPeriod'', pai_ReadinessCheckPeriod spec \<noteq> 0),
        (''livenessCheckPeriod'', pai_LivenessCheckPeriod spec \<noteq> 0),
        (''isDownloadScripts'', pai_IsDownloadScripts spec),
        (''storageClass'', pai_StorageClass spec \<noteq> []),
        (''pvcList'', pai_PvcList spec \<noteq> []),
        (''storageSizeInGb'', pai_StorageSizeInGb spec \<noteq> 0),
        (''isDeleteOraPvc'', pai_IsDeleteOraPvc spec),
        (''paiLogLocation'', \<not> blank (pai_PaiLogLocation spec)),
        (''envVars'', pai_EnvVars spec \<noteq> []),
        (''replicas'', pai_Replicas spec \<noteq> 0),
        (''resources'', pai_Resources spec \<noteq> None),
        (''nodePortSvc'', pai_NodePortSvc spec \<noteq> []),
        (''portMappings'', pai_PortMappings spec \<noteq> []),
        (''workerNodes'', pai_WorkerNodes spec \<noteq> []),
        (''trafficManager'', pai_TrafficManager spec \<noteq> None)])"


section \<open>Lemmas\<close>

lemma grouped_simps [simp]:
  "grouped None f d = d" "grouped (Some g) f d = (case f g of None \<Rightarrow> d | Some v \<Rightarrow> v)"
  by (simp_all add: grouped_def)

text \<open>The steps of defaulting, and which fields each of them leaves alone.\<close>

lemma updListeners_fields [simp]:
  "pai_PaiHTTPEnabled (updListeners f spec) = pai_PaiHTTPEnabled spec" "pai_PaiHTTPSEnabled (updListeners f spec) = pai_PaiHTTPSEnabled spec"
  "pai_PaiHTTPPort (updListeners f spec) = pai_PaiHTTPPort spec" "pai_PaiHTTPSPort (updListeners f spec) = pai_PaiHTTPSPort spec"
  "pai_PaiService (updListeners f spec) = pai_PaiService spec" "pai_PortMappings (updListeners f spec) = pai_PortMappings spec"
  "pai_TrafficManager (updListeners f spec) = pai_TrafficManager spec"
  "Option.bind (pai_Networking (updListeners f spec)) pnw_Service = Option.bind (pai_Networking spec) pnw_Service"
  "Option.bind (pai_Networking (updListeners f spec)) pnw_TrafficManager = Option.bind (pai_Networking spec) pnw_TrafficManager"
  "Option.bind (pai_Networking (updListeners f spec)) pnw_Listeners = map_option f (Option.bind (pai_Networking spec) pnw_Listeners)"
  by (cases "pai_Networking spec"; simp add: updListeners_def)+

lemma flags [simp]: "boolFromFlag ''true''" "\<not> boolFromFlag ''false''" "\<not> boolFromFlag []"
  by code_simp+

lemma EffectiveListeners_depends:
  assumes "pai_PaiHTTPEnabled a = pai_PaiHTTPEnabled b" "pai_PaiHTTPSEnabled a = pai_PaiHTTPSEnabled b"
    "pai_PaiHTTPPort a = pai_PaiHTTPPort b" "pai_PaiHTTPSPort a = pai_PaiHTTPSPort b"
    "Option.bind (pai_Networking a) pnw_Listeners = Option.bind (pai_Networking b) pnw_Listeners"
  shows "EffectiveListeners a = EffectiveListeners b"
  by (simp add: EffectiveListeners_def effectiveListener_def assms)

text \<open>After defaulting, the flat and the grouped listeners agree.\<close>

lemma EffectiveListeners_defaultListeners:
  "EffectiveListeners (defaultListeners spec) =
     (let l = EffectiveListeners spec in
      if epl_Enabled (epl_HTTP l)
      then \<lparr>epl_HTTP = \<lparr>epl_Enabled = True, epl_Port = orZero (epl_Port (epl_HTTP l)) 8080\<rparr>, epl_HTTPS = \<lparr>epl_Enabled = False, epl_Port = 0\<rparr>\<rparr>
      else \<lparr>epl_HTTP = \<lparr>epl_Enabled = False, epl_Port = 0\<rparr>, epl_HTTPS = \<lparr>epl_Enabled = True, epl_Port = orZero (epl_Port (epl_HTTPS l)) 8443\<rparr>\<rparr>)"
proof -
  have *: "Option.bind (map_option f (Option.bind (pai_Networking (spec\<lparr>pai_PaiHTTPEnabled := a, pai_PaiHTTPPort := p, pai_PaiHTTPSEnabled := b, pai_PaiHTTPSPort := q\<rparr>)) pnw_Listeners)) g =
      Option.bind (Option.bind (pai_Networking spec) pnw_Listeners) (\<lambda>l. g (f l))" for f g a b p q
    by (cases "Option.bind (pai_Networking spec) pnw_Listeners") simp_all
  show ?thesis
    by (cases "Option.bind (pai_Networking spec) pnw_Listeners")
      (auto simp: defaultListeners_def Let_def setDefaultPrivateAIHTTPListener_def setDefaultPrivateAIHTTPSListener_def
        EffectiveListeners_def [of "updListeners f s" for f s] effectiveListener_def [of _ "updListeners f s" for f s] *)
qed


subsection \<open>Defaulting\<close>

lemma orEmpty_simps [simp]: "orEmpty (orEmpty s d) d = orEmpty s d" "orEmpty s d = [] \<longleftrightarrow> s = [] \<and> d = []" "orEmpty [] d = d"
  by (simp_all add: orEmpty_def)

text \<open>What the later steps leave of the settings that the listeners are read from.\<close>

definition sameListeners :: "PrivateAiSpec \<Rightarrow> PrivateAiSpec \<Rightarrow> bool" where
  "sameListeners a b \<longleftrightarrow>
     pai_PaiHTTPEnabled a = pai_PaiHTTPEnabled b \<and> pai_PaiHTTPSEnabled a = pai_PaiHTTPSEnabled b \<and>
     pai_PaiHTTPPort a = pai_PaiHTTPPort b \<and> pai_PaiHTTPSPort a = pai_PaiHTTPSPort b \<and>
     Option.bind (pai_Networking a) pnw_Listeners = Option.bind (pai_Networking b) pnw_Listeners"

lemma sameListeners_trans: "sameListeners a b \<Longrightarrow> sameListeners b c \<Longrightarrow> sameListeners a c"
  by (simp add: sameListeners_def)

lemma bind_map_field:
  "(\<And>n. g (f n) = g n) \<Longrightarrow> Option.bind (map_option f x) g = Option.bind x g"
  by (cases x) simp_all

lemma sameListeners_steps:
  "sameListeners (defaultServicePorts h spec) spec" "sameListeners (defaultConfigFile spec) spec"
  "sameListeners (defaultSecretMounts spec) spec" "sameListeners (defaultPolicies spec) spec"
  "sameListeners (defaultRoutePath name spec) spec"
  by (auto simp: sameListeners_def defaultServicePorts_def defaultConfigFile_def defaultSecretMounts_def defaultPolicies_def
      defaultRoutePath_def Let_def bind_map_field split: option.splits)

lemma sameListeners_effective: "sameListeners a b \<Longrightarrow> EffectiveListeners a = EffectiveListeners b"
  by (rule EffectiveListeners_depends) (simp_all add: sameListeners_def)

lemma sameListeners_chain:
  "sameListeners (defaultRoutePath name (defaultPolicies (defaultSecretMounts (defaultConfigFile (defaultServicePorts h spec))))) spec"
  by (rule sameListeners_trans [OF sameListeners_steps(5) sameListeners_trans [OF sameListeners_steps(4)
        sameListeners_trans [OF sameListeners_steps(3) sameListeners_trans [OF sameListeners_steps(2) sameListeners_steps(1)]]]])

lemma paiDefault_SomeE:
  assumes "paiDefault obj = Some obj'"
  obtains "obj' = obj\<lparr>pao_Spec := pao_Spec obj'\<rparr>" "sameListeners (pao_Spec obj') (defaultListeners (pao_Spec obj))"
  using assms unfolding paiDefault_def Let_def by (auto split: if_splits intro!: that simp: sameListeners_chain)

lemma listener_flags:
  "pai_PaiHTTPEnabled (defaultListeners spec) = (if epl_Enabled (epl_HTTP (EffectiveListeners spec)) then ''true'' else ''false'')"
  "pai_PaiHTTPPort (defaultListeners spec) =
     (if epl_Enabled (epl_HTTP (EffectiveListeners spec)) then orZero (epl_Port (epl_HTTP (EffectiveListeners spec))) 8080 else 0)"
  "pai_PaiHTTPSPort (defaultListeners spec) =
     (if epl_Enabled (epl_HTTP (EffectiveListeners spec)) then 0 else orZero (epl_Port (epl_HTTPS (EffectiveListeners spec))) 8443)"
  "pai_PaiHTTPSEnabled (defaultListeners spec) = (if epl_Enabled (epl_HTTP (EffectiveListeners spec)) then ''false'' else ''true'')"
  by (simp_all add: defaultListeners_def Let_def setDefaultPrivateAIHTTPListener_def setDefaultPrivateAIHTTPSListener_def)

lemma grouped_listeners:
  "Option.bind (pai_Networking (defaultListeners spec)) pnw_Listeners =
     map_option (\<lambda>l. let d = EffectiveListeners (defaultListeners spec) in
         l\<lparr>pls_HTTP := Some \<lparr>pln_Enabled = Some (epl_Enabled (epl_HTTP d)), pln_Port = Some (epl_Port (epl_HTTP d))\<rparr>,
           pls_HTTPS := Some \<lparr>pln_Enabled = Some (epl_Enabled (epl_HTTPS d)), pln_Port = Some (epl_Port (epl_HTTPS d))\<rparr>\<rparr>)
       (Option.bind (pai_Networking spec) pnw_Listeners)"
  unfolding EffectiveListeners_defaultListeners
  by (cases "Option.bind (pai_Networking spec) pnw_Listeners")
    (auto simp: defaultListeners_def Let_def setDefaultPrivateAIHTTPListener_def setDefaultPrivateAIHTTPSListener_def)



subsection \<open>Mounted secret items\<close>

lemma HasPrefix_simps [simp]: "HasPrefix s []" "HasPrefix [] (c # t) = False" "HasPrefix (d # s) (c # t) \<longleftrightarrow> c = d \<and> HasPrefix s t"
  by (auto simp: HasPrefix_def)

lemma Contains_iff: "Contains s t \<longleftrightarrow> (\<exists>i \<le> length s. HasPrefix (drop i s) t)"
  by (auto simp: Contains_def list_ex_iff less_Suc_eq_le simp del: upt_Suc)

lemma Contains_simps:
  "Contains [] (c # t) = False" "Contains (d # s) (c # t) \<longleftrightarrow> (c = d \<and> HasPrefix s t) \<or> Contains s (c # t)"
proof -
  show "Contains [] (c # t) = False" by (simp add: Contains_iff)
  have "(\<exists>i \<le> length (d # s). P i) \<longleftrightarrow> P 0 \<or> (\<exists>i \<le> length s. P (Suc i))" for P
    by (metis Suc_le_mono length_Cons not0_implies_Suc zero_le)
  then show "Contains (d # s) (c # t) \<longleftrightarrow> (c = d \<and> HasPrefix s t) \<or> Contains s (c # t)"
    unfolding Contains_iff by simp
qed

lemma HasPrefix_segment:
  "sep \<notin> set seg \<Longrightarrow> HasPrefix s (seg @ [sep]) \<longleftrightarrow> hd (Split s sep) = seg \<and> tl (Split s sep) \<noteq> []"
proof (induction seg arbitrary: s)
  case Nil
  show ?case by (cases s) (auto split: list.splits)
next
  case (Cons c seg)
  show ?case
  proof (cases s)
    case (Cons d s')
    show ?thesis
      using Cons.prems Cons.IH [of s'] unfolding \<open>s = d # s'\<close>
      by (cases "Split s' sep") (auto split: list.splits)
  qed simp
qed

lemma Contains_segment:
  "sep \<notin> set seg \<Longrightarrow> Contains s (sep # seg @ [sep]) \<longleftrightarrow> seg \<in> set (butlast (tl (Split s sep)))"
proof (induction s)
  case (Cons d s)
  have ne: "Split s sep \<noteq> []" by simp
  show ?case
  proof (cases "d = sep")
    case True
    have "seg \<in> set (butlast (Split s sep)) \<longleftrightarrow>
        (hd (Split s sep) = seg \<and> tl (Split s sep) \<noteq> []) \<or> seg \<in> set (butlast (tl (Split s sep)))"
      using ne by (cases "Split s sep") auto
    then show ?thesis using True Cons by (auto simp: Contains_simps HasPrefix_segment)
  next
    case False
    then show ?thesis using Cons ne by (cases "Split s sep") (auto simp: Contains_simps)
  qed
qed (simp add: Contains_simps)

lemma parentSegments_iff:
  "parentSegments p \<longleftrightarrow> p = ''.'' \<or> p = ''..'' \<or> ''..'' \<in> set (butlast (Split p (CHR ''/'')))"
proof -
  have "HasPrefix p ''../'' \<longleftrightarrow> hd (Split p (CHR ''/'')) = ''..'' \<and> tl (Split p (CHR ''/'')) \<noteq> []"
    using HasPrefix_segment [of "CHR ''/''" "''..''" p] by simp
  moreover have "Contains p ''/../'' \<longleftrightarrow> ''..'' \<in> set (butlast (tl (Split p (CHR ''/''))))"
    using Contains_segment [of "CHR ''/''" "''..''" p] by simp
  moreover have "''..'' \<in> set (butlast (Split p (CHR ''/''))) \<longleftrightarrow>
      (hd (Split p (CHR ''/'')) = ''..'' \<and> tl (Split p (CHR ''/'')) \<noteq> []) \<or> ''..'' \<in> set (butlast (tl (Split p (CHR ''/''))))"
    using Split_nonempty [of p "CHR ''/''"] by (cases "Split p (CHR ''/'')") auto
  ultimately show ?thesis unfolding parentSegments_def by blast
qed

definition itemSound :: "SecretMountItem \<Rightarrow> bool" where
  "itemSound item \<longleftrightarrow>
     \<not> blank (smi_Key item) \<and> \<not> IsAbs (resolvedSecretMountItemPath item) \<and> \<not> parentSegments (resolvedSecretMountItemPath item)"

lemma validateSecretMountItemsFrom_None:
  "validateSecretMountItemsFrom i seen field items = None \<longleftrightarrow>
     list_all itemSound items \<and> distinct (map resolvedSecretMountItemPath items) \<and>
     set (map resolvedSecretMountItemPath items) \<inter> seen = {}"
  by (induction items arbitrary: i seen) (auto simp: itemSound_def Let_def)

text \<open>
  C28: the secret items that a mount may have are exactly those with a key, pairwise different paths, and paths that are relative,
  are not \<^verbatim>\<open>.\<close> or \<^verbatim>\<open>..\<close> and have no segment \<^verbatim>\<open>..\<close> before the last one. A last segment \<^verbatim>\<open>..\<close>, as in \<^verbatim>\<open>certs/..\<close>, is accepted.
\<close>

theorem secret_items_accepted_iff:
  "validateSecretMountItems items field = None \<longleftrightarrow>
     distinct (map resolvedSecretMountItemPath items) \<and>
     list_all (\<lambda>item. let p = resolvedSecretMountItemPath item in
        TrimSpace (smi_Key item) \<noteq> [] \<and> \<not> HasPrefix p ''/'' \<and> p \<notin> {''.'', ''..''} \<and>
        ''..'' \<notin> set (butlast (Split p (CHR ''/'')))) items"
  unfolding validateSecretMountItems_def validateSecretMountItemsFrom_None
  by (auto simp: list_all_iff itemSound_def IsAbs_def parentSegments_iff Let_def)

section \<open>An example\<close>

text \<open>The zero values of the structures, and an object that names the traffic manager \<^verbatim>\<open>edge\<close>.\<close>

definition zeroPaiSpec :: PrivateAiSpec where
  "zeroPaiSpec = \<lparr>pai_Security = None, pai_Runtime = None, pai_Configuration = None, pai_Storage = None,
     pai_Networking = None, pai_Logging = None, pai_PaiConfigFile = None, pai_PaiEnableAuthentication = [],
     pai_PaiSecret = None, pai_IsExternalSvc = [], pai_StorageClass = [], pai_PvcList = [], pai_PaiImage = [],
     pai_PaiImagePullSecret = [], pai_IsDebug = False, pai_ReadinessCheckPeriod = 0, pai_LivenessCheckPeriod = 0,
     pai_IsDownloadScripts = False, pai_PaiService = zeroPaiService, pai_StorageSizeInGb = 0, pai_EnvVars = [],
     pai_Replicas = 0, pai_Resources = None, pai_NodePortSvc = [], pai_PortMappings = [], pai_IsDeleteOraPvc = False,
     pai_PaiLogLocation = [], pai_PaiHTTPEnabled = [], pai_PaiHTTPSEnabled = [], pai_PaiHTTPPort = 0,
     pai_PaiHTTPSPort = 0, pai_PaiLBPort = 0, pai_PaiLBIP = [], pai_PaiLBExternalTrafficPolicy = [],
     pai_PaiInternalLB = [], pai_PailbAnnotation = [], pai_WorkerNodes = [], pai_TrafficManager = None\<rparr>"

definition zeroPaiStatus :: PrivateAiStatus where
  "zeroPaiStatus = \<lparr>pas_Status = [], pas_Replicas = 0, pas_ReleaseUpdate = [], pas_LoadBalancerIP = [],
     pas_PodIP = [], pas_NodeIP = [], pas_ClusterIP = [], pas_LocalService = [], pas_PublicLoadBalancerService = [],
     pas_PrivateLoadBalancerService = [], pas_ExternalService = [],
     pas_PaiSecret = \<lparr>pss_ResourceVersion = [], pss_Name = [], pss_HasAPIKey = False, pss_HasCertPem = False, pss_APIKey = [], pss_Certpem = []\<rparr>,
     pas_TLSSecret = \<lparr>pvs_ResourceVersion = [], pvs_Name = []\<rparr>,
     pas_PaiConfigMap = \<lparr>pvs_ResourceVersion = [], pvs_Name = []\<rparr>, pas_Mode = [],
     pas_TrafficManager = \<lparr>trs_Ref = [], trs_RoutePath = [], trs_ServiceName = [], trs_Endpoint = [], trs_PublicURL = []\<rparr>,
     pas_Logging = \<lparr>pls_LoggingEnabled = False, pls_SidecarImage = []\<rparr>, pas_Conditions = []\<rparr>"

definition examplePai :: PrivateAi where
  "examplePai = \<lparr>pao_Name = ''search'', pao_Namespace = ''ai'', pao_Generation = 1, pao_Annotations = [], pao_Finalizers = [],
     pao_Deleting = False, pao_Spec = zeroPaiSpec\<lparr>pai_TrafficManager := Some \<lparr>tmref_Ref = ''edge'', tmref_RoutePath = []\<rparr>\<rparr>,
     pao_Status = zeroPaiStatus\<rparr>"

end
