(* ===== verification/Traffic_Controller.thy ===== *)
theory Traffic_Controller
  imports K8s_Objects Pai_Webhook "HOL-Library.List_Lexorder" "HOL-Library.Char_ord"
begin

text \<open>
  The traffic manager controller, \<^verbatim>\<open>controllers/network/trafficmanager_controller.go\<close>: the private AI services behind a traffic
  manager, the nginx configuration, the deployment and the services built from the specification, and the pass that stores
  them. The digest of \<^verbatim>\<open>crypto/sha256\<close> is the parameter \<open>digest\<close>.
\<close>

section \<open>Backends\<close>

record associatedBackend =
  ab_Name :: string
  ab_Path :: string
  ab_ServiceName :: string
  ab_ServicePort :: int
  ab_UseHTTPS :: bool

text \<open>\<^verbatim>\<open>strconv.ParseBool\<close>, an error being false.\<close>

definition parseBoolFlag :: "string \<Rightarrow> bool" where
  "parseBoolFlag flag \<longleftrightarrow> flag \<in> {''1'', ''t'', ''T'', ''TRUE'', ''true'', ''True''}"

definition backendScheme :: "bool \<Rightarrow> string" where
  "backendScheme useHTTPS = (if useHTTPS then ''https'' else ''http'')"

definition backendServicePort :: "PrivateAiSpec \<Rightarrow> int" where
  "backendServicePort spec =
     (case find (\<lambda>pm. ppm_Port pm > 0) (psv_PortMappings (pai_PaiService spec)) of
        Some pm \<Rightarrow> ppm_Port pm
      | None \<Rightarrow>
          if parseBoolFlag (pai_PaiHTTPEnabled spec)
          then (if pai_PaiHTTPPort spec > 0 then pai_PaiHTTPPort spec else 8080)
          else (if pai_PaiHTTPSPort spec > 0 then pai_PaiHTTPSPort spec else 8443))"

definition backendServiceDNS :: "PrivateAi \<Rightarrow> string" where
  "backendServiceDNS inst = pao_Name inst @ ''.'' @ pao_Namespace inst @ ''.svc.cluster.local''"

datatype tmc_error =
    ListFailed string
  | RouteInvalid string
  | RouteDuplicate string string string
  | RouteEmpty string
  | TlsSecretUnset
  | SecretUnreadable string string
  | SecretKeyMissing string string
  | ConfigMapUnreadable string string
  | ConfigMapKeyMissing string string
  | NotControlled string
  | ApiFailed string
  | ServiceFailed service_error

definition backendRoutePath :: "PrivateAi \<Rightarrow> TrafficManagerRefSpec \<Rightarrow> string" where
  "backendRoutePath item tm = (if blank (tmref_RoutePath tm) then defaultRoute (pao_Name item) else TrimSpace (tmref_RoutePath tm))"

definition associatedBackendOf :: "PrivateAi \<Rightarrow> string \<Rightarrow> associatedBackend" where
  "associatedBackendOf item path =
     \<lparr>ab_Name = pao_Name item, ab_Path = path, ab_ServiceName = backendServiceDNS item,
      ab_ServicePort = backendServicePort (pao_Spec item), ab_UseHTTPS = (\<not> parseBoolFlag (pai_PaiHTTPEnabled (pao_Spec item)))\<rparr>"

fun collectBackends ::
    "string \<Rightarrow> (string, string) gomap \<Rightarrow> associatedBackend list \<Rightarrow> PrivateAi list \<Rightarrow> tmc_error + associatedBackend list" where
  "collectBackends name seen backends [] = Inr backends"
| "collectBackends name seen backends (item # items) =
     (case EffectiveTrafficManager (pao_Spec item) of
        None \<Rightarrow> collectBackends name seen backends items
      | Some tm \<Rightarrow>
          if TrimSpace (tmref_Ref tm) \<noteq> name then collectBackends name seen backends items
          else
            (let path = backendRoutePath item tm in
             if \<not> ValidateTrafficManagerRoutePath path then Inl (RouteInvalid (pao_Name item))
             else
               (case map_of seen path of
                  Some other \<Rightarrow> Inl (RouteDuplicate path other (pao_Name item))
                | None \<Rightarrow> collectBackends name (mput path (pao_Name item) seen) (backends @ [associatedBackendOf item path]) items)))"

definition listAssociatedBackends :: "TrafficManager \<Rightarrow> string + PrivateAi list \<Rightarrow> tmc_error + associatedBackend list" where
  "listAssociatedBackends inst items =
     (case items of
        Inl e \<Rightarrow> Inl (ListFailed e)
      | Inr xs \<Rightarrow>
          (case collectBackends (tm_Name inst) [] [] xs of Inl e \<Rightarrow> Inl e | Inr bs \<Rightarrow> Inr (sort_key ab_Path bs)))"

definition backendNames :: "associatedBackend list \<Rightarrow> string list" where
  "backendNames backends = map ab_Name backends"


section \<open>Settings read from the specification\<close>

definition backendTLSTrustSecretName :: "TrafficManager \<Rightarrow> string" where
  "backendTLSTrustSecretName inst = (case tmBackendTLS inst of None \<Rightarrow> [] | Some b \<Rightarrow> TrimSpace (tmb_TrustSecretName b))"

definition backendTLSMountLocation :: "TrafficManager \<Rightarrow> string" where
  "backendTLSMountLocation inst =
     (case tmBackendTLS inst of None \<Rightarrow> ''/etc/nginx/backend-ca''
      | Some b \<Rightarrow> if blank (tmb_MountLocation b) then ''/etc/nginx/backend-ca'' else TrimSpace (tmb_MountLocation b))"

definition backendTLSTrustFileName :: "TrafficManager \<Rightarrow> string" where
  "backendTLSTrustFileName inst =
     (case tmBackendTLS inst of None \<Rightarrow> ''ca.crt''
      | Some b \<Rightarrow> if blank (tmb_TrustFileName b) then ''ca.crt'' else TrimSpace (tmb_TrustFileName b))"

text \<open>\<^verbatim>\<open>path.Clean\<close> by segments and \<^verbatim>\<open>path.Join\<close> of two parts that are not empty.\<close>

definition cleanStep :: "bool \<Rightarrow> string list \<Rightarrow> string \<Rightarrow> string list" where
  "cleanStep rooted acc seg =
     (if seg = [] \<or> seg = ''.'' then acc
      else if seg = ''..''
      then (if acc \<noteq> [] \<and> last acc \<noteq> ''..'' then butlast acc else if rooted then acc else acc @ [''..''])
      else acc @ [seg])"

definition Clean :: "string \<Rightarrow> string" where
  "Clean p =
     (let rooted = HasPrefix p ''/''; segs = foldl (cleanStep rooted) [] (Split p (CHR ''/'')) in
      if rooted then ''/'' @ Join segs ''/'' else if segs = [] then ''.'' else Join segs ''/'')"

definition pathJoin :: "string \<Rightarrow> string \<Rightarrow> string" where
  "pathJoin dir file = Clean (dir @ ''/'' @ file)"

definition backendTLSFilePath :: "TrafficManager \<Rightarrow> string" where
  "backendTLSFilePath inst = pathJoin (backendTLSMountLocation inst) (backendTLSTrustFileName inst)"

definition backendTLSVerificationEnabled :: "TrafficManager \<Rightarrow> bool" where
  "backendTLSVerificationEnabled inst =
     (case tmBackendTLS inst of None \<Rightarrow> False | Some b \<Rightarrow> (case tmb_Verify b of None \<Rightarrow> True | Some v \<Rightarrow> v))"

definition trafficManagerServiceEnabled :: "bool option \<Rightarrow> bool \<Rightarrow> bool" where
  "trafficManagerServiceEnabled enabled defaultValue = (case enabled of None \<Rightarrow> defaultValue | Some b \<Rightarrow> b)"

definition nginxConfig :: "TrafficManager \<Rightarrow> TrafficManagerConfigSpec option" where
  "nginxConfig inst = Option.bind (tms_Nginx (tm_Spec inst)) ngx_Config"

definition trafficManagerConfigMapName :: "TrafficManager \<Rightarrow> string" where
  "trafficManagerConfigMapName inst =
     (case nginxConfig inst of
        Some c \<Rightarrow> if blank (tmc_ConfigMapName c) then tm_Name inst @ ''-nginx'' else TrimSpace (tmc_ConfigMapName c)
      | None \<Rightarrow> tm_Name inst @ ''-nginx'')"

definition trafficManagerConfigMountLocation :: "TrafficManager \<Rightarrow> string" where
  "trafficManagerConfigMountLocation inst =
     (case nginxConfig inst of
        Some c \<Rightarrow> if blank (tmc_MountLocation c) then ''/etc/nginx'' else TrimSpace (tmc_MountLocation c)
      | None \<Rightarrow> ''/etc/nginx'')"

definition trafficManagerDeploymentName :: "TrafficManager \<Rightarrow> string" where
  "trafficManagerDeploymentName inst = tm_Name inst"

definition trafficManagerInternalServiceName :: "TrafficManager \<Rightarrow> string" where
  "trafficManagerInternalServiceName inst = tm_Name inst"

definition trafficManagerExternalServiceName :: "TrafficManager \<Rightarrow> string" where
  "trafficManagerExternalServiceName inst = tm_Name inst @ ''-ext''"

definition trafficManagerLabels :: "TrafficManager \<Rightarrow> strmap" where
  "trafficManagerLabels inst =
     [(''app.kubernetes.io/name'', tm_Name inst), (''app.kubernetes.io/component'', ''traffic-manager''),
      (''app.kubernetes.io/managed-by'', ''Oracle-Database-Operator'')]"

definition imagePullPolicyOrDefault :: "PullPolicy \<Rightarrow> PullPolicy" where
  "imagePullPolicyOrDefault policy = (if policy = [] then PullIfNotPresent else policy)"

definition trafficManagerURLBase :: "TrafficManager \<Rightarrow> string \<Rightarrow> string" where
  "trafficManagerURLBase inst host = (if host = [] then [] else backendScheme (tml_Enabled (tmTLS inst)) @ ''://'' @ host)"

definition cmanUsesFileConfig :: "TrafficManager \<Rightarrow> bool" where
  "cmanUsesFileConfig inst \<longleftrightarrow> Option.bind (tms_Cman (tm_Spec inst)) cman_ConfigSource \<noteq> None"

definition cmanRest :: "TrafficManager \<Rightarrow> CmanTrafficManagerRestAPISpec option" where
  "cmanRest inst = Option.bind (tms_Cman (tm_Spec inst)) cman_RestAPI"

definition restEnabled :: "TrafficManager \<Rightarrow> bool" where
  "restEnabled inst \<longleftrightarrow> (case cmanRest inst of None \<Rightarrow> False | Some r \<Rightarrow> cra_Enabled r) \<and> \<not> cmanUsesFileConfig inst"

definition cmanRestHost :: "TrafficManager \<Rightarrow> string" where
  "cmanRestHost inst =
     (if \<not> restEnabled inst then []
      else (case cmanRest inst of
              Some r \<Rightarrow> if blank (cra_Host r)
                        then trafficManagerInternalServiceName inst @ ''.'' @ tm_Namespace inst @ ''.svc.cluster.local''
                        else TrimSpace (cra_Host r)
            | None \<Rightarrow> []))"

definition cmanRestPort :: "TrafficManager \<Rightarrow> int" where
  "cmanRestPort inst =
     (if \<not> restEnabled inst then 1525 else (case cmanRest inst of None \<Rightarrow> 1525 | Some r \<Rightarrow> orZero (cra_Port r) 1525))"

definition cmanConfigMode :: "TrafficManager \<Rightarrow> string" where
  "cmanConfigMode inst = (if cmanUsesFileConfig inst then ''file'' else ''generated'')"

definition trafficManagerConfigMode :: "TrafficManager \<Rightarrow> string" where
  "trafficManagerConfigMode inst =
     (let t = tms_Type (tm_Spec inst) in
      if t = TrafficManagerTypeNginx then ''Managed''
      else if t = TrafficManagerTypeCman then (if cmanUsesFileConfig inst then ''File'' else ''Generated'')
      else [])"

definition trafficManagerReferencesSecret :: "TrafficManager \<Rightarrow> string \<Rightarrow> bool" where
  "trafficManagerReferencesSecret inst secretName =
     (if blank secretName then False
      else if tms_Type (tm_Spec inst) = TrafficManagerTypeNginx
      then TrimSpace (tml_SecretName (tmTLS inst)) = secretName \<or> backendTLSTrustSecretName inst = secretName
      else if tms_Type (tm_Spec inst) \<noteq> TrafficManagerTypeCman then False
      else
        (let named = (\<lambda>r. case r of None \<Rightarrow> False | Some k \<Rightarrow> TrimSpace (tkr_Name k) = secretName) in
         case cmanRest inst of None \<Rightarrow> False | Some r \<Rightarrow> named (cra_PasswordSecretRef r) \<or> named (cra_PrivateKeySecretRef r)))"


section \<open>Ports\<close>

definition trafficManagerPrimaryPort :: "TrafficManager \<Rightarrow> int" where
  "trafficManagerPrimaryPort inst =
     (case firstPort (tme_Ports (tmInternal inst)) of
        Some p \<Rightarrow> p
      | None \<Rightarrow>
          if tme_TargetPort (tmInternal inst) > 0 then tme_TargetPort (tmInternal inst)
          else if tme_Port (tmInternal inst) > 0 then tme_Port (tmInternal inst)
          else
            (case firstPort (tme_Ports (tmExternal inst)) of
               Some p \<Rightarrow> p
             | None \<Rightarrow>
                 if tme_TargetPort (tmExternal inst) > 0 then tme_TargetPort (tmExternal inst)
                 else if tme_Port (tmExternal inst) > 0 then tme_Port (tmExternal inst)
                 else if tms_Type (tm_Spec inst) = TrafficManagerTypeCman then 1521
                 else nginxContainerPort inst))"

definition trafficManagerContainerPort :: "TrafficManager \<Rightarrow> int" where
  "trafficManagerContainerPort inst =
     (if tms_Type (tm_Spec inst) = TrafficManagerTypeCman then trafficManagerPrimaryPort inst else nginxContainerPort inst)"

datatype serviceKind = Internal | External

definition endpointOf :: "TrafficManager \<Rightarrow> serviceKind \<Rightarrow> TrafficManagerServiceEndpointSpec" where
  "endpointOf inst kind = (case kind of Internal \<Rightarrow> tmInternal inst | External \<Rightarrow> tmExternal inst)"

definition completePort :: "TrafficManagerServicePortSpec \<Rightarrow> TrafficManagerServicePortSpec" where
  "completePort p =
     (let q = (if tmp_Port p \<le> 0 then p\<lparr>tmp_Port := tmp_TargetPort p\<rparr> else p) in
      if tmp_TargetPort q \<le> 0 then q\<lparr>tmp_TargetPort := tmp_Port q\<rparr> else q)"

text \<open>The ports of the type when the list of ports names none.\<close>

definition tcpPortSpec :: "string \<Rightarrow> int \<Rightarrow> int \<Rightarrow> TrafficManagerServicePortSpec" where
  "tcpPortSpec name port targetPort =
     \<lparr>tmp_Name = name, tmp_Port = port, tmp_TargetPort = targetPort, tmp_NodePort = 0, tmp_Protocol = ''TCP''\<rparr>"

definition nginxServicePort :: "TrafficManager \<Rightarrow> serviceKind \<Rightarrow> int \<Rightarrow> int" where
  "nginxServicePort inst kind port =
     orZero port (if kind = External then (if tml_Enabled (tmTLS inst) then 443 else 80) else trafficManagerContainerPort inst)"

definition trafficManagerServicePortSpecs ::
    "TrafficManager \<Rightarrow> serviceKind \<Rightarrow> TrafficManagerServiceEndpointSpec \<Rightarrow> TrafficManagerServicePortSpec list" where
  "trafficManagerServicePortSpecs inst kind spec =
     (let named = map completePort (filter (\<lambda>p. \<not> (tmp_Port p \<le> 0 \<and> tmp_TargetPort p \<le> 0)) (tme_Ports spec)) in
      if named \<noteq> [] then named
      else if tms_Type (tm_Spec inst) = TrafficManagerTypeCman
      then
        (let mainPort = orZero (tme_Port spec) (trafficManagerPrimaryPort inst);
             targetPort = orZero (tme_TargetPort spec) mainPort in
         tcpPortSpec ''cman'' mainPort targetPort
           # (if restEnabled inst then [tcpPortSpec ''rest'' (cmanRestPort inst) (cmanRestPort inst)] else []))
      else [tcpPortSpec [] (nginxServicePort inst kind (tme_Port spec)) (orZero (tme_TargetPort spec) (trafficManagerContainerPort inst))])"

definition buildTrafficManagerServicePorts ::
    "TrafficManager \<Rightarrow> serviceKind \<Rightarrow> TrafficManagerServiceEndpointSpec \<Rightarrow> ServicePort list" where
  "buildTrafficManagerServicePorts inst kind spec =
     map (\<lambda>p.
        \<lparr>sp_Name = (if blank (tmp_Name p) then ''tcp-'' @ itoa (tmp_Port p) else tmp_Name p),
         sp_Protocol = (if tmp_Protocol p = [] then ''TCP'' else tmp_Protocol p),
         sp_Port = tmp_Port p, sp_TargetPort = tmp_TargetPort p,
         sp_NodePort = (if tmp_NodePort p > 0 then tmp_NodePort p else 0)\<rparr>)
       (trafficManagerServicePortSpecs inst kind spec)"

fun containerPortsFrom :: "int set \<Rightarrow> TrafficManagerServicePortSpec list \<Rightarrow> ContainerPort list" where
  "containerPortsFrom seen [] = []"
| "containerPortsFrom seen (p # ps) =
     (let targetPort = (if tmp_TargetPort p \<le> 0 then tmp_Port p else tmp_TargetPort p) in
      if targetPort \<le> 0 \<or> targetPort \<in> seen then containerPortsFrom seen ps
      else \<lparr>ctp_ContainerPort = targetPort, ctp_Protocol = (if tmp_Protocol p = [] then ''TCP'' else tmp_Protocol p)\<rparr>
             # containerPortsFrom (insert targetPort seen) ps)"

definition buildTrafficManagerContainerPorts :: "TrafficManager \<Rightarrow> ContainerPort list" where
  "buildTrafficManagerContainerPorts inst =
     (let out = containerPortsFrom {}
          (trafficManagerServicePortSpecs inst Internal (tmInternal inst) @ trafficManagerServicePortSpecs inst External (tmExternal inst)) in
      if out = [] then [\<lparr>ctp_ContainerPort = trafficManagerContainerPort inst, ctp_Protocol = ''TCP''\<rparr>] else out)"


section \<open>The nginx configuration\<close>

text \<open>\<^verbatim>\<open>regexp.QuoteMeta\<close>.\<close>

definition metaChars :: string where
  "metaChars = [CHR 0x5C] @ ''.+*?()|[]{}^$''"

definition QuoteMeta :: "string \<Rightarrow> string" where
  "QuoteMeta s = concat (map (\<lambda>c. if c \<in> set metaChars then [CHR 0x5C, c] else [c]) s)"

text \<open>The configuration is written line by line; \<open>inQuotes\<close> stands for a pair of double quotes in the source.\<close>

definition inQuotes :: "string \<Rightarrow> string" where
  "inQuotes s = [CHR 0x22] @ s @ [CHR 0x22]"

definition proxyHeaders :: "string list" where
  "proxyHeaders =
     [''            proxy_set_header Authorization $http_authorization;'',
      ''            proxy_set_header Content-Type $content_type;'',
      ''            proxy_set_header Accept $http_accept;'',
      ''            proxy_set_header X-Real-IP $remote_addr;'',
      ''            proxy_set_header X-Forwarded-For $proxy_add_x_forwarded_for;'',
      ''            proxy_http_version 1.1;'',
      ''            proxy_set_header Connection '' @ inQuotes [] @ '';'',
      ''            proxy_read_timeout 600s;'',
      ''            proxy_send_timeout 600s;'',
      ''        }'']"

definition backendTLSLines :: "TrafficManager \<Rightarrow> associatedBackend \<Rightarrow> string list" where
  "backendTLSLines inst backend =
     (if ab_UseHTTPS backend
      then [''            proxy_ssl_server_name on;'',
            ''            proxy_ssl_name '' @ ab_ServiceName backend @ '';'',
            ''            proxy_ssl_protocols TLSv1.2 TLSv1.3;'']
           @ (if backendTLSVerificationEnabled inst
              then [''            proxy_ssl_trusted_certificate '' @ backendTLSFilePath inst @ '';'', ''            proxy_ssl_verify on;'']
              else [''            proxy_ssl_verify off;''])
      else [])"

definition appendBackendLocation :: "TrafficManager \<Rightarrow> associatedBackend \<Rightarrow> tmc_error + string list" where
  "appendBackendLocation inst backend =
     (let pathExpr = QuoteMeta (TrimSpace (ab_Path backend)) in
      if pathExpr = [] then Inl (RouteEmpty (ab_Name backend))
      else Inr
        ([''        location '' @ ab_Path backend @ '' {'',
          ''            rewrite ^'' @ pathExpr @ ''?(.*)$ /v1/$1 break;'',
          ''            proxy_pass '' @ backendScheme (ab_UseHTTPS backend) @ ''://'' @ ab_ServiceName backend @ '':'' @ itoa (ab_ServicePort backend) @ '';'']
         @ backendTLSLines inst backend
         @ [''            proxy_set_header Host '' @ ab_ServiceName backend @ '';'']
         @ proxyHeaders))"

fun appendBackendLocations :: "TrafficManager \<Rightarrow> associatedBackend list \<Rightarrow> tmc_error + string list" where
  "appendBackendLocations inst [] = Inr []"
| "appendBackendLocations inst (b # bs) =
     (case appendBackendLocation inst b of
        Inl e \<Rightarrow> Inl e
      | Inr ls \<Rightarrow> (case appendBackendLocations inst bs of Inl e \<Rightarrow> Inl e | Inr rest \<Rightarrow> Inr (ls @ rest)))"

definition listenLines :: "TrafficManager \<Rightarrow> string list" where
  "listenLines inst =
     (if tml_Enabled (tmTLS inst)
      then [''        listen '' @ itoa (trafficManagerContainerPort inst) @ '' ssl;'',
            ''        ssl_certificate /etc/nginx/tls/tls.crt;'',
            ''        ssl_certificate_key /etc/nginx/tls/tls.key;'',
            ''        ssl_protocols TLSv1.2 TLSv1.3;'']
      else [''        listen '' @ itoa (trafficManagerContainerPort inst) @ '';''])"

definition unlines :: "string list \<Rightarrow> string" where
  "unlines ls = concat (map (\<lambda>l. l @ [CHR 0x0A]) ls)"

definition nginxConfigLines :: "TrafficManager \<Rightarrow> associatedBackend list \<Rightarrow> tmc_error + string list" where
  "nginxConfigLines inst backends =
     (let start = [''events {}'', ''http {'', ''    server {''] @ listenLines inst
            @ [''        location = /healthz { return 200 '' @ inQuotes ''ok'' @ ''; }''];
          finish = [''    }'', ''}''] in
      if backends = [] then Inr (start @ [''        location / { return 503; }''] @ finish)
      else (case appendBackendLocations inst backends of Inl e \<Rightarrow> Inl e | Inr ls \<Rightarrow> Inr (start @ ls @ finish)))"

definition buildManagedNginxConfig :: "TrafficManager \<Rightarrow> associatedBackend list \<Rightarrow> tmc_error + string" where
  "buildManagedNginxConfig inst backends =
     (case nginxConfigLines inst backends of Inl e \<Rightarrow> Inl e | Inr ls \<Rightarrow> Inr (unlines ls))"



section \<open>What a private AI container listens on\<close>

text \<open>
  \<^verbatim>\<open>resolveServicePort\<close> of \<^verbatim>\<open>commons/privateai/aibuilder.go\<close>: the port, whether the scheme is HTTPS, and the two flags. Its last
  three branches are never reached: one of the flags is always set by then.
\<close>

definition resolveServicePort :: "PrivateAiSpec \<Rightarrow> int \<times> bool \<times> bool \<times> bool" where
  "resolveServicePort spec =
     (let listeners = EffectiveListeners spec;
          httpEnabled = epl_Enabled (epl_HTTP listeners);
          httpsEnabled = epl_Enabled (epl_HTTPS listeners) \<or> \<not> httpEnabled in
      if httpsEnabled
      then (if epl_Port (epl_HTTPS listeners) \<le> 0 then 8443 else epl_Port (epl_HTTPS listeners), True, httpEnabled, httpsEnabled)
      else (if epl_Port (epl_HTTP listeners) \<le> 0 then 8080 else epl_Port (epl_HTTP listeners), False, httpEnabled, httpsEnabled))"


section \<open>Lemmas\<close>

subsection \<open>Backends\<close>

text \<open>The services that name the traffic manager, each with its route.\<close>

definition associatedItems :: "string \<Rightarrow> PrivateAi list \<Rightarrow> (PrivateAi \<times> string) list" where
  "associatedItems name items =
     List.map_filter (\<lambda>item. case EffectiveTrafficManager (pao_Spec item) of
        None \<Rightarrow> None | Some tm \<Rightarrow> if TrimSpace (tmref_Ref tm) = name then Some (item, backendRoutePath item tm) else None) items"

definition routesSound :: "string \<Rightarrow> PrivateAi list \<Rightarrow> bool" where
  "routesSound name items \<longleftrightarrow>
     distinct (map snd (associatedItems name items)) \<and>
     list_all (\<lambda>(item, path). ValidateTrafficManagerRoutePath path) (associatedItems name items)"

lemma associatedItems_Cons:
  "associatedItems name (item # items) =
     (case EffectiveTrafficManager (pao_Spec item) of
        None \<Rightarrow> associatedItems name items
      | Some tm \<Rightarrow> if TrimSpace (tmref_Ref tm) = name then (item, backendRoutePath item tm) # associatedItems name items
                   else associatedItems name items)"
  by (simp add: associatedItems_def List.map_filter_simps split: option.splits)

lemma collectBackends_Inr:
  "collectBackends name seen acc items = Inr bs \<longleftrightarrow>
     routesSound name items \<and> set (map snd (associatedItems name items)) \<inter> fst ` set seen = {} \<and>
     bs = acc @ map (\<lambda>(item, path). associatedBackendOf item path) (associatedItems name items)"
proof (induction items arbitrary: seen acc)
  case Nil
  then show ?case by (auto simp: associatedItems_def routesSound_def List.map_filter_simps)
next
  case (Cons item items)
  show ?case
  proof (cases "EffectiveTrafficManager (pao_Spec item)")
    case None
    then show ?thesis by (simp add: Cons.IH routesSound_def associatedItems_Cons)
  next
    case (Some tm)
    let ?p = "backendRoutePath item tm"
    have seen: "map_of seen ?p = None \<longleftrightarrow> ?p \<notin> fst ` set seen" by (simp add: map_of_eq_None_iff)
    show ?thesis
    proof (cases "TrimSpace (tmref_Ref tm) = name \<and> ValidateTrafficManagerRoutePath ?p \<and> ?p \<notin> fst ` set seen")
      case True
      then have "collectBackends name seen acc (item # items) =
          collectBackends name (mput ?p (pao_Name item) seen) (acc @ [associatedBackendOf item ?p]) items"
        using Some seen by (simp add: Let_def)
      then show ?thesis using True Some by (auto simp: Cons.IH routesSound_def associatedItems_Cons)
    next
      case False
      then show ?thesis
        using Some seen
        by (auto simp: Cons.IH routesSound_def associatedItems_Cons Let_def split: option.splits)
    qed
  qed
qed

lemma listAssociatedBackends_Inr:
  "listAssociatedBackends inst (Inr items) = Inr bs \<longleftrightarrow>
     routesSound (tm_Name inst) items \<and>
     bs = sort_key ab_Path (map (\<lambda>(item, path). associatedBackendOf item path) (associatedItems (tm_Name inst) items))"
proof -
  have "listAssociatedBackends inst (Inr items) = Inr bs \<longleftrightarrow>
      (\<exists>cs. collectBackends (tm_Name inst) [] [] items = Inr cs \<and> bs = sort_key ab_Path cs)"
    by (auto simp: listAssociatedBackends_def split: sum.splits)
  then show ?thesis by (simp add: collectBackends_Inr)
qed

lemma backendRoutePath_not_blank: "\<not> blank (backendRoutePath item tm)"
proof -
  have "TrimSpace (''/'' @ n @ ''/v1/'') = ''/'' @ n @ ''/v1/''" for n by (rule TrimSpace_id) simp_all
  then show ?thesis by (simp add: backendRoutePath_def defaultRoute_def)
qed

lemma accepted_route:
  assumes "ValidateTrafficManagerRoutePath (backendRoutePath item tm)"
  shows "trafficManagerRoutePathPattern (backendRoutePath item tm)"
proof -
  let ?p = "backendRoutePath item tm"
  have "TrimSpace ?p = ?p"
  proof (cases "blank (tmref_RoutePath tm)")
    case True
    then show ?thesis by (simp add: backendRoutePath_def defaultRoute_def) (rule TrimSpace_id, simp_all)
  qed (simp add: backendRoutePath_def)
  then show ?thesis using assms backendRoutePath_not_blank [of item tm] by (simp add: ValidateTrafficManagerRoutePath_def)
qed

text \<open>
  C21: the private AI services of a namespace give a traffic manager a list of backends exactly when the routes of those that name
  it are accepted and pairwise different. Then there is one backend for each of them, in strictly increasing order of the
  routes, and every route starts and ends with a slash and has only letters, digits and \<^verbatim>\<open>._~-\<close> besides slashes, so that it cannot
  leave its place in the generated nginx configuration.
\<close>

theorem backends_listed_iff:
  "case listAssociatedBackends inst (Inr items) of
     Inl e \<Rightarrow> \<not> routesSound (tm_Name inst) items
   | Inr bs \<Rightarrow>
       routesSound (tm_Name inst) items \<and>
       mset bs = mset (map (\<lambda>(item, path). associatedBackendOf item path) (associatedItems (tm_Name inst) items)) \<and>
       sorted_wrt (<) (map ab_Path bs) \<and>
       list_all (\<lambda>b. hd (ab_Path b) = CHR ''/'' \<and> last (ab_Path b) = CHR ''/'' \<and>
          list_all (\<lambda>c. c = CHR ''/'' \<or> routeChar c) (ab_Path b)) bs"
proof (cases "listAssociatedBackends inst (Inr items)")
  case (Inl e)
  then show ?thesis using listAssociatedBackends_Inr [of inst items] by auto
next
  case (Inr bs)
  let ?ai = "associatedItems (tm_Name inst) items"
  let ?m = "map (\<lambda>(item, path). associatedBackendOf item path) ?ai"
  have r: "routesSound (tm_Name inst) items" and b: "bs = sort_key ab_Path ?m"
    using Inr by (simp_all add: listAssociatedBackends_Inr)
  have paths: "map ab_Path ?m = map snd ?ai"
    by (simp add: comp_def case_prod_beta) (simp add: associatedBackendOf_def)
  have "distinct (map ab_Path ?m)" using r unfolding paths by (simp add: routesSound_def)
  then have "distinct (map ab_Path bs)" unfolding b by (metis mset_map mset_sort mset_eq_imp_distinct_iff)
  then have s: "sorted_wrt (<) (map ab_Path bs)" using b by (simp add: strict_sorted_iff)
  have "trafficManagerRoutePathPattern (ab_Path x)" if "x \<in> set bs" for x
  proof -
    have "x \<in> set ?m" using that b by simp
    then have "ab_Path x \<in> set (map ab_Path ?m)" unfolding set_map [of ab_Path] by (rule imageI)
    then have "ab_Path x \<in> set (map snd ?ai)" unfolding paths .
    then obtain item where i: "(item, ab_Path x) \<in> set ?ai" by auto
    then obtain tm where t: "ab_Path x = backendRoutePath item tm"
      by (auto simp: associatedItems_def List.map_filter_def split: option.splits if_splits)
    have "ValidateTrafficManagerRoutePath (ab_Path x)" using r i by (auto simp: routesSound_def list_all_iff)
    then show ?thesis unfolding t by (rule accepted_route)
  qed
  then have "list_all (\<lambda>b. hd (ab_Path b) = CHR ''/'' \<and> last (ab_Path b) = CHR ''/'' \<and>
      list_all (\<lambda>c. c = CHR ''/'' \<or> routeChar c) (ab_Path b)) bs"
    unfolding list_all_iff using route_path_shape by blast
  moreover have "mset bs = mset ?m" using b by simp
  ultimately show ?thesis unfolding Inr sum.case using r s by blast
qed



subsection \<open>Agreement with the private AI container\<close>

lemma parse_flags [simp]: "parseBoolFlag ''true''" "\<not> parseBoolFlag ''false''"
  by (simp_all add: parseBoolFlag_def)

text \<open>
  C22: for a private AI object that went through defaulting, the scheme and the port under which the traffic manager reaches it are
  those its container listens on, unless the deprecated port mappings of \<^verbatim>\<open>paiService\<close> name a positive port: then the first such
  port is used, and the two agree exactly when it happens to be the port of the listener.
\<close>

theorem backend_reaches_listener_iff:
  assumes "paiDefault obj = Some obj'"
    and "resolveServicePort (pao_Spec obj') = (port, https, httpEnabled, httpsEnabled)"
    and "backend = associatedBackendOf obj' path"
  shows "ab_UseHTTPS backend = https \<and>
    (ab_ServicePort backend = port \<longleftrightarrow>
       (case find (\<lambda>pm. ppm_Port pm > 0) (psv_PortMappings (pai_PaiService (pao_Spec obj'))) of
          None \<Rightarrow> True | Some pm \<Rightarrow> ppm_Port pm = port))"
proof -
  let ?s = "pao_Spec obj'" and ?d = "defaultListeners (pao_Spec obj)"
  have s: "sameListeners ?s ?d" using assms(1) by (rule paiDefault_SomeE)
  have f: "pai_PaiHTTPEnabled ?s = pai_PaiHTTPEnabled ?d" "pai_PaiHTTPPort ?s = pai_PaiHTTPPort ?d"
      "pai_PaiHTTPSPort ?s = pai_PaiHTTPSPort ?d"
    using s by (simp_all add: sameListeners_def)
  have e: "EffectiveListeners ?s = EffectiveListeners ?d" using s by (rule sameListeners_effective)
  show ?thesis
    using assms(2,3) unfolding resolveServicePort_def e EffectiveListeners_defaultListeners
    by (auto simp: Let_def associatedBackendOf_def backendServicePort_def f listener_flags orZero_def split: option.splits if_splits)
qed

theorem backend_reaches_listener_iff_witness:
  "\<exists>obj' port https httpEnabled httpsEnabled.
     paiDefault examplePai = Some obj' \<and> resolveServicePort (pao_Spec obj') = (port, https, httpEnabled, httpsEnabled) \<and>
     ab_UseHTTPS (associatedBackendOf obj' ''/search/'') = https \<and> ab_ServicePort (associatedBackendOf obj' ''/search/'') = port \<and>
     port = 8443"
proof -
  have c: "case paiDefault examplePai of None \<Rightarrow> False
      | Some o' \<Rightarrow> fst (resolveServicePort (pao_Spec o')) = 8443 \<and> psv_PortMappings (pai_PaiService (pao_Spec o')) = []"
    by code_simp
  then obtain o' where o: "paiDefault examplePai = Some o'" "fst (resolveServicePort (pao_Spec o')) = 8443"
      "psv_PortMappings (pai_PaiService (pao_Spec o')) = []" by (auto split: option.splits)
  obtain port s h t where r: "resolveServicePort (pao_Spec o') = (port, s, h, t)" by (cases "resolveServicePort (pao_Spec o')")
  show ?thesis using backend_reaches_listener_iff [OF o(1) r refl, of "''/search/''"] o r by auto
qed

end
