(* ===== verification/Traffic_Reconcile.thy ===== *)
theory Traffic_Reconcile
  imports Traffic_Controller
begin

text \<open>
  The pass of the traffic manager controller (\<^verbatim>\<open>controllers/network/trafficmanager_controller.go\<close>): the deployment, the services and
  the configuration map it builds, the digests that make pods restart, and \<^verbatim>\<open>Reconcile\<close> over one namespace of the cluster.
  \<^verbatim>\<open>controllerutil.SetControllerReference\<close> on an object without owners makes the traffic manager its only owner.
\<close>

section \<open>Objects of a traffic manager\<close>

definition controllerReference :: "TrafficManager \<Rightarrow> OwnerReference" where
  "controllerReference inst =
     \<lparr>own_APIVersion = ''network.oracle.com/v4'', own_Kind = ''TrafficManager'', own_Name = tm_Name inst, own_UID = tm_UID inst,
      own_Controller = True\<rparr>"

definition buildTrafficManagerConfigMap :: "TrafficManager \<Rightarrow> string \<Rightarrow> ConfigMap" where
  "buildTrafficManagerConfigMap inst config =
     \<lparr>cm_Name = trafficManagerConfigMapName inst, cm_Labels = trafficManagerLabels inst, cm_OwnerReferences = [],
      cm_Data = [(''nginx.conf'', config)]\<rparr>"

abbreviation envVar :: "string \<Rightarrow> string \<Rightarrow> EnvironmentVariable" where
  "envVar name val \<equiv> \<lparr>env_Name = name, env_Value = val\<rparr>"

definition cmanUserConfigFilePath :: string where
  "cmanUserConfigFilePath = ''/opt/oracle/cman-config/cman.ora''"

definition cmanRestSecretsMountDir :: string where
  "cmanRestSecretsMountDir = ''/run/secrets/cman-rest''"

definition cmanRestPasswordFileName :: string where
  "cmanRestPasswordFileName = ''RESTpwdsecret''"

definition cmanRestPrivateKeyFileName :: string where
  "cmanRestPrivateKeyFileName = ''RESTkeysecret''"

definition cmanRestPasswordFilePath :: string where
  "cmanRestPasswordFilePath = pathJoin cmanRestSecretsMountDir cmanRestPasswordFileName"

definition cmanRestPrivateKeyFilePath :: string where
  "cmanRestPrivateKeyFilePath = pathJoin cmanRestSecretsMountDir cmanRestPrivateKeyFileName"

definition ruleDetails :: "CmanTrafficManagerRuleSpec \<Rightarrow> string" where
  "ruleDetails rule =
     (let part = (\<lambda>label v. if blank v then [] else [label @ v]) in
      Join ([''HOST='' @ cmr_Host rule] @ part ''IP='' (cmr_IP rule) @ part ''RULE_SRC='' (cmr_Src rule)
            @ part ''RULE_DST='' (cmr_Dst rule) @ part ''RULE_SRV='' (cmr_Srv rule) @ part ''RULE_ACT='' (cmr_Action rule)) '':'')"

definition cmanDBHostDetails :: "TrafficManager \<Rightarrow> string" where
  "cmanDBHostDetails inst =
     (case tms_Cman (tm_Spec inst) of None \<Rightarrow> [] | Some c \<Rightarrow> Join (map ruleDetails (cman_Rules c)) '','')"

definition cmanRestEnv :: "TrafficManager \<Rightarrow> EnvironmentVariable list" where
  "cmanRestEnv inst =
     (if restEnabled inst
      then [envVar ''ENABLE_REST_API'' ''true'', envVar ''REST_HOST'' (cmanRestHost inst),
            envVar ''REST_PORT'' (itoa (cmanRestPort inst)), envVar ''REST_PWD_FILE'' cmanRestPasswordFilePath,
            envVar ''REST_PWD_KEY'' cmanRestPrivateKeyFilePath]
      else [])"

definition buildCmanEnvVars :: "TrafficManager \<Rightarrow> EnvironmentVariable list" where
  "buildCmanEnvVars inst =
     (let out = [envVar ''PUBLIC_HOSTNAME'' (trafficManagerInternalServiceName inst),
                 envVar ''DOMAIN'' (tm_Namespace inst @ ''.svc.cluster.local''),
                 envVar ''PORT'' (itoa (trafficManagerPrimaryPort inst))];
          part = (\<lambda>name v. if blank v then [] else [envVar name v]) in
      if cmanUsesFileConfig inst then out @ [envVar ''USER_CMAN_FILE'' cmanUserConfigFilePath]
      else
        (case tms_Cman (tm_Spec inst) of
           None \<Rightarrow> out
         | Some c \<Rightarrow>
             out @ part ''LOG_LEVEL'' (cman_LogLevel c) @ part ''TRACE_LEVEL'' (cman_TraceLevel c)
             @ part ''REGISTRATION_INVITED_NODES'' (cman_RegistrationInvitedNodes c)
             @ (if cmanDBHostDetails inst = [] then [] else [envVar ''DB_HOSTDETAILS'' (cmanDBHostDetails inst)])
             @ cmanRestEnv inst))"

definition buildTrafficManagerEnvVars :: "TrafficManager \<Rightarrow> EnvironmentVariable list" where
  "buildTrafficManagerEnvVars inst =
     filter (\<lambda>e. \<not> blank (env_Name e)) (tmr_EnvVars (tms_Runtime (tm_Spec inst)))
     @ (if tms_Type (tm_Spec inst) = TrafficManagerTypeCman then buildCmanEnvVars inst else [])"

definition restProjections :: "CmanTrafficManagerRestAPISpec \<Rightarrow> (string \<times> string \<times> string) list" where
  "restProjections r =
     (case cra_PasswordSecretRef r of None \<Rightarrow> [] | Some k \<Rightarrow> [(tkr_Name k, tkr_Key k, cmanRestPasswordFileName)])
     @ (case cra_PrivateKeySecretRef r of None \<Rightarrow> [] | Some k \<Rightarrow> [(tkr_Name k, tkr_Key k, cmanRestPrivateKeyFileName)])"

definition buildCmanTrafficManagerVolumes :: "TrafficManager \<Rightarrow> (VolumeMount \<times> Volume) list" where
  "buildCmanTrafficManagerVolumes inst =
     (case Option.bind (Option.bind (tms_Cman (tm_Spec inst)) cman_ConfigSource) ccs_ConfigMapRef of
        None \<Rightarrow> []
      | Some ref \<Rightarrow>
          [(\<lparr>vm_Name = ''cman-user-config'', vm_MountPath = cmanUserConfigFilePath, vm_SubPath = tkr_Key ref, vm_ReadOnly = True\<rparr>,
            \<lparr>vol_Name = ''cman-user-config'', vol_Source = ConfigMapSource (tkr_Name ref) [(tkr_Key ref, tkr_Key ref)]\<rparr>)])
     @ (if restEnabled inst
        then (case cmanRest inst of
                None \<Rightarrow> []
              | Some r \<Rightarrow>
                  if restProjections r = [] then []
                  else [(\<lparr>vm_Name = ''cman-rest-secrets'', vm_MountPath = cmanRestSecretsMountDir, vm_SubPath = [], vm_ReadOnly = True\<rparr>,
                         \<lparr>vol_Name = ''cman-rest-secrets'', vol_Source = ProjectedSource (restProjections r)\<rparr>)])
        else [])"

definition nginxVolumes :: "TrafficManager \<Rightarrow> (VolumeMount \<times> Volume) list" where
  "nginxVolumes inst =
     (let secretVolume = (\<lambda>name path secret.
            (\<lparr>vm_Name = name, vm_MountPath = path, vm_SubPath = [], vm_ReadOnly = True\<rparr>, \<lparr>vol_Name = name, vol_Source = SecretSource secret\<rparr>)) in
      [(\<lparr>vm_Name = ''traffic-manager-config'', vm_MountPath = pathJoin (trafficManagerConfigMountLocation inst) ''nginx.conf'',
         vm_SubPath = ''nginx.conf'', vm_ReadOnly = True\<rparr>,
        \<lparr>vol_Name = ''traffic-manager-config'',
         vol_Source = ConfigMapSource (trafficManagerConfigMapName inst) [(''nginx.conf'', ''nginx.conf'')]\<rparr>)]
      @ (if tml_Enabled (tmTLS inst) \<and> \<not> blank (tml_SecretName (tmTLS inst))
         then [secretVolume ''traffic-manager-tls'' (tml_MountLocation (tmTLS inst)) (tml_SecretName (tmTLS inst))] else [])
      @ (if backendTLSTrustSecretName inst \<noteq> []
         then [secretVolume ''traffic-manager-backend-tls'' (backendTLSMountLocation inst) (backendTLSTrustSecretName inst)] else []))"

text \<open>The two deployments have the same frame.\<close>

definition deploymentFrame ::
    "TrafficManager \<Rightarrow> strmap \<Rightarrow> string list \<Rightarrow> ContainerPort list \<Rightarrow> (VolumeMount \<times> Volume) list \<Rightarrow> Deployment" where
  "deploymentFrame inst annotations command ports volumes =
     (let run = tms_Runtime (tm_Spec inst); labels = trafficManagerLabels inst in
      \<lparr>dep_Name = trafficManagerDeploymentName inst, dep_Labels = labels, dep_OwnerReferences = [],
       dep_Replicas = Some (tmr_Replicas run), dep_Selector = Some labels, dep_TemplateLabels = labels,
       dep_TemplateAnnotations = annotations, dep_ServiceAccountName = tmr_ServiceAccountName run,
       dep_PodSecurityContext = tmr_PodSecurityContext run,
       dep_Containers =
         [\<lparr>ctr_Name = trafficManagerDeploymentName inst, ctr_Image = tmr_Image run,
           ctr_ImagePullPolicy = imagePullPolicyOrDefault (tmr_ImagePullPolicy run), ctr_Command = command, ctr_Ports = ports,
           ctr_Env = buildTrafficManagerEnvVars inst, ctr_Resources = tmr_Resources run, ctr_VolumeMounts = map fst volumes,
           ctr_SecurityContext = tmr_ContainerSecurityContext run\<rparr>],
       dep_Volumes = map snd volumes,
       dep_ImagePullSecrets = filter (\<lambda>n. \<not> blank n) (tmr_ImagePullSecrets run), dep_ReadyReplicas = 0\<rparr>)"

definition hashAnnotation :: "string \<Rightarrow> string \<Rightarrow> strmap" where
  "hashAnnotation key checksum = (if checksum = [] then [] else [(key, checksum)])"

definition buildCmanTrafficManagerDeployment :: "TrafficManager \<Rightarrow> string \<Rightarrow> string \<Rightarrow> Deployment" where
  "buildCmanTrafficManagerDeployment inst configChecksum restSecretChecksum =
     deploymentFrame inst
       ([(''network.oracle.com/config-hash'', configChecksum)] @ hashAnnotation ''network.oracle.com/cman-rest-secret-hash'' restSecretChecksum)
       [] (buildTrafficManagerContainerPorts inst) (buildCmanTrafficManagerVolumes inst)"

definition buildTrafficManagerDeployment :: "TrafficManager \<Rightarrow> string \<Rightarrow> string \<Rightarrow> string \<Rightarrow> Deployment" where
  "buildTrafficManagerDeployment inst configChecksum tlsChecksum backendTLSChecksum =
     (if tms_Type (tm_Spec inst) = TrafficManagerTypeCman then buildCmanTrafficManagerDeployment inst configChecksum tlsChecksum
      else deploymentFrame inst
        ([(''network.oracle.com/config-hash'', configChecksum)] @ hashAnnotation ''network.oracle.com/tls-secret-hash'' tlsChecksum
         @ hashAnnotation ''network.oracle.com/backend-tls-secret-hash'' backendTLSChecksum)
        [''nginx'', ''-g'', ''daemon off;''] [\<lparr>ctp_ContainerPort = trafficManagerContainerPort inst, ctp_Protocol = ''TCP''\<rparr>]
        (nginxVolumes inst))"

definition syncTrafficManagerDeployment :: "Deployment \<Rightarrow> Deployment \<Rightarrow> Deployment \<times> bool" where
  "syncTrafficManagerDeployment found desired =
     syncField dep_Containers (\<lambda>v d. d\<lparr>dep_Containers := v\<rparr>) (dep_Containers desired)
    (syncField dep_ImagePullSecrets (\<lambda>v d. d\<lparr>dep_ImagePullSecrets := v\<rparr>) (dep_ImagePullSecrets desired)
    (syncField dep_Volumes (\<lambda>v d. d\<lparr>dep_Volumes := v\<rparr>) (dep_Volumes desired)
    (syncField dep_TemplateAnnotations (\<lambda>v d. d\<lparr>dep_TemplateAnnotations := v\<rparr>) (dep_TemplateAnnotations desired)
    (syncField dep_TemplateLabels (\<lambda>v d. d\<lparr>dep_TemplateLabels := v\<rparr>) (dep_TemplateLabels desired)
    (syncField dep_Selector (\<lambda>v d. d\<lparr>dep_Selector := v\<rparr>) (dep_Selector desired)
    (syncField dep_Replicas (\<lambda>v d. d\<lparr>dep_Replicas := v\<rparr>) (dep_Replicas desired)
    (syncField dep_OwnerReferences (\<lambda>v d. d\<lparr>dep_OwnerReferences := v\<rparr>) (dep_OwnerReferences desired)
    (syncField dep_Labels (\<lambda>v d. d\<lparr>dep_Labels := v\<rparr>) (dep_Labels desired) (found, False)))))))))"

definition emptyService :: "string \<Rightarrow> Service" where
  "emptyService name = zeroService\<lparr>svc_Name := name\<rparr>"

definition completeEndpoint :: "TrafficManager \<Rightarrow> serviceKind \<Rightarrow> TrafficManagerServiceEndpointSpec" where
  "completeEndpoint inst kind =
     (let spec = endpointOf inst kind in
      if tms_Type (tm_Spec inst) = TrafficManagerTypeCman then spec
      else spec\<lparr>tme_Port := nginxServicePort inst kind (tme_Port spec),
                tme_TargetPort := orZero (tme_TargetPort spec) (trafficManagerContainerPort inst)\<rparr>)"

definition serviceName :: "TrafficManager \<Rightarrow> serviceKind \<Rightarrow> string" where
  "serviceName inst kind =
     (case kind of Internal \<Rightarrow> trafficManagerInternalServiceName inst | External \<Rightarrow> trafficManagerExternalServiceName inst)"

definition buildTrafficManagerService :: "TrafficManager \<Rightarrow> serviceKind \<Rightarrow> Service" where
  "buildTrafficManagerService inst kind =
     (let spec = completeEndpoint inst kind in
      (emptyService (serviceName inst kind))
      \<lparr>svc_Labels := trafficManagerLabels inst, svc_Annotations := Some (tme_Annotations spec),
       svc_Type := (case kind of Internal \<Rightarrow> ''ClusterIP''
                    | External \<Rightarrow> if tme_ServiceType spec = [] then ''LoadBalancer'' else tme_ServiceType spec),
       svc_Selector := trafficManagerLabels inst,
       svc_Ports := buildTrafficManagerServicePorts inst kind spec,
       svc_ExternalTrafficPolicy := (case kind of Internal \<Rightarrow> [] | External \<Rightarrow> tme_ExternalTrafficPolicy spec),
       svc_LoadBalancerIP := (case kind of Internal \<Rightarrow> [] | External \<Rightarrow> tme_LoadBalancerIP spec),
       svc_LoadBalancerClass :=
         (case kind of Internal \<Rightarrow> None
          | External \<Rightarrow> (case tme_LoadBalancerClass spec of None \<Rightarrow> None | Some c \<Rightarrow> if blank c then None else Some c))\<rparr>)"

definition buildNginxRouteStatuses :: "associatedBackend list \<Rightarrow> string \<Rightarrow> NginxRouteStatus list" where
  "buildNginxRouteStatuses backends externalEndpoint =
     map (\<lambda>b. \<lparr>nrs_Path = ab_Path b, nrs_BackendName = ab_Name b, nrs_BackendService = ab_ServiceName b,
        nrs_BackendURL = backendScheme (ab_UseHTTPS b) @ ''://'' @ ab_ServiceName b @ '':'' @ itoa (ab_ServicePort b),
        nrs_PublicURL = (if externalEndpoint = [] then []
                         else rev (dropWhile (\<lambda>c. c = CHR ''/'') (rev externalEndpoint)) @ ab_Path b)\<rparr>) backends"


section \<open>Digests\<close>

definition readSecretKey :: "namespace \<Rightarrow> string \<Rightarrow> string \<Rightarrow> bool \<Rightarrow> tmc_error + string" where
  "readSecretKey ns name key mayBeEmpty =
     (case ns_Fails ns (GetSecret name) of
        Some e \<Rightarrow> Inl (SecretUnreadable name e)
      | None \<Rightarrow>
          (case ns_Secrets ns name of
             None \<Rightarrow> Inl (SecretUnreadable name ''not found'')
           | Some data \<Rightarrow>
               (case map_of data key of
                  None \<Rightarrow> Inl (SecretKeyMissing name key)
                | Some v \<Rightarrow> if v = [] \<and> \<not> mayBeEmpty then Inl (SecretKeyMissing name key) else Inr v)))"

definition resolveTLSSecretChecksum :: "(string \<Rightarrow> string) \<Rightarrow> TrafficManager \<Rightarrow> namespace \<Rightarrow> tmc_error + string" where
  "resolveTLSSecretChecksum digest inst ns =
     (if \<not> tml_Enabled (tmTLS inst) then Inr []
      else
        (let secretName = TrimSpace (tml_SecretName (tmTLS inst)) in
         if secretName = [] then Inl TlsSecretUnset
         else
           (case readSecretKey ns secretName ''tls.crt'' False of
              Inl e \<Rightarrow> Inl e
            | Inr crt \<Rightarrow> (case readSecretKey ns secretName ''tls.key'' False of Inl e \<Rightarrow> Inl e | Inr key \<Rightarrow> Inr (digest (crt @ key))))))"

definition resolveBackendTLSSecretChecksum :: "(string \<Rightarrow> string) \<Rightarrow> TrafficManager \<Rightarrow> namespace \<Rightarrow> tmc_error + string" where
  "resolveBackendTLSSecretChecksum digest inst ns =
     (let secretName = backendTLSTrustSecretName inst in
      if secretName = [] then Inr []
      else (case readSecretKey ns secretName (backendTLSTrustFileName inst) False of Inl e \<Rightarrow> Inl e | Inr v \<Rightarrow> Inr (digest v)))"

definition flattenEnvVars :: "EnvironmentVariable list \<Rightarrow> string list" where
  "flattenEnvVars envs = sort (map (\<lambda>e. env_Name e @ ''='' @ env_Value e) envs)"

definition resolveCmanConfigChecksum :: "(string \<Rightarrow> string) \<Rightarrow> TrafficManager \<Rightarrow> namespace \<Rightarrow> tmc_error + string" where
  "resolveCmanConfigChecksum digest inst ns =
     (if \<not> cmanUsesFileConfig inst then Inr (digest (Join (flattenEnvVars (buildCmanEnvVars inst)) [CHR 0x0A]))
      else
        (case Option.bind (Option.bind (tms_Cman (tm_Spec inst)) cman_ConfigSource) ccs_ConfigMapRef of
           None \<Rightarrow> Inr (digest [])
         | Some ref \<Rightarrow>
             (case ns_Fails ns (GetConfigMap (tkr_Name ref)) of
                Some e \<Rightarrow> Inl (ConfigMapUnreadable (tkr_Name ref) e)
              | None \<Rightarrow>
                  (case ns_ConfigMaps ns (tkr_Name ref) of
                     None \<Rightarrow> Inl (ConfigMapUnreadable (tkr_Name ref) ''not found'')
                   | Some cm \<Rightarrow>
                       (case map_of (cm_Data cm) (tkr_Key ref) of
                          None \<Rightarrow> Inl (ConfigMapKeyMissing (tkr_Name ref) (tkr_Key ref))
                        | Some v \<Rightarrow> Inr (digest v))))))"

fun readRefs :: "namespace \<Rightarrow> TrafficManagerKeyRef option list \<Rightarrow> tmc_error + string" where
  "readRefs ns [] = Inr []"
| "readRefs ns (None # refs) = readRefs ns refs"
| "readRefs ns (Some ref # refs) =
     (case readSecretKey ns (tkr_Name ref) (tkr_Key ref) True of
        Inl e \<Rightarrow> Inl e
      | Inr v \<Rightarrow> (case readRefs ns refs of Inl e \<Rightarrow> Inl e | Inr rest \<Rightarrow> Inr (v @ rest)))"

definition resolveCmanRestSecretChecksum :: "(string \<Rightarrow> string) \<Rightarrow> TrafficManager \<Rightarrow> namespace \<Rightarrow> tmc_error + string" where
  "resolveCmanRestSecretChecksum digest inst ns =
     (if \<not> restEnabled inst then Inr []
      else
        (case cmanRest inst of
           None \<Rightarrow> Inr []
         | Some r \<Rightarrow>
             (case readRefs ns [cra_PasswordSecretRef r, cra_PrivateKeySecretRef r] of
                Inl e \<Rightarrow> Inl e
              | Inr payload \<Rightarrow> Inr (if payload = [] then [] else digest payload))))"


section \<open>The pass\<close>

definition applyConfigMap :: "TrafficManager \<Rightarrow> ConfigMap \<Rightarrow> namespace \<Rightarrow> tmc_error option \<times> namespace" where
  "applyConfigMap inst cm ns =
     (let n = cm_Name cm in
      case ns_Fails ns (GetConfigMap n) of
        Some e \<Rightarrow> (Some (ApiFailed e), ns)
      | None \<Rightarrow>
          (case ns_ConfigMaps ns n of
             None \<Rightarrow>
               (case ns_Fails ns (CreateConfigMap n) of
                  Some e \<Rightarrow> (Some (ApiFailed e), ns)
                | None \<Rightarrow> (None, ns\<lparr>ns_ConfigMaps := (ns_ConfigMaps ns)(n \<mapsto> cm)\<rparr>))
           | Some existing \<Rightarrow>
               if \<not> IsControlledBy (cm_OwnerReferences existing) (tm_UID inst) then (Some (NotControlled n), ns)
               else
                 (case ns_Fails ns (UpdateConfigMap n) of
                    Some e \<Rightarrow> (Some (ApiFailed e), ns)
                  | None \<Rightarrow>
                      (None, ns\<lparr>ns_ConfigMaps := (ns_ConfigMaps ns)(n \<mapsto>
                         existing\<lparr>cm_Data := cm_Data cm, cm_Labels := cm_Labels cm, cm_OwnerReferences := cm_OwnerReferences cm\<rparr>)\<rparr>))))"

definition tmSyncOptions :: ServiceSyncOptions where
  "tmSyncOptions =
     \<lparr>sso_NodePortMerge = NodePortMergeNone, sso_SyncOwnerReferences = True, sso_SyncSessionAffinityCfg = False,
      sso_SyncPublishNotReady = False, sso_SyncInternalTrafficPolicy = False, sso_SyncLoadBalancerFields = True,
      sso_SyncHealthCheckNodePort = False\<rparr>"

definition ownedService :: "TrafficManager \<Rightarrow> serviceKind \<Rightarrow> Service" where
  "ownedService inst kind = (buildTrafficManagerService inst kind)\<lparr>svc_OwnerReferences := [controllerReference inst]\<rparr>"

definition ensureService :: "TrafficManager \<Rightarrow> serviceKind \<Rightarrow> namespace \<Rightarrow> tmc_error option \<times> namespace" where
  "ensureService inst kind ns =
     (case EnsureService (ownedService inst kind) tmSyncOptions ns of
        (Inl e, ns') \<Rightarrow> (Some (ServiceFailed e), ns')
      | (Inr changed, ns') \<Rightarrow> (None, ns'))"

text \<open>A deletion is for the object that was read: its UID is a precondition.\<close>

definition deleteServiceIfExists :: "TrafficManager \<Rightarrow> string \<Rightarrow> namespace \<Rightarrow> tmc_error option \<times> namespace" where
  "deleteServiceIfExists inst name ns =
     (if name = [] then (None, ns)
      else
        (case ns_Fails ns (GetService name) of
           Some e \<Rightarrow> (Some (ApiFailed e), ns)
         | None \<Rightarrow>
             (case ns_Services ns name of
                None \<Rightarrow> (None, ns)
              | Some svc \<Rightarrow>
                  if \<not> IsControlledBy (svc_OwnerReferences svc) (tm_UID inst) then (Some (NotControlled name), ns)
                  else
                    (case ns_Fails ns (DeleteService name) of
                       Some e \<Rightarrow> (Some (ApiFailed e), ns)
                     | None \<Rightarrow> (None, ns\<lparr>ns_Services := (ns_Services ns)(name := None)\<rparr>)))))"

definition kindEnabled :: "TrafficManager \<Rightarrow> serviceKind \<Rightarrow> bool" where
  "kindEnabled inst kind =
     (case kind of Internal \<Rightarrow> trafficManagerServiceEnabled (tme_Enabled (tmInternal inst)) True
      | External \<Rightarrow> trafficManagerServiceEnabled (tme_Enabled (tmExternal inst)) False)"

definition reconcileService :: "TrafficManager \<Rightarrow> serviceKind \<Rightarrow> namespace \<Rightarrow> tmc_error option \<times> namespace" where
  "reconcileService inst kind ns =
     (if kindEnabled inst kind then ensureService inst kind ns else deleteServiceIfExists inst (serviceName inst kind) ns)"

definition reconcileServices :: "TrafficManager \<Rightarrow> namespace \<Rightarrow> tmc_error option \<times> namespace" where
  "reconcileServices inst ns =
     (case reconcileService inst Internal ns of
        (Some e, ns') \<Rightarrow> (Some e, ns')
      | (None, ns') \<Rightarrow> reconcileService inst External ns')"

datatype tm_result = TmRequeue | TmNoRequeue | TmRequeueAfter int

text \<open>The outcome of a pass: its result and error, the namespace, and the object as stored afterwards.\<close>

record tm_outcome =
  tmo_result :: tm_result
  tmo_err :: "tmc_error option"
  tmo_ns :: namespace
  tmo_stored :: TrafficManager

definition stopPass :: "tm_result \<Rightarrow> tmc_error \<Rightarrow> namespace \<Rightarrow> TrafficManager \<Rightarrow> tm_outcome" where
  "stopPass result e ns stored = \<lparr>tmo_result = result, tmo_err = Some e, tmo_ns = ns, tmo_stored = stored\<rparr>"

definition StatusError :: string where
  "StatusError = ''Error''"

definition StatusReady :: string where
  "StatusReady = ''Healthy''"

definition errorPass :: "tmc_error \<Rightarrow> namespace \<Rightarrow> TrafficManager \<Rightarrow> tm_outcome" where
  "errorPass e ns inst =
     stopPass TmRequeue e ns
       (if ns_Fails ns UpdateStatus = None then inst\<lparr>tm_Status := (tm_Status inst)\<lparr>tmt_Status := StatusError\<rparr>\<rparr> else inst)"

definition externalAddress :: "TrafficManager \<Rightarrow> namespace \<Rightarrow> string" where
  "externalAddress inst ns =
     (let n = trafficManagerExternalServiceName inst in
      if \<not> kindEnabled inst External \<or> ns_Fails ns (GetService n) \<noteq> None then []
      else (case ns_Services ns n of
              None \<Rightarrow> []
            | Some svc \<Rightarrow> (case svc_Ingress svc of [] \<Rightarrow> [] | (ip, hostname) # _ \<Rightarrow> if ip \<noteq> [] then ip else hostname)))"

definition baseStatus :: "TrafficManager \<Rightarrow> Deployment \<Rightarrow> string \<Rightarrow> TrafficManagerStatus" where
  "baseStatus inst found endpoint =
     (tm_Status inst)\<lparr>tmt_Status := StatusReady, tmt_Type := tms_Type (tm_Spec inst), tmt_ReadyReplicas := dep_ReadyReplicas found,
        tmt_InternalService := (if kindEnabled inst Internal then trafficManagerInternalServiceName inst else []),
        tmt_ExternalService := (if kindEnabled inst External then trafficManagerExternalServiceName inst else []),
        tmt_ExternalEndpoint := endpoint\<rparr>"

definition finishTm :: "TrafficManager \<Rightarrow> TrafficManagerStatus \<Rightarrow> DeploymentReconcileResult \<Rightarrow> namespace \<Rightarrow> tm_outcome" where
  "finishTm inst status result ns =
     (case ns_Fails ns UpdateStatus of
        Some e \<Rightarrow> stopPass TmNoRequeue (ApiFailed e) ns inst
      | None \<Rightarrow>
          \<lparr>tmo_result = (if drr_Created result \<or> drr_Updated result then TmRequeue else TmRequeueAfter 30), tmo_err = None, tmo_ns = ns,
           tmo_stored = inst\<lparr>tm_Status := status\<rparr>\<rparr>)"

definition ownedDeployment :: "TrafficManager \<Rightarrow> string \<Rightarrow> string \<Rightarrow> string \<Rightarrow> Deployment" where
  "ownedDeployment inst a b c = (buildTrafficManagerDeployment inst a b c)\<lparr>dep_OwnerReferences := [controllerReference inst]\<rparr>"

text \<open>The common end of both passes: the deployment, the two services, then the status that \<open>statusOf\<close> makes of the result.\<close>

definition reconcileWorkload ::
    "TrafficManager \<Rightarrow> Deployment \<Rightarrow> (Deployment \<Rightarrow> namespace \<Rightarrow> TrafficManagerStatus) \<Rightarrow> namespace \<Rightarrow> tm_outcome" where
  "reconcileWorkload inst deploy statusOf ns =
     (case ReconcileDeployment deploy (Some syncTrafficManagerDeployment) ns of
        (Inl e, ns1) \<Rightarrow> stopPass TmNoRequeue (ApiFailed e) ns1 inst
      | (Inr (found, result), ns1) \<Rightarrow>
          (case reconcileServices inst ns1 of
             (Some e, ns2) \<Rightarrow> stopPass TmNoRequeue e ns2 inst
           | (None, ns2) \<Rightarrow> finishTm inst (statusOf found ns2) result ns2))"

definition cmanStatus :: "TrafficManager \<Rightarrow> Deployment \<Rightarrow> namespace \<Rightarrow> TrafficManagerStatus" where
  "cmanStatus inst found ns =
     (baseStatus inst found (externalAddress inst ns))
       \<lparr>tmt_Cman := Some \<lparr>cms_ConfigMode = cmanConfigMode inst, cms_RestHost = cmanRestHost inst\<rparr>\<rparr>"

definition reconcileCman :: "(string \<Rightarrow> string) \<Rightarrow> TrafficManager \<Rightarrow> namespace \<Rightarrow> tm_outcome" where
  "reconcileCman digest inst ns =
     (case resolveCmanConfigChecksum digest inst ns of
        Inl e \<Rightarrow> errorPass e ns inst
      | Inr configChecksum \<Rightarrow>
          (case resolveCmanRestSecretChecksum digest inst ns of
             Inl e \<Rightarrow> errorPass e ns inst
           | Inr restSecretChecksum \<Rightarrow>
               reconcileWorkload inst (ownedDeployment inst configChecksum restSecretChecksum []) (cmanStatus inst) ns))"

definition nginxStatus :: "TrafficManager \<Rightarrow> associatedBackend list \<Rightarrow> Deployment \<Rightarrow> namespace \<Rightarrow> TrafficManagerStatus" where
  "nginxStatus inst backends found ns =
     (let endpoint = trafficManagerURLBase inst (externalAddress inst ns) in
      (baseStatus inst found endpoint)
        \<lparr>tmt_Nginx := Some
          \<lparr>ngs_ConfigMapName = trafficManagerConfigMapName inst, ngs_AssociatedBackends = backendNames backends,
           ngs_BackendCount = wrap32 (int (length backends)), ngs_ConfigMode = trafficManagerConfigMode inst,
           ngs_TLSEnabled = tml_Enabled (tmTLS inst), ngs_TLSSecretName = TrimSpace (tml_SecretName (tmTLS inst)),
           ngs_BackendTLSEnabled = backendTLSVerificationEnabled inst, ngs_BackendTrustSecret = backendTLSTrustSecretName inst,
           ngs_Routes = buildNginxRouteStatuses backends endpoint\<rparr>\<rparr>)"

definition reconcileNginx :: "(string \<Rightarrow> string) \<Rightarrow> PrivateAi list \<Rightarrow> TrafficManager \<Rightarrow> namespace \<Rightarrow> tm_outcome" where
  "reconcileNginx digest items inst ns =
     (case listAssociatedBackends inst (case ns_Fails ns ListPrivateAi of Some e \<Rightarrow> Inl e | None \<Rightarrow> Inr items) of
        Inl e \<Rightarrow> errorPass e ns inst
      | Inr backends \<Rightarrow>
          (case buildManagedNginxConfig inst backends of
             Inl e \<Rightarrow> errorPass e ns inst
           | Inr configData \<Rightarrow>
               (case resolveTLSSecretChecksum digest inst ns of
                  Inl e \<Rightarrow> errorPass e ns inst
                | Inr tlsChecksum \<Rightarrow>
                    (case resolveBackendTLSSecretChecksum digest inst ns of
                       Inl e \<Rightarrow> errorPass e ns inst
                     | Inr backendTLSChecksum \<Rightarrow>
                         (case applyConfigMap inst
                                 ((buildTrafficManagerConfigMap inst configData)\<lparr>cm_OwnerReferences := [controllerReference inst]\<rparr>) ns of
                            (Some e, ns1) \<Rightarrow> stopPass TmNoRequeue e ns1 inst
                          | (None, ns1) \<Rightarrow>
                              reconcileWorkload inst (ownedDeployment inst (digest configData) tlsChecksum backendTLSChecksum)
                                (nginxStatus inst backends) ns1)))))"

text \<open>
  \<^verbatim>\<open>Reconcile\<close> of an object that exists; for one that does not, the pass ends without an error, and a failed read is returned
  with a requeue.
\<close>

definition tmReconcile :: "(string \<Rightarrow> string) \<Rightarrow> PrivateAi list \<Rightarrow> TrafficManager \<Rightarrow> namespace \<Rightarrow> tm_outcome" where
  "tmReconcile digest items inst ns =
     (if tms_Type (tm_Spec inst) = TrafficManagerTypeCman then reconcileCman digest inst ns
      else reconcileNginx digest items inst ns)"



section \<open>Lemmas\<close>

subsection \<open>The deployment\<close>

interpretation d_labels: synced_field dep_Labels "\<lambda>v d. d\<lparr>dep_Labels := v\<rparr>" by unfold_locales simp
interpretation d_owners: synced_field dep_OwnerReferences "\<lambda>v d. d\<lparr>dep_OwnerReferences := v\<rparr>" by unfold_locales simp
interpretation d_replicas: synced_field dep_Replicas "\<lambda>v d. d\<lparr>dep_Replicas := v\<rparr>" by unfold_locales simp
interpretation d_selector: synced_field dep_Selector "\<lambda>v d. d\<lparr>dep_Selector := v\<rparr>" by unfold_locales simp
interpretation d_tlabels: synced_field dep_TemplateLabels "\<lambda>v d. d\<lparr>dep_TemplateLabels := v\<rparr>" by unfold_locales simp
interpretation d_annotations: synced_field dep_TemplateAnnotations "\<lambda>v d. d\<lparr>dep_TemplateAnnotations := v\<rparr>" by unfold_locales simp
interpretation d_volumes: synced_field dep_Volumes "\<lambda>v d. d\<lparr>dep_Volumes := v\<rparr>" by unfold_locales simp
interpretation d_pull: synced_field dep_ImagePullSecrets "\<lambda>v d. d\<lparr>dep_ImagePullSecrets := v\<rparr>" by unfold_locales simp
interpretation d_containers: synced_field dep_Containers "\<lambda>v d. d\<lparr>dep_Containers := v\<rparr>" by unfold_locales simp

lemmas deployment_fst = d_labels.fst_sync d_owners.fst_sync d_replicas.fst_sync d_selector.fst_sync d_tlabels.fst_sync
  d_annotations.fst_sync d_volumes.fst_sync d_pull.fst_sync d_containers.fst_sync

lemmas deployment_snd = d_labels.snd_sync d_owners.snd_sync d_replicas.snd_sync d_selector.snd_sync d_tlabels.snd_sync
  d_annotations.snd_sync d_volumes.snd_sync d_pull.snd_sync d_containers.snd_sync

text \<open>The result of the synchronisation: the desired deployment with four fields of the existing one.\<close>

definition deploymentOverlay :: "Deployment \<Rightarrow> Deployment \<Rightarrow> Deployment" where
  "deploymentOverlay found desired =
     desired\<lparr>dep_Name := dep_Name found, dep_ServiceAccountName := dep_ServiceAccountName found,
       dep_PodSecurityContext := dep_PodSecurityContext found, dep_ReadyReplicas := dep_ReadyReplicas found\<rparr>"

lemma deployment_sync_fst: "fst (syncTrafficManagerDeployment found desired) = deploymentOverlay found desired"
  unfolding syncTrafficManagerDeployment_def deployment_fst by (simp add: deploymentOverlay_def)

lemma deployment_sync_snd: "snd (syncTrafficManagerDeployment found desired) \<longleftrightarrow> deploymentOverlay found desired \<noteq> found"
  unfolding syncTrafficManagerDeployment_def deployment_snd deployment_fst
  by (cases found; cases desired) (auto simp: deploymentOverlay_def)

lemma deploymentOverlay_idem: "deploymentOverlay (deploymentOverlay found desired) desired = deploymentOverlay found desired"
  by (simp add: deploymentOverlay_def)

lemma deployment_sync_eq:
  "syncTrafficManagerDeployment found desired = (deploymentOverlay found desired, deploymentOverlay found desired \<noteq> found)"
  by (simp add: prod_eq_iff deployment_sync_fst deployment_sync_snd)

text \<open>
  C27: an existing deployment takes over everything of the desired one except the service account and the security context of its
  pods (and its name and status), the flag is raised exactly when this changes it, and a second run changes nothing. An update
  of the specification that changes only these two fields never reaches the pods.
\<close>

theorem deployment_sync_exact:
  "syncTrafficManagerDeployment found desired =
     (let synced = desired\<lparr>dep_Name := dep_Name found, dep_ServiceAccountName := dep_ServiceAccountName found,
        dep_PodSecurityContext := dep_PodSecurityContext found, dep_ReadyReplicas := dep_ReadyReplicas found\<rparr>
      in (synced, synced \<noteq> found)) \<and>
   syncTrafficManagerDeployment (fst (syncTrafficManagerDeployment found desired)) desired =
     (fst (syncTrafficManagerDeployment found desired), False)"
  by (simp add: deployment_sync_eq deploymentOverlay_idem) (simp add: deploymentOverlay_def Let_def)


subsection \<open>Objects of others\<close>

text \<open>What a step leaves alone: the configuration maps and services of others, all secrets, and every other deployment.\<close>

definition keepsOthers :: "TrafficManager \<Rightarrow> namespace \<Rightarrow> namespace \<Rightarrow> bool" where
  "keepsOthers inst ns ns' \<longleftrightarrow>
     (\<forall>n cm. ns_ConfigMaps ns n = Some cm \<longrightarrow> \<not> IsControlledBy (cm_OwnerReferences cm) (tm_UID inst) \<longrightarrow> ns_ConfigMaps ns' n = Some cm) \<and>
     (\<forall>n svc. ns_Services ns n = Some svc \<longrightarrow> \<not> IsControlledBy (svc_OwnerReferences svc) (tm_UID inst) \<longrightarrow> ns_Services ns' n = Some svc) \<and>
     (\<forall>n. n \<noteq> tm_Name inst \<longrightarrow> ns_Deployments ns' n = ns_Deployments ns n) \<and>
     ns_Secrets ns' = ns_Secrets ns \<and> ns_Fails ns' = ns_Fails ns"

lemma keepsOthers_refl [simp]: "keepsOthers inst ns ns"
  by (simp add: keepsOthers_def)

lemma keepsOthers_trans: "keepsOthers inst a b \<Longrightarrow> keepsOthers inst b c \<Longrightarrow> keepsOthers inst a c"
  by (simp add: keepsOthers_def)

lemma applyConfigMap_keeps: "keepsOthers inst ns (snd (applyConfigMap inst cm ns))"
  by (auto simp: applyConfigMap_def Let_def keepsOthers_def split: option.splits)

lemma deleteServiceIfExists_keeps: "keepsOthers inst ns (snd (deleteServiceIfExists inst name ns))"
  by (auto simp: deleteServiceIfExists_def keepsOthers_def split: option.splits)

lemma ownedService_fields [simp]:
  "svc_OwnerReferences (ownedService inst kind) = [controllerReference inst]" "svc_Name (ownedService inst kind) = serviceName inst kind"
  by (simp_all add: ownedService_def buildTrafficManagerService_def emptyService_def Let_def)

lemma controllerReference_fields [simp]: "own_Controller (controllerReference inst)" "own_UID (controllerReference inst) = tm_UID inst"
  by (simp_all add: controllerReference_def)

text \<open>A service that may be updated is controlled by the traffic manager.\<close>

lemma service_ownership:
  "validateServiceOwnership found (ownedService inst kind) tmSyncOptions \<Longrightarrow> IsControlledBy (svc_OwnerReferences found) (tm_UID inst)"
  by (auto simp: validateServiceOwnership_def tmSyncOptions_def IsControlledBy_def GetControllerOf_def split: option.splits)

lemma keepsOthers_service:
  "ns_Services ns n = None \<Longrightarrow> keepsOthers inst ns (ns\<lparr>ns_Services := (ns_Services ns)(n \<mapsto> x)\<rparr>)"
  "ns_Services ns n = Some found \<Longrightarrow> IsControlledBy (svc_OwnerReferences found) (tm_UID inst) \<Longrightarrow>
     keepsOthers inst ns (ns\<lparr>ns_Services := (ns_Services ns)(n \<mapsto> x)\<rparr>)"
  by (auto simp: keepsOthers_def)

lemma EnsureService_keeps: "keepsOthers inst ns (snd (EnsureService (ownedService inst kind) tmSyncOptions ns))"
  using keepsOthers_service service_ownership
  by (simp add: EnsureService_def Let_def split: option.split prod.split)

lemma reconcileService_keeps: "keepsOthers inst ns (snd (reconcileService inst kind ns))"
  using EnsureService_keeps [of inst ns kind] deleteServiceIfExists_keeps
  by (auto simp: reconcileService_def ensureService_def split: prod.splits sum.splits)

lemma reconcileServices_keeps: "keepsOthers inst ns (snd (reconcileServices inst ns))"
proof -
  obtain e ns1 where r: "reconcileService inst Internal ns = (e, ns1)" by fastforce
  have "keepsOthers inst ns ns1" using reconcileService_keeps [of inst ns Internal] r by simp
  then show ?thesis
    using keepsOthers_trans reconcileService_keeps [of inst ns1 External] by (auto simp: reconcileServices_def r split: option.splits)
qed

lemma ownedDeployment_name [simp]: "dep_Name (ownedDeployment inst a b c) = tm_Name inst"
  by (simp add: ownedDeployment_def buildTrafficManagerDeployment_def buildCmanTrafficManagerDeployment_def deploymentFrame_def Let_def
      trafficManagerDeploymentName_def)

lemma ReconcileDeployment_keeps:
  "dep_Name deploy = tm_Name inst \<Longrightarrow> keepsOthers inst ns (snd (ReconcileDeployment deploy f ns))"
  by (auto simp: ReconcileDeployment_def Let_def keepsOthers_def split: option.splits prod.splits)

lemma reconcileWorkload_keeps:
  assumes "dep_Name deploy = tm_Name inst"
  shows "keepsOthers inst ns (tmo_ns (reconcileWorkload inst deploy statusOf ns))"
proof -
  obtain r ns1 where d: "ReconcileDeployment deploy (Some syncTrafficManagerDeployment) ns = (r, ns1)" by fastforce
  have k1: "keepsOthers inst ns ns1" using ReconcileDeployment_keeps [OF assms, of ns] d by (metis snd_conv)
  obtain e ns2 where s: "reconcileServices inst ns1 = (e, ns2)" by fastforce
  then have "keepsOthers inst ns1 ns2" using reconcileServices_keeps [of inst ns1] by simp
  then have k2: "keepsOthers inst ns ns2" using k1 keepsOthers_trans by blast
  show ?thesis
    using k1 k2 by (auto simp: reconcileWorkload_def d s stopPass_def finishTm_def split: sum.splits option.splits)
qed

lemma errorPass_ns [simp]: "tmo_ns (errorPass e ns inst) = ns" "tmo_err (errorPass e ns inst) = Some e"
  by (simp_all add: errorPass_def stopPass_def)

lemma stopPass_fields [simp]: "tmo_ns (stopPass r e ns inst) = ns" "tmo_err (stopPass r e ns inst) = Some e"
  by (simp_all add: stopPass_def)

lemma reconcileNginx_keeps: "keepsOthers inst ns (tmo_ns (reconcileNginx digest items inst ns))"
proof -
  have "keepsOthers inst ns (tmo_ns (case applyConfigMap inst cm ns of
      (Some e, ns1) \<Rightarrow> stopPass TmNoRequeue e ns1 inst
    | (None, ns1) \<Rightarrow> reconcileWorkload inst (ownedDeployment inst a b c) st ns1))" for cm a b c st
  proof -
    obtain e ns1 where r: "applyConfigMap inst cm ns = (e, ns1)" by fastforce
    have "keepsOthers inst ns ns1" using applyConfigMap_keeps [of inst ns cm] r by simp
    then show ?thesis using keepsOthers_trans reconcileWorkload_keeps by (auto simp: r split: option.splits)
  qed
  then show ?thesis by (auto simp: reconcileNginx_def split: sum.splits)
qed

text \<open>
  C18: a pass of the traffic manager, however far it gets and whichever calls of the API server fail, leaves every configuration
  map and every service that another controller owns, or none, as it is; it changes no secret, and of the deployments at most
  the one with its own name.
\<close>

theorem pass_keeps_others:
  "keepsOthers inst ns (tmo_ns (tmReconcile digest items inst ns))"
  by (auto simp: tmReconcile_def reconcileNginx_keeps reconcileCman_def reconcileWorkload_keeps split: sum.splits)



subsection \<open>What a pass establishes\<close>

lemma tm_overlay_idem:
  "serviceOverlay (serviceOverlay f d tmSyncOptions) d tmSyncOptions = serviceOverlay f d tmSyncOptions"
  unfolding serviceOverlay_eq_iff by (simp add: serviceOverlay_def tmSyncOptions_def desiredPorts_def)

lemma overlay_self: "serviceOverlay d d tmSyncOptions = d"
  unfolding serviceOverlay_eq_iff by (simp add: tmSyncOptions_def desiredPorts_def)

text \<open>A service exists exactly when it is enabled, and then has the fields of the desired one.\<close>

definition serviceInPlace :: "TrafficManager \<Rightarrow> serviceKind \<Rightarrow> namespace \<Rightarrow> bool" where
  "serviceInPlace inst kind ns \<longleftrightarrow>
     (case ns_Services ns (serviceName inst kind) of
        None \<Rightarrow> \<not> kindEnabled inst kind
      | Some svc \<Rightarrow> kindEnabled inst kind \<and> serviceOverlay svc (ownedService inst kind) tmSyncOptions = svc)"

lemma serviceName_not_empty: "tm_Name inst \<noteq> [] \<Longrightarrow> serviceName inst kind \<noteq> []"
  by (cases kind) (simp_all add: serviceName_def trafficManagerInternalServiceName_def trafficManagerExternalServiceName_def)

lemma service_names_differ: "serviceName inst Internal \<noteq> serviceName inst External"
  by (simp add: serviceName_def trafficManagerInternalServiceName_def trafficManagerExternalServiceName_def)

lemma ensureService_in_place:
  assumes "ensureService inst kind ns = (None, ns')" "kindEnabled inst kind"
  shows "serviceInPlace inst kind ns' \<and> (\<forall>n. n \<noteq> serviceName inst kind \<longrightarrow> ns_Services ns' n = ns_Services ns n) \<and>
    ns_Deployments ns' = ns_Deployments ns \<and> ns_ConfigMaps ns' = ns_ConfigMaps ns"
proof -
  let ?d = "ownedService inst kind" and ?n = "serviceName inst kind"
  have r: "reconcileServiceFields f ?d tmSyncOptions = (serviceOverlay f ?d tmSyncOptions, serviceOverlay f ?d tmSyncOptions \<noteq> f)" for f
    by (simp add: prod_eq_iff reconcileServiceFields_fst reconcileServiceFields_snd)
  show ?thesis
  proof (cases "ns_Services ns ?n")
    case None
    then have "ns' = ns\<lparr>ns_Services := (ns_Services ns)(?n \<mapsto> ?d)\<rparr>"
      using assms(1) by (auto simp: ensureService_def EnsureService_def Let_def split: option.splits)
    then show ?thesis using assms(2) by (simp add: serviceInPlace_def overlay_self)
  next
    case (Some f)
    then have "ns' = (if serviceOverlay f ?d tmSyncOptions = f then ns else ns\<lparr>ns_Services := (ns_Services ns)(?n \<mapsto> serviceOverlay f ?d tmSyncOptions)\<rparr>)"
      using assms(1) by (auto simp: ensureService_def EnsureService_def Let_def r split: if_splits option.splits)
    then show ?thesis using assms(2) Some by (simp add: serviceInPlace_def tm_overlay_idem split: if_splits)
  qed
qed

lemma deleteService_in_place:
  assumes "deleteServiceIfExists inst (serviceName inst kind) ns = (None, ns')" "\<not> kindEnabled inst kind" "tm_Name inst \<noteq> []"
  shows "serviceInPlace inst kind ns' \<and> (\<forall>n. n \<noteq> serviceName inst kind \<longrightarrow> ns_Services ns' n = ns_Services ns n) \<and>
    ns_Deployments ns' = ns_Deployments ns \<and> ns_ConfigMaps ns' = ns_ConfigMaps ns"
proof -
  have "ns_Services ns' (serviceName inst kind) = None \<and> (ns' = ns \<or> ns' = ns\<lparr>ns_Services := (ns_Services ns)(serviceName inst kind := None)\<rparr>)"
    using assms(1) serviceName_not_empty [OF assms(3)] by (auto simp: deleteServiceIfExists_def split: option.splits if_splits)
  then show ?thesis using assms(2) by (auto simp: serviceInPlace_def)
qed

lemma reconcileService_in_place:
  assumes "reconcileService inst kind ns = (None, ns')" "tm_Name inst \<noteq> []"
  shows "serviceInPlace inst kind ns' \<and> (\<forall>n. n \<noteq> serviceName inst kind \<longrightarrow> ns_Services ns' n = ns_Services ns n) \<and>
    ns_Deployments ns' = ns_Deployments ns \<and> ns_ConfigMaps ns' = ns_ConfigMaps ns"
  using assms ensureService_in_place [of inst kind ns ns'] deleteService_in_place [of inst kind ns ns']
  by (simp add: reconcileService_def split: if_splits)

lemma reconcileServices_in_place:
  assumes "reconcileServices inst ns = (None, ns')" "tm_Name inst \<noteq> []"
  shows "serviceInPlace inst kind ns' \<and> ns_Deployments ns' = ns_Deployments ns \<and> ns_ConfigMaps ns' = ns_ConfigMaps ns"
proof -
  obtain ns1 where i: "reconcileService inst Internal ns = (None, ns1)" and e: "reconcileService inst External ns1 = (None, ns')"
    using assms(1) by (auto simp: reconcileServices_def split: prod.splits option.splits)
  note si = reconcileService_in_place [OF i assms(2)] and se = reconcileService_in_place [OF e assms(2)]
  have "ns_Services ns' (serviceName inst Internal) = ns_Services ns1 (serviceName inst Internal)"
    using se service_names_differ [of inst] by simp
  then have "serviceInPlace inst Internal ns'" using si by (simp add: serviceInPlace_def)
  then show ?thesis using si se by (cases kind) simp_all
qed

lemma ReconcileDeployment_in_place:
  assumes "ReconcileDeployment deploy (Some syncTrafficManagerDeployment) ns = (Inr (found, result), ns')"
  shows "ns_Deployments ns' (dep_Name deploy) = Some found \<and> deploymentOverlay found deploy = found \<and> ns_ConfigMaps ns' = ns_ConfigMaps ns"
proof -
  have o: "deploymentOverlay x x = x" for x by (simp add: deploymentOverlay_def)
  show ?thesis
    using assms
    by (auto simp: ReconcileDeployment_def Let_def deployment_sync_eq deploymentOverlay_idem o split: option.splits if_splits)
qed

lemma reconcileWorkload_in_place:
  assumes "out = reconcileWorkload inst deploy statusOf ns" "tmo_err out = None" "tm_Name inst \<noteq> []"
  shows "\<exists>found. ns_Deployments (tmo_ns out) (dep_Name deploy) = Some found \<and> deploymentOverlay found deploy = found \<and>
    (\<forall>kind. serviceInPlace inst kind (tmo_ns out)) \<and> ns_ConfigMaps (tmo_ns out) = ns_ConfigMaps ns \<and>
    tmo_stored out = inst\<lparr>tm_Status := statusOf found (tmo_ns out)\<rparr>"
proof -
  obtain found result ns1 where d: "ReconcileDeployment deploy (Some syncTrafficManagerDeployment) ns = (Inr (found, result), ns1)"
    using assms(1,2) by (auto simp: reconcileWorkload_def stopPass_def split: prod.splits sum.splits)
  obtain ns2 where s: "reconcileServices inst ns1 = (None, ns2)"
    using assms(1,2) by (auto simp: reconcileWorkload_def d stopPass_def split: prod.splits option.splits)
  have "ns_Fails ns2 UpdateStatus = None"
    using assms(1,2) by (auto simp: reconcileWorkload_def d s finishTm_def stopPass_def split: option.splits)
  then have o: "tmo_ns out = ns2" "tmo_stored out = inst\<lparr>tm_Status := statusOf found ns2\<rparr>"
    using assms(1) by (simp_all add: reconcileWorkload_def d s finishTm_def)
  show ?thesis using ReconcileDeployment_in_place [OF d] reconcileServices_in_place [OF s assms(3)] by (auto simp: o)
qed

lemma applyConfigMap_in_place:
  assumes "applyConfigMap inst cm ns = (None, ns')"
  shows "\<exists>x. ns_ConfigMaps ns' (cm_Name cm) = Some x \<and> cm_Data x = cm_Data cm \<and> cm_OwnerReferences x = cm_OwnerReferences cm"
  using assms by (auto simp: applyConfigMap_def Let_def split: option.splits if_splits)

lemma reconcileNginx_steps:
  assumes "tmo_err (reconcileNginx digest items inst ns) = None"
  obtains bs cfg t u ns1 where "listAssociatedBackends inst (Inr items) = Inr bs" "buildManagedNginxConfig inst bs = Inr cfg"
    "resolveTLSSecretChecksum digest inst ns = Inr t" "resolveBackendTLSSecretChecksum digest inst ns = Inr u"
    "applyConfigMap inst ((buildTrafficManagerConfigMap inst cfg)\<lparr>cm_OwnerReferences := [controllerReference inst]\<rparr>) ns = (None, ns1)"
    "reconcileNginx digest items inst ns = reconcileWorkload inst (ownedDeployment inst (digest cfg) t u) (nginxStatus inst bs) ns1"
proof -
  have f: "ns_Fails ns ListPrivateAi = None"
    using assms by (cases "ns_Fails ns ListPrivateAi") (auto simp: reconcileNginx_def listAssociatedBackends_def)
  obtain bs where b: "listAssociatedBackends inst (Inr items) = Inr bs" using assms f by (auto simp: reconcileNginx_def split: sum.splits)
  obtain cfg where c: "buildManagedNginxConfig inst bs = Inr cfg" using assms f b by (auto simp: reconcileNginx_def split: sum.splits)
  obtain t where t: "resolveTLSSecretChecksum digest inst ns = Inr t" using assms f b c by (auto simp: reconcileNginx_def split: sum.splits)
  obtain u where u: "resolveBackendTLSSecretChecksum digest inst ns = Inr u"
    using assms f b c t by (auto simp: reconcileNginx_def split: sum.splits)
  obtain ns1 where a: "applyConfigMap inst ((buildTrafficManagerConfigMap inst cfg)\<lparr>cm_OwnerReferences := [controllerReference inst]\<rparr>) ns = (None, ns1)"
    using assms f b c t u by (auto simp: reconcileNginx_def split: prod.splits option.splits)
  show thesis by (rule that [OF b c t u a]) (simp add: reconcileNginx_def f b c t u a)
qed

lemma service_in_place_fields:
  assumes "serviceInPlace inst kind ns" "ns_Services ns (serviceName inst kind) = Some svc"
  shows "svc_OwnerReferences svc = [controllerReference inst] \<and> svc_Selector svc = trafficManagerLabels inst \<and>
    svc_Ports svc = buildTrafficManagerServicePorts inst kind (completeEndpoint inst kind)"
proof -
  have "serviceOverlay svc (ownedService inst kind) tmSyncOptions = svc" using assms by (simp add: serviceInPlace_def)
  from arg_cong [OF this, of svc_OwnerReferences] arg_cong [OF this, of svc_Selector] arg_cong [OF this, of svc_Ports]
  show ?thesis by (simp add: serviceOverlay_def tmSyncOptions_def desiredPorts_def ownedService_def buildTrafficManagerService_def Let_def)
qed

lemma deployment_in_place_fields:
  assumes "deploymentOverlay found (ownedDeployment inst a b c) = found" "tms_Type (tm_Spec inst) \<noteq> TrafficManagerTypeCman"
  shows "dep_OwnerReferences found = [controllerReference inst] \<and> dep_Replicas found = Some (tmr_Replicas (tms_Runtime (tm_Spec inst))) \<and>
    dep_Selector found = Some (trafficManagerLabels inst) \<and> dep_TemplateLabels found = trafficManagerLabels inst \<and>
    map_of (dep_TemplateAnnotations found) ''network.oracle.com/config-hash'' = Some a \<and>
    map ctr_Image (dep_Containers found) = [tmr_Image (tms_Runtime (tm_Spec inst))] \<and>
    map ctr_Ports (dep_Containers found) = [[\<lparr>ctp_ContainerPort = trafficManagerContainerPort inst, ctp_Protocol = ''TCP''\<rparr>]] \<and>
    vol_Source (hd (dep_Volumes found)) = ConfigMapSource (trafficManagerConfigMapName inst) [(''nginx.conf'', ''nginx.conf'')]"
proof -
  note sel = arg_cong [OF assms(1), of dep_OwnerReferences] arg_cong [OF assms(1), of dep_Replicas] arg_cong [OF assms(1), of dep_Selector]
    arg_cong [OF assms(1), of dep_TemplateLabels] arg_cong [OF assms(1), of dep_TemplateAnnotations]
    arg_cong [OF assms(1), of dep_Containers] arg_cong [OF assms(1), of dep_Volumes]
  show ?thesis
    using assms(2) unfolding sel [symmetric]
    by (simp add: deploymentOverlay_def ownedDeployment_def buildTrafficManagerDeployment_def deploymentFrame_def nginxVolumes_def Let_def)
qed


definition exampleEndpoint :: TrafficManagerServiceEndpointSpec where
  "exampleEndpoint = \<lparr>tme_Enabled = None, tme_ServiceType = [], tme_Port = 0, tme_TargetPort = 0, tme_Annotations = [],
     tme_ExternalTrafficPolicy = [], tme_LoadBalancerIP = [], tme_LoadBalancerClass = None, tme_Ports = []\<rparr>"

definition exampleTm :: TrafficManager where
  "exampleTm = tmDefault \<lparr>tm_Name = ''edge'', tm_Namespace = ''ai'', tm_UID = ''u1'',
     tm_Spec = \<lparr>tms_Type = TrafficManagerTypeNginx,
       tms_Runtime = \<lparr>tmr_Image = ''nginx:1'', tmr_ImagePullPolicy = [], tmr_ImagePullSecrets = [], tmr_ServiceAccountName = [],
         tmr_Replicas = 0, tmr_Resources = None, tmr_PodSecurityContext = None, tmr_ContainerSecurityContext = None, tmr_EnvVars = []\<rparr>,
       tms_Service = \<lparr>tmv_Internal = exampleEndpoint, tmv_External = exampleEndpoint\<rparr>,
       tms_Security = \<lparr>tmy_TLS = \<lparr>tml_Enabled = False, tml_SecretName = [], tml_MountLocation = []\<rparr>, tmy_BackendTLS = None\<rparr>,
       tms_Nginx = None, tms_Cman = None\<rparr>,
     tm_Status = \<lparr>tmt_Status = [], tmt_Type = [], tmt_ReadyReplicas = 0, tmt_InternalService = [], tmt_ExternalService = [],
       tmt_ExternalEndpoint = [], tmt_Nginx = None, tmt_Cman = None\<rparr>\<rparr>"

definition exampleNamespace :: namespace where
  "exampleNamespace = \<lparr>ns_ConfigMaps = (\<lambda>n. None), ns_Deployments = (\<lambda>n. None), ns_Services = (\<lambda>n. None), ns_Secrets = (\<lambda>n. None),
     ns_Fails = (\<lambda>c. None)\<rparr>"

lemma example_enabled: "kindEnabled exampleTm kind = (kind = Internal)"
  by (cases kind) (simp_all, code_simp+)

lemma QuoteMeta_Nil: "QuoteMeta s = [] \<longleftrightarrow> s = []"
  by (cases s) (simp_all add: QuoteMeta_def)

lemma example_backends:
  assumes n: "tm_Name inst = ''edge''"
  obtains bs conf where "listAssociatedBackends inst (Inr [examplePai]) = Inr bs" "buildManagedNginxConfig inst bs = Inr conf"
proof -
  have a: "associatedItems ''edge'' [examplePai] = [(examplePai, ''/search/v1/'')]" by code_simp
  have r: "routesSound ''edge'' [examplePai]" by code_simp
  let ?b = "associatedBackendOf examplePai ''/search/v1/''"
  have l: "listAssociatedBackends inst (Inr [examplePai]) = Inr [?b]"
    using r by (simp add: listAssociatedBackends_Inr n a)
  have "ab_Path ?b = ''/search/v1/''" by (simp add: associatedBackendOf_def)
  moreover have "TrimSpace ''/search/v1/'' \<noteq> []" by code_simp
  ultimately have "TrimSpace (ab_Path ?b) \<noteq> []" by simp
  then obtain ls where "appendBackendLocation inst ?b = Inr ls"
    unfolding appendBackendLocation_def QuoteMeta_Nil Let_def by (simp only: if_False)
  then have "\<exists>conf. buildManagedNginxConfig inst [?b] = Inr conf"
    by (simp add: buildManagedNginxConfig_def nginxConfigLines_def Let_def)
  then show thesis using that l by blast
qed

text \<open>The services and the deployment are created in an empty namespace.\<close>

lemma example_workload:
  assumes "ns_Fails ns = (\<lambda>call. None)" "ns_Deployments ns = (\<lambda>n. None)" "ns_Services ns = (\<lambda>n. None)"
  shows "tmo_err (reconcileWorkload exampleTm d statusOf ns) = None"
  using assms
  by (simp add: reconcileWorkload_def ReconcileDeployment_def reconcileServices_def reconcileService_def ensureService_def
      EnsureService_def deleteServiceIfExists_def finishTm_def example_enabled IsControlledBy_def GetControllerOf_def Let_def)



section \<open>The certificate of the traffic manager\<close>

lemma clean_literal: "Clean ''/etc/nginx/tls'' = ''/etc/nginx/tls''"
  by code_simp

lemma tls_admitted:
  assumes "tmValidateCreate (tmDefault obj) = None" "tms_Type (tm_Spec obj) \<noteq> TrafficManagerTypeCman" "tml_Enabled (tmTLS obj)"
  shows "tms_Type (tm_Spec (tmDefault obj)) = TrafficManagerTypeNginx" "\<not> blank (tml_SecretName (tmTLS (tmDefault obj)))"
    "tmTLS (tmDefault obj) = (tmTLS obj)\<lparr>tml_MountLocation := orBlank (tml_MountLocation (tmTLS obj)) ''/etc/nginx/tls''\<rparr>"
  using assms
  by (auto simp: tmDefault_def Let_def defaultNginx_def defaultNginxSecurity_def defaultTypeAndReplicas_def tmValidateCreate_def
     validateTrafficManager_def validateNginx_def validateTLS_def split: if_splits)

lemma tls_mount:
  assumes "tml_Enabled (tmTLS inst)" "\<not> blank (tml_SecretName (tmTLS inst))"
  shows "vm \<in> set (map fst (nginxVolumes inst)) \<and> vm_Name vm = ''traffic-manager-tls'' \<longleftrightarrow>
    vm = \<lparr>vm_Name = ''traffic-manager-tls'', vm_MountPath = tml_MountLocation (tmTLS inst), vm_SubPath = [], vm_ReadOnly = True\<rparr>"
proof -
  have "''traffic-manager-config'' \<noteq> ''traffic-manager-tls''" "''traffic-manager-backend-tls'' \<noteq> ''traffic-manager-tls''" by simp_all
  then show ?thesis using assms unfolding nginxVolumes_def Let_def by (cases vm) (auto simp del: list.inject)
qed

text \<open>
  C24: for an admitted nginx traffic manager with TLS the generated configuration always reads the certificate from
  \<^verbatim>\<open>/etc/nginx/tls\<close>, but the secret with the certificate is mounted there exactly when the submitted mount location is
  blank or names that directory: any other accepted location leaves nginx without its certificate.
\<close>

theorem tls_certificate_mounted_iff:
  assumes "tmValidateCreate (tmDefault obj) = None" "tms_Type (tm_Spec obj) \<noteq> TrafficManagerTypeCman" "tml_Enabled (tmTLS obj)"
    and "dep_Containers (buildTrafficManagerDeployment (tmDefault obj) configChecksum tlsChecksum backendTLSChecksum) = [c]"
  shows "''        ssl_certificate /etc/nginx/tls/tls.crt;'' \<in> set (listenLines (tmDefault obj)) \<and>
    ((\<exists>vm. vm \<in> set (ctr_VolumeMounts c) \<and> vm_Name vm = ''traffic-manager-tls'' \<and> Clean (vm_MountPath vm) = ''/etc/nginx/tls'') \<longleftrightarrow>
      blank (tml_MountLocation (tmTLS obj)) \<or> Clean (tml_MountLocation (tmTLS obj)) = ''/etc/nginx/tls'')"
proof -
  note t = tls_admitted [OF assms(1-3)]
  have e: "tml_Enabled (tmTLS (tmDefault obj))" using t(3) assms(3) by simp
  have c: "ctr_VolumeMounts c = map fst (nginxVolumes (tmDefault obj))"
    using assms(4) t(1) by (auto simp: buildTrafficManagerDeployment_def deploymentFrame_def Let_def)
  have "(\<exists>vm. vm \<in> set (ctr_VolumeMounts c) \<and> vm_Name vm = ''traffic-manager-tls'' \<and> Clean (vm_MountPath vm) = ''/etc/nginx/tls'') \<longleftrightarrow>
      Clean (tml_MountLocation (tmTLS (tmDefault obj))) = ''/etc/nginx/tls''"
    unfolding c conj_assoc [symmetric] tls_mount [OF e t(2)] by simp
  moreover have "tml_MountLocation (tmTLS (tmDefault obj)) = orBlank (tml_MountLocation (tmTLS obj)) ''/etc/nginx/tls''"
    using t(3) by simp
  moreover have "Clean (orBlank m d) = d \<longleftrightarrow> blank m \<or> Clean m = d" if "Clean d = d" for m d :: string
    using that by (simp add: orBlank_def)
  moreover have "''        ssl_certificate /etc/nginx/tls/tls.crt;'' \<in> set (listenLines (tmDefault obj))"
    using e by (simp add: listenLines_def)
  ultimately show ?thesis using clean_literal by (simp only: simp_thms)
qed

definition exampleTlsTm :: TrafficManager where
  "exampleTlsTm = exampleTm\<lparr>tm_Spec := (tm_Spec exampleTm)\<lparr>tms_Security := \<lparr>tmy_TLS = \<lparr>tml_Enabled = True, tml_SecretName = ''cert'',
     tml_MountLocation = ''/certs''\<rparr>, tmy_BackendTLS = None\<rparr>\<rparr>\<rparr>"

theorem tls_certificate_mounted_iff_witness:
  "\<exists>c. dep_Containers (buildTrafficManagerDeployment (tmDefault exampleTlsTm) [] [] []) = [c] \<and>
     ''        ssl_certificate /etc/nginx/tls/tls.crt;'' \<in> set (listenLines (tmDefault exampleTlsTm)) \<and>
     \<not> (\<exists>vm. vm \<in> set (ctr_VolumeMounts c) \<and> vm_Name vm = ''traffic-manager-tls'' \<and> Clean (vm_MountPath vm) = ''/etc/nginx/tls'')"
proof -
  have v: "tmValidateCreate (tmDefault exampleTlsTm) = None" "tms_Type (tm_Spec exampleTlsTm) \<noteq> TrafficManagerTypeCman"
      "tml_Enabled (tmTLS exampleTlsTm)"
      "\<not> (blank (tml_MountLocation (tmTLS exampleTlsTm)) \<or> Clean (tml_MountLocation (tmTLS exampleTlsTm)) = ''/etc/nginx/tls'')"
    by code_simp+
  have "\<exists>c. dep_Containers (buildTrafficManagerDeployment (tmDefault exampleTlsTm) [] [] []) = [c]"
    by (simp add: buildTrafficManagerDeployment_def buildCmanTrafficManagerDeployment_def deploymentFrame_def Let_def)
  then obtain c where c: "dep_Containers (buildTrafficManagerDeployment (tmDefault exampleTlsTm) [] [] []) = [c]" by blast
  show ?thesis using tls_certificate_mounted_iff [OF v(1-3) c] v(4) c by (simp only: simp_thms) blast
qed

end
