(* ===== verification/Pai_Controller.thy ===== *)
theory Pai_Controller
  imports Traffic_Reconcile Sharding_Reconcile
begin

text \<open>
  The private AI controller, \<^verbatim>\<open>controllers/privateai/privateai_controller.go\<close>: the order of its phases, the update lock, the
  deletion, the status it writes, and its side of the contract with a traffic manager. The phases that create objects
  (\<^verbatim>\<open>reconcileDependencies\<close>, \<^verbatim>\<open>reconcileWorkload\<close>) and the finalisation are parameters: functions of the object in memory with
  their result. What a \<^verbatim>\<open>Get\<close> of the deployment answers after the phases is a parameter too, and \<^verbatim>\<open>meta.SetStatusCondition\<close> is
  \<open>setc\<close>, with the law \<^const>\<open>sets_condition\<close>. From \<^verbatim>\<open>commons/privateai\<close>: the names and ports of the services.
\<close>

section \<open>Services\<close>

definition GetSvcName :: "string \<Rightarrow> string \<Rightarrow> string" where
  "GetSvcName name svctype =
     (if svctype = ''privateLoadBalancer'' then name @ ''-private-lb''
      else if svctype = ''publicLoadBalancer'' then name @ ''-public-lb''
      else if svctype = ''external'' then name @ ''-svc''
      else if svctype = ''local'' then name
      else [])"

definition generateServicePortName :: "int \<Rightarrow> int \<Rightarrow> string" where
  "generateServicePortName port targetPort = ''tcp-'' @ itoa port @ ''-'' @ itoa targetPort"

definition servicePortOf :: "PaiServicePortSpec \<Rightarrow> ServicePort" where
  "servicePortOf m =
     \<lparr>sp_Name = (if blank (psp_Name m) then generateServicePortName (psp_Port m) (psp_TargetPort m) else TrimSpace (psp_Name m)),
      sp_Protocol = (if psp_Protocol m = [] then ''TCP'' else psp_Protocol m), sp_Port = psp_Port m, sp_TargetPort = psp_TargetPort m,
      sp_NodePort = 0\<rparr>"

text \<open>The legacy external service has its own port; its target port is never set.\<close>

definition buildSvcPortsDef :: "PrivateAiSpec \<Rightarrow> string \<Rightarrow> ServicePort list" where
  "buildSvcPortsDef spec svcType =
     (let result = (case EffectiveService spec of None \<Rightarrow> [] | Some s \<Rightarrow> map servicePortOf (psv_Ports s));
          port = pai_PaiLBPort spec in
      if svcType \<noteq> ''external'' \<or> port = 0 then result
      else
        (case result of
           [] \<Rightarrow>
             (let targetPort = fst (resolveServicePort spec); servicePort = (if port > 0 then port else targetPort) in
              [\<lparr>sp_Name = generateServicePortName servicePort targetPort, sp_Protocol = ''TCP'', sp_Port = servicePort,
                sp_TargetPort = targetPort, sp_NodePort = 0\<rparr>])
         | p # ps \<Rightarrow>
             (let q = (if port > 0 then p\<lparr>sp_Port := port\<rparr> else p) in
              q\<lparr>sp_Name := generateServicePortName (sp_Port q) (sp_TargetPort q)\<rparr> # ps)))"

definition ClusterServiceEnabledForPrivateAI :: "PrivateAiSpec \<Rightarrow> bool" where
  "ClusterServiceEnabledForPrivateAI spec =
     (case Option.bind (Option.bind (EffectiveService spec) psv_Cluster) pcl_Enabled of None \<Rightarrow> True | Some b \<Rightarrow> b)"

definition loadBalancerEnabled :: "PaiLoadBalancerSpec option \<Rightarrow> bool" where
  "loadBalancerEnabled lb = (case Option.bind lb plb_Enabled of None \<Rightarrow> False | Some b \<Rightarrow> b)"

definition PublicLoadBalancerEnabledForPrivateAI :: "PrivateAiSpec \<Rightarrow> bool" where
  "PublicLoadBalancerEnabledForPrivateAI spec = loadBalancerEnabled (Option.bind (EffectiveService spec) psv_PublicLoadBalancer)"

definition PrivateLoadBalancerEnabledForPrivateAI :: "PrivateAiSpec \<Rightarrow> bool" where
  "PrivateLoadBalancerEnabledForPrivateAI spec = loadBalancerEnabled (Option.bind (EffectiveService spec) psv_PrivateLoadBalancer)"

definition inferDefaultTLSSecretItems :: "strmap \<Rightarrow> SecretMountItem list" where
  "inferDefaultTLSSecretItems data =
     filter (\<lambda>i. map_of data (smi_Key i) \<noteq> None)
       [\<lparr>smi_Key = ''tls.crt'', smi_Path = ''cert.pem''\<rparr>, \<lparr>smi_Key = ''tls.key'', smi_Path = ''key.pem''\<rparr>,
        \<lparr>smi_Key = ''keystore.p12'', smi_Path = ''keystore''\<rparr>]"


section \<open>The traffic manager of an object\<close>

definition resolvedTrafficManagerRoutePath :: "PrivateAi \<Rightarrow> string" where
  "resolvedTrafficManagerRoutePath inst =
     (case EffectiveTrafficManager (pao_Spec inst) of
        None \<Rightarrow> defaultRoute (pao_Name inst)
      | Some tm \<Rightarrow> if blank (tmref_RoutePath tm) then defaultRoute (pao_Name inst) else TrimSpace (tmref_RoutePath tm))"

definition normalizedTrafficManagerEndpoint :: "TrafficManager \<Rightarrow> string" where
  "normalizedTrafficManagerEndpoint tm =
     (let endpoint = TrimSpace (tmt_ExternalEndpoint (tm_Status tm)) in
      if endpoint = [] then []
      else if Contains endpoint ''://'' then endpoint
      else (if tml_Enabled (tmTLS tm) then ''https'' else ''http'') @ ''://'' @ endpoint)"

definition TrimRightSlash :: "string \<Rightarrow> string" where
  "TrimRightSlash s = rev (dropWhile (\<lambda>c. c = CHR ''/'') (rev s))"

definition trafficManagerRef :: "PrivateAi \<Rightarrow> string" where
  "trafficManagerRef inst = (case EffectiveTrafficManager (pao_Spec inst) of None \<Rightarrow> [] | Some tm \<Rightarrow> TrimSpace (tmref_Ref tm))"

definition accessStatus :: "PrivateAi \<Rightarrow> string \<Rightarrow> string \<Rightarrow> string \<Rightarrow> PrivateAi" where
  "accessStatus inst svcName endpoint url =
     inst\<lparr>pao_Status := (pao_Status inst)\<lparr>pas_TrafficManager := (pas_TrafficManager (pao_Status inst))
       \<lparr>trs_ServiceName := svcName, trs_Endpoint := endpoint, trs_PublicURL := url\<rparr>\<rparr>\<rparr>"

definition populateTrafficManagerAccessStatus :: "(string \<Rightarrow> tm_lookup) \<Rightarrow> PrivateAi \<Rightarrow> PrivateAi" where
  "populateTrafficManagerAccessStatus lookup inst =
     (let ref = trafficManagerRef inst in
      if ref = [] then accessStatus inst [] [] []
      else
        (case lookup ref of
           TMFound tm \<Rightarrow>
             (let ext = TrimSpace (tmt_ExternalService (tm_Status tm));
                  svcName = (if ext = [] then TrimSpace (tmt_InternalService (tm_Status tm)) else ext);
                  endpoint = normalizedTrafficManagerEndpoint tm in
              accessStatus inst svcName endpoint (if endpoint = [] then [] else TrimRightSlash endpoint @ resolvedTrafficManagerRoutePath inst))
         | _ \<Rightarrow> accessStatus inst [] [] []))"

datatype pai_pass_error =
    DeletionFailed string
  | ReferenceFailed string
  | ReferenceType string string
  | ReferenceRoute
  | PhaseFailed string
  | StatusFailed string

text \<open>\<^verbatim>\<open>validate\<close> of the controller.\<close>

definition paiPassValidate :: "(string \<Rightarrow> tm_lookup) \<Rightarrow> PrivateAi \<Rightarrow> pai_pass_error option" where
  "paiPassValidate lookup m =
     (case EffectiveTrafficManager (pao_Spec m) of
        None \<Rightarrow> None
      | Some ref \<Rightarrow>
          if blank (tmref_Ref ref) then None
          else
            (case lookup (TrimSpace (tmref_Ref ref)) of
               TMNotFound \<Rightarrow> Some (ReferenceFailed ''not found'')
             | TMError e \<Rightarrow> Some (ReferenceFailed e)
             | TMFound tm \<Rightarrow>
                 if tms_Type (tm_Spec tm) \<noteq> TrafficManagerTypeNginx
                 then Some (ReferenceType (TrimSpace (tmref_Ref ref)) (tms_Type (tm_Spec tm)))
                 else if \<not> ValidateTrafficManagerRoutePath (tmref_RoutePath ref) then Some ReferenceRoute else None))"


section \<open>Rollouts\<close>

record RolloutStatus =
  rol_Generation :: int
  rol_ObservedGeneration :: int
  rol_UpdatedReplicas :: int
  rol_ReadyReplicas :: int
  rol_AvailableReplicas :: int

definition desiredPrivateAIReplicas :: "PrivateAiSpec \<Rightarrow> int" where
  "desiredPrivateAIReplicas spec = (if EffectiveReplicas spec \<le> 0 then 1 else EffectiveReplicas spec)"

definition deploymentRolloutInProgress :: "PrivateAiSpec \<Rightarrow> RolloutStatus option \<Rightarrow> bool" where
  "deploymentRolloutInProgress spec deploy =
     (case deploy of None \<Rightarrow> False
      | Some d \<Rightarrow>
          let desired = desiredPrivateAIReplicas spec in
          rol_ObservedGeneration d < rol_Generation d \<or> rol_UpdatedReplicas d < desired \<or> rol_ReadyReplicas d < desired \<or>
          rol_AvailableReplicas d < desired)"

definition resourcesOf :: "Container \<Rightarrow> ResourceRequirements" where
  "resourcesOf c = (case ctr_Resources c of None \<Rightarrow> \<lparr>rr_Requests = [], rr_Limits = []\<rparr> | Some r \<Rightarrow> r)"

text \<open>The message of the lock if the image or the resources of the running container differ from those asked for.\<close>

definition requiresRolloutUpdate :: "PrivateAiSpec \<Rightarrow> Deployment option \<Rightarrow> string option" where
  "requiresRolloutUpdate spec deploy =
     (case Option.bind deploy (\<lambda>d. find (\<lambda>c. ctr_Name c = dep_Name d) (dep_Containers d)) of
        None \<Rightarrow> None
      | Some current \<Rightarrow>
          if (case EffectiveImage spec of None \<Rightarrow> False | Some i \<Rightarrow> pim_Name i \<noteq> [] \<and> pim_Name i \<noteq> ctr_Image current)
          then Some ''controller update lock: image rollout in progress''
          else if (case EffectiveResources spec of None \<Rightarrow> False | Some r \<Rightarrow> resourcesOf current \<noteq> r)
          then Some ''controller update lock: resource rollout in progress''
          else None)"


section \<open>The pass\<close>

definition PrivateAiFinalizer :: string where
  "PrivateAiFinalizer = ''privateai.oracle.com/privateaifinalizer''"

text \<open>\<open>rs_phases\<close> are the phases started so far; the last one is the field \<^verbatim>\<open>phase\<close> of the source.\<close>

record reconcileState =
  rs_phases :: "string list"
  rs_completed :: bool
  rs_blocked :: bool
  rs_updateLock :: "string option"

record workloadResult =
  wr_err :: "string option"
  wr_requeue :: bool
  wr_updateLock :: "string option"

record paiCluster =
  pc_lookup :: "string \<Rightarrow> tm_lookup"
  pc_finalize :: "string option"
  pc_patch :: "string option"
  pc_dependencies :: "PrivateAi \<Rightarrow> PrivateAi \<times> string option"
  pc_workload :: "PrivateAi \<Rightarrow> PrivateAi \<times> workloadResult"
  pc_rollout :: "RolloutStatus option"
  pc_statusFails :: "string option"

text \<open>The result: \<open>Inl\<close> an error, \<open>Inr True\<close> that the deletion is in progress; and the object in memory.\<close>

definition managePrivateAiDeletion :: "paiCluster \<Rightarrow> PrivateAi \<Rightarrow> (string + bool) \<times> PrivateAi" where
  "managePrivateAiDeletion cl inst =
     (if pao_Deleting inst
      then
        (if PrivateAiFinalizer \<in> set (pao_Finalizers inst)
         then (case pc_finalize cl of
                 Some e \<Rightarrow> (Inl e, inst)
               | None \<Rightarrow> (case pc_patch cl of
                           Some e \<Rightarrow> (Inl e, inst)
                         | None \<Rightarrow> (Inr True, inst\<lparr>pao_Finalizers := removeAll PrivateAiFinalizer (pao_Finalizers inst)\<rparr>)))
         else (Inr True, inst))
      else if PrivateAiFinalizer \<notin> set (pao_Finalizers inst)
      then (case pc_patch cl of Some e \<Rightarrow> (Inl e, inst) | None \<Rightarrow> (Inr True, inst\<lparr>pao_Finalizers := pao_Finalizers inst @ [PrivateAiFinalizer]\<rparr>))
      else (Inr False, inst))"

definition shouldBlockForUpdateLock :: "PrivateAi \<Rightarrow> bool" where
  "shouldBlockForUpdateLock inst =
     (case IsControllerUpdateLocked (pas_Conditions (pao_Status inst)) DefaultReconcilingConditionType DefaultUpdateLockReason of
        (locked, lockGen, lockMsg) \<Rightarrow>
          locked \<and> pao_Generation inst > lockGen \<and> \<not> fst (IsUpdateLockOverrideEnabled (pao_Annotations inst) DefaultOverrideAnnotation))"

definition StatusPending :: string where
  "StatusPending = ''Pending''"

definition StatusUpdating :: string where
  "StatusUpdating = ''Updating''"

definition noTrafficManager :: TrafficManagerRefStatus where
  "noTrafficManager = \<lparr>trs_Ref = [], trs_RoutePath = [], trs_ServiceName = [], trs_Endpoint = [], trs_PublicURL = []\<rparr>"

definition initStatus :: "PrivateAi \<Rightarrow> PrivateAi" where
  "initStatus inst =
     (if pas_Status (pao_Status inst) = []
      then inst\<lparr>pao_Status := (pao_Status inst)\<lparr>pas_Status := StatusPending, pas_Replicas := 0, pas_ReleaseUpdate := ''Unavailable''\<rparr>\<rparr>
      else inst)"

definition modeStatus :: "(string \<Rightarrow> tm_lookup) \<Rightarrow> PrivateAi \<Rightarrow> PrivateAi" where
  "modeStatus lookup inst =
     (let st = pao_Status inst; ref = trafficManagerRef inst in
      if ref \<noteq> []
      then populateTrafficManagerAccessStatus lookup (inst\<lparr>pao_Status := st\<lparr>pas_Mode := ''traffic-managed'',
             pas_TrafficManager := (pas_TrafficManager st)\<lparr>trs_Ref := ref, trs_RoutePath := resolvedTrafficManagerRoutePath inst\<rparr>\<rparr>\<rparr>)
      else inst\<lparr>pao_Status := st\<lparr>pas_Mode := ''direct'', pas_TrafficManager := noTrafficManager\<rparr>\<rparr>)"

definition loggingStatus :: "PrivateAi \<Rightarrow> PrivateAi" where
  "loggingStatus inst =
     (let st = pao_Status inst in
      inst\<lparr>pao_Status := st\<lparr>pas_Logging :=
        (case pai_Logging (pao_Spec inst) of
           None \<Rightarrow> \<lparr>pls_LoggingEnabled = False, pls_SidecarImage = []\<rparr>
         | Some l \<Rightarrow> \<lparr>pls_LoggingEnabled = plg_Enabled l, pls_SidecarImage = plg_SidecarImage l\<rparr>)\<rparr>\<rparr>)"

text \<open>The phases after the lock; the result is the error and whether to requeue.\<close>

definition runPhases :: "paiCluster \<Rightarrow> reconcileState \<Rightarrow> PrivateAi \<Rightarrow> (pai_pass_error option \<times> bool) \<times> reconcileState \<times> PrivateAi" where
  "runPhases cl state inst0 =
     (let inst = loggingStatus (modeStatus (pc_lookup cl) (initStatus inst0));
          s1 = state\<lparr>rs_phases := rs_phases state @ [''Validation'']\<rparr> in
      case paiPassValidate (pc_lookup cl) inst of
        Some e \<Rightarrow> ((Some e, False), s1, inst)
      | None \<Rightarrow>
          (let s2 = s1\<lparr>rs_phases := rs_phases s1 @ [''Dependencies'']\<rparr> in
           case pc_dependencies cl inst of
             (inst1, Some e) \<Rightarrow> ((Some (PhaseFailed e), False), s2, inst1)
           | (inst1, None) \<Rightarrow>
               (case pc_workload cl inst1 of (inst2, w) \<Rightarrow>
                  let s3 = s2\<lparr>rs_phases := rs_phases s2 @ [''WorkloadSync''], rs_updateLock := wr_updateLock w\<rparr> in
                  case wr_err w of
                    Some e \<Rightarrow> ((Some (PhaseFailed e), False), s3, inst2)
                  | None \<Rightarrow>
                      if wr_requeue w then ((None, True), s3, inst2)
                      else ((None, False), s3\<lparr>rs_completed := True, rs_phases := rs_phases s3 @ [''StatusFinalize'']\<rparr>, inst2))))"

definition conditionOf :: "int \<Rightarrow> int \<Rightarrow> string \<Rightarrow> string \<Rightarrow> string \<Rightarrow> string \<Rightarrow> Condition" where
  "conditionOf now gen ty status reason msg =
     \<lparr>cond_Type = ty, cond_Status = status, cond_ObservedGeneration = gen, cond_LastTransitionTime = now, cond_Reason = reason,
      cond_Message = msg\<rparr>"

definition primaryCondition :: "bool \<Rightarrow> bool \<Rightarrow> reconcileState \<Rightarrow> (string \<times> string) option" where
  "primaryCondition failed requeue state =
     (if rs_completed state then Some (''ReconcileComplete'', ''LastReconcileCycleCompleted'')
      else if rs_blocked state then Some (''ReconcileBlocked'', ''LastReconcileCycleBlocked'')
      else if requeue then Some (''ReconcileQueued'', ''LastReconcileCycleQueued'')
      else if failed then Some (''ReconcileError'', ''LastReconcileCycleFailed'')
      else None)"

text \<open>\<^verbatim>\<open>updateReconcileStatusOnce\<close>: the status to write, if any. \<open>msg\<close> is the text of the error.\<close>

definition updateReconcileStatusOnce ::
    "(Condition list \<Rightarrow> Condition \<Rightarrow> Condition list) \<Rightarrow> int \<Rightarrow> paiCluster \<Rightarrow> bool \<Rightarrow> bool \<Rightarrow> string \<Rightarrow> reconcileState \<Rightarrow> PrivateAi \<Rightarrow>
     PrivateAiStatus option" where
  "updateReconcileStatusOnce setc now cl failed requeue msg state m =
     (let spec = pao_Spec m; gen = pao_Generation m;
          rollout = \<not> failed \<and> deploymentRolloutInProgress spec (pc_rollout cl);
          st1 = (pao_Status m)\<lparr>pas_Replicas := EffectiveReplicas spec\<rparr>;
          st2 = (if rollout then st1\<lparr>pas_Status := StatusUpdating\<rparr>
                 else if rs_completed state then st1\<lparr>pas_Status := StatusReady, pas_ReleaseUpdate := ''V2.0''\<rparr> else st1);
          st3 = (if failed then st2\<lparr>pas_Status := StatusError\<rparr> else st2);
          conds1 = (case primaryCondition failed requeue state of
                      None \<Rightarrow> pas_Conditions st3
                    | Some (ty, reason) \<Rightarrow> setc (pas_Conditions st3) (conditionOf now gen ty ConditionTrue reason msg));
          held = (case FindStatusCondition conds1 DefaultReconcilingConditionType of None \<Rightarrow> False | Some c \<Rightarrow> cond_Status c = ConditionTrue) in
      case rs_updateLock state of
        Some lockMsg \<Rightarrow>
          Some (st3\<lparr>pas_Conditions := setc conds1
            (conditionOf now gen DefaultReconcilingConditionType ConditionTrue DefaultUpdateLockReason lockMsg)\<rparr>)
      | None \<Rightarrow>
          if held \<and> (rs_completed state \<or> failed)
          then Some (st3\<lparr>pas_Conditions := setc conds1
                 (conditionOf now gen DefaultReconcilingConditionType ConditionFalse ''UpdateSettled'' ''controller update lock released'')\<rparr>)
          else if primaryCondition failed requeue state = None then None
          else Some (st3\<lparr>pas_Conditions := conds1\<rparr>))"

record pai_outcome =
  po_err :: "pai_pass_error option"
  po_requeue :: bool
  po_phases :: "string list"
  po_stored :: PrivateAi

text \<open>
  \<^verbatim>\<open>Reconcile\<close> of an existing object. The status is written at the end on every path; \<open>errText\<close> is the text of an error. The
  finalizers have been patched by then, the specification in memory is not written.
\<close>

definition paiReconcile ::
    "(Condition list \<Rightarrow> Condition \<Rightarrow> Condition list) \<Rightarrow> (pai_pass_error \<Rightarrow> string) \<Rightarrow> int \<Rightarrow> paiCluster \<Rightarrow> PrivateAi \<Rightarrow> pai_outcome" where
  "paiReconcile setc errText now cl obj =
     (let state0 = \<lparr>rs_phases = [''Deletion''], rs_completed = False, rs_blocked = False, rs_updateLock = None\<rparr>;
          res =
            (case managePrivateAiDeletion cl obj of
               (Inl e, inst) \<Rightarrow> ((Some (DeletionFailed e), False), state0, inst)
             | (Inr inProgress, inst) \<Rightarrow>
                 (let state1 = (if inProgress then state0\<lparr>rs_blocked := True\<rparr> else state0) in
                  if shouldBlockForUpdateLock inst then ((None, True), state1\<lparr>rs_blocked := True\<rparr>, inst)
                  else runPhases cl state1 inst)) in
      case res of ((err, requeue), state, inst) \<Rightarrow>
        (let msg = (case err of None \<Rightarrow> ''no reconcile errors'' | Some e \<Rightarrow> errText e);
             kept = obj\<lparr>pao_Finalizers := pao_Finalizers inst\<rparr>;
             latest = kept\<lparr>pao_Status := pao_Status inst\<rparr> in
         case updateReconcileStatusOnce setc now cl (err \<noteq> None) requeue msg state latest of
           None \<Rightarrow> \<lparr>po_err = err, po_requeue = requeue, po_phases = rs_phases state, po_stored = kept\<rparr>
         | Some status \<Rightarrow>
             (case pc_statusFails cl of
                Some e \<Rightarrow> (if err = None
                           then \<lparr>po_err = Some (StatusFailed e), po_requeue = False, po_phases = rs_phases state, po_stored = kept\<rparr>
                           else \<lparr>po_err = err, po_requeue = requeue, po_phases = rs_phases state, po_stored = kept\<rparr>)
              | None \<Rightarrow> \<lparr>po_err = err, po_requeue = requeue, po_phases = rs_phases state, po_stored = kept\<lparr>pao_Status := status\<rparr>\<rparr>)))"



section \<open>What the update lock does\<close>

lemma lock_types [simp]:
  "''ReconcileComplete'' \<noteq> DefaultReconcilingConditionType" "''ReconcileBlocked'' \<noteq> DefaultReconcilingConditionType"
  "''ReconcileQueued'' \<noteq> DefaultReconcilingConditionType" "''ReconcileError'' \<noteq> DefaultReconcilingConditionType"
  by (simp_all add: DefaultReconcilingConditionType_def)

lemma shouldBlock_depends:
  assumes "FindStatusCondition (pas_Conditions (pao_Status a)) DefaultReconcilingConditionType =
      FindStatusCondition (pas_Conditions (pao_Status b)) DefaultReconcilingConditionType"
    and "pao_Generation a = pao_Generation b" "pao_Annotations a = pao_Annotations b"
  shows "shouldBlockForUpdateLock a = shouldBlockForUpdateLock b"
  unfolding shouldBlockForUpdateLock_def assms(2,3) using controller_lock.lock_depends [OF assms(1)] by simp

text \<open>A pass over a blocked object starts no phase but the first and leaves the lock as it is.\<close>

lemma blocked_pass:
  assumes "sets_condition setc" "shouldBlockForUpdateLock obj" "PrivateAiFinalizer \<in> set (pao_Finalizers obj)" "\<not> pao_Deleting obj"
    and "out = paiReconcile setc errText now cl obj"
  shows "po_phases out = [''Deletion''] \<and> shouldBlockForUpdateLock (po_stored out) \<and>
    PrivateAiFinalizer \<in> set (pao_Finalizers (po_stored out)) \<and> \<not> pao_Deleting (po_stored out)"
proof -
  have d: "managePrivateAiDeletion cl obj = (Inr False, obj)" using assms(3,4) by (simp add: managePrivateAiDeletion_def)
  let ?s = "\<lparr>rs_phases = [''Deletion''], rs_completed = False, rs_blocked = True, rs_updateLock = None\<rparr>"
  obtain st where st: "updateReconcileStatusOnce setc now cl False True ''no reconcile errors'' ?s (obj\<lparr>pao_Finalizers := pao_Finalizers obj, pao_Status := pao_Status obj\<rparr>) = Some st"
      and c: "pas_Conditions st = setc (pas_Conditions (pao_Status obj))
        (conditionOf now (pao_Generation obj) ''ReconcileBlocked'' ConditionTrue ''LastReconcileCycleBlocked'' ''no reconcile errors'')"
    by (simp add: updateReconcileStatusOnce_def Let_def primaryCondition_def)
  have "FindStatusCondition (pas_Conditions st) DefaultReconcilingConditionType =
      FindStatusCondition (pas_Conditions (pao_Status obj)) DefaultReconcilingConditionType"
    unfolding c by (rule sets_condition_D(2) [OF assms(1)]) (simp add: conditionOf_def DefaultReconcilingConditionType_def)
  then have b: "shouldBlockForUpdateLock (obj\<lparr>pao_Status := st\<rparr>)"
    using assms(2) shouldBlock_depends [of "obj\<lparr>pao_Status := st\<rparr>" obj] by simp
  show ?thesis
    using assms(2-4) b st unfolding assms(5) paiReconcile_def by (auto simp: Let_def d split: option.splits)
qed

text \<open>
  The life of an object: passes of the controller, whatever the cluster answers, and updates that the webhooks admit. An update
  keeps the status and the finalizers and does not decrease the generation; here none of them sets the override annotation.
\<close>

inductive pai_step ::
    "(Condition list \<Rightarrow> Condition \<Rightarrow> Condition list) \<Rightarrow> (pai_pass_error \<Rightarrow> string) \<Rightarrow> PrivateAi \<Rightarrow> PrivateAi \<Rightarrow> bool"
  for setc errText where
  pass: "pai_step setc errText obj (po_stored (paiReconcile setc errText now cl obj))"
| update: "paiDefault request = Some new \<Longrightarrow> paiValidateUpdate client obj new = None \<Longrightarrow> pao_Status new = pao_Status obj \<Longrightarrow>
    pao_Finalizers new = pao_Finalizers obj \<Longrightarrow> pao_Deleting new = pao_Deleting obj \<Longrightarrow> pao_Generation new \<ge> pao_Generation obj \<Longrightarrow>
    \<not> fst (IsUpdateLockOverrideEnabled (pao_Annotations new) DefaultOverrideAnnotation) \<Longrightarrow> pai_step setc errText obj new"

lemma blocked_step:
  assumes "pai_step setc errText obj obj'" "sets_condition setc" "shouldBlockForUpdateLock obj"
    "PrivateAiFinalizer \<in> set (pao_Finalizers obj)" "\<not> pao_Deleting obj"
  shows "shouldBlockForUpdateLock obj' \<and> PrivateAiFinalizer \<in> set (pao_Finalizers obj') \<and> \<not> pao_Deleting obj'"
  using assms(1)
proof cases
  case (pass now cl)
  then show ?thesis using blocked_pass [OF assms(2-5), of _ errText now cl] by simp
next
  case (update request client)
  then show ?thesis using assms(3-5) by (auto simp: shouldBlockForUpdateLock_def split: prod.splits)
qed

text \<open>
  C26: an object whose update lock is held for an older generation is stuck: whatever the cluster answers, whatever passes run and
  whatever updates without the override annotation are admitted, no pass ever starts another phase than the first, so that the
  rollout that would release the lock is never looked at, and the lock stays.
\<close>

theorem private_ai_lock_never_released:
  assumes "sets_condition setc" "shouldBlockForUpdateLock obj" "PrivateAiFinalizer \<in> set (pao_Finalizers obj)" "\<not> pao_Deleting obj"
    and "(pai_step setc errText)\<^sup>*\<^sup>* obj obj'"
  shows "shouldBlockForUpdateLock obj' \<and> po_phases (paiReconcile setc errText now cl obj') = [''Deletion'']"
proof -
  have "shouldBlockForUpdateLock obj' \<and> PrivateAiFinalizer \<in> set (pao_Finalizers obj') \<and> \<not> pao_Deleting obj'"
    using assms(5,2-4)
  proof (induction rule: rtranclp_induct)
    case (step b c)
    then show ?case using blocked_step [OF step.hyps(2) assms(1)] by blast
  qed simp
  then show ?thesis using blocked_pass [OF assms(1), of obj' _ errText now cl] by blast
qed


section \<open>What deletion does\<close>

lemma status_steps_keep_spec [simp]:
  "pao_Spec (initStatus i) = pao_Spec i" "pao_Spec (modeStatus lookup i) = pao_Spec i" "pao_Spec (loggingStatus i) = pao_Spec i"
  by (simp_all add: initStatus_def modeStatus_def loggingStatus_def populateTrafficManagerAccessStatus_def accessStatus_def Let_def
      split: tm_lookup.splits)

lemma paiPassValidate_spec: "pao_Spec a = pao_Spec b \<Longrightarrow> paiPassValidate lookup a = paiPassValidate lookup b"
  by (simp add: paiPassValidate_def)

text \<open>
  The pass over an object that is being deleted does not stop after its finalisation: when the finalizer is gone, the lock does
  not turn the pass away and its references are sound, it goes on to the dependencies phase, and to the workload phase if that
  succeeds.
\<close>

theorem deletion_pass_goes_on:
  assumes "pao_Deleting obj" "pc_finalize cl = None" "pc_patch cl = None" "\<not> shouldBlockForUpdateLock obj"
    and "paiPassValidate (pc_lookup cl) obj = None"
  shows "\<exists>rest. po_phases (paiReconcile setc errText now cl obj) = [''Deletion'', ''Validation'', ''Dependencies''] @ rest \<and>
    (rest = [] \<longleftrightarrow> snd (pc_dependencies cl (loggingStatus (modeStatus (pc_lookup cl) (initStatus
       (obj\<lparr>pao_Finalizers := removeAll PrivateAiFinalizer (pao_Finalizers obj)\<rparr>))))) \<noteq> None)"
proof -
  let ?o = "obj\<lparr>pao_Finalizers := removeAll PrivateAiFinalizer (pao_Finalizers obj)\<rparr>"
  have m: "managePrivateAiDeletion cl obj = (Inr True, ?o)"
    using assms(1-3) by (simp add: managePrivateAiDeletion_def)
  have b: "\<not> shouldBlockForUpdateLock ?o" using assms(4) by (simp add: shouldBlockForUpdateLock_def)
  have p: "\<And>i s. po_phases (case updateReconcileStatusOnce setc now cl f q msg s l of
           None \<Rightarrow> \<lparr>po_err = err, po_requeue = q, po_phases = ph, po_stored = k\<rparr>
         | Some status \<Rightarrow>
             (case pc_statusFails cl of
                Some e \<Rightarrow> (if err = None
                           then \<lparr>po_err = Some (StatusFailed e), po_requeue = False, po_phases = ph, po_stored = k\<rparr>
                           else \<lparr>po_err = err, po_requeue = q, po_phases = ph, po_stored = k\<rparr>)
              | None \<Rightarrow> \<lparr>po_err = err, po_requeue = q, po_phases = ph, po_stored = k\<lparr>pao_Status := status\<rparr>\<rparr>)) = ph" for f q msg l err ph k
    by (simp split: option.splits)
  have v: "paiPassValidate (pc_lookup cl) (loggingStatus (modeStatus (pc_lookup cl) (initStatus ?o))) = None"
    using assms(5) paiPassValidate_spec [of "loggingStatus (modeStatus (pc_lookup cl) (initStatus ?o))" obj] by simp
  show ?thesis
    unfolding paiReconcile_def m using b
    by (simp add: Let_def p runPhases_def v split: prod.splits option.splits)
qed


section \<open>Examples\<close>

text \<open>A cluster that knows the example traffic manager and in which every call succeeds.\<close>

definition exampleCluster :: paiCluster where
  "exampleCluster = \<lparr>pc_lookup = (\<lambda>_. TMFound exampleTm), pc_finalize = None, pc_patch = None, pc_dependencies = (\<lambda>i. (i, None)),
     pc_workload = (\<lambda>i. (i, \<lparr>wr_err = None, wr_requeue = False, wr_updateLock = None\<rparr>)), pc_rollout = None, pc_statusFails = None\<rparr>"

definition lockedPai :: PrivateAi where
  "lockedPai = examplePai\<lparr>pao_Generation := 2, pao_Finalizers := [PrivateAiFinalizer],
     pao_Status := zeroPaiStatus\<lparr>pas_Conditions := [conditionOf 0 1 DefaultReconcilingConditionType ConditionTrue DefaultUpdateLockReason
       ''controller update lock: image rollout in progress'']\<rparr>\<rparr>"

theorem private_ai_lock_never_released_witness:
  "shouldBlockForUpdateLock (po_stored (paiReconcile replaceCondition (\<lambda>_. []) 5 exampleCluster lockedPai)) \<and>
   po_phases (paiReconcile replaceCondition (\<lambda>_. []) 7 exampleCluster
     (po_stored (paiReconcile replaceCondition (\<lambda>_. []) 5 exampleCluster lockedPai))) = [''Deletion'']"
proof -
  have l: "shouldBlockForUpdateLock lockedPai" by code_simp
  have f: "PrivateAiFinalizer \<in> set (pao_Finalizers lockedPai)" "\<not> pao_Deleting lockedPai"
    by (simp_all add: lockedPai_def examplePai_def)
  show ?thesis
    by (rule private_ai_lock_never_released [OF sets_condition_replace l f]) (rule r_into_rtranclp, rule pai_step.pass)
qed

theorem deletion_pass_goes_on_witness:
  "\<exists>rest. po_phases (paiReconcile replaceCondition (\<lambda>_. []) 7 exampleCluster (examplePai\<lparr>pao_Deleting := True\<rparr>)) =
     [''Deletion'', ''Validation'', ''Dependencies''] @ rest \<and> rest \<noteq> []"
proof -
  let ?obj = "examplePai\<lparr>pao_Deleting := True\<rparr>"
  have l: "\<not> shouldBlockForUpdateLock ?obj" by code_simp
  have v: "paiPassValidate (pc_lookup exampleCluster) ?obj = None" by code_simp
  have c: "pao_Deleting ?obj" "pc_finalize exampleCluster = None" "pc_patch exampleCluster = None"
    "snd (pc_dependencies exampleCluster i) = None" for i
    by (simp_all add: exampleCluster_def)
  show ?thesis using deletion_pass_goes_on [OF c(1-3) l v] unfolding c(4) by auto
qed

end
