(* ===== verification/Pai_Access.thy ===== *)
theory Pai_Access
  imports Pai_Controller
begin

text \<open>
  The contract between the controllers of a traffic manager and of a private AI object, both in one namespace: the route that
  the first one publishes in its status (\<^verbatim>\<open>buildNginxRouteStatuses\<close> in \<^verbatim>\<open>controllers/network/trafficmanager_controller.go\<close>) and the
  address that the second one derives from that status (\<^verbatim>\<open>populateTrafficManagerAccessStatus\<close> in
  \<^verbatim>\<open>controllers/privateai/privateai_controller.go\<close>).
\<close>

section \<open>The address of a private AI object\<close>

lemma reconcileWorkload_stored:
  "tmo_err (reconcileWorkload inst dep f n) = None \<Longrightarrow>
     \<exists>d. tmo_stored (reconcileWorkload inst dep f n) = inst\<lparr>tm_Status := f d (tmo_ns (reconcileWorkload inst dep f n))\<rparr>"
  by (auto simp: reconcileWorkload_def finishTm_def stopPass_def split: prod.splits sum.splits option.splits)

lemma reconcileNginx_workload:
  assumes "tmo_err (reconcileNginx digest items inst ns) = None"
  shows "\<exists>bs dep n. listAssociatedBackends inst (Inr items) = Inr bs \<and>
    reconcileNginx digest items inst ns = reconcileWorkload inst dep (nginxStatus inst bs) n"
proof -
  have f: "ns_Fails ns ListPrivateAi = None"
    using assms by (cases "ns_Fails ns ListPrivateAi") (auto simp: reconcileNginx_def listAssociatedBackends_def errorPass_def stopPass_def)
  obtain bs where b: "listAssociatedBackends inst (Inr items) = Inr bs"
    using assms f by (cases "listAssociatedBackends inst (Inr items)") (auto simp: reconcileNginx_def errorPass_def stopPass_def)
  have "\<exists>dep n. reconcileNginx digest items inst ns = reconcileWorkload inst dep (nginxStatus inst bs) n"
    using assms unfolding reconcileNginx_def f option.case b sum.case
    by (simp add: errorPass_def stopPass_def split: sum.splits prod.splits option.splits) blast
  then show ?thesis using b by blast
qed

text \<open>The backend of an object that names the traffic manager.\<close>

lemma own_backend:
  assumes "listAssociatedBackends inst (Inr items) = Inr bs" "pai \<in> set items" "trafficManagerRef pai = tm_Name inst" "tm_Name inst \<noteq> []"
  shows "associatedBackendOf pai (resolvedTrafficManagerRoutePath pai) \<in> set bs"
proof -
  obtain tm where t: "EffectiveTrafficManager (pao_Spec pai) = Some tm" "TrimSpace (tmref_Ref tm) = tm_Name inst"
    using assms(3,4) by (auto simp: trafficManagerRef_def split: option.splits)
  then have "resolvedTrafficManagerRoutePath pai = backendRoutePath pai tm"
    by (simp add: resolvedTrafficManagerRoutePath_def backendRoutePath_def)
  then have "(pai, resolvedTrafficManagerRoutePath pai) \<in> set (associatedItems (tm_Name inst) items)"
    using t assms(2) by (force simp: associatedItems_def List.map_filter_def)
  then show ?thesis using assms(1) by (force simp: listAssociatedBackends_Inr)
qed

lemma url_has_scheme: "Contains (backendScheme b @ ''://'' @ host) ''://''"
proof -
  have "HasPrefix (drop (length (backendScheme b)) (backendScheme b @ ''://'' @ host)) ''://''" by (simp add: HasPrefix_def)
  then show ?thesis unfolding Contains_def list_ex_iff by fastforce
qed

lemma TrimSpace_last: "TrimSpace s \<noteq> [] \<Longrightarrow> \<not> is_space (last (TrimSpace s))"
  using hd_dropWhile [of is_space "rev (TrimLeft s)"] by (simp add: TrimSpace_def last_rev) (simp add: TrimLeft_def)

lemma url_trimmed:
  assumes "TrimSpace host = host" "host \<noteq> []"
  shows "TrimSpace (backendScheme b @ ''://'' @ host) = backendScheme b @ ''://'' @ host"
proof -
  have "\<not> is_space (last host)" using assms TrimSpace_last [of host] by simp
  moreover have "\<not> is_space (CHR ''h'')" by code_simp
  ultimately show ?thesis using assms(2) by (intro TrimSpace_id) (auto simp: backendScheme_def)
qed

lemma route_of_backend:
  "b \<in> set bs \<Longrightarrow> \<exists>r. r \<in> set (buildNginxRouteStatuses bs e) \<and> nrs_BackendName r = ab_Name b \<and> nrs_Path r = ab_Path b \<and>
     nrs_PublicURL r = (if e = [] then [] else TrimRightSlash e @ ab_Path b)"
  unfolding buildNginxRouteStatuses_def TrimRightSlash_def set_map Bex_def [symmetric] bex_simps by (rule bexI) simp_all

lemma stored_endpoint:
  assumes "TrimSpace host = host" "tmTLS tm = tmTLS inst" "tmt_ExternalEndpoint (tm_Status tm) = trafficManagerURLBase inst host"
  shows "normalizedTrafficManagerEndpoint tm = trafficManagerURLBase inst host"
proof (cases "host = []")
  case True
  then show ?thesis using assms(3) by (simp add: normalizedTrafficManagerEndpoint_def trafficManagerURLBase_def)
next
  case False
  then show ?thesis
    using url_trimmed [OF assms(1) False] url_has_scheme assms(3)
    by (simp add: normalizedTrafficManagerEndpoint_def trafficManagerURLBase_def Let_def)
qed

text \<open>
  C20: the two controllers publish the same address. After a pass of an nginx traffic manager without an error, every private AI
  object of the namespace that names it has a route in its status, and the private AI controller derives from the stored traffic
  manager exactly the path and the public URL of that route, provided the address the load balancer has been given is not padded with spaces.
\<close>

theorem public_url_agrees:
  assumes "tmo_err (tmReconcile digest items inst ns) = None" "tms_Type (tm_Spec inst) \<noteq> TrafficManagerTypeCman" "tm_Name inst \<noteq> []"
    and "pai \<in> set items" "trafficManagerRef pai = tm_Name inst" "lookup (tm_Name inst) = TMFound (tmo_stored (tmReconcile digest items inst ns))"
    and "TrimSpace (externalAddress inst (tmo_ns (tmReconcile digest items inst ns))) = externalAddress inst (tmo_ns (tmReconcile digest items inst ns))"
  shows "\<exists>status route. tmt_Nginx (tm_Status (tmo_stored (tmReconcile digest items inst ns))) = Some status \<and> route \<in> set (ngs_Routes status) \<and>
    nrs_BackendName route = pao_Name pai \<and> nrs_Path route = resolvedTrafficManagerRoutePath pai \<and>
    nrs_PublicURL route = trs_PublicURL (pas_TrafficManager (pao_Status (populateTrafficManagerAccessStatus lookup pai)))"
proof -
  let ?out = "tmReconcile digest items inst ns"
  have o: "?out = reconcileNginx digest items inst ns" using assms(2) by (simp add: tmReconcile_def)
  obtain bs dep n where b: "listAssociatedBackends inst (Inr items) = Inr bs" and w: "?out = reconcileWorkload inst dep (nginxStatus inst bs) n"
    using reconcileNginx_workload [of digest items inst ns] assms(1) unfolding o by blast
  obtain d where s: "tmo_stored ?out = inst\<lparr>tm_Status := nginxStatus inst bs d (tmo_ns ?out)\<rparr>"
    using reconcileWorkload_stored [of inst dep "nginxStatus inst bs" n] assms(1) unfolding w by blast
  let ?e = "trafficManagerURLBase inst (externalAddress inst (tmo_ns ?out))"
  have e: "normalizedTrafficManagerEndpoint (tmo_stored ?out) = ?e"
    by (rule stored_endpoint [OF assms(7)]) (simp_all add: s nginxStatus_def baseStatus_def Let_def)
  let ?b = "associatedBackendOf pai (resolvedTrafficManagerRoutePath pai)"
  obtain st where st: "tmt_Nginx (tm_Status (tmo_stored ?out)) = Some st" "ngs_Routes st = buildNginxRouteStatuses bs ?e"
    unfolding s by (simp add: nginxStatus_def Let_def)
  have "?b \<in> set bs" using own_backend [OF b assms(4,5,3)] .
  then obtain r where r: "r \<in> set (ngs_Routes st)" "nrs_BackendName r = ab_Name ?b" "nrs_Path r = ab_Path ?b"
      "nrs_PublicURL r = (if ?e = [] then [] else TrimRightSlash ?e @ ab_Path ?b)"
    using route_of_backend [of ?b bs ?e] unfolding st(2) by blast
  have "ab_Name ?b = pao_Name pai" "ab_Path ?b = resolvedTrafficManagerRoutePath pai" by (simp_all add: associatedBackendOf_def)
  moreover have u: "trs_PublicURL (pas_TrafficManager (pao_Status (populateTrafficManagerAccessStatus lookup pai))) =
      (if ?e = [] then [] else TrimRightSlash ?e @ resolvedTrafficManagerRoutePath pai)"
    using assms(3) by (simp add: populateTrafficManagerAccessStatus_def assms(5,6) e Let_def accessStatus_def)
  ultimately show ?thesis using st(1) r by (intro exI [of _ st] exI [of _ r]) (simp only: simp_thms)
qed

text \<open>A traffic manager whose load balancer has been given an address.\<close>

definition exampleLbTm :: TrafficManager where
  "exampleLbTm = exampleTm\<lparr>tm_Spec := (tm_Spec exampleTm)\<lparr>tms_Service := (tms_Service (tm_Spec exampleTm))
     \<lparr>tmv_External := (tmExternal exampleTm)\<lparr>tme_Enabled := Some True\<rparr>\<rparr>\<rparr>\<rparr>"

definition exampleLb :: Service where
  "exampleLb = (ownedService exampleLbTm External)\<lparr>svc_Ingress := [(''10.0.0.1'', [])]\<rparr>"

definition exampleLbNamespace :: namespace where
  "exampleLbNamespace = exampleNamespace\<lparr>ns_Services := [''edge-ext'' \<mapsto> exampleLb]\<rparr>"

lemma example_lb_kept:
  assumes "ns_Fails ns = (\<lambda>call. None)" "ns_Services ns ''edge-ext'' = Some exampleLb"
  shows "reconcileService exampleLbTm External ns = (None, ns)"
proof -
  have n: "kindEnabled exampleLbTm External" "svc_Name (ownedService exampleLbTm External) = ''edge-ext''" by code_simp+
  have "serviceOverlay exampleLb (ownedService exampleLbTm External) tmSyncOptions = exampleLb"
    by (simp add: serviceOverlay_def exampleLb_def desiredPorts_def tmSyncOptions_def)
  then have s: "reconcileServiceFields exampleLb (ownedService exampleLbTm External) tmSyncOptions = (exampleLb, False)"
    using reconcileServiceFields_fst [of exampleLb "ownedService exampleLbTm External" tmSyncOptions]
      reconcileServiceFields_snd [of exampleLb "ownedService exampleLbTm External" tmSyncOptions] by (simp add: prod_eq_iff)
  have v: "validateServiceOwnership exampleLb (ownedService exampleLbTm External) tmSyncOptions"
    by (simp add: validateServiceOwnership_def exampleLb_def split: option.splits)
  show ?thesis using assms n v s by (simp add: reconcileService_def ensureService_def EnsureService_def Let_def)
qed

lemma example_lb_workload:
  assumes "ns_Fails ns = (\<lambda>call. None)" "ns_Deployments ns = (\<lambda>n. None)" "ns_Services ns = [''edge-ext'' \<mapsto> exampleLb]"
  shows "tmo_err (reconcileWorkload exampleLbTm d f ns) = None \<and>
    ns_Fails (tmo_ns (reconcileWorkload exampleLbTm d f ns)) = (\<lambda>call. None) \<and>
    ns_Services (tmo_ns (reconcileWorkload exampleLbTm d f ns)) ''edge-ext'' = Some exampleLb"
proof -
  have "tm_Name exampleLbTm = ''edge''" "kindEnabled exampleLbTm Internal" by code_simp+
  then have n: "kindEnabled exampleLbTm Internal" "svc_Name (ownedService exampleLbTm Internal) = ''edge''"
    by (simp_all add: serviceName_def trafficManagerInternalServiceName_def)
  obtain r ns1 where d: "ReconcileDeployment d (Some syncTrafficManagerDeployment) ns = (Inr (d, r), ns1)"
      "ns_Fails ns1 = (\<lambda>call. None)" "ns_Services ns1 = [''edge-ext'' \<mapsto> exampleLb]"
    using assms by (simp add: ReconcileDeployment_def Let_def)
  obtain ns2 where i: "reconcileService exampleLbTm Internal ns1 = (None, ns2)" "ns_Fails ns2 = (\<lambda>call. None)"
      "ns_Services ns2 ''edge-ext'' = Some exampleLb"
    using d(2,3) n by (simp add: reconcileService_def ensureService_def EnsureService_def Let_def)
  show ?thesis
    using i(2,3) example_lb_kept [OF i(2,3)] by (simp add: reconcileWorkload_def d(1) reconcileServices_def i(1) finishTm_def)
qed

lemma example_lb_pass:
  "tmo_err (tmReconcile id [examplePai] exampleLbTm exampleLbNamespace) = None \<and>
   externalAddress exampleLbTm (tmo_ns (tmReconcile id [examplePai] exampleLbTm exampleLbNamespace)) = ''10.0.0.1''"
proof -
  have n: "tm_Name exampleLbTm = ''edge''" "tms_Type (tm_Spec exampleLbTm) \<noteq> TrafficManagerTypeCman" "\<not> tml_Enabled (tmTLS exampleLbTm)"
      "backendTLSTrustSecretName exampleLbTm = []" "kindEnabled exampleLbTm External" "trafficManagerExternalServiceName exampleLbTm = ''edge-ext''"
      "svc_Ingress exampleLb = [(''10.0.0.1'', [])]"
    by code_simp+
  obtain bs conf where b: "listAssociatedBackends exampleLbTm (Inr [examplePai]) = Inr bs" "buildManagedNginxConfig exampleLbTm bs = Inr conf"
    by (rule example_backends [OF n(1)])
  have f: "ns_Fails exampleLbNamespace = (\<lambda>call. None)" "ns_ConfigMaps exampleLbNamespace = (\<lambda>n. None)"
      "ns_Deployments exampleLbNamespace = (\<lambda>n. None)" "ns_Services exampleLbNamespace = [''edge-ext'' \<mapsto> exampleLb]"
    by (simp_all add: exampleLbNamespace_def exampleNamespace_def)
  have "\<exists>ns1 d. tmReconcile id [examplePai] exampleLbTm exampleLbNamespace = reconcileWorkload exampleLbTm d (nginxStatus exampleLbTm bs) ns1 \<and>
      ns_Fails ns1 = (\<lambda>call. None) \<and> ns_Deployments ns1 = (\<lambda>n. None) \<and> ns_Services ns1 = [''edge-ext'' \<mapsto> exampleLb]"
    using n b f
    by (simp add: tmReconcile_def reconcileNginx_def resolveTLSSecretChecksum_def resolveBackendTLSSecretChecksum_def applyConfigMap_def Let_def)
      (intro exI conjI, rule refl, simp_all)
  then obtain ns1 d where w: "tmReconcile id [examplePai] exampleLbTm exampleLbNamespace = reconcileWorkload exampleLbTm d (nginxStatus exampleLbTm bs) ns1"
      and s: "ns_Fails ns1 = (\<lambda>call. None)" "ns_Deployments ns1 = (\<lambda>n. None)" "ns_Services ns1 = [''edge-ext'' \<mapsto> exampleLb]" by blast
  show ?thesis
    using example_lb_workload [OF s, of d "nginxStatus exampleLbTm bs"] n(5-7) unfolding w by (simp add: externalAddress_def Let_def)
qed

theorem public_url_agrees_witness:
  "\<exists>status route. tmt_Nginx (tm_Status (tmo_stored (tmReconcile id [examplePai] exampleLbTm exampleLbNamespace))) = Some status \<and>
     route \<in> set (ngs_Routes status) \<and> nrs_BackendName route = ''search'' \<and> nrs_Path route = ''/search/v1/'' \<and>
     nrs_PublicURL route = trs_PublicURL (pas_TrafficManager (pao_Status (populateTrafficManagerAccessStatus
       (\<lambda>_. TMFound (tmo_stored (tmReconcile id [examplePai] exampleLbTm exampleLbNamespace))) examplePai)))"
proof -
  have n: "tms_Type (tm_Spec exampleLbTm) \<noteq> TrafficManagerTypeCman" "tm_Name exampleLbTm \<noteq> []" "trafficManagerRef examplePai = tm_Name exampleLbTm"
      "pao_Name examplePai = ''search''" "resolvedTrafficManagerRoutePath examplePai = ''/search/v1/''" "TrimSpace ''10.0.0.1'' = ''10.0.0.1''"
    by code_simp+
  have a: "TrimSpace (externalAddress exampleLbTm (tmo_ns (tmReconcile id [examplePai] exampleLbTm exampleLbNamespace))) =
      externalAddress exampleLbTm (tmo_ns (tmReconcile id [examplePai] exampleLbTm exampleLbNamespace))"
    using example_lb_pass n(6) by simp
  have x: "examplePai \<in> set [examplePai]" by simp
  show ?thesis
    by (rule public_url_agrees [where lookup = "\<lambda>_. TMFound (tmo_stored (tmReconcile id [examplePai] exampleLbTm exampleLbNamespace))",
          OF conjunct1 [OF example_lb_pass] n(1,2) x n(3) refl a, unfolded n(4,5)])
qed

end
