(* ===== verification/Spec2Isabelle.thy ===== *)
theory Spec2Isabelle
  imports Sidb_Preview Oracle_Memory Pai_Access
begin

text \<open>
  A verification of the sharding, Data Guard, single-instance database, traffic manager and private AI parts of the Oracle
  Database Operator (the Go sources under \<^verbatim>\<open>src/\<close>).

  \<^bold>\<open>The program.\<close> The operator keeps custom resources of Kubernetes. A \<^verbatim>\<open>ShardingDatabase\<close> describes a
  sharded Oracle database: catalogs, directors (GSM) and shards, given one by one or generated from
  \<^verbatim>\<open>shardInfo\<close> entries, under one of three sharding methods (system, user-defined, composite) and one of
  two replication methods (Data Guard, native). Every create and update of such an object goes through
  a mutating webhook (\<^verbatim>\<open>Default\<close>) and a validating webhook (\<^verbatim>\<open>ValidateCreate\<close>, \<^verbatim>\<open>ValidateUpdate\<close>) before the API
  server stores it; the controller writes the status on its own and uses a condition of it as a lock
  against updates. A \<^verbatim>\<open>SingleInstanceDatabase\<close> is one database, created on its own or as a clone, a standby or a true cache
  of a primary source, with services, storage and TCPS; it has the same two webhooks and its own controller. A
  \<^verbatim>\<open>DataguardBroker\<close> is made from the topology that the other two publish in their status. A \<^verbatim>\<open>PrivateAi\<close> object is a service
  that may name a \<^verbatim>\<open>TrafficManager\<close>; the traffic manager (nginx, or Oracle connection manager) is a deployment with a generated
  configuration that routes to all the services that name it, and both publish the resulting addresses.

  \<^bold>\<open>The theories\<close>, each with the source it follows:

  \<^item> \<^verbatim>\<open>Go_Prelude\<close>: what the sources use of Go and its library. ASCII strings and \<^verbatim>\<open>strings\<close> functions,
    \<^verbatim>\<open>strconv.Itoa\<close>, 32- and 64-bit arithmetic with its wrap-around, maps, the field errors, and the
    loops over slices and maps with the lemmas that say when they report nothing.
  \<^item> \<^verbatim>\<open>Lock_Policy\<close> (\<^verbatim>\<open>commons/lockpolicy\<close>), \<^verbatim>\<open>Shapes\<close> (\<^verbatim>\<open>commons/shapes\<close>), \<^verbatim>\<open>Dataguard_Producer\<close> (the producer part
    of \<^verbatim>\<open>dataguard_common_types.go\<close> and its validation in \<^verbatim>\<open>singleinstancedatabase_webhook.go\<close>).
  \<^item> \<^verbatim>\<open>Sharding_Types\<close>: the records of \<^verbatim>\<open>shardingdatabase_types.go\<close>.
  \<^item> \<^verbatim>\<open>Sharding_Modes\<close>, \<^verbatim>\<open>Sharding_Sources\<close>, \<^verbatim>\<open>Sharding_Replicas\<close>, \<^verbatim>\<open>Sharding_Storage\<close>, \<^verbatim>\<open>Sharding_Shards\<close>,
    \<^verbatim>\<open>Sharding_Default\<close>, \<^verbatim>\<open>Sharding_Checks\<close>, \<^verbatim>\<open>Sharding_ShardInfo\<close>, \<^verbatim>\<open>Sharding_Operations\<close>, \<^verbatim>\<open>Sharding_Webhook\<close>:
    all of \<^verbatim>\<open>apis/database/v4/shardingdatabase_webhook.go\<close>, by subject. The last one composes the others
    into the webhooks and gives the life of a stored object as two step relations, \<^const>\<open>created\<close> and
    \<^const>\<open>admission\<close>.
  \<^item> \<^verbatim>\<open>Sharding_Reconcile\<close>, \<^verbatim>\<open>Sharding_Primaries\<close>, \<^verbatim>\<open>Sharding_Scale\<close>, \<^verbatim>\<open>Sharding_Topology\<close>, \<^verbatim>\<open>Sharding_Standby\<close>,
    \<^verbatim>\<open>Sharding_Connect\<close>, \<^verbatim>\<open>Sharding_Refs\<close>, \<^verbatim>\<open>Sharding_Plan\<close>: the part of the database
    \<^verbatim>\<open>controllers/database/shardingdatabase_controller.go\<close> that decides, as opposed to the part that runs
    commands in pods. A pass (\<^const>\<open>Reconcile\<close>) checks the update lock, runs the phases and writes the
    conditions of the status; the planning phase (\<^const>\<open>phaseValidateAndPlan\<close>) checks the topology, derives
    the standbys and their primaries, the Data Guard pairs and the marks for scaling out and in.
  \<^item> \<^verbatim>\<open>Dataguard_Types\<close>, \<^verbatim>\<open>Dataguard_Names\<close>, \<^verbatim>\<open>Dataguard_Broker\<close>: the topology structures (\<^verbatim>\<open>dataguard_common_types.go\<close>,
    \<^verbatim>\<open>dataguardbroker_types.go\<close>) and the webhook of the broker (\<^verbatim>\<open>dataguardbroker_webhook.go\<close>). \<^verbatim>\<open>Sharding_Preview\<close>: the
    topology a sharded database publishes for it (\<^verbatim>\<open>controllers/database/dataguard_preview_status.go\<close>).
  \<^item> \<^verbatim>\<open>Db_Commons\<close>: the helpers of \<^verbatim>\<open>commons/database\<close> that quote values for a shell, write a script into a pod and remove
    it, read size literals and the watched namespaces. \<^verbatim>\<open>Go_Duration\<close>: \<^verbatim>\<open>time.ParseDuration\<close>.
  \<^item> \<^verbatim>\<open>Sidb_Types\<close>, \<^verbatim>\<open>Sidb_Access\<close>, \<^verbatim>\<open>Sidb_Endpoints\<close>, \<^verbatim>\<open>Sidb_Checks\<close>, \<^verbatim>\<open>Sidb_Webhook\<close>: the single-instance database
    (\<^verbatim>\<open>singleinstancedatabase_types.go\<close>, \<^verbatim>\<open>singleinstancedatabase_webhook.go\<close>) and the services its controller derives
    from the endpoints. The last one composes the webhooks and gives the histories of an object as step relations,
    \<^const>\<open>sidb_history\<close> and \<^const>\<open>locked_history\<close>. \<^verbatim>\<open>Sidb_Sources\<close>: how the controller reads the primary source and the
    settings (\<^verbatim>\<open>singleinstancedatabase_controller.go\<close>, \<^verbatim>\<open>singleinstancedatabase_helpers.go\<close>); \<^verbatim>\<open>Sidb_Preview\<close>: the topology a
    standby publishes for the broker.
  \<^item> \<^verbatim>\<open>Oracle_Memory\<close>: sizes, the memory budget and the kernel settings of a pod (\<^verbatim>\<open>commons/resources/memory.go\<close>) with their
    two users, the sharding pods (\<^verbatim>\<open>commons/sharding/oracle_sysctl.go\<close>) and the single-instance pod.
  \<^item> \<^verbatim>\<open>Traffic_Webhook\<close>, \<^verbatim>\<open>Pai_Webhook\<close>: the types and webhooks of traffic managers (\<^verbatim>\<open>apis/network/v4\<close>) and of private AI
    objects (\<^verbatim>\<open>apis/privateai/v4\<close>), with the view that merges grouped and deprecated fields. \<^verbatim>\<open>K8s_Objects\<close>: how services and
    deployments are brought in line (\<^verbatim>\<open>commons/k8sobject\<close>), over a record of the objects of a namespace. \<^verbatim>\<open>Traffic_Controller\<close>,
    \<^verbatim>\<open>Traffic_Reconcile\<close>: backends, ports and the generated configuration, then the objects and the pass \<^const>\<open>tmReconcile\<close> of
    \<^verbatim>\<open>controllers/network/trafficmanager_controller.go\<close>. \<^verbatim>\<open>Pai_Controller\<close>: the pass \<^const>\<open>paiReconcile\<close> of
    \<^verbatim>\<open>controllers/privateai/privateai_controller.go\<close>, its lock, deletion and status, with the step relation \<^const>\<open>pai_step\<close>;
    \<^verbatim>\<open>Pai_Access\<close>: the addresses the two controllers publish.

  \<^bold>\<open>How the code is translated.\<close> A struct is a record, a pointer an \<^typ>\<open>'a option\<close>, a slice a list; a nil
  slice or map is the empty one, and \<^verbatim>\<open>reflect.DeepEqual\<close> is equality under that reading. A validation
  returns the list of its field errors, each with its kind, path and value (the text of the message is
  left out). A function that writes to the object it validates returns the object as well. A Go map that
  is only looked up is an association list in the order of insertion; where it is ranged over, the
  lemmas on \<^const>\<open>range_map\<close> show that acceptance does not depend on the order. Widths are kept where the
  code adds or multiplies. A run-time panic (an index out of range) is a value. Third-party code is a
  parameter: \<^verbatim>\<open>IsDNS1123Label\<close> is the argument \<^verbatim>\<open>dns\<close> of the Service-name check and of the webhooks.
  Of the controller, what the Kubernetes client returns is a parameter (\<^typ>\<open>cluster\<close>, \<^typ>\<open>planCluster\<close>), and so are
  \<^verbatim>\<open>meta.SetStatusCondition\<close> (with its documented law \<^const>\<open>sets_condition\<close>), the readiness of a shard for its
  deletion, and the order in which Go ranges over a map where the result may depend on it. An error of the
  controller is a constructor per message, with the names the message mentions; durations are in
  seconds. \<^verbatim>\<open>sort.Slice\<close> is the stable sort, which is one of the results Go allows.
  Of the previews, the digest of a topology, the clock and the text of lookup errors are parameters; of the single-instance
  webhook, \<^verbatim>\<open>resource.ParseQuantity\<close>, the environment and the rounding of a fractional duration (\<^typ>\<open>Platform\<close>); of the
  scripts, the client library and what a command does in a pod (\<^typ>\<open>'p podApi\<close>); of the memory, \<^verbatim>\<open>Quantity.Value\<close>. Of the traffic manager, the SHA-256 digest is a parameter and so is which call of the API
  server fails; the server is taken to store an object as it is written, without filling in defaults of its own, and the model keeps the state
  of the namespace, not the requests: that a second pass would send no update is neither modelled nor claimed. Of the private
  AI controller, the phases that create objects are parameters (\<^typ>\<open>paiCluster\<close>). All loops are over finite slices, except the search for a here-document
  delimiter, whose termination is proved (the content has finitely many lines); no fuel is needed.

  \<^bold>\<open>What is shown.\<close> Of the whole webhook: an admitted update keeps the replication type, the locked
  topology, the specification under the update lock, and, across any number of updates, the storage of
  every shard. Of the parts: exact acceptance conditions (replica counts, Service names, claims, volume
  updates, producer settings, catalogs), soundness of the accepted topologies in each sharding method,
  the meaning of the generated shards and of their merge with the existing ones, when defaulting
  returns, fails or panics, precedence of defaults, and the absence of 32-bit overflow after validation.
  The shared contracts are locales: a registry of pairs that must stay one to one, and the comparison
  of the members of two versions by name, interpreted for shards, catalogs and directors; for the
  controller, a loop whose second run finds nothing to do, and a step that raises its flag whenever it
  changes the state. Of the controller: every pass leaves exactly one condition true, when it takes the
  lock and that the lock then freezes the specification; which shards are scaled in, and that scaling
  settles; that an accepted topology gives every standby a primary of its own; that the primary
  references settle; that connect identifiers can be read back; and what holds of the object when
  planning lets a pass go on. Of Data Guard: which topologies the broker accepts, that nothing accepted can break out of
  a script, that a locked topology stays, and when a published preview is accepted. Of the single-instance database: what
  admitted updates can never change (the locked primary source, the recovery area, the way back to self-signed
  certificates), that the locked source is what the controller reads, that published connect strings can be used as
  sources, when the preview of a standby is accepted, which endpoints are accepted and what becomes of them in the
  cluster, and that quoted values and here-documents are read back. Of the memory: when sizes are read exactly, which
  budgets that pass the check of the webhooks can be provisioned, and what the computed kernel settings hold. Of traffic managers and private AI objects: which
  objects are admitted, that one listener remains after defaulting, which routes a traffic manager serves and whether they reach
  the container, that a pass touches only objects of its own and which configuration, deployment, services and status it leaves
  behind, what an update of the deployment leaves out, where the certificate has to be mounted, that both controllers publish the same address, and what the lock and the deletion of a private
  AI object do. The synchronisation of a field with its flag is a locale, interpreted for every field of services and
  deployments.

  \<^bold>\<open>Not modelled\<close>: logging and message texts (except those of the previews); the registration of the webhooks; the part of the database
  controllers that creates Kubernetes objects and runs commands; the watches of the
  controllers; the other custom resources of the operator, whose controllers mostly drive pods, SQL sessions or the OCI service.
\<close>

end
